(* ===== verification/Prelude.thy ===== *)
theory Prelude
  imports Main "HOL-Library.Char_ord" "HOL-Library.List_Lexorder" "HOL-Library.Product_Lexorder"
    "HOL-Library.Sublist"
begin

text \<open>
  Shared vocabulary of the development: the exceptions of the Python code as values, the result
  type and the constructor checks (\<open>src/direction_engine_v3/domain/_validation.py\<close>), the
  standard-library behaviour the components rely on (\<open>min\<close>/\<open>max\<close> with a key, \<open>dict.fromkeys\<close>,
  \<open>itertools.pairwise\<close>, decimal rendering of integers), and the generic lemmas about them.

  Two conventions hold everywhere. A \<open>datetime\<close> is the number of microseconds since the epoch of
  its UTC instant and a \<open>timedelta\<close> is a number of microseconds, so the checks \<open>require_utc\<close> and
  the \<open>isinstance\<close> checks are enforced by the types of the model. A message of an exception
  is kept where it is constant text; where the code formats a value into it only the constant
  part is kept.
\<close>

section \<open>Exceptions and results\<close>

datatype py_error =
    TypeErr string
  | ValueErr string
  | RuntimeErr string
  | AssertionErr
  | KeyErr string
  | InvalidOperation
  | PricingUnavailableError string
  | ReplayUnavailableError string
  | ModelNotReadyError
  | CanonicalMarketError string
  | DiscoveryMismatchError string
  | ReferenceUnavailableError string
  | MarketDataStaleError string
  | SequenceGapError string
  | BufferOverflowError string
  | SqliteIntegrityError string
  | MarketDataSchemaError string
  | TransportExhaustedError string
  | ShadowStorageUnavailable string
  | ShadowStorageBusy string
  | Library_Error string string

text \<open>
  \<open>Library_Error\<close> is an exception of a library, with the name of its class. \<open>type(exc).__name__\<close>,
  \<open>str(exc)\<close>, and the exceptions an \<open>except RuntimeError\<close> clause catches.
\<close>

fun error_class :: "py_error \<Rightarrow> string" where
  "error_class (TypeErr m) = ''TypeError''"
| "error_class (ValueErr m) = ''ValueError''"
| "error_class (RuntimeErr m) = ''RuntimeError''"
| "error_class AssertionErr = ''AssertionError''"
| "error_class (KeyErr m) = ''KeyError''"
| "error_class InvalidOperation = ''InvalidOperation''"
| "error_class (PricingUnavailableError m) = ''PricingUnavailableError''"
| "error_class (ReplayUnavailableError m) = ''ReplayUnavailableError''"
| "error_class ModelNotReadyError = ''ModelNotReadyError''"
| "error_class (CanonicalMarketError m) = ''CanonicalMarketError''"
| "error_class (DiscoveryMismatchError m) = ''DiscoveryMismatchError''"
| "error_class (ReferenceUnavailableError m) = ''ReferenceUnavailableError''"
| "error_class (MarketDataStaleError m) = ''MarketDataStaleError''"
| "error_class (SequenceGapError m) = ''SequenceGapError''"
| "error_class (BufferOverflowError m) = ''BufferOverflowError''"
| "error_class (SqliteIntegrityError m) = ''IntegrityError''"
| "error_class (MarketDataSchemaError m) = ''MarketDataSchemaError''"
| "error_class (TransportExhaustedError m) = ''TransportExhaustedError''"
| "error_class (ShadowStorageUnavailable m) = ''ShadowStorageUnavailable''"
| "error_class (ShadowStorageBusy m) = ''ShadowStorageBusy''"
| "error_class (Library_Error c m) = c"

fun error_text :: "py_error \<Rightarrow> string" where
  "error_text AssertionErr = []"
| "error_text InvalidOperation = ''InvalidOperation''"
| "error_text ModelNotReadyError = ''model bucket is not ready''"
| "error_text (TypeErr m) = m"
| "error_text (ValueErr m) = m"
| "error_text (RuntimeErr m) = m"
| "error_text (KeyErr m) = m"
| "error_text (PricingUnavailableError m) = m"
| "error_text (ReplayUnavailableError m) = m"
| "error_text (CanonicalMarketError m) = m"
| "error_text (DiscoveryMismatchError m) = m"
| "error_text (ReferenceUnavailableError m) = m"
| "error_text (MarketDataStaleError m) = m"
| "error_text (SequenceGapError m) = m"
| "error_text (BufferOverflowError m) = m"
| "error_text (SqliteIntegrityError m) = m"
| "error_text (MarketDataSchemaError m) = m"
| "error_text (TransportExhaustedError m) = m"
| "error_text (ShadowStorageUnavailable m) = m"
| "error_text (ShadowStorageBusy m) = m"
| "error_text (Library_Error c m) = m"

definition is_runtime_error :: "py_error \<Rightarrow> bool" where
  "is_runtime_error e \<longleftrightarrow> error_class e \<in> {''RuntimeError'', ''PricingUnavailableError'', ''ReplayUnavailableError'',
     ''ModelNotReadyError'', ''CanonicalMarketError'', ''DiscoveryMismatchError'', ''ReferenceUnavailableError'',
     ''MarketDataStaleError'', ''SequenceGapError'', ''BufferOverflowError'', ''MarketDataSchemaError'',
     ''TransportExhaustedError'', ''ShadowStorageUnavailable'', ''ShadowStorageBusy''}"

type_synonym 'a result = "py_error + 'a"
type_synonym utc = int
type_synonym timedelta = int

named_theorems contract_simps
named_theorems result_elims

definition microsecond :: timedelta where "microsecond = 1"
definition milliseconds :: "int \<Rightarrow> timedelta" where "milliseconds n = n * 1000"
definition seconds :: "int \<Rightarrow> timedelta" where "seconds n = n * 1000000"

lemmas duration_simps = microsecond_def milliseconds_def seconds_def

definition bindr :: "'a result \<Rightarrow> ('a \<Rightarrow> 'b result) \<Rightarrow> 'b result" where
  "bindr m f = (case m of Inl e \<Rightarrow> Inl e | Inr x \<Rightarrow> f x)"

lemma bindr_simps [simp]: "bindr (Inl e) f = Inl e" "bindr (Inr x) f = f x"
  by (simp_all add: bindr_def)

lemma bindr_Inr_iff: "bindr m f = Inr y \<longleftrightarrow> (\<exists>x. m = Inr x \<and> f x = Inr y)"
  by (cases m) auto

lemma bindr_InrE [elim]:
  assumes "bindr m f = Inr y"
  obtains x where "m = Inr x" "f x = Inr y"
  using assms by (auto simp: bindr_Inr_iff)

lemma bindr_assoc: "bindr (bindr m f) g = bindr m (\<lambda>x. bindr (f x) g)"
  by (cases m) simp_all

text \<open>The value of a comprehension whose body may raise: the first exception wins.\<close>

fun mapr :: "('a \<Rightarrow> 'b result) \<Rightarrow> 'a list \<Rightarrow> 'b list result" where
  "mapr f [] = Inr []"
| "mapr f (x # xs) = bindr (f x) (\<lambda>y. bindr (mapr f xs) (\<lambda>ys. Inr (y # ys)))"

lemma mapr_Inr_iff: "mapr f xs = Inr ys \<longleftrightarrow> list_all2 (\<lambda>x y. f x = Inr y) xs ys"
proof (induction xs arbitrary: ys)
  case Nil
  then show ?case by auto
next
  case (Cons x xs)
  then show ?case by (cases ys) (auto simp: bindr_Inr_iff)
qed

lemma mapr_length: "mapr f xs = Inr ys \<Longrightarrow> length ys = length xs"
  by (simp add: mapr_Inr_iff list_all2_lengthD)

lemma mapr_nth: "mapr f xs = Inr ys \<Longrightarrow> i < length xs \<Longrightarrow> f (xs ! i) = Inr (ys ! i)"
  by (simp add: mapr_Inr_iff list_all2_conv_all_nth)

lemma mapr_total: "(\<And>x. x \<in> set xs \<Longrightarrow> f x = Inr (g x)) \<Longrightarrow> mapr f xs = Inr (map g xs)"
  by (induction xs) auto

section \<open>Constructor checks\<close>

text \<open>
  A \<open>__post_init__\<close> is a sequence of checks, each of which raises or passes. A check is the
  exception it raises, if any; the first exception of the sequence is the one that escapes.
\<close>

type_synonym check = "py_error option"

definition fail_if :: "bool \<Rightarrow> py_error \<Rightarrow> check" where
  "fail_if b e = (if b then Some e else None)"

fun first_error :: "check list \<Rightarrow> check" where
  "first_error [] = None"
| "first_error (None # cs) = first_error cs"
| "first_error (Some e # cs) = Some e"

definition checked :: "check list \<Rightarrow> 'a result \<Rightarrow> 'a result" where
  "checked cs r = (case first_error cs of Some e \<Rightarrow> Inl e | None \<Rightarrow> r)"

definition passes :: "check list \<Rightarrow> bool" where
  "passes cs \<longleftrightarrow> first_error cs = None"

lemma fail_if_None [simp]: "fail_if b e = None \<longleftrightarrow> \<not> b"
  by (simp add: fail_if_def)

lemma fail_if_simps [simp]: "fail_if True e = Some e" "fail_if False e = None"
  by (simp_all add: fail_if_def)

lemma first_error_None: "first_error cs = None \<longleftrightarrow> list_all (\<lambda>c. c = None) cs"
  by (induction cs rule: first_error.induct) auto

lemma passes_simps [simp]:
  "passes []"
  "passes (c # cs) \<longleftrightarrow> c = None \<and> passes cs"
  "passes (cs @ ds) \<longleftrightarrow> passes cs \<and> passes ds"
  by (auto simp: passes_def first_error_None)

lemma passes_map [simp]: "passes (map f xs) \<longleftrightarrow> (\<forall>x\<in>set xs. f x = None)"
  by (auto simp: passes_def first_error_None list_all_iff)

lemma passes_concat [simp]: "passes (concat css) \<longleftrightarrow> (\<forall>cs\<in>set css. passes cs)"
  by (induction css) auto

lemma checked_Inr_iff [contract_simps]: "checked cs r = Inr y \<longleftrightarrow> passes cs \<and> r = Inr y"
  by (auto simp: checked_def passes_def split: option.splits)

lemma checked_passes [simp]: "passes cs \<Longrightarrow> checked cs r = r"
  by (simp add: checked_def passes_def)

lemma checked_fails: "\<not> passes cs \<Longrightarrow> \<exists>e. checked cs r = Inl e"
  by (auto simp: checked_def passes_def)

lemma checked_Nil [simp]: "checked [] r = r"
  by (simp add: checked_def)

lemma checked_Cons_Some [simp]: "checked (Some e # cs) r = Inl e"
  by (simp add: checked_def)

lemma checked_Cons_None [simp]: "checked (None # cs) r = checked cs r"
  by (simp add: checked_def)

section \<open>Text\<close>

text \<open>\<open>str.strip\<close> on code points below 256.\<close>

definition py_space :: "char \<Rightarrow> bool" where
  "py_space c = (let n = (of_char c :: nat) in
     (9 \<le> n \<and> n \<le> 13) \<or> (28 \<le> n \<and> n \<le> 32) \<or> n = 133 \<or> n = 160)"

definition py_strip :: "string \<Rightarrow> string" where
  "py_strip s = rev (dropWhile py_space (rev (dropWhile py_space s)))"

definition require_text :: "string \<Rightarrow> string \<Rightarrow> check" where
  "require_text name v = fail_if (v = [] \<or> v \<noteq> py_strip v)
     (ValueErr (name @ '' must be non-empty and trimmed''))"

lemma py_strip_id: "py_strip s = s \<longleftrightarrow> s = [] \<or> (\<not> py_space (hd s) \<and> \<not> py_space (last s))"
proof (cases s)
  case Nil
  then show ?thesis by (simp add: py_strip_def)
next
  case (Cons c cs)
  show ?thesis
  proof (cases "py_space c")
    case True
    have "length (py_strip s) \<le> length (dropWhile py_space s)"
      by (simp add: py_strip_def length_dropWhile_le [of _ "rev _", simplified])
    moreover have "length (dropWhile py_space s) < length s"
      using True Cons length_dropWhile_le [of py_space cs] by simp
    ultimately have "py_strip s \<noteq> s" by auto
    with True Cons show ?thesis by simp
  next
    case False
    have "rev s = last s # rev (butlast s)"
      using Cons by (metis append_butlast_last_id list.discI rev.simps(2) rev_rev_ident rev_swap)
    moreover have "length (dropWhile py_space (rev (butlast s))) \<le> length (butlast s)"
      using length_dropWhile_le [of py_space "rev (butlast s)"] by simp
    ultimately show ?thesis
      using False Cons
      by (auto simp: py_strip_def)
  qed
qed

lemma require_text_None [simp]:
  "require_text name v = None \<longleftrightarrow> v \<noteq> [] \<and> \<not> py_space (hd v) \<and> \<not> py_space (last v)"
  using py_strip_id [of v] by (auto simp: require_text_def)

definition require_unique :: "string \<Rightarrow> 'a list \<Rightarrow> check" where
  "require_unique name vs = fail_if (\<not> distinct vs) (ValueErr (name @ '' must be unique''))"

lemma require_unique_None [simp]: "require_unique name vs = None \<longleftrightarrow> distinct vs"
  by (simp add: require_unique_def)

text \<open>Both arguments are UTC by type; \<open>allow_equal\<close> chooses the order.\<close>

definition require_time_order :: "string \<Rightarrow> utc \<Rightarrow> string \<Rightarrow> utc \<Rightarrow> bool \<Rightarrow> check" where
  "require_time_order earlier_name earlier later_name later allow_equal =
     (let valid = (if allow_equal then earlier \<le> later else earlier < later)
      in fail_if (\<not> valid) (ValueErr (earlier_name @ '' must precede '' @ later_name)))"

lemma require_time_order_None [simp]:
  "require_time_order n a m b True = None \<longleftrightarrow> a \<le> b"
  "require_time_order n a m b False = None \<longleftrightarrow> a < b"
  by (simp_all add: require_time_order_def)

section \<open>Rendering of integers\<close>

fun show_nat :: "nat \<Rightarrow> string" where
  "show_nat n = (if n < 10 then [char_of (48 + n)]
     else show_nat (n div 10) @ [char_of (48 + n mod 10)])"

declare show_nat.simps [simp del]

definition show_int :: "int \<Rightarrow> string" where
  "show_int i = (if i < 0 then CHR ''-'' # show_nat (nat (- i)) else show_nat (nat i))"

definition read_nat :: "string \<Rightarrow> nat" where
  "read_nat s = foldl (\<lambda>acc c. 10 * acc + ((of_char c :: nat) - 48)) 0 s"

lemma read_show_nat: "read_nat (show_nat n) = n"
proof (induction n rule: show_nat.induct)
  case (1 n)
  show ?case
  proof (cases "n < 10")
    case True
    then show ?thesis by (simp add: show_nat.simps [of n] read_nat_def)
  next
    case False
    with 1 have "read_nat (show_nat (n div 10)) = n div 10" by simp
    moreover have "of_char (char_of (48 + n mod 10) :: char) = 48 + n mod 10"
      by simp
    ultimately show ?thesis
      using False by (simp add: show_nat.simps [of n] read_nat_def)
  qed
qed

lemma show_nat_inject [simp]: "show_nat m = show_nat n \<longleftrightarrow> m = n"
  by (metis read_show_nat)

text \<open>A rendered integer is non-empty and ends in a digit, so it never needs trimming.\<close>

lemma show_nat_last: "show_nat n \<noteq> [] \<and> last (show_nat n) = char_of (48 + n mod 10)"
  by (subst (1 2) show_nat.simps) (simp add: mod_less)

lemma digit_not_space: "\<not> py_space (char_of (48 + n mod 10 :: nat))"
proof -
  define d where "d = n mod 10"
  then have "d < 10" by simp
  then show ?thesis by (simp add: py_space_def Let_def flip: d_def)
qed

lemma show_int_last [simp]: "show_int i \<noteq> []" "\<not> py_space (last (show_int i))"
  using show_nat_last digit_not_space by (auto simp: show_int_def)

section \<open>Standard-library helpers on sequences\<close>

definition pairwise :: "'a list \<Rightarrow> ('a \<times> 'a) list" where
  "pairwise xs = zip xs (tl xs)"

lemma pairwise_Cons2 [simp]: "pairwise (x # y # zs) = (x, y) # pairwise (y # zs)"
  by (simp add: pairwise_def)

lemma pairwise_short [simp]: "pairwise [] = []" "pairwise [x] = []"
  by (simp_all add: pairwise_def)

lemma length_pairwise [simp]: "length (pairwise xs) = length xs - 1"
  by (simp add: pairwise_def)

lemma pairwise_nth:
  "Suc i < length xs \<Longrightarrow> pairwise xs ! i = (xs ! i, xs ! Suc i)"
  by (simp add: pairwise_def nth_tl)

lemma pairwise_less_sorted:
  "(\<forall>(a, b)\<in>set (pairwise xs). a < b) \<longleftrightarrow> sorted_wrt (<) (xs :: 'a::linorder list)"
proof (induction xs rule: induct_list012)
  case (3 x y zs)
  then show ?case by (auto intro: order.strict_trans)
qed simp_all

text \<open>\<open>min(xs, key=k)\<close> and \<open>max(xs, key=k)\<close> return the first extremal element.\<close>

definition min_by :: "('a \<Rightarrow> 'b::linorder) \<Rightarrow> 'a \<Rightarrow> 'a list \<Rightarrow> 'a" where
  "min_by k x xs = foldl (\<lambda>b y. if k y < k b then y else b) x xs"

definition max_by :: "('a \<Rightarrow> 'b::linorder) \<Rightarrow> 'a \<Rightarrow> 'a list \<Rightarrow> 'a" where
  "max_by k x xs = foldl (\<lambda>b y. if k b < k y then y else b) x xs"

lemma min_by_in: "min_by k x xs \<in> insert x (set xs)"
  by (induction xs arbitrary: x) (auto simp: min_by_def)

lemma min_by_le: "y \<in> insert x (set xs) \<Longrightarrow> k (min_by k x xs) \<le> k y"
proof (induction xs arbitrary: x y)
  case Nil
  then show ?case by (simp add: min_by_def)
next
  case (Cons z zs)
  let ?b = "if k z < k x then z else x"
  have "k (min_by k ?b zs) \<le> k ?b" using Cons.IH [of ?b ?b] by simp
  moreover have "y \<in> set zs \<Longrightarrow> k (min_by k ?b zs) \<le> k y" using Cons.IH [of y ?b] by simp
  ultimately show ?case
    using Cons.prems by (auto simp: min_by_def split: if_splits)
qed

lemma max_by_in: "max_by k x xs \<in> insert x (set xs)"
  by (induction xs arbitrary: x) (auto simp: max_by_def)

lemma max_by_ge: "y \<in> insert x (set xs) \<Longrightarrow> k y \<le> k (max_by k x xs)"
proof (induction xs arbitrary: x y)
  case Nil
  then show ?case by (simp add: max_by_def)
next
  case (Cons z zs)
  let ?b = "if k x < k z then z else x"
  have "k ?b \<le> k (max_by k ?b zs)" using Cons.IH [of ?b ?b] by simp
  moreover have "y \<in> set zs \<Longrightarrow> k y \<le> k (max_by k ?b zs)" using Cons.IH [of y ?b] by simp
  ultimately show ?case
    using Cons.prems by (auto simp: max_by_def split: if_splits)
qed

text \<open>\<open>tuple(dict.fromkeys(xs))\<close> keeps the first occurrence of every element.\<close>

fun fromkeys :: "'a list \<Rightarrow> 'a list" where
  "fromkeys [] = []"
| "fromkeys (x # xs) = x # filter (\<lambda>y. y \<noteq> x) (fromkeys xs)"

lemma set_fromkeys [simp]: "set (fromkeys xs) = set xs"
  by (induction xs) auto

lemma distinct_fromkeys [simp]: "distinct (fromkeys xs)"
  by (induction xs) auto

lemma fromkeys_Nil_iff [simp]: "fromkeys xs = [] \<longleftrightarrow> xs = []"
  by (cases xs) auto

lemma fromkeys_distinct: "distinct xs \<Longrightarrow> fromkeys xs = xs"
  by (induction xs) (auto simp: filter_id_conv)

text \<open>A stable sort leaves a sequence unchanged exactly when its keys are sorted already.\<close>

lemma sort_key_id_iff: "sort_key f xs = xs \<longleftrightarrow> sorted (map f xs)"
  by (metis sort_key_id_if_sorted sorted_sort_key)

text \<open>A guard list: the reason codes whose condition holds, in source order.\<close>

definition reasons_of :: "(bool \<times> string) list \<Rightarrow> string list" where
  "reasons_of gs = map snd (filter fst gs)"

lemma reasons_of_simps [simp]:
  "reasons_of [] = []"
  "reasons_of ((b, r) # gs) = (if b then r # reasons_of gs else reasons_of gs)"
  "reasons_of (gs @ hs) = reasons_of gs @ reasons_of hs"
  by (simp_all add: reasons_of_def)

lemma reasons_of_Nil_iff: "reasons_of gs = [] \<longleftrightarrow> (\<forall>(b, r)\<in>set gs. \<not> b)"
  by (induction gs) (auto split: if_splits)

end
