(* ===== verification/Rounding.thy ===== *)
theory Rounding
  imports Prelude Complex_Main
begin

text \<open>
  The arithmetic of the code. Python's \<open>Decimal\<close> operators round their exact result to the 28
  significant digits of the default context, ties to even; \<open>float\<close> operators round to the 53
  significant bits of binary64. Both are the same function of a radix and a precision, so it is
  defined and proved once (\<open>round_sig\<close>) and used at \<open>(10, 28)\<close> and \<open>(2, 53)\<close>.

  A finite \<open>Decimal\<close> or \<open>float\<close> is its numerical value, a rational. The exponent limits of the
  two formats (\<open>10 ^ 999999\<close>, \<open>2 ^ 1023\<close> and their inverses) are out of reach of the quantities
  modelled here and are not part of the model. What every client needs of rounding is the locale
  \<open>rounding_context\<close>, interpreted below on both instances.
\<close>

section \<open>Powers of the radix and the magnitude of a number\<close>

definition powb :: "nat \<Rightarrow> int \<Rightarrow> rat" where
  "powb b e = (if 0 \<le> e then of_nat b ^ nat e else 1 / of_nat b ^ nat (- e))"

lemma powb_powi: "powb b e = (of_nat b :: rat) powi e"
  by (simp add: powb_def power_int_def field_simps)

lemma powb_pos [simp]: "0 < b \<Longrightarrow> 0 < powb b e"
  by (simp add: powb_def)

lemma powb_nonneg [simp]: "0 \<le> powb b e"
  by (simp add: powb_def)

lemma powb_neq_0 [simp]: "0 < b \<Longrightarrow> powb b e \<noteq> 0"
  by (simp add: powb_def)

lemma powb_0 [simp]: "powb b 0 = 1"
  by (simp add: powb_def)

lemma powb_add: "0 < b \<Longrightarrow> powb b (e + f) = powb b e * powb b f"
  by (simp add: powb_powi power_int_add)

lemma powb_diff: "0 < b \<Longrightarrow> powb b (e - f) = powb b e / powb b f"
  by (simp add: powb_powi power_int_diff)

lemma powb_of_nat: "powb b (int n) = of_nat (b ^ n)"
  by (simp add: powb_def)

lemma powb_shift: "0 < b \<Longrightarrow> of_nat (b ^ n) * powb b e = powb b (int n + e)"
  by (simp only: powb_add powb_of_nat)

lemma powb_mono: "1 < b \<Longrightarrow> e \<le> f \<Longrightarrow> powb b e \<le> powb b f"
  by (simp add: powb_powi power_int_increasing)

lemma powb_strict_mono: "1 < b \<Longrightarrow> e < f \<Longrightarrow> powb b e < powb b f"
  by (simp add: powb_powi power_int_strict_increasing)

lemma powb_less_iff: "1 < b \<Longrightarrow> powb b e < powb b f \<longleftrightarrow> e < f"
  by (meson linorder_not_less powb_mono powb_strict_mono)

text \<open>The number of base-\<open>b\<close> digits of a positive integer.\<close>

function ndigits :: "int \<Rightarrow> int \<Rightarrow> nat" where
  "ndigits b n = (if b < 2 \<or> n < b then 1 else Suc (ndigits b (n div b)))"
  by pat_completeness auto
termination
proof (relation "measure (\<lambda>(b, n). nat n)")
  fix b n :: int
  assume "\<not> (b < 2 \<or> n < b)"
  then have "n div b < n" by (intro int_div_less_self) auto
  then show "((b, n div b), (b, n)) \<in> measure (\<lambda>(b, n). nat n)"
    using \<open>\<not> (b < 2 \<or> n < b)\<close> by simp
qed simp

declare ndigits.simps [simp del]

lemma ndigits_bounds:
  assumes "2 \<le> b" "0 < n"
  shows "b ^ (ndigits b n - 1) \<le> n \<and> n < b ^ ndigits b n \<and> 0 < ndigits b n"
  using assms
proof (induction b n rule: ndigits.induct)
  case (1 b n)
  show ?case
  proof (cases "n < b")
    case True
    then show ?thesis using 1 by (simp add: ndigits.simps [of b n])
  next
    case False
    let ?q = "n div b" and ?k = "ndigits b (n div b)"
    have "0 < ?q" using False 1 by (simp add: pos_imp_zdiv_pos_iff)
    then have ih: "b ^ (?k - 1) \<le> ?q" "?q + 1 \<le> b ^ ?k" "0 < ?k"
      using 1 False by auto
    have n: "n = b * ?q + n mod b" "0 \<le> n mod b" "n mod b < b" using 1 by simp_all
    have "b * b ^ (?k - 1) \<le> b * ?q" using ih 1 by simp
    also have "b * ?q \<le> n" using n by linarith
    finally have "b ^ ?k \<le> n" using ih(3) by (simp add: power_eq_if)
    moreover have "b * (?q + 1) \<le> b * b ^ ?k" using ih(2) 1 by (intro mult_left_mono) auto
    then have "b * ?q + b \<le> b * b ^ ?k" by (simp add: algebra_simps)
    then have "n < b * b ^ ?k" using n by linarith
    ultimately show ?thesis using False 1 by (simp add: ndigits.simps [of b n])
  qed
qed

lemma ndigits_powb:
  assumes b: "2 \<le> b" and n: "0 < n"
  shows "powb b (int (ndigits (int b) n) - 1) \<le> of_int n"
    "of_int n < powb b (int (ndigits (int b) n))"
proof -
  let ?k = "ndigits (int b) n"
  have k: "int b ^ (?k - 1) \<le> n" "n < int b ^ ?k" "0 < ?k"
    using ndigits_bounds [of "int b" n] b n by simp_all
  have "powb b (int ?k - 1) = powb b (int (?k - 1))" using k(3) by (simp add: of_nat_diff)
  also have "\<dots> = of_int (int b ^ (?k - 1))" by (simp add: powb_of_nat)
  also have "\<dots> \<le> of_int n" using k(1) by (simp only: of_int_le_iff)
  finally show "powb b (int ?k - 1) \<le> of_int n" .
  have "of_int n < (of_int (int b ^ ?k) :: rat)" using k(2) by (simp only: of_int_less_iff)
  then show "of_int n < powb b (int ?k)" by (simp add: powb_of_nat)
qed

text \<open>The exponent \<open>e\<close> with \<open>b\<^bsup>e\<^esup> \<le> x < b\<^bsup>e+1\<^esup>\<close> for a positive \<open>x\<close>.\<close>

definition magnitude :: "nat \<Rightarrow> rat \<Rightarrow> int" where
  "magnitude b x = (let (n, d) = quotient_of x;
       k = int (ndigits (int b) n) - int (ndigits (int b) d)
     in if powb b k \<le> x then k else k - 1)"

lemma magnitude_bounds:
  assumes b: "2 \<le> b" and x: "0 < x"
  shows "powb b (magnitude b x) \<le> x \<and> x < powb b (magnitude b x + 1)"
proof -
  obtain n d where nd: "quotient_of x = (n, d)" by force
  have d: "0 < d" using nd by (rule quotient_of_denom_pos)
  have x_eq: "x = of_int n / of_int d" using nd by (rule quotient_of_div)
  with x d have n: "0 < n" by (simp add: zero_less_divide_iff)
  define i j where "i = ndigits (int b) n" and "j = ndigits (int b) d"
  have lo_n: "powb b (int i - 1) \<le> of_int n" and hi_n: "of_int n < powb b (int i)"
    and lo_d: "powb b (int j - 1) \<le> of_int d" and hi_d: "of_int d < powb b (int j)"
    using ndigits_powb [OF b n] ndigits_powb [OF b d] by (simp_all add: i_def j_def)
  have "x \<le> of_int n / powb b (int j - 1)"
    using lo_d n b d unfolding x_eq by (intro divide_left_mono) auto
  also have "\<dots> < powb b (int i) / powb b (int j - 1)"
    using hi_n b by (intro divide_strict_right_mono) auto
  also have "\<dots> = powb b (int i - int j + 1)"
    using b by (simp add: powb_diff [symmetric] algebra_simps)
  finally have hi: "x < powb b (int i - int j + 1)" .
  have "powb b (int i - int j - 1) = powb b (int i - 1) / powb b (int j)"
    using b by (simp add: powb_diff [symmetric] algebra_simps)
  also have "\<dots> \<le> of_int n / powb b (int j)"
    using lo_n b by (intro divide_right_mono) auto
  also have "\<dots> \<le> x"
    using hi_d n b d unfolding x_eq by (intro divide_left_mono) auto
  finally have lo: "powb b (int i - int j - 1) \<le> x" .
  show ?thesis
    using hi lo by (auto simp: magnitude_def nd i_def j_def Let_def algebra_simps)
qed

lemma magnitude_unique:
  assumes b: "2 \<le> b" and e: "powb b e \<le> x" "x < powb b (e + 1)"
  shows "magnitude b x = e"
proof -
  have x: "0 < x" using e(1) powb_pos [of b e] b by linarith
  have "powb b (magnitude b x) < powb b (e + 1)" "powb b e < powb b (magnitude b x + 1)"
    using magnitude_bounds [OF b x] e by linarith+
  then show ?thesis using b by (simp add: powb_less_iff)
qed

lemma magnitude_mono:
  assumes b: "2 \<le> b" and xy: "0 < x" "x \<le> y"
  shows "magnitude b x \<le> magnitude b y"
proof -
  have "powb b (magnitude b x) < powb b (magnitude b y + 1)"
    using magnitude_bounds [OF b, of x] magnitude_bounds [OF b, of y] xy by linarith
  then show ?thesis using b by (simp add: powb_less_iff)
qed

section \<open>Rounding to an integer\<close>

definition half_even :: "rat \<Rightarrow> int" where
  "half_even y = (let f = \<lfloor>y\<rfloor>; d = y - of_int f in
     if d < 1 / 2 then f else if 1 / 2 < d then f + 1 else if even f then f else f + 1)"

definition half_up :: "rat \<Rightarrow> int" where
  "half_up y = (if 0 \<le> y then \<lfloor>y + 1 / 2\<rfloor> else - \<lfloor>- y + 1 / 2\<rfloor>)"

lemma half_even_of_int [simp]: "half_even (of_int n) = n"
  by (simp add: half_even_def)

lemma half_even_error: "\<bar>of_int (half_even y) - y\<bar> \<le> 1 / 2"
proof -
  have "of_int \<lfloor>y\<rfloor> \<le> y" "y < of_int \<lfloor>y\<rfloor> + 1" by linarith+
  then show ?thesis by (auto simp: half_even_def Let_def abs_le_iff)
qed

lemma half_even_floor: "half_even y = \<lfloor>y\<rfloor> \<or> half_even y = \<lfloor>y\<rfloor> + 1"
  by (simp add: half_even_def Let_def)

lemma half_even_mono: "x \<le> y \<Longrightarrow> half_even x \<le> half_even y"
proof -
  assume xy: "x \<le> y"
  then consider "\<lfloor>x\<rfloor> = \<lfloor>y\<rfloor>" | "\<lfloor>x\<rfloor> + 1 \<le> \<lfloor>y\<rfloor>"
    using floor_mono [OF xy] by linarith
  then show ?thesis
  proof cases
    case 1
    then show ?thesis using xy by (auto simp: half_even_def Let_def)
  next
    case 2
    then show ?thesis using half_even_floor [of x] half_even_floor [of y] by linarith
  qed
qed

lemma half_even_minus: "half_even (- y) = - half_even y"
proof (cases "y = of_int \<lfloor>y\<rfloor>")
  case True
  then have "half_even y = \<lfloor>y\<rfloor>" "half_even (- y) = - \<lfloor>y\<rfloor>"
    by (metis half_even_of_int) (metis True half_even_of_int of_int_minus)
  then show ?thesis by simp
next
  case False
  then have "of_int \<lfloor>y\<rfloor> < y" "y < of_int \<lfloor>y\<rfloor> + 1" by linarith+
  then have "\<lfloor>- y\<rfloor> = - \<lfloor>y\<rfloor> - 1" by (intro floor_unique) auto
  then show ?thesis by (auto simp: half_even_def Let_def)
qed

lemma half_up_nonneg: "0 \<le> y \<Longrightarrow> 0 \<le> half_up y"
  by (simp add: half_up_def)

lemma half_up_error: "\<bar>of_int (half_up y) - y\<bar> \<le> 1 / 2"
proof -
  have floor_half: "\<bar>of_int \<lfloor>z + 1 / 2\<rfloor> - z\<bar> \<le> 1 / 2" for z :: rat
    using of_int_round_abs_le [of z] by (simp add: round_def)
  show ?thesis
    using floor_half [of y] floor_half [of "- y"] unfolding half_up_def abs_le_iff by auto
qed

lemma half_up_mono_nonneg: "0 \<le> x \<Longrightarrow> x \<le> y \<Longrightarrow> half_up x \<le> half_up y"
  by (simp add: half_up_def floor_mono)

section \<open>Rounding to a number of significant digits\<close>

definition round_sig :: "nat \<Rightarrow> nat \<Rightarrow> rat \<Rightarrow> rat" where
  "round_sig b p x = (if x = 0 then 0
     else let u = powb b (magnitude b \<bar>x\<bar> - int p + 1) in of_int (half_even (x / u)) * u)"

definition has_digits :: "nat \<Rightarrow> nat \<Rightarrow> rat \<Rightarrow> bool" where
  "has_digits b p x \<longleftrightarrow> (\<exists>m e. x = of_int m * powb b e \<and> \<bar>m\<bar> < int b ^ p)"

lemma round_sig_0 [simp]: "round_sig b p 0 = 0"
  by (simp add: round_sig_def)

lemma round_sig_minus: "round_sig b p (- x) = - round_sig b p x"
  by (simp add: round_sig_def Let_def half_even_minus)

lemma round_sig_fix:
  assumes b: "2 \<le> b" and x: "has_digits b p x"
  shows "round_sig b p x = x"
proof (cases "x = 0")
  case False
  obtain m e where me: "x = of_int m * powb b e" "\<bar>m\<bar> < int b ^ p"
    using x by (auto simp: has_digits_def)
  define k where "k = magnitude b \<bar>x\<bar>"
  have bpos: "0 < powb b e" using b by simp
  have "powb b k \<le> \<bar>x\<bar>" using magnitude_bounds [OF b, of "\<bar>x\<bar>"] False by (simp add: k_def)
  also have "\<bar>x\<bar> = of_int \<bar>m\<bar> * powb b e" using bpos by (simp add: me(1) abs_mult)
  also have "\<dots> < powb b (int p) * powb b e"
    using me(2) bpos by (simp add: powb_of_nat flip: of_int_less_iff [where 'a = rat])
  also have "\<dots> = powb b (int p + e)" using b by (simp add: powb_add)
  finally have "k < int p + e" using b by (simp add: powb_less_iff)
  define u where "u = k - int p + 1"
  have ue: "u \<le> e" using \<open>k < int p + e\<close> by (simp add: u_def)
  have "powb b e = of_nat (b ^ nat (e - u)) * powb b u"
    using b ue by (subst powb_shift) auto
  then have "x / powb b u = of_int (m * int (b ^ nat (e - u)))"
    using b by (simp add: me(1))
  then have "of_int (half_even (x / powb b u)) = x / powb b u"
    by (metis half_even_of_int)
  then show ?thesis using False b by (simp add: round_sig_def Let_def flip: k_def u_def)
qed simp

lemma scaled_bounds:
  assumes b: "2 \<le> b" and p: "0 < p" and x: "0 < x"
  defines "u \<equiv> powb b (magnitude b x - int p + 1)"
  shows "of_nat (b ^ (p - 1)) \<le> x / u" "x / u < of_nat (b ^ p)" "0 < u"
proof -
  let ?k = "magnitude b x"
  show u: "0 < u" using b by (simp add: u_def)
  have k: "powb b ?k \<le> x" "x < powb b (?k + 1)" using magnitude_bounds [OF b x] by simp_all
  have "powb b ?k = powb b (int (p - 1)) * u" and "powb b (?k + 1) = powb b (int p) * u"
    using b p by (simp_all add: u_def of_nat_diff flip: powb_add)
  with k u show "of_nat (b ^ (p - 1)) \<le> x / u" "x / u < of_nat (b ^ p)"
    by (simp_all add: powb_of_nat field_simps del: of_nat_power)
qed

lemma round_sig_pos_bounds:
  assumes b: "2 \<le> b" and p: "0 < p" and x: "0 < x"
  shows "powb b (magnitude b x) \<le> round_sig b p x"
    "round_sig b p x \<le> powb b (magnitude b x + 1)"
proof -
  let ?k = "magnitude b x" and ?u = "powb b (magnitude b x - int p + 1)"
  have q: "of_nat (b ^ (p - 1)) \<le> x / ?u" "x / ?u \<le> of_nat (b ^ p)" "0 < ?u"
    using scaled_bounds [OF assms] by simp_all
  have "int (b ^ (p - 1)) \<le> half_even (x / ?u)" "half_even (x / ?u) \<le> int (b ^ p)"
    using half_even_mono [OF q(1)] half_even_mono [OF q(2)]
    by (metis half_even_of_int of_int_of_nat_eq)+
  then have "of_nat (b ^ (p - 1)) * ?u \<le> round_sig b p x" "round_sig b p x \<le> of_nat (b ^ p) * ?u"
    using x q(3) by (simp_all add: round_sig_def Let_def flip: of_int_le_iff [where 'a = rat])
  moreover have "of_nat (b ^ (p - 1)) * ?u = powb b ?k" "of_nat (b ^ p) * ?u = powb b (?k + 1)"
    using b p by (subst powb_shift; simp add: of_nat_diff)+
  ultimately show "powb b ?k \<le> round_sig b p x" "round_sig b p x \<le> powb b (?k + 1)" by simp_all
qed

lemma round_sig_mono_pos:
  assumes b: "2 \<le> b" and p: "0 < p" and xy: "0 < x" "x \<le> y"
  shows "round_sig b p x \<le> round_sig b p y"
proof (cases "magnitude b x = magnitude b y")
  case True
  let ?u = "powb b (magnitude b y - int p + 1)"
  have u: "0 < ?u" using b by simp
  then have "x / ?u \<le> y / ?u" using xy by (simp add: divide_right_mono)
  then show ?thesis
    using u xy True by (simp add: round_sig_def Let_def half_even_mono mult_right_mono)
next
  case False
  have "0 < y" using xy by simp
  have "magnitude b x + 1 \<le> magnitude b y" using magnitude_mono [OF b xy] False by simp
  then have "powb b (magnitude b x + 1) \<le> powb b (magnitude b y)" using b by (simp add: powb_mono)
  with round_sig_pos_bounds(2) [OF b p xy(1)] round_sig_pos_bounds(1) [OF b p \<open>0 < y\<close>]
  show ?thesis by linarith
qed

lemma round_sig_nonneg: "2 \<le> b \<Longrightarrow> 0 < p \<Longrightarrow> 0 \<le> x \<Longrightarrow> 0 \<le> round_sig b p x"
  using round_sig_pos_bounds(1) [of b p x] by (cases "x = 0") (auto intro: order_trans [rotated])

lemma round_sig_mono:
  assumes b: "2 \<le> b" and p: "0 < p" and xy: "x \<le> y"
  shows "round_sig b p x \<le> round_sig b p y"
proof -
  consider "0 < x" | "x \<le> 0" "0 \<le> y" | "y < 0" by linarith
  then show ?thesis
  proof cases
    case 1
    then show ?thesis using round_sig_mono_pos [OF b p _ xy] by simp
  next
    case 2
    then have "0 \<le> round_sig b p (- x)" "0 \<le> round_sig b p y"
      using round_sig_nonneg [OF b p] by simp_all
    then show ?thesis by (simp add: round_sig_minus)
  next
    case 3
    then have "round_sig b p (- y) \<le> round_sig b p (- x)"
      using round_sig_mono_pos [OF b p, of "- y" "- x"] xy by simp
    then show ?thesis by (simp add: round_sig_minus)
  qed
qed

lemma has_digits_round_pos:
  assumes b: "2 \<le> b" and p: "0 < p" and x: "0 < x"
  shows "has_digits b p (round_sig b p x)"
proof -
  let ?u = "magnitude b x - int p + 1"
  let ?m = "half_even (x / powb b ?u)"
  have q: "0 \<le> x / powb b ?u" "x / powb b ?u \<le> of_nat (b ^ p)"
    using scaled_bounds [OF b p x] x by simp_all
  have m: "0 \<le> ?m" "?m \<le> int b ^ p"
    using half_even_mono [OF q(1)] half_even_mono [OF q(2)]
    by (metis half_even_of_int of_int_0) (metis half_even_of_int half_even_mono q(2)
        of_int_of_nat_eq of_nat_power)
  have r: "round_sig b p x = of_int ?m * powb b ?u" using x by (simp add: round_sig_def Let_def)
  show ?thesis
  proof (cases "?m = int b ^ p")
    case True
    have "round_sig b p x = of_int 1 * powb b (int p + ?u)"
      using b powb_shift [of b p ?u] unfolding r True by simp
    moreover have "\<bar>1 :: int\<bar> < int b ^ p" using b p by simp
    ultimately show ?thesis unfolding has_digits_def by blast
  next
    case False
    then have "\<bar>?m\<bar> < int b ^ p" using m by simp
    then show ?thesis using r unfolding has_digits_def by blast
  qed
qed

lemma has_digits_uminus: "has_digits b p x \<Longrightarrow> has_digits b p (- x)"
  unfolding has_digits_def by (metis abs_minus_cancel mult_minus_left of_int_minus)

lemma has_digits_0 [simp]: "2 \<le> b \<Longrightarrow> has_digits b p 0"
  unfolding has_digits_def by (rule exI [of _ 0]) simp

lemma has_digits_round:
  assumes b: "2 \<le> b" and p: "0 < p"
  shows "has_digits b p (round_sig b p x)"
proof -
  consider "0 < x" | "x = 0" | "0 < - x" by linarith
  then show ?thesis
  proof cases
    case 3
    then have "has_digits b p (- round_sig b p (- x))"
      by (intro has_digits_uminus has_digits_round_pos [OF b p])
    then show ?thesis by (simp add: round_sig_minus)
  qed (use b p has_digits_round_pos in auto)
qed

lemma round_sig_error:
  assumes b: "2 \<le> b" and p: "0 < p" and x: "0 < x"
  shows "\<bar>round_sig b p x - x\<bar> * (2 * of_nat (b ^ (p - 1))) \<le> x"
proof -
  let ?u = "powb b (magnitude b x - int p + 1)"
  have u: "0 < ?u" and lo: "of_nat (b ^ (p - 1)) * ?u \<le> x"
    using scaled_bounds [OF assms] by (simp_all add: field_simps)
  have "\<bar>round_sig b p x - x\<bar> = \<bar>of_int (half_even (x / ?u)) - x / ?u\<bar> * ?u"
    using x u by (simp add: round_sig_def Let_def abs_mult_pos field_simps)
  also have "\<dots> \<le> 1 / 2 * ?u"
    using half_even_error u by (intro mult_right_mono) auto
  finally have "\<bar>round_sig b p x - x\<bar> * (2 * of_nat (b ^ (p - 1))) \<le> 1 / 2 * ?u * (2 * of_nat (b ^ (p - 1)))"
    by (rule mult_right_mono) simp
  with lo show ?thesis by (simp add: algebra_simps)
qed

section \<open>What the components rely on\<close>

text \<open>
  The interface of an arithmetic whose results are rounded: a monotone odd function that leaves
  the representable values (\<open>exact\<close>) alone and only returns such values. The accumulation
  \<open>sum(xs, Decimal(0))\<close> rounds after every addition, so it is not the sum of its operands;
  the lemmas say which laws of the exact sum it still obeys.
\<close>

locale rounding_context =
  fixes rnd :: "rat \<Rightarrow> rat" and exact :: "rat \<Rightarrow> bool"
  assumes rnd_mono: "x \<le> y \<Longrightarrow> rnd x \<le> rnd y"
    and rnd_exact: "exact x \<Longrightarrow> rnd x = x"
    and exact_rnd: "exact (rnd x)"
    and exact_0: "exact 0"
    and rnd_uminus: "rnd (- x) = - rnd x"
begin

lemma rnd_0: "rnd 0 = 0"
  by (rule rnd_exact [OF exact_0])

lemma rnd_idem: "rnd (rnd x) = rnd x"
  by (rule rnd_exact [OF exact_rnd])

lemma rnd_nonneg: "0 \<le> x \<Longrightarrow> 0 \<le> rnd x"
  using rnd_mono [of 0 x] by (simp add: rnd_0)

lemma rnd_nonpos: "x \<le> 0 \<Longrightarrow> rnd x \<le> 0"
  using rnd_mono [of x 0] by (simp add: rnd_0)

lemma rnd_le: "exact b \<Longrightarrow> x \<le> b \<Longrightarrow> rnd x \<le> b"
  using rnd_mono [of x b] by (simp add: rnd_exact)

lemma rnd_ge: "exact b \<Longrightarrow> b \<le> x \<Longrightarrow> b \<le> rnd x"
  using rnd_mono [of b x] by (simp add: rnd_exact)

lemma fold_exact: "exact s \<Longrightarrow> exact (foldl (\<lambda>s x. rnd (s + x)) s xs)"
  by (induction xs arbitrary: s) (auto simp: exact_rnd)

lemma fold_mono: "s \<le> t \<Longrightarrow> list_all2 (\<le>) xs ys \<Longrightarrow>
    foldl (\<lambda>s x. rnd (s + x)) s xs \<le> foldl (\<lambda>s x. rnd (s + x)) t ys"
proof (induction xs arbitrary: s t ys)
  case (Cons x xs)
  then obtain y ys' where ys: "ys = y # ys'" "x \<le> y" "list_all2 (\<le>) xs ys'"
    by (auto simp: list_all2_Cons1)
  then have "rnd (s + x) \<le> rnd (t + y)" using Cons.prems by (intro rnd_mono add_mono)
  then show ?case using Cons.IH ys by simp
qed simp

lemma fold_mono_start:
  "s \<le> t \<Longrightarrow> foldl (\<lambda>s x. rnd (s + x)) s xs \<le> foldl (\<lambda>s x. rnd (s + x)) t xs"
  by (rule fold_mono) (auto intro: list.rel_refl)

lemma fold_ge: "exact s \<Longrightarrow> \<forall>x\<in>set xs. 0 \<le> x \<Longrightarrow> s \<le> foldl (\<lambda>s x. rnd (s + x)) s xs"
proof (induction xs arbitrary: s)
  case (Cons x xs)
  have "s \<le> rnd (s + x)" using Cons.prems by (intro rnd_ge) auto
  also have "\<dots> \<le> foldl (\<lambda>s x. rnd (s + x)) (rnd (s + x)) xs"
    using Cons.IH [OF exact_rnd] Cons.prems by simp
  finally show ?case by simp
qed simp

lemma fold_nonneg: "\<forall>x\<in>set xs. 0 \<le> x \<Longrightarrow> 0 \<le> foldl (\<lambda>s x. rnd (s + x)) 0 xs"
  using fold_ge [OF exact_0] .

lemma fold_subseq: "subseq ys xs \<Longrightarrow> exact s \<Longrightarrow> \<forall>x\<in>set xs. 0 \<le> x \<Longrightarrow>
    foldl (\<lambda>s x. rnd (s + x)) s ys \<le> foldl (\<lambda>s x. rnd (s + x)) s xs"
proof (induction arbitrary: s rule: list_emb.induct)
  case (list_emb_Nil ys)
  then show ?case using fold_ge by simp
next
  case (list_emb_Cons xs ys y)
  have "s \<le> rnd (s + y)" using list_emb_Cons.prems by (intro rnd_ge) auto
  then have "foldl (\<lambda>s x. rnd (s + x)) s xs \<le> foldl (\<lambda>s x. rnd (s + x)) (rnd (s + y)) xs"
    by (rule fold_mono_start)
  also have "\<dots> \<le> foldl (\<lambda>s x. rnd (s + x)) (rnd (s + y)) ys"
    using list_emb_Cons by (simp add: exact_rnd)
  finally show ?case by simp
qed (auto simp: exact_rnd)

lemma fold_sum_list: "(\<And>i. i \<le> length xs \<Longrightarrow> exact (s + sum_list (take i xs))) \<Longrightarrow>
    foldl (\<lambda>s x. rnd (s + x)) s xs = s + sum_list xs"
proof (induction xs arbitrary: s)
  case (Cons x xs)
  have "exact (s + x)" using Cons.prems [of 1] by simp
  moreover have "exact (s + x + sum_list (take i xs))" if "i \<le> length xs" for i
    using Cons.prems [of "Suc i"] that by (simp add: add.assoc)
  ultimately show ?case using Cons.IH by (simp add: rnd_exact add.assoc)
qed simp

end

locale rounding_format =
  fixes b p :: nat
  assumes radix: "2 \<le> b" and precision: "0 < p"

sublocale rounding_format \<subseteq> rounding_context "round_sig b p" "has_digits b p"
  using radix precision
  by unfold_locales
    (auto simp: round_sig_mono round_sig_fix has_digits_round round_sig_minus)

interpretation dec: rounding_format 10 28
  by unfold_locales simp_all

interpretation flt: rounding_format 2 53
  by unfold_locales simp_all

end
