(* ===== verification/Decimal_Arith.thy ===== *)
theory Decimal_Arith
  imports Rounding
begin

text \<open>
  The \<open>decimal\<close> and \<open>float\<close> operations the code performs, as functions on numerical values:
  \<open>dadd\<close>, \<open>dsub\<close>, \<open>dmul\<close>, \<open>ddiv\<close>, \<open>dneg\<close>, \<open>dabs\<close> round to the default context; comparisons,
  \<open>min\<close>, \<open>max\<close> and the constructor \<open>Decimal(str)\<close> are exact; \<open>dsum\<close> is \<open>sum(xs, Decimal(0))\<close>.
  A value that comes from outside may also be a NaN or an infinity (\<open>pydec\<close>), which
  \<open>require_decimal\<close> rejects, so every decimal field of a record is a rational.
\<close>

section \<open>Values and the decimal context\<close>

type_synonym dec = rat

datatype pydec = Fin dec | Inf bool | NaN

definition ctx :: "rat \<Rightarrow> dec" where "ctx = round_sig 10 28"
definition dec_exact :: "rat \<Rightarrow> bool" where "dec_exact = has_digits 10 28"

definition dadd :: "dec \<Rightarrow> dec \<Rightarrow> dec" where "dadd x y = ctx (x + y)"
definition dsub :: "dec \<Rightarrow> dec \<Rightarrow> dec" where "dsub x y = ctx (x - y)"
definition dmul :: "dec \<Rightarrow> dec \<Rightarrow> dec" where "dmul x y = ctx (x * y)"
definition ddiv :: "dec \<Rightarrow> dec \<Rightarrow> dec" where "ddiv x y = ctx (x / y)"
definition dneg :: "dec \<Rightarrow> dec" where "dneg x = ctx (- x)"
definition dabs :: "dec \<Rightarrow> dec" where "dabs x = ctx \<bar>x\<bar>"
definition dsum :: "dec list \<Rightarrow> dec" where "dsum xs = foldl dadd 0 xs"

lemmas dec_op_defs = dadd_def dsub_def dmul_def ddiv_def dneg_def dabs_def

text \<open>
  \<open>x ** n\<close> for an integer exponent: \<open>0 ** 0\<close> signals \<open>InvalidOperation\<close>. \<open>x.quantize(q,
  ROUND_HALF_UP)\<close> signals it when the result needs more than 28 digits.
\<close>

definition dpow :: "dec \<Rightarrow> nat \<Rightarrow> dec result" where
  "dpow x n = (if x = 0 \<and> n = 0 then Inl InvalidOperation else Inr (ctx (x ^ n)))"

definition quantize_half_up :: "dec \<Rightarrow> dec \<Rightarrow> dec result" where
  "quantize_half_up q x = (let n = half_up (x / q) in
     if 10 ^ 28 \<le> \<bar>n\<bar> then Inl InvalidOperation else Inr (of_int n * q))"

definition require_decimal ::
  "string \<Rightarrow> pydec \<Rightarrow> dec option \<Rightarrow> dec option \<Rightarrow> bool \<Rightarrow> check" where
  "require_decimal name v minimum maximum minimum_exclusive =
     (case v of
        Fin x \<Rightarrow>
          (let below = (case minimum of None \<Rightarrow> False
                 | Some m \<Rightarrow> if minimum_exclusive then x \<le> m else x < m);
               above = (case maximum of None \<Rightarrow> False | Some m \<Rightarrow> m < x)
           in if below then Some (ValueErr (name @ '' is below its minimum''))
              else if above then Some (ValueErr (name @ '' is above its maximum''))
              else None)
      | _ \<Rightarrow> Some (ValueErr (name @ '' must be finite'')))"

abbreviation non_negative :: "string \<Rightarrow> dec \<Rightarrow> check" where
  "non_negative name x \<equiv> require_decimal name (Fin x) (Some 0) None False"

abbreviation positive :: "string \<Rightarrow> dec \<Rightarrow> check" where
  "positive name x \<equiv> require_decimal name (Fin x) (Some 0) None True"

abbreviation in_unit :: "string \<Rightarrow> dec \<Rightarrow> check" where
  "in_unit name x \<equiv> require_decimal name (Fin x) (Some 0) (Some 1) False"

lemma require_decimal_None [simp]:
  "require_decimal n (Fin x) (Some m) None False = None \<longleftrightarrow> m \<le> x"
  "require_decimal n (Fin x) (Some m) None True = None \<longleftrightarrow> m < x"
  "require_decimal n (Fin x) (Some m) (Some u) False = None \<longleftrightarrow> m \<le> x \<and> x \<le> u"
  "require_decimal n (Fin x) None None b = None"
  by (auto simp: require_decimal_def Let_def)

lemma require_decimal_finite:
  "require_decimal n v mn mx ex = None \<Longrightarrow> \<exists>x. v = Fin x"
  by (cases v) (auto simp: require_decimal_def)

section \<open>Laws of the context\<close>

lemma ctx_0 [simp]: "ctx 0 = 0"
  by (simp add: ctx_def)

lemma ctx_mono: "x \<le> y \<Longrightarrow> ctx x \<le> ctx y"
  unfolding ctx_def by (rule dec.rnd_mono)

lemma ctx_exact: "dec_exact x \<Longrightarrow> ctx x = x"
  unfolding ctx_def dec_exact_def by (rule dec.rnd_exact)

lemma dec_exact_ctx [simp]: "dec_exact (ctx x)"
  unfolding ctx_def dec_exact_def by (rule dec.exact_rnd)

lemma ctx_minus: "ctx (- x) = - ctx x"
  unfolding ctx_def by (rule dec.rnd_uminus)

lemma ctx_idem [simp]: "ctx (ctx x) = ctx x"
  by (rule ctx_exact) simp

lemma ctx_nonneg [simp]: "0 \<le> x \<Longrightarrow> 0 \<le> ctx x"
  unfolding ctx_def by (rule dec.rnd_nonneg)

lemma ctx_nonpos: "x \<le> 0 \<Longrightarrow> ctx x \<le> 0"
  unfolding ctx_def by (rule dec.rnd_nonpos)

lemma ctx_le: "dec_exact b \<Longrightarrow> x \<le> b \<Longrightarrow> ctx x \<le> b"
  unfolding ctx_def dec_exact_def by (rule dec.rnd_le)

lemma ctx_ge: "dec_exact b \<Longrightarrow> b \<le> x \<Longrightarrow> b \<le> ctx x"
  unfolding ctx_def dec_exact_def by (rule dec.rnd_ge)

lemma ctx_pos: "0 < x \<Longrightarrow> 0 < ctx x"
  unfolding ctx_def using round_sig_pos_bounds(1) [of 10 28 x] powb_pos [of 10 "magnitude 10 x"]
  by (simp del: powb_pos)

lemma ctx_pos_iff [simp]: "0 < ctx x \<longleftrightarrow> 0 < x"
  using ctx_pos [of x] ctx_nonpos [of x] by (cases "0 < x") auto

lemma ctx_eq_0_iff [simp]: "ctx x = 0 \<longleftrightarrow> x = 0"
  using ctx_pos_iff [of x] ctx_pos_iff [of "- x"]
  by (cases x "0 :: rat" rule: linorder_cases) (auto simp: ctx_minus simp del: ctx_pos_iff)

lemma dec_exact_0 [simp]: "dec_exact 0"
  by (simp add: dec_exact_def)

lemma dec_exact_int:
  assumes "\<bar>m\<bar> < 10 ^ 28" shows "dec_exact (of_int m * powb 10 e)"
  using assms unfolding dec_exact_def has_digits_def by (intro exI [of _ m] exI [of _ e]) simp

lemma dec_exact_1 [simp]: "dec_exact 1"
  using dec_exact_int [of 1 0] by simp

lemma dec_exact_of_nat: "n < 10 ^ 28 \<Longrightarrow> dec_exact (of_nat n)"
  using dec_exact_int [of "int n" 0] by simp

lemma dec_exact_uminus: "dec_exact x \<Longrightarrow> dec_exact (- x)"
  unfolding dec_exact_def by (rule has_digits_uminus)

lemma ctx_1 [simp]: "ctx 1 = 1"
  by (rule ctx_exact) simp

lemma ctx_error: "0 < x \<Longrightarrow> \<bar>ctx x - x\<bar> * (2 * 10 ^ 27) \<le> x"
  unfolding ctx_def using round_sig_error [of 10 28 x] by simp

section \<open>Amounts on a common grid\<close>

text \<open>
  Prices, shares and dollars are quoted with a fixed number \<open>k\<close> of decimals. On such amounts,
  up to 28 digits in all, the context is exact.
\<close>

definition grid :: "nat \<Rightarrow> dec \<Rightarrow> bool" where
  "grid k x \<longleftrightarrow> of_int \<lfloor>x * 10 ^ k\<rfloor> = x * 10 ^ k"

definition grid_small :: "nat \<Rightarrow> dec \<Rightarrow> bool" where
  "grid_small k x \<longleftrightarrow> \<bar>x\<bar> * 10 ^ k < 10 ^ 28"

lemma gridE:
  assumes "grid k x" obtains m where "x = of_int m / 10 ^ k"
proof
  show "x = of_int \<lfloor>x * 10 ^ k\<rfloor> / 10 ^ k" using assms by (simp only: grid_def) simp
qed

lemma gridI: "x = of_int m / 10 ^ k \<Longrightarrow> grid k x"
  by (simp add: grid_def)

lemma grid_0 [simp]: "grid k 0"
  by (rule gridI [of _ 0]) simp

lemma grid_add: "grid k x \<Longrightarrow> grid k y \<Longrightarrow> grid k (x + y)"
  by (elim gridE) (auto intro!: gridI simp: add_divide_distrib [symmetric] simp flip: of_int_add)

lemma grid_uminus: "grid k x \<Longrightarrow> grid k (- x)"
proof (elim gridE)
  fix m assume "x = of_int m / 10 ^ k"
  then have "- x = of_int (- m) / 10 ^ k" by simp
  then show "grid k (- x)" by (rule gridI)
qed

lemma grid_diff: "grid k x \<Longrightarrow> grid k y \<Longrightarrow> grid k (x - y)"
  using grid_add [of k x "- y"] grid_uminus by simp

lemma grid_min: "grid k x \<Longrightarrow> grid k y \<Longrightarrow> grid k (min x y)"
  by (simp add: min_def)

lemma grid_sum_list: "\<forall>x\<in>set xs. grid k x \<Longrightarrow> grid k (sum_list xs)"
  by (induction xs) (auto intro: grid_add)

lemma grid_mult: "grid j x \<Longrightarrow> grid k y \<Longrightarrow> grid (j + k) (x * y)"
proof (elim gridE)
  fix m n assume "x = of_int m / 10 ^ j" "y = of_int n / 10 ^ k"
  then have "x * y = of_int (m * n) / 10 ^ (j + k)" by (simp add: power_add)
  then show "grid (j + k) (x * y)" by (rule gridI)
qed

lemma grid_exact:
  assumes "grid k x" "grid_small k x" shows "dec_exact x"
proof -
  obtain m where x: "x = of_int m / 10 ^ k" using assms(1) by (rule gridE)
  have "\<bar>x\<bar> * 10 ^ k = of_int \<bar>m\<bar>" by (simp add: x)
  then have "of_int \<bar>m\<bar> < (of_int (10 ^ 28) :: rat)" using assms(2) by (simp add: grid_small_def)
  then have "\<bar>m\<bar> < 10 ^ 28" unfolding of_int_less_iff .
  moreover have "x = of_int m * powb 10 (- int k)"
    by (cases k) (simp_all add: x powb_def nat_add_distrib)
  ultimately show ?thesis using dec_exact_int by simp
qed

lemma grid_ctx: "grid k x \<Longrightarrow> grid_small k x \<Longrightarrow> ctx x = x"
  by (rule ctx_exact [OF grid_exact])

text \<open>Evaluation: a value with at most twelve decimals and sixteen integral digits is unchanged.\<close>

lemma ctx_eval:
  "of_int \<lfloor>x * 10 ^ 12\<rfloor> = x * 10 ^ 12 \<Longrightarrow> \<bar>x\<bar> < 10 ^ 16 \<Longrightarrow> ctx x = x"
  by (rule grid_ctx [of 12]) (simp_all add: grid_def grid_small_def)

lemma grid_small_le: "grid_small k y \<Longrightarrow> \<bar>x\<bar> \<le> \<bar>y\<bar> \<Longrightarrow> grid_small k x"
  unfolding grid_small_def by (erule le_less_trans [rotated]) (simp add: mult_right_mono)

section \<open>Accumulated sums\<close>

lemma dsum_fold: "dsum xs = foldl (\<lambda>s x. round_sig 10 28 (s + x)) 0 xs"
  unfolding dsum_def dadd_def ctx_def by simp

lemma dsum_Nil [simp]: "dsum [] = 0"
  by (simp add: dsum_def)

lemma dsum_exact [simp]: "dec_exact (dsum xs)"
  unfolding dsum_fold dec_exact_def by (rule dec.fold_exact) simp

lemma dsum_nonneg: "\<forall>x\<in>set xs. 0 \<le> x \<Longrightarrow> 0 \<le> dsum xs"
  unfolding dsum_fold by (rule dec.fold_nonneg)

lemma dsum_mono: "list_all2 (\<le>) xs ys \<Longrightarrow> dsum xs \<le> dsum ys"
  unfolding dsum_fold by (rule dec.fold_mono) simp_all

lemma dsum_map_mono: "(\<And>x. x \<in> set xs \<Longrightarrow> f x \<le> g x) \<Longrightarrow> dsum (map f xs) \<le> dsum (map g xs)"
  by (rule dsum_mono) (simp add: list_all2_conv_all_nth)

lemma dsum_subseq: "subseq ys xs \<Longrightarrow> \<forall>x\<in>set xs. 0 \<le> x \<Longrightarrow> dsum ys \<le> dsum xs"
  unfolding dsum_fold by (rule dec.fold_subseq) simp_all

lemma dsum_snoc: "dsum (xs @ [x]) = dadd (dsum xs) x"
  by (simp add: dsum_def)

lemma dsum_single: "dsum [x] = ctx x"
  by (simp add: dsum_def dadd_def)

lemma sum_list_take_le:
  "\<forall>x\<in>set xs. (0 :: rat) \<le> x \<Longrightarrow> 0 \<le> sum_list (take i xs) \<and> sum_list (take i xs) \<le> sum_list xs"
proof -
  assume nn: "\<forall>x\<in>set xs. 0 \<le> x"
  have "sum_list xs = sum_list (take i xs) + sum_list (drop i xs)"
    by (metis append_take_drop_id sum_list_append)
  moreover have "0 \<le> sum_list (take i xs)" "0 \<le> sum_list (drop i xs)"
    using nn by (meson in_set_takeD in_set_dropD sum_list_nonneg)+
  ultimately show ?thesis by simp
qed

lemma dsum_grid:
  assumes "\<forall>x\<in>set xs. grid k x \<and> 0 \<le> x" "grid_small k (sum_list xs)"
  shows "dsum xs = sum_list xs"
proof -
  have "foldl (\<lambda>s x. round_sig 10 28 (s + x)) 0 xs = 0 + sum_list xs"
  proof (rule dec.fold_sum_list)
    fix i assume "i \<le> length xs"
    have "grid k (sum_list (take i xs))"
      using assms(1) by (intro grid_sum_list) (meson in_set_takeD)
    moreover have "grid_small k (sum_list (take i xs))"
      using assms(2) sum_list_take_le [of xs i] assms(1)
      by (elim grid_small_le) auto
    ultimately show "has_digits 10 28 (0 + sum_list (take i xs))"
      using grid_exact by (simp add: dec_exact_def)
  qed
  then show ?thesis by (simp add: dsum_fold)
qed

lemma dadd_grid: "grid k x \<Longrightarrow> grid k y \<Longrightarrow> grid_small k (x + y) \<Longrightarrow> dadd x y = x + y"
  unfolding dadd_def by (rule grid_ctx [OF grid_add])

lemma dsub_grid: "grid k x \<Longrightarrow> grid k y \<Longrightarrow> grid_small k (x - y) \<Longrightarrow> dsub x y = x - y"
  unfolding dsub_def by (rule grid_ctx [OF grid_diff])

section \<open>Floats\<close>

definition fl :: "rat \<Rightarrow> rat" where "fl = round_sig 2 53"

definition py_trunc :: "rat \<Rightarrow> int" where
  "py_trunc x = (if 0 \<le> x then \<lfloor>x\<rfloor> else \<lceil>x\<rceil>)"

text \<open>\<open>datetime.timestamp()\<close> and \<open>timedelta.total_seconds()\<close> divide microseconds by \<open>10 ** 6\<close>.\<close>

definition timestamp :: "utc \<Rightarrow> rat" where
  "timestamp t = fl (of_int t / 1000000)"

definition int_timestamp :: "utc \<Rightarrow> int" where
  "int_timestamp t = py_trunc (timestamp t)"

text \<open>\<open>int(ts.timestamp() * 1000)\<close>\<close>

definition int_timestamp_ms :: "utc \<Rightarrow> int" where
  "int_timestamp_ms t = py_trunc (fl (timestamp t * 1000))"

text \<open>\<open>str\<close> of a float is the shortest decimal that reads back as the same float.\<close>

fun shortest_decimal :: "nat \<Rightarrow> nat \<Rightarrow> rat \<Rightarrow> rat" where
  "shortest_decimal 0 n d = d"
| "shortest_decimal (Suc fuel) n d =
     (let c = round_sig 10 n d in if fl c = d then c else shortest_decimal fuel (Suc n) d)"

definition decimal_of_float :: "rat \<Rightarrow> dec" where
  "decimal_of_float d = shortest_decimal 17 1 d"

lemma fl_mono: "x \<le> y \<Longrightarrow> fl x \<le> fl y"
  unfolding fl_def by (rule flt.rnd_mono)

lemma fl_of_int: "\<bar>m\<bar> < 2 ^ 53 \<Longrightarrow> fl (of_int m) = of_int m"
  unfolding fl_def
proof (rule flt.rnd_exact)
  assume m: "\<bar>m\<bar> < 2 ^ 53"
  show "has_digits 2 53 (of_int m)"
    unfolding has_digits_def using m by (intro exI [of _ m] exI [of _ "0 :: int"]) simp
qed

lemma fl_error: "0 < x \<Longrightarrow> \<bar>fl x - x\<bar> * 2 ^ 53 \<le> x"
  unfolding fl_def using round_sig_error [of 2 53 x] by simp

text \<open>Up to the year 2242 the float timestamp of an instant truncates to its whole second.\<close>

lemma int_timestamp_div:
  assumes "0 \<le> t" "t < 2 ^ 33 * 1000000"
  shows "int_timestamp t = t div 1000000"
proof -
  define s where "s = t div 1000000"
  have s: "0 \<le> s" "s * 1000000 \<le> t" "t + 1 \<le> s * 1000000 + 1000000" "s < 2 ^ 33"
    using assms div_mult_mod_eq [of t 1000000] pos_mod_bound [of 1000000 t]
      pos_mod_sign [of 1000000 t] pos_imp_zdiv_nonneg_iff [of 1000000 t]
    by (simp_all flip: s_def)
  define x :: rat where "x = of_int t / 1000000"
  have ts: "of_int (s * 1000000) \<le> (of_int t :: rat)"
    "of_int (t + 1) \<le> (of_int (s * 1000000 + 1000000) :: rat)"
    using s unfolding of_int_le_iff by auto
  have "of_int s \<le> x" using ts(1) by (simp add: x_def field_simps)
  then have "fl (of_int s) \<le> fl x" by (rule fl_mono)
  then have lo: "of_int s \<le> fl x" using s by (subst (asm) fl_of_int) auto
  have gap: "x + 1 / 1000000 \<le> of_int s + 1" using ts(2) by (simp add: x_def field_simps)
  have hi: "fl x < of_int s + 1"
  proof (cases "x = 0")
    case False
    then have "0 < x" using assms(1) by (simp add: x_def)
    have "of_int s + 1 \<le> (of_int (2 ^ 33) :: rat)"
      using s(4) by (metis of_int_1 of_int_add of_int_le_iff add1_zle_eq)
    then have "x < 2 ^ 33" using gap by simp
    then have "\<bar>fl x - x\<bar> * 2 ^ 53 < 2 ^ 33" using fl_error [OF \<open>0 < x\<close>] by linarith
    then have "fl x - x < 1 / 1000000"
      using abs_ge_self [of "fl x - x"] by simp
    with gap show ?thesis by linarith
  next
    case True
    then show ?thesis using s(1) by (simp add: fl_def)
  qed
  have "\<lfloor>fl x\<rfloor> = s" using lo hi by (intro floor_unique) auto
  moreover have "0 \<le> fl x" using lo s(1) by (meson of_int_0_le_iff order_trans)
  ultimately show ?thesis
    by (simp add: int_timestamp_def timestamp_def py_trunc_def flip: x_def s_def)
qed

end
