(* ===== verification/Domain_Contracts.thy ===== *)
theory Domain_Contracts
  imports Decimal_Arith
begin

text \<open>
  The closed enumerations and the immutable contracts of \<open>domain/enums.py\<close> and
  \<open>domain/contracts.py\<close>. Every dataclass is a record; its \<open>__post_init__\<close> is the list of
  checks \<open>..._checks\<close>, in source order, and the constructor is \<open>checked (..._checks x) (Inr x)\<close>.
  A value is well formed (\<open>valid_...\<close>) when the constructor accepts it. The lemmas give the
  meaning of validity that the other components use.
\<close>

section \<open>Enumerations\<close>

datatype asset = BTC | ETH | SOL | XRP
datatype horizon = FIVE_MINUTES | FIFTEEN_MINUTES | ONE_HOUR
datatype outcome_side = UP | DOWN
datatype reference_kind = OFFICIAL | PROXY
datatype strategy_kind = DIRECTIONAL_EDGE | STRUCTURAL_ARBITRAGE | DUAL40
datatype decision_action = TRADE | ABSTAIN
datatype trading_mode = PAPER | LIVE
datatype order_side = BUY | SELL
datatype time_in_force = GTC | GTD | FOK | FAK
datatype order_status = CREATED | SUBMITTING | ACKNOWLEDGED | PARTIALLY_FILLED | FILLED
  | CANCELLED | REJECTED | EXPIRED | UNKNOWN_ORDER_STATE

fun asset_value :: "asset \<Rightarrow> string" where
  "asset_value BTC = ''BTC''"
| "asset_value ETH = ''ETH''"
| "asset_value SOL = ''SOL''"
| "asset_value XRP = ''XRP''"

fun horizon_value :: "horizon \<Rightarrow> string" where
  "horizon_value FIVE_MINUTES = ''5m''"
| "horizon_value FIFTEEN_MINUTES = ''15m''"
| "horizon_value ONE_HOUR = ''1h''"

text \<open>Iteration over an enumeration follows the order of its members.\<close>

instantiation asset :: enum
begin
definition enum_asset :: "asset list" where "enum_asset = [BTC, ETH, SOL, XRP]"
definition enum_all_asset :: "(asset \<Rightarrow> bool) \<Rightarrow> bool" where
  "enum_all_asset P \<longleftrightarrow> P BTC \<and> P ETH \<and> P SOL \<and> P XRP"
definition enum_ex_asset :: "(asset \<Rightarrow> bool) \<Rightarrow> bool" where
  "enum_ex_asset P \<longleftrightarrow> P BTC \<or> P ETH \<or> P SOL \<or> P XRP"
instance
proof
  show "(UNIV :: asset set) = set enum_class.enum"
    by (auto simp: enum_asset_def) (metis asset.exhaust)
qed (simp_all add: enum_asset_def enum_all_asset_def enum_ex_asset_def,
    (metis asset.exhaust)+)
end

instantiation horizon :: enum
begin
definition enum_horizon :: "horizon list" where
  "enum_horizon = [FIVE_MINUTES, FIFTEEN_MINUTES, ONE_HOUR]"
definition enum_all_horizon :: "(horizon \<Rightarrow> bool) \<Rightarrow> bool" where
  "enum_all_horizon P \<longleftrightarrow> P FIVE_MINUTES \<and> P FIFTEEN_MINUTES \<and> P ONE_HOUR"
definition enum_ex_horizon :: "(horizon \<Rightarrow> bool) \<Rightarrow> bool" where
  "enum_ex_horizon P \<longleftrightarrow> P FIVE_MINUTES \<or> P FIFTEEN_MINUTES \<or> P ONE_HOUR"
instance
proof
  show "(UNIV :: horizon set) = set enum_class.enum"
    by (auto simp: enum_horizon_def) (metis horizon.exhaust)
qed (simp_all add: enum_horizon_def enum_all_horizon_def enum_ex_horizon_def,
    (metis horizon.exhaust)+)
end

fun other_side :: "outcome_side \<Rightarrow> outcome_side" where
  "other_side UP = DOWN"
| "other_side DOWN = UP"

section \<open>Markets\<close>

record market_token =
  tok_id :: string
  tok_outcome :: outcome_side

definition market_token_checks :: "market_token \<Rightarrow> check list" where
  "market_token_checks t = [require_text ''token_id'' (tok_id t)]"

definition valid_token :: "market_token \<Rightarrow> bool" where
  "valid_token t \<longleftrightarrow> passes (market_token_checks t)"

record market =
  mkt_id :: string
  mkt_condition_id :: string
  mkt_asset :: asset
  mkt_horizon :: horizon
  mkt_tokens :: "market_token list"
  mkt_window_start :: utc
  mkt_window_end :: utc
  mkt_settlement_source :: string

fun expected_duration :: "horizon \<Rightarrow> timedelta" where
  "expected_duration FIVE_MINUTES = seconds 300"
| "expected_duration FIFTEEN_MINUTES = seconds 900"
| "expected_duration ONE_HOUR = seconds 3600"

definition duration_seconds :: "horizon \<Rightarrow> int" where
  "duration_seconds h = expected_duration h div 1000000"

definition market_checks :: "market \<Rightarrow> check list" where
  "market_checks m =
     [require_text ''market_id'' (mkt_id m),
      require_text ''condition_id'' (mkt_condition_id m),
      fail_if (length (mkt_tokens m) \<noteq> 2)
        (ValueErr ''tokens must contain exactly two MarketToken values''),
      require_unique ''token IDs'' (map tok_id (mkt_tokens m)),
      fail_if (set (map tok_outcome (mkt_tokens m)) \<noteq> {UP, DOWN})
        (ValueErr ''tokens must map exactly one UP and one DOWN outcome''),
      require_time_order ''window_start'' (mkt_window_start m) ''window_end'' (mkt_window_end m) False,
      fail_if (mkt_window_end m - mkt_window_start m \<noteq> expected_duration (mkt_horizon m))
        (ValueErr ''market window duration must exactly match horizon''),
      fail_if (int_timestamp (mkt_window_start m) mod duration_seconds (mkt_horizon m) \<noteq> 0)
        (ValueErr ''market window start must align to its canonical UTC boundary''),
      fail_if (mkt_window_start m mod 1000000 \<noteq> 0)
        (ValueErr ''market window start must not contain fractional seconds''),
      require_text ''settlement_source'' (mkt_settlement_source m)]"

definition valid_market :: "market \<Rightarrow> bool" where
  "valid_market m \<longleftrightarrow> passes (market_checks m)"

definition mk_market :: "market \<Rightarrow> market result" where
  "mk_market m = checked (market_checks m) (Inr m)"

text \<open>
  \<open>{token.outcome: token.token_id for token in market.tokens}\<close>: a later token overwrites an
  earlier one of the same outcome.
\<close>

definition token_by_side :: "market \<Rightarrow> outcome_side \<Rightarrow> string option" where
  "token_by_side m = map_of (rev (map (\<lambda>t. (tok_outcome t, tok_id t)) (mkt_tokens m)))"

lemma expected_duration_simps:
  "0 < expected_duration h" "expected_duration h = duration_seconds h * 1000000"
  "0 < duration_seconds h"
  by (cases h; simp add: duration_seconds_def seconds_def)+

lemma valid_market_tokens:
  assumes "valid_market m"
  obtains u d where "u \<noteq> d" "token_by_side m UP = Some u" "token_by_side m DOWN = Some d"
    "set (map (\<lambda>t. (tok_outcome t, tok_id t)) (mkt_tokens m)) = {(UP, u), (DOWN, d)}"
    "length (mkt_tokens m) = 2"
proof -
  from assms have len: "length (mkt_tokens m) = 2"
    and ids: "distinct (map tok_id (mkt_tokens m))"
    and sides: "set (map tok_outcome (mkt_tokens m)) = {UP, DOWN}"
    by (auto simp: valid_market_def market_checks_def)
  obtain a b where ab: "mkt_tokens m = [a, b]"
    using len by (auto simp: numeral_2_eq_2 length_Suc_conv)
  from sides ab have "tok_outcome a \<noteq> tok_outcome b" by auto
  then consider "tok_outcome a = UP" "tok_outcome b = DOWN"
    | "tok_outcome a = DOWN" "tok_outcome b = UP"
    by (metis outcome_side.exhaust)
  then show thesis
  proof cases
    case 1
    then show thesis
      using ids ab that [of "tok_id a" "tok_id b"] by (simp add: token_by_side_def)
  next
    case 2
    then show thesis
      using ids ab that [of "tok_id b" "tok_id a"]
      by (simp add: token_by_side_def insert_commute)
  qed
qed

lemma valid_market_window:
  assumes "valid_market m"
  shows "mkt_window_end m = mkt_window_start m + expected_duration (mkt_horizon m)"
    "mkt_window_start m < mkt_window_end m" "mkt_window_start m mod 1000000 = 0"
  using assms by (auto simp: valid_market_def market_checks_def)

section \<open>References\<close>

text \<open>
  \<open>OfficialReference\<close> and \<open>ProxyReference\<close> share their fields and their validation; the class
  fixes \<open>kind\<close>, and only the official one says whether it is a price-to-beat.
\<close>

record reference =
  ref_id :: string
  ref_market_id :: string
  ref_asset :: asset
  ref_value :: dec
  ref_source :: string
  ref_source_ts :: utc
  ref_recv_ts :: utc
  ref_effective_ts :: utc

record official_reference = reference +
  ref_is_ptb :: bool

datatype any_reference = Official official_reference | Proxy reference

fun any_reference_kind :: "any_reference \<Rightarrow> reference_kind" where
  "any_reference_kind (Official r) = OFFICIAL"
| "any_reference_kind (Proxy r) = PROXY"

fun any_fields :: "any_reference \<Rightarrow> reference" where
  "any_fields (Official r) = reference.truncate r"
| "any_fields (Proxy r) = r"

definition reference_checks :: "'a reference_scheme \<Rightarrow> check list" where
  "reference_checks r =
     [require_text ''reference_id'' (ref_id r),
      require_text ''market_id'' (ref_market_id r),
      positive ''value'' (ref_value r),
      require_text ''source'' (ref_source r)]"

definition valid_reference :: "'a reference_scheme \<Rightarrow> bool" where
  "valid_reference r \<longleftrightarrow> passes (reference_checks r)"

definition mk_reference :: "'a reference_scheme \<Rightarrow> 'a reference_scheme result" where
  "mk_reference r = checked (reference_checks r) (Inr r)"

section \<open>Books\<close>

record book_level =
  lvl_price :: dec
  lvl_quantity :: dec

definition book_level_checks :: "book_level \<Rightarrow> check list" where
  "book_level_checks l =
     [in_unit ''price'' (lvl_price l), positive ''quantity'' (lvl_quantity l)]"

definition valid_level :: "book_level \<Rightarrow> bool" where
  "valid_level l \<longleftrightarrow> passes (book_level_checks l)"

lemma valid_level_iff: "valid_level l \<longleftrightarrow> 0 \<le> lvl_price l \<and> lvl_price l \<le> 1 \<and> 0 < lvl_quantity l"
  by (auto simp: valid_level_def book_level_checks_def)

definition bids_descending :: "book_level list \<Rightarrow> bool" where
  "bids_descending ls \<longleftrightarrow> sort_key (\<lambda>l. - lvl_price l) ls = ls"

definition asks_ascending :: "book_level list \<Rightarrow> bool" where
  "asks_ascending ls \<longleftrightarrow> sort_key lvl_price ls = ls"

definition locked_or_crossed :: "book_level list \<Rightarrow> book_level list \<Rightarrow> bool" where
  "locked_or_crossed bids asks \<longleftrightarrow>
     bids \<noteq> [] \<and> asks \<noteq> [] \<and> lvl_price (hd asks) \<le> lvl_price (hd bids)"

record order_book_snapshot =
  obs_market_id :: string
  obs_token_id :: string
  obs_bids :: "book_level list"
  obs_asks :: "book_level list"
  obs_source :: string
  obs_source_ts :: utc
  obs_recv_ts :: utc
  obs_sequence :: "int option"
  obs_checksum :: "string option"

definition order_book_checks :: "order_book_snapshot \<Rightarrow> check list" where
  "order_book_checks b =
     [require_text ''market_id'' (obs_market_id b),
      require_text ''token_id'' (obs_token_id b),
      fail_if (\<not> bids_descending (obs_bids b)) (ValueErr ''bids must be sorted by descending price''),
      fail_if (\<not> asks_ascending (obs_asks b)) (ValueErr ''asks must be sorted by ascending price''),
      fail_if (locked_or_crossed (obs_bids b) (obs_asks b))
        (ValueErr ''order book must not be locked or crossed''),
      require_text ''source'' (obs_source b),
      fail_if (case obs_sequence b of None \<Rightarrow> False | Some n \<Rightarrow> n < 0)
        (ValueErr ''sequence must be a non-negative integer or None''),
      (case obs_checksum b of None \<Rightarrow> None | Some c \<Rightarrow> require_text ''checksum'' c)]"

definition valid_order_book :: "order_book_snapshot \<Rightarrow> bool" where
  "valid_order_book b \<longleftrightarrow> passes (order_book_checks b)"

lemma asks_ascending_iff: "asks_ascending ls \<longleftrightarrow> sorted (map lvl_price ls)"
  by (simp add: asks_ascending_def sort_key_id_iff)

lemma bids_descending_iff: "bids_descending ls \<longleftrightarrow> sorted_wrt (\<ge>) (map lvl_price ls)"
  by (simp add: bids_descending_def sort_key_id_iff sorted_map comp_def sorted_wrt_map)

text \<open>In an uncrossed book every bid is below every ask.\<close>

lemma book_spread_positive:
  assumes "bids_descending bids" "asks_ascending asks" "\<not> locked_or_crossed bids asks"
    and "b \<in> set bids" "a \<in> set asks"
  shows "lvl_price b < lvl_price a"
proof -
  obtain b0 bs where bs: "bids = b0 # bs" using assms(4) by (cases bids) auto
  obtain a0 as where as: "asks = a0 # as" using assms(5) by (cases asks) auto
  have "lvl_price b \<le> lvl_price b0"
    using assms(1,4) by (auto simp: bids_descending_iff bs)
  moreover have "lvl_price a0 \<le> lvl_price a"
    using assms(2,5) by (auto simp: asks_ascending_iff as)
  moreover have "lvl_price b0 < lvl_price a0"
    using assms(3) by (simp add: locked_or_crossed_def bs as)
  ultimately show ?thesis by simp
qed

end
