(* ===== verification/MarketData_Contracts.thy ===== *)
theory MarketData_Contracts
  imports Domain_Contracts
begin

text \<open>
  The normalized market-data contracts of \<open>market_data/contracts.py\<close>: records with the checks of
  their constructors, in source order. The levels of a Polymarket book are a record of their own,
  as in the code. \<open>Some\<close>/\<open>None\<close> are the optional fields.
\<close>

datatype data_source = BINANCE_SPOT | BINANCE_PERPETUAL | POLYMARKET_CLOB | POLYMARKET_GAMMA
  | CHAINLINK_RTDS

datatype settlement_method = CHAINLINK_TWAP | BINANCE_CANDLE

record event_lineage =
  lin_source :: data_source
  lin_source_ts :: "utc option"
  lin_recv_ts :: utc
  lin_normalized_ts :: utc
  lin_recv_monotonic_ns :: int

definition lineage_checks :: "event_lineage \<Rightarrow> check list" where
  "lineage_checks l =
     [require_time_order ''recv_ts'' (lin_recv_ts l) ''normalized_ts'' (lin_normalized_ts l) True,
      fail_if (lin_recv_monotonic_ns l < 0) (ValueErr ''recv_monotonic_ns must be non-negative'')]"

definition valid_lineage :: "event_lineage \<Rightarrow> bool" where
  "valid_lineage l \<longleftrightarrow> passes (lineage_checks l)"

section \<open>Exchange events\<close>

record crypto_trade =
  ct_asset :: asset
  ct_price :: dec
  ct_quantity :: dec
  ct_trade_id :: int
  ct_buyer_is_maker :: bool
  ct_lineage :: event_lineage

definition crypto_trade_checks :: "crypto_trade \<Rightarrow> check list" where
  "crypto_trade_checks t =
     [positive ''price'' (ct_price t),
      positive ''quantity'' (ct_quantity t),
      fail_if (ct_trade_id t < 0) (ValueErr ''trade_id must be a non-negative integer'')]"

record top_of_book =
  tob_asset :: asset
  tob_bid_price :: dec
  tob_bid_quantity :: dec
  tob_ask_price :: dec
  tob_ask_quantity :: dec
  tob_update_id :: int
  tob_lineage :: event_lineage

definition top_of_book_checks :: "top_of_book \<Rightarrow> check list" where
  "top_of_book_checks t =
     [positive ''bid_price'' (tob_bid_price t),
      positive ''bid_quantity'' (tob_bid_quantity t),
      positive ''ask_price'' (tob_ask_price t),
      positive ''ask_quantity'' (tob_ask_quantity t),
      fail_if (tob_ask_price t \<le> tob_bid_price t)
        (ValueErr ''top of book must not be locked or crossed''),
      fail_if (tob_update_id t < 0) (ValueErr ''update_id must be non-negative'')]"

definition valid_top_of_book :: "top_of_book \<Rightarrow> bool" where
  "valid_top_of_book t \<longleftrightarrow> passes (top_of_book_checks t)"

record chainlink_twap =
  cl_asset :: asset
  cl_value :: dec
  cl_window_seconds :: int
  cl_publisher_ts :: utc
  cl_lineage :: event_lineage

definition chainlink_twap_checks :: "chainlink_twap \<Rightarrow> check list" where
  "chainlink_twap_checks t =
     [positive ''value'' (cl_value t),
      fail_if (cl_window_seconds t \<notin> {30, 60}) (ValueErr ''window_seconds must be 30 or 60'')]"

definition valid_twap :: "chainlink_twap \<Rightarrow> bool" where
  "valid_twap t \<longleftrightarrow> passes (chainlink_twap_checks t)"

section \<open>Polymarket fees, books and resolutions\<close>

record fee_schedule =
  fs_condition_id :: string
  fs_maker_base_bps :: dec
  fs_taker_base_bps :: dec
  fs_rate :: "dec option"
  fs_exponent :: "dec option"
  fs_lineage :: event_lineage
  fs_taker_fee_mode :: string

definition optional_non_negative :: "string \<Rightarrow> dec option \<Rightarrow> check list" where
  "optional_non_negative name v = (case v of None \<Rightarrow> [] | Some x \<Rightarrow> [non_negative name x])"

lemma passes_optional_non_negative [simp]:
  "passes (optional_non_negative name v) \<longleftrightarrow> (\<forall>x\<in>set_option v. 0 \<le> x)"
  by (cases v) (simp_all add: optional_non_negative_def)

definition fee_schedule_checks :: "fee_schedule \<Rightarrow> check list" where
  "fee_schedule_checks f =
     [require_text ''condition_id'' (fs_condition_id f),
      non_negative ''maker_base_bps'' (fs_maker_base_bps f),
      non_negative ''taker_base_bps'' (fs_taker_base_bps f)] @
     optional_non_negative ''rate'' (fs_rate f) @
     optional_non_negative ''exponent'' (fs_exponent f) @
     [fail_if (fs_taker_fee_mode f \<notin> {''dynamic'', ''bps''})
        (ValueErr ''taker_fee_mode must be dynamic or bps'')]"

definition valid_fee_schedule :: "fee_schedule \<Rightarrow> bool" where
  "valid_fee_schedule f \<longleftrightarrow> passes (fee_schedule_checks f)"

record pm_level =
  pml_price :: dec
  pml_quantity :: dec

definition pm_level_checks :: "pm_level \<Rightarrow> check list" where
  "pm_level_checks l =
     [in_unit ''price'' (pml_price l), positive ''quantity'' (pml_quantity l)]"

definition valid_pm_level :: "pm_level \<Rightarrow> bool" where
  "valid_pm_level l \<longleftrightarrow> passes (pm_level_checks l)"

lemma valid_pm_level_iff:
  "valid_pm_level l \<longleftrightarrow> 0 \<le> pml_price l \<and> pml_price l \<le> 1 \<and> 0 < pml_quantity l"
  by (auto simp: valid_pm_level_def pm_level_checks_def)

record polymarket_book =
  pmb_condition_id :: string
  pmb_token_id :: string
  pmb_bids :: "pm_level list"
  pmb_asks :: "pm_level list"
  pmb_checksum :: string
  pmb_minimum_order_size :: dec
  pmb_tick_size :: dec
  pmb_lineage :: event_lineage

definition pm_crossed :: "pm_level list \<Rightarrow> pm_level list \<Rightarrow> bool" where
  "pm_crossed bids asks \<longleftrightarrow>
     bids \<noteq> [] \<and> asks \<noteq> [] \<and> pml_price (hd asks) \<le> pml_price (hd bids)"

definition polymarket_book_checks :: "polymarket_book \<Rightarrow> check list" where
  "polymarket_book_checks b =
     [require_text ''condition_id'' (pmb_condition_id b),
      require_text ''token_id'' (pmb_token_id b),
      fail_if (pmb_bids b \<noteq> sort_key (\<lambda>l. - pml_price l) (pmb_bids b))
        (ValueErr ''bids must be sorted descending''),
      fail_if (pmb_asks b \<noteq> sort_key pml_price (pmb_asks b))
        (ValueErr ''asks must be sorted ascending''),
      fail_if (pm_crossed (pmb_bids b) (pmb_asks b)) (ValueErr ''book must not be locked or crossed''),
      require_text ''checksum'' (pmb_checksum b),
      positive ''minimum_order_size'' (pmb_minimum_order_size b),
      positive ''tick_size'' (pmb_tick_size b)]"

text \<open>The levels of a book are \<open>PolymarketLevel\<close> values, so they are valid themselves.\<close>

definition valid_pm_book :: "polymarket_book \<Rightarrow> bool" where
  "valid_pm_book b \<longleftrightarrow> passes (polymarket_book_checks b)
     \<and> list_all valid_pm_level (pmb_bids b) \<and> list_all valid_pm_level (pmb_asks b)"

lemma valid_pm_book_sorted:
  assumes "valid_pm_book b"
  shows "sorted (map pml_price (pmb_asks b))" "sorted_wrt (\<ge>) (map pml_price (pmb_bids b))"
    "\<forall>l\<in>set (pmb_asks b) \<union> set (pmb_bids b). valid_pm_level l"
proof -
  from assms have sorts: "sort_key pml_price (pmb_asks b) = pmb_asks b"
    "sort_key (\<lambda>l. - pml_price l) (pmb_bids b) = pmb_bids b"
    by (simp_all add: valid_pm_book_def polymarket_book_checks_def)
  then show "sorted (map pml_price (pmb_asks b))" by (simp add: sort_key_id_iff)
  show "sorted_wrt (\<ge>) (map pml_price (pmb_bids b))"
    using sorts(2) by (simp add: sort_key_id_iff sorted_map sorted_wrt_map)
  show "\<forall>l\<in>set (pmb_asks b) \<union> set (pmb_bids b). valid_pm_level l"
    using assms by (auto simp: valid_pm_book_def list_all_iff)
qed

record resolution_event =
  res_market_id :: string
  res_condition_id :: string
  res_winning_token_id :: string
  res_winning_outcome :: string
  res_lineage :: event_lineage

definition resolution_event_checks :: "resolution_event \<Rightarrow> check list" where
  "resolution_event_checks r =
     [require_text ''market_id'' (res_market_id r),
      require_text ''condition_id'' (res_condition_id r),
      require_text ''winning_token_id'' (res_winning_token_id r),
      require_text ''winning_outcome'' (res_winning_outcome r)]"

section \<open>Discovery\<close>

record settlement_metadata =
  sm_market_id :: string
  sm_condition_id :: string
  sm_resolution_source :: string
  sm_rules :: string
  sm_method :: settlement_method
  sm_configuration_id :: "string option"
  sm_asset :: asset
  sm_horizon :: horizon
  sm_reference_period :: int
  sm_version :: string
  sm_lineage :: event_lineage

definition settlement_metadata_checks :: "settlement_metadata \<Rightarrow> check list" where
  "settlement_metadata_checks s =
     [require_text ''market_id'' (sm_market_id s),
      require_text ''condition_id'' (sm_condition_id s),
      require_text ''resolution_source'' (sm_resolution_source s),
      require_text ''rules'' (sm_rules s),
      require_text ''version'' (sm_version s)] @
     (case sm_configuration_id s of None \<Rightarrow> [] | Some c \<Rightarrow> [require_text ''configuration_id'' c]) @
     [fail_if (sm_reference_period s \<le> 0)
        (ValueErr ''reference_period_seconds must be a positive integer'')]"

definition valid_settlement_metadata :: "settlement_metadata \<Rightarrow> bool" where
  "valid_settlement_metadata s \<longleftrightarrow> passes (settlement_metadata_checks s)"

record market_discovery =
  md_event_id :: string
  md_slug :: string
  md_question :: string
  md_market :: market
  md_settlement :: settlement_metadata

definition market_discovery_checks :: "market_discovery \<Rightarrow> check list" where
  "market_discovery_checks d = (let s = md_settlement d; m = md_market d in
     [require_text ''event_id'' (md_event_id d),
      require_text ''slug'' (md_slug d),
      require_text ''question'' (md_question d),
      fail_if (sm_market_id s \<noteq> mkt_id m) (ValueErr ''settlement market identity mismatch''),
      fail_if (sm_condition_id s \<noteq> mkt_condition_id m)
        (ValueErr ''settlement condition identity mismatch''),
      fail_if (sm_asset s \<noteq> mkt_asset m) (ValueErr ''settlement asset mismatch''),
      fail_if (sm_horizon s \<noteq> mkt_horizon m) (ValueErr ''settlement horizon mismatch''),
      fail_if (sm_resolution_source s \<noteq> mkt_settlement_source m)
        (ValueErr ''settlement source mismatch'')])"

definition valid_discovery :: "market_discovery \<Rightarrow> bool" where
  "valid_discovery d \<longleftrightarrow> passes (market_discovery_checks d)
     \<and> valid_market (md_market d) \<and> valid_settlement_metadata (md_settlement d)"

lemma valid_discovery_identity:
  assumes "valid_discovery d"
  shows "sm_market_id (md_settlement d) = mkt_id (md_market d)"
    "sm_asset (md_settlement d) = mkt_asset (md_market d)"
    "sm_horizon (md_settlement d) = mkt_horizon (md_market d)"
    "sm_resolution_source (md_settlement d) = mkt_settlement_source (md_market d)"
    "valid_market (md_market d)"
  using assms by (auto simp: valid_discovery_def market_discovery_checks_def Let_def)

end
