(* ===== verification/Canonical.thy ===== *)
theory Canonical
  imports MarketData_Contracts
begin

text \<open>
  \<open>market_data/canonical.py\<close> and \<open>market_data/official.py\<close>: the twelve buckets, the canonical UTC
  window of an observation, the identity check of a discovered market, the establishment and
  restoration of its price to beat, and the construction of official references. A window is
  computed from a float timestamp, as in the code; the theorems about it cover the instants whose
  whole second a binary64 timestamp still resolves (up to the year 2242).
\<close>

section \<open>Buckets and windows\<close>

record market_bucket =
  bkt_asset :: asset
  bkt_horizon :: horizon

definition supported_market_buckets :: "market_bucket list" where
  "supported_market_buckets =
     concat (map (\<lambda>a. map (\<lambda>h. \<lparr>bkt_asset = a, bkt_horizon = h\<rparr>) enum_class.enum) enum_class.enum)"

fun official_twap_source :: "asset \<Rightarrow> string" where
  "official_twap_source BTC = ''https://data.chain.link/streams/btc-usd-twap-60s-streams''"
| "official_twap_source ETH = ''https://data.chain.link/streams/eth-usd-twap-60s-streams''"
| "official_twap_source SOL = ''https://data.chain.link/streams/sol-usd-twap-60s-streams''"
| "official_twap_source XRP = ''https://data.chain.link/streams/xrp-usd-twap-60s-streams''"

definition official_reference_source :: "market_bucket \<Rightarrow> string" where
  "official_reference_source b =
     (if bkt_horizon b \<noteq> ONE_HOUR then official_twap_source (bkt_asset b)
      else ''https://www.binance.com/en/trade/'' @ asset_value (bkt_asset b) @ ''_USDT'')"

text \<open>Every asset and horizon has its bucket, exactly once.\<close>

lemma buckets_complete: "b \<in> set supported_market_buckets"
proof (cases b)
  case (fields a h)
  then show ?thesis
    by (cases a; cases h) (simp_all add: supported_market_buckets_def enum_asset_def enum_horizon_def)
qed

lemma buckets_distinct: "distinct supported_market_buckets" "length supported_market_buckets = 12"
  by (simp_all add: supported_market_buckets_def enum_asset_def enum_horizon_def)

lemma official_reference_source_text: "official_reference_source b \<noteq> []"
  by (cases "bkt_asset b") (auto simp: official_reference_source_def)

record canonical_window =
  win_bucket :: market_bucket
  win_start :: utc
  win_end :: utc

abbreviation window_duration :: "market_bucket \<Rightarrow> timedelta" where
  "window_duration b \<equiv> expected_duration (bkt_horizon b)"

definition canonical_window_checks :: "canonical_window \<Rightarrow> check list" where
  "canonical_window_checks w =
     [fail_if (win_end w - win_start w \<noteq> window_duration (win_bucket w))
        (CanonicalMarketError ''window duration does not match horizon''),
      fail_if (win_start w mod 1000000 \<noteq> 0
          \<or> int_timestamp (win_start w) mod duration_seconds (bkt_horizon (win_bucket w)) \<noteq> 0)
        (CanonicalMarketError ''window start is not on its canonical UTC boundary'')]"

definition valid_window :: "canonical_window \<Rightarrow> bool" where
  "valid_window w \<longleftrightarrow> passes (canonical_window_checks w)"

definition mk_window :: "canonical_window \<Rightarrow> canonical_window result" where
  "mk_window w = checked (canonical_window_checks w) (Inr w)"

definition time_to_expiry :: "canonical_window \<Rightarrow> utc \<Rightarrow> timedelta result" where
  "time_to_expiry w t =
     (if t < win_start w then
        Inl (CanonicalMarketError ''cannot calculate TTE before the market window'')
      else if win_end w \<le> t then
        Inl (CanonicalMarketError ''cannot calculate TTE for an expired market window'')
      else Inr (win_end w - t))"

definition window_containing :: "market_bucket \<Rightarrow> utc \<Rightarrow> canonical_window result" where
  "window_containing b t =
     (let epoch_seconds = int_timestamp t;
          start = seconds (epoch_seconds - epoch_seconds mod duration_seconds (bkt_horizon b))
      in mk_window \<lparr>win_bucket = b, win_start = start, win_end = start + window_duration b\<rparr>)"

fun lower_char :: "char \<Rightarrow> char" where
  "lower_char c = (let n = (of_char c :: nat) in if 65 \<le> n \<and> n \<le> 90 then char_of (n + 32) else c)"

definition lower :: "string \<Rightarrow> string" where
  "lower s = map lower_char s"

definition epoch_slug :: "canonical_window \<Rightarrow> string result" where
  "epoch_slug w =
     (if bkt_horizon (win_bucket w) = ONE_HOUR then
        Inl (CanonicalMarketError ''hourly markets do not use the epoch-slug convention'')
      else Inr (lower (asset_value (bkt_asset (win_bucket w))) @ ''-updown-''
        @ horizon_value (bkt_horizon (win_bucket w)) @ ''-'' @ show_int (int_timestamp (win_start w))))"

definition instant :: "utc \<Rightarrow> bool" where
  "instant t \<longleftrightarrow> 0 \<le> t \<and> t < 2 ^ 33 * 1000000"

lemma instant_int_timestamp: "instant t \<Longrightarrow> int_timestamp t = t div 1000000"
  by (simp add: instant_def int_timestamp_div)

lemma instant_mono: "instant t \<Longrightarrow> 0 \<le> s \<Longrightarrow> s \<le> t \<Longrightarrow> instant s"
  by (simp add: instant_def)

lemma duration_split:
  "duration_seconds (bkt_horizon b) = d \<Longrightarrow> window_duration b = d * 1000000 \<and> 0 < d"
  using expected_duration_simps [of "bkt_horizon b"] by simp

lemma window_containing_eq:
  assumes "instant t"
  shows "window_containing b t = Inr \<lparr>win_bucket = b,
    win_start = t - t mod window_duration b, win_end = t - t mod window_duration b + window_duration b\<rparr>"
proof -
  define d where "d = duration_seconds (bkt_horizon b)"
  define s where "s = t div 1000000"
  have d: "window_duration b = d * 1000000" "0 < d" using duration_split d_def by auto
  have "t mod (d * 1000000) = t mod 1000000 + 1000000 * (s mod d)"
    using d(2) by (simp add: s_def mult.commute [of d] zmod_zmult2_eq)
  then have start: "seconds (s - s mod d) = t - t mod window_duration b"
    using div_mult_mod_eq [of t 1000000] by (simp add: d seconds_def s_def algebra_simps)
  have "0 \<le> s - s mod d"
    using assms zmod_le_nonneg_dividend [of s d]
    by (simp add: s_def instant_def pos_imp_zdiv_nonneg_iff)
  moreover have "seconds (s - s mod d) \<le> t"
    using start d pos_mod_sign [of "window_duration b" t] by simp
  ultimately have "instant (seconds (s - s mod d))"
    using assms by (elim instant_mono) (simp_all add: seconds_def)
  then have "int_timestamp (seconds (s - s mod d)) = s - s mod d"
    by (simp add: instant_int_timestamp seconds_def)
  moreover have "(s - s mod d) mod d = 0" by (simp add: minus_mod_eq_mult_div)
  moreover have "seconds (s - s mod d) mod 1000000 = 0" by (simp add: seconds_def)
  ultimately show ?thesis
    using start
    by (simp add: window_containing_def instant_int_timestamp [OF assms] Let_def mk_window_def
      canonical_window_checks_def flip: d_def s_def)
qed

lemma valid_window_aligned:
  assumes "valid_window w" "instant (win_start w)"
  shows "win_start w mod window_duration (win_bucket w) = 0"
    "win_end w = win_start w + window_duration (win_bucket w)"
proof -
  define d where "d = duration_seconds (bkt_horizon (win_bucket w))"
  have d: "window_duration (win_bucket w) = d * 1000000" "0 < d" using duration_split d_def by auto
  have "win_start w mod 1000000 = 0" "(win_start w div 1000000) mod d = 0"
    using assms by (auto simp: valid_window_def canonical_window_checks_def instant_int_timestamp d_def)
  then show "win_start w mod window_duration (win_bucket w) = 0"
    using d by (simp add: mult.commute [of d] zmod_zmult2_eq)
  show "win_end w = win_start w + window_duration (win_bucket w)"
    using assms by (auto simp: valid_window_def canonical_window_checks_def)
qed

text \<open>An aligned half-open interval of length \<open>d\<close> that contains \<open>t\<close> starts at \<open>t - t mod d\<close>.\<close>

lemma aligned_start_unique:
  fixes s t d :: int
  assumes "s mod d = 0" "s \<le> t" "t < s + d"
  shows "s = t - t mod d"
proof -
  have "(t - s) mod d = t - s" using assms by (intro mod_pos_pos_trivial) auto
  moreover have "(t - s) mod d = t mod d" using assms(1) by (metis diff_zero mod_diff_right_eq)
  ultimately show ?thesis by simp
qed

text \<open>
  For every bucket and every instant a binary64 timestamp resolves, \<open>window_containing\<close> does
  not raise, its window passes the constructor's checks and contains the instant, and it is the
  only valid window of that bucket that does.
\<close>

theorem window_containing_unique:
  assumes "instant t"
  shows "\<exists>w. window_containing b t = Inr w \<and> valid_window w \<and> win_bucket w = b
     \<and> win_start w \<le> t \<and> t < win_end w
     \<and> (\<forall>w'. valid_window w' \<and> win_bucket w' = b \<and> 0 \<le> win_start w'
          \<and> win_start w' \<le> t \<and> t < win_end w' \<longrightarrow> w' = w)"
proof -
  define w where "w = \<lparr>win_bucket = b, win_start = t - t mod window_duration b,
    win_end = t - t mod window_duration b + window_duration b\<rparr>"
  have eq: "window_containing b t = Inr w"
    using window_containing_eq [OF assms] by (simp add: w_def)
  then have "valid_window w"
    by (auto simp: window_containing_def Let_def mk_window_def valid_window_def contract_simps)
  moreover have "0 < window_duration b" by (rule expected_duration_simps)
  then have "win_start w \<le> t" "t < win_end w"
    using pos_mod_sign [of "window_duration b" t] pos_mod_bound [of "window_duration b" t]
    by (simp_all add: w_def)
  moreover have "w' = w" if "valid_window w'" "win_bucket w' = b" "0 \<le> win_start w'"
    "win_start w' \<le> t" "t < win_end w'" for w'
  proof -
    have "instant (win_start w')" using assms that by (elim instant_mono)
    note al = valid_window_aligned [OF that(1) this]
    have "win_start w' = t - t mod window_duration b"
      using al that by (intro aligned_start_unique) simp_all
    with al that(2) show ?thesis by (cases w') (simp add: w_def)
  qed
  moreover have "win_bucket w = b" by (simp add: w_def)
  ultimately show ?thesis using eq by blast
qed

definition btc_5m :: market_bucket where
  "btc_5m = \<lparr>bkt_asset = BTC, bkt_horizon = FIVE_MINUTES\<rparr>"

theorem window_containing_unique_witness:
  "\<exists>w. window_containing btc_5m 1700000123456789 = Inr w \<and> win_start w = 1700000100000000
     \<and> win_end w = 1700000400000000"
proof -
  have ok: "instant 1700000123456789" by (simp add: instant_def)
  obtain w where "window_containing btc_5m 1700000123456789 = Inr w"
    using window_containing_unique [OF ok, of btc_5m] by blast
  then show ?thesis
    using window_containing_eq [OF ok, of btc_5m] by (simp add: btc_5m_def seconds_def)
qed

text \<open>Time to expiry is positive and at most the horizon, and adds up with the elapsed time.\<close>

lemma time_to_expiry_bounds:
  assumes "valid_window w" "time_to_expiry w t = Inr d"
  shows "0 < d" "d \<le> window_duration (win_bucket w)" "t + d = win_end w"
  using assms by (auto simp: time_to_expiry_def valid_window_def canonical_window_checks_def
    split: if_splits)

lemma time_to_expiry_returns:
  "(\<exists>d. time_to_expiry w t = Inr d) \<longleftrightarrow> win_start w \<le> t \<and> t < win_end w"
  by (auto simp: time_to_expiry_def)

end
