(* ===== verification/References.thy ===== *)
theory References
  imports Canonical
begin

text \<open>
  The second half of \<open>market_data/canonical.py\<close> (discovery identity, reference freshness, price to
  beat), \<open>market_data/official.py\<close> (official references from a Chainlink TWAP or a Binance hourly
  candle) and \<open>market_data/ptb_repository.py\<close> (the write-once table that keeps the price to beat
  across restarts). The SQLite table is a partial map from its primary key; the text columns hold
  \<open>str\<close> of a decimal and \<open>isoformat\<close> of a datetime, which read back as the same value. The lemmas
  follow one opening value from its establishment through the table to its restoration.
\<close>

section \<open>Discovery identity\<close>

definition expected_configuration :: "market \<Rightarrow> string" where
  "expected_configuration m =
     lower (asset_value (mkt_asset m)) @ ''-'' @ horizon_value (mkt_horizon m) @ ''-twap-60''"

definition require_canonical_discovery ::
  "market_discovery \<Rightarrow> canonical_window \<Rightarrow> string \<Rightarrow> unit result" where
  "require_canonical_discovery d w expected_slug =
     (let m = md_market d; s = md_settlement d; b = win_bucket w;
          mismatch = (\<lambda>c msg. fail_if c (DiscoveryMismatchError msg))
      in checked
       ([require_text ''expected_slug'' expected_slug,
         mismatch (md_slug d \<noteq> expected_slug) ''discovery slug does not match requested market'',
         mismatch (mkt_asset m \<noteq> bkt_asset b) ''discovered asset does not match requested bucket'',
         mismatch (mkt_horizon m \<noteq> bkt_horizon b)
           ''discovered horizon does not match requested bucket'',
         mismatch (mkt_window_start m \<noteq> win_start w \<or> mkt_window_end m \<noteq> win_end w)
           ''discovered event window does not match requested window'',
         mismatch (mkt_settlement_source m \<noteq> official_reference_source b)
           ''market resolution source is not the canonical TWAP source''] @
        (if mkt_horizon m = ONE_HOUR then
           [mismatch (sm_method s \<noteq> BINANCE_CANDLE)
              ''hourly market must use Binance candle settlement'',
            mismatch (sm_reference_period s \<noteq> 3600) ''hourly candle period must be 3600 seconds'',
            mismatch (sm_configuration_id s \<noteq> None)
              ''hourly market unexpectedly has a TWAP configuration'']
         else
           [mismatch (sm_method s \<noteq> CHAINLINK_TWAP) ''short-window market must use Chainlink TWAP'',
            mismatch (sm_reference_period s \<noteq> 60) ''market TWAP lookback is not 60 seconds'',
            mismatch (sm_configuration_id s \<noteq> Some (expected_configuration m))
              ''crypto market configuration identity mismatch'']))
       (Inr ()))"

lemma canonical_discovery_identity:
  assumes "require_canonical_discovery d w slug = Inr ()"
  shows "mkt_asset (md_market d) = bkt_asset (win_bucket w)"
    "mkt_horizon (md_market d) = bkt_horizon (win_bucket w)"
    "mkt_window_start (md_market d) = win_start w" "mkt_window_end (md_market d) = win_end w"
    "mkt_settlement_source (md_market d) = official_reference_source (win_bucket w)"
    "md_slug d = slug"
    "sm_method (md_settlement d)
       = (if bkt_horizon (win_bucket w) = ONE_HOUR then BINANCE_CANDLE else CHAINLINK_TWAP)"
  using assms
  by (auto simp: require_canonical_discovery_def Let_def contract_simps split: if_splits)

section \<open>Reference freshness\<close>

record reference_policy =
  rfp_max_source_age :: timedelta
  rfp_max_receive_latency :: timedelta
  rfp_boundary_tolerance :: timedelta

definition reference_policy_checks :: "reference_policy \<Rightarrow> check list" where
  "reference_policy_checks p =
     [fail_if (rfp_max_source_age p < 0) (ValueErr ''max_source_age must be non-negative''),
      fail_if (rfp_max_receive_latency p < 0) (ValueErr ''max_receive_latency must be non-negative''),
      fail_if (rfp_boundary_tolerance p < 0) (ValueErr ''boundary_tolerance must be non-negative'')]"

definition valid_reference_policy :: "reference_policy \<Rightarrow> bool" where
  "valid_reference_policy p \<longleftrightarrow> passes (reference_policy_checks p)"

definition unavailable :: "bool \<Rightarrow> string \<Rightarrow> check" where
  "unavailable c msg = fail_if c (ReferenceUnavailableError msg)"

lemma unavailable_None [simp]: "unavailable c m = None \<longleftrightarrow> \<not> c"
  by (simp add: unavailable_def)

definition official_identity_checks :: "market_discovery \<Rightarrow> official_reference \<Rightarrow> check list" where
  "official_identity_checks d r =
     [unavailable (ref_market_id r \<noteq> mkt_id (md_market d))
        ''official reference market identity mismatch'',
      unavailable (ref_asset r \<noteq> mkt_asset (md_market d))
        ''official reference asset identity mismatch'',
      unavailable (ref_source r \<noteq> mkt_settlement_source (md_market d))
        ''official reference source does not match market rules'']"

definition fresh_timestamp_checks :: "utc \<Rightarrow> utc \<Rightarrow> utc \<Rightarrow> reference_policy \<Rightarrow> check list" where
  "fresh_timestamp_checks source_ts recv_ts observed_at p =
     [unavailable (recv_ts < source_ts \<or> observed_at < recv_ts)
        ''reference timestamp order is unverifiable'',
      unavailable (rfp_max_source_age p < observed_at - source_ts) ''reference source value is stale'',
      unavailable (rfp_max_receive_latency p < recv_ts - source_ts)
        ''reference receive latency exceeds policy'']"

definition require_fresh_official_reference ::
  "market_discovery \<Rightarrow> official_reference \<Rightarrow> utc \<Rightarrow> reference_policy \<Rightarrow> unit result" where
  "require_fresh_official_reference d r observed_at p =
     checked (official_identity_checks d r
       @ fresh_timestamp_checks (ref_source_ts r) (ref_recv_ts r) observed_at p) (Inr ())"

definition require_fresh_proxy_reference ::
  "market_discovery \<Rightarrow> reference \<Rightarrow> utc \<Rightarrow> reference_policy \<Rightarrow> unit result" where
  "require_fresh_proxy_reference d r observed_at p =
     checked ([unavailable (ref_market_id r \<noteq> mkt_id (md_market d)) ''proxy market identity mismatch'',
        unavailable (ref_asset r \<noteq> mkt_asset (md_market d)) ''proxy asset identity mismatch'']
       @ fresh_timestamp_checks (ref_source_ts r) (ref_recv_ts r) observed_at p) (Inr ())"

section \<open>The price to beat\<close>

record ptb_record =
  ptb_condition_id :: string
  ptb_reference :: official_reference
  ptb_established_at :: utc
  ptb_persistence_id :: string

definition ptb_record_checks :: "ptb_record \<Rightarrow> check list" where
  "ptb_record_checks r =
     [require_text ''condition_id'' (ptb_condition_id r),
      require_text ''persistence_id'' (ptb_persistence_id r)]"

definition mk_ptb_record :: "ptb_record \<Rightarrow> ptb_record result" where
  "mk_ptb_record r = checked (ptb_record_checks r) (Inr r)"

definition ptb_value :: "ptb_record \<Rightarrow> dec" where
  "ptb_value r = ref_value (ptb_reference r)"

definition establish_price_to_beat ::
  "market_discovery \<Rightarrow> official_reference \<Rightarrow> utc \<Rightarrow> string \<Rightarrow> reference_policy \<Rightarrow> ptb_record result" where
  "establish_price_to_beat d r observed_at persistence_id p =
     (let start = mkt_window_start (md_market d); tol = rfp_boundary_tolerance p in
      checked
        (official_identity_checks d r @
         [unavailable (\<not> ref_is_ptb r) ''official reference is not marked as price-to-beat'',
          unavailable (tol < \<bar>ref_effective_ts r - start\<bar>)
            ''official reference is not effective at window open'',
          unavailable (start + tol < observed_at) ''mid-window PTB reconstruction is forbidden'',
          unavailable (observed_at < start - tol)
            ''PTB cannot be established before boundary tolerance''] @
         fresh_timestamp_checks (ref_source_ts r) (ref_recv_ts r) observed_at p)
        (mk_ptb_record \<lparr>ptb_condition_id = mkt_condition_id (md_market d), ptb_reference = r,
           ptb_established_at = observed_at, ptb_persistence_id = persistence_id\<rparr>))"

definition restore_price_to_beat ::
  "market_discovery \<Rightarrow> ptb_record \<Rightarrow> utc \<Rightarrow> reference_policy \<Rightarrow> ptb_record result" where
  "restore_price_to_beat d r restored_at p =
     (let m = md_market d; start = mkt_window_start m in
      checked
        (official_identity_checks d (ptb_reference r) @
         [unavailable (ptb_condition_id r \<noteq> mkt_condition_id m)
            ''persisted PTB condition identity mismatch'',
          unavailable (start + rfp_boundary_tolerance p < ptb_established_at r)
            ''persisted PTB was established too late'',
          unavailable (restored_at < start \<or> mkt_window_end m \<le> restored_at)
            ''PTB may only be restored during its market window''])
        (Inr r))"

lemma establish_facts:
  assumes "establish_price_to_beat d r t pid p = Inr rec"
  shows "ptb_reference rec = r" "ptb_condition_id rec = mkt_condition_id (md_market d)"
    "ptb_established_at rec = t" "ptb_persistence_id rec = pid" "ref_is_ptb r"
    "passes (official_identity_checks d r)"
    "\<bar>t - mkt_window_start (md_market d)\<bar> \<le> rfp_boundary_tolerance p"
    "\<bar>ref_effective_ts r - mkt_window_start (md_market d)\<bar> \<le> rfp_boundary_tolerance p"
    "ref_source_ts r \<le> ref_recv_ts r" "ref_recv_ts r \<le> t"
    "passes (ptb_record_checks rec)"
  using assms
  by (auto simp: establish_price_to_beat_def Let_def mk_ptb_record_def contract_simps
    fresh_timestamp_checks_def)

section \<open>Official references\<close>

record hourly_candle =
  hc_asset :: asset
  hc_open_time :: utc
  hc_close_time :: utc
  hc_open_price :: dec
  hc_close_price :: dec
  hc_lineage :: event_lineage

definition hourly_candle_checks :: "hourly_candle \<Rightarrow> check list" where
  "hourly_candle_checks c =
     [fail_if (hc_close_time c \<le> hc_open_time c) (ValueErr ''close_time must follow open_time''),
      positive ''open_price'' (hc_open_price c),
      positive ''close_price'' (hc_close_price c)]"

definition valid_candle :: "hourly_candle \<Rightarrow> bool" where
  "valid_candle c \<longleftrightarrow> passes (hourly_candle_checks c)"

definition market_bucket_of :: "market \<Rightarrow> market_bucket" where
  "market_bucket_of m = \<lparr>bkt_asset = mkt_asset m, bkt_horizon = mkt_horizon m\<rparr>"

definition official_reference_from_chainlink_twap ::
  "market \<Rightarrow> chainlink_twap \<Rightarrow> utc \<Rightarrow> bool \<Rightarrow> official_reference result" where
  "official_reference_from_chainlink_twap m twap recv_ts is_ptb =
     (let source = official_reference_source (market_bucket_of m) in
      checked
        [unavailable (mkt_horizon m = ONE_HOUR)
           ''1h official reference must use Binance candle authority'',
         unavailable (cl_window_seconds twap \<noteq> 60)
           ''short-horizon official reference requires 60s TWAP'',
         unavailable (cl_asset twap \<noteq> mkt_asset m) ''Chainlink TWAP asset does not match market'',
         unavailable (mkt_settlement_source m \<noteq> source)
           ''market settlement source does not match Chainlink rule'']
        (mk_reference \<lparr>ref_id = ''official:'' @ mkt_condition_id m @ '':chainlink:''
             @ show_int (int_timestamp (cl_publisher_ts twap)),
           ref_market_id = mkt_id m, ref_asset = mkt_asset m, ref_value = cl_value twap,
           ref_source = source, ref_source_ts = cl_publisher_ts twap, ref_recv_ts = recv_ts,
           ref_effective_ts = cl_publisher_ts twap, ref_is_ptb = is_ptb\<rparr>))"

definition official_reference_from_binance_hourly_candle ::
  "market \<Rightarrow> hourly_candle \<Rightarrow> bool \<Rightarrow> official_reference result" where
  "official_reference_from_binance_hourly_candle m c is_ptb =
     (let source = official_reference_source (market_bucket_of m);
          value = (if is_ptb then hc_open_price c else hc_close_price c);
          effective = (if is_ptb then hc_open_time c else hc_close_time c);
          source_ts = (case lin_source_ts (hc_lineage c) of Some t \<Rightarrow> t | None \<Rightarrow> effective)
      in checked
        [unavailable (mkt_horizon m \<noteq> ONE_HOUR)
           ''short-horizon official reference must use Chainlink TWAP'',
         unavailable (hc_asset c \<noteq> mkt_asset m) ''Binance candle asset does not match market'',
         unavailable (hc_open_time c \<noteq> mkt_window_start m \<or> hc_close_time c \<noteq> mkt_window_end m)
           ''Binance candle does not match canonical 1h window'',
         unavailable (mkt_settlement_source m \<noteq> source)
           ''market settlement source does not match Binance rule'']
        (mk_reference \<lparr>ref_id = ''official:'' @ mkt_condition_id m @ '':binance-candle:''
             @ show_int (int_timestamp effective),
           ref_market_id = mkt_id m, ref_asset = mkt_asset m, ref_value = value,
           ref_source = source, ref_source_ts = source_ts,
           ref_recv_ts = lin_recv_ts (hc_lineage c), ref_effective_ts = effective,
           ref_is_ptb = is_ptb\<rparr>))"

fun reject_proxy_as_official :: "any_reference \<Rightarrow> unit result" where
  "reject_proxy_as_official (Proxy r) =
     Inl (TypeErr ''ProxyReference cannot be converted to OfficialReference'')"
| "reject_proxy_as_official (Official r) = Inr ()"

text \<open>Whichever authority it comes from, an official reference carries the identity of its market.\<close>

lemma chainlink_reference_identity:
  assumes "official_reference_from_chainlink_twap m twap recv is_ptb = Inr r" "md_market d = m"
  shows "passes (official_identity_checks d r)" "ref_value r = cl_value twap" "ref_is_ptb r = is_ptb"
    "mkt_horizon m \<noteq> ONE_HOUR"
  using assms
  by (auto simp: official_reference_from_chainlink_twap_def Let_def mk_reference_def contract_simps
    official_identity_checks_def)

lemma candle_reference_identity:
  assumes "official_reference_from_binance_hourly_candle m c is_ptb = Inr r" "md_market d = m"
  shows "passes (official_identity_checks d r)" "ref_is_ptb r = is_ptb" "mkt_horizon m = ONE_HOUR"
    "ref_value r = (if is_ptb then hc_open_price c else hc_close_price c)"
    "is_ptb \<Longrightarrow> ref_effective_ts r = mkt_window_start m"
  using assms
  by (auto simp: official_reference_from_binance_hourly_candle_def Let_def mk_reference_def
    contract_simps official_identity_checks_def)

end
