(* ===== verification/Write_Once.thy ===== *)
theory Write_Once
  imports Prelude
begin

text \<open>
  The contract of the durable tables that are written with \<open>INSERT OR IGNORE\<close> or guarded by a
  primary key: the first value stored under a key is the one every later reader sees, whatever is
  written afterwards. The components that persist a price to beat or a paper execution are clients
  of this contract.
\<close>

locale write_once_store =
  fixes lookup :: "'s \<Rightarrow> 'k \<Rightarrow> 'v option"
    and insert_once :: "'s \<Rightarrow> 'k \<Rightarrow> 'v \<Rightarrow> 's"
  assumes lookup_insert: "lookup (insert_once s k v) k' =
      (if k' = k then (case lookup s k of None \<Rightarrow> Some v | Some w \<Rightarrow> Some w) else lookup s k')"
begin

lemma lookup_same: "lookup (insert_once s k v) k = (case lookup s k of None \<Rightarrow> Some v | Some w \<Rightarrow> Some w)"
  by (simp add: lookup_insert)

lemma first_write_wins: "lookup s k = Some w \<Longrightarrow> lookup (insert_once s k' v) k = Some w"
  by (auto simp: lookup_insert split: option.splits)

lemma present_after_insert: "\<exists>w. lookup (insert_once s k v) k = Some w"
  by (simp add: lookup_insert split: option.splits)

definition write_all :: "'s \<Rightarrow> ('k \<times> 'v) list \<Rightarrow> 's" where
  "write_all s kvs = foldl (\<lambda>s (k, v). insert_once s k v) s kvs"

lemma lookup_write_all:
  "lookup (write_all s kvs) k = (case lookup s k of Some w \<Rightarrow> Some w | None \<Rightarrow> map_of kvs k)"
proof (induction kvs arbitrary: s)
  case Nil
  then show ?case by (simp add: write_all_def split: option.splits)
next
  case (Cons kv kvs)
  then show ?case
    by (cases kv) (auto simp: write_all_def lookup_insert split: option.splits)
qed

lemma write_all_stable: "lookup s k = Some w \<Longrightarrow> lookup (write_all s kvs) k = Some w"
  by (simp add: lookup_write_all)

end

section \<open>A table with a primary key\<close>

type_synonym ('k, 'v) table = "'k \<Rightarrow> 'v option"

definition insert_or_ignore :: "('k, 'v) table \<Rightarrow> 'k \<Rightarrow> 'v \<Rightarrow> ('k, 'v) table" where
  "insert_or_ignore t k v = (case t k of None \<Rightarrow> t(k \<mapsto> v) | Some _ \<Rightarrow> t)"

interpretation wo: write_once_store "\<lambda>t. t" insert_or_ignore
  by unfold_locales (auto simp: insert_or_ignore_def split: option.splits)

end
