(* ===== verification/Price_To_Beat.thy ===== *)
theory Price_To_Beat
  imports References Write_Once
begin

text \<open>
  \<open>market_data/ptb_repository.py\<close>: the identity of a price to beat, the table that keeps it, and the
  life of an opening value across restarts. \<open>save_once\<close> and \<open>get\<close> take and return the table.
\<close>

record ptb_identity =
  pid_asset :: asset
  pid_horizon :: horizon
  pid_market_id :: string
  pid_condition_id :: string
  pid_window_start :: utc
  pid_official_source :: string

definition ptb_identity_checks :: "ptb_identity \<Rightarrow> check list" where
  "ptb_identity_checks i =
     [require_text ''market_id'' (pid_market_id i),
      require_text ''condition_id'' (pid_condition_id i),
      require_text ''official_source'' (pid_official_source i)]"

definition persistence_id :: "ptb_identity \<Rightarrow> string" where
  "persistence_id i = ''ptb:'' @ asset_value (pid_asset i) @ '':'' @ horizon_value (pid_horizon i)
     @ '':'' @ pid_condition_id i @ '':'' @ show_int (int_timestamp (pid_window_start i))
     @ '':'' @ pid_official_source i"

record ptb_row =
  row_asset :: asset
  row_horizon :: horizon
  row_market_id :: string
  row_condition_id :: string
  row_window_start :: utc
  row_official_source :: string
  row_reference_id :: string
  row_value :: dec
  row_source_ts :: utc
  row_recv_ts :: utc
  row_effective_ts :: utc
  row_established_at :: utc

type_synonym ptb_table = "(string, ptb_row) table"

definition ptb_row_of :: "ptb_identity \<Rightarrow> ptb_record \<Rightarrow> ptb_row" where
  "ptb_row_of i r = (let ref = ptb_reference r in
     \<lparr>row_asset = pid_asset i, row_horizon = pid_horizon i, row_market_id = pid_market_id i,
      row_condition_id = pid_condition_id i, row_window_start = pid_window_start i,
      row_official_source = pid_official_source i, row_reference_id = ref_id ref,
      row_value = ref_value ref, row_source_ts = ref_source_ts ref, row_recv_ts = ref_recv_ts ref,
      row_effective_ts = ref_effective_ts ref, row_established_at = ptb_established_at r\<rparr>)"

definition ptb_of_row :: "ptb_identity \<Rightarrow> ptb_row \<Rightarrow> ptb_record result" where
  "ptb_of_row i w =
     bindr (mk_reference \<lparr>ref_id = row_reference_id w, ref_market_id = pid_market_id i,
         ref_asset = pid_asset i, ref_value = row_value w, ref_source = pid_official_source i,
         ref_source_ts = row_source_ts w, ref_recv_ts = row_recv_ts w,
         ref_effective_ts = row_effective_ts w, ref_is_ptb = True\<rparr>)
       (\<lambda>ref. mk_ptb_record \<lparr>ptb_condition_id = pid_condition_id i, ptb_reference = ref,
          ptb_established_at = row_established_at w, ptb_persistence_id = persistence_id i\<rparr>)"

definition ptb_get :: "ptb_table \<Rightarrow> ptb_identity \<Rightarrow> ptb_record option result" where
  "ptb_get t i = (case t (persistence_id i) of
       None \<Rightarrow> Inr None
     | Some w \<Rightarrow> bindr (ptb_of_row i w) (\<lambda>r. Inr (Some r)))"

definition ptb_save_once ::
  "ptb_table \<Rightarrow> ptb_identity \<Rightarrow> ptb_record \<Rightarrow> ptb_table \<times> ptb_record result" where
  "ptb_save_once t i r =
     (if ptb_persistence_id r \<noteq> persistence_id i then
        (t, Inl (ValueErr ''PTB persistence identity mismatch''))
      else if ptb_condition_id r \<noteq> pid_condition_id i then
        (t, Inl (ValueErr ''PTB condition identity mismatch''))
      else (let t' = insert_or_ignore t (persistence_id i) (ptb_row_of i r) in
        (t', bindr (ptb_get t' i) (\<lambda>restored. case restored of
           None \<Rightarrow> Inl (RuntimeErr ''PTB was not durably persisted'')
         | Some x \<Rightarrow> Inr x))))"

text \<open>A record describes an identity when it is what a market of that identity establishes.\<close>

definition describes :: "ptb_record \<Rightarrow> ptb_identity \<Rightarrow> bool" where
  "describes r i \<longleftrightarrow> ptb_persistence_id r = persistence_id i \<and> ptb_condition_id r = pid_condition_id i
     \<and> ref_market_id (ptb_reference r) = pid_market_id i \<and> ref_asset (ptb_reference r) = pid_asset i
     \<and> ref_source (ptb_reference r) = pid_official_source i \<and> ref_is_ptb (ptb_reference r)
     \<and> valid_reference (ptb_reference r) \<and> passes (ptb_record_checks r)"

lemma ptb_row_roundtrip: "describes r i \<Longrightarrow> ptb_of_row i (ptb_row_of i r) = Inr r"
  by (cases r; cases "ptb_reference r")
    (auto simp: describes_def ptb_of_row_def ptb_row_of_def Let_def mk_reference_def
      mk_ptb_record_def valid_reference_def reference_checks_def ptb_record_checks_def)

lemma ptb_get_row:
  "describes r i \<Longrightarrow> t (persistence_id i) = Some (ptb_row_of i r) \<Longrightarrow> ptb_get t i = Inr (Some r)"
  by (simp add: ptb_get_def ptb_row_roundtrip)

lemma ptb_save_fresh:
  assumes "describes r i" "t (persistence_id i) = None"
  shows "ptb_save_once t i r = (t(persistence_id i \<mapsto> ptb_row_of i r), Inr r)"
proof -
  let ?t = "insert_or_ignore t (persistence_id i) (ptb_row_of i r)"
  have "ptb_get ?t i = Inr (Some r)"
    using assms by (intro ptb_get_row) (simp_all add: insert_or_ignore_def)
  then show ?thesis
    using assms by (simp add: ptb_save_once_def describes_def insert_or_ignore_def)
qed

lemma ptb_save_present:
  assumes "describes r i" "t (persistence_id i) = Some (ptb_row_of i r)"
    and "ptb_persistence_id r' = persistence_id i" "ptb_condition_id r' = pid_condition_id i"
  shows "ptb_save_once t i r' = (t, Inr r)"
  using assms ptb_get_row [where t = t, OF assms(1,2)] by (simp add: ptb_save_once_def insert_or_ignore_def)

text \<open>What the other writers of the table do between two uses: any sequence of saves.\<close>

definition ptb_save_all :: "ptb_table \<Rightarrow> (ptb_identity \<times> ptb_record) list \<Rightarrow> ptb_table" where
  "ptb_save_all t saves = foldl (\<lambda>t (i, r). fst (ptb_save_once t i r)) t saves"

lemma ptb_save_once_table:
  "fst (ptb_save_once t i r) = t \<or>
   fst (ptb_save_once t i r) = insert_or_ignore t (persistence_id i) (ptb_row_of i r)"
  by (auto simp: ptb_save_once_def Let_def)

lemma ptb_save_once_stable: "t k = Some w \<Longrightarrow> fst (ptb_save_once t i r) k = Some w"
  using ptb_save_once_table [of t i r] wo.first_write_wins [of t k w] by auto

lemma ptb_save_all_stable: "t k = Some w \<Longrightarrow> ptb_save_all t saves k = Some w"
proof (induction saves arbitrary: t)
  case (Cons x xs)
  then show ?case
    by (cases x) (use ptb_save_once_stable in \<open>fastforce simp: ptb_save_all_def\<close>)
qed (simp add: ptb_save_all_def)

definition identity_of :: "market \<Rightarrow> ptb_identity" where
  "identity_of m = \<lparr>pid_asset = mkt_asset m, pid_horizon = mkt_horizon m, pid_market_id = mkt_id m,
     pid_condition_id = mkt_condition_id m, pid_window_start = mkt_window_start m,
     pid_official_source = mkt_settlement_source m\<rparr>"

lemma established_describes:
  assumes "establish_price_to_beat d r t (persistence_id (identity_of (md_market d))) p = Inr rec"
    and "valid_reference r"
  shows "describes rec (identity_of (md_market d))"
  using establish_facts [OF assms(1)] assms(2)
  by (auto simp: describes_def identity_of_def official_identity_checks_def)

text \<open>
  C6: A price to beat survives restarts unchanged. When an opening value is established for a
  market and saved in a table that has none for it, then after any further saves by anyone - also
  a competing record for the same market - reading it back gives exactly the established record,
  restoring it succeeds at every instant of the market window, and a second save for the market
  returns the first record and leaves the table as it is.
\<close>

theorem price_to_beat_survives_restart:
  assumes est: "establish_price_to_beat d r t (persistence_id (identity_of (md_market d))) p = Inr rec"
    and ref: "valid_reference r"
    and fresh: "tab (persistence_id (identity_of (md_market d))) = None"
    and tab': "tab' = ptb_save_all (fst (ptb_save_once tab (identity_of (md_market d)) rec)) saves"
    and now: "mkt_window_start (md_market d) \<le> now" "now < mkt_window_end (md_market d)"
    and late: "ptb_persistence_id rec' = persistence_id (identity_of (md_market d))"
      "ptb_condition_id rec' = mkt_condition_id (md_market d)"
  shows "ptb_get tab' (identity_of (md_market d)) = Inr (Some rec)
     \<and> restore_price_to_beat d rec now p = Inr rec
     \<and> ptb_value rec = ref_value r
     \<and> ptb_save_once tab' (identity_of (md_market d)) rec' = (tab', Inr rec)"
proof -
  let ?i = "identity_of (md_market d)"
  have desc: "describes rec ?i" using est ref by (rule established_describes)
  have "fst (ptb_save_once tab ?i rec) (persistence_id ?i) = Some (ptb_row_of ?i rec)"
    using ptb_save_fresh [where t = tab, OF desc fresh] by simp
  then have row: "tab' (persistence_id ?i) = Some (ptb_row_of ?i rec)"
    unfolding tab' by (rule ptb_save_all_stable)
  have "restore_price_to_beat d rec now p = Inr rec"
    using establish_facts [OF est] now by (simp add: restore_price_to_beat_def Let_def)
  moreover have "ptb_save_once tab' ?i rec' = (tab', Inr rec)"
    using late by (intro ptb_save_present [where t = tab', OF desc row]) (simp_all add: identity_of_def)
  ultimately show ?thesis
    using ptb_get_row [where t = tab', OF desc row] establish_facts(1) [OF est] by (simp add: ptb_value_def)
qed

definition sample_market :: market where
  "sample_market = \<lparr>mkt_id = ''m1'', mkt_condition_id = ''c1'', mkt_asset = BTC,
     mkt_horizon = FIVE_MINUTES,
     mkt_tokens = [\<lparr>tok_id = ''up'', tok_outcome = UP\<rparr>, \<lparr>tok_id = ''down'', tok_outcome = DOWN\<rparr>],
     mkt_window_start = seconds 1700000100, mkt_window_end = seconds 1700000400,
     mkt_settlement_source = official_twap_source BTC\<rparr>"

definition sample_lineage :: event_lineage where
  "sample_lineage = \<lparr>lin_source = POLYMARKET_GAMMA, lin_source_ts = Some (seconds 1700000000),
     lin_recv_ts = seconds 1700000001, lin_normalized_ts = seconds 1700000001,
     lin_recv_monotonic_ns = 5\<rparr>"

definition sample_discovery :: market_discovery where
  "sample_discovery = \<lparr>md_event_id = ''e1'', md_slug = ''btc-updown-5m-1700000100'',
     md_question = ''BTC up or down?'', md_market = sample_market,
     md_settlement = \<lparr>sm_market_id = ''m1'', sm_condition_id = ''c1'',
       sm_resolution_source = official_twap_source BTC, sm_rules = ''r'', sm_method = CHAINLINK_TWAP,
       sm_configuration_id = Some ''btc-5m-twap-60'', sm_asset = BTC, sm_horizon = FIVE_MINUTES,
       sm_reference_period = 60, sm_version = ''v1'', sm_lineage = sample_lineage\<rparr>\<rparr>"

definition sample_opening :: official_reference where
  "sample_opening = \<lparr>ref_id = ''official:c1'', ref_market_id = ''m1'', ref_asset = BTC,
     ref_value = 37000, ref_source = official_twap_source BTC, ref_source_ts = seconds 1700000100,
     ref_recv_ts = seconds 1700000101, ref_effective_ts = seconds 1700000100, ref_is_ptb = True\<rparr>"

definition sample_policy :: reference_policy where
  "sample_policy = \<lparr>rfp_max_source_age = seconds 10, rfp_max_receive_latency = seconds 5,
     rfp_boundary_tolerance = seconds 5\<rparr>"

definition sample_ptb :: ptb_record where
  "sample_ptb = \<lparr>ptb_condition_id = ''c1'', ptb_reference = sample_opening,
     ptb_established_at = seconds 1700000102,
     ptb_persistence_id = persistence_id (identity_of sample_market)\<rparr>"

lemmas sample_ptb_defs = sample_market_def sample_discovery_def sample_opening_def
  sample_policy_def sample_ptb_def

lemma persistence_id_text: "require_text n (persistence_id i) = None"
  if "pid_official_source i = official_twap_source BTC"
  using that by (simp add: persistence_id_def py_space_def)

lemma sample_established:
  "establish_price_to_beat sample_discovery sample_opening (seconds 1700000102)
     (persistence_id (identity_of sample_market)) sample_policy = Inr sample_ptb"
proof -
  have "require_text ''persistence_id'' (persistence_id (identity_of sample_market)) = None"
    by (rule persistence_id_text) (simp add: identity_of_def sample_market_def)
  then show ?thesis
    by (simp add: establish_price_to_beat_def Let_def mk_ptb_record_def ptb_record_checks_def
      official_identity_checks_def fresh_timestamp_checks_def sample_ptb_defs seconds_def
      py_space_def del: require_text_None)
     (simp add: require_text_def py_strip_def py_space_def)
qed

theorem price_to_beat_survives_restart_witness:
  "\<exists>tab'. ptb_get tab' (identity_of sample_market) = Inr (Some sample_ptb)
     \<and> restore_price_to_beat sample_discovery sample_ptb (seconds 1700000399) sample_policy
       = Inr sample_ptb"
proof -
  have m: "md_market sample_discovery = sample_market" by (simp add: sample_discovery_def)
  have "valid_reference sample_opening"
    by (simp add: valid_reference_def reference_checks_def sample_opening_def py_space_def)
  then show ?thesis
    using price_to_beat_survives_restart [of sample_discovery sample_opening "seconds 1700000102"
        sample_policy sample_ptb "\<lambda>k. None" _ "[]" "seconds 1700000399" sample_ptb] sample_established
    by (fastforce simp: m sample_market_def sample_ptb_def seconds_def)
qed

end
