(* ===== verification/Scheduler.thy ===== *)
theory Scheduler
  imports Price_To_Beat "HOL-Library.Multiset"
begin

text \<open>
  \<open>OfficialPriceToBeatService\<close> of \<open>market_data/official_runtime.py\<close> and \<open>shadow/ptb_scheduler.py\<close>: resolving the
  official price to beat of a discovered market, and the scheduler that tries to do so at every
  canonical boundary. The asynchronous loop of one window is a function of what the environment does
  at each turn (\<open>attempt_step\<close>: the clock at the head of the loop, the outcome of discovery and
  resolution, the clock before the sleep); the value \<open>None\<close> means that the loop still waits. The
  scheduler's ticks and the completion of its tasks are a step relation. The lemmas bound the number
  of attempts, show that the loop always ends, and that a boundary is never recorded twice.
\<close>

section \<open>Resolving a price to beat\<close>

record ptb_resolution =
  pr_ptb :: "ptb_record option"
  pr_reference :: "official_reference option"
  pr_status :: string
  pr_reason :: string
  pr_restored :: bool

definition resolution_ready :: "ptb_resolution \<Rightarrow> bool" where
  "resolution_ready r \<longleftrightarrow> pr_ptb r \<noteq> None"

definition unavailable_resolution :: "official_reference option \<Rightarrow> string \<Rightarrow> ptb_resolution" where
  "unavailable_resolution ref reason = \<lparr>pr_ptb = None, pr_reference = ref, pr_status = ''PTB_UNAVAILABLE'',
     pr_reason = reason, pr_restored = False\<rparr>"

definition ready_resolution :: "ptb_record \<Rightarrow> bool \<Rightarrow> ptb_resolution" where
  "ready_resolution r restored = \<lparr>pr_ptb = Some r, pr_reference = Some (ptb_reference r), pr_status = ''PTB_READY'',
     pr_reason = (if restored then ''PTB_RESTORED'' else ''PTB_ESTABLISHED''), pr_restored = restored\<rparr>"

text \<open>The \<open>except ReferenceUnavailableError\<close> clauses: every other exception escapes.\<close>

definition on_unavailable :: "'a result \<Rightarrow> (string \<Rightarrow> 'a) \<Rightarrow> 'a result" where
  "on_unavailable m h = (case m of Inl (ReferenceUnavailableError msg) \<Rightarrow> Inr (h msg) | r \<Rightarrow> r)"

definition establish_rejection :: "market_discovery \<Rightarrow> official_reference \<Rightarrow> string \<Rightarrow> ptb_resolution" where
  "establish_rejection d ref msg = unavailable_resolution (Some ref)
     ((if mkt_horizon (md_market d) = ONE_HOUR \<and> sublist ''Binance candle'' msg
       then ''BINANCE_HOURLY_WINDOW_MISMATCH'' else ''PTB_ESTABLISH_REJECTED'') @ '':ReferenceUnavailableError'')"

definition establish_resolution :: "ptb_table \<Rightarrow> market_discovery \<Rightarrow> official_reference \<Rightarrow> reference_policy \<Rightarrow>
    ptb_table \<times> ptb_resolution result" where
  "establish_resolution t d ref p =
     (let i = identity_of (md_market d) in
      case establish_price_to_beat d ref (ref_recv_ts ref) (persistence_id i) p of
        Inl e \<Rightarrow> (t, on_unavailable (Inl e) (establish_rejection d ref))
      | Inr r \<Rightarrow> (let (t', saved) = ptb_save_once t i r in
          (t', on_unavailable (bindr saved (\<lambda>s. Inr (ready_resolution s False))) (establish_rejection d ref))))"

text \<open>
  What the collector of the market's horizon delivers for the boundary: nothing, with the reason it
  reports, an exception that escapes, or an official reference.
\<close>

datatype boundary_source = No_opening string | Opening_error py_error | Opening official_reference

definition ptb_resolve :: "ptb_table \<Rightarrow> market_discovery \<Rightarrow> utc \<Rightarrow> boundary_source \<Rightarrow> reference_policy \<Rightarrow>
    ptb_table \<times> ptb_resolution result" where
  "ptb_resolve t d observed_at src p =
     (case ptb_get t (identity_of (md_market d)) of
        Inl e \<Rightarrow> (t, Inl e)
      | Inr (Some stored) \<Rightarrow> (t, on_unavailable
          (bindr (restore_price_to_beat d stored observed_at p) (\<lambda>r. Inr (ready_resolution r True)))
          (\<lambda>msg. unavailable_resolution (Some (ptb_reference stored)) ''PTB_RESTORE_REJECTED:ReferenceUnavailableError''))
      | Inr None \<Rightarrow> (case src of
          No_opening reason \<Rightarrow> (t, Inr (unavailable_resolution None reason))
        | Opening_error e \<Rightarrow> (t, Inl e)
        | Opening ref \<Rightarrow> establish_resolution t d ref p))"

section \<open>The attempts of one window\<close>

record scheduler_config =
  sc_settle_delay :: timedelta
  sc_retry_interval :: timedelta

definition scheduler_config_checks :: "scheduler_config \<Rightarrow> check list" where
  "scheduler_config_checks c =
     [fail_if (sc_settle_delay c < 0) (ValueErr ''settle_delay_seconds must be non-negative''),
      fail_if (sc_retry_interval c \<le> 0) (ValueErr ''retry_interval_seconds must be positive'')]"

record attempt_state =
  at_detected :: utc
  at_first :: "utc option"
  at_last :: "utc option"
  at_count :: nat

text \<open>Expected failures are the market-data, timeout and client errors; any other exception ends the task.\<close>

datatype attempt_outcome = Resolved ptb_resolution | Expected_failure string | Unexpected py_error

record attempt_step =
  step_now :: utc
  step_outcome :: attempt_outcome
  step_after :: utc

record scheduler_result =
  sr_bucket :: market_bucket
  sr_start :: utc
  sr_end :: utc
  sr_detected :: utc
  sr_first :: "utc option"
  sr_last :: "utc option"
  sr_lag_ms :: int
  sr_attempts :: nat
  sr_outcome :: string
  sr_status :: string
  sr_reason :: string
  sr_ptb :: "ptb_record option"
  sr_restored :: bool
  sr_error :: "string option"

definition lag_ms :: "utc \<Rightarrow> utc \<Rightarrow> int" where
  "lag_ms now start = py_trunc (fl (fl (of_int (now - start) / 1000000) * 1000))"

definition ready_result :: "market_bucket \<Rightarrow> utc \<Rightarrow> utc \<Rightarrow> attempt_state \<Rightarrow> ptb_resolution \<Rightarrow> string option \<Rightarrow>
    scheduler_result" where
  "ready_result b start stop st r err =
     \<lparr>sr_bucket = b, sr_start = start, sr_end = stop, sr_detected = at_detected st, sr_first = at_first st,
      sr_last = at_last st, sr_lag_ms = lag_ms (at_detected st) start, sr_attempts = at_count st,
      sr_outcome = ''PTB_READY'', sr_status = pr_status r, sr_reason = pr_reason r, sr_ptb = pr_ptb r,
      sr_restored = pr_restored r, sr_error = err\<rparr>"

definition deadline_result :: "market_bucket \<Rightarrow> utc \<Rightarrow> utc \<Rightarrow> attempt_state \<Rightarrow> ptb_resolution option \<Rightarrow>
    string option \<Rightarrow> scheduler_result" where
  "deadline_result b start stop st prev err =
     \<lparr>sr_bucket = b, sr_start = start, sr_end = stop, sr_detected = at_detected st, sr_first = at_first st,
      sr_last = at_last st, sr_lag_ms = lag_ms (at_detected st) start, sr_attempts = at_count st,
      sr_outcome = ''ATTEMPTS_EXHAUSTED'',
      sr_status = (case prev of Some r \<Rightarrow> pr_status r | None \<Rightarrow> ''PTB_UNAVAILABLE''),
      sr_reason = (case prev of Some r \<Rightarrow> pr_reason r
        | None \<Rightarrow> if err \<noteq> None then ''DISCOVERY_UNAVAILABLE'' else ''ATTEMPTS_EXHAUSTED''),
      sr_ptb = (case prev of Some r \<Rightarrow> if resolution_ready r then pr_ptb r else None | None \<Rightarrow> None),
      sr_restored = (case prev of Some r \<Rightarrow> pr_restored r | None \<Rightarrow> False), sr_error = err\<rparr>"

definition missed_result :: "market_bucket \<Rightarrow> utc \<Rightarrow> utc \<Rightarrow> utc \<Rightarrow> scheduler_result" where
  "missed_result b start stop now =
     \<lparr>sr_bucket = b, sr_start = start, sr_end = stop, sr_detected = now, sr_first = None, sr_last = None,
      sr_lag_ms = lag_ms now start, sr_attempts = 0, sr_outcome = ''MISSED_BOUNDARY'',
      sr_status = ''PTB_UNAVAILABLE'', sr_reason = ''MISSED_BOUNDARY'', sr_ptb = None, sr_restored = False,
      sr_error = None\<rparr>"

definition begin_attempt :: "attempt_state \<Rightarrow> utc \<Rightarrow> attempt_state" where
  "begin_attempt st now = st\<lparr>at_count := at_count st + 1, at_last := Some now,
     at_first := (case at_first st of None \<Rightarrow> Some now | Some t \<Rightarrow> Some t)\<rparr>"

record window_task =
  wt_bucket :: market_bucket
  wt_start :: utc
  wt_end :: utc
  wt_deadline :: utc

fun run_bucket_window :: "scheduler_config \<Rightarrow> window_task \<Rightarrow> attempt_state \<Rightarrow> ptb_resolution option \<Rightarrow>
    string option \<Rightarrow> attempt_step list \<Rightarrow> scheduler_result result option" where
  "run_bucket_window c w st prev err [] = None"
| "run_bucket_window c w st prev err (x # xs) =
     (if wt_deadline w < step_now x then
        Some (Inr (deadline_result (wt_bucket w) (wt_start w) (wt_end w) st prev err))
      else let st' = begin_attempt st (step_now x) in
        case step_outcome x of
          Unexpected e \<Rightarrow> Some (Inl e)
        | Expected_failure msg \<Rightarrow>
            (if wt_deadline w < step_after x + sc_retry_interval c
             then Some (Inr (deadline_result (wt_bucket w) (wt_start w) (wt_end w) st' prev (Some msg)))
             else run_bucket_window c w st' prev (Some msg) xs)
        | Resolved r \<Rightarrow>
            (if resolution_ready r
             then Some (Inr (ready_result (wt_bucket w) (wt_start w) (wt_end w) st' r err))
             else if wt_deadline w < step_after x + sc_retry_interval c
             then Some (Inr (deadline_result (wt_bucket w) (wt_start w) (wt_end w) st' (Some r) err))
             else run_bucket_window c w st' (Some r) err xs))"

section \<open>The scheduler\<close>

type_synonym window_key = "market_bucket \<times> utc"

record scheduler =
  sch_states :: "window_key list"
  sch_tasks :: "window_key list"
  sch_recorded :: "scheduler_result list"

definition result_key :: "scheduler_result \<Rightarrow> window_key" where
  "result_key r = (sr_bucket r, sr_start r)"

definition three_hours :: timedelta where "three_hours = seconds 10800"

definition prune_old_state :: "utc \<Rightarrow> scheduler \<Rightarrow> scheduler" where
  "prune_old_state now s = s\<lparr>sch_states :=
     filter (\<lambda>(b, start). \<not> start + window_duration b < now - three_hours) (sch_states s)\<rparr>"

definition due_bucket :: "scheduler_config \<Rightarrow> reference_policy \<Rightarrow> utc \<Rightarrow> market_bucket \<Rightarrow> scheduler \<Rightarrow> scheduler result" where
  "due_bucket c p now b s = bindr (window_containing b now) (\<lambda>w.
     let key = (b, win_start w) in
     if key \<in> set (sch_states s) \<or> key \<in> set (sch_tasks s) then Inr s
     else if now < win_start w + sc_settle_delay c then Inr s
     else if win_start w + rfp_boundary_tolerance p < now
       then Inr (s\<lparr>sch_states := key # sch_states s,
         sch_recorded := sch_recorded s @ [missed_result b (win_start w) (win_end w) now]\<rparr>)
     else Inr (s\<lparr>sch_states := key # sch_states s, sch_tasks := key # sch_tasks s\<rparr>))"

fun due_buckets :: "scheduler_config \<Rightarrow> reference_policy \<Rightarrow> utc \<Rightarrow> market_bucket list \<Rightarrow> scheduler \<Rightarrow> scheduler result" where
  "due_buckets c p now [] s = Inr s"
| "due_buckets c p now (b # bs) s = bindr (due_bucket c p now b s) (due_buckets c p now bs)"

definition run_due_once :: "scheduler_config \<Rightarrow> reference_policy \<Rightarrow> utc \<Rightarrow> scheduler \<Rightarrow> scheduler result" where
  "run_due_once c p now s = due_buckets c p now supported_market_buckets (prune_old_state now s)"

text \<open>
  Ticks at non-decreasing instants, and tasks that end: with a recorded result of their own window,
  or (an unexpected exception) with none.
\<close>

inductive scheduler_reach :: "scheduler_config \<Rightarrow> reference_policy \<Rightarrow> utc \<Rightarrow> scheduler \<Rightarrow> bool"
  for c :: scheduler_config and p :: reference_policy where
  start: "scheduler_reach c p now \<lparr>sch_states = [], sch_tasks = [], sch_recorded = []\<rparr>"
| tick: "scheduler_reach c p now s \<Longrightarrow> now \<le> now' \<Longrightarrow> instant now' \<Longrightarrow> run_due_once c p now' s = Inr s' \<Longrightarrow> scheduler_reach c p now' s'"
| finish: "scheduler_reach c p now s \<Longrightarrow> result_key r \<in> set (sch_tasks s) \<Longrightarrow>
    scheduler_reach c p now (s\<lparr>sch_tasks := removeAll (result_key r) (sch_tasks s), sch_recorded := sch_recorded s @ [r]\<rparr>)"
| crash: "scheduler_reach c p now s \<Longrightarrow>
    scheduler_reach c p now (s\<lparr>sch_tasks := removeAll k (sch_tasks s)\<rparr>)"

inductive_cases scheduler_reachE: "scheduler_reach c p now s"

section \<open>The loop ends\<close>

text \<open>The clock never goes back, and a sleep lasts at least the retry interval.\<close>

fun clock_ok :: "timedelta \<Rightarrow> attempt_step list \<Rightarrow> bool" where
  "clock_ok d [] \<longleftrightarrow> True"
| "clock_ok d (x # xs) \<longleftrightarrow> step_now x \<le> step_after x
     \<and> (case xs of [] \<Rightarrow> True | y # ys \<Rightarrow> step_after x + d \<le> step_now y) \<and> clock_ok d xs"

lemma run_bucket_window_ends:
  assumes "0 < sc_retry_interval c" "clock_ok (sc_retry_interval c) xs" "xs \<noteq> []"
    "wt_deadline w - step_now (hd xs) < int (length xs) * sc_retry_interval c"
  shows "\<exists>res. run_bucket_window c w st prev err xs = Some res"
  using assms
proof (induction xs arbitrary: st prev err)
  case (Cons x xs)
  show ?case
  proof (cases "wt_deadline w < step_now x \<or> wt_deadline w < step_after x + sc_retry_interval c")
    case True
    then show ?thesis by (auto simp: Let_def split: attempt_outcome.splits)
  next
    case False
    with Cons.prems obtain y ys where xs: "xs = y # ys" by (cases xs) (auto simp: algebra_simps)
    have "wt_deadline w - step_now y < int (length xs) * sc_retry_interval c"
      using Cons.prems xs by (simp add: algebra_simps)
    then have "\<exists>res. run_bucket_window c w st prev err xs = Some res" for st prev err
      using Cons.IH Cons.prems(1,2) xs by simp
    with False show ?thesis by (auto simp: Let_def split: attempt_outcome.splits)
  qed
qed simp

definition attempts_within :: "scheduler_config \<Rightarrow> window_task \<Rightarrow> nat \<Rightarrow> utc \<Rightarrow> scheduler_result \<Rightarrow> bool" where
  "attempts_within c w n now r \<longleftrightarrow>
     (int (sr_attempts r) - int n) * sc_retry_interval c \<le> max 0 (wt_deadline w - now + sc_retry_interval c)"

definition result_of_steps :: "window_task \<Rightarrow> attempt_step list \<Rightarrow> scheduler_result \<Rightarrow> bool" where
  "result_of_steps w xs r \<longleftrightarrow> result_key r = (wt_bucket w, wt_start w) \<and> sr_end r = wt_end w
     \<and> (sr_outcome r = ''PTB_READY'' \<longleftrightarrow> sr_ptb r \<noteq> None)
     \<and> (sr_outcome r = ''PTB_READY'' \<or> sr_outcome r = ''ATTEMPTS_EXHAUSTED'')
     \<and> (\<forall>q. sr_ptb r = Some q \<longrightarrow> (\<exists>x\<in>set xs. \<exists>z. step_outcome x = Resolved z \<and> pr_ptb z = Some q
          \<and> step_now x \<le> wt_deadline w \<and> sr_last r = Some (step_now x)))"

lemma deadline_result_attempts: "sr_attempts (deadline_result b start stop st prev err) = at_count st"
  by (simp add: deadline_result_def)

lemma run_bucket_window_result:
  assumes "0 < sc_retry_interval c" "clock_ok (sc_retry_interval c) xs" "xs \<noteq> []"
    "run_bucket_window c w st prev err xs = Some res" "pred_option (\<lambda>r. \<not> resolution_ready r) prev"
  shows "case res of Inl e \<Rightarrow> \<exists>x\<in>set xs. step_outcome x = Unexpected e
    | Inr r \<Rightarrow> result_of_steps w xs r \<and> attempts_within c w (at_count st) (step_now (hd xs)) r"
  using assms
proof (induction xs arbitrary: st prev err)
  case (Cons x xs)
  let ?d = "sc_retry_interval c" and ?st = "begin_attempt st (step_now x)"
  have count: "at_count ?st = at_count st + 1" by (simp add: begin_attempt_def)
  have dl: "result_of_steps w (x # xs) (deadline_result (wt_bucket w) (wt_start w) (wt_end w) s l e)"
    if "pred_option (\<lambda>r. \<not> resolution_ready r) l" for s l e
    using that by (auto simp: result_of_steps_def deadline_result_def result_key_def split: option.splits)
  show ?case
  proof (cases "wt_deadline w < step_now x")
    case True
    then have "res = Inr (deadline_result (wt_bucket w) (wt_start w) (wt_end w) st prev err)"
      using Cons.prems(4) by simp
    then show ?thesis using dl [OF Cons.prems(5)] by (simp add: attempts_within_def deadline_result_attempts)
  next
    case False
    have rest: "case res of Inl e \<Rightarrow> \<exists>y\<in>set (x # xs). step_outcome y = Unexpected e
        | Inr r \<Rightarrow> result_of_steps w (x # xs) r \<and> attempts_within c w (at_count st) (step_now (hd (x # xs))) r"
      if run: "run_bucket_window c w ?st l e xs = Some res" and l: "pred_option (\<lambda>r. \<not> resolution_ready r) l"
        and go: "\<not> wt_deadline w < step_after x + ?d" for l e
    proof -
      have ne: "xs \<noteq> []" using run by auto
      have ih: "case res of Inl e \<Rightarrow> \<exists>x\<in>set xs. step_outcome x = Unexpected e
          | Inr r \<Rightarrow> result_of_steps w xs r \<and> attempts_within c w (at_count ?st) (step_now (hd xs)) r"
        using Cons.IH [OF Cons.prems(1) _ ne run l] Cons.prems(2) by simp
      have "step_now x + ?d \<le> step_now (hd xs)" using Cons.prems(2) ne by (cases xs) auto
      then have "attempts_within c w (at_count st) (step_now x) r"
        if "attempts_within c w (at_count ?st) (step_now (hd xs)) r" for r
        using that go Cons.prems(1,2) by (simp add: attempts_within_def count algebra_simps max_def split: if_splits)
      with ih show ?thesis by (cases res) (auto simp: result_of_steps_def)
    qed
    have one: "attempts_within c w (at_count st) (step_now x) r" if "sr_attempts r = at_count st + 1" for r
      using that False Cons.prems(1) by (simp add: attempts_within_def)
    show ?thesis
    proof (cases "step_outcome x")
      case (Unexpected e)
      then show ?thesis using Cons.prems(4) False by auto
    next
      case (Expected_failure msg)
      show ?thesis
      proof (cases "wt_deadline w < step_after x + ?d")
        case True
        then have "res = Inr (deadline_result (wt_bucket w) (wt_start w) (wt_end w) ?st prev (Some msg))"
          using Cons.prems(4) False Expected_failure by simp
        then show ?thesis using dl [OF Cons.prems(5)] one by (simp add: deadline_result_attempts count)
      next
        case go: False
        then show ?thesis using rest [OF _ Cons.prems(5) go] Cons.prems(4) False Expected_failure by simp
      qed
    next
      case (Resolved z)
      consider "resolution_ready z" | "\<not> resolution_ready z" "wt_deadline w < step_after x + ?d"
        | "\<not> resolution_ready z" "\<not> wt_deadline w < step_after x + ?d" by blast
      then show ?thesis
      proof cases
        case 1
        then have r: "res = Inr (ready_result (wt_bucket w) (wt_start w) (wt_end w) ?st z err)"
          using Cons.prems(4) False Resolved by simp
        then show ?thesis using 1 one False Resolved
          by (auto simp: ready_result_def result_of_steps_def result_key_def resolution_ready_def count begin_attempt_def)
      next
        case 2
        then have "res = Inr (deadline_result (wt_bucket w) (wt_start w) (wt_end w) ?st (Some z) err)"
          using Cons.prems(4) False Resolved by simp
        then show ?thesis using dl [of "Some z"] 2 one by (simp add: deadline_result_attempts count)
      next
        case 3
        then show ?thesis using rest [of "Some z"] Cons.prems(4) False Resolved by simp
      qed
    qed
  qed
qed simp

text \<open>C28: the attempts of a boundary end: on a clock that never goes back, with sleeps of at least the retry
  interval, the loop of a window returns after a bounded number of turns - as many as the interval
  fits into the time left to the deadline, plus one - with one result of its own window, unless an
  unexpected exception ends the task; the result is \<open>PTB_READY\<close> exactly when it carries a price to
  beat, and that price was resolved by an attempt started before the deadline.\<close>

theorem boundary_attempts_end:
  assumes "0 < sc_retry_interval c" "clock_ok (sc_retry_interval c) xs" "xs \<noteq> []"
    "wt_deadline w - step_now (hd xs) < int (length xs) * sc_retry_interval c"
  shows "\<exists>res. run_bucket_window c w \<lparr>at_detected = t, at_first = None, at_last = None, at_count = 0\<rparr> None None xs
      = Some res
    \<and> (case res of Inl e \<Rightarrow> \<exists>x\<in>set xs. step_outcome x = Unexpected e
       | Inr r \<Rightarrow> result_of_steps w xs r
           \<and> int (sr_attempts r) * sc_retry_interval c \<le> max 0 (wt_deadline w - step_now (hd xs) + sc_retry_interval c))"
proof -
  let ?st = "\<lparr>at_detected = t, at_first = None, at_last = None, at_count = 0\<rparr>"
  obtain res where r: "run_bucket_window c w ?st None None xs = Some res"
    using run_bucket_window_ends [OF assms] by blast
  then show ?thesis
    using run_bucket_window_result [OF assms(1-3) r] by (auto simp: attempts_within_def split: sum.splits)
qed

section \<open>A boundary is recorded once\<close>

definition known_boundaries :: "scheduler \<Rightarrow> window_key list" where
  "known_boundaries s = map result_key (sch_recorded s) @ sch_tasks s"

definition forgotten :: "utc \<Rightarrow> window_key \<Rightarrow> bool" where
  "forgotten now k \<longleftrightarrow> snd k + window_duration (fst k) < now - three_hours"

definition scheduler_inv :: "utc \<Rightarrow> scheduler \<Rightarrow> bool" where
  "scheduler_inv now s \<longleftrightarrow> distinct (known_boundaries s)
     \<and> (\<forall>k\<in>set (known_boundaries s). k \<in> set (sch_states s) \<or> forgotten now k)
     \<and> (\<forall>k\<in>set (sch_states s). \<not> forgotten now k)"

lemma scheduler_inv_prune:
  assumes "scheduler_inv now s" "now \<le> now'" shows "scheduler_inv now' (prune_old_state now' s)"
proof -
  have "known_boundaries (prune_old_state now' s) = known_boundaries s"
    "set (sch_states (prune_old_state now' s)) = {k \<in> set (sch_states s). \<not> forgotten now' k}"
    by (auto simp: prune_old_state_def known_boundaries_def forgotten_def)
  moreover have "forgotten now k \<Longrightarrow> forgotten now' k" for k using assms(2) by (simp add: forgotten_def)
  ultimately show ?thesis using assms(1) unfolding scheduler_inv_def by simp blast
qed

lemma scheduler_inv_due:
  assumes "scheduler_inv now s" "instant now" "due_bucket c p now b s = Inr s'"
  shows "scheduler_inv now s'"
proof -
  obtain w where w: "window_containing b now = Inr w" "now < win_end w" "win_end w = win_start w + window_duration b"
    using window_containing_eq [OF assms(2), of b] pos_mod_bound [of "window_duration b" now]
      expected_duration_simps(1) [of "bkt_horizon b"] by simp
  let ?k = "(b, win_start w)"
  show ?thesis
  proof (cases "s' = s")
    case False
    then have k: "?k \<notin> set (sch_states s)" "?k \<notin> set (sch_tasks s)"
      and s': "s' = s\<lparr>sch_states := ?k # sch_states s,
          sch_recorded := sch_recorded s @ [missed_result b (win_start w) (win_end w) now]\<rparr>
        \<or> s' = s\<lparr>sch_states := ?k # sch_states s, sch_tasks := ?k # sch_tasks s\<rparr>"
      using assms(3) w(1) by (auto simp: due_bucket_def Let_def split: if_splits)
    have "0 < three_hours" by (simp add: three_hours_def seconds_def)
    then have "\<not> forgotten now ?k" using w(2,3) by (simp add: forgotten_def)
    then have new: "?k \<notin> set (known_boundaries s)" using assms(1) k(1) unfolding scheduler_inv_def by blast
    have key: "result_key (missed_result b (win_start w) (win_end w) now) = ?k"
      by (simp add: result_key_def missed_result_def)
    have m: "mset (known_boundaries s') = mset (?k # known_boundaries s)"
      using s' key by (auto simp: known_boundaries_def)
    have "distinct (?k # known_boundaries s)" using new assms(1) by (simp add: scheduler_inv_def)
    then have "distinct (known_boundaries s')" using mset_eq_imp_distinct_iff [OF m] by simp
    moreover have "set (known_boundaries s') = insert ?k (set (known_boundaries s))" using mset_eq_setD [OF m] by simp
    moreover have "set (sch_states s') = insert ?k (set (sch_states s))" using s' by auto
    ultimately show ?thesis using assms(1) \<open>\<not> forgotten now ?k\<close> unfolding scheduler_inv_def by simp
  qed (use assms(1) in simp)
qed

lemma scheduler_inv_dues: "scheduler_inv now s \<Longrightarrow> instant now \<Longrightarrow> due_buckets c p now bs s = Inr s' \<Longrightarrow> scheduler_inv now s'"
  by (induction c p now bs s rule: due_buckets.induct) (auto simp: bindr_Inr_iff intro: scheduler_inv_due)

lemma scheduler_inv_shrink:
  assumes "scheduler_inv now s" "distinct (known_boundaries s')" "set (known_boundaries s') \<subseteq> set (known_boundaries s)"
    "sch_states s' = sch_states s"
  shows "scheduler_inv now s'"
  using assms unfolding scheduler_inv_def by auto

lemma scheduler_reach_inv: "scheduler_reach c p now s \<Longrightarrow> scheduler_inv now s"
proof (induction rule: scheduler_reach.induct)
  case (tick now s now' s')
  then show ?case
    unfolding run_due_once_def using scheduler_inv_dues scheduler_inv_prune by blast
next
  case (finish now s r)
  then show ?case
    by (intro scheduler_inv_shrink [OF finish.IH]) (auto simp: known_boundaries_def scheduler_inv_def distinct_removeAll)
next
  case (crash now s k)
  then show ?case
    by (intro scheduler_inv_shrink [OF crash.IH]) (auto simp: known_boundaries_def scheduler_inv_def distinct_removeAll)
qed (simp add: scheduler_inv_def known_boundaries_def)

text \<open>C29: whatever the order of ticks and of tasks that end, the scheduler records at most one result for each
  bucket and window start, never while that window's task still runs, and never runs two tasks for
  the same boundary. Every boundary that is recorded or runs is among the scheduler's states until its
  window has been over for more than three hours, and the states hold no boundary older than that.\<close>

theorem boundary_is_recorded_once:
  assumes "scheduler_reach c p now s"
  shows "distinct (map result_key (sch_recorded s)) \<and> distinct (sch_tasks s)
    \<and> set (map result_key (sch_recorded s)) \<inter> set (sch_tasks s) = {}
    \<and> (\<forall>k\<in>set (map result_key (sch_recorded s)) \<union> set (sch_tasks s).
        k \<in> set (sch_states s) \<or> snd k + window_duration (fst k) + 3 * 60 * 60 * 1000000 < now)
    \<and> (\<forall>k\<in>set (sch_states s). now \<le> snd k + window_duration (fst k) + 3 * 60 * 60 * 1000000)"
proof -
  have old: "forgotten now k \<longleftrightarrow> snd k + window_duration (fst k) + 3 * 60 * 60 * 1000000 < now" for k
    by (auto simp: forgotten_def three_hours_def seconds_def)
  have "scheduler_inv now s" using assms by (rule scheduler_reach_inv)
  then show ?thesis
    unfolding scheduler_inv_def known_boundaries_def old by (simp add: not_less)
qed

section \<open>A resolved price is stable\<close>

definition restorable :: "market_discovery \<Rightarrow> ptb_record \<Rightarrow> reference_policy \<Rightarrow> bool" where
  "restorable d r p \<longleftrightarrow> passes (official_identity_checks d (ptb_reference r))
     \<and> ptb_condition_id r = mkt_condition_id (md_market d)
     \<and> ptb_established_at r \<le> mkt_window_start (md_market d) + rfp_boundary_tolerance p"

lemma restore_iff: "restore_price_to_beat d r t p = Inr x \<longleftrightarrow> x = r \<and> restorable d r p
    \<and> mkt_window_start (md_market d) \<le> t \<and> t < mkt_window_end (md_market d)"
  by (auto simp: restore_price_to_beat_def Let_def checked_Inr_iff restorable_def unavailable_def)

lemma resolve_ready_stored:
  assumes "ptb_resolve t d now src p = (t', Inr r)" "pr_ptb r = Some x"
    "\<And>ref. src = Opening ref \<Longrightarrow> valid_reference ref"
  shows "ptb_get t' (identity_of (md_market d)) = Inr (Some x) \<and> restorable d x p"
proof -
  let ?i = "identity_of (md_market d)"
  show ?thesis
  proof (cases "ptb_get t ?i")
    case (Inl e)
    then show ?thesis using assms(1) by (simp add: ptb_resolve_def)
  next
    case got: (Inr m)
    show ?thesis
    proof (cases m)
      case (Some stored)
      then show ?thesis
        using assms(1,2) got
        by (auto simp: ptb_resolve_def on_unavailable_def bindr_def restore_iff ready_resolution_def
          unavailable_resolution_def split: sum.splits py_error.splits)
    next
      case None
      then obtain ref where ref: "src = Opening ref" and est: "establish_resolution t d ref p = (t', Inr r)"
        using assms(1,2) got by (cases src) (auto simp: ptb_resolve_def unavailable_resolution_def)
      obtain e where e: "establish_price_to_beat d ref (ref_recv_ts ref) (persistence_id ?i) p = Inr e"
        using est assms(2) by (auto simp: establish_resolution_def Let_def on_unavailable_def establish_rejection_def
          unavailable_resolution_def split: sum.splits py_error.splits)
      have fresh: "t (persistence_id ?i) = None"
        using got None by (auto simp: ptb_get_def bindr_Inr_iff split: option.splits)
      have desc: "describes e ?i" using established_describes [OF e] assms(3) [OF ref] .
      note saved = ptb_save_fresh [where t = t, OF desc fresh]
      have "t' = t(persistence_id ?i \<mapsto> ptb_row_of ?i e)" "x = e"
        using est assms(2) by (auto simp: establish_resolution_def Let_def e saved on_unavailable_def ready_resolution_def)
      moreover from this have "ptb_get t' ?i = Inr (Some e)" by (intro ptb_get_row [OF desc]) simp
      moreover have "restorable d e p"
        using establish_facts [OF e] by (auto simp: restorable_def)
      ultimately show ?thesis by simp
    qed
  qed
qed

lemma resolved_price_is_stable:
  assumes "ptb_resolve t d now src p = (t', Inr r)" "pr_ptb r = Some x"
    "\<And>ref. src = Opening ref \<Longrightarrow> valid_reference ref"
    "mkt_window_start (md_market d) \<le> now'" "now' < mkt_window_end (md_market d)"
  shows "ptb_resolve (ptb_save_all t' saves) d now' src' p = (ptb_save_all t' saves, Inr (ready_resolution x True))"
proof -
  let ?i = "identity_of (md_market d)"
  have g: "ptb_get t' ?i = Inr (Some x)" "restorable d x p" using resolve_ready_stored [OF assms(1-3)] by auto
  then obtain w where "t' (persistence_id ?i) = Some w" by (auto simp: ptb_get_def split: option.splits)
  then have "ptb_get (ptb_save_all t' saves) ?i = ptb_get t' ?i"
    using ptb_save_all_stable [of t' "persistence_id ?i" w saves] by (simp add: ptb_get_def)
  moreover have "restore_price_to_beat d x now' p = Inr x" using g(2) assms(4,5) by (simp add: restore_iff)
  ultimately show ?thesis using g(1) by (simp add: ptb_resolve_def on_unavailable_def)
qed

section \<open>A boundary that is resolved at the second attempt\<close>

definition sample_steps :: "attempt_step list" where
  "sample_steps =
     [\<lparr>step_now = 2000000, step_outcome = Expected_failure ''TimeoutError:'', step_after = 2500000\<rparr>,
      \<lparr>step_now = 4500000, step_outcome = Resolved (ready_resolution sample_ptb False), step_after = 4600000\<rparr>,
      \<lparr>step_now = 6600000, step_outcome = Expected_failure ''TimeoutError:'', step_after = 6600000\<rparr>]"

definition sample_task :: window_task where
  "sample_task = \<lparr>wt_bucket = \<lparr>bkt_asset = BTC, bkt_horizon = FIVE_MINUTES\<rparr>, wt_start = 0, wt_end = 300000000,
     wt_deadline = 5000000\<rparr>"

definition sample_config :: scheduler_config where
  "sample_config = \<lparr>sc_settle_delay = 1500000, sc_retry_interval = 2000000\<rparr>"

theorem boundary_attempts_end_witness:
  "\<exists>r. run_bucket_window sample_config sample_task
      \<lparr>at_detected = 1500000, at_first = None, at_last = None, at_count = 0\<rparr> None None sample_steps = Some (Inr r)
    \<and> sr_outcome r = ''PTB_READY'' \<and> int (sr_attempts r) * 2000000 \<le> 5000000"
proof -
  have "0 < sc_retry_interval sample_config" "clock_ok (sc_retry_interval sample_config) sample_steps"
    "sample_steps \<noteq> []"
    "wt_deadline sample_task - step_now (hd sample_steps) < int (length sample_steps) * sc_retry_interval sample_config"
    by (simp_all add: sample_config_def sample_steps_def sample_task_def)
  from boundary_attempts_end [OF this, of 1500000] show ?thesis
    by (auto simp: sample_steps_def sample_config_def sample_task_def ready_resolution_def resolution_ready_def
      ready_result_def begin_attempt_def Let_def)
qed

text \<open>
  The first tick comes two seconds after a quarter of an hour: the four-asset buckets of five and
  fifteen minutes get their tasks, the hourly boundary was missed.
\<close>

definition sample_now :: utc where "sample_now = seconds 1700000102"

lemma sample_window: "window_containing b 1700000102000000 = Inr \<lparr>win_bucket = b,
    win_start = 1700000102000000 - 1700000102000000 mod window_duration b,
    win_end = 1700000102000000 - 1700000102000000 mod window_duration b + window_duration b\<rparr>"
  by (rule window_containing_eq) (simp add: instant_def)

lemma sample_tick:
  "\<exists>s. run_due_once sample_config sample_policy sample_now \<lparr>sch_states = [], sch_tasks = [], sch_recorded = []\<rparr> = Inr s
    \<and> length (sch_tasks s) = 8 \<and> length (sch_recorded s) = 4"
  by (simp add: run_due_once_def prune_old_state_def supported_market_buckets_def enum_asset_def enum_horizon_def
    due_bucket_def sample_window Let_def sample_now_def seconds_def sample_config_def sample_policy_def)

theorem boundary_is_recorded_once_witness:
  "\<exists>s. scheduler_reach sample_config sample_policy sample_now s \<and> length (sch_recorded s) = 4
    \<and> distinct (map result_key (sch_recorded s)) \<and> distinct (sch_tasks s)"
proof -
  obtain s where s: "run_due_once sample_config sample_policy sample_now
      \<lparr>sch_states = [], sch_tasks = [], sch_recorded = []\<rparr> = Inr s" "length (sch_recorded s) = 4"
    using sample_tick by blast
  have "instant sample_now" by (simp add: instant_def sample_now_def seconds_def)
  then have "scheduler_reach sample_config sample_policy sample_now s"
    using scheduler_reach.tick [OF scheduler_reach.start order_refl _ s(1)] by blast
  then show ?thesis using boundary_is_recorded_once s(2) by blast
qed

end
