(* ===== verification/Json.thy ===== *)
theory Json
  imports Prelude Complex_Main
begin

text \<open>
  The values of the \<open>json\<close> module. A JSON text is represented by the value it encodes; the number of a
  text that is not an integer is a rational. The canonical form has the keys of every object sorted, as
  \<open>json.dumps(sort_keys=True)\<close> writes them: two texts are equal exactly when the canonical values are.
\<close>

datatype json = JNull | JBool bool | JInt int | JReal rat | JStr string | JList "json list"
  | JDict "(string \<times> json) list"

primrec json_canonical :: "json \<Rightarrow> json" where
  "json_canonical JNull = JNull"
| "json_canonical (JBool b) = JBool b"
| "json_canonical (JInt n) = JInt n"
| "json_canonical (JReal x) = JReal x"
| "json_canonical (JStr s) = JStr s"
| "json_canonical (JList xs) = JList (map json_canonical xs)"
| "json_canonical (JDict kvs) = JDict (sort_key fst (map (map_prod id json_canonical) kvs))"

text \<open>\<open>value.get(key)\<close> of an object; any other value has no keys.\<close>

fun json_get :: "json \<Rightarrow> string \<Rightarrow> json option" where
  "json_get (JDict kvs) k = map_of kvs k"
| "json_get _ k = None"

fun json_truthy :: "json \<Rightarrow> bool" where
  "json_truthy JNull = False"
| "json_truthy (JBool b) = b"
| "json_truthy (JInt n) = (n \<noteq> 0)"
| "json_truthy (JReal x) = (x \<noteq> 0)"
| "json_truthy (JStr s) = (s \<noteq> [])"
| "json_truthy (JList xs) = (xs \<noteq> [])"
| "json_truthy (JDict kvs) = (kvs \<noteq> [])"

fun is_object :: "json \<Rightarrow> bool" where
  "is_object (JDict kvs) = True"
| "is_object _ = False"

text \<open>\<open>str(value)\<close>: the text of a number or a container is the argument \<open>show\<close>.\<close>

fun json_str :: "(json \<Rightarrow> string) \<Rightarrow> json \<Rightarrow> string" where
  "json_str show JNull = ''None''"
| "json_str show (JBool b) = (if b then ''True'' else ''False'')"
| "json_str show (JStr s) = s"
| "json_str show v = show v"

definition get_str :: "(json \<Rightarrow> string) \<Rightarrow> json \<Rightarrow> string \<Rightarrow> string \<Rightarrow> string" where
  "get_str show v k absent = (case json_get v k of None \<Rightarrow> absent | Some x \<Rightarrow> json_str show x)"

text \<open>\<open>{key: value[key] for key in keys if key in value}\<close>\<close>

definition json_pick :: "string list \<Rightarrow> json \<Rightarrow> json" where
  "json_pick keys v = JDict (List.map_filter (\<lambda>k. map_option (Pair k) (json_get v k)) keys)"

section \<open>Lookup in the canonical form\<close>

lemma filter_sort_key: "filter (\<lambda>x. f x = k) (sort_key f xs) = filter (\<lambda>x. f x = k) xs"
  by (rule sort_key_stable)

lemma map_of_filter_key: "map_of xs k = (case filter (\<lambda>kv. fst kv = k) xs of [] \<Rightarrow> None | kv # _ \<Rightarrow> Some (snd kv))"
  by (induction xs) auto

lemma map_of_sort_key: "map_of (sort_key fst xs) k = map_of xs k"
  unfolding map_of_filter_key by (simp add: filter_sort_key)

lemma json_get_canonical: "json_get (json_canonical out) k = map_option json_canonical (json_get out k)"
proof (cases out)
  case (JDict kvs)
  have "map_of (map (map_prod id json_canonical) kvs) k = map_option json_canonical (map_of kvs k)"
    by (induction kvs) auto
  then show ?thesis by (simp add: JDict map_of_sort_key)
qed simp_all

end
