(* ===== verification/Adapters.thy ===== *)
theory Adapters
  imports MarketData_Contracts Canonical Json
begin

text \<open>
  \<open>adapters/_parsing.py\<close>, \<open>adapters/polymarket/market_data.py\<close>, \<open>adapters/chainlink/rtds.py\<close>,
  \<open>adapters/binance/market_data.py\<close> and \<open>utc_from_milliseconds\<close> of \<open>market_data/clock.py\<close>: the translation of
  untrusted vendor JSON into the contracts. The transport decodes with \<open>parse_float=Decimal\<close>, so \<open>JReal\<close> is
  a \<open>Decimal\<close>. The readers of texts of the standard library are the parameters \<open>vendor_text\<close>.
\<close>

section \<open>Reading texts\<close>

record vendor_text =
  vt_loads :: "string \<Rightarrow> json option"
  vt_int :: "string \<Rightarrow> int option"
  vt_decimal :: "string \<Rightarrow> pydec option"
  vt_iso :: "string \<Rightarrow> (utc \<times> bool) option"

text \<open>
  \<open>vt_loads\<close> is \<open>json.loads\<close>, \<open>vt_int\<close> is \<open>int\<close>, \<open>vt_decimal\<close> is \<open>Decimal\<close>, and \<open>vt_iso\<close> is
  \<open>datetime.fromisoformat\<close> after \<open>Z\<close> is replaced, with whether the text has an offset.
\<close>

fun json_decimal :: "vendor_text \<Rightarrow> json \<Rightarrow> pydec option" where
  "json_decimal vt (JStr s) = vt_decimal vt s"
| "json_decimal vt (JInt n) = Some (Fin (of_int n))"
| "json_decimal vt (JReal x) = Some (Fin x)"
| "json_decimal vt _ = None"

definition py_upper :: "string \<Rightarrow> string" where
  "py_upper s = map (\<lambda>c. let n = (of_char c :: nat) in
     if (97 \<le> n \<and> n \<le> 122) \<or> (224 \<le> n \<and> n \<le> 254 \<and> n \<noteq> 247) then char_of (n - 32) else c) s"

definition utc_from_milliseconds :: "int \<Rightarrow> utc result" where
  "utc_from_milliseconds ms =
     (if ms < 0 then Inl (ValueErr ''timestamp milliseconds must be non-negative'')
      else let s = fl (of_int ms / 1000); whole = \<lfloor>s\<rfloor> in
        if 253402300800 \<le> whole then Inl (ValueErr ''year is out of range'')
        else Inr (whole * 1000000 + half_even (fl ((s - of_int whole) * 1000000))))"

section \<open>Strict fields\<close>

abbreviation schema_error :: "string \<Rightarrow> 'a result" where
  "schema_error m \<equiv> Inl (MarketDataSchemaError m)"

definition require_object :: "json \<Rightarrow> json result" where
  "require_object v = (if is_object v then Inr v else schema_error '' must be an object'')"

fun require_sequence :: "json \<Rightarrow> json list result" where
  "require_sequence (JList xs) = Inr xs"
| "require_sequence _ = schema_error '' must be an array''"

definition require_str :: "json \<Rightarrow> string \<Rightarrow> string result" where
  "require_str v k = (case json_get v k of
     Some (JStr s) \<Rightarrow> if s = [] \<or> s \<noteq> py_strip s then schema_error '' must be a non-empty string'' else Inr s
   | _ \<Rightarrow> schema_error '' must be a non-empty string'')"

definition require_int :: "vendor_text \<Rightarrow> json \<Rightarrow> string \<Rightarrow> int result" where
  "require_int vt v k =
     bindr (case json_get v k of
         Some (JInt n) \<Rightarrow> Inr n
       | Some (JStr s) \<Rightarrow> (case vt_int vt s of None \<Rightarrow> schema_error '' must be an integer'' | Some n \<Rightarrow> Inr n)
       | _ \<Rightarrow> schema_error '' must be an integer'')
      (\<lambda>n. if n < 0 then schema_error '' must be non-negative'' else Inr n)"

definition require_bool :: "json \<Rightarrow> string \<Rightarrow> bool result" where
  "require_bool v k = (case json_get v k of Some (JBool b) \<Rightarrow> Inr b | _ \<Rightarrow> schema_error '' must be a bool'')"

definition finite_decimal :: "pydec option \<Rightarrow> dec result" where
  "finite_decimal t = (case t of None \<Rightarrow> schema_error '' must be a decimal''
     | Some (Fin x) \<Rightarrow> Inr x | Some _ \<Rightarrow> schema_error '' must be finite'')"

definition decimal_field :: "vendor_text \<Rightarrow> json \<Rightarrow> string \<Rightarrow> dec result" where
  "decimal_field vt v k = (case json_get v k of
     Some (JStr s) \<Rightarrow> finite_decimal (json_decimal vt (JStr s))
   | Some (JInt n) \<Rightarrow> finite_decimal (json_decimal vt (JInt n))
   | Some (JReal x) \<Rightarrow> finite_decimal (json_decimal vt (JReal x))
   | _ \<Rightarrow> schema_error '' must be decimal-compatible'')"

definition require_iso8601 :: "vendor_text \<Rightarrow> json \<Rightarrow> string \<Rightarrow> utc result" where
  "require_iso8601 vt v k = bindr (require_str v k) (\<lambda>s. case vt_iso vt s of
     None \<Rightarrow> schema_error '' must be ISO-8601''
   | Some (t, zoned) \<Rightarrow> if zoned then Inr t else schema_error '' must include a timezone'')"

section \<open>Constructors\<close>

record receipt =
  rc_recv :: utc
  rc_normalized :: utc
  rc_monotonic_ns :: int

definition mk_lineage :: "data_source \<Rightarrow> utc option \<Rightarrow> receipt \<Rightarrow> event_lineage result" where
  "mk_lineage src ts rc = (let l = \<lparr>lin_source = src, lin_source_ts = ts, lin_recv_ts = rc_recv rc,
       lin_normalized_ts = rc_normalized rc, lin_recv_monotonic_ns = rc_monotonic_ns rc\<rparr> in
     checked (lineage_checks l) (Inr l))"

definition mk_token :: "string \<Rightarrow> outcome_side \<Rightarrow> market_token result" where
  "mk_token i side = (let t = \<lparr>tok_id = i, tok_outcome = side\<rparr> in checked (market_token_checks t) (Inr t))"

definition mk_settlement_metadata :: "settlement_metadata \<Rightarrow> settlement_metadata result" where
  "mk_settlement_metadata s = checked (settlement_metadata_checks s) (Inr s)"

definition mk_discovery :: "market_discovery \<Rightarrow> market_discovery result" where
  "mk_discovery d = checked (market_discovery_checks d) (Inr d)"

definition mk_level :: "pm_level \<Rightarrow> pm_level result" where
  "mk_level l = checked (pm_level_checks l) (Inr l)"

definition mk_book :: "polymarket_book \<Rightarrow> polymarket_book result" where
  "mk_book b = checked (polymarket_book_checks b) (Inr b)"

definition mk_fee_schedule :: "fee_schedule \<Rightarrow> fee_schedule result" where
  "mk_fee_schedule f = checked (fee_schedule_checks f) (Inr f)"

definition mk_resolution_event :: "resolution_event \<Rightarrow> resolution_event result" where
  "mk_resolution_event r = checked (resolution_event_checks r) (Inr r)"

definition mk_twap :: "chainlink_twap \<Rightarrow> chainlink_twap result" where
  "mk_twap t = checked (chainlink_twap_checks t) (Inr t)"

definition mk_crypto_trade :: "crypto_trade \<Rightarrow> crypto_trade result" where
  "mk_crypto_trade t = checked (crypto_trade_checks t) (Inr t)"

definition mk_top_of_book :: "top_of_book \<Rightarrow> top_of_book result" where
  "mk_top_of_book t = checked (top_of_book_checks t) (Inr t)"

lemmas constructor_defs = mk_lineage_def mk_token_def mk_settlement_metadata_def mk_discovery_def mk_level_def
  mk_book_def mk_fee_schedule_def mk_resolution_event_def mk_twap_def mk_crypto_trade_def mk_top_of_book_def mk_market_def

section \<open>Polymarket Gamma\<close>

definition array_field :: "vendor_text \<Rightarrow> json \<Rightarrow> string \<Rightarrow> json list result" where
  "array_field vt v k = (case json_get v k of
     None \<Rightarrow> schema_error '' must be an array''
   | Some (JStr s) \<Rightarrow> (case vt_loads vt s of None \<Rightarrow> schema_error '' must contain a JSON array''
       | Some w \<Rightarrow> require_sequence w)
   | Some w \<Rightarrow> require_sequence w)"

definition outcome_alias :: "string \<Rightarrow> outcome_side option" where
  "outcome_alias s = (let n = py_upper (py_strip s) in
     if n = ''UP'' then Some UP else if n = ''DOWN'' then Some DOWN else None)"

fun gamma_token :: "json \<times> json \<Rightarrow> market_token result" where
  "gamma_token (JStr name, JStr token) = (case outcome_alias name of
     None \<Rightarrow> schema_error ''market outcomes must map explicitly to UP and DOWN''
   | Some side \<Rightarrow> mk_token token side)"
| "gamma_token _ = schema_error ''outcomes and token IDs must be strings''"

definition gamma_config :: "json \<Rightarrow> json option result" where
  "gamma_config v = (case json_get v ''cryptoMarketConfig'' of
     None \<Rightarrow> Inr None
   | Some JNull \<Rightarrow> Inr None
   | Some w \<Rightarrow> bindr (require_object w) (\<lambda>c. Inr (Some c)))"

definition check_config :: "json \<Rightarrow> json option \<Rightarrow> asset \<Rightarrow> horizon \<Rightarrow> unit result" where
  "check_config v config a h = (case config of
     None \<Rightarrow> if h \<noteq> ONE_HOUR then schema_error ''short-window market requires cryptoMarketConfig'' else Inr ()
   | Some c \<Rightarrow>
       bindr (require_str c ''asset'') (\<lambda>x.
       if x \<noteq> lower (asset_value a) then schema_error ''cryptoMarketConfig asset does not match requested asset''
       else bindr (require_str c ''duration'') (\<lambda>d.
       if d \<noteq> horizon_value h then schema_error ''cryptoMarketConfig duration does not match requested horizon''
       else bindr (require_str v ''cryptoMarketConfigId'') (\<lambda>i. bindr (require_str c ''id'') (\<lambda>j.
       if i \<noteq> j then schema_error ''crypto market configuration IDs do not match'' else Inr ())))))"

definition parse_gamma_identity :: "vendor_text \<Rightarrow> json \<Rightarrow> asset \<Rightarrow> horizon \<Rightarrow> (market \<times> json option) result" where
  "parse_gamma_identity vt v a h =
     bindr (array_field vt v ''outcomes'') (\<lambda>outcomes. bindr (array_field vt v ''clobTokenIds'') (\<lambda>token_ids.
     if length outcomes \<noteq> 2 \<or> length token_ids \<noteq> 2
     then schema_error ''binary market must contain exactly two outcomes and token IDs''
     else bindr (mapr gamma_token (zip outcomes token_ids)) (\<lambda>tokens.
     bindr (gamma_config v) (\<lambda>config. bindr (check_config v config a h) (\<lambda>_.
     bindr (require_str v ''id'') (\<lambda>market_id. bindr (require_str v ''conditionId'') (\<lambda>condition_id.
     bindr (require_iso8601 vt v ''eventStartTime'') (\<lambda>start. bindr (require_iso8601 vt v ''endDate'') (\<lambda>stop.
     bindr (require_str v ''resolutionSource'') (\<lambda>source.
     bindr (mk_market \<lparr>mkt_id = market_id, mkt_condition_id = condition_id, mkt_asset = a, mkt_horizon = h,
         mkt_tokens = tokens, mkt_window_start = start, mkt_window_end = stop, mkt_settlement_source = source\<rparr>)
       (\<lambda>m. Inr (m, config))))))))))))"

definition parse_gamma_market :: "vendor_text \<Rightarrow> json \<Rightarrow> asset \<Rightarrow> horizon \<Rightarrow> market result" where
  "parse_gamma_market vt raw a h = bindr (require_object raw) (\<lambda>v.
     bindr (parse_gamma_identity vt v a h) (\<lambda>(m, _). Inr m))"

definition settlement_terms :: "vendor_text \<Rightarrow> json \<Rightarrow> json option \<Rightarrow> horizon \<Rightarrow>
    (settlement_method \<times> string option \<times> int) result" where
  "settlement_terms vt v config h =
     (if h = ONE_HOUR then Inr (BINANCE_CANDLE, None, 3600)
      else case config of
        None \<Rightarrow> schema_error ''short-window market requires cryptoMarketConfig''
      | Some c \<Rightarrow> bindr (require_str v ''cryptoMarketConfigId'') (\<lambda>i.
          bindr (require_bool c ''twapEnabled'') (\<lambda>enabled.
          if \<not> enabled then schema_error ''short-window market must enable TWAP''
          else bindr (require_int vt c ''twapLookbackSeconds'') (\<lambda>n. Inr (CHAINLINK_TWAP, Some i, n)))))"

definition parse_gamma_market_discovery :: "vendor_text \<Rightarrow> json \<Rightarrow> string \<Rightarrow> asset \<Rightarrow> horizon \<Rightarrow> receipt \<Rightarrow>
    market_discovery result" where
  "parse_gamma_market_discovery vt raw event_id a h rc =
     bindr (require_object raw) (\<lambda>v. bindr (parse_gamma_identity vt v a h) (\<lambda>(m, config).
     bindr (settlement_terms vt v config h) (\<lambda>(how, configuration_id, period).
     bindr (require_str v ''description'') (\<lambda>rules. bindr (require_str v ''version'') (\<lambda>version.
     bindr (require_iso8601 vt v ''updatedAt'') (\<lambda>updated. bindr (mk_lineage POLYMARKET_GAMMA (Some updated) rc) (\<lambda>l.
     bindr (mk_settlement_metadata \<lparr>sm_market_id = mkt_id m, sm_condition_id = mkt_condition_id m,
         sm_resolution_source = mkt_settlement_source m, sm_rules = rules, sm_method = how,
         sm_configuration_id = configuration_id, sm_asset = a, sm_horizon = h, sm_reference_period = period,
         sm_version = version, sm_lineage = l\<rparr>) (\<lambda>metadata.
     bindr (require_str v ''slug'') (\<lambda>slug. bindr (require_str v ''question'') (\<lambda>question.
     mk_discovery \<lparr>md_event_id = event_id, md_slug = slug, md_question = question, md_market = m,
       md_settlement = metadata\<rparr>))))))))))"

section \<open>Polymarket CLOB\<close>

text \<open>\<open>payload.get(name)\<close> of an absent field is \<open>None\<close>, which is no sequence.\<close>

definition field_or_null :: "json \<Rightarrow> string \<Rightarrow> json" where
  "field_or_null v k = (case json_get v k of None \<Rightarrow> JNull | Some w \<Rightarrow> w)"

definition clob_level :: "vendor_text \<Rightarrow> json \<Rightarrow> pm_level result" where
  "clob_level vt raw = bindr (require_object raw) (\<lambda>v. bindr (decimal_field vt v ''price'') (\<lambda>p.
     bindr (decimal_field vt v ''size'') (\<lambda>q. mk_level \<lparr>pml_price = p, pml_quantity = q\<rparr>)))"

text \<open>\<open>sorted(..., reverse=True)\<close> is stable too.\<close>

definition clob_levels :: "vendor_text \<Rightarrow> json \<Rightarrow> bool \<Rightarrow> pm_level list result" where
  "clob_levels vt v descending = bindr (require_sequence v) (\<lambda>raws. bindr (mapr (clob_level vt) raws) (\<lambda>ls.
     Inr (sort_key (\<lambda>l. if descending then - pml_price l else pml_price l) ls)))"

definition parse_clob_book :: "vendor_text \<Rightarrow> json \<Rightarrow> receipt \<Rightarrow> polymarket_book result" where
  "parse_clob_book vt raw rc =
     bindr (require_object raw) (\<lambda>v. bindr (require_str v ''market'') (\<lambda>condition_id.
     bindr (require_str v ''asset_id'') (\<lambda>token_id.
     bindr (clob_levels vt (field_or_null v ''bids'') True) (\<lambda>bids.
     bindr (clob_levels vt (field_or_null v ''asks'') False) (\<lambda>asks.
     bindr (require_str v ''hash'') (\<lambda>checksum. bindr (decimal_field vt v ''min_order_size'') (\<lambda>minimum.
     bindr (decimal_field vt v ''tick_size'') (\<lambda>tick. bindr (require_int vt v ''timestamp'') (\<lambda>ms.
     bindr (utc_from_milliseconds ms) (\<lambda>ts. bindr (mk_lineage POLYMARKET_CLOB (Some ts) rc) (\<lambda>l.
     mk_book \<lparr>pmb_condition_id = condition_id, pmb_token_id = token_id, pmb_bids = bids, pmb_asks = asks,
       pmb_checksum = checksum, pmb_minimum_order_size = minimum, pmb_tick_size = tick, pmb_lineage = l\<rparr>)))))))))))"

definition optional_decimal :: "vendor_text \<Rightarrow> json \<Rightarrow> string \<Rightarrow> dec option result" where
  "optional_decimal vt v k = (case json_get v k of
     None \<Rightarrow> Inr None
   | Some JNull \<Rightarrow> Inr None
   | Some w \<Rightarrow> bindr (finite_decimal (json_decimal vt w)) (\<lambda>x. Inr (Some x)))"

definition parse_fee_schedule :: "vendor_text \<Rightarrow> json \<Rightarrow> string \<Rightarrow> receipt \<Rightarrow> fee_schedule result" where
  "parse_fee_schedule vt raw condition_id rc =
     bindr (require_object raw) (\<lambda>v. bindr (require_object (field_or_null v ''fd'')) (\<lambda>fee.
     bindr (decimal_field vt v ''mbf'') (\<lambda>maker. bindr (decimal_field vt v ''tbf'') (\<lambda>taker.
     bindr (optional_decimal vt fee ''r'') (\<lambda>rate. bindr (optional_decimal vt fee ''e'') (\<lambda>ex.
     bindr (mk_lineage POLYMARKET_CLOB None rc) (\<lambda>l.
     mk_fee_schedule \<lparr>fs_condition_id = condition_id, fs_maker_base_bps = maker, fs_taker_base_bps = taker,
       fs_rate = rate, fs_exponent = ex, fs_lineage = l, fs_taker_fee_mode = ''dynamic''\<rparr>)))))))"

definition fee_rate_bps :: "vendor_text \<Rightarrow> json \<Rightarrow> dec result" where
  "fee_rate_bps vt w = (case w of
     JBool b \<Rightarrow> schema_error ''fee-rate base_fee must be an integer''
   | _ \<Rightarrow> bindr (finite_decimal (json_decimal vt w)) (\<lambda>x.
       if x < 0 then schema_error ''fee-rate base_fee must be non-negative''
       else if x \<noteq> of_int \<lfloor>x\<rfloor> then schema_error ''fee-rate base_fee must be an integer'' else Inr x))"

definition parse_fee_rate :: "vendor_text \<Rightarrow> json \<Rightarrow> string \<Rightarrow> string \<Rightarrow> string \<Rightarrow> receipt \<Rightarrow> fee_schedule result" where
  "parse_fee_rate vt raw condition_id token_id expected_token_id rc =
     (if token_id = [] \<or> token_id \<noteq> py_strip token_id
      then schema_error ''token_id must be a non-empty trimmed string''
      else if token_id \<noteq> expected_token_id then schema_error ''fee-rate token identity mismatch''
      else bindr (require_object raw) (\<lambda>v. case field_or_null v ''base_fee'' of
          JNull \<Rightarrow> schema_error ''fee-rate payload requires base_fee''
        | w \<Rightarrow> bindr (fee_rate_bps vt w) (\<lambda>bps. bindr (mk_lineage POLYMARKET_CLOB None rc) (\<lambda>l.
            mk_fee_schedule \<lparr>fs_condition_id = condition_id, fs_maker_base_bps = 0, fs_taker_base_bps = bps,
              fs_rate = None, fs_exponent = None, fs_lineage = l, fs_taker_fee_mode = ''bps''\<rparr>))))"

definition parse_market_resolved :: "vendor_text \<Rightarrow> json \<Rightarrow> receipt \<Rightarrow> resolution_event result" where
  "parse_market_resolved vt raw rc =
     bindr (require_object raw) (\<lambda>v. bindr (require_str v ''event_type'') (\<lambda>e.
     if e \<noteq> ''market_resolved'' then schema_error ''unexpected Polymarket lifecycle event''
     else bindr (require_str v ''id'') (\<lambda>market_id. bindr (require_str v ''market'') (\<lambda>condition_id.
     bindr (require_str v ''winning_asset_id'') (\<lambda>token. bindr (require_str v ''winning_outcome'') (\<lambda>winner.
     bindr (require_int vt v ''timestamp'') (\<lambda>ms. bindr (utc_from_milliseconds ms) (\<lambda>ts.
     bindr (mk_lineage POLYMARKET_CLOB (Some ts) rc) (\<lambda>l.
     mk_resolution_event \<lparr>res_market_id = market_id, res_condition_id = condition_id,
       res_winning_token_id = token, res_winning_outcome = winner, res_lineage = l\<rparr>)))))))))"

section \<open>Chainlink RTDS\<close>

definition twap_topic :: "int \<Rightarrow> string option" where
  "twap_topic w = (if w = 30 then Some ''crypto_prices_twap_thirty''
     else if w = 60 then Some ''crypto_prices_twap_sixty'' else None)"

record twap_frame =
  tf_class :: string
  tf_asset :: asset
  tf_topic :: string
  tf_type :: string
  tf_symbol :: string
  tf_payload_keys :: "string list"
  tf_item_count :: "nat option"
  tf_item_keys :: "string list"
  tf_window :: "int option"

definition slashes :: "string \<Rightarrow> string" where
  "slashes s = map (\<lambda>c. if c = CHR ''-'' then CHR ''/'' else c) s"

definition twap_symbol :: "json \<Rightarrow> string result" where
  "twap_symbol envelope = bindr (require_str envelope ''symbol'') (\<lambda>s. Inr (py_upper (slashes s)))"

definition asset_from_symbol :: "string \<Rightarrow> asset result" where
  "asset_from_symbol symbol = (case find (\<lambda>a. symbol = asset_value a @ ''/USD'') Enum.enum of
     Some a \<Rightarrow> Inr a | None \<Rightarrow> schema_error ''unsupported Chainlink TWAP symbol'')"

fun sorted_keys :: "json \<Rightarrow> string list" where
  "sorted_keys (JDict kvs) = sort (map fst kvs)"
| "sorted_keys _ = []"

definition twap_data :: "json \<Rightarrow> (nat option \<times> string list) result" where
  "twap_data envelope = (case json_get envelope ''data'' of
     None \<Rightarrow> Inr (None, [])
   | Some (JDict kvs) \<Rightarrow> Inr (Some 1, sorted_keys (JDict kvs))
   | Some w \<Rightarrow> bindr (require_sequence w) (\<lambda>xs. case xs of
       [x] \<Rightarrow> bindr (require_object x) (\<lambda>y. Inr (Some 1, sorted_keys y))
     | _ \<Rightarrow> Inr (Some (length xs), [])))"

definition classify_frame :: "string \<Rightarrow> json \<Rightarrow> string result" where
  "classify_frame message_type envelope =
     (if message_type = ''subscribe'' then
        (case json_get envelope ''data'' of
           None \<Rightarrow> schema_error ''Chainlink subscribe frame missing snapshot data''
         | Some w \<Rightarrow> bindr (require_sequence w) (\<lambda>_. Inr ''SUBSCRIPTION_SNAPSHOT''))
      else if message_type = ''update'' then Inr ''LIVE_UPDATE''
      else schema_error ''unexpected Chainlink TWAP message type'')"

definition inspect_twap_frame :: "vendor_text \<Rightarrow> json \<Rightarrow> int \<Rightarrow> twap_frame result" where
  "inspect_twap_frame vt raw window_seconds =
     bindr (require_object raw) (\<lambda>v. case twap_topic window_seconds of
       None \<Rightarrow> Inl (ValueErr ''window_seconds must be 30 or 60'')
     | Some expected \<Rightarrow> bindr (require_str v ''topic'') (\<lambda>topic.
       if topic \<noteq> expected then schema_error ''unexpected Chainlink TWAP topic''
       else bindr (require_str v ''type'') (\<lambda>message_type.
       if message_type \<notin> {''update'', ''subscribe''} then schema_error ''unexpected Chainlink TWAP message type''
       else bindr (require_object (field_or_null v ''payload'')) (\<lambda>envelope.
       bindr (twap_symbol envelope) (\<lambda>symbol. bindr (asset_from_symbol symbol) (\<lambda>a.
       bindr (case json_get envelope ''window_s'' of None \<Rightarrow> Inr None
           | Some _ \<Rightarrow> bindr (require_int vt envelope ''window_s'') (\<lambda>w. Inr (Some w))) (\<lambda>window_s.
       if window_s \<noteq> None \<and> window_s \<noteq> Some window_seconds then schema_error ''unexpected Chainlink TWAP window''
       else bindr (twap_data envelope) (\<lambda>(n, ks). bindr (classify_frame message_type envelope) (\<lambda>cls.
         Inr \<lparr>tf_class = cls, tf_asset = a, tf_topic = topic, tf_type = message_type, tf_symbol = symbol,
           tf_payload_keys = sorted_keys envelope, tf_item_count = n, tf_item_keys = ks, tf_window = window_s\<rparr>)))))))))"

definition normalize_twap_record :: "vendor_text \<Rightarrow> json \<Rightarrow> int \<Rightarrow> json result" where
  "normalize_twap_record vt envelope window_seconds =
     bindr (require_int vt envelope ''window_s'') (\<lambda>w.
     if w \<noteq> window_seconds then schema_error ''unexpected Chainlink TWAP window''
     else case json_get envelope ''data'' of
         None \<Rightarrow> Inr envelope
       | Some (JDict kvs) \<Rightarrow> Inr (JDict kvs)
       | Some d \<Rightarrow> bindr (require_sequence d) (\<lambda>xs. case xs of
           [x] \<Rightarrow> require_object x
         | _ \<Rightarrow> schema_error ''Chainlink TWAP data must contain exactly one record''))"

definition parse_twap :: "vendor_text \<Rightarrow> json \<Rightarrow> asset \<Rightarrow> int \<Rightarrow> receipt \<Rightarrow> chainlink_twap result" where
  "parse_twap vt raw a window_seconds rc =
     bindr (require_object raw) (\<lambda>v. case twap_topic window_seconds of
       None \<Rightarrow> schema_error ''unexpected Chainlink TWAP topic''
     | Some expected \<Rightarrow> bindr (require_str v ''topic'') (\<lambda>topic.
       if topic \<noteq> expected then schema_error ''unexpected Chainlink TWAP topic''
       else bindr (require_str v ''type'') (\<lambda>message_type.
       if message_type \<noteq> ''update'' then schema_error ''unexpected Chainlink TWAP message type''
       else bindr (require_object (field_or_null v ''payload'')) (\<lambda>envelope. bindr (twap_symbol envelope) (\<lambda>symbol.
       if symbol \<noteq> asset_value a @ ''/USD'' then schema_error ''unexpected Chainlink TWAP symbol''
       else bindr (normalize_twap_record vt envelope window_seconds) (\<lambda>rec.
       bindr (decimal_field vt rec ''full_accuracy_value'') (\<lambda>full.
       if full \<le> 0 \<or> full \<noteq> of_int \<lfloor>full\<rfloor> then schema_error ''full_accuracy_value must be an E18 integer''
       else case field_or_null rec ''value'' of
           JNull \<Rightarrow> schema_error ''value is required for verified Chainlink TWAP data''
         | _ \<Rightarrow> bindr (decimal_field vt rec ''value'') (\<lambda>shown.
             if shown \<le> 0 then schema_error ''value must be a positive finite decimal''
             else bindr (require_int vt rec ''timestamp'') (\<lambda>ms. bindr (utc_from_milliseconds ms) (\<lambda>source_ts.
             bindr (require_int vt v ''timestamp'') (\<lambda>pms. bindr (utc_from_milliseconds pms) (\<lambda>publisher_ts.
             bindr (mk_lineage CHAINLINK_RTDS (Some source_ts) rc) (\<lambda>l.
             mk_twap \<lparr>cl_asset = a, cl_value = ddiv full (10 ^ 18), cl_window_seconds = window_seconds,
               cl_publisher_ts = publisher_ts, cl_lineage = l\<rparr>))))))))))))) "

definition parse_twap_from_symbol :: "vendor_text \<Rightarrow> json \<Rightarrow> int \<Rightarrow> receipt \<Rightarrow> chainlink_twap result" where
  "parse_twap_from_symbol vt raw window_seconds rc = bindr (inspect_twap_frame vt raw window_seconds) (\<lambda>f.
     parse_twap vt raw (tf_asset f) window_seconds rc)"

section \<open>Binance\<close>

definition binance_symbol :: "asset \<Rightarrow> string" where
  "binance_symbol a = asset_value a @ ''USDT''"

definition require_symbol :: "json \<Rightarrow> asset \<Rightarrow> unit result" where
  "require_symbol v a = bindr (require_str v ''s'') (\<lambda>s.
     if s \<noteq> binance_symbol a then schema_error ''unexpected Binance symbol; expected '' else Inr ())"

definition binance_lineage :: "vendor_text \<Rightarrow> json \<Rightarrow> receipt \<Rightarrow> bool \<Rightarrow> event_lineage result" where
  "binance_lineage vt v rc perpetual = bindr (require_int vt v ''E'') (\<lambda>ms. bindr (utc_from_milliseconds ms) (\<lambda>ts.
     mk_lineage (if perpetual then BINANCE_PERPETUAL else BINANCE_SPOT) (Some ts) rc))"

definition parse_aggregate_trade :: "vendor_text \<Rightarrow> json \<Rightarrow> asset \<Rightarrow> receipt \<Rightarrow> bool \<Rightarrow> crypto_trade result" where
  "parse_aggregate_trade vt raw a rc perpetual =
     bindr (require_object raw) (\<lambda>v. bindr (require_symbol v a) (\<lambda>_. bindr (require_str v ''e'') (\<lambda>e.
     if e \<noteq> ''aggTrade'' then schema_error ''unexpected Binance event type''
     else bindr (decimal_field vt v ''p'') (\<lambda>p. bindr (decimal_field vt v ''q'') (\<lambda>q.
     bindr (require_int vt v ''a'') (\<lambda>i. bindr (require_bool v ''m'') (\<lambda>m.
     bindr (binance_lineage vt v rc perpetual) (\<lambda>l.
     mk_crypto_trade \<lparr>ct_asset = a, ct_price = p, ct_quantity = q, ct_trade_id = i, ct_buyer_is_maker = m,
       ct_lineage = l\<rparr>))))))))"

definition parse_rest_aggregate_trade :: "vendor_text \<Rightarrow> json \<Rightarrow> asset \<Rightarrow> receipt \<Rightarrow> crypto_trade result" where
  "parse_rest_aggregate_trade vt raw a rc =
     bindr (require_object raw) (\<lambda>v.
     if field_or_null v ''s'' \<noteq> JNull \<and> field_or_null v ''s'' \<noteq> JStr (binance_symbol a)
     then schema_error ''unexpected Binance REST symbol''
     else bindr (require_int vt v ''T'') (\<lambda>ms. bindr (utc_from_milliseconds ms) (\<lambda>ts.
     bindr (decimal_field vt v ''p'') (\<lambda>p. bindr (decimal_field vt v ''q'') (\<lambda>q.
     bindr (require_int vt v ''a'') (\<lambda>i. bindr (require_bool v ''m'') (\<lambda>m.
     bindr (mk_lineage BINANCE_SPOT (Some ts) rc) (\<lambda>l.
     mk_crypto_trade \<lparr>ct_asset = a, ct_price = p, ct_quantity = q, ct_trade_id = i, ct_buyer_is_maker = m,
       ct_lineage = l\<rparr>))))))))"

definition top_level :: "vendor_text \<Rightarrow> json \<Rightarrow> (dec \<times> dec) result" where
  "top_level vt w = bindr (require_sequence w) (\<lambda>xs. case xs of
     [] \<Rightarrow> schema_error '' must contain a top level''
   | x # _ \<Rightarrow> bindr (require_sequence x) (\<lambda>level. case level of
       [p, q] \<Rightarrow> (case (json_decimal vt p, json_decimal vt q) of
           (None, _) \<Rightarrow> schema_error '' must contain decimals''
         | (_, None) \<Rightarrow> schema_error '' must contain decimals''
         | (Some (Fin price), Some (Fin quantity)) \<Rightarrow>
             if price \<le> 0 \<or> quantity \<le> 0 then schema_error '' must contain positive finite decimals''
             else Inr (price, quantity)
         | _ \<Rightarrow> schema_error '' must contain positive finite decimals'')
     | _ \<Rightarrow> schema_error '' must contain price and quantity''))"

definition parse_depth_top :: "vendor_text \<Rightarrow> json \<Rightarrow> asset \<Rightarrow> receipt \<Rightarrow> bool \<Rightarrow> (top_of_book \<times> int) result" where
  "parse_depth_top vt raw a rc perpetual =
     bindr (require_object raw) (\<lambda>v. bindr (require_symbol v a) (\<lambda>_. bindr (require_str v ''e'') (\<lambda>e.
     if e \<noteq> ''depthUpdate'' then schema_error ''unexpected Binance event type''
     else bindr (top_level vt (field_or_null v ''b'')) (\<lambda>(bid_price, bid_quantity).
     bindr (top_level vt (field_or_null v ''a'')) (\<lambda>(ask_price, ask_quantity).
     bindr (require_int vt v ''U'') (\<lambda>first_id. bindr (require_int vt v ''u'') (\<lambda>final_id.
     if final_id < first_id then schema_error ''Binance update range is reversed''
     else bindr (binance_lineage vt v rc perpetual) (\<lambda>l.
     bindr (mk_top_of_book \<lparr>tob_asset = a, tob_bid_price = bid_price, tob_bid_quantity = bid_quantity,
         tob_ask_price = ask_price, tob_ask_quantity = ask_quantity, tob_update_id = final_id, tob_lineage = l\<rparr>)
       (\<lambda>t. Inr (t, first_id))))))))))"

section \<open>Subscriptions\<close>

definition market_subscription :: "string list \<Rightarrow> json result" where
  "market_subscription token_ids =
     checked [fail_if (token_ids = [] \<or> (\<exists>t\<in>set token_ids. t = [] \<or> t \<noteq> py_strip t))
           (ValueErr ''token_ids must contain non-empty trimmed values''),
         fail_if (\<not> distinct token_ids) (ValueErr ''token_ids must be unique'')]
      (Inr (JDict [(''assets_ids'', JList (map JStr token_ids)), (''type'', JStr ''market'')]))"

definition twap_subscription :: "asset \<Rightarrow> int \<Rightarrow> json result" where
  "twap_subscription a w = (case twap_topic w of
     None \<Rightarrow> Inl (ValueErr ''window_seconds must be 30 or 60'')
   | Some topic \<Rightarrow> (let quote = CHR 0x22 in Inr (JDict [(''action'', JStr ''subscribe''),
       (''subscriptions'', JList [JDict [(''topic'', JStr topic), (''type'', JStr ''update''),
         (''filters'', JStr (''{'' @ [quote] @ ''symbol'' @ [quote] @ '':'' @ [quote]
            @ lower (asset_value a) @ ''/usd'' @ [quote] @ ''}''))]])])))"

definition stream_url :: "asset \<Rightarrow> string \<Rightarrow> bool \<Rightarrow> string result" where
  "stream_url a stream perpetual =
     (if stream \<notin> {''aggTrade'', ''depth@100ms''} then Inl (ValueErr ''unsupported Binance stream'')
      else Inr ((if perpetual then ''wss://fstream.binance.com/public/ws'' else ''wss://stream.binance.com:9443/ws'')
        @ ''/'' @ lower (asset_value a) @ ''usdt@'' @ stream))"

text \<open>A subscription is confined to one asset: no two assets ask for the same stream or filter.\<close>

lemma subscriptions_distinct:
  "twap_subscription a w = twap_subscription b w \<Longrightarrow> twap_topic w \<noteq> None \<Longrightarrow> a = b"
  "stream_url a s perpetual = Inr u \<Longrightarrow> stream_url b s' perpetual = Inr u \<Longrightarrow> a = b \<and> s = s'"
  by (cases a; cases b; auto simp: twap_subscription_def stream_url_def lower_def Let_def split: option.splits if_splits)+

section \<open>Timestamps\<close>

text \<open>Until 2106 the float arithmetic of \<open>fromtimestamp\<close> gives the exact microsecond.\<close>

lemma half_even_close: "\<bar>x - of_int n\<bar> < 1 / 2 \<Longrightarrow> half_even x = n"
  using half_even_error [of x] by linarith

lemma utc_from_milliseconds_exact:
  assumes "0 \<le> ms" "ms < 2 ^ 32 * 1000"
  shows "utc_from_milliseconds ms = Inr (ms * 1000)"
proof -
  define x s q r where d: "x = (of_int ms / 1000 :: rat)" "s = fl x" "q = ms div 1000" "r = ms mod 1000"
  have ms: "ms = q * 1000 + r" "0 \<le> r" "r \<le> 999" "0 \<le> q" "q < 2 ^ 32"
    using assms by (simp_all add: d)
  have x: "x = of_int q + of_int r / 1000" "0 \<le> x" "x < 2 ^ 32"
    using assms by (simp_all add: d(1) ms(1) add_divide_distrib) 
  have near: "\<bar>s - x\<bar> * 2 ^ 53 \<le> x"
  proof (cases "x = 0")
    case True
    then show ?thesis using fl_of_int [of 0] by (simp add: d(2))
  qed (use x(2) fl_error [of x] in \<open>simp add: d(2)\<close>)
  then have err: "\<bar>s - x\<bar> * 2097152 < 1" using x(3) by simp
  have "fl (of_int q) \<le> s" unfolding d(2) by (rule fl_mono) (use x(1) ms(2) in simp)
  moreover have "fl (of_int q) = of_int q" using ms(4,5) by (intro fl_of_int) simp
  ultimately have low: "of_int q \<le> s" by simp
  moreover have "s < of_int q + 1"
  proof -
    have "of_int r \<le> (999 :: rat)" using ms(3) by (simp flip: of_int_le_iff)
    moreover have "s - x < 1 / 2097152" using err abs_ge_self [of "s - x"] by simp
    ultimately show ?thesis using x(1) by simp
  qed
  ultimately have whole: "\<lfloor>s\<rfloor> = q" by linarith
  define y where "y = (s - of_int q) * 1000000"
  have y: "0 \<le> y" "y \<le> 1000000" using low \<open>s < of_int q + 1\<close> by (simp_all add: y_def)
  have "y - of_int (r * 1000) = (s - x) * 1000000" by (simp add: y_def x(1))
  then have e: "\<bar>y - of_int (r * 1000)\<bar> = \<bar>s - x\<bar> * 1000000" by (simp only: abs_mult)
  have "\<bar>y - of_int (r * 1000)\<bar> * 2097152 < 1000000" unfolding e using err by linarith
  moreover have "z * 2097152 < 1000000 \<Longrightarrow> z < 48 / 100" for z :: rat by simp
  ultimately have b: "\<bar>y - of_int (r * 1000)\<bar> < 48 / 100" by blast
  have "\<bar>fl y - y\<bar> * 2 ^ 53 \<le> y"
    using y(1) fl_error [of y] fl_of_int [of 0] by (cases "y = 0") simp_all
  then have "\<bar>fl y - y\<bar> * 9007199254740992 \<le> 1000000" using y(2) by simp
  moreover have "z * 9007199254740992 \<le> 1000000 \<Longrightarrow> z < 1 / 100" for z :: rat by simp
  ultimately have "\<bar>fl y - y\<bar> < 1 / 100" by blast
  moreover have "\<bar>fl y - of_int (r * 1000)\<bar> \<le> \<bar>fl y - y\<bar> + \<bar>y - of_int (r * 1000)\<bar>"
    using abs_triangle_ineq [of "fl y - y" "y - of_int (r * 1000)"] by simp
  moreover have "u \<le> v + w \<Longrightarrow> v < 1 / 100 \<Longrightarrow> w < 48 / 100 \<Longrightarrow> u < 1 / 2" for u v w :: rat by simp
  ultimately have "\<bar>fl y - of_int (r * 1000)\<bar> < 1 / 2" using b by blast
  then have he: "half_even (fl y) = r * 1000" by (rule half_even_close)
  show ?thesis
    unfolding utc_from_milliseconds_def Let_def d(1,2) [symmetric] whole y_def [symmetric] he
    using assms(1) ms(5) by (simp add: ms(1))
qed

section \<open>What the parsers accept\<close>

lemma require_str_Inr: "require_str v k = Inr s \<longleftrightarrow> json_get v k = Some (JStr s) \<and> s \<noteq> [] \<and> py_strip s = s"
  by (auto simp: require_str_def split: option.splits json.splits)

lemma require_int_Inr: "require_int vt v k = Inr n \<Longrightarrow> 0 \<le> n"
  by (auto simp: require_int_def bindr_Inr_iff split: if_splits)

lemma lineage_Inr: "mk_lineage src ts rc = Inr l \<Longrightarrow> valid_lineage l \<and> lin_source l = src \<and> lin_source_ts l = ts
    \<and> lin_recv_ts l = rc_recv rc"
  by (auto simp: mk_lineage_def Let_def checked_Inr_iff valid_lineage_def)

lemma gamma_token_Inr: "gamma_token (x, y) = Inr t \<Longrightarrow> valid_token t"
  by (cases "(x, y)" rule: gamma_token.cases)
    (auto simp: mk_token_def Let_def checked_Inr_iff valid_token_def split: option.splits)

lemma gamma_tokens_valid: "mapr gamma_token xs = Inr ts \<Longrightarrow> list_all valid_token ts"
proof -
  assume "mapr gamma_token xs = Inr ts"
  then have "list_all2 (\<lambda>x t. gamma_token x = Inr t) xs ts" by (simp add: mapr_Inr_iff)
  then show ?thesis by (induction rule: list_all2_induct) (auto dest: gamma_token_Inr)
qed

lemma check_config_Inr:
  assumes "check_config v config a h = Inr u" "h \<noteq> ONE_HOUR \<or> config \<noteq> None"
  shows "\<exists>c. config = Some c \<and> json_get c ''asset'' = Some (JStr (lower (asset_value a)))
       \<and> json_get c ''duration'' = Some (JStr (horizon_value h))"
  using assms by (auto simp: check_config_def bindr_Inr_iff require_str_Inr split: option.splits if_splits)

lemma gamma_identity_Inr:
  assumes "parse_gamma_identity vt v a h = Inr (m, config)"
  shows "valid_market m" "mkt_asset m = a" "mkt_horizon m = h" "list_all valid_token (mkt_tokens m)"
    "json_get v ''id'' = Some (JStr (mkt_id m))" "json_get v ''conditionId'' = Some (JStr (mkt_condition_id m))"
    "check_config v config a h = Inr ()"
proof -
  obtain tokens where tokens: "list_all valid_token tokens" "mkt_tokens m = tokens" and cfg: "check_config v config a h = Inr ()"
    and m: "passes (market_checks m)" "mkt_asset m = a" "mkt_horizon m = h"
    "require_str v ''id'' = Inr (mkt_id m)" "require_str v ''conditionId'' = Inr (mkt_condition_id m)"
    using assms unfolding parse_gamma_identity_def
    by (auto simp: bindr_Inr_iff mk_market_def checked_Inr_iff dest: gamma_tokens_valid split: if_splits)
  then show "valid_market m" "mkt_asset m = a" "mkt_horizon m = h" "list_all valid_token (mkt_tokens m)"
    "json_get v ''id'' = Some (JStr (mkt_id m))" "json_get v ''conditionId'' = Some (JStr (mkt_condition_id m))"
    "check_config v config a h = Inr ()"
    by (auto simp: valid_market_def require_str_Inr)
qed

lemma parse_discovery_valid:
  assumes "parse_gamma_market_discovery vt raw event_id a h rc = Inr d"
  shows "valid_discovery d" "mkt_asset (md_market d) = a" "mkt_horizon (md_market d) = h"
    "json_get raw ''id'' = Some (JStr (mkt_id (md_market d)))"
    "json_get raw ''conditionId'' = Some (JStr (mkt_condition_id (md_market d)))"
    "valid_lineage (sm_lineage (md_settlement d))"
    "sm_method (md_settlement d) = (if h = ONE_HOUR then BINANCE_CANDLE else CHAINLINK_TWAP)"
proof -
  obtain m config l how cfg period where id: "parse_gamma_identity vt raw a h = Inr (m, config)" "md_market d = m"
    and d: "passes (market_discovery_checks d)" "passes (settlement_metadata_checks (md_settlement d))"
    and l: "mk_lineage POLYMARKET_GAMMA l rc = Inr (sm_lineage (md_settlement d))"
    and t: "settlement_terms vt raw config h = Inr (how, cfg, period)" "sm_method (md_settlement d) = how"
    using assms unfolding parse_gamma_market_discovery_def
    by (auto simp: bindr_Inr_iff mk_discovery_def mk_settlement_metadata_def checked_Inr_iff require_object_def
      split: if_splits prod.splits)
  note m = gamma_identity_Inr [OF id(1)]
  show "valid_discovery d" using d m(1) id(2) by (simp add: valid_discovery_def valid_settlement_metadata_def)
  show "mkt_asset (md_market d) = a" "mkt_horizon (md_market d) = h"
    "json_get raw ''id'' = Some (JStr (mkt_id (md_market d)))"
    "json_get raw ''conditionId'' = Some (JStr (mkt_condition_id (md_market d)))"
    using m id(2) by simp_all
  show "valid_lineage (sm_lineage (md_settlement d))" using lineage_Inr [OF l] by simp
  show "sm_method (md_settlement d) = (if h = ONE_HOUR then BINANCE_CANDLE else CHAINLINK_TWAP)"
    using t by (auto simp: settlement_terms_def bindr_Inr_iff split: option.splits if_splits)
qed

lemma clob_levels_Inr:
  assumes "clob_levels vt w desc = Inr ls"
  shows "list_all valid_pm_level ls"
proof -
  obtain raws xs where xs: "mapr (clob_level vt) raws = Inr xs"
    "ls = sort_key (\<lambda>l. if desc then - pml_price l else pml_price l) xs"
    using assms by (auto simp: clob_levels_def bindr_Inr_iff)
  have "list_all2 (\<lambda>x l. clob_level vt x = Inr l) raws xs" using xs(1) by (simp add: mapr_Inr_iff)
  then have "list_all valid_pm_level xs"
    by (induction rule: list_all2_induct)
      (auto simp: clob_level_def bindr_Inr_iff mk_level_def checked_Inr_iff valid_pm_level_def)
  then show ?thesis by (simp add: xs(2) list_all_iff)
qed

lemma parse_book_valid:
  assumes "parse_clob_book vt raw rc = Inr b"
  shows "valid_pm_book b" "valid_lineage (pmb_lineage b)"
    "json_get raw ''market'' = Some (JStr (pmb_condition_id b))" "json_get raw ''asset_id'' = Some (JStr (pmb_token_id b))"
proof -
  obtain wb wa ts where b: "clob_levels vt wb True = Inr (pmb_bids b)" "clob_levels vt wa False = Inr (pmb_asks b)"
    "passes (polymarket_book_checks b)" "mk_lineage POLYMARKET_CLOB ts rc = Inr (pmb_lineage b)"
    "require_str raw ''market'' = Inr (pmb_condition_id b)" "require_str raw ''asset_id'' = Inr (pmb_token_id b)"
    using assms unfolding parse_clob_book_def
    by (auto simp: bindr_Inr_iff mk_book_def checked_Inr_iff require_object_def split: if_splits)
  then show "valid_pm_book b" "valid_lineage (pmb_lineage b)"
    "json_get raw ''market'' = Some (JStr (pmb_condition_id b))" "json_get raw ''asset_id'' = Some (JStr (pmb_token_id b))"
    using clob_levels_Inr lineage_Inr [OF b(4)] by (auto simp: valid_pm_book_def require_str_Inr)
qed

lemma asset_from_symbol_Inr: "asset_from_symbol s = Inr a \<Longrightarrow> s = asset_value a @ ''/USD''"
  by (auto simp: asset_from_symbol_def find_Some_iff split: option.splits)

lemma parse_twap_valid:
  assumes "parse_twap vt raw a w rc = Inr t"
  shows "valid_twap t" "valid_lineage (cl_lineage t)" "cl_asset t = a" "cl_window_seconds t = w"
    "lin_source (cl_lineage t) = CHAINLINK_RTDS" "lin_recv_ts (cl_lineage t) = rc_recv rc"
    "\<exists>envelope. json_get raw ''payload'' = Some envelope \<and> twap_symbol envelope = Inr (asset_value a @ ''/USD'')"
proof -
  obtain v ts where t: "passes (chainlink_twap_checks t)" "mk_lineage CHAINLINK_RTDS ts rc = Inr (cl_lineage t)"
    "cl_asset t = a" "cl_window_seconds t = w" "twap_symbol (field_or_null raw ''payload'') = Inr (asset_value a @ ''/USD'')"
    "is_object (field_or_null raw ''payload'')"
    using assms unfolding parse_twap_def
    by (auto simp: bindr_Inr_iff mk_twap_def checked_Inr_iff require_object_def split: if_splits option.splits json.splits)
  then show "valid_twap t" "valid_lineage (cl_lineage t)" "cl_asset t = a" "cl_window_seconds t = w"
    "lin_source (cl_lineage t) = CHAINLINK_RTDS" "lin_recv_ts (cl_lineage t) = rc_recv rc"
    using lineage_Inr [OF t(2)] by (auto simp: valid_twap_def)
  show "\<exists>envelope. json_get raw ''payload'' = Some envelope \<and> twap_symbol envelope = Inr (asset_value a @ ''/USD'')"
    using t(5,6) by (auto simp: field_or_null_def split: option.splits)
qed

lemma parse_twap_from_symbol_valid:
  assumes "parse_twap_from_symbol vt raw w rc = Inr t"
  shows "valid_twap t" "valid_lineage (cl_lineage t)" "cl_window_seconds t = w" "lin_recv_ts (cl_lineage t) = rc_recv rc"
    "\<exists>envelope. json_get raw ''payload'' = Some envelope \<and> twap_symbol envelope = Inr (asset_value (cl_asset t) @ ''/USD'')"
  using assms parse_twap_valid unfolding parse_twap_from_symbol_def by (auto simp: bindr_Inr_iff)

section \<open>The market document\<close>

text \<open>A market as Gamma publishes it, with the configuration block of the short windows.\<close>

fun side_title :: "outcome_side \<Rightarrow> string" where
  "side_title UP = ''Up''"
| "side_title DOWN = ''Down''"

definition gamma_payload :: "(utc \<Rightarrow> string) \<Rightarrow> string \<Rightarrow> market \<Rightarrow> json" where
  "gamma_payload iso_text cfg m = JDict
     ([(''id'', JStr (mkt_id m)), (''conditionId'', JStr (mkt_condition_id m)),
       (''outcomes'', JList (map (\<lambda>t. JStr (side_title (tok_outcome t))) (mkt_tokens m))),
       (''clobTokenIds'', JList (map (\<lambda>t. JStr (tok_id t)) (mkt_tokens m))),
       (''eventStartTime'', JStr (iso_text (mkt_window_start m))), (''endDate'', JStr (iso_text (mkt_window_end m))),
       (''resolutionSource'', JStr (mkt_settlement_source m))] @
      (if mkt_horizon m = ONE_HOUR then [] else
        [(''cryptoMarketConfigId'', JStr cfg),
         (''cryptoMarketConfig'', JDict [(''asset'', JStr (lower (asset_value (mkt_asset m)))),
            (''duration'', JStr (horizon_value (mkt_horizon m))), (''id'', JStr cfg)])]))"

lemma bindr_Inr: "bindr r Inr = r"
  by (cases r) simp_all

lemma is_object_payload [simp]: "is_object (gamma_payload iso_text cfg m)"
  by (simp add: gamma_payload_def)

lemma horizon_value_inject: "horizon_value g = horizon_value h \<longleftrightarrow> g = h"
  by (cases g; cases h) simp_all

lemma trimmed_str: "json_get v k = Some (JStr s) \<Longrightarrow> require_text n s = None \<Longrightarrow> require_str v k = Inr s"
  by (auto simp: require_str_Inr py_strip_id)

lemma gamma_token_title: "valid_token t \<Longrightarrow> gamma_token (JStr (side_title (tok_outcome t)), JStr (tok_id t)) = Inr t"
  by (cases "tok_outcome t") (auto simp: outcome_alias_def py_upper_def py_strip_def py_space_def mk_token_def
    valid_token_def market_token_checks_def char_of_def bit_Suc_0_iff)

lemma gamma_tokens_title:
  "list_all valid_token ts \<Longrightarrow> mapr gamma_token (zip (map (\<lambda>t. JStr (side_title (tok_outcome t))) ts)
     (map (\<lambda>t. JStr (tok_id t)) ts)) = Inr ts"
  by (induction ts) (simp_all add: gamma_token_title del: gamma_token.simps)

definition iso_readable :: "vendor_text \<Rightarrow> (utc \<Rightarrow> string) \<Rightarrow> utc \<Rightarrow> bool" where
  "iso_readable vt iso_text t \<longleftrightarrow> vt_iso vt (iso_text t) = Some (t, True) \<and> require_text ''iso'' (iso_text t) = None"

lemma iso_field:
  assumes "iso_readable vt iso_text t" "json_get v k = Some (JStr (iso_text t))"
  shows "require_iso8601 vt v k = Inr t"
proof -
  have "require_str v k = Inr (iso_text t)" using assms by (intro trimmed_str [where n = "''iso''"]) (simp_all add: iso_readable_def)
  then show ?thesis using assms by (simp add: require_iso8601_def iso_readable_def)
qed

lemma asset_lower_inject: "lower (asset_value a) = lower (asset_value b) \<longleftrightarrow> a = b"
  by (cases a; cases b) (simp_all add: lower_def)

lemma asset_lower_text: "require_text n (lower (asset_value a)) = None" "require_text n (horizon_value h) = None"
  by (cases a; cases h; simp add: lower_def py_space_def)+

text \<open>
  C40: reading back a published market gives exactly that market, and a document is never read as another
  market: a request for another horizon is refused, and a request for another asset is refused for
  the short windows, whose configuration block names the asset.
\<close>

theorem gamma_market_round_trip:
  assumes "valid_market m" "list_all valid_token (mkt_tokens m)"
    "require_text ''cryptoMarketConfigId'' cfg = None" "iso_readable vt iso_text (mkt_window_start m)"
    "iso_readable vt iso_text (mkt_window_end m)"
  shows "parse_gamma_market vt (gamma_payload iso_text cfg m) (mkt_asset m) (mkt_horizon m) = Inr m
    \<and> (\<forall>a h m'. parse_gamma_market vt (gamma_payload iso_text cfg m) a h = Inr m' \<longrightarrow>
         h = mkt_horizon m \<and> (h \<noteq> ONE_HOUR \<longrightarrow> a = mkt_asset m \<and> m' = m))"
proof -
  let ?v = "gamma_payload iso_text cfg m" and ?short = "mkt_horizon m \<noteq> ONE_HOUR"
  let ?cfg = "JDict [(''asset'', JStr (lower (asset_value (mkt_asset m)))),
            (''duration'', JStr (horizon_value (mkt_horizon m))), (''id'', JStr cfg)]"
  have g: "json_get ?v ''id'' = Some (JStr (mkt_id m))" "json_get ?v ''conditionId'' = Some (JStr (mkt_condition_id m))"
    "json_get ?v ''outcomes'' = Some (JList (map (\<lambda>t. JStr (side_title (tok_outcome t))) (mkt_tokens m)))"
    "json_get ?v ''clobTokenIds'' = Some (JList (map (\<lambda>t. JStr (tok_id t)) (mkt_tokens m)))"
    "json_get ?v ''eventStartTime'' = Some (JStr (iso_text (mkt_window_start m)))"
    "json_get ?v ''endDate'' = Some (JStr (iso_text (mkt_window_end m)))"
    "json_get ?v ''resolutionSource'' = Some (JStr (mkt_settlement_source m))"
    "json_get ?v ''cryptoMarketConfig'' = (if ?short then Some ?cfg else None)"
    "?short \<Longrightarrow> json_get ?v ''cryptoMarketConfigId'' = Some (JStr cfg)"
    by (simp_all add: gamma_payload_def)
  have texts: "require_text ''market_id'' (mkt_id m) = None" "require_text ''condition_id'' (mkt_condition_id m) = None"
    "require_text ''settlement_source'' (mkt_settlement_source m) = None" "length (mkt_tokens m) = 2"
    using assms(1) by (simp_all add: valid_market_def market_checks_def)
  have tokens: "mapr gamma_token (zip (map (\<lambda>t. JStr (side_title (tok_outcome t))) (mkt_tokens m))
      (map (\<lambda>t. JStr (tok_id t)) (mkt_tokens m))) = Inr (mkt_tokens m)"
    using assms(2) by (rule gamma_tokens_title)
  note field = trimmed_str [where v = ?v] and cfg_field = trimmed_str [where v = ?cfg]
  have asset_field: "require_str ?cfg ''asset'' = Inr (lower (asset_value (mkt_asset m)))"
    and duration_field: "require_str ?cfg ''duration'' = Inr (horizon_value (mkt_horizon m))"
    and id_field: "require_str ?cfg ''id'' = Inr cfg"
    using asset_lower_text assms(3) by (intro trimmed_str [where n = n for n]; simp)+
  have config: "gamma_config ?v = Inr (if ?short then Some ?cfg else None)"
    by (simp add: gamma_config_def g require_object_def)
  have same: "check_config ?v (if ?short then Some ?cfg else None) (mkt_asset m) (mkt_horizon m) = Inr ()"
    using g(9) assms(3) asset_field duration_field id_field by (auto simp: check_config_def field)
  have fields: "require_str ?v ''id'' = Inr (mkt_id m)" "require_str ?v ''conditionId'' = Inr (mkt_condition_id m)"
    "require_str ?v ''resolutionSource'' = Inr (mkt_settlement_source m)"
    "require_iso8601 vt ?v ''eventStartTime'' = Inr (mkt_window_start m)"
    "require_iso8601 vt ?v ''endDate'' = Inr (mkt_window_end m)"
    using field [OF g(1) texts(1)] field [OF g(2) texts(2)] field [OF g(7) texts(3)]
      iso_field [OF assms(4) g(5)] iso_field [OF assms(5) g(6)] by simp_all
  have parse: "parse_gamma_market vt ?v a h = bindr (check_config ?v (if ?short then Some ?cfg else None) a h)
      (\<lambda>_. mk_market (m\<lparr>mkt_asset := a, mkt_horizon := h\<rparr>))" for a h
    using tokens texts(4) by (simp add: parse_gamma_market_def parse_gamma_identity_def array_field_def g(3,4) config fields
      require_object_def is_object_payload bindr_assoc) (cases m, simp add: bindr_assoc bindr_Inr)
  have refused: "h = mkt_horizon m \<and> (h \<noteq> ONE_HOUR \<longrightarrow> a = mkt_asset m)"
    if "check_config ?v (if ?short then Some ?cfg else None) a h = Inr u" for a h u
    using that asset_field duration_field asset_lower_inject
    by (auto simp: check_config_def bindr_Inr_iff horizon_value_inject split: if_splits)
  show ?thesis
    using assms(1) same refused by (auto simp: parse bindr_Inr_iff mk_market_def valid_market_def checked_Inr_iff)
qed

definition sample_market :: market where
  "sample_market = \<lparr>mkt_id = ''m1'', mkt_condition_id = ''c1'', mkt_asset = BTC, mkt_horizon = FIVE_MINUTES,
     mkt_tokens = [\<lparr>tok_id = ''t1'', tok_outcome = UP\<rparr>, \<lparr>tok_id = ''t2'', tok_outcome = DOWN\<rparr>],
     mkt_window_start = 0, mkt_window_end = 300000000, mkt_settlement_source = ''chainlink''\<rparr>"

definition sample_iso :: "utc \<Rightarrow> string" where "sample_iso t = (if t = 0 then ''open'' else ''close'')"

definition sample_vendor :: vendor_text where
  "sample_vendor = \<lparr>vt_loads = (\<lambda>_. None), vt_int = (\<lambda>_. None), vt_decimal = (\<lambda>_. None),
     vt_iso = (\<lambda>s. Some (if s = ''open'' then 0 else 300000000, True))\<rparr>"

theorem gamma_market_round_trip_witness:
  "parse_gamma_market sample_vendor (gamma_payload sample_iso ''cfg'' sample_market) BTC FIVE_MINUTES = Inr sample_market
    \<and> (\<forall>m'. parse_gamma_market sample_vendor (gamma_payload sample_iso ''cfg'' sample_market) ETH FIVE_MINUTES \<noteq> Inr m')"
proof -
  have "passes (market_checks sample_market)"
    using int_timestamp_div [of 0] by (simp add: market_checks_def sample_market_def py_space_def seconds_def duration_seconds_def)
  then have m: "valid_market sample_market" by (simp add: valid_market_def)
  have t: "list_all valid_token (mkt_tokens sample_market)"
    by (simp add: sample_market_def valid_token_def market_token_checks_def py_space_def)
  have c: "require_text ''cryptoMarketConfigId'' ''cfg'' = None" by (simp add: py_space_def)
  have i: "iso_readable sample_vendor sample_iso (mkt_window_start sample_market)"
    "iso_readable sample_vendor sample_iso (mkt_window_end sample_market)"
    by (simp_all add: iso_readable_def sample_vendor_def sample_iso_def sample_market_def py_space_def)
  show ?thesis
    using gamma_market_round_trip [OF m t c i] by (auto simp: sample_market_def)
qed

end
