(* ===== verification/Collectors.thy ===== *)
theory Collectors
  imports Scheduler Adapters
begin

text \<open>
  \<open>market_data/official_runtime.py\<close>: the collector of Chainlink TWAPs with its bounded history per asset, the
  collector of Binance hourly candles, and the service that turns what they hold into the source of a
  price to beat (\<open>ptb_resolve\<close> of \<open>Scheduler\<close>). A message comes with the clock readings its handling makes.
  The transport is a parameter: the reconnect loop reaches the state through the connection events and
  \<open>handle_message\<close>.
\<close>

section \<open>The state\<close>

record asset_collector =
  ac_connected :: bool
  ac_subscription :: string
  ac_reconnects :: nat
  ac_message_count :: nat
  ac_parse_success :: nat
  ac_parse_failure :: nat
  ac_last_message_at :: "utc option"
  ac_last_source_ts :: "utc option"
  ac_latest :: "chainlink_twap option"
  ac_last_error :: "string option"
  ac_filter_match :: nat
  ac_filter_mismatch :: nat
  ac_snapshots :: nat
  ac_filter_status :: string
  ac_frame_class :: string
  ac_symbol :: "string option"

definition initial_asset :: asset_collector where
  "initial_asset = \<lparr>ac_connected = False, ac_subscription = ''NOT_STARTED'', ac_reconnects = 0, ac_message_count = 0, ac_parse_success = 0, ac_parse_failure = 0, ac_last_message_at = None,
     ac_last_source_ts = None, ac_latest = None, ac_last_error = None, ac_filter_match = 0,
     ac_filter_mismatch = 0, ac_snapshots = 0, ac_filter_status = ''NO_DATA'', ac_frame_class = ''NO_DATA'',
     ac_symbol = None\<rparr>"

record collector =
  col_limit :: nat
  col_assets :: "asset list"
  col_history :: "asset \<rightharpoonup> chainlink_twap list"
  col_latest :: "asset \<rightharpoonup> chainlink_twap"
  col_states :: "asset \<rightharpoonup> asset_collector"
  col_messages :: nat
  col_parsed :: nat
  col_failed :: nat
  col_snapshots :: nat
  col_last_message_at :: "utc option"
  col_last_error :: "string option"

definition mk_collector :: "asset list \<Rightarrow> int \<Rightarrow> collector result" where
  "mk_collector assets limit =
     checked [fail_if (limit < 1) (ValueErr ''history_limit must be positive''),
         fail_if (assets = [] \<or> \<not> distinct assets) (ValueErr ''assets must be a non-empty unique sequence'')]
      (Inr \<lparr>col_limit = nat limit, col_assets = assets, col_history = (\<lambda>a. if a \<in> set assets then Some [] else None),
         col_latest = Map.empty, col_states = (\<lambda>a. if a \<in> set assets then Some initial_asset else None),
         col_messages = 0, col_parsed = 0, col_failed = 0, col_snapshots = 0, col_last_message_at = None,
         col_last_error = None\<rparr>)"

section \<open>One message\<close>

text \<open>An entry of \<open>self._asset_state\<close>; a missing asset raises \<open>KeyError\<close>.\<close>

definition on_state :: "asset \<Rightarrow> (asset_collector \<Rightarrow> asset_collector) \<Rightarrow> collector \<Rightarrow> collector result" where
  "on_state a f c = (case col_states c a of None \<Rightarrow> Inl (KeyErr ''asset'')
     | Some s \<Rightarrow> Inr (c\<lparr>col_states := (col_states c)(a \<mapsto> f s)\<rparr>))"

text \<open>\<open>deque(maxlen=limit).append\<close>\<close>

definition bounded_append :: "nat \<Rightarrow> 'a list \<Rightarrow> 'a \<Rightarrow> 'a list" where
  "bounded_append limit xs x = (let ys = xs @ [x] in drop (length ys - limit) ys)"

definition append_twap :: "chainlink_twap \<Rightarrow> collector \<Rightarrow> collector" where
  "append_twap t c =
     (let h = (case col_history c (cl_asset t) of None \<Rightarrow> [] | Some xs \<Rightarrow> xs);
          size = (case col_history c (cl_asset t) of None \<Rightarrow> 4096 | Some _ \<Rightarrow> col_limit c);
          h' = (if h = [] \<or> cl_publisher_ts (last h) \<noteq> cl_publisher_ts t \<or> cl_value (last h) \<noteq> cl_value t
            then bounded_append size h t else h) in
      c\<lparr>col_history := (col_history c)(cl_asset t \<mapsto> h')\<rparr>)"

definition record_twap :: "chainlink_twap \<Rightarrow> collector \<Rightarrow> collector \<times> unit result" where
  "record_twap t c =
     (let newer = (case col_latest c (cl_asset t) of None \<Rightarrow> True | Some l \<Rightarrow> cl_publisher_ts l \<le> cl_publisher_ts t);
          c1 = (if newer then c\<lparr>col_latest := (col_latest c)(cl_asset t \<mapsto> t)\<rparr> else c) in
      case (if newer then on_state (cl_asset t) (\<lambda>s. s\<lparr>ac_latest := Some t, ac_last_source_ts := Some (cl_publisher_ts t)\<rparr>) c1
            else Inr c1) of
        Inl e \<Rightarrow> (c1, Inl e)
      | Inr c2 \<Rightarrow> (append_twap t c2, Inr ()))"

definition usd_symbol :: "asset \<Rightarrow> string" where
  "usd_symbol a = asset_value a @ ''/USD''"

definition record_snapshot :: "asset \<Rightarrow> asset option \<Rightarrow> collector \<Rightarrow> collector \<times> unit result" where
  "record_snapshot a hint c =
     (case on_state a (\<lambda>s. s\<lparr>ac_snapshots := ac_snapshots s + 1, ac_frame_class := ''SUBSCRIPTION_SNAPSHOT'',
         ac_symbol := Some (usd_symbol a)\<rparr>) c of
        Inl e \<Rightarrow> (c, Inl e)
      | Inr c1 \<Rightarrow>
         (let marked = (if hint = None \<or> hint = Some a
              then on_state a (\<lambda>s. s\<lparr>ac_filter_match := ac_filter_match s + 1, ac_filter_status := ''FILTER_MATCH''\<rparr>) c1
              else on_state (the hint) (\<lambda>s. s\<lparr>ac_filter_mismatch := ac_filter_mismatch s + 1,
                  ac_filter_status := ''FILTER_MISMATCH'', ac_frame_class := ''SUBSCRIPTION_SNAPSHOT'',
                  ac_symbol := Some (usd_symbol a)\<rparr>) c1) in
          case marked of Inl e \<Rightarrow> (c1, Inl e)
          | Inr c2 \<Rightarrow> (c2\<lparr>col_snapshots := col_snapshots c2 + 1\<rparr>, Inr ())))"

fun fail_assets :: "asset list \<Rightarrow> string \<Rightarrow> collector \<Rightarrow> collector \<times> unit result" where
  "fail_assets [] msg c = (c, Inr ())"
| "fail_assets (a # as) msg c =
     (case on_state a (\<lambda>s. s\<lparr>ac_parse_failure := ac_parse_failure s + 1, ac_last_error := Some (take 500 msg)\<rparr>) c of
        Inl e \<Rightarrow> (c, Inl e) | Inr c' \<Rightarrow> fail_assets as msg c')"

definition record_parse_failure :: "asset option \<Rightarrow> string \<Rightarrow> collector \<Rightarrow> collector \<times> unit result" where
  "record_parse_failure hint msg c =
     (case fail_assets (case hint of Some a \<Rightarrow> [a] | None \<Rightarrow> col_assets c) msg c of
        (c', Inl e) \<Rightarrow> (c', Inl e) | (c', Inr _) \<Rightarrow> (c'\<lparr>col_failed := col_failed c' + 1\<rparr>, Inr ()))"

text \<open>The fields of the per-asset state after a recorded sample.\<close>

definition note_sample :: "asset \<Rightarrow> asset option \<Rightarrow> utc \<Rightarrow> collector \<Rightarrow> collector \<times> unit result" where
  "note_sample a hint now c =
     (case on_state a (\<lambda>s. s\<lparr>ac_message_count := ac_message_count s + 1, ac_parse_success := ac_parse_success s + 1,
         ac_last_message_at := Some now, ac_last_error := None, ac_symbol := Some (usd_symbol a),
         ac_frame_class := ''LIVE_UPDATE''\<rparr>) c of
        Inl e \<Rightarrow> (c, Inl e)
      | Inr c1 \<Rightarrow>
         (let marked = (if hint = None \<or> hint = Some a
              then on_state a (\<lambda>s. s\<lparr>ac_filter_match := ac_filter_match s + 1, ac_filter_status := ''FILTER_MATCH''\<rparr>) c1
              else bindr (on_state (the hint) (\<lambda>s. s\<lparr>ac_filter_mismatch := ac_filter_mismatch s + 1,
                  ac_filter_status := ''FILTER_MISMATCH'', ac_symbol := Some (usd_symbol a),
                  ac_last_error := Some (''FILTER_MISMATCH:intended='' @ asset_value (the hint) @ '':returned='' @ asset_value a)\<rparr>) c1)
                (on_state a (\<lambda>s. s\<lparr>ac_filter_status := ''ROUTED_BY_RETURNED_SYMBOL''\<rparr>))) in
          case marked of Inl e \<Rightarrow> (c1, Inl e) | Inr c2 \<Rightarrow> (c2, Inr ())))"

record collector_message =
  cm_payload :: json
  cm_receipt :: receipt
  cm_now :: utc

definition handle_payload :: "vendor_text \<Rightarrow> asset option \<Rightarrow> collector_message \<Rightarrow> collector \<Rightarrow> collector \<times> bool result" where
  "handle_payload vt hint m c =
     (let failed = (\<lambda>e. case e of
            MarketDataSchemaError msg \<Rightarrow> (case record_parse_failure hint msg c of (c', r) \<Rightarrow> (c', bindr r (\<lambda>_. Inr False)))
          | _ \<Rightarrow> (c, Inl e)) in
      case inspect_twap_frame vt (cm_payload m) 60 of
        Inl e \<Rightarrow> failed e
      | Inr f \<Rightarrow>
          if tf_class f = ''SUBSCRIPTION_SNAPSHOT'' then
            (case record_snapshot (tf_asset f) hint c of (c', r) \<Rightarrow> (c', bindr r (\<lambda>_. Inr False)))
          else (case parse_twap_from_symbol vt (cm_payload m) 60 (cm_receipt m) of
              Inl e \<Rightarrow> failed e
            | Inr t \<Rightarrow> (case record_twap t c of
                (c', Inl e) \<Rightarrow> (c', Inl e)
              | (c', Inr _) \<Rightarrow> (case note_sample (cl_asset t) hint (cm_now m) c' of
                  (c'', r) \<Rightarrow> (c'', bindr r (\<lambda>_. Inr True))))))"

fun handle_payloads :: "vendor_text \<Rightarrow> asset option \<Rightarrow> collector_message list \<Rightarrow> nat \<Rightarrow> collector \<Rightarrow> collector \<times> nat result" where
  "handle_payloads vt hint [] n c = (c, Inr n)"
| "handle_payloads vt hint (m # ms) n c =
     (case handle_payload vt hint m c of
        (c', Inl e) \<Rightarrow> (c', Inl e)
      | (c', Inr parsed) \<Rightarrow> handle_payloads vt hint ms (if parsed then n + 1 else n) c')"

text \<open>
  A raw message is one payload or a list of them; \<open>readings\<close> are the clock readings made for the payload
  at a position, \<open>now\<close> is the last one.
\<close>

fun rtds_payloads :: "json \<Rightarrow> json list" where
  "rtds_payloads (JList xs) = xs"
| "rtds_payloads v = [v]"

definition collector_messages :: "json \<Rightarrow> (nat \<Rightarrow> receipt \<times> utc) \<Rightarrow> collector_message list" where
  "collector_messages raw readings = (let ps = rtds_payloads raw in
     map (\<lambda>i. \<lparr>cm_payload = ps ! i, cm_receipt = fst (readings i), cm_now = snd (readings i)\<rparr>) [0..<length ps])"

definition handle_message :: "vendor_text \<Rightarrow> asset option \<Rightarrow> json \<Rightarrow> (nat \<Rightarrow> receipt \<times> utc) \<Rightarrow> utc \<Rightarrow>
    collector \<Rightarrow> collector \<times> nat result" where
  "handle_message vt hint raw readings now c =
     (case handle_payloads vt hint (collector_messages raw readings) 0 c of
        (c', Inr n) \<Rightarrow>
          (if n = 0 then c' else c'\<lparr>col_messages := col_messages c' + n, col_parsed := col_parsed c' + n,
             col_last_message_at := Some now, col_last_error := None\<rparr>, Inr n)
      | r \<Rightarrow> r)"

text \<open>The connection events of \<open>_run_asset\<close>: connecting, an exception of the stream, and its end.\<close>

definition connect_asset :: "asset \<Rightarrow> collector \<Rightarrow> collector result" where
  "connect_asset a = on_state a (\<lambda>s. s\<lparr>ac_connected := True, ac_subscription := ''SUBSCRIBED''\<rparr>)"

definition fail_stream :: "asset \<Rightarrow> py_error \<Rightarrow> collector \<Rightarrow> collector result" where
  "fail_stream a e = on_state a (\<lambda>s. s\<lparr>ac_last_error := Some (take 500 (error_class e @ '': '' @ error_text e)),
     ac_subscription := ''ERROR'', ac_reconnects := ac_reconnects s + 1, ac_connected := False\<rparr>)"

definition end_stream :: "asset \<Rightarrow> collector \<Rightarrow> collector result" where
  "end_stream a = on_state a (\<lambda>s. s\<lparr>ac_connected := False\<rparr>)"

definition opening_twap :: "collector \<Rightarrow> asset \<Rightarrow> utc \<Rightarrow> timedelta \<Rightarrow> chainlink_twap option" where
  "opening_twap c a boundary tolerance =
     (case col_history c a of
        None \<Rightarrow> None
      | Some [] \<Rightarrow> None
      | Some (t # ts) \<Rightarrow>
         (let best = min_by (\<lambda>x. \<bar>cl_publisher_ts x - boundary\<bar>) t ts in
          if tolerance < \<bar>cl_publisher_ts best - boundary\<bar> then None else Some best))"

section \<open>Status\<close>

record collector_status =
  cst_connection :: string
  cst_topic :: string
  cst_subscription :: string
  cst_last_message_at :: "utc option"
  cst_last_source_ts :: "utc option"
  cst_reconnects :: nat
  cst_messages :: nat
  cst_parsed :: nat
  cst_failed :: nat
  cst_snapshots :: nat
  cst_history_sizes :: "asset \<rightharpoonup> nat"
  cst_latest :: "asset \<rightharpoonup> dec"
  cst_last_error :: "string option"
  cst_per_asset :: "(asset \<times> nat \<times> asset_collector) list"

definition asset_states :: "collector \<Rightarrow> asset_collector list" where
  "asset_states c = List.map_filter (col_states c) (col_assets c)"

definition history_size :: "collector \<Rightarrow> asset \<Rightarrow> nat" where
  "history_size c a = (case col_history c a of None \<Rightarrow> 0 | Some h \<Rightarrow> length h)"

text \<open>\<open>errors[-1] if errors else self._last_error\<close>, of the messages that are not empty.\<close>

definition last_collector_error :: "collector \<Rightarrow> string option" where
  "last_collector_error c = (case filter (\<lambda>e. e \<noteq> []) (List.map_filter ac_last_error (asset_states c)) of
     [] \<Rightarrow> col_last_error c | es \<Rightarrow> Some (last es))"

definition collector_status_of :: "collector \<Rightarrow> collector_status" where
  "collector_status_of c =
     (let states = asset_states c;
          count = (\<lambda>w. length (filter (\<lambda>s. ac_subscription s = w) states));
          stamps = List.map_filter ac_last_source_ts states in
      \<lparr>cst_connection = (if \<exists>s\<in>set states. ac_connected s then ''connected'' else ''disconnected''),
       cst_topic = ''crypto_prices_twap_sixty'',
       cst_subscription = (if count ''SUBSCRIBED'' = length (col_assets c) then ''SUBSCRIBED''
          else if count ''SUBSCRIBED'' \<noteq> 0 then ''PARTIAL'' else if count ''ERROR'' \<noteq> 0 then ''ERROR'' else ''NOT_STARTED''),
       cst_last_message_at = col_last_message_at c,
       cst_last_source_ts = (if stamps = [] then None else Some (Max (set stamps))),
       cst_reconnects = sum_list (map ac_reconnects states), cst_messages = col_messages c,
       cst_parsed = col_parsed c, cst_failed = col_failed c, cst_snapshots = col_snapshots c,
       cst_history_sizes = (\<lambda>a. if a \<in> set (col_assets c) then Some (history_size c a) else None),
       cst_latest = (\<lambda>a. map_option cl_value (col_latest c a)), cst_last_error = last_collector_error c,
       cst_per_asset = List.map_filter (\<lambda>a. map_option (\<lambda>s. (a, history_size c a, s)) (col_states c a)) (col_assets c)\<rparr>)"

definition short_unavailable_reason :: "collector \<Rightarrow> asset \<Rightarrow> string" where
  "short_unavailable_reason c a =
     (let s = collector_status_of c in
      if cst_messages s = 0 then
        (if cst_last_error s \<noteq> None \<and> cst_last_error s \<noteq> Some [] then ''CHAINLINK_SOCKET_UNAVAILABLE'' else ''CHAINLINK_NO_MESSAGES'')
      else if cst_parsed s = 0 \<and> 0 < cst_failed s then ''CHAINLINK_PARSE_FAILED''
      else if cst_history_sizes s a = None \<or> cst_history_sizes s a = Some 0 then ''BOUNDARY_HISTORY_MISSING''
      else ''BOUNDARY_SAMPLE_OUTSIDE_TOLERANCE'')"

section \<open>The hourly candle\<close>

record hourly_collector =
  hcol_last_request_at :: "utc option"
  hcol_last_candle :: "asset \<rightharpoonup> hourly_candle"
  hcol_last_error :: "string option"
  hcol_http_status :: "string option"
  hcol_window_start :: "utc option"
  hcol_match_status :: "string option"

text \<open>\<open>int(str(value))\<close> and \<open>Decimal(str(value))\<close>; \<open>show\<close> is \<open>str\<close> of a number or a container.\<close>

definition int_of_json :: "vendor_text \<Rightarrow> (json \<Rightarrow> string) \<Rightarrow> json \<Rightarrow> int option" where
  "int_of_json vt show v = (case v of JInt n \<Rightarrow> Some n | _ \<Rightarrow> vt_int vt (json_str show v))"

definition decimal_of_json :: "vendor_text \<Rightarrow> (json \<Rightarrow> string) \<Rightarrow> json \<Rightarrow> pydec option" where
  "decimal_of_json vt show v = (case v of JInt n \<Rightarrow> Some (Fin (of_int n)) | JReal x \<Rightarrow> Some (Fin x)
     | _ \<Rightarrow> vt_decimal vt (json_str show v))"

definition kline_row :: "json \<Rightarrow> json list result" where
  "kline_row raw = (case raw of
     JList (JList row # rest) \<Rightarrow> if length row < 5 then schema_error ''Binance kline row was malformed'' else Inr row
   | JList (_ # rest) \<Rightarrow> schema_error ''Binance kline row was malformed''
   | _ \<Rightarrow> schema_error ''Binance klines response was not a non-empty array'')"

definition finite_price :: "pydec \<Rightarrow> dec result" where
  "finite_price d = (case d of Fin x \<Rightarrow> Inr x | _ \<Rightarrow> Inl (ValueErr '' must be finite''))"

definition kline_values :: "vendor_text \<Rightarrow> (json \<Rightarrow> string) \<Rightarrow> json list \<Rightarrow> (utc \<times> pydec \<times> pydec) option" where
  "kline_values vt show row = (case int_of_json vt show (row ! 0) of None \<Rightarrow> None
     | Some ms \<Rightarrow> (case (utc_from_milliseconds ms, decimal_of_json vt show (row ! 1), decimal_of_json vt show (row ! 4)) of
         (Inr t, Some p, Some q) \<Rightarrow> Some (t, p, q)
       | _ \<Rightarrow> None))"

definition parse_binance_hourly_candle :: "vendor_text \<Rightarrow> (json \<Rightarrow> string) \<Rightarrow> json \<Rightarrow> asset \<Rightarrow> receipt \<Rightarrow> hourly_candle result" where
  "parse_binance_hourly_candle vt show raw a rc =
     bindr (kline_row raw) (\<lambda>row. case kline_values vt show row of
         None \<Rightarrow> schema_error ''Binance kline row had invalid values''
       | Some (t, p, q) \<Rightarrow> bindr (mk_lineage BINANCE_SPOT (Some t) (rc\<lparr>rc_normalized := rc_recv rc\<rparr>)) (\<lambda>l.
           bindr (finite_price p) (\<lambda>open_price. bindr (checked [positive ''open_price'' open_price] (Inr ())) (\<lambda>_.
           bindr (finite_price q) (\<lambda>close_price.
           let c = \<lparr>hc_asset = a, hc_open_time = t, hc_close_time = t + seconds 3600, hc_open_price = open_price,
             hc_close_price = close_price, hc_lineage = l\<rparr> in checked (hourly_candle_checks c) (Inr c))))))"

text \<open>What the environment does for one request: the clock, the transport, the clocks of the parser.\<close>

record kline_response =
  kr_requested_at :: utc
  kr_body :: "json result"
  kr_receipt :: receipt

definition fetch_candle :: "vendor_text \<Rightarrow> (json \<Rightarrow> string) \<Rightarrow> market \<Rightarrow> kline_response \<Rightarrow> hourly_collector \<Rightarrow>
    hourly_collector \<times> hourly_candle result" where
  "fetch_candle vt show m k h =
     (if mkt_horizon m \<noteq> ONE_HOUR
      then (h, Inl (ReferenceUnavailableError ''Binance hourly official source is 1h-only''))
      else let h1 = h\<lparr>hcol_last_request_at := Some (kr_requested_at k), hcol_window_start := Some (mkt_window_start m)\<rparr>;
          parsed = bindr (kr_body k) (\<lambda>raw. parse_binance_hourly_candle vt show raw (mkt_asset m) (kr_receipt k)) in
        case parsed of
          Inl e \<Rightarrow> (h1\<lparr>hcol_http_status := Some ''ERROR'',
            hcol_last_error := Some (error_class e @ '': '' @ error_text e)\<rparr>, Inl e)
        | Inr c \<Rightarrow> (h1\<lparr>hcol_http_status := Some ''OK'', hcol_last_candle := (hcol_last_candle h)(mkt_asset m \<mapsto> c),
            hcol_match_status := Some (if hc_open_time c = mkt_window_start m then ''MATCH''
               else ''BINANCE_HOURLY_WINDOW_MISMATCH''), hcol_last_error := None\<rparr>, Inr c))"

section \<open>The service\<close>

definition establish_short :: "collector \<Rightarrow> market \<Rightarrow> reference_policy \<Rightarrow> boundary_source" where
  "establish_short c m p = (case opening_twap c (mkt_asset m) (mkt_window_start m) (rfp_boundary_tolerance p) of
     None \<Rightarrow> No_opening (short_unavailable_reason c (mkt_asset m))
   | Some t \<Rightarrow> (case official_reference_from_chainlink_twap m t (lin_recv_ts (cl_lineage t)) True of
       Inl e \<Rightarrow> Opening_error e | Inr r \<Rightarrow> Opening r))"

definition establish_hourly :: "vendor_text \<Rightarrow> (json \<Rightarrow> string) \<Rightarrow> market \<Rightarrow> kline_response \<Rightarrow> hourly_collector \<Rightarrow>
    hourly_collector \<times> boundary_source" where
  "establish_hourly vt show m k h = (case fetch_candle vt show m k h of (h', candle) \<Rightarrow>
     (h', case bindr candle (\<lambda>c. official_reference_from_binance_hourly_candle m c True) of
        Inr r \<Rightarrow> Opening r
      | Inl e \<Rightarrow> No_opening ((case e of ReferenceUnavailableError _ \<Rightarrow> ''BINANCE_HOURLY_WINDOW_MISMATCH''
          | _ \<Rightarrow> ''BINANCE_HOURLY_HTTP_FAILED'') @ '':'' @ error_class e)))"

text \<open>The sources are asked only when the repository has no record of the window.\<close>

definition service_resolve :: "vendor_text \<Rightarrow> (json \<Rightarrow> string) \<Rightarrow> ptb_table \<Rightarrow> collector \<Rightarrow> hourly_collector \<Rightarrow>
    market_discovery \<Rightarrow> utc \<Rightarrow> kline_response \<Rightarrow> reference_policy \<Rightarrow>
    (ptb_table \<times> hourly_collector) \<times> ptb_resolution result" where
  "service_resolve vt show t c h d observed_at k p =
     (let m = md_market d;
          (h', src) = (if ptb_get t (identity_of m) \<noteq> Inr None then (h, No_opening [])
             else if mkt_horizon m = ONE_HOUR then establish_hourly vt show m k h
             else (h, establish_short c m p));
          (t', res) = ptb_resolve t d observed_at src p in
      ((t', h'), res))"

section \<open>What the collector keeps\<close>

text \<open>
  The abstract history: the valid updates of an asset in the order of their receipt, a repeated sample
  counted once, and of those the most recent \<open>limit\<close>.
\<close>

definition payload_sample :: "vendor_text \<Rightarrow> collector_message \<Rightarrow> chainlink_twap option" where
  "payload_sample vt m = (case inspect_twap_frame vt (cm_payload m) 60 of
     Inl _ \<Rightarrow> None
   | Inr f \<Rightarrow> if tf_class f = ''SUBSCRIPTION_SNAPSHOT'' then None
       else (case parse_twap_from_symbol vt (cm_payload m) 60 (cm_receipt m) of Inl _ \<Rightarrow> None | Inr t \<Rightarrow> Some t))"

definition same_sample :: "chainlink_twap \<Rightarrow> chainlink_twap \<Rightarrow> bool" where
  "same_sample s t \<longleftrightarrow> cl_publisher_ts s = cl_publisher_ts t \<and> cl_value s = cl_value t"

definition sample_log :: "chainlink_twap list \<Rightarrow> chainlink_twap list" where
  "sample_log ts = foldl (\<lambda>h t. if h \<noteq> [] \<and> same_sample (last h) t then h else h @ [t]) [] ts"

definition latest_entries :: "nat \<Rightarrow> 'a list \<Rightarrow> 'a list" where
  "latest_entries n xs = drop (length xs - n) xs"

lemma latest_entries_Nil [simp]: "0 < n \<Longrightarrow> latest_entries n xs = [] \<longleftrightarrow> xs = []"
  by (cases xs) (simp_all add: latest_entries_def)

lemma last_latest_entries [simp]: "0 < n \<Longrightarrow> xs \<noteq> [] \<Longrightarrow> last (latest_entries n xs) = last xs"
  by (simp add: latest_entries_def last_drop)

lemma bounded_append_latest:
  assumes "0 < n"
  shows "bounded_append n (latest_entries n xs) x = latest_entries n (xs @ [x])"
proof (cases "length xs < n")
  case False
  then have "drop (Suc (length xs - n)) xs = drop 1 (drop (length xs - n) xs)" by simp
  then show ?thesis using False assms by (simp add: bounded_append_def latest_entries_def Let_def Suc_diff_le)
qed (simp add: bounded_append_def latest_entries_def Let_def)

lemma sample_log_set: "set (sample_log ts) \<subseteq> set ts"
proof (induction ts rule: rev_induct)
  case (snoc t ts)
  then show ?case by (auto simp: sample_log_def)
qed (simp add: sample_log_def)

lemma sample_log_snoc: "sample_log (ts @ [t]) = (let h = sample_log ts in if h \<noteq> [] \<and> same_sample (last h) t then h else h @ [t])"
  by (simp add: sample_log_def Let_def)

datatype collector_event = Message "asset option" json "nat \<Rightarrow> receipt \<times> utc" utc | Connected asset
  | Stream_failed asset py_error | Stream_ended asset

definition unchanged_on_error :: "collector \<Rightarrow> collector result \<Rightarrow> collector" where
  "unchanged_on_error c r = (case r of Inl _ \<Rightarrow> c | Inr c' \<Rightarrow> c')"

fun collector_apply :: "vendor_text \<Rightarrow> collector \<Rightarrow> collector_event \<Rightarrow> collector" where
  "collector_apply vt c (Message hint raw readings now) = fst (handle_message vt hint raw readings now c)"
| "collector_apply vt c (Connected a) = unchanged_on_error c (connect_asset a c)"
| "collector_apply vt c (Stream_failed a e) = unchanged_on_error c (fail_stream a e c)"
| "collector_apply vt c (Stream_ended a) = unchanged_on_error c (end_stream a c)"

text \<open>
  An exception other than a schema error escapes from \<open>handle_message\<close>: the later payloads of the
  message are lost.
\<close>

definition escapes :: "'a result \<Rightarrow> bool" where
  "escapes r \<longleftrightarrow> (case r of Inl (MarketDataSchemaError msg) \<Rightarrow> False | Inl e \<Rightarrow> True | Inr x \<Rightarrow> False)"

definition payload_escapes :: "vendor_text \<Rightarrow> collector_message \<Rightarrow> bool" where
  "payload_escapes vt m = (case inspect_twap_frame vt (cm_payload m) 60 of
     Inr f \<Rightarrow> tf_class f \<noteq> ''SUBSCRIPTION_SNAPSHOT'' \<and> escapes (parse_twap_from_symbol vt (cm_payload m) 60 (cm_receipt m))
   | r \<Rightarrow> escapes r)"

fun event_messages :: "vendor_text \<Rightarrow> collector_event \<Rightarrow> collector_message list" where
  "event_messages vt (Message hint raw readings now) = takeWhile (\<lambda>m. \<not> payload_escapes vt m) (collector_messages raw readings)"
| "event_messages vt _ = []"

definition asset_samples :: "vendor_text \<Rightarrow> asset \<Rightarrow> collector_message list \<Rightarrow> chainlink_twap list" where
  "asset_samples vt a ms = filter (\<lambda>t. cl_asset t = a) (List.map_filter (payload_sample vt) ms)"

definition collector_inv :: "vendor_text \<Rightarrow> nat \<Rightarrow> collector_message list \<Rightarrow> collector \<Rightarrow> bool" where
  "collector_inv vt n ms c \<longleftrightarrow> 0 < n \<and> col_limit c = n \<and> (\<forall>a. col_states c a \<noteq> None)
     \<and> (\<forall>a. col_history c a = Some (latest_entries n (sample_log (asset_samples vt a ms))))"

lemma on_state_total:
  "\<forall>a. col_states c a \<noteq> None \<Longrightarrow> on_state a f c = Inr (c\<lparr>col_states := (col_states c)(a \<mapsto> f (the (col_states c a)))\<rparr>)"
  by (auto simp: on_state_def split: option.splits)

text \<open>An operation that only touches the states of the assets and the counters of frames that are no sample.\<close>

definition only_states :: "collector \<Rightarrow> collector \<Rightarrow> bool" where
  "only_states c c' \<longleftrightarrow> col_limit c' = col_limit c \<and> col_history c' = col_history c \<and> (\<forall>a. col_states c' a \<noteq> None)
     \<and> col_messages c' = col_messages c \<and> col_parsed c' = col_parsed c"

lemma only_states_inv: "collector_inv vt n ms c \<Longrightarrow> only_states c c' \<Longrightarrow> collector_inv vt n ms c'"
  by (simp add: collector_inv_def only_states_def)

lemma record_snapshot_states:
  assumes "\<forall>a. col_states c a \<noteq> None"
  shows "\<exists>c'. record_snapshot a hint c = (c', Inr ()) \<and> only_states c c'"
  using assms by (cases hint) (auto simp: record_snapshot_def on_state_total only_states_def Let_def)

lemma fail_assets_states:
  "\<forall>a. col_states c a \<noteq> None \<Longrightarrow> \<exists>c'. fail_assets as msg c = (c', Inr ()) \<and> only_states c c'"
proof (induction as arbitrary: c)
  case (Cons a as)
  let ?c = "c\<lparr>col_states := (col_states c)(a \<mapsto> (the (col_states c a))\<lparr>ac_parse_failure := ac_parse_failure (the (col_states c a)) + 1,
    ac_last_error := Some (take 500 msg)\<rparr>)\<rparr>"
  have "\<forall>a. col_states ?c a \<noteq> None" using Cons.prems by simp
  from Cons.IH [OF this] show ?case using Cons.prems by (auto simp: on_state_total only_states_def)
qed (simp add: only_states_def)

lemma record_parse_failure_states:
  assumes "\<forall>a. col_states c a \<noteq> None"
  shows "\<exists>c'. record_parse_failure hint msg c = (c', Inr ()) \<and> only_states c c'"
  using fail_assets_states [OF assms, where msg = msg and as = "case hint of Some a \<Rightarrow> [a] | None \<Rightarrow> col_assets c"]
  by (auto simp: record_parse_failure_def only_states_def)

lemma note_sample_states:
  assumes "\<forall>a. col_states c a \<noteq> None"
  shows "\<exists>c'. note_sample a hint now c = (c', Inr ()) \<and> only_states c c'"
  using assms by (cases hint) (auto simp: note_sample_def on_state_total only_states_def Let_def)

lemma record_twap_history:
  assumes "\<forall>a. col_states c a \<noteq> None" "col_history c (cl_asset t) = Some h"
  shows "\<exists>c'. record_twap t c = (c', Inr ()) \<and> col_limit c' = col_limit c \<and> (\<forall>a. col_states c' a \<noteq> None)
    \<and> col_history c' = (col_history c)(cl_asset t \<mapsto> if h \<noteq> [] \<and> same_sample (last h) t then h else bounded_append (col_limit c) h t)
    \<and> col_messages c' = col_messages c \<and> col_parsed c' = col_parsed c"
  using assms by (auto simp: record_twap_def append_twap_def on_state_total Let_def same_sample_def)

lemma asset_samples_append: "asset_samples vt a (ms @ ms') = asset_samples vt a ms @ asset_samples vt a ms'"
  by (simp add: asset_samples_def List.map_filter_def)

lemma asset_samples_single: "asset_samples vt a [m] =
    (case payload_sample vt m of Some t \<Rightarrow> if cl_asset t = a then [t] else [] | None \<Rightarrow> [])"
  by (simp add: asset_samples_def List.map_filter_simps split: option.splits)

text \<open>What one payload does: at most one sample is recorded, an escaping exception changes nothing.\<close>

lemma handle_payload_step:
  assumes inv: "collector_inv vt n ms c"
  shows "payload_escapes vt m \<Longrightarrow> \<exists>e. handle_payload vt hint m c = (c, Inl e)"
    "\<not> payload_escapes vt m \<Longrightarrow> \<exists>c'. handle_payload vt hint m c = (c', Inr (payload_sample vt m \<noteq> None))
       \<and> collector_inv vt n (ms @ [m]) c' \<and> col_messages c' = col_messages c \<and> col_parsed c' = col_parsed c"
proof -
  have total: "\<forall>a. col_states c a \<noteq> None" and n: "0 < n" using inv by (simp_all add: collector_inv_def)
  have skip: "collector_inv vt n (ms @ [m]) c' \<and> col_messages c' = col_messages c \<and> col_parsed c' = col_parsed c"
    if "only_states c c'" "payload_sample vt m = None" for c'
    using only_states_inv [OF inv that(1)] that
    by (simp add: collector_inv_def only_states_def asset_samples_append asset_samples_single)
  note failure = record_parse_failure_states [OF total, where hint = hint] and snapshot = record_snapshot_states [OF total, where hint = hint]
  let ?inspect = "inspect_twap_frame vt (cm_payload m) 60" and ?parse = "parse_twap_from_symbol vt (cm_payload m) 60 (cm_receipt m)"
  show "\<exists>e. handle_payload vt hint m c = (c, Inl e)" if "payload_escapes vt m"
    using that by (auto simp: handle_payload_def payload_escapes_def escapes_def split: sum.splits py_error.splits)
  show "\<exists>c'. handle_payload vt hint m c = (c', Inr (payload_sample vt m \<noteq> None))
       \<and> collector_inv vt n (ms @ [m]) c' \<and> col_messages c' = col_messages c \<and> col_parsed c' = col_parsed c"
    if ok: "\<not> payload_escapes vt m"
  proof (cases ?inspect)
    case (Inl e)
    then obtain msg where "e = MarketDataSchemaError msg" using ok by (auto simp: payload_escapes_def escapes_def split: py_error.splits)
    then show ?thesis using failure [of msg] skip Inl by (auto simp: handle_payload_def payload_sample_def)
  next
    case (Inr f)
    show ?thesis
    proof (cases "tf_class f = ''SUBSCRIPTION_SNAPSHOT''")
      case True
      then show ?thesis using snapshot [of "tf_asset f"] skip Inr by (auto simp: handle_payload_def payload_sample_def)
    next
      case live: False
      show ?thesis
      proof (cases ?parse)
        case (Inl e)
        then obtain msg where "e = MarketDataSchemaError msg"
          using ok live Inr by (auto simp: payload_escapes_def escapes_def split: py_error.splits)
        then show ?thesis using failure [of msg] skip Inl Inr live by (auto simp: handle_payload_def payload_sample_def)
      next
        case sample: (Inr t)
        let ?h = "latest_entries n (sample_log (asset_samples vt (cl_asset t) ms))"
        have h: "col_history c (cl_asset t) = Some ?h" using inv by (simp add: collector_inv_def)
        obtain c1 where c1: "record_twap t c = (c1, Inr ())" "col_limit c1 = col_limit c" "\<forall>a. col_states c1 a \<noteq> None"
          "col_history c1 = (col_history c)(cl_asset t \<mapsto> if ?h \<noteq> [] \<and> same_sample (last ?h) t then ?h else bounded_append (col_limit c) ?h t)"
          "col_messages c1 = col_messages c" "col_parsed c1 = col_parsed c"
          using record_twap_history [OF total h] by blast
        obtain c2 where c2: "note_sample (cl_asset t) hint (cm_now m) c1 = (c2, Inr ())" "only_states c1 c2"
          using note_sample_states [OF c1(3)] by blast
        have s: "payload_sample vt m = Some t" using Inr live sample by (simp add: payload_sample_def)
        have "collector_inv vt n (ms @ [m]) c2"
          using inv c1(2,4) c2(2) n by (auto simp: collector_inv_def only_states_def asset_samples_append asset_samples_single s
            sample_log_snoc Let_def bounded_append_latest)
        then show ?thesis
          using Inr live sample c1 c2 s by (auto simp: handle_payload_def only_states_def)
      qed
    qed
  qed
qed

lemma handle_payloads_inv:
  "collector_inv vt n ms c \<Longrightarrow> \<exists>c' r. handle_payloads vt hint qs k c = (c', r)
     \<and> collector_inv vt n (ms @ takeWhile (\<lambda>m. \<not> payload_escapes vt m) qs) c'
     \<and> col_messages c' = col_messages c \<and> col_parsed c' = col_parsed c"
proof (induction qs arbitrary: ms c k)
  case (Cons m qs)
  show ?case
  proof (cases "payload_escapes vt m")
    case True
    then show ?thesis using handle_payload_step(1) [OF Cons.prems True, where hint = hint] Cons.prems by auto
  next
    case False
    then obtain c1 where c1: "handle_payload vt hint m c = (c1, Inr (payload_sample vt m \<noteq> None))" "collector_inv vt n (ms @ [m]) c1"
      "col_messages c1 = col_messages c" "col_parsed c1 = col_parsed c"
      using handle_payload_step(2) [OF Cons.prems False, where hint = hint] by blast
    obtain c2 r where "handle_payloads vt hint qs (if payload_sample vt m \<noteq> None then k + 1 else k) c1 = (c2, r)"
      "collector_inv vt n ((ms @ [m]) @ takeWhile (\<lambda>m. \<not> payload_escapes vt m) qs) c2"
      "col_messages c2 = col_messages c1" "col_parsed c2 = col_parsed c1"
      using Cons.IH [OF c1(2)] by blast
    then show ?thesis using c1 False by simp
  qed
qed simp

lemma collector_apply_inv:
  assumes "collector_inv vt n ms c" "col_messages c = col_parsed c"
  shows "collector_inv vt n (ms @ event_messages vt ev) (collector_apply vt c ev)
    \<and> col_messages (collector_apply vt c ev) = col_parsed (collector_apply vt c ev)"
proof (cases ev)
  case (Message hint raw readings now)
  obtain c' r where c': "handle_payloads vt hint (collector_messages raw readings) 0 c = (c', r)"
    "collector_inv vt n (ms @ event_messages vt ev) c'" "col_messages c' = col_messages c" "col_parsed c' = col_parsed c"
    using handle_payloads_inv [OF assms(1), where hint = hint and qs = "collector_messages raw readings" and k = 0] Message by auto
  show ?thesis using c' assms(2) by (cases r) (simp_all add: Message handle_message_def collector_inv_def)
qed (use assms in \<open>auto simp: collector_inv_def connect_asset_def fail_stream_def end_stream_def unchanged_on_error_def
    on_state_total split: if_splits\<close>)

definition collector_run :: "vendor_text \<Rightarrow> collector \<Rightarrow> collector_event list \<Rightarrow> collector" where
  "collector_run vt c evs = foldl (collector_apply vt) c evs"

definition received :: "vendor_text \<Rightarrow> collector_event list \<Rightarrow> collector_message list" where
  "received vt evs = concat (map (event_messages vt) evs)"

lemma collector_run_inv:
  assumes "mk_collector assets limit = Inr c0" "set assets = UNIV"
  shows "collector_inv vt (nat limit) (received vt evs) (collector_run vt c0 evs)
    \<and> col_messages (collector_run vt c0 evs) = col_parsed (collector_run vt c0 evs)"
proof (induction evs rule: rev_induct)
  case Nil
  then show ?case using assms by (auto simp: mk_collector_def contract_simps collector_run_def received_def collector_inv_def
    sample_log_def asset_samples_def latest_entries_def List.map_filter_def)
next
  case (snoc ev evs)
  then show ?case using collector_apply_inv [of vt "nat limit" "received vt evs" "collector_run vt c0 evs" ev]
    by (simp add: collector_run_def received_def)
qed

text \<open>A recorded sample is a valid sixty-second TWAP of its asset.\<close>

lemma asset_samples_valid:
  assumes "t \<in> set (asset_samples vt a ms)"
  shows "valid_twap t" "cl_asset t = a" "cl_window_seconds t = 60"
    "\<exists>m\<in>set ms. parse_twap_from_symbol vt (cm_payload m) 60 (cm_receipt m) = Inr t"
proof -
  obtain m where m: "m \<in> set ms" "payload_sample vt m = Some t" "cl_asset t = a"
    using assms by (auto simp: asset_samples_def List.map_filter_def)
  then have p: "parse_twap_from_symbol vt (cm_payload m) 60 (cm_receipt m) = Inr t"
    by (auto simp: payload_sample_def split: sum.splits if_splits)
  show "valid_twap t" "cl_window_seconds t = 60" using parse_twap_from_symbol_valid [OF p] by simp_all
  show "cl_asset t = a" "\<exists>m\<in>set ms. parse_twap_from_symbol vt (cm_payload m) 60 (cm_receipt m) = Inr t" using m p by blast+
qed

lemma opening_twap_nearest:
  assumes "col_history c a = Some h"
  shows "case opening_twap c a b tol of
      None \<Rightarrow> \<forall>u\<in>set h. tol < \<bar>cl_publisher_ts u - b\<bar>
    | Some t \<Rightarrow> t \<in> set h \<and> \<bar>cl_publisher_ts t - b\<bar> \<le> tol \<and> (\<forall>u\<in>set h. \<bar>cl_publisher_ts t - b\<bar> \<le> \<bar>cl_publisher_ts u - b\<bar>)"
proof (cases h)
  case (Cons t ts)
  let ?d = "\<lambda>u. \<bar>cl_publisher_ts u - b\<bar>" and ?best = "min_by (\<lambda>u. \<bar>cl_publisher_ts u - b\<bar>) t ts"
  have in_h: "?best \<in> set h" using min_by_in [of ?d t ts] by (simp add: Cons)
  have least: "\<forall>u\<in>set h. ?d ?best \<le> ?d u" using min_by_le [where k = ?d and x = t and xs = ts] by (simp add: Cons)
  show ?thesis
  proof (cases "tol < ?d ?best")
    case True
    then have "\<forall>u\<in>set h. tol < ?d u" using least by (meson less_le_trans)
    then show ?thesis using True by (simp add: opening_twap_def assms Cons Let_def)
  next
    case False
    then show ?thesis using in_h least by (simp add: opening_twap_def assms Cons Let_def)
  qed
qed (simp add: opening_twap_def assms)

text \<open>
  C31: whatever messages and connection failures arrive, the history of an asset is exactly its most recent
  \<open>limit\<close> distinct updates, each of them a valid sixty-second TWAP of that asset parsed from a received
  payload; the opening sample of a boundary is one of them, within the tolerance, and none is nearer, and
  there is none only when every sample is too far away.  Since only parsed samples are counted as messages,
  the reason \<open>CHAINLINK_PARSE_FAILED\<close> is never given.
\<close>

theorem opening_price_is_nearest_sample:
  assumes "mk_collector assets limit = Inr c0" "set assets = UNIV" "c = collector_run vt c0 evs"
  shows "\<exists>h. col_history c a = Some h \<and> h = latest_entries (nat limit) (sample_log (asset_samples vt a (received vt evs)))
    \<and> length h \<le> nat limit
    \<and> (\<forall>t\<in>set h. valid_twap t \<and> cl_asset t = a \<and> cl_window_seconds t = 60
        \<and> (\<exists>m\<in>set (received vt evs). parse_twap_from_symbol vt (cm_payload m) 60 (cm_receipt m) = Inr t))
    \<and> (case opening_twap c a b tol of
          None \<Rightarrow> \<forall>u\<in>set h. tol < \<bar>cl_publisher_ts u - b\<bar>
        | Some t \<Rightarrow> t \<in> set h \<and> \<bar>cl_publisher_ts t - b\<bar> \<le> tol
            \<and> (\<forall>u\<in>set h. \<bar>cl_publisher_ts t - b\<bar> \<le> \<bar>cl_publisher_ts u - b\<bar>))
    \<and> short_unavailable_reason c a \<noteq> ''CHAINLINK_PARSE_FAILED''"
proof -
  let ?log = "sample_log (asset_samples vt a (received vt evs))" and ?h = "latest_entries (nat limit) (sample_log (asset_samples vt a (received vt evs)))"
  have inv: "collector_inv vt (nat limit) (received vt evs) c" and counts: "col_messages c = col_parsed c"
    using collector_run_inv [OF assms(1,2)] by (simp_all add: assms(3))
  then have h: "col_history c a = Some ?h" by (simp add: collector_inv_def)
  have "set ?h \<subseteq> set ?log" by (simp add: latest_entries_def set_drop_subset)
  then have sub: "set ?h \<subseteq> set (asset_samples vt a (received vt evs))" using sample_log_set by blast
  have "length ?h \<le> nat limit" by (simp add: latest_entries_def)
  moreover have "short_unavailable_reason c a \<noteq> ''CHAINLINK_PARSE_FAILED''"
    using counts by (simp add: short_unavailable_reason_def collector_status_of_def Let_def)
  moreover have "\<forall>t\<in>set ?h. valid_twap t \<and> cl_asset t = a \<and> cl_window_seconds t = 60
      \<and> (\<exists>m\<in>set (received vt evs). parse_twap_from_symbol vt (cm_payload m) 60 (cm_receipt m) = Inr t)"
    using asset_samples_valid sub by blast
  ultimately show ?thesis using h opening_twap_nearest [OF h, where b = b and tol = tol] by blast
qed

text \<open>A run of one update, one second after the boundary.\<close>

definition demo_frame :: json where
  "demo_frame = JDict [(''topic'', JStr ''crypto_prices_twap_sixty''), (''type'', JStr ''update''),
     (''timestamp'', JInt 1700000001000), (''payload'', JDict [(''symbol'', JStr ''btc/usd''), (''window_s'', JInt 60),
       (''data'', JDict [(''full_accuracy_value'', JInt 1000000000000000000), (''value'', JInt 1),
         (''timestamp'', JInt 1700000000000)])])]"

definition demo_receipt :: receipt where
  "demo_receipt = \<lparr>rc_recv = 1700000002000000, rc_normalized = 1700000002000000, rc_monotonic_ns = 0\<rparr>"

definition demo_twap :: chainlink_twap where
  "demo_twap = \<lparr>cl_asset = BTC, cl_value = 1, cl_window_seconds = 60, cl_publisher_ts = 1700000001000000,
     cl_lineage = \<lparr>lin_source = CHAINLINK_RTDS, lin_source_ts = Some 1700000000000000,
       lin_recv_ts = 1700000002000000, lin_normalized_ts = 1700000002000000, lin_recv_monotonic_ns = 0\<rparr>\<rparr>"

lemma demo_frame_parsed: "inspect_twap_frame vt demo_frame 60 = Inr f \<Longrightarrow> tf_class f = ''LIVE_UPDATE''"
    "parse_twap_from_symbol vt demo_frame 60 demo_receipt = Inr demo_twap"
    "\<exists>f. inspect_twap_frame vt demo_frame 60 = Inr f"
proof -
  have a: "asset_from_symbol ''BTC/USD'' = Inr BTC" by (simp add: asset_from_symbol_def enum_asset_def)
  have ins: "inspect_twap_frame vt demo_frame 60 = Inr \<lparr>tf_class = ''LIVE_UPDATE'', tf_asset = BTC,
      tf_topic = ''crypto_prices_twap_sixty'', tf_type = ''update'', tf_symbol = ''BTC/USD'',
      tf_payload_keys = sorted_keys (the (json_get demo_frame ''payload'')), tf_item_count = Some 1,
      tf_item_keys = sorted_keys (the (json_get (the (json_get demo_frame ''payload'')) ''data'')), tf_window = Some 60\<rparr>"
    by (simp add: inspect_twap_frame_def demo_frame_def require_object_def twap_topic_def require_str_def py_strip_def py_space_def
      field_or_null_def twap_symbol_def slashes_def py_upper_def char_of_def bit_Suc_0_iff a require_int_def twap_data_def classify_frame_def)
  then show "inspect_twap_frame vt demo_frame 60 = Inr f \<Longrightarrow> tf_class f = ''LIVE_UPDATE''"
    "\<exists>f. inspect_twap_frame vt demo_frame 60 = Inr f" by auto
  have "utc_from_milliseconds 1700000000000 = Inr 1700000000000000" "utc_from_milliseconds 1700000001000 = Inr 1700000001000000"
    using utc_from_milliseconds_exact [of 1700000000000] utc_from_milliseconds_exact [of 1700000001000] by simp_all
  then show "parse_twap_from_symbol vt demo_frame 60 demo_receipt = Inr demo_twap"
    unfolding parse_twap_from_symbol_def ins
    by (simp add: parse_twap_def demo_frame_def require_object_def twap_topic_def require_str_def py_strip_def py_space_def
      field_or_null_def twap_symbol_def slashes_def py_upper_def char_of_def bit_Suc_0_iff a require_int_def
      normalize_twap_record_def decimal_field_def finite_decimal_def mk_lineage_def lineage_checks_def demo_receipt_def
      mk_twap_def chainlink_twap_checks_def demo_twap_def ddiv_def)
qed

definition demo_start :: collector where
  "demo_start = projr (mk_collector [BTC, ETH, SOL, XRP] 4096)"

lemma demo_started: "mk_collector [BTC, ETH, SOL, XRP] 4096 = Inr demo_start" "set [BTC, ETH, SOL, XRP] = UNIV"
  by (simp_all add: demo_start_def mk_collector_def) (use asset.exhaust in blast)

theorem opening_price_is_nearest_sample_witness:
  "opening_twap (collector_run sample_vendor demo_start [Message (Some BTC) demo_frame (\<lambda>_. (demo_receipt, 1700000002000000)) 1700000002000000])
     BTC 1700000000000000 (seconds 2) = Some demo_twap"
proof -
  let ?evs = "[Message (Some BTC) demo_frame (\<lambda>_. (demo_receipt, 1700000002000000)) 1700000002000000]"
  let ?m = "\<lparr>cm_payload = demo_frame, cm_receipt = demo_receipt, cm_now = 1700000002000000\<rparr>"
  obtain f where f: "inspect_twap_frame sample_vendor demo_frame 60 = Inr f" "tf_class f = ''LIVE_UPDATE''" using demo_frame_parsed by blast
  have "collector_messages demo_frame (\<lambda>_. (demo_receipt, 1700000002000000)) = [?m]"
    by (simp add: collector_messages_def demo_frame_def)
  moreover have "\<not> payload_escapes sample_vendor ?m" "payload_sample sample_vendor ?m = Some demo_twap"
    using f demo_frame_parsed(2) by (simp_all add: payload_escapes_def escapes_def payload_sample_def)
  ultimately have "received sample_vendor ?evs = [?m]" "asset_samples sample_vendor BTC [?m] = [demo_twap]"
    by (simp_all add: received_def asset_samples_def List.map_filter_def demo_twap_def)
  then have h: "sample_log (asset_samples sample_vendor BTC (received sample_vendor ?evs)) = [demo_twap]" by (simp add: sample_log_def)
  have d: "\<bar>cl_publisher_ts demo_twap - 1700000000000000\<bar> \<le> seconds 2" by (simp add: demo_twap_def seconds_def)
  show ?thesis
    using opening_price_is_nearest_sample [OF demo_started refl, where vt = sample_vendor and evs = ?evs and a = BTC
      and b = 1700000000000000 and tol = "seconds 2"] d
    by (auto simp: h latest_entries_def split: option.splits)
qed

text \<open>
  A price to beat that the repository does not hold yet needs, for a short window, an opening sample of
  the collector, and for the hourly one, the candle that opens with the window.
\<close>

lemma new_price_source:
  assumes "service_resolve vt show t c h d observed_at k p = (th, Inr r)" "pr_ptb r = Some x"
    "t (persistence_id (identity_of (md_market d))) = None"
  shows "if mkt_horizon (md_market d) = ONE_HOUR
    then \<exists>cd. snd (fetch_candle vt show (md_market d) k h) = Inr cd \<and> hc_open_time cd = mkt_window_start (md_market d)
    else \<exists>s. opening_twap c (mkt_asset (md_market d)) (mkt_window_start (md_market d)) (rfp_boundary_tolerance p) = Some s"
proof -
  have none: "ptb_get t (identity_of (md_market d)) = Inr None" using assms(3) by (simp add: ptb_get_def)
  show ?thesis
  proof (cases "mkt_horizon (md_market d) = ONE_HOUR")
    case True
    obtain h' src where src: "establish_hourly vt show (md_market d) k h = (h', src)" by fastforce
    have "\<exists>ref. src = Opening ref"
      using assms(1,2) True src by (auto simp: service_resolve_def none ptb_resolve_def Let_def unavailable_resolution_def
        split: prod.splits boundary_source.splits)
    then obtain ref cd where "snd (fetch_candle vt show (md_market d) k h) = Inr cd"
      "official_reference_from_binance_hourly_candle (md_market d) cd True = Inr ref"
      using src by (auto simp: establish_hourly_def bindr_Inr_iff split: prod.splits sum.splits)
    then show ?thesis using True
      by (auto simp: official_reference_from_binance_hourly_candle_def Let_def contract_simps)
  next
    case False
    then have "establish_short c (md_market d) p \<noteq> No_opening s" for s
      using assms(1,2) by (auto simp: service_resolve_def none ptb_resolve_def Let_def unavailable_resolution_def
        split: prod.splits boundary_source.splits)
    moreover have "establish_short c (md_market d) p = No_opening (short_unavailable_reason c (mkt_asset (md_market d)))"
      if "opening_twap c (mkt_asset (md_market d)) (mkt_window_start (md_market d)) (rfp_boundary_tolerance p) = None"
      using that by (simp add: establish_short_def)
    ultimately show ?thesis using False by auto
  qed
qed

end
