(* ===== verification/Gates.thy ===== *)
theory Gates
  imports Prelude
begin

text \<open>
  The contract of a fail-closed gate: an assessment computes a list of denial reasons from its
  evidence, and permission is the absence of reasons. The risk engine, the live-safety gate and the
  promotion rules are gates of this kind; each is an interpretation of this locale, so that the
  facts about missing evidence and about worsening evidence are proved once.

  \<open>evidence_le x y\<close> orders evidence: \<open>y\<close> is at least as bad as \<open>x\<close> for the assessment.
\<close>

locale fail_closed_gate =
  fixes reasons :: "'e \<Rightarrow> string list"
    and evidence_le :: "'e \<Rightarrow> 'e \<Rightarrow> bool"
  assumes denial_mono: "evidence_le x y \<Longrightarrow> reasons x \<noteq> [] \<Longrightarrow> reasons y \<noteq> []"
begin

definition permitted :: "'e \<Rightarrow> bool" where
  "permitted x \<longleftrightarrow> reasons x = []"

lemma permitted_antimono: "evidence_le x y \<Longrightarrow> permitted y \<Longrightarrow> permitted x"
  using denial_mono [of x y] by (auto simp: permitted_def)

lemma denied_iff: "\<not> permitted x \<longleftrightarrow> (\<exists>r. r \<in> set (reasons x))"
  by (cases "reasons x") (auto simp: permitted_def)

text \<open>Along worsening evidence, permission is lost at most once and never regained.\<close>

lemma denied_stays_denied:
  "sorted_wrt evidence_le es \<Longrightarrow> i < j \<Longrightarrow> j < length es \<Longrightarrow> \<not> permitted (es ! i) \<Longrightarrow> \<not> permitted (es ! j)"
  using permitted_antimono [of "es ! i" "es ! j"] by (auto simp: sorted_wrt_iff_nth_less)

end

lemma set_reasons_of: "r \<in> set (reasons_of gs) \<longleftrightarrow> (True, r) \<in> set gs"
  by (force simp: reasons_of_def)

lemma distinct_reasons_of: "distinct (map snd gs) \<Longrightarrow> distinct (reasons_of gs)"
  by (induction gs) (auto simp: reasons_of_def image_iff)

end
