(* ===== verification/Trading_Contracts.thy ===== *)
theory Trading_Contracts
  imports Domain_Contracts
begin

text \<open>
  The second half of \<open>domain/contracts.py\<close>: features and forecasts, candidates and decisions,
  risk decisions, order intents and plans, order states, fills, positions, settlements and
  ledger entries. The main result about them is the consistency of a valid \<open>OrderState\<close>
  (\<open>valid_order_state_quantities\<close>) and the fact that the two sides of a forecast always add up
  under the decimal context (\<open>complement_sum\<close>).
\<close>

section \<open>Features and forecasts\<close>

record feature_value =
  feat_name :: string
  feat_value :: dec
  feat_source :: string
  feat_source_ts :: utc

definition feature_value_checks :: "feature_value \<Rightarrow> check list" where
  "feature_value_checks f =
     [require_text ''name'' (feat_name f), require_text ''source'' (feat_source f)]"

record feature_vector =
  fvec_market_id :: string
  fvec_asset :: asset
  fvec_horizon :: horizon
  fvec_version :: string
  fvec_features :: "feature_value list"
  fvec_generated_at :: utc

definition feature_vector_checks :: "feature_vector \<Rightarrow> check list" where
  "feature_vector_checks v =
     [require_text ''market_id'' (fvec_market_id v),
      require_text ''feature_set_version'' (fvec_version v),
      require_unique ''feature names'' (map feat_name (fvec_features v)),
      fail_if (\<exists>f\<in>set (fvec_features v). fvec_generated_at v < feat_source_ts f)
        (ValueErr ''feature source timestamps cannot be after generated_at'')]"

definition valid_feature_vector :: "feature_vector \<Rightarrow> bool" where
  "valid_feature_vector v \<longleftrightarrow> passes (feature_vector_checks v)"

definition mk_feature_vector :: "feature_vector \<Rightarrow> feature_vector result" where
  "mk_feature_vector v = checked (feature_vector_checks v) (Inr v)"

text \<open>\<open>{feature.name: feature.value for feature in features.features}\<close>\<close>

definition feature_map :: "feature_vector \<Rightarrow> string \<Rightarrow> dec option" where
  "feature_map v = map_of (rev (map (\<lambda>f. (feat_name f, feat_value f)) (fvec_features v)))"

record probability_forecast =
  fc_market_id :: string
  fc_asset :: asset
  fc_horizon :: horizon
  fc_p_up :: dec
  fc_p_down :: dec
  fc_model_version :: string
  fc_calibration_version :: string
  fc_feature_set_version :: string
  fc_feature_as_of :: utc
  fc_generated_at :: utc

definition forecast_checks :: "probability_forecast \<Rightarrow> check list" where
  "forecast_checks f =
     [require_text ''market_id'' (fc_market_id f),
      in_unit ''p_up'' (fc_p_up f),
      in_unit ''p_down'' (fc_p_down f),
      fail_if (dadd (fc_p_up f) (fc_p_down f) \<noteq> 1)
        (ValueErr ''p_up and p_down must sum exactly to 1''),
      require_text ''model_version'' (fc_model_version f),
      require_text ''calibration_version'' (fc_calibration_version f),
      require_text ''feature_set_version'' (fc_feature_set_version f),
      require_time_order ''feature_as_of'' (fc_feature_as_of f)
        ''generated_at'' (fc_generated_at f) True]"

definition valid_forecast :: "probability_forecast \<Rightarrow> bool" where
  "valid_forecast f \<longleftrightarrow> passes (forecast_checks f)"

definition mk_forecast :: "probability_forecast \<Rightarrow> probability_forecast result" where
  "mk_forecast f = checked (forecast_checks f) (Inr f)"

section \<open>Candidates and decisions\<close>

record strategy_candidate =
  cand_id :: string
  cand_strategy :: strategy_kind
  cand_market_id :: string
  cand_required_capital :: dec
  cand_expected_net_value :: dec
  cand_quality_score :: dec
  cand_created_at :: utc
  cand_expires_at :: utc
  cand_outcome_side :: "outcome_side option"

definition candidate_checks :: "strategy_candidate \<Rightarrow> check list" where
  "candidate_checks c =
     [require_text ''candidate_id'' (cand_id c),
      require_text ''market_id'' (cand_market_id c),
      positive ''required_capital'' (cand_required_capital c),
      in_unit ''quality_score'' (cand_quality_score c),
      require_time_order ''created_at'' (cand_created_at c) ''expires_at'' (cand_expires_at c) False,
      fail_if (cand_strategy c = DIRECTIONAL_EDGE \<and> cand_outcome_side c = None)
        (ValueErr ''Directional Edge candidates require an outcome_side''),
      fail_if (cand_strategy c = STRUCTURAL_ARBITRAGE \<and> cand_outcome_side c \<noteq> None)
        (ValueErr ''Structural Arbitrage candidates cannot carry a directional outcome'')]"

definition valid_candidate :: "strategy_candidate \<Rightarrow> bool" where
  "valid_candidate c \<longleftrightarrow> passes (candidate_checks c)"

definition mk_candidate :: "strategy_candidate \<Rightarrow> strategy_candidate result" where
  "mk_candidate c = checked (candidate_checks c) (Inr c)"

record strategy_decision =
  sd_id :: string
  sd_strategy :: strategy_kind
  sd_market_id :: string
  sd_action :: decision_action
  sd_decided_at :: utc
  sd_reason :: string
  sd_candidate :: "strategy_candidate option"

definition strategy_decision_checks :: "strategy_decision \<Rightarrow> check list" where
  "strategy_decision_checks d =
     [require_text ''decision_id'' (sd_id d),
      require_text ''market_id'' (sd_market_id d),
      require_text ''reason'' (sd_reason d)] @
     (case sd_candidate d of
        None \<Rightarrow> []
      | Some c \<Rightarrow>
         [fail_if (cand_strategy c \<noteq> sd_strategy d)
            (ValueErr ''candidate strategy must match decision strategy''),
          fail_if (cand_market_id c \<noteq> sd_market_id d)
            (ValueErr ''candidate market must match decision market'')]) @
     (if sd_action d = TRADE then
        (case sd_candidate d of
           None \<Rightarrow> [Some (ValueErr ''TRADE decisions require a candidate'')]
         | Some c \<Rightarrow> [fail_if (cand_expires_at c < sd_decided_at d)
             (ValueErr ''TRADE decisions cannot use expired candidates'')])
      else [])"

definition valid_strategy_decision :: "strategy_decision \<Rightarrow> bool" where
  "valid_strategy_decision d \<longleftrightarrow> passes (strategy_decision_checks d)"

record risk_decision =
  rd_id :: string
  rd_candidate_id :: string
  rd_approved :: bool
  rd_approved_capital :: dec
  rd_assessed_at :: utc
  rd_reason_codes :: "string list"

definition risk_decision_checks :: "risk_decision \<Rightarrow> check list" where
  "risk_decision_checks d =
     [require_text ''risk_decision_id'' (rd_id d),
      require_text ''candidate_id'' (rd_candidate_id d),
      non_negative ''approved_capital'' (rd_approved_capital d)] @
     map (require_text ''reason_code'') (rd_reason_codes d) @
     [require_unique ''reason_codes'' (rd_reason_codes d),
      fail_if (rd_approved d \<and> rd_approved_capital d \<le> 0)
        (ValueErr ''approved decisions require positive approved_capital''),
      fail_if (\<not> rd_approved d \<and> rd_approved_capital d \<noteq> 0)
        (ValueErr ''denied decisions must approve zero capital''),
      fail_if (\<not> rd_approved d \<and> rd_reason_codes d = [])
        (ValueErr ''denied decisions require at least one reason code'')]"

definition valid_risk_decision :: "risk_decision \<Rightarrow> bool" where
  "valid_risk_decision d \<longleftrightarrow> passes (risk_decision_checks d)"

definition mk_risk_decision :: "risk_decision \<Rightarrow> risk_decision result" where
  "mk_risk_decision d = checked (risk_decision_checks d) (Inr d)"

section \<open>Intents and plans\<close>

record order_intent =
  oi_client_order_id :: string
  oi_candidate_id :: string
  oi_strategy :: strategy_kind
  oi_market_id :: string
  oi_token_id :: string
  oi_side :: order_side
  oi_quantity :: dec
  oi_limit_price :: dec
  oi_time_in_force :: time_in_force
  oi_created_at :: utc
  oi_expires_at :: utc

definition order_intent_checks :: "order_intent \<Rightarrow> check list" where
  "order_intent_checks i =
     [require_text ''client_order_id'' (oi_client_order_id i),
      require_text ''candidate_id'' (oi_candidate_id i),
      require_text ''market_id'' (oi_market_id i),
      require_text ''token_id'' (oi_token_id i),
      positive ''quantity'' (oi_quantity i),
      in_unit ''limit_price'' (oi_limit_price i),
      require_time_order ''created_at'' (oi_created_at i) ''expires_at'' (oi_expires_at i) False]"

definition valid_intent :: "order_intent \<Rightarrow> bool" where
  "valid_intent i \<longleftrightarrow> passes (order_intent_checks i)"

definition mk_intent :: "order_intent \<Rightarrow> order_intent result" where
  "mk_intent i = checked (order_intent_checks i) (Inr i)"

record execution_plan =
  plan_id :: string
  plan_decision_id :: string
  plan_risk_decision_id :: string
  plan_mode :: trading_mode
  plan_intents :: "order_intent list"
  plan_idempotency_key :: string
  plan_created_at :: utc
  plan_expires_at :: utc

definition execution_plan_checks :: "execution_plan \<Rightarrow> check list" where
  "execution_plan_checks p =
     [require_text ''plan_id'' (plan_id p),
      require_text ''decision_id'' (plan_decision_id p),
      require_text ''risk_decision_id'' (plan_risk_decision_id p),
      fail_if (plan_intents p = []) (ValueErr ''intents must contain at least one OrderIntent''),
      require_unique ''client order IDs'' (map oi_client_order_id (plan_intents p)),
      require_text ''idempotency_key'' (plan_idempotency_key p),
      require_time_order ''created_at'' (plan_created_at p) ''expires_at'' (plan_expires_at p) False,
      fail_if (\<exists>i\<in>set (plan_intents p). plan_expires_at p < oi_expires_at i)
        (ValueErr ''intent expiry cannot be after plan expiry'')]"

definition valid_plan :: "execution_plan \<Rightarrow> bool" where
  "valid_plan p \<longleftrightarrow> passes (execution_plan_checks p) \<and> (\<forall>i\<in>set (plan_intents p). valid_intent i)"

definition mk_plan :: "execution_plan \<Rightarrow> execution_plan result" where
  "mk_plan p = checked (execution_plan_checks p) (Inr p)"

section \<open>Order states\<close>

record order_state =
  os_client_order_id :: string
  os_status :: order_status
  os_requested :: dec
  os_filled :: dec
  os_created_at :: utc
  os_updated_at :: utc
  os_exchange_order_id :: "string option"
  os_acknowledged_at :: "utc option"
  os_average_price :: "dec option"

definition status_quantity_checks :: "order_state \<Rightarrow> check list" where
  "status_quantity_checks s =
     [fail_if (os_status s \<in> {CREATED, SUBMITTING, ACKNOWLEDGED, REJECTED, EXPIRED} \<and> os_filled s \<noteq> 0)
        (ValueErr ''status cannot have filled quantity''),
      fail_if (os_status s = PARTIALLY_FILLED \<and> \<not> (0 < os_filled s \<and> os_filled s < os_requested s))
        (ValueErr ''PARTIALLY_FILLED requires a partial quantity''),
      fail_if (os_status s = FILLED \<and> os_filled s \<noteq> os_requested s)
        (ValueErr ''FILLED requires the complete requested quantity''),
      fail_if (0 < os_filled s \<and> os_average_price s = None)
        (ValueErr ''filled quantities require average_fill_price''),
      fail_if (os_filled s = 0 \<and> os_average_price s \<noteq> None)
        (ValueErr ''average_fill_price requires a filled quantity''),
      fail_if (os_status s \<in> {ACKNOWLEDGED, PARTIALLY_FILLED, FILLED} \<and> os_exchange_order_id s = None)
        (ValueErr ''status requires exchange_order_id''),
      fail_if (os_status s = ACKNOWLEDGED \<and> os_acknowledged_at s = None)
        (ValueErr ''ACKNOWLEDGED requires acknowledged_at'')]"

definition order_state_checks :: "order_state \<Rightarrow> check list" where
  "order_state_checks s =
     [require_text ''client_order_id'' (os_client_order_id s),
      positive ''requested_quantity'' (os_requested s),
      non_negative ''filled_quantity'' (os_filled s),
      fail_if (os_requested s < os_filled s)
        (ValueErr ''filled_quantity cannot exceed requested_quantity''),
      require_time_order ''created_at'' (os_created_at s) ''updated_at'' (os_updated_at s) True] @
     (case os_exchange_order_id s of None \<Rightarrow> [] | Some x \<Rightarrow> [require_text ''exchange_order_id'' x]) @
     (case os_acknowledged_at s of None \<Rightarrow> []
      | Some a \<Rightarrow>
         [require_time_order ''created_at'' (os_created_at s) ''acknowledged_at'' a True,
          fail_if (os_updated_at s < a) (ValueErr ''acknowledged_at cannot be after updated_at'')]) @
     (case os_average_price s of None \<Rightarrow> [] | Some p \<Rightarrow> [in_unit ''average_fill_price'' p]) @
     status_quantity_checks s"

definition valid_order_state :: "order_state \<Rightarrow> bool" where
  "valid_order_state s \<longleftrightarrow> passes (order_state_checks s)"

definition mk_order_state :: "order_state \<Rightarrow> order_state result" where
  "mk_order_state s = checked (order_state_checks s) (Inr s)"

lemma mk_order_state_valid: "mk_order_state s = Inr t \<Longrightarrow> t = s \<and> valid_order_state s"
  by (auto simp: mk_order_state_def valid_order_state_def contract_simps)

lemma valid_order_state_quantities:
  assumes "valid_order_state s"
  shows "0 < os_requested s" "0 \<le> os_filled s" "os_filled s \<le> os_requested s"
    "os_status s = FILLED \<Longrightarrow> os_filled s = os_requested s"
    "os_status s = PARTIALLY_FILLED \<Longrightarrow> 0 < os_filled s \<and> os_filled s < os_requested s"
    "os_status s \<in> {CREATED, SUBMITTING, ACKNOWLEDGED, REJECTED, EXPIRED} \<Longrightarrow> os_filled s = 0"
    "os_average_price s = None \<longleftrightarrow> os_filled s = 0"
  using assms by (auto simp: valid_order_state_def order_state_checks_def status_quantity_checks_def)

section \<open>Fills, positions, settlements, ledger entries\<close>

record fill =
  fill_id :: string
  fill_exchange_order_id :: string
  fill_client_order_id :: string
  fill_token_id :: string
  fill_side :: order_side
  fill_quantity :: dec
  fill_price :: dec
  fill_fee :: dec
  fill_source_ts :: utc
  fill_recv_ts :: utc

definition fill_checks :: "fill \<Rightarrow> check list" where
  "fill_checks f =
     [require_text ''fill_id'' (fill_id f),
      require_text ''exchange_order_id'' (fill_exchange_order_id f),
      require_text ''client_order_id'' (fill_client_order_id f),
      require_text ''token_id'' (fill_token_id f),
      positive ''quantity'' (fill_quantity f),
      in_unit ''price'' (fill_price f),
      non_negative ''fee'' (fill_fee f)]"

definition valid_fill :: "fill \<Rightarrow> bool" where
  "valid_fill f \<longleftrightarrow> passes (fill_checks f)"

definition mk_fill :: "fill \<Rightarrow> fill result" where
  "mk_fill f = checked (fill_checks f) (Inr f)"

record position =
  pos_id :: string
  pos_market_id :: string
  pos_token_id :: string
  pos_outcome :: outcome_side
  pos_quantity :: dec
  pos_average_price :: dec
  pos_realized_pnl :: dec
  pos_opened_at :: utc
  pos_updated_at :: utc

definition position_checks :: "position \<Rightarrow> check list" where
  "position_checks p =
     [require_text ''position_id'' (pos_id p),
      require_text ''market_id'' (pos_market_id p),
      require_text ''token_id'' (pos_token_id p),
      positive ''quantity'' (pos_quantity p),
      in_unit ''average_price'' (pos_average_price p),
      require_time_order ''opened_at'' (pos_opened_at p) ''updated_at'' (pos_updated_at p) True]"

record settlement =
  stl_id :: string
  stl_market_id :: string
  stl_winning_outcome :: outcome_side
  stl_payout_per_share :: dec
  stl_source :: string
  stl_source_ts :: utc
  stl_recorded_at :: utc

definition settlement_checks :: "settlement \<Rightarrow> check list" where
  "settlement_checks s =
     [require_text ''settlement_id'' (stl_id s),
      require_text ''market_id'' (stl_market_id s),
      in_unit ''payout_per_share'' (stl_payout_per_share s),
      require_text ''source'' (stl_source s)]"

record ledger_entry =
  led_entry_id :: string
  led_event_type :: string
  led_reference_id :: string
  led_account :: string
  led_amount :: dec
  led_currency :: string
  led_occurred_at :: utc
  led_recorded_at :: utc
  led_metadata :: "(string \<times> string) list"

definition ledger_entry_checks :: "ledger_entry \<Rightarrow> check list" where
  "ledger_entry_checks e =
     [require_text ''entry_id'' (led_entry_id e),
      require_text ''event_type'' (led_event_type e),
      require_text ''reference_id'' (led_reference_id e),
      require_text ''account'' (led_account e),
      require_text ''currency'' (led_currency e)] @
     concat (map (\<lambda>(k, v). [require_text ''metadata key'' k, require_text ''metadata value'' v])
       (led_metadata e)) @
     [require_unique ''metadata keys'' (map fst (led_metadata e))]"

section \<open>The two sides of a forecast\<close>

text \<open>
  A forecast is built from \<open>p\<close> and \<open>Decimal(1) - p\<close>, each subtraction and the check's addition
  rounded. The sum is 1 all the same.
\<close>

lemma ctx_abs_error:
  assumes "0 < x" "x < powb 10 k"
  shows "\<bar>ctx x - x\<bar> \<le> powb 10 (k - 28) / 2"
proof -
  let ?u = "powb 10 (magnitude 10 x - 28 + 1)"
  have "magnitude 10 x < k"
    using magnitude_bounds [of 10 x] assms powb_less_iff [of 10 "magnitude 10 x" k] by simp
  then have "?u \<le> powb 10 (k - 28)" by (intro powb_mono) auto
  moreover have "\<bar>ctx x - x\<bar> = \<bar>of_int (half_even (x / ?u)) - x / ?u\<bar> * ?u"
    using assms by (simp add: ctx_def round_sig_def Let_def abs_mult_pos field_simps)
  moreover have "\<dots> \<le> 1 / 2 * ?u"
    by (intro mult_right_mono half_even_error) simp
  ultimately show ?thesis by linarith
qed

lemma half_even_near:
  assumes "even n" "of_int n - 1 / 2 \<le> y" "y \<le> of_int n + 1 / 2"
  shows "half_even y = n"
proof (cases "of_int n \<le> y")
  case True
  then have "\<lfloor>y\<rfloor> = n" using assms by (intro floor_unique) auto
  with assms show ?thesis by (simp add: half_even_def Let_def)
next
  case False
  then have "\<lfloor>y\<rfloor> = n - 1" using assms by (intro floor_unique) auto
  with assms show ?thesis by (simp add: half_even_def Let_def)
qed

lemma ctx_near_1:
  assumes "\<bar>s - 1\<bar> \<le> 1 / (2 * 10 ^ 28)"
  shows "ctx s = 1"
proof -
  have s: "1 - 1 / (2 * 10 ^ 28) \<le> s" "s \<le> 1 + 1 / (2 * 10 ^ 28)"
    using assms by (simp_all only: abs_le_iff) linarith+
  show ?thesis
  proof (cases "1 \<le> s")
    case True
    have "magnitude 10 s = 0"
      using True s by (intro magnitude_unique) (simp_all add: powb_def)
    moreover have "half_even (s * 10 ^ 27) = 10 ^ 27"
      using True s by (intro half_even_near) simp_all
    ultimately show ?thesis
      using True by (simp add: ctx_def round_sig_def powb_def)
  next
    case False
    have "magnitude 10 s = - 1"
      using False s by (intro magnitude_unique) (simp_all add: powb_def)
    moreover have "half_even (s * 10 ^ 28) = 10 ^ 28"
      using False s by (intro half_even_near) simp_all
    ultimately show ?thesis
      using s by (simp add: ctx_def round_sig_def powb_def)
  qed
qed

lemma complement_sum:
  assumes "0 \<le> p" "p \<le> 1"
  shows "dadd p (dsub 1 p) = 1"
proof (cases "p = 0 \<or> p = 1")
  case True
  then show ?thesis by (auto simp: dadd_def dsub_def)
next
  case False
  then have "\<bar>ctx (1 - p) - (1 - p)\<bar> \<le> powb 10 (0 - 28) / 2"
    using assms by (intro ctx_abs_error) auto
  then have "\<bar>p + ctx (1 - p) - 1\<bar> \<le> 1 / (2 * 10 ^ 28)"
    by (simp add: powb_def algebra_simps)
  then show ?thesis by (simp add: dadd_def dsub_def ctx_near_1)
qed

lemma complement_unit: "0 \<le> p \<Longrightarrow> p \<le> 1 \<Longrightarrow> 0 \<le> dsub 1 p \<and> dsub 1 p \<le> 1"
  unfolding dsub_def by (auto intro: ctx_le)

end
