(* ===== verification/Paper_Store.thy ===== *)
theory Paper_Store
  imports Trading_Contracts Write_Once
begin

text \<open>
  The write side of \<open>storage/paper.py\<close>: the SQLite tables of the PAPER audit repository and the
  operations that append to them. A table is the list of its rows in insertion order, keyed by the
  primary key. A text column that holds \<open>str\<close> of a decimal or \<open>isoformat\<close> of a UTC instant is
  modelled by the decimal or the instant, because the readers parse it back exactly; ordering such
  a column is ordering the instants. The payload of a trade is a record of the entries that the
  repository reads or writes, each present or absent, the other entries being carried along.
\<close>

section \<open>Tables with a primary key\<close>

type_synonym ('k, 'v) rows = "('k \<times> 'v) list"

text \<open>\<open>INSERT OR IGNORE\<close> and \<open>INSERT ... ON CONFLICT DO UPDATE\<close>.\<close>

definition row_insert :: "('k, 'v) rows \<Rightarrow> 'k \<Rightarrow> 'v \<Rightarrow> ('k, 'v) rows" where
  "row_insert t k v = (if map_of t k = None then t @ [(k, v)] else t)"

definition row_upsert :: "('k, 'v) rows \<Rightarrow> 'k \<Rightarrow> 'v \<Rightarrow> ('v \<Rightarrow> 'v) \<Rightarrow> ('k, 'v) rows" where
  "row_upsert t k v f = (if map_of t k = None then t @ [(k, v)]
     else map (\<lambda>(k', w). (k', if k' = k then f w else w)) t)"

interpretation wr: write_once_store map_of row_insert
  by unfold_locales (auto simp: row_insert_def map_add_def split: option.splits)

lemma row_insert_keys:
  "map fst (row_insert t k v) = (if k \<in> fst ` set t then map fst t else map fst t @ [k])"
  by (auto simp: row_insert_def map_of_eq_None_iff)

lemma map_of_map_at: "map_of (map (\<lambda>(k', w). (k', if k' = k then f w else w)) t) x =
    (if x = k then map_option f (map_of t k) else map_of t x)"
  by (induction t) auto

lemma map_of_row_upsert: "map_of (row_upsert t k v f) x =
    (if x = k then (case map_of t k of None \<Rightarrow> Some v | Some w \<Rightarrow> Some (f w)) else map_of t x)"
  by (auto simp: row_upsert_def map_of_map_at map_add_def split: option.splits)

lemma row_upsert_keys:
  "map fst (row_upsert t k v f) = (if k \<in> fst ` set t then map fst t else map fst t @ [k])"
  by (auto simp: row_upsert_def map_of_eq_None_iff)

definition distinct_keys :: "('k, 'v) rows \<Rightarrow> bool" where
  "distinct_keys t \<longleftrightarrow> distinct (map fst t)"

lemma distinct_keys_insert [simp]: "distinct_keys t \<Longrightarrow> distinct_keys (row_insert t k v)"
  and distinct_keys_upsert [simp]: "distinct_keys t \<Longrightarrow> distinct_keys (row_upsert t k v f)"
  by (simp_all add: distinct_keys_def row_insert_keys row_upsert_keys)

section \<open>Rows\<close>

type_synonym payload = "(string \<times> string) list"

text \<open>\<open>payload.setdefault("paper_run_id", run)\<close> when a run is recorded.\<close>

definition with_run_id :: "string option \<Rightarrow> payload \<Rightarrow> payload" where
  "with_run_id run p = (case run of None \<Rightarrow> p | Some r \<Rightarrow> row_insert p ''paper_run_id'' r)"

record paper_run_metadata =
  prm_run_id :: string
  prm_initial_equity :: dec
  prm_started_at :: utc
  prm_archive_path :: "string option"
  prm_payload :: payload

text \<open>
  The \<open>result\<close> entry of a stored execution, as \<open>asdict\<close> and \<open>_jsonable\<close> leave it: the
  enumeration members are the strings of their values.
\<close>

record json_order =
  jo_client_order_id :: string
  jo_status :: string
  jo_requested :: dec
  jo_filled :: dec
  jo_created_at :: utc
  jo_updated_at :: utc
  jo_exchange_order_id :: "string option"
  jo_acknowledged_at :: "utc option"
  jo_average_price :: "dec option"

record json_fill =
  jf_fill_id :: string
  jf_exchange_order_id :: string
  jf_client_order_id :: string
  jf_token_id :: string
  jf_side :: string
  jf_quantity :: dec
  jf_price :: dec
  jf_fee :: dec
  jf_source_ts :: utc
  jf_recv_ts :: utc

record json_result =
  jr_plan_id :: string
  jr_idempotency_key :: string
  jr_orders :: "json_order list"
  jr_fills :: "json_fill list"
  jr_recorded_at :: utc

record execution_payload =
  ep_plan :: execution_plan
  ep_result :: json_result
  ep_run_id :: "string option"

record stored_execution =
  sx_idempotency_key :: string
  sx_plan_id :: string
  sx_payload :: execution_payload
  sx_recorded_at :: utc

datatype audit_payload = Execution_Payload execution_payload | Settlement_Payload payload

record audit_event =
  aud_reference_id :: string
  aud_event_type :: string
  aud_payload :: audit_payload
  aud_occurred_at :: utc

record trade_payload =
  tp_window_start :: "utc option"
  tp_window_end :: "utc option"
  tp_cost_basis :: "dec option"
  tp_stake :: "dec option"
  tp_fee :: "dec option"
  tp_net_edge :: "dec option"
  tp_pnl :: "dec option"
  tp_win_loss :: "string option"
  tp_settled_at :: "utc option"
  tp_run_id :: "string option"
  tp_winning_side :: "string option"
  tp_source_kind :: "string option"
  tp_source :: "string option"
  tp_resolved_at :: "utc option"
  tp_observed_at :: "utc option"
  tp_filled_shares :: "dec option"
  tp_payout :: "dec option"
  tp_evidence_hash :: "string option"
  tp_position_status :: "string option"
  tp_other :: payload

record paper_trade =
  ptr_id :: string
  ptr_decision_id :: string
  ptr_strategy :: string
  ptr_asset :: string
  ptr_horizon :: string
  ptr_condition_id :: string
  ptr_side :: string
  ptr_status :: string
  ptr_label :: string
  ptr_payload :: trade_payload
  ptr_observed_at :: utc

record paper_abstain =
  pab_id :: string
  pab_strategy :: string
  pab_asset :: string
  pab_horizon :: string
  pab_condition_id :: string
  pab_reason :: string
  pab_payload :: payload
  pab_observed_at :: utc

record paper_settlement =
  pst_id :: string
  pst_trade_id :: string
  pst_condition_id :: string
  pst_winning_side :: string
  pst_selected_side :: string
  pst_source_kind :: string
  pst_source :: string
  pst_resolved_at :: "utc option"
  pst_observed_at :: utc
  pst_settled_at :: utc
  pst_filled_shares :: dec
  pst_cost_basis :: dec
  pst_payout :: dec
  pst_pnl :: dec
  pst_win_loss :: string
  pst_evidence_hash :: string
  pst_payload :: payload

record identity_overlay =
  ido_condition_id :: string
  ido_status :: string
  ido_market_id :: "string option"
  ido_asset :: string
  ido_horizon :: string
  ido_window_start :: "utc option"
  ido_window_end :: "utc option"
  ido_outcome_tokens :: payload
  ido_source_kind :: string
  ido_source :: string
  ido_retrieved_at :: utc
  ido_verified_at :: utc
  ido_evidence_hash :: string
  ido_blocker :: "string option"
  ido_payload :: payload

record settlement_attempt =
  sat_condition_id :: string
  sat_state :: string
  sat_last_attempt_at :: "utc option"
  sat_next_attempt_at :: "utc option"
  sat_count :: int
  sat_last_reason :: "string option"
  sat_last_error :: "string option"
  sat_last_success_at :: "utc option"
  sat_payload :: payload

record label_task =
  lbt_condition_id :: string
  lbt_evidence_hash :: string
  lbt_state :: string
  lbt_last_attempt_at :: "utc option"
  lbt_next_attempt_at :: "utc option"
  lbt_count :: int
  lbt_last_reason :: "string option"
  lbt_payload :: payload

record paper_repo =
  repo_runs :: "(string, paper_run_metadata) rows"
  repo_executions :: "(string, stored_execution) rows"
  repo_audit :: "(string, audit_event) rows"
  repo_trades :: "(string, paper_trade) rows"
  repo_abstains :: "(string, paper_abstain) rows"
  repo_settlements :: "(string, paper_settlement) rows"
  repo_overlays :: "(string, identity_overlay) rows"
  repo_attempts :: "(string, settlement_attempt) rows"
  repo_tasks :: "(string \<times> string, label_task) rows"

text \<open>\<open>initialize\<close> on a fresh file. The settlements are keyed by their unique trade.\<close>

definition empty_repo :: paper_repo where
  "empty_repo = \<lparr>repo_runs = [], repo_executions = [], repo_audit = [], repo_trades = [],
     repo_abstains = [], repo_settlements = [], repo_overlays = [], repo_attempts = [], repo_tasks = []\<rparr>"

section \<open>The run\<close>

text \<open>\<open>ORDER BY started_at DESC LIMIT 1\<close>\<close>

definition run_metadata :: "paper_repo \<Rightarrow> paper_run_metadata option" where
  "run_metadata r = (case map snd (repo_runs r) of [] \<Rightarrow> None
     | m # ms \<Rightarrow> Some (max_by prm_started_at m ms))"

definition paper_run_id :: "paper_repo \<Rightarrow> string option" where
  "paper_run_id r = map_option prm_run_id (run_metadata r)"

definition PAPER_INITIAL_EQUITY_USDC :: dec where
  "PAPER_INITIAL_EQUITY_USDC = 40"

definition paper_initial_equity :: "paper_repo \<Rightarrow> dec" where
  "paper_initial_equity r = (case run_metadata r of
     None \<Rightarrow> PAPER_INITIAL_EQUITY_USDC | Some m \<Rightarrow> prm_initial_equity m)"

text \<open>
  An operation of the repository returns the new state with its value or its exception, so that
  what an exception leaves behind is part of the model. The copy of the run's own fields that the
  code merges into the payload is not repeated in \<open>prm_payload\<close>.
\<close>

definition save_run_metadata_once :: "paper_repo \<Rightarrow> paper_run_metadata \<Rightarrow>
    paper_repo \<times> paper_run_metadata result" where
  "save_run_metadata_once r m =
     (case first_error [require_text ''paper_run_id'' (prm_run_id m),
         non_negative ''initial_equity_usdc'' (prm_initial_equity m),
         fail_if (\<exists>old. run_metadata r = Some old \<and> prm_run_id old \<noteq> prm_run_id m)
           (RuntimeErr ''paper run metadata already exists for a different run'')] of
        Some e \<Rightarrow> (r, Inl e)
      | None \<Rightarrow> (let r' = r\<lparr>repo_runs := row_insert (repo_runs r) (prm_run_id m) m\<rparr> in
          (r', case run_metadata r' of
             None \<Rightarrow> Inl (RuntimeErr ''paper run metadata was not durably recorded'')
           | Some stored \<Rightarrow> Inr stored)))"

section \<open>Executions\<close>

definition execution_get :: "paper_repo \<Rightarrow> string \<Rightarrow> stored_execution option result" where
  "execution_get r key = checked [require_text ''idempotency_key'' key]
     (Inr (map_of (repo_executions r) key))"

definition audit_key :: "string \<Rightarrow> string \<Rightarrow> string" where
  "audit_key kind key = kind @ '':'' @ key"

definition execution_save_once :: "paper_repo \<Rightarrow> string \<Rightarrow> string \<Rightarrow> execution_plan \<Rightarrow> json_result \<Rightarrow> utc \<Rightarrow>
    paper_repo \<times> stored_execution result" where
  "execution_save_once r key pid plan res now =
     (case first_error [require_text ''idempotency_key'' key, require_text ''plan_id'' pid] of
        Some e \<Rightarrow> (r, Inl e)
      | None \<Rightarrow>
         (let encoded = \<lparr>ep_plan = plan, ep_result = res, ep_run_id = paper_run_id r\<rparr>;
              r' = r\<lparr>repo_executions := row_insert (repo_executions r) key
                       \<lparr>sx_idempotency_key = key, sx_plan_id = pid, sx_payload = encoded,
                        sx_recorded_at = now\<rparr>,
                     repo_audit := row_insert (repo_audit r) (audit_key ''paper'' key)
                       \<lparr>aud_reference_id = pid, aud_event_type = ''PAPER_EXECUTION'',
                        aud_payload = Execution_Payload encoded, aud_occurred_at = now\<rparr>\<rparr> in
          (r', bindr (execution_get r' key) (\<lambda>stored. case stored of
             None \<Rightarrow> Inl (RuntimeErr ''execution was not durably recorded'')
           | Some x \<Rightarrow> Inr x))))"

definition audit_count :: "paper_repo \<Rightarrow> string \<Rightarrow> nat result" where
  "audit_count r ref = checked [require_text ''reference_id'' ref]
     (Inr (length (filter (\<lambda>(_, a). aud_reference_id a = ref) (repo_audit r))))"

section \<open>Settlements\<close>

definition settlement_for_trade :: "paper_repo \<Rightarrow> string \<Rightarrow> paper_settlement option result" where
  "settlement_for_trade r tid = checked [require_text ''trade_id'' tid]
     (Inr (map_of (repo_settlements r) tid))"

definition trade_settlement_checks :: "paper_settlement \<Rightarrow> check list" where
  "trade_settlement_checks s =
     [require_text ''settlement_id'' (pst_id s), require_text ''trade_id'' (pst_trade_id s),
      require_text ''condition_id'' (pst_condition_id s),
      require_text ''official_winning_side'' (pst_winning_side s),
      require_text ''selected_side'' (pst_selected_side s),
      require_text ''settlement_source_kind'' (pst_source_kind s),
      require_text ''settlement_source'' (pst_source s),
      require_text ''win_loss'' (pst_win_loss s), require_text ''evidence_hash'' (pst_evidence_hash s),
      non_negative ''filled_shares'' (pst_filled_shares s),
      non_negative ''cost_basis_usdc'' (pst_cost_basis s),
      non_negative ''payout_usdc'' (pst_payout s)]"

definition settlement_conflict :: "paper_settlement \<Rightarrow> paper_settlement \<Rightarrow> bool" where
  "settlement_conflict stored s \<longleftrightarrow> pst_winning_side stored \<noteq> pst_winning_side s
     \<or> pst_selected_side stored \<noteq> pst_selected_side s \<or> pst_win_loss stored \<noteq> pst_win_loss s
     \<or> pst_payout stored \<noteq> pst_payout s \<or> pst_pnl stored \<noteq> pst_pnl s"

text \<open>\<open>settlement_id\<close> is the primary key of the table: a second trade cannot reuse it.\<close>

definition save_settlement_once :: "paper_repo \<Rightarrow> paper_settlement \<Rightarrow>
    paper_repo \<times> paper_settlement result" where
  "save_settlement_once r s =
     (case first_error (trade_settlement_checks s) of
        Some e \<Rightarrow> (r, Inl e)
      | None \<Rightarrow>
         (let row = s\<lparr>pst_payload := with_run_id (paper_run_id r) (pst_payload s)\<rparr> in
          case map_of (repo_settlements r) (pst_trade_id s) of
            Some stored \<Rightarrow>
              (r, if settlement_conflict stored s
                  then Inl (RuntimeErr ''conflicting PAPER settlement for trade'') else Inr stored)
          | None \<Rightarrow>
             (if \<exists>x\<in>snd ` set (repo_settlements r). pst_id x = pst_id s then
                (r, Inl (SqliteIntegrityError ''paper_trade_settlements.settlement_id''))
              else (let r' = r\<lparr>repo_settlements :=
                          row_insert (repo_settlements r) (pst_trade_id s) row,
                        repo_audit := row_insert (repo_audit r)
                          (audit_key ''paper-settlement'' (pst_trade_id s))
                          \<lparr>aud_reference_id = pst_trade_id s, aud_event_type = ''PAPER_SETTLEMENT'',
                           aud_payload = Settlement_Payload (pst_payload row),
                           aud_occurred_at = pst_settled_at s\<rparr>\<rparr> in
                (r', bindr (settlement_for_trade r' (pst_trade_id s)) (\<lambda>stored. case stored of
                   None \<Rightarrow> Inl (RuntimeErr ''paper settlement was not durably recorded'')
                 | Some x \<Rightarrow> Inr x))))))"

text \<open>\<open>ORDER BY settled_at DESC\<close>\<close>

definition settlements :: "paper_repo \<Rightarrow> paper_settlement list" where
  "settlements r = sort_key (\<lambda>s. - pst_settled_at s) (map snd (repo_settlements r))"

section \<open>Trades\<close>

text \<open>\<open>_overlay_trade\<close>: a settled trade is read with the facts of its settlement.\<close>

definition overlay_payload :: "paper_settlement \<Rightarrow> trade_payload \<Rightarrow> trade_payload" where
  "overlay_payload s p = p\<lparr>tp_winning_side := Some (pst_winning_side s),
     tp_source_kind := Some (pst_source_kind s), tp_source := Some (pst_source s),
     tp_resolved_at := pst_resolved_at s, tp_observed_at := Some (pst_observed_at s),
     tp_settled_at := Some (pst_settled_at s), tp_filled_shares := Some (pst_filled_shares s),
     tp_cost_basis := Some (pst_cost_basis s), tp_payout := Some (pst_payout s),
     tp_pnl := Some (pst_pnl s), tp_win_loss := Some (pst_win_loss s),
     tp_evidence_hash := Some (pst_evidence_hash s), tp_position_status := Some ''SETTLED''\<rparr>"

definition overlay_trade :: "paper_repo \<Rightarrow> paper_trade \<Rightarrow> paper_trade result" where
  "overlay_trade r t = bindr (settlement_for_trade r (ptr_id t)) (\<lambda>stored. case stored of
       None \<Rightarrow> Inr t
     | Some s \<Rightarrow> Inr (t\<lparr>ptr_status := ''SETTLED'', ptr_payload := overlay_payload s (ptr_payload t)\<rparr>))"

definition trade_by_id :: "paper_repo \<Rightarrow> string \<Rightarrow> paper_trade option result" where
  "trade_by_id r tid = checked [require_text ''trade_id'' tid]
     (case map_of (repo_trades r) tid of
        None \<Rightarrow> Inr None
      | Some t \<Rightarrow> bindr (overlay_trade r t) (\<lambda>x. Inr (Some x)))"

text \<open>The code writes a dash outside the first 256 code points in the label.\<close>

definition trade_label :: string where
  "trade_label = ''PAPER / SHADOW - NO REAL ORDER''"

definition trade_checks :: "paper_trade \<Rightarrow> check list" where
  "trade_checks t =
     [require_text ''trade_id'' (ptr_id t), require_text ''decision_id'' (ptr_decision_id t),
      require_text ''strategy'' (ptr_strategy t), require_text ''asset'' (ptr_asset t),
      require_text ''horizon'' (ptr_horizon t), require_text ''condition_id'' (ptr_condition_id t),
      require_text ''side'' (ptr_side t), require_text ''status'' (ptr_status t)]"

definition payload_with_run :: "string option \<Rightarrow> trade_payload \<Rightarrow> trade_payload" where
  "payload_with_run run p = (case tp_run_id p of Some _ \<Rightarrow> p | None \<Rightarrow> p\<lparr>tp_run_id := run\<rparr>)"

definition save_trade_snapshot :: "paper_repo \<Rightarrow> paper_trade \<Rightarrow> paper_repo \<times> paper_trade result" where
  "save_trade_snapshot r t =
     (case first_error (trade_checks t) of
        Some e \<Rightarrow> (r, Inl e)
      | None \<Rightarrow>
         (let row = t\<lparr>ptr_label := trade_label,
                      ptr_payload := payload_with_run (paper_run_id r) (ptr_payload t)\<rparr>;
              r' = r\<lparr>repo_trades := row_insert (repo_trades r) (ptr_id t) row\<rparr> in
          (r', bindr (trade_by_id r' (ptr_id t)) (\<lambda>stored. case stored of
             None \<Rightarrow> Inl (RuntimeErr ''paper trade snapshot was not durably recorded'')
           | Some x \<Rightarrow> Inr x))))"

text \<open>\<open>ORDER BY observed_at DESC\<close>; rows of the same instant keep their insertion order.\<close>

definition newest_first :: "(string, paper_trade) rows \<Rightarrow> paper_trade list" where
  "newest_first rows = sort_key (\<lambda>t. - ptr_observed_at t) (map snd rows)"

definition raw_trade_snapshots :: "paper_repo \<Rightarrow> int \<Rightarrow> paper_trade list result" where
  "raw_trade_snapshots r limit = checked [fail_if (limit < 1) (ValueErr ''limit must be positive'')]
     (Inr (take (nat limit) (newest_first (repo_trades r))))"

record trade_query =
  tq_asset :: "string option"
  tq_horizon :: "string option"
  tq_strategy :: "string option"
  tq_side :: "string option"
  tq_status :: "string option"
  tq_win_loss :: "string option"
  tq_start :: "utc option"
  tq_end :: "utc option"
  tq_limit :: int
  tq_offset :: int

definition all_trades :: trade_query where
  "all_trades = \<lparr>tq_asset = None, tq_horizon = None, tq_strategy = None, tq_side = None,
     tq_status = None, tq_win_loss = None, tq_start = None, tq_end = None, tq_limit = 250, tq_offset = 0\<rparr>"

definition optional_text_check :: "string \<Rightarrow> string option \<Rightarrow> check" where
  "optional_text_check name v = (case v of None \<Rightarrow> None | Some x \<Rightarrow> require_text name x)"

definition agrees :: "'a option \<Rightarrow> 'a \<Rightarrow> bool" where
  "agrees q v \<longleftrightarrow> (case q of None \<Rightarrow> True | Some x \<Rightarrow> v = x)"

definition trade_matches :: "trade_query \<Rightarrow> paper_trade \<Rightarrow> bool" where
  "trade_matches q t \<longleftrightarrow> agrees (tq_asset q) (ptr_asset t) \<and> agrees (tq_horizon q) (ptr_horizon t)
     \<and> agrees (tq_strategy q) (ptr_strategy t) \<and> agrees (tq_side q) (ptr_side t)
     \<and> (case tq_start q of None \<Rightarrow> True | Some b \<Rightarrow> b \<le> ptr_observed_at t)
     \<and> (case tq_end q of None \<Rightarrow> True | Some e \<Rightarrow> ptr_observed_at t \<le> e)"

text \<open>
  The status and the result of a trade come from its overlay, so these two filters run after the
  query; the page is then cut from the filtered list, otherwise by the query itself.
\<close>

definition trades :: "paper_repo \<Rightarrow> trade_query \<Rightarrow> paper_trade list result" where
  "trades r q =
     checked [fail_if (tq_limit q < 1) (ValueErr ''limit must be positive''),
        fail_if (tq_offset q < 0) (ValueErr ''offset must be non-negative''),
        optional_text_check ''asset'' (tq_asset q), optional_text_check ''horizon'' (tq_horizon q),
        optional_text_check ''strategy'' (tq_strategy q), optional_text_check ''side'' (tq_side q),
        optional_text_check ''status'' (tq_status q), optional_text_check ''win_loss'' (tq_win_loss q)]
      (let page = (\<lambda>xs. take (nat (tq_limit q)) (drop (nat (tq_offset q)) xs));
           rows = filter (trade_matches q) (newest_first (repo_trades r)) in
       if tq_status q = None \<and> tq_win_loss q = None then mapr (overlay_trade r) (page rows)
       else bindr (mapr (overlay_trade r) rows) (\<lambda>ts.
         Inr (page (filter (\<lambda>t. agrees (tq_status q) (ptr_status t)
           \<and> (case tq_win_loss q of None \<Rightarrow> True | Some w \<Rightarrow> tp_win_loss (ptr_payload t) = Some w)) ts))))"

definition unsettled_trade_snapshots :: "paper_repo \<Rightarrow> string \<Rightarrow> string \<Rightarrow> int \<Rightarrow> paper_trade list result" where
  "unsettled_trade_snapshots r strategy status limit =
     checked [require_text ''strategy'' strategy, require_text ''status'' status,
        fail_if (limit < 1) (ValueErr ''limit must be positive'')]
      (Inr (take (nat limit) (filter (\<lambda>t. ptr_strategy t = strategy \<and> ptr_status t = status
          \<and> map_of (repo_settlements r) (ptr_id t) = None) (newest_first (repo_trades r)))))"

section \<open>Abstentions\<close>

record abstain_query =
  aq_reason :: "string option"
  aq_strategy :: "string option"
  aq_asset :: "string option"
  aq_horizon :: "string option"
  aq_limit :: int
  aq_offset :: int

definition abstain_matches :: "abstain_query \<Rightarrow> paper_abstain \<Rightarrow> bool" where
  "abstain_matches q a \<longleftrightarrow> agrees (aq_reason q) (pab_reason a) \<and> agrees (aq_strategy q) (pab_strategy a)
     \<and> agrees (aq_asset q) (pab_asset a) \<and> agrees (aq_horizon q) (pab_horizon a)"

definition abstains :: "paper_repo \<Rightarrow> abstain_query \<Rightarrow> paper_abstain list result" where
  "abstains r q =
     checked [fail_if (aq_limit q < 1) (ValueErr ''limit must be positive''),
        fail_if (aq_offset q < 0) (ValueErr ''offset must be non-negative''),
        optional_text_check ''reason'' (aq_reason q), optional_text_check ''strategy'' (aq_strategy q),
        optional_text_check ''asset'' (aq_asset q), optional_text_check ''horizon'' (aq_horizon q)]
      (Inr (take (nat (aq_limit q)) (drop (nat (aq_offset q)) (filter (abstain_matches q)
         (sort_key (\<lambda>a. - pab_observed_at a) (map snd (repo_abstains r)))))))"

definition abstain_checks :: "paper_abstain \<Rightarrow> check list" where
  "abstain_checks a =
     [require_text ''abstain_id'' (pab_id a), require_text ''strategy'' (pab_strategy a),
      require_text ''asset'' (pab_asset a), require_text ''horizon'' (pab_horizon a),
      require_text ''condition_id'' (pab_condition_id a), require_text ''reason'' (pab_reason a)]"

definition save_abstain :: "paper_repo \<Rightarrow> paper_abstain \<Rightarrow> paper_repo \<times> paper_abstain result" where
  "save_abstain r a =
     (case first_error (abstain_checks a) of
        Some e \<Rightarrow> (r, Inl e)
      | None \<Rightarrow>
         (let row = a\<lparr>pab_payload := with_run_id (paper_run_id r) (pab_payload a)\<rparr>;
              r' = r\<lparr>repo_abstains := row_insert (repo_abstains r) (pab_id a) row\<rparr> in
          (r', bindr (abstains r' \<lparr>aq_reason = Some (pab_reason a), aq_strategy = Some (pab_strategy a),
               aq_asset = Some (pab_asset a), aq_horizon = Some (pab_horizon a),
               aq_limit = 1, aq_offset = 0\<rparr>) (\<lambda>stored. case stored of
             [] \<Rightarrow> Inl (RuntimeErr ''paper abstain record was not durably recorded'')
           | x # _ \<Rightarrow> Inr x))))"

section \<open>Identity overlays\<close>

definition identity_overlay_of :: "paper_repo \<Rightarrow> string \<Rightarrow> identity_overlay option result" where
  "identity_overlay_of r cid = checked [require_text ''condition_id'' cid]
     (Inr (map_of (repo_overlays r) cid))"

definition overlay_checks :: "identity_overlay \<Rightarrow> check list" where
  "overlay_checks v =
     [require_text ''condition_id'' (ido_condition_id v), require_text ''status'' (ido_status v),
      require_text ''asset'' (ido_asset v), require_text ''horizon'' (ido_horizon v),
      require_text ''source_kind'' (ido_source_kind v), require_text ''source'' (ido_source v),
      require_text ''evidence_hash'' (ido_evidence_hash v),
      optional_text_check ''market_id'' (ido_market_id v)]"

definition overlay_conflict :: "identity_overlay \<Rightarrow> identity_overlay \<Rightarrow> bool" where
  "overlay_conflict stored v \<longleftrightarrow> ido_status stored \<noteq> ido_status v
     \<or> ido_market_id stored \<noteq> ido_market_id v \<or> ido_asset stored \<noteq> ido_asset v
     \<or> ido_horizon stored \<noteq> ido_horizon v \<or> ido_window_start stored \<noteq> ido_window_start v
     \<or> ido_window_end stored \<noteq> ido_window_end v
     \<or> set (ido_outcome_tokens stored) \<noteq> set (ido_outcome_tokens v)
     \<or> ido_evidence_hash stored \<noteq> ido_evidence_hash v \<or> ido_blocker stored \<noteq> ido_blocker v"

definition save_identity_overlay_once :: "paper_repo \<Rightarrow> identity_overlay \<Rightarrow>
    paper_repo \<times> identity_overlay result" where
  "save_identity_overlay_once r v =
     (case first_error (overlay_checks v) of
        Some e \<Rightarrow> (r, Inl e)
      | None \<Rightarrow>
         (case map_of (repo_overlays r) (ido_condition_id v) of
            Some stored \<Rightarrow> (r, if overlay_conflict stored v
              then Inl (RuntimeErr ''conflicting paper identity overlay'') else Inr stored)
          | None \<Rightarrow>
             (let r' = r\<lparr>repo_overlays := row_insert (repo_overlays r) (ido_condition_id v) v\<rparr> in
              (r', bindr (identity_overlay_of r' (ido_condition_id v)) (\<lambda>stored. case stored of
                 None \<Rightarrow> Inl (RuntimeErr ''paper identity overlay was not durably recorded'')
               | Some x \<Rightarrow> Inr x)))))"

section \<open>Attempts and tasks\<close>

text \<open>
  Two tables are updated in place. The count starts at 1 and the last success survives an attempt
  that reports none (\<open>COALESCE\<close>).
\<close>

definition settlement_attempt_of :: "paper_repo \<Rightarrow> string \<Rightarrow> settlement_attempt option result" where
  "settlement_attempt_of r cid = checked [require_text ''condition_id'' cid]
     (Inr (map_of (repo_attempts r) cid))"

definition save_settlement_condition_attempt :: "paper_repo \<Rightarrow> string \<Rightarrow> string \<Rightarrow> utc \<Rightarrow> utc option \<Rightarrow>
    string \<Rightarrow> string option \<Rightarrow> utc option \<Rightarrow> payload \<Rightarrow> paper_repo \<times> settlement_attempt result" where
  "save_settlement_condition_attempt r cid state attempted next reason error success p =
     (case first_error [require_text ''condition_id'' cid, require_text ''state'' state,
         require_text ''reason'' reason] of
        Some e \<Rightarrow> (r, Inl e)
      | None \<Rightarrow>
         (let r' = r\<lparr>repo_attempts := row_upsert (repo_attempts r) cid
              \<lparr>sat_condition_id = cid, sat_state = state, sat_last_attempt_at = Some attempted,
               sat_next_attempt_at = next, sat_count = 1, sat_last_reason = Some reason,
               sat_last_error = error, sat_last_success_at = success, sat_payload = p\<rparr>
              (\<lambda>a. a\<lparr>sat_state := state, sat_last_attempt_at := Some attempted,
                 sat_next_attempt_at := next, sat_count := sat_count a + 1,
                 sat_last_reason := Some reason, sat_last_error := error,
                 sat_last_success_at := (case success of Some t \<Rightarrow> Some t | None \<Rightarrow> sat_last_success_at a),
                 sat_payload := p\<rparr>)\<rparr> in
          (r', bindr (settlement_attempt_of r' cid) (\<lambda>stored. case stored of
             None \<Rightarrow> Inl (RuntimeErr ''paper settlement condition attempt was not durably recorded'')
           | Some x \<Rightarrow> Inr x))))"

definition corpus_label_task :: "paper_repo \<Rightarrow> string \<Rightarrow> string \<Rightarrow> label_task option result" where
  "corpus_label_task r cid evidence = checked [require_text ''condition_id'' cid,
      require_text ''evidence_hash'' evidence] (Inr (map_of (repo_tasks r) (cid, evidence)))"

text \<open>\<open>dict(payload) | {"reason": reason}\<close>\<close>

definition with_reason :: "payload \<Rightarrow> string \<Rightarrow> payload" where
  "with_reason p reason = row_upsert p ''reason'' reason (\<lambda>_. reason)"

definition save_corpus_label_task :: "paper_repo \<Rightarrow> string \<Rightarrow> string \<Rightarrow> string \<Rightarrow> utc \<Rightarrow> utc option \<Rightarrow>
    string \<Rightarrow> payload \<Rightarrow> paper_repo \<times> label_task result" where
  "save_corpus_label_task r cid evidence state attempted next reason p =
     (case first_error [require_text ''condition_id'' cid, require_text ''evidence_hash'' evidence,
         require_text ''state'' state, require_text ''reason'' reason] of
        Some e \<Rightarrow> (r, Inl e)
      | None \<Rightarrow>
         (let r' = r\<lparr>repo_tasks := row_upsert (repo_tasks r) (cid, evidence)
              \<lparr>lbt_condition_id = cid, lbt_evidence_hash = evidence, lbt_state = state,
               lbt_last_attempt_at = Some attempted, lbt_next_attempt_at = next, lbt_count = 1,
               lbt_last_reason = Some reason, lbt_payload = with_reason p reason\<rparr>
              (\<lambda>a. a\<lparr>lbt_state := state, lbt_last_attempt_at := Some attempted,
                 lbt_next_attempt_at := next, lbt_count := lbt_count a + 1,
                 lbt_last_reason := Some reason, lbt_payload := with_reason p reason\<rparr>)\<rparr> in
          (r', bindr (corpus_label_task r' cid evidence) (\<lambda>stored. case stored of
             None \<Rightarrow> Inl (RuntimeErr ''paper corpus label task was not durably recorded'')
           | Some x \<Rightarrow> Inr x))))"

section \<open>Histories of the repository\<close>

text \<open>Any write, by any caller, with any arguments, in any order.\<close>

inductive repo_step :: "paper_repo \<Rightarrow> paper_repo \<Rightarrow> bool" where
  run_step: "repo_step r (fst (save_run_metadata_once r m))"
| execution_step: "repo_step r (fst (execution_save_once r key pid plan res now))"
| settlement_step: "repo_step r (fst (save_settlement_once r s))"
| trade_step: "repo_step r (fst (save_trade_snapshot r t))"
| abstain_step: "repo_step r (fst (save_abstain r a))"
| overlay_step: "repo_step r (fst (save_identity_overlay_once r v))"
| attempt_step: "repo_step r (fst (save_settlement_condition_attempt r cid state attempted next reason error success p))"
| task_step: "repo_step r (fst (save_corpus_label_task r cid evidence state attempted next reason p))"

inductive_cases repo_stepE: "repo_step r r'"

lemmas repo_write_defs = save_run_metadata_once_def execution_save_once_def save_settlement_once_def
  save_trade_snapshot_def save_abstain_def save_identity_overlay_once_def
  save_settlement_condition_attempt_def save_corpus_label_task_def

abbreviation repo_history :: "paper_repo \<Rightarrow> paper_repo \<Rightarrow> bool" where
  "repo_history \<equiv> repo_step\<^sup>*\<^sup>*"

subsection \<open>Nothing that was written once is ever changed\<close>

definition keeps :: "('k, 'v) rows \<Rightarrow> ('k, 'v) rows \<Rightarrow> bool" where
  "keeps t t' \<longleftrightarrow> prefix t t'"

lemma keeps_refl [simp]: "keeps t t" and keeps_insert [simp]: "keeps t (row_insert t k v)"
  by (simp_all add: keeps_def row_insert_def)

lemma keeps_trans: "keeps t u \<Longrightarrow> keeps u w \<Longrightarrow> keeps t w"
  by (auto simp: keeps_def)

lemma keeps_lookup: "keeps t t' \<Longrightarrow> map_of t k = Some v \<Longrightarrow> map_of t' k = Some v"
  by (auto simp: keeps_def prefix_def map_add_def split: option.splits)

definition repo_extends :: "paper_repo \<Rightarrow> paper_repo \<Rightarrow> bool" where
  "repo_extends r r' \<longleftrightarrow> keeps (repo_runs r) (repo_runs r')
     \<and> keeps (repo_executions r) (repo_executions r') \<and> keeps (repo_audit r) (repo_audit r')
     \<and> keeps (repo_trades r) (repo_trades r') \<and> keeps (repo_abstains r) (repo_abstains r')
     \<and> keeps (repo_settlements r) (repo_settlements r') \<and> keeps (repo_overlays r) (repo_overlays r')"

lemma repo_step_extends: "repo_step r r' \<Longrightarrow> repo_extends r r'"
  by (erule repo_stepE; hypsubst;
    simp add: repo_write_defs repo_extends_def Let_def split: option.split)

lemma repo_history_extends: "repo_history r r' \<Longrightarrow> repo_extends r r'"
proof (induction rule: rtranclp_induct)
  case base
  then show ?case by (simp add: repo_extends_def)
next
  case (step y z)
  from step.hyps(2) have "repo_extends y z" by (rule repo_step_extends)
  with step.IH show ?case
    unfolding repo_extends_def by (elim conjE) (intro conjI; rule keeps_trans; assumption)
qed

lemma settlement_survives:
  assumes "repo_history r r'" "map_of (repo_settlements r) k = Some s"
  shows "map_of (repo_settlements r') k = Some s"
  using repo_history_extends [OF assms(1)] assms(2)
  by (auto simp: repo_extends_def elim!: keeps_lookup)

lemma execution_survives:
  assumes "repo_history r r'" "map_of (repo_executions r) k = Some s"
  shows "map_of (repo_executions r') k = Some s"
  using repo_history_extends [OF assms(1)] assms(2)
  by (auto simp: repo_extends_def elim!: keeps_lookup)

subsection \<open>The audit trail\<close>

definition execution_event :: "stored_execution \<Rightarrow> audit_event" where
  "execution_event x = \<lparr>aud_reference_id = sx_plan_id x, aud_event_type = ''PAPER_EXECUTION'',
     aud_payload = Execution_Payload (sx_payload x), aud_occurred_at = sx_recorded_at x\<rparr>"

definition settlement_event :: "paper_settlement \<Rightarrow> audit_event" where
  "settlement_event s = \<lparr>aud_reference_id = pst_trade_id s, aud_event_type = ''PAPER_SETTLEMENT'',
     aud_payload = Settlement_Payload (pst_payload s), aud_occurred_at = pst_settled_at s\<rparr>"

lemma audit_key_inject [simp]:
  "audit_key ''paper'' k = audit_key ''paper'' l \<longleftrightarrow> k = l"
  "audit_key ''paper-settlement'' k = audit_key ''paper-settlement'' l \<longleftrightarrow> k = l"
  "audit_key ''paper'' k \<noteq> audit_key ''paper-settlement'' l"
  "audit_key ''paper-settlement'' l \<noteq> audit_key ''paper'' k"
  by (simp_all add: audit_key_def)

text \<open>
  The audit table is exactly the image of the executions and the settlements: it is determined by
  them, entry by entry.
\<close>

definition expected_audit :: "paper_repo \<Rightarrow> (string \<Rightarrow> audit_event option) \<Rightarrow> bool" where
  "expected_audit r f \<longleftrightarrow>
     (\<forall>k. f (audit_key ''paper'' k) = map_option execution_event (map_of (repo_executions r) k))
     \<and> (\<forall>k. f (audit_key ''paper-settlement'' k)
          = map_option settlement_event (map_of (repo_settlements r) k))
     \<and> (\<forall>a. f a \<noteq> None \<longrightarrow> (\<exists>k. a = audit_key ''paper'' k \<or> a = audit_key ''paper-settlement'' k))"

definition run_table_ok :: "(string, paper_run_metadata) rows \<Rightarrow> bool" where
  "run_table_ok rs \<longleftrightarrow> length rs \<le> 1 \<and> (\<forall>(k, m)\<in>set rs. prm_run_id m = k)"

definition repo_inv :: "paper_repo \<Rightarrow> bool" where
  "repo_inv r \<longleftrightarrow> expected_audit r (map_of (repo_audit r))
     \<and> (\<forall>k x. map_of (repo_executions r) k = Some x \<longrightarrow> sx_idempotency_key x = k)
     \<and> (\<forall>k x. map_of (repo_settlements r) k = Some x \<longrightarrow> pst_trade_id x = k)
     \<and> run_table_ok (repo_runs r)"

lemma row_insert_fresh: "map_of t k = None \<Longrightarrow> map_of (row_insert t k v) = (map_of t)(k \<mapsto> v)"
  by (rule ext) (simp add: wr.lookup_insert)

lemma row_insert_same: "map_of t k = Some v \<Longrightarrow> row_insert t k w = t"
  by (simp add: row_insert_def)

lemma repo_inv_unaffected:
  assumes "repo_inv r" "repo_executions r' = repo_executions r" "repo_settlements r' = repo_settlements r"
    "repo_audit r' = repo_audit r" "run_table_ok (repo_runs r')"
  shows "repo_inv r'"
  using assms by (simp add: repo_inv_def expected_audit_def)

lemma repo_inv_other_table:
  assumes "repo_inv r" "repo_executions r' = repo_executions r" "repo_settlements r' = repo_settlements r"
    "repo_audit r' = repo_audit r" "repo_runs r' = repo_runs r"
  shows "repo_inv r'"
  using assms by (simp add: repo_inv_def expected_audit_def)

lemma repo_inv_execution:
  assumes inv: "repo_inv r" and key: "sx_idempotency_key x = k"
  shows "repo_inv (r\<lparr>repo_executions := row_insert (repo_executions r) k x,
      repo_audit := row_insert (repo_audit r) (audit_key ''paper'' k) (execution_event x)\<rparr>)"
proof (cases "map_of (repo_executions r) k")
  case None
  then have "map_of (repo_audit r) (audit_key ''paper'' k) = None"
    using inv by (simp add: repo_inv_def expected_audit_def)
  with None inv key show ?thesis
    by (auto simp: repo_inv_def expected_audit_def row_insert_fresh)
next
  case (Some y)
  then have "map_of (repo_audit r) (audit_key ''paper'' k) = Some (execution_event y)"
    using inv by (simp add: repo_inv_def expected_audit_def)
  with Some inv show ?thesis by (simp add: row_insert_same)
qed

lemma repo_inv_settlement:
  assumes inv: "repo_inv r" and key: "pst_trade_id x = k" and new: "map_of (repo_settlements r) k = None"
  shows "repo_inv (r\<lparr>repo_settlements := row_insert (repo_settlements r) k x,
      repo_audit := row_insert (repo_audit r) (audit_key ''paper-settlement'' k) (settlement_event x)\<rparr>)"
proof -
  have "map_of (repo_audit r) (audit_key ''paper-settlement'' k) = None"
    using inv new by (simp add: repo_inv_def expected_audit_def)
  with assms show ?thesis
    by (auto simp: repo_inv_def expected_audit_def row_insert_fresh)
qed

lemma run_table_bounded:
  assumes ok: "run_table_ok (repo_runs r)"
  shows "run_table_ok (repo_runs (fst (save_run_metadata_once r m)))"
proof (cases "repo_runs r")
  case Nil
  then show ?thesis
    by (simp add: save_run_metadata_once_def row_insert_def Let_def run_table_ok_def split: option.split)
next
  case (Cons a rs)
  with ok obtain old where one: "repo_runs r = [(prm_run_id old, old)]"
    by (cases a) (auto simp: run_table_ok_def)
  then have latest: "run_metadata r = Some old" by (simp add: run_metadata_def max_by_def)
  show ?thesis
  proof (cases "prm_run_id m = prm_run_id old")
    case True
    then show ?thesis
      using one ok by (simp add: save_run_metadata_once_def row_insert_def Let_def split: option.split)
  next
    case False
    then have "\<not> passes [require_text ''paper_run_id'' (prm_run_id m),
         non_negative ''initial_equity_usdc'' (prm_initial_equity m),
         fail_if (\<exists>old. run_metadata r = Some old \<and> prm_run_id old \<noteq> prm_run_id m)
           (RuntimeErr ''paper run metadata already exists for a different run'')]"
      using latest by simp
    then show ?thesis
      using ok by (auto simp: save_run_metadata_once_def passes_def split: option.split)
  qed
qed

lemma repo_step_inv: "repo_step r r' \<Longrightarrow> repo_inv r \<Longrightarrow> repo_inv r'"
proof (induction rule: repo_step.induct)
  case (run_step r m)
  then show ?case
    by (intro repo_inv_unaffected [OF run_step.prems] run_table_bounded)
      (auto simp: save_run_metadata_once_def repo_inv_def Let_def split: option.split)
next
  case (execution_step r key pid plan res now)
  define x where "x = \<lparr>sx_idempotency_key = key, sx_plan_id = pid,
    sx_payload = \<lparr>ep_plan = plan, ep_result = res, ep_run_id = paper_run_id r\<rparr>, sx_recorded_at = now\<rparr>"
  have "fst (execution_save_once r key pid plan res now) \<in>
      {r, r\<lparr>repo_executions := row_insert (repo_executions r) key x,
       repo_audit := row_insert (repo_audit r) (audit_key ''paper'' key) (execution_event x)\<rparr>}"
    by (auto simp: execution_save_once_def Let_def x_def execution_event_def split: option.splits)
  then show ?case
    using execution_step repo_inv_execution [of r x key] by (auto simp: x_def)
next
  case (settlement_step r s)
  define x where "x = s\<lparr>pst_payload := with_run_id (paper_run_id r) (pst_payload s)\<rparr>"
  have "fst (save_settlement_once r s) = r \<or> map_of (repo_settlements r) (pst_trade_id s) = None
    \<and> fst (save_settlement_once r s) =
       r\<lparr>repo_settlements := row_insert (repo_settlements r) (pst_trade_id s) x,
       repo_audit := row_insert (repo_audit r) (audit_key ''paper-settlement'' (pst_trade_id s))
         (settlement_event x)\<rparr>"
    by (simp add: save_settlement_once_def Let_def x_def settlement_event_def split: option.split)
  then show ?case
    using settlement_step repo_inv_settlement [of r x "pst_trade_id s"] by (auto simp: x_def)
qed (erule repo_inv_other_table; simp add: repo_write_defs Let_def split: option.split)+

lemma repo_history_inv: "repo_history r r' \<Longrightarrow> repo_inv r \<Longrightarrow> repo_inv r'"
  by (induction rule: rtranclp_induct) (auto intro: repo_step_inv)

lemma empty_repo_inv: "repo_inv empty_repo"
  by (simp add: repo_inv_def empty_repo_def expected_audit_def run_table_ok_def)

lemma history_from_empty: "repo_history empty_repo r \<Longrightarrow> repo_inv r"
  using repo_history_inv empty_repo_inv by blast

section \<open>What the repository promises\<close>

text \<open>
  C14: The PAPER audit trail is complete and never rewritten. In every state that any sequence of
  repository writes can reach from a fresh database, the audit event of an execution exists exactly
  when the execution is stored and carries its payload, the same for settlements, no other audit
  event exists, and every later sequence of writes leaves all rows of these tables and of the trade
  snapshots in place, in their order.
\<close>

theorem audit_trail_is_complete:
  assumes "repo_history empty_repo r" "repo_history r r'"
  shows "(\<forall>k. map_of (repo_audit r) (audit_key ''paper'' k)
        = map_option execution_event (map_of (repo_executions r) k))
    \<and> (\<forall>k. map_of (repo_audit r) (audit_key ''paper-settlement'' k)
        = map_option settlement_event (map_of (repo_settlements r) k))
    \<and> (\<forall>a. map_of (repo_audit r) a \<noteq> None \<longrightarrow>
        (\<exists>k. a = audit_key ''paper'' k \<or> a = audit_key ''paper-settlement'' k))
    \<and> prefix (repo_executions r) (repo_executions r') \<and> prefix (repo_settlements r) (repo_settlements r')
    \<and> prefix (repo_audit r) (repo_audit r') \<and> prefix (repo_trades r) (repo_trades r')"
  using history_from_empty [OF assms(1)] repo_history_extends [OF assms(2)]
  unfolding repo_inv_def expected_audit_def repo_extends_def keeps_def by blast

lemma save_settlement_Inr:
  assumes "save_settlement_once r s = (r1, Inr x)"
  shows "passes (trade_settlement_checks s)" "map_of (repo_settlements r1) (pst_trade_id s) = Some x"
  using assms
  by (auto simp: save_settlement_once_def passes_def Let_def settlement_for_trade_def row_insert_fresh
      contract_simps bindr_Inr_iff split: option.splits if_splits)

lemma overlay_of_settled:
  assumes "trade_by_id r tid = Inr (Some t)" "map_of (repo_settlements r) tid = Some x"
    "\<forall>k t. map_of (repo_trades r) k = Some t \<longrightarrow> ptr_id t = k"
  shows "ptr_status t = ''SETTLED'' \<and> tp_pnl (ptr_payload t) = Some (pst_pnl x)
    \<and> tp_cost_basis (ptr_payload t) = Some (pst_cost_basis x)"
  using assms
  by (auto simp: trade_by_id_def overlay_trade_def settlement_for_trade_def overlay_payload_def
      contract_simps bindr_Inr_iff split: option.splits)

definition trades_keyed :: "paper_repo \<Rightarrow> bool" where
  "trades_keyed r \<longleftrightarrow> (\<forall>k t. map_of (repo_trades r) k = Some t \<longrightarrow> ptr_id t = k)"

lemma repo_step_trades:
  "repo_step r r' \<Longrightarrow> repo_trades r' = repo_trades r
     \<or> (\<exists>t. repo_trades r' = row_insert (repo_trades r) (ptr_id t) t)"
proof (induction rule: repo_step.induct)
  case (trade_step r t)
  let ?row = "t\<lparr>ptr_label := trade_label,
    ptr_payload := payload_with_run (paper_run_id r) (ptr_payload t)\<rparr>"
  have "repo_trades (fst (save_trade_snapshot r t)) \<in>
      {repo_trades r, row_insert (repo_trades r) (ptr_id ?row) ?row}"
    by (simp add: save_trade_snapshot_def Let_def split: option.split)
  then show ?case by blast
qed (simp_all add: repo_write_defs Let_def split: option.split)

lemma trades_keyed_history: "repo_history empty_repo r \<Longrightarrow> trades_keyed r"
proof (induction rule: rtranclp_induct)
  case base
  then show ?case by (simp add: trades_keyed_def empty_repo_def)
next
  case (step y z)
  then show ?case
    using repo_step_trades [OF step.hyps(2)]
    by (auto simp: trades_keyed_def wr.lookup_insert split: option.splits if_splits)
qed

text \<open>
  C15: A settlement is final. Once saving a settlement of a trade has returned, then after any further
  writes the trade reads back the same settlement, a trade snapshot with that id is read as settled
  with the settlement's profit and cost, and saving again changes nothing: it returns the stored
  settlement when side, selection, result, payout and profit agree and raises otherwise.
\<close>

theorem settlement_is_final:
  assumes "repo_history empty_repo r" "save_settlement_once r s = (r1, Inr x)" "repo_history r1 r2"
  shows "settlement_for_trade r2 (pst_trade_id s) = Inr (Some x)
    \<and> (\<forall>t. trade_by_id r2 (pst_trade_id s) = Inr (Some t) \<longrightarrow> ptr_status t = ''SETTLED''
         \<and> tp_pnl (ptr_payload t) = Some (pst_pnl x) \<and> tp_cost_basis (ptr_payload t) = Some (pst_cost_basis x))
    \<and> (\<forall>s'. pst_trade_id s' = pst_trade_id s \<longrightarrow> passes (trade_settlement_checks s') \<longrightarrow>
         save_settlement_once r2 s' = (r2, if settlement_conflict x s'
           then Inl (RuntimeErr ''conflicting PAPER settlement for trade'') else Inr x))"
proof -
  have pass: "passes (trade_settlement_checks s)"
    and x: "map_of (repo_settlements r2) (pst_trade_id s) = Some x"
    using save_settlement_Inr [OF assms(2)] settlement_survives [OF assms(3)] by auto
  have "repo_step r r1" using settlement_step [of r s] assms(2) by simp
  with assms have "repo_history empty_repo r2" by (meson rtranclp.rtrancl_into_rtrancl rtranclp_trans)
  then have keyed: "trades_keyed r2" by (rule trades_keyed_history)
  have "settlement_for_trade r2 (pst_trade_id s) = Inr (Some x)"
    using pass x by (simp add: settlement_for_trade_def trade_settlement_checks_def)
  moreover have "save_settlement_once r2 s' = (r2, if settlement_conflict x s'
      then Inl (RuntimeErr ''conflicting PAPER settlement for trade'') else Inr x)"
    if "pst_trade_id s' = pst_trade_id s" "passes (trade_settlement_checks s')" for s'
    using that x by (simp add: save_settlement_once_def passes_def Let_def)
  ultimately show ?thesis
    using overlay_of_settled [OF _ x] keyed by (simp add: trades_keyed_def)
qed

section \<open>A save that reads back another row\<close>

text \<open>
  \<open>save_abstain\<close> reads back the newest row with the same reason and bucket, not the row it wrote. An
  abstention recorded out of order therefore returns another abstention, and a second save of an id
  under another reason fails although the id is stored.
\<close>

definition sample_abstain :: "string \<Rightarrow> string \<Rightarrow> utc \<Rightarrow> paper_abstain" where
  "sample_abstain i reason t = \<lparr>pab_id = i, pab_strategy = ''DIRECTIONAL_EDGE'', pab_asset = ''BTC'',
     pab_horizon = ''5m'', pab_condition_id = ''c1'', pab_reason = reason, pab_payload = [],
     pab_observed_at = t\<rparr>"

lemma abstain_read_back:
  "snd (save_abstain (fst (save_abstain empty_repo (sample_abstain ''a1'' ''R'' 20)))
      (sample_abstain ''a2'' ''R'' 10)) = Inr (sample_abstain ''a1'' ''R'' 20)"
  "snd (save_abstain (fst (save_abstain empty_repo (sample_abstain ''a1'' ''R'' 20)))
      (sample_abstain ''a1'' ''Q'' 30)) = Inl (RuntimeErr ''paper abstain record was not durably recorded'')"
  by (simp_all add: save_abstain_def sample_abstain_def empty_repo_def abstain_checks_def
    require_text_def py_strip_def py_space_def paper_run_id_def run_metadata_def with_run_id_def
    row_insert_def abstains_def abstain_matches_def agrees_def optional_text_check_def Let_def)

section \<open>Sample inputs\<close>

definition sample_settlement :: paper_settlement where
  "sample_settlement = \<lparr>pst_id = ''s1'', pst_trade_id = ''t1'', pst_condition_id = ''c1'',
     pst_winning_side = ''UP'', pst_selected_side = ''UP'', pst_source_kind = ''OFFICIAL'',
     pst_source = ''gamma'', pst_resolved_at = Some 30, pst_observed_at = 31, pst_settled_at = 32,
     pst_filled_shares = 10, pst_cost_basis = 4, pst_payout = 10, pst_pnl = 6, pst_win_loss = ''WIN'',
     pst_evidence_hash = ''h1'', pst_payload = []\<rparr>"

lemma sample_settlement_saved:
  "save_settlement_once empty_repo sample_settlement =
     (empty_repo\<lparr>repo_settlements := [(''t1'', sample_settlement)],
        repo_audit := [(''paper-settlement:t1'', settlement_event sample_settlement)]\<rparr>,
      Inr sample_settlement)"
  by (simp add: save_settlement_once_def sample_settlement_def empty_repo_def trade_settlement_checks_def
    require_text_def py_strip_def py_space_def paper_run_id_def run_metadata_def with_run_id_def
    row_insert_def settlement_for_trade_def settlement_event_def audit_key_def require_decimal_def Let_def)

abbreviation "settled_repo \<equiv> fst (save_settlement_once empty_repo sample_settlement)"

lemma settled_repo_history: "repo_history empty_repo settled_repo"
  using settlement_step by blast

lemma audit_trail_is_complete_witness:
  "map_of (repo_audit settled_repo) (audit_key ''paper-settlement'' ''t1'')
     = Some (settlement_event sample_settlement)"
  using audit_trail_is_complete [OF settled_repo_history rtranclp.rtrancl_refl]
  by (simp add: sample_settlement_saved)

lemma settlement_is_final_witness:
  "snd (save_settlement_once settled_repo (sample_settlement\<lparr>pst_payout := 0\<rparr>))
     = Inl (RuntimeErr ''conflicting PAPER settlement for trade'')"
proof -
  have "passes (trade_settlement_checks (sample_settlement\<lparr>pst_payout := 0\<rparr>))"
    by (simp add: trade_settlement_checks_def sample_settlement_def py_space_def)
  then show ?thesis
    using settlement_is_final [of empty_repo sample_settlement settled_repo sample_settlement settled_repo]
    by (simp add: sample_settlement_saved) (simp add: sample_settlement_def settlement_conflict_def)
qed

end
