(* ===== verification/Paper_Ledger.thy ===== *)
theory Paper_Ledger
  imports Paper_Store "HOL-Library.Multiset"
begin

text \<open>
  The read side of \<open>storage/paper.py\<close>: the settlement queue, the account summary, the exposure
  reconciliation, the losing streak and the drawdown. Every number the dashboard shows is computed
  here from the rows of \<open>Paper_Store\<close>; the lemmas show that the two independent computations of the
  open exposure agree, that the capital adds up, that the drawdown is the worst drop of the equity
  curve, and that the settlement queue honours its schedule.
\<close>

section \<open>The settlement queue\<close>

definition settlement_resolver_version :: "payload \<Rightarrow> string option" where
  "settlement_resolver_version p = map_of p ''resolver_version''"

definition attempt_due :: "settlement_attempt \<Rightarrow> utc \<Rightarrow> bool" where
  "attempt_due a now =
     (if sat_state a = ''SETTLED'' \<or> sat_state a = ''BLOCKED_PERMANENT'' then False
      else if sat_state a = ''BLOCKED_RETRYABLE''
          \<and> settlement_resolver_version (sat_payload a) \<noteq> Some ''POLYMARKET_SETTLEMENT_V2'' then True
      else (case sat_next_attempt_at a of None \<Rightarrow> True | Some t \<Rightarrow> t \<le> now))"

definition due_settlement_conditions :: "paper_repo \<Rightarrow> string list \<Rightarrow> utc \<Rightarrow> string list result" where
  "due_settlement_conditions r cids now =
     checked (map (require_text ''condition_id'') cids)
      (Inr (filter (\<lambda>cid. case map_of (repo_attempts r) cid of None \<Rightarrow> True | Some a \<Rightarrow> attempt_due a now)
        (fromkeys cids)))"

record settlement_queue =
  sq_due :: nat
  sq_pending :: nat
  sq_blocked :: nat
  sq_last_attempted :: "string option"
  sq_last_attempt_reason :: "string option"
  sq_last_success_at :: "utc option"

text \<open>\<open>max(..., key=..., default=None)\<close> over the rows whose instant is present.\<close>

definition latest_by :: "('a \<Rightarrow> utc option) \<Rightarrow> 'a list \<Rightarrow> 'a option" where
  "latest_by instant xs = (case filter (\<lambda>x. instant x \<noteq> None) xs of
     [] \<Rightarrow> None | y # ys \<Rightarrow> Some (max_by (\<lambda>x. the (instant x)) y ys))"

definition settlement_queue_summary :: "paper_repo \<Rightarrow> string list \<Rightarrow> utc \<Rightarrow> settlement_queue" where
  "settlement_queue_summary r cids now =
     (let attempts = filter (\<lambda>a. cids = [] \<or> sat_condition_id a \<in> set cids) (map snd (repo_attempts r));
          due = filter (\<lambda>a. sat_state a \<noteq> ''SETTLED'' \<and> sat_state a \<noteq> ''BLOCKED_PERMANENT''
            \<and> (case sat_next_attempt_at a of None \<Rightarrow> True | Some t \<Rightarrow> t \<le> now)) attempts;
          last = latest_by sat_last_attempt_at attempts;
          successful = latest_by sat_last_success_at attempts in
      \<lparr>sq_due = length due,
       sq_pending = length (filter (\<lambda>a. sat_state a = ''PENDING'') attempts),
       sq_blocked = length (filter (\<lambda>a. sat_state a = ''BLOCKED_RETRYABLE''
         \<or> sat_state a = ''BLOCKED_PERMANENT'') attempts),
       sq_last_attempted = map_option sat_condition_id last,
       sq_last_attempt_reason = Option.bind last sat_last_reason,
       sq_last_success_at = Option.bind successful sat_last_success_at\<rparr>)"

text \<open>\<open>ORDER BY condition_id ASC, last_attempt_at DESC\<close>, then the first row per condition.\<close>

definition latest_label_tasks :: "paper_repo \<Rightarrow> (string, label_task) rows" where
  "latest_label_tasks r = foldl (\<lambda>latest t. row_insert latest (lbt_condition_id t) t) []
     (sort_key (\<lambda>t. (lbt_condition_id t, case lbt_last_attempt_at t of
        None \<Rightarrow> (1 :: int, 0 :: int) | Some x \<Rightarrow> (0, - x))) (map snd (repo_tasks r)))"

section \<open>Amounts and windows of a trade\<close>

definition capital_basis :: "paper_trade \<Rightarrow> dec" where
  "capital_basis t = (case tp_cost_basis (ptr_payload t) of
     Some c \<Rightarrow> c
   | None \<Rightarrow> (case tp_stake (ptr_payload t) of Some s \<Rightarrow> s | None \<Rightarrow> 0))"

definition realized_pnl_of :: "paper_trade \<Rightarrow> dec" where
  "realized_pnl_of t = (case tp_pnl (ptr_payload t) of None \<Rightarrow> 0 | Some x \<Rightarrow> x)"

definition fee_of :: "paper_trade \<Rightarrow> dec" where
  "fee_of t = (case tp_fee (ptr_payload t) of None \<Rightarrow> 0 | Some x \<Rightarrow> x)"

definition recovered :: "(identity_overlay \<Rightarrow> utc option) \<Rightarrow> identity_overlay option \<Rightarrow> utc option" where
  "recovered instant v = (case v of None \<Rightarrow> None
     | Some x \<Rightarrow> if ido_status x = ''RECOVERED'' then instant x else None)"

definition effective_window_end :: "paper_trade \<Rightarrow> identity_overlay option \<Rightarrow> utc option" where
  "effective_window_end t v = (case tp_window_end (ptr_payload t) of
     Some e \<Rightarrow> Some e | None \<Rightarrow> recovered ido_window_end v)"

definition effective_window_start :: "paper_trade \<Rightarrow> identity_overlay option \<Rightarrow> utc option" where
  "effective_window_start t v = (case tp_window_start (ptr_payload t) of
     Some e \<Rightarrow> Some e | None \<Rightarrow> recovered ido_window_start v)"

definition window_state :: "string \<Rightarrow> utc option \<Rightarrow> utc \<Rightarrow> string" where
  "window_state overlay_status window_end now =
     (if overlay_status = ''SETTLED'' then ''SETTLED''
      else if overlay_status \<noteq> ''OPEN'' then ''NOT_OPEN''
      else (case window_end of None \<Rightarrow> ''UNKNOWN_WINDOW''
        | Some e \<Rightarrow> if e \<le> now then ''EXPIRED_UNSETTLED'' else ''ACTIVE''))"

definition exposure_bucket :: "string \<Rightarrow> string \<Rightarrow> string \<Rightarrow> string \<Rightarrow> string" where
  "exposure_bucket strategy raw_status overlay_status window =
     (if overlay_status = ''SETTLED'' then
        (if raw_status = ''OPEN'' then ''legacy_stale_open_snapshot'' else ''settled_overlay'')
      else if overlay_status \<noteq> ''OPEN'' then ''not_open''
      else if window = ''UNKNOWN_WINDOW'' then ''unknown_window_open''
      else if window = ''EXPIRED_UNSETTLED'' then ''expired_unsettled''
      else if strategy = ''DIRECTIONAL_EDGE'' then ''directional_open''
      else if strategy = ''STRUCTURAL_ARBITRAGE'' then ''structural_open''
      else ''other_open'')"

section \<open>Streak and drawdown\<close>

text \<open>The loop stops at a win and skips a trade that is neither won nor lost.\<close>

fun losing_streak :: "paper_trade list \<Rightarrow> nat" where
  "losing_streak [] = 0"
| "losing_streak (t # ts) =
     (if tp_win_loss (ptr_payload t) = Some ''LOSS'' then Suc (losing_streak ts)
      else if tp_win_loss (ptr_payload t) = Some ''WIN'' then 0
      else losing_streak ts)"

text \<open>\<open>sorted(..., reverse=True)\<close> keeps equal elements in their order.\<close>

definition current_losing_streak :: "paper_trade list \<Rightarrow> nat" where
  "current_losing_streak ts = losing_streak (sort_key (\<lambda>t. - ptr_observed_at t) ts)"

definition settled_instant :: "paper_trade \<Rightarrow> utc" where
  "settled_instant t = (case tp_settled_at (ptr_payload t) of Some x \<Rightarrow> x | None \<Rightarrow> ptr_observed_at t)"

fun drawdown_loop :: "dec \<times> dec \<times> dec \<Rightarrow> dec list \<Rightarrow> dec" where
  "drawdown_loop (equity, peak, maximum) [] = maximum"
| "drawdown_loop (equity, peak, maximum) (x # xs) =
     (let equity' = dadd equity x; peak' = max peak equity' in
      drawdown_loop (equity', peak', max maximum (dsub peak' equity')) xs)"

definition maximum_drawdown :: "paper_trade list \<Rightarrow> dec" where
  "maximum_drawdown ts = drawdown_loop (0, 0, 0) (map realized_pnl_of
     (sort_key settled_instant (filter (\<lambda>t. ptr_status t = ''SETTLED'') ts)))"

section \<open>The account summary\<close>

record account_summary =
  sum_initial_equity :: dec
  sum_realized_pnl :: dec
  sum_total_fees :: dec
  sum_settled_trades :: nat
  sum_open_trades :: nat
  sum_pending :: nat
  sum_wins :: nat
  sum_losses :: nat
  sum_voids :: nat
  sum_open_cost_basis :: dec
  sum_directional_open_cost :: dec
  sum_structural_open_cost :: dec
  sum_unfilled_reservations :: dec
  sum_known_active_cost :: dec
  sum_known_expired_cost :: dec
  sum_unknown_window_cost :: dec
  sum_current_equity :: dec
  sum_raw_available :: dec
  sum_spendable :: dec
  sum_directional_spendable :: dec
  sum_structural_spendable :: dec
  sum_win_rate :: dec
  sum_roi :: dec
  sum_average_net_edge :: dec
  sum_maximum_drawdown :: dec
  sum_losing_streak :: nat

definition with_status :: "string \<Rightarrow> paper_trade list \<Rightarrow> paper_trade list" where
  "with_status status ts = filter (\<lambda>t. ptr_status t = status) ts"

definition of_strategy :: "string \<Rightarrow> paper_trade list \<Rightarrow> paper_trade list" where
  "of_strategy strategy ts = filter (\<lambda>t. ptr_strategy t = strategy) ts"

definition won_as :: "string \<Rightarrow> paper_trade list \<Rightarrow> nat" where
  "won_as w ts = length (filter (\<lambda>t. tp_win_loss (ptr_payload t) = Some w) ts)"

definition basis_sum :: "paper_trade list \<Rightarrow> dec" where
  "basis_sum ts = dsum (map capital_basis ts)"

definition pnl_sum :: "paper_trade list \<Rightarrow> dec" where
  "pnl_sum ts = dsum (map realized_pnl_of ts)"

text \<open>\<open>initial_equity + pnl - open_cost - reservations\<close>, left to right.\<close>

definition raw_available_capital :: "dec \<Rightarrow> dec \<Rightarrow> dec \<Rightarrow> dec \<Rightarrow> dec" where
  "raw_available_capital equity pnl open_cost reserved = dsub (dsub (dadd equity pnl) open_cost) reserved"

definition strategy_spendable :: "dec \<Rightarrow> string \<Rightarrow> paper_trade list \<Rightarrow> dec" where
  "strategy_spendable equity strategy ts = max 0 (raw_available_capital equity
     (pnl_sum (of_strategy strategy (with_status ''SETTLED'' ts)))
     (basis_sum (of_strategy strategy (with_status ''OPEN'' ts)))
     (basis_sum (of_strategy strategy (with_status ''ACKNOWLEDGED'' ts))))"

text \<open>The open trades together with their identity overlays.\<close>

definition with_overlays :: "paper_repo \<Rightarrow> paper_trade list \<Rightarrow> (paper_trade \<times> identity_overlay option) list result" where
  "with_overlays r ts = mapr (\<lambda>t. bindr (identity_overlay_of r (ptr_condition_id t)) (\<lambda>v. Inr (t, v))) ts"

definition window_cost :: "string \<Rightarrow> (paper_trade \<times> identity_overlay option) list \<Rightarrow> utc \<Rightarrow> dec" where
  "window_cost state tvs now = basis_sum (map fst (filter (\<lambda>(t, v).
     window_state ''OPEN'' (effective_window_end t v) now = state) tvs))"

definition summarise :: "dec \<Rightarrow> paper_trade list \<Rightarrow> (paper_trade \<times> identity_overlay option) list \<Rightarrow> utc \<Rightarrow>
    account_summary" where
  "summarise equity ts tvs now =
     (let pnl = pnl_sum ts; settled = with_status ''SETTLED'' ts; opened = with_status ''OPEN'' ts;
          settled_cost = basis_sum settled; open_cost = basis_sum opened;
          reserved = basis_sum (with_status ''ACKNOWLEDGED'' ts);
          wins = won_as ''WIN'' settled; available = raw_available_capital equity pnl open_cost reserved;
          edges = concat (map (\<lambda>t. case tp_net_edge (ptr_payload t) of None \<Rightarrow> [] | Some e \<Rightarrow> [e]) ts) in
      \<lparr>sum_initial_equity = equity, sum_realized_pnl = pnl, sum_total_fees = dsum (map fee_of ts),
       sum_settled_trades = length settled, sum_open_trades = length opened,
       sum_pending = length (with_status ''SETTLEMENT_PENDING'' ts),
       sum_wins = wins, sum_losses = won_as ''LOSS'' settled, sum_voids = won_as ''VOID'' settled,
       sum_open_cost_basis = open_cost,
       sum_directional_open_cost = basis_sum (of_strategy ''DIRECTIONAL_EDGE'' opened),
       sum_structural_open_cost = basis_sum (of_strategy ''STRUCTURAL_ARBITRAGE'' opened),
       sum_unfilled_reservations = reserved,
       sum_known_active_cost = window_cost ''ACTIVE'' tvs now,
       sum_known_expired_cost = window_cost ''EXPIRED_UNSETTLED'' tvs now,
       sum_unknown_window_cost = window_cost ''UNKNOWN_WINDOW'' tvs now,
       sum_current_equity = dadd equity pnl, sum_raw_available = available,
       sum_spendable = max 0 available,
       sum_directional_spendable = strategy_spendable equity ''DIRECTIONAL_EDGE'' ts,
       sum_structural_spendable = strategy_spendable equity ''STRUCTURAL_ARBITRAGE'' ts,
       sum_win_rate = (if settled = [] then 0 else ddiv (of_nat wins) (of_nat (length settled))),
       sum_roi = (if settled_cost = 0 then 0 else ddiv pnl settled_cost),
       sum_average_net_edge = (if edges = [] then 0 else ddiv (dsum edges) (of_nat (length edges))),
       sum_maximum_drawdown = maximum_drawdown ts, sum_losing_streak = current_losing_streak ts\<rparr>)"

definition reader_limit :: int where "reader_limit = 100000"

definition paper_summary :: "paper_repo \<Rightarrow> dec option \<Rightarrow> utc \<Rightarrow> account_summary result" where
  "paper_summary r equity now =
     (let initial = (case equity of Some e \<Rightarrow> e | None \<Rightarrow> paper_initial_equity r) in
      checked [non_negative ''initial_equity'' initial]
       (bindr (trades r (all_trades\<lparr>tq_limit := reader_limit\<rparr>)) (\<lambda>ts.
        bindr (with_overlays r (with_status ''OPEN'' ts)) (\<lambda>tvs.
          Inr (summarise initial ts tvs now)))))"

section \<open>The exposure reconciliation\<close>

record reconciliation_row =
  rrow_trade_id :: string
  rrow_strategy :: string
  rrow_raw_status :: string
  rrow_overlay_status :: string
  rrow_settled :: bool
  rrow_cost_basis :: dec
  rrow_window_start :: "utc option"
  rrow_window_end :: "utc option"
  rrow_window_state :: string
  rrow_attempt_state :: "string option"
  rrow_bucket :: string

definition reconciliation_row_of :: "paper_trade \<Rightarrow> paper_settlement option \<Rightarrow> identity_overlay option \<Rightarrow>
    settlement_attempt option \<Rightarrow> utc \<Rightarrow> reconciliation_row" where
  "reconciliation_row_of t settlement v attempt now =
     (let status = (if settlement \<noteq> None then ''SETTLED'' else ptr_status t);
          state = window_state status (effective_window_end t v) now in
      \<lparr>rrow_trade_id = ptr_id t, rrow_strategy = ptr_strategy t, rrow_raw_status = ptr_status t,
       rrow_overlay_status = status, rrow_settled = (settlement \<noteq> None),
       rrow_cost_basis = (case settlement of Some s \<Rightarrow> pst_cost_basis s | None \<Rightarrow> capital_basis t),
       rrow_window_start = effective_window_start t v, rrow_window_end = effective_window_end t v,
       rrow_window_state = state, rrow_attempt_state = map_option sat_state attempt,
       rrow_bucket = exposure_bucket (ptr_strategy t) (ptr_status t) status state\<rparr>)"

definition reconciliation_rows :: "paper_repo \<Rightarrow> utc \<Rightarrow> reconciliation_row list result" where
  "reconciliation_rows r now =
     bindr (raw_trade_snapshots r reader_limit) (\<lambda>raw.
       (let by_trade = map_of (rev (map (\<lambda>s. (pst_trade_id s, s)) (settlements r))) in
        mapr (\<lambda>t. bindr (identity_overlay_of r (ptr_condition_id t)) (\<lambda>v.
              bindr (settlement_attempt_of r (ptr_condition_id t)) (\<lambda>a.
                Inr (reconciliation_row_of t (by_trade (ptr_id t)) v a now)))) raw))"

definition row_cost_sum :: "reconciliation_row list \<Rightarrow> dec" where
  "row_cost_sum rows = dsum (map rrow_cost_basis rows)"

record exposure_report =
  er_status :: string
  er_open_count :: nat
  er_open_cost :: dec
  er_directional_cost :: dec
  er_structural_cost :: dec
  er_expired_cost :: dec
  er_unknown_cost :: dec
  er_settled_count :: nat
  er_count_difference :: int
  er_cost_difference :: dec
  er_rows :: "reconciliation_row list"

definition exposure_reconciliation :: "paper_repo \<Rightarrow> utc \<Rightarrow> exposure_report result" where
  "exposure_reconciliation r now =
     bindr (reconciliation_rows r now) (\<lambda>rows.
     bindr (paper_summary r None now) (\<lambda>summary.
       (let opened = filter (\<lambda>x. rrow_overlay_status x = ''OPEN'') rows;
            cost = row_cost_sum opened;
            count_matches = length opened = sum_open_trades summary;
            cost_matches = cost = sum_open_cost_basis summary in
        Inr \<lparr>er_status = (if count_matches \<and> cost_matches then ''RECONCILIATION_OK''
               else ''RECONCILIATION_MISMATCH''),
             er_open_count = length opened, er_open_cost = cost,
             er_directional_cost = row_cost_sum (filter (\<lambda>x. rrow_strategy x = ''DIRECTIONAL_EDGE'') opened),
             er_structural_cost = row_cost_sum (filter (\<lambda>x. rrow_strategy x = ''STRUCTURAL_ARBITRAGE'') opened),
             er_expired_cost = row_cost_sum (filter (\<lambda>x. rrow_window_state x = ''EXPIRED_UNSETTLED'') opened),
             er_unknown_cost = row_cost_sum (filter (\<lambda>x. rrow_window_state x = ''UNKNOWN_WINDOW'') opened),
             er_settled_count = length (filter rrow_settled rows),
             er_count_difference = int (length opened) - int (sum_open_trades summary),
             er_cost_difference = dsub cost (sum_open_cost_basis summary), er_rows = rows\<rparr>)))"

section \<open>The rows of a reachable repository\<close>

definition rows_ok :: "paper_repo \<Rightarrow> bool" where
  "rows_ok r \<longleftrightarrow> (\<forall>(k, t)\<in>set (repo_trades r). passes (trade_checks t))
     \<and> distinct_keys (repo_settlements r) \<and> (\<forall>(k, s)\<in>set (repo_settlements r). pst_trade_id s = k)
     \<and> (\<forall>(k, m)\<in>set (repo_runs r). 0 \<le> prm_initial_equity m)"

lemma set_row_insert: "set (row_insert t k v) \<subseteq> insert (k, v) (set t)"
  by (auto simp: row_insert_def)

lemma repo_step_rows:
  "repo_step r r' \<Longrightarrow> (repo_trades r' = repo_trades r \<or>
       (\<exists>t. passes (trade_checks t) \<and> repo_trades r' = row_insert (repo_trades r) (ptr_id t) t))
     \<and> (repo_settlements r' = repo_settlements r \<or>
       (\<exists>s. repo_settlements r' = row_insert (repo_settlements r) (pst_trade_id s) s))
     \<and> (repo_runs r' = repo_runs r \<or>
       (\<exists>m. 0 \<le> prm_initial_equity m \<and> repo_runs r' = row_insert (repo_runs r) (prm_run_id m) m))"
proof (induction rule: repo_step.induct)
  case (trade_step r t)
  let ?row = "t\<lparr>ptr_label := trade_label, ptr_payload := payload_with_run (paper_run_id r) (ptr_payload t)\<rparr>"
  have "passes (trade_checks t) \<Longrightarrow> passes (trade_checks ?row)" by (simp add: trade_checks_def)
  then have "fst (save_trade_snapshot r t) = r \<or> passes (trade_checks ?row)
      \<and> fst (save_trade_snapshot r t) = r\<lparr>repo_trades := row_insert (repo_trades r) (ptr_id ?row) ?row\<rparr>"
    by (auto simp: save_trade_snapshot_def passes_def Let_def split: option.split)
  then show ?case by auto
next
  case (settlement_step r s)
  define x where "x = s\<lparr>pst_payload := with_run_id (paper_run_id r) (pst_payload s)\<rparr>"
  have "repo_settlements (fst (save_settlement_once r s)) = repo_settlements r \<or>
      repo_settlements (fst (save_settlement_once r s)) = row_insert (repo_settlements r) (pst_trade_id x) x"
    by (simp add: save_settlement_once_def Let_def x_def split: option.split)
  moreover have "repo_trades (fst (save_settlement_once r s)) = repo_trades r"
    "repo_runs (fst (save_settlement_once r s)) = repo_runs r"
    by (simp_all add: save_settlement_once_def Let_def split: option.split)
  ultimately show ?case by auto
next
  case (run_step r m)
  have "fst (save_run_metadata_once r m) = r \<or> 0 \<le> prm_initial_equity m
      \<and> fst (save_run_metadata_once r m) = r\<lparr>repo_runs := row_insert (repo_runs r) (prm_run_id m) m\<rparr>"
    by (auto simp: save_run_metadata_once_def first_error_None Let_def split: option.split)
  then show ?case by auto
qed (simp_all add: repo_write_defs Let_def split: option.split)

lemma rows_ok_history: "repo_history empty_repo r \<Longrightarrow> rows_ok r"
proof (induction rule: rtranclp_induct)
  case base
  then show ?case by (simp add: rows_ok_def empty_repo_def distinct_keys_def)
next
  case (step y z)
  have ins: "(\<forall>(k, v)\<in>set t. P k v) \<Longrightarrow> P k v \<Longrightarrow> (\<forall>(k, v)\<in>set (row_insert t k v). P k v)"
    for t :: "('k, 'v) rows" and P k v
    using set_row_insert [of t k v] by auto
  have t: "\<forall>(k, t)\<in>set (repo_trades z). passes (trade_checks t)"
    using repo_step_rows [OF step.hyps(2)] step.IH ins [of "repo_trades y" "\<lambda>_ t. passes (trade_checks t)"]
    unfolding rows_ok_def by (elim conjE disjE exE) simp_all
  have s: "distinct_keys (repo_settlements z)" "\<forall>(k, s)\<in>set (repo_settlements z). pst_trade_id s = k"
    using repo_step_rows [OF step.hyps(2)] step.IH ins [of "repo_settlements y" "\<lambda>k s. pst_trade_id s = k"]
    unfolding rows_ok_def by (elim conjE disjE exE; simp)+
  have m: "\<forall>(k, m)\<in>set (repo_runs z). 0 \<le> prm_initial_equity m"
    using repo_step_rows [OF step.hyps(2)] step.IH ins [of "repo_runs y" "\<lambda>_ m. 0 \<le> prm_initial_equity m"]
    unfolding rows_ok_def by (elim conjE disjE exE) simp_all
  show ?case unfolding rows_ok_def using t s m by blast
qed

lemma settlements_by_trade:
  assumes "rows_ok r"
  shows "map_of (rev (map (\<lambda>s. (pst_trade_id s, s)) (settlements r))) = map_of (repo_settlements r)"
proof -
  let ?t = "repo_settlements r" and ?l = "map (\<lambda>s. (pst_trade_id s, s)) (settlements r)"
  have keyed: "\<forall>(k, s)\<in>set ?t. pst_trade_id s = k" and dist: "distinct (map fst ?t)"
    using assms by (auto simp: rows_ok_def distinct_keys_def)
  have "map pst_trade_id (map snd ?t) = map fst ?t" using keyed by auto
  moreover have "mset (map fst ?l) = mset (map pst_trade_id (map snd ?t))"
    by (simp add: settlements_def comp_def multiset.map_comp)
  ultimately have "distinct (map fst ?l)" using dist by (metis mset_eq_imp_distinct_iff)
  then have dist': "distinct (map fst (rev ?l))" by (simp flip: rev_map)
  have "set (rev ?l) = set ?t" using keyed by (force simp: settlements_def)
  then show ?thesis using map_of_inject_set [OF dist' dist] by simp
qed

section \<open>The two computations of the open exposure\<close>

definition read_trade :: "paper_repo \<Rightarrow> paper_trade \<Rightarrow> paper_trade" where
  "read_trade r t = (case map_of (repo_settlements r) (ptr_id t) of
       None \<Rightarrow> t
     | Some s \<Rightarrow> t\<lparr>ptr_status := ''SETTLED'', ptr_payload := overlay_payload s (ptr_payload t)\<rparr>)"

definition read_rows :: "paper_repo \<Rightarrow> paper_trade list" where
  "read_rows r = take (nat reader_limit) (newest_first (repo_trades r))"

lemma read_rows_checked: "rows_ok r \<Longrightarrow> t \<in> set (read_rows r) \<Longrightarrow> passes (trade_checks t)"
  by (fastforce simp: rows_ok_def read_rows_def newest_first_def dest: in_set_takeD)

lemma trade_texts:
  "passes (trade_checks t) \<Longrightarrow> require_text n (ptr_id t) = None \<and> require_text m (ptr_condition_id t) = None"
  by (simp add: trade_checks_def)

lemma raw_trades_read: "raw_trade_snapshots r reader_limit = Inr (read_rows r)"
  by (simp add: raw_trade_snapshots_def reader_limit_def read_rows_def)

lemma trades_read:
  assumes "rows_ok r"
  shows "trades r (all_trades\<lparr>tq_limit := reader_limit\<rparr>) = Inr (map (read_trade r) (read_rows r))"
proof -
  have "filter (trade_matches (all_trades\<lparr>tq_limit := reader_limit\<rparr>)) ts = ts" for ts
    by (simp add: trade_matches_def all_trades_def agrees_def filter_id_conv)
  moreover have "mapr (overlay_trade r) (read_rows r) = Inr (map (read_trade r) (read_rows r))"
  proof (rule mapr_total)
    fix t assume "t \<in> set (read_rows r)"
    then have "require_text ''trade_id'' (ptr_id t) = None"
      using read_rows_checked [OF assms] trade_texts by blast
    then show "overlay_trade r t = Inr (read_trade r t)"
      by (simp add: overlay_trade_def settlement_for_trade_def read_trade_def split: option.split
        del: require_text_None)
  qed
  ultimately show ?thesis
    by (simp add: trades_def optional_text_check_def all_trades_def reader_limit_def read_rows_def)
qed

definition still_open :: "paper_repo \<Rightarrow> paper_trade \<Rightarrow> bool" where
  "still_open r t \<longleftrightarrow> map_of (repo_settlements r) (ptr_id t) = None \<and> ptr_status t = ''OPEN''"

lemma open_trades_read: "with_status ''OPEN'' (map (read_trade r) ts) = filter (still_open r) ts"
  by (induction ts) (auto simp: with_status_def read_trade_def still_open_def split: option.splits)

definition overlay_for :: "paper_repo \<Rightarrow> paper_trade \<Rightarrow> identity_overlay option" where
  "overlay_for r t = map_of (repo_overlays r) (ptr_condition_id t)"

lemma with_overlays_read:
  assumes "\<forall>t\<in>set ts. passes (trade_checks t)"
  shows "with_overlays r ts = Inr (map (\<lambda>t. (t, overlay_for r t)) ts)"
  unfolding with_overlays_def
proof (rule mapr_total)
  fix t assume "t \<in> set ts"
  then have "require_text ''condition_id'' (ptr_condition_id t) = None" using assms trade_texts by blast
  then show "bindr (identity_overlay_of r (ptr_condition_id t)) (\<lambda>v. Inr (t, v)) = Inr (t, overlay_for r t)"
    by (simp add: identity_overlay_of_def overlay_for_def del: require_text_None)
qed

lemma initial_equity_nonneg: "rows_ok r \<Longrightarrow> 0 \<le> paper_initial_equity r"
proof -
  assume ok: "rows_ok r"
  have "0 \<le> prm_initial_equity m" if "run_metadata r = Some m" for m
  proof -
    from that have "m \<in> snd ` set (repo_runs r)"
      using max_by_in by (fastforce simp: run_metadata_def split: list.splits simp flip: set_map)
    with ok show ?thesis by (auto simp: rows_ok_def)
  qed
  then show ?thesis by (simp add: paper_initial_equity_def PAPER_INITIAL_EQUITY_USDC_def split: option.split)
qed

lemma summary_read:
  assumes ok: "rows_ok r"
  shows "paper_summary r None now = Inr (summarise (paper_initial_equity r)
      (map (read_trade r) (read_rows r))
      (map (\<lambda>t. (t, overlay_for r t)) (filter (still_open r) (read_rows r))) now)"
proof -
  have "\<forall>t\<in>set (filter (still_open r) (read_rows r)). passes (trade_checks t)"
    using read_rows_checked [OF ok] by simp
  then show ?thesis
    using initial_equity_nonneg [OF ok] with_overlays_read
    by (simp add: paper_summary_def trades_read [OF ok] open_trades_read Let_def)
qed

definition row_for :: "paper_repo \<Rightarrow> utc \<Rightarrow> paper_trade \<Rightarrow> reconciliation_row" where
  "row_for r now t = reconciliation_row_of t (map_of (repo_settlements r) (ptr_id t)) (overlay_for r t)
     (map_of (repo_attempts r) (ptr_condition_id t)) now"

lemma rows_read:
  assumes ok: "rows_ok r"
  shows "reconciliation_rows r now = Inr (map (row_for r now) (read_rows r))"
proof -
  have "bindr (identity_overlay_of r (ptr_condition_id t)) (\<lambda>v.
          bindr (settlement_attempt_of r (ptr_condition_id t)) (\<lambda>a.
            Inr (reconciliation_row_of t (map_of (repo_settlements r) (ptr_id t)) v a now)))
      = Inr (row_for r now t)" if "t \<in> set (read_rows r)" for t
  proof -
    have "require_text ''condition_id'' (ptr_condition_id t) = None"
      using read_rows_checked [OF ok that] trade_texts by blast
    then show ?thesis
      by (simp add: identity_overlay_of_def settlement_attempt_of_def row_for_def overlay_for_def
        del: require_text_None)
  qed
  then show ?thesis
    unfolding reconciliation_rows_def raw_trades_read bindr_simps Let_def settlements_by_trade [OF ok]
    by (rule mapr_total)
qed

text \<open>An open row is an unsettled open trade, with the same basis and the state of its window.\<close>

lemma open_rows: "filter (\<lambda>x. rrow_overlay_status x = ''OPEN'') (map (row_for r now) ts)
    = map (row_for r now) (filter (still_open r) ts)"
  by (induction ts) (auto simp: row_for_def reconciliation_row_of_def still_open_def Let_def)

lemma open_row_fields:
  "still_open r t \<Longrightarrow> rrow_cost_basis (row_for r now t) = capital_basis t
    \<and> rrow_strategy (row_for r now t) = ptr_strategy t
    \<and> rrow_window_state (row_for r now t) = window_state ''OPEN'' (effective_window_end t (overlay_for r t)) now"
  by (simp add: row_for_def reconciliation_row_of_def still_open_def Let_def)

lemma row_cost_sum_open:
  "row_cost_sum (filter P (map (row_for r now) (filter (still_open r) ts)))
     = basis_sum (filter (\<lambda>t. P (row_for r now t)) (filter (still_open r) ts))"
proof -
  have "map rrow_cost_basis (filter P (map (row_for r now) (filter (still_open r) ts)))
      = map capital_basis (filter (\<lambda>t. P (row_for r now t)) (filter (still_open r) ts))"
    by (induction ts) (auto simp: open_row_fields)
  then show ?thesis by (simp add: row_cost_sum_def basis_sum_def)
qed

lemma window_cost_read: "window_cost state (map (\<lambda>t. (t, overlay_for r t)) (filter (still_open r) ts)) now
    = row_cost_sum (filter (\<lambda>x. rrow_window_state x = state) (map (row_for r now) (filter (still_open r) ts)))"
proof -
  have "map fst (filter (\<lambda>(t, v). window_state ''OPEN'' (effective_window_end t v) now = state)
        (map (\<lambda>t. (t, overlay_for r t)) (filter (still_open r) ts)))
      = filter (\<lambda>t. rrow_window_state (row_for r now t) = state) (filter (still_open r) ts)"
    by (induction ts) (auto simp: open_row_fields)
  then show ?thesis by (simp add: window_cost_def row_cost_sum_open)
qed

lemma difference_zero: "dsub x x = 0"
  by (simp add: dsub_def)

lemma three_windows: "length (filter (\<lambda>x. rrow_window_state x = ''ACTIVE'') xs)
    + length (filter (\<lambda>x. rrow_window_state x = ''EXPIRED_UNSETTLED'') xs)
    + length (filter (\<lambda>x. rrow_window_state x = ''UNKNOWN_WINDOW'') xs) = length xs"
  if "\<forall>x\<in>set xs. rrow_window_state x \<in> {''ACTIVE'', ''EXPIRED_UNSETTLED'', ''UNKNOWN_WINDOW''}"
  using that by (induction xs) auto

text \<open>
  C16: The exposure reconciliation and the account summary agree. In every state that a sequence of
  writes can reach from a fresh database both return; the open exposure recomputed from the raw
  snapshots, the settlement rows and the windows has the same count and, to the last digit of the
  decimal context, the same cost basis as the summary that reads the overlaid trades, likewise for
  the expired and the unknown windows, so the status is always \<open>RECONCILIATION_OK\<close>; and every open
  trade is in exactly one window state.
\<close>

theorem exposure_reconciliation_agrees:
  assumes "repo_history empty_repo r"
  shows "\<exists>rep acc. exposure_reconciliation r now = Inr rep \<and> paper_summary r None now = Inr acc
    \<and> er_status rep = ''RECONCILIATION_OK'' \<and> er_count_difference rep = 0 \<and> er_cost_difference rep = 0
    \<and> er_open_count rep = sum_open_trades acc \<and> er_open_cost rep = sum_open_cost_basis acc
    \<and> er_expired_cost rep = sum_known_expired_cost acc \<and> er_unknown_cost rep = sum_unknown_window_cost acc
    \<and> er_directional_cost rep = sum_directional_open_cost acc
    \<and> er_structural_cost rep = sum_structural_open_cost acc
    \<and> (let opened = filter (\<lambda>x. rrow_overlay_status x = ''OPEN'') (er_rows rep);
           count_in = (\<lambda>state. length (filter (\<lambda>x. rrow_window_state x = state) opened))
       in count_in ''ACTIVE'' + count_in ''EXPIRED_UNSETTLED'' + count_in ''UNKNOWN_WINDOW'' = er_open_count rep)"
proof -
  have ok: "rows_ok r" using assms by (rule rows_ok_history)
  let ?open = "filter (still_open r) (read_rows r)"
  let ?opened = "map (row_for r now) ?open"
  have fields: "\<forall>t\<in>set ?open. rrow_strategy (row_for r now t) = ptr_strategy t"
    using open_row_fields by auto
  have strategy: "row_cost_sum (filter (\<lambda>x. rrow_strategy x = k) ?opened)
      = basis_sum (of_strategy k ?open)" for k
  proof -
    have "filter (\<lambda>t. rrow_strategy (row_for r now t) = k) ?open = of_strategy k ?open"
      unfolding of_strategy_def using fields by (intro filter_cong) auto
    then show ?thesis by (simp only: row_cost_sum_open)
  qed
  have cost: "row_cost_sum ?opened = basis_sum ?open"
    using row_cost_sum_open [of "\<lambda>_. True" r now "read_rows r"] by simp
  have states: "\<forall>x\<in>set ?opened. rrow_window_state x \<in> {''ACTIVE'', ''EXPIRED_UNSETTLED'', ''UNKNOWN_WINDOW''}"
    by (auto simp: open_row_fields window_state_def split: option.split)
  show ?thesis
    unfolding exposure_reconciliation_def rows_read [OF ok] summary_read [OF ok] bindr_simps Let_def open_rows
    using three_windows [OF states]
    by (simp add: summarise_def Let_def open_trades_read open_rows cost strategy difference_zero window_cost_read
      del: filter_filter)
qed

section \<open>The drawdown is the worst drop of the equity curve\<close>

text \<open>The equity after every prefix of the settled profits, starting from zero.\<close>

fun equity_curve :: "dec \<Rightarrow> dec list \<Rightarrow> dec list" where
  "equity_curve e [] = [e]"
| "equity_curve e (x # xs) = e # equity_curve (e + x) xs"

definition drops :: "dec list \<Rightarrow> dec set" where
  "drops es = {es ! i - es ! j | i j. i \<le> j \<and> j < length es}"

lemma drops_finite: "finite (drops es)"
proof -
  have "drops es \<subseteq> (\<lambda>(i, j). es ! i - es ! j) ` ({..<length es} \<times> {..<length es})"
    by (force simp: drops_def)
  then show ?thesis by (rule finite_subset) simp
qed

lemma drops_snoc: "drops (es @ [y]) = drops es \<union> (\<lambda>z. z - y) ` set (es @ [y])"
proof
  show "drops (es @ [y]) \<subseteq> drops es \<union> (\<lambda>z. z - y) ` set (es @ [y])"
  proof
    fix d assume "d \<in> drops (es @ [y])"
    then obtain i j where ij: "i \<le> j" "j < Suc (length es)" "d = (es @ [y]) ! i - (es @ [y]) ! j"
      by (auto simp: drops_def)
    show "d \<in> drops es \<union> (\<lambda>z. z - y) ` set (es @ [y])"
    proof (cases "j < length es")
      case True
      with ij show ?thesis by (auto simp: drops_def nth_append)
    next
      case False
      with ij have "j = length es" by simp
      then have "d = (es @ [y]) ! i - y" "(es @ [y]) ! i \<in> set (es @ [y])"
        using ij by (auto simp: nth_append)
      then show ?thesis by blast
    qed
  qed
  show "drops es \<union> (\<lambda>z. z - y) ` set (es @ [y]) \<subseteq> drops (es @ [y])"
  proof
    fix d assume "d \<in> drops es \<union> (\<lambda>z. z - y) ` set (es @ [y])"
    then consider i j where "i \<le> j" "j < length es" "d = es ! i - es ! j"
      | z where "z \<in> set (es @ [y])" "d = z - y"
      unfolding drops_def by blast
    then show "d \<in> drops (es @ [y])"
    proof cases
      case 1
      then show ?thesis
        unfolding drops_def by (intro CollectI exI [of _ i] exI [of _ j]) (simp add: nth_append)
    next
      case 2
      then obtain i where "i < Suc (length es)" "(es @ [y]) ! i = z"
        by (metis in_set_conv_nth length_append_singleton)
      with 2 show ?thesis
        unfolding drops_def by (intro CollectI exI [of _ i] exI [of _ "length es"]) simp
    qed
  qed
qed

lemma Max_drops_snoc:
  assumes "es \<noteq> []"
  shows "Max (drops (es @ [y])) = max (Max (drops es)) (max (Max (set es)) y - y)"
proof -
  have "drops es \<noteq> {}" using assms by (auto simp: drops_def)
  moreover have "Max ((\<lambda>z. z - y) ` set (es @ [y])) = Max (set (es @ [y])) - y"
    by (rule mono_Max_commute [symmetric]) (auto simp: mono_def)
  moreover have "Max (set (es @ [y])) = max (Max (set es)) y"
    using assms by (simp add: max.commute)
  ultimately show ?thesis
    unfolding drops_snoc using drops_finite by (subst Max_Un) auto
qed

lemma equity_curve_Cons: "equity_curve e xs = e # tl (equity_curve e xs)"
  by (cases xs) auto

lemma drawdown_loop_spec:
  assumes "es \<noteq> []" "last es = e" "p = Max (set es)" "m = Max (drops es)"
    and "\<forall>x\<in>set xs. grid k x" "\<forall>y\<in>set es \<union> set (equity_curve e xs). grid k y \<and> grid_small k (2 * y)"
  shows "drawdown_loop (e, p, m) xs = Max (drops (es @ tl (equity_curve e xs)))"
  using assms
proof (induction xs arbitrary: es e p m)
  case Nil
  then show ?case by simp
next
  case (Cons x xs)
  let ?y = "e + x" and ?p = "max p (e + x)"
  have half: "grid_small k z" if "grid_small k (2 * z)" for z
    using that by (rule grid_small_le) simp
  have "?y \<in> set (equity_curve ?y xs)" by (subst equity_curve_Cons) simp
  then have y: "grid k ?y" "grid_small k (2 * ?y)"
    using Cons.prems(6) [rule_format, of ?y] by simp_all
  have "p \<in> set es" using Cons.prems(1,3) by simp
  then have p: "grid k p" "grid_small k (2 * p)" using Cons.prems(6) by auto
  have "grid k e" using Cons.prems(6) by (subst (asm) equity_curve_Cons) simp
  then have add: "dadd e x = ?y"
    using Cons.prems(5) y half by (intro dadd_grid [of k]) auto
  have "\<bar>?p - ?y\<bar> \<le> \<bar>2 * ?y\<bar> \<or> \<bar>?p - ?y\<bar> \<le> \<bar>2 * p\<bar>"
    by (cases "p \<le> ?y") (simp_all, linarith)
  then have "grid_small k (?p - ?y)" using y p grid_small_le by blast
  moreover have "grid k ?p" using y p by (simp add: max_def)
  ultimately have sub: "dsub ?p ?y = ?p - ?y" using y by (intro dsub_grid [of k]) auto
  have "drawdown_loop (?y, ?p, max m (?p - ?y)) xs = Max (drops ((es @ [?y]) @ tl (equity_curve ?y xs)))"
  proof (rule Cons.IH)
    show "?p = Max (set (es @ [?y]))" using Cons.prems(1,3) by (simp add: max.commute)
    show "max m (?p - ?y) = Max (drops (es @ [?y]))"
      using Max_drops_snoc [OF Cons.prems(1), of ?y] Cons.prems(3,4) by simp
    show "\<forall>z\<in>set (es @ [?y]) \<union> set (equity_curve ?y xs). grid k z \<and> grid_small k (2 * z)"
      using Cons.prems(6) y by auto
  qed (use Cons.prems in auto)
  moreover have "es @ tl (equity_curve e (x # xs)) = (es @ [?y]) @ tl (equity_curve ?y xs)"
    using equity_curve_Cons [of ?y xs] by simp
  ultimately show ?case by (simp only: drawdown_loop.simps Let_def add sub)
qed

text \<open>The profits of the settled trades in settlement order.\<close>

definition settled_profits :: "paper_trade list \<Rightarrow> dec list" where
  "settled_profits ts = map realized_pnl_of (sort_key settled_instant (with_status ''SETTLED'' ts))"

text \<open>
  The reported drawdown is the worst drop. For profits quoted on a decimal grid the one-pass
  loop returns the maximum, over all pairs of an earlier and a later point of the settled equity
  curve, of the earlier equity minus the later one; in particular it is never negative.
\<close>

theorem drawdown_is_worst_drop:
  assumes "\<forall>x\<in>set (settled_profits ts). grid k x"
    and "\<forall>e\<in>set (equity_curve 0 (settled_profits ts)). grid_small k (2 * e)"
  shows "maximum_drawdown ts = Max (drops (equity_curve 0 (settled_profits ts)))
    \<and> 0 \<le> maximum_drawdown ts"
proof -
  have grid: "\<forall>e\<in>set (equity_curve b xs). grid k e" if "grid k b" "\<forall>x\<in>set xs. grid k x" for b xs
    using that by (induction xs arbitrary: b) (auto intro: grid_add)
  have "drops [0] = {0}" by (auto simp: drops_def)
  then have "drawdown_loop (0, 0, 0) (settled_profits ts)
      = Max (drops ([0] @ tl (equity_curve 0 (settled_profits ts))))"
    using assms grid [of 0 "settled_profits ts"]
    by (intro drawdown_loop_spec [of _ _ _ _ _ k]) (auto simp: grid_small_def)
  then have eq: "maximum_drawdown ts = Max (drops (equity_curve 0 (settled_profits ts)))"
    using equity_curve_Cons [of 0 "settled_profits ts"]
    by (simp add: maximum_drawdown_def settled_profits_def with_status_def)
  have "0 \<in> drops (equity_curve 0 (settled_profits ts))"
    unfolding drops_def by (intro CollectI exI [of _ 0]) (subst equity_curve_Cons, simp)
  then show ?thesis using eq drops_finite by simp
qed

section \<open>The capital of the account adds up\<close>

lemma won_as_bounds: "won_as ''WIN'' ts + won_as ''LOSS'' ts + won_as ''VOID'' ts \<le> length ts"
  by (induction ts) (auto simp: won_as_def)

lemma raw_available_exact:
  assumes "grid k e" "grid k p" "grid k c" "grid k v" "grid_small k (\<bar>e\<bar> + \<bar>p\<bar> + \<bar>c\<bar> + \<bar>v\<bar>)"
  shows "raw_available_capital e p c v = e + p - c - v"
proof -
  have small: "grid_small k x" if "\<bar>x\<bar> \<le> \<bar>e\<bar> + \<bar>p\<bar> + \<bar>c\<bar> + \<bar>v\<bar>" for x
    using assms(5) by (rule grid_small_le) (use that in linarith)
  have "dadd e p = e + p" using assms by (intro dadd_grid [of k] small) auto
  moreover have "dsub (e + p) c = e + p - c"
    using assms by (intro dsub_grid [of k] small) (auto intro: grid_add)
  moreover have "dsub (e + p - c) v = e + p - c - v"
    using assms by (intro dsub_grid [of k] small) (auto intro: grid_add grid_diff)
  ultimately show ?thesis by (simp add: raw_available_capital_def)
qed

text \<open>
  The account summary is consistent. Whenever the summary returns, spendable capital is never
  negative, in total and per strategy, wins, losses and voids never exceed the settled trades and
  the win rate lies in the unit interval; and when equity, profit, open cost and reservations are
  quoted on a decimal grid, the available capital, the open cost and the reservations add up exactly
  to the initial equity plus the realized profit.
\<close>

theorem account_summary_is_consistent:
  assumes "paper_summary r equity now = Inr acc"
  shows "0 \<le> sum_spendable acc \<and> 0 \<le> sum_directional_spendable acc \<and> 0 \<le> sum_structural_spendable acc
    \<and> sum_spendable acc = max 0 (sum_raw_available acc)
    \<and> sum_wins acc + sum_losses acc + sum_voids acc \<le> sum_settled_trades acc
    \<and> 0 \<le> sum_win_rate acc \<and> sum_win_rate acc \<le> 1
    \<and> (grid k (sum_initial_equity acc) \<and> grid k (sum_realized_pnl acc) \<and> grid k (sum_open_cost_basis acc)
        \<and> grid k (sum_unfilled_reservations acc)
        \<and> grid_small k (\<bar>sum_initial_equity acc\<bar> + \<bar>sum_realized_pnl acc\<bar>
            + \<bar>sum_open_cost_basis acc\<bar> + \<bar>sum_unfilled_reservations acc\<bar>) \<longrightarrow>
       sum_raw_available acc + sum_open_cost_basis acc + sum_unfilled_reservations acc
         = sum_initial_equity acc + sum_realized_pnl acc
       \<and> sum_current_equity acc = sum_initial_equity acc + sum_realized_pnl acc)"
proof -
  obtain e ts tvs where acc: "acc = summarise e ts tvs now"
    using assms by (auto simp: paper_summary_def contract_simps Let_def bindr_Inr_iff)
  let ?s = "with_status ''SETTLED'' ts"
  have wins: "won_as ''WIN'' ?s \<le> length ?s" using won_as_bounds [of ?s] by simp
  have rate: "0 \<le> sum_win_rate acc \<and> sum_win_rate acc \<le> 1"
    using wins by (auto simp: acc summarise_def Let_def ddiv_def intro!: ctx_le)
  have current: "dadd x y = x + y"
    if "grid k x" "grid k y" "grid_small k (\<bar>x\<bar> + \<bar>y\<bar> + \<bar>c\<bar> + \<bar>v\<bar>)" for x y c v
    using that(1,2) by (intro dadd_grid [of k] grid_small_le [OF that(3)]) linarith+
  show ?thesis
    using rate won_as_bounds [of ?s] raw_available_exact [of k]
      current [of e "pnl_sum ts" "basis_sum (with_status ''OPEN'' ts)" "basis_sum (with_status ''ACKNOWLEDGED'' ts)"]
    by (simp add: acc summarise_def Let_def strategy_spendable_def)
qed

section \<open>The schedule of the settlement queue\<close>

lemma attempt_saved:
  assumes "save_settlement_condition_attempt r cid state attempted next reason error success p = (r1, Inr a)"
  shows "map_of (repo_attempts r1) cid = Some a" "require_text ''condition_id'' cid = None"
    "sat_state a = state" "sat_next_attempt_at a = next" "sat_payload a = p"
    "sat_count a = (case map_of (repo_attempts r) cid of None \<Rightarrow> 1 | Some b \<Rightarrow> sat_count b + 1)"
    "\<And>c. c \<noteq> cid \<Longrightarrow> map_of (repo_attempts r1) c = map_of (repo_attempts r) c"
  using assms
  by (auto simp: save_settlement_condition_attempt_def settlement_attempt_of_def first_error_None Let_def
      contract_simps bindr_Inr_iff map_of_row_upsert split: option.splits)

lemma attempt_due_mono: "attempt_due a t \<Longrightarrow> t \<le> t' \<Longrightarrow> attempt_due a t'"
  by (auto simp: attempt_due_def split: if_splits option.splits)

text \<open>
  C17: The settlement queue honours its schedule and starves nobody. After an attempt at a condition
  has been recorded, asking for the due conditions returns each at most once and only those asked
  for; the attempted condition is due exactly when it is neither settled nor blocked for good and its
  retry instant has come (or it was blocked by an older resolver); the attempt changes no other
  condition; one that was never attempted is due at once; and what is due stays due as time passes.
\<close>

theorem settlement_schedule_is_honoured:
  assumes "save_settlement_condition_attempt r cid state attempted next reason error success p = (r1, Inr a)"
    and cids: "\<forall>c\<in>set cids. require_text ''condition_id'' c = None" and later: "now \<le> now'"
  shows "\<exists>due before due'. due_settlement_conditions r1 cids now = Inr due
    \<and> due_settlement_conditions r cids now = Inr before
    \<and> due_settlement_conditions r1 cids now' = Inr due'
    \<and> distinct due \<and> set due \<subseteq> set due' \<and> set due' \<subseteq> set cids
    \<and> (cid \<in> set due \<longleftrightarrow> cid \<in> set cids \<and> state \<noteq> ''SETTLED'' \<and> state \<noteq> ''BLOCKED_PERMANENT''
        \<and> (state = ''BLOCKED_RETRYABLE'' \<and> settlement_resolver_version p \<noteq> Some ''POLYMARKET_SETTLEMENT_V2''
           \<or> (\<forall>t. next = Some t \<longrightarrow> t \<le> now)))
    \<and> (\<forall>c. c \<noteq> cid \<longrightarrow> (c \<in> set due \<longleftrightarrow> c \<in> set before))
    \<and> (\<forall>c\<in>set cids. map_of (repo_attempts r1) c = None \<longrightarrow> c \<in> set due)"
proof -
  note saved = attempt_saved [OF assms(1)]
  define D where "D q t = filter (\<lambda>c. case map_of (repo_attempts q) c of
      None \<Rightarrow> True | Some a \<Rightarrow> attempt_due a t) (fromkeys cids)" for q :: paper_repo and t
  have due: "due_settlement_conditions q cids t = Inr (D q t)" for q t
    using cids by (simp add: due_settlement_conditions_def D_def del: require_text_None)
  have member: "c \<in> set (D q t) \<longleftrightarrow> c \<in> set cids \<and> (case map_of (repo_attempts q) c of
      None \<Rightarrow> True | Some a \<Rightarrow> attempt_due a t)" for c q t
    by (auto simp: D_def)
  have own: "cid \<in> set (D r1 now) \<longleftrightarrow> cid \<in> set cids \<and> state \<noteq> ''SETTLED'' \<and> state \<noteq> ''BLOCKED_PERMANENT''
      \<and> (state = ''BLOCKED_RETRYABLE'' \<and> settlement_resolver_version p \<noteq> Some ''POLYMARKET_SETTLEMENT_V2''
         \<or> (\<forall>t. next = Some t \<longrightarrow> t \<le> now))"
    unfolding member saved(1) option.case attempt_due_def saved(3,4,5) by (cases "next") auto
  have subset: "set (D r1 now) \<subseteq> set (D r1 now')"
    using attempt_due_mono [OF _ later] by (auto simp: member split: option.splits)
  show ?thesis
    unfolding due
  proof (intro exI conjI allI impI ballI)
    show "distinct (D r1 now)" by (simp add: D_def)
    show "set (D r1 now') \<subseteq> set cids" by (auto simp: member)
    show "c \<in> set (D r1 now) \<longleftrightarrow> c \<in> set (D r now)" if "c \<noteq> cid" for c
      by (simp add: member saved(7) [OF that])
    show "c \<in> set (D r1 now)" if "c \<in> set cids" "map_of (repo_attempts r1) c = None" for c
      using that by (simp add: member)
  qed (use own subset in blast)+
qed

text \<open>
  The count of due conditions in the queue summary does not know the rule about older resolvers: it
  reports nothing due while the reader above returns the condition.
\<close>

lemma queue_summary_undercounts:
  "let r = fst (save_settlement_condition_attempt empty_repo ''c1'' ''BLOCKED_RETRYABLE'' 10 (Some 100)
        ''R'' None None []) in
     due_settlement_conditions r [''c1''] 20 = Inr [''c1''] \<and> sq_due (settlement_queue_summary r [''c1''] 20) = 0"
  by (simp add: save_settlement_condition_attempt_def require_text_def py_strip_def py_space_def
    settlement_attempt_of_def row_upsert_def empty_repo_def due_settlement_conditions_def attempt_due_def
    settlement_resolver_version_def settlement_queue_summary_def Let_def)

section \<open>Sample inputs\<close>

definition blank_payload :: trade_payload where
  "blank_payload = \<lparr>tp_window_start = None, tp_window_end = Some 90, tp_cost_basis = Some 4, tp_stake = None,
     tp_fee = None, tp_net_edge = None, tp_pnl = None, tp_win_loss = None, tp_settled_at = None,
     tp_run_id = None, tp_winning_side = None, tp_source_kind = None, tp_source = None,
     tp_resolved_at = None, tp_observed_at = None, tp_filled_shares = None, tp_payout = None,
     tp_evidence_hash = None, tp_position_status = None, tp_other = []\<rparr>"

definition sample_trade :: "string \<Rightarrow> utc \<Rightarrow> trade_payload \<Rightarrow> paper_trade" where
  "sample_trade status t p = \<lparr>ptr_id = ''t2'', ptr_decision_id = ''d2'', ptr_strategy = ''DIRECTIONAL_EDGE'',
     ptr_asset = ''BTC'', ptr_horizon = ''5m'', ptr_condition_id = ''c2'', ptr_side = ''UP'',
     ptr_status = status, ptr_label = trade_label, ptr_payload = p, ptr_observed_at = t\<rparr>"

lemma exposure_reconciliation_agrees_witness:
  "\<exists>r rep. repo_trades r \<noteq> [] \<and> exposure_reconciliation r 50 = Inr rep
     \<and> er_status rep = ''RECONCILIATION_OK''"
proof -
  let ?r = "fst (save_trade_snapshot empty_repo (sample_trade ''OPEN'' 40 blank_payload))"
  have "repo_history empty_repo ?r" using trade_step by blast
  moreover have "repo_trades ?r \<noteq> []"
    by (simp add: save_trade_snapshot_def sample_trade_def trade_checks_def require_text_def py_strip_def
      py_space_def empty_repo_def row_insert_def Let_def)
  ultimately show ?thesis using exposure_reconciliation_agrees [of ?r 50] by blast
qed

definition profit_trade :: "utc \<Rightarrow> dec \<Rightarrow> paper_trade" where
  "profit_trade t x = sample_trade ''SETTLED'' t (blank_payload\<lparr>tp_pnl := Some x\<rparr>)"

lemma drawdown_is_worst_drop_witness:
  "5 \<le> maximum_drawdown [profit_trade 1 3, profit_trade 3 2, profit_trade 2 (- 5)]"
proof -
  let ?ts = "[profit_trade 1 3, profit_trade 3 2, profit_trade 2 (- 5)]"
  have profits: "settled_profits ?ts = [3, - 5, 2]"
    by (simp add: settled_profits_def with_status_def profit_trade_def sample_trade_def blank_payload_def
      settled_instant_def realized_pnl_of_def)
  have "5 \<in> drops (equity_curve 0 [3, - 5, 2])"
    unfolding drops_def by (intro CollectI exI [of _ 1] exI [of _ 2]) simp
  then have "5 \<le> Max (drops (equity_curve 0 [3, - 5, 2]))" using drops_finite by simp
  moreover have "grid 0 3" "grid 0 (- 5)" "grid 0 2"
    by (rule gridI [of _ 3], simp, rule gridI [of _ "- 5"], simp, rule gridI [of _ 2], simp)
  then have "\<forall>x\<in>set (settled_profits ?ts). grid 0 x" unfolding profits by simp
  ultimately show ?thesis
    using drawdown_is_worst_drop [of ?ts 0] unfolding profits by (simp add: grid_small_def)
qed

lemma account_summary_is_consistent_witness:
  "\<exists>acc. paper_summary empty_repo None 5 = Inr acc \<and> sum_raw_available acc = 40 \<and> 0 \<le> sum_spendable acc"
proof -
  let ?acc = "summarise 40 [] [] 5"
  have run: "paper_summary empty_repo None 5 = Inr ?acc"
    using summary_read [OF rows_ok_history [OF rtranclp.rtrancl_refl], of 5]
    by (simp add: paper_initial_equity_def run_metadata_def PAPER_INITIAL_EQUITY_USDC_def read_rows_def
      newest_first_def) (simp add: empty_repo_def PAPER_INITIAL_EQUITY_USDC_def)
  have "sum_initial_equity ?acc = 40" "sum_realized_pnl ?acc = 0" "sum_open_cost_basis ?acc = 0"
    "sum_unfilled_reservations ?acc = 0"
    by (simp_all add: summarise_def Let_def pnl_sum_def basis_sum_def with_status_def)
  then show ?thesis
    using run account_summary_is_consistent [OF run, of 0] by (auto simp: grid_def grid_small_def)
qed

lemma settlement_schedule_is_honoured_witness:
  "\<exists>r a due. save_settlement_condition_attempt empty_repo ''c1'' ''PENDING'' 10 (Some 100) ''R'' None None [] = (r, Inr a)
     \<and> due_settlement_conditions r [''c1'', ''c2'', ''c1''] 20 = Inr due \<and> ''c1'' \<notin> set due \<and> ''c2'' \<in> set due"
proof -
  obtain r a where run: "save_settlement_condition_attempt empty_repo ''c1'' ''PENDING'' 10 (Some 100) ''R''
      None None [] = (r, Inr a)"
    by (simp add: save_settlement_condition_attempt_def require_text_def py_strip_def py_space_def
      settlement_attempt_of_def row_upsert_def empty_repo_def Let_def)
  have "map_of (repo_attempts r) ''c2'' = None"
    using attempt_saved(7) [OF run, of "''c2''"] by (simp add: empty_repo_def)
  moreover have "\<forall>c\<in>set [''c1'', ''c2'', ''c1'']. require_text ''condition_id'' c = None"
    by (simp add: py_space_def)
  ultimately show ?thesis
    using settlement_schedule_is_honoured [OF run, of "[''c1'', ''c2'', ''c1'']" 20 20] run by auto
qed

end
