(* ===== verification/Evaluation.thy ===== *)
theory Evaluation
  imports Gates Canonical Paper_Ledger
begin

text \<open>
  \<open>evaluation/metrics.py\<close> and \<open>evaluation/walk_forward.py\<close>: the probability and economic metrics of a bucket,
  the chronological folds by cluster, and the promotion rules. \<open>Decimal.ln\<close> is the parameter \<open>dln\<close>;
  only the log loss depends on it. The lemmas bound the metrics, show that a fold never trains on what
  it tests, and make the promotion rules an instance of the fail-closed gate.
\<close>

section \<open>Metrics\<close>

record observation =
  ob_asset :: asset
  ob_horizon :: horizon
  ob_market_id :: string
  ob_cluster_id :: string
  ob_at :: utc
  ob_p_up :: dec
  ob_outcome_up :: bool
  ob_executed :: bool
  ob_pnl :: "dec option"

definition observation_checks :: "observation \<Rightarrow> check list" where
  "observation_checks x =
     [require_text ''market_id'' (ob_market_id x), require_text ''cluster_id'' (ob_cluster_id x),
      in_unit ''p_up'' (ob_p_up x),
      fail_if (ob_executed x \<noteq> (ob_pnl x \<noteq> None))
        (ValueErr ''executed observations require PnL and abstentions must omit it'')]"

definition valid_observation :: "observation \<Rightarrow> bool" where
  "valid_observation x \<longleftrightarrow> passes (observation_checks x)"

definition ob_bucket :: "observation \<Rightarrow> market_bucket" where
  "ob_bucket x = \<lparr>bkt_asset = ob_asset x, bkt_horizon = ob_horizon x\<rparr>"

record metrics =
  mx_count :: nat
  mx_brier :: dec
  mx_log_loss :: dec
  mx_ece :: dec
  mx_accuracy :: dec
  mx_coverage :: dec
  mx_expectancy :: "dec option"
  mx_drawdown :: dec

definition dec_of_bool :: "bool \<Rightarrow> dec" where
  "dec_of_bool b = (if b then 1 else 0)"

definition log_epsilon :: dec where "log_epsilon = 1 / 1000000000000"

definition brier_term :: "observation \<Rightarrow> dec" where
  "brier_term x = ctx (dsub (ob_p_up x) (dec_of_bool (ob_outcome_up x)) ^ 2)"

definition log_loss_term :: "(dec \<Rightarrow> dec) \<Rightarrow> observation \<Rightarrow> dec" where
  "log_loss_term dln x =
     (let outcome = dec_of_bool (ob_outcome_up x);
          p = min (dsub 1 log_epsilon) (max log_epsilon (ob_p_up x)) in
      dneg (dadd (dmul outcome (dln p)) (dmul (dsub 1 outcome) (dln (dsub 1 p)))))"

definition correct_call :: "observation \<Rightarrow> bool" where
  "correct_call x \<longleftrightarrow> (1 / 2 \<le> ob_p_up x) = ob_outcome_up x"

definition ece_members :: "observation list \<Rightarrow> nat \<Rightarrow> observation list" where
  "ece_members obs i = (let lo = ddiv (of_nat i) 10; hi = ddiv (of_nat (i + 1)) 10 in
     filter (\<lambda>x. lo \<le> ob_p_up x \<and> ob_p_up x < hi \<or> i = 9 \<and> ob_p_up x = 1) obs)"

definition ece_bin :: "observation list \<Rightarrow> dec \<Rightarrow> nat \<Rightarrow> dec" where
  "ece_bin obs acc i = (let members = ece_members obs i; n = of_nat (length members) in
     if members = [] then acc
     else let confidence = ddiv (dsum (map ob_p_up members)) n;
              observed = ddiv (of_nat (length (filter ob_outcome_up members))) n in
       dadd acc (dmul (ddiv n (of_nat (length obs))) (dabs (dsub confidence observed))))"

definition ece :: "observation list \<Rightarrow> dec" where
  "ece obs = foldl (ece_bin obs) 0 [0..<10]"

definition evaluate :: "(dec \<Rightarrow> dec) \<Rightarrow> observation list \<Rightarrow> metrics result" where
  "evaluate dln obs =
     (let count = of_nat (length obs); executed = List.map_filter ob_pnl obs in
      checked
        [fail_if (obs = []) (ValueErr ''evaluation requires observations''),
         fail_if (card (set (map ob_bucket obs)) \<noteq> 1)
           (ValueErr ''evaluation cannot pool different asset/horizon buckets'')]
        (Inr \<lparr>mx_count = length obs, mx_brier = ddiv (dsum (map brier_term obs)) count,
           mx_log_loss = ddiv (dsum (map (log_loss_term dln) obs)) count, mx_ece = ece obs,
           mx_accuracy = ddiv (of_nat (length (filter correct_call obs))) count,
           mx_coverage = ddiv (of_nat (length executed)) count,
           mx_expectancy = (if executed = [] then None
             else Some (ddiv (dsum executed) (of_nat (length executed)))),
           mx_drawdown = drawdown_loop (0, 0, 0) executed\<rparr>))"

section \<open>Walk-forward folds\<close>

record walk_fold =
  fold_train :: "observation list"
  fold_test :: "observation list"

text \<open>\<open>grouped.setdefault(item.cluster_id, []).append(item)\<close> on the insertion-ordered dict.\<close>

fun group_add :: "(string \<times> observation list) list \<Rightarrow> observation \<Rightarrow> (string \<times> observation list) list" where
  "group_add [] x = [(ob_cluster_id x, [x])]"
| "group_add ((c, xs) # gs) x =
     (if c = ob_cluster_id x then (c, xs @ [x]) # gs else (c, xs) # group_add gs x)"

definition grouped :: "observation list \<Rightarrow> (string \<times> observation list) list" where
  "grouped obs = foldl group_add [] obs"

definition first_at :: "observation list \<Rightarrow> utc" where
  "first_at xs = Min (ob_at ` set xs)"

definition last_at :: "observation list \<Rightarrow> utc" where
  "last_at xs = Max (ob_at ` set xs)"

definition clusters :: "observation list \<Rightarrow> observation list list" where
  "clusters obs = sort_key first_at (map snd (grouped obs))"

function py_range :: "nat \<Rightarrow> nat \<Rightarrow> nat \<Rightarrow> nat list" where
  "py_range start stop step = (if step = 0 \<or> stop \<le> start then [] else start # py_range (start + step) stop step)"
  by auto
termination by (relation "measure (\<lambda>(start, stop, step). stop - start)") auto

declare py_range.simps [simp del]

definition test_groups :: "observation list list \<Rightarrow> nat \<Rightarrow> nat \<Rightarrow> observation list list" where
  "test_groups cs start n = take n (drop start cs)"

definition train_groups :: "observation list list \<Rightarrow> nat \<Rightarrow> nat \<Rightarrow> timedelta \<Rightarrow> observation list list" where
  "train_groups cs start n embargo =
     filter (\<lambda>g. last_at g < first_at (concat (test_groups cs start n)) - embargo) (take start cs)"

definition fold_at :: "observation list list \<Rightarrow> nat \<Rightarrow> timedelta \<Rightarrow> nat \<Rightarrow> walk_fold" where
  "fold_at cs n embargo start =
     \<lparr>fold_train = sort_key ob_at (concat (train_groups cs start n embargo)),
      fold_test = sort_key ob_at (concat (test_groups cs start n))\<rparr>"

definition walk_forward_folds :: "observation list \<Rightarrow> int \<Rightarrow> int \<Rightarrow> timedelta \<Rightarrow> walk_fold list result" where
  "walk_forward_folds obs minimum_train n embargo =
     checked
       [fail_if (minimum_train < 1 \<or> n < 1) (ValueErr ''cluster counts must be positive''),
        fail_if (embargo < 0) (ValueErr ''embargo must be non-negative''),
        fail_if (1 < card (set (map ob_bucket obs)))
          (ValueErr ''walk-forward evaluation cannot pool asset/horizon buckets'')]
       (let cs = clusters obs in
        Inr (map (fold_at cs (nat n) embargo)
          (filter (\<lambda>start. minimum_train \<le> int (length (train_groups cs start (nat n) embargo)))
            (py_range (nat minimum_train) (length cs) (nat n)))))"

section \<open>Promotion\<close>

record promotion_policy =
  pp_minimum_count :: int
  pp_maximum_ece :: dec
  pp_minimum_coverage :: dec
  pp_maximum_drawdown :: dec

definition promotion_policy_checks :: "promotion_policy \<Rightarrow> check list" where
  "promotion_policy_checks p =
     [fail_if (pp_minimum_count p < 1) (ValueErr ''minimum_count must be positive''),
      in_unit ''maximum_ece'' (pp_maximum_ece p), in_unit ''minimum_coverage'' (pp_minimum_coverage p),
      non_negative ''maximum_drawdown'' (pp_maximum_drawdown p)]"

definition promotion_reasons :: "metrics \<Rightarrow> metrics \<Rightarrow> promotion_policy \<Rightarrow> string list" where
  "promotion_reasons c champion p = reasons_of
     [(int (mx_count c) < pp_minimum_count p, ''INSUFFICIENT_EVALUATION_SAMPLES''),
      (mx_brier champion \<le> mx_brier c, ''BRIER_NOT_IMPROVED''),
      (mx_log_loss champion \<le> mx_log_loss c, ''LOG_LOSS_NOT_IMPROVED''),
      (pp_maximum_ece p < mx_ece c, ''CALIBRATION_ERROR_TOO_HIGH''),
      (mx_coverage c < pp_minimum_coverage p, ''COVERAGE_TOO_LOW''),
      (case mx_expectancy c of None \<Rightarrow> True | Some e \<Rightarrow> e \<le> 0, ''EXPECTANCY_NOT_POSITIVE''),
      (pp_maximum_drawdown p < mx_drawdown c, ''DRAWDOWN_TOO_HIGH'')]"

text \<open>\<open>y\<close> is no better than \<open>x\<close> on any metric the rules read.\<close>

definition metrics_le :: "metrics \<Rightarrow> metrics \<Rightarrow> bool" where
  "metrics_le x y \<longleftrightarrow> mx_count y \<le> mx_count x \<and> mx_brier x \<le> mx_brier y \<and> mx_log_loss x \<le> mx_log_loss y
     \<and> mx_ece x \<le> mx_ece y \<and> mx_coverage y \<le> mx_coverage x \<and> mx_drawdown x \<le> mx_drawdown y
     \<and> (case mx_expectancy y of None \<Rightarrow> True
          | Some e \<Rightarrow> (case mx_expectancy x of None \<Rightarrow> e \<le> 0 | Some f \<Rightarrow> e \<le> f))"

lemma promotion_reasons_Nil:
  "promotion_reasons c champion p = [] \<longleftrightarrow>
     pp_minimum_count p \<le> int (mx_count c) \<and> mx_brier c < mx_brier champion \<and> mx_log_loss c < mx_log_loss champion
     \<and> mx_ece c \<le> pp_maximum_ece p \<and> pp_minimum_coverage p \<le> mx_coverage c
     \<and> (\<exists>e. mx_expectancy c = Some e \<and> 0 < e) \<and> mx_drawdown c \<le> pp_maximum_drawdown p"
  by (auto simp: promotion_reasons_def reasons_of_def not_le not_less split: option.splits)

interpretation promotion: fail_closed_gate "\<lambda>c. promotion_reasons c champion p" metrics_le for champion p
proof
  fix x y assume "metrics_le x y" "promotion_reasons x champion p \<noteq> []"
  then show "promotion_reasons y champion p \<noteq> []"
    unfolding promotion_reasons_Nil metrics_le_def by (auto split: option.splits)
qed

section \<open>Folds never leak\<close>

lemma group_add_keys: "set (map fst (group_add gs x)) = insert (ob_cluster_id x) (set (map fst gs))"
  by (induction gs x rule: group_add.induct) auto

lemma group_add_distinct: "distinct (map fst gs) \<Longrightarrow> distinct (map fst (group_add gs x))"
proof (induction gs x rule: group_add.induct)
  case (2 c xs gs x)
  then show ?case using group_add_keys [of gs x] by (auto simp del: set_map)
qed simp

lemma group_add_entry:
  assumes "distinct (map fst gs)"
  shows "(c, ys) \<in> set (group_add gs x) \<longleftrightarrow> (if c = ob_cluster_id x
      then (\<exists>xs. (c, xs) \<in> set gs \<and> ys = xs @ [x]) \<or> c \<notin> fst ` set gs \<and> ys = [x]
      else (c, ys) \<in> set gs)"
  using assms by (induction gs x rule: group_add.induct) (auto simp: rev_image_eqI split: if_splits)

lemma grouped_spec:
  "distinct (map fst (grouped obs)) \<and> (\<forall>c ys. (c, ys) \<in> set (grouped obs)
     \<longleftrightarrow> c \<in> ob_cluster_id ` set obs \<and> ys = filter (\<lambda>x. ob_cluster_id x = c) obs)"
proof (induction obs rule: rev_induct)
  case (snoc x obs)
  have "c \<in> fst ` set (grouped obs) \<longleftrightarrow> (\<exists>ys. (c, ys) \<in> set (grouped obs))" for c
    by (auto intro: rev_image_eqI)
  then have keys: "fst ` set (grouped obs) = ob_cluster_id ` set obs" using snoc.IH by (intro set_eqI) simp
  have g: "grouped (obs @ [x]) = group_add (grouped obs) x" by (simp add: grouped_def)
  have f: "c \<notin> ob_cluster_id ` set obs \<Longrightarrow> filter (\<lambda>x. ob_cluster_id x = c) obs = []" for c
    by (auto simp: filter_empty_conv)
  have "(c, ys) \<in> set (group_add (grouped obs) x)
      \<longleftrightarrow> c \<in> ob_cluster_id ` set (obs @ [x]) \<and> ys = filter (\<lambda>x. ob_cluster_id x = c) (obs @ [x])" for c ys
  proof (cases "c = ob_cluster_id x")
    case True
    show ?thesis
    proof (cases "c \<in> ob_cluster_id ` set obs")
      case old: True
      then have "(\<exists>xs. (c, xs) \<in> set (grouped obs) \<and> ys = xs @ [x]) \<longleftrightarrow> ys = filter (\<lambda>x. ob_cluster_id x = c) obs @ [x]"
        using snoc.IH by auto
      then show ?thesis using group_add_entry [of "grouped obs" c ys x] snoc.IH True old keys by simp
    next
      case False
      then have "\<nexists>xs. (c, xs) \<in> set (grouped obs)" using snoc.IH by auto
      then show ?thesis using group_add_entry [of "grouped obs" c ys x] snoc.IH True False keys f [of c] by simp
    qed
  next
    case False
    then show ?thesis using group_add_entry [of "grouped obs" c ys x] snoc.IH by auto
  qed
  then show ?case using snoc.IH by (simp add: g group_add_distinct)
qed (simp add: grouped_def)

definition cluster_of :: "observation list \<Rightarrow> string" where
  "cluster_of g = ob_cluster_id (hd g)"

lemma cluster_entry:
  assumes "g \<in> set (clusters obs)"
  shows "g \<noteq> []" "g = filter (\<lambda>x. ob_cluster_id x = cluster_of g) obs" "x \<in> set g \<Longrightarrow> ob_cluster_id x = cluster_of g"
proof -
  obtain c where c: "c \<in> ob_cluster_id ` set obs" "g = filter (\<lambda>x. ob_cluster_id x = c) obs"
    using assms grouped_spec [of obs] by (auto simp: clusters_def)
  then show ne: "g \<noteq> []" by (auto simp: filter_empty_conv)
  then have "cluster_of g = c" using hd_in_set [OF ne] by (simp add: cluster_of_def c(2))
  then show "g = filter (\<lambda>x. ob_cluster_id x = cluster_of g) obs" "x \<in> set g \<Longrightarrow> ob_cluster_id x = cluster_of g"
    using c(2) by auto
qed

lemma clusters_distinct: "distinct (map cluster_of (clusters obs))"
proof -
  have "map cluster_of (map snd (grouped obs)) = map fst (grouped obs)"
  proof (rule nth_equalityI)
    fix i assume "i < length (map cluster_of (map snd (grouped obs)))"
    then have i: "grouped obs ! i \<in> set (grouped obs)" by simp
    obtain c ys where e: "grouped obs ! i = (c, ys)" by fastforce
    then have c: "c \<in> ob_cluster_id ` set obs" "ys = filter (\<lambda>x. ob_cluster_id x = c) obs"
      using i grouped_spec [of obs] by auto
    then have "ys \<noteq> []" by (auto simp: filter_empty_conv)
    then have "cluster_of ys = c" using hd_in_set by (fastforce simp: cluster_of_def c(2))
    then show "map cluster_of (map snd (grouped obs)) ! i = map fst (grouped obs) ! i"
      using e \<open>i < _\<close> by simp
  qed simp
  then have "distinct (map cluster_of (map snd (grouped obs)))"
    using conjunct1 [OF grouped_spec [of obs]] by (simp only:)
  moreover have "mset (clusters obs) = mset (map snd (grouped obs))" by (simp add: clusters_def)
  then have "mset (map cluster_of (clusters obs)) = mset (map cluster_of (map snd (grouped obs)))"
    by (simp only: mset_map)
  ultimately show ?thesis by (metis mset_eq_imp_distinct_iff)
qed

lemma py_range_bounds: "x \<in> set (py_range start stop step) \<Longrightarrow> start \<le> x \<and> x < stop"
  by (induction start stop step rule: py_range.induct) (subst (asm) (2) py_range.simps, fastforce split: if_splits)

lemma py_range_gaps: "sorted_wrt (\<lambda>a b. a + step \<le> b) (py_range start stop step)"
proof (induction start stop step rule: py_range.induct)
  case (1 start stop step)
  then show ?case
    using py_range_bounds [of _ "start + step" stop step] by (subst py_range.simps) auto
qed

lemma first_at_le: "x \<in> set g \<Longrightarrow> first_at g \<le> ob_at x"
  by (simp add: first_at_def)

lemma last_at_ge: "x \<in> set g \<Longrightarrow> ob_at x \<le> last_at g"
  by (simp add: last_at_def)

lemma take_drop_disjoint:
  assumes "distinct (map f cs)" "i + n \<le> j"
  shows "f ` set (take n (drop i cs)) \<inter> f ` set (drop j cs) = {}"
proof -
  have "drop j cs = drop (j - (i + n)) (drop n (drop i cs))" using assms(2) by (simp add: add.commute)
  then have "set (drop j cs) \<subseteq> set (drop n (drop i cs))" using set_drop_subset by metis
  moreover have "f ` set (take n (drop i cs)) \<inter> f ` set (drop n (drop i cs)) = {}"
  proof -
    have "distinct (map f (drop i cs))" using assms(1) by (simp add: drop_map [symmetric] del: drop_map)
    then have "distinct (map f (take n (drop i cs) @ drop n (drop i cs)))" by (simp only: append_take_drop_id)
    then show ?thesis by simp
  qed
  ultimately show ?thesis by blast
qed

definition no_leakage :: "observation list \<Rightarrow> int \<Rightarrow> timedelta \<Rightarrow> walk_fold \<Rightarrow> bool" where
  "no_leakage obs minimum_train embargo f \<longleftrightarrow>
     (\<forall>a\<in>set (fold_train f). \<forall>b\<in>set (fold_test f). ob_at a < ob_at b - embargo \<and> ob_cluster_id a \<noteq> ob_cluster_id b)
     \<and> (\<forall>a\<in>set (fold_train f). \<forall>x\<in>set obs. ob_cluster_id x = ob_cluster_id a \<longrightarrow> x \<in> set (fold_train f))
     \<and> (\<forall>b\<in>set (fold_test f). \<forall>x\<in>set obs. ob_cluster_id x = ob_cluster_id b \<longrightarrow> x \<in> set (fold_test f))
     \<and> set (fold_train f) \<union> set (fold_test f) \<subseteq> set obs \<and> fold_test f \<noteq> []
     \<and> minimum_train \<le> int (card (ob_cluster_id ` set (fold_train f)))
     \<and> sorted (map ob_at (fold_train f)) \<and> sorted (map ob_at (fold_test f))"

lemma fold_at_sets:
  "set (fold_train (fold_at cs n e start)) = (\<Union>g\<in>set (train_groups cs start n e). set g)"
  "set (fold_test (fold_at cs n e start)) = (\<Union>g\<in>set (test_groups cs start n). set g)"
  by (simp_all add: fold_at_def)

lemma groups_subset: "set (train_groups cs start n e) \<subseteq> set cs" "set (test_groups cs start n) \<subseteq> set cs"
  "set (train_groups cs start n e) \<subseteq> set (take start cs)"
  by (auto simp: train_groups_def test_groups_def dest: in_set_takeD in_set_dropD)

lemma whole_clusters:
  assumes "gs \<subseteq> set (clusters obs)" "a \<in> (\<Union>g\<in>gs. set g)" "x \<in> set obs" "ob_cluster_id x = ob_cluster_id a"
  shows "x \<in> (\<Union>g\<in>gs. set g)"
proof -
  obtain g where g: "g \<in> gs" "a \<in> set g" using assms(2) by blast
  then have m: "g \<in> set (clusters obs)" using assms(1) by blast
  have "x \<in> set (filter (\<lambda>x. ob_cluster_id x = cluster_of g) obs)"
    using cluster_entry(3) [OF m g(2)] assms(3,4) by simp
  then show ?thesis using g(1) cluster_entry(2) [OF m] by auto
qed

lemma fold_no_leakage:
  assumes "start < length (clusters obs)" "0 < n"
    "minimum_train \<le> int (length (train_groups (clusters obs) start n e))"
  shows "no_leakage obs minimum_train e (fold_at (clusters obs) n e start)"
proof -
  let ?cs = "clusters obs" let ?train = "set (train_groups ?cs start n e)" let ?test = "set (test_groups ?cs start n)"
  note sub = groups_subset(1) [of ?cs start n e] groups_subset(2) [of ?cs start n] groups_subset(3) [of ?cs start n e]
  have time: "ob_at a < ob_at b - e" if "g \<in> ?train" "a \<in> set g" "b \<in> set (concat (test_groups ?cs start n))" for g a b
    using that last_at_ge [of a g] first_at_le [OF that(3)] by (auto simp: train_groups_def)
  have "cluster_of ` ?train \<inter> cluster_of ` ?test = {}"
    using take_drop_disjoint [OF clusters_distinct [of obs], of 0 start start] sub(3)
      image_mono [OF set_take_subset [of n "drop start ?cs"], of cluster_of]
    by (fastforce simp: test_groups_def)
  then have disj: "ob_cluster_id a \<noteq> ob_cluster_id b" if "g \<in> ?train" "a \<in> set g" "h \<in> ?test" "b \<in> set h" for g h a b
    using cluster_entry(3) [of g obs a] cluster_entry(3) [of h obs b] that sub by fastforce
  have "test_groups ?cs start n \<noteq> []" using assms(1,2) by (simp add: test_groups_def)
  then obtain h where h: "h \<in> ?test" by (meson list.set_sel(1))
  then have "set h \<noteq> {}" using cluster_entry(1) sub(2) by fastforce
  then have ne: "fold_test (fold_at ?cs n e start) \<noteq> []"
    using h fold_at_sets(2) [of ?cs n e start] by (metis UN_iff all_not_in_conv list.set(1))
  have "cluster_of ` ?train \<subseteq> ob_cluster_id ` set (fold_train (fold_at ?cs n e start))"
  proof
    fix c assume "c \<in> cluster_of ` ?train"
    then obtain g where g: "g \<in> ?train" "c = cluster_of g" by blast
    then have "hd g \<in> set g" using cluster_entry(1) sub(1) by (intro hd_in_set) blast
    then show "c \<in> ob_cluster_id ` set (fold_train (fold_at ?cs n e start))"
      using g unfolding fold_at_sets by (auto simp: cluster_of_def)
  qed
  moreover have "distinct (map cluster_of (take start ?cs))"
    using distinct_take [OF clusters_distinct [of obs], of start] by (simp only: take_map)
  then have "distinct (map cluster_of (train_groups ?cs start n e))"
    unfolding train_groups_def by (rule distinct_map_filter)
  then have "card (cluster_of ` ?train) = length (train_groups ?cs start n e)"
    by (metis distinct_card length_map set_map)
  ultimately have "length (train_groups ?cs start n e) \<le> card (ob_cluster_id ` set (fold_train (fold_at ?cs n e start)))"
    by (metis List.finite_set card_mono finite_imageI)
  then have card: "minimum_train \<le> int (card (ob_cluster_id ` set (fold_train (fold_at ?cs n e start))))"
    using assms(3) by linarith
  have in_obs: "(\<Union>g\<in>gs. set g) \<subseteq> set obs" if gs: "gs \<subseteq> set ?cs" for gs
  proof
    fix x assume "x \<in> (\<Union>g\<in>gs. set g)"
    then obtain g where "g \<in> set ?cs" "x \<in> set g" using gs by blast
    then show "x \<in> set obs" using cluster_entry(2) [of g obs] by (metis filter_is_subset subsetD)
  qed
  have sorted: "sorted (map ob_at (fold_train (fold_at ?cs n e start)))" "sorted (map ob_at (fold_test (fold_at ?cs n e start)))"
    by (simp_all add: fold_at_def)
  show ?thesis
    unfolding no_leakage_def
  proof (intro conjI ballI impI)
    fix a b assume "a \<in> set (fold_train (fold_at ?cs n e start))" "b \<in> set (fold_test (fold_at ?cs n e start))"
    then show "ob_at a < ob_at b - e" "ob_cluster_id a \<noteq> ob_cluster_id b"
      using time disj unfolding fold_at_sets by auto
  next
    fix a x assume "a \<in> set (fold_train (fold_at ?cs n e start))" "x \<in> set obs" "ob_cluster_id x = ob_cluster_id a"
    then show "x \<in> set (fold_train (fold_at ?cs n e start))"
      unfolding fold_at_sets by (rule whole_clusters [OF sub(1)])
  next
    fix b x assume "b \<in> set (fold_test (fold_at ?cs n e start))" "x \<in> set obs" "ob_cluster_id x = ob_cluster_id b"
    then show "x \<in> set (fold_test (fold_at ?cs n e start))"
      unfolding fold_at_sets by (rule whole_clusters [OF sub(2)])
  next
    show "set (fold_train (fold_at ?cs n e start)) \<union> set (fold_test (fold_at ?cs n e start)) \<subseteq> set obs"
      unfolding fold_at_sets using in_obs [OF sub(1)] in_obs [OF sub(2)] by blast
  qed (use ne card sorted in auto)
qed

text \<open>C27: no fold of the walk-forward evaluation leaks: every training observation precedes every test
  observation by more than the embargo, no cluster is split between the two or within either, the
  training set has at least the minimum number of clusters, and no cluster is tested twice.\<close>

theorem walk_forward_has_no_leakage:
  assumes "walk_forward_folds obs minimum_train n embargo = Inr folds"
  shows "list_all (no_leakage obs minimum_train embargo) folds
    \<and> sorted_wrt (\<lambda>f g. ob_cluster_id ` set (fold_test f) \<inter> ob_cluster_id ` set (fold_test g) = {}) folds"
proof -
  let ?cs = "clusters obs"
  let ?starts = "filter (\<lambda>start. minimum_train \<le> int (length (train_groups ?cs start (nat n) embargo)))
    (py_range (nat minimum_train) (length ?cs) (nat n))"
  have g: "1 \<le> n" and f: "folds = map (fold_at ?cs (nat n) embargo) ?starts"
    using assms by (auto simp: walk_forward_folds_def checked_Inr_iff Let_def)
  have "no_leakage obs minimum_train embargo (fold_at ?cs (nat n) embargo start)" if "start \<in> set ?starts" for start
    using that g by (intro fold_no_leakage) (auto dest: py_range_bounds)
  then have leak: "list_all (\<lambda>i. no_leakage obs minimum_train embargo (fold_at ?cs (nat n) embargo i)) ?starts"
    by (simp only: list_all_iff) blast
  have disj: "ob_cluster_id ` set (fold_test (fold_at ?cs (nat n) embargo i))
      \<inter> ob_cluster_id ` set (fold_test (fold_at ?cs (nat n) embargo j)) = {}" if "i + nat n \<le> j" for i j
  proof -
    have eq: "ob_cluster_id ` set (fold_test (fold_at ?cs (nat n) embargo k)) = cluster_of ` set (test_groups ?cs k (nat n))" for k
    proof (intro set_eqI iffI)
      fix c assume "c \<in> ob_cluster_id ` set (fold_test (fold_at ?cs (nat n) embargo k))"
      then show "c \<in> cluster_of ` set (test_groups ?cs k (nat n))"
        using cluster_entry(3) groups_subset(2) unfolding fold_at_sets by fastforce
    next
      fix c assume "c \<in> cluster_of ` set (test_groups ?cs k (nat n))"
      then obtain g where g: "g \<in> set (test_groups ?cs k (nat n))" "c = cluster_of g" by blast
      then have "hd g \<in> set g" using cluster_entry(1) groups_subset(2) by (intro hd_in_set) blast
      then show "c \<in> ob_cluster_id ` set (fold_test (fold_at ?cs (nat n) embargo k))"
        using g unfolding fold_at_sets by (auto simp: cluster_of_def)
    qed
    have sub: "cluster_of ` set (test_groups ?cs j (nat n)) \<subseteq> cluster_of ` set (drop j ?cs)"
      by (intro image_mono) (simp add: test_groups_def set_take_subset)
    have "cluster_of ` set (test_groups ?cs i (nat n)) \<inter> cluster_of ` set (drop j ?cs) = {}"
      using take_drop_disjoint [OF clusters_distinct [of obs] that] by (simp only: test_groups_def)
    with sub show ?thesis unfolding eq by blast
  qed
  have "sorted_wrt (\<lambda>i j. i + nat n \<le> j) ?starts"
    using py_range_gaps [of "nat n" "nat minimum_train" "length ?cs"] by (rule sorted_wrt_filter)
  then have "sorted_wrt (\<lambda>i j. ob_cluster_id ` set (fold_test (fold_at ?cs (nat n) embargo i))
      \<inter> ob_cluster_id ` set (fold_test (fold_at ?cs (nat n) embargo j)) = {}) ?starts"
    by (rule sorted_wrt_mono_rel [rotated]) (rule disj)
  with leak show ?thesis unfolding f by (simp add: list.pred_map comp_def sorted_wrt_map)
qed

section \<open>The metrics are bounded\<close>

definition ln_ok :: "(dec \<Rightarrow> dec) \<Rightarrow> bool" where
  "ln_ok dln \<longleftrightarrow> (\<forall>x. 0 < x \<and> x \<le> 1 \<longrightarrow> dln x \<le> 0)"

lemma brier_term_unit:
  assumes "valid_observation x" shows "0 \<le> brier_term x \<and> brier_term x \<le> 1"
proof -
  let ?d = "dsub (ob_p_up x) (dec_of_bool (ob_outcome_up x))"
  have p: "0 \<le> ob_p_up x" "ob_p_up x \<le> 1" using assms by (simp_all add: valid_observation_def observation_checks_def)
  have "- 1 \<le> ?d" "?d \<le> 1"
    using p unfolding dsub_def by (auto simp: dec_of_bool_def intro!: ctx_le ctx_ge dec_exact_uminus)
  then have "?d ^ 2 \<le> 1" by (simp add: abs_square_le_1 abs_le_iff)
  then show ?thesis unfolding brier_term_def by (auto intro!: ctx_le)
qed

lemma rate_sum_unit:
  assumes "\<forall>x\<in>set xs. 0 \<le> f x \<and> f x \<le> (1 :: dec)" "length xs < 10 ^ 28"
  shows "0 \<le> ddiv (dsum (map f xs)) (of_nat (length xs)) \<and> ddiv (dsum (map f xs)) (of_nat (length xs)) \<le> 1"
proof -
  have "dsum (map f xs) \<le> dsum (map (\<lambda>_. 1) xs)" using assms(1) by (intro dsum_map_mono) auto
  also have "dsum (map (\<lambda>_. 1) xs) = sum_list (map (\<lambda>_. 1) xs)"
  proof (rule dsum_grid [of _ 0])
    have "(of_nat (length xs) :: rat) < of_nat (10 ^ 28)" using assms(2) by (simp only: of_nat_less_iff)
    then show "grid_small 0 (sum_list (map (\<lambda>_. 1) xs))" by (simp add: grid_small_def sum_list_triv)
  qed (simp add: grid_def)
  finally have "dsum (map f xs) \<le> of_nat (length xs)" by (simp add: sum_list_triv)
  moreover have "0 \<le> dsum (map f xs)" using assms(1) by (intro dsum_nonneg) auto
  ultimately show ?thesis unfolding ddiv_def by (cases "xs = []") (auto intro!: ctx_le simp: divide_le_eq_1)
qed

lemma count_rate_unit: "m \<le> n \<Longrightarrow> 0 \<le> ddiv (of_nat m) (of_nat n) \<and> ddiv (of_nat m) (of_nat n) \<le> 1"
  unfolding ddiv_def by (auto intro!: ctx_le simp: divide_le_eq_1)

lemma log_loss_nonneg:
  assumes "ln_ok dln" shows "0 \<le> log_loss_term dln x"
proof -
  let ?p = "min (dsub 1 log_epsilon) (max log_epsilon (ob_p_up x))"
  have e: "dsub 1 log_epsilon = 1 - log_epsilon" by (simp add: dsub_def log_epsilon_def ctx_eval)
  then have p: "0 < ?p" "?p < 1" by (auto simp: log_epsilon_def min_def max_def)
  then have q: "0 < dsub 1 ?p" "dsub 1 ?p \<le> 1" unfolding dsub_def by (auto intro!: ctx_le)
  have "dln ?p \<le> 0" "dln (dsub 1 ?p) \<le> 0" using assms p q by (auto simp: ln_ok_def)
  then have "dadd (dmul o1 (dln ?p)) (dmul o2 (dln (dsub 1 ?p))) \<le> 0" if "0 \<le> o1" "0 \<le> o2" for o1 o2
    using that unfolding dadd_def dmul_def
    by (intro ctx_nonpos add_nonpos_nonpos) (auto intro!: mult_nonneg_nonpos)
  moreover have "0 \<le> dec_of_bool (ob_outcome_up x)" "0 \<le> dsub 1 (dec_of_bool (ob_outcome_up x))"
    by (simp_all add: dec_of_bool_def dsub_def)
  ultimately show ?thesis unfolding log_loss_term_def Let_def dneg_def by (intro ctx_nonneg) simp
qed

lemma ece_nonneg: "0 \<le> ece obs"
proof -
  have "0 \<le> foldl (ece_bin obs) a is" if "0 \<le> a" for a "is"
    using that
  proof (induction "is" arbitrary: a)
    case (Cons i "is")
    have "0 \<le> ece_bin obs a i" using Cons.prems
      by (auto simp: ece_bin_def Let_def dadd_def dmul_def ddiv_def dabs_def)
    then show ?case using Cons.IH by simp
  qed simp
  then show ?thesis by (simp add: ece_def)
qed

lemma drawdown_loop_ge: "m \<le> drawdown_loop (e, p, m) xs"
  by (induction "(e, p, m)" xs arbitrary: e p m rule: drawdown_loop.induct) (auto simp: Let_def intro: order_trans)

lemma length_map_filter: "length (List.map_filter f xs) = length (filter (\<lambda>x. f x \<noteq> None) xs)"
  by (induction xs) (auto simp: List.map_filter_def)

text \<open>\<open>evaluate\<close> succeeds exactly on a non-empty set of observations of one bucket, and its metrics are then
  what their names promise: the Brier score, the accuracy and the coverage are in [0, 1], the log loss,
  the calibration error and the drawdown are not negative, the coverage is the share of executed
  observations, and there is an expectancy exactly when something was executed.\<close>

theorem evaluation_metrics_are_bounded:
  assumes "ln_ok dln" "\<forall>x\<in>set obs. valid_observation x" "length obs < 10 ^ 28"
  shows "case evaluate dln obs of
      Inl e \<Rightarrow> card (set (map ob_bucket obs)) \<noteq> 1
    | Inr m \<Rightarrow> card (set (map ob_bucket obs)) = 1 \<and> mx_count m = length obs
        \<and> 0 \<le> mx_brier m \<and> mx_brier m \<le> 1 \<and> 0 \<le> mx_log_loss m \<and> 0 \<le> mx_ece m
        \<and> 0 \<le> mx_accuracy m \<and> mx_accuracy m \<le> 1 \<and> 0 \<le> mx_coverage m \<and> mx_coverage m \<le> 1
        \<and> mx_coverage m = ddiv (of_nat (length (filter ob_executed obs))) (of_nat (length obs))
        \<and> (mx_expectancy m = None \<longleftrightarrow> \<not> list_ex ob_executed obs) \<and> 0 \<le> mx_drawdown m"
proof (cases "evaluate dln obs")
  case (Inl e)
  then show ?thesis by (cases "obs = []") (auto simp: evaluate_def Let_def checked_def)
next
  case (Inr m)
  let ?executed = "List.map_filter ob_pnl obs"
  have ex: "ob_executed x \<longleftrightarrow> ob_pnl x \<noteq> None" if "x \<in> set obs" for x
    using assms(2) that by (auto simp: valid_observation_def observation_checks_def)
  have len: "length ?executed = length (filter ob_executed obs)"
    unfolding length_map_filter by (rule arg_cong [of _ _ length], rule filter_cong) (use ex in auto)
  have m: "mx_count m = length obs" "mx_brier m = ddiv (dsum (map brier_term obs)) (of_nat (length obs))"
    "mx_log_loss m = ddiv (dsum (map (log_loss_term dln) obs)) (of_nat (length obs))" "mx_ece m = ece obs"
    "mx_accuracy m = ddiv (of_nat (length (filter correct_call obs))) (of_nat (length obs))"
    "mx_coverage m = ddiv (of_nat (length ?executed)) (of_nat (length obs))"
    "mx_expectancy m = None \<longleftrightarrow> ?executed = []" "mx_drawdown m = drawdown_loop (0, 0, 0) ?executed"
    "card (set (map ob_bucket obs)) = 1"
    using Inr by (auto simp: evaluate_def Let_def checked_Inr_iff split: if_splits)
  have "0 \<le> mx_brier m \<and> mx_brier m \<le> 1"
    unfolding m by (rule rate_sum_unit) (use brier_term_unit assms(2,3) in auto)
  moreover have "0 \<le> mx_log_loss m"
    unfolding m ddiv_def using log_loss_nonneg [OF assms(1)] by (auto intro!: ctx_nonneg divide_nonneg_nonneg dsum_nonneg)
  moreover have "0 \<le> mx_accuracy m \<and> mx_accuracy m \<le> 1" "0 \<le> mx_coverage m \<and> mx_coverage m \<le> 1"
    unfolding m len by (rule count_rate_unit, rule length_filter_le)+
  moreover have "?executed = [] \<longleftrightarrow> \<not> list_ex ob_executed obs"
  proof -
    have "?executed = [] \<longleftrightarrow> filter ob_executed obs = []" using len by (metis length_0_conv)
    then show ?thesis by (simp add: filter_empty_conv list_ex_iff)
  qed
  ultimately show ?thesis
    using m ece_nonneg drawdown_loop_ge [of 0 0 0 ?executed] len by (simp add: Inr)
qed

text \<open>A challenger is promoted exactly when it has enough observations, improves strictly on both the Brier
  score and the log loss of the champion, keeps its calibration error, coverage and drawdown within
  the policy, and earns a positive expectancy; and a challenger that is refused stays refused when any
  of these metrics gets worse. The champion itself is never promoted over itself.\<close>

lemma promotion_needs_every_improvement:
  "(promotion_reasons c champion p = [] \<longleftrightarrow>
      pp_minimum_count p \<le> int (mx_count c) \<and> mx_brier c < mx_brier champion \<and> mx_log_loss c < mx_log_loss champion
      \<and> mx_ece c \<le> pp_maximum_ece p \<and> pp_minimum_coverage p \<le> mx_coverage c
      \<and> (\<exists>e. mx_expectancy c = Some e \<and> 0 < e) \<and> mx_drawdown c \<le> pp_maximum_drawdown p)
    \<and> (metrics_le c d \<longrightarrow> promotion_reasons d champion p = [] \<longrightarrow> promotion_reasons c champion p = [])
    \<and> distinct (promotion_reasons c champion p) \<and> promotion_reasons champion champion p \<noteq> []"
proof (intro conjI impI)
  show "promotion_reasons c champion p = [] \<longleftrightarrow>
      pp_minimum_count p \<le> int (mx_count c) \<and> mx_brier c < mx_brier champion \<and> mx_log_loss c < mx_log_loss champion
      \<and> mx_ece c \<le> pp_maximum_ece p \<and> pp_minimum_coverage p \<le> mx_coverage c
      \<and> (\<exists>e. mx_expectancy c = Some e \<and> 0 < e) \<and> mx_drawdown c \<le> pp_maximum_drawdown p"
    by (rule promotion_reasons_Nil)
  show "promotion_reasons c champion p = []" if "metrics_le c d" "promotion_reasons d champion p = []"
    using promotion.permitted_antimono [OF that(1), of champion p] that(2) by (simp add: promotion.permitted_def)
  show "distinct (promotion_reasons c champion p)"
    unfolding promotion_reasons_def by (rule distinct_reasons_of) simp
  show "promotion_reasons champion champion p \<noteq> []" by (simp add: promotion_reasons_Nil)
qed

section \<open>Concrete evaluations\<close>

definition sample_observation :: "string \<Rightarrow> utc \<Rightarrow> bool \<Rightarrow> observation" where
  "sample_observation c t up = \<lparr>ob_asset = BTC, ob_horizon = FIVE_MINUTES, ob_market_id = ''m'', ob_cluster_id = c,
     ob_at = t, ob_p_up = 3/4, ob_outcome_up = up, ob_executed = up, ob_pnl = (if up then Some 2 else None)\<rparr>"

definition sample_observations :: "observation list" where
  "sample_observations = [sample_observation ''a'' 10 True, sample_observation ''b'' 30 False,
     sample_observation ''a'' 12 False, sample_observation ''c'' 50 True]"

lemma sample_folds:
  "walk_forward_folds sample_observations 1 1 5 = Inr
     [\<lparr>fold_train = [sample_observation ''a'' 10 True, sample_observation ''a'' 12 False],
       fold_test = [sample_observation ''b'' 30 False]\<rparr>,
      \<lparr>fold_train = [sample_observation ''a'' 10 True, sample_observation ''a'' 12 False, sample_observation ''b'' 30 False],
       fold_test = [sample_observation ''c'' 50 True]\<rparr>]"
proof -
  have c: "clusters sample_observations = [[sample_observation ''a'' 10 True, sample_observation ''a'' 12 False],
      [sample_observation ''b'' 30 False], [sample_observation ''c'' 50 True]]"
    by (simp add: clusters_def grouped_def sample_observations_def sample_observation_def first_at_def)
  have "card (set (map ob_bucket sample_observations)) = 1"
    by (simp add: sample_observations_def sample_observation_def ob_bucket_def)
  moreover have "py_range (Suc 0) (Suc (Suc (Suc 0))) (Suc 0) = [Suc 0, Suc (Suc 0)]"
    by (simp add: py_range.simps)
  ultimately show ?thesis
    by (simp add: Let_def walk_forward_folds_def c fold_at_def train_groups_def test_groups_def first_at_def last_at_def
      sample_observation_def)
qed

theorem walk_forward_has_no_leakage_witness:
  "\<exists>folds. walk_forward_folds sample_observations 1 1 5 = Inr folds \<and> length folds = 2
    \<and> list_all (no_leakage sample_observations 1 5) folds"
  using walk_forward_has_no_leakage [OF sample_folds] sample_folds by simp

definition sample_ln :: "dec \<Rightarrow> dec" where
  "sample_ln x = ctx (x - 1)"

theorem evaluation_metrics_are_bounded_witness:
  "\<exists>m. evaluate sample_ln sample_observations = Inr m \<and> mx_count m = 4 \<and> mx_brier m \<le> 1"
proof -
  have "ln_ok sample_ln" by (simp add: ln_ok_def sample_ln_def ctx_nonpos)
  moreover have "\<forall>x\<in>set sample_observations. valid_observation x"
    by (simp add: sample_observations_def sample_observation_def valid_observation_def observation_checks_def py_space_def)
  moreover have l: "length sample_observations = 4" "card (set (map ob_bucket sample_observations)) = 1"
    by (simp_all add: sample_observations_def sample_observation_def ob_bucket_def)
  ultimately show ?thesis
    using evaluation_metrics_are_bounded [of sample_ln sample_observations]
    by (cases "evaluate sample_ln sample_observations") simp_all
qed

definition sample_metrics :: "dec \<Rightarrow> dec option \<Rightarrow> metrics" where
  "sample_metrics loss e = \<lparr>mx_count = 200, mx_brier = loss, mx_log_loss = loss, mx_ece = 1/20, mx_accuracy = 3/5,
     mx_coverage = 1/2, mx_expectancy = e, mx_drawdown = 3\<rparr>"

definition sample_promotion_policy :: promotion_policy where
  "sample_promotion_policy = \<lparr>pp_minimum_count = 100, pp_maximum_ece = 1/10, pp_minimum_coverage = 1/4,
     pp_maximum_drawdown = 5\<rparr>"

lemma promotion_example:
  "promotion_reasons (sample_metrics (1/5) (Some 1)) (sample_metrics (1/4) (Some 2)) sample_promotion_policy = []"
  by (simp add: promotion_reasons_Nil sample_metrics_def sample_promotion_policy_def)

end
