(* ===== verification/Pricing.thy ===== *)
theory Pricing
  imports MarketData_Contracts
begin

text \<open>
  \<open>pricing/contracts.py\<close> and \<open>pricing/fees.py\<close>: the pricing policy, fee quotes, simulated fills and
  simulation results with the checks of their constructors, the fee-schedule guard and the fee
  formula. \<open>quote_fee_total\<close> says when a fee can be quoted and bounds it.
\<close>

section \<open>Contracts\<close>

datatype liquidity_role = MAKER | TAKER

record pricing_policy =
  pp_max_book_age :: timedelta
  pp_max_fee_age :: timedelta
  pp_slippage_buffer_bps :: dec
  pp_fee_buffer_bps :: dec

definition pricing_policy_checks :: "pricing_policy \<Rightarrow> check list" where
  "pricing_policy_checks p =
     [fail_if (pp_max_book_age p \<le> 0) (ValueErr ''max_book_age must be positive''),
      fail_if (pp_max_fee_age p \<le> 0) (ValueErr ''max_fee_age must be positive''),
      non_negative ''slippage_buffer_bps'' (pp_slippage_buffer_bps p),
      non_negative ''fee_buffer_bps'' (pp_fee_buffer_bps p)]"

definition valid_pricing_policy :: "pricing_policy \<Rightarrow> bool" where
  "valid_pricing_policy p \<longleftrightarrow> passes (pricing_policy_checks p)"

record fee_quote =
  fq_condition_id :: string
  fq_formula_version :: string
  fq_role :: liquidity_role
  fq_quantity :: dec
  fq_price :: dec
  fq_fee :: dec
  fq_lineage :: event_lineage

definition fee_quote_checks :: "fee_quote \<Rightarrow> check list" where
  "fee_quote_checks q =
     [require_text ''condition_id'' (fq_condition_id q),
      require_text ''formula_version'' (fq_formula_version q),
      positive ''quantity'' (fq_quantity q),
      in_unit ''price'' (fq_price q),
      non_negative ''fee_usdc'' (fq_fee q)]"

definition mk_fee_quote :: "fee_quote \<Rightarrow> fee_quote result" where
  "mk_fee_quote q = checked (fee_quote_checks q) (Inr q)"

record depth_fill =
  df_price :: dec
  df_quantity :: dec
  df_gross :: dec
  df_fee :: dec

definition depth_fill_checks :: "depth_fill \<Rightarrow> check list" where
  "depth_fill_checks f =
     [in_unit ''price'' (df_price f),
      positive ''quantity'' (df_quantity f),
      non_negative ''gross_notional'' (df_gross f),
      non_negative ''fee_usdc'' (df_fee f),
      fail_if (df_gross f \<noteq> dmul (df_price f) (df_quantity f))
        (ValueErr ''gross_notional must equal price times quantity'')]"

definition mk_depth_fill :: "depth_fill \<Rightarrow> depth_fill result" where
  "mk_depth_fill f = checked (depth_fill_checks f) (Inr f)"

record depth_simulation =
  sim_condition_id :: string
  sim_token_id :: string
  sim_side :: order_side
  sim_requested :: dec
  sim_depth :: dec
  sim_filled :: dec
  sim_fill_fraction :: dec
  sim_fills :: "depth_fill list"
  sim_gross :: dec
  sim_fee :: dec
  sim_fee_buffer :: dec
  sim_slippage_buffer :: dec
  sim_vwap :: "dec option"
  sim_worst :: "dec option"
  sim_impact :: "dec option"
  sim_all_in :: "dec option"
  sim_net_proceeds :: "dec option"
  sim_at :: utc

definition required_non_negative :: "string \<Rightarrow> dec option \<Rightarrow> check" where
  "required_non_negative name v = (case v of
       None \<Rightarrow> Some (ValueErr (''filled simulation requires '' @ name))
     | Some x \<Rightarrow> non_negative name x)"

lemma required_non_negative_simps [simp]:
  "required_non_negative n None \<noteq> None"
  "required_non_negative n (Some x) = None \<longleftrightarrow> 0 \<le> x"
  by (simp_all add: required_non_negative_def)

definition simulation_amount_checks :: "depth_simulation \<Rightarrow> check list" where
  "simulation_amount_checks s =
     [require_text ''condition_id'' (sim_condition_id s),
      require_text ''token_id'' (sim_token_id s),
      non_negative ''executable_depth'' (sim_depth s),
      non_negative ''filled_quantity'' (sim_filled s),
      non_negative ''gross_notional'' (sim_gross s),
      non_negative ''total_fee_usdc'' (sim_fee s),
      non_negative ''fee_buffer_usdc'' (sim_fee_buffer s),
      non_negative ''slippage_buffer_usdc'' (sim_slippage_buffer s),
      positive ''requested_quantity'' (sim_requested s),
      in_unit ''fill_fraction'' (sim_fill_fraction s),
      fail_if (sim_fill_fraction s
          \<noteq> (if 0 < sim_requested s then ddiv (sim_filled s) (sim_requested s) else 0))
        (ValueErr ''fill_fraction does not match requested and filled quantity''),
      fail_if (dsum (map df_quantity (sim_fills s)) \<noteq> sim_filled s)
        (ValueErr ''fill quantities do not match filled_quantity''),
      fail_if (dsum (map df_gross (sim_fills s)) \<noteq> sim_gross s)
        (ValueErr ''fill notionals do not match gross_notional''),
      fail_if (dsum (map df_fee (sim_fills s)) \<noteq> sim_fee s)
        (ValueErr ''fill fees do not match total_fee_usdc''),
      fail_if (sim_requested s < sim_filled s)
        (ValueErr ''filled_quantity cannot exceed requested_quantity''),
      fail_if (sim_depth s < sim_filled s)
        (ValueErr ''filled_quantity cannot exceed executable_depth'')]"

definition simulation_price_checks :: "depth_simulation \<Rightarrow> check list" where
  "simulation_price_checks s =
     (if sim_filled s = 0 then
        [fail_if (\<not> (sim_vwap s = None \<and> sim_worst s = None \<and> sim_impact s = None
             \<and> sim_all_in s = None \<and> sim_net_proceeds s = None))
           (ValueErr ''an unfilled simulation cannot have per-share results'')]
      else
        [required_non_negative ''vwap'' (sim_vwap s),
         required_non_negative ''worst_price'' (sim_worst s),
         required_non_negative ''depth_impact_per_share'' (sim_impact s)]) @
     (if sim_side s = BUY then
        [fail_if (sim_net_proceeds s \<noteq> None) (ValueErr ''BUY simulation cannot have net proceeds''),
         fail_if (sim_filled s \<noteq> 0 \<and> sim_all_in s = None)
           (ValueErr ''filled BUY simulation requires all-in cost'')]
      else
        [fail_if (sim_all_in s \<noteq> None) (ValueErr ''SELL simulation cannot have all-in cost''),
         fail_if (sim_filled s \<noteq> 0 \<and> sim_net_proceeds s = None)
           (ValueErr ''filled SELL simulation requires net proceeds'')])"

definition mk_depth_simulation :: "depth_simulation \<Rightarrow> depth_simulation result" where
  "mk_depth_simulation s =
     checked (simulation_amount_checks s @ simulation_price_checks s) (Inr s)"

definition valid_simulation :: "depth_simulation \<Rightarrow> bool" where
  "valid_simulation s \<longleftrightarrow> passes (simulation_amount_checks s @ simulation_price_checks s)"

lemma mk_depth_simulation_Inr_iff:
  "mk_depth_simulation s = Inr t \<longleftrightarrow> t = s \<and> valid_simulation s"
  by (auto simp: mk_depth_simulation_def valid_simulation_def contract_simps)

section \<open>The fee formula\<close>

definition fee_formula_version :: string where
  "fee_formula_version = ''polymarket-v2-dynamic-fee-v1''"

definition fee_quantum :: dec where "fee_quantum = 1 / 100000"

definition require_fee_schedule ::
  "fee_schedule \<Rightarrow> string \<Rightarrow> utc \<Rightarrow> timedelta \<Rightarrow> unit result" where
  "require_fee_schedule f condition_id observed_at max_age =
     (let age = observed_at - lin_recv_ts (fs_lineage f) in
      checked
        [fail_if (max_age \<le> 0) (ValueErr ''max_age must be positive''),
         fail_if (fs_condition_id f \<noteq> condition_id)
           (PricingUnavailableError ''fee schedule condition identity mismatch''),
         fail_if (age < 0) (PricingUnavailableError ''fee schedule receive time is in the future''),
         fail_if (max_age < age) (PricingUnavailableError ''fee schedule is stale'')]
        (Inr ()))"

definition raw_taker_fee :: "fee_schedule \<Rightarrow> dec \<Rightarrow> dec \<Rightarrow> dec result" where
  "raw_taker_fee f quantity price =
     (if fs_taker_fee_mode f = ''bps'' then
        Inr (ddiv (dmul (dmul quantity price) (fs_taker_base_bps f)) 10000)
      else (case (fs_rate f, fs_exponent f) of
          (Some rate, Some ex) \<Rightarrow>
            (if ex \<noteq> of_int (half_even ex) then
               Inl (PricingUnavailableError ''fee exponent must be an integer'')
             else bindr (dpow (dmul price (dsub 1 price)) (nat (py_trunc ex)))
               (\<lambda>w. Inr (dmul (dmul quantity rate) w)))
        | _ \<Rightarrow> Inl (PricingUnavailableError ''dynamic fee parameters are incomplete'')))"

definition quote_fee :: "fee_schedule \<Rightarrow> dec \<Rightarrow> dec \<Rightarrow> liquidity_role \<Rightarrow> fee_quote result" where
  "quote_fee f quantity price role =
     checked [positive ''quantity'' quantity, in_unit ''price'' price]
       (bindr (if role = MAKER then
             (if fs_maker_base_bps f \<noteq> 0 then
                Inl (PricingUnavailableError ''non-zero maker fee formula is unsupported'')
              else Inr 0)
           else bindr (raw_taker_fee f quantity price) (quantize_half_up fee_quantum))
         (\<lambda>fee. mk_fee_quote \<lparr>fq_condition_id = fs_condition_id f,
            fq_formula_version = fee_formula_version, fq_role = role, fq_quantity = quantity,
            fq_price = price, fq_fee = fee, fq_lineage = fs_lineage f\<rparr>))"

lemma ctx_unit: "0 \<le> x \<Longrightarrow> x \<le> 1 \<Longrightarrow> 0 \<le> ctx x \<and> ctx x \<le> 1"
  by (auto intro: ctx_le)

lemma dmul_unit: "0 \<le> x \<Longrightarrow> x \<le> 1 \<Longrightarrow> 0 \<le> y \<Longrightarrow> y \<le> 1 \<Longrightarrow> 0 \<le> dmul x y \<and> dmul x y \<le> 1"
  unfolding dmul_def by (rule ctx_unit) (auto intro: mult_le_one)

lemma dmul_shrink:
  assumes "0 \<le> x" "x \<le> b" "dec_exact b" "0 \<le> y" "y \<le> 1"
  shows "0 \<le> dmul x y \<and> dmul x y \<le> b"
proof -
  have "x * y \<le> x" using assms mult_left_mono [of y 1 x] by simp
  then have "x * y \<le> b" using assms(2) by simp
  with assms show ?thesis unfolding dmul_def by (auto intro: ctx_le)
qed

lemma dec_exact_numeral [simp]: "(numeral n :: int) < 10 ^ 28 \<Longrightarrow> dec_exact (numeral n)"
  using dec_exact_int [of "numeral n" 0] by simp

lemma quantize_nonneg:
  assumes "0 \<le> x" "x \<le> 10 ^ 22"
  shows "\<exists>y. quantize_half_up fee_quantum x = Inr y \<and> 0 \<le> y"
proof -
  have "half_up (x / fee_quantum) \<le> half_up (of_int (10 ^ 27))"
    using assms by (intro half_up_mono_nonneg) (simp_all add: fee_quantum_def)
  also have "\<dots> = 10 ^ 27"
    using half_up_error [of "of_int (10 ^ 27)"] by (simp only: abs_le_iff) linarith
  finally have "half_up (x / fee_quantum) \<le> 10 ^ 27" .
  moreover have "0 \<le> half_up (x / fee_quantum)"
    using assms by (intro half_up_nonneg) (simp add: fee_quantum_def)
  moreover have "0 \<le> fee_quantum" by (simp add: fee_quantum_def)
  ultimately show ?thesis by (simp add: quantize_half_up_def Let_def)
qed

text \<open>
  A schedule is \<open>quotable\<close> for a role when the formula covers it: no maker fee, a basis-point taker
  fee of at most 100%, or complete dynamic parameters with a positive integer exponent.
\<close>

definition quotable :: "fee_schedule \<Rightarrow> liquidity_role \<Rightarrow> bool" where
  "quotable f role \<longleftrightarrow>
     (if role = MAKER then fs_maker_base_bps f = 0
      else if fs_taker_fee_mode f = ''bps'' then fs_taker_base_bps f \<le> 10000
      else (case (fs_rate f, fs_exponent f) of
          (Some rate, Some ex) \<Rightarrow> rate \<le> 1 \<and> 1 \<le> ex \<and> of_int \<lfloor>ex\<rfloor> = ex
        | _ \<Rightarrow> False))"

lemma integral_exponent:
  assumes "of_int \<lfloor>ex\<rfloor> = ex" "1 \<le> ex"
  shows "ex = of_int (half_even ex)" "0 < nat (py_trunc ex)"
proof -
  show "ex = of_int (half_even ex)" by (metis assms(1) half_even_of_int)
  show "0 < nat (py_trunc ex)" using assms by (simp add: py_trunc_def)
qed

lemma dpow_unit:
  assumes "0 \<le> x" "x \<le> 1" "0 < n"
  shows "\<exists>w. dpow x n = Inr w \<and> 0 \<le> w \<and> w \<le> 1"
  using assms ctx_unit [of "x ^ n"] by (simp add: dpow_def power_le_one)

lemma raw_taker_fee_bounds:
  assumes f: "valid_fee_schedule f" "quotable f TAKER"
    and q: "0 < q" "q \<le> 10 ^ 18" and p: "0 \<le> p" "p \<le> 1"
  shows "\<exists>x. raw_taker_fee f q p = Inr x \<and> 0 \<le> x \<and> x \<le> 10 ^ 22"
proof (cases "fs_taker_fee_mode f = ''bps''")
  case True
  have b: "0 \<le> fs_taker_base_bps f" "fs_taker_base_bps f \<le> 10000"
    using f True by (auto simp: valid_fee_schedule_def fee_schedule_checks_def quotable_def)
  have qp: "0 \<le> dmul q p \<and> dmul q p \<le> 10 ^ 18"
    using q p by (intro dmul_shrink) auto
  have "dmul q p * fs_taker_base_bps f \<le> 10 ^ 18 * 10000"
    using qp b by (intro mult_mono) auto
  then have "dmul (dmul q p) (fs_taker_base_bps f) \<le> 10 ^ 22"
    unfolding dmul_def [of "dmul q p"] by (intro ctx_le) auto
  moreover have "0 \<le> dmul (dmul q p) (fs_taker_base_bps f)"
    using qp b by (simp add: dmul_def [of "dmul q p"])
  ultimately have "0 \<le> ddiv (dmul (dmul q p) (fs_taker_base_bps f)) 10000
      \<and> ddiv (dmul (dmul q p) (fs_taker_base_bps f)) 10000 \<le> 10 ^ 22"
    unfolding ddiv_def by (auto intro!: ctx_le)
  then show ?thesis using True by (simp add: raw_taker_fee_def)
next
  case False
  then obtain rate ex where re: "fs_rate f = Some rate" "fs_exponent f = Some ex"
    "rate \<le> 1" "1 \<le> ex" "of_int \<lfloor>ex\<rfloor> = ex"
    using f(2) by (auto simp: quotable_def split: option.splits)
  have r0: "0 \<le> rate"
    using f(1) re by (auto simp: valid_fee_schedule_def fee_schedule_checks_def)
  have "0 \<le> dmul p (dsub 1 p) \<and> dmul p (dsub 1 p) \<le> 1"
    using p ctx_unit [of "1 - p"] by (intro dmul_unit) (auto simp: dsub_def)
  then obtain w where w: "dpow (dmul p (dsub 1 p)) (nat (py_trunc ex)) = Inr w" "0 \<le> w" "w \<le> 1"
    using dpow_unit integral_exponent(2) [OF re(5,4)] by blast
  have "0 \<le> dmul q rate \<and> dmul q rate \<le> 10 ^ 22"
    using q r0 re by (intro dmul_shrink) auto
  then have "0 \<le> dmul (dmul q rate) w \<and> dmul (dmul q rate) w \<le> 10 ^ 22"
    using w by (intro dmul_shrink) auto
  then show ?thesis
    using False re w integral_exponent(1) [OF re(5,4)] by (simp add: raw_taker_fee_def)
qed

lemma quote_fee_total:
  assumes "valid_fee_schedule f" "quotable f role" "0 < q" "q \<le> 10 ^ 18" "0 \<le> p" "p \<le> 1"
  shows "\<exists>fq. quote_fee f q p role = Inr fq \<and> 0 \<le> fq_fee fq"
proof -
  have cid: "require_text n (fs_condition_id f) = None" for n
    using assms(1) by (auto simp: valid_fee_schedule_def fee_schedule_checks_def)
  have version: "require_text n fee_formula_version = None" for n
    by (simp add: fee_formula_version_def py_space_def)
  obtain fee where "0 \<le> fee"
    "(if role = MAKER then (if fs_maker_base_bps f \<noteq> 0 then
        Inl (PricingUnavailableError ''non-zero maker fee formula is unsupported'') else Inr 0)
      else bindr (raw_taker_fee f q p) (quantize_half_up fee_quantum)) = Inr fee"
  proof (cases role)
    case MAKER
    then show thesis using assms(2) that [of 0] by (simp add: quotable_def)
  next
    case TAKER
    then obtain x where "raw_taker_fee f q p = Inr x" "0 \<le> x" "x \<le> 10 ^ 22"
      using assms raw_taker_fee_bounds [of f q p] by blast
    then show thesis using quantize_nonneg [of x] TAKER that by auto
  qed
  then show ?thesis
    using assms cid version
    by (simp add: quote_fee_def mk_fee_quote_def fee_quote_checks_def del: require_text_None)
qed

end
