(* ===== verification/Depth.thy ===== *)
theory Depth
  imports Pricing
begin

text \<open>
  \<open>pricing/simulation.py\<close>: the depth-aware execution simulation. The abstract specification is
  \<open>allocate\<close>, the exact greedy walk over price levels, with its own correctness theorems (how much
  it takes, that it takes a prefix of the levels, that no other way to take the amount is cheaper).
  The refinement lemma \<open>consume_refines\<close> says that the code's loop, with every intermediate
  result rounded and every fee quoted, is that walk when the amounts are quoted on a decimal grid.
\<close>

section \<open>Specification: the greedy walk\<close>

fun allocate :: "pm_level list \<Rightarrow> rat \<Rightarrow> (pm_level \<times> rat) list" where
  "allocate [] r = []"
| "allocate (l # ls) r =
     (if r = 0 then [] else (l, min (pml_quantity l) r) # allocate ls (r - min (pml_quantity l) r))"

definition depth_of :: "pm_level list \<Rightarrow> rat" where
  "depth_of ls = sum_list (map pml_quantity ls)"

definition cost_of :: "(pm_level \<Rightarrow> rat) \<Rightarrow> (pm_level \<times> rat) list \<Rightarrow> rat" where
  "cost_of key as = sum_list (map (\<lambda>(l, q). key l * q) as)"

lemma depth_of_simps [simp]:
  "depth_of [] = 0" "depth_of (l # ls) = pml_quantity l + depth_of ls"
  by (simp_all add: depth_of_def)

lemma cost_of_simps [simp]:
  "cost_of key [] = 0" "cost_of key ((l, q) # as) = key l * q + cost_of key as"
  by (simp_all add: cost_of_def)

abbreviation positive_levels :: "pm_level list \<Rightarrow> bool" where
  "positive_levels ls \<equiv> \<forall>l\<in>set ls. 0 < pml_quantity l"

lemma depth_of_nonneg: "positive_levels ls \<Longrightarrow> 0 \<le> depth_of ls"
  by (induction ls) auto

lemma allocate_0 [simp]: "allocate ls 0 = []"
  by (cases ls) auto

lemma allocate_sum:
  "positive_levels ls \<Longrightarrow> 0 \<le> r \<Longrightarrow> sum_list (map snd (allocate ls r)) = min r (depth_of ls)"
proof (induction ls arbitrary: r)
  case (Cons l ls)
  have "0 \<le> depth_of ls" using Cons.prems by (intro depth_of_nonneg) simp
  with Cons show ?case by (auto simp: min_def)
qed simp

lemma allocate_bounds:
  "(x, q) \<in> set (allocate ls r) \<Longrightarrow> positive_levels ls \<Longrightarrow> 0 \<le> r \<Longrightarrow>
   x \<in> set ls \<and> 0 < q \<and> q \<le> pml_quantity x \<and> q \<le> r"
proof (induction ls arbitrary: r)
  case (Cons l ls)
  have r: "0 < r" using Cons.prems by (cases "r = 0") auto
  let ?m = "min (pml_quantity l) r"
  have m: "0 < ?m" "0 \<le> r - ?m" "r - ?m \<le> r" using r Cons.prems by auto
  consider "(x, q) = (l, ?m)" | "(x, q) \<in> set (allocate ls (r - ?m))"
    using Cons.prems(1) r by auto
  then show ?case
  proof cases
    case 2
    have IH: "x \<in> set ls \<and> 0 < q \<and> q \<le> pml_quantity x \<and> q \<le> r - ?m"
      using Cons.IH [OF 2] Cons.prems m by simp
    then have "q \<le> r" using m(3) by (meson order.trans)
    with IH show ?thesis by simp
  qed (use m in simp)
qed simp

lemma allocate_prefix: "\<exists>n. map fst (allocate ls r) = take n ls"
proof (induction ls arbitrary: r)
  case (Cons l ls)
  obtain n where "map fst (allocate ls (r - min (pml_quantity l) r)) = take n ls"
    using Cons.IH by blast
  then show ?case
    by (cases "r = 0") (auto intro: exI [of _ "0 :: nat"] exI [of _ "Suc n"])
qed simp

text \<open>Taking more from levels that are all at least as dear as \<open>p\<close> costs at least \<open>p\<close> per share.\<close>

lemma allocate_cost_increase:
  "positive_levels ls \<Longrightarrow> \<forall>l\<in>set ls. p \<le> key l \<Longrightarrow> 0 \<le> r \<Longrightarrow> r \<le> r' \<Longrightarrow> r' \<le> depth_of ls \<Longrightarrow>
   sorted (map key ls) \<Longrightarrow> cost_of key (allocate ls r) + p * (r' - r) \<le> cost_of key (allocate ls r')"
proof (induction ls arbitrary: r r')
  case (Cons l ls)
  let ?q = "min (pml_quantity l) r" and ?q' = "min (pml_quantity l) r'"
  have "cost_of key (allocate ls (r - ?q)) + p * ((r' - ?q') - (r - ?q))
      \<le> cost_of key (allocate ls (r' - ?q'))"
    using Cons.prems depth_of_nonneg [of ls] by (intro Cons.IH) (auto simp: min_def)
  moreover have "p * (?q' - ?q) \<le> key l * (?q' - ?q)"
    using Cons.prems by (intro mult_right_mono) (auto simp: min_def)
  ultimately have "(key l * ?q + cost_of key (allocate ls (r - ?q))) + p * (r' - r)
      \<le> key l * ?q' + cost_of key (allocate ls (r' - ?q'))"
    by (simp only: right_diff_distrib)
  then show ?case
    using Cons.prems by (cases "r = 0"; cases "r' = 0") auto
next
  case Nil
  then have "r' = r" by simp
  then show ?case by simp
qed

text \<open>Optimality: every other way to take the same amount from the levels costs at least as much.\<close>

lemma allocate_optimal:
  "positive_levels ls \<Longrightarrow> sorted (map key ls) \<Longrightarrow>
   list_all2 (\<lambda>l a. 0 \<le> a \<and> a \<le> pml_quantity l) ls as \<Longrightarrow>
   cost_of key (allocate ls (sum_list as)) \<le> cost_of key (zip ls as)"
proof (induction ls arbitrary: as)
  case (Cons l ls)
  then obtain a bs where as: "as = a # bs" by (cases as) auto
  let ?r = "sum_list bs" let ?q = "min (pml_quantity l) (a + ?r)"
  have all: "list_all2 (\<lambda>l a. 0 \<le> a \<and> a \<le> pml_quantity l) ls bs"
    and a: "0 \<le> a" "a \<le> pml_quantity l" using Cons.prems as by auto
  have "list_all2 (\<le>) bs (map pml_quantity ls)" and nn: "\<forall>b\<in>set bs. 0 \<le> b"
    using all by (auto simp: list_all2_conv_all_nth in_set_conv_nth)
  then have r: "0 \<le> ?r" "?r \<le> depth_of ls"
    unfolding depth_of_def using sum_list_nonneg nn
    by (auto simp: list_all2_conv_all_nth intro!: sum_list_mono2)
  have IH: "cost_of key (allocate ls ?r) \<le> cost_of key (zip ls bs)"
    using Cons.prems all by (intro Cons.IH) auto
  have q: "a \<le> ?q" "a + ?r - ?q \<le> ?r" "0 \<le> a + ?r - ?q" using a r by auto
  have "cost_of key (allocate ls (a + ?r - ?q)) + key l * (?r - (a + ?r - ?q))
      \<le> cost_of key (allocate ls ?r)"
    using Cons.prems q r by (intro allocate_cost_increase) auto
  then have "key l * ?q + cost_of key (allocate ls (a + ?r - ?q)) \<le> key l * a + cost_of key (zip ls bs)"
    using IH by (simp only: right_diff_distrib distrib_left)
  moreover have "cost_of key (allocate (l # ls) (a + ?r))
      = key l * ?q + cost_of key (allocate ls (a + ?r - ?q))"
    using a r Cons.prems(1) by (cases "a + ?r = 0") (auto simp: min_def)
  ultimately show ?case by (simp add: as)
qed simp

section \<open>The code\<close>

definition fresh_book_checks :: "polymarket_book \<Rightarrow> utc \<Rightarrow> timedelta \<Rightarrow> check list" where
  "fresh_book_checks b observed_at max_age =
     fail_if (max_age \<le> 0) (ValueErr ''max_age must be positive'') #
     (case lin_source_ts (pmb_lineage b) of
        None \<Rightarrow> [Some (PricingUnavailableError ''book source timestamp is missing'')]
      | Some source_ts \<Rightarrow> concat (map (\<lambda>(label, ts).
          [fail_if (observed_at - ts < 0)
             (PricingUnavailableError (''book '' @ label @ '' timestamp is in the future'')),
           fail_if (max_age < observed_at - ts)
             (PricingUnavailableError (''book '' @ label @ '' timestamp is stale''))])
          [(''source'', source_ts), (''receive'', lin_recv_ts (pmb_lineage b))]))"

definition eligible_levels :: "polymarket_book \<Rightarrow> order_side \<Rightarrow> dec \<Rightarrow> pm_level list" where
  "eligible_levels b side limit_price =
     (if side = BUY then filter (\<lambda>l. pml_price l \<le> limit_price) (pmb_asks b)
      else filter (\<lambda>l. limit_price \<le> pml_price l) (pmb_bids b))"

text \<open>The loop over the eligible levels: the fills so far are its result, \<open>remaining\<close> its state.\<close>

fun consume :: "fee_schedule \<Rightarrow> liquidity_role \<Rightarrow> pm_level list \<Rightarrow> dec \<Rightarrow> (depth_fill list \<times> dec) result"
  where
  "consume f role [] remaining = Inr ([], remaining)"
| "consume f role (l # ls) remaining =
     (if remaining = 0 then Inr ([], remaining)
      else (let quantity = min (pml_quantity l) remaining in
        bindr (quote_fee f quantity (pml_price l) role) (\<lambda>fee.
        bindr (mk_depth_fill \<lparr>df_price = pml_price l, df_quantity = quantity,
                 df_gross = dmul (pml_price l) quantity, df_fee = fq_fee fee\<rparr>) (\<lambda>fill.
        bindr (consume f role ls (dsub remaining quantity)) (\<lambda>(fills, rest).
          Inr (fill # fills, rest))))))"

definition bps_of :: "dec \<Rightarrow> dec \<Rightarrow> dec" where
  "bps_of amount bps = ddiv (dmul amount bps) 10000"

definition depth_result :: "polymarket_book \<Rightarrow> order_side \<Rightarrow> dec \<Rightarrow> pm_level list \<Rightarrow> utc \<Rightarrow>
    pricing_policy \<Rightarrow> depth_fill list \<Rightarrow> dec \<Rightarrow> depth_simulation result" where
  "depth_result b side requested levels observed_at policy fills remaining =
     (let filled = dsub requested remaining;
          gross = dsum (map df_gross fills);
          total_fee = dsum (map df_fee fills);
          fee_buffer = bps_of total_fee (pp_fee_buffer_bps policy);
          slippage_buffer = bps_of gross (pp_slippage_buffer_bps policy);
          vwap = ddiv gross filled;
          best = df_price (hd fills);
          net = ddiv (dsub (dsub (dsub gross total_fee) fee_buffer) slippage_buffer) filled;
          sim = \<lparr>sim_condition_id = pmb_condition_id b, sim_token_id = pmb_token_id b,
            sim_side = side, sim_requested = requested,
            sim_depth = dsum (map pml_quantity levels), sim_filled = filled,
            sim_fill_fraction = ddiv filled requested, sim_fills = fills, sim_gross = gross,
            sim_fee = total_fee, sim_fee_buffer = fee_buffer, sim_slippage_buffer = slippage_buffer,
            sim_vwap = None, sim_worst = None, sim_impact = None, sim_all_in = None,
            sim_net_proceeds = None, sim_at = observed_at\<rparr>
      in if filled = 0 then mk_depth_simulation sim
         else if side = BUY then
           mk_depth_simulation (sim\<lparr>sim_vwap := Some vwap, sim_worst := Some (df_price (last fills)),
             sim_impact := Some (dsub vwap best),
             sim_all_in := Some (ddiv (dadd (dadd (dadd gross total_fee) fee_buffer) slippage_buffer)
               filled)\<rparr>)
         else if net < 0 then
           Inl (PricingUnavailableError ''conservative SELL proceeds became negative'')
         else
           mk_depth_simulation (sim\<lparr>sim_vwap := Some vwap, sim_worst := Some (df_price (last fills)),
             sim_impact := Some (dsub best vwap), sim_net_proceeds := Some net\<rparr>))"

definition simulate_depth :: "polymarket_book \<Rightarrow> fee_schedule \<Rightarrow> order_side \<Rightarrow> dec \<Rightarrow> dec \<Rightarrow>
    liquidity_role \<Rightarrow> utc \<Rightarrow> pricing_policy \<Rightarrow> depth_simulation result" where
  "simulate_depth b f side requested limit_price role observed_at policy =
     checked ([positive ''requested_quantity'' requested, in_unit ''limit_price'' limit_price]
         @ fresh_book_checks b observed_at (pp_max_book_age policy))
       (bindr (require_fee_schedule f (pmb_condition_id b) observed_at (pp_max_fee_age policy)) (\<lambda>_.
        let levels = eligible_levels b side limit_price in
        bindr (consume f role levels requested) (\<lambda>(fills, remaining).
          depth_result b side requested levels observed_at policy fills remaining)))"

section \<open>What every successful simulation guarantees\<close>

lemma consume_prices:
  "consume f role ls r = Inr (fills, rest) \<Longrightarrow>
   \<exists>n. map df_price fills = map pml_price (take n ls)"
proof (induction ls arbitrary: r fills)
  case Nil
  then show ?case by simp
next
  case (Cons l ls)
  show ?case
  proof (cases "r = 0")
    case False
    with Cons.prems obtain fill fs where "consume f role ls (dsub r (min (pml_quantity l) r)) = Inr (fs, rest)"
      "fills = fill # fs" "df_price fill = pml_price l"
      by (auto simp: Let_def bindr_Inr_iff mk_depth_fill_def contract_simps)
    with Cons.IH obtain n where "map df_price fills = map pml_price (take (Suc n) (l # ls))"
      by fastforce
    then show ?thesis by blast
  qed (use Cons.prems in \<open>auto intro: exI [of _ "0 :: nat"]\<close>)
qed

lemma consume_fills:
  "consume f role ls r = Inr (fills, rest) \<Longrightarrow> \<forall>x\<in>set fills. passes (depth_fill_checks x)"
proof (induction ls arbitrary: r fills)
  case (Cons l ls)
  then show ?case
    by (fastforce simp: Let_def bindr_Inr_iff mk_depth_fill_def contract_simps split: if_splits)
qed simp

lemma depth_result_fields:
  assumes "depth_result b side req levels t policy fills rem = Inr s"
  shows "valid_simulation s" "sim_fills s = fills" "sim_requested s = req" "sim_side s = side"
    "sim_filled s = dsub req rem" "sim_gross s = dsum (map df_gross fills)" "sim_at s = t"
    "sim_depth s = dsum (map pml_quantity levels)"
  using assms by (auto simp: depth_result_def Let_def mk_depth_simulation_Inr_iff split: if_splits)

lemma simulate_depth_Inr:
  assumes "simulate_depth b f side req bound role t policy = Inr s"
  obtains fills rem where "consume f role (eligible_levels b side bound) req = Inr (fills, rem)"
    "depth_result b side req (eligible_levels b side bound) t policy fills rem = Inr s"
    "0 < req" "0 \<le> bound" "bound \<le> 1" "passes (fresh_book_checks b t (pp_max_book_age policy))"
    "require_fee_schedule f (pmb_condition_id b) t (pp_max_fee_age policy) = Inr ()"
  using assms by (auto simp: simulate_depth_def contract_simps bindr_Inr_iff Let_def)

text \<open>
  Whenever the simulation returns, and whatever the rounding did, its result satisfies every
  check of its contract, no fill is worse than the limit price, the fills take the best levels
  first without skipping one, at most the requested quantity is filled, and the book and the fee
  schedule it used were recent and not from the future.
\<close>

theorem simulation_respects_limit:
  assumes "simulate_depth b f side req bound role t policy = Inr s"
  shows "valid_simulation s \<and> sim_filled s \<le> req
     \<and> (\<exists>n. map df_price (sim_fills s) = map pml_price (take n (eligible_levels b side bound)))
     \<and> (\<forall>x\<in>set (sim_fills s). if side = BUY then df_price x \<le> bound else bound \<le> df_price x)
     \<and> lin_recv_ts (pmb_lineage b) \<le> t \<and> t - lin_recv_ts (pmb_lineage b) \<le> pp_max_book_age policy
     \<and> fs_condition_id f = pmb_condition_id b
     \<and> lin_recv_ts (fs_lineage f) \<le> t \<and> t - lin_recv_ts (fs_lineage f) \<le> pp_max_fee_age policy"
proof -
  from assms obtain fills rem where c: "consume f role (eligible_levels b side bound) req = Inr (fills, rem)"
    and d: "depth_result b side req (eligible_levels b side bound) t policy fills rem = Inr s"
    and fresh: "passes (fresh_book_checks b t (pp_max_book_age policy))"
    and fee: "require_fee_schedule f (pmb_condition_id b) t (pp_max_fee_age policy) = Inr ()"
    by (rule simulate_depth_Inr)
  note s = depth_result_fields [OF d]
  from c obtain n where n: "map df_price fills = map pml_price (take n (eligible_levels b side bound))"
    using consume_prices by blast
  have "\<forall>p\<in>set (map df_price fills). if side = BUY then p \<le> bound else bound \<le> p"
    unfolding n by (auto simp: eligible_levels_def dest!: in_set_takeD)
  then have "\<forall>x\<in>set fills. if side = BUY then df_price x \<le> bound else bound \<le> df_price x"
    by simp
  moreover have "lin_recv_ts (pmb_lineage b) \<le> t \<and> t - lin_recv_ts (pmb_lineage b) \<le> pp_max_book_age policy"
    using fresh by (auto simp: fresh_book_checks_def split: option.splits)
  moreover have "sim_filled s \<le> req"
    using s by (auto simp: valid_simulation_def simulation_amount_checks_def)
  ultimately show ?thesis
    using s n fee by (auto simp: require_fee_schedule_def Let_def contract_simps)
qed

section \<open>Refinement on quoted amounts\<close>

text \<open>
  Prices with \<open>j\<close> decimals, quantities with \<open>k\<close>; every amount of dollars fits the 28 digits of the
  context, and an order is at most \<open>10 ^ 18\<close> shares.
\<close>

definition quoted_levels :: "nat \<Rightarrow> nat \<Rightarrow> pm_level list \<Rightarrow> bool" where
  "quoted_levels j k ls \<longleftrightarrow>
     list_all (\<lambda>l. valid_pm_level l \<and> grid j (pml_price l) \<and> grid k (pml_quantity l)) ls
     \<and> grid_small (j + k) (depth_of ls) \<and> j \<le> 27"

definition quoted_amount :: "nat \<Rightarrow> nat \<Rightarrow> dec \<Rightarrow> bool" where
  "quoted_amount j k r \<longleftrightarrow> 0 \<le> r \<and> r \<le> 10 ^ 18 \<and> grid k r \<and> grid_small (j + k) r"

lemma grid_small_weaken: "grid_small (j + k) x \<Longrightarrow> grid_small k x"
proof -
  assume "grid_small (j + k) x"
  moreover have "\<bar>x\<bar> * 10 ^ k * 1 \<le> \<bar>x\<bar> * 10 ^ k * 10 ^ j"
    by (intro mult_left_mono) simp_all
  ultimately show ?thesis by (simp add: grid_small_def power_add mult_ac)
qed

lemma quoted_amount_less:
  "quoted_amount j k r \<Longrightarrow> grid k x \<Longrightarrow> 0 \<le> x \<Longrightarrow> x \<le> r \<Longrightarrow> quoted_amount j k x"
  by (auto simp: quoted_amount_def intro: grid_small_le)

lemma quoted_amount_exact: "quoted_amount j k r \<Longrightarrow> ctx r = r"
  by (auto simp: quoted_amount_def intro: grid_ctx grid_small_weaken)

lemma quoted_gross:
  assumes "grid j p" "0 \<le> p" "p \<le> 1" "quoted_amount j k q"
  shows "dmul p q = p * q" "grid (j + k) (p * q)" "0 \<le> p * q" "p * q \<le> q"
proof -
  show g: "grid (j + k) (p * q)" using assms by (intro grid_mult) (simp_all add: quoted_amount_def)
  show pq: "0 \<le> p * q" "p * q \<le> q"
    using assms mult_right_mono [of p 1 q] by (simp_all add: quoted_amount_def)
  then have "grid_small (j + k) (p * q)"
    using assms(4) by (auto simp: quoted_amount_def intro: grid_small_le)
  with g show "dmul p q = p * q" by (simp add: dmul_def grid_ctx)
qed

lemma depth_fill_passes:
  assumes "valid_pm_level l" "grid j (pml_price l)" "quoted_amount j k q" "0 < q" "0 \<le> fee"
  shows "mk_depth_fill \<lparr>df_price = pml_price l, df_quantity = q,
      df_gross = dmul (pml_price l) q, df_fee = fee\<rparr>
    = Inr \<lparr>df_price = pml_price l, df_quantity = q, df_gross = pml_price l * q, df_fee = fee\<rparr>"
  using assms quoted_gross [of j "pml_price l" k q]
  by (simp add: mk_depth_fill_def depth_fill_checks_def valid_pm_level_iff)

definition fill_view :: "depth_fill \<Rightarrow> dec \<times> dec \<times> dec" where
  "fill_view x = (df_price x, df_quantity x, df_gross x)"

definition alloc_view :: "pm_level \<times> rat \<Rightarrow> dec \<times> dec \<times> dec" where
  "alloc_view a = (case a of (l, q) \<Rightarrow> (pml_price l, q, pml_price l * q))"

lemma view_simps [simp]:
  "fill_view \<lparr>df_price = p, df_quantity = q, df_gross = g, df_fee = x\<rparr> = (p, q, g)"
  "alloc_view (l, q) = (pml_price l, q, pml_price l * q)"
  by (simp_all add: fill_view_def alloc_view_def)

lemma quoted_levels_Cons:
  assumes "quoted_levels j k (l # ls)"
  shows "quoted_levels j k ls" "valid_pm_level l" "grid j (pml_price l)" "grid k (pml_quantity l)"
    "0 < pml_quantity l" "0 \<le> depth_of ls"
proof -
  have nn: "0 \<le> depth_of ls" "0 < pml_quantity l"
    using assms by (auto simp: quoted_levels_def list_all_iff valid_pm_level_iff intro!: depth_of_nonneg)
  then show "0 \<le> depth_of ls" "0 < pml_quantity l" .
  show "quoted_levels j k ls" "valid_pm_level l" "grid j (pml_price l)" "grid k (pml_quantity l)"
    using assms nn by (auto simp: quoted_levels_def intro: grid_small_le)
qed

lemma consume_refines:
  assumes "valid_fee_schedule f" "quotable f role"
  shows "quoted_levels j k ls \<Longrightarrow> quoted_amount j k r \<Longrightarrow>
    \<exists>fs. consume f role ls r = Inr (fs, r - min r (depth_of ls))
      \<and> map fill_view fs = map alloc_view (allocate ls r)"
proof (induction ls arbitrary: r)
  case Nil
  then show ?case by (simp add: quoted_amount_def min_def)
next
  case (Cons l ls)
  note l = quoted_levels_Cons [OF Cons.prems(1)]
  let ?q = "min (pml_quantity l) r"
  show ?case
  proof (cases "r = 0")
    case True
    then show ?thesis using l by (simp add: min_def)
  next
    case False
    have r: "0 < r" "r \<le> 10 ^ 18" "grid k r" using Cons.prems(2) False by (auto simp: quoted_amount_def)
    have q: "0 < ?q" "?q \<le> r" "grid k ?q" using l r by (auto intro: grid_min)
    have q18: "?q \<le> 10 ^ 18" using q(2) r(2) by (rule order.trans)
    have amounts: "quoted_amount j k ?q" "quoted_amount j k (r - ?q)"
      using q r Cons.prems(2) by (auto intro!: quoted_amount_less [where r = r] grid_diff)
    have "dsub r ?q = r - ?q" using quoted_amount_exact [OF amounts(2)] by (simp add: dsub_def)
    moreover have "r - ?q - min (r - ?q) (depth_of ls) = r - min r (pml_quantity l + depth_of ls)"
      using l r by (auto simp: min_def)
    moreover obtain fs where "consume f role ls (r - ?q) = Inr (fs, r - ?q - min (r - ?q) (depth_of ls))"
      "map fill_view fs = map alloc_view (allocate ls (r - ?q))"
      using Cons.IH [OF l(1) amounts(2)] by blast
    moreover obtain fee where "quote_fee f ?q (pml_price l) role = Inr fee" "0 \<le> fq_fee fee"
      using quote_fee_total [OF assms q(1) q18, of "pml_price l"] l(2) by (auto simp: valid_pm_level_iff)
    ultimately show ?thesis
      using False depth_fill_passes [OF l(2,3) amounts(1) q(1), of "fq_fee fee"]
      by (simp add: Let_def)
  qed
qed

text \<open>The totals of the walk are exact: shares bought and dollars paid.\<close>

lemma map_views:
  assumes "map fill_view fs = map alloc_view as"
  shows "map df_quantity fs = map snd as" "map df_price fs = map (pml_price \<circ> fst) as"
    "map df_gross fs = map (\<lambda>(l, q). pml_price l * q) as" "length fs = length as"
proof -
  have "map (fst \<circ> snd) (map fill_view fs) = map (fst \<circ> snd) (map alloc_view as)"
    "map fst (map fill_view fs) = map fst (map alloc_view as)"
    "map (snd \<circ> snd) (map fill_view fs) = map (snd \<circ> snd) (map alloc_view as)"
    using assms by simp_all
  then show "map df_quantity fs = map snd as" "map df_price fs = map (pml_price \<circ> fst) as"
    "map df_gross fs = map (\<lambda>(l, q). pml_price l * q) as"
    by (simp_all add: comp_def fill_view_def alloc_view_def case_prod_beta')
  then show "length fs = length as" by (metis length_map)
qed

lemma allocate_quantities:
  assumes "quoted_levels j k ls" "quoted_amount j k r"
  shows "\<forall>(l, q)\<in>set (allocate ls r). quoted_amount j k q \<and> 0 < q \<and> l \<in> set ls"
  using assms
proof (induction ls arbitrary: r)
  case (Cons l ls)
  note l = quoted_levels_Cons [OF Cons.prems(1)]
  let ?q = "min (pml_quantity l) r"
  show ?case
  proof (cases "r = 0")
    case False
    have r: "0 < r" "grid k r" using Cons.prems(2) False by (auto simp: quoted_amount_def)
    have q: "0 < ?q" "?q \<le> r" "grid k ?q" using l r by (auto intro: grid_min)
    have "quoted_amount j k ?q" "quoted_amount j k (r - ?q)"
      using q r Cons.prems(2) by (auto intro!: quoted_amount_less [where r = r] grid_diff)
    then show ?thesis using Cons.IH [OF l(1)] q False by auto
  qed simp
qed simp

lemma quoted_positive: "quoted_levels j k ls \<Longrightarrow> positive_levels ls"
  by (auto simp: quoted_levels_def list_all_iff valid_pm_level_iff)

lemma allocate_totals:
  assumes ls: "quoted_levels j k ls" and r: "quoted_amount j k r"
  shows "dsum (map snd (allocate ls r)) = min r (depth_of ls)"
    "dsum (map (\<lambda>(l, q). pml_price l * q) (allocate ls r)) = cost_of pml_price (allocate ls r)"
    "dsum (map pml_quantity ls) = depth_of ls"
proof -
  note pos = quoted_positive [OF ls]
  have r0: "0 \<le> r" "grid_small (j + k) r" using r by (auto simp: quoted_amount_def)
  have sum: "sum_list (map snd (allocate ls r)) = min r (depth_of ls)"
    using allocate_sum [OF pos r0(1)] .
  have nn: "0 \<le> min r (depth_of ls)" using r0 depth_of_nonneg [OF pos] by simp
  then have small: "grid_small (j + k) (min r (depth_of ls))"
    using r0 by (auto intro: grid_small_le)
  note qs = allocate_quantities [OF ls r]
  show "dsum (map snd (allocate ls r)) = min r (depth_of ls)"
    unfolding sum [symmetric] using qs small grid_small_weaken
    by (intro dsum_grid [where k = k]) (auto simp: sum quoted_amount_def)
  have prices: "grid j (pml_price l) \<and> 0 \<le> pml_price l \<and> pml_price l \<le> 1" if "l \<in> set ls" for l
    using ls that by (auto simp: quoted_levels_def list_all_iff valid_pm_level_iff)
  have each: "\<forall>(l, q)\<in>set (allocate ls r). grid (j + k) (pml_price l * q)
      \<and> 0 \<le> pml_price l * q \<and> pml_price l * q \<le> q"
    using qs prices quoted_gross by fastforce
  have "cost_of pml_price (allocate ls r) \<le> sum_list (map snd (allocate ls r))"
    unfolding cost_of_def using each by (intro sum_list_mono) auto
  moreover have "0 \<le> cost_of pml_price (allocate ls r)"
    unfolding cost_of_def using each by (intro sum_list_nonneg) auto
  ultimately have "grid_small (j + k) (cost_of pml_price (allocate ls r))"
    using small sum nn by (auto intro: grid_small_le)
  then show "dsum (map (\<lambda>(l, q). pml_price l * q) (allocate ls r)) = cost_of pml_price (allocate ls r)"
    unfolding cost_of_def using each by (intro dsum_grid [where k = "j + k"]) auto
  show "dsum (map pml_quantity ls) = depth_of ls"
    unfolding depth_of_def using ls grid_small_weaken
    by (intro dsum_grid [where k = k]) (auto simp: quoted_levels_def list_all_iff valid_pm_level_iff
      depth_of_def)
qed

lemma allocate_min: "positive_levels ls \<Longrightarrow> 0 \<le> r \<Longrightarrow> allocate ls (min r (depth_of ls)) = allocate ls r"
proof (induction ls arbitrary: r)
  case (Cons l ls)
  have nn: "0 \<le> depth_of ls" using Cons.prems by (intro depth_of_nonneg) simp
  have m: "min (pml_quantity l) (min r (pml_quantity l + depth_of ls)) = min (pml_quantity l) r"
    using nn by (auto simp: min_def)
  have "min (r - min (pml_quantity l) r) (depth_of ls)
      = min r (pml_quantity l + depth_of ls) - min (pml_quantity l) r" if "r \<noteq> 0"
    using Cons.prems nn by (auto simp: min_def)
  moreover have "allocate ls (min (r - min (pml_quantity l) r) (depth_of ls))
      = allocate ls (r - min (pml_quantity l) r)"
    using Cons.prems by (intro Cons.IH) auto
  ultimately have "r \<noteq> 0 \<Longrightarrow> allocate ls (min r (pml_quantity l + depth_of ls) - min (pml_quantity l) r)
      = allocate ls (r - min (pml_quantity l) r)"
    by metis
  moreover have "min r (pml_quantity l + depth_of ls) = 0 \<longleftrightarrow> r = 0"
    using Cons.prems nn by (auto simp: min_def)
  ultimately show ?case using m by simp
qed simp

text \<open>
  Sorted levels: the side decides which key ascends. The best price bounds the average price from
  the better side.
\<close>

definition side_key :: "order_side \<Rightarrow> pm_level \<Rightarrow> rat" where
  "side_key side l = (if side = BUY then pml_price l else - pml_price l)"

lemma cost_of_side_key:
  "cost_of (side_key side) as = (if side = BUY then cost_of pml_price as else - cost_of pml_price as)"
  by (induction as) (auto simp: side_key_def)

lemma eligible_levels_sorted:
  assumes "valid_pm_book b" shows "sorted (map (side_key side) (eligible_levels b side bound))"
proof -
  have "sorted (map pml_price (filter P (pmb_asks b)))" for P
    using valid_pm_book_sorted(1) [OF assms] by (simp add: sorted_map sorted_wrt_filter)
  moreover have "sorted (map (\<lambda>l. - pml_price l) (filter P (pmb_bids b)))" for P
    using valid_pm_book_sorted(2) [OF assms] by (simp add: sorted_map sorted_wrt_map sorted_wrt_filter)
  moreover have "side_key BUY = pml_price" "side_key SELL = (\<lambda>l. - pml_price l)"
    by (simp_all add: side_key_def fun_eq_iff)
  ultimately show ?thesis by (cases side) (simp_all add: eligible_levels_def)
qed

lemma average_price_bound:
  assumes "positive_levels ls" "sorted (map key ls)" "0 < r" "ls \<noteq> []"
  shows "key (hd ls) * min r (depth_of ls) \<le> cost_of key (allocate ls r)"
proof -
  have "0 \<le> depth_of ls" using assms by (intro depth_of_nonneg)
  moreover have "\<forall>l\<in>set ls. key (hd ls) \<le> key l"
    using assms(2,4) by (cases ls) auto
  ultimately have "cost_of key (allocate ls 0) + key (hd ls) * (min r (depth_of ls) - 0)
      \<le> cost_of key (allocate ls (min r (depth_of ls)))"
    using assms by (intro allocate_cost_increase) auto
  then show ?thesis using assms by (simp add: allocate_min)
qed

lemma allocate_hd: "r \<noteq> 0 \<Longrightarrow> ls \<noteq> [] \<Longrightarrow> allocate ls r \<noteq> [] \<and> fst (hd (allocate ls r)) = hd ls"
  by (cases ls) auto

lemma bps_of_nonneg: "0 \<le> x \<Longrightarrow> 0 \<le> y \<Longrightarrow> 0 \<le> bps_of x y"
  by (simp add: bps_of_def ddiv_def dmul_def)

lemma vwap_impact:
  assumes ls: "quoted_levels j k ls" "sorted (map (side_key side) ls)" "ls \<noteq> []"
    and r: "0 < r"
  shows "if side = BUY then pml_price (hd ls) \<le> ddiv (cost_of pml_price (allocate ls r)) (min r (depth_of ls))
     else ddiv (cost_of pml_price (allocate ls r)) (min r (depth_of ls)) \<le> pml_price (hd ls)"
proof -
  let ?p = "pml_price (hd ls)" and ?c = "cost_of pml_price (allocate ls r)" and ?n = "min r (depth_of ls)"
  note pos = quoted_positive [OF ls(1)]
  have hd: "hd ls \<in> set ls" using ls(3) by simp
  then have p: "grid j ?p" "0 \<le> ?p" "?p \<le> 1" "j \<le> 27"
    using ls(1) by (auto simp: quoted_levels_def list_all_iff valid_pm_level_iff)
  have "?p * 10 ^ j \<le> 1 * 10 ^ j" using p by (intro mult_right_mono) auto
  also have "(1 :: rat) * 10 ^ j < 10 ^ 28" using p(4) using power_strict_increasing [of j 28 "10 :: rat"] by simp
  finally have "grid_small j ?p" using p by (simp add: grid_small_def)
  then have exact: "dec_exact ?p" using p(1) by (intro grid_exact)
  obtain l ls' where l: "ls = l # ls'" using ls(3) by (cases ls) auto
  have "0 < depth_of ls" using quoted_levels_Cons [OF ls(1) [unfolded l]] by (simp add: l)
  then have n: "0 < ?n" using r by simp
  have key: "side_key side (hd ls) * ?n \<le> cost_of (side_key side) (allocate ls r)"
    by (rule average_price_bound [OF pos ls(2) r ls(3)])
  show ?thesis
  proof (cases side)
    case BUY
    then have "?p \<le> ?c / ?n"
      using key n by (simp add: cost_of_side_key side_key_def pos_le_divide_eq)
    then show ?thesis using BUY exact by (simp add: ddiv_def ctx_ge)
  next
    case SELL
    then have "?c / ?n \<le> ?p"
      using key n by (simp add: cost_of_side_key side_key_def pos_divide_le_eq)
    then show ?thesis using SELL exact by (simp add: ddiv_def ctx_le)
  qed
qed

section \<open>The simulation is the greedy walk\<close>

definition simulation_inputs :: "nat \<Rightarrow> nat \<Rightarrow> polymarket_book \<Rightarrow> fee_schedule \<Rightarrow> order_side \<Rightarrow>
    dec \<Rightarrow> dec \<Rightarrow> liquidity_role \<Rightarrow> utc \<Rightarrow> pricing_policy \<Rightarrow> bool" where
  "simulation_inputs j k b f side req bound role t policy \<longleftrightarrow>
     valid_pm_book b \<and> valid_fee_schedule f \<and> quotable f role \<and> valid_pricing_policy policy
     \<and> quoted_levels j k (eligible_levels b side bound) \<and> quoted_amount j k req
     \<and> 0 < req \<and> 0 \<le> bound \<and> bound \<le> 1
     \<and> passes (fresh_book_checks b t (pp_max_book_age policy))
     \<and> require_fee_schedule f (pmb_condition_id b) t (pp_max_fee_age policy) = Inr ()"

definition sell_loss :: "depth_simulation result" where
  "sell_loss = Inl (PricingUnavailableError ''conservative SELL proceeds became negative'')"

lemma valid_pm_book_text:
  assumes "valid_pm_book b"
  shows "require_text n (pmb_condition_id b) = None" "require_text n (pmb_token_id b) = None"
  using assms by (auto simp: valid_pm_book_def polymarket_book_checks_def)

lemma fraction_unit: "0 \<le> x \<Longrightarrow> x \<le> y \<Longrightarrow> 0 < y \<Longrightarrow> 0 \<le> ddiv x y \<and> ddiv x y \<le> 1"
  unfolding ddiv_def by (intro ctx_unit) auto

lemma depth_result_exact:
  assumes inp: "simulation_inputs j k b f side req bound role t policy"
    and ls: "ls = eligible_levels b side bound"
    and fills: "\<forall>x\<in>set fs. passes (depth_fill_checks x)"
      "map fill_view fs = map alloc_view (allocate ls req)"
    and rest: "rest = req - min req (depth_of ls)"
  shows "(\<exists>s. depth_result b side req ls t policy fs rest = Inr s
        \<and> sim_filled s = min req (depth_of ls) \<and> sim_fills s = fs
        \<and> sim_gross s = cost_of pml_price (allocate ls req))
     \<or> side = SELL \<and> depth_result b side req ls t policy fs rest = sell_loss"
proof -
  let ?n = "min req (depth_of ls)" and ?c = "cost_of pml_price (allocate ls req)"
  have q: "quoted_levels j k ls" "quoted_amount j k req" and req: "0 < req"
    using inp by (simp_all add: simulation_inputs_def ls)
  have sorted: "sorted (map (side_key side) ls)"
    using inp eligible_levels_sorted by (simp add: simulation_inputs_def ls)
  have buffers: "0 \<le> pp_fee_buffer_bps policy" "0 \<le> pp_slippage_buffer_bps policy"
    using inp by (auto simp: simulation_inputs_def valid_pricing_policy_def pricing_policy_checks_def)
  note tot = allocate_totals [OF q] and views = map_views [OF fills(2)]
  have depth0: "0 \<le> depth_of ls" by (rule depth_of_nonneg [OF quoted_positive [OF q(1)]])
  have n: "0 \<le> ?n" "?n \<le> req" "?n \<le> depth_of ls" using depth0 req by auto
  have filled: "dsub req rest = ?n"
    using tot(1) dsum_exact [of "map snd (allocate ls req)"] by (simp add: rest dsub_def ctx_exact)
  have sums: "dsum (map df_quantity fs) = ?n" "dsum (map df_gross fs) = ?c"
    using tot(1,2) by (simp_all add: views)
  have fill_nonneg: "\<forall>x\<in>set fs. 0 \<le> df_gross x \<and> 0 \<le> df_fee x \<and> 0 \<le> df_price x"
  proof
    fix x assume "x \<in> set fs"
    then have "passes (depth_fill_checks x)" using fills(1) by blast
    then show "0 \<le> df_gross x \<and> 0 \<le> df_fee x \<and> 0 \<le> df_price x"
      by (simp add: depth_fill_checks_def)
  qed
  have fee0: "0 \<le> dsum (map df_fee fs)" and gross0: "0 \<le> ?c"
    using fill_nonneg unfolding sums(2) [symmetric] by (simp_all add: dsum_nonneg)
  note amounts = bps_of_nonneg [OF fee0 buffers(1)] bps_of_nonneg [OF gross0 buffers(2)]
    fraction_unit [OF n(1,2) req] valid_pm_book_text
  have book: "valid_pm_book b" using inp by (simp add: simulation_inputs_def)
  show ?thesis
  proof (cases "?n = 0")
    case True
    then show ?thesis
      using amounts n req fee0 gross0 depth0 book
      by (auto simp: depth_result_def Let_def filled sums tot(3) mk_depth_simulation_Inr_iff
        valid_simulation_def simulation_amount_checks_def simulation_price_checks_def
        simp del: require_text_None)
  next
    case False
    then have "ls \<noteq> []" using req by (auto simp: min_def)
    have al: "allocate ls req \<noteq> []" "fst (hd (allocate ls req)) = hd ls"
      using allocate_hd [of req ls] req \<open>ls \<noteq> []\<close> by auto
    then have "fs \<noteq> []" using views(4) by auto
    moreover have "hd (map df_price fs) = hd (map (pml_price \<circ> fst) (allocate ls req))"
      by (simp only: views(2))
    then have "df_price (hd fs) = pml_price (hd ls)"
      using al \<open>fs \<noteq> []\<close> by (simp add: hd_map)
    moreover have "0 \<le> df_price (last fs)"
      using fill_nonneg \<open>fs \<noteq> []\<close> by simp
    moreover have "0 \<le> ddiv ?c ?n" using gross0 n by (simp add: ddiv_def)
    moreover note vwap_impact [OF q(1) sorted \<open>ls \<noteq> []\<close> req]
    ultimately show ?thesis
      using amounts n req fee0 gross0 depth0 book False
      by (cases side; cases "ddiv (dsub (dsub (dsub ?c (dsum (map df_fee fs)))
            (bps_of (dsum (map df_fee fs)) (pp_fee_buffer_bps policy)))
            (bps_of ?c (pp_slippage_buffer_bps policy))) ?n < 0")
        (simp_all add: depth_result_def Let_def filled sums tot(3) mk_depth_simulation_Inr_iff
          valid_simulation_def simulation_amount_checks_def simulation_price_checks_def sell_loss_def
          dsub_def [of _ "pml_price (hd ls)"] dsub_def [of "pml_price (hd ls)"]
          del: require_text_None)
  qed
qed

lemma simulate_depth_refines:
  assumes "simulation_inputs j k b f side req bound role t policy"
  shows "(\<exists>s. simulate_depth b f side req bound role t policy = Inr s
        \<and> sim_filled s = min req (depth_of (eligible_levels b side bound))
        \<and> map fill_view (sim_fills s) = map alloc_view (allocate (eligible_levels b side bound) req)
        \<and> sim_gross s = cost_of pml_price (allocate (eligible_levels b side bound) req))
     \<or> side = SELL \<and> simulate_depth b f side req bound role t policy = sell_loss"
proof -
  let ?ls = "eligible_levels b side bound"
  note inp = assms [unfolded simulation_inputs_def]
  obtain fs where fs: "consume f role ?ls req = Inr (fs, req - min req (depth_of ?ls))"
    "map fill_view fs = map alloc_view (allocate ?ls req)"
    using consume_refines [of f role j k ?ls req] inp by blast
  have "simulate_depth b f side req bound role t policy
      = depth_result b side req ?ls t policy fs (req - min req (depth_of ?ls))"
    using inp fs(1) by (simp add: simulate_depth_def Let_def)
  then show ?thesis
    using depth_result_exact [OF assms refl consume_fills [OF fs(1)] fs(2) refl] fs(2) by auto
qed

text \<open>
  C1: On quoted amounts, with recent data and a fee schedule the formula covers, the simulation
  always returns (except for a SELL whose conservative proceeds are negative, which raises the
  documented error), it fills exactly the smaller of the requested quantity and the eligible depth,
  and its fills and gross notional are those of the exact greedy walk: no rounding is lost.
\<close>

theorem simulation_exact:
  assumes "simulation_inputs j k b f side req bound role t policy"
  shows "(\<exists>s. simulate_depth b f side req bound role t policy = Inr s \<and> valid_simulation s
        \<and> sim_filled s = min req (depth_of (eligible_levels b side bound))
        \<and> map fill_view (sim_fills s) = map alloc_view (allocate (eligible_levels b side bound) req)
        \<and> sim_gross s = cost_of pml_price (allocate (eligible_levels b side bound) req))
     \<or> side = SELL \<and> simulate_depth b f side req bound role t policy = sell_loss"
proof -
  have "valid_simulation s" if "simulate_depth b f side req bound role t policy = Inr s" for s
    using simulate_depth_Inr [OF that] depth_result_fields(1) by metis
  then show ?thesis using simulate_depth_refines [OF assms] by blast
qed

text \<open>
  C2: The simulation is optimal: whatever other way of taking the same number of shares from the
  eligible levels, a BUY never pays more than it in gross notional and a SELL never receives less.
\<close>

theorem simulation_optimal:
  assumes inp: "simulation_inputs j k b f side req bound role t policy"
    and sim: "simulate_depth b f side req bound role t policy = Inr s"
    and alt: "list_all2 (\<lambda>l a. 0 \<le> a \<and> a \<le> pml_quantity l) (eligible_levels b side bound) as"
      "sum_list as = sim_filled s"
  shows "if side = BUY then sim_gross s \<le> cost_of pml_price (zip (eligible_levels b side bound) as)
     else cost_of pml_price (zip (eligible_levels b side bound) as) \<le> sim_gross s"
proof -
  let ?ls = "eligible_levels b side bound"
  have s: "sim_filled s = min req (depth_of ?ls)" "sim_gross s = cost_of pml_price (allocate ?ls req)"
    using simulate_depth_refines [OF inp] sim by (auto simp: sell_loss_def)
  have pos: "positive_levels ?ls" "sorted (map (side_key side) ?ls)" "0 \<le> req"
    using inp quoted_positive eligible_levels_sorted by (auto simp: simulation_inputs_def)
  have "cost_of (side_key side) (allocate ?ls (sum_list as)) \<le> cost_of (side_key side) (zip ?ls as)"
    by (rule allocate_optimal [OF pos(1,2) alt(1)])
  then show ?thesis
    using pos s alt(2) by (cases side) (simp_all add: allocate_min cost_of_side_key)
qed

section \<open>Sample inputs\<close>

definition sample_lineage_at :: "data_source \<Rightarrow> event_lineage" where
  "sample_lineage_at source = \<lparr>lin_source = source, lin_source_ts = Some (seconds 1700000000),
     lin_recv_ts = seconds 1700000001, lin_normalized_ts = seconds 1700000001,
     lin_recv_monotonic_ns = 5\<rparr>"

definition sample_book :: polymarket_book where
  "sample_book = \<lparr>pmb_condition_id = ''c1'', pmb_token_id = ''up'',
     pmb_bids = [\<lparr>pml_price = 45 / 100, pml_quantity = 10\<rparr>],
     pmb_asks = [\<lparr>pml_price = 50 / 100, pml_quantity = 4\<rparr>, \<lparr>pml_price = 60 / 100, pml_quantity = 8\<rparr>,
       \<lparr>pml_price = 90 / 100, pml_quantity = 100\<rparr>],
     pmb_checksum = ''x'', pmb_minimum_order_size = 1, pmb_tick_size = 1 / 100,
     pmb_lineage = sample_lineage_at POLYMARKET_CLOB\<rparr>"

definition sample_fees :: fee_schedule where
  "sample_fees = \<lparr>fs_condition_id = ''c1'', fs_maker_base_bps = 0, fs_taker_base_bps = 1000,
     fs_rate = Some (7 / 100), fs_exponent = Some 1,
     fs_lineage = sample_lineage_at POLYMARKET_GAMMA, fs_taker_fee_mode = ''dynamic''\<rparr>"

definition sample_pricing_policy :: pricing_policy where
  "sample_pricing_policy = \<lparr>pp_max_book_age = seconds 5, pp_max_fee_age = seconds 60,
     pp_slippage_buffer_bps = 10, pp_fee_buffer_bps = 10\<rparr>"

lemmas sample_pricing_defs = sample_lineage_at_def sample_book_def sample_fees_def
  sample_pricing_policy_def seconds_def

lemma sample_inputs:
  "simulation_inputs 2 0 sample_book sample_fees BUY 6 (70 / 100) TAKER (seconds 1700000003)
     sample_pricing_policy"
proof -
  have "valid_pm_book sample_book"
    by (simp add: valid_pm_book_def polymarket_book_checks_def pm_crossed_def valid_pm_level_iff
      sample_pricing_defs py_space_def)
  moreover have "valid_fee_schedule sample_fees" "quotable sample_fees TAKER"
    by (simp_all add: valid_fee_schedule_def fee_schedule_checks_def quotable_def
      sample_pricing_defs py_space_def)
  moreover have "eligible_levels sample_book BUY (70 / 100)
      = [\<lparr>pml_price = 50 / 100, pml_quantity = 4\<rparr>, \<lparr>pml_price = 60 / 100, pml_quantity = 8\<rparr>]"
    by (simp add: eligible_levels_def sample_pricing_defs)
  moreover have "quoted_levels 2 0
      [\<lparr>pml_price = 50 / 100, pml_quantity = 4\<rparr>, \<lparr>pml_price = 60 / 100, pml_quantity = 8\<rparr>]"
    by (simp add: quoted_levels_def valid_pm_level_iff grid_def grid_small_def)
  moreover have "quoted_amount 2 0 6"
    by (simp add: quoted_amount_def grid_def grid_small_def)
  ultimately show ?thesis
    by (simp add: simulation_inputs_def valid_pricing_policy_def pricing_policy_checks_def
      fresh_book_checks_def require_fee_schedule_def sample_pricing_defs)
qed

theorem simulation_exact_witness:
  "\<exists>s. simulate_depth sample_book sample_fees BUY 6 (70 / 100) TAKER (seconds 1700000003)
      sample_pricing_policy = Inr s \<and> sim_filled s = 6 \<and> sim_gross s = 32 / 10"
  using simulation_exact [OF sample_inputs]
  by (auto simp: eligible_levels_def sample_pricing_defs)

theorem simulation_respects_limit_witness:
  "\<exists>s. simulate_depth sample_book sample_fees BUY 6 (70 / 100) TAKER (seconds 1700000003)
      sample_pricing_policy = Inr s \<and> (\<forall>x\<in>set (sim_fills s). df_price x \<le> 70 / 100)"
  using simulate_depth_refines [OF sample_inputs] simulation_respects_limit
    [of sample_book sample_fees BUY 6 "70 / 100" TAKER "seconds 1700000003" sample_pricing_policy]
  by auto

theorem simulation_optimal_witness:
  "\<exists>s. simulate_depth sample_book sample_fees BUY 6 (70 / 100) TAKER (seconds 1700000003)
      sample_pricing_policy = Inr s
     \<and> sim_gross s \<le> cost_of pml_price (zip (eligible_levels sample_book BUY (70 / 100)) [1, 5])"
proof -
  obtain s where s: "simulate_depth sample_book sample_fees BUY 6 (70 / 100) TAKER
      (seconds 1700000003) sample_pricing_policy = Inr s" "sim_filled s = 6"
    using simulate_depth_refines [OF sample_inputs] by (auto simp: eligible_levels_def sample_book_def)
  then show ?thesis
    using simulation_optimal [OF sample_inputs, of s "[1, 5]"]
    by (simp add: eligible_levels_def sample_book_def)
qed

end
