(* ===== verification/Structural.thy ===== *)
theory Structural
  imports Depth
begin

text \<open>
  The structural-arbitrage strategy: \<open>strategies/structural_arb/scanner.py\<close> (complete-set parity
  from executable depth) and \<open>strategies/structural_arb/lifetime.py\<close> (the window of consecutive
  observations of one opportunity). A complete set is one UP and one DOWN share; merging it pays
  one dollar, so buying both legs below one dollar, all costs included, is a profit without risk.
\<close>

section \<open>The scanner\<close>

datatype structural_action = BUY_MERGE | SPLIT_SELL

fun structural_action_value :: "structural_action \<Rightarrow> string" where
  "structural_action_value BUY_MERGE = ''BUY_MERGE''"
| "structural_action_value SPLIT_SELL = ''SPLIT_SELL''"

record structural_policy =
  stp_target_shares :: dec
  stp_minimum_net_profit :: dec
  stp_cycle_buffer_bps :: dec
  stp_max_pair_skew :: timedelta
  stp_pricing :: pricing_policy

definition structural_policy_checks :: "structural_policy \<Rightarrow> check list" where
  "structural_policy_checks p =
     [positive ''target_shares'' (stp_target_shares p),
      non_negative ''minimum_net_profit'' (stp_minimum_net_profit p),
      non_negative ''cycle_buffer_bps'' (stp_cycle_buffer_bps p),
      fail_if (stp_max_pair_skew p < 0) (ValueErr ''max_pair_skew must be non-negative'')]"

definition valid_structural_policy :: "structural_policy \<Rightarrow> bool" where
  "valid_structural_policy p \<longleftrightarrow>
     passes (structural_policy_checks p) \<and> valid_pricing_policy (stp_pricing p)"

record structural_opportunity =
  so_id :: string
  so_action :: structural_action
  so_market_id :: string
  so_condition_id :: string
  so_shares :: dec
  so_up :: depth_simulation
  so_down :: depth_simulation
  so_combined_price :: dec
  so_cycle_buffer :: dec
  so_net_profit :: dec
  so_observed_at :: utc

definition opportunity_checks :: "structural_opportunity \<Rightarrow> check list" where
  "opportunity_checks opp =
     [require_text ''opportunity_id'' (so_id opp),
      require_text ''market_id'' (so_market_id opp),
      require_text ''condition_id'' (so_condition_id opp),
      positive ''shares'' (so_shares opp),
      non_negative ''cycle_buffer_usdc'' (so_cycle_buffer opp)]"

definition mk_opportunity :: "structural_opportunity \<Rightarrow> structural_opportunity result" where
  "mk_opportunity opp = checked (opportunity_checks opp) (Inr opp)"

record structural_scan =
  scan_action :: structural_action
  scan_market_id :: string
  scan_observed_at :: utc
  scan_reason :: string
  scan_opportunity :: "structural_opportunity option"

definition mk_scan :: "structural_scan \<Rightarrow> structural_scan result" where
  "mk_scan s = checked
     [require_text ''market_id'' (scan_market_id s),
      require_text ''reason'' (scan_reason s),
      fail_if (case scan_opportunity s of None \<Rightarrow> False | Some opp \<Rightarrow> so_market_id opp \<noteq> scan_market_id s)
        (ValueErr ''opportunity market identity mismatch'')]
     (Inr s)"

text \<open>\<open>expected[OutcomeSide.UP]\<close> raises \<open>KeyError\<close> when the market has no such token.\<close>

definition token_of :: "market \<Rightarrow> outcome_side \<Rightarrow> string result" where
  "token_of m side = (case token_by_side m side of
       None \<Rightarrow> Inl (KeyErr ''outcome'') | Some t \<Rightarrow> Inr t)"

definition require_pair_identity ::
  "market \<Rightarrow> polymarket_book \<Rightarrow> polymarket_book \<Rightarrow> unit result" where
  "require_pair_identity m up_book down_book =
     checked [fail_if (pmb_condition_id up_book \<noteq> mkt_condition_id m
                \<or> pmb_condition_id down_book \<noteq> mkt_condition_id m)
         (ValueErr ''book condition identity mismatch'')]
      (bindr (token_of m UP) (\<lambda>up.
       checked [fail_if (pmb_token_id up_book \<noteq> up) (ValueErr ''UP book token identity mismatch'')]
        (bindr (token_of m DOWN) (\<lambda>down.
         checked [fail_if (pmb_token_id down_book \<noteq> down)
             (ValueErr ''DOWN book token identity mismatch'')]
           (Inr ())))))"

definition require_synchronized ::
  "polymarket_book \<Rightarrow> polymarket_book \<Rightarrow> timedelta \<Rightarrow> unit result" where
  "require_synchronized up_book down_book max_skew =
     (case (lin_source_ts (pmb_lineage up_book), lin_source_ts (pmb_lineage down_book)) of
        (Some up_ts, Some down_ts) \<Rightarrow>
          checked [fail_if (max_skew < \<bar>up_ts - down_ts\<bar>)
              (ValueErr ''paired books exceed maximum source-time skew''),
            fail_if (max_skew < \<bar>lin_recv_ts (pmb_lineage up_book) - lin_recv_ts (pmb_lineage down_book)\<bar>)
              (ValueErr ''paired books exceed maximum receive-time skew'')]
            (Inr ())
      | _ \<Rightarrow> Inl (ValueErr ''paired books require source timestamps''))"

definition combined_and_profit :: "structural_action \<Rightarrow> dec \<Rightarrow> depth_simulation \<Rightarrow> depth_simulation \<Rightarrow>
    (dec \<times> dec) result" where
  "combined_and_profit action target up down =
     (if action = BUY_MERGE then
        (case (sim_all_in up, sim_all_in down) of
           (Some u, Some d) \<Rightarrow> (let c = dadd u d in Inr (c, dmul target (dsub 1 c)))
         | _ \<Rightarrow> Inl (RuntimeErr ''BUY simulation omitted all-in cost''))
      else
        (case (sim_net_proceeds up, sim_net_proceeds down) of
           (Some u, Some d) \<Rightarrow> (let c = dadd u d in Inr (c, dmul target (dsub c 1)))
         | _ \<Rightarrow> Inl (RuntimeErr ''SELL simulation omitted net proceeds'')))"

definition no_opportunity :: "structural_action \<Rightarrow> market \<Rightarrow> utc \<Rightarrow> string \<Rightarrow> structural_scan" where
  "no_opportunity action m t reason = \<lparr>scan_action = action, scan_market_id = mkt_id m,
     scan_observed_at = t, scan_reason = reason, scan_opportunity = None\<rparr>"

definition scan_complete_set :: "market \<Rightarrow> polymarket_book \<Rightarrow> polymarket_book \<Rightarrow> fee_schedule \<Rightarrow>
    fee_schedule \<Rightarrow> structural_action \<Rightarrow> utc \<Rightarrow> structural_policy \<Rightarrow> structural_scan result" where
  "scan_complete_set m up_book down_book up_fee down_fee action observed_at policy =
     bindr (require_pair_identity m up_book down_book) (\<lambda>_.
     bindr (require_synchronized up_book down_book (stp_max_pair_skew policy)) (\<lambda>_.
     let side = (if action = BUY_MERGE then BUY else SELL);
         bound = (if side = BUY then 1 else 0);
         target = stp_target_shares policy in
     bindr (simulate_depth up_book up_fee side target bound TAKER observed_at (stp_pricing policy)) (\<lambda>up.
     bindr (simulate_depth down_book down_fee side target bound TAKER observed_at (stp_pricing policy)) (\<lambda>down.
     if sim_fill_fraction up \<noteq> 1 \<or> sim_fill_fraction down \<noteq> 1 then
       mk_scan (no_opportunity action m observed_at ''INSUFFICIENT_PAIRED_DEPTH'')
     else bindr (combined_and_profit action target up down) (\<lambda>(combined, gross_profit).
       let cycle_buffer = ddiv (dmul target (stp_cycle_buffer_bps policy)) 10000;
           net_profit = dsub gross_profit cycle_buffer
       in if net_profit < stp_minimum_net_profit policy then
            mk_scan (no_opportunity action m observed_at ''NET_ECONOMICS_BELOW_MINIMUM'')
          else bindr (mk_opportunity \<lparr>so_id = mkt_condition_id m @ '':'' @ structural_action_value action
                @ '':'' @ show_int (int_timestamp_ms observed_at),
              so_action = action, so_market_id = mkt_id m, so_condition_id = mkt_condition_id m,
              so_shares = target, so_up = up, so_down = down, so_combined_price = combined,
              so_cycle_buffer = cycle_buffer, so_net_profit = net_profit,
              so_observed_at = observed_at\<rparr>) (\<lambda>opp.
            mk_scan \<lparr>scan_action = action, scan_market_id = mkt_id m, scan_observed_at = observed_at,
              scan_reason = ''EXECUTABLE'', scan_opportunity = Some opp\<rparr>))))))"

text \<open>How an opportunity came about: every successful scan with one is of this form.\<close>

lemma scan_opportunity_origin:
  assumes "scan_complete_set m ub db uf df action t policy = Inr sc" "scan_opportunity sc = Some opp"
  shows "require_pair_identity m ub db = Inr ()"
    "require_synchronized ub db (stp_max_pair_skew policy) = Inr ()"
    "simulate_depth ub uf (if action = BUY_MERGE then BUY else SELL) (stp_target_shares policy)
       (if action = BUY_MERGE then 1 else 0) TAKER t (stp_pricing policy) = Inr (so_up opp)"
    "simulate_depth db df (if action = BUY_MERGE then BUY else SELL) (stp_target_shares policy)
       (if action = BUY_MERGE then 1 else 0) TAKER t (stp_pricing policy) = Inr (so_down opp)"
    "sim_fill_fraction (so_up opp) = 1" "sim_fill_fraction (so_down opp) = 1"
    "\<exists>g. combined_and_profit action (stp_target_shares policy) (so_up opp) (so_down opp)
       = Inr (so_combined_price opp, g) \<and> so_net_profit opp = dsub g (so_cycle_buffer opp)"
    "so_cycle_buffer opp = ddiv (dmul (stp_target_shares policy) (stp_cycle_buffer_bps policy)) 10000"
    "stp_minimum_net_profit policy \<le> so_net_profit opp" "so_shares opp = stp_target_shares policy"
    "so_action opp = action" "scan_reason sc = ''EXECUTABLE''" "so_market_id opp = mkt_id m"
  using assms
  by (auto simp: scan_complete_set_def Let_def bindr_Inr_iff mk_scan_def mk_opportunity_def
    contract_simps no_opportunity_def split: if_splits)

lemma pair_identity_facts:
  assumes "require_pair_identity m ub db = Inr ()"
  shows "pmb_condition_id ub = mkt_condition_id m" "pmb_condition_id db = mkt_condition_id m"
    "token_by_side m UP = Some (pmb_token_id ub)" "token_by_side m DOWN = Some (pmb_token_id db)"
  using assms
  by (auto simp: require_pair_identity_def token_of_def contract_simps bindr_Inr_iff
    split: option.splits)

section \<open>Rounding and the cost of a complete set\<close>

definition slack :: rat where "slack = 1 + 1 / 10 ^ 27"

lemma slack_ge_1: "1 \<le> slack"
  by (simp add: slack_def)

lemma ctx_slack: "0 \<le> x \<Longrightarrow> x \<le> slack * ctx x"
proof (cases "x = 0")
  case False
  assume "0 \<le> x"
  with False have "\<bar>ctx x - x\<bar> * (2 * 10 ^ 27) \<le> x" by (intro ctx_error) simp
  then have "(x - ctx x) * (2 * 10 ^ 27) \<le> x" by (cases "ctx x \<le> x") (simp_all add: mult_le_0_iff \<open>0 \<le> x\<close>)
  then have "x * (2 * 10 ^ 27 - 1) \<le> ctx x * (2 * 10 ^ 27)" by (simp add: algebra_simps)
  moreover have "ctx x * (2 * 10 ^ 27) \<le> ctx x * (slack * (2 * 10 ^ 27 - 1))"
    using \<open>0 \<le> x\<close> by (intro mult_left_mono) (simp_all add: slack_def)
  ultimately have "x * (2 * 10 ^ 27 - 1) \<le> (slack * ctx x) * (2 * 10 ^ 27 - 1)"
    by (simp add: mult_ac)
  then show ?thesis by simp
qed simp

lemma ctx_le_slack: "0 \<le> x \<Longrightarrow> ctx x \<le> slack * x"
proof (cases "x = 0")
  case False
  assume "0 \<le> x"
  with False have "\<bar>ctx x - x\<bar> * (2 * 10 ^ 27) \<le> x" by (intro ctx_error) simp
  moreover have "(ctx x - x) * (2 * 10 ^ 27) \<le> \<bar>ctx x - x\<bar> * (2 * 10 ^ 27)" by (intro mult_right_mono) simp_all
  ultimately have "(ctx x - x) * (2 * 10 ^ 27) \<le> x * 2" using \<open>0 \<le> x\<close> by linarith
  then show ?thesis by (simp add: slack_def algebra_simps)
qed simp

lemma ctx_nonneg_iff: "0 \<le> ctx x \<longleftrightarrow> 0 \<le> x"
  by (metis ctx_pos_iff ctx_eq_0_iff order.order_iff_strict)

text \<open>Dollars a filled BUY leg costs, fee and buffers included.\<close>

definition exact_cost :: "depth_simulation \<Rightarrow> rat" where
  "exact_cost s = sim_gross s + sim_fee s + sim_fee_buffer s + sim_slippage_buffer s"

lemma slack_step: "0 \<le> x \<Longrightarrow> 0 \<le> y \<Longrightarrow> x + y \<le> slack * dadd x y"
  using ctx_slack [of "x + y"] by (simp add: dadd_def)

lemma slack_up: "0 \<le> x \<Longrightarrow> x \<le> slack * x"
  using mult_right_mono [OF slack_ge_1, of x] by simp

lemma all_in_covers_cost:
  assumes "valid_simulation s" "sim_filled s = n" "0 < n"
    and "sim_all_in s = Some (ddiv (dadd (dadd (dadd (sim_gross s) (sim_fee s)) (sim_fee_buffer s))
      (sim_slippage_buffer s)) n)"
  shows "exact_cost s \<le> slack ^ 4 * (n * the (sim_all_in s))"
proof -
  have nn: "0 \<le> sim_gross s" "0 \<le> sim_fee s" "0 \<le> sim_fee_buffer s" "0 \<le> sim_slippage_buffer s"
    using assms(1) by (auto simp: valid_simulation_def simulation_amount_checks_def)
  define a where "a = dadd (sim_gross s) (sim_fee s)"
  define b where "b = dadd a (sim_fee_buffer s)"
  define c where "c = dadd b (sim_slippage_buffer s)"
  have a: "0 \<le> a" using nn by (simp add: a_def dadd_def)
  have b: "0 \<le> b" using nn a by (simp add: b_def dadd_def)
  have c: "0 \<le> c" using nn b by (simp add: c_def dadd_def)
  have s0: "0 \<le> slack" using slack_ge_1 by simp
  have 1: "sim_gross s + sim_fee s \<le> slack * a" using slack_step nn by (simp add: a_def)
  have 2: "a + sim_fee_buffer s \<le> slack * b" using slack_step nn a by (simp add: b_def)
  have 3: "b + sim_slippage_buffer s \<le> slack * c" using slack_step nn b by (simp add: c_def)
  have 4: "c \<le> slack * (n * the (sim_all_in s))"
    using ctx_slack [of "c / n"] c assms(3,4)
    by (simp add: ddiv_def pos_divide_le_eq mult_ac flip: a_def b_def c_def)
  have "exact_cost s \<le> slack * (a + sim_fee_buffer s) + sim_slippage_buffer s"
    using 1 slack_up [OF nn(3)] by (simp add: exact_cost_def distrib_left)
  also have "\<dots> \<le> slack * (slack * (b + sim_slippage_buffer s))"
  proof -
    have "slack * (a + sim_fee_buffer s) \<le> slack * (slack * b)" using 2 s0 by (rule mult_left_mono)
    moreover have "sim_slippage_buffer s \<le> slack * (slack * sim_slippage_buffer s)"
      using slack_up [OF nn(4)] slack_up [of "slack * sim_slippage_buffer s"] nn(4) s0 by simp
    ultimately show ?thesis by (simp add: distrib_left)
  qed
  also have "\<dots> \<le> slack * (slack * (slack * c))"
    using 3 s0 by (intro mult_left_mono) auto
  also have "\<dots> \<le> slack * (slack * (slack * (slack * (n * the (sim_all_in s)))))"
    using 4 s0 by (intro mult_left_mono) auto
  finally show ?thesis by (simp add: power4_eq_xxxx mult_ac)
qed

lemma depth_result_all_in:
  assumes "depth_result b BUY req levels t policy fills rem = Inr s" "sim_all_in s = Some x"
  shows "sim_filled s \<noteq> 0"
    "x = ddiv (dadd (dadd (dadd (sim_gross s) (sim_fee s)) (sim_fee_buffer s)) (sim_slippage_buffer s))
      (sim_filled s)"
  using assms by (auto simp: depth_result_def Let_def mk_depth_simulation_Inr_iff split: if_splits)

lemma full_fraction:
  assumes "valid_simulation s" "sim_fill_fraction s = 1"
  shows "sim_requested s \<le> slack * sim_filled s" "sim_filled s \<le> sim_requested s"
    "0 < sim_requested s" "0 < sim_filled s"
proof -
  have r: "0 < sim_requested s" "sim_filled s \<le> sim_requested s" "0 \<le> sim_filled s"
    "ddiv (sim_filled s) (sim_requested s) = 1"
    using assms by (auto simp: valid_simulation_def simulation_amount_checks_def)
  then show "sim_filled s \<le> sim_requested s" "0 < sim_requested s" by simp_all
  let ?x = "sim_filled s / sim_requested s"
  have x: "0 < ?x" "?x \<le> 1"
  proof -
    show "?x \<le> 1" using r by simp
    have "?x \<noteq> 0" using r(4) by (auto simp: ddiv_def)
    then show "0 < ?x" using r by simp
  qed
  then show "0 < sim_filled s" using r by (simp add: zero_less_divide_iff)
  have "\<bar>ctx ?x - ?x\<bar> * (2 * 10 ^ 27) \<le> ?x" using ctx_error x by blast
  moreover have "ctx ?x = 1" using r(4) by (simp add: ddiv_def)
  ultimately have "(1 - ?x) * (2 * 10 ^ 27) \<le> ?x" using x by simp
  then have "1 \<le> slack * ?x" using x by (simp add: slack_def)
  then show "sim_requested s \<le> slack * sim_filled s"
    using r(1) by (simp add: pos_le_divide_eq)
qed

lemma slack_9: "slack ^ 9 \<le> 1 + 1 / 10 ^ 26"
  by (simp add: slack_def power_divide)

text \<open>
  What the profit test says of the exact amounts: the price of a set, the buffer of the cycle and the
  minimum profit leave, for the target number of shares, no more than one dollar a share.
\<close>

lemma buy_merge_price:
  assumes pol: "valid_structural_policy policy"
    and prof: "combined_and_profit BUY_MERGE (stp_target_shares policy) up down = Inr (c, g)"
    and net: "stp_minimum_net_profit policy
      \<le> dsub g (ddiv (dmul (stp_target_shares policy) (stp_cycle_buffer_bps policy)) 10000)"
    and legs: "sim_all_in up = Some u" "sim_all_in down = Some d" "0 \<le> u" "0 \<le> d"
  shows "c = dadd u d" "stp_target_shares policy * (u + d) + stp_target_shares policy * stp_cycle_buffer_bps policy / 10000
      + stp_minimum_net_profit policy \<le> slack ^ 4 * stp_target_shares policy"
proof -
  let ?t = "stp_target_shares policy" and ?m = "stp_minimum_net_profit policy"
  let ?b = "?t * stp_cycle_buffer_bps policy"
  define cyc where "cyc = ddiv (dmul ?t (stp_cycle_buffer_bps policy)) 10000"
  have gc: "c = dadd u d" "g = dmul ?t (dsub 1 c)"
    using prof legs by (auto simp: combined_and_profit_def Let_def)
  then show "c = dadd u d" by simp
  have p: "0 < ?t" "0 \<le> ?m" "0 \<le> stp_cycle_buffer_bps policy"
    using pol by (auto simp: valid_structural_policy_def structural_policy_checks_def)
  have b: "0 \<le> ?b" using p by simp
  have cyc: "0 \<le> cyc" "?b / 10000 \<le> slack ^ 2 * cyc"
  proof -
    show "0 \<le> cyc" using b by (simp add: cyc_def ddiv_def dmul_def ctx_nonneg_iff)
    have "?b \<le> slack * dmul ?t (stp_cycle_buffer_bps policy)" using ctx_slack [OF b] by (simp add: dmul_def)
    moreover have "dmul ?t (stp_cycle_buffer_bps policy) / 10000 \<le> slack * cyc"
      unfolding cyc_def ddiv_def by (rule ctx_slack) (use b in \<open>simp add: dmul_def ctx_nonneg_iff\<close>)
    moreover from this have "slack * (dmul ?t (stp_cycle_buffer_bps policy) / 10000) \<le> slack * (slack * cyc)"
      using slack_ge_1 by (intro mult_left_mono) simp_all
    ultimately have "?b / 10000 \<le> slack * (slack * cyc)" by (simp add: field_simps)
    then show "?b / 10000 \<le> slack ^ 2 * cyc" by (simp add: power2_eq_square)
  qed
  have net': "0 \<le> g - cyc" "?m \<le> slack * (g - cyc)"
  proof -
    have "0 \<le> ctx (g - cyc)" using net p(2) by (simp add: dsub_def flip: cyc_def)
    then show "0 \<le> g - cyc" by (simp only: ctx_nonneg_iff)
    then show "?m \<le> slack * (g - cyc)" using ctx_le_slack [of "g - cyc"] net by (simp add: dsub_def flip: cyc_def)
  qed
  have "0 \<le> g" using net'(1) cyc(1) by simp
  then have pos: "0 \<le> ?t * dsub 1 c" by (simp only: gc(2) dmul_def ctx_nonneg_iff)
  then have c1: "0 \<le> 1 - c" using p(1) by (simp add: zero_le_mult_iff dsub_def ctx_nonneg_iff)
  have g: "g \<le> slack ^ 2 * (?t * (1 - c))"
  proof -
    have "g \<le> slack * (?t * dsub 1 c)" using ctx_le_slack [OF pos] by (simp add: gc(2) dmul_def)
    also have "\<dots> \<le> slack * (?t * (slack * (1 - c)))"
      using ctx_le_slack [OF c1] p(1) slack_ge_1 by (simp add: dsub_def mult_left_mono)
    finally show ?thesis by (simp add: power2_eq_square mult_ac)
  qed
  have ud: "?t * (u + d) \<le> slack ^ 4 * (?t * c)"
  proof -
    have c0: "0 \<le> c" using legs(3,4) by (simp add: gc(1) dadd_def ctx_nonneg_iff)
    have "u + d \<le> slack * c" using slack_step [OF legs(3,4)] by (simp add: gc(1))
    also have "\<dots> \<le> slack ^ 4 * c" using c0 self_le_power [of slack 4] slack_ge_1 by (intro mult_right_mono) simp_all
    finally show ?thesis using p(1) by (simp add: mult_ac)
  qed
  have "?b / 10000 + ?m \<le> slack ^ 2 * cyc + slack * (g - cyc)" using cyc(2) net'(2) by simp
  also have "\<dots> \<le> slack ^ 2 * cyc + slack ^ 2 * (g - cyc)"
    using net'(1) self_le_power [of slack 2] slack_ge_1 by (simp add: mult_right_mono)
  also have "\<dots> = slack ^ 2 * g" by (simp add: algebra_simps)
  also have "\<dots> \<le> slack ^ 2 * (slack ^ 2 * (?t * (1 - c)))" using g slack_ge_1 by (intro mult_left_mono) simp_all
  finally have "?b / 10000 + ?m \<le> slack ^ 4 * (?t * (1 - c))" by (simp add: power4_eq_xxxx power2_eq_square mult_ac)
  with ud show "?t * (u + d) + ?b / 10000 + ?m \<le> slack ^ 4 * ?t" by (simp add: algebra_simps)
qed

lemma leg_cost:
  assumes sim: "simulate_depth b f BUY n 1 TAKER t pp = Inr s"
    and full: "sim_fill_fraction s = 1" and all_in: "sim_all_in s = Some u"
  shows "0 \<le> u" "exact_cost s \<le> slack ^ 4 * (n * u)" "n \<le> slack * sim_filled s"
    "sim_filled s \<le> n" "0 < sim_filled s" "0 < n"
proof -
  obtain fs rest where d: "depth_result b BUY n (eligible_levels b BUY 1) t pp fs rest = Inr s"
    using sim by (rule simulate_depth_Inr)
  note v = depth_result_fields [OF d] and a = depth_result_all_in [OF d all_in]
  note fr = full_fraction [OF v(1) full]
  show fills: "n \<le> slack * sim_filled s" "sim_filled s \<le> n" "0 < sim_filled s" "0 < n"
    using fr v(3) by simp_all
  have "0 \<le> sim_gross s" "0 \<le> sim_fee s" "0 \<le> sim_fee_buffer s" "0 \<le> sim_slippage_buffer s"
    using v(1) by (auto simp: valid_simulation_def simulation_amount_checks_def)
  then show u0: "0 \<le> u" unfolding a(2) using fills(3) by (simp add: ddiv_def dadd_def)
  have "exact_cost s \<le> slack ^ 4 * (sim_filled s * u)"
    using all_in_covers_cost [OF v(1) refl fills(3)] all_in a(2) by simp
  also have "\<dots> \<le> slack ^ 4 * (n * u)"
    using u0 fills(2) slack_ge_1 by (intro mult_left_mono mult_right_mono) auto
  finally show "exact_cost s \<le> slack ^ 4 * (n * u)" .
qed

text \<open>
  C3: A buy-and-merge opportunity is sound arbitrage. Whenever the scanner reports one, both books
  belong to the market's condition and to its UP and DOWN tokens, both legs fill, and no leg fills more
  than the target. The sets that can be merged pay one dollar each, and that pays for everything: the
  exact cost of both legs - gross notional, fees, fee and slippage buffers, from executable depth only -
  the buffer of the cycle on the target, and the policy's minimum net profit, up to the relative
  rounding of the decimal context. The reported profit is at least that minimum.
\<close>

theorem buy_merge_is_sound:
  assumes pol: "valid_structural_policy policy"
    and scan: "scan_complete_set m ub db uf df BUY_MERGE t policy = Inr sc"
    and some: "scan_opportunity sc = Some opp"
  shows "token_by_side m UP = Some (pmb_token_id ub) \<and> token_by_side m DOWN = Some (pmb_token_id db)
     \<and> pmb_condition_id ub = mkt_condition_id m \<and> pmb_condition_id db = mkt_condition_id m
     \<and> so_shares opp = stp_target_shares policy
     \<and> 0 < min (sim_filled (so_up opp)) (sim_filled (so_down opp))
     \<and> max (sim_filled (so_up opp)) (sim_filled (so_down opp)) \<le> so_shares opp
     \<and> exact_cost (so_up opp) + exact_cost (so_down opp)
         + stp_target_shares policy * stp_cycle_buffer_bps policy / 10000 + stp_minimum_net_profit policy
       \<le> (1 + 1 / 10 ^ 26) * min (sim_filled (so_up opp)) (sim_filled (so_down opp))
     \<and> stp_minimum_net_profit policy \<le> so_net_profit opp"
proof -
  let ?up = "so_up opp" and ?down = "so_down opp" and ?t = "stp_target_shares policy"
  let ?rest = "?t * stp_cycle_buffer_bps policy / 10000 + stp_minimum_net_profit policy"
  let ?n = "min (sim_filled ?up) (sim_filled ?down)"
  note origin = scan_opportunity_origin [OF scan some]
  obtain g where g: "combined_and_profit BUY_MERGE ?t ?up ?down = Inr (so_combined_price opp, g)"
    "so_net_profit opp = dsub g (so_cycle_buffer opp)" using origin(7) by blast
  obtain u d where ud: "sim_all_in ?up = Some u" "sim_all_in ?down = Some d"
    using g(1) by (auto simp: combined_and_profit_def Let_def split: option.splits)
  note cu = leg_cost [OF origin(3) [simplified] origin(5) ud(1)]
  note cd = leg_cost [OF origin(4) [simplified] origin(6) ud(2)]
  have price: "?t * (u + d) + ?rest \<le> slack ^ 4 * ?t"
    using buy_merge_price(2) [OF pol g(1) _ ud cu(1) cd(1)] g(2) origin(8,9) by simp
  have rest: "0 \<le> ?rest"
    using pol cu(6) by (auto simp: valid_structural_policy_def structural_policy_checks_def)
  have "exact_cost ?up + exact_cost ?down + ?rest \<le> slack ^ 4 * (?t * (u + d)) + slack ^ 4 * ?rest"
    using cu(2) cd(2) mult_right_mono [of 1 "slack ^ 4" ?rest] slack_ge_1 rest by (simp add: distrib_left)
  also have "\<dots> \<le> slack ^ 4 * (slack ^ 4 * ?t)"
    unfolding distrib_left [symmetric] using price slack_ge_1 by (intro mult_left_mono) simp_all
  also have "\<dots> \<le> slack ^ 4 * (slack ^ 4 * (slack * ?n))"
    using cu(3) cd(3) slack_ge_1 by (intro mult_left_mono) (auto simp: min_def)
  also have "\<dots> = slack ^ 9 * ?n" by (simp add: eval_nat_numeral mult_ac)
  also have "\<dots> \<le> (1 + 1 / 10 ^ 26) * ?n"
    using cu(5) cd(5) slack_9 by (intro mult_right_mono) auto
  finally show ?thesis
    using pair_identity_facts [OF origin(1)] cu(4,5) cd(4,5) origin(9,10) by simp
qed

definition leg_book :: "string \<Rightarrow> dec \<Rightarrow> polymarket_book" where
  "leg_book token price = \<lparr>pmb_condition_id = ''c1'', pmb_token_id = token, pmb_bids = [],
     pmb_asks = [\<lparr>pml_price = price, pml_quantity = 20\<rparr>], pmb_checksum = ''x'',
     pmb_minimum_order_size = 1, pmb_tick_size = 1 / 100,
     pmb_lineage = sample_lineage_at POLYMARKET_CLOB\<rparr>"

definition two_sided_market :: market where
  "two_sided_market = \<lparr>mkt_id = ''m1'', mkt_condition_id = ''c1'', mkt_asset = BTC,
     mkt_horizon = FIVE_MINUTES,
     mkt_tokens = [\<lparr>tok_id = ''up'', tok_outcome = UP\<rparr>, \<lparr>tok_id = ''down'', tok_outcome = DOWN\<rparr>],
     mkt_window_start = seconds 1700000100, mkt_window_end = seconds 1700000400,
     mkt_settlement_source = ''s''\<rparr>"

definition sample_structural_policy :: structural_policy where
  "sample_structural_policy = \<lparr>stp_target_shares = 10, stp_minimum_net_profit = 1,
     stp_cycle_buffer_bps = 0, stp_max_pair_skew = seconds 1,
     stp_pricing = \<lparr>pp_max_book_age = seconds 5, pp_max_fee_age = seconds 60,
       pp_slippage_buffer_bps = 0, pp_fee_buffer_bps = 0\<rparr>\<rparr>"

definition zero_fees :: fee_schedule where
  "zero_fees = sample_fees\<lparr>fs_taker_base_bps := 0, fs_taker_fee_mode := ''bps''\<rparr>"

lemmas sample_structural_defs = leg_book_def two_sided_market_def sample_structural_policy_def
  sample_pricing_defs


lemma half_up_0 [simp]: "half_up 0 = 0"
  by (simp add: half_up_def floor_eq_iff)

lemma zero_fee_quote: "0 < q \<Longrightarrow> 0 \<le> p \<Longrightarrow> p \<le> 1 \<Longrightarrow> quote_fee zero_fees q p TAKER =
  Inr \<lparr>fq_condition_id = ''c1'', fq_formula_version = fee_formula_version, fq_role = TAKER,
    fq_quantity = q, fq_price = p, fq_fee = 0, fq_lineage = sample_lineage_at POLYMARKET_GAMMA\<rparr>"
  by (simp add: quote_fee_def raw_taker_fee_def zero_fees_def sample_fees_def dmul_def ddiv_def
    quantize_half_up_def mk_fee_quote_def fee_quote_checks_def fee_formula_version_def py_space_def)

lemma leg_consume:
  assumes "p = 40 / 100 \<or> p = 50 / 100"
  shows "consume zero_fees TAKER [\<lparr>pml_price = p, pml_quantity = 20\<rparr>] 10
    = Inr ([\<lparr>df_price = p, df_quantity = 10, df_gross = 10 * p, df_fee = 0\<rparr>], 0)"
  using assms
  by (elim disjE ssubst; simp add: zero_fee_quote mk_depth_fill_def depth_fill_checks_def dmul_def dsub_def
    ctx_eval)

lemma leg_result:
  assumes "p = 40 / 100 \<or> p = 50 / 100" "tk = ''up'' \<or> tk = ''down''"
  shows "\<exists>s. depth_result (leg_book tk p) BUY 10 [\<lparr>pml_price = p, pml_quantity = 20\<rparr>] t
      (stp_pricing sample_structural_policy)
      [\<lparr>df_price = p, df_quantity = 10, df_gross = 10 * p, df_fee = 0\<rparr>] 0 = Inr s
    \<and> sim_fill_fraction s = 1 \<and> sim_all_in s = Some p \<and> sim_filled s = 10"
  using assms
  by (elim disjE ssubst; simp add: depth_result_def Let_def bps_of_def mk_depth_simulation_Inr_iff
    valid_simulation_def simulation_amount_checks_def simulation_price_checks_def dsum_def
    dec_op_defs ctx_eval sample_structural_policy_def leg_book_def py_space_def)

lemma leg_simulation:
  assumes "p = 40 / 100 \<or> p = 50 / 100" "tk = ''up'' \<or> tk = ''down''"
    and "seconds 1700000001 \<le> t" "t \<le> seconds 1700000004"
  shows "\<exists>s. simulate_depth (leg_book tk p) zero_fees BUY 10 1 TAKER t
      (stp_pricing sample_structural_policy) = Inr s
    \<and> sim_fill_fraction s = 1 \<and> sim_all_in s = Some p \<and> sim_filled s = 10"
proof -
  have "eligible_levels (leg_book tk p) BUY 1 = [\<lparr>pml_price = p, pml_quantity = 20\<rparr>]"
    using assms(1) by (auto simp: eligible_levels_def leg_book_def)
  then show ?thesis
    using leg_consume [OF assms(1)] leg_result [OF assms(1,2), of t] assms(3,4)
    by (simp add: simulate_depth_def fresh_book_checks_def require_fee_schedule_def Let_def
      zero_fees_def sample_structural_defs)
qed

lemma sample_scan:
  "\<exists>sc opp. scan_complete_set two_sided_market (leg_book ''up'' (40 / 100)) (leg_book ''down'' (50 / 100))
      zero_fees zero_fees BUY_MERGE (seconds 1700000003) sample_structural_policy = Inr sc
    \<and> scan_opportunity sc = Some opp \<and> so_net_profit opp = 1"
proof -
  obtain u where u: "simulate_depth (leg_book ''up'' (40 / 100)) zero_fees BUY 10 1 TAKER
      (seconds 1700000003) (stp_pricing sample_structural_policy) = Inr u"
    "sim_fill_fraction u = 1" "sim_all_in u = Some (40 / 100)"
    using leg_simulation [of "40 / 100" "''up''" "seconds 1700000003"] by (auto simp: seconds_def)
  obtain d where d: "simulate_depth (leg_book ''down'' (50 / 100)) zero_fees BUY 10 1 TAKER
      (seconds 1700000003) (stp_pricing sample_structural_policy) = Inr d"
    "sim_fill_fraction d = 1" "sim_all_in d = Some (50 / 100)"
    using leg_simulation [of "50 / 100" "''down''" "seconds 1700000003"] by (auto simp: seconds_def)
  have "require_pair_identity two_sided_market (leg_book ''up'' (40 / 100)) (leg_book ''down'' (50 / 100))
      = Inr ()"
    by (simp add: require_pair_identity_def token_of_def token_by_side_def two_sided_market_def leg_book_def)
  moreover have "require_synchronized (leg_book ''up'' (40 / 100)) (leg_book ''down'' (50 / 100))
      (stp_max_pair_skew sample_structural_policy) = Inr ()"
    by (simp add: require_synchronized_def sample_structural_defs)
  moreover have "stp_target_shares sample_structural_policy = 10"
    "stp_cycle_buffer_bps sample_structural_policy = 0"
    "stp_minimum_net_profit sample_structural_policy = 1"
    by (simp_all add: sample_structural_policy_def)
  moreover have "combined_and_profit BUY_MERGE 10 u d = Inr (90 / 100, 1)"
    by (simp add: combined_and_profit_def u d dec_op_defs ctx_eval)
  moreover have "dsub 1 0 = 1" "ddiv (dmul 10 0) 10000 = 0"
    by (simp_all add: dec_op_defs ctx_eval)
  moreover have "mkt_id two_sided_market = ''m1''" "mkt_condition_id two_sided_market = ''c1''"
    by (simp_all add: two_sided_market_def)
  moreover obtain ident where "''c1'' @ '':'' @ structural_action_value BUY_MERGE @ '':''
      @ show_int (int_timestamp_ms (seconds 1700000003)) = ident" "require_text ''opportunity_id'' ident = None"
    using show_int_last by (auto simp: py_space_def)
  ultimately show ?thesis
    using u d
    by (simp add: scan_complete_set_def mk_opportunity_def opportunity_checks_def mk_scan_def Let_def
      py_space_def)
qed

theorem buy_merge_is_sound_witness:
  "\<exists>sc opp. scan_complete_set two_sided_market (leg_book ''up'' (40 / 100)) (leg_book ''down'' (50 / 100))
      zero_fees zero_fees BUY_MERGE (seconds 1700000003) sample_structural_policy = Inr sc
    \<and> scan_opportunity sc = Some opp \<and> so_net_profit opp = 1
    \<and> exact_cost (so_up opp) + exact_cost (so_down opp)
        + stp_target_shares sample_structural_policy * stp_cycle_buffer_bps sample_structural_policy / 10000
        + stp_minimum_net_profit sample_structural_policy
      \<le> (1 + 1 / 10 ^ 26) * min (sim_filled (so_up opp)) (sim_filled (so_down opp))"
proof -
  have valid: "valid_structural_policy sample_structural_policy"
    by (simp add: valid_structural_policy_def structural_policy_checks_def valid_pricing_policy_def
      pricing_policy_checks_def sample_structural_policy_def seconds_def)
  obtain sc opp where s: "scan_complete_set two_sided_market (leg_book ''up'' (40 / 100)) (leg_book ''down'' (50 / 100))
      zero_fees zero_fees BUY_MERGE (seconds 1700000003) sample_structural_policy = Inr sc"
    "scan_opportunity sc = Some opp" "so_net_profit opp = 1" using sample_scan by blast
  show ?thesis using buy_merge_is_sound [OF valid s(1,2)] s by (intro exI [of _ sc] exI [of _ opp]) (simp only: simp_thms)
qed

section \<open>The lifetime of an opportunity\<close>

record opportunity_window =
  ow_key :: string
  ow_first_seen :: utc
  ow_last_seen :: utc
  ow_peak :: dec
  ow_observations :: int
  ow_closed_at :: "utc option"

definition opportunity_window_checks :: "opportunity_window \<Rightarrow> check list" where
  "opportunity_window_checks w =
     [require_text ''key'' (ow_key w),
      fail_if (ow_observations w < 1) (ValueErr ''observations must be positive''),
      fail_if (ow_last_seen w < ow_first_seen w) (ValueErr ''first_seen_at cannot follow last_seen_at''),
      fail_if (case ow_closed_at w of None \<Rightarrow> False | Some c \<Rightarrow> c < ow_last_seen w)
        (ValueErr ''closed_at cannot precede last_seen_at'')]"

definition mk_opportunity_window :: "opportunity_window \<Rightarrow> opportunity_window result" where
  "mk_opportunity_window w = checked (opportunity_window_checks w) (Inr w)"

definition opportunity_key :: "structural_opportunity \<Rightarrow> string" where
  "opportunity_key opp = so_condition_id opp @ '':'' @ structural_action_value (so_action opp)"

text \<open>
  \<open>OpportunityLifetimeTracker\<close>: its state is \<open>current\<close>. A constructor that raises leaves it as it
  was, since the assignment follows the construction.
\<close>

type_synonym lifetime_tracker = "opportunity_window option"

definition next_window :: "lifetime_tracker \<Rightarrow> structural_opportunity \<Rightarrow> opportunity_window" where
  "next_window current opp =
     (let key = opportunity_key opp;
          opened = \<lparr>ow_key = key, ow_first_seen = so_observed_at opp, ow_last_seen = so_observed_at opp,
            ow_peak = so_net_profit opp, ow_observations = 1, ow_closed_at = None\<rparr>
      in case current of
           None \<Rightarrow> opened
         | Some w \<Rightarrow>
            (if ow_key w \<noteq> key \<or> ow_closed_at w \<noteq> None then opened
             else \<lparr>ow_key = key, ow_first_seen = ow_first_seen w, ow_last_seen = so_observed_at opp,
               ow_peak = max (ow_peak w) (so_net_profit opp),
               ow_observations = ow_observations w + 1, ow_closed_at = None\<rparr>))"

definition observe :: "lifetime_tracker \<Rightarrow> structural_opportunity \<Rightarrow>
    lifetime_tracker \<times> opportunity_window result" where
  "observe current opp = (case mk_opportunity_window (next_window current opp) of
       Inl e \<Rightarrow> (current, Inl e) | Inr w \<Rightarrow> (Some w, Inr w))"

definition close_window :: "lifetime_tracker \<Rightarrow> utc \<Rightarrow> lifetime_tracker \<times> lifetime_tracker result" where
  "close_window current closed_at = (case current of
       None \<Rightarrow> (current, Inr current)
     | Some w \<Rightarrow>
        (if ow_closed_at w \<noteq> None then (current, Inr current)
         else (case mk_opportunity_window (w\<lparr>ow_closed_at := Some closed_at\<rparr>) of
             Inl e \<Rightarrow> (current, Inl e) | Inr w' \<Rightarrow> (Some w', Inr (Some w')))))"

definition observe_all :: "lifetime_tracker \<Rightarrow> structural_opportunity list \<Rightarrow> lifetime_tracker" where
  "observe_all current opps = foldl (\<lambda>c opp. fst (observe c opp)) current opps"

definition summarises :: "opportunity_window \<Rightarrow> structural_opportunity list \<Rightarrow> bool" where
  "summarises w opps \<longleftrightarrow> opps \<noteq> [] \<and> ow_key w = opportunity_key (hd opps)
     \<and> ow_first_seen w = so_observed_at (hd opps) \<and> ow_last_seen w = so_observed_at (last opps)
     \<and> ow_peak w = Max (so_net_profit ` set opps) \<and> ow_observations w = int (length opps)
     \<and> ow_closed_at w = None"

lemma observe_extends:
  assumes "summarises w opps" "opportunity_key opp = opportunity_key (hd opps)"
    and "require_text ''key'' (opportunity_key opp) = None"
    and "so_observed_at (hd opps) \<le> so_observed_at opp"
  shows "\<exists>w'. observe (Some w) opp = (Some w', Inr w') \<and> summarises w' (opps @ [opp])"
proof -
  have "next_window (Some w) opp = \<lparr>ow_key = opportunity_key opp,
      ow_first_seen = so_observed_at (hd opps), ow_last_seen = so_observed_at opp,
      ow_peak = max (Max (so_net_profit ` set opps)) (so_net_profit opp),
      ow_observations = int (length opps) + 1, ow_closed_at = None\<rparr>"
    using assms(1,2) by (simp add: next_window_def summarises_def Let_def)
  moreover have "opps \<noteq> []" using assms(1) by (simp add: summarises_def)
  moreover have "Max (so_net_profit ` set (opps @ [opp]))
      = max (Max (so_net_profit ` set opps)) (so_net_profit opp)"
    using \<open>opps \<noteq> []\<close> by (simp add: max.commute)
  ultimately show ?thesis
    using assms(2-4)
    by (simp add: observe_def mk_opportunity_window_def opportunity_window_checks_def
      summarises_def del: require_text_None)
qed

lemma observe_all_summarises:
  assumes "opps \<noteq> []" "\<forall>opp\<in>set opps. opportunity_key opp = k" "require_text ''key'' k = None"
    and "sorted (map so_observed_at opps)"
  shows "\<exists>w. observe_all None opps = Some w \<and> summarises w opps"
  using assms(1,2,4)
proof (induction opps rule: rev_nonempty_induct)
  case (single opp)
  have "next_window None opp = \<lparr>ow_key = k, ow_first_seen = so_observed_at opp,
      ow_last_seen = so_observed_at opp, ow_peak = so_net_profit opp, ow_observations = 1,
      ow_closed_at = None\<rparr>"
    using single by (simp add: next_window_def Let_def)
  then show ?case
    using single assms(3)
    by (simp add: observe_all_def observe_def mk_opportunity_window_def
      opportunity_window_checks_def summarises_def del: require_text_None)
next
  case (snoc opp opps)
  then obtain w where w: "observe_all None opps = Some w" "summarises w opps"
    by (auto simp: sorted_append)
  have "hd opps \<in> set opps" using snoc.hyps by simp
  then have "\<exists>w'. observe (Some w) opp = (Some w', Inr w') \<and> summarises w' (opps @ [opp])"
    using snoc.prems assms(3) by (intro observe_extends [OF w(2)]) (auto simp: sorted_append)
  then show ?case using w(1) by (auto simp: observe_all_def)
qed

text \<open>
  A run of observations of one opportunity in time order is one window: it opens with the first,
  its last sighting is the last, its peak is the largest profit of the run, it counts every
  observation, and closing it at any later instant succeeds and keeps all of this.
\<close>

theorem lifetime_window_summarises_run:
  assumes "opps \<noteq> []" "\<forall>opp\<in>set opps. opportunity_key opp = k" "require_text ''key'' k = None"
    and "sorted (map so_observed_at opps)" "so_observed_at (last opps) \<le> closed_at"
  shows "\<exists>w. observe_all None opps = Some w \<and> summarises w opps
     \<and> close_window (observe_all None opps) closed_at
       = (Some (w\<lparr>ow_closed_at := Some closed_at\<rparr>), Inr (Some (w\<lparr>ow_closed_at := Some closed_at\<rparr>)))"
proof -
  obtain w where w: "observe_all None opps = Some w" "summarises w opps"
    using observe_all_summarises [OF assms(1-4)] by blast
  have "hd opps \<in> set opps" using assms(1) by simp
  then have "ow_key w = k" using w(2) assms(2) by (simp add: summarises_def)
  moreover have "so_observed_at (hd opps) \<le> so_observed_at (last opps)"
    using assms(1,4) by (cases opps) auto
  moreover have "1 \<le> length opps" using assms(1) by (cases opps) auto
  ultimately have "mk_opportunity_window (w\<lparr>ow_closed_at := Some closed_at\<rparr>)
      = Inr (w\<lparr>ow_closed_at := Some closed_at\<rparr>)"
    using w(2) assms(3,5)
    by (simp add: mk_opportunity_window_def opportunity_window_checks_def summarises_def
      del: require_text_None)
  with w show ?thesis by (simp add: close_window_def summarises_def)
qed

definition unfilled_simulation :: depth_simulation where
  "unfilled_simulation = \<lparr>sim_condition_id = ''c1'', sim_token_id = ''up'', sim_side = BUY,
     sim_requested = 10, sim_depth = 0, sim_filled = 0, sim_fill_fraction = 0, sim_fills = [],
     sim_gross = 0, sim_fee = 0, sim_fee_buffer = 0, sim_slippage_buffer = 0, sim_vwap = None,
     sim_worst = None, sim_impact = None, sim_all_in = None, sim_net_proceeds = None, sim_at = 0\<rparr>"

definition sample_opportunity :: "utc \<Rightarrow> dec \<Rightarrow> structural_opportunity" where
  "sample_opportunity t profit = \<lparr>so_id = ''o'', so_action = BUY_MERGE, so_market_id = ''m1'',
     so_condition_id = ''c1'', so_shares = 10, so_up = unfilled_simulation,
     so_down = unfilled_simulation,
     so_combined_price = 9 / 10, so_cycle_buffer = 0, so_net_profit = profit, so_observed_at = t\<rparr>"

theorem lifetime_window_summarises_run_witness:
  "\<exists>w. observe_all None [sample_opportunity 5 1, sample_opportunity 7 3, sample_opportunity 9 2] = Some w
     \<and> ow_peak w = 3 \<and> ow_observations w = 3 \<and> ow_first_seen w = 5 \<and> ow_last_seen w = 9"
proof -
  let ?os = "[sample_opportunity 5 1, sample_opportunity 7 3, sample_opportunity 9 2]"
  have "\<exists>w. observe_all None ?os = Some w \<and> summarises w ?os"
    using lifetime_window_summarises_run [of ?os "''c1:BUY_MERGE''" 11]
    by (auto simp: sample_opportunity_def opportunity_key_def py_space_def)
  then show ?thesis by (auto simp: summarises_def sample_opportunity_def)
qed

end
