(* ===== verification/Risk.thy ===== *)
theory Risk
  imports Trading_Contracts Gates
begin

text \<open>
  \<open>risk/engine.py\<close>: the pure portfolio and liquidity assessment. The reason list of the code is
  built in source order by \<open>portfolio_reasons\<close> and \<open>liquidity_reasons\<close>; unknown portfolio state is
  a reason of its own. The lemmas show what an approval guarantees about exposure, bankroll, losses
  and liquidity, that the assessment never raises, and that it is a fail-closed gate.
\<close>

section \<open>Evidence and policy\<close>

record open_exposure =
  oe_position_id :: string
  oe_market_id :: string
  oe_asset :: asset
  oe_horizon :: horizon
  oe_capital :: dec
  oe_window_end :: utc

definition open_exposure_checks :: "open_exposure \<Rightarrow> check list" where
  "open_exposure_checks e =
     [require_text ''position_id'' (oe_position_id e),
      require_text ''market_id'' (oe_market_id e),
      positive ''capital_at_risk'' (oe_capital e)]"

definition valid_exposure :: "open_exposure \<Rightarrow> bool" where
  "valid_exposure e \<longleftrightarrow> passes (open_exposure_checks e)"

record liquidity_evidence =
  le_observed_at :: utc
  le_source_age :: timedelta
  le_spread :: dec
  le_executable_depth :: dec
  le_required_depth :: dec
  le_price_impact :: dec
  le_persistence_ratio :: dec
  le_persistence_observations :: int
  le_sequence_valid :: bool
  le_transport_healthy :: bool
  le_fee_schedule_available :: bool

definition liquidity_evidence_checks :: "liquidity_evidence \<Rightarrow> check list" where
  "liquidity_evidence_checks l =
     [fail_if (le_source_age l < 0) (ValueErr ''source_age must be non-negative''),
      in_unit ''spread'' (le_spread l),
      non_negative ''executable_depth'' (le_executable_depth l),
      non_negative ''required_depth'' (le_required_depth l),
      in_unit ''price_impact'' (le_price_impact l),
      in_unit ''persistence_ratio'' (le_persistence_ratio l),
      fail_if (le_required_depth l \<le> 0) (ValueErr ''required_depth must be positive''),
      fail_if (le_persistence_observations l < 0)
        (ValueErr ''persistence_observations must be a non-negative integer'')]"

record portfolio_state =
  ps_bankroll :: "dec option"
  ps_exposures :: "open_exposure list option"
  ps_realized_pnl :: "dec option"
  ps_drawdown :: "dec option"
  ps_consecutive_losses :: "int option"
  ps_cooldown_until :: "utc option"
  ps_kill_switch :: bool
  ps_ledger_reconciled :: bool
  ps_assessed_at :: utc

definition optional_checks :: "('a \<Rightarrow> check list) \<Rightarrow> 'a option \<Rightarrow> check list" where
  "optional_checks cs v = (case v of None \<Rightarrow> [] | Some x \<Rightarrow> cs x)"

lemma passes_optional_checks [simp]:
  "passes (optional_checks cs v) \<longleftrightarrow> (\<forall>x\<in>set_option v. passes (cs x))"
  by (cases v) (simp_all add: optional_checks_def)

definition portfolio_state_checks :: "portfolio_state \<Rightarrow> check list" where
  "portfolio_state_checks s =
     optional_checks (\<lambda>x. [non_negative ''bankroll_available'' x]) (ps_bankroll s) @
     optional_checks (\<lambda>es. [require_unique ''position IDs'' (map oe_position_id es)]) (ps_exposures s) @
     optional_checks (\<lambda>x. [require_decimal ''realized_pnl_today'' (Fin x) None None False])
       (ps_realized_pnl s) @
     optional_checks (\<lambda>x. [non_negative ''drawdown'' x]) (ps_drawdown s) @
     optional_checks (\<lambda>n. [fail_if (n < 0) (ValueErr ''consecutive_losses must be a non-negative integer'')])
       (ps_consecutive_losses s)"

definition valid_portfolio :: "portfolio_state \<Rightarrow> bool" where
  "valid_portfolio s \<longleftrightarrow> passes (portfolio_state_checks s)
     \<and> (\<forall>es\<in>set_option (ps_exposures s). list_all valid_exposure es)"

record risk_policy =
  rp_maximum_positions :: int
  rp_maximum_total :: dec
  rp_maximum_per_asset :: dec
  rp_maximum_per_horizon :: dec
  rp_maximum_cluster :: dec
  rp_maximum_overlap :: int
  rp_maximum_stake :: dec
  rp_maximum_daily_loss :: dec
  rp_maximum_drawdown :: dec
  rp_loss_limit :: int
  rp_maximum_state_age :: timedelta
  rp_maximum_book_age :: timedelta
  rp_maximum_spread :: dec
  rp_maximum_impact :: dec
  rp_minimum_persistence :: dec
  rp_minimum_observations :: int

definition risk_policy_checks :: "risk_policy \<Rightarrow> check list" where
  "risk_policy_checks p =
     map (\<lambda>(n, v). fail_if (v < 1) (ValueErr (n @ '' must be a positive integer'')))
       [(''maximum_positions'', rp_maximum_positions p),
        (''maximum_overlapping_positions_per_asset'', rp_maximum_overlap p),
        (''consecutive_loss_limit'', rp_loss_limit p),
        (''minimum_persistence_observations'', rp_minimum_observations p)] @
     map (\<lambda>(n, v). positive n v)
       [(''maximum_total_exposure'', rp_maximum_total p),
        (''maximum_per_asset_exposure'', rp_maximum_per_asset p),
        (''maximum_per_horizon_exposure'', rp_maximum_per_horizon p),
        (''maximum_crypto_cluster_exposure'', rp_maximum_cluster p),
        (''maximum_directional_stake'', rp_maximum_stake p),
        (''maximum_daily_loss'', rp_maximum_daily_loss p),
        (''maximum_drawdown'', rp_maximum_drawdown p)] @
     [in_unit ''maximum_spread'' (rp_maximum_spread p),
      in_unit ''maximum_price_impact'' (rp_maximum_impact p),
      in_unit ''minimum_depth_persistence'' (rp_minimum_persistence p),
      fail_if (rp_maximum_state_age p \<le> 0 \<or> rp_maximum_book_age p \<le> 0)
        (ValueErr ''state and book maximum ages must be positive'')]"

definition valid_risk_policy :: "risk_policy \<Rightarrow> bool" where
  "valid_risk_policy p \<longleftrightarrow> passes (risk_policy_checks p)"

section \<open>The assessment\<close>

definition active_exposures :: "utc \<Rightarrow> open_exposure list \<Rightarrow> open_exposure list" where
  "active_exposures t es = filter (\<lambda>e. t < oe_window_end e) es"

definition capital_sum :: "open_exposure list \<Rightarrow> dec" where
  "capital_sum es = dsum (map oe_capital es)"

definition portfolio_reasons :: "strategy_candidate \<Rightarrow> asset \<Rightarrow> horizon \<Rightarrow> open_exposure list \<Rightarrow> dec \<Rightarrow>
    dec \<Rightarrow> dec \<Rightarrow> int \<Rightarrow> utc option \<Rightarrow> risk_policy \<Rightarrow> utc \<Rightarrow> string list" where
  "portfolio_reasons c a h exposures bankroll pnl drawdown losses cooldown p t =
     (let active = active_exposures t exposures;
          requested = cand_required_capital c;
          total = capital_sum active;
          asset_total = capital_sum (filter (\<lambda>e. oe_asset e = a) active);
          horizon_total = capital_sum (filter (\<lambda>e. oe_horizon e = h) active);
          overlap = int (length (filter (\<lambda>e. oe_asset e = a) active))
      in reasons_of
        [(rp_maximum_positions p \<le> int (length active), ''MAXIMUM_POSITIONS''),
         (bankroll < requested, ''INSUFFICIENT_BANKROLL''),
         (rp_maximum_total p < dadd total requested, ''TOTAL_EXPOSURE_LIMIT''),
         (rp_maximum_per_asset p < dadd asset_total requested, ''ASSET_EXPOSURE_LIMIT''),
         (rp_maximum_per_horizon p < dadd horizon_total requested, ''HORIZON_EXPOSURE_LIMIT''),
         (rp_maximum_cluster p < dadd total requested, ''CRYPTO_CLUSTER_EXPOSURE_LIMIT''),
         (rp_maximum_overlap p \<le> overlap, ''OVERLAPPING_ASSET_LIMIT''),
         (pnl \<le> dneg (rp_maximum_daily_loss p), ''DAILY_LOSS_LIMIT''),
         (rp_maximum_drawdown p \<le> drawdown, ''DRAWDOWN_LIMIT''),
         (rp_loss_limit p \<le> losses \<and> (case cooldown of None \<Rightarrow> False | Some u \<Rightarrow> t < u),
          ''CONSECUTIVE_LOSS_COOLDOWN_ACTIVE'')])"

definition liquidity_reasons :: "liquidity_evidence option \<Rightarrow> risk_policy \<Rightarrow> utc \<Rightarrow> string list" where
  "liquidity_reasons liquidity p t = (case liquidity of
       None \<Rightarrow> [''LIQUIDITY_EVIDENCE_MISSING'']
     | Some l \<Rightarrow> reasons_of
        [(t < le_observed_at l \<or> rp_maximum_book_age p < le_source_age l, ''BOOK_STALE_OR_FUTURE''),
         (\<not> le_transport_healthy l, ''BOOK_TRANSPORT_UNHEALTHY''),
         (\<not> le_sequence_valid l, ''BOOK_SEQUENCE_INVALID''),
         (\<not> le_fee_schedule_available l, ''FEE_SCHEDULE_UNAVAILABLE''),
         (rp_maximum_spread p < le_spread l, ''SPREAD_TOO_WIDE''),
         (le_executable_depth l < le_required_depth l, ''INSUFFICIENT_EXECUTABLE_DEPTH''),
         (rp_maximum_impact p < le_price_impact l, ''PRICE_IMPACT_TOO_HIGH''),
         (le_persistence_observations l < rp_minimum_observations p, ''DEPTH_HISTORY_INSUFFICIENT''),
         (rp_minimum_observations p \<le> le_persistence_observations l
            \<and> le_persistence_ratio l < rp_minimum_persistence p, ''TRANSIENT_LIQUIDITY_RISK'')])"

definition state_reasons :: "strategy_candidate \<Rightarrow> asset \<Rightarrow> horizon \<Rightarrow> portfolio_state \<Rightarrow> risk_policy \<Rightarrow>
    utc \<Rightarrow> string list" where
  "state_reasons c a h s p t =
     (case (ps_bankroll s, ps_exposures s, ps_realized_pnl s, ps_drawdown s, ps_consecutive_losses s) of
        (Some bankroll, Some exposures, Some pnl, Some drawdown, Some losses) \<Rightarrow>
          portfolio_reasons c a h exposures bankroll pnl drawdown losses (ps_cooldown_until s) p t
      | _ \<Rightarrow> [''PORTFOLIO_STATE_INCOMPLETE''])"

definition denial_reasons :: "strategy_candidate \<Rightarrow> asset \<Rightarrow> horizon \<Rightarrow> liquidity_evidence option \<Rightarrow>
    portfolio_state \<Rightarrow> risk_policy \<Rightarrow> utc \<Rightarrow> string list" where
  "denial_reasons c a h liquidity s p t =
     (let state_age = t - ps_assessed_at s in
      reasons_of
        [(cand_expires_at c < t, ''CANDIDATE_EXPIRED''),
         (state_age < 0 \<or> rp_maximum_state_age p < state_age, ''PORTFOLIO_STATE_STALE_OR_FUTURE''),
         (ps_kill_switch s, ''GLOBAL_KILL_SWITCH''),
         (\<not> ps_ledger_reconciled s, ''LEDGER_NOT_RECONCILED'')] @
      state_reasons c a h s p t @
      liquidity_reasons liquidity p t @
      reasons_of
        [(cand_strategy c = DIRECTIONAL_EDGE \<and> rp_maximum_stake p < cand_required_capital c,
          ''DIRECTIONAL_FIXED_STAKE_EXCEEDED'')])"

definition assess_candidate :: "strategy_candidate \<Rightarrow> asset \<Rightarrow> horizon \<Rightarrow> liquidity_evidence option \<Rightarrow>
    portfolio_state \<Rightarrow> risk_policy \<Rightarrow> utc \<Rightarrow> string \<Rightarrow> risk_decision result" where
  "assess_candidate c a h liquidity s p t risk_decision_id =
     checked [require_text ''risk_decision_id'' risk_decision_id]
       (let reasons = denial_reasons c a h liquidity s p t in
        if reasons \<noteq> [] then
          mk_risk_decision \<lparr>rd_id = risk_decision_id, rd_candidate_id = cand_id c, rd_approved = False,
            rd_approved_capital = 0, rd_assessed_at = t, rd_reason_codes = fromkeys reasons\<rparr>
        else
          mk_risk_decision \<lparr>rd_id = risk_decision_id, rd_candidate_id = cand_id c, rd_approved = True,
            rd_approved_capital = cand_required_capital c, rd_assessed_at = t, rd_reason_codes = []\<rparr>)"

section \<open>The decision never raises\<close>

definition context_codes :: "string list" where
  "context_codes = [''CANDIDATE_EXPIRED'', ''PORTFOLIO_STATE_STALE_OR_FUTURE'', ''GLOBAL_KILL_SWITCH'',
     ''LEDGER_NOT_RECONCILED'']"

definition portfolio_codes :: "string list" where
  "portfolio_codes = [''MAXIMUM_POSITIONS'', ''INSUFFICIENT_BANKROLL'', ''TOTAL_EXPOSURE_LIMIT'',
     ''ASSET_EXPOSURE_LIMIT'', ''HORIZON_EXPOSURE_LIMIT'', ''CRYPTO_CLUSTER_EXPOSURE_LIMIT'',
     ''OVERLAPPING_ASSET_LIMIT'', ''DAILY_LOSS_LIMIT'', ''DRAWDOWN_LIMIT'',
     ''CONSECUTIVE_LOSS_COOLDOWN_ACTIVE'']"

definition liquidity_codes :: "string list" where
  "liquidity_codes = [''BOOK_STALE_OR_FUTURE'', ''BOOK_TRANSPORT_UNHEALTHY'',
     ''BOOK_SEQUENCE_INVALID'', ''FEE_SCHEDULE_UNAVAILABLE'', ''SPREAD_TOO_WIDE'',
     ''INSUFFICIENT_EXECUTABLE_DEPTH'', ''PRICE_IMPACT_TOO_HIGH'', ''DEPTH_HISTORY_INSUFFICIENT'',
     ''TRANSIENT_LIQUIDITY_RISK'']"

definition reason_codes :: "string list" where
  "reason_codes = context_codes @ portfolio_codes @ [''PORTFOLIO_STATE_INCOMPLETE''] @ liquidity_codes
     @ [''LIQUIDITY_EVIDENCE_MISSING'', ''DIRECTIONAL_FIXED_STAKE_EXCEEDED'']"

lemma reasons_of_codes: "map snd gs = codes \<Longrightarrow> set (reasons_of gs) \<subseteq> set codes"
  by (force simp: reasons_of_def)

lemma portfolio_reasons_known:
  "set (portfolio_reasons c a h es b pn d lo cd p t) \<subseteq> set portfolio_codes"
  unfolding portfolio_reasons_def Let_def by (rule reasons_of_codes) (simp add: portfolio_codes_def)

lemma state_reasons_known:
  "set (state_reasons c a h s p t) \<subseteq> set portfolio_codes \<union> {''PORTFOLIO_STATE_INCOMPLETE''}"
proof -
  have "state_reasons c a h s p t = [''PORTFOLIO_STATE_INCOMPLETE''] \<or>
      (\<exists>es b pn d lo. state_reasons c a h s p t
        = portfolio_reasons c a h es b pn d lo (ps_cooldown_until s) p t)"
    unfolding state_reasons_def by (simp split: option.splits) blast
  then show ?thesis using portfolio_reasons_known by fastforce
qed

lemma liquidity_reasons_known:
  "set (liquidity_reasons l p t) \<subseteq> set liquidity_codes \<union> {''LIQUIDITY_EVIDENCE_MISSING''}"
proof (cases l)
  case (Some x)
  have "set (liquidity_reasons (Some x) p t) \<subseteq> set liquidity_codes"
    unfolding liquidity_reasons_def option.case
    by (rule reasons_of_codes) (simp add: liquidity_codes_def)
  then show ?thesis using Some by blast
qed (simp add: liquidity_reasons_def)

lemma denial_reasons_known: "set (denial_reasons c a h l s p t) \<subseteq> set reason_codes"
proof -
  have "set (reasons_of [(cand_expires_at c < t, ''CANDIDATE_EXPIRED''),
       (t - ps_assessed_at s < 0 \<or> rp_maximum_state_age p < t - ps_assessed_at s,
        ''PORTFOLIO_STATE_STALE_OR_FUTURE''),
       (ps_kill_switch s, ''GLOBAL_KILL_SWITCH''),
       (\<not> ps_ledger_reconciled s, ''LEDGER_NOT_RECONCILED'')]) \<subseteq> set context_codes"
    by (rule reasons_of_codes) (simp add: context_codes_def)
  moreover have "set (reasons_of [(cand_strategy c = DIRECTIONAL_EDGE
      \<and> rp_maximum_stake p < cand_required_capital c, ''DIRECTIONAL_FIXED_STAKE_EXCEEDED'')])
    \<subseteq> {''DIRECTIONAL_FIXED_STAKE_EXCEEDED''}"
    using reasons_of_codes [of _ "[''DIRECTIONAL_FIXED_STAKE_EXCEEDED'']"] by simp
  ultimately show ?thesis
    using state_reasons_known [of c a h s p t] liquidity_reasons_known [of l p t]
    unfolding denial_reasons_def Let_def reason_codes_def set_append list.set by blast
qed

lemma reason_codes_text: "r \<in> set reason_codes \<Longrightarrow> require_text n r = None"
proof -
  have "list_all (\<lambda>r. require_text n r = None) reason_codes"
    by (simp add: reason_codes_def context_codes_def portfolio_codes_def liquidity_codes_def
      py_space_def)
  then show "r \<in> set reason_codes \<Longrightarrow> require_text n r = None" by (simp add: list_all_iff del: require_text_None)
qed

definition decision_of :: "strategy_candidate \<Rightarrow> string list \<Rightarrow> utc \<Rightarrow> string \<Rightarrow> risk_decision" where
  "decision_of c reasons t rid = \<lparr>rd_id = rid, rd_candidate_id = cand_id c,
     rd_approved = (reasons = []),
     rd_approved_capital = (if reasons = [] then cand_required_capital c else 0),
     rd_assessed_at = t, rd_reason_codes = fromkeys reasons\<rparr>"

lemma assess_candidate_eq:
  assumes "valid_candidate c" "require_text ''risk_decision_id'' rid = None"
  shows "assess_candidate c a h l s p t rid
    = Inr (decision_of c (denial_reasons c a h l s p t) t rid)"
proof -
  have c: "require_text ''candidate_id'' (cand_id c) = None" "0 < cand_required_capital c"
    using assms(1) by (auto simp: valid_candidate_def candidate_checks_def)
  have "\<forall>r\<in>set (denial_reasons c a h l s p t). require_text ''reason_code'' r = None"
    using denial_reasons_known reason_codes_text by blast
  then show ?thesis
    using assms(2) c
    by (simp add: assess_candidate_def mk_risk_decision_def risk_decision_checks_def decision_of_def
      Let_def del: require_text_None)
qed

text \<open>
  The risk assessment is total and all-or-nothing: for every constructible candidate it returns a
  decision that satisfies the decision contract; it approves exactly when no gate denies, and then
  exactly the requested capital; otherwise it approves zero and lists every distinct reason.
\<close>

theorem risk_assessment_total:
  assumes "valid_candidate c" "require_text ''risk_decision_id'' rid = None"
  shows "\<exists>d. assess_candidate c a h l s p t rid = Inr d \<and> valid_risk_decision d
     \<and> (rd_approved d \<longleftrightarrow> denial_reasons c a h l s p t = [])
     \<and> rd_approved_capital d = (if rd_approved d then cand_required_capital c else 0)
     \<and> set (rd_reason_codes d) = set (denial_reasons c a h l s p t) \<and> distinct (rd_reason_codes d)"
proof -
  let ?d = "decision_of c (denial_reasons c a h l s p t) t rid"
  have eq: "assess_candidate c a h l s p t rid = Inr ?d" using assms by (rule assess_candidate_eq)
  then have "valid_risk_decision ?d"
    by (auto simp: assess_candidate_def valid_risk_decision_def mk_risk_decision_def Let_def
      contract_simps split: if_splits)
  with eq show ?thesis by (simp add: decision_of_def)
qed

section \<open>What an approval guarantees\<close>

definition capital_total :: "open_exposure list \<Rightarrow> rat" where
  "capital_total es = sum_list (map oe_capital es)"

text \<open>Capital quoted with \<open>k\<close> decimals, all of it together within the digits of the context.\<close>

definition quoted_capital :: "nat \<Rightarrow> open_exposure list \<Rightarrow> dec \<Rightarrow> bool" where
  "quoted_capital k es requested \<longleftrightarrow> list_all (\<lambda>e. grid k (oe_capital e) \<and> 0 < oe_capital e) es
     \<and> grid k requested \<and> 0 < requested \<and> grid_small k (capital_total es + requested)"

lemma capital_total_filter_le:
  "list_all (\<lambda>e. 0 < oe_capital e) es \<Longrightarrow>
   0 \<le> capital_total (filter P es) \<and> capital_total (filter P es) \<le> capital_total es"
  by (induction es) (auto simp: capital_total_def)

lemma quoted_capital_filter:
  assumes "quoted_capital k es r" shows "quoted_capital k (filter P es) r"
proof -
  have "list_all (\<lambda>e. 0 < oe_capital e) es" using assms by (auto simp: quoted_capital_def list_all_iff)
  from capital_total_filter_le [OF this, of P] assms
  have "grid_small k (capital_total (filter P es) + r)"
    by (auto simp: quoted_capital_def intro: grid_small_le)
  then show ?thesis using assms by (auto simp: quoted_capital_def list_all_iff)
qed

lemma exposure_sum_exact:
  assumes "quoted_capital k es r"
  shows "dadd (capital_sum es) r = capital_total es + r"
proof -
  have nn: "list_all (\<lambda>e. 0 < oe_capital e) es" using assms by (auto simp: quoted_capital_def list_all_iff)
  then have "0 \<le> capital_total es" using capital_total_filter_le [of es "\<lambda>_. True"] by simp
  then have "grid_small k (capital_total es)"
    using assms by (auto simp: quoted_capital_def intro: grid_small_le)
  then have "capital_sum es = capital_total es"
    unfolding capital_sum_def capital_total_def using assms
    by (intro dsum_grid) (auto simp: quoted_capital_def list_all_iff order.order_iff_strict)
  moreover have "grid k (capital_total es)"
    unfolding capital_total_def using assms
    by (intro grid_sum_list) (auto simp: quoted_capital_def list_all_iff)
  ultimately show ?thesis using assms by (simp add: quoted_capital_def dadd_grid)
qed

lemma no_denial:
  assumes "denial_reasons c a h l s p t = []"
  obtains b es pn dd n x where "ps_bankroll s = Some b" "ps_exposures s = Some es"
    "ps_realized_pnl s = Some pn" "ps_drawdown s = Some dd" "ps_consecutive_losses s = Some n"
    "portfolio_reasons c a h es b pn dd n (ps_cooldown_until s) p t = []"
    "l = Some x" "liquidity_reasons (Some x) p t = []"
    "t \<le> cand_expires_at c" "\<not> ps_kill_switch s" "ps_ledger_reconciled s"
    "ps_assessed_at s \<le> t" "t - ps_assessed_at s \<le> rp_maximum_state_age p"
    "cand_strategy c = DIRECTIONAL_EDGE \<Longrightarrow> cand_required_capital c \<le> rp_maximum_stake p"
  using assms
  by (auto simp: denial_reasons_def Let_def state_reasons_def split: option.splits if_splits)
     (auto simp: liquidity_reasons_def split: option.splits)

text \<open>
  The limits of a policy, with exact sums: what the portfolio is after taking the position, its losses,
  and what the evidence about the book must be.
\<close>

definition exposure_within :: "strategy_candidate \<Rightarrow> asset \<Rightarrow> horizon \<Rightarrow> open_exposure list \<Rightarrow> risk_policy \<Rightarrow> bool" where
  "exposure_within c a h active p \<longleftrightarrow> (let r = cand_required_capital c; same = filter (\<lambda>e. oe_asset e = a) active in
     capital_total active + r \<le> rp_maximum_total p \<and> capital_total active + r \<le> rp_maximum_cluster p
     \<and> capital_total same + r \<le> rp_maximum_per_asset p
     \<and> capital_total (filter (\<lambda>e. oe_horizon e = h) active) + r \<le> rp_maximum_per_horizon p
     \<and> int (length active) + 1 \<le> rp_maximum_positions p \<and> int (length same) + 1 \<le> rp_maximum_overlap p
     \<and> (cand_strategy c = DIRECTIONAL_EDGE \<longrightarrow> r \<le> rp_maximum_stake p))"

definition losses_within :: "portfolio_state \<Rightarrow> risk_policy \<Rightarrow> utc \<Rightarrow> bool" where
  "losses_within s p t \<longleftrightarrow> (\<exists>pnl drawdown losses. ps_realized_pnl s = Some pnl \<and> ps_drawdown s = Some drawdown
     \<and> ps_consecutive_losses s = Some losses \<and> dneg (rp_maximum_daily_loss p) < pnl \<and> drawdown < rp_maximum_drawdown p
     \<and> (losses < rp_loss_limit p \<or> ps_cooldown_until s = None \<or> the (ps_cooldown_until s) \<le> t))"

definition liquidity_within :: "liquidity_evidence \<Rightarrow> risk_policy \<Rightarrow> utc \<Rightarrow> bool" where
  "liquidity_within l p t \<longleftrightarrow> le_observed_at l \<le> t \<and> le_source_age l \<le> rp_maximum_book_age p
     \<and> le_transport_healthy l \<and> le_sequence_valid l \<and> le_fee_schedule_available l
     \<and> le_spread l \<le> rp_maximum_spread p \<and> le_price_impact l \<le> rp_maximum_impact p
     \<and> le_required_depth l \<le> le_executable_depth l
     \<and> rp_minimum_observations p \<le> le_persistence_observations l \<and> rp_minimum_persistence p \<le> le_persistence_ratio l"

lemma portfolio_within:
  assumes "portfolio_reasons c a h es b pn dd n cd p t = []" "quoted_capital k es (cand_required_capital c)"
    and "cand_strategy c = DIRECTIONAL_EDGE \<Longrightarrow> cand_required_capital c \<le> rp_maximum_stake p"
  shows "exposure_within c a h (active_exposures t es) p" "cand_required_capital c \<le> b"
    "dneg (rp_maximum_daily_loss p) < pn" "dd < rp_maximum_drawdown p" "n < rp_loss_limit p \<or> cd = None \<or> the cd \<le> t"
proof -
  have q: "quoted_capital k (active_exposures t es) (cand_required_capital c)"
    unfolding active_exposures_def by (rule quoted_capital_filter [OF assms(2)])
  note sums = exposure_sum_exact [OF q] exposure_sum_exact [OF quoted_capital_filter [OF q]]
  note r = assms(1) [unfolded portfolio_reasons_def Let_def sums reasons_of_Nil_iff]
  show "exposure_within c a h (active_exposures t es) p"
    using r assms(3) by (simp add: exposure_within_def Let_def not_less not_le)
  show "cand_required_capital c \<le> b" "dneg (rp_maximum_daily_loss p) < pn" "dd < rp_maximum_drawdown p"
    "n < rp_loss_limit p \<or> cd = None \<or> the cd \<le> t"
    using r by (auto simp: not_less not_le split: option.splits)
qed

lemma no_reason_liquidity_within: "liquidity_reasons (Some l) p t = [] \<Longrightarrow> liquidity_within l p t"
  unfolding liquidity_reasons_def option.case reasons_of_Nil_iff by (auto simp: liquidity_within_def not_less not_le)

text \<open>
  C4: An approval keeps the portfolio within its limits. If the engine approves a candidate, it approves
  exactly the requested capital before the candidate expires; the portfolio state was complete, recent
  and reconciled with the kill switch off. With capital quoted on a decimal grid the exposure after
  taking the position - the true sum over the active positions, in total, of the asset and of the
  horizon, plus the requested capital - is within every limit, so are the number of positions, of
  positions of the asset and a directional stake, and the bankroll covers the request. The losses of the
  day and the drawdown are below their limits, and after too many losses the cooldown is over. The
  evidence about the book is recent, healthy, in sequence and with a fee schedule, and its spread, price
  impact, executable depth and persistence meet the policy.
\<close>

theorem approval_respects_limits:
  assumes approve: "assess_candidate c a h l s p t rid = Inr d" "rd_approved d"
    and cand: "valid_candidate c"
    and es: "ps_exposures s = Some es"
    and q: "quoted_capital k es (cand_required_capital c)"
  shows "\<exists>b x. ps_bankroll s = Some b \<and> cand_required_capital c \<le> b \<and> l = Some x
     \<and> exposure_within c a h (active_exposures t es) p \<and> losses_within s p t \<and> liquidity_within x p t
     \<and> \<not> ps_kill_switch s \<and> ps_ledger_reconciled s
     \<and> ps_assessed_at s \<le> t \<and> t \<le> ps_assessed_at s + rp_maximum_state_age p
     \<and> t \<le> cand_expires_at c \<and> rd_approved_capital d = cand_required_capital c"
proof -
  have "require_text ''risk_decision_id'' rid = None"
    using approve(1) by (auto simp: assess_candidate_def contract_simps)
  then have d: "denial_reasons c a h l s p t = []" "rd_approved_capital d = cand_required_capital c"
    using assess_candidate_eq [OF cand, of rid] approve by (auto simp: decision_of_def)
  then obtain b pn dd n x where f: "ps_bankroll s = Some b" "ps_realized_pnl s = Some pn" "ps_drawdown s = Some dd"
    "ps_consecutive_losses s = Some n"
    "portfolio_reasons c a h es b pn dd n (ps_cooldown_until s) p t = []"
    "l = Some x" "liquidity_reasons (Some x) p t = []" "t \<le> cand_expires_at c"
    "\<not> ps_kill_switch s" "ps_ledger_reconciled s" "ps_assessed_at s \<le> t" "t - ps_assessed_at s \<le> rp_maximum_state_age p"
    "cand_strategy c = DIRECTIONAL_EDGE \<Longrightarrow> cand_required_capital c \<le> rp_maximum_stake p"
    using es by (elim no_denial) auto
  note within = portfolio_within [OF f(5) q f(13)]
  have "losses_within s p t" unfolding losses_within_def using f(2-4) within(3-5) by blast
  then show ?thesis
    using f within(1,2) no_reason_liquidity_within [OF f(7)] d(2) by (intro exI [of _ b] exI [of _ x]) simp
qed

section \<open>A fail-closed gate\<close>

text \<open>Worse evidence: less is known, or what is known is no better. Missing is the worst.\<close>

definition worse_option :: "('a \<Rightarrow> 'a \<Rightarrow> bool) \<Rightarrow> 'a option \<Rightarrow> 'a option \<Rightarrow> bool" where
  "worse_option R x y = (case y of None \<Rightarrow> True
     | Some v \<Rightarrow> (case x of None \<Rightarrow> False | Some u \<Rightarrow> R u v))"

definition liquidity_worse :: "liquidity_evidence \<Rightarrow> liquidity_evidence \<Rightarrow> bool" where
  "liquidity_worse l m \<longleftrightarrow> le_observed_at l \<le> le_observed_at m \<and> le_source_age l \<le> le_source_age m
     \<and> (le_transport_healthy m \<longrightarrow> le_transport_healthy l)
     \<and> (le_sequence_valid m \<longrightarrow> le_sequence_valid l)
     \<and> (le_fee_schedule_available m \<longrightarrow> le_fee_schedule_available l)
     \<and> le_spread l \<le> le_spread m \<and> le_executable_depth m \<le> le_executable_depth l
     \<and> le_required_depth l \<le> le_required_depth m \<and> le_price_impact l \<le> le_price_impact m
     \<and> le_persistence_observations m \<le> le_persistence_observations l
     \<and> le_persistence_ratio m \<le> le_persistence_ratio l"

definition portfolio_worse :: "portfolio_state \<Rightarrow> portfolio_state \<Rightarrow> bool" where
  "portfolio_worse s r \<longleftrightarrow> ps_assessed_at s = ps_assessed_at r
     \<and> worse_option (\<lambda>x y. y \<le> x) (ps_bankroll s) (ps_bankroll r)
     \<and> worse_option (\<lambda>x y. subseq x y \<and> list_all valid_exposure y) (ps_exposures s) (ps_exposures r)
     \<and> worse_option (\<lambda>x y. y \<le> x) (ps_realized_pnl s) (ps_realized_pnl r)
     \<and> worse_option (\<lambda>x y. x \<le> y) (ps_drawdown s) (ps_drawdown r)
     \<and> worse_option (\<lambda>x y. x \<le> y) (ps_consecutive_losses s) (ps_consecutive_losses r)
     \<and> (\<forall>u. ps_cooldown_until s = Some u \<longrightarrow> (\<exists>v. ps_cooldown_until r = Some v \<and> u \<le> v))
     \<and> (ps_kill_switch s \<longrightarrow> ps_kill_switch r)
     \<and> (ps_ledger_reconciled r \<longrightarrow> ps_ledger_reconciled s)"

definition evidence_worse ::
  "portfolio_state \<times> liquidity_evidence option \<Rightarrow> portfolio_state \<times> liquidity_evidence option \<Rightarrow> bool"
  where "evidence_worse x y \<longleftrightarrow> portfolio_worse (fst x) (fst y) \<and> worse_option liquidity_worse (snd x) (snd y)"

lemma capital_sum_mono:
  assumes "subseq es fs" "list_all valid_exposure fs"
  shows "dadd (capital_sum (filter P es)) r \<le> dadd (capital_sum (filter P fs)) r"
proof -
  have "subseq (map oe_capital (filter P es)) (map oe_capital (filter P fs))"
    using assms(1) by (intro subseq_map subseq_filter)
  moreover have "\<forall>x\<in>set (map oe_capital (filter P fs)). 0 \<le> x"
    using assms(2) by (auto simp: list_all_iff valid_exposure_def open_exposure_checks_def
      order.order_iff_strict)
  ultimately show ?thesis
    unfolding dadd_def capital_sum_def by (intro ctx_mono add_right_mono dsum_subseq)
qed

lemma filter_length_mono:
  "subseq es fs \<Longrightarrow> int (length (filter P es)) \<le> int (length (filter P fs))"
  using subseq_filter [THEN list_emb_length, of es fs P] by simp

lemma liquidity_denial_mono:
  assumes "worse_option liquidity_worse x y" "liquidity_reasons y p t = []"
  shows "liquidity_reasons x p t = []"
proof -
  obtain v where v: "y = Some v" using assms(2) by (cases y) (auto simp: liquidity_reasons_def)
  then obtain u where u: "x = Some u" "liquidity_worse u v"
    using assms(1) by (cases x) (auto simp: worse_option_def)
  show ?thesis
    using assms(2) u(2) unfolding u(1) v liquidity_reasons_def option.case
    unfolding reasons_of_Nil_iff by (simp add: liquidity_worse_def) linarith
qed

lemma portfolio_denial_mono:
  assumes "subseq es fs" "list_all valid_exposure fs" "b' \<le> b" "pn' \<le> pn" "dd \<le> dd'" "n \<le> n'"
    and "\<forall>u. cd = Some u \<longrightarrow> (\<exists>v. cd' = Some v \<and> u \<le> v)"
    and none: "portfolio_reasons c a h fs b' pn' dd' n' cd' p t = []"
  shows "portfolio_reasons c a h es b pn dd n cd p t = []"
proof -
  let ?r = "cand_required_capital c"
  let ?A = "active_exposures t es" and ?B = "active_exposures t fs"
  have sub: "subseq ?A ?B" using assms(1) by (simp add: active_exposures_def subseq_filter)
  have v: "list_all valid_exposure ?B"
    using assms(2) by (auto simp: active_exposures_def list_all_iff)
  have sums: "dadd (capital_sum (filter P ?A)) ?r \<le> dadd (capital_sum (filter P ?B)) ?r" for P
    using capital_sum_mono [OF sub v] .
  have counts: "int (length (filter P ?A)) \<le> int (length (filter P ?B))" for P
    using filter_length_mono [OF sub] .
  note s = sums [of "\<lambda>_. True", simplified] sums [of "\<lambda>e. oe_asset e = a"]
    sums [of "\<lambda>e. oe_horizon e = h"] counts [of "\<lambda>_. True", simplified] counts [of "\<lambda>e. oe_asset e = a"]
  note hyps = none [unfolded portfolio_reasons_def Let_def reasons_of_Nil_iff]
  have "\<not> (rp_loss_limit p \<le> n \<and> (case cd of None \<Rightarrow> False | Some u \<Rightarrow> t < u))"
    using hyps assms(6,7) by (auto split: option.splits)
  then show ?thesis
    using hyps s assms(3-5)
    by (simp add: portfolio_reasons_def Let_def reasons_of_Nil_iff not_less not_le)
qed

lemma evidence_denial_mono:
  assumes "evidence_worse x y" "denial_reasons c a h (snd y) (fst y) p t = []"
  shows "denial_reasons c a h (snd x) (fst x) p t = []"
proof -
  have w: "portfolio_worse (fst x) (fst y)" "worse_option liquidity_worse (snd x) (snd y)"
    using assms(1) by (simp_all add: evidence_worse_def)
  from assms(2) have parts: "state_reasons c a h (fst y) p t = []" "liquidity_reasons (snd y) p t = []"
    by (simp_all add: denial_reasons_def Let_def)
  from parts(1) obtain b es pn dd n where y: "ps_bankroll (fst y) = Some b"
    "ps_exposures (fst y) = Some es" "ps_realized_pnl (fst y) = Some pn" "ps_drawdown (fst y) = Some dd"
    "ps_consecutive_losses (fst y) = Some n"
    "portfolio_reasons c a h es b pn dd n (ps_cooldown_until (fst y)) p t = []"
    by (auto simp: state_reasons_def split: option.splits)
  with w(1) obtain b' es' pn' dd' n' where x: "ps_bankroll (fst x) = Some b'" "b \<le> b'"
    "ps_exposures (fst x) = Some es'" "subseq es' es" "list_all valid_exposure es"
    "ps_realized_pnl (fst x) = Some pn'" "pn \<le> pn'" "ps_drawdown (fst x) = Some dd'" "dd' \<le> dd"
    "ps_consecutive_losses (fst x) = Some n'" "n' \<le> n"
    by (auto simp: portfolio_worse_def worse_option_def split: option.splits)
  have "portfolio_reasons c a h es' b' pn' dd' n' (ps_cooldown_until (fst x)) p t = []"
    using w(1) by (intro portfolio_denial_mono [OF x(4,5,2,7,9,11) _ y(6)]) (simp add: portfolio_worse_def)
  then have "state_reasons c a h (fst x) p t = []" by (simp add: state_reasons_def x)
  then show ?thesis
    using liquidity_denial_mono [OF w(2) parts(2)] assms(2) w(1)
    unfolding denial_reasons_def Let_def append_is_Nil_conv reasons_of_Nil_iff portfolio_worse_def
    by (simp del: reasons_of_simps)
qed

interpretation rg: fail_closed_gate "\<lambda>x. denial_reasons c a h (snd x) (fst x) p t" evidence_worse
  for c a h p t
  by unfold_locales (use evidence_denial_mono in blast)

text \<open>
  C5: The risk engine is fail-closed and monotone: when the evidence for a candidate only gets worse
  over a series of assessments - positions are added, the bankroll, the profit or the depth shrinks,
  losses, spread or impact grow, a health flag is lost, or a piece of evidence goes missing - then a
  candidate denied once is denied in every later assessment of the series.
\<close>

theorem risk_denial_is_monotone:
  assumes "sorted_wrt evidence_worse es" "i < j" "j < length es"
    and cand: "valid_candidate c"
    and id: "require_text ''risk_decision_id'' rid = None"
    and deny: "assess_candidate c a h (snd (es ! i)) (fst (es ! i)) p t rid = Inr d" "\<not> rd_approved d"
  shows "\<exists>d'. assess_candidate c a h (snd (es ! j)) (fst (es ! j)) p t rid = Inr d'
     \<and> \<not> rd_approved d' \<and> rd_approved_capital d' = 0 \<and> rd_reason_codes d' \<noteq> []"
proof -
  have "denial_reasons c a h (snd (es ! i)) (fst (es ! i)) p t \<noteq> []"
    using assess_candidate_eq [OF cand id] deny by (auto simp: decision_of_def)
  then have "\<not> rg.permitted c a h p t (es ! i)" by (simp add: rg.permitted_def)
  then have "\<not> rg.permitted c a h p t (es ! j)"
    using rg.denied_stays_denied [OF assms(1-3)] by blast
  then show ?thesis
    by (simp add: assess_candidate_eq [OF cand id] decision_of_def rg.permitted_def)
qed

section \<open>Sample inputs\<close>

definition sample_candidate :: strategy_candidate where
  "sample_candidate = \<lparr>cand_id = ''cand-1'', cand_strategy = DIRECTIONAL_EDGE, cand_market_id = ''m1'',
     cand_required_capital = 5, cand_expected_net_value = 1, cand_quality_score = 1 / 2,
     cand_created_at = 10, cand_expires_at = 100, cand_outcome_side = Some UP\<rparr>"

definition sample_exposure :: open_exposure where
  "sample_exposure = \<lparr>oe_position_id = ''p1'', oe_market_id = ''m0'', oe_asset = BTC,
     oe_horizon = FIVE_MINUTES, oe_capital = 4, oe_window_end = 90\<rparr>"

definition sample_portfolio :: portfolio_state where
  "sample_portfolio = \<lparr>ps_bankroll = Some 50, ps_exposures = Some [sample_exposure],
     ps_realized_pnl = Some 0, ps_drawdown = Some 0, ps_consecutive_losses = Some 0,
     ps_cooldown_until = None, ps_kill_switch = False, ps_ledger_reconciled = True,
     ps_assessed_at = 20\<rparr>"

definition sample_liquidity :: liquidity_evidence where
  "sample_liquidity = \<lparr>le_observed_at = 25, le_source_age = 3, le_spread = 0,
     le_executable_depth = 30, le_required_depth = 10, le_price_impact = 0,
     le_persistence_ratio = 1, le_persistence_observations = 5, le_sequence_valid = True,
     le_transport_healthy = True, le_fee_schedule_available = True\<rparr>"

definition sample_risk_policy :: risk_policy where
  "sample_risk_policy = \<lparr>rp_maximum_positions = 3, rp_maximum_total = 20, rp_maximum_per_asset = 15,
     rp_maximum_per_horizon = 15, rp_maximum_cluster = 20, rp_maximum_overlap = 2,
     rp_maximum_stake = 5, rp_maximum_daily_loss = 10, rp_maximum_drawdown = 10, rp_loss_limit = 3,
     rp_maximum_state_age = 50, rp_maximum_book_age = 10, rp_maximum_spread = 1,
     rp_maximum_impact = 1, rp_minimum_persistence = 1, rp_minimum_observations = 3\<rparr>"

lemmas sample_risk_defs = sample_candidate_def sample_exposure_def sample_portfolio_def
  sample_liquidity_def sample_risk_policy_def

lemma sample_candidate_valid: "valid_candidate sample_candidate"
  by (simp add: valid_candidate_def candidate_checks_def sample_candidate_def py_space_def)

lemma sample_no_denial:
  "denial_reasons sample_candidate BTC FIVE_MINUTES (Some sample_liquidity) sample_portfolio
     sample_risk_policy 30 = []"
  by (simp add: denial_reasons_def state_reasons_def portfolio_reasons_def liquidity_reasons_def
    active_exposures_def capital_sum_def dsum_def dec_op_defs ctx_eval Let_def sample_risk_defs)

theorem risk_assessment_total_witness:
  "\<exists>d. assess_candidate sample_candidate BTC FIVE_MINUTES (Some sample_liquidity) sample_portfolio
      sample_risk_policy 30 ''r1'' = Inr d \<and> rd_approved d"
  using risk_assessment_total [OF sample_candidate_valid, of "''r1''"] sample_no_denial
  by (fastforce simp: py_space_def)

theorem approval_respects_limits_witness:
  "\<exists>d. assess_candidate sample_candidate BTC FIVE_MINUTES (Some sample_liquidity) sample_portfolio
      sample_risk_policy 30 ''r1'' = Inr d \<and> rd_approved d
   \<and> capital_total (active_exposures 30 [sample_exposure]) + 5 \<le> 20"
proof -
  let ?d = "decision_of sample_candidate [] 30 ''r1''"
  have d: "assess_candidate sample_candidate BTC FIVE_MINUTES (Some sample_liquidity) sample_portfolio
      sample_risk_policy 30 ''r1'' = Inr ?d"
    using assess_candidate_eq [OF sample_candidate_valid, of "''r1''"] sample_no_denial
    by (simp add: py_space_def)
  have "quoted_capital 2 [sample_exposure] (cand_required_capital sample_candidate)"
    by (simp add: quoted_capital_def grid_def grid_small_def capital_total_def sample_risk_defs)
  then have "exposure_within sample_candidate BTC FIVE_MINUTES (active_exposures 30 [sample_exposure]) sample_risk_policy"
    using approval_respects_limits [OF d _ sample_candidate_valid, of "[sample_exposure]" 2]
    by (auto simp: decision_of_def sample_portfolio_def)
  then have "capital_total (active_exposures 30 [sample_exposure]) + cand_required_capital sample_candidate
      \<le> rp_maximum_total sample_risk_policy"
    by (simp add: exposure_within_def Let_def)
  then show ?thesis using d by (simp add: sample_risk_defs decision_of_def)
qed

theorem risk_denial_is_monotone_witness:
  "\<exists>d'. assess_candidate sample_candidate BTC FIVE_MINUTES None
      (sample_portfolio\<lparr>ps_kill_switch := True\<rparr>) sample_risk_policy 30 ''r1'' = Inr d'
   \<and> \<not> rd_approved d'"
proof -
  let ?x = "(sample_portfolio\<lparr>ps_kill_switch := True\<rparr>, Some sample_liquidity)"
  let ?y = "(sample_portfolio\<lparr>ps_kill_switch := True\<rparr>, None)"
  have id: "require_text ''risk_decision_id'' ''r1'' = None" by (simp add: py_space_def)
  have "evidence_worse ?x ?y"
    by (simp add: evidence_worse_def portfolio_worse_def worse_option_def sample_portfolio_def
      sample_exposure_def valid_exposure_def open_exposure_checks_def py_space_def)
  moreover have "denial_reasons sample_candidate BTC FIVE_MINUTES (Some sample_liquidity)
      (sample_portfolio\<lparr>ps_kill_switch := True\<rparr>) sample_risk_policy 30 \<noteq> []"
    by (simp add: denial_reasons_def Let_def)
  ultimately show ?thesis
    using risk_denial_is_monotone [of "[?x, ?y]" 0 1 sample_candidate "''r1''" BTC FIVE_MINUTES
        sample_risk_policy 30] assess_candidate_eq [OF sample_candidate_valid id]
      sample_candidate_valid id
    by (auto simp: decision_of_def simp del: require_text_None)
qed

end
