(* ===== verification/Plans.thy ===== *)
theory Plans
  imports Structural Risk
begin

text \<open>
  \<open>execution/planning.py\<close>: the pure builders of PAPER execution plans. Both refuse a candidate whose
  risk decision is missing or denied. The lemmas show that a built plan is a valid plan in PAPER
  mode, that its legs buy the right tokens, and that its identifiers depend on the candidate only,
  which is what makes execution idempotent per candidate.
\<close>

definition approved_checks :: "strategy_candidate \<Rightarrow> risk_decision \<Rightarrow> check list" where
  "approved_checks c r =
     [fail_if (rd_candidate_id r \<noteq> cand_id c) (ValueErr ''risk decision candidate mismatch''),
      fail_if (\<not> rd_approved r) (ValueErr ''cannot build an execution plan from denied risk'')]"

definition plan_token_id :: "market \<Rightarrow> outcome_side \<Rightarrow> string result" where
  "plan_token_id m side = (case filter (\<lambda>t. tok_outcome t = side) (mkt_tokens m) of
       [t] \<Rightarrow> Inr (tok_id t)
     | _ \<Rightarrow> Inl (ValueErr ''market token mapping is not exactly one token for side''))"

definition paper_client_id :: "strategy_candidate \<Rightarrow> string \<Rightarrow> string" where
  "paper_client_id c token = ''paper:'' @ cand_id c @ '':BUY:'' @ token"

definition paper_intent :: "strategy_candidate \<Rightarrow> strategy_kind \<Rightarrow> market \<Rightarrow> string \<Rightarrow> dec \<Rightarrow> dec \<Rightarrow> utc \<Rightarrow>
    order_intent result" where
  "paper_intent c strategy m token quantity limit_price created_at =
     mk_intent \<lparr>oi_client_order_id = paper_client_id c token, oi_candidate_id = cand_id c,
       oi_strategy = strategy, oi_market_id = mkt_id m, oi_token_id = token, oi_side = BUY,
       oi_quantity = quantity, oi_limit_price = limit_price, oi_time_in_force = FAK,
       oi_created_at = created_at, oi_expires_at = cand_expires_at c\<rparr>"

definition paper_plan :: "strategy_candidate \<Rightarrow> risk_decision \<Rightarrow> string \<Rightarrow> order_intent list \<Rightarrow> utc \<Rightarrow>
    execution_plan result" where
  "paper_plan c r decision_id intents created_at =
     mk_plan \<lparr>plan_id = ''plan:'' @ cand_id c, plan_decision_id = decision_id,
       plan_risk_decision_id = rd_id r, plan_mode = PAPER, plan_intents = intents,
       plan_idempotency_key = ''paper-plan:'' @ cand_id c, plan_created_at = created_at,
       plan_expires_at = cand_expires_at c\<rparr>"

definition build_directional_paper_plan :: "strategy_candidate \<Rightarrow> market \<Rightarrow> risk_decision \<Rightarrow> string \<Rightarrow>
    dec \<Rightarrow> dec \<Rightarrow> utc \<Rightarrow> execution_plan result" where
  "build_directional_paper_plan c m r decision_id quantity limit_price created_at =
     checked ([require_text ''decision_id'' decision_id, positive ''quantity'' quantity,
         in_unit ''limit_price'' limit_price] @ approved_checks c r @
        [fail_if (cand_strategy c \<noteq> DIRECTIONAL_EDGE)
           (ValueErr ''directional PAPER plan requires a Directional Edge candidate'')])
      (case cand_outcome_side c of
         None \<Rightarrow> Inl (ValueErr ''directional PAPER plan requires an outcome side'')
       | Some side \<Rightarrow>
          bindr (plan_token_id m side) (\<lambda>token.
          bindr (paper_intent c DIRECTIONAL_EDGE m token quantity limit_price created_at) (\<lambda>intent.
            paper_plan c r decision_id [intent] created_at)))"

text \<open>\<open>worst_price or Decimal("1")\<close>: a missing and a zero worst price both become 1.\<close>

definition price_or_one :: "dec option \<Rightarrow> dec" where
  "price_or_one v = (case v of None \<Rightarrow> 1 | Some x \<Rightarrow> if x = 0 then 1 else x)"

definition build_structural_buy_merge_paper_plan :: "strategy_candidate \<Rightarrow> market \<Rightarrow>
    structural_opportunity \<Rightarrow> risk_decision \<Rightarrow> string \<Rightarrow> utc \<Rightarrow> execution_plan result" where
  "build_structural_buy_merge_paper_plan c m opp r decision_id created_at =
     checked ([require_text ''decision_id'' decision_id] @ approved_checks c r @
        [fail_if (cand_strategy c \<noteq> STRUCTURAL_ARBITRAGE)
           (ValueErr ''structural PAPER plan requires a Structural Arbitrage candidate''),
         fail_if (so_condition_id opp \<noteq> mkt_condition_id m \<or> so_market_id opp \<noteq> mkt_id m)
           (ValueErr ''structural opportunity identity mismatch'')])
      (bindr (paper_intent c STRUCTURAL_ARBITRAGE m (sim_token_id (so_up opp)) (so_shares opp)
          (price_or_one (sim_worst (so_up opp))) created_at) (\<lambda>up.
       bindr (paper_intent c STRUCTURAL_ARBITRAGE m (sim_token_id (so_down opp)) (so_shares opp)
          (price_or_one (sim_worst (so_down opp))) created_at) (\<lambda>down.
         paper_plan c r decision_id [up, down] created_at)))"

section \<open>Correctness of the builders\<close>

text \<open>On a valid market the scan by outcome and the dictionary by outcome agree.\<close>

lemma plan_token_id_valid_market:
  assumes "valid_market m"
  shows "plan_token_id m side = token_of m side" "\<exists>t. plan_token_id m side = Inr t \<and> t \<in> tok_id ` set (mkt_tokens m)"
proof -
  have len: "length (mkt_tokens m) = 2" and sides: "set (map tok_outcome (mkt_tokens m)) = {UP, DOWN}"
    using assms by (auto simp: valid_market_def market_checks_def)
  obtain a b where ab: "mkt_tokens m = [a, b]"
    using len by (auto simp: numeral_2_eq_2 length_Suc_conv)
  have "tok_outcome a \<noteq> tok_outcome b" using sides ab by auto
  then have "tok_outcome a = UP \<and> tok_outcome b = DOWN \<or> tok_outcome a = DOWN \<and> tok_outcome b = UP"
    by (cases "tok_outcome a"; cases "tok_outcome b") auto
  then show "plan_token_id m side = token_of m side"
    "\<exists>t. plan_token_id m side = Inr t \<and> t \<in> tok_id ` set (mkt_tokens m)"
    by (cases side; auto simp: plan_token_id_def token_of_def token_by_side_def ab)+
qed

lemma paper_intent_Inr:
  assumes "paper_intent c k m token q p t = Inr i"
  shows "valid_intent i" "oi_client_order_id i = paper_client_id c token" "oi_token_id i = token"
    "oi_quantity i = q" "oi_limit_price i = p" "oi_side i = BUY" "oi_expires_at i = cand_expires_at c"
    "oi_market_id i = mkt_id m" "oi_candidate_id i = cand_id c"
  using assms by (auto simp: paper_intent_def mk_intent_def valid_intent_def contract_simps)

lemma paper_plan_Inr:
  assumes "paper_plan c r did is t = Inr pl"
  shows "passes (execution_plan_checks pl)" "plan_mode pl = PAPER" "plan_intents pl = is"
    "plan_idempotency_key pl = ''paper-plan:'' @ cand_id c" "plan_expires_at pl = cand_expires_at c"
    "plan_id pl = ''plan:'' @ cand_id c" "plan_risk_decision_id pl = rd_id r"
  using assms by (auto simp: paper_plan_def mk_plan_def contract_simps)

lemma directional_plan_Inr:
  assumes "build_directional_paper_plan c m r did q p t = Inr pl"
  obtains token i where "plan_intents pl = [i]" "paper_intent c DIRECTIONAL_EDGE m token q p t = Inr i"
    "paper_plan c r did [i] t = Inr pl" "passes (approved_checks c r)"
  using assms
  by (auto simp: build_directional_paper_plan_def contract_simps bindr_Inr_iff paper_plan_Inr(3)
    split: option.splits)

lemma structural_plan_Inr:
  assumes "build_structural_buy_merge_paper_plan c m opp r did t = Inr pl"
  obtains up down where "plan_intents pl = [up, down]"
    "paper_intent c STRUCTURAL_ARBITRAGE m (sim_token_id (so_up opp)) (so_shares opp)
       (price_or_one (sim_worst (so_up opp))) t = Inr up"
    "paper_intent c STRUCTURAL_ARBITRAGE m (sim_token_id (so_down opp)) (so_shares opp)
       (price_or_one (sim_worst (so_down opp))) t = Inr down"
    "paper_plan c r did [up, down] t = Inr pl" "passes (approved_checks c r)"
  using assms
  by (auto simp: build_structural_buy_merge_paper_plan_def contract_simps bindr_Inr_iff paper_plan_Inr(3))

definition paper_built :: "strategy_candidate \<Rightarrow> risk_decision \<Rightarrow> execution_plan \<Rightarrow> bool" where
  "paper_built c r pl \<longleftrightarrow> valid_plan pl \<and> plan_mode pl = PAPER \<and> rd_approved r
     \<and> rd_candidate_id r = cand_id c \<and> plan_idempotency_key pl = ''paper-plan:'' @ cand_id c
     \<and> plan_expires_at pl = cand_expires_at c
     \<and> (\<forall>i\<in>set (plan_intents pl). oi_side i = BUY \<and> oi_candidate_id i = cand_id c)"

lemma built_plan_shape:
  "build_directional_paper_plan c m r did q p t = Inr pl \<Longrightarrow> paper_built c r pl"
  "build_structural_buy_merge_paper_plan c m opp r did t = Inr pl \<Longrightarrow> paper_built c r pl"
proof -
  assume "build_directional_paper_plan c m r did q p t = Inr pl"
  then obtain token i where pl: "plan_intents pl = [i]" "paper_plan c r did [i] t = Inr pl"
    "passes (approved_checks c r)" and i: "paper_intent c DIRECTIONAL_EDGE m token q p t = Inr i"
    by (rule directional_plan_Inr)
  then show "paper_built c r pl"
    using paper_intent_Inr [OF i] paper_plan_Inr [OF pl(2)]
    by (simp add: paper_built_def valid_plan_def approved_checks_def)
next
  assume "build_structural_buy_merge_paper_plan c m opp r did t = Inr pl"
  then obtain up down where pl: "plan_intents pl = [up, down]" "paper_plan c r did [up, down] t = Inr pl"
      "passes (approved_checks c r)"
    and up: "paper_intent c STRUCTURAL_ARBITRAGE m (sim_token_id (so_up opp)) (so_shares opp)
       (price_or_one (sim_worst (so_up opp))) t = Inr up"
    and down: "paper_intent c STRUCTURAL_ARBITRAGE m (sim_token_id (so_down opp)) (so_shares opp)
       (price_or_one (sim_worst (so_down opp))) t = Inr down"
    by (rule structural_plan_Inr)
  then show "paper_built c r pl"
    using paper_intent_Inr [OF up] paper_intent_Inr [OF down] paper_plan_Inr [OF pl(2)]
    by (simp add: paper_built_def valid_plan_def approved_checks_def)
qed

text \<open>
  A directional plan is built exactly from an approved candidate: with a valid candidate and
  market, a decision that approves this candidate, and a quantity and price in range, the builder
  returns a valid PAPER plan with a single BUY intent on the market's token for the candidate's
  side, expiring with the candidate and carrying an idempotency key that depends only on the
  candidate; with a denied or foreign risk decision it raises.
\<close>

theorem directional_plan_follows_approval:
  assumes c: "valid_candidate c" "cand_strategy c = DIRECTIONAL_EDGE" "cand_outcome_side c = Some side"
    and m: "valid_market m" "\<forall>t\<in>set (mkt_tokens m). valid_token t"
    and r: "valid_risk_decision r"
    and args: "require_text ''decision_id'' did = None" "0 < q" "0 \<le> p" "p \<le> 1" "t < cand_expires_at c"
  shows "(if rd_approved r \<and> rd_candidate_id r = cand_id c then
      (\<exists>pl i token. build_directional_paper_plan c m r did q p t = Inr pl \<and> valid_plan pl
         \<and> plan_mode pl = PAPER \<and> plan_intents pl = [i] \<and> token_by_side m side = Some token
         \<and> oi_token_id i = token \<and> oi_side i = BUY \<and> oi_quantity i = q \<and> oi_limit_price i = p
         \<and> plan_expires_at pl = cand_expires_at c
         \<and> plan_idempotency_key pl = ''paper-plan:'' @ cand_id c)
    else (\<exists>e. build_directional_paper_plan c m r did q p t = Inl (ValueErr e)))"
proof (cases "rd_approved r \<and> rd_candidate_id r = cand_id c")
  case False
  have pass: "positive ''quantity'' q = None" "in_unit ''limit_price'' p = None"
    using args by simp_all
  show ?thesis
  proof (cases "rd_candidate_id r = cand_id c")
    case True
    with False have "\<not> rd_approved r" by simp
    then show ?thesis
      using \<open>rd_candidate_id r = cand_id c\<close>
      by (simp add: build_directional_paper_plan_def approved_checks_def args(1) pass
        del: require_text_None require_decimal_None)
  next
    case False
    then show ?thesis
      by (simp add: build_directional_paper_plan_def approved_checks_def args(1) pass
        del: require_text_None require_decimal_None)
  qed
next
  case True
  obtain token where token: "plan_token_id m side = Inr token" "token \<in> tok_id ` set (mkt_tokens m)"
    "token_of m side = Inr token"
    using plan_token_id_valid_market [OF m(1), of side] by auto
  have tt: "token \<noteq> []" "\<not> py_space (hd token)" "\<not> py_space (last token)"
    using token(2) m(2) by (auto simp: valid_token_def market_token_checks_def)
  have cid: "cand_id c \<noteq> []" "\<not> py_space (hd (cand_id c))" "\<not> py_space (last (cand_id c))"
    using c(1) by (auto simp: valid_candidate_def candidate_checks_def)
  have mid: "require_text ''market_id'' (mkt_id m) = None"
    using m(1) by (auto simp: valid_market_def market_checks_def)
  have rid: "require_text ''risk_decision_id'' (rd_id r) = None"
    using r by (auto simp: valid_risk_decision_def risk_decision_checks_def)
  obtain i where i: "paper_intent c DIRECTIONAL_EDGE m token q p t = Inr i"
    using tt cid mid args
    by (simp add: paper_intent_def mk_intent_def order_intent_checks_def paper_client_id_def py_space_def)
  note ii = paper_intent_Inr [OF i]
  obtain pl where pl: "paper_plan c r did [i] t = Inr pl"
    using cid args rid ii
    by (simp add: paper_plan_def mk_plan_def execution_plan_checks_def py_space_def)
  have "build_directional_paper_plan c m r did q p t = Inr pl"
    using True c args token(1) i pl
    by (simp add: build_directional_paper_plan_def approved_checks_def del: require_text_None)
  moreover have "token_by_side m side = Some token"
    using token(3) by (auto simp: token_of_def split: option.splits)
  ultimately show ?thesis
    using True ii paper_plan_Inr [OF pl] by (auto simp: valid_plan_def)
qed

definition sample_risk_decision :: risk_decision where
  "sample_risk_decision = \<lparr>rd_id = ''r1'', rd_candidate_id = ''cand-1'', rd_approved = True,
     rd_approved_capital = 5, rd_assessed_at = 0, rd_reason_codes = []\<rparr>"

lemma two_sided_market_valid: "valid_market two_sided_market"
proof -
  have "int_timestamp (seconds 1700000100) mod 300 = 0"
    by (simp add: int_timestamp_div seconds_def)
  then show ?thesis
    by (simp add: valid_market_def market_checks_def two_sided_market_def py_space_def seconds_def
      insert_commute duration_seconds_def)
qed

lemma directional_plan_follows_approval_witness:
  "\<exists>pl i. build_directional_paper_plan sample_candidate two_sided_market
      (sample_risk_decision\<lparr>rd_candidate_id := cand_id sample_candidate\<rparr>) ''d1'' 5 (1 / 2)
      (cand_created_at sample_candidate) = Inr pl
    \<and> plan_mode pl = PAPER \<and> plan_intents pl = [i] \<and> oi_token_id i = ''up'' \<and> oi_quantity i = 5"
proof -
  have "valid_candidate sample_candidate" "cand_strategy sample_candidate = DIRECTIONAL_EDGE"
    "cand_outcome_side sample_candidate = Some UP" "cand_created_at sample_candidate < cand_expires_at sample_candidate"
    by (simp_all add: sample_candidate_def valid_candidate_def candidate_checks_def py_space_def)
  moreover have "\<forall>t\<in>set (mkt_tokens two_sided_market). valid_token t"
    "token_by_side two_sided_market UP = Some ''up''"
    by (simp_all add: two_sided_market_def valid_token_def market_token_checks_def py_space_def token_by_side_def)
  moreover have "valid_risk_decision (sample_risk_decision\<lparr>rd_candidate_id := cand_id sample_candidate\<rparr>)"
    by (simp add: sample_risk_decision_def sample_candidate_def valid_risk_decision_def
      risk_decision_checks_def py_space_def)
  moreover have "require_text ''decision_id'' ''d1'' = None" by (simp add: py_space_def)
  ultimately show ?thesis
    using directional_plan_follows_approval [of sample_candidate UP two_sided_market
      "sample_risk_decision\<lparr>rd_candidate_id := cand_id sample_candidate\<rparr>" "''d1''" 5 "1 / 2"
      "cand_created_at sample_candidate"] two_sided_market_valid
    by (auto simp: sample_risk_decision_def simp del: require_text_None)
qed

end
