(* ===== verification/Live_Safety.thy ===== *)
theory Live_Safety
  imports Plans Gates
begin

text \<open>
  \<open>execution/live_safety.py\<close>: the gate in front of any future LIVE gateway. It is a second client of
  the fail-closed contract. Since the plan builders only produce PAPER plans, nothing they build can
  pass it.
\<close>

record live_safety_inputs =
  li_live_trading_enabled :: bool
  li_live_armed :: bool
  li_live_auto_arm :: bool
  li_kill_switch_active :: bool
  li_market_active :: bool
  li_token_mapping_verified :: bool
  li_data_fresh :: bool
  li_risk_approved :: bool
  li_idempotency_key_consumed :: bool
  li_unresolved_order_state :: bool
  li_residual_exposure :: bool
  li_credentials_present :: bool
  li_geo_eligible :: bool
  li_account_eligible :: bool
  li_checked_at :: utc

record live_safety_result =
  lsr_approved :: bool
  lsr_reason_codes :: "string list"
  lsr_checked_at :: utc

definition live_safety_result_checks :: "live_safety_result \<Rightarrow> check list" where
  "live_safety_result_checks r =
     map (require_text ''reason_code'') (lsr_reason_codes r) @
     [fail_if (lsr_approved r \<and> lsr_reason_codes r \<noteq> [])
        (ValueErr ''approved result must not include rejection reasons''),
      fail_if (\<not> lsr_approved r \<and> lsr_reason_codes r = [])
        (ValueErr ''denied result requires at least one reason code'')]"

definition mk_live_safety_result :: "live_safety_result \<Rightarrow> live_safety_result result" where
  "mk_live_safety_result r = checked (live_safety_result_checks r) (Inr r)"

definition live_guards :: "execution_plan \<Rightarrow> live_safety_inputs \<Rightarrow> (bool \<times> string) list" where
  "live_guards plan i =
     [(plan_mode plan \<noteq> LIVE, ''PLAN_NOT_LIVE''),
      (\<not> li_live_trading_enabled i, ''LIVE_TRADING_DISABLED''),
      (li_live_auto_arm i, ''LIVE_AUTO_ARM_FORBIDDEN''),
      (\<not> li_live_armed i, ''LIVE_NOT_ARMED''),
      (li_kill_switch_active i, ''KILL_SWITCH_ACTIVE''),
      (\<not> li_market_active i, ''MARKET_NOT_ACTIVE''),
      (\<not> li_token_mapping_verified i, ''TOKEN_MAPPING_UNVERIFIED''),
      (\<not> li_data_fresh i, ''DATA_NOT_FRESH''),
      (\<not> li_risk_approved i, ''RISK_NOT_APPROVED''),
      (li_idempotency_key_consumed i, ''IDEMPOTENCY_KEY_CONSUMED''),
      (li_unresolved_order_state i, ''UNRESOLVED_ORDER_STATE''),
      (li_residual_exposure i, ''RESIDUAL_EXPOSURE''),
      (\<not> li_credentials_present i, ''CREDENTIALS_MISSING''),
      (\<not> li_geo_eligible i, ''GEO_ELIGIBILITY_UNVERIFIED''),
      (\<not> li_account_eligible i, ''ACCOUNT_ELIGIBILITY_UNVERIFIED''),
      (plan_expires_at plan \<le> li_checked_at i, ''PLAN_EXPIRED'')]"

definition live_reasons :: "execution_plan \<Rightarrow> live_safety_inputs \<Rightarrow> string list" where
  "live_reasons plan i = reasons_of (live_guards plan i)"

definition evaluate_live :: "execution_plan \<Rightarrow> live_safety_inputs \<Rightarrow> live_safety_result result" where
  "evaluate_live plan i = (let reasons = live_reasons plan i in
     mk_live_safety_result (if reasons \<noteq> []
       then \<lparr>lsr_approved = False, lsr_reason_codes = fromkeys reasons, lsr_checked_at = li_checked_at i\<rparr>
       else \<lparr>lsr_approved = True, lsr_reason_codes = [], lsr_checked_at = li_checked_at i\<rparr>))"

section \<open>The gate\<close>

lemma live_reasons_text: "r \<in> set (live_reasons plan i) \<Longrightarrow> require_text n r = None"
  unfolding live_reasons_def set_reasons_of
  by (auto simp: live_guards_def py_space_def)

lemma live_reasons_distinct: "distinct (live_reasons plan i)"
  unfolding live_reasons_def by (rule distinct_reasons_of) (simp add: live_guards_def)

lemma evaluate_live_eq:
  "evaluate_live plan i = Inr \<lparr>lsr_approved = (live_reasons plan i = []),
     lsr_reason_codes = live_reasons plan i, lsr_checked_at = li_checked_at i\<rparr>"
  using live_reasons_text [of _ plan i] live_reasons_distinct [of plan i]
  by (auto simp: evaluate_live_def mk_live_safety_result_def live_safety_result_checks_def Let_def
      fromkeys_distinct simp del: require_text_None)

text \<open>Evidence gets worse when a required flag is lost, a blocking flag appears, or time passes.\<close>

definition inputs_worse :: "live_safety_inputs \<Rightarrow> live_safety_inputs \<Rightarrow> bool" where
  "inputs_worse x y \<longleftrightarrow>
     (li_live_trading_enabled y \<longrightarrow> li_live_trading_enabled x) \<and> (li_live_armed y \<longrightarrow> li_live_armed x)
     \<and> (li_live_auto_arm x \<longrightarrow> li_live_auto_arm y) \<and> (li_kill_switch_active x \<longrightarrow> li_kill_switch_active y)
     \<and> (li_market_active y \<longrightarrow> li_market_active x)
     \<and> (li_token_mapping_verified y \<longrightarrow> li_token_mapping_verified x)
     \<and> (li_data_fresh y \<longrightarrow> li_data_fresh x) \<and> (li_risk_approved y \<longrightarrow> li_risk_approved x)
     \<and> (li_idempotency_key_consumed x \<longrightarrow> li_idempotency_key_consumed y)
     \<and> (li_unresolved_order_state x \<longrightarrow> li_unresolved_order_state y)
     \<and> (li_residual_exposure x \<longrightarrow> li_residual_exposure y)
     \<and> (li_credentials_present y \<longrightarrow> li_credentials_present x)
     \<and> (li_geo_eligible y \<longrightarrow> li_geo_eligible x) \<and> (li_account_eligible y \<longrightarrow> li_account_eligible x)
     \<and> li_checked_at x \<le> li_checked_at y"

lemma live_reasons_Nil: "live_reasons plan i = [] \<longleftrightarrow>
    plan_mode plan = LIVE \<and> li_live_trading_enabled i \<and> \<not> li_live_auto_arm i \<and> li_live_armed i
    \<and> \<not> li_kill_switch_active i \<and> li_market_active i \<and> li_token_mapping_verified i
    \<and> li_data_fresh i \<and> li_risk_approved i \<and> \<not> li_idempotency_key_consumed i
    \<and> \<not> li_unresolved_order_state i \<and> \<not> li_residual_exposure i \<and> li_credentials_present i
    \<and> li_geo_eligible i \<and> li_account_eligible i \<and> li_checked_at i < plan_expires_at plan"
  unfolding live_reasons_def reasons_of_Nil_iff live_guards_def by auto

interpretation lg: fail_closed_gate "live_reasons plan" inputs_worse for plan
  by unfold_locales (auto simp: live_reasons_Nil inputs_worse_def)

text \<open>
  C13: The live gate opens only when every precondition holds, and never for a plan of this program.
  The evaluation always returns; it approves exactly when the plan is LIVE and unexpired and all
  thirteen switches, checks and eligibilities are in order; a denial lists precisely the violated
  preconditions, each once; once denied, later evaluations under worsening inputs are denied too; and
  a plan from either PAPER builder is always denied with \<open>PLAN_NOT_LIVE\<close>.
\<close>

theorem live_gate_is_fail_closed:
  "\<exists>res. evaluate_live plan i = Inr res
    \<and> (lsr_approved res \<longleftrightarrow> plan_mode plan = LIVE \<and> li_checked_at i < plan_expires_at plan
       \<and> li_live_trading_enabled i \<and> li_live_armed i \<and> \<not> li_live_auto_arm i
       \<and> \<not> li_kill_switch_active i \<and> li_market_active i \<and> li_token_mapping_verified i
       \<and> li_data_fresh i \<and> li_risk_approved i \<and> \<not> li_idempotency_key_consumed i
       \<and> \<not> li_unresolved_order_state i \<and> \<not> li_residual_exposure i \<and> li_credentials_present i
       \<and> li_geo_eligible i \<and> li_account_eligible i)
    \<and> distinct (lsr_reason_codes res) \<and> set (lsr_reason_codes res) = {r. (True, r) \<in> set (live_guards plan i)}
    \<and> (\<forall>j res'. inputs_worse i j \<longrightarrow> \<not> lsr_approved res \<longrightarrow> evaluate_live plan j = Inr res' \<longrightarrow> \<not> lsr_approved res')
    \<and> (\<forall>c m r did q p t opp. build_directional_paper_plan c m r did q p t = Inr plan
         \<or> build_structural_buy_merge_paper_plan c m opp r did t = Inr plan \<longrightarrow>
         \<not> lsr_approved res \<and> ''PLAN_NOT_LIVE'' \<in> set (lsr_reason_codes res))"
proof -
  have paper: "plan_mode plan = PAPER"
    if "build_directional_paper_plan c m r did q p t = Inr plan
      \<or> build_structural_buy_merge_paper_plan c m opp r did t = Inr plan" for c m r did q p t opp
    using that built_plan_shape by (auto simp: paper_built_def)
  have not_live: "''PLAN_NOT_LIVE'' \<in> set (live_reasons plan i)" if "plan_mode plan = PAPER"
    using that by (simp add: live_reasons_def set_reasons_of live_guards_def)
  have worse: "live_reasons plan j \<noteq> []" if "inputs_worse i j" "live_reasons plan i \<noteq> []" for j
    using lg.permitted_antimono [OF that(1), of plan] that(2) by (auto simp: lg.permitted_def)
  have members: "set (live_reasons plan i) = {r. (True, r) \<in> set (live_guards plan i)}"
    by (auto simp: live_reasons_def set_reasons_of)
  have approved: "live_reasons plan i = [] \<longleftrightarrow> plan_mode plan = LIVE \<and> li_checked_at i < plan_expires_at plan
       \<and> li_live_trading_enabled i \<and> li_live_armed i \<and> \<not> li_live_auto_arm i
       \<and> \<not> li_kill_switch_active i \<and> li_market_active i \<and> li_token_mapping_verified i
       \<and> li_data_fresh i \<and> li_risk_approved i \<and> \<not> li_idempotency_key_consumed i
       \<and> \<not> li_unresolved_order_state i \<and> \<not> li_residual_exposure i \<and> li_credentials_present i
       \<and> li_geo_eligible i \<and> li_account_eligible i"
    unfolding live_reasons_Nil by blast
  obtain res where res: "evaluate_live plan i = Inr res" "lsr_approved res \<longleftrightarrow> live_reasons plan i = []"
    "lsr_reason_codes res = live_reasons plan i"
    using evaluate_live_eq by simp
  show ?thesis
  proof (intro exI conjI allI impI)
    show "evaluate_live plan i = Inr res" by (rule res(1))
    show "distinct (lsr_reason_codes res)" unfolding res(3) by (rule live_reasons_distinct)
    show "set (lsr_reason_codes res) = {r. (True, r) \<in> set (live_guards plan i)}"
      unfolding res(3) by (rule members)
    show "\<not> lsr_approved res'" if "inputs_worse i j" "\<not> lsr_approved res" "evaluate_live plan j = Inr res'" for j res'
      using worse [OF that(1)] that(2,3) unfolding res(2) evaluate_live_eq by auto
    show "\<not> lsr_approved res" "''PLAN_NOT_LIVE'' \<in> set (lsr_reason_codes res)"
      if "build_directional_paper_plan c m r did q p t = Inr plan
        \<or> build_structural_buy_merge_paper_plan c m opp r did t = Inr plan" for c m r did q p t opp
      using not_live [OF paper [OF that]] unfolding res(2,3) by auto
  qed (unfold res(2) approved, rule refl)
qed

text \<open>A LIVE plan with every precondition in order is approved: the gate can open.\<close>

definition armed_inputs :: "utc \<Rightarrow> live_safety_inputs" where
  "armed_inputs t = \<lparr>li_live_trading_enabled = True, li_live_armed = True, li_live_auto_arm = False,
     li_kill_switch_active = False, li_market_active = True, li_token_mapping_verified = True,
     li_data_fresh = True, li_risk_approved = True, li_idempotency_key_consumed = False,
     li_unresolved_order_state = False, li_residual_exposure = False, li_credentials_present = True,
     li_geo_eligible = True, li_account_eligible = True, li_checked_at = t\<rparr>"

lemma live_gate_is_fail_closed_witness:
  "\<exists>plan. evaluate_live plan (armed_inputs 5) =
       Inr \<lparr>lsr_approved = True, lsr_reason_codes = [], lsr_checked_at = 5\<rparr>
     \<and> (\<exists>res. evaluate_live plan (armed_inputs 5\<lparr>li_kill_switch_active := True\<rparr>) = Inr res
          \<and> \<not> lsr_approved res)"
proof -
  define plan where "plan = \<lparr>plan_id = ''p'', plan_decision_id = ''d'', plan_risk_decision_id = ''r'',
    plan_mode = LIVE, plan_intents = [], plan_idempotency_key = ''k'', plan_created_at = 0,
    plan_expires_at = 10\<rparr>"
  have "evaluate_live plan (armed_inputs 5) = Inr \<lparr>lsr_approved = True, lsr_reason_codes = [], lsr_checked_at = 5\<rparr>"
    unfolding evaluate_live_eq by (simp add: live_reasons_def live_guards_def plan_def armed_inputs_def)
  moreover have "\<exists>res. evaluate_live plan (armed_inputs 5\<lparr>li_kill_switch_active := True\<rparr>) = Inr res
      \<and> \<not> lsr_approved res"
    using live_gate_is_fail_closed [of plan "armed_inputs 5\<lparr>li_kill_switch_active := True\<rparr>"]
    by (auto simp: armed_inputs_def)
  ultimately show ?thesis by blast
qed

end
