(* ===== verification/Models.thy ===== *)
theory Models
  imports Trading_Contracts Canonical
begin

text \<open>
  \<open>models/contracts.py\<close>, \<open>calibration.py\<close>, \<open>logistic.py\<close>, \<open>registry.py\<close>, \<open>shadow_state.py\<close>: readiness,
  reliability calibration, the frozen logistic artifact, and the registry of the twelve buckets.
  Two library functions are parameters: \<open>digest\<close> is the SHA-256 text of the encoded feature names,
  and \<open>dexp\<close> is \<open>Decimal.exp\<close>, of which the lemmas use that the result is a non-negative decimal
  of the context (\<open>exp_ok\<close>).
\<close>

section \<open>Readiness and reliability calibration\<close>

record calibration_readiness =
  cr_asset :: asset
  cr_horizon :: horizon
  cr_version :: string
  cr_sample_count :: int
  cr_ready :: bool

definition readiness_checks :: "calibration_readiness \<Rightarrow> check list" where
  "readiness_checks c =
     [require_text ''calibration_version'' (cr_version c),
      fail_if (cr_sample_count c < 0) (ValueErr ''sample_count must be a non-negative integer'')]"

definition valid_readiness :: "calibration_readiness \<Rightarrow> bool" where
  "valid_readiness c \<longleftrightarrow> passes (readiness_checks c)"

definition mk_readiness :: "calibration_readiness \<Rightarrow> calibration_readiness result" where
  "mk_readiness c = checked (readiness_checks c) (Inr c)"

record calibration_sample =
  cs_raw :: dec
  cs_outcome_up :: bool
  cs_observed_at :: utc

definition calibration_sample_checks :: "calibration_sample \<Rightarrow> check list" where
  "calibration_sample_checks s = [in_unit ''raw_p_up'' (cs_raw s)]"

record calibration_bin =
  cb_lower :: dec
  cb_upper :: dec
  cb_p_up :: dec
  cb_count :: int

definition calibration_bin_checks :: "calibration_bin \<Rightarrow> check list" where
  "calibration_bin_checks b =
     [in_unit ''lower'' (cb_lower b), in_unit ''upper'' (cb_upper b),
      in_unit ''calibrated_p_up'' (cb_p_up b),
      fail_if (cb_upper b \<le> cb_lower b) (ValueErr ''calibration bin lower must precede upper''),
      fail_if (cb_count b < 1) (ValueErr ''sample_count must be positive'')]"

definition valid_bin :: "calibration_bin \<Rightarrow> bool" where
  "valid_bin b \<longleftrightarrow> passes (calibration_bin_checks b)"

definition mk_bin :: "calibration_bin \<Rightarrow> calibration_bin result" where
  "mk_bin b = checked (calibration_bin_checks b) (Inr b)"

record reliability_calibrator =
  cal_asset :: asset
  cal_horizon :: horizon
  cal_version :: string
  cal_bins :: "calibration_bin list"
  cal_trained_through :: utc

definition calibrator_checks :: "reliability_calibrator \<Rightarrow> check list" where
  "calibrator_checks c =
     [require_text ''calibration_version'' (cal_version c),
      fail_if (cal_bins c = []) (ValueErr ''calibrator requires bins''),
      fail_if (cb_lower (hd (cal_bins c)) \<noteq> 0 \<or> cb_upper (last (cal_bins c)) \<noteq> 1)
        (ValueErr ''calibration bins must cover zero through one''),
      fail_if (\<exists>(p, q)\<in>set (pairwise (cal_bins c)). cb_upper p \<noteq> cb_lower q)
        (ValueErr ''calibration bins must be contiguous'')]"

definition valid_calibrator :: "reliability_calibrator \<Rightarrow> bool" where
  "valid_calibrator c \<longleftrightarrow> passes (calibrator_checks c) \<and> list_all valid_bin (cal_bins c)"

definition mk_calibrator :: "reliability_calibrator \<Rightarrow> reliability_calibrator result" where
  "mk_calibrator c = checked (calibrator_checks c) (Inr c)"

definition cal_sample_count :: "reliability_calibrator \<Rightarrow> int" where
  "cal_sample_count c = sum_list (map cb_count (cal_bins c))"

text \<open>The last bin, and only the last, also takes the probability 1.\<close>

fun find_bin :: "calibration_bin list \<Rightarrow> dec \<Rightarrow> dec result" where
  "find_bin [] raw = Inl (ValueErr ''raw probability is outside calibration bins'')"
| "find_bin (b # bs) raw =
     (if cb_lower b \<le> raw \<and> raw < cb_upper b \<or> bs = [] \<and> raw = 1 then Inr (cb_p_up b)
      else find_bin bs raw)"

definition calibrate :: "reliability_calibrator \<Rightarrow> dec \<Rightarrow> dec result" where
  "calibrate c raw = checked [in_unit ''raw_p_up'' raw] (find_bin (cal_bins c) raw)"

definition bin_members :: "calibration_sample list \<Rightarrow> dec \<Rightarrow> dec \<Rightarrow> bool \<Rightarrow> calibration_sample list" where
  "bin_members samples lo hi is_last = filter (\<lambda>s. lo \<le> cs_raw s \<and> cs_raw s < hi
     \<or> is_last \<and> cs_raw s = 1) samples"

definition ups :: "calibration_sample list \<Rightarrow> nat" where
  "ups samples = length (filter cs_outcome_up samples)"

fun fit_bins :: "calibration_sample list \<Rightarrow> int \<Rightarrow> (dec \<times> dec) list \<Rightarrow> calibration_bin list result" where
  "fit_bins samples minimum [] = Inr []"
| "fit_bins samples minimum ((lo, hi) # rest) =
     (let members = bin_members samples lo hi (rest = []) in
      if int (length members) < minimum then Inl (ValueErr ''calibration bin has insufficient samples'')
      else bindr (mk_bin \<lparr>cb_lower = lo, cb_upper = hi,
               cb_p_up = ddiv (of_nat (ups members)) (of_nat (length members)),
               cb_count = int (length members)\<rparr>) (\<lambda>b.
           bindr (fit_bins samples minimum rest) (\<lambda>bs. Inr (b # bs))))"

definition fit_reliability_calibrator :: "calibration_sample list \<Rightarrow> asset \<Rightarrow> horizon \<Rightarrow> string \<Rightarrow> dec list \<Rightarrow>
    int \<Rightarrow> utc \<Rightarrow> reliability_calibrator result" where
  "fit_reliability_calibrator samples a h version boundaries minimum trained_through =
     checked [fail_if (minimum < 1) (ValueErr ''minimum_bin_count must be positive''),
         fail_if (length boundaries < 2 \<or> hd boundaries \<noteq> 0 \<or> last boundaries \<noteq> 1)
           (ValueErr ''boundaries must span zero through one''),
         fail_if (\<exists>(l, r)\<in>set (pairwise boundaries). r \<le> l)
           (ValueErr ''boundaries must be strictly increasing''),
         fail_if (\<exists>s\<in>set samples. trained_through < cs_observed_at s)
           (ValueErr ''calibration sample occurs after trained_through'')]
      (bindr (fit_bins samples minimum (pairwise boundaries)) (\<lambda>bins.
        mk_calibrator \<lparr>cal_asset = a, cal_horizon = h, cal_version = version, cal_bins = bins,
          cal_trained_through = trained_through\<rparr>))"

section \<open>The logistic artifact\<close>

text \<open>\<open>str.lower\<close> on code points below 256.\<close>

definition py_lower :: "string \<Rightarrow> string" where
  "py_lower s = map (\<lambda>c. let n = (of_char c :: nat) in
     if (65 \<le> n \<and> n \<le> 90) \<or> (192 \<le> n \<and> n \<le> 222 \<and> n \<noteq> 215) then char_of (n + 32) else c) s"

definition price_term :: "string \<Rightarrow> bool" where
  "price_term name \<longleftrightarrow> list_ex (\<lambda>term. sublist term (py_lower name)) [''polymarket'', ''clob'', ''contract_price'']"

definition feature_schema_hash :: "(string list \<Rightarrow> string) \<Rightarrow> string list \<Rightarrow> string result" where
  "feature_schema_hash digest names =
     checked ([fail_if (names = [] \<or> \<not> distinct names) (ValueErr ''feature_names must be non-empty and unique'')] @
        concat (map (\<lambda>name. [require_text ''feature_name'' name, fail_if (price_term name)
          (ValueErr ''predictive feature schema cannot contain Polymarket price data'')]) names))
      (Inr (digest names))"

record logistic_artifact =
  la_model_version :: string
  la_feature_set_version :: string
  la_feature_names :: "string list"
  la_coefficients :: "dec list"
  la_intercept :: dec
  la_schema_hash :: string

definition artifact_checks :: "(string list \<Rightarrow> string) \<Rightarrow> logistic_artifact \<Rightarrow> check list" where
  "artifact_checks digest a =
     [require_text ''model_version'' (la_model_version a),
      require_text ''feature_set_version'' (la_feature_set_version a),
      (case feature_schema_hash digest (la_feature_names a) of
         Inl e \<Rightarrow> Some e
       | Inr expected \<Rightarrow> fail_if (la_schema_hash a \<noteq> expected)
           (ValueErr ''schema_hash does not match feature_names'')),
      fail_if (length (la_coefficients a) \<noteq> length (la_feature_names a))
        (ValueErr ''coefficients must match feature_names'')]"

definition mk_artifact :: "(string list \<Rightarrow> string) \<Rightarrow> logistic_artifact \<Rightarrow> logistic_artifact result" where
  "mk_artifact digest a = checked (artifact_checks digest a) (Inr a)"

definition logistic_score :: "logistic_artifact \<Rightarrow> feature_vector \<Rightarrow> dec" where
  "logistic_score a v = dadd (la_intercept a)
     (dsum (map (\<lambda>(name, c). dmul c (the (feature_map v name))) (zip (la_feature_names a) (la_coefficients a))))"

definition predict_raw :: "(dec \<Rightarrow> dec) \<Rightarrow> logistic_artifact \<Rightarrow> feature_vector \<Rightarrow> dec result" where
  "predict_raw dexp a v =
     checked [fail_if (fvec_version v \<noteq> la_feature_set_version a) (ValueErr ''feature set version mismatch''),
         fail_if (set (map feat_name (fvec_features v)) \<noteq> set (la_feature_names a))
           (ValueErr ''feature vector does not exactly match frozen schema'')]
      (let score = logistic_score a v in
       if 0 \<le> score then Inr (ddiv 1 (dadd 1 (dexp (dneg score))))
       else Inr (ddiv (dexp score) (dadd 1 (dexp score))))"

definition calibrated_forecast :: "(dec \<Rightarrow> dec) \<Rightarrow> logistic_artifact \<Rightarrow> reliability_calibrator \<Rightarrow>
    feature_vector \<Rightarrow> utc \<Rightarrow> probability_forecast result" where
  "calibrated_forecast dexp a c v generated_at =
     checked [fail_if (fvec_asset v \<noteq> cal_asset c \<or> fvec_horizon v \<noteq> cal_horizon c)
           (ValueErr ''calibrator bucket mismatch''),
         fail_if (fvec_generated_at v \<le> cal_trained_through c)
           (ValueErr ''forecast features must follow calibration training data'')]
      (bindr (predict_raw dexp a v) (\<lambda>raw.
       bindr (calibrate c raw) (\<lambda>p.
         mk_forecast \<lparr>fc_market_id = fvec_market_id v, fc_asset = fvec_asset v,
           fc_horizon = fvec_horizon v, fc_p_up = p, fc_p_down = dsub 1 p,
           fc_model_version = la_model_version a, fc_calibration_version = cal_version c,
           fc_feature_set_version = fvec_version v, fc_feature_as_of = fvec_generated_at v,
           fc_generated_at = generated_at\<rparr>)))"

section \<open>The registry\<close>

record bucket_model_state =
  bms_bucket :: market_bucket
  bms_readiness :: calibration_readiness
  bms_artifact :: "logistic_artifact option"
  bms_calibrator :: "reliability_calibrator option"

definition bucket_model_checks :: "bucket_model_state \<Rightarrow> check list" where
  "bucket_model_checks s =
     [fail_if (cr_asset (bms_readiness s) \<noteq> bkt_asset (bms_bucket s)) (ValueErr ''readiness asset mismatch''),
      fail_if (cr_horizon (bms_readiness s) \<noteq> bkt_horizon (bms_bucket s)) (ValueErr ''readiness horizon mismatch''),
      fail_if (cr_ready (bms_readiness s) \<noteq> (bms_artifact s \<noteq> None \<and> bms_calibrator s \<noteq> None))
        (ValueErr ''ready state requires both artifact and calibrator'')] @
     (case bms_calibrator s of
        None \<Rightarrow> []
      | Some c \<Rightarrow>
         [fail_if (cal_asset c \<noteq> bkt_asset (bms_bucket s)) (ValueErr ''calibrator asset mismatch''),
          fail_if (cal_horizon c \<noteq> bkt_horizon (bms_bucket s)) (ValueErr ''calibrator horizon mismatch''),
          fail_if (cal_version c \<noteq> cr_version (bms_readiness s)) (ValueErr ''calibration version mismatch''),
          fail_if (cal_sample_count c \<noteq> cr_sample_count (bms_readiness s))
            (ValueErr ''calibration sample count mismatch'')])"

definition mk_bucket_model :: "bucket_model_state \<Rightarrow> bucket_model_state result" where
  "mk_bucket_model s = checked (bucket_model_checks s) (Inr s)"

type_synonym model_registry = "bucket_model_state list"

definition registry_checks :: "model_registry \<Rightarrow> check list" where
  "registry_checks states = (let buckets = map bms_bucket states in
     [fail_if (length buckets \<noteq> 12 \<or> set buckets \<noteq> set supported_market_buckets)
        (ValueErr ''registry must contain each supported bucket exactly once''),
      fail_if (\<not> distinct buckets) (ValueErr ''registry buckets must be unique'')])"

definition mk_registry :: "model_registry \<Rightarrow> model_registry result" where
  "mk_registry states = checked (registry_checks states) (Inr states)"

definition state_for :: "model_registry \<Rightarrow> market_bucket \<Rightarrow> bucket_model_state result" where
  "state_for states b = (case find (\<lambda>s. bms_bucket s = b) states of
     Some s \<Rightarrow> Inr s | None \<Rightarrow> Inl (RuntimeErr ''StopIteration''))"

definition registry_forecast :: "(dec \<Rightarrow> dec) \<Rightarrow> model_registry \<Rightarrow> feature_vector \<Rightarrow> utc \<Rightarrow>
    probability_forecast result" where
  "registry_forecast dexp states v generated_at =
     bindr (state_for states \<lparr>bkt_asset = fvec_asset v, bkt_horizon = fvec_horizon v\<rparr>) (\<lambda>s.
       case (bms_artifact s, bms_calibrator s) of
         (Some a, Some c) \<Rightarrow> if cr_ready (bms_readiness s)
            then calibrated_forecast dexp a c v generated_at else Inl ModelNotReadyError
       | _ \<Rightarrow> Inl ModelNotReadyError)"

definition empty_registry :: "string \<Rightarrow> model_registry result" where
  "empty_registry version =
     bindr (mapr (\<lambda>b. bindr (mk_readiness \<lparr>cr_asset = bkt_asset b, cr_horizon = bkt_horizon b,
           cr_version = version, cr_sample_count = 0, cr_ready = False\<rparr>) (\<lambda>ready.
         mk_bucket_model \<lparr>bms_bucket = b, bms_readiness = ready, bms_artifact = None,
           bms_calibrator = None\<rparr>)) supported_market_buckets) mk_registry"

section \<open>Shadow states\<close>

datatype shadow_model_state = UNAVAILABLE | TRAINING_CORPUS_REQUIRED | INSUFFICIENT_SAMPLE
  | SHADOW_CANDIDATE | SHADOW_REJECTED

record shadow_bucket_status =
  sbs_asset :: asset
  sbs_horizon :: horizon
  sbs_state :: shadow_model_state
  sbs_readiness :: calibration_readiness
  sbs_reason :: string
  sbs_model_version :: "string option"
  sbs_calibration_version :: "string option"
  sbs_corpus_sample_count :: int

definition shadow_bucket_checks :: "shadow_bucket_status \<Rightarrow> check list" where
  "shadow_bucket_checks s =
     [fail_if (sbs_state s \<noteq> SHADOW_CANDIDATE \<and> cr_ready (sbs_readiness s))
        (ValueErr ''only SHADOW_CANDIDATE may carry ready calibration''),
      fail_if (sbs_corpus_sample_count s < 0) (ValueErr ''corpus_sample_count must be non-negative'')]"

section \<open>Calibration\<close>

lemma find_bin_total:
  assumes "bins \<noteq> []" "\<forall>(p, q)\<in>set (pairwise bins). cb_upper p = cb_lower q" "cb_upper (last bins) = 1"
    "cb_lower (hd bins) \<le> raw" "raw \<le> 1"
  shows "\<exists>b\<in>set bins. find_bin bins raw = Inr (cb_p_up b) \<and> cb_lower b \<le> raw
    \<and> (raw < cb_upper b \<or> raw = 1 \<and> b = last bins)"
  using assms
proof (induction bins rule: induct_list012)
  case (2 b)
  then show ?case by auto
next
  case (3 b c bs)
  show ?case
  proof (cases "raw < cb_upper b")
    case True
    with 3 show ?thesis by auto
  next
    case False
    with 3 show ?thesis by auto
  qed
qed simp

lemma calibrate_total:
  assumes "valid_calibrator c" "0 \<le> raw" "raw \<le> 1"
  shows "\<exists>b\<in>set (cal_bins c). calibrate c raw = Inr (cb_p_up b) \<and> cb_lower b \<le> raw
    \<and> (raw < cb_upper b \<or> raw = 1 \<and> b = last (cal_bins c))"
  using find_bin_total [of "cal_bins c" raw] assms
  by (auto simp: valid_calibrator_def calibrator_checks_def calibrate_def)

text \<open>Every bin has its minimum number of samples.\<close>

fun bins_filled :: "calibration_sample list \<Rightarrow> int \<Rightarrow> (dec \<times> dec) list \<Rightarrow> bool" where
  "bins_filled samples minimum [] \<longleftrightarrow> True"
| "bins_filled samples minimum ((lo, hi) # rest) \<longleftrightarrow>
     minimum \<le> int (length (bin_members samples lo hi (rest = []))) \<and> bins_filled samples minimum rest"

lemma rate_unit: "m \<le> n \<Longrightarrow> 0 \<le> ddiv (of_nat m) (of_nat n) \<and> ddiv (of_nat m) (of_nat n) \<le> 1"
  unfolding ddiv_def by (auto intro!: ctx_le simp: divide_le_eq_1)

lemma ups_le: "ups xs \<le> length xs"
  by (simp add: ups_def)

definition fitted_bin :: "calibration_sample list \<Rightarrow> dec \<Rightarrow> dec \<Rightarrow> bool \<Rightarrow> calibration_bin" where
  "fitted_bin samples lo hi is_last = (let members = bin_members samples lo hi is_last in
     \<lparr>cb_lower = lo, cb_upper = hi, cb_p_up = ddiv (of_nat (ups members)) (of_nat (length members)),
      cb_count = int (length members)\<rparr>)"

fun fitted_bins :: "calibration_sample list \<Rightarrow> (dec \<times> dec) list \<Rightarrow> calibration_bin list" where
  "fitted_bins samples [] = []"
| "fitted_bins samples ((lo, hi) # rest) = fitted_bin samples lo hi (rest = []) # fitted_bins samples rest"

lemma mk_fitted_bin:
  assumes "0 \<le> lo" "lo < hi" "hi \<le> 1" "1 \<le> length (bin_members samples lo hi l)"
  shows "mk_bin (fitted_bin samples lo hi l) = Inr (fitted_bin samples lo hi l)"
    "valid_bin (fitted_bin samples lo hi l)"
proof -
  have "bin_members samples lo hi l \<noteq> []" using assms(4) by auto
  moreover have "0 \<le> ddiv (of_nat (ups (bin_members samples lo hi l))) (of_nat (length (bin_members samples lo hi l)))"
    "ddiv (of_nat (ups (bin_members samples lo hi l))) (of_nat (length (bin_members samples lo hi l))) \<le> 1"
    using rate_unit [OF ups_le, of "bin_members samples lo hi l"] by auto
  ultimately show "valid_bin (fitted_bin samples lo hi l)"
    using assms by (cases "bin_members samples lo hi l")
      (auto simp: valid_bin_def calibration_bin_checks_def fitted_bin_def Let_def)
  then show "mk_bin (fitted_bin samples lo hi l) = Inr (fitted_bin samples lo hi l)"
    by (simp add: mk_bin_def valid_bin_def checked_passes)
qed

lemma fit_bins_outcome:
  assumes "1 \<le> minimum" "\<forall>(l, r)\<in>set ps. 0 \<le> l \<and> l < r \<and> r \<le> 1"
  shows "if bins_filled samples minimum ps
    then fit_bins samples minimum ps = Inr (fitted_bins samples ps) \<and> list_all valid_bin (fitted_bins samples ps)
    else \<exists>e. fit_bins samples minimum ps = Inl e"
  using assms
proof (induction ps)
  case (Cons p ps)
  obtain lo hi where p: "p = (lo, hi)" by (cases p)
  let ?n = "length (bin_members samples lo hi (ps = []))"
  show ?case
  proof (cases "int ?n < minimum")
    case True
    then show ?thesis by (simp add: p)
  next
    case False
    then have "1 \<le> ?n" using Cons.prems by simp
    then have "mk_bin (fitted_bin samples lo hi (ps = [])) = Inr (fitted_bin samples lo hi (ps = []))"
      "valid_bin (fitted_bin samples lo hi (ps = []))"
      using mk_fitted_bin [of lo hi samples "ps = []"] Cons.prems by (auto simp: p)
    then show ?thesis
      using False Cons by (auto simp: p fitted_bin_def Let_def)
  qed
qed simp

lemma fitted_bins_bounds: "map (\<lambda>b. (cb_lower b, cb_upper b)) (fitted_bins samples ps) = ps"
  by (induction samples ps rule: fitted_bins.induct) (auto simp: fitted_bin_def Let_def)

lemma length_filter_split: "(\<And>x. x \<in> set xs \<Longrightarrow> P x \<longleftrightarrow> Q x \<or> R x) \<Longrightarrow> (\<And>x. x \<in> set xs \<Longrightarrow> \<not> (Q x \<and> R x)) \<Longrightarrow>
    length (filter P xs) = length (filter Q xs) + length (filter R xs)"
  by (induction xs) auto

lemma fitted_bins_count:
  assumes "\<forall>s\<in>set samples. cs_raw s \<le> 1"
  shows "sorted_wrt (<) bs \<Longrightarrow> 2 \<le> length bs \<Longrightarrow> last bs = 1 \<Longrightarrow>
    sum_list (map cb_count (fitted_bins samples (pairwise bs)))
      = int (length (filter (\<lambda>s. hd bs \<le> cs_raw s) samples))"
proof (induction bs rule: induct_list012)
  case (3 a b bs)
  show ?case
  proof (cases bs)
    case Nil
    then have "bin_members samples a b True = filter (\<lambda>s. a \<le> cs_raw s) samples"
      unfolding bin_members_def using 3(3,5) assms by (intro filter_cong) (auto simp: order_less_le)
    with Nil show ?thesis by (simp add: fitted_bin_def Let_def)
  next
    case (Cons c cs)
    have "length (filter (\<lambda>s. a \<le> cs_raw s) samples)
        = length (bin_members samples a b False) + length (filter (\<lambda>s. b \<le> cs_raw s) samples)"
      unfolding bin_members_def using 3(3) by (intro length_filter_split) auto
    with Cons 3 show ?thesis by (auto simp: fitted_bin_def Let_def)
  qed
qed simp_all

lemma pairwise_within:
  "sorted_wrt (<) bs \<Longrightarrow> (l, r) \<in> set (pairwise bs) \<Longrightarrow> hd bs \<le> l \<and> l < r \<and> r \<le> last (bs :: dec list)"
proof (induction bs rule: induct_list012)
  case (3 x y zs)
  then show ?case by (cases "zs = []") (auto intro: order.trans less_imp_le)
qed simp_all

lemma pairwise_ends:
  "2 \<le> length bs \<Longrightarrow> pairwise bs \<noteq> [] \<and> fst (hd (pairwise bs)) = hd bs \<and> snd (last (pairwise bs)) = last bs"
  by (induction bs rule: induct_list012) (auto simp: Suc_le_eq)

lemma pairwise_chain: "(p, q) \<in> set (pairwise (pairwise bs)) \<Longrightarrow> snd p = fst q"
proof (induction bs rule: induct_list012)
  case (3 x y zs)
  then show ?case by (cases zs) auto
qed simp_all

lemma pairwise_map: "pairwise (map f xs) = map (map_prod f f) (pairwise xs)"
  by (induction xs rule: induct_list012) simp_all

lemma fitted_bins_cover:
  fixes samples :: "calibration_sample list"
  assumes "2 \<le> length bs"
  defines "fb \<equiv> fitted_bins samples (pairwise bs)"
  shows "fb \<noteq> []" "cb_lower (hd fb) = hd bs" "cb_upper (last fb) = last bs"
    "(p, q) \<in> set (pairwise fb) \<Longrightarrow> cb_upper p = cb_lower q"
proof -
  let ?b = "\<lambda>b. (cb_lower b, cb_upper b)"
  have m: "map ?b fb = pairwise bs" by (simp add: fb_def fitted_bins_bounds)
  then show ne: "fb \<noteq> []" using pairwise_ends [OF assms(1)] by force
  show "cb_lower (hd fb) = hd bs" "cb_upper (last fb) = last bs"
    using pairwise_ends [OF assms(1)] ne by (auto simp flip: m simp: hd_map last_map)
  assume "(p, q) \<in> set (pairwise fb)"
  then have "(?b p, ?b q) \<in> set (pairwise (pairwise bs))"
    by (force simp flip: m simp: pairwise_map)
  then show "cb_upper p = cb_lower q" using pairwise_chain by fastforce
qed

definition fit_guards :: "calibration_sample list \<Rightarrow> string \<Rightarrow> dec list \<Rightarrow> int \<Rightarrow> utc \<Rightarrow> bool" where
  "fit_guards samples version bs minimum through \<longleftrightarrow> 1 \<le> minimum \<and> 2 \<le> length bs \<and> hd bs = 0 \<and> last bs = 1
     \<and> sorted_wrt (<) bs \<and> (\<forall>s\<in>set samples. cs_observed_at s \<le> through)
     \<and> require_text ''calibration_version'' version = None \<and> bins_filled samples minimum (pairwise bs)"

lemma fit_calibrator_outcome:
  fixes samples :: "calibration_sample list" and a :: asset and h :: horizon
  assumes "fit_guards samples version bs minimum through"
  defines "c \<equiv> \<lparr>cal_asset = a, cal_horizon = h, cal_version = version,
    cal_bins = fitted_bins samples (pairwise bs), cal_trained_through = through\<rparr>"
  shows "fit_reliability_calibrator samples a h version bs minimum through = Inr c" "valid_calibrator c"
proof -
  have g: "1 \<le> minimum" "2 \<le> length bs" "hd bs = 0" "last bs = 1" "sorted_wrt (<) bs"
    "\<forall>s\<in>set samples. cs_observed_at s \<le> through" "require_text ''calibration_version'' version = None"
    "bins_filled samples minimum (pairwise bs)"
    using assms(1) by (auto simp: fit_guards_def simp del: require_text_None)
  have "\<forall>(l, r)\<in>set (pairwise bs). 0 \<le> l \<and> l < r \<and> r \<le> 1"
    using pairwise_within [OF g(5)] g(3,4) by auto
  then have f: "fit_bins samples minimum (pairwise bs) = Inr (cal_bins c)" "list_all valid_bin (cal_bins c)"
    using fit_bins_outcome [OF g(1), of "pairwise bs" samples] g(8) by (simp_all add: c_def)
  have p: "passes (calibrator_checks c)"
    using fitted_bins_cover [OF g(2), where samples = samples] g(3,4,7)
    by (auto simp: calibrator_checks_def c_def simp del: require_text_None)
  then show "valid_calibrator c" using f by (simp add: valid_calibrator_def)
  have "\<not> (\<exists>(l, r)\<in>set (pairwise bs). r \<le> l)" using pairwise_within [OF g(5)] by force
  then show "fit_reliability_calibrator samples a h version bs minimum through = Inr c"
    unfolding fit_reliability_calibrator_def
    by (subst checked_passes) (use g f p in \<open>auto simp: mk_calibrator_def c_def not_less\<close>)
qed

lemma fit_calibrator_guards:
  assumes "fit_reliability_calibrator samples a h version bs minimum through = Inr c"
  shows "fit_guards samples version bs minimum through"
proof -
  have g: "1 \<le> minimum" "2 \<le> length bs" "hd bs = 0" "last bs = 1" "\<forall>s\<in>set samples. cs_observed_at s \<le> through"
    and s: "\<forall>(l, r)\<in>set (pairwise bs). l < r"
    using assms by (auto simp: fit_reliability_calibrator_def checked_Inr_iff not_le not_less)
  from s have sorted: "sorted_wrt (<) bs" by (simp add: pairwise_less_sorted)
  then have "\<forall>(l, r)\<in>set (pairwise bs). 0 \<le> l \<and> l < r \<and> r \<le> 1"
    using pairwise_within [OF sorted] g(3,4) by auto
  then have "bins_filled samples minimum (pairwise bs)"
    using fit_bins_outcome [OF g(1), of "pairwise bs" samples] assms
    by (auto simp: fit_reliability_calibrator_def checked_Inr_iff bindr_Inr_iff split: if_splits)
  moreover have "require_text ''calibration_version'' version = None"
    using assms by (auto simp: fit_reliability_calibrator_def checked_Inr_iff bindr_Inr_iff mk_calibrator_def
      calibrator_checks_def simp del: require_text_None)
  ultimately show ?thesis using g sorted by (simp add: fit_guards_def del: require_text_None)
qed

lemma fit_calibrator_count:
  assumes "fit_guards samples version bs minimum through" "\<forall>s\<in>set samples. 0 \<le> cs_raw s \<and> cs_raw s \<le> 1"
  shows "sum_list (map cb_count (fitted_bins samples (pairwise bs))) = int (length samples)"
proof -
  have "filter (\<lambda>s. 0 \<le> cs_raw s) samples = samples" using assms(2) by (simp add: filter_id_conv)
  then show ?thesis
    using fitted_bins_count [of samples bs] assms by (simp add: fit_guards_def)
qed

text \<open>\<open>fit_reliability_calibrator\<close> succeeds exactly when its guards hold and every bin has its minimum of
  samples; the calibrator it then returns satisfies its own constructor, has one bin per pair of
  boundaries, counts every sample exactly once, and maps every probability in [0, 1] to the observed
  rate of a bin that contains it.\<close>

theorem calibrator_counts_every_sample_once:
  assumes "\<forall>s\<in>set samples. 0 \<le> cs_raw s \<and> cs_raw s \<le> 1"
  shows "case fit_reliability_calibrator samples a h version bs minimum through of
      Inl e \<Rightarrow> \<not> fit_guards samples version bs minimum through
    | Inr c \<Rightarrow> fit_guards samples version bs minimum through \<and> valid_calibrator c
        \<and> map (\<lambda>b. (cb_lower b, cb_upper b)) (cal_bins c) = pairwise bs
        \<and> cal_sample_count c = int (length samples)
        \<and> (\<forall>raw. 0 \<le> raw \<and> raw \<le> 1 \<longrightarrow> (\<exists>b\<in>set (cal_bins c). calibrate c raw = Inr (cb_p_up b)
              \<and> cb_lower b \<le> raw \<and> raw \<le> cb_upper b \<and> 0 \<le> cb_p_up b \<and> cb_p_up b \<le> 1))"
proof (cases "fit_reliability_calibrator samples a h version bs minimum through")
  case (Inl e)
  then show ?thesis
    using fit_calibrator_outcome(1) [where samples = samples and a = a and h = h] by auto
next
  case (Inr c)
  note g = fit_calibrator_guards [OF Inr]
  define d where "d = \<lparr>cal_asset = a, cal_horizon = h, cal_version = version,
    cal_bins = fitted_bins samples (pairwise bs), cal_trained_through = through\<rparr>"
  have c: "c = d" "valid_calibrator d"
    using fit_calibrator_outcome [OF g, where a = a and h = h] Inr by (simp_all add: d_def)
  have "\<exists>b\<in>set (cal_bins d). calibrate d raw = Inr (cb_p_up b)
      \<and> cb_lower b \<le> raw \<and> raw \<le> cb_upper b \<and> 0 \<le> cb_p_up b \<and> cb_p_up b \<le> 1"
    if "0 \<le> raw" "raw \<le> 1" for raw
  proof -
    have l: "cb_upper (last (cal_bins d)) = 1" "\<forall>b\<in>set (cal_bins d). valid_bin b"
      using c(2) by (auto simp: valid_calibrator_def calibrator_checks_def list_all_iff)
    with calibrate_total [OF c(2) that] show ?thesis
      by (fastforce simp: valid_bin_def calibration_bin_checks_def)
  qed
  then show ?thesis
    using Inr g c fit_calibrator_count [OF g assms] fitted_bins_bounds [of samples "pairwise bs"]
    by (simp add: cal_sample_count_def d_def)
qed

definition demo_samples :: "calibration_sample list" where
  "demo_samples = [\<lparr>cs_raw = 1/5, cs_outcome_up = False, cs_observed_at = 1\<rparr>,
     \<lparr>cs_raw = 1/2, cs_outcome_up = True, cs_observed_at = 2\<rparr>, \<lparr>cs_raw = 1, cs_outcome_up = True, cs_observed_at = 3\<rparr>]"

lemma demo_samples_unit: "\<forall>s\<in>set demo_samples. 0 \<le> cs_raw s \<and> cs_raw s \<le> 1"
  by (simp add: demo_samples_def)

lemma demo_guards: "fit_guards demo_samples ''v1'' [0, 1/2, 1] 1 9"
  by (simp add: fit_guards_def demo_samples_def bin_members_def py_space_def)

theorem calibrator_counts_every_sample_once_witness:
  "\<exists>c. fit_reliability_calibrator demo_samples BTC FIVE_MINUTES ''v1'' [0, 1/2, 1] 1 9 = Inr c \<and> cal_sample_count c = 3"
  using calibrator_counts_every_sample_once [OF demo_samples_unit, where a = BTC and h = FIVE_MINUTES
    and version = "''v1''" and bs = "[0, 1/2, 1]" and minimum = 1 and through = 9] demo_guards
  by (cases "fit_reliability_calibrator demo_samples BTC FIVE_MINUTES ''v1'' [0, 1/2, 1] 1 9") (simp_all add: demo_samples_def)

section \<open>Forecasts\<close>

definition exp_ok :: "(dec \<Rightarrow> dec) \<Rightarrow> bool" where
  "exp_ok dexp \<longleftrightarrow> (\<forall>x. 0 \<le> dexp x \<and> dec_exact (dexp x))"

lemma sigmoid_unit:
  assumes "exp_ok dexp" shows "case predict_raw dexp a v of Inl e \<Rightarrow> True | Inr p \<Rightarrow> 0 \<le> p \<and> p \<le> 1"
proof -
  have e: "0 \<le> dexp x" "dec_exact (dexp x)" for x using assms by (simp_all add: exp_ok_def)
  have d: "1 \<le> dadd 1 (dexp x)" "dexp x \<le> dadd 1 (dexp x)" for x
    unfolding dadd_def using e [of x] by (auto intro!: ctx_ge)
  have "0 \<le> ddiv 1 (dadd 1 (dexp x)) \<and> ddiv 1 (dadd 1 (dexp x)) \<le> 1"
    "0 \<le> ddiv (dexp x) (dadd 1 (dexp x)) \<and> ddiv (dexp x) (dadd 1 (dexp x)) \<le> 1" for x
    unfolding ddiv_def using d [of x] e [of x]
    by (auto intro!: ctx_le ctx_nonneg simp: divide_le_eq_1)
  then show ?thesis
    by (auto simp: predict_raw_def checked_def Let_def split: option.splits)
qed

definition same_schema :: "logistic_artifact \<Rightarrow> feature_vector \<Rightarrow> bool" where
  "same_schema a v \<longleftrightarrow> fvec_version v = la_feature_set_version a
     \<and> set (map feat_name (fvec_features v)) = set (la_feature_names a)"

definition forecast_conditions :: "logistic_artifact \<Rightarrow> reliability_calibrator \<Rightarrow> feature_vector \<Rightarrow> utc \<Rightarrow> bool" where
  "forecast_conditions a c v t \<longleftrightarrow> fvec_asset v = cal_asset c \<and> fvec_horizon v = cal_horizon c
     \<and> cal_trained_through c < fvec_generated_at v \<and> same_schema a v \<and> fvec_generated_at v \<le> t"

lemma predict_raw_conditions:
  "(\<exists>p. predict_raw dexp a v = Inr p) \<longleftrightarrow> same_schema a v"
  by (auto simp: same_schema_def predict_raw_def checked_def fail_if_def Let_def)

lemma calibrated_forecast_outcome:
  assumes "exp_ok dexp" "valid_calibrator c" "passes (artifact_checks digest a)" "valid_feature_vector v"
  shows "case calibrated_forecast dexp a c v t of
      Inl e \<Rightarrow> \<not> forecast_conditions a c v t
    | Inr f \<Rightarrow> forecast_conditions a c v t \<and> valid_forecast f
        \<and> (\<exists>raw. predict_raw dexp a v = Inr raw \<and> 0 \<le> raw \<and> raw \<le> 1 \<and> calibrate c raw = Inr (fc_p_up f))
        \<and> fc_market_id f = fvec_market_id v \<and> fc_asset f = fvec_asset v \<and> fc_horizon f = fvec_horizon v
        \<and> fc_feature_as_of f = fvec_generated_at v \<and> fc_generated_at f = t"
proof (cases "fvec_asset v = cal_asset c \<and> fvec_horizon v = cal_horizon c \<and> cal_trained_through c < fvec_generated_at v
     \<and> (\<exists>p. predict_raw dexp a v = Inr p)")
  case False
  show ?thesis
  proof (cases "calibrated_forecast dexp a c v t")
    case Inl
    with False show ?thesis unfolding forecast_conditions_def predict_raw_conditions by auto
  next
    case (Inr f)
    with False show ?thesis
      by (auto simp: calibrated_forecast_def checked_Inr_iff bindr_Inr_iff)
  qed
next
  case True
  then obtain raw where raw: "predict_raw dexp a v = Inr raw" by blast
  then have u: "0 \<le> raw" "raw \<le> 1" using sigmoid_unit [OF assms(1), of a v] by auto
  then obtain b where b: "b \<in> set (cal_bins c)" "calibrate c raw = Inr (cb_p_up b)"
    using calibrate_total [OF assms(2)] by blast
  let ?p = "cb_p_up b"
  have p: "0 \<le> ?p" "?p \<le> 1"
    using assms(2) b(1) by (auto simp: valid_calibrator_def list_all_iff valid_bin_def calibration_bin_checks_def)
  let ?f = "\<lparr>fc_market_id = fvec_market_id v, fc_asset = fvec_asset v,
           fc_horizon = fvec_horizon v, fc_p_up = ?p, fc_p_down = dsub 1 ?p,
           fc_model_version = la_model_version a, fc_calibration_version = cal_version c,
           fc_feature_set_version = fvec_version v, fc_feature_as_of = fvec_generated_at v,
           fc_generated_at = t\<rparr>"
  have "passes (forecast_checks ?f) \<longleftrightarrow> fvec_generated_at v \<le> t"
    using assms(2-4) p complement_sum [OF p] complement_unit [OF p]
    by (simp add: forecast_checks_def valid_calibrator_def calibrator_checks_def artifact_checks_def
      valid_feature_vector_def feature_vector_checks_def)
  moreover have "calibrated_forecast dexp a c v t = mk_forecast ?f"
    using True raw b(2) by (simp add: calibrated_forecast_def)
  ultimately show ?thesis
    using True raw u b(2) checked_fails [of "forecast_checks ?f" "Inr ?f"]
    by (cases "fvec_generated_at v \<le> t")
      (auto simp: mk_forecast_def valid_forecast_def forecast_conditions_def simp flip: predict_raw_conditions [of dexp])
qed

definition valid_bucket_model :: "(string list \<Rightarrow> string) \<Rightarrow> bucket_model_state \<Rightarrow> bool" where
  "valid_bucket_model digest s \<longleftrightarrow> passes (bucket_model_checks s)
     \<and> pred_option (\<lambda>a. passes (artifact_checks digest a)) (bms_artifact s)
     \<and> pred_option valid_calibrator (bms_calibrator s)"

definition valid_registry :: "(string list \<Rightarrow> string) \<Rightarrow> model_registry \<Rightarrow> bool" where
  "valid_registry digest states \<longleftrightarrow> passes (registry_checks states) \<and> list_all (valid_bucket_model digest) states"

lemma find_total: "x \<in> set xs \<Longrightarrow> P x \<Longrightarrow> \<exists>y\<in>set xs. find P xs = Some y \<and> P y"
  by (induction xs) auto

lemma state_for_total:
  assumes "passes (registry_checks states)"
  shows "\<exists>s\<in>set states. state_for states b = Inr s \<and> bms_bucket s = b"
proof -
  have "b \<in> bms_bucket ` set states"
    using assms buckets_complete [of b] by (auto simp: registry_checks_def Let_def)
  then show ?thesis using find_total [of _ states "\<lambda>s. bms_bucket s = b"] by (force simp: state_for_def)
qed

lemma bucket_model_ready:
  assumes "passes (bucket_model_checks s)"
  shows "cr_ready (bms_readiness s) \<longleftrightarrow> (\<exists>a c. bms_artifact s = Some a \<and> bms_calibrator s = Some c)"
  using assms by (auto simp: bucket_model_checks_def)

text \<open>Over a valid registry, \<open>TwelveBucketRegistry.forecast\<close> looks up the one state of the vector's bucket and
  either raises \<open>ModelNotReadyError\<close> for an unready bucket, or refuses a vector of another schema or from
  before the calibrator's training end, or returns a proper forecast: valid, of the vector's market and
  bucket, whose probability is the calibrated value of a raw probability in [0, 1].\<close>

theorem registry_forecast_is_proper:
  assumes "exp_ok dexp" "valid_registry digest states" "valid_feature_vector v"
  shows "\<exists>s\<in>set states. bms_bucket s = \<lparr>bkt_asset = fvec_asset v, bkt_horizon = fvec_horizon v\<rparr> \<and>
    (case registry_forecast dexp states v t of
      Inl e \<Rightarrow> (if cr_ready (bms_readiness s)
          then \<not> forecast_conditions (the (bms_artifact s)) (the (bms_calibrator s)) v t
          else e = ModelNotReadyError)
    | Inr f \<Rightarrow> cr_ready (bms_readiness s) \<and> valid_forecast f
        \<and> (\<exists>a c raw. bms_artifact s = Some a \<and> bms_calibrator s = Some c \<and> forecast_conditions a c v t
             \<and> predict_raw dexp a v = Inr raw \<and> 0 \<le> raw \<and> raw \<le> 1 \<and> calibrate c raw = Inr (fc_p_up f))
        \<and> fc_market_id f = fvec_market_id v \<and> fc_asset f = fvec_asset v \<and> fc_horizon f = fvec_horizon v
        \<and> fc_feature_as_of f = fvec_generated_at v \<and> fc_generated_at f = t)"
proof -
  obtain s where s: "s \<in> set states" "bms_bucket s = \<lparr>bkt_asset = fvec_asset v, bkt_horizon = fvec_horizon v\<rparr>"
    "state_for states \<lparr>bkt_asset = fvec_asset v, bkt_horizon = fvec_horizon v\<rparr> = Inr s"
    using state_for_total assms(2) by (fastforce simp: valid_registry_def)
  have v: "valid_bucket_model digest s" using assms(2) s(1) by (auto simp: valid_registry_def list_all_iff)
  show ?thesis
  proof (cases "cr_ready (bms_readiness s)")
    case False
    then have "registry_forecast dexp states v t = Inl ModelNotReadyError"
      using s(3) by (simp add: registry_forecast_def split: option.splits)
    with s False show ?thesis by (intro bexI [of _ s]) auto
  next
    case True
    then obtain a c where ac: "bms_artifact s = Some a" "bms_calibrator s = Some c"
      using v bucket_model_ready [of s] by (auto simp: valid_bucket_model_def)
    then have "registry_forecast dexp states v t = calibrated_forecast dexp a c v t"
      using s(3) True by (simp add: registry_forecast_def)
    moreover have "valid_calibrator c" "passes (artifact_checks digest a)"
      using v ac by (auto simp: valid_bucket_model_def)
    ultimately show ?thesis
      using calibrated_forecast_outcome [OF assms(1), of c digest a v t] assms(3) s ac True
      by (intro bexI [of _ s]) (auto split: sum.splits)
  qed
qed

text \<open>The registry a start without models uses: every bucket is there and none forecasts.\<close>

lemma empty_registry_unready:
  assumes "require_text ''calibration_version'' version = None"
  shows "\<exists>states. empty_registry version = Inr states \<and> valid_registry digest states
    \<and> (\<forall>dexp v t. registry_forecast dexp states v t = Inl ModelNotReadyError)"
proof -
  let ?s = "\<lambda>b. \<lparr>bms_bucket = b, bms_readiness = \<lparr>cr_asset = bkt_asset b, cr_horizon = bkt_horizon b,
    cr_version = version, cr_sample_count = 0, cr_ready = False\<rparr>, bms_artifact = None, bms_calibrator = None\<rparr>"
  let ?reg = "map ?s supported_market_buckets"
  have p: "passes (bucket_model_checks (?s b))" for b by (simp add: bucket_model_checks_def)
  have r: "passes (registry_checks ?reg)"
    by (simp add: registry_checks_def Let_def comp_def buckets_distinct)
  have "mapr (\<lambda>b. bindr (mk_readiness (bms_readiness (?s b))) (\<lambda>ready. mk_bucket_model
        \<lparr>bms_bucket = b, bms_readiness = ready, bms_artifact = None, bms_calibrator = None\<rparr>)) supported_market_buckets
      = Inr ?reg"
    using assms p by (intro mapr_total) (simp add: mk_readiness_def mk_bucket_model_def readiness_checks_def)
  then have "empty_registry version = Inr ?reg"
    using r by (simp add: empty_registry_def mk_registry_def)
  moreover have "valid_registry digest ?reg"
    using r p by (simp add: valid_registry_def valid_bucket_model_def list_all_iff)
  moreover have "registry_forecast dexp ?reg v t = Inl ModelNotReadyError" for dexp v t
    using state_for_total [OF r, of "\<lparr>bkt_asset = fvec_asset v, bkt_horizon = fvec_horizon v\<rparr>"]
    by (auto simp: registry_forecast_def)
  ultimately show ?thesis by blast
qed

definition demo_exp :: "dec \<Rightarrow> dec" where
  "demo_exp x = ctx (if 0 \<le> x then 1 + x else 1 / (1 - x))"

lemma demo_exp_ok: "exp_ok demo_exp"
  by (simp add: exp_ok_def demo_exp_def)

definition demo_vector :: feature_vector where
  "demo_vector = \<lparr>fvec_market_id = ''m1'', fvec_asset = BTC, fvec_horizon = FIVE_MINUTES, fvec_version = ''f1'',
     fvec_features = [\<lparr>feat_name = ''momentum'', feat_value = 1/10, feat_source = ''x'', feat_source_ts = 10\<rparr>],
     fvec_generated_at = 11\<rparr>"

definition demo_artifact :: logistic_artifact where
  "demo_artifact = \<lparr>la_model_version = ''m'', la_feature_set_version = ''f1'', la_feature_names = [''momentum''],
     la_coefficients = [2], la_intercept = 0, la_schema_hash = ''momentum''\<rparr>"

definition demo_calibrator :: reliability_calibrator where
  "demo_calibrator = \<lparr>cal_asset = BTC, cal_horizon = FIVE_MINUTES, cal_version = ''c'',
     cal_bins = [\<lparr>cb_lower = 0, cb_upper = 1, cb_p_up = 3/4, cb_count = 4\<rparr>], cal_trained_through = 9\<rparr>"

definition demo_state :: "market_bucket \<Rightarrow> bucket_model_state" where
  "demo_state b = (let ready = (b = \<lparr>bkt_asset = BTC, bkt_horizon = FIVE_MINUTES\<rparr>) in
     \<lparr>bms_bucket = b, bms_readiness = \<lparr>cr_asset = bkt_asset b, cr_horizon = bkt_horizon b, cr_version = ''c'',
        cr_sample_count = (if ready then 4 else 0), cr_ready = ready\<rparr>,
      bms_artifact = (if ready then Some demo_artifact else None),
      bms_calibrator = (if ready then Some demo_calibrator else None)\<rparr>)"

definition demo_registry :: model_registry where
  "demo_registry = map demo_state supported_market_buckets"

lemma demo_calibrator_valid: "valid_calibrator demo_calibrator"
  by (simp add: valid_calibrator_def calibrator_checks_def demo_calibrator_def valid_bin_def
    calibration_bin_checks_def py_space_def)

lemma demo_artifact_valid: "passes (artifact_checks concat demo_artifact)"
  by (simp add: artifact_checks_def demo_artifact_def feature_schema_hash_def py_space_def price_term_def
    py_lower_def sublist_code)

lemma demo_state_valid: "valid_bucket_model concat (demo_state b)"
  using demo_calibrator_valid demo_artifact_valid
  by (auto simp: valid_bucket_model_def demo_state_def Let_def bucket_model_checks_def
    demo_calibrator_def cal_sample_count_def)

lemma demo_registry_valid: "valid_registry concat demo_registry"
proof -
  have "map bms_bucket demo_registry = supported_market_buckets"
    by (simp add: demo_registry_def comp_def demo_state_def Let_def)
  then show ?thesis
    using demo_state_valid
    by (simp add: valid_registry_def registry_checks_def buckets_distinct list_all_iff demo_registry_def)
qed

lemma demo_vector_valid: "valid_feature_vector demo_vector"
  by (simp add: valid_feature_vector_def feature_vector_checks_def demo_vector_def py_space_def)

theorem registry_forecast_is_proper_witness:
  "\<exists>f. registry_forecast demo_exp demo_registry demo_vector 12 = Inr f \<and> valid_forecast f"
proof -
  have c: "forecast_conditions demo_artifact demo_calibrator demo_vector 12"
    by (simp add: forecast_conditions_def same_schema_def demo_artifact_def demo_calibrator_def demo_vector_def)
  have s: "s = demo_state (bms_bucket s)" if "s \<in> set demo_registry" for s
    using that by (auto simp: demo_registry_def demo_state_def Let_def)
  let ?P = "\<lambda>s. case registry_forecast demo_exp demo_registry demo_vector 12 of
      Inl e \<Rightarrow> (if cr_ready (bms_readiness s)
          then \<not> forecast_conditions (the (bms_artifact s)) (the (bms_calibrator s)) demo_vector 12
          else e = ModelNotReadyError)
    | Inr f \<Rightarrow> valid_forecast f"
  obtain s where "s \<in> set demo_registry" "?P s"
    "bms_bucket s = \<lparr>bkt_asset = fvec_asset demo_vector, bkt_horizon = fvec_horizon demo_vector\<rparr>"
    using registry_forecast_is_proper [OF demo_exp_ok demo_registry_valid demo_vector_valid, of 12]
    by (cases "registry_forecast demo_exp demo_registry demo_vector 12") auto
  moreover from this s [of s] have "s = demo_state \<lparr>bkt_asset = BTC, bkt_horizon = FIVE_MINUTES\<rparr>"
    by (simp add: demo_vector_def)
  ultimately show ?thesis using c by (simp add: demo_state_def split: sum.splits)
qed

end
