(* ===== verification/Observability.thy ===== *)
theory Observability
  imports Models Gates
begin

text \<open>
  \<open>observability/\<close>: the redaction of secrets, the audit and log events built on it, the health and
  readiness reports, and the metrics snapshot. A value of a payload is an \<open>obs_value\<close>: a mapping is the
  list of its entries in iteration order, whose keys are texts, or other keys given by their \<open>str\<close>.
\<close>

section \<open>Payload values\<close>

datatype obs_key = KText string | KOther string

datatype obs_value = ONone | OBool bool | OInt int | OReal rat | OText string
  | OTuple "obs_value list" | OList "obs_value list" | OMap "(obs_key \<times> obs_value) list"

fun key_text :: "obs_key \<Rightarrow> string" where
  "key_text (KText s) = s"
| "key_text (KOther s) = s"

type_synonym fields = "(string \<times> obs_value) list"

definition omap :: "fields \<Rightarrow> obs_value" where
  "omap kvs = OMap (map (\<lambda>(k, v). (KText k, v)) kvs)"

text \<open>\<open>d[k] = v\<close>: an existing key keeps its place.\<close>

fun dict_put :: "string \<Rightarrow> 'a \<Rightarrow> (string \<times> 'a) list \<Rightarrow> (string \<times> 'a) list" where
  "dict_put k v [] = [(k, v)]"
| "dict_put k v ((k', v') # kvs) = (if k' = k then (k, v) # kvs else (k', v') # dict_put k v kvs)"

text \<open>\<open>{str(item_key): item for item_key, item in value.items()}\<close>\<close>

definition text_items :: "(obs_key \<times> obs_value) list \<Rightarrow> fields" where
  "text_items kvs = foldl (\<lambda>d (k, v). dict_put (key_text k) v d) [] kvs"

section \<open>Redaction\<close>

definition REDACTED :: string where "REDACTED = ''<redacted>''"

definition sensitive_markers :: "string list" where
  "sensitive_markers = [''api_key'', ''api_secret'', ''passphrase'', ''private_key'', ''secret'', ''token'', ''credential'']"

definition sensitive :: "string \<Rightarrow> bool" where
  "sensitive key = list_ex (\<lambda>marker. sublist marker (py_lower key)) sensitive_markers"

text \<open>The measure of the recursion: the sizes of the values, which \<open>str\<close> of the keys cannot increase.\<close>

definition weight :: "fields \<Rightarrow> nat" where
  "weight kvs = sum_list (map (\<lambda>kv. size (snd kv)) kvs)"

lemma size_in_weight: "(k, v) \<in> set kvs \<Longrightarrow> size v \<le> weight kvs"
  by (induction kvs) (auto simp: weight_def)

lemma weight_put: "weight (dict_put k v d) \<le> size v + weight d"
  by (induction d) (auto simp: weight_def)

lemma weight_text_items: "weight (text_items kvs) < size (OMap kvs)"
proof -
  have "weight (foldl (\<lambda>d (k, v). dict_put (key_text k) v d) d kvs) \<le> weight d + size_list (size_prod (\<lambda>_. 0) size) kvs" for d
  proof (induction kvs arbitrary: d)
    case (Cons kv kvs)
    obtain k v where kv: "kv = (k, v)" by (cases kv)
    have "weight (foldl (\<lambda>d (k, v). dict_put (key_text k) v d) (dict_put (key_text k) v d) kvs)
        \<le> weight (dict_put (key_text k) v d) + size_list (size_prod (\<lambda>_. 0) size) kvs" by (rule Cons.IH)
    also have "\<dots> \<le> size v + weight d + size_list (size_prod (\<lambda>_. 0) size) kvs" by (simp add: weight_put)
    finally show ?case by (simp add: kv)
  qed simp
  from this [of "[]"] show ?thesis by (simp add: text_items_def weight_def)
qed

lemma size_member: "x \<in> set xs \<Longrightarrow> size x \<le> size_list size xs"
  by (induction xs) auto

function redact_mapping :: "fields \<Rightarrow> fields" where
  "redact_mapping kvs = map (\<lambda>(key, v). (key,
     if sensitive key then OText REDACTED
     else case v of
        OMap m \<Rightarrow> omap (redact_mapping (text_items m))
      | OTuple xs \<Rightarrow> OTuple (map (\<lambda>x. case x of OMap m \<Rightarrow> omap (redact_mapping (text_items m)) | _ \<Rightarrow> x) xs)
      | OList xs \<Rightarrow> OList (map (\<lambda>x. case x of OMap m \<Rightarrow> omap (redact_mapping (text_items m)) | _ \<Rightarrow> x) xs)
      | _ \<Rightarrow> v)) kvs"
  by pat_completeness auto

termination
proof (relation "measure weight")
  fix kvs :: fields and kv key v m
  assume "kv \<in> set kvs" "(key, v) = kv" "v = OMap m"
  then show "(text_items m, kvs) \<in> measure weight"
    using weight_text_items [of m] size_in_weight [of key v kvs] by simp
next
  fix kvs :: fields and kv key v xs x m
  assume "kv \<in> set kvs" "(key, v) = kv" "v = OTuple xs" "x \<in> set xs" "x = OMap m"
  then show "(text_items m, kvs) \<in> measure weight"
    using weight_text_items [of m] size_in_weight [of key v kvs] size_member [of x xs] by simp
next
  fix kvs :: fields and kv key v xs x m
  assume "kv \<in> set kvs" "(key, v) = kv" "v = OList xs" "x \<in> set xs" "x = OMap m"
  then show "(text_items m, kvs) \<in> measure weight"
    using weight_text_items [of m] size_in_weight [of key v kvs] size_member [of x xs] by simp
qed simp


declare redact_mapping.simps [simp del]

section \<open>Audit and log events\<close>

record audited_event =
  ae_event_id :: string
  ae_actor :: string
  ae_action :: string
  ae_reference_id :: string
  ae_occurred_at :: utc
  ae_metadata :: fields

definition audited_event_checks :: "audited_event \<Rightarrow> check list" where
  "audited_event_checks e =
     [require_text ''event_id'' (ae_event_id e), require_text ''actor'' (ae_actor e),
      require_text ''action'' (ae_action e), require_text ''reference_id'' (ae_reference_id e)]"

definition mk_audited_event :: "audited_event \<Rightarrow> audited_event result" where
  "mk_audited_event e = checked (audited_event_checks e) (Inr e)"

definition audited_event_dict :: "(utc \<Rightarrow> string) \<Rightarrow> audited_event \<Rightarrow> fields" where
  "audited_event_dict iso_text e =
     [(''event_id'', OText (ae_event_id e)), (''actor'', OText (ae_actor e)), (''action'', OText (ae_action e)),
      (''reference_id'', OText (ae_reference_id e)), (''occurred_at'', OText (iso_text (ae_occurred_at e))),
      (''metadata'', omap (redact_mapping (ae_metadata e)))]"

record log_event =
  le_event_type :: string
  le_severity :: string
  le_occurred_at :: utc
  le_fields :: fields

definition log_event_checks :: "log_event \<Rightarrow> check list" where
  "log_event_checks e =
     [require_text ''event_type'' (le_event_type e), require_text ''severity'' (le_severity e)]"

definition log_event_dict :: "(utc \<Rightarrow> string) \<Rightarrow> log_event \<Rightarrow> fields" where
  "log_event_dict iso_text e =
     [(''event_type'', OText (le_event_type e)), (''severity'', OText (le_severity e)),
      (''occurred_at'', OText (iso_text (le_occurred_at e))), (''fields'', omap (redact_mapping (le_fields e)))]"

definition build_log_event :: "string \<Rightarrow> string \<Rightarrow> utc \<Rightarrow> fields \<Rightarrow> log_event result" where
  "build_log_event event_type severity occurred_at kvs =
     (let e = \<lparr>le_event_type = event_type, le_severity = severity, le_occurred_at = occurred_at,
               le_fields = redact_mapping kvs\<rparr>
      in checked (log_event_checks e) (Inr e))"

section \<open>Health\<close>

datatype health_status = PASSING | DEGRADED | FAILING

fun health_text :: "health_status \<Rightarrow> string" where
  "health_text PASSING = ''PASSING''"
| "health_text DEGRADED = ''DEGRADED''"
| "health_text FAILING = ''FAILING''"

record component_health =
  ch_name :: string
  ch_status :: health_status
  ch_message :: string
  ch_checked_at :: utc

definition component_health_checks :: "component_health \<Rightarrow> check list" where
  "component_health_checks c = [require_text ''name'' (ch_name c), require_text ''message'' (ch_message c)]"

definition component_health_dict :: "(utc \<Rightarrow> string) \<Rightarrow> component_health \<Rightarrow> fields" where
  "component_health_dict iso_text c =
     [(''name'', OText (ch_name c)), (''status'', OText (health_text (ch_status c))),
      (''message'', OText (ch_message c)), (''checked_at'', OText (iso_text (ch_checked_at c)))]"

record readiness_report =
  rr_process_alive :: component_health
  rr_database :: component_health
  rr_data_freshness :: component_health
  rr_model_artifacts :: component_health
  rr_trading_readiness :: component_health

definition readiness_components :: "readiness_report \<Rightarrow> component_health list" where
  "readiness_components r = [rr_process_alive r, rr_database r, rr_data_freshness r, rr_model_artifacts r,
     rr_trading_readiness r]"

definition is_ready :: "readiness_report \<Rightarrow> bool" where
  "is_ready r = list_all (\<lambda>c. ch_status c = PASSING) (readiness_components r)"

definition readiness_dict :: "(utc \<Rightarrow> string) \<Rightarrow> readiness_report \<Rightarrow> fields" where
  "readiness_dict iso_text r =
     [(''ready'', OBool (is_ready r)),
      (''components'', OList (map (\<lambda>c. omap (component_health_dict iso_text c)) (readiness_components r)))]"

section \<open>Metrics\<close>

record feed_metric =
  fm_source :: string
  fm_connected :: bool
  fm_source_age_ms :: "int option"
  fm_reconnects :: int
  fm_gaps :: int

definition feed_metric_checks :: "feed_metric \<Rightarrow> check list" where
  "feed_metric_checks f =
     [require_text ''source'' (fm_source f),
      fail_if (case fm_source_age_ms f of None \<Rightarrow> False | Some age \<Rightarrow> age < 0)
        (ValueErr ''source_age_ms cannot be negative''),
      fail_if (fm_reconnects f < 0 \<or> fm_gaps f < 0) (ValueErr ''feed counters cannot be negative'')]"

record market_metric =
  mm_asset :: asset
  mm_horizon :: horizon
  mm_book_coverage :: bool
  mm_official_fresh :: bool
  mm_proxy_fresh :: bool

record metrics_snapshot =
  ms_generated_at :: utc
  ms_feeds :: "feed_metric list"
  ms_markets :: "market_metric list"
  ms_decisions :: int
  ms_abstains :: int
  ms_risk_rejections :: int
  ms_paper_orders :: int
  ms_live_orders :: int

definition metrics_counters :: "metrics_snapshot \<Rightarrow> int list" where
  "metrics_counters m = [ms_decisions m, ms_abstains m, ms_risk_rejections m, ms_paper_orders m, ms_live_orders m]"

definition metrics_snapshot_checks :: "metrics_snapshot \<Rightarrow> check list" where
  "metrics_snapshot_checks m =
     map (\<lambda>counter. fail_if (counter < 0) (ValueErr ''metric counters cannot be negative'')) (metrics_counters m) @
     [fail_if (ms_live_orders m \<noteq> 0) (ValueErr ''V3.13/V3.14 metrics must not report LIVE orders'')]"

definition mk_metrics_snapshot :: "metrics_snapshot \<Rightarrow> metrics_snapshot result" where
  "mk_metrics_snapshot m = checked (metrics_snapshot_checks m) (Inr m)"

definition opt_int :: "int option \<Rightarrow> obs_value" where
  "opt_int v = (case v of None \<Rightarrow> ONone | Some n \<Rightarrow> OInt n)"

definition feed_dict :: "feed_metric \<Rightarrow> obs_value" where
  "feed_dict f = omap [(''source'', OText (fm_source f)), (''connected'', OBool (fm_connected f)),
     (''source_age_ms'', opt_int (fm_source_age_ms f)), (''reconnect_count'', OInt (fm_reconnects f)),
     (''sequence_gap_count'', OInt (fm_gaps f))]"

definition market_dict :: "market_metric \<Rightarrow> obs_value" where
  "market_dict m = omap [(''asset'', OText (asset_value (mm_asset m))), (''horizon'', OText (horizon_value (mm_horizon m))),
     (''book_coverage'', OBool (mm_book_coverage m)), (''official_reference_fresh'', OBool (mm_official_fresh m)),
     (''proxy_reference_fresh'', OBool (mm_proxy_fresh m))]"

definition metrics_dict :: "(utc \<Rightarrow> string) \<Rightarrow> metrics_snapshot \<Rightarrow> fields" where
  "metrics_dict iso_text m =
     [(''generated_at'', OText (iso_text (ms_generated_at m))),
      (''feeds'', OList (map feed_dict (ms_feeds m))), (''markets'', OList (map market_dict (ms_markets m))),
      (''decision_count'', OInt (ms_decisions m)), (''abstain_count'', OInt (ms_abstains m)),
      (''risk_rejection_count'', OInt (ms_risk_rejections m)), (''paper_order_count'', OInt (ms_paper_orders m)),
      (''live_order_count'', OInt (ms_live_orders m))]"

section \<open>What redaction removes\<close>

text \<open>
  What a key and a value are is said here without the code: a key is secret when one of the seven markers
  occurs in it, in capitals or not, and a value is described by what is found along the paths into it, the
  entry of a mapping for a text key (the last one that \<open>str\<close> makes equal) and the elements of a sequence.
\<close>

definition same_letter :: "char \<Rightarrow> char \<Rightarrow> bool" where
  "same_letter c d \<longleftrightarrow> c = d \<or> (97 \<le> (of_char d :: nat) \<and> (of_char d :: nat) \<le> 122 \<and> (of_char c :: nat) + 32 = of_char d)"

definition secret_key :: "string \<Rightarrow> bool" where
  "secret_key k \<longleftrightarrow> list_ex (\<lambda>m. list_ex (\<lambda>i. list_all2 same_letter (take (length m) (drop i k)) m) [0..<length k])
     [''api_key'', ''api_secret'', ''passphrase'', ''private_key'', ''secret'', ''token'', ''credential'']"

datatype path_step = At_key string | At_index nat

fun reached :: "obs_value \<Rightarrow> path_step list \<Rightarrow> obs_value option" where
  "reached v [] = Some v"
| "reached (OMap kvs) (At_key k # p) = (case map_of (rev (map (\<lambda>(k, v). (key_text k, v)) kvs)) k of
     None \<Rightarrow> None | Some v \<Rightarrow> reached v p)"
| "reached (OTuple xs) (At_index i # p) = (if i < length xs then reached (xs ! i) p else None)"
| "reached (OList xs) (At_index i # p) = (if i < length xs then reached (xs ! i) p else None)"
| "reached _ _ = None"

text \<open>What a value is by itself: a plain value, or a mapping or a sequence of a length.\<close>

fun outline :: "obs_value \<Rightarrow> obs_value" where
  "outline (OMap kvs) = OMap []"
| "outline (OTuple xs) = OTuple (replicate (length xs) ONone)"
| "outline (OList xs) = OList (replicate (length xs) ONone)"
| "outline v = v"

fun public :: "path_step \<Rightarrow> bool" where
  "public (At_key k) = (\<not> secret_key k)"
| "public (At_index i) = True"

text \<open>Redaction enters the mappings of a sequence, but no sequence inside a sequence.\<close>

fun separated :: "path_step list \<Rightarrow> bool" where
  "separated (At_index i # At_index j # p) = False"
| "separated (s # p) = separated p"
| "separated [] = True"

definition redact_item :: "obs_value \<Rightarrow> obs_value" where
  "redact_item x = (case x of OMap m \<Rightarrow> omap (redact_mapping (text_items m)) | _ \<Rightarrow> x)"

definition redact_value :: "obs_value \<Rightarrow> obs_value" where
  "redact_value v = (case v of OTuple xs \<Rightarrow> OTuple (map redact_item xs) | OList xs \<Rightarrow> OList (map redact_item xs)
     | _ \<Rightarrow> redact_item v)"

lemma redact_mapping_by_value:
  "redact_mapping kvs = map (\<lambda>(k, v). (k, if sensitive k then OText REDACTED else redact_value v)) kvs"
  by (subst redact_mapping.simps)
     (auto simp: redact_value_def redact_item_def cong: obs_value.case_cong split: obs_value.splits)

lemma text_items_values: "(k, v) \<in> set (text_items kvs) \<Longrightarrow> \<exists>k'. (k', v) \<in> set kvs"
proof -
  have put: "kv \<in> set (dict_put k v d) \<Longrightarrow> kv = (k, v) \<or> kv \<in> set d" for kv :: "string \<times> obs_value" and k v d
    by (induction d) (auto split: if_splits)
  have "(k, v) \<in> set (foldl (\<lambda>d (k, v). dict_put (key_text k) v d) d kvs) \<Longrightarrow>
      (k, v) \<in> set d \<or> (\<exists>k'. (k', v) \<in> set kvs)" for d
  proof (induction kvs arbitrary: d)
    case (Cons kv kvs)
    then show ?case using put by (cases kv) fastforce
  qed simp
  then show "(k, v) \<in> set (text_items kvs) \<Longrightarrow> ?thesis" by (fastforce simp: text_items_def)
qed

section \<open>Redaction is idempotent\<close>

lemma dict_put_fst: "fst ` set (dict_put k v d) = insert k (fst ` set d)"
proof (induction d)
  case (Cons kv d)
  obtain k' v' where "kv = (k', v')" by (cases kv)
  then show ?case using Cons by (cases "k' = k") (simp_all add: insert_commute)
qed simp

lemma dict_put_distinct: "distinct (map fst d) \<Longrightarrow> distinct (map fst (dict_put k v d))"
proof (induction d)
  case (Cons kv d)
  then show ?case using dict_put_fst [of k v d] by (cases kv) (auto simp: image_iff)
qed simp

lemma dict_put_new: "k \<notin> fst ` set d \<Longrightarrow> dict_put k v d = d @ [(k, v)]"
  by (induction d) auto

lemma text_items_distinct: "distinct (map fst (text_items kvs))"
proof -
  have "distinct (map fst d) \<Longrightarrow> distinct (map fst (foldl (\<lambda>d (k, v). dict_put (key_text k) v d) d kvs))" for d
    by (induction kvs arbitrary: d) (auto simp: dict_put_distinct)
  then show ?thesis by (simp add: text_items_def)
qed

lemma text_items_id: "distinct (map fst kvs) \<Longrightarrow> text_items (map (\<lambda>(k, v). (KText k, v)) kvs) = kvs"
proof -
  have "distinct (map fst (d @ kvs)) \<Longrightarrow>
      foldl (\<lambda>d (k, v). dict_put (key_text k) v d) d (map (\<lambda>(k, v). (KText k, v)) kvs) = d @ kvs" for d
  proof (induction kvs arbitrary: d)
    case (Cons kv kvs)
    then show ?case using dict_put_new [of "fst kv" d "snd kv"] by (cases kv) simp
  qed simp
  from this [of "[]"] show "distinct (map fst kvs) \<Longrightarrow> ?thesis" by (simp add: text_items_def)
qed

lemma redact_keys [simp]: "map fst (redact_mapping kvs) = map fst kvs"
  by (simp add: redact_mapping_by_value case_prod_beta)

lemma redact_item_omap: "distinct (map fst kvs) \<Longrightarrow> redact_item (omap kvs) = omap (redact_mapping kvs)"
  by (simp add: redact_item_def omap_def text_items_id)

lemma redact_mapping_idem: "redact_mapping (redact_mapping kvs) = redact_mapping kvs"
proof (induction kvs rule: redact_mapping.induct)
  case (1 kvs)
  have item: "redact_item (redact_item x) = redact_item x"
    if "\<And>m. x = OMap m \<Longrightarrow> redact_mapping (redact_mapping (text_items m)) = redact_mapping (text_items m)" for x
  proof (cases x)
    case (OMap m)
    then have "redact_item x = omap (redact_mapping (text_items m))" by (simp add: redact_item_def)
    then show ?thesis using that [OF OMap] by (simp add: redact_item_omap text_items_distinct)
  qed (simp_all add: redact_item_def)
  have "redact_value (redact_value v) = redact_value v" if kv: "(k, v) \<in> set kvs" "\<not> sensitive k" for k v
  proof (cases v)
    case (OTuple xs)
    have "redact_item (redact_item x) = redact_item x" if "x \<in> set xs" for x
      by (rule item) (rule 1(1) [OF kv(1) refl kv(2) OTuple that])
    then show ?thesis by (simp add: redact_value_def OTuple)
  next
    case (OList xs)
    have "redact_item (redact_item x) = redact_item x" if "x \<in> set xs" for x
      by (rule item) (rule 1(2) [OF kv(1) refl kv(2) OList that])
    then show ?thesis by (simp add: redact_value_def OList)
  next
    case (OMap m)
    have "redact_item (redact_item v) = redact_item v"
      by (rule item) (rule 1(3) [OF kv(1) refl kv(2)])
    then show ?thesis by (simp add: redact_value_def OMap redact_item_def omap_def)
  qed (simp_all add: redact_value_def redact_item_def)
  then show ?case by (auto simp: redact_mapping_by_value)
qed

section \<open>Redaction along a path\<close>

text \<open>On the letters of a marker, being equal after \<open>lower\<close> and being the same letter agree.\<close>

lemma same_letter_lower:
  assumes "list_all (\<lambda>d. 97 \<le> (of_char d :: nat) \<and> (of_char d :: nat) \<le> 122 \<or> d = CHR ''_'') m"
  shows "list_all2 same_letter xs m \<longleftrightarrow> py_lower xs = m"
proof -
  have letter: "same_letter c d \<longleftrightarrow> (let n = (of_char c :: nat) in
      if (65 \<le> n \<and> n \<le> 90) \<or> (192 \<le> n \<and> n \<le> 222 \<and> n \<noteq> 215) then char_of (n + 32) else c) = d"
    if "97 \<le> (of_char d :: nat) \<and> (of_char d :: nat) \<le> 122 \<or> d = CHR ''_''" for c d
  proof -
    have at: "char_of n = d \<longleftrightarrow> n = of_char d" if "n < 256" for n :: nat
      using that by (auto dest: arg_cong [where f = of_char])
    have "(of_char c :: nat) < 256" by simp
    moreover have "c = d \<longleftrightarrow> (of_char c :: nat) = of_char d" by simp
    moreover have "(of_char CHR ''_'' :: nat) = 95" by simp
    ultimately show ?thesis using that at [of "of_char c + 32"]
      unfolding same_letter_def Let_def by (elim disjE) (auto split: if_splits)
  qed
  show ?thesis using assms
  proof (induction m arbitrary: xs)
    case Nil
    then show ?case by (simp add: py_lower_def)
  next
    case (Cons d m)
    then show ?case by (cases xs) (simp_all add: py_lower_def letter)
  qed
qed

lemma sublist_at: "sublist m xs \<longleftrightarrow> m = [] \<or> (\<exists>i<length xs. take (length m) (drop i xs) = m)"
proof -
  have "\<exists>i<length xs. take (length m) (drop i xs) = m" if "xs = ps @ m @ ss" "m \<noteq> []" for ps ss
    using that by (intro exI [of _ "length ps"]) simp
  moreover have "sublist m xs" if "take (length m) (drop i xs) = m" for i
  proof -
    have "xs = take i xs @ take (length m) (drop i xs) @ drop (length m) (drop i xs)" by (simp only: append_take_drop_id)
    then show ?thesis using that unfolding sublist_def by metis
  qed
  ultimately show ?thesis
    by (cases "m = []") (simp, metis sublist_def)
qed

lemma sensitive_secret: "sensitive k \<longleftrightarrow> secret_key k"
proof -
  have "sublist m (py_lower k) \<longleftrightarrow> list_ex (\<lambda>i. list_all2 same_letter (take (length m) (drop i k)) m) [0..<length k]"
    if "m \<in> set sensitive_markers" for m
  proof -
    have m: "m \<noteq> []" "list_all (\<lambda>d. 97 \<le> (of_char d :: nat) \<and> (of_char d :: nat) \<le> 122 \<or> d = CHR ''_'') m"
      using that by (auto simp: sensitive_markers_def)
    have l: "length (py_lower k) = length k" "take n (drop i (py_lower k)) = py_lower (take n (drop i k))" for n i
      by (simp_all add: py_lower_def take_map drop_map)
    show ?thesis using m by (auto simp: sublist_at l same_letter_lower list_ex_iff)
  qed
  then have "sensitive k \<longleftrightarrow> list_ex (\<lambda>m. list_ex (\<lambda>i. list_all2 same_letter (take (length m) (drop i k)) m) [0..<length k])
      sensitive_markers"
    unfolding sensitive_def list_ex_iff by blast
  then show ?thesis by (simp only: secret_key_def sensitive_markers_def)
qed

lemma text_items_lookup: "map_of (text_items kvs) k = map_of (rev (map (\<lambda>(k, v). (key_text k, v)) kvs)) k"
proof -
  have put: "map_of (dict_put k' v d) j = (if k' = j then Some v else map_of d j)" for k' j and v :: obs_value and d
    by (induction d) auto
  have "map_of (foldl (\<lambda>d (k, v). dict_put (key_text k) v d) d kvs) k
      = (map_of d ++ map_of (rev (map (\<lambda>(k, v). (key_text k, v)) kvs))) k" for d
  proof (induction kvs arbitrary: d)
    case (Cons kv kvs)
    then show ?case by (cases kv) (auto simp: put map_add_def split: option.splits)
  qed simp
  from this [of "[]"] show ?thesis by (simp add: text_items_def map_add_def split: option.splits)
qed

lemma map_of_rev_distinct: "distinct (map fst kvs) \<Longrightarrow> map_of (rev kvs) = map_of kvs"
  using map_of_inject_set [of "rev kvs" kvs] by (simp add: rev_map [symmetric])

lemma reached_omap: "reached (omap kvs) (At_key k # p) = (case map_of (rev kvs) k of None \<Rightarrow> None | Some v \<Rightarrow> reached v p)"
  by (simp add: omap_def split_beta comp_def)

lemma redact_mapping_lookup:
  "map_of (redact_mapping kvs) k = map_option (\<lambda>v. if sensitive k then OText REDACTED else redact_value v) (map_of kvs k)"
  unfolding redact_mapping_by_value by (induction kvs) auto

lemma reached_redacted:
  "reached (redact_value (OMap m)) (At_key k # p) = (case map_of (rev (map (\<lambda>(k, v). (key_text k, v)) m)) k of
     None \<Rightarrow> None | Some v \<Rightarrow> reached (if sensitive k then OText REDACTED else redact_value v) p)"
proof -
  have "distinct (map fst (redact_mapping (text_items m)))" by (simp add: text_items_distinct)
  then have "map_of (rev (redact_mapping (text_items m))) k = map_of (redact_mapping (text_items m)) k"
    by (simp add: map_of_rev_distinct del: redact_keys)
  then show ?thesis
    by (simp add: redact_value_def redact_item_def reached_omap redact_mapping_lookup text_items_lookup split: option.splits)
qed

lemma reached_public:
  "list_all public p \<Longrightarrow> map_option outline (reached (redact_value v) p) = map_option outline (reached v p)
     \<and> map_option outline (reached (redact_item v) p) = map_option outline (reached v p)"
proof (induction p arbitrary: v)
  case Nil
  show ?case by (cases v) (simp_all add: redact_value_def redact_item_def omap_def map_replicate_const)
next
  case (Cons s p)
  then have ih: "map_option outline (reached (redact_value w) p) = map_option outline (reached w p)"
    "map_option outline (reached (redact_item w) p) = map_option outline (reached w p)" for w by simp_all
  show ?case
  proof (cases s)
    case (At_key k)
    then have "\<not> sensitive k" using Cons.prems by (simp add: sensitive_secret)
    then have "map_option outline (reached (redact_value v) (s # p)) = map_option outline (reached v (s # p))" for v
      using ih by (cases v) (simp_all add: At_key reached_redacted split: option.split,
        simp_all add: redact_value_def redact_item_def)
    moreover have "reached (redact_item v) (s # p) = reached (if \<exists>m. v = OMap m then redact_value v else v) (s # p)" for v
      by (cases v) (simp_all add: redact_item_def redact_value_def)
    ultimately show ?thesis by simp
  next
    case (At_index i)
    then show ?thesis using ih
      by (cases v) (simp_all add: redact_value_def redact_item_def omap_def)
  qed
qed

lemma reached_secret:
  "list_all public p \<Longrightarrow> separated p \<Longrightarrow> secret_key k \<Longrightarrow> reached v (p @ [At_key k]) \<noteq> None \<Longrightarrow>
     reached (redact_value v) (p @ [At_key k]) = Some (OText REDACTED)"
proof (induction p arbitrary: v)
  case Nil
  then show ?case by (cases v) (auto simp: reached_redacted sensitive_secret split: option.splits)
next
  case (Cons s p)
  have p: "list_all public p" "separated p" using Cons.prems(1,2) by (cases s; cases p; cases "hd p"; simp)+
  show ?case
  proof (cases s)
    case (At_key k')
    then show ?thesis using Cons.IH [OF p Cons.prems(3)] Cons.prems(1,4)
      by (cases v) (auto simp: reached_redacted sensitive_secret split: option.splits)
  next
    case (At_index i)
    have "redact_item x = redact_value x" if "reached x (p @ [At_key k]) \<noteq> None" for x
      using that Cons.prems(2) by (cases x; cases p; cases "hd p") (auto simp: At_index redact_value_def)
    then show ?thesis using Cons.IH [OF p Cons.prems(3)] Cons.prems(4)
      by (cases v) (auto simp: At_index redact_value_def split: if_splits)
  qed
qed

text \<open>A mapping below two sequences keeps its secrets.\<close>

lemma nested_sequence_keeps_secrets:
  "reached (omap (redact_mapping [(''rows'', OList [OList [OMap [(KText ''token'', OText ''abc'')]]])]))
     [At_key ''rows'', At_index 0, At_index 0, At_key ''token''] = Some (OText ''abc'')"
  by code_simp

section \<open>Readiness is fail-closed\<close>

text \<open>A component that is no longer passing can only take readiness away.\<close>

definition failing_components :: "readiness_report \<Rightarrow> string list" where
  "failing_components r = map ch_name (filter (\<lambda>c. ch_status c \<noteq> PASSING) (readiness_components r))"

definition report_le :: "readiness_report \<Rightarrow> readiness_report \<Rightarrow> bool" where
  "report_le r r' \<longleftrightarrow> list_all2 (\<lambda>c c'. ch_status c \<noteq> PASSING \<longrightarrow> ch_status c' \<noteq> PASSING)
     (readiness_components r) (readiness_components r')"

interpretation readiness: fail_closed_gate failing_components report_le
proof
  fix r r' assume "report_le r r'" "failing_components r \<noteq> []"
  then show "failing_components r' \<noteq> []"
    by (auto simp: report_le_def failing_components_def readiness_components_def filter_empty_conv)
qed

lemma ready_iff_permitted: "is_ready r \<longleftrightarrow> readiness.permitted r"
  by (auto simp: is_ready_def readiness.permitted_def failing_components_def list_all_iff filter_empty_conv)

lemma readiness_antimono: "report_le r r' \<Longrightarrow> is_ready r' \<Longrightarrow> is_ready r"
  by (simp add: ready_iff_permitted readiness.permitted_antimono)

lemma metrics_report_no_live_orders:
  "mk_metrics_snapshot m = Inr m' \<Longrightarrow> ms_live_orders m' = 0 \<and> (\<forall>n\<in>set (metrics_counters m'). 0 \<le> n)"
  by (auto simp: mk_metrics_snapshot_def metrics_snapshot_checks_def contract_simps not_less)

section \<open>Properties\<close>

text \<open>
  C33: redaction is a safe copy of a mapping: along every path whose keys are not secret it holds what the
  mapping held, the same plain value, a mapping or a sequence of the same length; under a secret key
  reached by such a path it holds the placeholder, unless the path enters a sequence inside a sequence,
  which redaction copies as it is; it keeps the order of the keys and is idempotent; and a log event carries
  the redacted fields. A key is secret when it contains one of the seven markers, in capitals or not.
\<close>

theorem redaction_removes_secrets:
  assumes "distinct (map fst kvs)"
  shows "(\<forall>p. list_all public p \<longrightarrow>
       map_option outline (reached (omap (redact_mapping kvs)) p) = map_option outline (reached (omap kvs) p)) \<and>
    (\<forall>p k. list_all public p \<longrightarrow> separated p \<longrightarrow> secret_key k \<longrightarrow> reached (omap kvs) (p @ [At_key k]) \<noteq> None \<longrightarrow>
       reached (omap (redact_mapping kvs)) (p @ [At_key k]) = Some (OText ''<redacted>'')) \<and>
    map fst (redact_mapping kvs) = map fst kvs \<and> redact_mapping (redact_mapping kvs) = redact_mapping kvs \<and>
    (\<forall>t sev u e. build_log_event t sev u kvs = Inr e \<longrightarrow>
       (''fields'', omap (redact_mapping kvs)) \<in> set (log_event_dict iso_text e))"
proof -
  have "omap (redact_mapping kvs) = redact_value (omap kvs)"
    using assms by (simp add: redact_value_def redact_item_def omap_def text_items_id)
  moreover have "(''fields'', omap (redact_mapping kvs)) \<in> set (log_event_dict iso_text e)"
    if "build_log_event t sev u kvs = Inr e" for t sev u e
    using that by (auto simp: build_log_event_def Let_def contract_simps log_event_dict_def redact_mapping_idem)
  ultimately show ?thesis
    using reached_public [of _ "omap kvs"] reached_secret [of _ _ "omap kvs"] by (simp add: redact_mapping_idem REDACTED_def)
qed

definition secret_fields :: fields where
  "secret_fields = [(''user'', OText ''bob''), (''Api_Key'', OText ''k''),
     (''rows'', OList [OMap [(KOther ''1'', OInt 1), (KText ''token'', OText ''t'')], OInt 3])]"

theorem redaction_removes_secrets_witness:
  "reached (omap (redact_mapping secret_fields)) [At_key ''Api_Key''] = Some (OText ''<redacted>'') \<and>
   reached (omap (redact_mapping secret_fields)) [At_key ''rows'', At_index 0, At_key ''token''] = Some (OText ''<redacted>'') \<and>
   map_option outline (reached (omap (redact_mapping secret_fields)) [At_key ''rows'', At_index 0, At_key ''1'']) = Some (OInt 1)"
proof -
  have ok: "distinct (map fst secret_fields)" by (simp add: secret_fields_def)
  have "secret_key ''Api_Key''" "secret_key ''token''" "\<not> secret_key ''rows''" "\<not> secret_key ''1''" by code_simp+
  then show ?thesis
    using redaction_removes_secrets [OF ok, THEN conjunct1, rule_format, of "[At_key ''rows'', At_index 0, At_key ''1'']"]
      redaction_removes_secrets [OF ok, THEN conjunct2, THEN conjunct1, rule_format, of "[]" "''Api_Key''"]
      redaction_removes_secrets [OF ok, THEN conjunct2, THEN conjunct1, rule_format, of "[At_key ''rows'', At_index 0]" "''token''"]
    by (simp add: secret_fields_def omap_def)
qed


end
