(* ===== verification/Replay.thy ===== *)
theory Replay
  imports Structural
begin

text \<open>
  \<open>replay/structural.py\<close>: the deterministic receive-time replay of the two legs of a buy-and-merge
  cycle, with the unwind of an unmatched leg. The central property is the absence of look-ahead:
  what the replay decides at an instant depends only on the books received by then.
\<close>

definition supported_latencies_ms :: "int list" where
  "supported_latencies_ms = [10, 25, 50, 100, 200, 500]"

record replay_book_event =
  rbe_outcome :: outcome_side
  rbe_book :: polymarket_book

record structural_replay_result =
  srr_latency_ms :: int
  srr_requested :: dec
  srr_up_filled :: dec
  srr_down_filled :: dec
  srr_matched :: dec
  srr_exposure :: dec
  srr_both_complete :: bool
  srr_partial :: bool
  srr_unwind_feasible :: bool
  srr_unwind_proceeds :: dec
  srr_unwind_loss :: "dec option"
  srr_net_pnl :: dec
  srr_first_leg_at :: utc
  srr_second_leg_at :: utc

definition replay_result_checks :: "structural_replay_result \<Rightarrow> check list" where
  "replay_result_checks r =
     [fail_if (srr_latency_ms r \<notin> set supported_latencies_ms)
        (ValueErr ''latency_ms is not in the governed replay matrix''),
      non_negative ''requested_shares'' (srr_requested r),
      non_negative ''up_filled'' (srr_up_filled r),
      non_negative ''down_filled'' (srr_down_filled r),
      non_negative ''matched_complete_sets'' (srr_matched r),
      non_negative ''one_leg_exposure'' (srr_exposure r),
      non_negative ''unwind_proceeds'' (srr_unwind_proceeds r)] @
     optional_non_negative ''unwind_loss'' (srr_unwind_loss r) @
     [fail_if (srr_second_leg_at r \<le> srr_first_leg_at r) (ValueErr ''second leg must follow first leg'')]"

definition mk_replay_result :: "structural_replay_result \<Rightarrow> structural_replay_result result" where
  "mk_replay_result r = checked (replay_result_checks r) (Inr r)"

abbreviation recv_of :: "polymarket_book \<Rightarrow> utc" where
  "recv_of b \<equiv> lin_recv_ts (pmb_lineage b)"

definition as_of :: "replay_book_event list \<Rightarrow> outcome_side \<Rightarrow> utc \<Rightarrow> polymarket_book result" where
  "as_of events outcome available_at =
     (case map rbe_book (filter (\<lambda>e. rbe_outcome e = outcome \<and> recv_of (rbe_book e) \<le> available_at) events)
      of [] \<Rightarrow> Inl (ReplayUnavailableError ''no book available by receive time'')
       | b # bs \<Rightarrow> Inr (max_by recv_of b bs))"

definition buy_cost :: "depth_simulation \<Rightarrow> dec" where
  "buy_cost s = dadd (dadd (dadd (sim_gross s) (sim_fee s)) (sim_fee_buffer s)) (sim_slippage_buffer s)"

text \<open>The unwind of the excess leg: feasible, proceeds and loss.\<close>

record unwind_outcome =
  uo_feasible :: bool
  uo_proceeds :: dec
  uo_loss :: "dec option"

definition unwind_excess :: "replay_book_event list \<Rightarrow> fee_schedule \<Rightarrow> fee_schedule \<Rightarrow> utc \<Rightarrow>
    pricing_policy \<Rightarrow> depth_simulation \<Rightarrow> depth_simulation \<Rightarrow> dec \<Rightarrow> unwind_outcome result" where
  "unwind_excess events up_fee down_fee second_leg_at policy up down exposure =
     (if 0 < exposure then
        (let excess_side = (if sim_filled down < sim_filled up then UP else DOWN);
             excess_buy = (if excess_side = UP then up else down);
             unwind_fee = (if excess_side = UP then up_fee else down_fee) in
         bindr (as_of events excess_side second_leg_at) (\<lambda>unwind_book.
         bindr (simulate_depth unwind_book unwind_fee SELL exposure 0 TAKER second_leg_at policy) (\<lambda>unwind.
           let feasible = (sim_filled unwind = exposure);
               proceeds = (case sim_net_proceeds unwind of None \<Rightarrow> 0
                 | Some net \<Rightarrow> dmul net (sim_filled unwind));
               loss = (if \<not> feasible then None else (case sim_all_in excess_buy of None \<Rightarrow> None
                 | Some cost \<Rightarrow> Some (max 0 (dsub (dmul cost exposure) proceeds))))
           in Inr \<lparr>uo_feasible = feasible, uo_proceeds = proceeds, uo_loss = loss\<rparr>)))
      else Inr \<lparr>uo_feasible = True, uo_proceeds = 0, uo_loss = Some 0\<rparr>)"

definition replay_legs :: "market \<Rightarrow> replay_book_event list \<Rightarrow> fee_schedule \<Rightarrow> fee_schedule \<Rightarrow> utc \<Rightarrow>
    utc \<Rightarrow> dec \<Rightarrow> pricing_policy \<Rightarrow> (depth_simulation \<times> depth_simulation) result" where
  "replay_legs m events up_fee down_fee first_leg_at second_leg_at requested policy =
     bindr (as_of events UP first_leg_at) (\<lambda>up_book.
     bindr (as_of events DOWN second_leg_at) (\<lambda>down_book.
     if pmb_condition_id up_book \<noteq> mkt_condition_id m \<or> pmb_condition_id down_book \<noteq> mkt_condition_id m then
       Inl (ReplayUnavailableError ''replay condition identity mismatch'')
     else bindr (token_of m UP) (\<lambda>up_token.
       if pmb_token_id up_book \<noteq> up_token then
         Inl (ReplayUnavailableError ''replay token identity mismatch'')
       else bindr (token_of m DOWN) (\<lambda>down_token.
         if pmb_token_id down_book \<noteq> down_token then
           Inl (ReplayUnavailableError ''replay token identity mismatch'')
         else
           bindr (simulate_depth up_book up_fee BUY requested 1 TAKER first_leg_at policy) (\<lambda>up.
           bindr (simulate_depth down_book down_fee BUY requested 1 TAKER second_leg_at policy) (\<lambda>down.
             Inr (up, down)))))))"

definition replay_buy_merge :: "market \<Rightarrow> replay_book_event list \<Rightarrow> fee_schedule \<Rightarrow> fee_schedule \<Rightarrow>
    utc \<Rightarrow> int \<Rightarrow> dec \<Rightarrow> pricing_policy \<Rightarrow> structural_replay_result result" where
  "replay_buy_merge m events up_fee down_fee decision_at latency_ms requested policy =
     checked [fail_if (latency_ms \<notin> set supported_latencies_ms)
           (ValueErr ''latency_ms is not in the governed replay matrix''),
         positive ''requested_shares'' requested]
      (let delay = milliseconds latency_ms;
           first_leg_at = decision_at + delay;
           second_leg_at = first_leg_at + delay in
       bindr (replay_legs m events up_fee down_fee first_leg_at second_leg_at requested policy)
         (\<lambda>(up, down).
         let matched = min (sim_filled up) (sim_filled down);
             exposure = dabs (dsub (sim_filled up) (sim_filled down)) in
         bindr (unwind_excess events up_fee down_fee second_leg_at policy up down exposure) (\<lambda>u.
           mk_replay_result \<lparr>srr_latency_ms = latency_ms, srr_requested = requested,
             srr_up_filled = sim_filled up, srr_down_filled = sim_filled down,
             srr_matched = matched, srr_exposure = exposure,
             srr_both_complete = (sim_filled up = requested \<and> sim_filled down = requested),
             srr_partial = ((0 < sim_filled up \<and> sim_filled up < requested)
               \<or> (0 < sim_filled down \<and> sim_filled down < requested)),
             srr_unwind_feasible = uo_feasible u, srr_unwind_proceeds = uo_proceeds u,
             srr_unwind_loss = uo_loss u,
             srr_net_pnl = dsub (dsub (dadd matched (uo_proceeds u)) (buy_cost up)) (buy_cost down),
             srr_first_leg_at = first_leg_at, srr_second_leg_at = second_leg_at\<rparr>)))"

section \<open>No look-ahead\<close>

definition received_by :: "utc \<Rightarrow> replay_book_event list \<Rightarrow> replay_book_event list" where
  "received_by t events = filter (\<lambda>e. recv_of (rbe_book e) \<le> t) events"

lemma as_of_received_by: "t \<le> t' \<Longrightarrow> as_of (received_by t' events) side t = as_of events side t"
proof -
  assume "t \<le> t'"
  then have "filter (\<lambda>e. rbe_outcome e = side \<and> recv_of (rbe_book e) \<le> t) (received_by t' events)
      = filter (\<lambda>e. rbe_outcome e = side \<and> recv_of (rbe_book e) \<le> t) events"
    by (auto simp: received_by_def intro!: filter_cong)
  then show ?thesis by (simp add: as_of_def)
qed

text \<open>The book used is the most recently received one that was available.\<close>

lemma as_of_latest:
  assumes "as_of events side t = Inr b"
  shows "\<exists>e\<in>set events. rbe_outcome e = side \<and> rbe_book e = b" "recv_of b \<le> t"
    "e \<in> set events \<Longrightarrow> rbe_outcome e = side \<Longrightarrow> recv_of (rbe_book e) \<le> t \<Longrightarrow>
      recv_of (rbe_book e) \<le> recv_of b"
proof -
  let ?el = "map rbe_book (filter (\<lambda>e. rbe_outcome e = side \<and> recv_of (rbe_book e) \<le> t) events)"
  obtain c cs where el: "?el = c # cs" "b = max_by recv_of c cs"
    using assms by (auto simp: as_of_def split: list.splits)
  then have "b \<in> set ?el" using max_by_in [of recv_of c cs] by (simp only: el(1)) simp
  then show "\<exists>e\<in>set events. rbe_outcome e = side \<and> rbe_book e = b" "recv_of b \<le> t" by auto
  assume "e \<in> set events" "rbe_outcome e = side" "recv_of (rbe_book e) \<le> t"
  then have "rbe_book e \<in> set ?el" by auto
  then have "rbe_book e \<in> insert c (set cs)" by (simp only: el(1)) simp
  then show "recv_of (rbe_book e) \<le> recv_of b" unfolding el(2) by (rule max_by_ge)
qed

lemma replay_legs_received_by:
  "t1 \<le> t \<Longrightarrow> t2 \<le> t \<Longrightarrow> replay_legs m (received_by t events) uf df t1 t2 req policy
     = replay_legs m events uf df t1 t2 req policy"
  by (simp add: replay_legs_def as_of_received_by)

lemma unwind_received_by:
  "t2 \<le> t \<Longrightarrow> unwind_excess (received_by t events) uf df t2 policy up down ex
     = unwind_excess events uf df t2 policy up down ex"
  by (simp add: unwind_excess_def as_of_received_by)

text \<open>
  C7: The replay never looks ahead: two histories that agree on the books received up to the second
  leg give the same result, whatever either holds of later books, and with the same errors.
\<close>

theorem replay_has_no_lookahead:
  assumes "received_by (decision_at + 2 * milliseconds latency) events
      = received_by (decision_at + 2 * milliseconds latency) events'"
    and "latency \<in> set supported_latencies_ms"
  shows "replay_buy_merge m events uf df decision_at latency req policy
     = replay_buy_merge m events' uf df decision_at latency req policy"
proof -
  let ?t = "decision_at + 2 * milliseconds latency"
  have nn: "0 \<le> milliseconds latency"
    using assms(2) by (auto simp: supported_latencies_ms_def milliseconds_def)
  have eq: "replay_buy_merge m (received_by ?t ev) uf df decision_at latency req policy
      = replay_buy_merge m ev uf df decision_at latency req policy" for ev
    using nn by (simp add: replay_buy_merge_def Let_def replay_legs_received_by unwind_received_by)
  show ?thesis using eq [of events] eq [of events'] assms(1) by simp
qed

definition late_event :: replay_book_event where
  "late_event = \<lparr>rbe_outcome = UP, rbe_book = (leg_book ''up'' (50 / 100))
     \<lparr>pmb_lineage := (sample_lineage_at POLYMARKET_CLOB)\<lparr>lin_recv_ts := seconds 1700000009\<rparr>\<rparr>\<rparr>"

theorem replay_has_no_lookahead_witness:
  "replay_buy_merge two_sided_market [\<lparr>rbe_outcome = UP, rbe_book = leg_book ''up'' (40 / 100)\<rparr>, late_event]
      zero_fees zero_fees (seconds 1700000002) 500 10 sample_pricing_policy
   = replay_buy_merge two_sided_market [\<lparr>rbe_outcome = UP, rbe_book = leg_book ''up'' (40 / 100)\<rparr>]
      zero_fees zero_fees (seconds 1700000002) 500 10 sample_pricing_policy"
  by (rule replay_has_no_lookahead)
    (simp_all add: received_by_def late_event_def supported_latencies_ms_def milliseconds_def
      sample_structural_defs)

section \<open>Accounting\<close>

lemma unwind_nonneg:
  assumes "unwind_excess events uf df t policy up down ex = Inr u"
  shows "0 \<le> uo_proceeds u" "\<forall>x\<in>set_option (uo_loss u). 0 \<le> x"
proof -
  have net: "0 \<le> dmul net (sim_filled s)"
    if sim: "simulate_depth b f SELL ex 0 TAKER t policy = Inr s" and net: "sim_net_proceeds s = Some net"
    for b f s net
  proof -
    from sim obtain fs rest where d: "depth_result b SELL ex (eligible_levels b SELL 0) t policy fs rest = Inr s"
      by (rule simulate_depth_Inr)
    have "0 \<le> net" using d net by (auto simp: depth_result_def Let_def mk_depth_simulation_Inr_iff split: if_splits)
    moreover have "0 \<le> sim_filled s"
      using depth_result_fields(1) [OF d] by (auto simp: valid_simulation_def simulation_amount_checks_def)
    ultimately show ?thesis by (simp add: dmul_def)
  qed
  show "0 \<le> uo_proceeds u" "\<forall>x\<in>set_option (uo_loss u). 0 \<le> x"
    using assms net
    by (auto simp: unwind_excess_def Let_def bindr_Inr_iff split: if_splits option.splits)
qed

text \<open>
  Whenever both legs and the unwind can be simulated, the replay returns: its result never
  violates its own contract. The matched sets are covered by both legs, there is one-leg exposure
  exactly when the legs filled differently, and a complete cycle needs no unwind.
\<close>

theorem replay_result_contract:
  assumes lat: "latency \<in> set supported_latencies_ms" and req: "0 < req"
    and legs: "replay_legs m events uf df (decision_at + milliseconds latency)
      (decision_at + milliseconds latency + milliseconds latency) req policy = Inr (up, down)"
    and unw: "unwind_excess events uf df (decision_at + milliseconds latency + milliseconds latency) policy
      up down (dabs (dsub (sim_filled up) (sim_filled down))) = Inr u"
  shows "\<exists>r. replay_buy_merge m events uf df decision_at latency req policy = Inr r
     \<and> srr_matched r \<le> srr_up_filled r \<and> srr_matched r \<le> srr_down_filled r
     \<and> (srr_exposure r = 0 \<longleftrightarrow> srr_up_filled r = srr_down_filled r)
     \<and> (srr_both_complete r \<longrightarrow> srr_exposure r = 0 \<and> srr_unwind_loss r = Some 0 \<and> \<not> srr_partial r)"
proof -
  have sims: "0 \<le> sim_filled up" "0 \<le> sim_filled down"
    using legs
    by (auto simp: replay_legs_def bindr_Inr_iff split: if_splits
      elim!: simulate_depth_Inr dest!: depth_result_fields(1)
      simp: valid_simulation_def simulation_amount_checks_def)
  have self: "dabs (dsub req req) = 0" by (simp add: dabs_def dsub_def)
  have "0 < milliseconds latency"
    using lat by (auto simp: supported_latencies_ms_def milliseconds_def)
  moreover have ex: "dabs (dsub (sim_filled up) (sim_filled down)) = 0 \<longleftrightarrow> sim_filled up = sim_filled down"
    by (simp add: dabs_def dsub_def)
  moreover have "0 \<le> dabs (dsub (sim_filled up) (sim_filled down))" by (simp add: dabs_def)
  moreover have "sim_filled up = sim_filled down \<Longrightarrow> uo_loss u = Some 0"
    using unw ex by (auto simp: unwind_excess_def)
  ultimately show ?thesis
    using lat req legs unw sims unwind_nonneg [OF unw] self
    by (simp add: replay_buy_merge_def Let_def mk_replay_result_def replay_result_checks_def)
qed

definition both_legs :: "replay_book_event list" where
  "both_legs = [\<lparr>rbe_outcome = UP, rbe_book = leg_book ''up'' (40 / 100)\<rparr>,
     \<lparr>rbe_outcome = DOWN, rbe_book = leg_book ''down'' (50 / 100)\<rparr>]"

theorem replay_result_contract_witness:
  "\<exists>r. replay_buy_merge two_sided_market both_legs zero_fees zero_fees (seconds 1700000002) 500 10
      (stp_pricing sample_structural_policy) = Inr r \<and> srr_matched r \<le> srr_up_filled r"
proof -
  let ?p = "stp_pricing sample_structural_policy"
  let ?t1 = "seconds 1700000002 + milliseconds 500"
  let ?t2 = "seconds 1700000002 + milliseconds 500 + milliseconds 500"
  obtain up where up: "simulate_depth (leg_book ''up'' (40 / 100)) zero_fees BUY 10 1 TAKER ?t1 ?p = Inr up"
    "sim_filled up = 10"
    using leg_simulation [of "40 / 100" "''up''" ?t1] by (auto simp: duration_simps)
  obtain down where down: "simulate_depth (leg_book ''down'' (50 / 100)) zero_fees BUY 10 1 TAKER ?t2 ?p
      = Inr down" "sim_filled down = 10"
    using leg_simulation [of "50 / 100" "''down''" ?t2] by (auto simp: duration_simps)
  have "as_of both_legs UP ?t1 = Inr (leg_book ''up'' (40 / 100))"
    "as_of both_legs DOWN ?t2 = Inr (leg_book ''down'' (50 / 100))"
    by (simp_all add: as_of_def both_legs_def max_by_def leg_book_def sample_lineage_at_def duration_simps)
  moreover have "token_of two_sided_market UP = Inr ''up''" "token_of two_sided_market DOWN = Inr ''down''"
    by (simp_all add: token_of_def token_by_side_def two_sided_market_def)
  moreover have "pmb_token_id (leg_book tk p) = tk"
    "pmb_condition_id (leg_book tk p) = mkt_condition_id two_sided_market" for tk p
    by (simp_all add: leg_book_def two_sided_market_def)
  ultimately have legs: "replay_legs two_sided_market both_legs zero_fees zero_fees ?t1 ?t2 10 ?p
      = Inr (up, down)"
    by (simp only: replay_legs_def bindr_simps up(1) down(1) if_False simp_thms)
  have lat: "500 \<in> set supported_latencies_ms" by (simp add: supported_latencies_ms_def)
  have unw: "unwind_excess both_legs zero_fees zero_fees ?t2 ?p up down
      (dabs (dsub (sim_filled up) (sim_filled down)))
    = Inr \<lparr>uo_feasible = True, uo_proceeds = 0, uo_loss = Some 0\<rparr>"
    by (simp add: unwind_excess_def up(2) down(2) dabs_def dsub_def)
  show ?thesis using replay_result_contract [OF lat _ legs unw] by auto
qed

end
