(* ===== verification/Corpus.thy ===== *)
theory Corpus
  imports Paper_Store Canonical Json
begin

text \<open>
  \<open>storage/directional_corpus.py\<close>: the three tables of observations that are written before an outcome is known
  and labelled once afterwards, and the readers of them that training uses. JSON text is represented
  by the value it encodes, with the keys of every object sorted as \<open>json.dumps(sort_keys=True)\<close> writes
  them, so that two texts are equal exactly when the values are; \<open>payload\<close> and \<open>outcome\<close> arguments are
  the values after \<open>_jsonable\<close>. Instants stored as ISO text are instants. The connection's context
  manager rolls back when the body raises, so an operation that raises leaves the tables unchanged.
\<close>

section \<open>Rows\<close>

text \<open>What the three tables share: the condition, the instant, the payload and the label.\<close>

record labelled_row =
  lr_condition_id :: string
  lr_observed_at :: utc
  lr_payload :: json
  lr_outcome :: "json option"
  lr_attached_at :: "utc option"

record corpus_row = labelled_row +
  co_asset :: asset
  co_horizon :: horizon

record checkpoint_row = corpus_row +
  ck_target_tte :: int
  ck_schema :: string
  ck_actual_tte :: "int option"

record prospective_row = labelled_row +
  pe_market_id :: string
  pe_target_tte :: int
  pe_evidence_schema :: string
  pe_feature_schema :: string
  pe_model_id :: string
  pe_checksum :: "string option"
  pe_actual_tte :: "int option"
  pe_predicted_side :: "string option"
  pe_raw_probability :: "rat option"
  pe_calibrated_probability :: "rat option"
  pe_selected_probability :: "rat option"
  pe_selected_cost :: "rat option"
  pe_up_cost :: "rat option"
  pe_down_cost :: "rat option"
  pe_pricing_status :: string
  pe_timing_status :: string
  pe_prediction_status :: "string option"
  pe_prediction_failure :: "string option"
  pe_pricing_failure :: "string option"
  pe_label_status :: "string option"
  pe_economic_eligible :: "bool option"
  pe_valid_capture_start :: "utc option"

record corpus_repo =
  crp_records :: "(string, corpus_row) rows"
  crp_checkpoints :: "(string, checkpoint_row) rows"
  crp_prospective :: "(string, prospective_row) rows"

definition empty_corpus :: corpus_repo where
  "empty_corpus = \<lparr>crp_records = [], crp_checkpoints = [], crp_prospective = []\<rparr>"

text \<open>\<open>INSERT OR IGNORE\<close> into a table with a primary key and a further \<open>UNIQUE\<close> key.\<close>

definition unique_insert :: "('v \<Rightarrow> 'u) \<Rightarrow> (string, 'v) rows \<Rightarrow> string \<Rightarrow> 'v \<Rightarrow> (string, 'v) rows" where
  "unique_insert key t k v = (if map_of t k = None \<and> key v \<notin> key ` snd ` set t then t @ [(k, v)] else t)"

definition checkpoint_key :: "checkpoint_row \<Rightarrow> string \<times> asset \<times> horizon \<times> int \<times> string" where
  "checkpoint_key r = (lr_condition_id r, co_asset r, co_horizon r, ck_target_tte r, ck_schema r)"

definition prospective_key :: "prospective_row \<Rightarrow> string \<times> int \<times> string \<times> string" where
  "prospective_key r = (lr_condition_id r, pe_target_tte r, pe_model_id r, pe_evidence_schema r)"

section \<open>Observations\<close>

definition get_corpus_record :: "corpus_repo \<Rightarrow> string \<Rightarrow> (string \<times> corpus_row) option" where
  "get_corpus_record r k = map_option (Pair k) (map_of (crp_records r) k)"

definition save_pre_outcome :: "corpus_repo \<Rightarrow> string \<Rightarrow> asset \<Rightarrow> horizon \<Rightarrow> string \<Rightarrow> utc \<Rightarrow> json \<Rightarrow>
    corpus_repo \<times> (string \<times> corpus_row) result" where
  "save_pre_outcome r record_id a h cid observed payload =
     (let row = \<lparr>lr_condition_id = cid, lr_observed_at = observed, lr_payload = json_canonical payload,
            lr_outcome = None, lr_attached_at = None, co_asset = a, co_horizon = h\<rparr>;
          checks = [require_text ''record_id'' record_id, require_text ''condition_id'' cid];
          r' = r\<lparr>crp_records := row_insert (crp_records r) record_id row\<rparr> in
      if passes checks
      then (r', case get_corpus_record r' record_id of
          None \<Rightarrow> Inl (RuntimeErr ''directional corpus record was not persisted'') | Some x \<Rightarrow> Inr x)
      else (r, checked checks (Inl AssertionErr)))"

definition get_checkpoint :: "corpus_repo \<Rightarrow> string \<Rightarrow> (string \<times> checkpoint_row) option" where
  "get_checkpoint r k = map_option (Pair k) (map_of (crp_checkpoints r) k)"

definition get_checkpoint_by_key :: "corpus_repo \<Rightarrow> string \<times> asset \<times> horizon \<times> int \<times> string \<Rightarrow>
    (string \<times> checkpoint_row) option" where
  "get_checkpoint_by_key r key = find (\<lambda>(k, row). checkpoint_key row = key) (crp_checkpoints r)"

definition save_checkpoint_observation :: "corpus_repo \<Rightarrow> string \<Rightarrow> checkpoint_row \<Rightarrow>
    corpus_repo \<times> (string \<times> checkpoint_row) result" where
  "save_checkpoint_observation r checkpoint_id given =
     (let row = given\<lparr>lr_payload := json_canonical (lr_payload given), lr_outcome := None, lr_attached_at := None\<rparr>;
          checks = [require_text ''checkpoint_id'' checkpoint_id, require_text ''condition_id'' (lr_condition_id given),
            require_text ''feature_schema_version'' (ck_schema given),
            fail_if (ck_target_tte given \<le> 0) (ValueErr ''checkpoint_target_tte_seconds must be positive'')];
          r' = r\<lparr>crp_checkpoints := unique_insert checkpoint_key (crp_checkpoints r) checkpoint_id row\<rparr> in
      if passes checks
      then (r', case get_checkpoint r' checkpoint_id of
          Some x \<Rightarrow> Inr x
        | None \<Rightarrow> (case get_checkpoint_by_key r' (checkpoint_key row) of
            Some x \<Rightarrow> Inr x
          | None \<Rightarrow> Inl (RuntimeErr ''directional checkpoint record was not persisted'')))
      else (r, checked checks (Inl AssertionErr)))"

definition get_prospective :: "corpus_repo \<Rightarrow> string \<Rightarrow> (string \<times> prospective_row) option" where
  "get_prospective r k = map_option (Pair k) (map_of (crp_prospective r) k)"

definition get_prospective_by_key :: "corpus_repo \<Rightarrow> string \<times> int \<times> string \<times> string \<Rightarrow>
    (string \<times> prospective_row) option" where
  "get_prospective_by_key r key = find (\<lambda>(k, row). prospective_key row = key) (crp_prospective r)"

definition optional_text :: "string \<Rightarrow> string option \<Rightarrow> check list" where
  "optional_text name v = (case v of None \<Rightarrow> [] | Some s \<Rightarrow> [require_text name s])"

definition prospective_defaults :: "prospective_row \<Rightarrow> prospective_row" where
  "prospective_defaults e =
     (let status = (case pe_prediction_status e of Some s \<Rightarrow> s
         | None \<Rightarrow> if pe_predicted_side e \<noteq> None \<and> pe_calibrated_probability e \<noteq> None then ''VALID'' else ''UNAVAILABLE'');
          label = (case pe_label_status e of Some s \<Rightarrow> s | None \<Rightarrow> ''UNLABELED'');
          eligible = (case pe_economic_eligible e of Some b \<Rightarrow> b
         | None \<Rightarrow> status = ''VALID'' \<and> pe_pricing_status e = ''CHECKPOINT_EXECUTABLE_PRICING_READY''
             \<and> pe_selected_cost e \<noteq> None) in
      e\<lparr>lr_payload := json_canonical (lr_payload e), lr_outcome := None, lr_attached_at := None,
        pe_prediction_status := Some status, pe_label_status := Some label, pe_economic_eligible := Some eligible\<rparr>)"

definition save_prospective_evidence :: "corpus_repo \<Rightarrow> string \<Rightarrow> prospective_row \<Rightarrow>
    corpus_repo \<times> (string \<times> prospective_row) result" where
  "save_prospective_evidence r evidence_id e =
     (let row = prospective_defaults e;
          checks = [require_text ''evidence_id'' evidence_id, require_text ''condition_id'' (lr_condition_id e),
             require_text ''market_id'' (pe_market_id e), require_text ''evidence_schema_version'' (pe_evidence_schema e),
             require_text ''feature_schema_version'' (pe_feature_schema e), require_text ''model_id'' (pe_model_id e),
             require_text ''pricing_status'' (pe_pricing_status e), require_text ''timing_status'' (pe_timing_status e)]
            @ optional_text ''prediction_status'' (pe_prediction_status e)
            @ optional_text ''pricing_failure_reason'' (pe_pricing_failure e)
            @ optional_text ''prediction_failure_reason'' (pe_prediction_failure e)
            @ optional_text ''label_status'' (pe_label_status e)
            @ [fail_if (pe_target_tte e \<noteq> 45)
                (ValueErr ''SOL-5m prospective evidence captures only the 45s checkpoint'')];
          r' = r\<lparr>crp_prospective := unique_insert prospective_key (crp_prospective r) evidence_id row\<rparr> in
      if passes checks
      then (r', case get_prospective r' evidence_id of
          Some x \<Rightarrow> Inr x
        | None \<Rightarrow> (case get_prospective_by_key r' (prospective_key row) of
            Some x \<Rightarrow> Inr x
          | None \<Rightarrow> Inl (RuntimeErr ''SOL-5m prospective evidence was not persisted'')))
      else (r, checked checks (Inl AssertionErr)))"

section \<open>Labels\<close>

definition attach_verified_outcome_once :: "corpus_repo \<Rightarrow> string \<Rightarrow> json \<Rightarrow> utc \<Rightarrow> corpus_repo \<times> unit result" where
  "attach_verified_outcome_once r record_id outcome attached_at =
     (let encoded = json_canonical outcome in
      case require_text ''record_id'' record_id of Some e \<Rightarrow> (r, Inl e)
      | None \<Rightarrow> (case map_of (crp_records r) record_id of
          None \<Rightarrow> (r, Inl (KeyErr record_id))
        | Some row \<Rightarrow> (case lr_outcome row of
            Some existing \<Rightarrow> (r, if existing \<noteq> encoded
              then Inl (RuntimeErr ''conflicting official outcome for corpus record'') else Inr ())
          | None \<Rightarrow> (r\<lparr>crp_records := map (\<lambda>(k, w). (k, if k = record_id
                then w\<lparr>lr_outcome := Some encoded, lr_attached_at := Some attached_at\<rparr> else w)) (crp_records r)\<rparr>,
              Inr ()))))"

text \<open>
  The loop over the rows of one table: rows of other conditions are not selected, rows observed at or
  after the resolution are skipped, a row with another outcome raises, and the rest are labelled.
  \<open>mark\<close> is the further column the statement sets.
\<close>

definition set_label :: "json \<Rightarrow> utc \<Rightarrow> 'a labelled_row_scheme \<Rightarrow> 'a labelled_row_scheme" where
  "set_label encoded at_time w = w\<lparr>lr_outcome := Some encoded, lr_attached_at := Some at_time\<rparr>"

fun attach_rows :: "string \<Rightarrow> ('a labelled_row_scheme \<Rightarrow> 'a labelled_row_scheme) \<Rightarrow> string \<Rightarrow> utc \<Rightarrow> utc \<Rightarrow> json \<Rightarrow>
    (string, 'a labelled_row_scheme) rows \<Rightarrow> ((string, 'a labelled_row_scheme) rows \<times> nat) result" where
  "attach_rows msg mark cid resolved at_time encoded [] = Inr ([], 0)"
| "attach_rows msg mark cid resolved at_time encoded ((k, w) # rows) =
     (if lr_condition_id w \<noteq> cid \<or> resolved \<le> lr_observed_at w
      then bindr (attach_rows msg mark cid resolved at_time encoded rows) (\<lambda>(rows', n). Inr ((k, w) # rows', n))
      else case lr_outcome w of
          Some existing \<Rightarrow> if existing \<noteq> encoded then Inl (RuntimeErr msg)
            else bindr (attach_rows msg mark cid resolved at_time encoded rows) (\<lambda>(rows', n). Inr ((k, w) # rows', n))
        | None \<Rightarrow> bindr (attach_rows msg mark cid resolved at_time encoded rows)
            (\<lambda>(rows', n). Inr ((k, mark (set_label encoded at_time w)) # rows', n + 1)))"

definition attach_outcome_to_condition :: "corpus_repo \<Rightarrow> string \<Rightarrow> json \<Rightarrow> utc \<Rightarrow> utc \<Rightarrow> corpus_repo \<times> nat result" where
  "attach_outcome_to_condition r cid outcome resolved attached_at =
     (let encoded = json_canonical outcome;
          body = checked [require_text ''condition_id'' cid,
              fail_if (json_get outcome ''settlement_source_kind'' \<noteq> Some (JStr ''OFFICIAL''))
                (ValueErr ''corpus outcomes must be official'')]
            (bindr (attach_rows ''conflicting official outcome for condition'' id cid resolved attached_at encoded
                (crp_records r)) (\<lambda>(records, n1).
             bindr (attach_rows ''conflicting official outcome for checkpoint'' id cid resolved attached_at encoded
                (crp_checkpoints r)) (\<lambda>(checkpoints, n2).
             bindr (attach_rows ''conflicting official outcome for prospective evidence''
                (pe_label_status_update (\<lambda>_. Some ''LABELED'')) cid resolved attached_at encoded (crp_prospective r))
               (\<lambda>(prospective, n3).
             Inr (\<lparr>crp_records = records, crp_checkpoints = checkpoints, crp_prospective = prospective\<rparr>,
               n1 + n2 + n3))))) in
      case body of Inl e \<Rightarrow> (r, Inl e) | Inr (r', n) \<Rightarrow> (r', Inr n))"

section \<open>Readers\<close>

definition records_for_condition :: "corpus_repo \<Rightarrow> string \<Rightarrow> (string \<times> corpus_row) list result" where
  "records_for_condition r cid = checked [require_text ''condition_id'' cid]
     (Inr (sort_key (\<lambda>(k, w). lr_observed_at w) (filter (\<lambda>(k, w). lr_condition_id w = cid) (crp_records r))))"

definition in_bucket :: "asset option \<Rightarrow> horizon option \<Rightarrow> 'a corpus_row_scheme \<Rightarrow> bool" where
  "in_bucket a h w \<longleftrightarrow> (case a of None \<Rightarrow> True | Some x \<Rightarrow> co_asset w = x)
     \<and> (case h of None \<Rightarrow> True | Some x \<Rightarrow> co_horizon w = x)"

record corpus_count =
  cc_observations :: nat
  cc_labeled :: nat
  cc_conditions :: nat
  cc_labeled_conditions :: nat

definition corpus_counts :: "corpus_repo \<Rightarrow> asset option \<Rightarrow> horizon option \<Rightarrow> corpus_count" where
  "corpus_counts r a h =
     (let ws = filter (in_bucket a h) (map snd (crp_records r));
          labeled = filter (\<lambda>w. lr_outcome w \<noteq> None) ws in
      \<lparr>cc_observations = length ws, cc_labeled = length labeled,
       cc_conditions = card (lr_condition_id ` set ws),
       cc_labeled_conditions = card (lr_condition_id ` set labeled)\<rparr>)"

definition corpus_count_of :: "corpus_repo \<Rightarrow> asset option \<Rightarrow> horizon option \<Rightarrow> nat" where
  "corpus_count_of r a h = length (filter (in_bucket a h) (map snd (crp_records r)))"

text \<open>\<open>_is_training_ready_payload\<close>: the loop over the features carries the set of names.\<close>

definition price_word :: "string \<Rightarrow> bool" where
  "price_word name \<longleftrightarrow> list_ex (\<lambda>t. sublist t (lower name)) [''polymarket'', ''clob'', ''contract_price'']"

fun feature_items_ready :: "string set \<Rightarrow> json list \<Rightarrow> bool" where
  "feature_items_ready names [] \<longleftrightarrow> True"
| "feature_items_ready names (item # items) \<longleftrightarrow>
     (case json_get item ''name'' of
        Some (JStr name) \<Rightarrow> is_object item \<and> name \<noteq> [] \<and> name \<notin> names \<and> \<not> price_word name
          \<and> json_get item ''value'' \<noteq> None \<and> json_get item ''source_ts'' \<noteq> None
          \<and> feature_items_ready (insert name names) items
      | _ \<Rightarrow> False)"

definition training_ready_payload :: "json \<Rightarrow> bool" where
  "training_ready_payload payload \<longleftrightarrow>
     (case json_get payload ''feature_vector'' of
        Some v \<Rightarrow> is_object v
          \<and> (case json_get v ''feature_set_version'' of Some (JStr s) \<Rightarrow> s \<noteq> [] | _ \<Rightarrow> False)
          \<and> (case json_get v ''features'' of
               Some (JList items) \<Rightarrow> items \<noteq> [] \<and> feature_items_ready {} items | _ \<Rightarrow> False)
          \<and> (case json_get payload ''price_to_beat'' of
               Some ptb \<Rightarrow> is_object ptb
                 \<and> (case json_get ptb ''persistence_id'' of Some x \<Rightarrow> json_truthy x | None \<Rightarrow> False)
                 \<and> (case json_get ptb ''value'' of Some x \<Rightarrow> json_truthy x | None \<Rightarrow> False)
             | None \<Rightarrow> False)
      | None \<Rightarrow> False)"

record training_record =
  tr_record_id :: string
  tr_asset :: asset
  tr_horizon :: horizon
  tr_condition_id :: string
  tr_observed_at :: utc
  tr_payload :: json
  tr_outcome_up :: bool
  tr_outcome :: json

definition training_record_of :: "asset \<Rightarrow> horizon \<Rightarrow> string \<times> corpus_row \<Rightarrow> training_record option" where
  "training_record_of a h kw = (case kw of (k, w) \<Rightarrow>
     (case lr_outcome w of
        None \<Rightarrow> None
      | Some out \<Rightarrow>
          if is_object (lr_payload w) \<and> is_object out \<and> training_ready_payload (lr_payload w)
              \<and> json_get out ''settlement_source_kind'' = Some (JStr ''OFFICIAL'')
          then (case json_get out ''outcome_up'' of
              Some (JBool up) \<Rightarrow> Some \<lparr>tr_record_id = k, tr_asset = a, tr_horizon = h,
                tr_condition_id = lr_condition_id w, tr_observed_at = lr_observed_at w,
                tr_payload = lr_payload w, tr_outcome_up = up, tr_outcome = out\<rparr>
            | _ \<Rightarrow> None)
          else None))"

text \<open>\<open>ORDER BY observed_at ASC LIMIT ?\<close> comes before the checks of the payload.\<close>

definition training_ready_records :: "corpus_repo \<Rightarrow> asset \<Rightarrow> horizon \<Rightarrow> int option \<Rightarrow> training_record list result" where
  "training_ready_records r a h max_rows =
     checked [fail_if (case max_rows of None \<Rightarrow> False | Some n \<Rightarrow> n < 1) (ValueErr ''limit must be positive'')]
       (let selected = sort_key (\<lambda>(k, w). lr_observed_at w)
              (filter (\<lambda>(k, w). in_bucket (Some a) (Some h) w \<and> lr_outcome w \<noteq> None) (crp_records r));
            rows = (case max_rows of None \<Rightarrow> selected | Some n \<Rightarrow> take (nat n) selected) in
        Inr (List.map_filter (training_record_of a h) rows))"

text \<open>
  The unlabelled conditions, oldest first. The bare column \<open>payload_json\<close> of the group is the one of
  its oldest row; \<open>parse_iso\<close> is \<open>datetime.fromisoformat\<close> after \<open>Z\<close> is replaced.
\<close>

record label_candidate =
  lc_condition_id :: string
  lc_asset :: asset
  lc_horizon :: horizon
  lc_market_id :: "string option"
  lc_window_start :: "utc option"
  lc_window_end :: "utc option"
  lc_rows :: nat
  lc_unlabeled :: nat

fun optional_text_field :: "json option \<Rightarrow> string option" where
  "optional_text_field (Some (JStr s)) = (if s = [] then None else Some s)"
| "optional_text_field _ = None"

definition optional_datetime :: "(string \<Rightarrow> utc option) \<Rightarrow> json option \<Rightarrow> utc option" where
  "optional_datetime parse_iso v = Option.bind (optional_text_field v) parse_iso"

definition label_candidate_of :: "(string \<Rightarrow> utc option) \<Rightarrow> checkpoint_row list \<Rightarrow> string \<times> asset \<times> horizon \<Rightarrow>
    label_candidate" where
  "label_candidate_of parse_iso ws key =
     (let group = filter (\<lambda>w. (lr_condition_id w, co_asset w, co_horizon w) = key) ws;
          payload = lr_payload (hd (sort_key lr_observed_at group)) in
      \<lparr>lc_condition_id = fst key, lc_asset = fst (snd key), lc_horizon = snd (snd key),
       lc_market_id = optional_text_field (json_get payload ''market_id''),
       lc_window_start = optional_datetime parse_iso (json_get payload ''window_start''),
       lc_window_end = optional_datetime parse_iso (json_get payload ''window_end''),
       lc_rows = length group, lc_unlabeled = length (filter (\<lambda>w. lr_outcome w = None) group)\<rparr>)"

definition pending_label_candidates :: "(string \<Rightarrow> utc option) \<Rightarrow> corpus_repo \<Rightarrow> int \<Rightarrow> label_candidate list result" where
  "pending_label_candidates parse_iso r max_rows =
     checked [fail_if (max_rows < 1) (ValueErr ''limit must be positive'')]
      (let ws = sort_key lr_observed_at (filter (\<lambda>w. lr_outcome w = None) (map snd (crp_checkpoints r)));
           keys = fromkeys (map (\<lambda>w. (lr_condition_id w, co_asset w, co_horizon w)) ws) in
       Inr (map (label_candidate_of parse_iso ws) (take (nat max_rows) keys)))"

section \<open>Labelling as one pass over all observations\<close>

text \<open>The abstraction forgets the tables: every observation with what labelling reads and writes.\<close>

definition base_row :: "'a labelled_row_scheme \<Rightarrow> labelled_row" where
  "base_row w = labelled_row.truncate w"

definition observations :: "corpus_repo \<Rightarrow> labelled_row list" where
  "observations r = map (base_row \<circ> snd) (crp_records r) @ map (base_row \<circ> snd) (crp_checkpoints r)
     @ map (base_row \<circ> snd) (crp_prospective r)"

definition eligible :: "string \<Rightarrow> utc \<Rightarrow> 'a labelled_row_scheme \<Rightarrow> bool" where
  "eligible cid resolved w \<longleftrightarrow> lr_condition_id w = cid \<and> lr_observed_at w < resolved"

definition conflicting :: "string \<Rightarrow> utc \<Rightarrow> json \<Rightarrow> 'a labelled_row_scheme \<Rightarrow> bool" where
  "conflicting cid resolved enc w \<longleftrightarrow> eligible cid resolved w \<and> lr_outcome w \<noteq> None \<and> lr_outcome w \<noteq> Some enc"

definition label_row :: "string \<Rightarrow> utc \<Rightarrow> utc \<Rightarrow> json \<Rightarrow> labelled_row \<Rightarrow> labelled_row" where
  "label_row cid resolved t enc w =
     (if eligible cid resolved w \<and> lr_outcome w = None then set_label enc t w else w)"

lemma base_row_simps [simp]:
  "lr_condition_id (base_row w) = lr_condition_id w" "lr_observed_at (base_row w) = lr_observed_at w"
  "lr_payload (base_row w) = lr_payload w" "lr_outcome (base_row w) = lr_outcome w"
  "lr_attached_at (base_row w) = lr_attached_at w"
  by (simp_all add: base_row_def labelled_row.truncate_def)

lemma base_row_set_label: "base_row (set_label enc t w) = set_label enc t (base_row w)"
  by (simp add: base_row_def labelled_row.truncate_def set_label_def)

lemma base_row_eqI: "lr_condition_id v = lr_condition_id w \<Longrightarrow> lr_observed_at v = lr_observed_at w \<Longrightarrow>
    lr_payload v = lr_payload w \<Longrightarrow> lr_outcome v = lr_outcome w \<Longrightarrow> lr_attached_at v = lr_attached_at w \<Longrightarrow>
    base_row v = base_row w"
  by (simp add: base_row_def labelled_row.truncate_def)

lemma eligible_base [simp]: "eligible cid resolved (base_row w) = eligible cid resolved w"
  "conflicting cid resolved enc (base_row w) = conflicting cid resolved enc w"
  by (simp_all add: eligible_def conflicting_def)

definition attached_row :: "('a labelled_row_scheme \<Rightarrow> 'a labelled_row_scheme) \<Rightarrow> string \<Rightarrow> utc \<Rightarrow> utc \<Rightarrow> json \<Rightarrow>
    'a labelled_row_scheme \<Rightarrow> 'a labelled_row_scheme" where
  "attached_row mark cid resolved t enc w =
     (if eligible cid resolved w \<and> lr_outcome w = None then mark (set_label enc t w) else w)"

lemma attach_rows_eq:
  "attach_rows msg mark cid resolved t enc rows =
     (if \<exists>(k, w)\<in>set rows. conflicting cid resolved enc w then Inl (RuntimeErr msg)
      else Inr (map (\<lambda>(k, w). (k, attached_row mark cid resolved t enc w)) rows,
        length (filter (\<lambda>(k, w). eligible cid resolved w \<and> lr_outcome w = None) rows)))"
proof (induction rows)
  case (Cons kw rows)
  obtain k w where kw: "kw = (k, w)" by (cases kw)
  show ?case
  proof (cases "lr_condition_id w \<noteq> cid \<or> resolved \<le> lr_observed_at w")
    case True
    then have "\<not> eligible cid resolved w" by (auto simp: eligible_def)
    with True show ?thesis using Cons.IH by (auto simp: kw attached_row_def conflicting_def)
  next
    case False
    then have e: "eligible cid resolved w" by (auto simp: eligible_def)
    show ?thesis
    proof (cases "lr_outcome w")
      case None
      then show ?thesis using False e Cons.IH by (auto simp: kw attached_row_def conflicting_def)
    next
      case (Some x)
      then show ?thesis using False e Cons.IH by (auto simp: kw attached_row_def conflicting_def)
    qed
  qed
qed simp

definition plain_mark :: "('a labelled_row_scheme \<Rightarrow> 'a labelled_row_scheme) \<Rightarrow> bool" where
  "plain_mark mark \<longleftrightarrow> (\<forall>w. base_row (mark w) = base_row w)"

lemma base_attached_row:
  "plain_mark mark \<Longrightarrow> base_row (attached_row mark cid resolved t enc w) = label_row cid resolved t enc (base_row w)"
  by (simp add: plain_mark_def attached_row_def label_row_def base_row_set_label)

lemma plain_marks [simp]: "plain_mark id" "plain_mark (pe_label_status_update f)"
  by (auto simp: plain_mark_def intro: base_row_eqI)

lemma observations_conflict:
  "(\<exists>w\<in>set (observations r). conflicting cid resolved enc w) \<longleftrightarrow>
     (\<exists>(k, w)\<in>set (crp_records r). conflicting cid resolved enc w)
     \<or> (\<exists>(k, w)\<in>set (crp_checkpoints r). conflicting cid resolved enc w)
     \<or> (\<exists>(k, w)\<in>set (crp_prospective r). conflicting cid resolved enc w)"
  by (simp add: observations_def bex_Un case_prod_beta)

lemma filter_map_base: "filter (\<lambda>w. eligible cid resolved w \<and> lr_outcome w = None) (map (base_row \<circ> snd) rows)
    = map (base_row \<circ> snd) (filter (\<lambda>(k, w). eligible cid resolved w \<and> lr_outcome w = None) rows)"
  by (induction rows) auto

lemma map_base_attached:
  "plain_mark mark \<Longrightarrow> map (base_row \<circ> snd) (map (\<lambda>(k, w). (k, attached_row mark cid resolved t enc w)) rows)
     = map (label_row cid resolved t enc) (map (base_row \<circ> snd) rows)"
  by (induction rows) (auto simp: base_attached_row)

text \<open>The three loops are one pass over all observations, or nothing.\<close>

lemma attach_to_condition_refines:
  "case attach_outcome_to_condition r cid outcome resolved t of (r', res) \<Rightarrow>
     (case res of Inl e \<Rightarrow> r' = r
      | Inr n \<Rightarrow> json_get outcome ''settlement_source_kind'' = Some (JStr ''OFFICIAL'')
          \<and> (\<forall>w\<in>set (observations r). \<not> conflicting cid resolved (json_canonical outcome) w)
          \<and> observations r' = map (label_row cid resolved t (json_canonical outcome)) (observations r)
          \<and> n = length (filter (\<lambda>w. eligible cid resolved w \<and> lr_outcome w = None) (observations r)))"
proof (cases "attach_outcome_to_condition r cid outcome resolved t")
  case (Pair r' res)
  show ?thesis
  proof (cases res)
    case (Inl e)
    then show ?thesis using Pair by (auto simp: attach_outcome_to_condition_def Let_def split: sum.splits prod.splits)
  next
    case (Inr n)
    let ?enc = "json_canonical outcome"
    have "json_get outcome ''settlement_source_kind'' = Some (JStr ''OFFICIAL'')"
      and c: "\<not> (\<exists>(k, w)\<in>set (crp_records r). conflicting cid resolved ?enc w)"
        "\<not> (\<exists>(k, w)\<in>set (crp_checkpoints r). conflicting cid resolved ?enc w)"
        "\<not> (\<exists>(k, w)\<in>set (crp_prospective r). conflicting cid resolved ?enc w)"
      and r': "crp_records r' = map (\<lambda>(k, w). (k, attached_row id cid resolved t ?enc w)) (crp_records r)"
        "crp_checkpoints r' = map (\<lambda>(k, w). (k, attached_row id cid resolved t ?enc w)) (crp_checkpoints r)"
        "crp_prospective r' = map (\<lambda>(k, w). (k, attached_row (pe_label_status_update (\<lambda>_. Some ''LABELED''))
            cid resolved t ?enc w)) (crp_prospective r)"
      and n: "n = length (filter (\<lambda>(k, w). eligible cid resolved w \<and> lr_outcome w = None) (crp_records r))
          + length (filter (\<lambda>(k, w). eligible cid resolved w \<and> lr_outcome w = None) (crp_checkpoints r))
          + length (filter (\<lambda>(k, w). eligible cid resolved w \<and> lr_outcome w = None) (crp_prospective r))"
      using Pair Inr
      by (auto simp: attach_outcome_to_condition_def Let_def attach_rows_eq checked_Inr_iff bindr_Inr_iff
        split: sum.splits prod.splits if_splits)
    moreover have "\<forall>w\<in>set (observations r). \<not> conflicting cid resolved ?enc w"
      using observations_conflict [of r cid resolved ?enc] c by blast
    moreover have "observations r' = map (label_row cid resolved t ?enc) (observations r)"
      by (simp add: observations_def r' map_base_attached del: map_map)
    moreover have "n = length (filter (\<lambda>w. eligible cid resolved w \<and> lr_outcome w = None) (observations r))"
      by (simp add: observations_def filter_map_base n)
    ultimately show ?thesis using Pair Inr by simp
  qed
qed

section \<open>Labels never look ahead\<close>

text \<open>
  What the daemon and the labellers do with the corpus, in any order: the three saves, the official label of
  a condition, and the label of a single record, which the repository offers without asking for an
  official source or a resolution instant (the runtime does not use it, tests do).
\<close>

datatype corpus_op =
    Save_record string asset horizon string utc json
  | Save_checkpoint string checkpoint_row
  | Save_prospective string prospective_row
  | Label string json utc utc
  | Label_record string json utc

fun corpus_apply :: "corpus_repo \<Rightarrow> corpus_op \<Rightarrow> corpus_repo" where
  "corpus_apply r (Save_record k a h cid t p) = fst (save_pre_outcome r k a h cid t p)"
| "corpus_apply r (Save_checkpoint k w) = fst (save_checkpoint_observation r k w)"
| "corpus_apply r (Save_prospective k w) = fst (save_prospective_evidence r k w)"
| "corpus_apply r (Label cid outcome resolved t) = fst (attach_outcome_to_condition r cid outcome resolved t)"
| "corpus_apply r (Label_record k outcome t) = fst (attach_verified_outcome_once r k outcome t)"

definition corpus_history :: "corpus_op list \<Rightarrow> corpus_repo" where
  "corpus_history ops = foldl corpus_apply empty_corpus ops"

text \<open>Conditions are labelled as a whole, and the official source resolves each of them at one instant.\<close>

fun resolves_at :: "(string \<Rightarrow> utc) \<Rightarrow> corpus_op \<Rightarrow> bool" where
  "resolves_at res (Label cid outcome resolved t) \<longleftrightarrow> resolved = res cid"
| "resolves_at res (Label_record k outcome t) \<longleftrightarrow> False"
| "resolves_at res _ \<longleftrightarrow> True"

definition official_outcome :: "json \<Rightarrow> bool" where
  "official_outcome out \<longleftrightarrow> json_get out ''settlement_source_kind'' = Some (JStr ''OFFICIAL'')"

text \<open>Where the label of a row may come from.\<close>

definition labelled_officially :: "corpus_op list \<Rightarrow> 'a labelled_row_scheme \<Rightarrow> bool" where
  "labelled_officially ops w \<longleftrightarrow> (\<exists>outcome resolved t. Label (lr_condition_id w) outcome resolved t \<in> set ops
     \<and> official_outcome outcome \<and> lr_observed_at w < resolved
     \<and> lr_outcome w = Some (json_canonical outcome) \<and> lr_attached_at w = Some t)"

definition labelled_alone :: "corpus_op list \<Rightarrow> string \<Rightarrow> 'a labelled_row_scheme \<Rightarrow> bool" where
  "labelled_alone ops k w \<longleftrightarrow> (\<exists>outcome t. Label_record k outcome t \<in> set ops
     \<and> lr_outcome w = Some (json_canonical outcome) \<and> lr_attached_at w = Some t)"

definition labels_have_origin :: "corpus_op list \<Rightarrow> corpus_repo \<Rightarrow> bool" where
  "labels_have_origin ops r \<longleftrightarrow>
     (\<forall>(k, w)\<in>set (crp_records r). lr_outcome w = None \<or> labelled_officially ops w \<or> labelled_alone ops k w)
     \<and> (\<forall>(k, w)\<in>set (crp_checkpoints r). lr_outcome w = None \<or> labelled_officially ops w)
     \<and> (\<forall>(k, w)\<in>set (crp_prospective r). lr_outcome w = None \<or> labelled_officially ops w)"

definition labels_sound :: "(string \<Rightarrow> utc) \<Rightarrow> labelled_row list \<Rightarrow> bool" where
  "labels_sound res ws \<longleftrightarrow>
     (\<forall>w\<in>set ws. \<forall>out. lr_outcome w = Some out \<longrightarrow> lr_observed_at w < res (lr_condition_id w) \<and> official_outcome out)
     \<and> (\<forall>v\<in>set ws. \<forall>w\<in>set ws. lr_condition_id v = lr_condition_id w \<longrightarrow> lr_outcome v \<noteq> None
          \<longrightarrow> lr_outcome w \<noteq> None \<longrightarrow> lr_outcome v = lr_outcome w)"

lemma official_canonical: "official_outcome out \<Longrightarrow> official_outcome (json_canonical out)"
  by (simp add: official_outcome_def json_get_canonical)

lemma observations_unlabelled:
  assumes "labels_sound res ws" "set vs \<subseteq> insert w (set ws)" "lr_outcome w = None"
  shows "labels_sound res vs"
proof -
  have m: "v \<in> set ws" if "v \<in> set vs" "lr_outcome v \<noteq> None" for v using assms(2,3) that by auto
  show ?thesis
    unfolding labels_sound_def
  proof (intro conjI ballI allI impI)
    fix v out assume "v \<in> set vs" "lr_outcome v = Some out"
    then show "lr_observed_at v < res (lr_condition_id v)" "official_outcome out"
      using m [of v] assms(1) by (auto simp: labels_sound_def)
  next
    fix v x assume "v \<in> set vs" "x \<in> set vs" "lr_condition_id v = lr_condition_id x" "lr_outcome v \<noteq> None" "lr_outcome x \<noteq> None"
    then show "lr_outcome v = lr_outcome x" using m [of v] m [of x] assms(1) unfolding labels_sound_def by blast
  qed
qed

lemma labels_sound_label:
  assumes "labels_sound res ws" "\<forall>w\<in>set ws. \<not> conflicting cid (res cid) enc w" "official_outcome enc"
  shows "labels_sound res (map (label_row cid (res cid) t enc) ws)"
proof -
  have f: "lr_condition_id (label_row cid (res cid) t enc w) = lr_condition_id w"
    "lr_observed_at (label_row cid (res cid) t enc w) = lr_observed_at w"
    "lr_outcome (label_row cid (res cid) t enc w)
      = (if eligible cid (res cid) w \<and> lr_outcome w = None then Some enc else lr_outcome w)" for w
    by (simp_all add: label_row_def set_label_def)
  have same: "out = enc" if "w \<in> set ws" "lr_condition_id w = cid" "lr_outcome w = Some out" for w out
    using assms(1,2) that by (auto simp: labels_sound_def conflicting_def eligible_def)
  show ?thesis
    unfolding labels_sound_def
  proof (intro conjI ballI allI impI)
    fix w out assume "w \<in> set (map (label_row cid (res cid) t enc) ws)" "lr_outcome w = Some out"
    then show "lr_observed_at w < res (lr_condition_id w)" "official_outcome out"
      using assms(1,3) by (auto simp: f labels_sound_def eligible_def split: if_splits)
  next
    fix v w assume vw: "v \<in> set (map (label_row cid (res cid) t enc) ws)" "w \<in> set (map (label_row cid (res cid) t enc) ws)"
      "lr_condition_id v = lr_condition_id w" "lr_outcome v \<noteq> None" "lr_outcome w \<noteq> None"
    show "lr_outcome v = lr_outcome w"
    proof (cases "lr_condition_id v = cid")
      case True
      have "lr_outcome x = Some enc" if "x \<in> set (map (label_row cid (res cid) t enc) ws)" "lr_condition_id x = cid"
        "lr_outcome x \<noteq> None" for x
      proof -
        obtain y where y: "y \<in> set ws" "x = label_row cid (res cid) t enc y" using \<open>x \<in> _\<close> by auto
        then have "lr_condition_id y = cid" using \<open>lr_condition_id x = cid\<close> by (simp add: f)
        then show ?thesis using same [OF y(1)] \<open>lr_outcome x \<noteq> None\<close> by (auto simp: y(2) f split: if_splits)
      qed
      then have "lr_outcome v = Some enc" "lr_outcome w = Some enc" using vw True by metis+
      then show ?thesis by simp
    next
      case False
      then show ?thesis
        using vw assms(1) by (auto simp: f labels_sound_def eligible_def split: if_splits)
    qed
  qed
qed

definition keeps_rows :: "(string, 'a labelled_row_scheme) rows \<Rightarrow> (string, 'a labelled_row_scheme) rows \<Rightarrow> bool" where
  "keeps_rows t t' \<longleftrightarrow> (\<forall>k w. map_of t k = Some w \<longrightarrow> lr_outcome w \<noteq> None \<longrightarrow> map_of t' k = Some w)"

definition keeps_labels :: "corpus_repo \<Rightarrow> corpus_repo \<Rightarrow> bool" where
  "keeps_labels r r' \<longleftrightarrow> keeps_rows (crp_records r) (crp_records r')
     \<and> keeps_rows (crp_checkpoints r) (crp_checkpoints r') \<and> keeps_rows (crp_prospective r) (crp_prospective r')"

lemma keeps_labels_refl [simp]: "keeps_rows t t" "keeps_labels r r"
  by (simp_all add: keeps_rows_def keeps_labels_def)

lemma keeps_rows_trans: "keeps_rows t u \<Longrightarrow> keeps_rows u v \<Longrightarrow> keeps_rows t v"
  by (auto simp: keeps_rows_def)

lemma keeps_labels_trans: "keeps_labels r s \<Longrightarrow> keeps_labels s t \<Longrightarrow> keeps_labels r t"
  unfolding keeps_labels_def by (blast intro: keeps_rows_trans)

lemma keeps_rows_attached: "keeps_rows t (map (\<lambda>(k, w). (k, attached_row mark cid resolved s enc w)) t)"
proof -
  have "map_of (map (\<lambda>(k, w). (k, attached_row mark cid resolved s enc w)) t) k
      = map_option (attached_row mark cid resolved s enc) (map_of t k)" for k
    by (induction t) auto
  then show ?thesis by (auto simp: keeps_rows_def attached_row_def)
qed

lemma keeps_rows_insert [simp]: "keeps_rows t (row_insert t k v)" "keeps_rows t (unique_insert key t k v)"
  by (auto simp: keeps_rows_def row_insert_def unique_insert_def map_add_def split: option.splits)

lemma corpus_apply_keeps: "keeps_labels r (corpus_apply r op)"
proof (cases op)
  case (Label cid outcome resolved t)
  then show ?thesis
    by (auto simp: attach_outcome_to_condition_def Let_def attach_rows_eq checked_def keeps_labels_def
      keeps_rows_attached split: option.splits sum.splits)
next
  case (Label_record k outcome t)
  have "map_of (map (\<lambda>(k', w). (k', if k' = k then f w else w)) ws) j
      = map_option (if j = k then f else id) (map_of ws j)" for f and ws :: "(string, corpus_row) rows" and j
    by (induction ws) auto
  then show ?thesis
    by (auto simp: Label_record attach_verified_outcome_once_def Let_def keeps_labels_def keeps_rows_def split: option.splits)
qed (auto simp: save_pre_outcome_def save_checkpoint_observation_def save_prospective_evidence_def Let_def keeps_labels_def)

lemma row_insert_set: "set (row_insert t k v) \<subseteq> insert (k, v) (set t)" "set (unique_insert key t k v) \<subseteq> insert (k, v) (set t)"
  by (auto simp: row_insert_def unique_insert_def)

lemma corpus_apply_sound:
  assumes "labels_sound res (observations r)" "resolves_at res op"
  shows "labels_sound res (observations (corpus_apply r op))"
proof (cases op)
  case (Save_record k a h cid t p)
  let ?w = "\<lparr>lr_condition_id = cid, lr_observed_at = t, lr_payload = json_canonical p, lr_outcome = None,
    lr_attached_at = None, co_asset = a, co_horizon = h\<rparr>"
  have "set (observations (corpus_apply r op)) \<subseteq> insert (base_row ?w) (set (observations r))"
    using row_insert_set(1) [of "crp_records r" k ?w]
    by (auto simp: Save_record save_pre_outcome_def Let_def observations_def)
  then show ?thesis by (rule observations_unlabelled [OF assms(1)]) simp
next
  case (Save_checkpoint k g)
  let ?w = "g\<lparr>lr_payload := json_canonical (lr_payload g), lr_outcome := None, lr_attached_at := None\<rparr>"
  have "set (observations (corpus_apply r op)) \<subseteq> insert (base_row ?w) (set (observations r))"
    using row_insert_set(2) [of checkpoint_key "crp_checkpoints r" k ?w]
    by (auto simp: Save_checkpoint save_checkpoint_observation_def Let_def observations_def)
  then show ?thesis by (rule observations_unlabelled [OF assms(1)]) simp
next
  case (Save_prospective k g)
  let ?w = "prospective_defaults g"
  have "set (observations (corpus_apply r op)) \<subseteq> insert (base_row ?w) (set (observations r))"
    using row_insert_set(2) [of prospective_key "crp_prospective r" k ?w]
    by (auto simp: Save_prospective save_prospective_evidence_def Let_def observations_def)
  then show ?thesis by (rule observations_unlabelled [OF assms(1)]) (simp add: prospective_defaults_def Let_def)
next
  case (Label cid outcome resolved t)
  have res: "resolved = res cid" using assms(2) Label by simp
  show ?thesis
  proof (cases "attach_outcome_to_condition r cid outcome resolved t")
    case (Pair r' x)
    show ?thesis
    proof (cases x)
      case (Inl e)
      then show ?thesis
        using attach_to_condition_refines [where r = r and cid = cid and outcome = outcome and resolved = resolved and t = t] Pair assms(1) by (simp add: Label)
    next
      case (Inr n)
      then have "observations r' = map (label_row cid (res cid) t (json_canonical outcome)) (observations r)"
        "\<forall>w\<in>set (observations r). \<not> conflicting cid (res cid) (json_canonical outcome) w"
        "official_outcome outcome"
        using attach_to_condition_refines [where r = r and cid = cid and outcome = outcome and resolved = resolved and t = t] Pair by (simp_all add: res official_outcome_def)
      then show ?thesis
        using labels_sound_label [OF assms(1)] official_canonical Pair by (simp add: Label)
    qed
  qed
qed (use assms(2) in simp)

lemma corpus_fold_sound:
  "labels_sound res (observations r) \<Longrightarrow> list_all (resolves_at res) ops \<Longrightarrow>
    labels_sound res (observations (foldl corpus_apply r ops)) \<and> keeps_labels r (foldl corpus_apply r ops)"
proof (induction ops arbitrary: r)
  case (Cons op ops)
  then show ?case
    using corpus_apply_sound corpus_apply_keeps keeps_labels_trans by simp blast
qed simp

text \<open>Labelling a condition leaves the corpus as it is, or labels the eligible rows of its three tables.\<close>

lemma attach_tables:
  obtains "fst (attach_outcome_to_condition r cid outcome resolved t) = r"
  | "official_outcome outcome" "fst (attach_outcome_to_condition r cid outcome resolved t) =
      \<lparr>crp_records = map (\<lambda>(k, w). (k, attached_row id cid resolved t (json_canonical outcome) w)) (crp_records r),
       crp_checkpoints = map (\<lambda>(k, w). (k, attached_row id cid resolved t (json_canonical outcome) w)) (crp_checkpoints r),
       crp_prospective = map (\<lambda>(k, w). (k, attached_row (pe_label_status_update (\<lambda>_. Some ''LABELED'')) cid resolved t
         (json_canonical outcome) w)) (crp_prospective r)\<rparr>"
proof (cases "attach_outcome_to_condition r cid outcome resolved t")
  case (Pair r' res)
  show thesis
  proof (cases res)
    case (Inl e)
    then have "r' = r" using Pair by (auto simp: attach_outcome_to_condition_def Let_def split: sum.splits prod.splits)
    then show thesis using that(1) Pair by simp
  next
    case (Inr n)
    then have "official_outcome outcome" "r' =
      \<lparr>crp_records = map (\<lambda>(k, w). (k, attached_row id cid resolved t (json_canonical outcome) w)) (crp_records r),
       crp_checkpoints = map (\<lambda>(k, w). (k, attached_row id cid resolved t (json_canonical outcome) w)) (crp_checkpoints r),
       crp_prospective = map (\<lambda>(k, w). (k, attached_row (pe_label_status_update (\<lambda>_. Some ''LABELED'')) cid resolved t
         (json_canonical outcome) w)) (crp_prospective r)\<rparr>"
      using Pair
      by (auto simp: attach_outcome_to_condition_def Let_def attach_rows_eq checked_Inr_iff bindr_Inr_iff official_outcome_def
        split: sum.splits prod.splits if_splits)
    then show thesis using that(2) Pair by simp
  qed
qed

lemma attached_row_origin:
  assumes "plain_mark mark" "official_outcome outcome" "lr_outcome (attached_row mark cid resolved t (json_canonical outcome) w) \<noteq> None"
  shows "attached_row mark cid resolved t (json_canonical outcome) w = w
    \<or> labelled_officially [Label cid outcome resolved t] (attached_row mark cid resolved t (json_canonical outcome) w)"
proof (cases "eligible cid resolved w \<and> lr_outcome w = None")
  case True
  let ?v = "mark (set_label (json_canonical outcome) t w)"
  have b: "base_row ?v = base_row (set_label (json_canonical outcome) t w)" using assms(1) by (simp add: plain_mark_def)
  have "lr_condition_id ?v = lr_condition_id w" "lr_observed_at ?v = lr_observed_at w"
    "lr_outcome ?v = Some (json_canonical outcome)" "lr_attached_at ?v = Some t"
    using arg_cong [OF b, of lr_condition_id] arg_cong [OF b, of lr_observed_at]
      arg_cong [OF b, of lr_outcome] arg_cong [OF b, of lr_attached_at] by (simp_all add: set_label_def)
  then show ?thesis using True assms(2) by (simp add: attached_row_def labelled_officially_def eligible_def)
qed (auto simp: attached_row_def)

lemma labelled_mono:
  "labelled_officially ops w \<Longrightarrow> set ops \<subseteq> set ops' \<Longrightarrow> labelled_officially ops' w"
  "labelled_alone ops k w \<Longrightarrow> set ops \<subseteq> set ops' \<Longrightarrow> labelled_alone ops' k w"
  unfolding labelled_officially_def labelled_alone_def by blast+

lemma corpus_apply_origin: "labels_have_origin ops r \<Longrightarrow> labels_have_origin (ops @ [op]) (corpus_apply r op)"
proof -
  assume o: "labels_have_origin ops r"
  have m: "labelled_officially (ops @ [op]) w" if "labelled_officially ops w" for w :: "'a labelled_row_scheme"
    by (rule labelled_mono(1) [OF that]) auto
  have m': "labelled_alone (ops @ [op]) k w" if "labelled_alone ops k w" for k and w :: "'a labelled_row_scheme"
    by (rule labelled_mono(2) [OF that]) auto
  have old: "labels_have_origin (ops @ [op]) r"
    using o m m' unfolding labels_have_origin_def split_beta by (meson bspec)
  show ?thesis
  proof (cases op)
    case (Save_record k a h cid t p)
    then show ?thesis
      using old row_insert_set(1) [of "crp_records r" k]
      by (fastforce simp: labels_have_origin_def save_pre_outcome_def Let_def)
  next
    case (Save_checkpoint k g)
    then show ?thesis
      using old row_insert_set(2) [of checkpoint_key "crp_checkpoints r" k]
      by (fastforce simp: labels_have_origin_def save_checkpoint_observation_def Let_def)
  next
    case (Save_prospective k g)
    have "lr_outcome (prospective_defaults g) = None" by (simp add: prospective_defaults_def Let_def)
    then show ?thesis
      using Save_prospective old row_insert_set(2) [of prospective_key "crp_prospective r" k]
      by (fastforce simp: labels_have_origin_def save_prospective_evidence_def Let_def)
  next
    case (Label cid outcome resolved t)
    show ?thesis
    proof (cases rule: attach_tables [of r cid outcome resolved t])
      case 1
      then show ?thesis using old by (simp add: Label)
    next
      case 2
      have a: "lr_outcome (attached_row mark cid resolved t (json_canonical outcome) w) = None
          \<or> attached_row mark cid resolved t (json_canonical outcome) w = w
          \<or> labelled_officially (ops @ [op]) (attached_row mark cid resolved t (json_canonical outcome) w)"
        if "plain_mark mark" for mark and w :: "'a labelled_row_scheme"
        using attached_row_origin [OF that 2(1), of cid resolved t w] labelled_mono(1) [where ops = "[op]" and ops' = "ops @ [op]"]
        by (auto simp: Label)
      have rows: "\<forall>(k, w)\<in>set (map (\<lambda>(k, w). (k, attached_row mark cid resolved t (json_canonical outcome) w)) ws).
          lr_outcome w = None \<or> labelled_officially (ops @ [op]) w \<or> P k w"
        if "plain_mark mark" and old_rows: "\<forall>(k, w)\<in>set ws. lr_outcome w = None \<or> labelled_officially (ops @ [op]) w \<or> P k w"
        for mark and ws :: "(string, 'a labelled_row_scheme) rows" and P
      proof -
        let ?f = "attached_row mark cid resolved t (json_canonical outcome)"
        have "lr_outcome (?f w) = None \<or> labelled_officially (ops @ [op]) (?f w) \<or> P k (?f w)"
          if kw: "(k, w) \<in> set ws" for k w
        proof (cases "?f w = w")
          case True
          then show ?thesis using old_rows kw by fastforce
        next
          case False
          then show ?thesis using a [OF \<open>plain_mark mark\<close>, of w] by blast
        qed
        then show ?thesis by (simp add: split_beta)
      qed
      show ?thesis
        using old rows [of id "crp_records r" "labelled_alone (ops @ [op])"] rows [of id "crp_checkpoints r" "\<lambda>k w. False"]
          rows [of "pe_label_status_update (\<lambda>_. Some ''LABELED'')" "crp_prospective r" "\<lambda>k w. False"]
        by (simp add: Label 2(2) labels_have_origin_def del: set_map)
    qed
  next
    case (Label_record k outcome t)
    have new: "labelled_alone (ops @ [op]) k (w\<lparr>lr_outcome := Some (json_canonical outcome), lr_attached_at := Some t\<rparr>)"
      for w :: corpus_row
      by (auto simp: labelled_alone_def Label_record)
    have "(j, w) \<in> set (crp_records r) \<or> labelled_alone (ops @ [op]) j w"
      if "(j, w) \<in> set (crp_records (corpus_apply r op))" for j w
      using that new by (auto simp: Label_record attach_verified_outcome_once_def Let_def split: option.splits if_splits)
    moreover have "crp_checkpoints (corpus_apply r op) = crp_checkpoints r" "crp_prospective (corpus_apply r op) = crp_prospective r"
      by (auto simp: Label_record attach_verified_outcome_once_def Let_def split: option.splits)
    ultimately show ?thesis using old by (fastforce simp: labels_have_origin_def)
  qed
qed

lemma corpus_history_origin: "labels_have_origin ops (corpus_history ops)"
proof (induction ops rule: rev_induct)
  case Nil
  then show ?case by (simp add: corpus_history_def labels_have_origin_def empty_corpus_def)
next
  case (snoc op ops)
  then show ?case using corpus_apply_origin by (simp add: corpus_history_def)
qed

lemma corpus_history_keeps: "keeps_labels (corpus_history before) (corpus_history (before @ later))"
proof (induction later rule: rev_induct)
  case (snoc op later)
  then show ?case
    using keeps_labels_trans [OF _ corpus_apply_keeps] by (simp add: corpus_history_def flip: append_assoc)
qed (simp add: corpus_history_def)

section \<open>The label of a settlement result\<close>

text \<open>
  \<open>_corpus_outcome_payload\<close> of \<open>settlement/official.py\<close>, the outcome both labellers attach: it contains the
  instant of the attachment. \<open>iso_text\<close> is \<open>datetime.isoformat\<close>.
\<close>

record settlement_label =
  sl_source :: string
  sl_condition_id :: string
  sl_market_id :: "string option"
  sl_winning_side :: "outcome_side option"
  sl_resolved_at :: "utc option"
  sl_evidence_hash :: string

fun side_text :: "outcome_side \<Rightarrow> string" where
  "side_text UP = ''UP''"
| "side_text DOWN = ''DOWN''"

definition corpus_outcome_payload :: "(utc \<Rightarrow> string) \<Rightarrow> settlement_label \<Rightarrow> utc \<Rightarrow> json result" where
  "corpus_outcome_payload iso_text s attached_at =
     (case (sl_winning_side s, sl_resolved_at s) of
        (None, _) \<Rightarrow> Inl (RuntimeErr ''corpus label requires a winning side'')
      | (_, None) \<Rightarrow> Inl (RuntimeErr ''corpus label requires official resolved_at'')
      | (Some side, Some resolved) \<Rightarrow> Inr (JDict
         [(''settlement_source_kind'', JStr ''OFFICIAL''), (''source'', JStr (sl_source s)),
          (''condition_id'', JStr (sl_condition_id s)),
          (''market_id'', case sl_market_id s of None \<Rightarrow> JNull | Some m \<Rightarrow> JStr m),
          (''outcome_up'', JBool (side = UP)), (''winning_side'', JStr (side_text side)),
          (''official_resolved_at'', JStr (iso_text resolved)), (''attached_at'', JStr (iso_text attached_at)),
          (''evidence_hash'', JStr (sl_evidence_hash s))]))"

text \<open>
  Labelling is therefore not idempotent: once an observation of a condition is labelled, labelling the
  condition again with the same official result at another instant raises the conflict error and
  changes nothing, so observations of the condition that are still unlabelled stay so.
\<close>

lemma relabel_later_conflicts:
  assumes "inj iso_text" "t1 \<noteq> t2" "corpus_outcome_payload iso_text s t1 = Inr o1" "corpus_outcome_payload iso_text s t2 = Inr o2"
    "w \<in> set (observations r)" "lr_outcome w = Some (json_canonical o1)" "eligible cid resolved w"
  shows "\<exists>e. attach_outcome_to_condition r cid o2 resolved t2 = (r, Inl e)"
proof -
  have "json_get o1 ''attached_at'' = Some (JStr (iso_text t1))" "json_get o2 ''attached_at'' = Some (JStr (iso_text t2))"
    using assms(3,4) by (auto simp: corpus_outcome_payload_def split: option.splits)
  then have "json_get (json_canonical o1) ''attached_at'' \<noteq> json_get (json_canonical o2) ''attached_at''"
    using assms(1,2) by (simp add: json_get_canonical inj_eq)
  then have "conflicting cid resolved (json_canonical o2) w" using assms(6,7) by (auto simp: conflicting_def)
  then have "\<exists>w\<in>set (observations r). conflicting cid resolved (json_canonical o2) w" using assms(5) by blast
  then show ?thesis
    using attach_to_condition_refines [where r = r and cid = cid and outcome = o2 and resolved = resolved and t = t2]
    by (cases "attach_outcome_to_condition r cid o2 resolved t2"; cases "snd (attach_outcome_to_condition r cid o2 resolved t2)")
      auto
qed

section \<open>Training records\<close>

lemma map_filter_set: "y \<in> set (List.map_filter f xs) \<longleftrightarrow> (\<exists>x\<in>set xs. f x = Some y)"
  by (induction xs) (auto simp: List.map_filter_def)

text \<open>A training record is a labelled observation of its bucket; the label precedes nothing it was made from.\<close>

lemma training_records_labelled:
  assumes "training_ready_records r a h n = Inr trs" "x \<in> set trs"
  shows "\<exists>w. (tr_record_id x, w) \<in> set (crp_records r) \<and> lr_outcome w = Some (tr_outcome x)
    \<and> lr_observed_at w = tr_observed_at x \<and> lr_condition_id w = tr_condition_id x \<and> lr_payload w = tr_payload x
    \<and> co_asset w = a \<and> co_horizon w = h \<and> tr_asset x = a \<and> tr_horizon x = h
    \<and> training_ready_payload (tr_payload x) \<and> official_outcome (tr_outcome x)
    \<and> json_get (tr_outcome x) ''outcome_up'' = Some (JBool (tr_outcome_up x))"
proof -
  define sel where "sel = sort_key (\<lambda>(k, w). lr_observed_at w)
     (filter (\<lambda>(k, w). in_bucket (Some a) (Some h) w \<and> lr_outcome w \<noteq> None) (crp_records r))"
  have "trs = List.map_filter (training_record_of a h) (case n of None \<Rightarrow> sel | Some m \<Rightarrow> take (nat m) sel)"
    using assms(1) unfolding training_ready_records_def Let_def sel_def by (simp add: checked_Inr_iff)
  moreover have "set (case n of None \<Rightarrow> sel | Some m \<Rightarrow> take (nat m) sel) \<subseteq> set sel"
    by (auto split: option.split dest: in_set_takeD)
  ultimately obtain kw where kw: "kw \<in> set sel" "training_record_of a h kw = Some x"
    using assms(2) by (auto simp: map_filter_set)
  then have "kw \<in> set (crp_records r)" "(\<lambda>(k, w). in_bucket (Some a) (Some h) w \<and> lr_outcome w \<noteq> None) kw"
    by (simp_all add: sel_def)
  moreover obtain k w where "kw = (k, w)" by (cases kw)
  ultimately show ?thesis using kw(2)
    by (auto simp: training_record_of_def in_bucket_def official_outcome_def split: option.splits if_splits json.splits)
qed


section \<open>A labelled corpus\<close>

definition demo_label :: json where
  "demo_label = JDict [(''settlement_source_kind'', JStr ''OFFICIAL''), (''outcome_up'', JBool True)]"

text \<open>The second record is observed after the resolution; a label of its own is not an official one.\<close>

definition demo_proxy :: json where
  "demo_proxy = JDict [(''settlement_source_kind'', JStr ''PROXY'')]"

definition demo_ops :: "corpus_op list" where
  "demo_ops = [Save_record ''r1'' BTC FIVE_MINUTES ''c1'' 10 (JDict []), Save_record ''r2'' BTC FIVE_MINUTES ''c1'' 40 (JDict []),
     Label ''c1'' demo_label 30 50]"

definition demo_later :: "corpus_op list" where
  "demo_later = [Label_record ''r1'' demo_proxy 60, Label_record ''r2'' demo_proxy 60]"

lemma demo_history: "corpus_history demo_ops = empty_corpus\<lparr>crp_records :=
   [(''r1'', \<lparr>lr_condition_id = ''c1'', lr_observed_at = 10, lr_payload = json_canonical (JDict []),
      lr_outcome = Some (json_canonical demo_label), lr_attached_at = Some 50, co_asset = BTC, co_horizon = FIVE_MINUTES\<rparr>),
    (''r2'', \<lparr>lr_condition_id = ''c1'', lr_observed_at = 40, lr_payload = json_canonical (JDict []),
      lr_outcome = None, lr_attached_at = None, co_asset = BTC, co_horizon = FIVE_MINUTES\<rparr>)]\<rparr>"
  by (simp add: demo_ops_def corpus_history_def empty_corpus_def save_pre_outcome_def get_corpus_record_def row_insert_def
    py_space_def attach_outcome_to_condition_def demo_label_def set_label_def Let_def)

lemma demo_outcomes:
  "map lr_outcome (observations (corpus_history demo_ops)) = [Some (json_canonical demo_label), None]"
  "map lr_outcome (observations (corpus_history (demo_ops @ demo_later)))
    = [Some (json_canonical demo_label), Some (json_canonical demo_proxy)]"
proof -
  show "map lr_outcome (observations (corpus_history demo_ops)) = [Some (json_canonical demo_label), None]"
    unfolding demo_history by (simp add: observations_def empty_corpus_def)
  have t: "require_text ''record_id'' ''r1'' = None" "require_text ''record_id'' ''r2'' = None"
    by (simp_all add: py_space_def)
  have "corpus_history (demo_ops @ demo_later) = foldl corpus_apply (corpus_history demo_ops) demo_later"
    by (simp add: corpus_history_def)
  then show "map lr_outcome (observations (corpus_history (demo_ops @ demo_later)))
      = [Some (json_canonical demo_label), Some (json_canonical demo_proxy)]"
    unfolding demo_history
    by (simp add: demo_later_def attach_verified_outcome_once_def t observations_def empty_corpus_def)
qed


end
