(* ===== verification/Settlement.thy ===== *)
theory Settlement
  imports Paper_Ledger Corpus Adapters
begin

text \<open>
  \<open>settlement/official.py\<close>: the official result of a market read from the Gamma and CLOB documents, the
  settlement pass over the open PAPER trades and the labelling pass over the unlabelled observations.
  What the network answers, the clock and the digest are parameters; a document is a JSON value. A text
  in the payload of a stored row is \<open>str\<close> of the value the code stores, an instant its ISO text.
\<close>

section \<open>Results\<close>

datatype settlement_status = SETTLED | SETTLEMENT_PENDING | SETTLEMENT_BLOCKED | VOID

record official_settlement =
  ofs_status :: settlement_status
  ofs_market_id :: string
  ofs_condition_id :: string
  ofs_asset :: asset
  ofs_horizon :: horizon
  ofs_winner :: "outcome_side option"
  ofs_source_kind :: string
  ofs_source :: string
  ofs_resolved_at :: "utc option"
  ofs_observed_at :: utc
  ofs_evidence_hash :: string
  ofs_reason :: string
  ofs_evidence :: json

text \<open>\<open>sp_show\<close> is \<open>str\<close> of a number or a container, \<open>sp_digest\<close> the SHA-256 of the encoded canonical value.\<close>

record settlement_params =
  sp_vendor :: vendor_text
  sp_show :: "json \<Rightarrow> string"
  sp_digest :: "json \<Rightarrow> string"
  sp_iso_text :: "utc \<Rightarrow> string"

definition evidence_hash :: "settlement_params \<Rightarrow> json \<Rightarrow> string" where
  "evidence_hash prm evidence = sp_digest prm (json_canonical evidence)"

text \<open>The identity of a request travels through the resolver unchanged.\<close>

record settlement_request =
  rq_condition_id :: string
  rq_asset :: asset
  rq_horizon :: horizon

definition blocked_result :: "settlement_params \<Rightarrow> settlement_request \<Rightarrow> string \<Rightarrow> utc \<Rightarrow> json option \<Rightarrow> official_settlement" where
  "blocked_result prm q reason observed_at evidence =
     (let given = (case evidence of Some e \<Rightarrow> if json_truthy e then Some e else None | None \<Rightarrow> None) in
      \<lparr>ofs_status = SETTLEMENT_BLOCKED, ofs_market_id = [], ofs_condition_id = rq_condition_id q, ofs_asset = rq_asset q,
       ofs_horizon = rq_horizon q, ofs_winner = None, ofs_source_kind = ''OFFICIAL'',
       ofs_source = ''POLYMARKET_OFFICIAL_METADATA'', ofs_resolved_at = None, ofs_observed_at = observed_at,
       ofs_evidence_hash = evidence_hash prm (case given of Some e \<Rightarrow> e
         | None \<Rightarrow> JDict [(''condition_id'', JStr (rq_condition_id q)), (''reason'', JStr reason)]),
       ofs_reason = reason, ofs_evidence = (case given of Some e \<Rightarrow> e | None \<Rightarrow> JDict [])\<rparr>)"

section \<open>Reading the documents\<close>

definition flag :: "json \<Rightarrow> string \<Rightarrow> bool" where
  "flag v k = (case json_get v k of None \<Rightarrow> False | Some x \<Rightarrow> json_truthy x)"

definition json_array :: "vendor_text \<Rightarrow> json option \<Rightarrow> json list" where
  "json_array vt v = (case v of
     Some (JStr s) \<Rightarrow> (case vt_loads vt s of Some (JList xs) \<Rightarrow> xs | _ \<Rightarrow> [])
   | Some (JList xs) \<Rightarrow> xs
   | _ \<Rightarrow> [])"

fun resolved_text :: "vendor_text \<Rightarrow> json \<Rightarrow> string list \<Rightarrow> utc option result" where
  "resolved_text vt raw [] = Inr None"
| "resolved_text vt raw (k # ks) = (case json_get raw k of
     Some (JStr s) \<Rightarrow> if s = [] then resolved_text vt raw ks
       else (case vt_iso vt s of None \<Rightarrow> Inl (ValueErr ''Invalid isoformat string'') | Some (t, _) \<Rightarrow> Inr (Some t))
   | _ \<Rightarrow> resolved_text vt raw ks)"

definition resolved_at :: "vendor_text \<Rightarrow> json \<Rightarrow> utc option result" where
  "resolved_at vt raw = resolved_text vt raw [''resolvedAt'', ''closedTime'']"

definition sanitized_evidence :: "json \<Rightarrow> json" where
  "sanitized_evidence raw = json_pick [''id'', ''conditionId'', ''outcomes'', ''clobTokenIds'', ''closed'', ''active'',
     ''archived'', ''winningOutcome'', ''winning_outcome'', ''resolutionOutcome'', ''winner'', ''winningClobTokenId'',
     ''winningTokenId'', ''winning_asset_id'', ''resolvedAt'', ''closedTime'', ''updatedAt''] raw"

fun picked_fields :: "json \<Rightarrow> (string \<times> json) list" where
  "picked_fields (JDict kvs) = kvs"
| "picked_fields _ = []"

definition settlement_evidence :: "json \<Rightarrow> json \<Rightarrow> json" where
  "settlement_evidence gamma clob =
     (let tokens = (case json_get clob ''tokens'' of
         Some (JList xs) \<Rightarrow> map (json_pick [''outcome'', ''winner'', ''token_id'', ''tokenId'']) (filter is_object xs)
       | _ \<Rightarrow> []) in
      JDict [(''resolver_version'', JStr ''POLYMARKET_SETTLEMENT_V2''), (''gamma'', sanitized_evidence gamma),
        (''clob'', JDict (picked_fields (json_pick [''condition_id'', ''conditionId'', ''closed'', ''active'', ''archived''] clob)
           @ [(''tokens'', JList tokens)]))])"

section \<open>The winner\<close>

fun clob_winner :: "json list \<Rightarrow> outcome_side list \<Rightarrow> outcome_side list \<Rightarrow> outcome_side option \<times> string" where
  "clob_winner [] seen winners =
     (if set seen \<noteq> {UP, DOWN} then (None, ''CLOB_UP_DOWN_TOKEN_SET_INVALID'')
      else case winners of [w] \<Rightarrow> (Some w, ''OFFICIAL_CLOB_WINNER'') | _ \<Rightarrow> (None, ''CLOB_WINNER_CARDINALITY_INVALID''))"
| "clob_winner (item # items) seen winners =
     (if \<not> is_object item then (None, ''CLOB_TOKEN_NOT_OBJECT'')
      else case json_get item ''outcome'' of
          Some (JStr name) \<Rightarrow> (case outcome_alias name of
              None \<Rightarrow> (None, ''CLOB_TOKEN_OUTCOME_UNKNOWN'')
            | Some side \<Rightarrow>
                if side \<in> set seen then (None, ''CLOB_TOKEN_OUTCOME_DUPLICATE'')
                else case json_get item ''winner'' of
                    Some (JBool b) \<Rightarrow> clob_winner items (seen @ [side]) (if b then winners @ [side] else winners)
                  | _ \<Rightarrow> (None, ''CLOB_TOKEN_WINNER_NOT_BOOL''))
        | _ \<Rightarrow> (None, ''CLOB_TOKEN_OUTCOME_MISSING''))"

definition winner_from_clob_tokens :: "json \<Rightarrow> outcome_side option \<times> string" where
  "winner_from_clob_tokens clob = (case json_get clob ''tokens'' of
     Some (JList items) \<Rightarrow> clob_winner items [] []
   | _ \<Rightarrow> (None, ''CLOB_TOKENS_MISSING''))"

text \<open>\<open>_winner\<close>: the first field that names a side, or the outcome of the winning token.\<close>

fun named_winner :: "json \<Rightarrow> string list \<Rightarrow> outcome_side option" where
  "named_winner raw [] = None"
| "named_winner raw (k # ks) = (case json_get raw k of
     Some (JStr s) \<Rightarrow> (case outcome_alias s of Some side \<Rightarrow> Some side | None \<Rightarrow> named_winner raw ks)
   | _ \<Rightarrow> named_winner raw ks)"

fun token_winner :: "string \<Rightarrow> (json \<times> json) list \<Rightarrow> outcome_side option" where
  "token_winner token [] = None"
| "token_winner token ((JStr name, JStr i) # rest) =
     (if i = token then (case outcome_alias name of Some side \<Rightarrow> Some side | None \<Rightarrow> token_winner token rest)
      else token_winner token rest)"
| "token_winner token (_ # rest) = token_winner token rest"

definition gamma_winner :: "settlement_params \<Rightarrow> json \<Rightarrow> outcome_side option" where
  "gamma_winner prm raw = (case named_winner raw [''winningOutcome'', ''winning_outcome'', ''resolutionOutcome'', ''winner''] of
     Some side \<Rightarrow> Some side
   | None \<Rightarrow> (case find (flag raw) [''winningClobTokenId'', ''winningTokenId'', ''winning_asset_id''] of
       None \<Rightarrow> None
     | Some k \<Rightarrow> token_winner (get_str (sp_show prm) raw k [])
         (zip (json_array (sp_vendor prm) (json_get raw ''outcomes'')) (json_array (sp_vendor prm) (json_get raw ''clobTokenIds'')))))"

section \<open>The official result\<close>

definition official_result :: "settlement_status \<Rightarrow> string \<Rightarrow> settlement_request \<Rightarrow> outcome_side option \<Rightarrow> string \<Rightarrow>
    utc option \<Rightarrow> utc \<Rightarrow> string \<Rightarrow> string \<Rightarrow> json \<Rightarrow> official_settlement" where
  "official_result status market_id q winner source resolved observed_at hash reason evidence =
     \<lparr>ofs_status = status, ofs_market_id = market_id, ofs_condition_id = rq_condition_id q, ofs_asset = rq_asset q,
      ofs_horizon = rq_horizon q, ofs_winner = winner, ofs_source_kind = ''OFFICIAL'', ofs_source = source,
      ofs_resolved_at = resolved, ofs_observed_at = observed_at, ofs_evidence_hash = hash, ofs_reason = reason,
      ofs_evidence = evidence\<rparr>"

definition parse_gamma_official_settlement :: "settlement_params \<Rightarrow> json \<Rightarrow> settlement_request \<Rightarrow> string option \<Rightarrow> utc \<Rightarrow>
    official_settlement result" where
  "parse_gamma_official_settlement prm raw q expected observed_at =
     checked [require_text ''condition_id'' (rq_condition_id q)]
      (let blocked = (\<lambda>reason ev. Inr (blocked_result prm q reason observed_at ev));
           market_id = get_str (sp_show prm) raw ''id'' [];
           evidence = sanitized_evidence raw; hash = evidence_hash prm evidence;
           result = (\<lambda>status winner resolved reason. official_result status market_id q winner
              ''POLYMARKET_OFFICIAL_METADATA'' resolved observed_at hash reason evidence) in
       if \<not> is_object raw then blocked ''GAMMA_MARKET_NOT_OBJECT'' None
       else if (case expected of Some m \<Rightarrow> m \<noteq> [] \<and> market_id \<noteq> m | None \<Rightarrow> False) then blocked ''MARKET_ID_MISMATCH'' None
       else if get_str (sp_show prm) raw ''conditionId'' [] \<noteq> rq_condition_id q then blocked ''CONDITION_ID_MISMATCH'' None
       else if \<exists>k\<in>set [''voided'', ''void'', ''cancelled'', ''canceled'']. flag raw k
         then bindr (resolved_at (sp_vendor prm) raw) (\<lambda>t. Inr (result VOID None t ''OFFICIAL_VOID''))
       else if \<not> flag raw ''closed'' then Inr (result SETTLEMENT_PENDING None None ''MARKET_NOT_FINAL'')
       else case gamma_winner prm raw of
           None \<Rightarrow> blocked ''OFFICIAL_WINNER_MISSING'' (Some evidence)
         | Some w \<Rightarrow> bindr (resolved_at (sp_vendor prm) raw) (\<lambda>t.
             if t = None then blocked ''OFFICIAL_RESOLVED_AT_MISSING'' (Some evidence)
             else Inr (result SETTLED (Some w) t ''OFFICIAL_FINAL'')))"

definition clob_condition :: "settlement_params \<Rightarrow> json \<Rightarrow> string" where
  "clob_condition prm clob = (case json_get clob ''condition_id'' of
     Some v \<Rightarrow> json_str (sp_show prm) v | None \<Rightarrow> get_str (sp_show prm) clob ''conditionId'' [])"

definition parse_polymarket_official_settlement :: "settlement_params \<Rightarrow> json \<Rightarrow> json \<Rightarrow> settlement_request \<Rightarrow> string \<Rightarrow>
    utc \<Rightarrow> official_settlement result" where
  "parse_polymarket_official_settlement prm gamma clob q expected observed_at =
     checked [require_text ''condition_id'' (rq_condition_id q), require_text ''expected_market_id'' expected]
      (let blocked = (\<lambda>reason ev. Inr (blocked_result prm q reason observed_at ev));
           market_id = get_str (sp_show prm) gamma ''id'' [];
           evidence = settlement_evidence gamma clob;
           result = (\<lambda>status winner resolved reason. official_result status market_id q winner
              ''POLYMARKET_GAMMA_MARKET_ID_AND_CLOB_CONDITION'' resolved observed_at (evidence_hash prm evidence) reason evidence) in
       if \<not> is_object gamma then blocked ''GAMMA_MARKET_NOT_OBJECT'' None
       else if \<not> is_object clob then blocked ''CLOB_MARKET_NOT_OBJECT'' None
       else if market_id \<noteq> expected then blocked ''GAMMA_MARKET_ID_MISMATCH'' (Some evidence)
       else if get_str (sp_show prm) gamma ''conditionId'' [] \<noteq> rq_condition_id q
         then blocked ''GAMMA_CONDITION_ID_MISMATCH'' (Some evidence)
       else if clob_condition prm clob \<noteq> rq_condition_id q then blocked ''CLOB_CONDITION_ID_MISMATCH'' (Some evidence)
       else if \<not> flag gamma ''closed'' \<or> \<not> flag clob ''closed''
         then Inr (result SETTLEMENT_PENDING None None ''MARKET_NOT_FINAL'')
       else case winner_from_clob_tokens clob of
           (None, reason) \<Rightarrow> blocked reason (Some evidence)
         | (Some w, _) \<Rightarrow> bindr (resolved_at (sp_vendor prm) gamma) (\<lambda>t.
             Inr (result SETTLED (Some w) t (if t = None then ''OFFICIAL_FINAL_RESOLUTION_TIME_UNAVAILABLE'' else ''OFFICIAL_FINAL''))))"

section \<open>The resolver\<close>

text \<open>What the environment answers to one resolution: the documents or the exceptions, and the clock.\<close>

record responses =
  rsp_metadata :: "json result"
  rsp_by_id :: "json result"
  rsp_clob :: "json result"
  rsp_now :: utc

definition object_or_none :: "json \<Rightarrow> json option" where
  "object_or_none v = (if is_object v then Some v else None)"

definition market_metadata :: "string \<Rightarrow> responses \<Rightarrow> json option result" where
  "market_metadata cid rs = checked [require_text ''condition_id'' cid]
     (bindr (rsp_metadata rs) (\<lambda>payload. Inr (case payload of
        JList [] \<Rightarrow> None | JList (x # _) \<Rightarrow> object_or_none x | v \<Rightarrow> object_or_none v)))"

definition market_metadata_by_id :: "string \<Rightarrow> responses \<Rightarrow> json option result" where
  "market_metadata_by_id market_id rs = checked [require_text ''market_id'' market_id]
     (bindr (rsp_by_id rs) (\<lambda>payload. Inr (object_or_none payload)))"

definition clob_market_by_condition :: "string \<Rightarrow> responses \<Rightarrow> json option result" where
  "clob_market_by_condition cid rs = checked [require_text ''condition_id'' cid]
     (bindr (rsp_clob rs) (\<lambda>payload. Inr (object_or_none payload)))"

definition resolve_settlement :: "settlement_params \<Rightarrow> settlement_request \<Rightarrow> string option \<Rightarrow> responses \<Rightarrow>
    official_settlement result" where
  "resolve_settlement prm q expected rs =
     checked [require_text ''condition_id'' (rq_condition_id q)]
      (let blocked = (\<lambda>reason. Inr (blocked_result prm q reason (rsp_now rs) None)) in
       case expected of
         None \<Rightarrow> blocked ''MARKET_ID_REQUIRED_FOR_SETTLEMENT_V2''
       | Some market_id \<Rightarrow>
           if market_id = [] then blocked ''MARKET_ID_REQUIRED_FOR_SETTLEMENT_V2''
           else bindr (market_metadata_by_id market_id rs) (\<lambda>gamma. case gamma of
               None \<Rightarrow> blocked ''GAMMA_MARKET_ID_NOT_FOUND''
             | Some g \<Rightarrow> bindr (clob_market_by_condition (rq_condition_id q) rs) (\<lambda>clob. case clob of
                 None \<Rightarrow> blocked ''CLOB_CONDITION_NOT_FOUND''
               | Some c \<Rightarrow> parse_polymarket_official_settlement prm g c q market_id (rsp_now rs))))"

section \<open>Labelling the corpus\<close>

definition safe_error_text :: "py_error \<Rightarrow> string" where
  "safe_error_text e = (let t = py_strip (map (\<lambda>c. if c = char_of (13 :: nat) \<or> c = char_of (10 :: nat) then CHR '' '' else c) (error_text e)) in
     if t = [] then error_class e else t)"

definition label_of :: "official_settlement \<Rightarrow> settlement_label" where
  "label_of s = \<lparr>sl_source = ofs_source s, sl_condition_id = ofs_condition_id s, sl_market_id = Some (ofs_market_id s),
     sl_winning_side = ofs_winner s, sl_resolved_at = ofs_resolved_at s, sl_evidence_hash = ofs_evidence_hash s\<rparr>"

text \<open>Optional values of a stored payload.\<close>

definition opt_text :: "('a \<Rightarrow> string) \<Rightarrow> 'a option \<Rightarrow> string" where
  "opt_text f v = (case v of None \<Rightarrow> ''None'' | Some x \<Rightarrow> f x)"

fun status_value :: "settlement_status \<Rightarrow> string" where
  "status_value SETTLED = ''SETTLED''"
| "status_value SETTLEMENT_PENDING = ''SETTLEMENT_PENDING''"
| "status_value SETTLEMENT_BLOCKED = ''SETTLEMENT_BLOCKED''"
| "status_value VOID = ''VOID''"

definition show_count :: "nat \<Rightarrow> string" where "show_count n = show_int (int n)"

definition label_task_payload :: "settlement_params \<Rightarrow> label_candidate \<Rightarrow> official_settlement \<Rightarrow> payload" where
  "label_task_payload prm c s =
     [(''condition_id'', lc_condition_id c), (''market_id'', opt_text id (lc_market_id c)),
      (''asset'', asset_value (lc_asset c)), (''horizon'', horizon_value (lc_horizon c)),
      (''window_start'', opt_text (sp_iso_text prm) (lc_window_start c)),
      (''window_end'', opt_text (sp_iso_text prm) (lc_window_end c)),
      (''checkpoint_row_count'', show_count (lc_rows c)), (''unlabeled_row_count'', show_count (lc_unlabeled c)),
      (''settlement_source_kind'', ofs_source_kind s), (''source'', ofs_source s), (''status'', status_value (ofs_status s)),
      (''reason'', ofs_reason s), (''winning_side'', opt_text side_text (ofs_winner s)),
      (''official_resolved_at'', opt_text (sp_iso_text prm) (ofs_resolved_at s)),
      (''official_resolution_observed_at'', sp_iso_text prm (ofs_observed_at s)),
      (''evidence_hash'', ofs_evidence_hash s), (''real_order_submission'', ''False'')]"

definition record_label_task :: "paper_repo \<Rightarrow> string \<Rightarrow> string \<Rightarrow> string \<Rightarrow> utc \<Rightarrow> string \<Rightarrow> payload \<Rightarrow>
    paper_repo \<times> label_task result" where
  "record_label_task r cid hash state now reason p =
     save_corpus_label_task r cid hash state now (if state = ''LABELED'' then None else Some (now + seconds 300)) reason
       (p @ [(''labeler'', ''DIRECTIONAL_CHECKPOINT_LABELER'')])"

text \<open>
  What the pass concludes for one candidate: the counters it raises, the error it reports and the task it
  records. An exception of the label that is no \<open>RuntimeError\<close> escapes.
\<close>

datatype label_kind = Label_waiting | Label_blocked string | Label_conflict string | Label_attached outcome_side nat

record label_verdict =
  lv_kind :: label_kind
  lv_hash :: string
  lv_state :: string
  lv_reason :: string
  lv_payload :: payload

definition labeler_evidence :: "settlement_params \<Rightarrow> (string \<times> json) list \<Rightarrow> string" where
  "labeler_evidence prm kvs = evidence_hash prm (JDict (kvs @ [(''labeler'', JStr ''DIRECTIONAL_CHECKPOINT_LABELER'')]))"

definition identity_incomplete :: "settlement_params \<Rightarrow> label_candidate \<Rightarrow> label_verdict" where
  "identity_incomplete prm c = (let reason = ''CORPUS_LABEL_BLOCKED:IDENTITY_INCOMPLETE'' in
     \<lparr>lv_kind = Label_blocked reason,
      lv_hash = labeler_evidence prm [(''condition_id'', JStr (lc_condition_id c)), (''reason'', JStr reason)],
      lv_state = ''BLOCKED_RETRYABLE'', lv_reason = reason,
      lv_payload = [(''condition_id'', lc_condition_id c), (''asset'', asset_value (lc_asset c)),
        (''horizon'', horizon_value (lc_horizon c)), (''market_id'', opt_text id (lc_market_id c)),
        (''window_end'', opt_text (sp_iso_text prm) (lc_window_end c)),
        (''unlabeled_row_count'', show_count (lc_unlabeled c)), (''real_order_submission'', ''False'')]\<rparr>)"

definition window_open :: "settlement_params \<Rightarrow> label_candidate \<Rightarrow> string \<Rightarrow> utc \<Rightarrow> label_verdict" where
  "window_open prm c market_id stop = (let reason = ''WAITING_FOR_RESOLUTION:WINDOW_NOT_ENDED'' in
     \<lparr>lv_kind = Label_waiting,
      lv_hash = labeler_evidence prm [(''condition_id'', JStr (lc_condition_id c)),
        (''window_end'', JStr (sp_iso_text prm stop)), (''reason'', JStr reason)],
      lv_state = ''PENDING'', lv_reason = reason,
      lv_payload = [(''condition_id'', lc_condition_id c), (''market_id'', market_id),
        (''window_end'', sp_iso_text prm stop), (''unlabeled_row_count'', show_count (lc_unlabeled c)),
        (''real_order_submission'', ''False'')]\<rparr>)"

definition resolver_failed :: "settlement_params \<Rightarrow> label_candidate \<Rightarrow> py_error \<Rightarrow> label_verdict" where
  "resolver_failed prm c e = (let reason = ''CORPUS_LABEL_BLOCKED:'' @ error_class e in
     \<lparr>lv_kind = Label_blocked (error_class e),
      lv_hash = labeler_evidence prm [(''condition_id'', JStr (lc_condition_id c)), (''reason'', JStr reason)],
      lv_state = ''BLOCKED_RETRYABLE'', lv_reason = reason,
      lv_payload = [(''error'', safe_error_text e), (''real_order_submission'', ''False'')]\<rparr>)"

definition result_verdict :: "settlement_params \<Rightarrow> label_candidate \<Rightarrow> official_settlement \<Rightarrow> label_kind \<Rightarrow> string \<Rightarrow> string \<Rightarrow>
    payload \<Rightarrow> label_verdict" where
  "result_verdict prm c s kind state reason extra = \<lparr>lv_kind = kind, lv_hash = ofs_evidence_hash s, lv_state = state,
     lv_reason = reason, lv_payload = label_task_payload prm c s @ extra\<rparr>"

definition attach_label :: "settlement_params \<Rightarrow> corpus_repo \<Rightarrow> official_settlement \<Rightarrow> utc \<Rightarrow> utc \<Rightarrow> corpus_repo \<times> nat result" where
  "attach_label prm corpus s resolved now =
     (case corpus_outcome_payload (sp_iso_text prm) (label_of s) now of
        Inl e \<Rightarrow> (corpus, Inl e)
      | Inr outcome \<Rightarrow> attach_outcome_to_condition corpus (ofs_condition_id s) outcome resolved now)"

definition label_result :: "settlement_params \<Rightarrow> corpus_repo \<Rightarrow> utc \<Rightarrow> label_candidate \<Rightarrow> official_settlement \<Rightarrow>
    corpus_repo \<times> label_verdict result" where
  "label_result prm corpus now c s =
     (let blocked = (\<lambda>err reason. (corpus, Inr (result_verdict prm c s (Label_blocked err) ''BLOCKED_RETRYABLE'' reason []))) in
      if ofs_status s = SETTLEMENT_PENDING
      then (corpus, Inr (result_verdict prm c s Label_waiting ''PENDING'' (ofs_reason s) []))
      else case (ofs_status s = VOID, ofs_winner s) of
          (False, Some w) \<Rightarrow> (case ofs_resolved_at s of
              None \<Rightarrow> (let reason = ''CORPUS_LABEL_BLOCKED:RESOLUTION_TIME_UNAVAILABLE'' in blocked reason reason)
            | Some resolved \<Rightarrow> (case attach_label prm corpus s resolved now of
                (corpus', Inr n) \<Rightarrow> (corpus', Inr (result_verdict prm c s (Label_attached w n) ''LABELED''
                   ''CORPUS_LABEL_ATTACHED'' [(''rows_attached'', show_count n)]))
              | (corpus', Inl e) \<Rightarrow>
                  if \<not> is_runtime_error e then (corpus', Inl e)
                  else let conflict = sublist ''conflicting official outcome'' (error_text e);
                      reason = (if conflict then ''OFFICIAL_LABEL_CONFLICT'' else ''CORPUS_LABEL_BLOCKED:'' @ error_class e) in
                    (corpus', Inr (result_verdict prm c s (if conflict then Label_conflict reason else Label_blocked reason)
                       ''BLOCKED_RETRYABLE'' reason [(''error'', safe_error_text e)]))))
        | _ \<Rightarrow> blocked (ofs_reason s) (''CORPUS_LABEL_BLOCKED:'' @ ofs_reason s))"

definition label_candidate_verdict :: "settlement_params \<Rightarrow> corpus_repo \<Rightarrow> utc \<Rightarrow> responses \<Rightarrow> label_candidate \<Rightarrow>
    corpus_repo \<times> label_verdict result" where
  "label_candidate_verdict prm corpus now rs c =
     (case (lc_window_end c, lc_market_id c) of
        (Some stop, Some market_id) \<Rightarrow>
          if now < stop then (corpus, Inr (window_open prm c market_id stop))
          else (case resolve_settlement prm \<lparr>rq_condition_id = lc_condition_id c, rq_asset = lc_asset c, rq_horizon = lc_horizon c\<rparr>
                (Some market_id) rs of
              Inl e \<Rightarrow> (corpus, Inr (resolver_failed prm c e))
            | Inr s \<Rightarrow> label_result prm corpus now c s)
      | _ \<Rightarrow> (corpus, Inr (identity_incomplete prm c)))"

record label_report =
  lrp_attempted :: nat
  lrp_resolved :: nat
  lrp_waiting :: nat
  lrp_blocked :: nat
  lrp_rows :: nat
  lrp_up :: nat
  lrp_down :: nat
  lrp_conflicts :: nat
  lrp_scan_at :: utc
  lrp_success_at :: "utc option"
  lrp_errors :: "string list"

definition empty_label_report :: "utc \<Rightarrow> label_report" where
  "empty_label_report now = \<lparr>lrp_attempted = 0, lrp_resolved = 0, lrp_waiting = 0, lrp_blocked = 0, lrp_rows = 0,
     lrp_up = 0, lrp_down = 0, lrp_conflicts = 0, lrp_scan_at = now, lrp_success_at = None, lrp_errors = []\<rparr>"

definition last_error :: "string list \<Rightarrow> string option" where
  "last_error es = (if es = [] then None else Some (last es))"

fun count_label :: "utc \<Rightarrow> string \<Rightarrow> label_kind \<Rightarrow> label_report \<Rightarrow> label_report" where
  "count_label now cid Label_waiting p = p\<lparr>lrp_attempted := lrp_attempted p + 1, lrp_waiting := lrp_waiting p + 1\<rparr>"
| "count_label now cid (Label_blocked e) p = p\<lparr>lrp_attempted := lrp_attempted p + 1, lrp_blocked := lrp_blocked p + 1,
     lrp_errors := lrp_errors p @ [cid @ '':'' @ e]\<rparr>"
| "count_label now cid (Label_conflict e) p = p\<lparr>lrp_attempted := lrp_attempted p + 1, lrp_blocked := lrp_blocked p + 1,
     lrp_conflicts := lrp_conflicts p + 1, lrp_errors := lrp_errors p @ [cid @ '':'' @ e]\<rparr>"
| "count_label now cid (Label_attached side n) p = p\<lparr>lrp_attempted := lrp_attempted p + 1, lrp_resolved := lrp_resolved p + 1,
     lrp_rows := lrp_rows p + n, lrp_up := lrp_up p + (if side = UP then 1 else 0),
     lrp_down := lrp_down p + (if side = UP then 0 else 1), lrp_success_at := Some now\<rparr>"

fun label_pass :: "settlement_params \<Rightarrow> utc \<Rightarrow> (label_candidate \<Rightarrow> responses) \<Rightarrow> label_candidate list \<Rightarrow>
    paper_repo \<Rightarrow> corpus_repo \<Rightarrow> label_report \<Rightarrow> (paper_repo \<times> corpus_repo) \<times> label_report result" where
  "label_pass prm now env [] paper corpus p = ((paper, corpus), Inr p)"
| "label_pass prm now env (c # cs) paper corpus p =
     (case label_candidate_verdict prm corpus now (env c) c of
        (corpus', Inl e) \<Rightarrow> ((paper, corpus'), Inl e)
      | (corpus', Inr v) \<Rightarrow>
          (case record_label_task paper (lc_condition_id c) (lv_hash v) (lv_state v) now (lv_reason v) (lv_payload v) of
             (paper', Inl e) \<Rightarrow> ((paper', corpus'), Inl e)
           | (paper', Inr _) \<Rightarrow> label_pass prm now env cs paper' corpus' (count_label now (lc_condition_id c) (lv_kind v) p)))"

definition labeler_run_once :: "settlement_params \<Rightarrow> int \<Rightarrow> utc \<Rightarrow> (label_candidate \<Rightarrow> responses) \<Rightarrow>
    paper_repo \<Rightarrow> corpus_repo \<Rightarrow> (paper_repo \<times> corpus_repo) \<times> label_report result" where
  "labeler_run_once prm max_conditions now env paper corpus =
     (let parse_iso = (\<lambda>s. map_option fst (vt_iso (sp_vendor prm) s)) in
      case pending_label_candidates parse_iso corpus max_conditions of
        Inl e \<Rightarrow> ((paper, corpus), Inl e)
      | Inr cs \<Rightarrow> label_pass prm now env cs paper corpus (empty_label_report now))"

section \<open>The identity of a trade's market\<close>

record settlement_service =
  ss_corpus :: bool
  ss_max_conditions :: int
  ss_max_trades :: int
  ss_max_labels :: int

text \<open>\<open>ss_corpus\<close>: whether the service has a corpus repository.\<close>

definition mk_settlement_service :: "bool \<Rightarrow> int \<Rightarrow> int option \<Rightarrow> int \<Rightarrow> int \<Rightarrow> settlement_service result" where
  "mk_settlement_service has_corpus max_trades_per_pass max_conditions max_trades max_labels =
     (let conditions = (case max_conditions of None \<Rightarrow> max_trades_per_pass | Some n \<Rightarrow> n) in
      checked [fail_if (conditions < 1) (ValueErr ''max_conditions_per_pass must be positive''),
          fail_if (max_trades < 1) (ValueErr ''max_trades_per_condition must be positive''),
          fail_if (max_labels < 1) (ValueErr ''max_corpus_label_conditions_per_pass must be positive'')]
        (Inr \<lparr>ss_corpus = has_corpus, ss_max_conditions = conditions, ss_max_trades = max_trades, ss_max_labels = max_labels\<rparr>))"

record trade_identity =
  ti_market_id :: "string option"
  ti_window_start :: "utc option"
  ti_window_end :: "utc option"
  ti_source :: string

datatype effective_identity = Recovered trade_identity | Identity_blocked string

definition incomplete_identity :: string where
  "incomplete_identity = ''SETTLEMENT_BLOCKED:LEGACY_MARKET_IDENTITY_INCOMPLETE''"

definition parse_asset :: "string \<Rightarrow> asset result" where
  "parse_asset s = (case find (\<lambda>a. asset_value a = s) Enum.enum of
     Some a \<Rightarrow> Inr a | None \<Rightarrow> Inl (ValueErr ''not a valid Asset''))"

definition parse_horizon :: "string \<Rightarrow> horizon result" where
  "parse_horizon s = (case find (\<lambda>h. horizon_value h = s) Enum.enum of
     Some h \<Rightarrow> Inr h | None \<Rightarrow> Inl (ValueErr ''not a valid Horizon''))"

definition payload_text :: "json option \<Rightarrow> string result" where
  "payload_text v = (case v of Some (JStr s) \<Rightarrow> if s = [] then Inl (ValueErr ''payload value was not text'') else Inr s
     | _ \<Rightarrow> Inl (ValueErr ''payload value was not text''))"

definition datetime_from_payload :: "vendor_text \<Rightarrow> json option \<Rightarrow> utc result" where
  "datetime_from_payload vt v = (case v of
     Some (JStr s) \<Rightarrow> if s = [] then Inl (ValueErr ''payload value was not datetime text'')
       else (case vt_iso vt s of None \<Rightarrow> Inl (ValueErr ''Invalid isoformat string'') | Some (t, _) \<Rightarrow> Inr t)
   | _ \<Rightarrow> Inl (ValueErr ''payload value was not datetime text''))"

text \<open>\<open>total_seconds()\<close> divides the microseconds; every supported asset is one of the four.\<close>

definition validate_identity :: "string \<Rightarrow> horizon \<Rightarrow> string \<Rightarrow> utc \<Rightarrow> utc \<Rightarrow> check list" where
  "validate_identity cid h market_id start stop =
     [require_text ''condition_id'' cid, require_text ''market_id'' market_id,
      fail_if (stop \<le> start) (ValueErr ''window_end must be after window_start''),
      fail_if (int_timestamp (stop - start) \<noteq> duration_seconds h) (ValueErr ''window duration does not match horizon''),
      fail_if (int_timestamp start mod duration_seconds h \<noteq> 0) (ValueErr ''window start is not canonical'')]"

definition save_recovered_identity :: "settlement_params \<Rightarrow> paper_repo \<Rightarrow> paper_trade \<Rightarrow> string \<Rightarrow> utc \<Rightarrow> utc \<Rightarrow> payload \<Rightarrow>
    string \<Rightarrow> string \<Rightarrow> utc \<Rightarrow> utc \<Rightarrow> json \<Rightarrow> paper_repo \<times> effective_identity result" where
  "save_recovered_identity prm r t market_id start stop tokens source_kind source retrieved verified evidence =
     (case save_identity_overlay_once r \<lparr>ido_condition_id = ptr_condition_id t, ido_status = ''RECOVERED'',
         ido_market_id = Some market_id, ido_asset = ptr_asset t, ido_horizon = ptr_horizon t,
         ido_window_start = Some start, ido_window_end = Some stop, ido_outcome_tokens = tokens,
         ido_source_kind = source_kind, ido_source = source, ido_retrieved_at = retrieved, ido_verified_at = verified,
         ido_evidence_hash = evidence_hash prm evidence, ido_blocker = None,
         ido_payload = [(''evidence'', sp_show prm evidence), (''real_order_submission'', ''False'')]\<rparr> of
        (r', Inl e) \<Rightarrow> (r', Inl e)
      | (r', Inr v) \<Rightarrow> (r', Inr (Recovered \<lparr>ti_market_id = ido_market_id v, ti_window_start = ido_window_start v,
          ti_window_end = ido_window_end v, ti_source = ido_source v\<rparr>)))"

text \<open>The fields of a corpus row that identify the market of the trade, if they are valid.\<close>

definition row_identity :: "settlement_params \<Rightarrow> paper_trade \<Rightarrow> corpus_row \<Rightarrow> (string \<times> utc \<times> utc) result" where
  "row_identity prm t w =
     bindr (payload_text (json_get (lr_payload w) ''market_id'')) (\<lambda>m.
     bindr (datetime_from_payload (sp_vendor prm) (json_get (lr_payload w) ''window_start'')) (\<lambda>start.
     bindr (datetime_from_payload (sp_vendor prm) (json_get (lr_payload w) ''window_end'')) (\<lambda>stop.
     bindr (parse_asset (ptr_asset t)) (\<lambda>_. bindr (parse_horizon (ptr_horizon t)) (\<lambda>h.
     checked (validate_identity (ptr_condition_id t) h m start stop) (Inr (m, start, stop)))))))"

fun recover_from_rows :: "settlement_params \<Rightarrow> paper_repo \<Rightarrow> paper_trade \<Rightarrow> utc \<Rightarrow> (string \<times> corpus_row) list \<Rightarrow>
    paper_repo \<times> effective_identity option result" where
  "recover_from_rows prm r t now [] = (r, Inr None)"
| "recover_from_rows prm r t now ((record_id, w) # rows) = (case row_identity prm t w of
     Inl _ \<Rightarrow> recover_from_rows prm r t now rows
   | Inr (m, start, stop) \<Rightarrow>
       (case save_recovered_identity prm r t m start stop [] ''LOCAL_CORPUS'' (''directional_corpus:'' @ record_id)
           (lr_observed_at w) now (JDict [(''record_id'', JStr record_id), (''market_id'', JStr m)]) of
          (r', Inl e) \<Rightarrow> (r', Inl e) | (r', Inr i) \<Rightarrow> (r', Inr (Some i))))"

definition recover_from_corpus :: "settlement_params \<Rightarrow> settlement_service \<Rightarrow> corpus_repo \<Rightarrow> paper_repo \<Rightarrow> paper_trade \<Rightarrow> utc \<Rightarrow>
    paper_repo \<times> effective_identity option result" where
  "recover_from_corpus prm svc corpus r t now =
     (if \<not> ss_corpus svc then (r, Inr None)
      else case records_for_condition corpus (ptr_condition_id t) of
          Inl e \<Rightarrow> (r, Inl e) | Inr rows \<Rightarrow> recover_from_rows prm r t now rows)"

definition metadata_market :: "settlement_params \<Rightarrow> paper_trade \<Rightarrow> json \<Rightarrow> market result" where
  "metadata_market prm t raw = bindr (parse_asset (ptr_asset t)) (\<lambda>a. bindr (parse_horizon (ptr_horizon t)) (\<lambda>h.
     parse_gamma_market (sp_vendor prm) raw a h))"

text \<open>The parser raises no class other than the ones the handler names.\<close>

definition recover_from_metadata :: "settlement_params \<Rightarrow> paper_repo \<Rightarrow> paper_trade \<Rightarrow> utc \<Rightarrow> responses \<Rightarrow>
    paper_repo \<times> effective_identity option result" where
  "recover_from_metadata prm r t now rs = (case market_metadata (ptr_condition_id t) rs of
     Inl e \<Rightarrow> (r, Inl e)
   | Inr None \<Rightarrow> (r, Inr None)
   | Inr (Some raw) \<Rightarrow> (case metadata_market prm t raw of
       Inl e \<Rightarrow>
         if error_class e \<notin> {''MarketDataSchemaError'', ''ValueError'', ''TypeError''} then (r, Inl e)
         else (case save_identity_overlay_once r \<lparr>ido_condition_id = ptr_condition_id t, ido_status = ''BLOCKED'',
             ido_market_id = None, ido_asset = ptr_asset t, ido_horizon = ptr_horizon t, ido_window_start = None,
             ido_window_end = None, ido_outcome_tokens = [], ido_source_kind = ''POLYMARKET_OFFICIAL_METADATA'',
             ido_source = ''GAMMA_MARKETS_BY_CONDITION'', ido_retrieved_at = now, ido_verified_at = now,
             ido_evidence_hash = evidence_hash prm (JDict [(''condition_id'', JStr (ptr_condition_id t)),
               (''reason'', JStr (error_class e))]),
             ido_blocker = Some (''SETTLEMENT_BLOCKED:'' @ error_class e),
             ido_payload = [(''reason'', safe_error_text e)]\<rparr> of
            (r', Inl e') \<Rightarrow> (r', Inl e') | (r', Inr _) \<Rightarrow> (r', Inr None))
     | Inr m \<Rightarrow>
         if mkt_condition_id m \<noteq> ptr_condition_id t then (r, Inr None)
         else (case save_recovered_identity prm r t (mkt_id m) (mkt_window_start m) (mkt_window_end m)
             (map (\<lambda>k. (side_text (tok_outcome k), tok_id k)) (mkt_tokens m)) ''POLYMARKET_OFFICIAL_METADATA''
             ''GAMMA_MARKETS_BY_CONDITION'' now now (sanitized_evidence raw) of
            (r', Inl e) \<Rightarrow> (r', Inl e) | (r', Inr i) \<Rightarrow> (r', Inr (Some i)))))"

definition trade_market_id :: "paper_trade \<Rightarrow> string" where
  "trade_market_id t = (case map_of (tp_other (ptr_payload t)) ''market_id'' of None \<Rightarrow> [] | Some m \<Rightarrow> m)"

definition effective_identity_of :: "settlement_params \<Rightarrow> settlement_service \<Rightarrow> corpus_repo \<Rightarrow> paper_repo \<Rightarrow> paper_trade \<Rightarrow>
    utc \<Rightarrow> responses \<Rightarrow> paper_repo \<times> effective_identity result" where
  "effective_identity_of prm svc corpus r t now rs =
     (let p = ptr_payload t;
          fallback = (case recover_from_corpus prm svc corpus r t now of
              (r1, Inl e) \<Rightarrow> (r1, Inl e)
            | (r1, Inr (Some i)) \<Rightarrow> (r1, Inr i)
            | (r1, Inr None) \<Rightarrow> (case recover_from_metadata prm r1 t now rs of
                (r2, Inl e) \<Rightarrow> (r2, Inl e)
              | (r2, Inr (Some i)) \<Rightarrow> (r2, Inr i)
              | (r2, Inr None) \<Rightarrow> (r2, Inr (Identity_blocked incomplete_identity))));
          own = (if trade_market_id t \<noteq> [] \<and> tp_window_start p \<noteq> None \<and> tp_window_end p \<noteq> None
            then (r, Inr (Recovered \<lparr>ti_market_id = Some (trade_market_id t), ti_window_start = tp_window_start p,
                ti_window_end = tp_window_end p, ti_source = ''PAPER_TRADE_SNAPSHOT''\<rparr>))
            else fallback) in
      case identity_overlay_of r (ptr_condition_id t) of
        Inl e \<Rightarrow> (r, Inl e)
      | Inr None \<Rightarrow> own
      | Inr (Some v) \<Rightarrow>
          if ido_status v = ''RECOVERED'' then (r, Inr (Recovered \<lparr>ti_market_id = ido_market_id v,
            ti_window_start = ido_window_start v, ti_window_end = ido_window_end v, ti_source = ido_source v\<rparr>))
          else if ido_status v = ''BLOCKED'' then (r, Inr (Identity_blocked
            (case ido_blocker v of Some b \<Rightarrow> if b = [] then incomplete_identity else b | None \<Rightarrow> incomplete_identity)))
          else own)"

section \<open>Settling the trades of a condition\<close>

definition attempt_state_for_reason :: "string \<Rightarrow> string" where
  "attempt_state_for_reason reason =
     (if prefix ''SETTLEMENT_PENDING'' reason \<or> reason = ''MARKET_NOT_FINAL'' then ''PENDING''
      else if \<exists>m\<in>set [''LEGACY_MARKET_IDENTITY_INCOMPLETE'', ''CONDITION_ID_MISMATCH'', ''MARKET_ID_MISMATCH'',
          ''official'', ''conflicting'']. sublist m reason then ''BLOCKED_PERMANENT''
      else ''BLOCKED_RETRYABLE'')"

definition next_attempt_at :: "string \<Rightarrow> utc \<Rightarrow> utc option" where
  "next_attempt_at state now = (if state = ''PENDING'' then Some (now + seconds 600)
     else if state = ''BLOCKED_RETRYABLE'' then Some (now + seconds 300) else None)"

definition record_attempt :: "paper_repo \<Rightarrow> string \<Rightarrow> string \<Rightarrow> utc \<Rightarrow> string \<Rightarrow> nat \<Rightarrow> string option \<Rightarrow> utc option \<Rightarrow>
    paper_repo \<times> settlement_attempt result" where
  "record_attempt r cid state now reason n error success =
     save_settlement_condition_attempt r cid state now (next_attempt_at state now) reason error success
       [(''condition_id'', cid), (''state'', state), (''reason'', reason), (''matching_trade_count'', show_count n),
        (''resolver_version'', ''POLYMARKET_SETTLEMENT_V2''), (''real_order_submission'', ''False'')]"

definition decimal_from_payload :: "settlement_params \<Rightarrow> paper_trade \<Rightarrow> pydec result" where
  "decimal_from_payload prm t = (case map_of (tp_other (ptr_payload t)) ''shares'' of
     None \<Rightarrow> Inl (RuntimeErr ''SETTLEMENT_BLOCKED:SHARES_UNAVAILABLE'')
   | Some s \<Rightarrow> (case vt_decimal (sp_vendor prm) s of None \<Rightarrow> Inl InvalidOperation | Some d \<Rightarrow> Inr d))"

definition cost_basis :: "paper_trade \<Rightarrow> dec result" where
  "cost_basis t = (case tp_cost_basis (ptr_payload t) of
     Some c \<Rightarrow> Inr c
   | None \<Rightarrow> (case tp_stake (ptr_payload t) of
       Some c \<Rightarrow> Inr c | None \<Rightarrow> Inl (RuntimeErr ''SETTLEMENT_BLOCKED:COST_BASIS_UNAVAILABLE'')))"

definition settlement_row :: "settlement_params \<Rightarrow> paper_trade \<Rightarrow> official_settlement \<Rightarrow> outcome_side \<Rightarrow> utc \<Rightarrow> dec \<Rightarrow> dec \<Rightarrow>
    paper_settlement" where
  "settlement_row prm t s w settled_at shares cost =
     (let win_loss = (if ptr_side t = side_text w then ''WIN'' else ''LOSS'');
          payout = (if win_loss = ''WIN'' then shares else 0) in
      \<lparr>pst_id = ''settlement:'' @ ptr_id t @ '':'' @ ofs_evidence_hash s, pst_trade_id = ptr_id t,
       pst_condition_id = ptr_condition_id t, pst_winning_side = side_text w, pst_selected_side = ptr_side t,
       pst_source_kind = ofs_source_kind s, pst_source = ofs_source s, pst_resolved_at = ofs_resolved_at s,
       pst_observed_at = ofs_observed_at s, pst_settled_at = settled_at, pst_filled_shares = shares,
       pst_cost_basis = cost, pst_payout = payout, pst_pnl = dsub payout cost, pst_win_loss = win_loss,
       pst_evidence_hash = ofs_evidence_hash s,
       pst_payload = [(''trade_id'', ptr_id t), (''condition_id'', ptr_condition_id t),
         (''official_winning_side'', side_text w), (''selected_side'', ptr_side t), (''win_loss'', win_loss),
         (''evidence_hash'', ofs_evidence_hash s), (''official_resolved_at'', opt_text (sp_iso_text prm) (ofs_resolved_at s)),
         (''official_resolution_observed_at'', sp_iso_text prm (ofs_observed_at s)), (''real_order_submission'', ''False'')]\<rparr>)"

text \<open>A quantity that is no finite number passes the text checks of the repository and then fails its own.\<close>

definition settle_trade :: "settlement_params \<Rightarrow> paper_repo \<Rightarrow> paper_trade \<Rightarrow> official_settlement \<Rightarrow> utc \<Rightarrow>
    paper_repo \<times> unit result" where
  "settle_trade prm r t s settled_at =
     (case ofs_winner s of
        None \<Rightarrow> (r, Inl (RuntimeErr ''settled result requires winning side''))
      | Some w \<Rightarrow> (case bindr (decimal_from_payload prm t) (\<lambda>d. bindr (cost_basis t) (\<lambda>c. Inr (d, c))) of
          Inl e \<Rightarrow> (r, Inl e)
        | Inr (Fin shares, cost) \<Rightarrow> (case save_settlement_once r (settlement_row prm t s w settled_at shares cost) of
            (r', x) \<Rightarrow> (r', bindr x (\<lambda>_. Inr ())))
        | Inr (_, cost) \<Rightarrow> (r, Inl (case first_error (take 9 (trade_settlement_checks (settlement_row prm t s w settled_at 0 cost))) of
              Some e \<Rightarrow> e | None \<Rightarrow> ValueErr ''filled_shares must be finite''))))"

text \<open>The trades of a condition in order: the count of those settled before an exception.\<close>

fun settle_trades :: "settlement_params \<Rightarrow> official_settlement \<Rightarrow> utc \<Rightarrow> paper_trade list \<Rightarrow> paper_repo \<Rightarrow>
    paper_repo \<times> nat \<times> py_error option" where
  "settle_trades prm s now [] r = (r, 0, None)"
| "settle_trades prm s now (t # ts) r = (case settle_trade prm r t s now of
     (r', Inl e) \<Rightarrow> (r', 0, Some e)
   | (r', Inr _) \<Rightarrow> (case settle_trades prm s now ts r' of (r'', n, e) \<Rightarrow> (r'', n + 1, e)))"

text \<open>\<open>_label_corpus\<close>: every exception of the label or of its task is recorded as a blocked task.\<close>

definition label_corpus :: "settlement_params \<Rightarrow> bool \<Rightarrow> paper_repo \<Rightarrow> corpus_repo \<Rightarrow> official_settlement \<Rightarrow> utc \<Rightarrow>
    (paper_repo \<times> corpus_repo) \<times> unit result" where
  "label_corpus prm has_corpus r corpus s now =
     (let task = (\<lambda>r state next reason p. save_corpus_label_task r (ofs_condition_id s) (ofs_evidence_hash s) state now next reason p);
          done = (\<lambda>corpus (r, x). ((r, corpus), bindr x (\<lambda>_. Inr ()))) in
      case ofs_winner s of
        None \<Rightarrow> ((r, corpus), Inr ())
      | Some w \<Rightarrow> (case ofs_resolved_at s of
          None \<Rightarrow> done corpus (task r ''BLOCKED_RETRYABLE'' (Some (now + seconds 300))
            ''CORPUS_LABEL_BLOCKED:RESOLUTION_TIME_UNAVAILABLE''
            [(''condition_id'', ofs_condition_id s), (''market_id'', ofs_market_id s), (''winning_side'', side_text w),
             (''settlement_source_kind'', ofs_source_kind s), (''source'', ofs_source s),
             (''official_resolution_observed_at'', sp_iso_text prm (ofs_observed_at s)), (''real_order_submission'', ''False'')])
        | Some resolved \<Rightarrow>
            if \<not> has_corpus then ((r, corpus), Inr ())
            else let (corpus1, attached) = attach_label prm corpus s resolved now;
                (r1, saved) = (case attached of Inl e \<Rightarrow> (r, Inl e)
                  | Inr _ \<Rightarrow> task r ''LABELED'' None ''CORPUS_LABEL_ATTACHED''
                      [(''condition_id'', ofs_condition_id s), (''real_order_submission'', ''False'')]) in
              (case saved of
                 Inr _ \<Rightarrow> ((r1, corpus1), Inr ())
               | Inl e \<Rightarrow> done corpus1 (task r1 ''BLOCKED_RETRYABLE'' (Some (now + seconds 300))
                   (''CORPUS_LABEL_BLOCKED:'' @ error_class e)
                   [(''error'', safe_error_text e), (''real_order_submission'', ''False'')]))))"

record settlement_report =
  srp_checked :: nat
  srp_pending :: nat
  srp_completed :: nat
  srp_blocked :: nat
  srp_recovered :: nat
  srp_identity_blocked :: nat
  srp_attempted :: "string list"
  srp_errors :: "string list"

definition empty_settlement_report :: settlement_report where
  "empty_settlement_report = \<lparr>srp_checked = 0, srp_pending = 0, srp_completed = 0, srp_blocked = 0, srp_recovered = 0,
     srp_identity_blocked = 0, srp_attempted = [], srp_errors = []\<rparr>"

text \<open>
  The body of the \<open>try\<close> for a condition whose market is identified and whose window has ended: the
  counters \<open>(pending, completed, blocked)\<close> it adds, the error it reports, and the exception if any.
\<close>

definition settle_resolved :: "settlement_params \<Rightarrow> bool \<Rightarrow> utc \<Rightarrow> paper_trade list \<Rightarrow> string \<Rightarrow> official_settlement \<Rightarrow>
    paper_repo \<Rightarrow> corpus_repo \<Rightarrow> (paper_repo \<times> corpus_repo) \<times> (nat \<times> nat \<times> nat) \<times> string option \<times> py_error option" where
  "settle_resolved prm has_corpus now ts cid s r corpus =
     (let n = length ts; failed = (\<lambda>x. case x of Inl e \<Rightarrow> Some e | Inr _ \<Rightarrow> None) in
      if ofs_status s = SETTLEMENT_PENDING then
        (case record_attempt r cid ''PENDING'' now (ofs_reason s) n None None of
           (r', x) \<Rightarrow> ((r', corpus), (n, 0, 0), None, failed x))
      else if ofs_status s = SETTLEMENT_BLOCKED then
        (case record_attempt r cid (attempt_state_for_reason (ofs_reason s)) now (ofs_reason s) n None None of
           (r', x) \<Rightarrow> ((r', corpus), (0, 0, n), Some (cid @ '':'' @ ofs_reason s), failed x))
      else (case settle_trades prm s now ts r of
          (r1, k, Some e) \<Rightarrow> ((r1, corpus), (0, k, 0), None, Some e)
        | (r1, k, None) \<Rightarrow> (case label_corpus prm has_corpus r1 corpus s now of
            ((r2, corpus2), Inl e) \<Rightarrow> ((r2, corpus2), (0, k, 0), None, Some e)
          | ((r2, corpus2), Inr _) \<Rightarrow> (case record_attempt r2 cid ''SETTLED'' now (ofs_reason s) n None (Some now) of
              (r3, x) \<Rightarrow> ((r3, corpus2), (0, k, 0), None, failed x)))))"

section \<open>The settlement pass\<close>

definition resolve_trade :: "settlement_params \<Rightarrow> paper_trade \<Rightarrow> trade_identity \<Rightarrow> responses \<Rightarrow> official_settlement result" where
  "resolve_trade prm t i rs = bindr (parse_asset (ptr_asset t)) (\<lambda>a. bindr (parse_horizon (ptr_horizon t)) (\<lambda>h.
     resolve_settlement prm \<lparr>rq_condition_id = ptr_condition_id t, rq_asset = a, rq_horizon = h\<rparr>
       (Some (opt_text id (ti_market_id i))) rs))"

definition attempt_body :: "settlement_params \<Rightarrow> bool \<Rightarrow> utc \<Rightarrow> responses \<Rightarrow> paper_trade list \<Rightarrow> string \<Rightarrow> trade_identity \<Rightarrow>
    paper_repo \<Rightarrow> corpus_repo \<Rightarrow> (paper_repo \<times> corpus_repo) \<times> (nat \<times> nat \<times> nat) \<times> string option \<times> py_error option" where
  "attempt_body prm has_corpus now rs ts cid i r corpus = (case resolve_trade prm (hd ts) i rs of
     Inl e \<Rightarrow> ((r, corpus), (0, 0, 0), None, Some e)
   | Inr s \<Rightarrow> settle_resolved prm has_corpus now ts cid s r corpus)"

text \<open>The \<open>except Exception\<close> around the body records the failure; recording it may raise again.\<close>

definition attempt_condition :: "settlement_params \<Rightarrow> bool \<Rightarrow> utc \<Rightarrow> responses \<Rightarrow> paper_trade list \<Rightarrow> string \<Rightarrow> trade_identity \<Rightarrow>
    paper_repo \<Rightarrow> corpus_repo \<Rightarrow> settlement_report \<Rightarrow> (paper_repo \<times> corpus_repo) \<times> settlement_report result" where
  "attempt_condition prm has_corpus now rs ts cid i r corpus p =
     (case attempt_body prm has_corpus now rs ts cid i r corpus of
        ((r', corpus'), (pending, completed, blocked), err, raised) \<Rightarrow>
          (let p' = p\<lparr>srp_pending := srp_pending p + pending, srp_completed := srp_completed p + completed,
               srp_blocked := srp_blocked p + blocked,
               srp_errors := srp_errors p @ (case err of None \<Rightarrow> [] | Some e \<Rightarrow> [e])\<rparr> in
           case raised of
             None \<Rightarrow> ((r', corpus'), Inr p')
           | Some e \<Rightarrow> (case record_attempt r' cid ''BLOCKED_RETRYABLE'' now (''SETTLEMENT_BLOCKED:'' @ error_class e)
                (length ts) (Some (safe_error_text e)) None of
               (r'', x) \<Rightarrow> ((r'', corpus'), bindr x (\<lambda>_. Inr (p'\<lparr>srp_blocked := srp_blocked p' + length ts,
                  srp_errors := srp_errors p' @ [cid @ '':'' @ error_class e]\<rparr>))))))"

definition settle_condition :: "settlement_params \<Rightarrow> settlement_service \<Rightarrow> utc \<Rightarrow> responses \<Rightarrow> paper_trade list \<Rightarrow> string \<Rightarrow>
    paper_repo \<Rightarrow> corpus_repo \<Rightarrow> settlement_report \<Rightarrow> (paper_repo \<times> corpus_repo) \<times> settlement_report result" where
  "settle_condition prm svc now rs ts cid r corpus p =
     (let n = length ts;
          p1 = p\<lparr>srp_attempted := srp_attempted p @ [cid], srp_checked := srp_checked p + n\<rparr> in
      case effective_identity_of prm svc corpus r (hd ts) now rs of
        (r1, Inl e) \<Rightarrow> ((r1, corpus), Inl e)
      | (r1, Inr (Identity_blocked reason)) \<Rightarrow>
          (case record_attempt r1 cid (attempt_state_for_reason reason) now reason n None None of
             (r2, x) \<Rightarrow> ((r2, corpus), bindr x (\<lambda>_. Inr (p1\<lparr>srp_identity_blocked := srp_identity_blocked p1 + 1,
                srp_blocked := srp_blocked p1 + n, srp_errors := srp_errors p1 @ [cid @ '':'' @ reason]\<rparr>))))
      | (r1, Inr (Recovered i)) \<Rightarrow>
          (let p2 = p1\<lparr>srp_recovered := srp_recovered p1 + 1\<rparr> in
           if (case ti_window_end i of None \<Rightarrow> True | Some stop \<Rightarrow> now < stop) then
             (case record_attempt r1 cid ''PENDING'' now ''SETTLEMENT_PENDING:WINDOW_NOT_ENDED'' n None None of
                (r2, x) \<Rightarrow> ((r2, corpus), bindr x (\<lambda>_. Inr (p2\<lparr>srp_pending := srp_pending p2 + n\<rparr>))))
           else attempt_condition prm (ss_corpus svc) now rs ts cid i r1 corpus p2))"

text \<open>\<open>grouped\<close> maps a condition to its candidates, newest first.\<close>

fun settle_conditions :: "settlement_params \<Rightarrow> settlement_service \<Rightarrow> utc \<Rightarrow> (string \<Rightarrow> responses) \<Rightarrow> (string \<Rightarrow> paper_trade list) \<Rightarrow>
    string list \<Rightarrow> paper_repo \<Rightarrow> corpus_repo \<Rightarrow> settlement_report \<Rightarrow> (paper_repo \<times> corpus_repo) \<times> settlement_report result" where
  "settle_conditions prm svc now env grouped [] r corpus p = ((r, corpus), Inr p)"
| "settle_conditions prm svc now env grouped (cid # cids) r corpus p =
     (if ss_max_conditions svc \<le> int (length (srp_attempted p)) then ((r, corpus), Inr p)
      else let ts = take (nat (ss_max_trades svc)) (grouped cid) in
        if ts = [] then settle_conditions prm svc now env grouped cids r corpus p
        else (case settle_condition prm svc now (env cid) ts cid r corpus p of
            (st, Inl e) \<Rightarrow> (st, Inl e)
          | ((r', corpus'), Inr p') \<Rightarrow> settle_conditions prm svc now env grouped cids r' corpus' p'))"

definition settlement_candidates :: "paper_repo \<Rightarrow> utc \<Rightarrow> paper_trade list result" where
  "settlement_candidates r now = bindr (unsettled_trade_snapshots r ''DIRECTIONAL_EDGE'' ''OPEN'' 100000) (\<lambda>ts.
     Inr (filter (\<lambda>t. case tp_window_end (ptr_payload t) of None \<Rightarrow> True | Some stop \<Rightarrow> stop \<le> now) ts))"

record settlement_summary =
  sum_report :: settlement_report
  sum_checked_at :: utc
  sum_queue :: settlement_queue
  sum_labels :: label_report

definition settlement_run_once :: "settlement_params \<Rightarrow> settlement_service \<Rightarrow> utc \<Rightarrow> (string \<Rightarrow> responses) \<Rightarrow> utc \<Rightarrow>
    (label_candidate \<Rightarrow> responses) \<Rightarrow> paper_repo \<Rightarrow> corpus_repo \<Rightarrow> (paper_repo \<times> corpus_repo) \<times> settlement_summary result" where
  "settlement_run_once prm svc now env label_now label_env r corpus =
     (case settlement_candidates r now of
        Inl e \<Rightarrow> ((r, corpus), Inl e)
      | Inr candidates \<Rightarrow>
         (let conditions = fromkeys (map ptr_condition_id candidates);
              grouped = (\<lambda>cid. filter (\<lambda>t. ptr_condition_id t = cid) candidates) in
          case due_settlement_conditions r conditions now of
            Inl e \<Rightarrow> ((r, corpus), Inl e)
          | Inr due \<Rightarrow> (case settle_conditions prm svc now env grouped due r corpus empty_settlement_report of
              (st, Inl e) \<Rightarrow> (st, Inl e)
            | ((r1, corpus1), Inr p) \<Rightarrow>
                (let queue = settlement_queue_summary r1 conditions now;
                     summary = (\<lambda>labels. \<lparr>sum_report = p, sum_checked_at = now, sum_queue = queue, sum_labels = labels\<rparr>) in
                 if ss_corpus svc
                 then (case labeler_run_once prm (ss_max_labels svc) label_now label_env r1 corpus1 of
                     (st, x) \<Rightarrow> (st, bindr x (\<lambda>labels. Inr (summary labels))))
                 else ((r1, corpus1), Inr (summary (empty_label_report now)))))))"

section \<open>An official result is fail-closed\<close>

text \<open>A token that names a side and carries a boolean flag; the official tokens of a market and their winner.\<close>

definition token_flag :: "json \<Rightarrow> (outcome_side \<times> bool) option" where
  "token_flag item = (if \<not> is_object item then None
     else case (json_get item ''outcome'', json_get item ''winner'') of
         (Some (JStr name), Some (JBool b)) \<Rightarrow> map_option (\<lambda>side. (side, b)) (outcome_alias name)
       | _ \<Rightarrow> None)"

definition official_tokens :: "json \<Rightarrow> outcome_side \<Rightarrow> bool" where
  "official_tokens clob w \<longleftrightarrow> (\<exists>x y l. token_flag x = Some (w, True) \<and> token_flag y = Some (l, False) \<and> w \<noteq> l
     \<and> (json_get clob ''tokens'' = Some (JList [x, y]) \<or> json_get clob ''tokens'' = Some (JList [y, x])))"

lemma clob_winner_Cons:
  "fst (clob_winner (item # items) seen winners) = Some w \<longleftrightarrow> (\<exists>side b. token_flag item = Some (side, b) \<and> side \<notin> set seen
     \<and> fst (clob_winner items (seen @ [side]) (if b then winners @ [side] else winners)) = Some w)"
  by (auto simp: token_flag_def split: option.splits json.splits)

lemma clob_winner_Nil: "fst (clob_winner [] seen winners) = Some w \<longleftrightarrow> set seen = {UP, DOWN} \<and> winners = [w]"
  by (auto split: list.splits)

lemma two_sides: "{s, s'} = {UP, DOWN} \<longleftrightarrow> s \<noteq> s'" "s \<noteq> s' \<Longrightarrow> side \<in> {s, s'}" for s s' side :: outcome_side
  by (cases s; cases s'; cases side; auto)+

lemma clob_winner_step:
  assumes "fst (clob_winner (x # xs) seen ws) = Some w"
  shows "\<exists>side ws'. side \<notin> set seen \<and> fst (clob_winner xs (seen @ [side]) ws') = Some w"
  using assms unfolding clob_winner_Cons by blast

lemma clob_winner_many: "fst (clob_winner (a # b # c # rest) [] []) \<noteq> Some w"
proof
  assume "fst (clob_winner (a # b # c # rest) [] []) = Some w"
  then obtain s ws where "fst (clob_winner (b # c # rest) [s] ws) = Some w" using clob_winner_step by fastforce
  then obtain s' ws' where s': "s' \<noteq> s" "fst (clob_winner (c # rest) [s, s'] ws') = Some w" using clob_winner_step by fastforce
  then obtain side where "side \<noteq> s" "side \<noteq> s'" using clob_winner_step by fastforce
  then show False using two_sides(2) [of s s' side] s'(1) by simp
qed

lemma winner_from_clob_iff: "fst (winner_from_clob_tokens clob) = Some w \<longleftrightarrow> official_tokens clob w"
proof -
  have one: "fst (clob_winner [a] [] []) \<noteq> Some w" "fst (clob_winner [] [] []) \<noteq> Some w" for a
    by (auto simp: clob_winner_Cons clob_winner_Nil simp del: clob_winner.simps)
  have pair: "fst (clob_winner [a, b] [] []) = Some w \<longleftrightarrow> (\<exists>l. l \<noteq> w \<and> (token_flag a = Some (w, True) \<and> token_flag b = Some (l, False)
      \<or> token_flag b = Some (w, True) \<and> token_flag a = Some (l, False)))" for a b
  proof (cases "\<exists>s p s' p'. token_flag a = Some (s, p) \<and> token_flag b = Some (s', p')")
    case True
    then obtain s p s' p' where "token_flag a = Some (s, p)" "token_flag b = Some (s', p')" by blast
    then show ?thesis
      by (cases p; cases p') (auto simp: clob_winner_Cons clob_winner_Nil two_sides(1) simp del: clob_winner.simps)
  next
    case False
    then have "token_flag a = None \<or> token_flag b = None" by (metis option.exhaust surj_pair)
    then show ?thesis by (elim disjE) (simp_all add: clob_winner_Cons del: clob_winner.simps)
  qed
  have "fst (clob_winner items [] []) = Some w \<longleftrightarrow> (\<exists>x y l. token_flag x = Some (w, True) \<and> token_flag y = Some (l, False)
      \<and> w \<noteq> l \<and> (items = [x, y] \<or> items = [y, x]))" for items
  proof -
    consider "items = []" | a where "items = [a]" | a b where "items = [a, b]" | a b c rest where "items = a # b # c # rest"
      by (metis list.exhaust)
    then show ?thesis
    proof cases
      case 1
      then show ?thesis using one(2) by simp
    next
      case 2
      then show ?thesis using one(1) by simp
    next
      case 3
      then show ?thesis using pair by (auto simp del: clob_winner.simps)
    next
      case 4
      then show ?thesis using clob_winner_many by simp
    qed
  qed
  then show ?thesis by (simp add: winner_from_clob_tokens_def official_tokens_def split: option.splits json.splits)
qed

lemma blocked_result_fields [simp]: "ofs_status (blocked_result prm q reason t ev) = SETTLEMENT_BLOCKED"
    "ofs_winner (blocked_result prm q reason t ev) = None" "ofs_condition_id (blocked_result prm q reason t ev) = rq_condition_id q"
    "ofs_asset (blocked_result prm q reason t ev) = rq_asset q" "ofs_horizon (blocked_result prm q reason t ev) = rq_horizon q"
    "ofs_observed_at (blocked_result prm q reason t ev) = t"
  by (simp_all add: blocked_result_def Let_def)

text \<open>What the two documents must say for a market to be settled.\<close>

definition documents_final :: "settlement_params \<Rightarrow> json \<Rightarrow> json \<Rightarrow> string \<Rightarrow> string \<Rightarrow> bool" where
  "documents_final prm gamma clob cid market_id \<longleftrightarrow> is_object gamma \<and> is_object clob
     \<and> get_str (sp_show prm) gamma ''id'' [] = market_id \<and> get_str (sp_show prm) gamma ''conditionId'' [] = cid
     \<and> clob_condition prm clob = cid \<and> flag gamma ''closed'' \<and> flag clob ''closed''"

text \<open>
  C18: whatever the two documents contain, the result of a market is final exactly when both name the
  requested market and condition, both are closed, and the CLOB document has exactly one UP and one DOWN
  token with boolean flags, one of them the winner; the winner of the result is that token's side, every
  other result has no winner, and the identity of the request is never changed.
\<close>

theorem official_settlement_is_fail_closed:
  assumes "parse_polymarket_official_settlement prm gamma clob q market_id t = Inr s"
  shows "(ofs_status s = SETTLED \<longleftrightarrow> documents_final prm gamma clob (rq_condition_id q) market_id \<and> (\<exists>w. official_tokens clob w))
    \<and> (ofs_status s = SETTLED \<longrightarrow> (\<exists>w. ofs_winner s = Some w \<and> official_tokens clob w) \<and> ofs_market_id s = market_id
        \<and> resolved_at (sp_vendor prm) gamma = Inr (ofs_resolved_at s))
    \<and> (ofs_status s \<noteq> SETTLED \<longrightarrow> ofs_winner s = None) \<and> ofs_status s \<noteq> VOID
    \<and> ofs_condition_id s = rq_condition_id q \<and> ofs_asset s = rq_asset q \<and> ofs_horizon s = rq_horizon q \<and> ofs_observed_at s = t"
proof -
  obtain w reason where win: "winner_from_clob_tokens clob = (w, reason)" by fastforce
  have tokens: "official_tokens clob x \<longleftrightarrow> w = Some x" for x using winner_from_clob_iff [of clob x] by (simp add: win)
  note parse = assms [unfolded parse_polymarket_official_settlement_def Let_def checked_Inr_iff, THEN conjunct2]
  show ?thesis
  proof (cases "documents_final prm gamma clob (rq_condition_id q) market_id")
    case True
    then show ?thesis
      using parse by (cases w) (auto simp: documents_final_def win tokens bindr_Inr_iff official_result_def)
  next
    case False
    then show ?thesis
      using parse by (auto simp: documents_final_def official_result_def split: if_splits)
  qed
qed

section \<open>What a pass may write\<close>

text \<open>
  A settlement is paid correctly when both documents of its condition are final, and the trade is paid
  its shares exactly when its side is the official winner.
\<close>

definition officially_won :: "settlement_params \<Rightarrow> responses \<Rightarrow> string \<Rightarrow> outcome_side \<Rightarrow> bool" where
  "officially_won prm rs cid w \<longleftrightarrow> (\<exists>gamma clob market_id. rsp_by_id rs = Inr gamma \<and> rsp_clob rs = Inr clob
     \<and> documents_final prm gamma clob cid market_id \<and> official_tokens clob w)"

definition paid_correctly :: "settlement_params \<Rightarrow> utc \<Rightarrow> (string \<Rightarrow> responses) \<Rightarrow> paper_trade list \<Rightarrow> string \<times> paper_settlement \<Rightarrow> bool" where
  "paid_correctly prm now env book ks \<longleftrightarrow> (case ks of (k, s) \<Rightarrow> \<exists>t\<in>set book. \<exists>w shares cost.
     k = ptr_id t \<and> pst_trade_id s = ptr_id t \<and> pst_condition_id s = ptr_condition_id t
     \<and> officially_won prm (env (ptr_condition_id t)) (ptr_condition_id t) w
     \<and> decimal_from_payload prm t = Inr (Fin shares) \<and> cost_basis t = Inr cost
     \<and> pst_winning_side s = side_text w \<and> pst_selected_side s = ptr_side t \<and> pst_settled_at s = now
     \<and> pst_win_loss s = (if ptr_side t = side_text w then ''WIN'' else ''LOSS'')
     \<and> pst_filled_shares s = shares \<and> pst_cost_basis s = cost
     \<and> pst_payout s = (if ptr_side t = side_text w then shares else 0)
     \<and> pst_pnl s = dsub (if ptr_side t = side_text w then shares else 0) cost)"

definition attempted_now :: "utc \<Rightarrow> paper_repo \<Rightarrow> string \<Rightarrow> bool" where
  "attempted_now now r cid \<longleftrightarrow> (\<exists>a. map_of (repo_attempts r) cid = Some a \<and> sat_last_attempt_at a = Some now)"

text \<open>What every step of the pass guarantees: settlements are only appended, paid correctly, and attempts stay.\<close>

definition pass_step :: "settlement_params \<Rightarrow> utc \<Rightarrow> (string \<Rightarrow> responses) \<Rightarrow> paper_trade list \<Rightarrow> paper_repo \<Rightarrow> paper_repo \<Rightarrow> bool" where
  "pass_step prm now env book r r' \<longleftrightarrow>
     (\<exists>new. repo_settlements r' = repo_settlements r @ new \<and> list_all (paid_correctly prm now env book) new)
     \<and> (\<forall>cid. attempted_now now r cid \<longrightarrow> attempted_now now r' cid)"

lemma pass_step_refl [simp]: "pass_step prm now env book r r"
  by (simp add: pass_step_def)

lemma pass_step_trans:
  assumes "pass_step prm now env book r r'" "pass_step prm now env book r' r''"
  shows "pass_step prm now env book r r''"
proof -
  obtain new new' where n: "repo_settlements r' = repo_settlements r @ new" "list_all (paid_correctly prm now env book) new"
    "repo_settlements r'' = repo_settlements r' @ new'" "list_all (paid_correctly prm now env book) new'"
    using assms unfolding pass_step_def by blast
  then have "repo_settlements r'' = repo_settlements r @ (new @ new')" "list_all (paid_correctly prm now env book) (new @ new')"
    by simp_all
  then show ?thesis using assms unfolding pass_step_def by blast
qed

lemma pass_step_same:
  "repo_settlements r' = repo_settlements r \<Longrightarrow> repo_attempts r' = repo_attempts r \<Longrightarrow> pass_step prm now env book r r'"
  by (simp add: pass_step_def attempted_now_def)

lemma task_pass_step: "save_corpus_label_task r cid hash state at_time next reason p = (r', x) \<Longrightarrow> pass_step prm now env book r r'"
  by (rule pass_step_same) (auto simp: save_corpus_label_task_def Let_def split: option.splits)

lemma overlay_pass_step: "save_identity_overlay_once r v = (r', x) \<Longrightarrow> pass_step prm now env book r r'"
  by (rule pass_step_same) (auto simp: save_identity_overlay_once_def Let_def split: option.splits)

lemma record_attempt_step:
  assumes "record_attempt r cid state now reason n error success = (r', x)"
  shows "pass_step prm now env book r r'" "x = Inr a \<Longrightarrow> attempted_now now r' cid"
  using assms by (auto simp: record_attempt_def save_settlement_condition_attempt_def Let_def pass_step_def attempted_now_def
    map_of_row_upsert split: option.splits)

lemma settle_trade_step:
  assumes "settle_trade prm r t s now = (r', x)" "t \<in> set book" "ofs_winner s = Some w"
    "officially_won prm (env (ptr_condition_id t)) (ptr_condition_id t) w"
  shows "pass_step prm now env book r r'"
proof -
  have row: "paid_correctly prm now env book (ptr_id t, (settlement_row prm t s w now shares cost)\<lparr>pst_payload := p\<rparr>)"
    if "decimal_from_payload prm t = Inr (Fin shares)" "cost_basis t = Inr cost" for shares cost p
    using that assms(2,4) unfolding paid_correctly_def settlement_row_def Let_def by (intro case_prodI bexI [of _ t]) auto
  have save: "pass_step prm now env book r r'"
    if "save_settlement_once r (settlement_row prm t s w now shares cost) = (r', y)"
      "decimal_from_payload prm t = Inr (Fin shares)" "cost_basis t = Inr cost" for shares cost y
  proof -
    have id: "pst_trade_id (settlement_row prm t s w now shares cost) = ptr_id t" by (simp add: settlement_row_def Let_def)
    show ?thesis
      using that(1) row [OF that(2,3)]
      by (auto simp: save_settlement_once_def Let_def id pass_step_def attempted_now_def row_insert_def split: option.splits if_splits)
  qed
  show ?thesis
    using assms(1,3) save by (auto simp: settle_trade_def bindr_Inr_iff split: sum.splits prod.splits pydec.splits option.splits)
qed

lemma settle_trades_step:
  assumes "settle_trades prm s now ts r = (r', n, e)" "set ts \<subseteq> set book" "ofs_winner s = Some w"
    "\<forall>t\<in>set ts. officially_won prm (env (ptr_condition_id t)) (ptr_condition_id t) w"
  shows "pass_step prm now env book r r'"
  using assms
proof (induction ts arbitrary: r n)
  case (Cons t ts)
  obtain r1 x where t: "settle_trade prm r t s now = (r1, x)" by fastforce
  have first: "pass_step prm now env book r r1" using settle_trade_step [OF t] Cons.prems by simp
  show ?case
  proof (cases x)
    case (Inl err)
    then show ?thesis using Cons.prems(1) first by (simp add: t)
  next
    case (Inr u)
    obtain n' where "settle_trades prm s now ts r1 = (r', n', e)"
      using Cons.prems(1) by (auto simp: t Inr split: prod.splits)
    then have "pass_step prm now env book r1 r'" using Cons.IH Cons.prems by simp
    then show ?thesis using first pass_step_trans by blast
  qed
qed simp

lemma label_corpus_step:
  assumes "label_corpus prm has_corpus r corpus s now = ((r', corpus'), x)"
  shows "pass_step prm now env book r r'"
proof -
  have task: "pass_step prm now env book a b" if "save_corpus_label_task a cid hash state at_time nxt reason p = (b, y)"
    for a b cid hash state at_time nxt reason p y
    using that by (rule task_pass_step)
  have fst_task: "pass_step prm now env book a (fst (save_corpus_label_task a cid hash state at_time nxt reason p))"
    for a cid hash state at_time nxt reason p
    by (rule task [where y = "snd (save_corpus_label_task a cid hash state at_time nxt reason p)"]) simp
  have two: "pass_step prm now env book a (fst (save_corpus_label_task
      (fst (save_corpus_label_task a cid hash state at_time nxt reason p)) cid' hash' state' at_time' nxt' reason' p'))"
    for a cid hash state at_time nxt reason p cid' hash' state' at_time' nxt' reason' p'
    by (rule pass_step_trans [OF fst_task fst_task])
  show ?thesis
    using assms by (auto simp: label_corpus_def Let_def split_beta split: option.splits sum.splits if_splits
      intro: fst_task two)
qed

lemma recover_from_rows_step:
  "recover_from_rows prm r t now rows = (r', x) \<Longrightarrow> pass_step prm now env book r r'"
proof (induction prm r t now rows rule: recover_from_rows.induct)
  case (2 prm r t now record_id w rows)
  then show ?case
    by (auto simp: save_recovered_identity_def split: sum.splits prod.splits dest: overlay_pass_step)
qed simp

lemma identity_step:
  assumes "effective_identity_of prm svc corpus r t now rs = (r', x)"
  shows "pass_step prm now env book r r'"
proof -
  have rows: "pass_step prm now env book a b" if "recover_from_corpus prm svc corpus a t now = (b, y)" for a b y
    using that recover_from_rows_step by (auto simp: recover_from_corpus_def split: if_splits sum.splits)
  have meta: "pass_step prm now env book a b" if "recover_from_metadata prm a t now rs = (b, y)" for a b y
    using that by (auto simp: recover_from_metadata_def save_recovered_identity_def split: sum.splits option.splits prod.splits if_splits
      dest: overlay_pass_step)
  obtain r1 y where c: "recover_from_corpus prm svc corpus r t now = (r1, y)" by fastforce
  obtain r2 z where m: "recover_from_metadata prm r1 t now rs = (r2, z)" by fastforce
  have "r' = r \<or> r' = r1 \<or> r' = r2"
    using assms by (auto simp: effective_identity_of_def Let_def c m split: sum.splits option.splits if_splits)
  then show ?thesis using rows [OF c] meta [OF m] pass_step_trans by auto
qed

lemma resolve_trade_official:
  assumes "resolve_trade prm t i rs = Inr s" "ofs_status s \<noteq> SETTLEMENT_PENDING" "ofs_status s \<noteq> SETTLEMENT_BLOCKED"
  shows "\<exists>w. ofs_winner s = Some w \<and> officially_won prm rs (ptr_condition_id t) w"
proof -
  obtain a h where r: "resolve_settlement prm \<lparr>rq_condition_id = ptr_condition_id t, rq_asset = a, rq_horizon = h\<rparr>
      (Some (opt_text id (ti_market_id i))) rs = Inr s"
    using assms(1) by (auto simp: resolve_trade_def bindr_Inr_iff)
  let ?q = "\<lparr>rq_condition_id = ptr_condition_id t, rq_asset = a, rq_horizon = h\<rparr>" and ?m = "opt_text id (ti_market_id i)"
  obtain g c where d: "rsp_by_id rs = Inr g" "rsp_clob rs = Inr c"
    "parse_polymarket_official_settlement prm g c ?q ?m (rsp_now rs) = Inr s"
    using r assms(2,3) by (auto simp: resolve_settlement_def market_metadata_by_id_def clob_market_by_condition_def checked_Inr_iff
      bindr_Inr_iff Let_def object_or_none_def split: if_splits option.splits)
  obtain w reason where win: "winner_from_clob_tokens c = (w, reason)" by fastforce
  have tokens: "official_tokens c x \<longleftrightarrow> w = Some x" for x using winner_from_clob_iff [of c x] by (simp add: win)
  note parse = d(3) [unfolded parse_polymarket_official_settlement_def Let_def checked_Inr_iff, THEN conjunct2]
  have final: "documents_final prm g c (ptr_condition_id t) ?m"
    using parse assms(2,3) by (auto simp: documents_final_def official_result_def split: if_splits)
  then obtain x where "w = Some x" "ofs_winner s = Some x"
    using parse assms(2,3) by (cases w) (auto simp: documents_final_def win bindr_Inr_iff official_result_def)
  then show ?thesis using final d(1,2) tokens unfolding officially_won_def by blast
qed

lemma settle_resolved_step:
  assumes "settle_resolved prm has_corpus now ts cid s r corpus = ((r', corpus'), k, err, raised)"
    "set ts \<subseteq> set book" "\<forall>t\<in>set ts. ptr_condition_id t = cid"
    "ofs_status s \<noteq> SETTLEMENT_PENDING \<Longrightarrow> ofs_status s \<noteq> SETTLEMENT_BLOCKED \<Longrightarrow> \<exists>w. ofs_winner s = Some w \<and> officially_won prm (env cid) cid w"
  shows "pass_step prm now env book r r' \<and> (raised = None \<longrightarrow> attempted_now now r' cid)"
proof -
  have failed: "(case x of Inl e \<Rightarrow> Some e | Inr y \<Rightarrow> None) = None \<Longrightarrow> \<exists>y. x = Inr y" for x :: "'b result" by (cases x) simp_all
  have attempt: "pass_step prm now env book a b \<and> ((case x of Inl e \<Rightarrow> Some e | Inr y \<Rightarrow> None) = None \<longrightarrow> attempted_now now b cid)"
    if "record_attempt a cid state now reason n error success = (b, x)" for a b x state reason n error success
    using record_attempt_step [OF that] failed [of x] by blast
  show ?thesis
  proof (cases "ofs_status s = SETTLEMENT_PENDING \<or> ofs_status s = SETTLEMENT_BLOCKED")
    case True
    then show ?thesis
      using assms(1) attempt by (auto simp: settle_resolved_def Let_def split: if_splits prod.splits)
  next
    case False
    then obtain w where w: "ofs_winner s = Some w" "officially_won prm (env cid) cid w" using assms(4) by blast
    obtain r1 k1 e where t: "settle_trades prm s now ts r = (r1, k1, e)" by (metis prod_cases3)
    have s1: "pass_step prm now env book r r1"
      using settle_trades_step [OF t assms(2) w(1)] w(2) assms(3) by simp
    show ?thesis
    proof (cases e)
      case (Some x)
      then show ?thesis using assms(1) False s1 by (auto simp: settle_resolved_def Let_def t)
    next
      case None
      obtain r2 corpus2 y where l: "label_corpus prm has_corpus r1 corpus s now = ((r2, corpus2), y)" by (metis prod_cases3 prod.collapse)
      have s2: "pass_step prm now env book r r2" using label_corpus_step [OF l] s1 pass_step_trans by blast
      obtain r3 z where a: "record_attempt r2 cid ''SETTLED'' now (ofs_reason s) (length ts) None (Some now) = (r3, z)" by fastforce
      have s3: "pass_step prm now env book r r3" using attempt [OF a] s2 pass_step_trans by blast
      show ?thesis
        using assms(1) False None s2 s3 attempt [OF a]
        by (cases y) (auto simp: settle_resolved_def Let_def t l a)
    qed
  qed
qed

lemma attempt_condition_step:
  assumes "attempt_condition prm has_corpus now rs ts cid i r corpus p = ((r', corpus'), x)"
    "env cid = rs" "ts \<noteq> []" "set ts \<subseteq> set book" "\<forall>t\<in>set ts. ptr_condition_id t = cid"
  shows "pass_step prm now env book r r' \<and> (\<forall>p'. x = Inr p' \<longrightarrow> attempted_now now r' cid \<and> srp_attempted p' = srp_attempted p)"
proof -
  obtain r1 corpus1 pending completed blocked err raised
    where b: "attempt_body prm has_corpus now rs ts cid i r corpus = ((r1, corpus1), (pending, completed, blocked), err, raised)"
    by (metis prod_cases3 prod.collapse)
  have body: "pass_step prm now env book r r1 \<and> (raised = None \<longrightarrow> attempted_now now r1 cid)"
  proof (cases "resolve_trade prm (hd ts) i rs")
    case (Inl e)
    then show ?thesis using b by (auto simp: attempt_body_def)
  next
    case (Inr s)
    have "ptr_condition_id (hd ts) = cid" using assms(3,5) by simp
    then have won: "\<exists>w. ofs_winner s = Some w \<and> officially_won prm (env cid) cid w"
      if "ofs_status s \<noteq> SETTLEMENT_PENDING" "ofs_status s \<noteq> SETTLEMENT_BLOCKED"
      using resolve_trade_official [OF Inr that] assms(2) by simp
    have "settle_resolved prm has_corpus now ts cid s r corpus = ((r1, corpus1), (pending, completed, blocked), err, raised)"
      using b Inr by (simp add: attempt_body_def)
    from settle_resolved_step [where env = env, OF this assms(4,5) won] show ?thesis .
  qed
  show ?thesis
  proof (cases raised)
    case None
    then show ?thesis using assms(1) body by (auto simp: attempt_condition_def b Let_def)
  next
    case (Some e)
    obtain r2 y where a: "record_attempt r1 cid ''BLOCKED_RETRYABLE'' now (''SETTLEMENT_BLOCKED:'' @ error_class e) (length ts)
        (Some (safe_error_text e)) None = (r2, y)" by fastforce
    then show ?thesis
      using assms(1) body record_attempt_step [OF a] pass_step_trans Some
      by (auto simp: attempt_condition_def b Let_def bindr_Inr_iff)
  qed
qed

lemma settle_condition_step:
  assumes "settle_condition prm svc now rs ts cid r corpus p = ((r', corpus'), x)"
    "env cid = rs" "ts \<noteq> []" "set ts \<subseteq> set book" "\<forall>t\<in>set ts. ptr_condition_id t = cid"
  shows "pass_step prm now env book r r' \<and> (\<forall>p'. x = Inr p' \<longrightarrow> attempted_now now r' cid \<and> srp_attempted p' = srp_attempted p @ [cid])"
proof -
  obtain r1 y where e: "effective_identity_of prm svc corpus r (hd ts) now rs = (r1, y)" by fastforce
  have s1: "pass_step prm now env book r r1" using identity_step [OF e] .
  have attempt: "pass_step prm now env book r r2 \<and> (\<forall>a. z = Inr a \<longrightarrow> attempted_now now r2 cid)"
    if "record_attempt r1 cid state now reason n None None = (r2, z)" for r2 z state reason n
    using record_attempt_step [OF that] s1 pass_step_trans by blast
  show ?thesis
  proof (cases y)
    case (Inl err)
    then show ?thesis using assms(1) s1 by (auto simp: settle_condition_def Let_def e)
  next
    case (Inr identity)
    show ?thesis
    proof (cases identity)
      case (Identity_blocked reason)
      then show ?thesis
        using assms(1) attempt by (auto simp: settle_condition_def Let_def e Inr bindr_Inr_iff split: prod.splits)
    next
      case (Recovered i)
      show ?thesis
      proof (cases "case ti_window_end i of None \<Rightarrow> True | Some stop \<Rightarrow> now < stop")
        case True
        then show ?thesis
          using assms(1) attempt by (auto simp: settle_condition_def Let_def e Inr Recovered bindr_Inr_iff split: prod.splits)
      next
        case False
        let ?p = "p\<lparr>srp_attempted := srp_attempted p @ [cid], srp_checked := srp_checked p + length ts, srp_recovered := srp_recovered p + 1\<rparr>"
        have "attempt_condition prm (ss_corpus svc) now rs ts cid i r1 corpus ?p = ((r', corpus'), x)"
          using assms(1) False by (simp add: settle_condition_def Let_def e Inr Recovered)
        from attempt_condition_step [where env = env, OF this assms(2-5)] show ?thesis using s1 pass_step_trans by auto
      qed
    qed
  qed
qed

lemma settle_conditions_step:
  assumes "settle_conditions prm svc now env grouped cids r corpus p = ((r', corpus'), x)"
    "\<forall>cid. set (grouped cid) \<subseteq> set book" "\<forall>cid. \<forall>t\<in>set (grouped cid). ptr_condition_id t = cid"
    "\<forall>cid\<in>set (srp_attempted p). attempted_now now r cid" "int (length (srp_attempted p)) \<le> ss_max_conditions svc"
  shows "pass_step prm now env book r r' \<and> (\<forall>p'. x = Inr p' \<longrightarrow> (\<forall>cid\<in>set (srp_attempted p'). attempted_now now r' cid)
    \<and> int (length (srp_attempted p')) \<le> ss_max_conditions svc)"
  using assms(1,4,5)
proof (induction cids arbitrary: r corpus p)
  case (Cons cid cids)
  let ?ts = "take (nat (ss_max_trades svc)) (grouped cid)"
  show ?case
  proof (cases "ss_max_conditions svc \<le> int (length (srp_attempted p))")
    case True
    then show ?thesis using Cons.prems by auto
  next
    case more: False
    show ?thesis
    proof (cases "?ts = []")
      case True
      then have "settle_conditions prm svc now env grouped cids r corpus p = ((r', corpus'), x)" using Cons.prems(1) more by simp
      then show ?thesis using Cons.prems(2,3) by (rule Cons.IH)
    next
      case ts: False
      obtain r1 corpus1 y where c: "settle_condition prm svc now (env cid) ?ts cid r corpus p = ((r1, corpus1), y)"
        by (metis prod_cases3 prod.collapse)
      have sub: "set ?ts \<subseteq> set book" "\<forall>t\<in>set ?ts. ptr_condition_id t = cid"
        using assms(2,3) set_take_subset by (blast dest: in_set_takeD)+
      note step = settle_condition_step [where env = env, OF c refl ts sub]
      show ?thesis
      proof (cases y)
        case (Inl e)
        then show ?thesis using Cons.prems(1) more ts c step by auto
      next
        case (Inr p1)
        have rest: "settle_conditions prm svc now env grouped cids r1 corpus1 p1 = ((r', corpus'), x)"
          using Cons.prems(1) more ts c Inr by simp
        have now1: "\<forall>cid\<in>set (srp_attempted p1). attempted_now now r1 cid" and len: "int (length (srp_attempted p1)) \<le> ss_max_conditions svc"
          using step Inr Cons.prems(2) more by (auto simp: pass_step_def)
        have "pass_step prm now env book r r1" using step ..
        then show ?thesis using Cons.IH [OF rest now1 len] pass_step_trans by blast
      qed
    qed
  qed
qed auto

lemma label_pass_step:
  "label_pass prm now lenv cs r corpus p = ((r', corpus'), x) \<Longrightarrow> pass_step prm now' env book r r'"
proof (induction cs arbitrary: r corpus p)
  case (Cons c cs)
  obtain corpus1 v where v: "label_candidate_verdict prm corpus now (lenv c) c = (corpus1, v)" by fastforce
  show ?case
  proof (cases v)
    case (Inl e)
    then show ?thesis using Cons.prems by (simp add: v)
  next
    case (Inr w)
    obtain r1 y where t: "record_label_task r (lc_condition_id c) (lv_hash w) (lv_state w) now (lv_reason w) (lv_payload w) = (r1, y)"
      by fastforce
    have "pass_step prm now' env book r r1" using t unfolding record_label_task_def by (rule task_pass_step)
    moreover have "y = Inr u \<Longrightarrow> pass_step prm now' env book r1 r'" for u
      using Cons.prems Cons.IH by (simp add: v Inr t)
    ultimately show ?thesis using Cons.prems pass_step_trans by (cases y) (auto simp: v Inr t)
  qed
qed simp

text \<open>The candidates are open trades of the directional strategy without a settlement whose window has ended.\<close>

lemma candidates_open:
  assumes "settlement_candidates r now = Inr ts" "t \<in> set ts"
  shows "t \<in> snd ` set (repo_trades r)" "ptr_strategy t = ''DIRECTIONAL_EDGE''" "ptr_status t = ''OPEN''"
    "map_of (repo_settlements r) (ptr_id t) = None"
    "\<And>stop. tp_window_end (ptr_payload t) = Some stop \<Longrightarrow> stop \<le> now"
proof -
  obtain us where us: "unsettled_trade_snapshots r ''DIRECTIONAL_EDGE'' ''OPEN'' 100000 = Inr us"
    "ts = filter (\<lambda>t. case tp_window_end (ptr_payload t) of None \<Rightarrow> True | Some stop \<Rightarrow> stop \<le> now) us"
    using assms(1) by (auto simp: settlement_candidates_def bindr_Inr_iff)
  then have "t \<in> set us" using assms(2) by simp
  then have "t \<in> set (filter (\<lambda>t. ptr_strategy t = ''DIRECTIONAL_EDGE'' \<and> ptr_status t = ''OPEN''
          \<and> map_of (repo_settlements r) (ptr_id t) = None) (newest_first (repo_trades r)))"
    using us(1) by (auto simp: unsettled_trade_snapshots_def checked_Inr_iff dest: in_set_takeD)
  then show "t \<in> snd ` set (repo_trades r)" "ptr_strategy t = ''DIRECTIONAL_EDGE''" "ptr_status t = ''OPEN''"
    "map_of (repo_settlements r) (ptr_id t) = None"
    by (simp_all add: newest_first_def)
  show "\<And>stop. tp_window_end (ptr_payload t) = Some stop \<Longrightarrow> stop \<le> now" using us(2) assms(2) by auto
qed

text \<open>
  C19: however the network answers and whatever fails on the way, a settlement pass only appends
  settlements, and each one it appends is of an open directional trade whose window has ended, whose
  condition both official documents report as final: the trade is paid its shares exactly when its side
  is the official winner, nothing otherwise, and the booked profit is the payout less the cost. A pass that
  returns has attempted at most the configured number of conditions, each of which has its attempt recorded.
\<close>

theorem settlement_pass_pays_official_winners:
  assumes "settlement_candidates r now = Inr candidates" "0 \<le> ss_max_conditions svc"
    "settlement_run_once prm svc now env label_now label_env r corpus = ((r', corpus'), x)"
  shows "(\<exists>new. repo_settlements r' = repo_settlements r @ new
      \<and> (\<forall>ks\<in>set new. paid_correctly prm now env candidates ks))
    \<and> (\<forall>t\<in>set candidates. t \<in> snd ` set (repo_trades r) \<and> ptr_strategy t = ''DIRECTIONAL_EDGE'' \<and> ptr_status t = ''OPEN''
        \<and> map_of (repo_settlements r) (ptr_id t) = None
        \<and> (\<forall>stop. tp_window_end (ptr_payload t) = Some stop \<longrightarrow> stop \<le> now))
    \<and> (\<forall>summary. x = Inr summary \<longrightarrow> int (length (srp_attempted (sum_report summary))) \<le> ss_max_conditions svc
        \<and> (\<forall>cid\<in>set (srp_attempted (sum_report summary)). attempted_now now r' cid))"
proof -
  let ?cids = "fromkeys (map ptr_condition_id candidates)" and ?grouped = "\<lambda>cid. filter (\<lambda>t. ptr_condition_id t = cid) candidates"
  have grouped: "\<forall>cid. set (?grouped cid) \<subseteq> set candidates" "\<forall>cid. \<forall>t\<in>set (?grouped cid). ptr_condition_id t = cid" by auto
  have empty: "\<forall>cid\<in>set (srp_attempted empty_settlement_report). attempted_now now r cid"
    "int (length (srp_attempted empty_settlement_report)) \<le> ss_max_conditions svc"
    using assms(2) by (simp_all add: empty_settlement_report_def)
  have main: "pass_step prm now env candidates r r' \<and> (\<forall>summary. x = Inr summary \<longrightarrow>
      int (length (srp_attempted (sum_report summary))) \<le> ss_max_conditions svc
      \<and> (\<forall>cid\<in>set (srp_attempted (sum_report summary)). attempted_now now r' cid))"
  proof (cases "due_settlement_conditions r ?cids now")
    case (Inl e)
    then show ?thesis using assms(3) by (auto simp: settlement_run_once_def assms(1))
  next
    case (Inr due)
    obtain r1 corpus1 y where c: "settle_conditions prm svc now env ?grouped due r corpus empty_settlement_report = ((r1, corpus1), y)"
      by (metis prod_cases3 prod.collapse)
    note step = settle_conditions_step [OF c grouped empty]
    show ?thesis
    proof (cases y)
      case (Inl e)
      then show ?thesis using assms(3) step by (auto simp: settlement_run_once_def assms(1) Inr c)
    next
      case p: (Inr p)
      show ?thesis
      proof (cases "ss_corpus svc")
        case False
        then show ?thesis using assms(3) step p by (auto simp: settlement_run_once_def assms(1) Inr c Let_def)
      next
        case True
        obtain r2 corpus2 z where l: "labeler_run_once prm (ss_max_labels svc) label_now label_env r1 corpus1 = ((r2, corpus2), z)"
          by (metis prod_cases3 prod.collapse)
        have s2: "pass_step prm now env candidates r1 r2"
          using l label_pass_step by (auto simp: labeler_run_once_def Let_def split: sum.splits)
        have "pass_step prm now env candidates r r2" using step s2 pass_step_trans by blast
        moreover have "\<forall>cid. attempted_now now r1 cid \<longrightarrow> attempted_now now r2 cid" using s2 by (simp add: pass_step_def)
        ultimately show ?thesis
          using assms(3) step p True by (auto simp: settlement_run_once_def assms(1) Inr c Let_def l bindr_Inr_iff)
      qed
    qed
  qed
  moreover have "\<forall>t\<in>set candidates. t \<in> snd ` set (repo_trades r) \<and> ptr_strategy t = ''DIRECTIONAL_EDGE'' \<and> ptr_status t = ''OPEN''
        \<and> map_of (repo_settlements r) (ptr_id t) = None
        \<and> (\<forall>stop. tp_window_end (ptr_payload t) = Some stop \<longrightarrow> stop \<le> now)"
    using candidates_open [OF assms(1)] by blast
  ultimately show ?thesis unfolding pass_step_def list_all_iff by blast
qed

section \<open>A concrete pass\<close>

definition final_gamma :: json where
  "final_gamma = JDict [(''id'', JStr ''m1''), (''conditionId'', JStr ''c2''), (''closed'', JBool True), (''resolvedAt'', JStr ''open'')]"

definition final_clob :: json where
  "final_clob = JDict [(''condition_id'', JStr ''c2''), (''closed'', JBool True),
     (''tokens'', JList [JDict [(''outcome'', JStr ''Up''), (''winner'', JBool True)],
        JDict [(''outcome'', JStr ''Down''), (''winner'', JBool False)]])]"

definition demo_params :: settlement_params where
  "demo_params = \<lparr>sp_vendor = sample_vendor\<lparr>vt_decimal := (\<lambda>_. Some (Fin 10))\<rparr>, sp_show = (\<lambda>_. ''value''),
     sp_digest = (\<lambda>_. ''hash''), sp_iso_text = (\<lambda>_. ''instant'')\<rparr>"

definition demo_trade :: paper_trade where
  "demo_trade = sample_trade ''OPEN'' 40 (blank_payload\<lparr>tp_window_start := Some 0,
     tp_other := [(''market_id'', ''m1''), (''shares'', ''10'')]\<rparr>)"

definition demo_book :: paper_repo where
  "demo_book = empty_repo\<lparr>repo_trades := [(''t2'', demo_trade)]\<rparr>"

definition demo_service :: settlement_service where
  "demo_service = \<lparr>ss_corpus = False, ss_max_conditions = 25, ss_max_trades = 500, ss_max_labels = 25\<rparr>"

definition demo_responses :: responses where
  "demo_responses = \<lparr>rsp_metadata = Inr JNull, rsp_by_id = Inr final_gamma, rsp_clob = Inr final_clob, rsp_now = 100\<rparr>"

definition demo_pass :: "(paper_repo \<times> corpus_repo) \<times> settlement_summary result" where
  "demo_pass = settlement_run_once demo_params demo_service 100 (\<lambda>_. demo_responses) 100 (\<lambda>_. demo_responses) demo_book empty_corpus"

definition demo_result :: official_settlement where
  "demo_result = projr (parse_polymarket_official_settlement demo_params final_gamma final_clob
     \<lparr>rq_condition_id = ''c2'', rq_asset = BTC, rq_horizon = FIVE_MINUTES\<rparr> ''m1'' 100)"

lemma demo_texts [simp]: "require_text n ''c2'' = None" "require_text n ''m1'' = None" "require_text n ''t2'' = None"
    "require_text n ''UP'' = None" "require_text n ''WIN'' = None" "require_text n ''hash'' = None"
    "require_text n ''OFFICIAL'' = None" "require_text n ''SETTLED'' = None" "require_text n ''OFFICIAL_FINAL'' = None"
    "require_text n ''POLYMARKET_GAMMA_MARKET_ID_AND_CLOB_CONDITION'' = None" "require_text n ''settlement:t2:hash'' = None"
    "require_text n ''DIRECTIONAL_EDGE'' = None" "require_text n ''OPEN'' = None"
  by (simp_all add: require_text_def py_strip_def py_space_def)

lemma demo_trade_fields [simp]: "ptr_id demo_trade = ''t2''" "ptr_condition_id demo_trade = ''c2''" "ptr_asset demo_trade = ''BTC''"
    "ptr_horizon demo_trade = ''5m''" "ptr_side demo_trade = ''UP''" "ptr_strategy demo_trade = ''DIRECTIONAL_EDGE''"
    "ptr_status demo_trade = ''OPEN''" "tp_window_start (ptr_payload demo_trade) = Some 0" "tp_window_end (ptr_payload demo_trade) = Some 90"
    "tp_other (ptr_payload demo_trade) = [(''market_id'', ''m1''), (''shares'', ''10'')]" "tp_cost_basis (ptr_payload demo_trade) = Some 4"
    "ptr_observed_at demo_trade = 40"
  by (simp_all add: demo_trade_def sample_trade_def blank_payload_def)

lemma demo_book_fields [simp]: "repo_trades demo_book = [(''t2'', demo_trade)]" "repo_settlements demo_book = []"
    "repo_attempts demo_book = []" "repo_overlays demo_book = []" "repo_runs demo_book = []" "repo_audit demo_book = []"
  by (simp_all add: demo_book_def empty_repo_def)

lemma demo_candidates: "settlement_candidates demo_book 100 = Inr [demo_trade]"
  by (simp add: settlement_candidates_def unsettled_trade_snapshots_def newest_first_def checked_def del: require_text_None)

lemma demo_winner: "winner_from_clob_tokens final_clob = (Some UP, ''OFFICIAL_CLOB_WINNER'')"
proof -
  have "outcome_alias ''Up'' = Some UP" "outcome_alias ''Down'' = Some DOWN"
    by (simp_all add: outcome_alias_def py_upper_def py_strip_def py_space_def char_of_def bit_Suc_0_iff)
  then show ?thesis by (simp add: winner_from_clob_tokens_def final_clob_def insert_commute)
qed

lemma demo_parsed: "parse_polymarket_official_settlement demo_params final_gamma final_clob
     \<lparr>rq_condition_id = ''c2'', rq_asset = BTC, rq_horizon = FIVE_MINUTES\<rparr> ''m1'' 100 = Inr demo_result"
    "demo_result = official_result SETTLED ''m1'' \<lparr>rq_condition_id = ''c2'', rq_asset = BTC, rq_horizon = FIVE_MINUTES\<rparr> (Some UP)
       ''POLYMARKET_GAMMA_MARKET_ID_AND_CLOB_CONDITION'' (Some 0) 100 ''hash'' ''OFFICIAL_FINAL'' (settlement_evidence final_gamma final_clob)"
proof -
  have docs: "is_object final_gamma" "is_object final_clob" "get_str sh final_gamma ''id'' [] = ''m1''"
      "get_str sh final_gamma ''conditionId'' [] = ''c2''" "flag final_gamma ''closed''" "flag final_clob ''closed''"
      "clob_condition demo_params final_clob = ''c2''" "resolved_at (sp_vendor demo_params) final_gamma = Inr (Some 0)"
      "evidence_hash demo_params e = ''hash''" for sh e
    by (simp_all add: final_gamma_def final_clob_def get_str_def flag_def clob_condition_def evidence_hash_def demo_params_def
      resolved_at_def sample_vendor_def)
  have "parse_polymarket_official_settlement demo_params final_gamma final_clob
     \<lparr>rq_condition_id = ''c2'', rq_asset = BTC, rq_horizon = FIVE_MINUTES\<rparr> ''m1'' 100 = Inr (official_result SETTLED ''m1''
       \<lparr>rq_condition_id = ''c2'', rq_asset = BTC, rq_horizon = FIVE_MINUTES\<rparr> (Some UP)
       ''POLYMARKET_GAMMA_MARKET_ID_AND_CLOB_CONDITION'' (Some 0) 100 ''hash'' ''OFFICIAL_FINAL'' (settlement_evidence final_gamma final_clob))"
    by (simp add: parse_polymarket_official_settlement_def checked_def demo_winner docs Let_def del: require_text_None)
  then show "parse_polymarket_official_settlement demo_params final_gamma final_clob
     \<lparr>rq_condition_id = ''c2'', rq_asset = BTC, rq_horizon = FIVE_MINUTES\<rparr> ''m1'' 100 = Inr demo_result"
    "demo_result = official_result SETTLED ''m1'' \<lparr>rq_condition_id = ''c2'', rq_asset = BTC, rq_horizon = FIVE_MINUTES\<rparr> (Some UP)
       ''POLYMARKET_GAMMA_MARKET_ID_AND_CLOB_CONDITION'' (Some 0) 100 ''hash'' ''OFFICIAL_FINAL'' (settlement_evidence final_gamma final_clob)"
    by (simp_all add: demo_result_def)
qed

lemma demo_resolved: "resolve_trade demo_params demo_trade \<lparr>ti_market_id = Some ''m1'', ti_window_start = Some 0,
    ti_window_end = Some 90, ti_source = ''PAPER_TRADE_SNAPSHOT''\<rparr> demo_responses = Inr demo_result"
    "ofs_status demo_result = SETTLED" "ofs_winner demo_result = Some UP" "ofs_resolved_at demo_result = Some 0"
    "ofs_evidence_hash demo_result = ''hash''" "ofs_source_kind demo_result = ''OFFICIAL''" "ofs_reason demo_result = ''OFFICIAL_FINAL''"
    "ofs_source demo_result = ''POLYMARKET_GAMMA_MARKET_ID_AND_CLOB_CONDITION''"
proof -
  have docs: "is_object final_gamma" "is_object final_clob" by (simp_all add: final_gamma_def final_clob_def)
  have a: "parse_asset ''BTC'' = Inr BTC" "parse_horizon ''5m'' = Inr FIVE_MINUTES"
    by (simp_all add: parse_asset_def parse_horizon_def enum_asset_def enum_horizon_def)
  show "resolve_trade demo_params demo_trade \<lparr>ti_market_id = Some ''m1'', ti_window_start = Some 0,
    ti_window_end = Some 90, ti_source = ''PAPER_TRADE_SNAPSHOT''\<rparr> demo_responses = Inr demo_result"
    by (simp add: resolve_trade_def a resolve_settlement_def checked_def market_metadata_by_id_def clob_market_by_condition_def
      demo_responses_def object_or_none_def opt_text_def demo_parsed(1) docs del: require_text_None)
  show "ofs_status demo_result = SETTLED" "ofs_winner demo_result = Some UP" "ofs_resolved_at demo_result = Some 0"
    "ofs_evidence_hash demo_result = ''hash''" "ofs_source_kind demo_result = ''OFFICIAL''" "ofs_reason demo_result = ''OFFICIAL_FINAL''"
    "ofs_source demo_result = ''POLYMARKET_GAMMA_MARKET_ID_AND_CLOB_CONDITION''"
    by (simp_all add: demo_parsed(2) official_result_def)
qed

definition demo_row :: paper_settlement where
  "demo_row = settlement_row demo_params demo_trade demo_result UP 100 10 4"

lemma demo_settled: "\<exists>r. settle_trade demo_params demo_book demo_trade demo_result 100 = (r, Inr ())
    \<and> map fst (repo_settlements r) = [''t2''] \<and> repo_attempts r = []"
proof -
  have d: "decimal_from_payload demo_params demo_trade = Inr (Fin 10)" "cost_basis demo_trade = Inr 4"
    by (simp_all add: decimal_from_payload_def demo_params_def cost_basis_def)
  have checks: "first_error (trade_settlement_checks demo_row) = None" and id: "pst_trade_id demo_row = ''t2''"
    by (simp_all add: trade_settlement_checks_def demo_row_def settlement_row_def demo_resolved Let_def fail_if_def require_decimal_def del: require_text_None)
  have "\<exists>r y. save_settlement_once demo_book demo_row = (r, Inr y) \<and> map fst (repo_settlements r) = [''t2''] \<and> repo_attempts r = []"
    by (simp add: save_settlement_once_def checks id Let_def row_insert_def settlement_for_trade_def checked_def del: require_text_None)
  then obtain r y where "save_settlement_once demo_book demo_row = (r, Inr y)" "map fst (repo_settlements r) = [''t2'']"
    "repo_attempts r = []" by (elim exE conjE) (rule that)
  then show ?thesis by (simp add: settle_trade_def demo_resolved d demo_row_def)
qed

lemma demo_pass_settles: "\<exists>r corpus x. demo_pass = ((r, corpus), x) \<and> map fst (repo_settlements r) = [''t2'']"
proof -
  let ?i = "\<lparr>ti_market_id = Some ''m1'', ti_window_start = Some 0, ti_window_end = Some 90, ti_source = ''PAPER_TRADE_SNAPSHOT''\<rparr>"
  have i: "effective_identity_of demo_params demo_service empty_corpus demo_book demo_trade 100 demo_responses = (demo_book, Inr (Recovered ?i))"
    by (simp add: effective_identity_of_def identity_overlay_of_def checked_def trade_market_id_def Let_def del: require_text_None)
  obtain r1 where "settle_trade demo_params demo_book demo_trade demo_result 100 = (r1, Inr ())
    \<and> map fst (repo_settlements r1) = [''t2''] \<and> repo_attempts r1 = []" using demo_settled ..
  then have r1: "settle_trade demo_params demo_book demo_trade demo_result 100 = (r1, Inr ())"
    "map fst (repo_settlements r1) = [''t2'']" "repo_attempts r1 = []" by simp_all
  have a: "\<exists>r2 z. record_attempt r1 ''c2'' ''SETTLED'' 100 ''OFFICIAL_FINAL'' 1 None (Some 100) = (r2, Inr z)
      \<and> repo_settlements r2 = repo_settlements r1"
    by (simp add: record_attempt_def save_settlement_condition_attempt_def r1(3) Let_def row_upsert_def settlement_attempt_of_def
      checked_def del: require_text_None)
  then have "\<exists>r2 z. record_attempt r1 ''c2'' ''SETTLED'' 100 ''OFFICIAL_FINAL'' (Suc 0) None (Some 100) = (r2, Inr z)
      \<and> repo_settlements r2 = repo_settlements r1" by simp
  then obtain r2 z where r2: "record_attempt r1 ''c2'' ''SETTLED'' 100 ''OFFICIAL_FINAL'' (Suc 0) None (Some 100) = (r2, Inr z)"
    "repo_settlements r2 = repo_settlements r1" by (elim exE conjE) (rule that)
  have max: "ss_max_conditions demo_service = 25" "ss_max_trades demo_service = 500" "\<not> ss_corpus demo_service"
    by (simp_all add: demo_service_def)
  have "\<exists>p. settle_condition demo_params demo_service 100 demo_responses [demo_trade] ''c2'' demo_book empty_corpus empty_settlement_report
      = ((r2, empty_corpus), Inr p)"
    by (simp add: settle_condition_def i attempt_condition_def attempt_body_def demo_resolved(1) settle_resolved_def demo_resolved r1(1)
      label_corpus_def max r2(1) Let_def)
  then obtain p where p: "settle_condition demo_params demo_service 100 demo_responses [demo_trade] ''c2'' demo_book empty_corpus
      empty_settlement_report = ((r2, empty_corpus), Inr p)" ..
  have due: "due_settlement_conditions demo_book [''c2''] 100 = Inr [''c2'']"
    by (simp add: due_settlement_conditions_def checked_def del: require_text_None)
  have e: "srp_attempted empty_settlement_report = []" by (simp add: empty_settlement_report_def)
  show ?thesis
    by (simp add: demo_pass_def settlement_run_once_def demo_candidates due max e p r2(2) r1(2) Let_def)
qed

theorem official_settlement_is_fail_closed_witness:
  "official_tokens final_clob UP \<and> \<not> official_tokens final_clob DOWN \<and> ofs_market_id demo_result = ''m1''
    \<and> documents_final demo_params final_gamma final_clob ''c2'' ''m1''"
proof -
  let ?q = "\<lparr>rq_condition_id = ''c2'', rq_asset = BTC, rq_horizon = FIVE_MINUTES\<rparr>"
  have tokens: "official_tokens final_clob x \<longleftrightarrow> x = UP" for x
    using winner_from_clob_iff [of final_clob x] demo_winner by (simp add: eq_commute)
  from official_settlement_is_fail_closed [OF demo_parsed(1)]
  show ?thesis by (simp add: demo_resolved(2) tokens)
qed

theorem settlement_pass_pays_official_winners_witness:
  "\<exists>r s. fst (fst demo_pass) = r \<and> repo_settlements r = [(''t2'', s)] \<and> pst_win_loss s = ''WIN'' \<and> pst_payout s = 10"
proof -
  obtain r corpus x where p: "demo_pass = ((r, corpus), x)" "map fst (repo_settlements r) = [''t2'']"
    using demo_pass_settles by (elim exE conjE) (rule that)
  have "0 \<le> ss_max_conditions demo_service" by (simp add: demo_service_def)
  from settlement_pass_pays_official_winners [OF demo_candidates this p(1) [unfolded demo_pass_def]]
  have "\<forall>ks\<in>set (repo_settlements r). paid_correctly demo_params 100 (\<lambda>_. demo_responses) [demo_trade] ks" by auto
  moreover obtain s where s: "repo_settlements r = [(''t2'', s)]" using p(2) by (cases "repo_settlements r") auto
  ultimately have "paid_correctly demo_params 100 (\<lambda>_. demo_responses) [demo_trade] (''t2'', s)" by simp
  then obtain w shares where w: "officially_won demo_params demo_responses ''c2'' w" "decimal_from_payload demo_params demo_trade = Inr (Fin shares)"
    "pst_win_loss s = (if ptr_side demo_trade = side_text w then ''WIN'' else ''LOSS'')"
    "pst_payout s = (if ptr_side demo_trade = side_text w then shares else 0)"
    unfolding paid_correctly_def by auto
  have "official_tokens final_clob w" using w(1) by (auto simp: officially_won_def demo_responses_def)
  then have "fst (winner_from_clob_tokens final_clob) = Some w" by (simp add: winner_from_clob_iff)
  moreover have "fst (winner_from_clob_tokens final_clob) = Some UP" using demo_winner by simp
  ultimately have "w = UP" by simp
  moreover have "shares = 10" using w(2) by (simp add: decimal_from_payload_def demo_params_def)
  ultimately show ?thesis using s w(3,4) by (simp add: p(1))
qed

end
