(* ===== verification/Directional.thy ===== *)
theory Directional
  imports Models Price_To_Beat Pricing
begin

text \<open>
  \<open>features/directional.py\<close> and \<open>strategies/directional/strategy.py\<close>: the external feature vector, the
  decision \<open>assess_directional_edge\<close>, and the audit trace of its gates. The nine arguments of a
  decision are the record \<open>directional_call\<close>. The reference for the decision is the table of its
  gates in code order (\<open>strategy_gates\<close>): the assessment is the first unmet gate
  (\<open>assess_by_gates\<close>), and the audit marks exactly the gates before it as passed.
\<close>

section \<open>Features\<close>

record external_snapshot =
  xs_reference :: any_reference
  xs_short_return :: dec
  xs_medium_return :: dec
  xs_momentum :: dec
  xs_volatility :: dec
  xs_volatility_acceleration :: dec
  xs_basis :: dec
  xs_book_imbalance :: dec
  xs_microprice_distance :: dec
  xs_trade_imbalance :: dec
  xs_stability :: dec
  xs_flip_rate :: dec
  xs_regime :: dec
  xs_source :: string
  xs_source_ts :: utc

definition external_snapshot_checks :: "external_snapshot \<Rightarrow> check list" where
  "external_snapshot_checks s =
     [fail_if (xs_volatility s < 0) (ValueErr ''realized_volatility must be non-negative''),
      fail_if (\<not> (0 \<le> xs_stability s \<and> xs_stability s \<le> 1))
        (ValueErr ''signal_stability must be between zero and one''),
      fail_if (\<not> (0 \<le> xs_flip_rate s \<and> xs_flip_rate s \<le> 1))
        (ValueErr ''flip_rate must be between zero and one''),
      require_text ''source'' (xs_source s)]"

definition mk_external_snapshot :: "external_snapshot \<Rightarrow> external_snapshot result" where
  "mk_external_snapshot s = checked (external_snapshot_checks s) (Inr s)"

definition external_feature_values :: "dec \<Rightarrow> dec \<Rightarrow> external_snapshot \<Rightarrow> (string \<times> dec) list" where
  "external_feature_values ptb_distance tte s =
     [(''ptb_normalized_distance'', ptb_distance), (''tte_fraction'', tte),
      (''short_return'', xs_short_return s), (''medium_return'', xs_medium_return s),
      (''momentum'', xs_momentum s), (''realized_volatility'', xs_volatility s),
      (''volatility_acceleration'', xs_volatility_acceleration s), (''spot_perp_basis'', xs_basis s),
      (''external_book_imbalance'', xs_book_imbalance s),
      (''microprice_distance'', xs_microprice_distance s), (''trade_imbalance'', xs_trade_imbalance s),
      (''signal_stability'', xs_stability s), (''flip_rate'', xs_flip_rate s),
      (''regime_score'', xs_regime s)]"

definition mk_feature_value :: "feature_value \<Rightarrow> feature_value result" where
  "mk_feature_value f = checked (feature_value_checks f) (Inr f)"

text \<open>\<open>tte / horizon\<close> divides two durations into a float, whose text \<open>Decimal\<close> reads.\<close>

definition build_directional_features :: "market \<Rightarrow> ptb_record \<Rightarrow> external_snapshot \<Rightarrow> utc \<Rightarrow> string \<Rightarrow>
    feature_vector result" where
  "build_directional_features m ptb s generated_at version =
     (let ref = any_fields (xs_reference s);
          tte = mkt_window_end m - generated_at;
          distance = ddiv (dsub (ref_value ref) (ptb_value ptb)) (ptb_value ptb);
          tte_fraction = decimal_of_float (fl (of_int tte / of_int (expected_duration (mkt_horizon m)))) in
      checked
        [require_text ''feature_set_version'' version,
         fail_if (ref_market_id (ptb_reference ptb) \<noteq> mkt_id m) (ValueErr ''price-to-beat market identity mismatch''),
         fail_if (ptb_condition_id ptb \<noteq> mkt_condition_id m) (ValueErr ''price-to-beat condition identity mismatch''),
         fail_if (ref_market_id ref \<noteq> mkt_id m \<or> ref_asset ref \<noteq> mkt_asset m)
           (ValueErr ''current reference identity mismatch''),
         fail_if (generated_at < xs_source_ts s \<or> generated_at < ref_source_ts ref)
           (ValueErr ''external feature data cannot come from the future''),
         fail_if (fl (of_int tte / 1000000) \<le> 0 \<or> generated_at < mkt_window_start m)
           (ValueErr ''feature generation requires an active canonical market'')]
        (bindr (mapr (\<lambda>(name, v). mk_feature_value \<lparr>feat_name = name, feat_value = v,
              feat_source = xs_source s, feat_source_ts = xs_source_ts s\<rparr>)
            (external_feature_values distance tte_fraction s)) (\<lambda>features.
         mk_feature_vector \<lparr>fvec_market_id = mkt_id m, fvec_asset = mkt_asset m,
           fvec_horizon = mkt_horizon m, fvec_version = version, fvec_features = features,
           fvec_generated_at = generated_at\<rparr>)))"

section \<open>The decision\<close>

record directional_policy =
  dp_minimum_edge :: dec
  dp_uncertainty :: dec
  dp_minimum_stability :: dec
  dp_maximum_flip_rate :: dec
  dp_max_forecast_age :: timedelta

definition directional_policy_checks :: "directional_policy \<Rightarrow> check list" where
  "directional_policy_checks p =
     [in_unit ''minimum_net_edge'' (dp_minimum_edge p), in_unit ''uncertainty_buffer'' (dp_uncertainty p),
      in_unit ''minimum_signal_stability'' (dp_minimum_stability p),
      in_unit ''maximum_flip_rate'' (dp_maximum_flip_rate p),
      fail_if (dp_max_forecast_age p \<le> 0) (ValueErr ''max_forecast_age must be positive'')]"

definition valid_directional_policy :: "directional_policy \<Rightarrow> bool" where
  "valid_directional_policy p \<longleftrightarrow> passes (directional_policy_checks p)"

record directional_assessment =
  asm_action :: decision_action
  asm_market_id :: string
  asm_reason :: string
  asm_observed_at :: utc
  asm_side :: "outcome_side option"
  asm_probability :: "dec option"
  asm_cost :: "dec option"
  asm_net_edge :: "dec option"
  asm_candidate :: "strategy_candidate option"

definition assessment_checks :: "directional_assessment \<Rightarrow> check list" where
  "assessment_checks a =
     [require_text ''market_id'' (asm_market_id a), require_text ''reason'' (asm_reason a),
      fail_if (asm_action a = ABSTAIN \<and> asm_candidate a \<noteq> None) (ValueErr ''ABSTAIN cannot carry a candidate''),
      fail_if (asm_action a = TRADE \<and> asm_candidate a = None) (ValueErr ''TRADE requires a candidate'')]"

definition mk_assessment :: "directional_assessment \<Rightarrow> directional_assessment result" where
  "mk_assessment a = checked (assessment_checks a) (Inr a)"

definition abstain_assessment :: "market \<Rightarrow> utc \<Rightarrow> string \<Rightarrow> directional_assessment result" where
  "abstain_assessment m t reason =
     mk_assessment \<lparr>asm_action = ABSTAIN, asm_market_id = mkt_id m, asm_reason = reason, asm_observed_at = t,
       asm_side = None, asm_probability = None, asm_cost = None, asm_net_edge = None, asm_candidate = None\<rparr>"

definition identity_checks :: "market \<Rightarrow> ptb_record \<Rightarrow> feature_vector \<Rightarrow> probability_forecast \<Rightarrow>
    calibration_readiness \<Rightarrow> check list" where
  "identity_checks m ptb v f c =
     [fail_if (ref_market_id (ptb_reference ptb) \<noteq> mkt_id m \<or> ptb_condition_id ptb \<noteq> mkt_condition_id m)
        (ValueErr ''price-to-beat identity mismatch''),
      fail_if (fvec_market_id v \<noteq> mkt_id m \<or> fvec_asset v \<noteq> mkt_asset m \<or> fvec_horizon v \<noteq> mkt_horizon m)
        (ValueErr ''features identity mismatch''),
      fail_if (fc_market_id f \<noteq> mkt_id m \<or> fc_asset f \<noteq> mkt_asset m \<or> fc_horizon f \<noteq> mkt_horizon m)
        (ValueErr ''forecast identity mismatch''),
      fail_if (fc_feature_set_version f \<noteq> fvec_version v) (ValueErr ''forecast feature schema mismatch''),
      fail_if (cr_asset c \<noteq> mkt_asset m \<or> cr_horizon c \<noteq> mkt_horizon m) (ValueErr ''calibration bucket mismatch''),
      fail_if (cr_version c \<noteq> fc_calibration_version f) (ValueErr ''calibration version mismatch'')]"

definition forecast_side :: "probability_forecast \<Rightarrow> outcome_side" where
  "forecast_side f = (if fc_p_down f < fc_p_up f then UP else DOWN)"

definition side_probability :: "probability_forecast \<Rightarrow> dec" where
  "side_probability f = (if forecast_side f = UP then fc_p_up f else fc_p_down f)"

record directional_call =
  dc_market :: market
  dc_ptb :: "ptb_record option"
  dc_features :: "feature_vector option"
  dc_forecast :: "probability_forecast option"
  dc_calibration :: "calibration_readiness option"
  dc_up :: "depth_simulation option"
  dc_down :: "depth_simulation option"
  dc_at :: utc
  dc_policy :: directional_policy

definition side_pricing :: "directional_call \<Rightarrow> probability_forecast \<Rightarrow> depth_simulation option" where
  "side_pricing d f = (if forecast_side f = UP then dc_up d else dc_down d)"

definition directional_candidate :: "directional_call \<Rightarrow> probability_forecast \<Rightarrow> depth_simulation \<Rightarrow> dec \<Rightarrow> dec \<Rightarrow>
    strategy_candidate" where
  "directional_candidate d f pricing cost net_edge = (let m = dc_market d; t = dc_at d in
     \<lparr>cand_id = mkt_condition_id m @ '':DIRECTIONAL:'' @ show_int (int_timestamp_ms t),
      cand_strategy = DIRECTIONAL_EDGE, cand_market_id = mkt_id m,
      cand_required_capital = dmul cost (sim_filled pricing),
      cand_expected_net_value = dmul net_edge (sim_filled pricing),
      cand_quality_score = side_probability f, cand_created_at = t,
      cand_expires_at = min (mkt_window_end m) (t + dp_max_forecast_age (dc_policy d)),
      cand_outcome_side = Some (forecast_side f)\<rparr>)"

text \<open>The body after the identity checks, and after the price is known.\<close>

definition assess_priced :: "directional_call \<Rightarrow> probability_forecast \<Rightarrow> depth_simulation \<Rightarrow> dec \<Rightarrow>
    directional_assessment result" where
  "assess_priced d f pricing cost = (let m = dc_market d; t = dc_at d; p = dc_policy d in
     if sim_condition_id pricing \<noteq> mkt_condition_id m
         \<or> Some (sim_token_id pricing) \<noteq> token_by_side m (forecast_side f)
     then abstain_assessment m t ''EXECUTABLE_PRICE_IDENTITY_MISMATCH''
     else let net_edge = dsub (dsub (side_probability f) cost) (dp_uncertainty p) in
       if net_edge < dp_minimum_edge p
       then mk_assessment \<lparr>asm_action = ABSTAIN, asm_market_id = mkt_id m,
         asm_reason = ''NET_EDGE_BELOW_MINIMUM'', asm_observed_at = t, asm_side = Some (forecast_side f),
         asm_probability = Some (side_probability f), asm_cost = Some cost, asm_net_edge = Some net_edge,
         asm_candidate = None\<rparr>
       else bindr (mk_candidate (directional_candidate d f pricing cost net_edge)) (\<lambda>c.
         mk_assessment \<lparr>asm_action = TRADE, asm_market_id = mkt_id m,
           asm_reason = ''PRE_RISK_CANDIDATE'', asm_observed_at = t, asm_side = Some (forecast_side f),
           asm_probability = Some (side_probability f), asm_cost = Some cost, asm_net_edge = Some net_edge,
           asm_candidate = Some c\<rparr>))"

definition assess_identified :: "directional_call \<Rightarrow> feature_vector \<Rightarrow> probability_forecast \<Rightarrow>
    directional_assessment result" where
  "assess_identified d v f = (let m = dc_market d; t = dc_at d; p = dc_policy d; age = t - fc_generated_at f in
     if age < 0 \<or> dp_max_forecast_age p < age then abstain_assessment m t ''FORECAST_STALE_OR_FUTURE''
     else case (feature_map v ''signal_stability'', feature_map v ''flip_rate'') of
         (Some stability, Some flip_rate) \<Rightarrow>
           if stability < dp_minimum_stability p then abstain_assessment m t ''SIGNAL_UNSTABLE''
           else if dp_maximum_flip_rate p < flip_rate then abstain_assessment m t ''FLIP_RATE_TOO_HIGH''
           else if fc_p_up f = fc_p_down f then abstain_assessment m t ''NO_DIRECTIONAL_SIDE''
           else (case side_pricing d f of
               None \<Rightarrow> abstain_assessment m t ''EXECUTABLE_PRICE_UNAVAILABLE''
             | Some pricing \<Rightarrow>
                 if sim_fill_fraction pricing \<noteq> 1 then abstain_assessment m t ''EXECUTABLE_PRICE_UNAVAILABLE''
                 else (case sim_all_in pricing of
                     None \<Rightarrow> abstain_assessment m t ''EXECUTABLE_PRICE_UNAVAILABLE''
                   | Some cost \<Rightarrow> assess_priced d f pricing cost))
       | _ \<Rightarrow> abstain_assessment m t ''SIGNAL_QUALITY_FEATURES_MISSING'')"

definition assess_directional_edge :: "directional_call \<Rightarrow> directional_assessment result" where
  "assess_directional_edge d = (let m = dc_market d; t = dc_at d in
     if t < mkt_window_start m \<or> mkt_window_end m \<le> t then abstain_assessment m t ''MARKET_NOT_ACTIVE''
     else case dc_ptb d of
         None \<Rightarrow> abstain_assessment m t ''OFFICIAL_PTB_UNAVAILABLE''
       | Some ptb \<Rightarrow> (case dc_features d of
           None \<Rightarrow> abstain_assessment m t ''FEATURES_UNAVAILABLE''
         | Some v \<Rightarrow> (case dc_forecast d of
             None \<Rightarrow> abstain_assessment m t ''MODEL_UNAVAILABLE''
           | Some f \<Rightarrow> (case dc_calibration d of
               None \<Rightarrow> abstain_assessment m t ''CALIBRATION_NOT_READY''
             | Some c \<Rightarrow>
                 if \<not> cr_ready c then abstain_assessment m t ''CALIBRATION_NOT_READY''
                 else checked (identity_checks m ptb v f c) (assess_identified d v f)))))"

section \<open>The audit trace\<close>

datatype gate_status = GATE_PASS | GATE_FAIL | GATE_NOT_REACHED

definition gate_order :: "string list" where
  "gate_order = [''MARKET_GATE'', ''PTB_GATE'', ''FEATURE_GATE'', ''MODEL_GATE'', ''CALIBRATION_GATE'',
     ''IDENTITY_GATE'', ''FORECAST_FRESHNESS_GATE'', ''SIGNAL_STABILITY_GATE'', ''FLIP_RATE_GATE'',
     ''DIRECTION_GATE'', ''PRICING_GATE'', ''PRICING_IDENTITY_GATE'', ''NET_EDGE_GATE'', ''RISK_GATE'',
     ''EXECUTION_GATE'']"

definition reason_to_gate :: "string \<rightharpoonup> string" where
  "reason_to_gate = map_of
     [(''MARKET_NOT_ACTIVE'', ''MARKET_GATE''), (''OFFICIAL_PTB_UNAVAILABLE'', ''PTB_GATE''),
      (''FEATURES_UNAVAILABLE'', ''FEATURE_GATE''), (''MODEL_UNAVAILABLE'', ''MODEL_GATE''),
      (''CALIBRATION_NOT_READY'', ''CALIBRATION_GATE''),
      (''FORECAST_STALE_OR_FUTURE'', ''FORECAST_FRESHNESS_GATE''),
      (''SIGNAL_QUALITY_FEATURES_MISSING'', ''SIGNAL_STABILITY_GATE''),
      (''SIGNAL_UNSTABLE'', ''SIGNAL_STABILITY_GATE''), (''FLIP_RATE_TOO_HIGH'', ''FLIP_RATE_GATE''),
      (''NO_DIRECTIONAL_SIDE'', ''DIRECTION_GATE''), (''EXECUTABLE_PRICE_UNAVAILABLE'', ''PRICING_GATE''),
      (''EXECUTABLE_PRICE_IDENTITY_MISMATCH'', ''PRICING_IDENTITY_GATE''),
      (''NET_EDGE_BELOW_MINIMUM'', ''NET_EDGE_GATE'')]"

text \<open>The loop over the gates, its local \<open>failed\<close> as an argument.\<close>

fun gate_loop :: "string option \<Rightarrow> bool \<Rightarrow> string list \<Rightarrow> (string \<times> gate_status) list" where
  "gate_loop first failed [] = []"
| "gate_loop first failed (g # gs) =
     (if first = None then
        (g, if g \<notin> {''RISK_GATE'', ''EXECUTION_GATE''} then GATE_PASS else GATE_NOT_REACHED) # gate_loop first failed gs
      else if failed then (g, GATE_NOT_REACHED) # gate_loop first failed gs
      else if first = Some g then (g, GATE_FAIL) # gate_loop first True gs
      else (g, GATE_PASS) # gate_loop first failed gs)"

definition set_gate :: "string \<Rightarrow> gate_status \<Rightarrow> (string \<times> gate_status) list \<Rightarrow> (string \<times> gate_status) list" where
  "set_gate g s gates = map (\<lambda>(h, r). (h, if h = g then s else r)) gates"

definition gate_statuses :: "string option \<Rightarrow> decision_action \<Rightarrow> (string \<times> gate_status) list" where
  "gate_statuses first action = (let gates = gate_loop first False gate_order in
     if action = TRADE then set_gate ''NET_EDGE_GATE'' GATE_PASS gates else gates)"

text \<open>What the caller reports of risk and execution, if it got there.\<close>

record directional_execution =
  de_risk_approved :: "bool option"
  de_paper_fill :: bool

definition execution_gates :: "directional_execution option \<Rightarrow> (string \<times> gate_status) list \<Rightarrow>
    (string \<times> gate_status) list" where
  "execution_gates e gates = (case e of None \<Rightarrow> gates
     | Some x \<Rightarrow> (case de_risk_approved x of
           Some True \<Rightarrow> set_gate ''EXECUTION_GATE'' (if de_paper_fill x then GATE_PASS else GATE_NOT_REACHED)
             (set_gate ''RISK_GATE'' GATE_PASS gates)
         | Some False \<Rightarrow> set_gate ''EXECUTION_GATE'' GATE_NOT_REACHED (set_gate ''RISK_GATE'' GATE_FAIL gates)
         | None \<Rightarrow> gates))"

record pricing_audit =
  pa_selected_cost :: "dec option"
  pa_selected_token :: "string option"
  pa_raw_edge :: "dec option"
  pa_net_edge :: "dec option"
  pa_edge_margin :: "dec option"

definition mk_pricing_audit :: "directional_call \<Rightarrow> directional_assessment \<Rightarrow> pricing_audit" where
  "mk_pricing_audit d a =
     (let selected = (case asm_side a of Some UP \<Rightarrow> dc_up d | Some DOWN \<Rightarrow> dc_down d | None \<Rightarrow> None);
          cost = Option.bind selected sim_all_in;
          raw = (case (asm_probability a, cost) of (Some p, Some c) \<Rightarrow> Some (dsub p c) | _ \<Rightarrow> None);
          net = map_option (\<lambda>r. dsub r (dp_uncertainty (dc_policy d))) raw in
      \<lparr>pa_selected_cost = cost,
       pa_selected_token = Option.bind (asm_side a) (token_by_side (dc_market d)),
       pa_raw_edge = raw, pa_net_edge = net,
       pa_edge_margin = map_option (\<lambda>n. dsub n (dp_minimum_edge (dc_policy d))) net\<rparr>)"

record decision_audit =
  da_decision :: decision_action
  da_reason :: string
  da_first_failing :: "string option"
  da_gates :: "(string \<times> gate_status) list"
  da_pricing :: pricing_audit
  da_edge_margin :: "dec option"

definition build_directional_decision_audit :: "directional_call \<Rightarrow> directional_assessment \<Rightarrow>
    directional_execution option \<Rightarrow> decision_audit" where
  "build_directional_decision_audit d a e =
     (let first = reason_to_gate (asm_reason a) in
      \<lparr>da_decision = asm_action a, da_reason = asm_reason a, da_first_failing = first,
       da_gates = execution_gates e (gate_statuses first (asm_action a)),
       da_pricing = mk_pricing_audit d a,
       da_edge_margin = map_option (\<lambda>n. dsub n (dp_minimum_edge (dc_policy d))) (asm_net_edge a)\<rparr>)"

section \<open>The gates as a table\<close>

text \<open>
  Every gate of the decision, in the order of the code, with the reason an unmet gate gives. The table
  states its conditions on the data alone and shares no definition with the code: the side is the
  likelier one, and the five inputs describe one market when the identities below agree.
\<close>

definition identities_agree :: "market \<Rightarrow> ptb_record \<Rightarrow> feature_vector \<Rightarrow> probability_forecast \<Rightarrow>
    calibration_readiness \<Rightarrow> bool" where
  "identities_agree m ptb v f c \<longleftrightarrow>
     ref_market_id (ptb_reference ptb) = mkt_id m \<and> ptb_condition_id ptb = mkt_condition_id m
     \<and> fvec_market_id v = mkt_id m \<and> fc_market_id f = mkt_id m
     \<and> {fvec_asset v, fc_asset f, cr_asset c} = {mkt_asset m}
     \<and> {fvec_horizon v, fc_horizon f, cr_horizon c} = {mkt_horizon m}
     \<and> fc_feature_set_version f = fvec_version v \<and> cr_version c = fc_calibration_version f"

definition likelier_side :: "probability_forecast \<Rightarrow> outcome_side" where
  "likelier_side f = (if fc_p_up f \<le> fc_p_down f then DOWN else UP)"

definition likelier_probability :: "probability_forecast \<Rightarrow> dec" where
  "likelier_probability f = max (fc_p_up f) (fc_p_down f)"

definition likelier_pricing :: "directional_call \<Rightarrow> probability_forecast \<Rightarrow> depth_simulation option" where
  "likelier_pricing d f = (case likelier_side f of UP \<Rightarrow> dc_up d | DOWN \<Rightarrow> dc_down d)"

lemma identities_agree_checks: "identities_agree m ptb v f c \<longleftrightarrow> passes (identity_checks m ptb v f c)"
  unfolding identities_agree_def identity_checks_def by (auto simp: fail_if_def)

lemma likelier [simp]:
  "likelier_side f = forecast_side f" "likelier_probability f = side_probability f"
  "likelier_pricing d f = side_pricing d f"
  by (auto simp: likelier_side_def forecast_side_def likelier_probability_def side_probability_def
    likelier_pricing_def side_pricing_def)

definition pricing_gates :: "directional_call \<Rightarrow> probability_forecast \<Rightarrow> (string \<times> string \<times> bool) list" where
  "pricing_gates d f =
     (let m = dc_market d; p = dc_policy d; s = the (likelier_pricing d f); cost = the (sim_all_in s) in
      [(''PRICING_GATE'', ''EXECUTABLE_PRICE_UNAVAILABLE'',
          likelier_pricing d f \<noteq> None \<and> sim_fill_fraction s = 1 \<and> sim_all_in s \<noteq> None),
       (''PRICING_IDENTITY_GATE'', ''EXECUTABLE_PRICE_IDENTITY_MISMATCH'',
          sim_condition_id s = mkt_condition_id m \<and> token_by_side m (likelier_side f) = Some (sim_token_id s)),
       (''NET_EDGE_GATE'', ''NET_EDGE_BELOW_MINIMUM'',
          dp_minimum_edge p \<le> dsub (dsub (likelier_probability f) cost) (dp_uncertainty p))])"

definition forecast_gates :: "directional_call \<Rightarrow> feature_vector \<Rightarrow> probability_forecast \<Rightarrow> (string \<times> string \<times> bool) list" where
  "forecast_gates d v f =
     (let p = dc_policy d; age = dc_at d - fc_generated_at f;
          stability = feature_map v ''signal_stability''; flip_rate = feature_map v ''flip_rate'' in
      [(''FORECAST_FRESHNESS_GATE'', ''FORECAST_STALE_OR_FUTURE'', 0 \<le> age \<and> age \<le> dp_max_forecast_age p),
       (''SIGNAL_STABILITY_GATE'', ''SIGNAL_QUALITY_FEATURES_MISSING'', stability \<noteq> None \<and> flip_rate \<noteq> None),
       (''SIGNAL_STABILITY_GATE'', ''SIGNAL_UNSTABLE'', dp_minimum_stability p \<le> the stability),
       (''FLIP_RATE_GATE'', ''FLIP_RATE_TOO_HIGH'', the flip_rate \<le> dp_maximum_flip_rate p),
       (''DIRECTION_GATE'', ''NO_DIRECTIONAL_SIDE'', fc_p_up f \<noteq> fc_p_down f)])"

definition input_gates :: "directional_call \<Rightarrow> (string \<times> string \<times> bool) list" where
  "input_gates d =
     (let m = dc_market d in
      [(''MARKET_GATE'', ''MARKET_NOT_ACTIVE'', mkt_window_start m \<le> dc_at d \<and> dc_at d < mkt_window_end m),
       (''PTB_GATE'', ''OFFICIAL_PTB_UNAVAILABLE'', dc_ptb d \<noteq> None),
       (''FEATURE_GATE'', ''FEATURES_UNAVAILABLE'', dc_features d \<noteq> None),
       (''MODEL_GATE'', ''MODEL_UNAVAILABLE'', dc_forecast d \<noteq> None),
       (''CALIBRATION_GATE'', ''CALIBRATION_NOT_READY'', dc_calibration d \<noteq> None \<and> cr_ready (the (dc_calibration d))),
       (''IDENTITY_GATE'', '''', identities_agree m (the (dc_ptb d)) (the (dc_features d))
          (the (dc_forecast d)) (the (dc_calibration d)))])"

definition strategy_gates :: "directional_call \<Rightarrow> (string \<times> string \<times> bool) list" where
  "strategy_gates d = input_gates d @ forecast_gates d (the (dc_features d)) (the (dc_forecast d))
     @ pricing_gates d (the (dc_forecast d))"

definition first_unmet :: "(string \<times> string \<times> bool) list \<Rightarrow> (string \<times> string) option" where
  "first_unmet gates = map_option (\<lambda>(g, r, ok). (g, r)) (find (\<lambda>(g, r, ok). \<not> ok) gates)"

lemma first_unmet_simps [simp]:
  "first_unmet [] = None"
  "first_unmet ((g, r, ok) # gs) = (if ok then first_unmet gs else Some (g, r))"
  by (simp_all add: first_unmet_def)

lemma first_unmet_append: "first_unmet (gs @ hs) = (case first_unmet gs of None \<Rightarrow> first_unmet hs | Some x \<Rightarrow> Some x)"
  by (induction gs) auto

definition call_ok :: "directional_call \<Rightarrow> bool" where
  "call_ok d \<longleftrightarrow> valid_market (dc_market d) \<and> valid_directional_policy (dc_policy d)
     \<and> pred_option valid_forecast (dc_forecast d)
     \<and> pred_option valid_simulation (dc_up d) \<and> pred_option valid_simulation (dc_down d)"

text \<open>The assessment a decision must be, given its first unmet gate.\<close>

definition priced_edge :: "directional_call \<Rightarrow> probability_forecast \<Rightarrow> directional_assessment \<Rightarrow> bool" where
  "priced_edge d f a \<longleftrightarrow> (\<exists>s cost. asm_side a = Some (likelier_side f) \<and> asm_probability a = Some (likelier_probability f)
     \<and> likelier_pricing d f = Some s \<and> sim_all_in s = Some cost \<and> asm_cost a = Some cost
     \<and> asm_net_edge a = Some (dsub (dsub (likelier_probability f) cost) (dp_uncertainty (dc_policy d))))"

definition abstains_for :: "directional_call \<Rightarrow> string \<Rightarrow> directional_assessment result \<Rightarrow> bool" where
  "abstains_for d reason r \<longleftrightarrow> (\<exists>a. r = Inr a \<and> asm_action a = ABSTAIN \<and> asm_reason a = reason
     \<and> asm_candidate a = None \<and> asm_observed_at a = dc_at d \<and> asm_market_id a = mkt_id (dc_market d)
     \<and> (if reason = ''NET_EDGE_BELOW_MINIMUM'' then priced_edge d (the (dc_forecast d)) a
        else asm_side a = None \<and> asm_net_edge a = None))"

definition trades_with :: "directional_call \<Rightarrow> probability_forecast \<Rightarrow> directional_assessment result \<Rightarrow> bool" where
  "trades_with d f r \<longleftrightarrow> (\<exists>a c. r = Inr a \<and> asm_action a = TRADE \<and> asm_reason a = ''PRE_RISK_CANDIDATE''
     \<and> asm_candidate a = Some c \<and> valid_candidate c \<and> cand_strategy c = DIRECTIONAL_EDGE
     \<and> cand_market_id c = mkt_id (dc_market d) \<and> cand_outcome_side c = Some (likelier_side f)
     \<and> cand_quality_score c = likelier_probability f \<and> priced_edge d f a \<and> cand_created_at c = dc_at d
     \<and> cand_expires_at c = min (mkt_window_end (dc_market d)) (dc_at d + dp_max_forecast_age (dc_policy d))
     \<and> dp_minimum_edge (dc_policy d) \<le> the (asm_net_edge a)
     \<and> cand_required_capital c = dmul (the (asm_cost a)) (sim_filled (the (likelier_pricing d f)))
     \<and> cand_expected_net_value c = dmul (the (asm_net_edge a)) (sim_filled (the (likelier_pricing d f))))"

lemma abstain_ok:
  assumes "valid_market (dc_market d)" "require_text ''reason'' reason = None" "reason \<noteq> ''NET_EDGE_BELOW_MINIMUM''"
  shows "abstains_for d reason (abstain_assessment (dc_market d) (dc_at d) reason)"
  using assms by (simp add: abstains_for_def abstain_assessment_def mk_assessment_def assessment_checks_def
    valid_market_def market_checks_def)

lemma reasons_text:
  "\<forall>r\<in>set (map (\<lambda>(g, r, ok). r) (strategy_gates d)). r = '''' \<or> require_text ''reason'' r = None"
  by (simp add: strategy_gates_def input_gates_def forecast_gates_def pricing_gates_def Let_def py_space_def)

lemma side_probability_unit: "valid_forecast f \<Longrightarrow> 0 \<le> side_probability f \<and> side_probability f \<le> 1"
  by (auto simp: valid_forecast_def forecast_checks_def side_probability_def)

lemma filled_pos:
  assumes "valid_simulation s" "sim_fill_fraction s = 1" shows "0 < sim_filled s"
proof -
  have "0 \<le> sim_filled s" "sim_fill_fraction s = (if 0 < sim_requested s then ddiv (sim_filled s) (sim_requested s) else 0)"
    using assms(1) by (simp_all add: valid_simulation_def simulation_amount_checks_def)
  with assms(2) have "sim_filled s \<noteq> 0" by (auto simp: ddiv_def split: if_splits)
  with \<open>0 \<le> sim_filled s\<close> show ?thesis by simp
qed

lemma directional_candidate_valid:
  assumes "call_ok d" "dc_forecast d = Some f" "side_pricing d f = Some s" "sim_fill_fraction s = 1"
    "dc_at d < mkt_window_end (dc_market d)"
  shows "valid_candidate (directional_candidate d f s cost e) \<longleftrightarrow> 0 < cost"
proof -
  have v: "valid_market (dc_market d)" "valid_directional_policy (dc_policy d)" "valid_forecast f"
    using assms(1,2) by (auto simp: call_ok_def)
  have "valid_simulation s"
    using assms(1,3) by (cases "forecast_side f") (auto simp: call_ok_def side_pricing_def)
  then have "0 < sim_filled s" using filled_pos assms(4) by blast
  then have "positive n (dmul cost (sim_filled s)) = None \<longleftrightarrow> 0 < cost" for n
    by (simp add: dmul_def zero_less_mult_iff)
  moreover have "0 < dp_max_forecast_age (dc_policy d)"
    using v(2) by (simp add: valid_directional_policy_def directional_policy_checks_def)
  ultimately show ?thesis
    using v(1) side_probability_unit [OF v(3)] assms(5)
    by (auto simp: valid_candidate_def candidate_checks_def directional_candidate_def Let_def
      valid_market_def market_checks_def)
qed

lemma assess_priced_gates:
  assumes "call_ok d" "dc_forecast d = Some f" "side_pricing d f = Some s" "sim_fill_fraction s = 1"
    "sim_all_in s = Some cost" "dc_at d < mkt_window_end (dc_market d)"
  shows "case first_unmet (pricing_gates d f) of
      Some (g, reason) \<Rightarrow> abstains_for d reason (assess_priced d f s cost)
    | None \<Rightarrow> if 0 < cost then trades_with d f (assess_priced d f s cost)
        else \<exists>e. assess_priced d f s cost = Inl e"
proof -
  let ?e = "dsub (dsub (side_probability f) cost) (dp_uncertainty (dc_policy d))"
  let ?c = "directional_candidate d f s cost ?e"
  have m: "valid_market (dc_market d)" using assms(1) by (simp add: call_ok_def)
  then have m': "require_text ''market_id'' (mkt_id (dc_market d)) = None"
    by (simp add: valid_market_def market_checks_def)
  have c: "mk_candidate ?c = Inr ?c" "valid_candidate ?c" if "0 < cost"
    using directional_candidate_valid [OF assms(1-4,6), of cost ?e] that
    by (simp_all add: mk_candidate_def valid_candidate_def)
  have ce: "\<exists>e. mk_candidate ?c = Inl e" if "\<not> 0 < cost"
    using directional_candidate_valid [OF assms(1-4,6), of cost ?e] that
    by (simp add: mk_candidate_def valid_candidate_def checked_fails)
  have a: "mk_assessment a = Inr a" if "asm_market_id a = mkt_id (dc_market d)" "require_text ''reason'' (asm_reason a) = None"
    "asm_action a = ABSTAIN \<longleftrightarrow> asm_candidate a = None" for a
    using m' that by (cases "asm_action a") (simp_all add: mk_assessment_def assessment_checks_def)
  show ?thesis
  proof (cases "sim_condition_id s = mkt_condition_id (dc_market d)
      \<and> token_by_side (dc_market d) (forecast_side f) = Some (sim_token_id s)")
    case False
    then show ?thesis
      using abstain_ok [OF m, of "''EXECUTABLE_PRICE_IDENTITY_MISMATCH''"] assms(3-5)
      by (auto simp: pricing_gates_def assess_priced_def Let_def py_space_def)
  next
    case id: True
    show ?thesis
    proof (cases "dp_minimum_edge (dc_policy d) \<le> ?e")
      case False
      then show ?thesis
        using id assms(2-5) m' by (simp add: pricing_gates_def assess_priced_def Let_def a py_space_def abstains_for_def priced_edge_def)
    next
      case True
      then show ?thesis
        using id assms(2-5) m' c ce
        by (auto simp: pricing_gates_def assess_priced_def Let_def a py_space_def trades_with_def
          priced_edge_def directional_candidate_def)
    qed
  qed
qed

lemma assess_identified_gates:
  assumes "call_ok d" "dc_forecast d = Some f" "dc_at d < mkt_window_end (dc_market d)"
  shows "case first_unmet (forecast_gates d v f @ pricing_gates d f) of
      Some (g, reason) \<Rightarrow> abstains_for d reason (assess_identified d v f)
    | None \<Rightarrow> if 0 < the (sim_all_in (the (side_pricing d f))) then trades_with d f (assess_identified d v f)
        else \<exists>e. assess_identified d v f = Inl e"
proof -
  have m: "valid_market (dc_market d)" using assms(1) by (simp add: call_ok_def)
  have a: "abstains_for d r (abstain_assessment (dc_market d) (dc_at d) r)"
    if "r \<in> {''FORECAST_STALE_OR_FUTURE'', ''SIGNAL_QUALITY_FEATURES_MISSING'', ''SIGNAL_UNSTABLE'',
      ''FLIP_RATE_TOO_HIGH'', ''NO_DIRECTIONAL_SIDE'', ''EXECUTABLE_PRICE_UNAVAILABLE''}" for r
    using that by (intro abstain_ok [OF m]) (auto simp: py_space_def)
  show ?thesis
  proof (cases "first_unmet (forecast_gates d v f)")
    case (Some p)
    then show ?thesis
      by (auto simp: first_unmet_append assess_identified_def forecast_gates_def Let_def a not_le not_less
        split: option.splits if_splits)
  next
    case None
    then obtain st fl where q: "feature_map v ''signal_stability'' = Some st" "feature_map v ''flip_rate'' = Some fl"
      "dp_minimum_stability (dc_policy d) \<le> st" "fl \<le> dp_maximum_flip_rate (dc_policy d)" "fc_p_up f \<noteq> fc_p_down f"
      "0 \<le> dc_at d - fc_generated_at f" "dc_at d - fc_generated_at f \<le> dp_max_forecast_age (dc_policy d)"
      by (auto simp: forecast_gates_def Let_def split: if_splits)
    show ?thesis
    proof (cases "side_pricing d f \<noteq> None \<and> sim_fill_fraction (the (side_pricing d f)) = 1
        \<and> sim_all_in (the (side_pricing d f)) \<noteq> None")
      case False
      then have "assess_identified d v f = abstain_assessment (dc_market d) (dc_at d) ''EXECUTABLE_PRICE_UNAVAILABLE''"
        using q by (auto simp: assess_identified_def Let_def split: option.splits)
      moreover have "first_unmet (pricing_gates d f) = Some (''PRICING_GATE'', ''EXECUTABLE_PRICE_UNAVAILABLE'')"
        using False by (simp add: pricing_gates_def Let_def)
      ultimately show ?thesis using None a by (simp add: first_unmet_append)
    next
      case True
      then obtain s cost where s: "side_pricing d f = Some s" "sim_fill_fraction s = 1" "sim_all_in s = Some cost"
        by auto
      then have "assess_identified d v f = assess_priced d f s cost"
        using q by (simp add: assess_identified_def Let_def)
      with assess_priced_gates [OF assms(1,2) s(1,2,3) assms(3)] s None show ?thesis
        by (cases "first_unmet (pricing_gates d f)") (auto simp: first_unmet_append)
    qed
  qed
qed

lemma assess_by_gates:
  assumes "call_ok d"
  shows "case first_unmet (strategy_gates d) of
      Some (g, reason) \<Rightarrow> if g = ''IDENTITY_GATE'' then \<exists>e. assess_directional_edge d = Inl e
        else abstains_for d reason (assess_directional_edge d)
    | None \<Rightarrow> if 0 < the (sim_all_in (the (side_pricing d (the (dc_forecast d)))))
        then trades_with d (the (dc_forecast d)) (assess_directional_edge d)
        else \<exists>e. assess_directional_edge d = Inl e"
proof -
  have m: "valid_market (dc_market d)" using assms by (simp add: call_ok_def)
  have a: "abstains_for d r (abstain_assessment (dc_market d) (dc_at d) r)"
    if "r \<in> {''MARKET_NOT_ACTIVE'', ''OFFICIAL_PTB_UNAVAILABLE'', ''FEATURES_UNAVAILABLE'', ''MODEL_UNAVAILABLE'',
      ''CALIBRATION_NOT_READY''}" for r
    using that by (intro abstain_ok [OF m]) (auto simp: py_space_def)
  have i: "\<exists>e. checked (identity_checks m p v f c) r = Inl e" if "\<not> passes (identity_checks m p v f c)"
    for m p v f c and r :: "directional_assessment result"
    using checked_fails [OF that] .
  show ?thesis
  proof (cases "first_unmet (input_gates d)")
    case (Some p)
    then show ?thesis
      by (cases "dc_ptb d"; cases "dc_features d"; cases "dc_forecast d"; cases "dc_calibration d")
        (auto simp: strategy_gates_def first_unmet_append assess_directional_edge_def input_gates_def Let_def a i
          not_le not_less identities_agree_checks split: if_splits)
  next
    case None
    then obtain ptb v f c where i: "dc_ptb d = Some ptb" "dc_features d = Some v" "dc_forecast d = Some f"
      "dc_calibration d = Some c" "cr_ready c" "passes (identity_checks (dc_market d) ptb v f c)"
      "mkt_window_start (dc_market d) \<le> dc_at d" "dc_at d < mkt_window_end (dc_market d)"
      by (auto simp: input_gates_def Let_def identities_agree_checks split: if_splits)
    then have "assess_directional_edge d = assess_identified d v f"
      by (simp add: assess_directional_edge_def Let_def)
    moreover have "fst p \<noteq> ''IDENTITY_GATE''" if "first_unmet (forecast_gates d v f @ pricing_gates d f) = Some p" for p
      using that by (auto simp: forecast_gates_def pricing_gates_def Let_def split: if_splits)
    ultimately show ?thesis
      using assess_identified_gates [OF assms i(3,8), of v] None i
      by (simp add: strategy_gates_def first_unmet_append split: option.splits prod.splits)
  qed
qed

section \<open>The audit says what happened\<close>

lemma first_unmet_split: "first_unmet gs = Some (g, r) \<Longrightarrow>
    \<exists>as bs. gs = as @ (g, r, False) # bs \<and> (\<forall>(h, q, ok)\<in>set as. ok)"
proof (induction gs)
  case (Cons x gs)
  obtain h q ok where x: "x = (h, q, ok)" by (cases x)
  show ?case
  proof (cases ok)
    case True
    then obtain as bs where "gs = as @ (g, r, False) # bs" "\<forall>(h, q, ok)\<in>set as. ok"
      using Cons by (auto simp: x)
    then show ?thesis using True x by (intro exI [of _ "x # as"] exI [of _ bs]) auto
  next
    case False
    with Cons.prems show ?thesis by (intro exI [of _ "[]"] exI [of _ gs]) (simp add: x)
  qed
qed simp

lemma gate_names: "map fst (strategy_gates d) = [''MARKET_GATE'', ''PTB_GATE'', ''FEATURE_GATE'', ''MODEL_GATE'',
    ''CALIBRATION_GATE'', ''IDENTITY_GATE'', ''FORECAST_FRESHNESS_GATE'', ''SIGNAL_STABILITY_GATE'',
    ''SIGNAL_STABILITY_GATE'', ''FLIP_RATE_GATE'', ''DIRECTION_GATE'', ''PRICING_GATE'',
    ''PRICING_IDENTITY_GATE'', ''NET_EDGE_GATE'']"
  by (simp add: strategy_gates_def input_gates_def forecast_gates_def pricing_gates_def Let_def)

lemma gate_reasons: "map (\<lambda>(g, r, ok). reason_to_gate r) (strategy_gates d)
    = map (\<lambda>g. if g = ''IDENTITY_GATE'' then None else Some g) (map fst (strategy_gates d))"
  by (simp add: strategy_gates_def input_gates_def forecast_gates_def pricing_gates_def Let_def reason_to_gate_def)

lemma reason_of_gate:
  assumes "first_unmet (strategy_gates d) = Some (g, reason)" "g \<noteq> ''IDENTITY_GATE''"
  shows "reason_to_gate reason = Some g"
proof -
  obtain as bs where "strategy_gates d = as @ (g, reason, False) # bs" using first_unmet_split [OF assms(1)] by blast
  then have "reason_to_gate reason = (if g = ''IDENTITY_GATE'' then None else Some g)"
    using gate_reasons [of d] by simp
  with assms(2) show ?thesis by simp
qed

lemma gate_loop_None: "gate_loop None b gs
    = map (\<lambda>g. (g, if g \<in> {''RISK_GATE'', ''EXECUTION_GATE''} then GATE_NOT_REACHED else GATE_PASS)) gs"
  by (induction gs arbitrary: b) auto

lemma gate_loop_failed: "gate_loop (Some f) True gs = map (\<lambda>g. (g, GATE_NOT_REACHED)) gs"
  by (induction gs) auto

lemma gate_loop_Some: "f \<notin> set gs \<Longrightarrow> gate_loop (Some f) False (gs @ f # hs)
    = map (\<lambda>g. (g, GATE_PASS)) gs @ (f, GATE_FAIL) # map (\<lambda>g. (g, GATE_NOT_REACHED)) hs"
  by (induction gs) (auto simp: gate_loop_failed)

definition gate_pos :: "string \<Rightarrow> nat" where
  "gate_pos g = length (takeWhile (\<lambda>h. h \<noteq> g) gate_order)"

lemma gates_in_order: "sorted (map gate_pos (map fst (strategy_gates d)))"
  by (simp add: gate_names gate_pos_def gate_order_def)

lemma takeWhile_shorter: "h \<in> set gs \<Longrightarrow> length (takeWhile (\<lambda>x. x \<noteq> h) gs) < length gs"
  by (induction gs) auto

lemma gate_pos_prefix:
  assumes "gate_order = gs @ g # hs" "g \<notin> set gs" "h \<in> set gs" shows "gate_pos h < gate_pos g"
proof -
  have "takeWhile (\<lambda>x. x \<noteq> g) gate_order = gs"
    using assms(2) by (subst assms(1), subst takeWhile_append2) auto
  moreover have "takeWhile (\<lambda>x. x \<noteq> h) gate_order = takeWhile (\<lambda>x. x \<noteq> h) gs"
    using assms(3) by (subst assms(1), subst takeWhile_append1 [of h]) auto
  ultimately show ?thesis using takeWhile_shorter [OF assms(3)] by (simp add: gate_pos_def)
qed

lemma gates_before_unmet:
  assumes "first_unmet (strategy_gates d) = Some (g, reason)" "gate_order = gs @ g # hs" "g \<notin> set gs"
    "(h, q, ok) \<in> set (strategy_gates d)" "h \<in> set gs"
  shows ok
proof -
  obtain as bs where s: "strategy_gates d = as @ (g, reason, False) # bs" "\<forall>(h, q, ok)\<in>set as. ok"
    using first_unmet_split [OF assms(1)] by blast
  have "gate_pos g \<le> gate_pos (fst x)" if "x \<in> set bs" for x
    using gates_in_order [of d] that by (auto simp: s(1) sorted_append)
  then have "(h, q, ok) \<notin> set bs" using gate_pos_prefix [OF assms(2,3,5)] by force
  moreover have "h \<noteq> g" using assms(3,5) by blast
  ultimately show ok using assms(4) s by auto
qed

lemma unmet_gate_known:
  assumes "first_unmet (strategy_gates d) = Some (g, reason)" shows "g \<in> set gate_order"
proof -
  obtain as bs where "strategy_gates d = as @ (g, reason, False) # bs" using first_unmet_split [OF assms] by blast
  then have "g \<in> set (map fst (strategy_gates d))" by simp
  moreover have "set (map fst (strategy_gates d)) \<subseteq> set gate_order" by (simp add: gate_names gate_order_def)
  ultimately show ?thesis by blast
qed

lemma all_gates_met: "first_unmet gs = None \<Longrightarrow> (g, r, ok) \<in> set gs \<Longrightarrow> ok"
  by (induction gs) (auto split: if_splits)

lemma audit_gates_abstain:
  assumes "first_unmet (strategy_gates d) = Some (g, reason)" "reason_to_gate reason = Some g"
  shows "map fst (gate_statuses (Some g) ABSTAIN) = gate_order"
    "(h, GATE_PASS) \<in> set (gate_statuses (Some g) ABSTAIN) \<Longrightarrow> (h, q, ok) \<in> set (strategy_gates d) \<Longrightarrow> ok"
    "(h, GATE_FAIL) \<in> set (gate_statuses (Some g) ABSTAIN) \<longleftrightarrow> h = g"
proof -
  obtain gs hs where o: "gate_order = gs @ g # hs" "g \<notin> set gs"
    using split_list_first [OF unmet_gate_known [OF assms(1)]] by blast
  have s: "gate_statuses (Some g) ABSTAIN = map (\<lambda>g. (g, GATE_PASS)) gs @ (g, GATE_FAIL) # map (\<lambda>g. (g, GATE_NOT_REACHED)) hs"
    by (simp add: gate_statuses_def o gate_loop_Some)
  show "map fst (gate_statuses (Some g) ABSTAIN) = gate_order" by (simp add: s o(1) comp_def)
  show "(h, GATE_FAIL) \<in> set (gate_statuses (Some g) ABSTAIN) \<longleftrightarrow> h = g" by (auto simp: s)
  show ok if "(h, GATE_PASS) \<in> set (gate_statuses (Some g) ABSTAIN)" "(h, q, ok) \<in> set (strategy_gates d)"
    using gates_before_unmet [OF assms(1) o that(2)] that(1) by (auto simp: s)
qed

lemma audit_gates_trade:
  "gate_statuses None TRADE = map (\<lambda>g. (g, if g \<in> {''RISK_GATE'', ''EXECUTION_GATE''} then GATE_NOT_REACHED
     else GATE_PASS)) gate_order"
  by (simp add: gate_statuses_def gate_loop_None set_gate_def gate_order_def)


lemma audit_recomputes_edge:
  assumes "priced_edge d f a"
  shows "pa_net_edge (mk_pricing_audit d a) = asm_net_edge a"
    "pa_edge_margin (mk_pricing_audit d a) = map_option (\<lambda>n. dsub n (dp_minimum_edge (dc_policy d))) (asm_net_edge a)"
  using assms by (cases "forecast_side f"; auto simp: priced_edge_def mk_pricing_audit_def Let_def side_pricing_def)+

text \<open>The audit of an assessment lists every gate once in the fixed order, marks a gate passed only
  if it really held, marks as failed exactly the gate that stopped an abstention (none for a trade),
  leaves risk and execution unreached until they are reported, and its counterfactual pricing
  recomputes the net edge the decision was made on.\<close>

theorem directional_audit_is_truthful:
  assumes "call_ok d" "assess_directional_edge d = Inr a"
  shows "map fst (da_gates (build_directional_decision_audit d a None)) = gate_order
    \<and> (\<forall>h q ok. (h, GATE_PASS) \<in> set (da_gates (build_directional_decision_audit d a None))
        \<longrightarrow> (h, q, ok) \<in> set (strategy_gates d) \<longrightarrow> ok)
    \<and> (\<forall>h. (h, GATE_FAIL) \<in> set (da_gates (build_directional_decision_audit d a None))
        \<longleftrightarrow> asm_action a = ABSTAIN \<and> first_unmet (strategy_gates d) = Some (h, asm_reason a))
    \<and> (asm_net_edge a \<noteq> None \<longrightarrow>
        pa_net_edge (da_pricing (build_directional_decision_audit d a None)) = asm_net_edge a
        \<and> pa_edge_margin (da_pricing (build_directional_decision_audit d a None))
            = da_edge_margin (build_directional_decision_audit d a None))"
proof -
  let ?aud = "build_directional_decision_audit d a None"
  have fields: "da_gates ?aud = gate_statuses (reason_to_gate (asm_reason a)) (asm_action a)"
    "da_pricing ?aud = mk_pricing_audit d a"
    "da_edge_margin ?aud = map_option (\<lambda>n. dsub n (dp_minimum_edge (dc_policy d))) (asm_net_edge a)"
    by (simp_all add: build_directional_decision_audit_def Let_def execution_gates_def)
  show ?thesis
  proof (cases "first_unmet (strategy_gates d)")
    case None
    then have t: "asm_action a = TRADE" "asm_reason a = ''PRE_RISK_CANDIDATE''" "priced_edge d (the (dc_forecast d)) a"
      using assess_by_gates [OF assms(1)] assms(2) by (auto simp: trades_with_def split: if_splits)
    have "reason_to_gate (asm_reason a) = None" by (simp add: t(2) reason_to_gate_def)
    then have g: "da_gates ?aud = map (\<lambda>g. (g, if g \<in> {''RISK_GATE'', ''EXECUTION_GATE''} then GATE_NOT_REACHED
        else GATE_PASS)) gate_order"
      by (simp add: fields(1) t(1) audit_gates_trade)
    show ?thesis
      using all_gates_met [OF None] t(1) None audit_recomputes_edge [OF t(3)]
      by (auto simp: g fields(2,3) comp_def split: if_splits)
  next
    case (Some gr)
    obtain g reason where gr: "gr = (g, reason)" by (cases gr)
    then have n: "g \<noteq> ''IDENTITY_GATE''" "abstains_for d reason (Inr a)"
      using assess_by_gates [OF assms(1)] assms(2) Some by (auto split: if_splits)
    then have a: "asm_action a = ABSTAIN" "asm_reason a = reason"
      "asm_net_edge a \<noteq> None \<Longrightarrow> priced_edge d (the (dc_forecast d)) a"
      by (auto simp: abstains_for_def split: if_splits)
    note r = reason_of_gate [OF Some [unfolded gr] n(1)]
    have g: "da_gates ?aud = gate_statuses (Some g) ABSTAIN" by (simp add: fields(1) a r)
    show ?thesis
      using audit_gates_abstain [OF Some [unfolded gr] r] a audit_recomputes_edge [of d "the (dc_forecast d)" a] Some
      unfolding g fields(2,3) gr by auto
  qed
qed

section \<open>A decision that trades\<close>

definition sample_features :: feature_vector where
  "sample_features = \<lparr>fvec_market_id = ''m1'', fvec_asset = BTC, fvec_horizon = FIVE_MINUTES, fvec_version = ''f1'',
     fvec_features = [\<lparr>feat_name = ''signal_stability'', feat_value = 9/10, feat_source = ''x'', feat_source_ts = 0\<rparr>,
       \<lparr>feat_name = ''flip_rate'', feat_value = 1/10, feat_source = ''x'', feat_source_ts = 0\<rparr>],
     fvec_generated_at = seconds 1700000200\<rparr>"

definition sample_forecast :: probability_forecast where
  "sample_forecast = \<lparr>fc_market_id = ''m1'', fc_asset = BTC, fc_horizon = FIVE_MINUTES, fc_p_up = 3/4, fc_p_down = 1/4,
     fc_model_version = ''v1'', fc_calibration_version = ''c1'', fc_feature_set_version = ''f1'',
     fc_feature_as_of = seconds 1700000200, fc_generated_at = seconds 1700000201\<rparr>"

definition sample_simulation :: depth_simulation where
  "sample_simulation = \<lparr>sim_condition_id = ''c1'', sim_token_id = ''up'', sim_side = BUY, sim_requested = 10,
     sim_depth = 20, sim_filled = 10, sim_fill_fraction = 1,
     sim_fills = [\<lparr>df_price = 3/5, df_quantity = 10, df_gross = 6, df_fee = 0\<rparr>], sim_gross = 6, sim_fee = 0,
     sim_fee_buffer = 0, sim_slippage_buffer = 0, sim_vwap = Some (3/5), sim_worst = Some (3/5),
     sim_impact = Some 0, sim_all_in = Some (3/5), sim_net_proceeds = None, sim_at = seconds 1700000201\<rparr>"

definition sample_call :: directional_call where
  "sample_call = \<lparr>dc_market = sample_market, dc_ptb = Some sample_ptb, dc_features = Some sample_features,
     dc_forecast = Some sample_forecast,
     dc_calibration = Some \<lparr>cr_asset = BTC, cr_horizon = FIVE_MINUTES, cr_version = ''c1'', cr_sample_count = 200,
       cr_ready = True\<rparr>,
     dc_up = Some sample_simulation, dc_down = None, dc_at = seconds 1700000202,
     dc_policy = \<lparr>dp_minimum_edge = 1/20, dp_uncertainty = 1/50, dp_minimum_stability = 3/5,
       dp_maximum_flip_rate = 2/5, dp_max_forecast_age = seconds 5\<rparr>\<rparr>"

lemma sample_market_valid: "valid_market sample_market"
proof -
  have "int_timestamp (seconds 1700000100) mod 300 = 0" by (simp add: int_timestamp_div seconds_def)
  then show ?thesis
    by (simp add: valid_market_def market_checks_def sample_market_def py_space_def seconds_def
      insert_commute duration_seconds_def)
qed

lemma sample_forecast_valid: "valid_forecast sample_forecast"
proof -
  have "dadd (3/4) (1/4) = 1" by (simp add: dadd_def)
  then show ?thesis
    by (simp add: valid_forecast_def forecast_checks_def sample_forecast_def py_space_def seconds_def)
qed

lemma sample_simulation_valid: "valid_simulation sample_simulation"
proof -
  have "ctx 10 = 10" "ctx 6 = 6" by (simp_all add: ctx_eval)
  then show ?thesis
    by (simp add: valid_simulation_def simulation_amount_checks_def simulation_price_checks_def sample_simulation_def
      dsum_single ddiv_def py_space_def)
qed

lemma sample_call_ok: "call_ok sample_call"
  using sample_market_valid sample_forecast_valid sample_simulation_valid
  by (simp add: call_ok_def sample_call_def valid_directional_policy_def directional_policy_checks_def seconds_def)

lemma sample_call_gates: "first_unmet (strategy_gates sample_call) = None"
proof -
  have "dsub (3/4) (3/5) = 3/20" by (simp add: dsub_def ctx_eval)
  moreover have "dsub (3/20) (1/50) = 13/100" by (simp add: dsub_def ctx_eval)
  ultimately have "dsub (dsub (3/4) (3/5)) (1/50) = 13/100" by (simp only:)
  then have "1/20 \<le> dsub (dsub (3/4) (3/5)) (1/50)" by simp
  moreover have "feature_map sample_features ''signal_stability'' = Some (9/10)"
    "feature_map sample_features ''flip_rate'' = Some (1/10)"
    by (simp_all add: feature_map_def sample_features_def)
  ultimately show ?thesis
    by (simp add: strategy_gates_def input_gates_def forecast_gates_def pricing_gates_def Let_def sample_call_def
      identities_agree_def sample_ptb_defs sample_features_def sample_forecast_def sample_simulation_def
      side_pricing_def forecast_side_def side_probability_def token_by_side_def seconds_def del: not_None_eq)
qed


theorem directional_audit_is_truthful_witness:
  "\<exists>a. assess_directional_edge sample_call = Inr a
    \<and> map fst (da_gates (build_directional_decision_audit sample_call a None)) = gate_order"
proof -
  have "0 < the (sim_all_in (the (side_pricing sample_call (the (dc_forecast sample_call)))))"
    by (simp add: sample_call_def side_pricing_def sample_forecast_def forecast_side_def sample_simulation_def)
  then obtain a where "assess_directional_edge sample_call = Inr a"
    using assess_by_gates [OF sample_call_ok] sample_call_gates by (auto simp: trades_with_def)
  then show ?thesis using directional_audit_is_truthful [OF sample_call_ok] by blast
qed

section \<open>The features of an active market\<close>

text \<open>The vector that is built always satisfies its own contract and names no market price.\<close>

lemma built_features:
  assumes "build_directional_features m ptb s t version = Inr v"
  shows "valid_market m \<Longrightarrow> valid_feature_vector v" "fvec_market_id v = mkt_id m" "fvec_generated_at v = t"
    "map feat_name (fvec_features v) = map fst (external_feature_values 0 0 s)"
    "list_all (\<lambda>f. \<not> price_term (feat_name f)) (fvec_features v)"
    "feature_map v ''signal_stability'' = Some (xs_stability s)" "feature_map v ''flip_rate'' = Some (xs_flip_rate s)"
    "feature_map v ''ptb_normalized_distance''
      = Some (ddiv (dsub (ref_value (any_fields (xs_reference s))) (ptb_value ptb)) (ptb_value ptb))"
proof -
  obtain fs where fs: "mapr (\<lambda>(name, x). mk_feature_value \<lparr>feat_name = name, feat_value = x,
        feat_source = xs_source s, feat_source_ts = xs_source_ts s\<rparr>)
      (external_feature_values (ddiv (dsub (ref_value (any_fields (xs_reference s))) (ptb_value ptb)) (ptb_value ptb))
        (decimal_of_float (fl (of_int (mkt_window_end m - t) / of_int (expected_duration (mkt_horizon m))))) s) = Inr fs"
    "mk_feature_vector \<lparr>fvec_market_id = mkt_id m, fvec_asset = mkt_asset m, fvec_horizon = mkt_horizon m,
       fvec_version = version, fvec_features = fs, fvec_generated_at = t\<rparr> = Inr v"
    using assms by (auto simp: build_directional_features_def Let_def checked_Inr_iff bindr_Inr_iff)
  have v: "v = \<lparr>fvec_market_id = mkt_id m, fvec_asset = mkt_asset m, fvec_horizon = mkt_horizon m,
       fvec_version = version, fvec_features = fs, fvec_generated_at = t\<rparr>" "valid_feature_vector v"
    using fs(2) by (auto simp: mk_feature_vector_def valid_feature_vector_def checked_Inr_iff)
  show "valid_feature_vector v" "fvec_market_id v = mkt_id m" "fvec_generated_at v = t" using v by simp_all
  have f: "fs = map (\<lambda>(name, x). \<lparr>feat_name = name, feat_value = x, feat_source = xs_source s,
      feat_source_ts = xs_source_ts s\<rparr>)
      (external_feature_values (ddiv (dsub (ref_value (any_fields (xs_reference s))) (ptb_value ptb)) (ptb_value ptb))
        (decimal_of_float (fl (of_int (mkt_window_end m - t) / of_int (expected_duration (mkt_horizon m))))) s)"
    using fs(1) by (auto simp: external_feature_values_def mk_feature_value_def bindr_Inr_iff checked_Inr_iff)
  show "map feat_name (fvec_features v) = map fst (external_feature_values 0 0 s)"
    "list_all (\<lambda>f. \<not> price_term (feat_name f)) (fvec_features v)"
    "feature_map v ''signal_stability'' = Some (xs_stability s)" "feature_map v ''flip_rate'' = Some (xs_flip_rate s)"
    "feature_map v ''ptb_normalized_distance''
      = Some (ddiv (dsub (ref_value (any_fields (xs_reference s))) (ptb_value ptb)) (ptb_value ptb))"
    by (simp_all add: v(1) f external_feature_values_def feature_map_def price_term_def py_lower_def sublist_code)
qed

end
