(* ===== verification/Temporal.thy ===== *)
theory Temporal
  imports Directional Json
begin

text \<open>
  \<open>features/temporal.py\<close>: the per-asset history of references, books and trades behind the external
  feature snapshot. A queue that has no entry yet is the empty list, as every reader of the code takes
  it. The texts by which the code compares two items (\<open>isoformat\<close>, \<open>str\<close> of a decimal, \<open>value\<close> of an
  enumeration) are the instants, numbers and constructors they render. Every snapshot prunes the queues
  first, so an operation returns the new state beside its result, which may be an exception.
\<close>

section \<open>State\<close>

record temporal_state =
  tp_max_age :: timedelta
  tp_minimum_points :: int
  tp_dedup :: bool
  tp_references :: "asset \<Rightarrow> any_reference list"
  tp_books :: "asset \<Rightarrow> top_of_book list"
  tp_trades :: "asset \<Rightarrow> crypto_trade list"
  tp_skips :: "asset \<Rightarrow> string \<Rightarrow> int"
  tp_conflicts :: "asset \<Rightarrow> string \<Rightarrow> int"

definition mk_temporal_state :: "timedelta \<Rightarrow> int \<Rightarrow> bool \<Rightarrow> temporal_state result" where
  "mk_temporal_state max_age minimum_points dedup =
     checked [fail_if (max_age \<le> 0) (ValueErr ''max_age must be positive''),
              fail_if (minimum_points < 2) (ValueErr ''minimum_points must be at least two'')]
       (Inr \<lparr>tp_max_age = max_age, tp_minimum_points = minimum_points, tp_dedup = dedup,
             tp_references = (\<lambda>a. []), tp_books = (\<lambda>a. []), tp_trades = (\<lambda>a. []),
             tp_skips = (\<lambda>a k. 0), tp_conflicts = (\<lambda>a k. 0)\<rparr>)"

section \<open>Identities\<close>

text \<open>
  The code compares the texts of the numbers, the model their values: \<open>1.0\<close> and \<open>1.00\<close> are one number here
  and two texts there, so a repeated reference or book with another number of trailing zeros is counted
  here as a skipped duplicate and there as an identity conflict. Neither is recorded, so only the two
  diagnostic counters can differ.
\<close>

definition reference_identity :: "any_reference \<Rightarrow> string \<times> asset \<times> utc \<times> dec \<times> reference_kind" where
  "reference_identity r = (let f = any_fields r in
     (ref_source f, ref_asset f, ref_source_ts f, ref_value f, any_reference_kind r))"

definition reference_conflict_key :: "any_reference \<Rightarrow> string \<times> asset \<times> utc \<times> reference_kind" where
  "reference_conflict_key r = (let f = any_fields r in
     (ref_source f, ref_asset f, ref_source_ts f, any_reference_kind r))"

definition book_identity :: "top_of_book \<Rightarrow> data_source \<times> asset \<times> int" where
  "book_identity b = (lin_source (tob_lineage b), tob_asset b, tob_update_id b)"

definition book_payload :: "top_of_book \<Rightarrow> dec \<times> dec \<times> dec \<times> dec" where
  "book_payload b = (tob_bid_price b, tob_bid_quantity b, tob_ask_price b, tob_ask_quantity b)"

definition crypto_trade_identity :: "crypto_trade \<Rightarrow> data_source \<times> asset \<times> int" where
  "crypto_trade_identity t = (lin_source (ct_lineage t), ct_asset t, ct_trade_id t)"

text \<open>\<open>lineage.source_ts or lineage.recv_ts\<close>; a reference always has a source instant.\<close>

definition lineage_ts :: "event_lineage \<Rightarrow> utc" where
  "lineage_ts l = (case lin_source_ts l of None \<Rightarrow> lin_recv_ts l | Some t \<Rightarrow> t)"

definition any_source_ts :: "any_reference \<Rightarrow> utc" where
  "any_source_ts r = ref_source_ts (any_fields r)"

definition book_ts :: "top_of_book \<Rightarrow> utc" where "book_ts b = lineage_ts (tob_lineage b)"
definition trade_ts :: "crypto_trade \<Rightarrow> utc" where "trade_ts t = lineage_ts (ct_lineage t)"

section \<open>Recording\<close>

definition record_dedup_skip :: "asset \<Rightarrow> string \<Rightarrow> temporal_state \<Rightarrow> temporal_state" where
  "record_dedup_skip a k s = s\<lparr>tp_skips := (tp_skips s)(a := (tp_skips s a)(k := tp_skips s a k + 1))\<rparr>"

definition record_identity_conflict :: "asset \<Rightarrow> string \<Rightarrow> temporal_state \<Rightarrow> temporal_state" where
  "record_identity_conflict a k s =
     s\<lparr>tp_conflicts := (tp_conflicts s)(a := (tp_conflicts s a)(k := tp_conflicts s a k + 1))\<rparr>"

definition append_reference :: "any_reference \<Rightarrow> temporal_state \<Rightarrow> temporal_state" where
  "append_reference r s = (let a = ref_asset (any_fields r) in
     s\<lparr>tp_references := (tp_references s)(a := tp_references s a @ [r])\<rparr>)"

text \<open>The loop over the queue: the first item with the identity or the conflict key decides.\<close>

fun add_reference_scan :: "any_reference \<Rightarrow> any_reference list \<Rightarrow> temporal_state \<Rightarrow> temporal_state" where
  "add_reference_scan r [] s = append_reference r s"
| "add_reference_scan r (x # xs) s =
     (if reference_identity x = reference_identity r
        then record_dedup_skip (ref_asset (any_fields r)) ''reference'' s
      else if reference_conflict_key x = reference_conflict_key r
        then record_identity_conflict (ref_asset (any_fields r)) ''reference'' s
      else add_reference_scan r xs s)"

definition add_reference :: "any_reference \<Rightarrow> temporal_state \<Rightarrow> temporal_state" where
  "add_reference r s =
     (if tp_dedup s then add_reference_scan r (tp_references s (ref_asset (any_fields r))) s
      else append_reference r s)"

definition append_book :: "top_of_book \<Rightarrow> temporal_state \<Rightarrow> temporal_state" where
  "append_book b s = s\<lparr>tp_books := (tp_books s)(tob_asset b := tp_books s (tob_asset b) @ [b])\<rparr>"

fun add_book_scan :: "top_of_book \<Rightarrow> top_of_book list \<Rightarrow> temporal_state \<Rightarrow> temporal_state" where
  "add_book_scan b [] s = append_book b s"
| "add_book_scan b (x # xs) s =
     (if book_identity x \<noteq> book_identity b then add_book_scan b xs s
      else if book_payload x \<noteq> book_payload b then record_identity_conflict (tob_asset b) ''book'' s
      else record_dedup_skip (tob_asset b) ''book'' s)"

definition add_book :: "top_of_book \<Rightarrow> temporal_state \<Rightarrow> temporal_state" where
  "add_book b s =
     (if tp_dedup s then add_book_scan b (tp_books s (tob_asset b)) s else append_book b s)"

definition add_trade :: "crypto_trade \<Rightarrow> temporal_state \<Rightarrow> temporal_state" where
  "add_trade t s =
     (let a = ct_asset t in
      if tp_dedup s \<and> (\<exists>x\<in>set (tp_trades s a). crypto_trade_identity x = crypto_trade_identity t)
        then record_dedup_skip a ''trade'' s
      else s\<lparr>tp_trades := (tp_trades s)(a := tp_trades s a @ [t])\<rparr>)"

text \<open>Pruning pops from the front while the front is older than \<open>max_age\<close>.\<close>

definition prune :: "asset \<Rightarrow> utc \<Rightarrow> temporal_state \<Rightarrow> temporal_state" where
  "prune a observed_at s =
     s\<lparr>tp_references := (tp_references s)(a := dropWhile
          (\<lambda>r. \<not> observed_at - any_source_ts r \<le> tp_max_age s) (tp_references s a)),
       tp_books := (tp_books s)(a := dropWhile
          (\<lambda>b. \<not> observed_at - book_ts b \<le> tp_max_age s) (tp_books s a)),
       tp_trades := (tp_trades s)(a := dropWhile
          (\<lambda>t. \<not> observed_at - trade_ts t \<le> tp_max_age s) (tp_trades s a))\<rparr>"

section \<open>Diagnostics\<close>

definition near_duplicate_count :: "utc list \<Rightarrow> int" where
  "near_duplicate_count ts =
     int (length (filter (\<lambda>(l, r). 0 \<le> r - l \<and> r - l \<le> seconds 2) (pairwise (sort ts))))"

definition unique_count :: "'a list \<Rightarrow> int" where
  "unique_count xs = int (card (set xs))"

definition diagnostics :: "temporal_state \<Rightarrow> asset \<Rightarrow> dec list \<Rightarrow> bool list \<Rightarrow> int \<Rightarrow> json" where
  "diagnostics s a returns signs flip_count =
     (let refs = tp_references s a; books = tp_books s a; flow = tp_trades s a;
          rts = map any_source_ts refs; bts = map book_ts books; tts = map trade_ts flow;
          rid = map reference_identity refs; bid = map book_identity books; tid = map crypto_trade_identity flow in
      JDict
       [(''scope'', JStr ''asset_level''),
        (''asset'', JStr (asset_value a)),
        (''temporal_semantics'', JStr (if tp_dedup s then ''source_identity_dedup_diagnostic'' else ''legacy_append_all'')),
        (''dedup_policy'', JStr (if tp_dedup s then ''source_identity_v1'' else ''none_legacy_append_all'')),
        (''dedup_cache_scope'', JStr ''in_memory_ephemeral_per_process''),
        (''dedup_retention_policy'', JStr ''bounded_by_temporal_max_age_prune_on_snapshot''),
        (''max_age_seconds'', JReal (timestamp (tp_max_age s))),
        (''minimum_points'', JInt (tp_minimum_points s)),
        (''near_duplicate_interval_seconds'', JInt 2),
        (''reference_sample_count'', JInt (int (length refs))),
        (''book_sample_count'', JInt (int (length books))),
        (''trade_sample_count'', JInt (int (length flow))),
        (''unique_reference_source_timestamp_count'', JInt (unique_count rts)),
        (''unique_book_source_timestamp_count'', JInt (unique_count bts)),
        (''unique_trade_source_timestamp_count'', JInt (unique_count tts)),
        (''unique_reference_source_identity_count'', JInt (unique_count rid)),
        (''unique_book_source_identity_count'', JInt (unique_count bid)),
        (''unique_trade_source_identity_count'', JInt (unique_count tid)),
        (''duplicate_reference_source_identity_count'', JInt (int (length rid) - unique_count rid)),
        (''duplicate_book_source_identity_count'', JInt (int (length bid) - unique_count bid)),
        (''duplicate_trade_source_identity_count'', JInt (int (length tid) - unique_count tid)),
        (''dedup_reference_skip_count'', JInt (tp_skips s a ''reference'')),
        (''dedup_book_skip_count'', JInt (tp_skips s a ''book'')),
        (''dedup_trade_skip_count'', JInt (tp_skips s a ''trade'')),
        (''reference_identity_conflict_count'', JInt (tp_conflicts s a ''reference'')),
        (''book_identity_conflict_count'', JInt (tp_conflicts s a ''book'')),
        (''near_duplicate_reference_count'', JInt (near_duplicate_count rts)),
        (''near_duplicate_book_count'', JInt (near_duplicate_count bts)),
        (''near_duplicate_trade_count'', JInt (near_duplicate_count tts)),
        (''return_sample_count'', JInt (int (length returns))),
        (''return_count'', JInt (int (length returns))),
        (''nonzero_return_count'', JInt (int (length (filter (\<lambda>x. x \<noteq> 0) returns)))),
        (''return_sign_count'', JInt (int (length signs))),
        (''positive_return_sign_count'', JInt (int (length (filter id signs)))),
        (''negative_return_sign_count'', JInt (int (length (filter Not signs)))),
        (''flip_count'', JInt flip_count),
        (''flip_denominator'', JInt (max (int (length signs) - 1) 1))])"

section \<open>The snapshot\<close>

record temporal_result =
  tr_snapshot :: "external_snapshot option"
  tr_reason :: string
  tr_diagnostics :: json

definition price_return :: "dec \<Rightarrow> dec \<Rightarrow> dec result" where
  "price_return previous current =
     (if previous \<le> 0 then Inl (ValueErr ''reference history contains non-positive value'')
      else Inr (ddiv (dsub current previous) previous))"

definition mean_abs :: "dec list \<Rightarrow> dec" where
  "mean_abs xs = (if xs = [] then 0 else ddiv (dsum (map dabs xs)) (of_nat (length xs)))"

definition flip_count :: "bool list \<Rightarrow> nat" where
  "flip_count signs = length (filter (\<lambda>(l, r). l \<noteq> r) (pairwise signs))"

definition return_signs :: "dec list \<Rightarrow> bool list" where
  "return_signs returns = map (\<lambda>x. 0 < x) (filter (\<lambda>x. x \<noteq> 0) returns)"

definition sign_flip_rate :: "bool list \<Rightarrow> dec" where
  "sign_flip_rate signs = ddiv (of_nat (flip_count signs)) (of_int (max (int (length signs) - 1) 1))"

text \<open>The prices from the history: the short and the medium return, the momentum and all returns.\<close>

definition price_features :: "dec list \<Rightarrow> (dec \<times> dec \<times> dec \<times> dec list) result" where
  "price_features ps = (let n = length ps in
     bindr (price_return (ps ! (n - 2)) (ps ! (n - 1))) (\<lambda>short.
     bindr (price_return (ps ! 0) (ps ! (n - 1))) (\<lambda>medium.
     bindr (if 3 \<le> n then bindr (price_return (ps ! (n - 3)) (ps ! (n - 2))) (\<lambda>x. Inr (dsub short x))
            else Inr short) (\<lambda>momentum.
     bindr (mapr (\<lambda>(l, r). price_return l r) (pairwise ps)) (\<lambda>returns.
     Inr (short, medium, momentum, returns))))))"

definition signed_quantity :: "crypto_trade \<Rightarrow> dec" where
  "signed_quantity t = (if ct_buyer_is_maker t then dneg (ct_quantity t) else ct_quantity t)"

text \<open>The part of \<open>build_snapshot\<close> after pruning, on the queues of the asset.\<close>

definition snapshot_of :: "temporal_state \<Rightarrow> asset \<Rightarrow> any_reference \<Rightarrow> utc \<Rightarrow> temporal_result result" where
  "snapshot_of s a current observed_at =
     (let refs = tp_references s a; books = tp_books s a; flow = tp_trades s a;
          absent = (\<lambda>reason. Inr \<lparr>tr_snapshot = None, tr_reason = reason,
                                   tr_diagnostics = diagnostics s a [] [] 0\<rparr>) in
      if observed_at < any_source_ts current then absent ''FEATURE_SOURCE_IN_FUTURE''
      else if tp_max_age s < observed_at - any_source_ts current then absent ''EXTERNAL_REFERENCE_STALE''
      else if int (length refs) < tp_minimum_points s then absent ''FEATURE_HISTORY_WARMING''
      else if books = [] then absent ''EXTERNAL_BOOK_STALE''
      else if flow = [] then absent ''EXTERNAL_TRADE_FLOW_STALE''
      else bindr (price_features (map (\<lambda>r. ref_value (any_fields r)) refs)) (\<lambda>(short, medium, momentum, returns).
       let volatility = mean_abs returns;
           acceleration = (if 1 < length returns
             then dsub (dabs (last returns)) (mean_abs (butlast returns)) else 0);
           b = last books; bts = book_ts b in
       if observed_at < bts then absent ''EXTERNAL_BOOK_FUTURE''
       else if tp_max_age s < observed_at - bts then absent ''EXTERNAL_BOOK_STALE''
       else let mid = ddiv (dadd (tob_bid_price b) (tob_ask_price b)) 2;
                depth = dadd (tob_bid_quantity b) (tob_ask_quantity b) in
       if depth \<le> 0 then absent ''EXTERNAL_BOOK_STALE''
       else let imbalance = ddiv (dsub (tob_bid_quantity b) (tob_ask_quantity b)) depth;
                micro = ddiv (dadd (dmul (tob_ask_price b) (tob_bid_quantity b))
                                   (dmul (tob_bid_price b) (tob_ask_quantity b))) depth;
                distance = ddiv (dsub micro mid) mid;
                signed = dsum (map signed_quantity flow);
                total = dsum (map ct_quantity flow) in
       if total \<le> 0 then absent ''EXTERNAL_TRADE_FLOW_STALE''
       else let signs = return_signs returns; rate = sign_flip_rate signs in
       bindr (mk_external_snapshot
         \<lparr>xs_reference = current, xs_short_return = short, xs_medium_return = medium, xs_momentum = momentum,
          xs_volatility = volatility, xs_volatility_acceleration = acceleration, xs_basis = 0,
          xs_book_imbalance = imbalance, xs_microprice_distance = distance,
          xs_trade_imbalance = ddiv signed total, xs_stability = dsub 1 (min 1 rate), xs_flip_rate = rate,
          xs_regime = min 1 (dmul volatility 100), xs_source = ''external-temporal-state-v1'',
          xs_source_ts = max (any_source_ts current) bts\<rparr>) (\<lambda>x.
       Inr \<lparr>tr_snapshot = Some x, tr_reason = ''FEATURES_READY'',
            tr_diagnostics = diagnostics s a returns signs (int (flip_count signs))\<rparr>)))"

definition build_snapshot :: "asset \<Rightarrow> any_reference \<Rightarrow> utc \<Rightarrow> temporal_state \<Rightarrow>
    temporal_state \<times> temporal_result result" where
  "build_snapshot a current observed_at s =
     (let s' = prune a observed_at s in (s', snapshot_of s' a current observed_at))"

section \<open>Well-formed histories\<close>

definition valid_crypto_trade :: "crypto_trade \<Rightarrow> bool" where
  "valid_crypto_trade t \<longleftrightarrow> passes (crypto_trade_checks t)"

definition history_ok :: "temporal_state \<Rightarrow> bool" where
  "history_ok s \<longleftrightarrow> 0 < tp_max_age s \<and> 2 \<le> tp_minimum_points s \<and>
     (\<forall>a. (\<forall>r\<in>set (tp_references s a). valid_reference (any_fields r) \<and> ref_asset (any_fields r) = a) \<and>
          (\<forall>b\<in>set (tp_books s a). valid_top_of_book b \<and> tob_asset b = a) \<and>
          (\<forall>t\<in>set (tp_trades s a). valid_crypto_trade t \<and> ct_asset t = a))"

text \<open>With deduplication on, no queue holds two items the code takes for the same source event.\<close>

definition queues_distinct :: "temporal_state \<Rightarrow> bool" where
  "queues_distinct s \<longleftrightarrow> (\<forall>a. distinct (map reference_conflict_key (tp_references s a)) \<and>
     distinct (map book_identity (tp_books s a)) \<and> distinct (map crypto_trade_identity (tp_trades s a)))"

inductive temporal_reachable :: "temporal_state \<Rightarrow> bool" where
  created: "mk_temporal_state max_age n d = Inr s \<Longrightarrow> temporal_reachable s"
| reference_added: "temporal_reachable s \<Longrightarrow> valid_reference (any_fields r) \<Longrightarrow> temporal_reachable (add_reference r s)"
| book_added: "temporal_reachable s \<Longrightarrow> valid_top_of_book b \<Longrightarrow> temporal_reachable (add_book b s)"
| trade_added: "temporal_reachable s \<Longrightarrow> valid_crypto_trade t \<Longrightarrow> temporal_reachable (add_trade t s)"
| snapshot_built: "temporal_reachable s \<Longrightarrow> temporal_reachable (fst (build_snapshot a current observed_at s))"

lemmas recording_defs = record_dedup_skip_def record_identity_conflict_def append_reference_def append_book_def

text \<open>The three scans either append the item or leave the queues as they are.\<close>

definition same_queues :: "temporal_state \<Rightarrow> temporal_state \<Rightarrow> bool" where
  "same_queues s s' \<longleftrightarrow> tp_references s' = tp_references s \<and> tp_books s' = tp_books s \<and> tp_trades s' = tp_trades s \<and>
     tp_max_age s' = tp_max_age s \<and> tp_minimum_points s' = tp_minimum_points s \<and> tp_dedup s' = tp_dedup s"

lemma record_same_queues [simp]:
  "same_queues s (record_dedup_skip a k s)" "same_queues s (record_identity_conflict a k s)"
  by (simp_all add: same_queues_def recording_defs)

lemma same_queues_ok: "same_queues s s' \<Longrightarrow> history_ok s' = history_ok s"
  "same_queues s s' \<Longrightarrow> queues_distinct s' = queues_distinct s"
  by (simp_all add: same_queues_def history_ok_def queues_distinct_def)

lemmas record_ok [simp] = record_same_queues [THEN same_queues_ok(1)] record_same_queues [THEN same_queues_ok(2)]

lemma add_reference_scan_cases:
  "(add_reference_scan r xs s = append_reference r s \<and> reference_conflict_key r \<notin> reference_conflict_key ` set xs)
   \<or> same_queues s (add_reference_scan r xs s)"
proof (induction xs)
  case (Cons x xs)
  then show ?case by (cases "reference_conflict_key x = reference_conflict_key r") (auto simp: eq_commute)
qed simp

lemma add_book_scan_cases:
  "(add_book_scan b xs s = append_book b s \<and> book_identity b \<notin> book_identity ` set xs)
   \<or> same_queues s (add_book_scan b xs s)"
proof (induction xs)
  case (Cons x xs)
  then show ?case by (cases "book_identity x = book_identity b") (auto simp: eq_commute)
qed simp

lemma add_reference_cases:
  obtains "add_reference r s = append_reference r s"
    "tp_dedup s \<Longrightarrow> reference_conflict_key r \<notin> reference_conflict_key ` set (tp_references s (ref_asset (any_fields r)))"
  | "same_queues s (add_reference r s)"
  using add_reference_scan_cases [of r "tp_references s (ref_asset (any_fields r))" s]
  by (cases "tp_dedup s") (auto simp: add_reference_def)

lemma add_book_cases:
  obtains "add_book b s = append_book b s" "tp_dedup s \<Longrightarrow> book_identity b \<notin> book_identity ` set (tp_books s (tob_asset b))"
  | "same_queues s (add_book b s)"
  using add_book_scan_cases [of b "tp_books s (tob_asset b)" s]
  by (cases "tp_dedup s") (auto simp: add_book_def)

lemma add_reference_ok:
  assumes "history_ok s" "valid_reference (any_fields r)" shows "history_ok (add_reference r s)"
  using add_reference_cases [of r s]
proof cases
  case 1
  then show ?thesis using assms by (auto simp: history_ok_def append_reference_def Let_def)
qed (simp add: same_queues_ok assms)

lemma add_book_ok:
  assumes "history_ok s" "valid_top_of_book b" shows "history_ok (add_book b s)"
  using add_book_cases [of b s]
proof cases
  case 1
  then show ?thesis using assms by (auto simp: history_ok_def append_book_def)
qed (simp add: same_queues_ok assms)

lemma add_trade_ok:
  assumes "history_ok s" "valid_crypto_trade t" shows "history_ok (add_trade t s)"
proof (cases "tp_dedup s \<and> (\<exists>x\<in>set (tp_trades s (ct_asset t)). crypto_trade_identity x = crypto_trade_identity t)")
  case True
  then show ?thesis using assms by (simp add: add_trade_def Let_def same_queues_ok)
next
  case False
  then show ?thesis using assms by (auto simp: add_trade_def Let_def history_ok_def)
qed

lemma prune_ok: "history_ok s \<Longrightarrow> history_ok (prune a observed_at s)"
  by (auto simp: history_ok_def prune_def dest: set_dropWhileD)

lemma fst_build_snapshot [simp]: "fst (build_snapshot a current t s) = prune a t s"
  by (simp add: build_snapshot_def Let_def)

lemma reachable_history_ok: "temporal_reachable s \<Longrightarrow> history_ok s"
proof (induction rule: temporal_reachable.induct)
  case (created m n d s)
  then show ?case by (auto simp: mk_temporal_state_def history_ok_def contract_simps)
qed (simp_all add: add_reference_ok add_book_ok add_trade_ok prune_ok)

section \<open>Deduplication\<close>

lemma add_reference_distinct:
  assumes "queues_distinct s" "tp_dedup s" shows "queues_distinct (add_reference r s)"
  using add_reference_cases [of r s]
proof cases
  case 1
  then show ?thesis using assms by (auto simp: queues_distinct_def append_reference_def Let_def)
qed (simp add: same_queues_ok assms)

lemma add_book_distinct:
  assumes "queues_distinct s" "tp_dedup s" shows "queues_distinct (add_book b s)"
  using add_book_cases [of b s]
proof cases
  case 1
  then show ?thesis using assms by (auto simp: queues_distinct_def append_book_def)
qed (simp add: same_queues_ok assms)

lemma add_trade_distinct:
  assumes "queues_distinct s" "tp_dedup s" shows "queues_distinct (add_trade t s)"
proof (cases "\<exists>x\<in>set (tp_trades s (ct_asset t)). crypto_trade_identity x = crypto_trade_identity t")
  case True
  then show ?thesis using assms by (simp add: add_trade_def Let_def same_queues_ok)
next
  case False
  then have "crypto_trade_identity t \<notin> crypto_trade_identity ` set (tp_trades s (ct_asset t))" by (metis image_iff)
  then show ?thesis using assms False by (auto simp: add_trade_def Let_def queues_distinct_def)
qed

lemma distinct_map_dropWhile: "distinct (map f xs) \<Longrightarrow> distinct (map f (dropWhile P xs))"
  by (induction xs) auto

lemma prune_distinct: "queues_distinct s \<Longrightarrow> queues_distinct (prune a t s)"
  by (simp add: queues_distinct_def prune_def distinct_map_dropWhile)

lemma dedup_unchanged [simp]:
  "tp_dedup (add_reference r s) = tp_dedup s" "tp_dedup (add_book b s) = tp_dedup s"
  "tp_dedup (add_trade t s) = tp_dedup s" "tp_dedup (prune a u s) = tp_dedup s"
proof -
  show "tp_dedup (add_reference r s) = tp_dedup s"
    by (rule add_reference_cases [of r s]) (auto simp: same_queues_def append_reference_def Let_def)
  show "tp_dedup (add_book b s) = tp_dedup s"
    by (rule add_book_cases [of b s]) (auto simp: same_queues_def append_book_def)
qed (simp_all add: add_trade_def Let_def recording_defs prune_def)

lemma reachable_distinct: "temporal_reachable s \<Longrightarrow> tp_dedup s \<Longrightarrow> queues_distinct s"
proof (induction rule: temporal_reachable.induct)
  case (created m n d s)
  then show ?case by (auto simp: mk_temporal_state_def queues_distinct_def contract_simps)
qed (simp_all add: add_reference_distinct add_book_distinct add_trade_distinct prune_distinct)

lemma unique_count_distinct: "distinct xs \<Longrightarrow> unique_count xs = int (length xs)"
  by (simp add: unique_count_def distinct_card)

lemma reference_identity_key: "reference_identity x = reference_identity y \<Longrightarrow> reference_conflict_key x = reference_conflict_key y"
  by (simp add: reference_identity_def reference_conflict_key_def Let_def)

lemma distinct_identities: "distinct (map reference_conflict_key xs) \<Longrightarrow> distinct (map reference_identity xs)"
  by (induction xs) (auto dest: reference_identity_key)

lemma diagnostics_duplicates:
  "json_get (diagnostics s a rs ss n) ''duplicate_reference_source_identity_count''
     = Some (JInt (int (length (tp_references s a)) - unique_count (map reference_identity (tp_references s a))))"
  "json_get (diagnostics s a rs ss n) ''duplicate_book_source_identity_count''
     = Some (JInt (int (length (tp_books s a)) - unique_count (map book_identity (tp_books s a))))"
  "json_get (diagnostics s a rs ss n) ''duplicate_trade_source_identity_count''
     = Some (JInt (int (length (tp_trades s a)) - unique_count (map crypto_trade_identity (tp_trades s a))))"
  by (simp_all add: diagnostics_def Let_def)


section \<open>What a snapshot promises\<close>

lemma price_return_total: "0 < p \<Longrightarrow> price_return p c = Inr (ddiv (dsub c p) p)"
  by (simp add: price_return_def)

lemma pairwise_in_set: "(x, y) \<in> set (pairwise xs) \<Longrightarrow> x \<in> set xs \<and> y \<in> set xs"
  by (auto simp: pairwise_def dest: set_zip_leftD set_zip_rightD list.set_sel(2) [rotated])
     (metis list.set_sel(2) set_zip_rightD tl_Nil)

lemma price_features_total:
  assumes "2 \<le> length ps" "\<forall>p\<in>set ps. 0 < p"
  obtains short medium momentum returns
  where "price_features ps = Inr (short, medium, momentum, returns)"
proof -
  have pos: "0 < ps ! (length ps - 2)" "0 < ps ! 0" "3 \<le> length ps \<Longrightarrow> 0 < ps ! (length ps - 3)"
    using assms by (auto intro!: bspec [OF assms(2)] nth_mem)
  have "mapr (\<lambda>(l, r). price_return l r) (pairwise ps)
      = Inr (map (\<lambda>(l, r). ddiv (dsub r l) l) (pairwise ps))"
    by (rule mapr_total) (use assms(2) in \<open>auto simp: price_return_total dest!: pairwise_in_set\<close>)
  then show ?thesis
    using that by (cases "3 \<le> length ps") (auto simp: price_features_def Let_def price_return_total pos)
qed

lemma mean_abs_nonneg: "0 \<le> mean_abs xs"
  by (simp add: mean_abs_def ddiv_def dabs_def dsum_nonneg)

lemma flip_count_le: "flip_count signs \<le> length signs - 1"
  using length_filter_le [of "\<lambda>(l, r). l \<noteq> r" "pairwise signs"] by (simp add: flip_count_def)

lemma ddiv_unit: "0 \<le> x \<Longrightarrow> x \<le> y \<Longrightarrow> 0 < y \<Longrightarrow> 0 \<le> ddiv x y \<and> ddiv x y \<le> 1"
  by (simp add: ddiv_def ctx_le)

lemma ctx_abs: "ctx \<bar>x\<bar> = \<bar>ctx x\<bar>"
  using ctx_nonneg [of x] ctx_nonpos [of x] by (cases "0 \<le> x") (simp_all add: ctx_minus)

lemma ddiv_abs_le_1: "\<bar>x\<bar> \<le> y \<Longrightarrow> 0 < y \<Longrightarrow> \<bar>ddiv x y\<bar> \<le> 1"
  by (simp add: ddiv_def ctx_le flip: ctx_abs)

lemma flip_rate_unit: "0 \<le> sign_flip_rate signs \<and> sign_flip_rate signs \<le> 1"
  unfolding sign_flip_rate_def
proof (rule ddiv_unit)
  have "int (flip_count signs) \<le> max (int (length signs) - 1) 1" using flip_count_le [of signs] by linarith
  then have "(of_int (int (flip_count signs)) :: rat) \<le> of_int (max (int (length signs) - 1) 1)"
    by (simp only: of_int_le_iff)
  then show "(of_nat (flip_count signs) :: rat) \<le> of_int (max (int (length signs) - 1) 1)"
    by (simp only: of_int_of_nat_eq)
qed simp_all

lemma stability_unit: "0 \<le> dsub 1 (sign_flip_rate signs) \<and> dsub 1 (sign_flip_rate signs) \<le> 1"
  using flip_rate_unit [of signs] by (simp add: dsub_def ctx_le)

lemma book_imbalance_unit:
  assumes "0 < p" "0 < q" shows "\<bar>ddiv (dsub p q) (dadd p q)\<bar> \<le> 1"
proof (rule ddiv_abs_le_1)
  have "ctx \<bar>p - q\<bar> \<le> ctx (p + q)" using assms by (intro ctx_mono) simp
  then show "\<bar>dsub p q\<bar> \<le> dadd p q" by (simp add: dsub_def dadd_def ctx_abs)
qed (use assms in \<open>simp add: dadd_def\<close>)

lemma signed_sum_le:
  assumes "\<forall>t\<in>set ts. 0 < ct_quantity t \<and> dec_exact (ct_quantity t)"
  shows "\<bar>dsum (map signed_quantity ts)\<bar> \<le> dsum (map ct_quantity ts)"
proof -
  have "\<bar>foldl dadd x (map signed_quantity ts)\<bar> \<le> foldl dadd y (map ct_quantity ts)" if "\<bar>x\<bar> \<le> y" for x y
    using that assms
  proof (induction ts arbitrary: x y)
    case (Cons t ts)
    have "\<bar>signed_quantity t\<bar> = ct_quantity t"
      using Cons.prems(2) by (simp add: signed_quantity_def dneg_def ctx_minus ctx_exact)
    then have "\<bar>x + signed_quantity t\<bar> \<le> y + ct_quantity t" using Cons.prems(1) by linarith
    then have "\<bar>dadd x (signed_quantity t)\<bar> \<le> dadd y (ct_quantity t)"
      unfolding dadd_def ctx_abs [symmetric] by (rule ctx_mono)
    then show ?case using Cons.IH Cons.prems(2) by simp
  qed simp
  then show ?thesis by (simp add: dsum_def)
qed

lemma trade_imbalance_unit:
  assumes "\<forall>t\<in>set ts. 0 < ct_quantity t" "\<forall>t\<in>set ts. dec_exact (ct_quantity t)" "0 < dsum (map ct_quantity ts)"
  shows "\<bar>ddiv (dsum (map signed_quantity ts)) (dsum (map ct_quantity ts))\<bar> \<le> 1"
  using assms by (intro ddiv_abs_le_1 signed_sum_le) auto

lemma regime_nonneg: "0 \<le> dmul (mean_abs xs) 100"
  by (simp add: dmul_def mean_abs_nonneg)

text \<open>
  What a snapshot must hold, from the prices, the latest book and the trades of the history alone: the
  return of each reference over the one before it, and the changes of sign among the returns that
  are not zero. Every operation rounds as \<open>Decimal\<close> does.
\<close>

definition step_return :: "dec list \<Rightarrow> nat \<Rightarrow> dec" where
  "step_return ps i = ddiv (dsub (ps ! i) (ps ! (i - 1))) (ps ! (i - 1))"

definition sign_changes :: "dec list \<Rightarrow> nat" where
  "sign_changes xs = length (filter (\<lambda>i. (0 < xs ! i) \<noteq> (0 < xs ! Suc i)) [0..<length xs - 1])"

definition snapshot_values :: "temporal_state \<Rightarrow> asset \<Rightarrow> any_reference \<Rightarrow> external_snapshot \<Rightarrow> bool" where
  "snapshot_values s a current x \<longleftrightarrow>
     (let ps = map (\<lambda>r. ref_value (any_fields r)) (tp_references s a); n = length ps;
          rs = map (step_return ps) [1..<n]; moves = filter (\<lambda>r. r \<noteq> 0) rs;
          b = last (tp_books s a); p = tob_bid_price b; q = tob_ask_price b;
          bid = tob_bid_quantity b; ask = tob_ask_quantity b; mid = ddiv (dadd p q) 2; depth = dadd bid ask in
      xs_reference x = current
      \<and> xs_short_return x = step_return ps (n - 1)
      \<and> xs_medium_return x = ddiv (dsub (ps ! (n - 1)) (ps ! 0)) (ps ! 0)
      \<and> xs_momentum x = (if n = 2 then step_return ps 1 else dsub (step_return ps (n - 1)) (step_return ps (n - 2)))
      \<and> xs_volatility x = ddiv (dsum (map dabs rs)) (of_nat (n - 1))
      \<and> xs_volatility_acceleration x = (if n = 2 then 0 else
           dsub (dabs (step_return ps (n - 1))) (ddiv (dsum (map (\<lambda>i. dabs (step_return ps i)) [1..<n - 1])) (of_nat (n - 2))))
      \<and> xs_basis x = 0
      \<and> xs_book_imbalance x = ddiv (dsub bid ask) depth
      \<and> xs_microprice_distance x = ddiv (dsub (ddiv (dadd (dmul q bid) (dmul p ask)) depth) mid) mid
      \<and> xs_trade_imbalance x = ddiv
           (dsum (map (\<lambda>t. if ct_buyer_is_maker t then dneg (ct_quantity t) else ct_quantity t) (tp_trades s a)))
           (dsum (map ct_quantity (tp_trades s a)))
      \<and> xs_flip_rate x = ddiv (of_nat (sign_changes moves)) (of_int (max (int (length moves) - 1) 1))
      \<and> xs_stability x = dsub 1 (xs_flip_rate x)
      \<and> xs_regime x = min 1 (dmul (xs_volatility x) 100)
      \<and> xs_source x = ''external-temporal-state-v1''
      \<and> xs_source_ts x = max (any_source_ts current) (book_ts b))"

lemma pairwise_as_map: "pairwise xs = map (\<lambda>i. (xs ! i, xs ! Suc i)) [0..<length xs - 1]"
  by (rule nth_equalityI) (simp_all add: pairwise_nth less_diff_conv)

lemma flip_count_changes: "flip_count (return_signs rs) = sign_changes (filter (\<lambda>r. r \<noteq> 0) rs)"
proof -
  let ?m = "filter (\<lambda>r. r \<noteq> 0) rs"
  have "filter (\<lambda>i. (map (\<lambda>x. 0 < x) ?m ! i) \<noteq> (map (\<lambda>x. 0 < x) ?m ! Suc i)) [0..<length ?m - 1]
      = filter (\<lambda>i. (0 < ?m ! i) \<noteq> (0 < ?m ! Suc i)) [0..<length ?m - 1]"
    by (rule filter_cong) (auto simp: less_diff_conv)
  then show ?thesis
    by (simp add: flip_count_def return_signs_def sign_changes_def pairwise_as_map filter_map comp_def)
qed

lemma length_return_signs [simp]: "length (return_signs rs) = length (filter (\<lambda>r. r \<noteq> 0) rs)"
  by (simp add: return_signs_def)

text \<open>The prices features of a history of positive prices, step by step.\<close>

lemma price_features_values:
  assumes "2 \<le> length ps" "\<forall>p\<in>set ps. 0 < p"
  shows "price_features ps = Inr (step_return ps (length ps - 1),
    ddiv (dsub (ps ! (length ps - 1)) (ps ! 0)) (ps ! 0),
    if length ps = 2 then step_return ps 1 else dsub (step_return ps (length ps - 1)) (step_return ps (length ps - 2)),
    map (step_return ps) [1..<length ps])"
proof -
  let ?n = "length ps"
  have ne: "ps \<noteq> []" using assms(1) by auto
  have at: "price_return (ps ! i) c = Inr (ddiv (dsub c (ps ! i)) (ps ! i))" if "i < ?n" for i c
    using assms(2) that by (simp add: price_return_total)
  have "mapr (\<lambda>(l, r). price_return l r) (pairwise ps) = Inr (map (\<lambda>(l, r). ddiv (dsub r l) l) (pairwise ps))"
    by (rule mapr_total) (use assms(2) in \<open>auto simp: price_return_total dest!: pairwise_in_set\<close>)
  also have "map (\<lambda>(l, r). ddiv (dsub r l) l) (pairwise ps) = map (step_return ps) [1..<?n]"
    by (rule nth_equalityI) (simp_all add: pairwise_nth step_return_def less_diff_conv)
  finally have rs: "mapr (\<lambda>(l, r). price_return l r) (pairwise ps) = Inr (map (step_return ps) [1..<?n])" .
  show ?thesis
  proof (cases "?n = 2")
    case True
    then show ?thesis by (simp add: price_features_def Let_def rs step_return_def at ne)
  next
    case False
    then have "3 \<le> ?n" using assms(1) by simp
    moreover from this have "?n - 1 - 1 = ?n - 2" "?n - 2 - 1 = ?n - 3" by simp_all
    ultimately show ?thesis using False by (simp add: price_features_def Let_def rs step_return_def at ne)
  qed
qed

definition snapshot_bounds :: "temporal_state \<Rightarrow> asset \<Rightarrow> any_reference \<Rightarrow> utc \<Rightarrow> external_snapshot \<Rightarrow> bool" where
  "snapshot_bounds s a current observed_at x \<longleftrightarrow>
     xs_reference x = current \<and> 0 \<le> xs_volatility x \<and>
     0 \<le> xs_flip_rate x \<and> xs_flip_rate x \<le> 1 \<and> 0 \<le> xs_stability x \<and> xs_stability x \<le> 1 \<and>
     0 \<le> xs_regime x \<and> xs_regime x \<le> 1 \<and> \<bar>xs_book_imbalance x\<bar> \<le> 1 \<and>
     ((\<forall>t\<in>set (tp_trades s a). dec_exact (ct_quantity t)) \<longrightarrow> \<bar>xs_trade_imbalance x\<bar> \<le> 1) \<and>
     observed_at - tp_max_age s \<le> xs_source_ts x \<and> xs_source_ts x \<le> observed_at"

lemma snapshot_source_text [simp]: "require_text ''source'' ''external-temporal-state-v1'' = None"
  by code_simp

lemma mk_external_snapshot_Inr:
  "0 \<le> xs_volatility x \<Longrightarrow> 0 \<le> xs_stability x \<Longrightarrow> xs_stability x \<le> 1 \<Longrightarrow> 0 \<le> xs_flip_rate x \<Longrightarrow>
   xs_flip_rate x \<le> 1 \<Longrightarrow> xs_source x = ''external-temporal-state-v1'' \<Longrightarrow> mk_external_snapshot x = Inr x"
  by (simp add: mk_external_snapshot_def external_snapshot_checks_def checked_Inr_iff)

lemma dsum_pos:
  assumes "xs \<noteq> []" "\<forall>x\<in>set xs. 0 < x" shows "0 < dsum xs"
proof -
  have "0 < foldl dadd a xs" if "0 < a" "\<forall>x\<in>set xs. 0 < x" for a xs
    using that by (induction xs arbitrary: a) (simp_all add: dadd_def)
  then show ?thesis using assms by (cases xs) (simp_all add: dsum_def dadd_def)
qed

text \<open>The evidence a snapshot needs, after pruning.\<close>

definition snapshot_evidence :: "temporal_state \<Rightarrow> asset \<Rightarrow> any_reference \<Rightarrow> utc \<Rightarrow> bool" where
  "snapshot_evidence s a current observed_at \<longleftrightarrow>
     observed_at - tp_max_age s \<le> any_source_ts current \<and> any_source_ts current \<le> observed_at \<and>
     tp_minimum_points s \<le> int (length (tp_references s a)) \<and> tp_trades s a \<noteq> [] \<and> tp_books s a \<noteq> [] \<and>
     observed_at - tp_max_age s \<le> book_ts (last (tp_books s a)) \<and> book_ts (last (tp_books s a)) \<le> observed_at"

definition snapshot_promise :: "temporal_state \<Rightarrow> asset \<Rightarrow> any_reference \<Rightarrow> utc \<Rightarrow> temporal_result \<Rightarrow> bool" where
  "snapshot_promise s a current observed_at r \<longleftrightarrow>
     (case tr_snapshot r of
        None \<Rightarrow> \<not> snapshot_evidence s a current observed_at \<and> tr_reason r \<noteq> ''FEATURES_READY''
      | Some x \<Rightarrow> snapshot_evidence s a current observed_at \<and> tr_reason r = ''FEATURES_READY'' \<and>
          snapshot_bounds s a current observed_at x \<and> snapshot_values s a current x)"

lemma snapshot_values_of:
  assumes pf: "price_features (map (\<lambda>r. ref_value (any_fields r)) (tp_references s a)) = Inr (short, medium, momentum, returns)"
    and pos: "2 \<le> length (tp_references s a)" "\<forall>r\<in>set (tp_references s a). 0 < ref_value (any_fields r)"
    and acc: "acc = (if 1 < length returns then dsub (dabs (last returns)) (mean_abs (butlast returns)) else 0)"
    and b: "b = last (tp_books s a)"
  shows "snapshot_values s a current
    \<lparr>xs_reference = current, xs_short_return = short, xs_medium_return = medium, xs_momentum = momentum,
     xs_volatility = mean_abs returns, xs_volatility_acceleration = acc, xs_basis = 0,
     xs_book_imbalance = ddiv (dsub (tob_bid_quantity b) (tob_ask_quantity b)) (dadd (tob_bid_quantity b) (tob_ask_quantity b)),
     xs_microprice_distance = ddiv (dsub (ddiv (dadd (dmul (tob_ask_price b) (tob_bid_quantity b))
         (dmul (tob_bid_price b) (tob_ask_quantity b))) (dadd (tob_bid_quantity b) (tob_ask_quantity b)))
         (ddiv (dadd (tob_bid_price b) (tob_ask_price b)) 2)) (ddiv (dadd (tob_bid_price b) (tob_ask_price b)) 2),
     xs_trade_imbalance = ddiv (dsum (map signed_quantity (tp_trades s a))) (dsum (map ct_quantity (tp_trades s a))),
     xs_stability = dsub 1 (sign_flip_rate (return_signs returns)), xs_flip_rate = sign_flip_rate (return_signs returns),
     xs_regime = min 1 (dmul (mean_abs returns) 100), xs_source = ''external-temporal-state-v1'',
     xs_source_ts = max (any_source_ts current) (book_ts b)\<rparr>"
proof -
  let ?ps = "map (\<lambda>r. ref_value (any_fields r)) (tp_references s a)" and ?n = "length (tp_references s a)"
  have ps: "2 \<le> length ?ps" "\<forall>p\<in>set ?ps. 0 < p" using pos by simp_all
  have v: "short = step_return ?ps (?n - 1)" "medium = ddiv (dsub (?ps ! (?n - 1)) (?ps ! 0)) (?ps ! 0)"
    "momentum = (if ?n = 2 then step_return ?ps 1 else dsub (step_return ?ps (?n - 1)) (step_return ?ps (?n - 2)))"
    and rs: "returns = map (step_return ?ps) [1..<?n]"
    using pf unfolding price_features_values [OF ps] length_map by simp_all
  have m: "mean_abs (map f [1..<k]) = ddiv (dsum (map (\<lambda>i. dabs (f i)) [1..<k])) (of_nat (k - 1))" if "2 \<le> k" for f k
    using that by (simp add: mean_abs_def comp_def)
  have "1 < length returns \<longleftrightarrow> ?n \<noteq> 2" using pos(1) by (auto simp: rs)
  moreover have "[1..<?n] \<noteq> []" using pos(1) by (cases "tp_references s a") simp_all
  then have "last returns = step_return ?ps (last [1..<?n])" unfolding rs by (rule last_map)
  then have "last returns = step_return ?ps (?n - 1)" using pos(1) by simp
  moreover have "butlast [1..<k] = [1..<k - 1]" for k by (cases k) simp_all
  then have "butlast returns = map (step_return ?ps) [1..<?n - 1]" by (simp only: rs flip: map_butlast)
  moreover have "mean_abs (map (step_return ?ps) [1..<?n - 1])
      = ddiv (dsum (map (\<lambda>i. dabs (step_return ?ps i)) [1..<?n - 1])) (of_nat (?n - 2))" if "?n \<noteq> 2"
  proof -
    have "2 \<le> ?n - 1" using that pos(1) by linarith
    moreover have "?n - 1 - 1 = ?n - 2" by simp
    ultimately show ?thesis using m [of "?n - 1" "step_return ?ps"] by metis
  qed
  ultimately have a: "acc = (if ?n = 2 then 0 else dsub (dabs (step_return ?ps (?n - 1)))
      (ddiv (dsum (map (\<lambda>i. dabs (step_return ?ps i)) [1..<?n - 1])) (of_nat (?n - 2))))"
    using acc by (cases "?n = 2") (simp_all only: if_True if_False simp_thms)
  have f: "sign_flip_rate (return_signs returns) = ddiv (of_nat (sign_changes (filter (\<lambda>r. r \<noteq> 0) returns)))
      (of_int (max (int (length (filter (\<lambda>r. r \<noteq> 0) returns)) - 1) 1))"
    by (simp add: sign_flip_rate_def flip_count_changes)
  have vol: "mean_abs returns = ddiv (dsum (map dabs (map (step_return ?ps) [1..<?n]))) (of_nat (?n - 1))"
    using m [OF pos(1), of "step_return ?ps"] by (simp add: rs comp_def)
  have sq: "signed_quantity = (\<lambda>t. if ct_buyer_is_maker t then dneg (ct_quantity t) else ct_quantity t)"
    by (simp add: fun_eq_iff signed_quantity_def)
  show ?thesis
    unfolding snapshot_values_def Let_def external_snapshot.simps length_map b f vol a v
    by (intro conjI) (simp_all only: rs sq)
qed

lemma snapshot_of_total:
  assumes "history_ok s"
  shows "\<exists>r. snapshot_of s a current observed_at = Inr r \<and> snapshot_promise s a current observed_at r"
proof -
  let ?refs = "tp_references s a" and ?books = "tp_books s a" and ?flow = "tp_trades s a"
  have n2: "2 \<le> tp_minimum_points s" using assms by (simp add: history_ok_def)
  obtain short medium momentum returns
    where pf: "int (length ?refs) \<ge> tp_minimum_points s \<Longrightarrow>
      price_features (map (\<lambda>r. ref_value (any_fields r)) ?refs) = Inr (short, medium, momentum, returns)"
  proof (cases "int (length ?refs) \<ge> tp_minimum_points s")
    case True
    have "\<forall>p\<in>set (map (\<lambda>r. ref_value (any_fields r)) ?refs). 0 < p"
      using assms by (auto simp: history_ok_def valid_reference_def reference_checks_def)
    then show ?thesis
      using price_features_total [of "map (\<lambda>r. ref_value (any_fields r)) ?refs"] True n2 that by auto
  qed (use that in blast)
  have book: "0 < tob_bid_quantity (last ?books)" "0 < tob_ask_quantity (last ?books)" if "?books \<noteq> []"
    using assms last_in_set [OF that]
    by (auto simp: history_ok_def valid_top_of_book_def top_of_book_checks_def)
  then have depth: "\<not> dadd (tob_bid_quantity (last ?books)) (tob_ask_quantity (last ?books)) \<le> 0" if "?books \<noteq> []"
    using that by (simp add: dadd_def not_le add_pos_pos)
  have flow: "\<forall>t\<in>set ?flow. 0 < ct_quantity t"
    using assms by (auto simp: history_ok_def valid_crypto_trade_def crypto_trade_checks_def)
  then have total: "0 < dsum (map ct_quantity ?flow)" if "?flow \<noteq> []"
    using that by (simp add: dsum_pos)
  have positive: "int (length ?refs) \<ge> tp_minimum_points s \<Longrightarrow> 2 \<le> length ?refs"
      "\<forall>r\<in>set ?refs. 0 < ref_value (any_fields r)"
    using n2 assms by (auto simp: history_ok_def valid_reference_def reference_checks_def)
  show ?thesis
    using book flow pf depth total
    by (auto simp: snapshot_of_def Let_def mk_external_snapshot_Inr mean_abs_nonneg flip_rate_unit
        stability_unit snapshot_bounds_def snapshot_promise_def snapshot_evidence_def book_imbalance_unit
        trade_imbalance_unit regime_nonneg not_less not_le intro!: snapshot_values_of positive)
qed

section \<open>Pruning\<close>

text \<open>Pruning drops only stale items, and all of them when the queue is in the order of its instants.\<close>

lemma dropWhile_sorted_fresh:
  assumes "sorted (map f xs)" shows "dropWhile (\<lambda>x. \<not> t - f x \<le> (m :: int)) xs = filter (\<lambda>x. t - f x \<le> m) xs"
  using assms
proof (induction xs)
  case (Cons x xs)
  have "filter (\<lambda>x. t - f x \<le> m) xs = xs" if "t - f x \<le> m"
    using Cons.prems that by (intro filter_True) force
  then show ?case using Cons by simp
qed simp

lemma prune_in_order:
  "sorted (map any_source_ts (tp_references s a)) \<Longrightarrow>
     tp_references (prune a t s) a = filter (\<lambda>r. t - any_source_ts r \<le> tp_max_age s) (tp_references s a)"
  "sorted (map book_ts (tp_books s a)) \<Longrightarrow>
     tp_books (prune a t s) a = filter (\<lambda>b. t - book_ts b \<le> tp_max_age s) (tp_books s a)"
  "sorted (map trade_ts (tp_trades s a)) \<Longrightarrow>
     tp_trades (prune a t s) a = filter (\<lambda>b. t - trade_ts b \<le> tp_max_age s) (tp_trades s a)"
  by (simp_all add: prune_def dropWhile_sorted_fresh)

text \<open>A late item behind a fresh one stays, however old it is: the retention is bounded only in order.\<close>

lemma prune_keeps_late_item:
  assumes "tp_references s a = [x, y]" "t - any_source_ts x \<le> tp_max_age s"
  shows "tp_references (prune a t s) a = [x, y]"
  using assms by (simp add: prune_def)

section \<open>Properties\<close>

lemma reachable_diagnostics_duplicates:
  assumes "temporal_reachable s" "tp_dedup s"
  shows "\<forall>k\<in>{''duplicate_reference_source_identity_count'', ''duplicate_book_source_identity_count'',
      ''duplicate_trade_source_identity_count''}. json_get (diagnostics s a returns signs n) k = Some (JInt 0)"
  using reachable_distinct [OF assms]
  by (simp add: diagnostics_duplicates unique_count_distinct distinct_identities queues_distinct_def)

text \<open>
  C32: in every history reachable by adding contract-valid references, books and trades and building
  snapshots, \<open>build_snapshot\<close> never raises. It gives features exactly when the pruned history has fresh
  evidence of all three kinds, and then every feature is the one its definition gives on that history
  (the returns of the last and of all the references, the change of the last two returns, the mean
  absolute return and its change, the imbalance and microprice of the latest book, the signed share of
  the traded volume, the share of sign changes among the returns), with decimal rounding. Volatility is not
  negative, stability, flip rate and regime lie in \<open>[0, 1]\<close>, the book imbalance in \<open>[-1, 1]\<close> - and the trade
  imbalance too when every quantity has at most 28 significant digits: longer ones are rounded in one sum
  and not in the other - and the source instant is neither stale nor in the future. The returns,
  the momentum and the microprice distance have no range of their own.
\<close>

theorem temporal_snapshot_is_sound:
  assumes "temporal_reachable s"
  shows "\<exists>r. build_snapshot a current observed_at s = (prune a observed_at s, Inr r) \<and>
    snapshot_promise (prune a observed_at s) a current observed_at r"
  using snapshot_of_total [OF prune_ok [OF reachable_history_ok [OF assms]]]
  by (simp add: build_snapshot_def Let_def)

definition temporal_reference :: "utc \<Rightarrow> dec \<Rightarrow> any_reference" where
  "temporal_reference t v = Proxy \<lparr>ref_id = ''r'', ref_market_id = ''m'', ref_asset = BTC, ref_value = v,
     ref_source = ''binance'', ref_source_ts = t, ref_recv_ts = t, ref_effective_ts = t\<rparr>"

definition temporal_lineage :: event_lineage where
  "temporal_lineage = \<lparr>lin_source = BINANCE_SPOT, lin_source_ts = Some 3, lin_recv_ts = 3,
     lin_normalized_ts = 3, lin_recv_monotonic_ns = 0\<rparr>"

definition temporal_book :: top_of_book where
  "temporal_book = \<lparr>tob_asset = BTC, tob_bid_price = 99, tob_bid_quantity = 2, tob_ask_price = 101,
     tob_ask_quantity = 1, tob_update_id = 7, tob_lineage = temporal_lineage\<rparr>"

definition temporal_trade :: crypto_trade where
  "temporal_trade = \<lparr>ct_asset = BTC, ct_price = 100, ct_quantity = 3, ct_trade_id = 9,
     ct_buyer_is_maker = True, ct_lineage = temporal_lineage\<rparr>"

definition temporal_history :: "temporal_state \<Rightarrow> temporal_state" where
  "temporal_history s = add_trade temporal_trade (add_book temporal_book (add_reference (temporal_reference 3 99)
     (add_reference (temporal_reference 2 110) (add_reference (temporal_reference 1 100) s))))"

lemma temporal_history_reachable: "temporal_reachable s \<Longrightarrow> temporal_reachable (temporal_history s)"
  unfolding temporal_history_def
  by (intro temporal_reachable.trade_added temporal_reachable.book_added temporal_reachable.reference_added)
     (simp_all add: temporal_reference_def temporal_book_def temporal_trade_def valid_reference_def reference_checks_def
       valid_top_of_book_def top_of_book_checks_def valid_crypto_trade_def crypto_trade_checks_def
       require_text_def py_strip_def py_space_def)

lemmas temporal_defs = temporal_history_def temporal_reference_def temporal_book_def temporal_trade_def temporal_lineage_def

theorem temporal_snapshot_is_sound_witness:
  "\<exists>s x. mk_temporal_state 10 3 False = Inr s \<and>
     map_sum id tr_snapshot (snd (build_snapshot BTC (temporal_reference 4 100) 5 (temporal_history s))) = Inr (Some x) \<and>
     xs_reference x = temporal_reference 4 100 \<and> \<bar>xs_trade_imbalance x\<bar> \<le> 1"
proof -
  obtain s where s: "mk_temporal_state 10 3 False = Inr s"
    by (simp add: mk_temporal_state_def contract_simps)
  let ?h = "temporal_history s"
  obtain r where r: "build_snapshot BTC (temporal_reference 4 100) 5 ?h = (prune BTC 5 ?h, Inr r)"
    "snapshot_promise (prune BTC 5 ?h) BTC (temporal_reference 4 100) 5 r"
    using temporal_snapshot_is_sound [OF temporal_history_reachable [OF temporal_reachable.created [OF s]]] by blast
  have sv: "\<not> tp_dedup s" "tp_max_age s = 10" "tp_minimum_points s = 3" "tp_references s = (\<lambda>a. [])"
    "tp_books s = (\<lambda>a. [])" "tp_trades s = (\<lambda>a. [])"
    using s by (auto simp: mk_temporal_state_def contract_simps)
  have h: "tp_max_age (prune BTC 5 ?h) = 10" "tp_minimum_points (prune BTC 5 ?h) = 3"
    "tp_references (prune BTC 5 ?h) BTC = [temporal_reference 1 100, temporal_reference 2 110, temporal_reference 3 99]"
    "tp_books (prune BTC 5 ?h) BTC = [temporal_book]" "tp_trades (prune BTC 5 ?h) BTC = [temporal_trade]"
    by (simp_all add: sv temporal_defs prune_def add_reference_def add_book_def add_trade_def
        append_reference_def append_book_def Let_def any_source_ts_def book_ts_def trade_ts_def lineage_ts_def)
  have "snapshot_evidence (prune BTC 5 ?h) BTC (temporal_reference 4 100) 5"
    by (simp add: snapshot_evidence_def h)
      (simp add: any_source_ts_def book_ts_def lineage_ts_def temporal_defs)
  moreover have "dec_exact (ct_quantity temporal_trade)"
    using dec_exact_of_nat [of 3] by (simp add: temporal_trade_def)
  ultimately show ?thesis
    using s r h(5) by (auto simp: snapshot_promise_def snapshot_bounds_def split: option.splits)
qed

end
