(* ===== verification/Paper_Runtime.thy ===== *)
theory Paper_Runtime
  imports Models Corpus
begin

text \<open>
  \<open>models/paper_runtime.py\<close> and \<open>models/governance.py\<close>: the models of a PAPER run are fitted from the
  labelled observations of the corpus, one bucket at a time, and the governance decision says which of
  them may execute. Binary floating point and the reading and showing of numbers are operations of the
  interpreter, collected in \<open>py_numbers\<close>; a float is a rational, so the infinities and NaN are outside
  the model.
\<close>

section \<open>Floating point\<close>

record py_numbers =
  num_round :: "rat \<Rightarrow> rat"
  num_sum :: "rat list \<Rightarrow> rat"
  num_exp :: "rat \<Rightarrow> rat"
  num_log :: "rat \<Rightarrow> rat"
  num_repr :: "rat \<Rightarrow> dec"
  num_read :: "string \<Rightarrow> dec option"
  num_show :: "json \<Rightarrow> string"

text \<open>\<open>Decimal(str(value))\<close> of a JSON value.\<close>

definition json_decimal :: "py_numbers \<Rightarrow> json \<Rightarrow> dec result" where
  "json_decimal num v = (case num_read num (json_str (num_show num) v) of None \<Rightarrow> Inl InvalidOperation | Some d \<Rightarrow> Inr d)"

section \<open>Fitting one bucket\<close>

definition min_probability :: dec where "min_probability = 1 / 100"
definition max_probability :: dec where "max_probability = 99 / 100"

definition clamp :: "dec \<Rightarrow> dec \<Rightarrow> dec \<Rightarrow> dec" where
  "clamp v lo hi = max lo (min hi v)"

definition optional_str :: "py_numbers \<Rightarrow> json option \<Rightarrow> string" where
  "optional_str num v = (case v of None \<Rightarrow> ''None'' | Some x \<Rightarrow> json_str (num_show num) x)"

definition feature_schema :: "py_numbers \<Rightarrow> (string list \<Rightarrow> string) \<Rightarrow> training_record \<Rightarrow> (string list \<times> string) result" where
  "feature_schema num digest rec =
     (case json_get (tr_payload rec) ''feature_vector'' of
        Some (JDict v) \<Rightarrow>
          (case json_get (JDict v) ''feature_set_version'' of
             Some (JStr version) \<Rightarrow>
               if version = [] then Inl (ValueErr ''MODEL_ARTIFACT_INVALID'')
               else (case json_get (JDict v) ''features'' of
                 Some (JList items) \<Rightarrow>
                   (let names = map (\<lambda>item. optional_str num (json_get item ''name'')) (filter is_object items) in
                    if items = [] \<or> length names \<noteq> length items then Inl (ValueErr ''MODEL_ARTIFACT_INVALID'')
                    else bindr (feature_schema_hash digest names) (\<lambda>_. Inr (names, version)))
               | _ \<Rightarrow> Inl (ValueErr ''MODEL_ARTIFACT_INVALID''))
           | _ \<Rightarrow> Inl (ValueErr ''MODEL_ARTIFACT_INVALID''))
      | _ \<Rightarrow> Inl (ValueErr ''MODEL_ARTIFACT_INVALID''))"

definition feature_cell :: "py_numbers \<Rightarrow> json \<Rightarrow> rat result" where
  "feature_cell num item =
     (case json_get item ''value'' of
        None \<Rightarrow> Inl (ValueErr ''MODEL_ARTIFACT_INVALID'')
      | Some JNull \<Rightarrow> Inl (ValueErr ''MODEL_ARTIFACT_INVALID'')
      | Some v \<Rightarrow> bindr (json_decimal num v) (\<lambda>d. Inr (num_round num d)))"

definition feature_row :: "py_numbers \<Rightarrow> (string list \<Rightarrow> string) \<Rightarrow> training_record \<Rightarrow> string list \<Rightarrow> string \<Rightarrow>
    rat list result" where
  "feature_row num digest rec feature_names version =
     bindr (feature_schema num digest rec) (\<lambda>(names, v).
       if v \<noteq> version then Inl (ValueErr ''FEATURE_SCHEMA_MISMATCH'')
       else if names \<noteq> feature_names then Inl (ValueErr ''MODEL_ARTIFACT_INVALID'')
       else (case json_get (tr_payload rec) ''feature_vector'' of
          Some vec \<Rightarrow> (case json_get vec ''features'' of
             Some (JList items) \<Rightarrow> mapr (feature_cell num) items
           | _ \<Rightarrow> Inl (ValueErr ''MODEL_ARTIFACT_INVALID''))
        | None \<Rightarrow> Inl (KeyErr ''feature_vector'')))"

text \<open>
  The gradient descent of \<open>_fit_l2_coefficients\<close>, with the rounding of the float after every operator
  and the interpreter's own \<open>sum\<close> of floats.
\<close>

definition row_error :: "py_numbers \<Rightarrow> rat list \<Rightarrow> rat \<Rightarrow> rat list \<Rightarrow> bool \<Rightarrow> rat" where
  "row_error num cs b row up =
     (let score = num_round num (b + num_sum num (map2 (\<lambda>c x. num_round num (c * x)) cs row));
          p = num_round num (1 / num_round num (1 + num_exp num (- max (- 40) (min 40 score)))) in
      num_round num (p - (if up then 1 else 0)))"

fun accumulate :: "py_numbers \<Rightarrow> rat list \<Rightarrow> rat \<Rightarrow> (rat list \<times> bool) list \<Rightarrow> rat list \<times> rat \<Rightarrow> rat list \<times> rat" where
  "accumulate num cs b [] acc = acc"
| "accumulate num cs b ((row, up) # rest) (gs, gb) =
     (let e = row_error num cs b row up in
      accumulate num cs b rest (map2 (\<lambda>g x. num_round num (g + num_round num (e * x))) gs row,
        num_round num (gb + e)))"

definition descend :: "py_numbers \<Rightarrow> rat \<Rightarrow> rat \<Rightarrow> (rat list \<times> bool) list \<Rightarrow> rat list \<times> rat \<Rightarrow> rat list \<times> rat" where
  "descend num rate l2 data st = (case st of (cs, b) \<Rightarrow>
     (let (gs, gb) = accumulate num cs b data (map (\<lambda>_. 0) cs, 0);
          scale = num_round num (1 / of_nat (length data)) in
      (map2 (\<lambda>c g. num_round num (c - num_round num (rate *
           num_round num (num_round num (g * scale) + num_round num (l2 * c))))) cs gs,
       num_round num (b - num_round num (num_round num (rate * gb) * scale)))))"

definition fit_l2_coefficients :: "py_numbers \<Rightarrow> rat list list \<Rightarrow> bool list \<Rightarrow> nat \<Rightarrow> rat \<Rightarrow> rat \<Rightarrow> dec list \<times> dec" where
  "fit_l2_coefficients num rows labels iterations rate l2 =
     (let positive_rate = num_round num (of_nat (length (filter id labels)) / of_nat (length labels));
          start = num_log num (num_round num (positive_rate / num_round num (1 - positive_rate)));
          (cs, b) = (descend num rate l2 (zip rows labels) ^^ iterations) (map (\<lambda>_. 0) (hd rows), start) in
      (map (num_repr num) cs, num_repr num b))"

definition near_zero_variance :: "rat list list \<Rightarrow> nat \<Rightarrow> bool" where
  "near_zero_variance rows width \<longleftrightarrow> (\<forall>i<width. card ((\<lambda>row. row ! i) ` set rows) \<le> 1)"

definition paper_model_version :: "market_bucket \<Rightarrow> string" where
  "paper_model_version b = ''PAPER_LOGISTIC:'' @ asset_value (bkt_asset b) @ '':'' @ horizon_value (bkt_horizon b)"

definition paper_calibration_version :: "market_bucket \<Rightarrow> string" where
  "paper_calibration_version b = ''PAPER_RELIABILITY:'' @ asset_value (bkt_asset b) @ '':'' @ horizon_value (bkt_horizon b)"

definition base_rate :: "training_record list \<Rightarrow> dec" where
  "base_rate recs = clamp (ddiv (of_nat (length (filter tr_outcome_up recs))) (of_nat (length recs)))
     min_probability max_probability"

definition fit_l2_logistic_bucket :: "py_numbers \<Rightarrow> (string list \<Rightarrow> string) \<Rightarrow> market_bucket \<Rightarrow> training_record list \<Rightarrow>
    (logistic_artifact \<times> reliability_calibrator) result" where
  "fit_l2_logistic_bucket num digest b recs =
     bindr (feature_schema num digest (hd recs)) (\<lambda>(names, version).
     bindr (mapr (\<lambda>rec. feature_row num digest rec names version) recs) (\<lambda>rows.
       let observed_up = length (filter tr_outcome_up recs); observed_down = length recs - observed_up in
       if observed_up = 0 \<or> observed_down = 0 then Inl (ValueErr ''DEGENERATE_MODEL_SINGLE_CLASS'')
       else if near_zero_variance rows (length names) then Inl (ValueErr ''DEGENERATE_MODEL_NEAR_ZERO_VARIANCE'')
       else let (cs, i) = fit_l2_coefficients num rows (map tr_outcome_up recs) 300
              (num_round num (5 / 100)) (num_round num (1 / 100)) in
         bindr (feature_schema_hash digest names) (\<lambda>hash.
         bindr (mk_artifact digest \<lparr>la_model_version = paper_model_version b, la_feature_set_version = version,
             la_feature_names = names, la_coefficients = cs, la_intercept = i, la_schema_hash = hash\<rparr>) (\<lambda>art.
         bindr (mk_bin \<lparr>cb_lower = 0, cb_upper = 1, cb_p_up = base_rate recs, cb_count = int (length recs)\<rparr>) (\<lambda>bin.
         bindr (mk_calibrator \<lparr>cal_asset = bkt_asset b, cal_horizon = bkt_horizon b,
             cal_version = paper_calibration_version b, cal_bins = [bin],
             cal_trained_through = Max (set (map tr_observed_at recs))\<rparr>) (\<lambda>cal. Inr (art, cal)))))))"

section \<open>Loading the registry\<close>

record training_report =
  trr_asset :: asset
  trr_horizon :: horizon
  trr_current_count :: int
  trr_required_count :: int
  trr_state :: string
  trr_reason :: string
  trr_model_version :: "string option"
  trr_calibration_version :: "string option"
  trr_rejection_reasons :: "string list"

record registry_load =
  rl_registry :: model_registry
  rl_reports :: "training_report list"

definition report_for :: "registry_load \<Rightarrow> market_bucket \<Rightarrow> training_report result" where
  "report_for l b = (case find (\<lambda>x. trr_asset x = bkt_asset b \<and> trr_horizon x = bkt_horizon b) (rl_reports l) of
     Some x \<Rightarrow> Inr x | None \<Rightarrow> Inl (RuntimeErr ''StopIteration''))"

definition condition_count :: "training_record list \<Rightarrow> nat" where
  "condition_count recs = card (set (map tr_condition_id recs))"

definition unready_bucket :: "market_bucket \<Rightarrow> string \<Rightarrow> nat \<Rightarrow> bucket_model_state result" where
  "unready_bucket b version n =
     bindr (mk_readiness \<lparr>cr_asset = bkt_asset b, cr_horizon = bkt_horizon b, cr_version = version,
         cr_sample_count = int n, cr_ready = False\<rparr>) (\<lambda>ready.
       mk_bucket_model \<lparr>bms_bucket = b, bms_readiness = ready, bms_artifact = None, bms_calibrator = None\<rparr>)"

definition unready_report :: "market_bucket \<Rightarrow> nat \<Rightarrow> int \<Rightarrow> string \<Rightarrow> string \<Rightarrow> string list \<Rightarrow> training_report" where
  "unready_report b n minimum state reason rejected =
     \<lparr>trr_asset = bkt_asset b, trr_horizon = bkt_horizon b, trr_current_count = int n, trr_required_count = minimum,
      trr_state = state, trr_reason = reason, trr_model_version = None, trr_calibration_version = None,
      trr_rejection_reasons = rejected\<rparr>"

definition records_of :: "corpus_repo option \<Rightarrow> int option \<Rightarrow> market_bucket \<Rightarrow> training_record list result" where
  "records_of repo mx b = (case repo of None \<Rightarrow> Inr []
     | Some r \<Rightarrow> training_ready_records r (bkt_asset b) (bkt_horizon b) mx)"

text \<open>One turn of the loop over the buckets; only \<open>ValueError\<close> is caught.\<close>

definition load_bucket :: "py_numbers \<Rightarrow> (string list \<Rightarrow> string) \<Rightarrow> corpus_repo option \<Rightarrow> int \<Rightarrow> int option \<Rightarrow>
    market_bucket \<Rightarrow> (bucket_model_state \<times> training_report) result" where
  "load_bucket num digest repo minimum max_records b =
     bindr (records_of repo max_records b) (\<lambda>recs.
       let n = condition_count recs in
       if int n < minimum then
         bindr (unready_bucket b ''UNPROMOTED'' n) (\<lambda>s. Inr (s, unready_report b n minimum
           (if n \<noteq> 0 then ''INSUFFICIENT_SAMPLE'' else ''TRAINING_CORPUS_REQUIRED'')
           (if n \<noteq> 0 then ''INSUFFICIENT_OFFICIAL_LABELED_CORPUS'' else ''TRAINING_CORPUS_REQUIRED'') []))
       else (case fit_l2_logistic_bucket num digest b recs of
           Inl (ValueErr m) \<Rightarrow>
             bindr (unready_bucket b ''REJECTED'' n) (\<lambda>s. Inr (s, unready_report b n minimum ''REJECTED'' m [m]))
         | Inl e \<Rightarrow> Inl e
         | Inr (art, cal) \<Rightarrow>
             bindr (mk_readiness \<lparr>cr_asset = bkt_asset b, cr_horizon = bkt_horizon b, cr_version = cal_version cal,
                 cr_sample_count = cal_sample_count cal, cr_ready = True\<rparr>) (\<lambda>ready.
             bindr (mk_bucket_model \<lparr>bms_bucket = b, bms_readiness = ready, bms_artifact = Some art,
                 bms_calibrator = Some cal\<rparr>) (\<lambda>s.
               Inr (s, \<lparr>trr_asset = bkt_asset b, trr_horizon = bkt_horizon b, trr_current_count = int n,
                 trr_required_count = minimum, trr_state = ''SHADOW_CANDIDATE'',
                 trr_reason = ''PAPER_BUCKET_CHALLENGER_READY'', trr_model_version = Some (la_model_version art),
                 trr_calibration_version = Some (cal_version cal), trr_rejection_reasons = []\<rparr>)))))"

definition load_paper_registry :: "py_numbers \<Rightarrow> (string list \<Rightarrow> string) \<Rightarrow> corpus_repo option \<Rightarrow> int \<Rightarrow> int option \<Rightarrow>
    registry_load result" where
  "load_paper_registry num digest repo minimum max_records =
     checked [fail_if (minimum < 1) (ValueErr ''minimum_samples must be positive''),
         fail_if (case max_records of None \<Rightarrow> False | Some n \<Rightarrow> n < minimum)
           (ValueErr ''max_records_per_bucket must be at least minimum_samples'')]
      (bindr (mapr (load_bucket num digest repo minimum max_records) supported_market_buckets) (\<lambda>loaded.
       bindr (mk_registry (map fst loaded)) (\<lambda>reg. Inr \<lparr>rl_registry = reg, rl_reports = map snd loaded\<rparr>)))"

section \<open>The research baseline\<close>

definition feature_or_zero :: "feature_vector \<Rightarrow> string \<Rightarrow> dec" where
  "feature_or_zero v name = (case feature_map v name of Some x \<Rightarrow> x | None \<Rightarrow> 0)"

definition baseline_score :: "feature_vector \<Rightarrow> dec" where
  "baseline_score v =
     dadd (dadd (dadd (dadd (dadd (dadd
       (dmul (feature_or_zero v ''ptb_normalized_distance'') 6)
       (dmul (feature_or_zero v ''momentum'') 2))
       (dmul (feature_or_zero v ''short_return'') 2))
       (dmul (feature_or_zero v ''trade_imbalance'') (1 / 10)))
       (dmul (feature_or_zero v ''external_book_imbalance'') (1 / 10)))
       (dmul (feature_or_zero v ''microprice_distance'') 2))
       (dmul (feature_or_zero v ''regime_score'') (5 / 100))"

definition baseline_version :: string where "baseline_version = ''PAPER_RESEARCH_BASELINE''"
definition baseline_calibration_version :: string where
  "baseline_calibration_version = ''PAPER_RESEARCH_BASELINE_UNPROMOTABLE''"

definition paper_research_baseline_forecast :: "feature_vector \<Rightarrow> utc \<Rightarrow>
    (probability_forecast \<times> calibration_readiness) result" where
  "paper_research_baseline_forecast v generated_at =
     checked [fail_if (\<exists>f\<in>set (fvec_features v). price_term (feat_name f))
         (ValueErr ''PAPER baseline cannot consume Polymarket price alpha'')]
      (let p = clamp (dadd (1 / 2) (baseline_score v)) min_probability max_probability in
       bindr (mk_forecast \<lparr>fc_market_id = fvec_market_id v, fc_asset = fvec_asset v, fc_horizon = fvec_horizon v,
           fc_p_up = p, fc_p_down = dsub 1 p, fc_model_version = baseline_version,
           fc_calibration_version = baseline_calibration_version, fc_feature_set_version = fvec_version v,
           fc_feature_as_of = fvec_generated_at v, fc_generated_at = generated_at\<rparr>) (\<lambda>f.
       bindr (mk_readiness \<lparr>cr_asset = fvec_asset v, cr_horizon = fvec_horizon v,
           cr_version = baseline_calibration_version, cr_sample_count = 0, cr_ready = True\<rparr>) (\<lambda>r. Inr (f, r))))"

section \<open>Governance\<close>

datatype execution_permission = PERMIT_NONE | PERMIT_SHADOW | PERMIT_LIMITED_PAPER | PERMIT_PAPER

datatype governance_state = GOV_RESEARCH_ONLY | GOV_CHALLENGER | GOV_SHADOW_ONLY | GOV_SHADOW_CANDIDATE
  | GOV_SHADOW_PROMOTED | GOV_LIMITED_PAPER | GOV_PAPER_PROMOTED | GOV_HISTORICAL_RESEARCH_ONLY | GOV_SUSPECT
  | GOV_NON_PROMOTABLE | GOV_REJECTED | GOV_QUARANTINED | GOV_RETIRED

record governance_decision =
  gov_bucket :: market_bucket
  gov_state :: governance_state
  gov_permission :: execution_permission
  gov_reason :: string
  gov_model_version :: "string option"
  gov_promotion_id :: "string option"

definition paper_execution_allowed :: "governance_decision \<Rightarrow> bool" where
  "paper_execution_allowed d \<longleftrightarrow> gov_permission d \<in> {PERMIT_LIMITED_PAPER, PERMIT_PAPER}"

type_synonym promotions = "market_bucket \<times> string \<Rightarrow> governance_decision option"

definition unpromoted_state :: "string option \<Rightarrow> governance_state" where
  "unpromoted_state version =
     (if version = Some baseline_version then GOV_HISTORICAL_RESEARCH_ONLY
      else case version of
        None \<Rightarrow> GOV_SHADOW_ONLY
      | Some v \<Rightarrow> if take 15 v = ''PAPER_LOGISTIC:'' then GOV_SUSPECT else GOV_NON_PROMOTABLE)"

definition directional_paper_governance_decision :: "market_bucket \<Rightarrow> probability_forecast option \<Rightarrow>
    promotions option \<Rightarrow> governance_decision" where
  "directional_paper_governance_decision b forecast promoted_models =
     (let version = map_option fc_model_version forecast;
          unpromoted = \<lparr>gov_bucket = b, gov_state = unpromoted_state version, gov_permission = PERMIT_NONE,
            gov_reason = ''MODEL_NOT_PROMOTED'', gov_model_version = version, gov_promotion_id = None\<rparr> in
      case (version, promoted_models) of
        (Some v, Some pm) \<Rightarrow>
          (case pm (b, v) of
             None \<Rightarrow> unpromoted
           | Some d \<Rightarrow>
               if \<not> paper_execution_allowed d then d
               else \<lparr>gov_bucket = b, gov_state = gov_state d, gov_permission = gov_permission d,
                 gov_reason = ''PROMOTED_MODEL_AUTHORIZED'', gov_model_version = version,
                 gov_promotion_id = gov_promotion_id d\<rparr>)
      | _ \<Rightarrow> unpromoted)"

section \<open>What a trained bucket forecasts\<close>

lemma base_rate_unit: "0 \<le> base_rate recs" "base_rate recs \<le> 1"
  by (auto simp: base_rate_def clamp_def min_probability_def max_probability_def)

text \<open>
  A fitted bucket has seen both outcomes, and its calibrator has the single bin from zero to one: it maps
  every raw probability to the clamped base rate.
\<close>

lemma fit_bucket_outcome:
  assumes "fit_l2_logistic_bucket num digest b recs = Inr (art, cal)"
  shows "passes (artifact_checks digest art)" "valid_calibrator cal"
    "cal_asset cal = bkt_asset b" "cal_horizon cal = bkt_horizon b" "cal_sample_count cal = int (length recs)"
    "cal_trained_through cal = Max (set (map tr_observed_at recs))"
    "la_model_version art = paper_model_version b"
    "\<exists>x\<in>set recs. tr_outcome_up x" "\<exists>x\<in>set recs. \<not> tr_outcome_up x"
    "calibrate cal raw = Inr p \<Longrightarrow> p = base_rate recs"
proof -
  obtain bin where bin: "mk_bin \<lparr>cb_lower = 0, cb_upper = 1, cb_p_up = base_rate recs, cb_count = int (length recs)\<rparr> = Inr bin"
    and art: "passes (artifact_checks digest art)" "la_model_version art = paper_model_version b"
    and cal: "mk_calibrator \<lparr>cal_asset = bkt_asset b, cal_horizon = bkt_horizon b,
             cal_version = paper_calibration_version b, cal_bins = [bin],
             cal_trained_through = Max (set (map tr_observed_at recs))\<rparr> = Inr cal"
    and classes: "length (filter tr_outcome_up recs) \<noteq> 0" "length recs - length (filter tr_outcome_up recs) \<noteq> 0"
    using assms unfolding fit_l2_logistic_bucket_def Let_def
    by (auto simp: bindr_Inr_iff mk_artifact_def checked_Inr_iff split: if_splits prod.splits)
  have b: "bin = \<lparr>cb_lower = 0, cb_upper = 1, cb_p_up = base_rate recs, cb_count = int (length recs)\<rparr>" "valid_bin bin"
    using bin by (auto simp: mk_bin_def valid_bin_def checked_Inr_iff)
  have c: "cal = \<lparr>cal_asset = bkt_asset b, cal_horizon = bkt_horizon b, cal_version = paper_calibration_version b,
      cal_bins = [bin], cal_trained_through = Max (set (map tr_observed_at recs))\<rparr>" "passes (calibrator_checks cal)"
    using cal by (auto simp: mk_calibrator_def checked_Inr_iff)
  show "passes (artifact_checks digest art)" "la_model_version art = paper_model_version b" using art by auto
  show "valid_calibrator cal" using c b(2) by (simp add: valid_calibrator_def)
  show "cal_asset cal = bkt_asset b" "cal_horizon cal = bkt_horizon b" "cal_sample_count cal = int (length recs)"
    "cal_trained_through cal = Max (set (map tr_observed_at recs))"
    using c(1) b(1) by (simp_all add: cal_sample_count_def)
  show "\<exists>x\<in>set recs. tr_outcome_up x" using classes(1) by (auto simp: filter_empty_conv)
  have "filter tr_outcome_up recs \<noteq> recs" using classes(2) by auto
  then show "\<exists>x\<in>set recs. \<not> tr_outcome_up x" using filter_True [of recs tr_outcome_up] by blast
  show "p = base_rate recs" if "calibrate cal raw = Inr p"
    using that c(1) b(1) by (auto simp: calibrate_def checked_Inr_iff split: if_splits)
qed

definition trained_on :: "training_record list \<Rightarrow> int \<Rightarrow> bucket_model_state \<Rightarrow> bool" where
  "trained_on recs minimum s \<longleftrightarrow> minimum \<le> int (condition_count recs)
     \<and> (\<exists>x\<in>set recs. tr_outcome_up x) \<and> (\<exists>x\<in>set recs. \<not> tr_outcome_up x)
     \<and> (\<exists>c. bms_calibrator s = Some c \<and> cal_trained_through c = Max (set (map tr_observed_at recs))
          \<and> (\<forall>raw p. calibrate c raw = Inr p \<longrightarrow> p = base_rate recs))"

lemma unready_bucket_outcome:
  assumes "unready_bucket b version n = Inr s"
  shows "bms_bucket s = b" "\<not> cr_ready (bms_readiness s)" "valid_bucket_model digest s"
  using assms by (auto simp: unready_bucket_def mk_readiness_def mk_bucket_model_def checked_Inr_iff bindr_Inr_iff
    valid_bucket_model_def)

lemma load_bucket_outcome:
  assumes "load_bucket num digest repo minimum mx b = Inr (s, rep)"
  shows "bms_bucket s = b" "valid_bucket_model digest s"
    "\<exists>recs. records_of repo mx b = Inr recs \<and> trr_current_count rep = int (condition_count recs)
       \<and> (cr_ready (bms_readiness s) \<longrightarrow> trained_on recs minimum s)
       \<and> (trr_state rep = ''SHADOW_CANDIDATE'' \<longleftrightarrow> cr_ready (bms_readiness s))"
proof -
  obtain recs where recs: "records_of repo mx b = Inr recs"
    using assms unfolding load_bucket_def by (auto simp: bindr_Inr_iff)
  have "bms_bucket s = b \<and> valid_bucket_model digest s \<and> trr_current_count rep = int (condition_count recs)
      \<and> (cr_ready (bms_readiness s) \<longrightarrow> trained_on recs minimum s)
      \<and> (trr_state rep = ''SHADOW_CANDIDATE'' \<longleftrightarrow> cr_ready (bms_readiness s))"
  proof (cases "int (condition_count recs) < minimum")
    case True
    then show ?thesis
      using assms recs unready_bucket_outcome(1,2) [where b = b and s = s] unready_bucket_outcome(3) [where b = b and s = s and digest = digest]
      unfolding load_bucket_def Let_def
      by (auto simp: bindr_Inr_iff unready_report_def split: if_splits)
  next
    case False
    note few = this
    show ?thesis
    proof (cases "fit_l2_logistic_bucket num digest b recs")
      case (Inl e)
      then obtain m where "e = ValueErr m" "unready_bucket b ''REJECTED'' (condition_count recs) = Inr s"
        "rep = unready_report b (condition_count recs) minimum ''REJECTED'' m [m]"
        using assms recs few unfolding load_bucket_def Let_def
        by (cases e) (auto simp: bindr_Inr_iff)
      then show ?thesis
        using unready_bucket_outcome(1,2) [where b = b and s = s] unready_bucket_outcome(3) [where b = b and s = s and digest = digest] by (auto simp: unready_report_def)
    next
      case (Inr ac)
      obtain art cal where ac: "ac = (art, cal)" by (cases ac)
      have s: "s = \<lparr>bms_bucket = b, bms_readiness = \<lparr>cr_asset = bkt_asset b, cr_horizon = bkt_horizon b,
          cr_version = cal_version cal, cr_sample_count = cal_sample_count cal, cr_ready = True\<rparr>,
          bms_artifact = Some art, bms_calibrator = Some cal\<rparr>" "passes (bucket_model_checks s)"
        "trr_current_count rep = int (condition_count recs)" "trr_state rep = ''SHADOW_CANDIDATE''"
        using assms recs few Inr unfolding load_bucket_def Let_def ac
        by (auto simp: bindr_Inr_iff mk_readiness_def mk_bucket_model_def checked_Inr_iff)
      note fit = fit_bucket_outcome [OF Inr [unfolded ac]]
      have "trained_on recs minimum s"
        using fit(6,8,9,10) few s(1) by (auto simp: trained_on_def)
      moreover have "valid_bucket_model digest s"
        using fit(1,2) s by (simp add: valid_bucket_model_def)
      ultimately show ?thesis using s by simp
    qed
  qed
  then show "bms_bucket s = b" "valid_bucket_model digest s"
    "\<exists>recs. records_of repo mx b = Inr recs \<and> trr_current_count rep = int (condition_count recs)
       \<and> (cr_ready (bms_readiness s) \<longrightarrow> trained_on recs minimum s)
       \<and> (trr_state rep = ''SHADOW_CANDIDATE'' \<longleftrightarrow> cr_ready (bms_readiness s))"
    using recs by auto
qed

lemma loaded_states:
  assumes "load_paper_registry num digest repo minimum mx = Inr l"
  shows "list_all2 (\<lambda>b (s, rep). load_bucket num digest repo minimum mx b = Inr (s, rep))
      supported_market_buckets (zip (rl_registry l) (rl_reports l))"
    "passes (registry_checks (rl_registry l))" "map bms_bucket (rl_registry l) = supported_market_buckets"
    "length (rl_reports l) = 12"
proof -
  obtain loaded where loaded: "mapr (load_bucket num digest repo minimum mx) supported_market_buckets = Inr loaded"
    "mk_registry (map fst loaded) = Inr (rl_registry l)" "rl_reports l = map snd loaded"
    using assms by (auto simp: load_paper_registry_def checked_Inr_iff bindr_Inr_iff)
  then have reg: "rl_registry l = map fst loaded" "passes (registry_checks (rl_registry l))"
    by (auto simp: mk_registry_def checked_Inr_iff)
  have all: "list_all2 (\<lambda>b (s, rep). load_bucket num digest repo minimum mx b = Inr (s, rep)) supported_market_buckets loaded"
    using loaded(1) by (auto simp: mapr_Inr_iff elim!: list_all2_mono)
  have "list_all2 (\<lambda>b x. bms_bucket (fst x) = b) supported_market_buckets loaded"
    using all by (rule list_all2_mono) (auto dest: load_bucket_outcome(1))
  then have "map (bms_bucket \<circ> fst) loaded = supported_market_buckets"
    by (induction rule: list_all2_induct) auto
  moreover have "zip (rl_registry l) (rl_reports l) = loaded" by (simp add: reg(1) loaded(3) zip_map_fst_snd)
  ultimately show "list_all2 (\<lambda>b (s, rep). load_bucket num digest repo minimum mx b = Inr (s, rep))
      supported_market_buckets (zip (rl_registry l) (rl_reports l))"
    "passes (registry_checks (rl_registry l))" "map bms_bucket (rl_registry l) = supported_market_buckets"
    "length (rl_reports l) = 12"
    using all reg loaded(3) list_all2_lengthD [OF all] buckets_distinct(2) by (auto simp: comp_def)
qed

lemma loaded_bucket:
  assumes "load_paper_registry num digest repo minimum mx = Inr l"
  shows "\<exists>s rep. state_for (rl_registry l) b = Inr s \<and> load_bucket num digest repo minimum mx b = Inr (s, rep)"
    "valid_registry digest (rl_registry l)"
proof -
  note l = loaded_states [OF assms]
  have len: "length (rl_registry l) = 12" using arg_cong [OF l(3), of length] buckets_distinct(2) by simp
  have nth: "load_bucket num digest repo minimum mx (bms_bucket (rl_registry l ! i)) = Inr (rl_registry l ! i, rl_reports l ! i)"
    if "i < 12" for i
  proof -
    have "bms_bucket (rl_registry l ! i) = supported_market_buckets ! i"
      using arg_cong [OF l(3), of "\<lambda>xs. xs ! i"] that len by simp
    then show ?thesis
      using l(1) that len l(4) buckets_distinct(2) by (auto simp: list_all2_conv_all_nth)
  qed
  obtain s where s: "s \<in> set (rl_registry l)" "state_for (rl_registry l) b = Inr s" "bms_bucket s = b"
    using state_for_total [OF l(2), of b] by blast
  then obtain i where "i < 12" "s = rl_registry l ! i" using len by (auto simp: in_set_conv_nth)
  then show "\<exists>s rep. state_for (rl_registry l) b = Inr s \<and> load_bucket num digest repo minimum mx b = Inr (s, rep)"
    using s nth [of i] by auto
  have "valid_bucket_model digest s" if s: "s \<in> set (rl_registry l)" for s
  proof -
    obtain i where "i < 12" "s = rl_registry l ! i" using s len by (auto simp: in_set_conv_nth)
    then show ?thesis using load_bucket_outcome(2) [OF nth] by simp
  qed
  then show "valid_registry digest (rl_registry l)"
    using l(2) by (simp add: valid_registry_def list_all_iff)
qed

lemma trained_forecast:
  assumes "trained_on recs minimum s" "bms_artifact s = Some a" "bms_calibrator s = Some c"
    "calibrated_forecast dexp a c v t = Inr f"
  shows "fc_p_up f = base_rate recs" "\<forall>x\<in>set recs. tr_observed_at x < fvec_generated_at v"
proof -
  obtain raw where raw: "calibrate c raw = Inr (fc_p_up f)" "cal_trained_through c < fvec_generated_at v"
    using assms(4) by (auto simp: calibrated_forecast_def checked_Inr_iff bindr_Inr_iff mk_forecast_def)
  then show "fc_p_up f = base_rate recs" using assms(1,3) by (auto simp: trained_on_def)
  have "Max (tr_observed_at ` set recs) < fvec_generated_at v"
    using raw(2) assms(1,3) by (auto simp: trained_on_def)
  moreover have "tr_observed_at x \<le> Max (tr_observed_at ` set recs)" if "x \<in> set recs" for x
    using that by (intro Max_ge) auto
  ultimately show "\<forall>x\<in>set recs. tr_observed_at x < fvec_generated_at v" by (meson le_less_trans)
qed

text \<open>C30: a PAPER registry is a valid registry of the twelve buckets, whatever the corpus holds; a bucket
  is ready only when its labelled observations cover the minimum of distinct conditions and show both
  outcomes; and a trained bucket forecasts, for every feature vector it accepts, the clamped base rate
  of its labels: neither the fitted coefficients nor the features change the probability. It accepts only vectors
  made after every observation it was trained on.\<close>

theorem trained_forecast_is_base_rate:
  assumes "load_paper_registry num digest repo minimum mx = Inr l"
  shows "valid_registry digest (rl_registry l) \<and> length (rl_reports l) = 12
    \<and> (\<forall>b. \<exists>s recs. state_for (rl_registry l) b = Inr s \<and> records_of repo mx b = Inr recs
        \<and> (cr_ready (bms_readiness s) \<longrightarrow> minimum \<le> int (condition_count recs)
             \<and> (\<exists>x\<in>set recs. tr_outcome_up x) \<and> (\<exists>x\<in>set recs. \<not> tr_outcome_up x))
        \<and> (\<forall>dexp v t f. \<lparr>bkt_asset = fvec_asset v, bkt_horizon = fvec_horizon v\<rparr> = b
             \<longrightarrow> registry_forecast dexp (rl_registry l) v t = Inr f
             \<longrightarrow> fc_p_up f = base_rate recs \<and> (\<forall>x\<in>set recs. tr_observed_at x < fvec_generated_at v)))"
proof (intro conjI allI)
  show "valid_registry digest (rl_registry l)" by (rule loaded_bucket(2) [OF assms])
  show "length (rl_reports l) = 12" by (rule loaded_states(4) [OF assms])
  fix b :: market_bucket
  obtain s rep where s: "state_for (rl_registry l) b = Inr s" "load_bucket num digest repo minimum mx b = Inr (s, rep)"
    using loaded_bucket(1) [OF assms] by blast
  then obtain recs where recs: "records_of repo mx b = Inr recs" "cr_ready (bms_readiness s) \<longrightarrow> trained_on recs minimum s"
    using load_bucket_outcome(3) by blast
  have "fc_p_up f = base_rate recs \<and> (\<forall>x\<in>set recs. tr_observed_at x < fvec_generated_at v)"
    if v: "\<lparr>bkt_asset = fvec_asset v, bkt_horizon = fvec_horizon v\<rparr> = b"
      and f: "registry_forecast dexp (rl_registry l) v t = Inr f" for dexp v t f
  proof -
    have "registry_forecast dexp (rl_registry l) v t = (case (bms_artifact s, bms_calibrator s) of
         (Some a, Some c) \<Rightarrow> if cr_ready (bms_readiness s)
            then calibrated_forecast dexp a c v t else Inl ModelNotReadyError
       | _ \<Rightarrow> Inl ModelNotReadyError)"
      using s(1) v by (simp add: registry_forecast_def)
    then obtain a c where "bms_artifact s = Some a" "bms_calibrator s = Some c" "cr_ready (bms_readiness s)"
      "calibrated_forecast dexp a c v t = Inr f"
      using f by (auto split: option.splits if_splits)
    then show ?thesis using trained_forecast recs(2) by blast
  qed
  then show "\<exists>s recs. state_for (rl_registry l) b = Inr s \<and> records_of repo mx b = Inr recs
      \<and> (cr_ready (bms_readiness s) \<longrightarrow> minimum \<le> int (condition_count recs)
           \<and> (\<exists>x\<in>set recs. tr_outcome_up x) \<and> (\<exists>x\<in>set recs. \<not> tr_outcome_up x))
      \<and> (\<forall>dexp v t f. \<lparr>bkt_asset = fvec_asset v, bkt_horizon = fvec_horizon v\<rparr> = b
           \<longrightarrow> registry_forecast dexp (rl_registry l) v t = Inr f
           \<longrightarrow> fc_p_up f = base_rate recs \<and> (\<forall>x\<in>set recs. tr_observed_at x < fvec_generated_at v))"
    using s(1) recs by (intro exI [of _ s] exI [of _ recs]) (auto simp: trained_on_def)
qed

section \<open>Baseline and governance\<close>

text \<open>The baseline always forecasts a valid probability inside its clamp.\<close>

lemma baseline_outcome:
  assumes "valid_feature_vector v" "fvec_generated_at v \<le> t"
  shows "case paper_research_baseline_forecast v t of
      Inl e \<Rightarrow> \<exists>f\<in>set (fvec_features v). price_term (feat_name f)
    | Inr (f, r) \<Rightarrow> valid_forecast f \<and> 1 / 100 \<le> fc_p_up f \<and> fc_p_up f \<le> 99 / 100
        \<and> fc_model_version f = baseline_version \<and> valid_readiness r"
proof (cases "\<exists>f\<in>set (fvec_features v). price_term (feat_name f)")
  case True
  then show ?thesis by (simp add: paper_research_baseline_forecast_def split: sum.splits)
next
  case False
  define p where "p = clamp (dadd (1 / 2) (baseline_score v)) min_probability max_probability"
  have p: "1 / 100 \<le> p" "p \<le> 99 / 100" by (auto simp: p_def clamp_def min_probability_def max_probability_def)
  let ?f = "\<lparr>fc_market_id = fvec_market_id v, fc_asset = fvec_asset v, fc_horizon = fvec_horizon v,
           fc_p_up = p, fc_p_down = dsub 1 p, fc_model_version = baseline_version,
           fc_calibration_version = baseline_calibration_version, fc_feature_set_version = fvec_version v,
           fc_feature_as_of = fvec_generated_at v, fc_generated_at = t\<rparr>"
  have u: "0 \<le> p" "p \<le> 1" using p by auto
  have "passes (forecast_checks ?f)"
    using assms complement_sum [OF u] complement_unit [OF u] u
    by (simp add: forecast_checks_def valid_feature_vector_def feature_vector_checks_def baseline_version_def
      baseline_calibration_version_def py_space_def)
  then show ?thesis
    using False p by (auto simp: paper_research_baseline_forecast_def Let_def p_def [symmetric] mk_forecast_def
      valid_forecast_def mk_readiness_def valid_readiness_def readiness_checks_def baseline_calibration_version_def py_space_def)
qed

text \<open>
  No model executes because it exists: the decision allows PAPER execution exactly when a promotion of
  this bucket and version allows it, and then names that version.
\<close>

lemma governance_needs_promotion:
  "paper_execution_allowed (directional_paper_governance_decision b f pm) \<longleftrightarrow>
     (\<exists>x d m. f = Some x \<and> pm = Some m \<and> m (b, fc_model_version x) = Some d \<and> paper_execution_allowed d)"
  by (auto simp: directional_paper_governance_decision_def Let_def paper_execution_allowed_def
    split: option.splits)

lemma unpromoted_never_executes:
  "\<not> paper_execution_allowed (directional_paper_governance_decision b f None)"
  by (simp add: governance_needs_promotion)

section \<open>A trained bucket\<close>

lemma accumulate_length:
  "\<forall>(row, up)\<in>set data. length row = length (fst acc) \<Longrightarrow>
    length (fst (accumulate num cs b data acc)) = length (fst acc)"
  by (induction num cs b data acc rule: accumulate.induct) (auto simp: Let_def)

lemma descend_length:
  "\<forall>(row, up)\<in>set data. length row = length (fst st) \<Longrightarrow>
    length (fst (descend num rate l2 data st)) = length (fst st)"
  using accumulate_length [of data "(map (\<lambda>_. 0) (fst st), 0)" num "fst st" "snd st"]
  by (auto simp: descend_def Let_def split: prod.splits)

lemma fit_coefficients_length:
  assumes "\<forall>row\<in>set rows. length row = length (hd rows)"
  shows "length (fst (fit_l2_coefficients num rows labels n rate l2)) = length (hd rows)"
proof -
  have d: "\<forall>(row, up)\<in>set (zip rows labels). length row = length (hd rows)"
    using assms by (auto dest: set_zip_leftD)
  have "length (fst ((descend num rate l2 (zip rows labels) ^^ n) (map (\<lambda>_. 0) (hd rows), start))) = length (hd rows)" for start
    by (induction n) (use d in \<open>auto simp: descend_length\<close>)
  then show ?thesis by (simp add: fit_l2_coefficients_def Let_def split: prod.splits) (metis fst_conv)
qed

lemma feature_row_length:
  assumes "feature_row num digest rec names version = Inr row" shows "length row = length names"
  using assms by (auto simp: feature_row_def feature_schema_def Let_def bindr_Inr_iff mapr_length
    split: option.splits json.splits if_splits)

lemma schema_hashes:
  assumes "feature_schema num digest r = Inr (names, version)"
  shows "feature_schema_hash digest names = Inr (digest names)"
proof -
  obtain h where h: "feature_schema_hash digest names = Inr h"
    using assms by (auto simp: feature_schema_def Let_def bindr_Inr_iff split: option.splits json.splits if_splits)
  then have "h = digest names" by (simp add: feature_schema_hash_def checked_Inr_iff)
  with h show ?thesis by simp
qed

lemma fit_bucket_succeeds:
  assumes "recs \<noteq> []" "feature_schema num digest (hd recs) = Inr (names, version)"
    "mapr (\<lambda>rec. feature_row num digest rec names version) recs = Inr rows"
    "\<exists>x\<in>set recs. tr_outcome_up x" "\<exists>x\<in>set recs. \<not> tr_outcome_up x" "\<not> near_zero_variance rows (length names)"
    "require_text ''feature_set_version'' version = None"
  shows "\<exists>ac. fit_l2_logistic_bucket num digest b recs = Inr ac"
proof -
  let ?n = "length (filter tr_outcome_up recs)"
  have up: "?n \<noteq> 0" using assms(4) by (auto simp: filter_empty_conv)
  have "?n < length recs" using assms(5) by (auto intro: length_filter_less)
  then have down: "length recs - ?n \<noteq> 0" by simp
  note hash = schema_hashes [OF assms(2)]
  have rows: "length rows = length recs" "\<forall>row\<in>set rows. length row = length names"
    using mapr_length [OF assms(3)] mapr_nth [OF assms(3)] feature_row_length by (auto simp: in_set_conv_nth) metis
  then have "rows \<noteq> []" using assms(1) by auto
  then have "length (hd rows) = length names" using rows(2) by simp
  then have len: "length (fst (fit_l2_coefficients num rows labels 300 rate l2)) = length names" for labels rate l2
    using fit_coefficients_length [of rows] rows(2) by simp
  have bin: "valid_bin \<lparr>cb_lower = 0, cb_upper = 1, cb_p_up = base_rate recs, cb_count = int (length recs)\<rparr>"
    using base_rate_unit [of recs] assms(1) by (cases recs) (simp_all add: valid_bin_def calibration_bin_checks_def)
  obtain cs i where fit: "fit_l2_coefficients num rows (map tr_outcome_up recs) 300
        (num_round num (5 / 100)) (num_round num (1 / 100)) = (cs, i)"
    by (cases "fit_l2_coefficients num rows (map tr_outcome_up recs) 300
        (num_round num (5 / 100)) (num_round num (1 / 100))")
  then have cs: "length cs = length names" using len by (metis fst_conv)
  have texts: "require_text n (paper_model_version b) = None" "require_text n (paper_calibration_version b) = None" for n
    by (cases "bkt_horizon b"; simp add: paper_model_version_def paper_calibration_version_def py_space_def)+
  show ?thesis
    using assms(2,3,6,7) up down hash bin fit cs texts
    by (simp add: fit_l2_logistic_bucket_def Let_def mk_artifact_def artifact_checks_def mk_bin_def mk_calibrator_def
      calibrator_checks_def valid_bin_def del: require_text_None)
qed

lemma load_total:
  assumes "1 \<le> minimum" "\<And>b. \<exists>s rep. load_bucket num digest repo minimum None b = Inr (s, rep)"
  shows "\<exists>l. load_paper_registry num digest repo minimum None = Inr l"
proof -
  have "\<forall>b. \<exists>x. load_bucket num digest repo minimum None b = Inr x" using assms(2) by blast
  then obtain g where g: "\<And>b. load_bucket num digest repo minimum None b = Inr (g b)" by metis
  then have m: "mapr (load_bucket num digest repo minimum None) supported_market_buckets = Inr (map g supported_market_buckets)"
    by (intro mapr_total) simp
  have "bms_bucket (fst (g b)) = b" for b using load_bucket_outcome(1) [of num digest repo minimum None b] g
    by (cases "g b") simp
  then have "passes (registry_checks (map fst (map g supported_market_buckets)))"
    by (simp add: registry_checks_def Let_def comp_def buckets_distinct)
  then show ?thesis using m assms(1) by (simp add: load_paper_registry_def mk_registry_def)
qed

definition demo_item :: "string \<Rightarrow> json" where
  "demo_item x = JDict [(''name'', JStr ''momentum''), (''value'', JStr x), (''source_ts'', JStr ''t'')]"

definition demo_payload :: "string \<Rightarrow> json" where
  "demo_payload x = JDict [(''feature_vector'', JDict [(''feature_set_version'', JStr ''f1''),
       (''features'', JList [demo_item x])]),
     (''price_to_beat'', JDict [(''persistence_id'', JStr ''p''), (''value'', JStr ''1'')])]"

definition demo_row :: "string \<Rightarrow> string \<Rightarrow> utc \<Rightarrow> bool \<Rightarrow> corpus_row" where
  "demo_row cid x t up = \<lparr>lr_condition_id = cid, lr_observed_at = t, lr_payload = demo_payload x,
     lr_outcome = Some (JDict [(''outcome_up'', JBool up), (''settlement_source_kind'', JStr ''OFFICIAL'')]),
     lr_attached_at = Some 50, co_asset = BTC, co_horizon = FIVE_MINUTES\<rparr>"

definition demo_corpus :: corpus_repo where
  "demo_corpus = empty_corpus\<lparr>crp_records := [(''r1'', demo_row ''c1'' ''1'' 10 True), (''r2'', demo_row ''c2'' ''2'' 20 False)]\<rparr>"

definition demo_numbers :: py_numbers where
  "demo_numbers = \<lparr>num_round = id, num_sum = sum_list, num_exp = (\<lambda>_. 1), num_log = (\<lambda>_. 0), num_repr = id,
     num_read = (\<lambda>s. Some (if s = ''1'' then 1 else 2)), num_show = (\<lambda>_. [])\<rparr>"

definition demo_record :: "string \<Rightarrow> string \<Rightarrow> string \<Rightarrow> utc \<Rightarrow> bool \<Rightarrow> training_record" where
  "demo_record k cid x t up = \<lparr>tr_record_id = k, tr_asset = BTC, tr_horizon = FIVE_MINUTES, tr_condition_id = cid,
     tr_observed_at = t, tr_payload = demo_payload x, tr_outcome_up = up,
     tr_outcome = JDict [(''outcome_up'', JBool up), (''settlement_source_kind'', JStr ''OFFICIAL'')]\<rparr>"

abbreviation btc5 :: market_bucket where
  "btc5 \<equiv> \<lparr>bkt_asset = BTC, bkt_horizon = FIVE_MINUTES\<rparr>"

definition demo_records :: "training_record list" where
  "demo_records = [demo_record ''r1'' ''c1'' ''1'' 10 True, demo_record ''r2'' ''c2'' ''2'' 20 False]"

lemma demo_payload_ready: "training_ready_payload (demo_payload x)"
  by (simp add: training_ready_payload_def demo_payload_def demo_item_def price_word_def lower_def sublist_code)

lemma demo_records_of:
  "records_of (Some demo_corpus) None b = Inr (if b = btc5 then demo_records else [])"
proof (cases b)
  case (fields a h)
  have one: "training_record_of BTC FIVE_MINUTES (k, demo_row cid x t up) = Some (demo_record k cid x t up)" for k cid x t up
    using demo_payload_ready by (simp add: training_record_of_def demo_row_def demo_record_def)
      (simp add: demo_payload_def)
  have bucket: "in_bucket (Some a) (Some h) (demo_row cid x t up) \<longleftrightarrow> b = btc5"
    "lr_outcome (demo_row cid x t up) \<noteq> None" "lr_observed_at (demo_row cid x t up) = t" for cid x t up
    by (auto simp: in_bucket_def demo_row_def fields)
  show ?thesis
  proof (cases "b = btc5")
    case True
    then show ?thesis using bucket one
      by (auto simp: records_of_def training_ready_records_def demo_corpus_def empty_corpus_def fields demo_records_def
        List.map_filter_def)
  next
    case False
    then have "records_of (Some demo_corpus) None b = Inr []" using bucket
      by (auto simp: records_of_def training_ready_records_def demo_corpus_def empty_corpus_def fields List.map_filter_def)
    with False show ?thesis by simp
  qed
qed

lemma demo_schema: "feature_schema demo_numbers concat (demo_record k cid x t up) = Inr ([''momentum''], ''f1'')"
  by (simp add: feature_schema_def demo_record_def demo_payload_def demo_item_def optional_str_def feature_schema_hash_def
    price_term_def py_lower_def sublist_code py_space_def)

lemma demo_feature_row: "feature_row demo_numbers concat (demo_record k cid x t up) [''momentum''] ''f1''
    = Inr [if x = ''1'' then 1 else 2]"
  by (simp add: feature_row_def demo_schema) (simp add: demo_record_def demo_payload_def demo_item_def feature_cell_def
    json_decimal_def demo_numbers_def)

lemma demo_fit: "\<exists>ac. fit_l2_logistic_bucket demo_numbers concat btc5 demo_records = Inr ac"
proof (rule fit_bucket_succeeds)
  show "feature_schema demo_numbers concat (hd demo_records) = Inr ([''momentum''], ''f1'')"
    by (simp add: demo_records_def demo_schema)
  show "mapr (\<lambda>rec. feature_row demo_numbers concat rec [''momentum''] ''f1'') demo_records = Inr [[1], [2]]"
    by (simp add: demo_records_def demo_feature_row)
  show "\<not> near_zero_variance [[1], [2 :: rat]] (length [''momentum''])"
    by (simp add: near_zero_variance_def)
qed (simp_all add: demo_records_def demo_record_def py_space_def)

lemma demo_load_bucket: "\<exists>s rep. load_bucket demo_numbers concat (Some demo_corpus) 1 None b = Inr (s, rep)
    \<and> (b = btc5 \<longrightarrow> cr_ready (bms_readiness s))"
proof (cases "b = btc5")
  case True
  obtain art cal where fit: "fit_l2_logistic_bucket demo_numbers concat btc5 demo_records = Inr (art, cal)"
    using demo_fit by (metis surj_pair)
  note f = fit_bucket_outcome [OF fit]
  have n: "condition_count demo_records = 2"
    by (simp add: condition_count_def demo_records_def demo_record_def)
  have "require_text ''calibration_version'' (cal_version cal) = None"
    using f(2) by (simp add: valid_calibrator_def calibrator_checks_def)
  then show ?thesis
    using True fit f(3-5) n by (simp add: load_bucket_def demo_records_of Let_def mk_readiness_def readiness_checks_def
      mk_bucket_model_def bucket_model_checks_def del: require_text_None)
next
  case False
  then show ?thesis
    by (simp add: load_bucket_def demo_records_of Let_def condition_count_def unready_bucket_def mk_readiness_def
      readiness_checks_def mk_bucket_model_def bucket_model_checks_def py_space_def)
qed

lemma demo_base_rate: "base_rate demo_records = 1 / 2"
proof -
  have "ddiv 1 2 = (1 / 2 :: dec)" unfolding ddiv_def using dec_exact_int [of 5 "- 1"] by (intro ctx_exact) (simp add: powb_def)
  then show ?thesis
    by (simp add: base_rate_def demo_records_def demo_record_def clamp_def min_probability_def max_probability_def)
qed

theorem trained_forecast_is_base_rate_witness:
  "\<exists>l s. load_paper_registry demo_numbers concat (Some demo_corpus) 1 None = Inr l
    \<and> state_for (rl_registry l) btc5 = Inr s \<and> cr_ready (bms_readiness s)
    \<and> (\<forall>dexp v t f. fvec_asset v = BTC \<longrightarrow> fvec_horizon v = FIVE_MINUTES
        \<longrightarrow> registry_forecast dexp (rl_registry l) v t = Inr f \<longrightarrow> fc_p_up f = 1 / 2)"
proof -
  obtain l where l: "load_paper_registry demo_numbers concat (Some demo_corpus) 1 None = Inr l"
    using load_total [of 1 demo_numbers concat "Some demo_corpus"] demo_load_bucket by (metis order_refl)
  obtain s where s: "state_for (rl_registry l) btc5 = Inr s" "cr_ready (bms_readiness s)"
    using loaded_bucket(1) [OF l, of btc5] demo_load_bucket [of btc5] by auto
  obtain recs where recs: "records_of (Some demo_corpus) None btc5 = Inr recs"
    and all: "\<forall>dexp v t f. \<lparr>bkt_asset = fvec_asset v, bkt_horizon = fvec_horizon v\<rparr> = btc5
      \<longrightarrow> registry_forecast dexp (rl_registry l) v t = Inr f
      \<longrightarrow> fc_p_up f = base_rate recs \<and> (\<forall>x\<in>set recs. tr_observed_at x < fvec_generated_at v)"
    using spec [OF conjunct2 [OF conjunct2 [OF trained_forecast_is_base_rate [OF l]]], of btc5]
    by (elim exE conjE) (rule that)
  have "base_rate recs = 1 / 2" using recs demo_records_of [of btc5] demo_base_rate by simp
  then have "\<forall>dexp v t f. fvec_asset v = BTC \<longrightarrow> fvec_horizon v = FIVE_MINUTES
      \<longrightarrow> registry_forecast dexp (rl_registry l) v t = Inr f \<longrightarrow> fc_p_up f = 1 / 2"
    using all by simp
  then show ?thesis using l s by blast
qed

end
