(* ===== verification/Router.thy ===== *)
theory Router
  imports Trading_Contracts
begin

text \<open>
  \<open>router/engine.py\<close>: restart-safe opportunity arbitration. \<open>route_opportunities\<close> is a pure function
  of the persisted snapshot and proposes at most one claim; \<open>reconcile_claim\<close> closes one. The step
  relation \<open>router_step\<close> is the life of a snapshot under the compare-and-set persistence the code
  asks its caller for: a proposed claim is appended at the expected revision, or a claim is
  reconciled. The invariant is mutual exclusion: no two active claims share a condition or a token.
\<close>

section \<open>Contracts\<close>

datatype claim_status = ACTIVE | RECONCILED

record routing_opportunity =
  ro_candidate :: strategy_candidate
  ro_condition_id :: string
  ro_token_ids :: "string list"
  ro_score :: dec
  ro_certainty :: dec

definition routing_opportunity_checks :: "routing_opportunity \<Rightarrow> check list" where
  "routing_opportunity_checks r =
     [require_text ''condition_id'' (ro_condition_id r),
      fail_if (ro_token_ids r = []) (ValueErr ''token_ids must not be empty'')] @
     map (require_text ''token_id'') (ro_token_ids r) @
     [require_unique ''token_ids'' (ro_token_ids r),
      in_unit ''risk_adjusted_score'' (ro_score r),
      in_unit ''execution_certainty'' (ro_certainty r)]"

definition valid_opportunity :: "routing_opportunity \<Rightarrow> bool" where
  "valid_opportunity r \<longleftrightarrow> passes (routing_opportunity_checks r) \<and> valid_candidate (ro_candidate r)"

record router_claim =
  clm_id :: string
  clm_idempotency_key :: string
  clm_candidate_id :: string
  clm_condition_id :: string
  clm_token_ids :: "string list"
  clm_strategy :: strategy_kind
  clm_reserved :: dec
  clm_created_at :: utc
  clm_expires_at :: utc
  clm_status :: claim_status
  clm_reconciled_at :: "utc option"

definition router_claim_checks :: "router_claim \<Rightarrow> check list" where
  "router_claim_checks c =
     [require_text ''claim_id'' (clm_id c),
      require_text ''idempotency_key'' (clm_idempotency_key c),
      require_text ''candidate_id'' (clm_candidate_id c),
      require_text ''condition_id'' (clm_condition_id c),
      fail_if (clm_token_ids c = []) (ValueErr ''token_ids must not be empty''),
      require_unique ''token_ids'' (clm_token_ids c),
      positive ''reserved_capital'' (clm_reserved c),
      fail_if (clm_expires_at c \<le> clm_created_at c) (ValueErr ''claim creation must precede expiry''),
      fail_if (case clm_reconciled_at c of None \<Rightarrow> False | Some t \<Rightarrow> t < clm_created_at c)
        (ValueErr ''reconciliation cannot precede claim creation''),
      fail_if ((clm_status c = RECONCILED) \<noteq> (clm_reconciled_at c \<noteq> None))
        (ValueErr ''reconciled status and timestamp must agree'')]"

definition valid_claim :: "router_claim \<Rightarrow> bool" where
  "valid_claim c \<longleftrightarrow> passes (router_claim_checks c)"

definition mk_claim :: "router_claim \<Rightarrow> router_claim result" where
  "mk_claim c = checked (router_claim_checks c) (Inr c)"

record router_snapshot =
  snap_revision :: int
  snap_claims :: "router_claim list"
  snap_unresolved :: "string list"

definition router_snapshot_checks :: "router_snapshot \<Rightarrow> check list" where
  "router_snapshot_checks s =
     [fail_if (snap_revision s < 0) (ValueErr ''revision must be a non-negative integer''),
      require_unique ''claim IDs'' (map clm_id (snap_claims s)),
      require_unique ''idempotency keys'' (map clm_idempotency_key (snap_claims s)),
      require_unique ''unresolved structural conditions'' (snap_unresolved s)]"

definition valid_snapshot :: "router_snapshot \<Rightarrow> bool" where
  "valid_snapshot s \<longleftrightarrow> passes (router_snapshot_checks s) \<and> list_all valid_claim (snap_claims s)"

definition mk_snapshot :: "router_snapshot \<Rightarrow> router_snapshot result" where
  "mk_snapshot s = checked (router_snapshot_checks s) (Inr s)"

record router_policy =
  pol_version :: string
  pol_priority :: "strategy_kind list"
  pol_dual40_enabled :: bool

definition router_policy_checks :: "router_policy \<Rightarrow> check list" where
  "router_policy_checks p =
     [require_text ''policy_version'' (pol_version p),
      fail_if (set (pol_priority p) \<noteq> {DIRECTIONAL_EDGE, STRUCTURAL_ARBITRAGE, DUAL40})
        (ValueErr ''strategy_priority must contain every strategy exactly once'')]"

definition valid_router_policy :: "router_policy \<Rightarrow> bool" where
  "valid_router_policy p \<longleftrightarrow> passes (router_policy_checks p)"

record routing_decision =
  rdec_selected :: "routing_opportunity option"
  rdec_claim :: "router_claim option"
  rdec_reason :: string
  rdec_rejected :: "(string \<times> string) list"
  rdec_expected_revision :: int
  rdec_policy_version :: string

section \<open>Arbitration\<close>

definition active_claims :: "router_snapshot \<Rightarrow> router_claim list" where
  "active_claims s = filter (\<lambda>c. clm_status c = ACTIVE) (snap_claims s)"

definition conflict_reason :: "routing_opportunity \<Rightarrow> router_snapshot \<Rightarrow> router_claim list \<Rightarrow>
    router_policy \<Rightarrow> utc \<Rightarrow> string option" where
  "conflict_reason item s unreconciled p now =
     (if cand_expires_at (ro_candidate item) \<le> now then Some ''CANDIDATE_EXPIRED''
      else if cand_strategy (ro_candidate item) = DUAL40 \<and> \<not> pol_dual40_enabled p then
        Some ''DUAL40_DISABLED''
      else if \<exists>c\<in>set (snap_claims s). clm_candidate_id c = cand_id (ro_candidate item) then
        Some ''DUPLICATE_CANDIDATE''
      else if ro_condition_id item \<in> set (snap_unresolved s) then
        Some ''UNRESOLVED_STRUCTURAL_ONE_LEG''
      else if \<exists>c\<in>set unreconciled. clm_condition_id c = ro_condition_id item then
        Some ''CONDITION_ALREADY_CLAIMED''
      else if \<exists>c\<in>set unreconciled. set (clm_token_ids c) \<inter> set (ro_token_ids item) \<noteq> {} then
        Some ''TOKEN_ALREADY_CLAIMED''
      else None)"

definition no_route :: "router_snapshot \<Rightarrow> router_policy \<Rightarrow> string \<Rightarrow> (string \<times> string) list \<Rightarrow>
    routing_decision" where
  "no_route s p reason rejected = \<lparr>rdec_selected = None, rdec_claim = None, rdec_reason = reason,
     rdec_rejected = rejected, rdec_expected_revision = snap_revision s,
     rdec_policy_version = pol_version p\<rparr>"

text \<open>\<open>{strategy: index for index, strategy in enumerate(...)}\<close>: the last index of a strategy wins.\<close>

definition priority_of :: "router_policy \<Rightarrow> strategy_kind \<Rightarrow> nat result" where
  "priority_of p s = (case map_of (rev (zip (pol_priority p) [0..<length (pol_priority p)])) s of
       None \<Rightarrow> Inl (KeyErr ''strategy'') | Some i \<Rightarrow> Inr i)"

type_synonym rank = "nat \<times> dec \<times> dec \<times> dec \<times> string"

definition rank_of :: "router_policy \<Rightarrow> routing_opportunity \<Rightarrow> rank result" where
  "rank_of p item = (let c = ro_candidate item in
     bindr (priority_of p (cand_strategy c)) (\<lambda>i.
       Inr (i, dneg (ro_score item), dneg (ro_certainty item), dneg (cand_expected_net_value c),
         cand_id c)))"

definition select_best :: "router_policy \<Rightarrow> routing_opportunity list \<Rightarrow> routing_opportunity result" where
  "select_best p funded =
     bindr (mapr (\<lambda>item. bindr (rank_of p item) (\<lambda>k. Inr (k, item))) funded) (\<lambda>keyed.
       case keyed of [] \<Rightarrow> Inl (ValueErr ''min() arg is an empty sequence'')
       | k # ks \<Rightarrow> Inr (snd (min_by fst k ks)))"

definition claim_for :: "routing_opportunity \<Rightarrow> utc \<Rightarrow> router_claim" where
  "claim_for item now = (let c = ro_candidate item in
     \<lparr>clm_id = ''claim:'' @ cand_id c, clm_idempotency_key = ''route:'' @ cand_id c,
      clm_candidate_id = cand_id c, clm_condition_id = ro_condition_id item,
      clm_token_ids = ro_token_ids item, clm_strategy = cand_strategy c,
      clm_reserved = cand_required_capital c, clm_created_at = now,
      clm_expires_at = cand_expires_at c, clm_status = ACTIVE, clm_reconciled_at = None\<rparr>)"

definition eligible_opportunities :: "routing_opportunity list \<Rightarrow> router_snapshot \<Rightarrow> router_policy \<Rightarrow>
    utc \<Rightarrow> routing_opportunity list" where
  "eligible_opportunities opps s p now =
     filter (\<lambda>item. conflict_reason item s (active_claims s) p now = None) opps"

definition conflict_rejections :: "routing_opportunity list \<Rightarrow> router_snapshot \<Rightarrow> router_policy \<Rightarrow>
    utc \<Rightarrow> (string \<times> string) list" where
  "conflict_rejections opps s p now = concat (map (\<lambda>item.
     case conflict_reason item s (active_claims s) p now of
       None \<Rightarrow> [] | Some r \<Rightarrow> [(cand_id (ro_candidate item), r)]) opps)"

definition unclaimed_capital :: "router_snapshot \<Rightarrow> dec \<Rightarrow> dec" where
  "unclaimed_capital s capital = dsub capital (dsum (map clm_reserved (active_claims s)))"

definition funded_opportunities :: "routing_opportunity list \<Rightarrow> dec \<Rightarrow> routing_opportunity list" where
  "funded_opportunities eligible remaining =
     filter (\<lambda>item. cand_required_capital (ro_candidate item) \<le> remaining) eligible"

definition route_opportunities :: "routing_opportunity list \<Rightarrow> router_snapshot \<Rightarrow> dec option \<Rightarrow>
    router_policy \<Rightarrow> utc \<Rightarrow> routing_decision result" where
  "route_opportunities opps s available p now =
     (case available of
        None \<Rightarrow> Inr (no_route s p ''CAPITAL_STATE_UNAVAILABLE'' [])
      | Some capital \<Rightarrow>
         checked [non_negative ''available_capital'' capital]
          (if \<exists>c\<in>set (active_claims s). clm_expires_at c \<le> now then
             Inr (no_route s p ''CLAIM_RECONCILIATION_REQUIRED'' [])
           else (let rejected = conflict_rejections opps s p now;
                     eligible = eligible_opportunities opps s p now in
             if eligible = [] then Inr (no_route s p ''NO_ELIGIBLE_OPPORTUNITY'' rejected)
             else (let funded = funded_opportunities eligible (unclaimed_capital s capital);
                       rejected' = rejected @ map (\<lambda>item.
                         (cand_id (ro_candidate item), ''CAPITAL_ALREADY_CLAIMED''))
                         (filter (\<lambda>item. item \<notin> set funded) eligible) in
               if funded = [] then Inr (no_route s p ''INSUFFICIENT_UNCLAIMED_CAPITAL'' rejected')
               else bindr (select_best p funded) (\<lambda>selected.
                 bindr (mk_claim (claim_for selected now)) (\<lambda>claim.
                   Inr \<lparr>rdec_selected = Some selected, rdec_claim = Some claim,
                     rdec_reason = ''CLAIM_PROPOSED'', rdec_rejected = rejected',
                     rdec_expected_revision = snap_revision s,
                     rdec_policy_version = pol_version p\<rparr>))))))"

definition close_claim :: "router_claim \<Rightarrow> utc \<Rightarrow> router_claim result" where
  "close_claim c reconciled_at =
     mk_claim (c\<lparr>clm_status := RECONCILED, clm_reconciled_at := Some reconciled_at\<rparr>)"

definition reconcile_claim :: "router_snapshot \<Rightarrow> string \<Rightarrow> utc \<Rightarrow> router_snapshot result" where
  "reconcile_claim s claim_id reconciled_at =
     checked [require_text ''claim_id'' claim_id]
      (case filter (\<lambda>c. clm_id c = claim_id) (snap_claims s) of
         [] \<Rightarrow> Inl (KeyErr claim_id)
       | claim # _ \<Rightarrow>
          (if clm_status claim = RECONCILED then Inr s
           else bindr (mapr (\<lambda>item. if clm_id item = claim_id then close_claim claim reconciled_at
                 else Inr item) (snap_claims s)) (\<lambda>updated.
             mk_snapshot (s\<lparr>snap_revision := snap_revision s + 1, snap_claims := updated\<rparr>))))"

section \<open>Arbitration is total\<close>

lemma priority_total: "valid_router_policy p \<Longrightarrow> \<exists>i. priority_of p s = Inr i"
proof -
  assume "valid_router_policy p"
  then have "set (pol_priority p) = {DIRECTIONAL_EDGE, STRUCTURAL_ARBITRAGE, DUAL40}"
    by (simp add: valid_router_policy_def router_policy_checks_def)
  then have "s \<in> set (pol_priority p)" by (cases s) auto
  then have "map_of (rev (zip (pol_priority p) [0..<length (pol_priority p)])) s \<noteq> None"
    by (simp add: map_of_eq_None_iff flip: set_map)
  then show ?thesis by (auto simp: priority_of_def)
qed

definition rank :: "router_policy \<Rightarrow> routing_opportunity \<Rightarrow> rank" where
  "rank p item = (case rank_of p item of Inr k \<Rightarrow> k | Inl _ \<Rightarrow> (0, 0, 0, 0, []))"

lemma rank_of_total: "valid_router_policy p \<Longrightarrow> rank_of p item = Inr (rank p item)"
  using priority_total [of p "cand_strategy (ro_candidate item)"]
  by (auto simp: rank_def rank_of_def Let_def)

lemma select_best_minimal:
  assumes "valid_router_policy p" "funded \<noteq> []"
  shows "\<exists>item. select_best p funded = Inr item \<and> item \<in> set funded
    \<and> (\<forall>other\<in>set funded. rank p item \<le> rank p other)"
proof -
  have m: "mapr (\<lambda>item. bindr (rank_of p item) (\<lambda>k. Inr (k, item))) funded
      = Inr (map (\<lambda>item. (rank p item, item)) funded)"
    by (rule mapr_total) (simp add: rank_of_total [OF assms(1)])
  obtain x xs where f: "funded = x # xs" using assms(2) by (cases funded) auto
  let ?m = "min_by fst (rank p x, x) (map (\<lambda>item. (rank p item, item)) xs)"
  have mem: "?m \<in> (\<lambda>item. (rank p item, item)) ` set funded"
    using min_by_in [of fst "(rank p x, x)" "map (\<lambda>item. (rank p item, item)) xs"] by (auto simp: f)
  have "fst ?m \<le> rank p other" if "other \<in> set funded" for other
    using min_by_le [of "(rank p other, other)" "(rank p x, x)"
        "map (\<lambda>item. (rank p item, item)) xs" fst] that by (auto simp: f)
  then show ?thesis using m mem by (auto simp: select_best_def f)
qed

lemma claim_for_valid:
  assumes "valid_opportunity item" "now < cand_expires_at (ro_candidate item)"
  shows "mk_claim (claim_for item now) = Inr (claim_for item now)" "valid_claim (claim_for item now)"
  using assms
  by (auto simp: mk_claim_def valid_claim_def router_claim_checks_def claim_for_def Let_def
    valid_opportunity_def routing_opportunity_checks_def valid_candidate_def candidate_checks_def
    py_space_def)

lemma conflict_free_facts:
  assumes "conflict_reason item s (active_claims s) p now = None"
  shows "now < cand_expires_at (ro_candidate item)"
    "\<forall>c\<in>set (snap_claims s). clm_candidate_id c \<noteq> cand_id (ro_candidate item)"
    "ro_condition_id item \<notin> set (snap_unresolved s)"
    "\<forall>c\<in>set (active_claims s). clm_condition_id c \<noteq> ro_condition_id item
       \<and> set (clm_token_ids c) \<inter> set (ro_token_ids item) = {}"
    "cand_strategy (ro_candidate item) = DUAL40 \<Longrightarrow> pol_dual40_enabled p"
  using assms by (auto simp: conflict_reason_def split: if_splits)

section \<open>What a route guarantees\<close>

text \<open>
  An opportunity can be routed when its candidate is alive, new, and of an enabled strategy, its condition
  is neither claimed nor unresolved, its tokens are free, and the unclaimed capital covers it.
\<close>

definition routable :: "router_snapshot \<Rightarrow> dec \<Rightarrow> router_policy \<Rightarrow> utc \<Rightarrow> routing_opportunity \<Rightarrow> bool" where
  "routable s capital p now item \<longleftrightarrow> (let c = ro_candidate item in
     now < cand_expires_at c \<and> (cand_strategy c = DUAL40 \<longrightarrow> pol_dual40_enabled p)
     \<and> cand_id c \<notin> clm_candidate_id ` set (snap_claims s) \<and> ro_condition_id item \<notin> set (snap_unresolved s)
     \<and> (\<forall>k\<in>set (snap_claims s). clm_status k = ACTIVE \<longrightarrow> clm_condition_id k \<noteq> ro_condition_id item
          \<and> set (clm_token_ids k) \<inter> set (ro_token_ids item) = {})
     \<and> cand_required_capital c \<le> unclaimed_capital s capital)"

lemma routable_conflict: "routable s capital p now item \<longleftrightarrow> conflict_reason item s (active_claims s) p now = None
     \<and> cand_required_capital (ro_candidate item) \<le> unclaimed_capital s capital"
  unfolding routable_def conflict_reason_def active_claims_def Let_def by (auto simp: image_iff) force+

lemma funded_routable:
  "set (funded_opportunities (eligible_opportunities opps s p now) (unclaimed_capital s capital))
     = {item \<in> set opps. routable s capital p now item}"
  by (auto simp: funded_opportunities_def eligible_opportunities_def routable_conflict)

lemma route_cases:
  assumes p: "valid_router_policy p" and opps: "list_all valid_opportunity opps" and cap: "0 \<le> capital"
  obtains (reconcile) "\<exists>c\<in>set (active_claims s). clm_expires_at c \<le> now"
      "route_opportunities opps s (Some capital) p now = Inr (no_route s p ''CLAIM_RECONCILIATION_REQUIRED'' [])"
  | (none) reason rej where "\<forall>c\<in>set (active_claims s). now < clm_expires_at c"
      "\<forall>item\<in>set opps. \<not> routable s capital p now item" "reason \<noteq> ''CLAIM_RECONCILIATION_REQUIRED''"
      "route_opportunities opps s (Some capital) p now = Inr (no_route s p reason rej)"
  | (claim) item rej where "\<forall>c\<in>set (active_claims s). now < clm_expires_at c"
      "route_opportunities opps s (Some capital) p now
        = Inr \<lparr>rdec_selected = Some item, rdec_claim = Some (claim_for item now),
            rdec_reason = ''CLAIM_PROPOSED'', rdec_rejected = rej,
            rdec_expected_revision = snap_revision s, rdec_policy_version = pol_version p\<rparr>"
      "item \<in> set opps" "routable s capital p now item"
      "\<forall>other\<in>set opps. routable s capital p now other \<longrightarrow> rank p item \<le> rank p other"
proof -
  let ?el = "eligible_opportunities opps s p now"
  let ?fu = "funded_opportunities ?el (unclaimed_capital s capital)"
  note fr = funded_routable [of opps s p now capital]
  consider "\<exists>c\<in>set (active_claims s). clm_expires_at c \<le> now"
    | "\<forall>c\<in>set (active_claims s). now < clm_expires_at c" "?fu = []"
    | "\<forall>c\<in>set (active_claims s). now < clm_expires_at c" "?fu \<noteq> []" by fastforce
  then show thesis
  proof cases
    case 1
    then show thesis using cap reconcile by (simp add: route_opportunities_def)
  next
    case 2
    then have "\<forall>item\<in>set opps. \<not> routable s capital p now item" using fr by auto
    moreover obtain reason rej where "reason \<in> {''NO_ELIGIBLE_OPPORTUNITY'', ''INSUFFICIENT_UNCLAIMED_CAPITAL''}"
        "route_opportunities opps s (Some capital) p now = Inr (no_route s p reason rej)"
    proof (cases "?el = []")
      case True
      have "route_opportunities opps s (Some capital) p now
          = Inr (no_route s p ''NO_ELIGIBLE_OPPORTUNITY'' (conflict_rejections opps s p now))"
        using True 2 cap by (auto simp: route_opportunities_def not_le)
      then show thesis by (intro that) simp_all
    next
      case False
      then have "\<exists>rej. route_opportunities opps s (Some capital) p now
          = Inr (no_route s p ''INSUFFICIENT_UNCLAIMED_CAPITAL'' rej)"
        using 2 cap by (auto simp: route_opportunities_def Let_def not_le)
      then show thesis using that by auto
    qed
    ultimately show thesis using none [of reason rej] 2(1) by auto
  next
    case 3
    then have "?el \<noteq> []" by (auto simp: funded_opportunities_def)
    obtain item where item: "select_best p ?fu = Inr item" "item \<in> set ?fu"
      "\<forall>other\<in>set ?fu. rank p item \<le> rank p other"
      using select_best_minimal [OF p, of ?fu] 3(2) by blast
    have it: "item \<in> set opps" "routable s capital p now item" using item(2) fr by auto
    then have "now < cand_expires_at (ro_candidate item)"
      using conflict_free_facts(1) by (auto simp: routable_conflict)
    then have "mk_claim (claim_for item now) = Inr (claim_for item now)"
      using opps it(1) by (intro claim_for_valid) (auto simp: list_all_iff)
    then have "\<exists>rej. route_opportunities opps s (Some capital) p now
        = Inr \<lparr>rdec_selected = Some item, rdec_claim = Some (claim_for item now),
            rdec_reason = ''CLAIM_PROPOSED'', rdec_rejected = rej,
            rdec_expected_revision = snap_revision s, rdec_policy_version = pol_version p\<rparr>"
      using 3 \<open>?el \<noteq> []\<close> item cap by (auto simp: route_opportunities_def Let_def not_le)
    then show thesis using claim 3(1) it item(3) fr by blast
  qed
qed


text \<open>
  Capital is never claimed twice. With amounts quoted on a decimal grid, the capital of a proposed
  claim together with everything the active claims reserve is at most the available capital, exactly.
\<close>

theorem routed_capital_is_conserved:
  assumes p: "valid_router_policy p" "list_all valid_opportunity opps" "0 \<le> capital"
    and grid: "list_all (\<lambda>c. grid k (clm_reserved c) \<and> 0 \<le> clm_reserved c) (active_claims s)"
      "grid k capital" "grid_small k capital"
      "grid_small k (sum_list (map clm_reserved (active_claims s)))"
      "grid_small k (capital - sum_list (map clm_reserved (active_claims s)))"
    and route: "route_opportunities opps s (Some capital) p now = Inr d" "rdec_claim d = Some claim"
  shows "sum_list (map clm_reserved (active_claims s)) + clm_reserved claim \<le> capital"
proof -
  let ?r = "map clm_reserved (active_claims s)"
  have "dsum ?r = sum_list ?r"
    using grid(1,4) by (intro dsum_grid) (auto simp: list_all_iff)
  moreover have "grid k (sum_list ?r)"
    using grid(1) by (intro grid_sum_list) (auto simp: list_all_iff)
  ultimately have "unclaimed_capital s capital = capital - sum_list ?r"
    using grid by (simp add: unclaimed_capital_def dsub_grid)
  moreover have "clm_reserved claim \<le> unclaimed_capital s capital"
    using p
  proof (cases rule: route_cases [where s = s and now = now])
    case (claim item rej)
    then show ?thesis using route by (auto simp: routable_def claim_for_def Let_def)
  qed (use route in \<open>auto simp: no_route_def\<close>)
  ultimately show ?thesis by simp
qed

section \<open>The life of a snapshot\<close>

text \<open>
  Several routers may read the same snapshot. A decision is pending until it is persisted; the
  compare-and-set appends its claim only if the revision is still the expected one.
\<close>

definition persist_claim :: "router_snapshot \<Rightarrow> routing_decision \<Rightarrow> router_snapshot" where
  "persist_claim s d = (case rdec_claim d of
       None \<Rightarrow> s
     | Some c \<Rightarrow> (if rdec_expected_revision d = snap_revision s then
          s\<lparr>snap_revision := snap_revision s + 1, snap_claims := snap_claims s @ [c]\<rparr> else s))"

inductive router_step :: "router_policy \<Rightarrow> router_snapshot \<times> routing_decision list \<Rightarrow>
    router_snapshot \<times> routing_decision list \<Rightarrow> bool" for p where
  propose: "list_all valid_opportunity opps \<Longrightarrow> 0 \<le> capital \<Longrightarrow>
    route_opportunities opps s (Some capital) p now = Inr d \<Longrightarrow>
    router_step p (s, pending) (s, d # pending)"
| commit: "d \<in> set pending \<Longrightarrow> router_step p (s, pending) (persist_claim s d, pending)"
| reconcile: "reconcile_claim s claim_id t = Inr s' \<Longrightarrow> router_step p (s, pending) (s', pending)"

inductive router_reachable :: "router_policy \<Rightarrow> router_snapshot \<times> routing_decision list \<Rightarrow> bool"
  for p where
  initial: "router_reachable p (\<lparr>snap_revision = 0, snap_claims = [], snap_unresolved = us\<rparr>, [])"
    if "distinct us"
| step: "router_reachable p s \<Longrightarrow> router_step p s s' \<Longrightarrow> router_reachable p s'"

definition compatible :: "router_claim \<Rightarrow> router_claim \<Rightarrow> bool" where
  "compatible c d \<longleftrightarrow> clm_condition_id c \<noteq> clm_condition_id d
     \<and> set (clm_token_ids c) \<inter> set (clm_token_ids d) = {}"

definition exclusive :: "router_snapshot \<Rightarrow> bool" where
  "exclusive s \<longleftrightarrow> sorted_wrt compatible (active_claims s)"

definition named :: "router_claim \<Rightarrow> bool" where
  "named c \<longleftrightarrow> clm_id c = ''claim:'' @ clm_candidate_id c
     \<and> clm_idempotency_key c = ''route:'' @ clm_candidate_id c"

definition fresh_decision :: "router_snapshot \<Rightarrow> routing_decision \<Rightarrow> bool" where
  "fresh_decision s d \<longleftrightarrow> rdec_expected_revision d = snap_revision s \<longrightarrow>
     (\<forall>c. rdec_claim d = Some c \<longrightarrow> valid_claim c \<and> named c \<and> clm_status c = ACTIVE
        \<and> (\<forall>c'\<in>set (active_claims s). compatible c' c)
        \<and> (\<forall>c'\<in>set (snap_claims s). clm_candidate_id c' \<noteq> clm_candidate_id c))"

definition router_inv :: "router_snapshot \<times> routing_decision list \<Rightarrow> bool" where
  "router_inv st \<longleftrightarrow> (case st of (s, pending) \<Rightarrow>
     valid_snapshot s \<and> exclusive s \<and> list_all named (snap_claims s)
     \<and> (\<forall>d\<in>set pending. rdec_expected_revision d \<le> snap_revision s \<and> fresh_decision s d))"

lemma proposed_fresh:
  assumes "valid_router_policy p" "list_all valid_opportunity opps" "0 \<le> capital"
    "route_opportunities opps s (Some capital) p now = Inr d"
  shows "rdec_expected_revision d = snap_revision s" "fresh_decision s d"
proof -
  have "rdec_expected_revision d = snap_revision s \<and> fresh_decision s d"
    using assms(1-3)
  proof (cases rule: route_cases [where s = s and now = now])
    case reconcile
    then show ?thesis using assms(4) by (auto simp: no_route_def fresh_decision_def)
  next
    case (none reason rej)
    then show ?thesis using assms(4) by (auto simp: no_route_def fresh_decision_def)
  next
    case (claim item rej)
    have cf: "conflict_reason item s (active_claims s) p now = None"
      using claim(4) by (simp add: routable_conflict)
    have "valid_claim (claim_for item now)"
      using assms(2) claim(3) conflict_free_facts(1) [OF cf]
      by (intro claim_for_valid) (auto simp: list_all_iff)
    then show ?thesis
      using claim(2) assms(4) conflict_free_facts(2,4) [OF cf]
      by (auto simp: fresh_decision_def compatible_def named_def claim_for_def Let_def)
  qed
  then show "rdec_expected_revision d = snap_revision s" "fresh_decision s d" by simp_all
qed

lemma persist_inv:
  assumes "router_inv (s, pending)" "d \<in> set pending"
  shows "router_inv (persist_claim s d, pending)"
proof (cases "\<exists>c. rdec_claim d = Some c \<and> rdec_expected_revision d = snap_revision s")
  case True
  then obtain c where c: "rdec_claim d = Some c" "rdec_expected_revision d = snap_revision s" by blast
  from assms have inv: "valid_snapshot s" "exclusive s" "list_all named (snap_claims s)"
    and older: "\<forall>d\<in>set pending. rdec_expected_revision d \<le> snap_revision s"
    and "fresh_decision s d" by (auto simp: router_inv_def)
  with c have f: "valid_claim c" "named c" "clm_status c = ACTIVE"
    "\<forall>c'\<in>set (active_claims s). compatible c' c"
    "\<forall>c'\<in>set (snap_claims s). clm_candidate_id c' \<noteq> clm_candidate_id c"
    by (auto simp: fresh_decision_def)
  let ?s = "s\<lparr>snap_revision := snap_revision s + 1, snap_claims := snap_claims s @ [c]\<rparr>"
  have "clm_id c \<notin> clm_id ` set (snap_claims s)"
    "clm_idempotency_key c \<notin> clm_idempotency_key ` set (snap_claims s)"
    using f(2,5) inv(3) by (auto simp: named_def list_all_iff)
  then have "valid_snapshot ?s"
    using inv(1) f(1) by (auto simp: valid_snapshot_def router_snapshot_checks_def)
  moreover have "exclusive ?s"
    using inv(2) f(3,4) by (simp add: exclusive_def active_claims_def sorted_wrt_append)
  moreover have "\<forall>d\<in>set pending. rdec_expected_revision d \<le> snap_revision ?s \<and> fresh_decision ?s d"
    using older by (force simp: fresh_decision_def)
  ultimately show ?thesis using c inv(3) f(2) by (simp add: persist_claim_def router_inv_def)
next
  case False
  then have "persist_claim s d = s" by (auto simp: persist_claim_def split: option.splits)
  with assms show ?thesis by simp
qed

definition closed_claim :: "router_claim \<Rightarrow> utc \<Rightarrow> router_claim" where
  "closed_claim c t = c\<lparr>clm_status := RECONCILED, clm_reconciled_at := Some t\<rparr>"

definition close_in :: "router_snapshot \<Rightarrow> router_claim \<Rightarrow> utc \<Rightarrow> router_snapshot" where
  "close_in s c t = s\<lparr>snap_revision := snap_revision s + 1,
     snap_claims := map (\<lambda>x. if clm_id x = clm_id c then closed_claim c t else x) (snap_claims s)\<rparr>"

lemma reconcile_cases:
  assumes "reconcile_claim s claim_id t = Inr s'"
  obtains (unchanged) "s' = s"
    | (closed) c where "c \<in> set (snap_claims s)" "clm_id c = claim_id" "clm_status c = ACTIVE"
        "valid_claim (closed_claim c t)" "s' = close_in s c t" "passes (router_snapshot_checks s')"
proof -
  from assms obtain c cs where m: "filter (\<lambda>c. clm_id c = claim_id) (snap_claims s) = c # cs"
    by (auto simp: reconcile_claim_def contract_simps split: list.splits)
  then have "c \<in> set (filter (\<lambda>c. clm_id c = claim_id) (snap_claims s))" by simp
  then have c: "c \<in> set (snap_claims s)" "clm_id c = claim_id" by auto
  show thesis
  proof (cases "clm_status c")
    case RECONCILED
    then show thesis
      using assms m unchanged by (simp add: reconcile_claim_def contract_simps)
  next
    case ACTIVE
    let ?f = "\<lambda>item. if clm_id item = claim_id then close_claim c t else Inr item"
    obtain updated where u: "mapr ?f (snap_claims s) = Inr updated"
      "mk_snapshot (s\<lparr>snap_revision := snap_revision s + 1, snap_claims := updated\<rparr>) = Inr s'"
      using assms m ACTIVE by (auto simp: reconcile_claim_def contract_simps bindr_Inr_iff)
    obtain i where i: "i < length (snap_claims s)" "snap_claims s ! i = c"
      using c(1) by (auto simp: in_set_conv_nth)
    have "close_claim c t = Inr (updated ! i)" using mapr_nth [OF u(1) i(1)] i(2) c(2) by simp
    then have cl: "close_claim c t = Inr (closed_claim c t)" "valid_claim (closed_claim c t)"
      by (auto simp: close_claim_def mk_claim_def contract_simps closed_claim_def valid_claim_def)
    have "mapr ?f (snap_claims s) = Inr (map (\<lambda>x. if clm_id x = clm_id c then closed_claim c t else x)
        (snap_claims s))"
      by (rule mapr_total) (simp add: c(2) cl(1))
    then have "s' = close_in s c t" "passes (router_snapshot_checks s')"
      using u by (auto simp: mk_snapshot_def contract_simps close_in_def)
    then show thesis using closed c ACTIVE cl(2) by blast
  qed
qed

lemma active_close_in:
  "active_claims (close_in s c t) = filter (\<lambda>x. clm_id x \<noteq> clm_id c) (active_claims s)"
proof -
  have "filter (\<lambda>x. clm_status x = ACTIVE) (map (\<lambda>x. if clm_id x = i then closed_claim c t else x) xs)
      = filter (\<lambda>x. clm_id x \<noteq> i) (filter (\<lambda>x. clm_status x = ACTIVE) xs)" for i xs
    by (induction xs) (auto simp: closed_claim_def)
  then show ?thesis by (simp add: active_claims_def close_in_def)
qed

lemma reconcile_inv:
  assumes "router_inv (s, pending)" "reconcile_claim s claim_id t = Inr s'"
  shows "router_inv (s', pending)"
  using assms(2)
proof (cases rule: reconcile_cases)
  case unchanged
  then show ?thesis using assms(1) by simp
next
  case (closed c)
  have inv: "list_all valid_claim (snap_claims s)" "exclusive s" "list_all named (snap_claims s)"
    and older: "\<forall>d\<in>set pending. rdec_expected_revision d \<le> snap_revision s"
    using assms(1) by (auto simp: router_inv_def valid_snapshot_def)
  have "valid_snapshot s'"
    using closed(4,6) inv(1)
    by (auto simp: valid_snapshot_def closed(5) close_in_def list_all_iff)
  moreover have "exclusive s'"
    using inv(2) by (simp add: exclusive_def closed(5) active_close_in sorted_wrt_filter)
  moreover have "list_all named (snap_claims s')"
    using inv(3) closed(1) by (auto simp: closed(5) close_in_def closed_claim_def named_def list_all_iff)
  moreover have "\<forall>d\<in>set pending. rdec_expected_revision d \<le> snap_revision s' \<and> fresh_decision s' d"
    using older by (force simp: closed(5) close_in_def fresh_decision_def)
  ultimately show ?thesis by (simp add: router_inv_def)
qed

lemma router_reachable_inv:
  assumes "valid_router_policy p"
  shows "router_reachable p st \<Longrightarrow> router_inv st"
proof (induction rule: router_reachable.induct)
  case (initial us)
  then show ?case
    by (simp add: router_inv_def valid_snapshot_def router_snapshot_checks_def exclusive_def
      active_claims_def)
next
  case (step st st')
  from step.hyps(2) step.IH show ?case
  proof (cases rule: router_step.cases)
    case (propose opps capital s now d pending)
    note fr = proposed_fresh [OF assms propose(3,4,5)]
    show ?thesis using step.IH fr by (simp add: router_inv_def propose)
  next
    case (commit d pending s)
    then show ?thesis using step.IH persist_inv by simp
  next
    case (reconcile s claim_id t s' pending)
    then show ?thesis using step.IH reconcile_inv by simp
  qed
qed

text \<open>
  C10: Mutual exclusion holds in every reachable state, however many routers propose concurrently from
  the same or from outdated snapshots and in whatever order decisions are persisted and claims
  reconciled: the snapshot satisfies its contract (unique claim ids and idempotency keys), and no two
  active claims share a condition or a token.
\<close>

theorem concurrent_claims_are_exclusive:
  assumes "valid_router_policy p" "router_reachable p (s, pending)"
    and "i < j" "j < length (active_claims s)"
  shows "valid_snapshot s
     \<and> clm_condition_id (active_claims s ! i) \<noteq> clm_condition_id (active_claims s ! j)
     \<and> set (clm_token_ids (active_claims s ! i)) \<inter> set (clm_token_ids (active_claims s ! j)) = {}"
proof -
  have inv: "router_inv (s, pending)" using router_reachable_inv assms(1,2) by blast
  then have "compatible (active_claims s ! i) (active_claims s ! j)"
    using assms(3,4) by (auto simp: router_inv_def exclusive_def sorted_wrt_iff_nth_less)
  with inv show ?thesis by (simp add: router_inv_def compatible_def)
qed

text \<open>
  Reconciliation is exact and idempotent: closing an active claim of a valid snapshot succeeds
  for any instant not before its creation, advances the revision by one, closes that claim and
  leaves every other claim as it was; closing it again changes nothing, and an unknown id raises.
\<close>

theorem reconcile_is_exact_and_idempotent:
  assumes s: "valid_snapshot s" and c: "c \<in> set (snap_claims s)" "clm_status c = ACTIVE"
    and t: "clm_created_at c \<le> t"
  shows "\<exists>s'. reconcile_claim s (clm_id c) t = Inr s' \<and> valid_snapshot s'
     \<and> snap_revision s' = snap_revision s + 1
     \<and> snap_claims s' = map (\<lambda>x. if x = c then closed_claim c t else x) (snap_claims s)
     \<and> active_claims s' = filter (\<lambda>x. x \<noteq> c) (active_claims s)
     \<and> (\<forall>t'. reconcile_claim s' (clm_id c) t' = Inr s')"
proof -
  have ids: "distinct (map clm_id (snap_claims s))" and v: "list_all valid_claim (snap_claims s)"
    using s by (auto simp: valid_snapshot_def router_snapshot_checks_def)
  have same: "x \<in> set (snap_claims s) \<Longrightarrow> clm_id x = clm_id c \<longleftrightarrow> x = c" for x
    using ids c(1) by (auto simp: distinct_map inj_on_def)
  have vc: "valid_claim c" using v c(1) by (simp add: list_all_iff)
  then have close: "close_claim c t = Inr (closed_claim c t)" "valid_claim (closed_claim c t)"
    using t by (auto simp: close_claim_def mk_claim_def valid_claim_def router_claim_checks_def closed_claim_def)
  have idtext: "require_text ''claim_id'' (clm_id c) = None"
    using vc by (auto simp: valid_claim_def router_claim_checks_def)
  let ?s' = "close_in s c t"
  have claims: "snap_claims ?s' = map (\<lambda>x. if x = c then closed_claim c t else x) (snap_claims s)"
    using same by (simp add: close_in_def)
  have keep: "map clm_id (snap_claims ?s') = map clm_id (snap_claims s)"
    "map clm_idempotency_key (snap_claims ?s') = map clm_idempotency_key (snap_claims s)"
    by (simp_all add: claims closed_claim_def)
  have "list_all valid_claim (snap_claims ?s')"
    using v close(2) by (auto simp: claims list_all_iff)
  moreover have "snap_revision ?s' = snap_revision s + 1" "snap_unresolved ?s' = snap_unresolved s"
    by (simp_all add: close_in_def)
  ultimately have valid: "valid_snapshot ?s'"
    using s by (simp add: valid_snapshot_def router_snapshot_checks_def keep)
  have uniq: "filter (\<lambda>x. clm_id x = clm_id y) ys = [y]" if "distinct (map clm_id ys)" "y \<in> set ys" for y ys
    using that by (induction ys) (auto simp: filter_empty_conv image_iff)
  have "mapr (\<lambda>item. if clm_id item = clm_id c then close_claim c t else Inr item) (snap_claims s)
      = Inr (snap_claims ?s')"
    using close(1)
    by (subst mapr_total [where g = "\<lambda>x. if clm_id x = clm_id c then closed_claim c t else x"])
      (auto simp: close_in_def)
  then have "reconcile_claim s (clm_id c) t = Inr ?s'"
    using uniq [OF ids c(1)] c(2) idtext valid
    by (simp add: reconcile_claim_def mk_snapshot_def valid_snapshot_def close_in_def del: require_text_None)
  moreover have "reconcile_claim ?s' (clm_id c) t' = Inr ?s'" for t'
  proof -
    have mem: "closed_claim c t \<in> set (snap_claims ?s')" using c(1) by (auto simp: claims)
    have "filter (\<lambda>x. clm_id x = clm_id (closed_claim c t)) (snap_claims ?s') = [closed_claim c t]"
      using keep(1) ids by (intro uniq mem) simp
    then show ?thesis
      using idtext by (simp add: reconcile_claim_def closed_claim_def del: require_text_None)
  qed
  moreover have "active_claims ?s' = filter (\<lambda>x. x \<noteq> c) (active_claims s)"
    unfolding active_close_in using same by (intro filter_cong) (auto simp: active_claims_def)
  ultimately show ?thesis using valid claims by (intro exI [of _ ?s']) (simp add: close_in_def)
qed

section \<open>A policy that repeats a strategy\<close>

text \<open>
  The policy check compares sets, so a priority list that names a strategy twice is accepted although
  its message asks for every strategy exactly once; the last position of the repeated strategy is the
  one that counts, which demotes it below strategies listed after its first position.
\<close>

definition repeating_policy :: router_policy where
  "repeating_policy = \<lparr>pol_version = ''v1'', pol_priority =
     [DIRECTIONAL_EDGE, STRUCTURAL_ARBITRAGE, DUAL40, DIRECTIONAL_EDGE], pol_dual40_enabled = False\<rparr>"

lemma repeated_priority_is_accepted:
  "valid_router_policy repeating_policy"
  "priority_of repeating_policy DIRECTIONAL_EDGE = Inr 3"
  "priority_of repeating_policy STRUCTURAL_ARBITRAGE = Inr 1"
  by (auto simp: valid_router_policy_def router_policy_checks_def repeating_policy_def py_space_def
    priority_of_def)

section \<open>Sample inputs\<close>

definition router_candidate :: "string \<Rightarrow> dec \<Rightarrow> strategy_candidate" where
  "router_candidate cid capital = \<lparr>cand_id = cid, cand_strategy = DIRECTIONAL_EDGE,
     cand_market_id = ''m1'', cand_required_capital = capital, cand_expected_net_value = 1,
     cand_quality_score = 1, cand_created_at = 10, cand_expires_at = 100,
     cand_outcome_side = Some UP\<rparr>"

definition sample_opportunities :: "routing_opportunity list" where
  "sample_opportunities =
     [\<lparr>ro_candidate = router_candidate ''a'' 5, ro_condition_id = ''c1'', ro_token_ids = [''t1''],
       ro_score = 0, ro_certainty = 1\<rparr>,
      \<lparr>ro_candidate = router_candidate ''b'' 5, ro_condition_id = ''c2'', ro_token_ids = [''t2''],
       ro_score = 1, ro_certainty = 1\<rparr>]"

definition sample_router_policy :: router_policy where
  "sample_router_policy = \<lparr>pol_version = ''v1'',
     pol_priority = [DIRECTIONAL_EDGE, STRUCTURAL_ARBITRAGE, DUAL40], pol_dual40_enabled = False\<rparr>"

definition open_claim :: "string \<Rightarrow> string \<Rightarrow> string \<Rightarrow> router_claim" where
  "open_claim cid condition token = \<lparr>clm_id = ''claim:'' @ cid, clm_idempotency_key = ''route:'' @ cid,
     clm_candidate_id = cid, clm_condition_id = condition, clm_token_ids = [token],
     clm_strategy = DIRECTIONAL_EDGE, clm_reserved = 4, clm_created_at = 20, clm_expires_at = 100,
     clm_status = ACTIVE, clm_reconciled_at = None\<rparr>"

definition sample_snapshot :: router_snapshot where
  "sample_snapshot = \<lparr>snap_revision = 1, snap_claims = [open_claim ''z'' ''c1'' ''t9''],
     snap_unresolved = []\<rparr>"

lemmas sample_router_defs = router_candidate_def sample_opportunities_def sample_router_policy_def
  open_claim_def sample_snapshot_def

lemma sample_router_valid:
  "valid_router_policy sample_router_policy" "list_all valid_opportunity sample_opportunities"
  "valid_snapshot sample_snapshot"
  by (auto simp: valid_router_policy_def router_policy_checks_def valid_opportunity_def
    routing_opportunity_checks_def valid_candidate_def candidate_checks_def valid_snapshot_def
    router_snapshot_checks_def valid_claim_def router_claim_checks_def sample_router_defs py_space_def)

lemma sample_unclaimed: "unclaimed_capital sample_snapshot 10 = 6"
  by (simp add: unclaimed_capital_def active_claims_def dsum_def dec_op_defs ctx_eval sample_router_defs)

lemma sample_active: "active_claims sample_snapshot = [open_claim ''z'' ''c1'' ''t9'']"
  by (simp add: active_claims_def sample_router_defs)

text \<open>The first opportunity is on a claimed condition; the second is the one to route.\<close>

lemma sample_routable:
  "\<not> routable sample_snapshot 10 sample_router_policy 30 (sample_opportunities ! 0)"
  "routable sample_snapshot 10 sample_router_policy 30 (sample_opportunities ! 1)"
  by (simp_all add: routable_conflict conflict_reason_def sample_active sample_unclaimed)
    (auto simp: sample_router_defs)

lemma sample_route:
  "\<exists>d. route_opportunities sample_opportunities sample_snapshot (Some 10) sample_router_policy 30 = Inr d
     \<and> rdec_claim d = Some (claim_for (sample_opportunities ! 1) 30)"
proof -
  have two: "sample_opportunities = [sample_opportunities ! 0, sample_opportunities ! 1]"
    by (simp add: sample_opportunities_def)
  have in_set: "item \<in> set sample_opportunities \<longleftrightarrow>
      item = sample_opportunities ! 0 \<or> item = sample_opportunities ! 1" for item
    by (subst two) auto
  have "\<not> (\<exists>c\<in>set (active_claims sample_snapshot). clm_expires_at c \<le> 30)"
    by (simp add: sample_active open_claim_def)
  then show ?thesis
    using sample_routable in_set
    by (cases rule: route_cases [OF sample_router_valid(1,2), of 10 sample_snapshot 30]) auto
qed


theorem routed_capital_is_conserved_witness:
  "4 + clm_reserved (claim_for (sample_opportunities ! 1) 30) \<le> 10"
proof -
  obtain d where d: "route_opportunities sample_opportunities sample_snapshot (Some 10)
      sample_router_policy 30 = Inr d" "rdec_claim d = Some (claim_for (sample_opportunities ! 1) 30)"
    using sample_route by blast
  show ?thesis
    using routed_capital_is_conserved [OF sample_router_valid(1,2) _ _ _ _ _ _ d, of 2]
    by (simp add: sample_active open_claim_def grid_def grid_small_def)
qed

theorem reconcile_is_exact_and_idempotent_witness:
  "\<exists>s'. reconcile_claim sample_snapshot ''claim:z'' 40 = Inr s' \<and> active_claims s' = []
     \<and> reconcile_claim s' ''claim:z'' 50 = Inr s'"
proof -
  have c: "open_claim ''z'' ''c1'' ''t9'' \<in> set (snap_claims sample_snapshot)"
    by (simp add: sample_snapshot_def)
  show ?thesis
    using reconcile_is_exact_and_idempotent [OF sample_router_valid(3) c, of 40]
    by (auto simp: sample_active) (auto simp: open_claim_def)
qed

text \<open>Two opportunities committed one after the other from the empty snapshot.\<close>

definition empty_snapshot :: router_snapshot where
  "empty_snapshot = \<lparr>snap_revision = 0, snap_claims = [], snap_unresolved = []\<rparr>"

lemma single_route:
  assumes "valid_opportunity item" "routable s capital p now item" "valid_router_policy p" "0 \<le> capital"
    "\<forall>c\<in>set (active_claims s). now < clm_expires_at c"
  shows "\<exists>d. route_opportunities [item] s (Some capital) p now = Inr d
     \<and> persist_claim s d = s\<lparr>snap_revision := snap_revision s + 1,
         snap_claims := snap_claims s @ [claim_for item now]\<rparr>"
proof -
  have "list_all valid_opportunity [item]" using assms(1) by simp
  from assms(3) this assms(4) show ?thesis
    by (cases rule: route_cases [where s = s and now = now]) (use assms in \<open>auto simp: persist_claim_def\<close>)
qed

lemma sample_two_claims:
  "\<exists>s pending. router_reachable sample_router_policy (s, pending)
     \<and> active_claims s = [claim_for (sample_opportunities ! 0) 30, claim_for (sample_opportunities ! 1) 31]"
proof -
  let ?p = sample_router_policy and ?a = "sample_opportunities ! 0" and ?b = "sample_opportunities ! 1"
  have v: "valid_opportunity ?a" "valid_opportunity ?b"
    using sample_router_valid(2) by (simp_all add: list_all_iff sample_opportunities_def)
  have "routable empty_snapshot 20 ?p 30 ?a"
    by (simp add: routable_conflict conflict_reason_def unclaimed_capital_def active_claims_def
      empty_snapshot_def sample_router_defs dsum_def dec_op_defs ctx_eval)
  then obtain d where d: "route_opportunities [?a] empty_snapshot (Some 20) ?p 30 = Inr d"
    "persist_claim empty_snapshot d = empty_snapshot\<lparr>snap_revision := 1, snap_claims := [claim_for ?a 30]\<rparr>"
    using single_route [OF v(1) _ sample_router_valid(1), of empty_snapshot 20 30]
    by (auto simp: empty_snapshot_def active_claims_def)
  let ?s1 = "empty_snapshot\<lparr>snap_revision := 1, snap_claims := [claim_for ?a 30]\<rparr>"
  have act: "active_claims ?s1 = [claim_for ?a 30]" by (simp add: active_claims_def claim_for_def Let_def)
  have "routable ?s1 20 ?p 31 ?b"
    by (simp add: routable_conflict conflict_reason_def unclaimed_capital_def active_claims_def
      claim_for_def Let_def empty_snapshot_def sample_router_defs dsum_def dec_op_defs ctx_eval)
  then obtain e where e: "route_opportunities [?b] ?s1 (Some 20) ?p 31 = Inr e"
    "persist_claim ?s1 e = ?s1\<lparr>snap_revision := 2, snap_claims := [claim_for ?a 30, claim_for ?b 31]\<rparr>"
    using single_route [OF v(2) _ sample_router_valid(1), of ?s1 20 31]
    by (auto simp: act) (auto simp: claim_for_def Let_def sample_router_defs)
  have "router_reachable ?p (empty_snapshot, [])"
    unfolding empty_snapshot_def by (rule router_reachable.initial) simp
  then have "router_reachable ?p (empty_snapshot, [d])"
    by (rule router_reachable.step) (rule router_step.propose [OF _ _ d(1)], simp_all add: v)
  then have "router_reachable ?p (?s1, [d])"
    by (rule router_reachable.step) (use router_step.commit [of d "[d]" ?p empty_snapshot] d(2) in simp)
  then have "router_reachable ?p (?s1, [e, d])"
    by (rule router_reachable.step) (rule router_step.propose [OF _ _ e(1)], use v in simp_all)
  then have "router_reachable ?p (persist_claim ?s1 e, [e, d])"
    by (rule router_reachable.step) (rule router_step.commit, simp)
  moreover have "active_claims (persist_claim ?s1 e) = [claim_for ?a 30, claim_for ?b 31]"
    unfolding e(2) by (simp add: active_claims_def claim_for_def Let_def)
  ultimately show ?thesis by blast
qed

theorem concurrent_claims_are_exclusive_witness:
  "clm_condition_id (claim_for (sample_opportunities ! 0) 30)
     \<noteq> clm_condition_id (claim_for (sample_opportunities ! 1) 31)"
proof -
  obtain s pending where s: "router_reachable sample_router_policy (s, pending)"
    "active_claims s = [claim_for (sample_opportunities ! 0) 30, claim_for (sample_opportunities ! 1) 31]"
    using sample_two_claims by blast
  show ?thesis
    using concurrent_claims_are_exclusive [OF sample_router_valid(1) s(1), of 0 1] s(2) by simp
qed

end
