(* ===== verification/Paper_Gateway.thy ===== *)
theory Paper_Gateway
  imports Plans Paper_Store
begin

text \<open>
  \<open>execution/paper.py\<close>: the deterministic PAPER gateway over the repository, cancellation,
  reconciliation against fills, and the settled profit. \<open>encode_order\<close> and \<open>restore_order\<close> are the
  two directions of the stored result: \<open>asdict\<close> with \<open>_jsonable\<close>, and \<open>_restore_order\<close>, which
  calls the constructor again.
\<close>

section \<open>The stored form of orders and fills\<close>

fun order_status_value :: "order_status \<Rightarrow> string" where
  "order_status_value CREATED = ''CREATED''"
| "order_status_value SUBMITTING = ''SUBMITTING''"
| "order_status_value ACKNOWLEDGED = ''ACKNOWLEDGED''"
| "order_status_value PARTIALLY_FILLED = ''PARTIALLY_FILLED''"
| "order_status_value FILLED = ''FILLED''"
| "order_status_value CANCELLED = ''CANCELLED''"
| "order_status_value REJECTED = ''REJECTED''"
| "order_status_value EXPIRED = ''EXPIRED''"
| "order_status_value UNKNOWN_ORDER_STATE = ''UNKNOWN_ORDER_STATE''"

fun order_side_value :: "order_side \<Rightarrow> string" where
  "order_side_value BUY = ''BUY''"
| "order_side_value SELL = ''SELL''"

text \<open>\<open>OrderStatus(text)\<close> looks a member up by its value.\<close>

definition member_by_value :: "('a \<Rightarrow> string) \<Rightarrow> 'a list \<Rightarrow> string \<Rightarrow> 'a result" where
  "member_by_value value members s = (case filter (\<lambda>m. value m = s) members of
       m # _ \<Rightarrow> Inr m | [] \<Rightarrow> Inl (ValueErr ''not a valid member''))"

definition order_status_of :: "string \<Rightarrow> order_status result" where
  "order_status_of = member_by_value order_status_value
     [CREATED, SUBMITTING, ACKNOWLEDGED, PARTIALLY_FILLED, FILLED, CANCELLED, REJECTED, EXPIRED,
      UNKNOWN_ORDER_STATE]"

definition order_side_of :: "string \<Rightarrow> order_side result" where
  "order_side_of = member_by_value order_side_value [BUY, SELL]"

lemma order_status_of_value [simp]: "order_status_of (order_status_value s) = Inr s"
  by (cases s) (simp_all add: order_status_of_def member_by_value_def)

lemma order_side_of_value [simp]: "order_side_of (order_side_value s) = Inr s"
  by (cases s) (simp_all add: order_side_of_def member_by_value_def)

definition encode_order :: "order_state \<Rightarrow> json_order" where
  "encode_order s = \<lparr>jo_client_order_id = os_client_order_id s,
     jo_status = order_status_value (os_status s), jo_requested = os_requested s,
     jo_filled = os_filled s, jo_created_at = os_created_at s, jo_updated_at = os_updated_at s,
     jo_exchange_order_id = os_exchange_order_id s, jo_acknowledged_at = os_acknowledged_at s,
     jo_average_price = os_average_price s\<rparr>"

definition restore_order :: "json_order \<Rightarrow> order_state result" where
  "restore_order j = bindr (order_status_of (jo_status j)) (\<lambda>status.
     mk_order_state \<lparr>os_client_order_id = jo_client_order_id j, os_status = status,
       os_requested = jo_requested j, os_filled = jo_filled j, os_created_at = jo_created_at j,
       os_updated_at = jo_updated_at j, os_exchange_order_id = jo_exchange_order_id j,
       os_acknowledged_at = jo_acknowledged_at j, os_average_price = jo_average_price j\<rparr>)"

definition encode_fill :: "fill \<Rightarrow> json_fill" where
  "encode_fill f = \<lparr>jf_fill_id = fill_id f, jf_exchange_order_id = fill_exchange_order_id f,
     jf_client_order_id = fill_client_order_id f, jf_token_id = fill_token_id f,
     jf_side = order_side_value (fill_side f), jf_quantity = fill_quantity f,
     jf_price = fill_price f, jf_fee = fill_fee f, jf_source_ts = fill_source_ts f,
     jf_recv_ts = fill_recv_ts f\<rparr>"

definition restore_fill :: "json_fill \<Rightarrow> fill result" where
  "restore_fill j = bindr (order_side_of (jf_side j)) (\<lambda>side.
     mk_fill \<lparr>fill_id = jf_fill_id j, fill_exchange_order_id = jf_exchange_order_id j,
       fill_client_order_id = jf_client_order_id j, fill_token_id = jf_token_id j,
       fill_side = side, fill_quantity = jf_quantity j, fill_price = jf_price j,
       fill_fee = jf_fee j, fill_source_ts = jf_source_ts j, fill_recv_ts = jf_recv_ts j\<rparr>)"

lemma restore_encode_order: "valid_order_state s \<Longrightarrow> restore_order (encode_order s) = Inr s"
  by (cases s) (simp add: restore_order_def encode_order_def mk_order_state_def valid_order_state_def)

lemma restore_encode_fill: "valid_fill f \<Longrightarrow> restore_fill (encode_fill f) = Inr f"
  by (cases f) (simp add: restore_fill_def encode_fill_def mk_fill_def valid_fill_def)

section \<open>Execution\<close>

record fill_evidence =
  fe_client_order_id :: string
  fe_filled :: dec
  fe_average_price :: "dec option"
  fe_fee :: dec
  fe_source_ts :: utc
  fe_recv_ts :: utc

definition fill_evidence_checks :: "fill_evidence \<Rightarrow> check list" where
  "fill_evidence_checks e =
     [require_text ''client_order_id'' (fe_client_order_id e),
      non_negative ''filled_quantity'' (fe_filled e),
      non_negative ''fee'' (fe_fee e)] @
     (case fe_average_price e of None \<Rightarrow> [] | Some p \<Rightarrow> [in_unit ''average_price'' p]) @
     [fail_if ((0 < fe_filled e) \<noteq> (fe_average_price e \<noteq> None))
        (ValueErr ''positive fill and average price must be present together'')]"

definition valid_evidence :: "fill_evidence \<Rightarrow> bool" where
  "valid_evidence e \<longleftrightarrow> passes (fill_evidence_checks e)"

record paper_result =
  px_plan_id :: string
  px_idempotency_key :: string
  px_orders :: "order_state list"
  px_fills :: "fill list"
  px_recorded_at :: utc
  px_duplicate :: bool

definition restore_execution :: "stored_execution \<Rightarrow> bool \<Rightarrow> paper_result result" where
  "restore_execution x duplicate = (let res = ep_result (sx_payload x) in
     bindr (mapr restore_order (jr_orders res)) (\<lambda>orders.
     bindr (mapr restore_fill (jr_fills res)) (\<lambda>fills.
       Inr \<lparr>px_plan_id = jr_plan_id res, px_idempotency_key = jr_idempotency_key res,
         px_orders = orders, px_fills = fills, px_recorded_at = jr_recorded_at res,
         px_duplicate = duplicate\<rparr>)))"

definition paper_order_status :: "dec \<Rightarrow> dec \<Rightarrow> order_status" where
  "paper_order_status filled requested =
     (if filled = 0 then ACKNOWLEDGED else if filled = requested then FILLED else PARTIALLY_FILLED)"

definition exchange_id :: "string \<Rightarrow> string" where
  "exchange_id cid = ''paper:'' @ cid"

definition paper_order :: "utc \<Rightarrow> order_intent \<Rightarrow> fill_evidence \<Rightarrow> order_state" where
  "paper_order now i e = \<lparr>os_client_order_id = oi_client_order_id i,
     os_status = paper_order_status (fe_filled e) (oi_quantity i), os_requested = oi_quantity i,
     os_filled = fe_filled e, os_created_at = now, os_updated_at = fe_recv_ts e,
     os_exchange_order_id = Some (exchange_id (oi_client_order_id i)),
     os_acknowledged_at = Some now, os_average_price = fe_average_price e\<rparr>"

text \<open>The average price of a positive fill is present by the evidence's own check (the \<open>assert\<close>).\<close>

definition paper_fill :: "order_intent \<Rightarrow> fill_evidence \<Rightarrow> fill list result" where
  "paper_fill i e = (if 0 < fe_filled e then
       (case fe_average_price e of
          None \<Rightarrow> Inl AssertionErr
        | Some p \<Rightarrow> bindr (mk_fill \<lparr>fill_id = ''fill:'' @ oi_client_order_id i,
              fill_exchange_order_id = exchange_id (oi_client_order_id i),
              fill_client_order_id = oi_client_order_id i, fill_token_id = oi_token_id i,
              fill_side = oi_side i, fill_quantity = fe_filled e, fill_price = p,
              fill_fee = fe_fee e, fill_source_ts = fe_source_ts e, fill_recv_ts = fe_recv_ts e\<rparr>)
            (\<lambda>f. Inr [f]))
     else Inr [])"

text \<open>The body of the loop over the intents; \<open>by_id[...]\<close> raises when the evidence is missing.\<close>

definition paper_leg :: "utc \<Rightarrow> fill_evidence list \<Rightarrow> order_intent \<Rightarrow> (order_state \<times> fill list) result" where
  "paper_leg now evidence i =
     (case map_of (rev (map (\<lambda>e. (fe_client_order_id e, e)) evidence)) (oi_client_order_id i) of
        None \<Rightarrow> Inl (KeyErr (oi_client_order_id i))
      | Some e \<Rightarrow> checked [fail_if (oi_quantity i < fe_filled e)
            (ValueErr ''paper fill exceeds requested quantity'')]
          (bindr (mk_order_state (paper_order now i e)) (\<lambda>s.
           bindr (paper_fill i e) (\<lambda>fs. Inr (s, fs)))))"

definition execution_guards :: "execution_plan \<Rightarrow> fill_evidence list \<Rightarrow> utc \<Rightarrow> bool \<Rightarrow> bool \<Rightarrow> check list" where
  "execution_guards plan evidence now kill_switch reconciled =
     [fail_if (kill_switch \<or> \<not> reconciled) (RuntimeErr ''execution-time safety gate denied PAPER plan''),
      fail_if (plan_expires_at plan < now) (ValueErr ''execution plan expired''),
      fail_if (\<not> distinct (map fe_client_order_id evidence))
        (ValueErr ''fill evidence client IDs must be unique''),
      fail_if (set (map fe_client_order_id evidence) \<noteq> set (map oi_client_order_id (plan_intents plan)))
        (ValueErr ''fill evidence must exactly match plan intents'')]"

definition encode_result :: "execution_plan \<Rightarrow> (order_state \<times> fill list) list \<Rightarrow> utc \<Rightarrow> json_result" where
  "encode_result plan legs now = \<lparr>jr_plan_id = plan_id plan,
     jr_idempotency_key = plan_idempotency_key plan, jr_orders = map (encode_order \<circ> fst) legs,
     jr_fills = map encode_fill (concat (map snd legs)), jr_recorded_at = now\<rparr>"

definition paper_execute :: "paper_repo \<Rightarrow> execution_plan \<Rightarrow> fill_evidence list \<Rightarrow> utc \<Rightarrow> bool \<Rightarrow> bool \<Rightarrow>
    paper_repo \<times> paper_result result" where
  "paper_execute r plan evidence now kill_switch reconciled =
     (if plan_mode plan \<noteq> PAPER then (r, Inl (ValueErr ''PaperGateway accepts PAPER plans only''))
      else (case execution_get r (plan_idempotency_key plan) of
         Inl e \<Rightarrow> (r, Inl e)
       | Inr (Some existing) \<Rightarrow> (r, restore_execution existing True)
       | Inr None \<Rightarrow>
          (case checked (execution_guards plan evidence now kill_switch reconciled)
              (mapr (paper_leg now evidence) (plan_intents plan)) of
             Inl e \<Rightarrow> (r, Inl e)
           | Inr legs \<Rightarrow>
              (case execution_save_once r (plan_idempotency_key plan) (plan_id plan) plan
                  (encode_result plan legs now) now of
                 (r', Inl e) \<Rightarrow> (r', Inl e)
               | (r', Inr stored) \<Rightarrow> (r', restore_execution stored False)))))"

section \<open>Cancellation, reconciliation, settled profit\<close>

definition cancel_order :: "order_state \<Rightarrow> utc \<Rightarrow> order_state result" where
  "cancel_order s t = checked [fail_if (os_status s \<in> {FILLED, CANCELLED, REJECTED, EXPIRED})
       (ValueErr ''terminal order cannot be cancelled'')]
     (mk_order_state (s\<lparr>os_status := CANCELLED, os_updated_at := t\<rparr>))"

definition matching_fills :: "order_state \<Rightarrow> fill list \<Rightarrow> fill list" where
  "matching_fills s fills = filter (\<lambda>f. fill_client_order_id f = os_client_order_id s) fills"

definition reconcile_order :: "order_state \<Rightarrow> fill list \<Rightarrow> utc \<Rightarrow> bool \<Rightarrow> order_state result" where
  "reconcile_order s fills t authoritative =
     (let matching = matching_fills s fills;
          quantity = dsum (map fill_quantity matching) in
      if os_requested s < quantity then Inl (ValueErr ''reconciled fills exceed request'')
      else if \<not> authoritative then
        mk_order_state (s\<lparr>os_status := UNKNOWN_ORDER_STATE, os_updated_at := t\<rparr>)
      else if quantity = 0 then
        mk_order_state (s\<lparr>os_status := ACKNOWLEDGED, os_filled := 0, os_average_price := None,
          os_updated_at := t\<rparr>)
      else (let average = ddiv (dsum (map (\<lambda>f. dmul (fill_quantity f) (fill_price f)) matching)) quantity in
        mk_order_state (s\<lparr>os_status := (if quantity = os_requested s then FILLED else PARTIALLY_FILLED),
          os_filled := quantity, os_average_price := Some average, os_updated_at := t\<rparr>)))"

definition settled_pnl :: "fill list \<Rightarrow> settlement \<Rightarrow> outcome_side \<Rightarrow> dec" where
  "settled_pnl fills s outcome =
     (let gross = dsum (map (\<lambda>f. if outcome = stl_winning_outcome s
            then dmul (fill_quantity f) (stl_payout_per_share s) else 0) fills);
          cost = dsum (map (\<lambda>f. dadd (dmul (fill_quantity f) (fill_price f)) (fill_fee f)) fills)
      in dsub gross cost)"

section \<open>Correctness of the execution\<close>

definition evidence_of :: "fill_evidence list \<Rightarrow> string \<Rightarrow> fill_evidence option" where
  "evidence_of evidence cid = map_of (rev (map (\<lambda>e. (fe_client_order_id e, e)) evidence)) cid"

definition fills_of :: "order_intent \<Rightarrow> fill_evidence \<Rightarrow> fill list" where
  "fills_of i e = (if 0 < fe_filled e then [\<lparr>fill_id = ''fill:'' @ oi_client_order_id i,
      fill_exchange_order_id = exchange_id (oi_client_order_id i),
      fill_client_order_id = oi_client_order_id i, fill_token_id = oi_token_id i,
      fill_side = oi_side i, fill_quantity = fe_filled e, fill_price = the (fe_average_price e),
      fill_fee = fe_fee e, fill_source_ts = fe_source_ts e, fill_recv_ts = fe_recv_ts e\<rparr>] else [])"

lemma evidence_of_Some: "evidence_of evidence cid = Some e \<Longrightarrow> e \<in> set evidence \<and> fe_client_order_id e = cid"
  unfolding evidence_of_def by (auto dest!: map_of_SomeD)

lemma evidence_of_None: "evidence_of evidence cid = None \<longleftrightarrow> cid \<notin> fe_client_order_id ` set evidence"
  by (auto simp: evidence_of_def map_of_eq_None_iff image_image)

lemma valid_evidence_facts:
  assumes "valid_evidence e"
  shows "0 \<le> fe_filled e" "0 \<le> fe_fee e" "0 < fe_filled e \<longleftrightarrow> fe_average_price e \<noteq> None"
    "\<And>p. fe_average_price e = Some p \<Longrightarrow> 0 \<le> p \<and> p \<le> 1"
  using assms by (auto simp: valid_evidence_def fill_evidence_checks_def split: option.splits)

lemma valid_intent_facts:
  assumes "valid_intent i"
  shows "oi_client_order_id i \<noteq> []" "\<not> py_space (hd (oi_client_order_id i))"
    "\<not> py_space (last (oi_client_order_id i))" "0 < oi_quantity i"
    "oi_token_id i \<noteq> []" "\<not> py_space (hd (oi_token_id i))" "\<not> py_space (last (oi_token_id i))"
  using assms by (auto simp: valid_intent_def order_intent_checks_def)

lemma exchange_id_text [simp]:
  "exchange_id cid \<noteq> []" "\<not> py_space (hd (exchange_id cid))"
  "cid \<noteq> [] \<Longrightarrow> py_space (last (exchange_id cid)) \<longleftrightarrow> py_space (last cid)"
  by (simp_all add: exchange_id_def py_space_def)

lemma paper_order_valid:
  assumes i: "valid_intent i" and e: "valid_evidence e" and le: "fe_filled e \<le> oi_quantity i"
  shows "valid_order_state (paper_order now i e) \<longleftrightarrow> now \<le> fe_recv_ts e"
proof (cases "fe_average_price e")
  case None
  then have "fe_filled e = 0" using valid_evidence_facts [OF e] by (cases "0 < fe_filled e") auto
  with None show ?thesis
    using valid_intent_facts [OF i]
    by (auto simp: valid_order_state_def order_state_checks_def status_quantity_checks_def
      paper_order_def paper_order_status_def)
next
  case (Some p)
  then have "0 < fe_filled e" "0 \<le> p" "p \<le> 1" using valid_evidence_facts [OF e] by auto
  with Some le show ?thesis
    using valid_intent_facts [OF i]
    by (auto simp: valid_order_state_def order_state_checks_def status_quantity_checks_def
      paper_order_def paper_order_status_def)
qed

lemma paper_fill_eq:
  assumes i: "valid_intent i" and e: "valid_evidence e"
  shows "paper_fill i e = Inr (fills_of i e)" "\<forall>f\<in>set (fills_of i e). valid_fill f"
proof -
  have fid: "''fill:'' @ oi_client_order_id i \<noteq> []" "\<not> py_space (hd (''fill:'' @ oi_client_order_id i))"
    "\<not> py_space (last (''fill:'' @ oi_client_order_id i))"
    using valid_intent_facts [OF i] by (simp_all add: py_space_def)
  show valid: "\<forall>f\<in>set (fills_of i e). valid_fill f"
    using valid_intent_facts [OF i] valid_evidence_facts [OF e] fid
    by (auto simp: fills_of_def valid_fill_def fill_checks_def)
  show "paper_fill i e = Inr (fills_of i e)"
    using valid valid_evidence_facts [OF e]
    by (auto simp: paper_fill_def fills_of_def mk_fill_def valid_fill_def split: option.splits)
qed

lemma mk_order_state_invalid: "\<not> valid_order_state s \<Longrightarrow> \<exists>e. mk_order_state s = Inl e"
  unfolding mk_order_state_def valid_order_state_def by (rule checked_fails)

text \<open>One leg: it fails on an overfill and on evidence older than the execution, otherwise it books the evidence.\<close>

lemma paper_leg_eq:
  assumes i: "valid_intent i" and e: "valid_evidence e"
    and found: "evidence_of evidence (oi_client_order_id i) = Some e"
  shows "if fe_filled e \<le> oi_quantity i \<and> now \<le> fe_recv_ts e
    then paper_leg now evidence i = Inr (paper_order now i e, fills_of i e)
    else \<exists>err. paper_leg now evidence i = Inl err"
proof (cases "fe_filled e \<le> oi_quantity i")
  case True
  obtain err where err: "\<not> now \<le> fe_recv_ts e \<Longrightarrow> mk_order_state (paper_order now i e) = Inl err"
    using mk_order_state_invalid paper_order_valid [OF i e True, of now] by meson
  show ?thesis
  proof (cases "now \<le> fe_recv_ts e")
    case True
    with \<open>fe_filled e \<le> oi_quantity i\<close> show ?thesis
      using found paper_order_valid [OF i e, of now] paper_fill_eq [OF i e]
      by (simp add: paper_leg_def evidence_of_def mk_order_state_def valid_order_state_def)
  next
    case False
    with \<open>fe_filled e \<le> oi_quantity i\<close> show ?thesis
      using found err by (simp add: paper_leg_def evidence_of_def)
  qed
next
  case False
  then show ?thesis using found by (simp add: paper_leg_def evidence_of_def)
qed

lemma mapr_Inl: "x \<in> set xs \<Longrightarrow> f x = Inl e \<Longrightarrow> \<exists>e'. mapr f xs = Inl e'"
proof (induction xs)
  case (Cons y ys)
  then show ?case by (cases "f y"; cases "mapr f ys") auto
qed simp

definition booked :: "fill_evidence list \<Rightarrow> utc \<Rightarrow> order_intent \<Rightarrow> order_state \<times> fill list" where
  "booked evidence now i = (let e = the (evidence_of evidence (oi_client_order_id i)) in
     (paper_order now i e, fills_of i e))"

definition leg_acceptable :: "fill_evidence list \<Rightarrow> utc \<Rightarrow> order_intent \<Rightarrow> bool" where
  "leg_acceptable evidence now i \<longleftrightarrow> (\<exists>e\<in>set evidence. fe_client_order_id e = oi_client_order_id i
     \<and> fe_filled e \<le> oi_quantity i \<and> now \<le> fe_recv_ts e)"

lemma evidence_of_unique:
  assumes "distinct (map fe_client_order_id evidence)" "e \<in> set evidence"
  shows "evidence_of evidence (fe_client_order_id e) = Some e"
proof -
  have "distinct (map fst (rev (map (\<lambda>e. (fe_client_order_id e, e)) evidence)))"
    using assms(1) by (simp add: comp_def flip: rev_map)
  then show ?thesis
    using assms(2) by (auto simp: evidence_of_def intro!: map_of_is_SomeI)
qed

lemma legs_outcome:
  assumes intents: "\<forall>i\<in>set is. valid_intent i" and ev: "\<forall>e\<in>set evidence. valid_evidence e"
    and dist: "distinct (map fe_client_order_id evidence)"
    and ids: "set (map fe_client_order_id evidence) = set (map oi_client_order_id is)"
  shows "if \<forall>i\<in>set is. leg_acceptable evidence now i
    then mapr (paper_leg now evidence) is = Inr (map (booked evidence now) is)
    else \<exists>err. mapr (paper_leg now evidence) is = Inl err"
proof -
  have leg: "if leg_acceptable evidence now i then paper_leg now evidence i = Inr (booked evidence now i)
      else \<exists>err. paper_leg now evidence i = Inl err" if "i \<in> set is" for i
  proof -
    have "oi_client_order_id i \<in> set (map fe_client_order_id evidence)" using that ids by auto
    then obtain e where e: "e \<in> set evidence" "fe_client_order_id e = oi_client_order_id i" by auto
    then have found: "evidence_of evidence (oi_client_order_id i) = Some e"
      using evidence_of_unique [OF dist, of e] by simp
    have "leg_acceptable evidence now i \<longleftrightarrow> fe_filled e \<le> oi_quantity i \<and> now \<le> fe_recv_ts e"
      using e dist by (auto simp: leg_acceptable_def distinct_map inj_on_def)
    then show ?thesis
      using paper_leg_eq [OF _ _ found, of now] e intents ev that found by (auto simp: booked_def)
  qed
  show ?thesis
  proof (cases "\<forall>i\<in>set is. leg_acceptable evidence now i")
    case True
    then have "mapr (paper_leg now evidence) is = Inr (map (booked evidence now) is)"
      using leg by (intro mapr_total) (meson)
    with True show ?thesis by simp
  next
    case False
    then obtain i err where "i \<in> set is" "paper_leg now evidence i = Inl err"
      using leg by meson
    with False show ?thesis using mapr_Inl by meson
  qed
qed

lemma booked_valid:
  assumes "\<forall>e\<in>set evidence. valid_evidence e" "distinct (map fe_client_order_id evidence)"
    "valid_intent i" "leg_acceptable evidence now i"
  shows "valid_order_state (fst (booked evidence now i))" "\<forall>f\<in>set (snd (booked evidence now i)). valid_fill f"
proof -
  obtain e where e: "e \<in> set evidence" "fe_client_order_id e = oi_client_order_id i"
    "fe_filled e \<le> oi_quantity i" "now \<le> fe_recv_ts e"
    using assms(4) by (auto simp: leg_acceptable_def)
  then have "evidence_of evidence (oi_client_order_id i) = Some e"
    using evidence_of_unique [OF assms(2), of e] by simp
  then show "valid_order_state (fst (booked evidence now i))"
    "\<forall>f\<in>set (snd (booked evidence now i)). valid_fill f"
    using e assms(1,3) paper_order_valid [of i e now] paper_fill_eq(2) [of i e] by (auto simp: booked_def)
qed

lemma restore_encode_fills: "\<forall>f\<in>set fs. valid_fill f \<Longrightarrow> mapr restore_fill (map encode_fill fs) = Inr fs"
  by (induction fs) (auto simp: restore_encode_fill)

lemma restore_encoded:
  assumes "\<forall>leg\<in>set legs. valid_order_state (fst leg) \<and> (\<forall>f\<in>set (snd leg). valid_fill f)"
    "ep_result (sx_payload x) = encode_result plan legs now"
  shows "restore_execution x d = Inr \<lparr>px_plan_id = plan_id plan,
     px_idempotency_key = plan_idempotency_key plan, px_orders = map fst legs,
     px_fills = concat (map snd legs), px_recorded_at = now, px_duplicate = d\<rparr>"
proof -
  have "mapr restore_order (map (encode_order \<circ> fst) legs) = Inr (map fst legs)"
    using assms(1) by (induction legs) (auto simp: restore_encode_order)
  moreover have "\<forall>f\<in>set (concat (map snd legs)). valid_fill f" using assms(1) by auto
  then have "mapr restore_fill (map encode_fill (concat (map snd legs))) = Inr (concat (map snd legs))"
    by (rule restore_encode_fills)
  ultimately show ?thesis
    using assms(2) by (simp add: restore_execution_def encode_result_def Let_def)
qed

lemma execution_save_fresh:
  assumes "map_of (repo_executions r) key = None" "require_text ''idempotency_key'' key = None"
    "require_text ''plan_id'' pid = None"
  shows "\<exists>r'. execution_save_once r key pid plan res now = (r', Inr \<lparr>sx_idempotency_key = key,
      sx_plan_id = pid, sx_payload = \<lparr>ep_plan = plan, ep_result = res, ep_run_id = paper_run_id r\<rparr>,
      sx_recorded_at = now\<rparr>)
    \<and> map_of (repo_executions r') key = Some \<lparr>sx_idempotency_key = key,
      sx_plan_id = pid, sx_payload = \<lparr>ep_plan = plan, ep_result = res, ep_run_id = paper_run_id r\<rparr>,
      sx_recorded_at = now\<rparr>"
  using assms
  by (simp add: execution_save_once_def execution_get_def row_insert_fresh Let_def del: require_text_None)

text \<open>The guards of the code as one condition.\<close>

definition execution_allowed :: "execution_plan \<Rightarrow> fill_evidence list \<Rightarrow> utc \<Rightarrow> bool \<Rightarrow> bool \<Rightarrow> bool" where
  "execution_allowed plan evidence now kill_switch reconciled \<longleftrightarrow>
     \<not> kill_switch \<and> reconciled \<and> now \<le> plan_expires_at plan
     \<and> distinct (map fe_client_order_id evidence)
     \<and> set (map fe_client_order_id evidence) = set (map oi_client_order_id (plan_intents plan))
     \<and> (\<forall>i\<in>set (plan_intents plan). leg_acceptable evidence now i)"

lemma execution_guards_passes:
  "passes (execution_guards plan evidence now k rec) \<longleftrightarrow> \<not> k \<and> rec \<and> now \<le> plan_expires_at plan
     \<and> distinct (map fe_client_order_id evidence)
     \<and> set (map fe_client_order_id evidence) = set (map oi_client_order_id (plan_intents plan))"
  by (auto simp: execution_guards_def)

lemma valid_plan_texts:
  "valid_plan plan \<Longrightarrow> require_text ''idempotency_key'' (plan_idempotency_key plan) = None
     \<and> require_text ''plan_id'' (plan_id plan) = None"
  by (simp add: valid_plan_def execution_plan_checks_def)

lemma execution_outcome:
  assumes plan: "valid_plan plan" "plan_mode plan = PAPER"
    and fresh: "map_of (repo_executions r) (plan_idempotency_key plan) = None"
    and ev: "\<forall>e\<in>set evidence. valid_evidence e"
  shows "if execution_allowed plan evidence now k rec then
      (\<exists>r' x. paper_execute r plan evidence now k rec = (r', Inr x)
        \<and> px_orders x = map (fst \<circ> booked evidence now) (plan_intents plan)
        \<and> px_fills x = concat (map (snd \<circ> booked evidence now) (plan_intents plan))
        \<and> \<not> px_duplicate x \<and> list_all valid_order_state (px_orders x) \<and> list_all valid_fill (px_fills x)
        \<and> map_of (repo_executions r') (plan_idempotency_key plan) \<noteq> None)
    else (\<exists>err. paper_execute r plan evidence now k rec = (r, Inl err))"
proof -
  let ?legs = "mapr (paper_leg now evidence) (plan_intents plan)"
  have get: "execution_get r (plan_idempotency_key plan) = Inr None"
    using fresh valid_plan_texts [OF plan(1)] by (simp add: execution_get_def)
  have intents: "\<forall>i\<in>set (plan_intents plan). valid_intent i" using plan by (simp add: valid_plan_def)
  show ?thesis
  proof (cases "execution_allowed plan evidence now k rec")
    case True
    then have pass: "passes (execution_guards plan evidence now k rec)"
      by (simp add: execution_guards_passes execution_allowed_def)
    have legs: "?legs = Inr (map (booked evidence now) (plan_intents plan))"
      using True legs_outcome [OF intents ev, of now] by (simp add: execution_allowed_def)
    have valid: "\<forall>leg\<in>set (map (booked evidence now) (plan_intents plan)).
        valid_order_state (fst leg) \<and> (\<forall>f\<in>set (snd leg). valid_fill f)"
    proof
      fix leg assume "leg \<in> set (map (booked evidence now) (plan_intents plan))"
      then obtain i where "i \<in> set (plan_intents plan)" "leg = booked evidence now i" by auto
      then show "valid_order_state (fst leg) \<and> (\<forall>f\<in>set (snd leg). valid_fill f)"
        using booked_valid [OF ev, of i now] True intents by (simp add: execution_allowed_def)
    qed
    define res where "res = encode_result plan (map (booked evidence now) (plan_intents plan)) now"
    define x where "x = \<lparr>sx_idempotency_key = plan_idempotency_key plan, sx_plan_id = plan_id plan,
      sx_payload = \<lparr>ep_plan = plan, ep_result = res, ep_run_id = paper_run_id r\<rparr>, sx_recorded_at = now\<rparr>"
    then have xres: "ep_result (sx_payload x) = encode_result plan (map (booked evidence now) (plan_intents plan)) now"
      by (simp add: res_def)
    obtain r' where save: "execution_save_once r (plan_idempotency_key plan) (plan_id plan) plan res now = (r', Inr x)"
      and there: "map_of (repo_executions r') (plan_idempotency_key plan) = Some x"
      using execution_save_fresh [OF fresh valid_plan_texts [OF plan(1), THEN conjunct1]
        valid_plan_texts [OF plan(1), THEN conjunct2], of plan res now] unfolding x_def by blast
    have run: "paper_execute r plan evidence now k rec = (r', restore_execution x False)"
      by (simp add: paper_execute_def plan(2) get pass legs save flip: res_def)
    have "list_all valid_order_state (map (fst \<circ> booked evidence now) (plan_intents plan))"
      "list_all valid_fill (concat (map (snd \<circ> booked evidence now) (plan_intents plan)))"
      using valid by (simp_all add: list_all_iff)
    with True there show ?thesis
      by (simp add: run restore_encoded [OF valid xres] del: map_map) (simp add: comp_def)
  next
    case False
    have "\<exists>err. checked (execution_guards plan evidence now k rec) ?legs = Inl err"
    proof (cases "passes (execution_guards plan evidence now k rec)")
      case True
      with False show ?thesis
        using legs_outcome [OF intents ev, of now]
        by (simp add: execution_guards_passes execution_allowed_def)
    qed (rule checked_fails)
    with False get plan(2) show ?thesis by (auto simp: paper_execute_def)
  qed
qed

text \<open>
  C11: A first execution books exactly its evidence or nothing. For a valid PAPER plan whose key is not
  stored, with valid evidence, the gateway succeeds exactly when the kill switch is off, the ledger is
  reconciled, the plan has not expired, the evidence matches the intents one to one, no fill exceeds
  its intent and no evidence is older than the execution. It then returns, per intent in plan order,
  the order with the filled quantity (acknowledged, partially filled or filled accordingly) and one
  fill per positive quantity, and the execution is stored. Otherwise it raises and the repository is
  unchanged.
\<close>

theorem execution_books_evidence_or_nothing:
  assumes plan: "valid_plan plan" "plan_mode plan = PAPER"
    and fresh: "map_of (repo_executions r) (plan_idempotency_key plan) = None"
    and ev: "\<forall>e\<in>set evidence. valid_evidence e"
  shows "if execution_allowed plan evidence now k rec then
      (\<exists>r' x. paper_execute r plan evidence now k rec = (r', Inr x)
        \<and> px_orders x = map (fst \<circ> booked evidence now) (plan_intents plan)
        \<and> px_fills x = concat (map (snd \<circ> booked evidence now) (plan_intents plan))
        \<and> \<not> px_duplicate x \<and> list_all valid_order_state (px_orders x) \<and> list_all valid_fill (px_fills x)
        \<and> map_of (repo_executions r') (plan_idempotency_key plan) \<noteq> None)
    else (\<exists>err. paper_execute r plan evidence now k rec = (r, Inl err))"
  using assms by (rule execution_outcome)

lemma restore_duplicate:
  "restore_execution x d = Inr res \<Longrightarrow> restore_execution x True = Inr (res\<lparr>px_duplicate := True\<rparr>)"
  by (auto simp: restore_execution_def bindr_Inr_iff Let_def)

lemma execution_save_Inr:
  "execution_save_once r key pid plan res now = (r', Inr x) \<Longrightarrow> map_of (repo_executions r') key = Some x"
  by (auto simp: execution_save_once_def execution_get_def Let_def contract_simps bindr_Inr_iff
    split: option.splits)

text \<open>What a returned execution has left in the repository, first run or repeat.\<close>

lemma executed_is_stored:
  assumes "paper_execute r plan evidence now k rec = (r1, Inr x)"
  shows "require_text ''idempotency_key'' (plan_idempotency_key plan) = None"
    and "\<exists>st d. map_of (repo_executions r1) (plan_idempotency_key plan) = Some st
      \<and> restore_execution st d = Inr x"
proof -
  obtain stored where get: "execution_get r (plan_idempotency_key plan) = Inr stored"
    and paper: "plan_mode plan = PAPER"
    using assms by (cases "execution_get r (plan_idempotency_key plan)")
      (auto simp: paper_execute_def split: if_splits)
  then show "require_text ''idempotency_key'' (plan_idempotency_key plan) = None"
    by (auto simp: execution_get_def contract_simps simp del: require_text_None)
  show "\<exists>st d. map_of (repo_executions r1) (plan_idempotency_key plan) = Some st
      \<and> restore_execution st d = Inr x"
  proof (cases stored)
    case (Some st)
    with get have "map_of (repo_executions r) (plan_idempotency_key plan) = Some st"
      by (simp add: execution_get_def contract_simps)
    with Some get paper assms show ?thesis by (auto simp: paper_execute_def)
  next
    case None
    with get paper assms show ?thesis
      by (auto simp: paper_execute_def dest: execution_save_Inr split: sum.splits prod.splits)
  qed
qed

text \<open>
  C12: Execution is idempotent per key. Once the gateway has returned a result for a plan, then after
  any further writes to the repository every PAPER plan with the same idempotency key - with other
  evidence, at any time, even under an active kill switch or after its expiry - returns the very same
  orders and fills marked as duplicate and leaves the repository as it is.
\<close>

theorem execution_is_idempotent:
  assumes "paper_execute r plan evidence now k rec = (r1, Inr x)" "repo_history r1 r2"
    "plan_mode plan' = PAPER" "plan_idempotency_key plan' = plan_idempotency_key plan"
  shows "paper_execute r2 plan' evidence' now' k' rec' = (r2, Inr (x\<lparr>px_duplicate := True\<rparr>))"
proof -
  obtain st d where st: "map_of (repo_executions r1) (plan_idempotency_key plan) = Some st"
    "restore_execution st d = Inr x"
    using executed_is_stored(2) [OF assms(1)] by blast
  have "map_of (repo_executions r2) (plan_idempotency_key plan) = Some st"
    using execution_survives [OF assms(2) st(1)] .
  then have "execution_get r2 (plan_idempotency_key plan) = Inr (Some st)"
    using executed_is_stored(1) [OF assms(1)] by (simp add: execution_get_def del: require_text_None)
  then show ?thesis
    using assms(3,4) restore_duplicate [OF st(2)] by (simp add: paper_execute_def)
qed

section \<open>Reconciliation\<close>

lemma dmul_le_quantity: "dec_exact q \<Longrightarrow> 0 \<le> q \<Longrightarrow> p \<le> 1 \<Longrightarrow> dmul q p \<le> q"
  unfolding dmul_def by (rule ctx_le) (auto simp: mult_left_le)

lemma average_in_unit:
  assumes "\<forall>f\<in>set fs. valid_fill f \<and> dec_exact (fill_quantity f)"
    and "0 < dsum (map fill_quantity fs)"
  shows "0 \<le> ddiv (dsum (map (\<lambda>f. dmul (fill_quantity f) (fill_price f)) fs)) (dsum (map fill_quantity fs))"
    "ddiv (dsum (map (\<lambda>f. dmul (fill_quantity f) (fill_price f)) fs)) (dsum (map fill_quantity fs)) \<le> 1"
proof -
  have facts: "0 < fill_quantity f \<and> 0 \<le> fill_price f \<and> fill_price f \<le> 1" if "f \<in> set fs" for f
    using assms(1) that by (auto simp: valid_fill_def fill_checks_def)
  have "0 \<le> dsum (map (\<lambda>f. dmul (fill_quantity f) (fill_price f)) fs)"
    using facts by (intro dsum_nonneg) (auto simp: dmul_def less_imp_le)
  then show "0 \<le> ddiv (dsum (map (\<lambda>f. dmul (fill_quantity f) (fill_price f)) fs)) (dsum (map fill_quantity fs))"
    using assms(2) by (simp add: ddiv_def)
  have "dsum (map (\<lambda>f. dmul (fill_quantity f) (fill_price f)) fs) \<le> dsum (map fill_quantity fs)"
    using facts assms(1) by (intro dsum_map_mono dmul_le_quantity) (auto simp: less_imp_le)
  then show "ddiv (dsum (map (\<lambda>f. dmul (fill_quantity f) (fill_price f)) fs)) (dsum (map fill_quantity fs)) \<le> 1"
    using assms(2) unfolding ddiv_def by (intro ctx_le) (auto simp: divide_le_eq)
qed

text \<open>The state that an authoritative reconciliation puts the order into.\<close>

definition reconciled :: "order_state \<Rightarrow> dec \<Rightarrow> dec \<Rightarrow> utc \<Rightarrow> order_state" where
  "reconciled s quantity average t =
     (if quantity = 0 then s\<lparr>os_status := ACKNOWLEDGED, os_filled := 0, os_average_price := None,
          os_updated_at := t\<rparr>
      else s\<lparr>os_status := (if quantity = os_requested s then FILLED else PARTIALLY_FILLED),
          os_filled := quantity, os_average_price := Some average, os_updated_at := t\<rparr>)"

lemma order_state_identity:
  assumes "valid_order_state s"
  shows "os_client_order_id s \<noteq> []" "\<not> py_space (hd (os_client_order_id s))"
    "\<not> py_space (last (os_client_order_id s))" "os_created_at s \<le> os_updated_at s"
    "\<And>x. os_exchange_order_id s = Some x \<Longrightarrow> x \<noteq> [] \<and> \<not> py_space (hd x) \<and> \<not> py_space (last x)"
    "\<And>a. os_acknowledged_at s = Some a \<Longrightarrow> os_created_at s \<le> a \<and> a \<le> os_updated_at s"
  using assms by (auto simp: valid_order_state_def order_state_checks_def split: option.splits)

lemma reconciled_valid:
  assumes s: "valid_order_state s" "os_exchange_order_id s = Some x" "os_acknowledged_at s = Some a"
    and t: "os_updated_at s \<le> t" and q: "0 \<le> quantity" "quantity \<le> os_requested s"
    and avg: "0 < quantity \<Longrightarrow> 0 \<le> average \<and> average \<le> 1"
  shows "valid_order_state (reconciled s quantity average t)"
  using order_state_identity [OF s(1)] valid_order_state_quantities(1) [OF s(1)] assms
  by (auto simp: valid_order_state_def order_state_checks_def status_quantity_checks_def reconciled_def)

lemma reconcile_order_authoritative:
  assumes "dsum (map fill_quantity (matching_fills s fills)) \<le> os_requested s"
  shows "reconcile_order s fills t True = mk_order_state (reconciled s
      (dsum (map fill_quantity (matching_fills s fills)))
      (ddiv (dsum (map (\<lambda>f. dmul (fill_quantity f) (fill_price f)) (matching_fills s fills)))
        (dsum (map fill_quantity (matching_fills s fills)))) t)"
  using assms by (simp add: reconcile_order_def reconciled_def Let_def)

lemma matching_fills_reconciled [simp]:
  "matching_fills (reconciled s q a t) fills = matching_fills s fills"
  "os_requested (reconciled s q a t) = os_requested s"
  "reconciled (reconciled s q a t) q a t' = reconciled s q a t'"
  by (simp_all add: matching_fills_def reconciled_def)

lemma unknown_state_valid:
  assumes "valid_order_state s" "os_updated_at s \<le> t"
  shows "valid_order_state (s\<lparr>os_status := UNKNOWN_ORDER_STATE, os_updated_at := t\<rparr>)"
  using assms order_state_identity [OF assms(1)] valid_order_state_quantities [OF assms(1)]
  by (auto simp: valid_order_state_def order_state_checks_def status_quantity_checks_def split: option.splits)

text \<open>
  Reconciliation follows the fills and only the fills. For a valid acknowledged order and valid
  fills, the only failure is a total above the request; without authority the order becomes
  unknown and nothing else changes; with authority the result is a valid order whose filled quantity
  is the total of its own fills, whose status is decided by that quantity, whose average price lies
  in the unit interval, and on which the same fills reconcile to the same state again.
\<close>

theorem reconciliation_follows_fills:
  assumes s: "valid_order_state s" "os_exchange_order_id s = Some x" "os_acknowledged_at s = Some a"
    and t: "os_updated_at s \<le> t"
    and fills: "\<forall>f\<in>set fills. valid_fill f \<and> dec_exact (fill_quantity f)"
    and q: "q = dsum (map fill_quantity (matching_fills s fills))"
  shows "if os_requested s < q then
      reconcile_order s fills t authoritative = Inl (ValueErr ''reconciled fills exceed request'')
    else if \<not> authoritative then
      reconcile_order s fills t authoritative = Inr (s\<lparr>os_status := UNKNOWN_ORDER_STATE, os_updated_at := t\<rparr>)
    else (\<exists>s'. reconcile_order s fills t authoritative = Inr s' \<and> valid_order_state s'
      \<and> os_filled s' = q \<and> os_client_order_id s' = os_client_order_id s \<and> os_requested s' = os_requested s
      \<and> os_status s' = (if q = 0 then ACKNOWLEDGED else if q = os_requested s then FILLED else PARTIALLY_FILLED)
      \<and> (\<forall>p. os_average_price s' = Some p \<longrightarrow> 0 \<le> p \<and> p \<le> 1)
      \<and> reconcile_order s' fills t True = Inr s')"
proof -
  let ?avg = "ddiv (dsum (map (\<lambda>f. dmul (fill_quantity f) (fill_price f)) (matching_fills s fills))) q"
  have own: "\<forall>f\<in>set (matching_fills s fills). valid_fill f \<and> dec_exact (fill_quantity f)"
    using fills by (simp add: matching_fills_def)
  have q0: "0 \<le> q"
    unfolding q using own by (intro dsum_nonneg) (auto simp: valid_fill_def fill_checks_def)
  have avg: "0 \<le> ?avg \<and> ?avg \<le> 1" if "0 < q"
    using average_in_unit [OF own] that unfolding q by blast
  consider "os_requested s < q" | "q \<le> os_requested s" "\<not> authoritative" | "q \<le> os_requested s" authoritative
    by linarith
  then show ?thesis
  proof cases
    case 1
    then show ?thesis by (simp add: reconcile_order_def Let_def flip: q)
  next
    case 2
    then show ?thesis
      using unknown_state_valid [OF s(1) t]
      by (simp add: reconcile_order_def Let_def mk_order_state_def valid_order_state_def flip: q)
  next
    case 3
    have valid: "valid_order_state (reconciled s q ?avg t)"
      using reconciled_valid [OF s t q0 3(1)] avg by blast
    have "reconcile_order s fills t True = Inr (reconciled s q ?avg t)"
      "reconcile_order (reconciled s q ?avg t) fills t True = Inr (reconciled s q ?avg t)"
      using valid 3(1) q reconcile_order_authoritative
      by (simp_all add: mk_order_state_def valid_order_state_def)
    with valid 3 avg q0 show ?thesis
      by (auto simp: reconciled_def)
  qed
qed

text \<open>
  A terminal order is not protected: an authoritative reconciliation without fills puts a cancelled
  order back to acknowledged.
\<close>

definition cancelled_order :: order_state where
  "cancelled_order = \<lparr>os_client_order_id = ''o1'', os_status = CANCELLED, os_requested = 10,
     os_filled = 0, os_created_at = 0, os_updated_at = 5, os_exchange_order_id = Some ''x1'',
     os_acknowledged_at = Some 0, os_average_price = None\<rparr>"

lemma reconciliation_revives_cancelled:
  "valid_order_state cancelled_order"
  "reconcile_order cancelled_order [] 6 True
     = Inr (cancelled_order\<lparr>os_status := ACKNOWLEDGED, os_updated_at := 6\<rparr>)"
  "cancel_order cancelled_order 6 = Inl (ValueErr ''terminal order cannot be cancelled'')"
  by (simp_all add: reconcile_order_def matching_fills_def cancelled_order_def mk_order_state_def
    order_state_checks_def status_quantity_checks_def valid_order_state_def py_space_def Let_def
    cancel_order_def)

section \<open>Settled profit\<close>

lemma dsum_map_grid:
  assumes "\<And>f. f \<in> set fs \<Longrightarrow> grid k (g f) \<and> 0 \<le> g f" "grid_small k (\<Sum>f\<leftarrow>fs. g f)"
  shows "dsum (map g fs) = (\<Sum>f\<leftarrow>fs. g f)" "\<And>f. f \<in> set fs \<Longrightarrow> ctx (g f) = g f"
proof -
  show "dsum (map g fs) = (\<Sum>f\<leftarrow>fs. g f)"
    using assms by (intro dsum_grid) auto
  fix f assume f: "f \<in> set fs"
  have "g f \<le> (\<Sum>f\<leftarrow>fs. g f)"
    using assms(1) f by (intro member_le_sum_list) auto
  then have "grid_small k (g f)"
    using assms f by (elim grid_small_le) (auto intro: order_trans)
  then show "ctx (g f) = g f" using assms(1) [OF f] grid_ctx by blast
qed

text \<open>Fills quoted with \<open>j\<close> decimals in quantity and \<open>k\<close> in price, and fees on the product grid.\<close>

definition quoted_fills :: "nat \<Rightarrow> nat \<Rightarrow> fill list \<Rightarrow> bool" where
  "quoted_fills j k fills \<longleftrightarrow> (\<forall>f\<in>set fills. valid_fill f \<and> grid j (fill_quantity f)
     \<and> grid k (fill_price f) \<and> grid (j + k) (fill_fee f))
   \<and> grid_small (j + k) (\<Sum>f\<leftarrow>fills. fill_quantity f)
   \<and> grid_small (j + k) (\<Sum>f\<leftarrow>fills. fill_quantity f * fill_price f + fill_fee f)"

definition fills_cost :: "fill list \<Rightarrow> dec" where
  "fills_cost fills = (\<Sum>f\<leftarrow>fills. fill_quantity f * fill_price f + fill_fee f)"

definition fills_quantity :: "fill list \<Rightarrow> dec" where
  "fills_quantity fills = (\<Sum>f\<leftarrow>fills. fill_quantity f)"

lemma grid_coarser: "grid j x \<Longrightarrow> grid (j + k) x"
  using grid_mult [of j x k 1] gridI [of 1 "10 ^ k" k] by simp

lemma quoted_fill_facts:
  assumes "quoted_fills j k fills" "f \<in> set fills"
  shows "0 < fill_quantity f" "0 \<le> fill_price f" "0 \<le> fill_fee f" "grid j (fill_quantity f)"
    "grid k (fill_price f)" "grid (j + k) (fill_fee f)" "grid (j + k) (fill_quantity f * fill_price f)"
  using assms grid_mult [of j "fill_quantity f" k "fill_price f"]
  by (auto simp: quoted_fills_def valid_fill_def fill_checks_def)

lemma cost_exact:
  assumes "quoted_fills j k fills"
  shows "dsum (map (\<lambda>f. dadd (dmul (fill_quantity f) (fill_price f)) (fill_fee f)) fills) = fills_cost fills"
    "grid (j + k) (fills_cost fills)" "grid_small (j + k) (fills_cost fills)" "0 \<le> fills_cost fills"
proof -
  let ?c = "\<lambda>f. fill_quantity f * fill_price f + fill_fee f"
  have c: "grid (j + k) (?c f) \<and> 0 \<le> ?c f" if "f \<in> set fills" for f
    using quoted_fill_facts [OF assms that] by (auto intro: grid_add)
  have small: "grid_small (j + k) (\<Sum>f\<leftarrow>fills. ?c f)" using assms by (simp add: quoted_fills_def)
  have "dadd (dmul (fill_quantity f) (fill_price f)) (fill_fee f) = ?c f" if f: "f \<in> set fills" for f
  proof -
    note facts = quoted_fill_facts [OF assms f]
    have "?c f \<le> (\<Sum>f\<leftarrow>fills. ?c f)" using c f by (intro member_le_sum_list) auto
    moreover have "0 \<le> fill_quantity f * fill_price f" using facts by simp
    ultimately have "grid_small (j + k) (fill_quantity f * fill_price f)"
      using facts small by (elim grid_small_le) linarith
    then have "dmul (fill_quantity f) (fill_price f) = fill_quantity f * fill_price f"
      unfolding dmul_def using facts grid_ctx by blast
    then show ?thesis
      using dsum_map_grid(2) [of fills "j + k" ?c, OF c small f] by (simp add: dadd_def)
  qed
  then have m: "map (\<lambda>f. dadd (dmul (fill_quantity f) (fill_price f)) (fill_fee f)) fills = map ?c fills"
    by simp
  show "dsum (map (\<lambda>f. dadd (dmul (fill_quantity f) (fill_price f)) (fill_fee f)) fills) = fills_cost fills"
    using dsum_map_grid(1) [of fills "j + k" ?c, OF c small] unfolding fills_cost_def m by simp
  show "grid (j + k) (fills_cost fills)" "grid_small (j + k) (fills_cost fills)" "0 \<le> fills_cost fills"
    using c small unfolding fills_cost_def by (auto intro!: grid_sum_list sum_list_nonneg)
qed

lemma gross_exact:
  assumes q: "quoted_fills j k fills" and v: "grid k v" "0 \<le> v" "v \<le> 1"
  shows "dsum (map (\<lambda>f. dmul (fill_quantity f) v) fills) = fills_quantity fills * v"
    "grid (j + k) (fills_quantity fills * v)" "grid_small (j + k) (fills_quantity fills * v)"
proof -
  have g: "grid (j + k) (fill_quantity f * v) \<and> 0 \<le> fill_quantity f * v" if "f \<in> set fills" for f
    using quoted_fill_facts [OF q that] v grid_mult by simp
  have sum: "(\<Sum>f\<leftarrow>fills. fill_quantity f * v) = fills_quantity fills * v"
    unfolding fills_quantity_def by (rule sum_list_mult_const)
  have "0 \<le> fills_quantity fills"
    unfolding fills_quantity_def using quoted_fill_facts(1) [OF q] by (intro sum_list_nonneg) (auto simp: less_imp_le)
  then have "\<bar>fills_quantity fills * v\<bar> \<le> \<bar>fills_quantity fills\<bar>"
    using v by (simp add: mult_left_le)
  moreover have "grid_small (j + k) (fills_quantity fills)"
    using q by (simp add: quoted_fills_def fills_quantity_def)
  ultimately show small: "grid_small (j + k) (fills_quantity fills * v)"
    using grid_small_le by blast
  have "dmul (fill_quantity f) v = fill_quantity f * v" if "f \<in> set fills" for f
    unfolding dmul_def using dsum_map_grid(2) [of fills "j + k" "\<lambda>f. fill_quantity f * v"] g small that
    by (simp add: sum)
  then have m: "map (\<lambda>f. dmul (fill_quantity f) v) fills = map (\<lambda>f. fill_quantity f * v) fills" by simp
  show "dsum (map (\<lambda>f. dmul (fill_quantity f) v) fills) = fills_quantity fills * v"
    using dsum_map_grid(1) [of fills "j + k" "\<lambda>f. fill_quantity f * v"] g small unfolding m by (simp add: sum)
  show "grid (j + k) (fills_quantity fills * v)"
    using g unfolding sum [symmetric] by (intro grid_sum_list) auto
qed

lemma dsub_nonneg_grid:
  assumes "grid k x" "grid k y" "grid_small k x" "grid_small k y" "0 \<le> x" "0 \<le> y"
  shows "dsub x y = x - y"
proof -
  have "\<bar>x - y\<bar> \<le> \<bar>x\<bar> \<or> \<bar>x - y\<bar> \<le> \<bar>y\<bar>" using assms by linarith
  then show ?thesis using assms dsub_grid grid_small_le by blast
qed

lemma dsum_zeros: "dsum (map (\<lambda>_. 0) xs) = 0"
  by (induction xs) (simp_all add: dsum_def dadd_def)

lemma settled_pnl_eq:
  assumes q: "quoted_fills j k fills" and v: "grid k (stl_payout_per_share s)"
    "0 \<le> stl_payout_per_share s" "stl_payout_per_share s \<le> 1"
  shows "settled_pnl fills s side = (if side = stl_winning_outcome s
      then fills_quantity fills * stl_payout_per_share s else 0) - fills_cost fills"
proof -
  have "0 \<le> fills_quantity fills"
    unfolding fills_quantity_def using quoted_fill_facts(1) [OF q] by (intro sum_list_nonneg) (auto simp: less_imp_le)
  then show ?thesis
    using cost_exact [OF q] gross_exact [OF q v] v(2) dsub_nonneg_grid
    by (simp add: settled_pnl_def Let_def dsum_zeros grid_small_def)
qed

text \<open>
  The profit of a complete set does not depend on the winner. When a quantity of UP shares and the
  same quantity of DOWN shares have been bought, at quoted amounts, and the winning share pays one
  dollar, the two settled profits computed by the code add up, exactly, to the number of sets minus
  everything paid for both legs, whichever side wins; each leg alone loses at most its cost.
\<close>

theorem complete_set_profit_is_riskless:
  assumes "quoted_fills j k ups" "quoted_fills j k downs"
    and "fills_quantity ups = fills_quantity downs" "stl_payout_per_share s = 1"
  shows "settled_pnl ups s UP + settled_pnl downs s DOWN
      = fills_quantity ups - (fills_cost ups + fills_cost downs)
    \<and> - fills_cost ups \<le> settled_pnl ups s UP \<and> - fills_cost downs \<le> settled_pnl downs s DOWN"
proof -
  have one: "grid k 1" using gridI [of 1 "10 ^ k" k] by simp
  have nn: "0 \<le> fills_quantity fs" if "quoted_fills j k fs" for fs
    unfolding fills_quantity_def using quoted_fill_facts(1) [OF that]
    by (intro sum_list_nonneg) (auto simp: less_imp_le)
  show ?thesis
    using settled_pnl_eq [OF assms(1), of s UP] settled_pnl_eq [OF assms(2), of s DOWN] assms(3,4) one
      nn [OF assms(1)] nn [OF assms(2)]
    by (cases "stl_winning_outcome s") auto
qed

section \<open>Sample inputs\<close>

definition sample_intent :: order_intent where
  "sample_intent = \<lparr>oi_client_order_id = ''o1'', oi_candidate_id = ''cand-1'',
     oi_strategy = DIRECTIONAL_EDGE, oi_market_id = ''m1'', oi_token_id = ''up'', oi_side = BUY,
     oi_quantity = 10, oi_limit_price = 1 / 2, oi_time_in_force = FAK, oi_created_at = 10,
     oi_expires_at = 100\<rparr>"

definition sample_plan :: execution_plan where
  "sample_plan = \<lparr>plan_id = ''plan:1'', plan_decision_id = ''d1'', plan_risk_decision_id = ''r1'',
     plan_mode = PAPER, plan_intents = [sample_intent], plan_idempotency_key = ''key-1'',
     plan_created_at = 10, plan_expires_at = 100\<rparr>"

definition sample_evidence :: fill_evidence where
  "sample_evidence = \<lparr>fe_client_order_id = ''o1'', fe_filled = 4, fe_average_price = Some (1 / 2),
     fe_fee = 0, fe_source_ts = 20, fe_recv_ts = 21\<rparr>"

definition sample_run :: "paper_repo \<times> paper_result result" where
  "sample_run = paper_execute empty_repo sample_plan [sample_evidence] 20 False True"

lemma sample_plan_valid: "valid_plan sample_plan" "plan_mode sample_plan = PAPER"
  by (simp_all add: sample_plan_def sample_intent_def valid_plan_def execution_plan_checks_def
    valid_intent_def order_intent_checks_def py_space_def)

lemma sample_evidence_valid: "valid_evidence sample_evidence"
  by (simp add: sample_evidence_def valid_evidence_def fill_evidence_checks_def py_space_def)

lemma execution_books_evidence_or_nothing_witness:
  "(\<exists>r x order f. sample_run = (r, Inr x) \<and> px_orders x = [order] \<and> os_status order = PARTIALLY_FILLED
      \<and> px_fills x = [f] \<and> fill_quantity f = 4)
   \<and> (\<exists>e. paper_execute empty_repo sample_plan [sample_evidence] 20 True True = (empty_repo, Inl e))"
proof -
  have allowed: "execution_allowed sample_plan [sample_evidence] 20 False True"
    "\<not> execution_allowed sample_plan [sample_evidence] 20 True True"
    by (simp_all add: execution_allowed_def leg_acceptable_def sample_plan_def sample_intent_def sample_evidence_def)
  have fresh: "map_of (repo_executions empty_repo) (plan_idempotency_key sample_plan) = None"
    by (simp add: empty_repo_def)
  have ev: "\<forall>e\<in>set [sample_evidence]. valid_evidence e" using sample_evidence_valid by simp
  have "booked [sample_evidence] 20 sample_intent = (paper_order 20 sample_intent sample_evidence,
      fills_of sample_intent sample_evidence)"
    by (simp add: booked_def evidence_of_def Let_def) (simp add: sample_evidence_def sample_intent_def)
  then show ?thesis
    using execution_books_evidence_or_nothing [OF sample_plan_valid fresh ev, of 20 False True]
      execution_books_evidence_or_nothing [OF sample_plan_valid fresh ev, of 20 True True] allowed
    by (auto simp: sample_run_def sample_plan_def paper_order_def fills_of_def paper_order_status_def)
      (auto simp: sample_evidence_def sample_intent_def)
qed

lemma sample_run_returns: "\<exists>r x. sample_run = (r, Inr x)"
proof -
  have "execution_allowed sample_plan [sample_evidence] 20 False True"
    by (simp add: execution_allowed_def leg_acceptable_def sample_plan_def sample_intent_def sample_evidence_def)
  moreover have "map_of (repo_executions empty_repo) (plan_idempotency_key sample_plan) = None"
    by (simp add: empty_repo_def)
  moreover have "\<forall>e\<in>set [sample_evidence]. valid_evidence e" using sample_evidence_valid by simp
  ultimately show ?thesis
    using execution_outcome [OF sample_plan_valid, of empty_repo "[sample_evidence]" 20 False True]
    by (auto simp: sample_run_def)
qed

lemma execution_is_idempotent_witness:
  "\<exists>r x. sample_run = (r, Inr x)
     \<and> paper_execute r (sample_plan\<lparr>plan_intents := []\<rparr>) [] 900 True False = (r, Inr (x\<lparr>px_duplicate := True\<rparr>))"
proof -
  obtain r x where run: "sample_run = (r, Inr x)" using sample_run_returns by blast
  have "plan_mode (sample_plan\<lparr>plan_intents := []\<rparr>) = PAPER"
    "plan_idempotency_key (sample_plan\<lparr>plan_intents := []\<rparr>) = plan_idempotency_key sample_plan"
    by (simp_all add: sample_plan_def)
  then show ?thesis
    using execution_is_idempotent [OF run [unfolded sample_run_def] rtranclp.rtrancl_refl,
        of "sample_plan\<lparr>plan_intents := []\<rparr>" "[]" 900 True False] run by blast
qed

definition sample_fill :: "string \<Rightarrow> dec \<Rightarrow> dec \<Rightarrow> fill" where
  "sample_fill cid q p = \<lparr>fill_id = ''f1'', fill_exchange_order_id = ''x1'', fill_client_order_id = cid,
     fill_token_id = ''up'', fill_side = BUY, fill_quantity = q, fill_price = p, fill_fee = 0,
     fill_source_ts = 1, fill_recv_ts = 2\<rparr>"

lemma sample_fill_valid: "cid \<in> {''o1'', ''o2''} \<Longrightarrow> 0 < q \<Longrightarrow> 0 \<le> p \<Longrightarrow> p \<le> 1 \<Longrightarrow> valid_fill (sample_fill cid q p)"
  by (auto simp: sample_fill_def valid_fill_def fill_checks_def py_space_def)

definition working_order :: order_state where
  "working_order = cancelled_order\<lparr>os_status := UNKNOWN_ORDER_STATE\<rparr>"

lemma reconciliation_follows_fills_witness:
  "\<exists>s'. reconcile_order working_order [sample_fill ''o1'' 4 (1 / 2), sample_fill ''o2'' 9 1] 6 True = Inr s'
    \<and> os_status s' = PARTIALLY_FILLED \<and> os_filled s' = 4"
proof -
  have order: "valid_order_state working_order" "os_exchange_order_id working_order = Some ''x1''"
    "os_acknowledged_at working_order = Some 0" "os_updated_at working_order \<le> 6"
    by (simp_all add: working_order_def cancelled_order_def order_state_checks_def
      status_quantity_checks_def valid_order_state_def py_space_def)
  have "dec_exact 4" "dec_exact 9" using dec_exact_of_nat [of 4] dec_exact_of_nat [of 9] by simp_all
  then have fills: "\<forall>f\<in>set [sample_fill ''o1'' 4 (1 / 2), sample_fill ''o2'' 9 1].
      valid_fill f \<and> dec_exact (fill_quantity f)"
    using sample_fill_valid [of "''o1''" 4 "1 / 2"] sample_fill_valid [of "''o2''" 9 1]
    by (simp add: sample_fill_def)
  have "4 = dsum (map fill_quantity (matching_fills working_order
      [sample_fill ''o1'' 4 (1 / 2), sample_fill ''o2'' 9 1]))"
    by (simp add: matching_fills_def working_order_def cancelled_order_def sample_fill_def dsum_single ctx_eval)
  from reconciliation_follows_fills [OF order fills this, of True] show ?thesis
    by (auto simp: working_order_def cancelled_order_def)
qed

lemma complete_set_profit_is_riskless_witness:
  "settled_pnl [sample_fill ''o1'' 10 (4 / 10)] \<lparr>stl_id = ''s'', stl_market_id = ''m1'',
      stl_winning_outcome = DOWN, stl_payout_per_share = 1, stl_source = ''x'', stl_source_ts = 0,
      stl_recorded_at = 0\<rparr> UP
   + settled_pnl [sample_fill ''o2'' 10 (5 / 10)] \<lparr>stl_id = ''s'', stl_market_id = ''m1'',
      stl_winning_outcome = DOWN, stl_payout_per_share = 1, stl_source = ''x'', stl_source_ts = 0,
      stl_recorded_at = 0\<rparr> DOWN = 1"
proof -
  have "quoted_fills 1 1 [sample_fill ''o1'' 10 (4 / 10)]" "quoted_fills 1 1 [sample_fill ''o2'' 10 (5 / 10)]"
    using sample_fill_valid [of "''o1''" 10 "4 / 10"] sample_fill_valid [of "''o2''" 10 "5 / 10"]
    by (simp_all add: quoted_fills_def sample_fill_def grid_def grid_small_def)
  moreover have "fills_quantity [sample_fill ''o1'' 10 (4 / 10)] = fills_quantity [sample_fill ''o2'' 10 (5 / 10)]"
    by (simp add: fills_quantity_def sample_fill_def)
  ultimately show ?thesis
    using complete_set_profit_is_riskless [of 1 1 "[sample_fill ''o1'' 10 (4 / 10)]" "[sample_fill ''o2'' 10 (5 / 10)]"]
    by (simp add: fills_quantity_def fills_cost_def sample_fill_def)
qed

end
