(* ===== verification/Paper_Trading.thy ===== *)
theory Paper_Trading
  imports Adapters Paper_Runtime Directional Router Plans Paper_Gateway Paper_Ledger
begin

text \<open>
  The trading composition of \<open>shadow/daemon.py\<close>: from the assessment of the directional strategy or
  the opportunity of the structural scanner, through the entry brake, the capital gate, the router and
  the risk engine, to an executed paper plan and its trade row, or to one abstention row. Every function
  takes the repository and returns it with its result. The reading of the clock just before an entry is
  an argument, and \<open>render\<close> renders the values of a payload that are not texts. The lemmas show what
  holds whenever a trade row appears, and the limits on open directional positions in every reachable book.
\<close>

section \<open>Market states, payload values, abstentions\<close>

text \<open>The fields of \<open>ShadowMarketState\<close> that the trading paths read.\<close>

record market_state =
  sms_bucket :: market_bucket
  sms_discovery :: "market_discovery option"
  sms_up_book :: "polymarket_book option"
  sms_down_book :: "polymarket_book option"
  sms_fee_schedule :: "fee_schedule option"
  sms_up_fee :: "fee_schedule option"
  sms_down_fee :: "fee_schedule option"
  sms_observed_at :: utc
  sms_price_to_beat :: "ptb_record option"
  sms_features :: "feature_vector option"

datatype payload_value = P_None | P_Text string | P_Bool bool | P_Int int | P_Dec dec | P_Time utc
  | P_List "string list"

type_synonym info = "(string \<times> payload_value) list"

fun payload_text :: "(payload_value \<Rightarrow> string) \<Rightarrow> payload_value \<Rightarrow> string" where
  "payload_text render (P_Text s) = s"
| "payload_text render v = render v"

definition payload_of :: "(payload_value \<Rightarrow> string) \<Rightarrow> info \<Rightarrow> payload" where
  "payload_of render kvs = map (\<lambda>(k, v). (k, payload_text render v)) kvs"

definition opt_value :: "('a \<Rightarrow> payload_value) \<Rightarrow> 'a option \<Rightarrow> payload_value" where
  "opt_value f v = (case v of None \<Rightarrow> P_None | Some x \<Rightarrow> f x)"

fun strategy_value :: "strategy_kind \<Rightarrow> string" where
  "strategy_value DIRECTIONAL_EDGE = ''DIRECTIONAL_EDGE''"
| "strategy_value STRUCTURAL_ARBITRAGE = ''STRUCTURAL_ARBITRAGE''"
| "strategy_value DUAL40 = ''DUAL40''"

fun outcome_value :: "outcome_side \<Rightarrow> string" where
  "outcome_value UP = ''UP''"
| "outcome_value DOWN = ''DOWN''"

definition or_else :: "'a option \<Rightarrow> 'a option \<Rightarrow> 'a option" where
  "or_else x y = (case x of None \<Rightarrow> y | Some _ \<Rightarrow> x)"

text \<open>A computation that may raise, in front of one that also writes: the writes so far stay.\<close>

definition after :: "'s \<Rightarrow> 'a result \<Rightarrow> ('a \<Rightarrow> 's \<times> 'b result) \<Rightarrow> 's \<times> 'b result" where
  "after s x f = (case x of Inl e \<Rightarrow> (s, Inl e) | Inr v \<Rightarrow> f v)"

definition state_condition :: "market_state \<Rightarrow> string" where
  "state_condition st = (case sms_discovery st of
     None \<Rightarrow> ''UNAVAILABLE'' | Some d \<Rightarrow> mkt_condition_id (md_market d))"

definition record_abstain :: "(payload_value \<Rightarrow> string) \<Rightarrow> paper_repo \<Rightarrow> market_state \<Rightarrow> string \<Rightarrow> strategy_kind \<Rightarrow>
    string \<Rightarrow> info \<Rightarrow> paper_repo \<times> nat result" where
  "record_abstain render r st cycle strategy reason kvs =
     (let a = asset_value (bkt_asset (sms_bucket st)); h = horizon_value (bkt_horizon (sms_bucket st));
          (r', x) = save_abstain r \<lparr>pab_id = cycle @ '':'' @ strategy_value strategy @ '':'' @ a @ '':'' @ h
              @ '':'' @ state_condition st @ '':'' @ reason,
            pab_strategy = strategy_value strategy, pab_asset = a, pab_horizon = h,
            pab_condition_id = state_condition st, pab_reason = reason, pab_payload = payload_of render kvs,
            pab_observed_at = sms_observed_at st\<rparr>
      in (r', bindr x (\<lambda>_. Inr 1)))"

fun join_texts :: "string \<Rightarrow> string list \<Rightarrow> string" where
  "join_texts sep [] = []"
| "join_texts sep [x] = x"
| "join_texts sep (x # y # ys) = x @ sep @ join_texts sep (y # ys)"

definition market_lifecycle_reason :: "market \<Rightarrow> utc \<Rightarrow> string option" where
  "market_lifecycle_reason m t =
     (if t < mkt_window_start m then Some ''MARKET_WINDOW_NOT_STARTED''
      else if mkt_window_end m \<le> t then Some ''MARKET_WINDOW_EXPIRED''
      else None)"

section \<open>What the repository says about the account\<close>

text \<open>
  The fields of \<open>summary\<close> that the trading paths read beyond those of \<open>account_summary\<close>; they are
  computed from the same list of trades.
\<close>

record trading_summary = account_summary +
  sum_directional_pnl :: dec
  sum_directional_raw_available :: dec
  sum_directional_equity :: dec
  sum_directional_open_trades :: nat
  sum_structural_open_trades :: nat
  sum_open_conditions :: nat
  sum_missing_window_ends :: nat
  sum_last_settlement_at :: "utc option"

definition strategy_raw_available :: "dec \<Rightarrow> string \<Rightarrow> paper_trade list \<Rightarrow> dec" where
  "strategy_raw_available equity strategy ts = raw_available_capital equity
     (pnl_sum (of_strategy strategy (with_status ''SETTLED'' ts)))
     (basis_sum (of_strategy strategy (with_status ''OPEN'' ts)))
     (basis_sum (of_strategy strategy (with_status ''ACKNOWLEDGED'' ts)))"

definition trading_summary_of :: "paper_repo \<Rightarrow> utc \<Rightarrow> trading_summary result" where
  "trading_summary_of r now =
     bindr (paper_summary r None now) (\<lambda>acc.
     bindr (trades r (all_trades\<lparr>tq_limit := reader_limit\<rparr>)) (\<lambda>ts.
     let opened = with_status ''OPEN'' ts; initial = sum_initial_equity acc;
         pnl = pnl_sum (of_strategy ''DIRECTIONAL_EDGE'' (with_status ''SETTLED'' ts));
         queue = settlement_queue_summary r (map ptr_condition_id opened) now in
     Inr (account_summary.extend acc (trading_summary.fields
       pnl
       (strategy_raw_available initial ''DIRECTIONAL_EDGE'' ts)
       (dadd initial pnl)
       (length (of_strategy ''DIRECTIONAL_EDGE'' opened))
       (length (of_strategy ''STRUCTURAL_ARBITRAGE'' opened))
       (length (remdups (map ptr_condition_id opened)))
       (length (filter (\<lambda>t. tp_window_end (ptr_payload t) = None) opened))
       (sq_last_success_at queue)))))"

definition directional_query :: trade_query where
  "directional_query = all_trades\<lparr>tq_strategy := Some ''DIRECTIONAL_EDGE'', tq_limit := reader_limit\<rparr>"

definition open_directional_query :: trade_query where
  "open_directional_query = directional_query\<lparr>tq_status := Some ''OPEN''\<rparr>"

definition active_directional_conditions :: "paper_repo \<Rightarrow> string list result" where
  "active_directional_conditions r =
     bindr (trades r open_directional_query) (\<lambda>ts. Inr (map ptr_condition_id ts))"

text \<open>Minutes and hours in microseconds; the default window end of a trade without one.\<close>

definition assumed_window_end :: "paper_trade \<Rightarrow> utc \<Rightarrow> utc" where
  "assumed_window_end t now = (case tp_window_end (ptr_payload t) of None \<Rightarrow> now + seconds 300 | Some e \<Rightarrow> e)"

definition other_text :: "paper_trade \<Rightarrow> string \<Rightarrow> string \<Rightarrow> string" where
  "other_text t key missing = (case map_of (tp_other (ptr_payload t)) key of None \<Rightarrow> missing | Some v \<Rightarrow> v)"

definition claim_of_trade :: "utc \<Rightarrow> paper_trade \<Rightarrow> router_claim list result" where
  "claim_of_trade now t = (let ends = assumed_window_end t now; stake = capital_basis t in
     if ends \<le> now \<or> py_upper (other_text t ''fill_status'' '''') = ''FILLED'' \<or> stake \<le> 0 then Inr []
     else bindr (mk_claim \<lparr>clm_id = ''paper-open:'' @ ptr_id t, clm_idempotency_key = ''paper-open:'' @ ptr_id t,
         clm_candidate_id = ptr_decision_id t, clm_condition_id = ptr_condition_id t,
         clm_token_ids = [other_text t ''token_id'' (ptr_id t)], clm_strategy = DIRECTIONAL_EDGE,
         clm_reserved = stake, clm_created_at = ptr_observed_at t, clm_expires_at = ends,
         clm_status = ACTIVE, clm_reconciled_at = None\<rparr>) (\<lambda>c. Inr [c]))"

definition router_snapshot_from_paper :: "paper_repo \<Rightarrow> utc \<Rightarrow> router_snapshot result" where
  "router_snapshot_from_paper r now =
     bindr (trades r open_directional_query) (\<lambda>ts.
     bindr (mapr (claim_of_trade now) ts) (\<lambda>cs.
       mk_snapshot \<lparr>snap_revision = 0, snap_claims = concat cs, snap_unresolved = []\<rparr>))"

text \<open>\<open>Asset(value)\<close>, \<open>Horizon(value)\<close>: the member with this value, or \<open>ValueError\<close>.\<close>

definition asset_named :: "string \<Rightarrow> asset result" where
  "asset_named = member_by_value asset_value Enum.enum"

definition horizon_named :: "string \<Rightarrow> horizon result" where
  "horizon_named = member_by_value horizon_value Enum.enum"

definition exposure_of_trade :: "utc \<Rightarrow> paper_trade \<Rightarrow> open_exposure list result" where
  "exposure_of_trade now t = (let ends = assumed_window_end t now; stake = capital_basis t in
     if stake \<le> 0 then Inr []
     else bindr (asset_named (ptr_asset t)) (\<lambda>a.
       bindr (horizon_named (ptr_horizon t)) (\<lambda>h.
       let e = \<lparr>oe_position_id = ptr_id t, oe_market_id = ptr_condition_id t, oe_asset = a, oe_horizon = h,
           oe_capital = stake, oe_window_end = (if ends \<le> now then now + seconds 1 else ends)\<rparr> in
       checked (open_exposure_checks e) (Inr [e]))))"

definition consecutive_loss_limit :: int where "consecutive_loss_limit = 10"
definition loss_cooldown :: timedelta where "loss_cooldown = seconds 3600"

definition paper_cooldown_until :: "trading_summary \<Rightarrow> int \<Rightarrow> utc option" where
  "paper_cooldown_until acc losses =
     (if losses < consecutive_loss_limit then None
      else map_option (\<lambda>t. t + loss_cooldown) (sum_last_settlement_at acc))"

text \<open>The two keys of the summary to read are the arguments \<open>bankroll\<close> and \<open>pnl\<close>.\<close>

definition portfolio_state_from_paper :: "paper_repo \<Rightarrow> utc \<Rightarrow> (trading_summary \<Rightarrow> dec) \<Rightarrow>
    (trading_summary \<Rightarrow> dec) \<Rightarrow> portfolio_state result" where
  "portfolio_state_from_paper r now bankroll pnl =
     bindr (trading_summary_of r now) (\<lambda>acc.
     bindr (trades r open_directional_query) (\<lambda>ts.
     bindr (mapr (exposure_of_trade now) ts) (\<lambda>es.
     let losses = int (sum_losing_streak acc);
         s = \<lparr>ps_bankroll = Some (bankroll acc), ps_exposures = Some (concat es), ps_realized_pnl = Some (pnl acc),
           ps_drawdown = Some (sum_maximum_drawdown acc), ps_consecutive_losses = Some losses,
           ps_cooldown_until = paper_cooldown_until acc losses, ps_kill_switch = False,
           ps_ledger_reconciled = True, ps_assessed_at = now\<rparr> in
     checked (portfolio_state_checks s) (Inr s))))"

section \<open>Pricing and risk of the desk\<close>

definition desk_pricing_policy :: pricing_policy where
  "desk_pricing_policy = \<lparr>pp_max_book_age = seconds 30, pp_max_fee_age = seconds 30,
     pp_slippage_buffer_bps = 10, pp_fee_buffer_bps = 500\<rparr>"

definition desk_error_text :: "py_error \<Rightarrow> string" where
  "desk_error_text e = (let text = py_strip (map (\<lambda>c. if c = CHR 0x0D \<or> c = CHR 0x0A then CHR '' '' else c)
       (error_text e)) in if text = [] then error_class e else text)"

definition directional_pricing :: "market_state \<Rightarrow>
    depth_simulation option \<times> depth_simulation option \<times> string" where
  "directional_pricing st =
     (case (sms_discovery st, sms_up_book st, sms_down_book st) of
        (Some d, Some up_book, Some down_book) \<Rightarrow>
          (case (or_else (sms_up_fee st) (sms_fee_schedule st), or_else (sms_down_fee st) (sms_fee_schedule st)) of
             (Some up_fee, Some down_fee) \<Rightarrow>
               (let quantity = max (max (pmb_minimum_order_size up_book) (pmb_minimum_order_size down_book)) 1;
                    simulate = (\<lambda>b f. simulate_depth b f BUY quantity 1 TAKER (sms_observed_at st) desk_pricing_policy) in
                case bindr (simulate up_book up_fee) (\<lambda>up. bindr (simulate down_book down_fee) (\<lambda>down. Inr (up, down))) of
                  Inr (up, down) \<Rightarrow> (Some up, Some down, ''EXECUTABLE_PRICE_READY'')
                | Inl e \<Rightarrow> (None, None, ''EXECUTABLE_PRICE_UNAVAILABLE:'' @ desk_error_text e))
           | _ \<Rightarrow> (None, None, ''FEE_SCHEDULE_UNAVAILABLE''))
      | _ \<Rightarrow> (None, None, ''EXECUTABLE_PRICE_UNAVAILABLE''))"

definition desk_risk_policy :: risk_policy where
  "desk_risk_policy = \<lparr>rp_maximum_positions = 20, rp_maximum_total = PAPER_INITIAL_EQUITY_USDC,
     rp_maximum_per_asset = PAPER_INITIAL_EQUITY_USDC, rp_maximum_per_horizon = PAPER_INITIAL_EQUITY_USDC,
     rp_maximum_cluster = PAPER_INITIAL_EQUITY_USDC, rp_maximum_overlap = 20, rp_maximum_stake = 5,
     rp_maximum_daily_loss = PAPER_INITIAL_EQUITY_USDC, rp_maximum_drawdown = PAPER_INITIAL_EQUITY_USDC,
     rp_loss_limit = consecutive_loss_limit, rp_maximum_state_age = seconds 60, rp_maximum_book_age = seconds 60,
     rp_maximum_spread = 1, rp_maximum_impact = 1, rp_minimum_persistence = 0, rp_minimum_observations = 1\<rparr>"

text \<open>The evidence is read from the book of the UP token, whichever side is traded.\<close>

definition desk_liquidity :: "market_state \<Rightarrow> liquidity_evidence option result" where
  "desk_liquidity st =
     (case (sms_up_book st, sms_down_book st) of
        (Some book, Some _) \<Rightarrow>
          (if or_else (sms_fee_schedule st) (sms_up_fee st) \<noteq> None \<and> pmb_asks book \<noteq> [] \<and> pmb_bids book \<noteq> [] then
             (let ask = hd (pmb_asks book); bid = hd (pmb_bids book); lin = pmb_lineage book;
                  l = \<lparr>le_observed_at = sms_observed_at st,
                    le_source_age = sms_observed_at st - (case lin_source_ts lin of Some t \<Rightarrow> t | None \<Rightarrow> lin_recv_ts lin),
                    le_spread = dsub (pml_price ask) (pml_price bid),
                    le_executable_depth = max (pml_quantity ask) (pml_quantity bid), le_required_depth = 1,
                    le_price_impact = 0, le_persistence_ratio = 1, le_persistence_observations = 1,
                    le_sequence_valid = True, le_transport_healthy = True, le_fee_schedule_available = True\<rparr> in
              checked (liquidity_evidence_checks l) (Inr (Some l)))
           else Inr None)
      | _ \<Rightarrow> Inr None)"

definition desk_risk_decision :: "strategy_candidate \<Rightarrow> market \<Rightarrow> market_state \<Rightarrow> portfolio_state \<Rightarrow> string \<Rightarrow>
    risk_decision result" where
  "desk_risk_decision c m st portfolio approved_id =
     bindr (desk_liquidity st) (\<lambda>liquidity.
       assess_candidate c (mkt_asset m) (mkt_horizon m) liquidity portfolio desk_risk_policy
         (sms_observed_at st) approved_id)"

text \<open>\<open>int(duration.total_seconds())\<close> truncates a positive duration to whole seconds.\<close>

definition portfolio_risk_diagnostics :: "portfolio_state \<Rightarrow> string list \<Rightarrow> utc \<Rightarrow> info" where
  "portfolio_risk_diagnostics s reasons t =
     [(''current_losing_streak'', opt_value P_Int (ps_consecutive_losses s)),
      (''cooldown_active'', P_Bool (''CONSECUTIVE_LOSS_COOLDOWN_ACTIVE'' \<in> set reasons)),
      (''cooldown_until'', opt_value P_Time (ps_cooldown_until s)),
      (''cooldown_remaining_seconds'', P_Int (case ps_cooldown_until s of
          Some u \<Rightarrow> if t < u then max 0 ((u - t) div 1000000) else 0 | None \<Rightarrow> 0)),
      (''last_successful_settlement_at'', opt_value P_Time (map_option (\<lambda>u. u - loss_cooldown) (ps_cooldown_until s))),
      (''risk_reasons'', P_List reasons)]"

section \<open>The capital gate and the entry brake\<close>

record capital_gate =
  cg_status :: string
  cg_raw :: "dec option"
  cg_spendable :: dec

text \<open>An amount that is missing, unreadable or not finite is \<open>None\<close>.\<close>

definition paper_capital_gate :: "dec option \<Rightarrow> dec \<Rightarrow> capital_gate" where
  "paper_capital_gate raw required =
     (case raw of
        None \<Rightarrow> \<lparr>cg_status = ''PAPER_CAPITAL_STATE_INVALID'', cg_raw = None, cg_spendable = 0\<rparr>
      | Some x \<Rightarrow>
          if x < 0 then \<lparr>cg_status = ''PAPER_CAPITAL_DEFICIT'', cg_raw = Some x, cg_spendable = 0\<rparr>
          else if x \<le> 0 \<or> x < required then
            \<lparr>cg_status = ''INSUFFICIENT_PAPER_CAPITAL'', cg_raw = Some x, cg_spendable = max 0 x\<rparr>
          else \<lparr>cg_status = ''PAPER_CAPITAL_OK'', cg_raw = Some x, cg_spendable = x\<rparr>)"

record entry_brake =
  brk_reasons :: "string list"
  brk_observations :: "string list"
  brk_initial_equity :: "dec option"
  brk_current_equity :: "dec option"
  brk_open_cost :: "dec option"
  brk_global_open_cost :: "dec option"
  brk_structural_open_cost :: "dec option"
  brk_available :: "dec option"
  brk_open_trades :: nat
  brk_global_open_trades :: "int option"
  brk_structural_open_trades :: "int option"
  brk_same_asset_open :: nat
  brk_recent_settled :: nat
  brk_recent_win_rate :: "dec option"
  brk_recent_pnl :: dec
  brk_baseline_cap :: dec
  brk_reduced_cap :: dec

definition brake_active :: "entry_brake \<Rightarrow> bool" where
  "brake_active b \<longleftrightarrow> brk_reasons b \<noteq> []"

definition stake_reduced :: "entry_brake \<Rightarrow> bool" where
  "stake_reduced b \<longleftrightarrow> (\<exists>x\<in>set (brk_observations b). x \<in> {''PAPER_DRAWDOWN_BRAKE_ACTIVE'',
     ''POOR_RECENT_PAPER_PERFORMANCE'', ''BASELINE_RESEARCH_STAKE_CAP''})"

definition stake_reduction_reason :: "entry_brake \<Rightarrow> string option" where
  "stake_reduction_reason b = (if stake_reduced b then Some (hd (brk_observations b)) else None)"

definition brake_reason :: "entry_brake \<Rightarrow> string" where
  "brake_reason b = (case brk_reasons b of [] \<Rightarrow> ''PAPER_RISK_BRAKE_CLEAR'' | x # _ \<Rightarrow> x)"

definition brake_payload :: "entry_brake \<Rightarrow> info" where
  "brake_payload b =
     [(''risk_brake_active'', P_Bool (brake_active b)),
      (''risk_brake_reason'', if brake_active b then P_Text (brake_reason b) else P_None),
      (''risk_reasons'', P_List (brk_reasons b)),
      (''risk_observation_reasons'', P_List (brk_observations b)),
      (''risk_stake_reduced'', P_Bool (stake_reduced b)),
      (''risk_stake_reduction_reason'', opt_value P_Text (stake_reduction_reason b)),
      (''initial_equity'', opt_value P_Dec (brk_initial_equity b)),
      (''paper_current_equity'', opt_value P_Dec (brk_current_equity b)),
      (''open_cost_basis'', opt_value P_Dec (brk_open_cost b)),
      (''directional_open_cost_basis'', opt_value P_Dec (brk_open_cost b)),
      (''global_open_cost_basis'', opt_value P_Dec (brk_global_open_cost b)),
      (''structural_open_cost_basis'', opt_value P_Dec (brk_structural_open_cost b)),
      (''directional_available_capital'', opt_value P_Dec (brk_available b)),
      (''open_trade_count'', P_Int (int (brk_open_trades b))),
      (''directional_open_trade_count'', P_Int (int (brk_open_trades b))),
      (''global_open_trade_count'', opt_value P_Int (brk_global_open_trades b)),
      (''structural_open_trade_count'', opt_value P_Int (brk_structural_open_trades b)),
      (''same_asset_open_count'', P_Int (int (brk_same_asset_open b))),
      (''recent_directional_settled_count'', P_Int (int (brk_recent_settled b))),
      (''recent_directional_win_rate'', opt_value P_Dec (brk_recent_win_rate b)),
      (''recent_directional_pnl'', P_Dec (brk_recent_pnl b)),
      (''baseline_stake_cap_usdc'', P_Dec (brk_baseline_cap b)),
      (''reduced_stake_cap_usdc'', P_Dec (brk_reduced_cap b))]"

definition drawdown_brake_ratio :: dec where "drawdown_brake_ratio = 15 / 100"
definition max_open_exposure_ratio :: dec where "max_open_exposure_ratio = 30 / 100"
definition max_open_directional_positions :: nat where "max_open_directional_positions = 4"
definition max_open_positions_per_asset :: nat where "max_open_positions_per_asset = 1"
definition baseline_max_stake :: dec where "baseline_max_stake = 3 / 2"
definition recent_performance_sample :: nat where "recent_performance_sample = 10"
definition recent_performance_limit :: nat where "recent_performance_limit = 20"
definition recent_min_win_rate :: dec where "recent_min_win_rate = 35 / 100"
definition recent_max_loss :: dec where "recent_max_loss = - 5"
definition reduced_stake_cap :: dec where "reduced_stake_cap = 75 / 100"

definition trade_win_loss :: "paper_trade \<Rightarrow> string option" where
  "trade_win_loss t = map_option py_upper (tp_win_loss (ptr_payload t))"

text \<open>The reasons that stop an entry, and those that only reduce its stake.\<close>

definition brake_reasons_of :: "dec option \<Rightarrow> dec option \<Rightarrow> dec option \<Rightarrow> nat \<Rightarrow> nat \<Rightarrow> string list" where
  "brake_reasons_of initial current open_cost open_count same_asset =
     (case (initial, current, open_cost) of
        (Some i, Some c, Some k) \<Rightarrow>
          reasons_of [(0 < c \<and> dmul c max_open_exposure_ratio \<le> k, ''OPEN_EXPOSURE_LIMIT'')]
      | _ \<Rightarrow> [''PAPER_CAPITAL_STATE_INVALID'']) @
     reasons_of
       [(max_open_directional_positions \<le> open_count, ''MAXIMUM_PAPER_POSITIONS''),
        (max_open_positions_per_asset \<le> same_asset, ''OVERLAPPING_ASSET_LIMIT'')]"

definition brake_observations_of :: "dec option \<Rightarrow> dec option \<Rightarrow> dec option \<Rightarrow> nat \<Rightarrow> dec option \<Rightarrow> dec \<Rightarrow>
    probability_forecast option \<Rightarrow> dec \<Rightarrow> string list" where
  "brake_observations_of initial current open_cost recent_count win_rate pnl forecast required =
     (case (initial, current, open_cost) of
        (Some i, Some c, Some k) \<Rightarrow>
          reasons_of [(c \<le> dmul i (dsub 1 drawdown_brake_ratio), ''PAPER_DRAWDOWN_BRAKE_ACTIVE'')]
      | _ \<Rightarrow> []) @
     reasons_of
       [(recent_performance_sample \<le> recent_count
           \<and> ((case win_rate of None \<Rightarrow> False | Some w \<Rightarrow> w < recent_min_win_rate) \<or> pnl \<le> recent_max_loss),
         ''POOR_RECENT_PAPER_PERFORMANCE''),
        ((case forecast of None \<Rightarrow> False | Some f \<Rightarrow> fc_model_version f = baseline_version)
           \<and> baseline_max_stake < required, ''BASELINE_RESEARCH_STAKE_CAP'')]"

definition paper_directional_entry_brake :: "trading_summary \<Rightarrow> paper_trade list \<Rightarrow> paper_trade list \<Rightarrow>
    strategy_candidate \<Rightarrow> market \<Rightarrow> probability_forecast option \<Rightarrow> entry_brake" where
  "paper_directional_entry_brake acc open_trades recent_trades c m forecast =
     (let initial = Some (sum_initial_equity acc); current = Some (sum_directional_equity acc);
          open_cost = Some (sum_directional_open_cost acc);
          same_asset = length (filter (\<lambda>t. ptr_asset t = asset_value (mkt_asset m)) open_trades);
          recent = take recent_performance_limit
            (filter (\<lambda>t. py_upper (ptr_status t) = ''SETTLED'') recent_trades);
          wins = length (filter (\<lambda>t. trade_win_loss t = Some ''WIN'') recent);
          pnl = dsum (map realized_pnl_of recent);
          win_rate = (if recent = [] then None else Some (ddiv (of_nat wins) (of_nat (length recent)))) in
      \<lparr>brk_reasons = fromkeys (brake_reasons_of initial current open_cost (length open_trades) same_asset),
       brk_observations = fromkeys (brake_observations_of initial current open_cost (length recent) win_rate pnl
         forecast (cand_required_capital c)),
       brk_initial_equity = initial, brk_current_equity = current, brk_open_cost = open_cost,
       brk_global_open_cost = Some (sum_open_cost_basis acc),
       brk_structural_open_cost = Some (sum_structural_open_cost acc),
       brk_available = Some (sum_directional_raw_available acc), brk_open_trades = length open_trades,
       brk_global_open_trades = Some (int (sum_open_trades acc)),
       brk_structural_open_trades = Some (int (sum_structural_open_trades acc)),
       brk_same_asset_open = same_asset, brk_recent_settled = length recent, brk_recent_win_rate = win_rate,
       brk_recent_pnl = pnl, brk_baseline_cap = baseline_max_stake, brk_reduced_cap = reduced_stake_cap\<rparr>)"

text \<open>Dividing by a zero price raises an exception of the \<open>decimal\<close> module.\<close>

definition apply_reduced_stake :: "strategy_candidate \<Rightarrow> depth_simulation \<Rightarrow> entry_brake \<Rightarrow>
    (strategy_candidate \<times> dec \<times> dec \<times> info) result" where
  "apply_reduced_stake c pricing b =
     (case (sim_all_in pricing, sim_vwap pricing) of
        (Some all_in, Some _) \<Rightarrow>
          (if \<not> stake_reduced b \<or> sim_filled pricing \<le> 0 \<or> cand_required_capital c \<le> brk_reduced_cap b
           then Inr (c, sim_filled pricing, sim_fee pricing, brake_payload b)
           else if all_in = 0 then Inl (Library_Error ''DivisionByZero'' ''x / 0'')
           else (let capped = min (cand_required_capital c) (brk_reduced_cap b);
                     quantity = ddiv capped all_in;
                     fee = dmul (sim_fee pricing) (ddiv quantity (sim_filled pricing));
                     value = ddiv (dmul (cand_expected_net_value c) quantity) (sim_filled pricing) in
             bindr (mk_candidate (c\<lparr>cand_required_capital := capped, cand_expected_net_value := value\<rparr>)) (\<lambda>c'.
               Inr (c', quantity, fee, brake_payload b @
                 [(''original_required_capital'', P_Dec (cand_required_capital c)),
                  (''effective_required_capital'', P_Dec capped),
                  (''original_shares'', P_Dec (sim_filled pricing)), (''effective_shares'', P_Dec quantity),
                  (''original_fee'', P_Dec (sim_fee pricing)), (''effective_fee'', P_Dec fee)]))))
      | _ \<Rightarrow> Inr (c, sim_filled pricing, sim_fee pricing, brake_payload b))"

section \<open>Executing a directional assessment\<close>

record paper_call =
  pc_cycle :: string
  pc_assessment :: directional_assessment
  pc_up :: "depth_simulation option"
  pc_down :: "depth_simulation option"
  pc_forecast :: "probability_forecast option"
  pc_calibration_version :: "string option"
  pc_checked_at :: utc

text \<open>What a handler returns: whether a trade was recorded, its report, the number of abstentions.\<close>

type_synonym outcome = "bool \<times> info \<times> nat"

definition paper_label :: "string \<times> payload_value" where
  "paper_label = (''label'', P_Text trade_label)"

text \<open>Every early return records one abstention and reports its own facts.\<close>

definition abstain_outcome :: "(payload_value \<Rightarrow> string) \<Rightarrow> paper_repo \<Rightarrow> market_state \<Rightarrow> string \<Rightarrow> string \<Rightarrow> info \<Rightarrow>
    info \<Rightarrow> paper_repo \<times> outcome result" where
  "abstain_outcome render r st cycle reason kvs report =
     (case record_abstain render r st cycle DIRECTIONAL_EDGE reason kvs of
        (r', x) \<Rightarrow> (r', bindr x (\<lambda>n. Inr (False, report, n))))"

definition mk_evidence :: "fill_evidence \<Rightarrow> fill_evidence result" where
  "mk_evidence e = checked (fill_evidence_checks e) (Inr e)"

definition mk_routing_opportunity :: "routing_opportunity \<Rightarrow> routing_opportunity result" where
  "mk_routing_opportunity x = checked (routing_opportunity_checks x) (Inr x)"

definition directional_trade_row :: "(payload_value \<Rightarrow> string) \<Rightarrow> market_state \<Rightarrow> paper_call \<Rightarrow> market \<Rightarrow>
    strategy_candidate \<Rightarrow> outcome_side \<Rightarrow> dec \<Rightarrow> dec \<Rightarrow> dec \<Rightarrow> info \<Rightarrow> risk_decision \<Rightarrow> execution_plan \<Rightarrow> bool \<Rightarrow>
    paper_trade" where
  "directional_trade_row render st call m c side vwap quantity fee reduced risk plan filled =
     (let a = pc_assessment call; f = pc_forecast call in
      \<lparr>ptr_id = plan_idempotency_key plan, ptr_decision_id = plan_decision_id plan,
       ptr_strategy = strategy_value DIRECTIONAL_EDGE, ptr_asset = asset_value (mkt_asset m),
       ptr_horizon = horizon_value (mkt_horizon m), ptr_condition_id = mkt_condition_id m,
       ptr_side = outcome_value side, ptr_status = (if filled then ''OPEN'' else ''ACKNOWLEDGED''),
       ptr_label = trade_label,
       ptr_payload = \<lparr>tp_window_start = Some (mkt_window_start m), tp_window_end = Some (mkt_window_end m),
         tp_cost_basis = Some (cand_required_capital c), tp_stake = Some (cand_required_capital c),
         tp_fee = Some fee, tp_net_edge = asm_net_edge a, tp_pnl = None, tp_win_loss = None,
         tp_settled_at = None, tp_run_id = None, tp_winning_side = None, tp_source_kind = None,
         tp_source = None, tp_resolved_at = None, tp_observed_at = None, tp_filled_shares = None,
         tp_payout = None, tp_evidence_hash = None, tp_position_status = Some ''OPEN'',
         tp_other = payload_of render
           ([(''asset'', P_Text (asset_value (mkt_asset m))), (''horizon'', P_Text (horizon_value (mkt_horizon m))),
             (''condition_id'', P_Text (mkt_condition_id m)), (''market_id'', P_Text (mkt_id m)),
             (''side'', P_Text (outcome_value side)),
             (''ptb'', opt_value P_Dec (map_option ptb_value (sms_price_to_beat st))),
             (''p_up'', opt_value P_Dec (map_option fc_p_up f)), (''p_down'', opt_value P_Dec (map_option fc_p_down f)),
             (''executable_cost'', opt_value P_Dec (asm_cost a)), (''entry_vwap'', P_Dec vwap),
             (''shares'', P_Dec quantity), (''model_version'', opt_value P_Text (map_option fc_model_version f)),
             (''calibration_version'', opt_value P_Text (pc_calibration_version call)),
             (''risk_decision_id'', P_Text (rd_id risk)), (''risk_approved'', P_Bool True)] @ reduced @
            [(''fill_status'', P_Text (if filled then ''FILLED'' else ''ACKNOWLEDGED'')),
             (''real_order_submission'', P_Bool False), paper_label])\<rparr>,
       ptr_observed_at = sms_observed_at st\<rparr>)"

text \<open>The last part: the plan, its execution from one piece of evidence, and the trade row.\<close>

definition book_directional :: "(payload_value \<Rightarrow> string) \<Rightarrow> paper_repo \<Rightarrow> market_state \<Rightarrow> paper_call \<Rightarrow> market \<Rightarrow>
    strategy_candidate \<Rightarrow> outcome_side \<Rightarrow> dec \<Rightarrow> dec \<Rightarrow> dec \<Rightarrow> dec \<Rightarrow> info \<Rightarrow> risk_decision \<Rightarrow>
    paper_repo \<times> outcome result" where
  "book_directional render r st call m c side vwap worst quantity fee reduced risk = (let now = sms_observed_at st in
     after r (build_directional_paper_plan c m risk (''decision:'' @ cand_id c) quantity worst now) (\<lambda>plan.
     after r (mk_evidence \<lparr>fe_client_order_id = oi_client_order_id (hd (plan_intents plan)), fe_filled = quantity,
         fe_average_price = Some vwap, fe_fee = fee, fe_source_ts = now, fe_recv_ts = now\<rparr>) (\<lambda>evidence.
     case paper_execute r plan [evidence] now False True of
       (r1, Inl e) \<Rightarrow> (r1, Inl e)
     | (r1, Inr res) \<Rightarrow>
        (let filled = px_fills res \<noteq> [] in
         case save_trade_snapshot r1 (directional_trade_row render st call m c side vwap quantity fee reduced risk
             plan filled) of
           (r2, x) \<Rightarrow> (r2, bindr x (\<lambda>trade. Inr (True,
             [(''router_status'', P_Text ''ROUTED''), (''risk_decision_id'', P_Text (rd_id risk)),
              (''risk_approved'', P_Bool True), (''paper_trade_id'', P_Text (ptr_id trade)),
              (''paper_fill_status'', P_Text (if filled then ''FILLED'' else ''ACKNOWLEDGED''))] @ reduced, 0)))))))"

definition directional_router_policy :: router_policy where
  "directional_router_policy = \<lparr>pol_version = ''v3.15.4-directional-router'',
     pol_priority = [DIRECTIONAL_EDGE, STRUCTURAL_ARBITRAGE, DUAL40], pol_dual40_enabled = False\<rparr>"

text \<open>The part after the brake: capital, router and risk for the candidate at its final stake.\<close>

definition fund_directional :: "(payload_value \<Rightarrow> string) \<Rightarrow> paper_repo \<Rightarrow> market_state \<Rightarrow> paper_call \<Rightarrow> market \<Rightarrow>
    trading_summary \<Rightarrow> strategy_candidate \<Rightarrow> outcome_side \<Rightarrow> dec \<Rightarrow> dec \<Rightarrow> dec \<Rightarrow> dec \<Rightarrow> info \<Rightarrow>
    paper_repo \<times> outcome result" where
  "fund_directional render r st call m acc c side vwap worst quantity fee reduced =
     (let now = sms_observed_at st; cycle = pc_cycle call;
          gate = paper_capital_gate (Some (sum_directional_raw_available acc)) (cand_required_capital c);
          cand = (''candidate_id'', P_Text (cand_id c)) in
      if cg_status gate \<noteq> ''PAPER_CAPITAL_OK'' then
        (let kvs = [cand, paper_label, (''raw_available_capital'', opt_value P_Dec (cg_raw gate)),
             (''spendable_capital'', P_Dec (cg_spendable gate)),
             (''required_capital'', P_Dec (cand_required_capital c)),
             (''open_cost_basis'', P_Dec (sum_open_cost_basis acc)),
             (''directional_open_cost_basis'', P_Dec (sum_directional_open_cost acc)),
             (''structural_open_cost_basis'', P_Dec (sum_structural_open_cost acc)),
             (''expired_but_unsettled_cost_basis'', P_Dec (sum_known_expired_cost acc)),
             (''unfilled_reservations'', P_Dec (sum_unfilled_reservations acc)),
             (''open_trade_count'', P_Int (int (sum_open_trades acc))),
             (''open_unique_condition_count'', P_Int (int (sum_open_conditions acc))),
             (''legacy_missing_window_end_count'', P_Int (int (sum_missing_window_ends acc)))] @ reduced in
         abstain_outcome render r st cycle (cg_status gate) kvs ((''router_status'', P_Text (cg_status gate)) # kvs))
      else
      after r (mk_routing_opportunity \<lparr>ro_candidate = c, ro_condition_id = mkt_condition_id m,
          ro_token_ids = map tok_id (mkt_tokens m), ro_score = 1, ro_certainty = 1\<rparr>) (\<lambda>opp.
      after r (router_snapshot_from_paper r now) (\<lambda>snap.
      after r (route_opportunities [opp] snap (Some (cg_spendable gate)) directional_router_policy now) (\<lambda>routing.
      if rdec_selected routing = None then
        abstain_outcome render r st cycle ''ROUTER_REJECTED_DIRECTIONAL'' [cand, paper_label]
          [(''router_status'', P_Text ''ROUTER_REJECTED_DIRECTIONAL'')]
      else
      after r (portfolio_state_from_paper r now sum_directional_spendable sum_directional_pnl) (\<lambda>portfolio.
      after r (desk_risk_decision c m st portfolio (''risk:'' @ cand_id c)) (\<lambda>risk.
      if \<not> rd_approved risk then
        (let diagnostics = portfolio_risk_diagnostics portfolio (rd_reason_codes risk) now in
         abstain_outcome render r st cycle (join_texts '';'' (rd_reason_codes risk))
           ([cand, (''risk_decision_id'', P_Text (rd_id risk))] @ diagnostics @ [paper_label])
           ([(''router_status'', P_Text ''ROUTED''), (''risk_decision_id'', P_Text (rd_id risk)),
             (''risk_approved'', P_Bool False), (''risk_reasons'', P_List (rd_reason_codes risk))] @ diagnostics))
      else book_directional render r st call m c side vwap worst quantity fee reduced risk))))))"

text \<open>The part up to the brake.\<close>

definition brake_directional :: "(payload_value \<Rightarrow> string) \<Rightarrow> paper_repo \<Rightarrow> market_state \<Rightarrow> paper_call \<Rightarrow> market \<Rightarrow>
    strategy_candidate \<Rightarrow> outcome_side \<Rightarrow> depth_simulation \<Rightarrow> dec \<Rightarrow> dec \<Rightarrow> paper_repo \<times> outcome result" where
  "brake_directional render r st call m c side pricing vwap worst =
     (let now = sms_observed_at st; cycle = pc_cycle call in
      after r (active_directional_conditions r) (\<lambda>active.
      if mkt_condition_id m \<in> set active then
        abstain_outcome render r st cycle ''DIRECTIONAL_POSITION_ALREADY_OPEN''
          [(''condition_id'', P_Text (mkt_condition_id m)), paper_label]
          [(''router_status'', P_Text ''DIRECTIONAL_POSITION_ALREADY_OPEN'')]
      else
      after r (trading_summary_of r now) (\<lambda>acc.
      after r (trades r open_directional_query) (\<lambda>open_trades.
      after r (trades r directional_query) (\<lambda>recent_trades.
      let brake = paper_directional_entry_brake acc open_trades recent_trades c m (pc_forecast call) in
      if brake_active brake then
        abstain_outcome render r st cycle (brake_reason brake)
          ([(''candidate_id'', P_Text (cand_id c)), paper_label] @ brake_payload brake)
          ([(''router_status'', P_Text (brake_reason brake)), (''risk_approved'', P_Bool False),
            (''risk_reasons'', P_List (brk_reasons brake))] @ brake_payload brake)
      else after r (apply_reduced_stake c pricing brake) (\<lambda>(c', quantity, fee, reduced).
        fund_directional render r st call m acc c' side vwap worst quantity fee reduced))))))"

definition execute_directional_paper :: "(payload_value \<Rightarrow> string) \<Rightarrow> paper_repo \<Rightarrow> market_state \<Rightarrow> paper_call \<Rightarrow>
    paper_repo \<times> outcome result" where
  "execute_directional_paper render r st call =
     (case sms_discovery st of
        None \<Rightarrow> (r, Inl AssertionErr)
      | Some d \<Rightarrow> (let m = md_market d; a = pc_assessment call in
          case market_lifecycle_reason m (pc_checked_at call) of
            Some reason \<Rightarrow> abstain_outcome render r st (pc_cycle call) reason
              [(''condition_id'', P_Text (mkt_condition_id m)), (''entry_checked_at'', P_Time (pc_checked_at call)),
               paper_label] [(''router_status'', P_Text reason)]
          | None \<Rightarrow>
             (case (asm_candidate a, asm_side a) of
                (Some c, Some side) \<Rightarrow>
                  (case (if side = UP then pc_up call else pc_down call) of
                     None \<Rightarrow> (r, Inl (RuntimeErr ''directional TRADE assessment did not carry executable pricing''))
                   | Some pricing \<Rightarrow>
                      (case (sim_vwap pricing, sim_worst pricing) of
                         (Some vwap, Some worst) \<Rightarrow> brake_directional render r st call m c side pricing vwap worst
                       | _ \<Rightarrow> (r, Inl (RuntimeErr ''directional TRADE assessment did not carry executable pricing''))))
              | _ \<Rightarrow> (r, Inl (RuntimeErr ''directional TRADE assessment did not carry a candidate'')))))"

section \<open>Executing a structural opportunity\<close>

text \<open>The arguments of the call: the cycle, the clock just before the entry, the opportunity.\<close>

record structural_call =
  suc_cycle :: string
  suc_checked_at :: utc
  suc_opportunity :: structural_opportunity

definition structural_abstain :: "(payload_value \<Rightarrow> string) \<Rightarrow> paper_repo \<Rightarrow> market_state \<Rightarrow> string \<Rightarrow> string \<Rightarrow>
    info \<Rightarrow> paper_repo \<times> unit result" where
  "structural_abstain render r st cycle reason kvs =
     (case record_abstain render r st cycle STRUCTURAL_ARBITRAGE reason kvs of
        (r', x) \<Rightarrow> (r', bindr x (\<lambda>_. Inr ())))"

definition leg_evidence :: "order_intent \<Rightarrow> depth_simulation \<Rightarrow> utc \<Rightarrow> fill_evidence result" where
  "leg_evidence i sim now = mk_evidence \<lparr>fe_client_order_id = oi_client_order_id i, fe_filled = sim_filled sim,
     fe_average_price = sim_vwap sim, fe_fee = sim_fee sim, fe_source_ts = now, fe_recv_ts = now\<rparr>"

definition structural_trade_row :: "(payload_value \<Rightarrow> string) \<Rightarrow> market_state \<Rightarrow> market \<Rightarrow> structural_opportunity \<Rightarrow>
    strategy_candidate \<Rightarrow> execution_plan \<Rightarrow> bool \<Rightarrow> paper_trade" where
  "structural_trade_row render st m opp c plan filled =
     (let up = so_up opp; down = so_down opp; tokens = map tok_id (mkt_tokens m) in
      \<lparr>ptr_id = plan_idempotency_key plan, ptr_decision_id = plan_decision_id plan,
       ptr_strategy = strategy_value STRUCTURAL_ARBITRAGE, ptr_asset = asset_value (mkt_asset m),
       ptr_horizon = horizon_value (mkt_horizon m), ptr_condition_id = mkt_condition_id m,
       ptr_side = ''BUY_MERGE'', ptr_status = (if filled then ''OPEN'' else ''ACKNOWLEDGED''),
       ptr_label = trade_label,
       ptr_payload = \<lparr>tp_window_start = Some (mkt_window_start m), tp_window_end = Some (mkt_window_end m),
         tp_cost_basis = Some (cand_required_capital c), tp_stake = Some (cand_required_capital c),
         tp_fee = Some (dadd (sim_fee up) (sim_fee down)), tp_net_edge = Some (so_net_profit opp), tp_pnl = None,
         tp_win_loss = None, tp_settled_at = None, tp_run_id = None, tp_winning_side = None,
         tp_source_kind = None, tp_source = None, tp_resolved_at = None, tp_observed_at = None,
         tp_filled_shares = None, tp_payout = None, tp_evidence_hash = None, tp_position_status = Some ''OPEN'',
         tp_other = payload_of render
           [(''asset'', P_Text (asset_value (mkt_asset m))), (''horizon'', P_Text (horizon_value (mkt_horizon m))),
            (''condition_id'', P_Text (mkt_condition_id m)), (''market_id'', P_Text (mkt_id m)),
            (''shares'', P_Dec (so_shares opp)), (''entry_vwap'', P_Dec (so_combined_price opp)),
            (''slippage'', P_Dec (dadd (sim_slippage_buffer up) (sim_slippage_buffer down))),
            (''up_token_id'', P_Text (tokens ! 0)), (''down_token_id'', P_Text (tokens ! 1)),
            (''up_shares'', P_Dec (sim_filled up)), (''down_shares'', P_Dec (sim_filled down)),
            (''up_vwap'', opt_value P_Dec (sim_vwap up)), (''down_vwap'', opt_value P_Dec (sim_vwap down)),
            (''up_fee'', P_Dec (sim_fee up)), (''down_fee'', P_Dec (sim_fee down)),
            (''fill_status'', P_Text (if filled then ''FILLED'' else ''ACKNOWLEDGED'')),
            (''model_version'', P_Text ''MODEL_FREE''), paper_label]\<rparr>,
       ptr_observed_at = sms_observed_at st\<rparr>)"

definition book_structural :: "(payload_value \<Rightarrow> string) \<Rightarrow> paper_repo \<Rightarrow> market_state \<Rightarrow> market \<Rightarrow>
    structural_opportunity \<Rightarrow> strategy_candidate \<Rightarrow> risk_decision \<Rightarrow> paper_repo \<times> unit result" where
  "book_structural render r st m opp c risk = (let now = sms_observed_at st in
     after r (build_structural_buy_merge_paper_plan c m opp risk (''decision:'' @ cand_id c) now) (\<lambda>plan.
     after r (leg_evidence (plan_intents plan ! 0) (so_up opp) now) (\<lambda>up.
     after r (leg_evidence (plan_intents plan ! 1) (so_down opp) now) (\<lambda>down.
     case paper_execute r plan [up, down] now False True of
       (r1, Inl e) \<Rightarrow> (r1, Inl e)
     | (r1, Inr res) \<Rightarrow>
         (case save_trade_snapshot r1 (structural_trade_row render st m opp c plan (px_fills res \<noteq> [])) of
            (r2, x) \<Rightarrow> (r2, bindr x (\<lambda>_. Inr ())))))))"

definition structural_router_policy :: router_policy where
  "structural_router_policy = \<lparr>pol_version = ''v3.15.1-shadow-router'',
     pol_priority = [STRUCTURAL_ARBITRAGE, DIRECTIONAL_EDGE, DUAL40], pol_dual40_enabled = False\<rparr>"

definition structural_candidate :: "market_state \<Rightarrow> market \<Rightarrow> structural_opportunity \<Rightarrow> strategy_candidate" where
  "structural_candidate st m opp = \<lparr>cand_id = so_id opp, cand_strategy = STRUCTURAL_ARBITRAGE,
     cand_market_id = mkt_id m, cand_required_capital = dmul (so_shares opp) (so_combined_price opp),
     cand_expected_net_value = so_net_profit opp, cand_quality_score = 1, cand_created_at = sms_observed_at st,
     cand_expires_at = min (mkt_window_end m) (sms_observed_at st + seconds 5), cand_outcome_side = None\<rparr>"

definition fund_structural :: "(payload_value \<Rightarrow> string) \<Rightarrow> paper_repo \<Rightarrow> market_state \<Rightarrow> string \<Rightarrow> market \<Rightarrow>
    structural_opportunity \<Rightarrow> strategy_candidate \<Rightarrow> paper_repo \<times> unit result" where
  "fund_structural render r st cycle m opp c = (let now = sms_observed_at st; cand = (''candidate_id'', P_Text (cand_id c)) in
     after r (trading_summary_of r now) (\<lambda>acc.
     let gate = paper_capital_gate (Some (sum_raw_available acc)) (cand_required_capital c) in
     if cg_status gate \<noteq> ''PAPER_CAPITAL_OK'' then
       structural_abstain render r st cycle (cg_status gate)
         [cand, paper_label, (''raw_available_capital'', opt_value P_Dec (cg_raw gate)),
          (''spendable_capital'', P_Dec (cg_spendable gate)),
          (''required_capital'', P_Dec (cand_required_capital c)),
          (''open_cost_basis'', P_Dec (sum_open_cost_basis acc)),
          (''known_expired_unsettled_cost_basis'', P_Dec (sum_known_expired_cost acc)),
          (''unknown_window_open_cost_basis'', P_Dec (sum_unknown_window_cost acc))]
     else
     after r (mk_routing_opportunity \<lparr>ro_candidate = c, ro_condition_id = mkt_condition_id m,
         ro_token_ids = map tok_id (mkt_tokens m), ro_score = 1, ro_certainty = 1\<rparr>) (\<lambda>x.
     after r (router_snapshot_from_paper r now) (\<lambda>snap.
     after r (route_opportunities [x] snap (Some (cg_spendable gate)) structural_router_policy now) (\<lambda>routing.
     if rdec_selected routing = None then
       structural_abstain render r st cycle ''ROUTER_REJECTED_STRUCTURAL'' [cand, paper_label]
     else
     after r (portfolio_state_from_paper r now sum_spendable sum_realized_pnl) (\<lambda>portfolio.
     after r (desk_risk_decision c m st portfolio (''risk:'' @ cand_id c)) (\<lambda>risk.
     if \<not> rd_approved risk then
       structural_abstain render r st cycle (join_texts '';'' (rd_reason_codes risk)) [cand, paper_label]
     else book_structural render r st m opp c risk)))))))"

definition execute_structural_paper :: "(payload_value \<Rightarrow> string) \<Rightarrow> paper_repo \<Rightarrow> market_state \<Rightarrow> structural_call \<Rightarrow>
    paper_repo \<times> unit result" where
  "execute_structural_paper render r st call =
     (case sms_discovery st of
        None \<Rightarrow> (r, Inl AssertionErr)
      | Some d \<Rightarrow> (let m = md_market d; opp = suc_opportunity call; tokens = map tok_id (mkt_tokens m) in
          if mkt_condition_id m = [] \<or> mkt_id m = [] \<or> length tokens < 2 \<or> mkt_window_end m \<le> mkt_window_start m then
            structural_abstain render r st (suc_cycle call) ''STRUCTURAL_WINDOW_METADATA_MISSING''
              [(''condition_id'', P_Text (mkt_condition_id m)), (''market_id'', P_Text (mkt_id m)),
               (''token_count'', P_Int (int (length tokens))), (''window_start'', P_Time (mkt_window_start m)),
               (''window_end'', P_Time (mkt_window_end m)), paper_label]
          else (case market_lifecycle_reason m (suc_checked_at call) of
            Some reason \<Rightarrow> structural_abstain render r st (suc_cycle call) reason
              [(''condition_id'', P_Text (mkt_condition_id m)), (''entry_checked_at'', P_Time (suc_checked_at call)),
               paper_label]
          | None \<Rightarrow> after r (mk_candidate (structural_candidate st m opp)) (\<lambda>c.
              fund_structural render r st (suc_cycle call) m opp c))))"

section \<open>The open directional positions\<close>

definition open_directional :: "paper_repo \<Rightarrow> paper_trade list" where
  "open_directional r =
     filter (\<lambda>t. ptr_strategy t = ''DIRECTIONAL_EDGE'' \<and> still_open r t) (map snd (repo_trades r))"

lemma after_cases:
  assumes "\<And>e. x = Inl e \<Longrightarrow> P (s, Inl e)" "\<And>v. x = Inr v \<Longrightarrow> P (f v)"
  shows "P (after s x f)"
  using assms by (cases x) (simp_all add: after_def)

lemma if_cases: "(b \<Longrightarrow> P x) \<Longrightarrow> (\<not> b \<Longrightarrow> P y) \<Longrightarrow> P (if b then x else y)"
  by simp

lemma after_Inr [simp]: "after s (Inr v) f = f v" and after_Inl [simp]: "after s (Inl e) f = (s, Inl e)"
  by (simp_all add: after_def)

lemma after_Inr_iff: "after s x f = (s', Inr y) \<longleftrightarrow> (\<exists>v. x = Inr v \<and> f v = (s', Inr y))"
  by (cases x) auto

lemma queries [simp]:
  "tq_strategy directional_query = Some ''DIRECTIONAL_EDGE''" "tq_status directional_query = None"
  "tq_limit directional_query = 100000" "tq_offset directional_query = 0" "tq_win_loss directional_query = None"
  "tq_strategy open_directional_query = Some ''DIRECTIONAL_EDGE''" "tq_status open_directional_query = Some ''OPEN''"
  "tq_limit open_directional_query = 100000" "tq_offset open_directional_query = 0"
  "tq_win_loss open_directional_query = None" "tq_asset open_directional_query = None"
  "tq_horizon open_directional_query = None" "tq_side open_directional_query = None"
  "tq_start open_directional_query = None" "tq_end open_directional_query = None"
  by (simp_all add: directional_query_def open_directional_query_def all_trades_def reader_limit_def)

lemma open_query_matches:
  "trade_matches open_directional_query = (\<lambda>t. ptr_strategy t = ''DIRECTIONAL_EDGE'')"
  by (simp add: trade_matches_def agrees_def fun_eq_iff)

text \<open>What the daemon reads as its open directional trades: unsettled rows, newest first.\<close>

definition read_open_directional :: "paper_repo \<Rightarrow> paper_trade list" where
  "read_open_directional r = take 100000 (filter (still_open r)
     (filter (\<lambda>t. ptr_strategy t = ''DIRECTIONAL_EDGE'') (newest_first (repo_trades r))))"

lemma open_trades_query:
  assumes "rows_ok r"
  shows "trades r open_directional_query = Inr (read_open_directional r)"
proof -
  let ?rows = "filter (\<lambda>t. ptr_strategy t = ''DIRECTIONAL_EDGE'') (newest_first (repo_trades r))"
  have "mapr (overlay_trade r) ?rows = Inr (map (read_trade r) ?rows)"
  proof (rule mapr_total)
    fix t assume "t \<in> set ?rows"
    then have "passes (trade_checks t)" using assms by (auto simp: rows_ok_def newest_first_def)
    then have "require_text ''trade_id'' (ptr_id t) = None" using trade_texts by blast
    then show "overlay_trade r t = Inr (read_trade r t)"
      by (simp add: overlay_trade_def settlement_for_trade_def read_trade_def split: option.split
        del: require_text_None)
  qed
  moreover have "filter (\<lambda>t. ptr_status t = ''OPEN'') (map (read_trade r) ts) = filter (still_open r) ts" for ts
    using open_trades_read [of r ts] by (simp add: with_status_def)
  ultimately show ?thesis
    by (simp add: trades_def optional_text_check_def open_query_matches read_open_directional_def agrees_def
      py_space_def del: filter_filter)
qed

lemma open_directional_mset:
  "mset (open_directional r) = mset (filter (still_open r)
     (filter (\<lambda>t. ptr_strategy t = ''DIRECTIONAL_EDGE'') (newest_first (repo_trades r))))"
proof -
  have "open_directional r = filter (still_open r) (filter (\<lambda>t. ptr_strategy t = ''DIRECTIONAL_EDGE'')
      (map snd (repo_trades r)))"
    unfolding open_directional_def filter_filter by meson
  then show ?thesis by (simp add: newest_first_def)
qed

text \<open>Fewer than the limit were read, so all of them were read.\<close>

lemma read_open_complete:
  assumes "length (read_open_directional r) < 100000"
  shows "mset (read_open_directional r) = mset (open_directional r)"
proof -
  have "read_open_directional r = filter (still_open r)
      (filter (\<lambda>t. ptr_strategy t = ''DIRECTIONAL_EDGE'') (newest_first (repo_trades r)))"
    using assms unfolding read_open_directional_def by (simp del: filter_filter)
  then show ?thesis using open_directional_mset [of r] by simp
qed

section \<open>What the handlers write\<close>

text \<open>
  Both handlers leave the settlements alone and write at most one trade row; \<open>P\<close> says what that row is.
\<close>

definition trade_effect :: "(paper_trade \<Rightarrow> bool) \<Rightarrow> paper_repo \<Rightarrow> paper_repo \<Rightarrow> bool" where
  "trade_effect P r r' \<longleftrightarrow> repo_history r r' \<and> repo_settlements r' = repo_settlements r
     \<and> (repo_trades r' = repo_trades r
        \<or> (\<exists>t. P t \<and> repo_trades r' = row_insert (repo_trades r) (ptr_id t) t))"

lemma trade_effect_refl [simp]: "trade_effect P r r"
  by (simp add: trade_effect_def)

lemma trade_effect_mono: "trade_effect P r r' \<Longrightarrow> (\<And>t. P t \<Longrightarrow> Q t) \<Longrightarrow> trade_effect Q r r'"
  by (auto simp: trade_effect_def)

lemma record_abstain_effect:
  assumes "record_abstain render r st cycle strategy reason kvs = (r', x)"
  shows "trade_effect P r r'" "repo_trades r' = repo_trades r" "repo_executions r' = repo_executions r"
    "x = Inr n \<Longrightarrow> n = 1
       \<and> (\<exists>a. pab_reason a = reason \<and> repo_abstains r' = row_insert (repo_abstains r) (pab_id a) a)"
proof -
  obtain a where a: "pab_reason a = reason" "x = bindr (snd (save_abstain r a)) (\<lambda>_. Inr 1)" "r' = fst (save_abstain r a)"
    using assms by (simp add: record_abstain_def Let_def case_prod_beta) (metis paper_abstain.select_convs(6))
  have "repo_step r r'" unfolding a(3) by (rule repo_step.abstain_step)
  moreover have same: "repo_trades r' = repo_trades r" "repo_settlements r' = repo_settlements r"
    "repo_executions r' = repo_executions r"
    by (simp_all add: a(3) save_abstain_def Let_def split: option.split)
  ultimately show "trade_effect P r r'" "repo_trades r' = repo_trades r" "repo_executions r' = repo_executions r"
    by (auto simp: trade_effect_def)
  let ?row = "a\<lparr>pab_payload := with_run_id (paper_run_id r) (pab_payload a)\<rparr>"
  assume "x = Inr n"
  then have "n = 1" "\<exists>v. snd (save_abstain r a) = Inr v" by (auto simp: a(2) bindr_Inr_iff)
  then have "first_error (abstain_checks a) = None" "n = 1"
    by (auto simp: save_abstain_def split: option.splits)
  then have "n = 1" "pab_reason ?row = reason" "repo_abstains r' = row_insert (repo_abstains r) (pab_id ?row) ?row"
    by (simp_all add: a save_abstain_def Let_def)
  then show "n = 1 \<and> (\<exists>a. pab_reason a = reason \<and> repo_abstains r' = row_insert (repo_abstains r) (pab_id a) a)"
    by blast
qed

lemma abstain_outcome_effect:
  assumes "abstain_outcome render r st cycle reason kvs report = (r', x)"
  shows "trade_effect P r r'"
    "x = Inr (b, rep, n) \<Longrightarrow> \<not> b \<and> n = 1 \<and> repo_trades r' = repo_trades r
       \<and> repo_executions r' = repo_executions r
       \<and> (\<exists>a. pab_reason a = reason \<and> repo_abstains r' = row_insert (repo_abstains r) (pab_id a) a)"
  using assms record_abstain_effect [of render r st cycle DIRECTIONAL_EDGE reason kvs r']
  by (auto simp: abstain_outcome_def bindr_Inr_iff split: prod.splits)

lemma paper_execute_effect:
  "repo_history r (fst (paper_execute r plan ev now k rec))"
  "repo_trades (fst (paper_execute r plan ev now k rec)) = repo_trades r"
  "repo_settlements (fst (paper_execute r plan ev now k rec)) = repo_settlements r"
proof -
  consider "fst (paper_execute r plan ev now k rec) = r"
    | key pid res where "fst (paper_execute r plan ev now k rec) = fst (execution_save_once r key pid plan res now)"
  proof -
    assume c: "fst (paper_execute r plan ev now k rec) = r \<Longrightarrow> thesis"
      "\<And>key pid res. fst (paper_execute r plan ev now k rec) = fst (execution_save_once r key pid plan res now) \<Longrightarrow> thesis"
    show thesis
    proof (cases "plan_mode plan = PAPER")
      case True
      show thesis
      proof (cases "execution_get r (plan_idempotency_key plan)")
        case (Inr v)
        show thesis
        proof (cases v)
          case None
          show thesis
          proof (cases "checked (execution_guards plan ev now k rec) (mapr (paper_leg now ev) (plan_intents plan))")
            case (Inr legs)
            obtain r1 y where "execution_save_once r (plan_idempotency_key plan) (plan_id plan) plan
                (encode_result plan legs now) now = (r1, y)" by fastforce
            then show thesis
              using c(2) [of "plan_idempotency_key plan" "plan_id plan" "encode_result plan legs now"] True None Inr
                \<open>execution_get r (plan_idempotency_key plan) = Inr v\<close>
              by (cases y) (simp_all add: paper_execute_def)
          qed (use c(1) True None Inr in \<open>simp add: paper_execute_def\<close>)
        qed (use c(1) True Inr in \<open>simp add: paper_execute_def\<close>)
      qed (use c(1) True in \<open>simp add: paper_execute_def\<close>)
    qed (use c(1) in \<open>simp add: paper_execute_def\<close>)
  qed
  then have "repo_history r (fst (paper_execute r plan ev now k rec))
      \<and> repo_trades (fst (paper_execute r plan ev now k rec)) = repo_trades r
      \<and> repo_settlements (fst (paper_execute r plan ev now k rec)) = repo_settlements r"
  proof cases
    case 1
    then show ?thesis by simp
  next
    case (2 key pid res)
    have "repo_step r (fst (execution_save_once r key pid plan res now))" by (rule repo_step.execution_step)
    moreover have "repo_trades (fst (execution_save_once r key pid plan res now)) = repo_trades r"
      "repo_settlements (fst (execution_save_once r key pid plan res now)) = repo_settlements r"
      by (simp_all add: execution_save_once_def Let_def split: option.split)
    ultimately show ?thesis unfolding 2 by blast
  qed
  then show "repo_history r (fst (paper_execute r plan ev now k rec))"
    "repo_trades (fst (paper_execute r plan ev now k rec)) = repo_trades r"
    "repo_settlements (fst (paper_execute r plan ev now k rec)) = repo_settlements r" by simp_all
qed

lemma save_trade_effect:
  assumes "save_trade_snapshot r t = (r', x)"
  shows "repo_history r r'" "repo_settlements r' = repo_settlements r" "repo_executions r' = repo_executions r"
    "repo_trades r' = repo_trades r \<or>
      (let row = t\<lparr>ptr_label := trade_label, ptr_payload := payload_with_run (paper_run_id r) (ptr_payload t)\<rparr> in
       repo_trades r' = row_insert (repo_trades r) (ptr_id row) row)"
    "x = Inr v \<Longrightarrow> passes (trade_checks t) \<and>
      (let row = t\<lparr>ptr_label := trade_label, ptr_payload := payload_with_run (paper_run_id r) (ptr_payload t)\<rparr> in
       repo_trades r' = row_insert (repo_trades r) (ptr_id row) row)"
proof -
  have r': "r' = fst (save_trade_snapshot r t)" using assms by simp
  then show "repo_history r r'" using repo_step.trade_step [of r t] by simp
  show "repo_settlements r' = repo_settlements r" "repo_executions r' = repo_executions r"
    using assms by (auto simp: save_trade_snapshot_def Let_def split: option.splits)
  show "repo_trades r' = repo_trades r \<or>
      (let row = t\<lparr>ptr_label := trade_label, ptr_payload := payload_with_run (paper_run_id r) (ptr_payload t)\<rparr> in
       repo_trades r' = row_insert (repo_trades r) (ptr_id row) row)"
    using assms by (auto simp: save_trade_snapshot_def Let_def split: option.splits)
  show "x = Inr v \<Longrightarrow> passes (trade_checks t) \<and>
      (let row = t\<lparr>ptr_label := trade_label, ptr_payload := payload_with_run (paper_run_id r) (ptr_payload t)\<rparr> in
       repo_trades r' = row_insert (repo_trades r) (ptr_id row) row)"
    using assms by (auto simp: save_trade_snapshot_def Let_def passes_def split: option.splits)
qed

text \<open>A row of the directional handler: it is open exactly when it was filled.\<close>

definition directional_row :: "market \<Rightarrow> paper_trade \<Rightarrow> bool" where
  "directional_row m t \<longleftrightarrow> ptr_strategy t = ''DIRECTIONAL_EDGE'' \<and> ptr_asset t = asset_value (mkt_asset m)
     \<and> ptr_condition_id t = mkt_condition_id m
     \<and> (ptr_status t = ''OPEN'' \<longrightarrow> other_text t ''fill_status'' '''' = ''FILLED'')"

lemma map_of_payload: "map_of (payload_of render kvs) k = map_option (payload_text render) (map_of kvs k)"
  by (induction kvs) (auto simp: payload_of_def)

lemma payload_with_run_other [simp]:
  "tp_other (payload_with_run run p) = tp_other p" "tp_cost_basis (payload_with_run run p) = tp_cost_basis p"
  by (simp_all add: payload_with_run_def split: option.split)

lemma directional_trade_row_ok:
  assumes "''fill_status'' \<notin> fst ` set reduced"
  shows "directional_row m (directional_trade_row render st call m c side vwap quantity fee reduced risk plan filled
      \<lparr>ptr_label := l, ptr_payload := payload_with_run run (ptr_payload
        (directional_trade_row render st call m c side vwap quantity fee reduced risk plan filled))\<rparr>)"
proof -
  have "map_of reduced ''fill_status'' = None" using assms by (simp add: map_of_eq_None_iff)
  then show ?thesis
    by (simp add: directional_row_def directional_trade_row_def other_text_def map_of_payload map_add_def Let_def)
qed

text \<open>What is known of the stored row once a trade was reported.\<close>

definition booked_row :: "market \<Rightarrow> strategy_candidate \<Rightarrow> paper_repo \<Rightarrow> paper_repo \<Rightarrow> bool" where
  "booked_row m c r r' \<longleftrightarrow> (\<exists>t. directional_row m t \<and> repo_trades r' = row_insert (repo_trades r) (ptr_id t) t
     \<and> ptr_id t = ''paper-plan:'' @ cand_id c \<and> tp_cost_basis (ptr_payload t) = Some (cand_required_capital c))"

lemma book_directional_effect:
  assumes "book_directional render r st call m c side vwap worst quantity fee reduced risk = (r', x)"
    and key: "''fill_status'' \<notin> fst ` set reduced"
  shows "trade_effect (directional_row m) r r'" "x = Inr (b, rep, n) \<Longrightarrow> b \<and> n = 0 \<and> booked_row m c r r'"
proof -
  let ?P = "\<lambda>(r', x). trade_effect (directional_row m) r r'
    \<and> (\<forall>b rep n. x = Inr (b, rep, n) \<longrightarrow> b \<and> n = 0 \<and> booked_row m c r r')"
  have "?P (book_directional render r st call m c side vwap worst quantity fee reduced risk)"
    unfolding book_directional_def Let_def
  proof (intro after_cases [where P = ?P], goal_cases)
    case (3 plan ev)
    obtain r1 res where e: "paper_execute r plan [ev] (sms_observed_at st) False True = (r1, res)" by fastforce
    have e1: "repo_history r r1" "repo_trades r1 = repo_trades r" "repo_settlements r1 = repo_settlements r"
      using paper_execute_effect [of r plan "[ev]" "sms_observed_at st" False True] by (simp_all add: e)
    have key_eq: "plan_idempotency_key plan = ''paper-plan:'' @ cand_id c"
      using built_plan_shape(1) [OF 3(1)] by (simp add: paper_built_def)
    show ?case
    proof (cases res)
      case (Inl err)
      then show ?thesis using e1 by (simp add: e trade_effect_def)
    next
      case (Inr v)
      let ?row = "directional_trade_row render st call m c side vwap quantity fee reduced risk plan (px_fills v \<noteq> [])"
      obtain r2 y where s: "save_trade_snapshot r1 ?row = (r2, y)" by fastforce
      let ?stored = "?row\<lparr>ptr_label := trade_label,
        ptr_payload := payload_with_run (paper_run_id r1) (ptr_payload ?row)\<rparr>"
      note eff = save_trade_effect [OF s, unfolded Let_def]
      have row: "directional_row m ?stored" by (rule directional_trade_row_ok [OF key])
      have id: "ptr_id ?stored = ''paper-plan:'' @ cand_id c"
        "tp_cost_basis (ptr_payload ?stored) = Some (cand_required_capital c)"
        by (simp_all add: directional_trade_row_def key_eq Let_def)
      have "trade_effect (directional_row m) r r2"
        using e1 eff(1,2,4) row unfolding trade_effect_def
        by (metis (no_types, lifting) rtranclp_trans)
      moreover have "booked_row m c r r2" if "y = Inr w" for w
        using eff(5) [OF that] row id e1(2) unfolding booked_row_def by metis
      ultimately show ?thesis by (auto simp: e Inr s bindr_Inr_iff)
    qed
  qed simp_all
  with assms(1) show "trade_effect (directional_row m) r r'"
    "x = Inr (b, rep, n) \<Longrightarrow> b \<and> n = 0 \<and> booked_row m c r r'" by auto
qed

definition abstained :: "paper_repo \<Rightarrow> paper_repo \<Rightarrow> bool" where
  "abstained r r' \<longleftrightarrow> repo_trades r' = repo_trades r \<and> repo_executions r' = repo_executions r
     \<and> (\<exists>a. repo_abstains r' = row_insert (repo_abstains r) (pab_id a) a)"

lemma abstain_outcome_abstains:
  "abstain_outcome render r st cycle reason kvs report = (r', Inr (b, rep, n)) \<Longrightarrow> \<not> b \<and> n = 1 \<and> abstained r r'"
  using abstain_outcome_effect(2) [of render r st cycle reason kvs report r' "Inr (b, rep, n)" b rep n]
  by (auto simp: abstained_def)

lemma desk_risk_approved:
  assumes "desk_risk_decision c m st ps rid = Inr risk" "rd_approved risk"
  shows "\<exists>l. desk_liquidity st = Inr l
    \<and> denial_reasons c (mkt_asset m) (mkt_horizon m) l ps desk_risk_policy (sms_observed_at st) = []"
  using assms
  by (auto simp: desk_risk_decision_def assess_candidate_def bindr_Inr_iff checked_Inr_iff Let_def
    mk_risk_decision_def split: if_splits)

text \<open>The stake of an approved directional candidate, and the losses the account may have taken.\<close>

lemma approved_stake:
  assumes "portfolio_state_from_paper r now bank pnl = Inr ps" "trading_summary_of r now = Inr acc"
    and "denial_reasons c a h l ps desk_risk_policy now = []" "cand_strategy c = DIRECTIONAL_EDGE"
  shows "cand_required_capital c \<le> 5" "cand_required_capital c \<le> bank acc" "sum_maximum_drawdown acc < 40"
    "10 \<le> sum_losing_streak acc \<longrightarrow> (case sum_last_settlement_at acc of None \<Rightarrow> True | Some t \<Rightarrow> t + loss_cooldown \<le> now)"
proof -
  obtain es where ps: "ps = \<lparr>ps_bankroll = Some (bank acc), ps_exposures = Some (concat es), ps_realized_pnl = Some (pnl acc),
       ps_drawdown = Some (sum_maximum_drawdown acc), ps_consecutive_losses = Some (int (sum_losing_streak acc)),
       ps_cooldown_until = paper_cooldown_until acc (int (sum_losing_streak acc)), ps_kill_switch = False,
       ps_ledger_reconciled = True, ps_assessed_at = now\<rparr>"
    using assms(1,2) by (auto simp: portfolio_state_from_paper_def bindr_Inr_iff checked_Inr_iff Let_def)
  show "cand_required_capital c \<le> 5" "cand_required_capital c \<le> bank acc" "sum_maximum_drawdown acc < 40"
    using assms(3,4)
    by (auto simp: denial_reasons_def Let_def state_reasons_def portfolio_reasons_def ps desk_risk_policy_def
      PAPER_INITIAL_EQUITY_USDC_def split: if_splits)
  have "\<not> (10 \<le> sum_losing_streak acc \<and> (case paper_cooldown_until acc (int (sum_losing_streak acc)) of
      None \<Rightarrow> False | Some u \<Rightarrow> now < u))"
    using assms(3)
    by (auto simp: denial_reasons_def Let_def state_reasons_def portfolio_reasons_def ps desk_risk_policy_def
      consecutive_loss_limit_def split: if_splits option.splits)
  then show "10 \<le> sum_losing_streak acc \<longrightarrow>
      (case sum_last_settlement_at acc of None \<Rightarrow> True | Some t \<Rightarrow> t + loss_cooldown \<le> now)"
    by (auto simp: paper_cooldown_until_def consecutive_loss_limit_def split: option.splits if_splits)
qed

definition funded :: "strategy_candidate \<Rightarrow> trading_summary \<Rightarrow> utc \<Rightarrow> bool" where
  "funded c acc now \<longleftrightarrow> cand_required_capital c \<le> sum_directional_raw_available acc
     \<and> 0 < sum_directional_raw_available acc \<and> cand_required_capital c \<le> 5 \<and> sum_maximum_drawdown acc < 40
     \<and> (10 \<le> sum_losing_streak acc \<longrightarrow>
        (case sum_last_settlement_at acc of None \<Rightarrow> True | Some t \<Rightarrow> t + loss_cooldown \<le> now))"

lemma capital_gate_ok:
  "cg_status (paper_capital_gate (Some x) required) = ''PAPER_CAPITAL_OK'' \<longleftrightarrow> 0 < x \<and> required \<le> x"
  by (auto simp: paper_capital_gate_def)

lemma fund_directional_effect:
  assumes "fund_directional render r st call m acc c side vwap worst quantity fee reduced = (r', x)"
    and key: "''fill_status'' \<notin> fst ` set reduced" and acc: "trading_summary_of r (sms_observed_at st) = Inr acc"
    and c: "cand_strategy c = DIRECTIONAL_EDGE"
  shows "trade_effect (directional_row m) r r'"
    "x = Inr (b, rep, n) \<Longrightarrow> if b then n = 0 \<and> booked_row m c r r' \<and> funded c acc (sms_observed_at st)
       else n = 1 \<and> abstained r r'"
proof -
  let ?P = "\<lambda>(r', x). trade_effect (directional_row m) r r'
    \<and> (\<forall>b rep n. x = Inr (b, rep, n) \<longrightarrow> (if b then n = 0 \<and> booked_row m c r r' \<and> funded c acc (sms_observed_at st)
       else n = 1 \<and> abstained r r'))"
  have abst: "?P (abstain_outcome render r st cycle reason kvs report)" for cycle reason kvs report
  proof -
    obtain r1 y where e: "abstain_outcome render r st cycle reason kvs report = (r1, y)" by fastforce
    have "\<not> b \<and> n = 1 \<and> abstained r r1" if "y = Inr (b, rep, n)" for b rep n
      using abstain_outcome_abstains e that by blast
    then show ?thesis using abstain_outcome_effect(1) [OF e] by (simp add: e) blast
  qed
  have "?P (fund_directional render r st call m acc c side vwap worst quantity fee reduced)"
  proof (cases "cg_status (paper_capital_gate (Some (sum_directional_raw_available acc)) (cand_required_capital c))
      = ''PAPER_CAPITAL_OK''")
    case False
    then show ?thesis unfolding fund_directional_def Let_def using abst by simp
  next
    case True
    have booked: "?P (book_directional render r st call m c side vwap worst quantity fee reduced risk)"
      if risk: "portfolio_state_from_paper r (sms_observed_at st) sum_directional_spendable sum_directional_pnl = Inr ps"
        "desk_risk_decision c m st ps rid = Inr risk" "\<not> \<not> rd_approved risk" for ps rid risk
    proof -
      obtain l where l: "denial_reasons c (mkt_asset m) (mkt_horizon m) l ps desk_risk_policy (sms_observed_at st) = []"
        using desk_risk_approved [OF risk(2)] risk(3) by blast
      have f: "funded c acc (sms_observed_at st)"
        using approved_stake [OF risk(1) acc l c] True by (simp add: funded_def capital_gate_ok)
      obtain r1 y where e: "book_directional render r st call m c side vwap worst quantity fee reduced risk = (r1, y)"
        by fastforce
      have "b \<and> n = 0 \<and> booked_row m c r r1" if "y = Inr (b, rep, n)" for b rep n
        by (rule book_directional_effect(2) [OF e key that])
      then show ?thesis using book_directional_effect(1) [OF e key] f by (simp add: e) blast
    qed
    have ok: "\<not> cg_status (paper_capital_gate (Some (sum_directional_raw_available acc)) (cand_required_capital c))
        \<noteq> ''PAPER_CAPITAL_OK''" using True by simp
    show ?thesis
      unfolding fund_directional_def Let_def if_not_P [OF ok]
      by (intro after_cases [where P = ?P] if_cases [where P = ?P]; (rule abst | rule booked; assumption | simp))
  qed
  with assms(1) show "trade_effect (directional_row m) r r'"
    "x = Inr (b, rep, n) \<Longrightarrow> if b then n = 0 \<and> booked_row m c r r' \<and> funded c acc (sms_observed_at st)
       else n = 1 \<and> abstained r r'" by auto
qed

lemma reduced_stake_facts:
  assumes "apply_reduced_stake c p b = Inr (c', quantity, fee, kvs)"
  shows "cand_id c' = cand_id c" "cand_strategy c' = cand_strategy c" "''fill_status'' \<notin> fst ` set kvs"
    "cand_required_capital c' \<le> cand_required_capital c"
    "stake_reduced b \<Longrightarrow> 0 < sim_filled p \<Longrightarrow> sim_all_in p \<noteq> None \<Longrightarrow> sim_vwap p \<noteq> None \<Longrightarrow>
       cand_required_capital c' \<le> brk_reduced_cap b"
  using assms
  by (auto simp: apply_reduced_stake_def Let_def bindr_Inr_iff mk_candidate_def checked_Inr_iff brake_payload_def
    split: option.splits if_splits)

text \<open>A clear brake: what it says about the positions that were read.\<close>

lemma brake_clear:
  assumes "\<not> brake_active (paper_directional_entry_brake acc open_trades recent c m f)"
  shows "length open_trades < 4" "\<forall>t\<in>set open_trades. ptr_asset t \<noteq> asset_value (mkt_asset m)"
    "0 < sum_directional_equity acc \<longrightarrow> sum_directional_open_cost acc < dmul (sum_directional_equity acc) (30 / 100)"
proof -
  have clear: "brake_reasons_of (Some (sum_initial_equity acc)) (Some (sum_directional_equity acc))
      (Some (sum_directional_open_cost acc)) (length open_trades)
      (length (filter (\<lambda>t. ptr_asset t = asset_value (mkt_asset m)) open_trades)) = []"
    using assms by (simp add: brake_active_def paper_directional_entry_brake_def Let_def)
  show "length open_trades < 4"
    "0 < sum_directional_equity acc \<longrightarrow> sum_directional_open_cost acc < dmul (sum_directional_equity acc) (30 / 100)"
    using clear by (auto simp: brake_reasons_of_def max_open_directional_positions_def max_open_exposure_ratio_def
      split: if_splits)
  have "length (filter (\<lambda>t. ptr_asset t = asset_value (mkt_asset m)) open_trades) < 1"
    using clear by (auto simp: brake_reasons_of_def max_open_positions_per_asset_def Suc_le_eq split: if_splits)
  then show "\<forall>t\<in>set open_trades. ptr_asset t \<noteq> asset_value (mkt_asset m)"
    by (auto simp: filter_empty_conv)
qed

lemma reduced_cap [simp]: "brk_reduced_cap (paper_directional_entry_brake acc ts rs c m f) = reduced_stake_cap"
  by (simp add: paper_directional_entry_brake_def Let_def)

text \<open>What an entry respects: the gates of the account, of the open positions and of the exposure.\<close>

definition entry_allowed :: "paper_repo \<Rightarrow> market \<Rightarrow> utc \<Rightarrow> trading_summary \<Rightarrow> bool" where
  "entry_allowed r m now acc \<longleftrightarrow> trading_summary_of r now = Inr acc \<and> length (open_directional r) < 4
     \<and> (\<forall>t\<in>set (open_directional r). ptr_condition_id t \<noteq> mkt_condition_id m
          \<and> ptr_asset t \<noteq> asset_value (mkt_asset m))
     \<and> (0 < sum_directional_equity acc \<longrightarrow>
          sum_directional_open_cost acc < dmul (sum_directional_equity acc) (30 / 100))"

lemma read_open_facts:
  assumes "length (read_open_directional r) < 4" "\<forall>t\<in>set (read_open_directional r). Q t"
  shows "length (open_directional r) < 4" "\<forall>t\<in>set (open_directional r). Q t"
proof -
  have m: "mset (read_open_directional r) = mset (open_directional r)"
    using assms(1) by (intro read_open_complete) simp
  show "length (open_directional r) < 4" using assms(1) mset_eq_length [OF m] by simp
  show "\<forall>t\<in>set (open_directional r). Q t" using assms(2) mset_eq_setD [OF m] by simp
qed

text \<open>The brake of a call: the one that the handler computes from what it reads.\<close>

definition brake_of_call :: "paper_repo \<Rightarrow> market_state \<Rightarrow> paper_call \<Rightarrow> market \<Rightarrow> strategy_candidate \<Rightarrow> entry_brake option" where
  "brake_of_call r st call m c =
     (case (trading_summary_of r (sms_observed_at st), trades r open_directional_query, trades r directional_query) of
        (Inr acc, Inr open_trades, Inr recent) \<Rightarrow>
          Some (paper_directional_entry_brake acc open_trades recent c m (pc_forecast call))
      | _ \<Rightarrow> None)"

definition directional_entry :: "paper_repo \<Rightarrow> paper_repo \<Rightarrow> market_state \<Rightarrow> paper_call \<Rightarrow> market \<Rightarrow> strategy_candidate \<Rightarrow> bool" where
  "directional_entry r r' st call m c \<longleftrightarrow> (\<exists>c' acc b. booked_row m c' r r' \<and> funded c' acc (sms_observed_at st)
     \<and> entry_allowed r m (sms_observed_at st) acc \<and> cand_id c' = cand_id c
     \<and> cand_required_capital c' \<le> cand_required_capital c
     \<and> brake_of_call r st call m c = Some b
     \<and> (stake_reduced b \<longrightarrow> cand_required_capital c' \<le> 75 / 100))"

lemma brake_directional_effect:
  assumes ok: "rows_ok r" and c: "cand_strategy c = DIRECTIONAL_EDGE"
    and p: "sim_vwap pricing = Some vwap" "sim_all_in pricing \<noteq> None" "0 < sim_filled pricing"
    and x: "brake_directional render r st call m c side pricing vwap worst = (r', x)"
  shows "trade_effect (\<lambda>t. directional_row m t \<and> (\<exists>acc. entry_allowed r m (sms_observed_at st) acc)) r r'"
    "x = Inr (b, rep, n) \<Longrightarrow> if b then n = 0 \<and> directional_entry r r' st call m c else n = 1 \<and> abstained r r'"
proof -
  let ?now = "sms_observed_at st"
  let ?Q = "\<lambda>t. directional_row m t \<and> (\<exists>acc. entry_allowed r m ?now acc)"
  let ?P = "\<lambda>(r', x). trade_effect ?Q r r'
    \<and> (\<forall>b rep n. x = Inr (b, rep, n) \<longrightarrow> (if b then n = 0 \<and> directional_entry r r' st call m c else n = 1 \<and> abstained r r'))"
  have abst: "?P (abstain_outcome render r st cycle reason kvs report)" for cycle reason kvs report
  proof -
    obtain r1 y where e: "abstain_outcome render r st cycle reason kvs report = (r1, y)" by fastforce
    have "\<not> b \<and> n = 1 \<and> abstained r r1" if "y = Inr (b, rep, n)" for b rep n
      using abstain_outcome_abstains e that by blast
    then show ?thesis using abstain_outcome_effect(1) [OF e] by (simp add: e) blast
  qed
  have funded: "?P (fund_directional render r st call m acc c' side vwap worst quantity fee reduced)"
    if active: "active_directional_conditions r = Inr active" "mkt_condition_id m \<notin> set active"
      and acc: "trading_summary_of r ?now = Inr acc" and opened: "trades r open_directional_query = Inr ots"
      and recent: "trades r directional_query = Inr rts"
      and clear: "\<not> brake_active (paper_directional_entry_brake acc ots rts c m (pc_forecast call))"
      and red: "apply_reduced_stake c pricing (paper_directional_entry_brake acc ots rts c m (pc_forecast call))
        = Inr (c', quantity, fee, reduced)"
    for active acc ots rts c' quantity fee reduced
  proof -
    note rf = reduced_stake_facts [OF red]
    have ots: "ots = read_open_directional r" using opened open_trades_query [OF ok] by simp
    have active': "active = map ptr_condition_id (read_open_directional r)"
      using active(1) open_trades_query [OF ok] by (simp add: active_directional_conditions_def)
    note bc = brake_clear [OF clear, unfolded ots]
    have "\<forall>t\<in>set (read_open_directional r). ptr_condition_id t \<noteq> mkt_condition_id m \<and> ptr_asset t \<noteq> asset_value (mkt_asset m)"
      using bc(2) active(2) by (force simp: active')
    note gate = read_open_facts [OF bc(1) this]
    have allowed: "entry_allowed r m ?now acc"
      using gate bc(3) acc by (simp add: entry_allowed_def)
    have brk: "brake_of_call r st call m c = Some (paper_directional_entry_brake acc ots rts c m (pc_forecast call))"
      by (simp add: brake_of_call_def acc opened recent)
    obtain r1 y where e: "fund_directional render r st call m acc c' side vwap worst quantity fee reduced = (r1, y)"
      by fastforce
    have c': "cand_strategy c' = DIRECTIONAL_EDGE" using rf(2) c by simp
    have cap: "stake_reduced (paper_directional_entry_brake acc ots rts c m (pc_forecast call)) \<longrightarrow>
        cand_required_capital c' \<le> 75 / 100"
      using rf(5) p by (simp add: reduced_stake_cap_def)
    have "if b then n = 0 \<and> directional_entry r r1 st call m c else n = 1 \<and> abstained r r1"
      if "y = Inr (b, rep, n)" for b rep n
      using fund_directional_effect(2) [OF e rf(3) acc c' that] allowed rf(1,4) brk cap
      unfolding directional_entry_def by (auto split: if_splits)
    moreover have "trade_effect ?Q r r1"
      by (rule trade_effect_mono [OF fund_directional_effect(1) [OF e rf(3) acc c']]) (use allowed in blast)
    ultimately show ?thesis unfolding e prod.case by blast
  qed
  have "?P (brake_directional render r st call m c side pricing vwap worst)"
    unfolding brake_directional_def Let_def
    by (intro after_cases [where P = ?P] if_cases [where P = ?P]; (rule abst | simp; fail
      | simp only: split_paired_all prod.case, rule funded; assumption))
  with x show "trade_effect ?Q r r'"
    "x = Inr (b, rep, n) \<Longrightarrow> if b then n = 0 \<and> directional_entry r r' st call m c else n = 1 \<and> abstained r r'"
    by auto
qed

text \<open>A call as the daemon makes it: its two simulations come from the depth simulation.\<close>

definition priced_call :: "paper_call \<Rightarrow> bool" where
  "priced_call call \<longleftrightarrow> (\<forall>p. pc_up call = Some p \<or> pc_down call = Some p \<longrightarrow>
       (sim_vwap p \<noteq> None \<longrightarrow> sim_all_in p \<noteq> None \<and> 0 < sim_filled p))
     \<and> (\<forall>c. asm_candidate (pc_assessment call) = Some c \<longrightarrow> cand_strategy c = DIRECTIONAL_EDGE)"

lemma execute_directional_effect:
  assumes ok: "rows_ok r" and call: "priced_call call"
    and x: "execute_directional_paper render r st call = (r', x)"
  shows "trade_effect (\<lambda>t. \<exists>m acc. directional_row m t \<and> entry_allowed r m (sms_observed_at st) acc) r r'"
    "x = Inr (b, rep, n) \<Longrightarrow> if b then n = 0 \<and> (\<exists>d c. sms_discovery st = Some d
         \<and> asm_candidate (pc_assessment call) = Some c
         \<and> mkt_window_start (md_market d) \<le> pc_checked_at call \<and> pc_checked_at call < mkt_window_end (md_market d)
         \<and> directional_entry r r' st call (md_market d) c)
       else n = 1 \<and> abstained r r'"
proof -
  let ?Q = "\<lambda>t. \<exists>m acc. directional_row m t \<and> entry_allowed r m (sms_observed_at st) acc"
  let ?R = "\<lambda>r' x. trade_effect ?Q r r' \<and> (\<forall>b rep n. x = Inr (b, rep, n) \<longrightarrow>
     (if b then n = 0 \<and> (\<exists>d c. sms_discovery st = Some d
         \<and> asm_candidate (pc_assessment call) = Some c
         \<and> mkt_window_start (md_market d) \<le> pc_checked_at call \<and> pc_checked_at call < mkt_window_end (md_market d)
         \<and> directional_entry r r' st call (md_market d) c)
       else n = 1 \<and> abstained r r'))"
  have "?R r' x"
  proof (cases "sms_discovery st")
    case None
    with x show ?thesis by (auto simp: execute_directional_paper_def)
  next
    case (Some d)
    let ?m = "md_market d" and ?a = "pc_assessment call"
    show ?thesis
    proof (cases "market_lifecycle_reason ?m (pc_checked_at call)")
      case reason: (Some reason)
      then have e: "abstain_outcome render r st (pc_cycle call) reason
          [(''condition_id'', P_Text (mkt_condition_id ?m)), (''entry_checked_at'', P_Time (pc_checked_at call)),
           paper_label] [(''router_status'', P_Text reason)] = (r', x)"
        using x Some by (simp add: execute_directional_paper_def Let_def)
      have "\<not> b \<and> n = 1 \<and> abstained r r'" if "x = Inr (b, rep, n)" for b rep n
        using abstain_outcome_abstains e that by blast
      moreover have "trade_effect ?Q r r'" by (rule abstain_outcome_effect(1) [OF e])
      ultimately show ?thesis by metis
    next
      case None
      then have inside: "mkt_window_start ?m \<le> pc_checked_at call" "pc_checked_at call < mkt_window_end ?m"
        by (auto simp: market_lifecycle_reason_def split: if_splits)
      consider (err) e where "x = Inl e" "r' = r"
        | (go) c side p vwap worst where "asm_candidate ?a = Some c" "pc_up call = Some p \<or> pc_down call = Some p"
          "sim_vwap p = Some vwap" "brake_directional render r st call ?m c side p vwap worst = (r', x)"
        using x Some None
        by (auto simp: execute_directional_paper_def Let_def split: option.splits if_splits) metis+
      then show ?thesis
      proof cases
        case err
        then show ?thesis by simp
      next
        case go
        have p: "sim_all_in p \<noteq> None" "0 < sim_filled p" and c: "cand_strategy c = DIRECTIONAL_EDGE"
          using call go by (auto simp: priced_call_def)
        note eff = brake_directional_effect [OF ok c go(3) p go(4)]
        have "trade_effect ?Q r r'" by (rule trade_effect_mono [OF eff(1)]) blast
        moreover have "if b then n = 0 \<and> (\<exists>d c. sms_discovery st = Some d
            \<and> asm_candidate ?a = Some c \<and> mkt_window_start (md_market d) \<le> pc_checked_at call
            \<and> pc_checked_at call < mkt_window_end (md_market d) \<and> directional_entry r r' st call (md_market d) c)
          else n = 1 \<and> abstained r r'" if "x = Inr (b, rep, n)" for b rep n
          using eff(2) [OF that] inside go(1) by (simp only: Some option.inject) metis
        ultimately show ?thesis by blast
      qed
    qed
  qed
  then show "trade_effect ?Q r r'"
    "x = Inr (b, rep, n) \<Longrightarrow> if b then n = 0 \<and> (\<exists>d c. sms_discovery st = Some d
         \<and> asm_candidate (pc_assessment call) = Some c
         \<and> mkt_window_start (md_market d) \<le> pc_checked_at call \<and> pc_checked_at call < mkt_window_end (md_market d)
         \<and> directional_entry r r' st call (md_market d) c)
       else n = 1 \<and> abstained r r'"
    by blast+
qed

lemma simulation_priced:
  assumes "simulate_depth b f BUY q lp role t policy = Inr s" "sim_vwap s \<noteq> None"
  shows "sim_all_in s \<noteq> None" "0 < sim_filled s"
proof -
  obtain fills rest where d: "depth_result b BUY q (eligible_levels b BUY lp) t policy fills rest = Inr s"
    using assms(1) by (auto simp: simulate_depth_def checked_Inr_iff bindr_Inr_iff Let_def)
  have "0 \<le> sim_filled s"
    using depth_result_fields(1) [OF d] by (simp add: valid_simulation_def simulation_amount_checks_def)
  then show "sim_all_in s \<noteq> None" "0 < sim_filled s"
    using d assms(2) by (auto simp: depth_result_def Let_def mk_depth_simulation_def checked_Inr_iff split: if_splits)
qed

text \<open>The daemon passes its own pricing and an assessment of the directional strategy.\<close>

lemma daemon_call_priced:
  assumes p: "directional_pricing st = (pc_up call, pc_down call, status)"
    and a: "assess_directional_edge dcall = Inr (pc_assessment call)"
  shows "priced_call call"
proof -
  have "sim_all_in s \<noteq> None \<and> 0 < sim_filled s"
    if s: "pc_up call = Some s \<or> pc_down call = Some s" "sim_vwap s \<noteq> None" for s
  proof -
    obtain b f q where "simulate_depth b f BUY q 1 TAKER (sms_observed_at st) desk_pricing_policy = Inr s"
      using p s(1) by (auto simp: directional_pricing_def Let_def bindr_Inr_iff split: option.splits sum.splits)
    then show ?thesis using simulation_priced s(2) by blast
  qed
  moreover have "cand_strategy c = DIRECTIONAL_EDGE" if "asm_candidate (pc_assessment call) = Some c" for c
  proof -
    have abst: "abstain_assessment m t reason = Inr asm \<Longrightarrow> asm_candidate asm = None" for m t reason asm
      by (auto simp: abstain_assessment_def mk_assessment_def checked_Inr_iff)
    have priced: "assess_priced d f pr cost = Inr asm \<Longrightarrow> asm_candidate asm = Some c \<Longrightarrow> cand_strategy c = DIRECTIONAL_EDGE"
      for d f pr cost asm
      by (auto simp: assess_priced_def Let_def mk_assessment_def mk_candidate_def checked_Inr_iff bindr_Inr_iff
        directional_candidate_def dest!: abst split: if_splits)
    show ?thesis
      using a that
      by (auto simp: assess_directional_edge_def assess_identified_def Let_def checked_Inr_iff
        dest: abst priced split: option.splits if_splits)
  qed
  ultimately show ?thesis by (simp add: priced_call_def)
qed

lemma record_abstain_history: "trade_effect P r (fst (record_abstain render r st cycle strategy reason kvs))"
  by (rule record_abstain_effect(1) [OF prod.collapse [symmetric]])

lemma structural_abstain_effect: "trade_effect P r (fst (structural_abstain render r st cycle reason kvs))"
  using record_abstain_history [of P r render st cycle STRUCTURAL_ARBITRAGE reason kvs]
  by (simp add: structural_abstain_def case_prod_beta)

lemma book_structural_effect:
  "trade_effect (\<lambda>t. ptr_strategy t = ''STRUCTURAL_ARBITRAGE'') r (fst (book_structural render r st m opp c risk))"
proof -
  let ?Q = "\<lambda>t. ptr_strategy t = ''STRUCTURAL_ARBITRAGE''"
  let ?P = "\<lambda>z. trade_effect ?Q r (fst z)"
  show ?thesis
    unfolding book_structural_def Let_def
  proof (intro after_cases [where P = ?P], goal_cases)
    case (4 plan up down)
    obtain r1 res where e: "paper_execute r plan [up, down] (sms_observed_at st) False True = (r1, res)" by fastforce
    have e1: "repo_history r r1" "repo_trades r1 = repo_trades r" "repo_settlements r1 = repo_settlements r"
      using paper_execute_effect [of r plan "[up, down]" "sms_observed_at st" False True] by (simp_all add: e)
    show ?case
    proof (cases res)
      case (Inl err)
      then show ?thesis using e1 by (simp add: e trade_effect_def)
    next
      case (Inr v)
      let ?row = "structural_trade_row render st m opp c plan (px_fills v \<noteq> [])"
      obtain r2 y where s: "save_trade_snapshot r1 ?row = (r2, y)" by fastforce
      note eff = save_trade_effect [OF s, unfolded Let_def]
      have row: "?Q (?row\<lparr>ptr_label := trade_label,
          ptr_payload := payload_with_run (paper_run_id r1) (ptr_payload ?row)\<rparr>)"
        by (simp add: structural_trade_row_def Let_def)
      have "trade_effect ?Q r r2"
        using e1 eff(1,2,4) row unfolding trade_effect_def
        by (metis (no_types, lifting) rtranclp_trans)
      then show ?thesis by (simp add: e Inr s)
    qed
  qed simp_all
qed

lemma execute_structural_effect:
  "trade_effect (\<lambda>t. ptr_strategy t = ''STRUCTURAL_ARBITRAGE'') r (fst (execute_structural_paper render r st call))"
proof -
  let ?Q = "\<lambda>t. ptr_strategy t = ''STRUCTURAL_ARBITRAGE''"
  let ?P = "\<lambda>z. trade_effect ?Q r (fst z)"
  have fund: "?P (fund_structural render r st cycle m opp c)" for cycle m opp c
    unfolding fund_structural_def Let_def
    by (intro after_cases [where P = ?P] if_cases [where P = ?P];
      (rule structural_abstain_effect book_structural_effect | simp))
  show ?thesis
    by (auto simp: execute_structural_paper_def Let_def structural_abstain_effect intro: after_cases [where P = ?P] fund
      split: option.split)
qed

section \<open>Histories of the trading desk\<close>

text \<open>
  The steps of a desk: the two handlers on any state of the market, the directional one on a priced call
  (\<open>daemon_call_priced\<close>: every call of the daemon is one), and any write of the repository
  that is not a trade (settlements, run metadata, abstentions, recovered identities, attempts, label tasks).
\<close>

inductive desk_step :: "(payload_value \<Rightarrow> string) \<Rightarrow> paper_repo \<Rightarrow> paper_repo \<Rightarrow> bool" for render where
  directional_entry_step: "priced_call call \<Longrightarrow> desk_step render r (fst (execute_directional_paper render r st call))"
| structural_entry_step: "desk_step render r (fst (execute_structural_paper render r st scall))"
| other_write_step: "repo_step r r' \<Longrightarrow> repo_trades r' = repo_trades r \<Longrightarrow> desk_step render r r'"

definition book_limits :: "paper_repo \<Rightarrow> bool" where
  "book_limits r \<longleftrightarrow> length (open_directional r) \<le> 4 \<and> distinct (map ptr_asset (open_directional r))
     \<and> distinct (map ptr_condition_id (open_directional r))
     \<and> (\<forall>t\<in>set (open_directional r). other_text t ''fill_status'' '''' = ''FILLED'')"

lemma book_limits_subset:
  assumes "book_limits r" "open_directional r' = filter P (open_directional r)"
  shows "book_limits r'"
  using assms by (auto simp: book_limits_def distinct_map_filter intro: le_trans [OF length_filter_le])

lemma open_after_insert:
  assumes "repo_trades r' = row_insert (repo_trades r) (ptr_id t) t" "repo_settlements r' = repo_settlements r"
  shows "open_directional r' = open_directional r \<or>
    (open_directional r' = open_directional r @ [t] \<and> ptr_strategy t = ''DIRECTIONAL_EDGE'' \<and> ptr_status t = ''OPEN'')"
proof -
  have still: "still_open r' = still_open r" by (simp add: still_open_def assms(2) fun_eq_iff)
  show ?thesis by (auto simp: open_directional_def still assms(1) row_insert_def) (auto simp: still_open_def)
qed

lemma open_after_other:
  assumes "repo_step r r'" "repo_trades r' = repo_trades r"
  shows "open_directional r' = filter (still_open r') (open_directional r)"
proof -
  have "still_open r' t \<Longrightarrow> still_open r t" for t
    using repo_step_extends [OF assms(1)] keeps_lookup [of "repo_settlements r" "repo_settlements r'" "ptr_id t"]
    by (cases "map_of (repo_settlements r) (ptr_id t)") (auto simp: repo_extends_def still_open_def)
  then show ?thesis
    unfolding open_directional_def assms(2) filter_filter by (auto intro!: filter_cong)
qed

lemma desk_step_limits:
  assumes "desk_step render r r'" "rows_ok r" "book_limits r"
  shows "book_limits r' \<and> repo_history r r'"
  using assms(1)
proof cases
  case (directional_entry_step call st)
  obtain x where x: "execute_directional_paper render r st call = (r', x)"
    using directional_entry_step(1) by (metis prod.collapse)
  note eff = execute_directional_effect(1) [OF assms(2) directional_entry_step(2) x, unfolded trade_effect_def]
  have "book_limits r'"
  proof (cases "repo_trades r' = repo_trades r")
    case True
    have "open_directional r' = open_directional r"
      using True eff by (auto simp: open_directional_def still_open_def)
    then show ?thesis using assms(3) by (simp add: book_limits_def)
  next
    case False
    then obtain t m acc where t: "repo_trades r' = row_insert (repo_trades r) (ptr_id t) t" "directional_row m t"
      "entry_allowed r m (sms_observed_at st) acc" using eff by blast
    consider "open_directional r' = open_directional r"
      | "open_directional r' = open_directional r @ [t]" "ptr_status t = ''OPEN''"
      using open_after_insert [OF t(1)] eff by blast
    then show ?thesis
    proof cases
      case 2
      with assms(3) t(2,3) show ?thesis
        by (auto simp: book_limits_def directional_row_def entry_allowed_def)
    qed (use assms(3) in \<open>simp add: book_limits_def\<close>)
  qed
  then show ?thesis using eff by blast
next
  case (structural_entry_step st scall)
  note eff = execute_structural_effect [of r render st scall, folded structural_entry_step(1), unfolded trade_effect_def]
  have "open_directional r' = open_directional r"
  proof (cases "repo_trades r' = repo_trades r")
    case True
    then show ?thesis using eff by (auto simp: open_directional_def still_open_def)
  next
    case False
    then obtain t where "repo_trades r' = row_insert (repo_trades r) (ptr_id t) t" "ptr_strategy t = ''STRUCTURAL_ARBITRAGE''"
      using eff by blast
    then show ?thesis using open_after_insert [of r' r t] eff by auto
  qed
  then show ?thesis using assms(3) eff by (simp add: book_limits_def)
next
  case other_write_step
  then show ?thesis
    using book_limits_subset [OF assms(3) open_after_other] by blast
qed

lemma desk_history:
  assumes "(desk_step render)\<^sup>*\<^sup>* empty_repo r"
  shows "repo_history empty_repo r" "book_limits r"
proof -
  have "repo_history empty_repo r \<and> book_limits r"
    using assms
  proof (induction rule: rtranclp_induct)
    case base
    then show ?case by (simp add: book_limits_def open_directional_def empty_repo_def)
  next
    case (step r r')
    then show ?case
      using desk_step_limits [OF step.hyps(2) rows_ok_history] by (meson rtranclp_trans)
  qed
  then show "repo_history empty_repo r" "book_limits r" by simp_all
qed

lemma concat_nils: "concat (map (\<lambda>_. []) xs) = []"
  by (induction xs) auto

lemma claim_of_filled: "other_text t ''fill_status'' '''' = ''FILLED'' \<Longrightarrow> claim_of_trade now t = Inr []"
  by (simp add: claim_of_trade_def py_upper_def Let_def)

text \<open>
  C21: In every book that the desk can reach from an empty repository - by directional entries, structural
  entries and any writes other than trades, settlements among them, in any order - there are at most four
  open directional positions, no two on the same asset and no two on the same condition. And because a
  directional row is open exactly when it was filled, and the router's snapshot skips filled trades, the
  snapshot that the daemon hands to the router holds no claim at all.
\<close>

theorem directional_book_is_limited:
  assumes "(desk_step render)\<^sup>*\<^sup>* empty_repo r"
  shows "length (open_directional r) \<le> 4 \<and> distinct (map ptr_asset (open_directional r))
    \<and> distinct (map ptr_condition_id (open_directional r))
    \<and> router_snapshot_from_paper r now = Inr \<lparr>snap_revision = 0, snap_claims = [], snap_unresolved = []\<rparr>"
proof -
  note h = desk_history [OF assms]
  have "\<forall>t\<in>set (read_open_directional r). claim_of_trade now t = Inr []"
    using h(2) mset_eq_setD [OF open_directional_mset [of r]]
    by (auto simp: book_limits_def read_open_directional_def intro!: claim_of_filled dest!: in_set_takeD)
  then have "mapr (claim_of_trade now) (read_open_directional r) = Inr (map (\<lambda>_. []) (read_open_directional r))"
    by (intro mapr_total) simp
  then have "router_snapshot_from_paper r now = Inr \<lparr>snap_revision = 0, snap_claims = [], snap_unresolved = []\<rparr>"
    by (simp add: router_snapshot_from_paper_def open_trades_query [OF rows_ok_history [OF h(1)]] mk_snapshot_def
      router_snapshot_checks_def concat_nils)
  with h(2) show ?thesis by (simp add: book_limits_def)
qed

text \<open>
  C20: A directional paper position is opened only past every gate. When the handler reports a trade, the
  clock just before the entry was inside the market's window; before the entry fewer than four directional
  positions were open, none on the condition and none on the asset, and the open directional cost was below
  thirty percent of the directional equity; the booked stake is at most the candidate's, the available
  capital and five, and at most 0.75 when the brake reduces stakes; the drawdown is below the account and a
  cooldown after ten losses has passed; and exactly one trade row, keyed by the candidate, is inserted.
  When it reports no trade, exactly one abstention was written and no trade or execution.
\<close>

theorem directional_trade_passes_every_gate:
  assumes "repo_history empty_repo r" "priced_call call"
    and "execute_directional_paper render r st call = (r', Inr (traded, report, n))"
  shows "if traded then n = 0 \<and> (\<exists>d c. sms_discovery st = Some d \<and> asm_candidate (pc_assessment call) = Some c
         \<and> mkt_window_start (md_market d) \<le> pc_checked_at call \<and> pc_checked_at call < mkt_window_end (md_market d)
         \<and> directional_entry r r' st call (md_market d) c)
       else n = 1 \<and> abstained r r'"
  using execute_directional_effect(2) [OF rows_ok_history [OF assms(1)] assms(2,3) refl] .

section \<open>A desk that trades\<close>

definition desk_market :: market where
  "desk_market = \<lparr>mkt_id = ''m1'', mkt_condition_id = ''c1'', mkt_asset = BTC, mkt_horizon = FIVE_MINUTES,
     mkt_tokens = [\<lparr>tok_id = ''up'', tok_outcome = UP\<rparr>, \<lparr>tok_id = ''down'', tok_outcome = DOWN\<rparr>],
     mkt_window_start = 0, mkt_window_end = seconds 300, mkt_settlement_source = ''s''\<rparr>"

definition desk_candidate :: strategy_candidate where
  "desk_candidate = \<lparr>cand_id = ''k1'', cand_strategy = DIRECTIONAL_EDGE, cand_market_id = ''m1'',
     cand_required_capital = 3, cand_expected_net_value = 1 / 2, cand_quality_score = 3 / 4,
     cand_created_at = seconds 20, cand_expires_at = seconds 25, cand_outcome_side = Some UP\<rparr>"

definition desk_simulation :: depth_simulation where
  "desk_simulation = \<lparr>sim_condition_id = ''c1'', sim_token_id = ''up'', sim_side = BUY, sim_requested = 5,
     sim_depth = 20, sim_filled = 5, sim_fill_fraction = 1,
     sim_fills = [\<lparr>df_price = 3 / 5, df_quantity = 5, df_gross = 3, df_fee = 0\<rparr>], sim_gross = 3, sim_fee = 0,
     sim_fee_buffer = 0, sim_slippage_buffer = 0, sim_vwap = Some (3 / 5), sim_worst = Some (3 / 5),
     sim_impact = Some 0, sim_all_in = Some (3 / 5), sim_net_proceeds = None, sim_at = seconds 20\<rparr>"

definition desk_book :: "string \<Rightarrow> polymarket_book" where
  "desk_book token = \<lparr>pmb_condition_id = ''c1'', pmb_token_id = token,
     pmb_bids = [\<lparr>pml_price = 1 / 2, pml_quantity = 20\<rparr>], pmb_asks = [\<lparr>pml_price = 3 / 5, pml_quantity = 20\<rparr>],
     pmb_checksum = ''x'', pmb_minimum_order_size = 1, pmb_tick_size = 1 / 100,
     pmb_lineage = \<lparr>lin_source = POLYMARKET_CLOB, lin_source_ts = Some (seconds 19), lin_recv_ts = seconds 19,
       lin_normalized_ts = seconds 19, lin_recv_monotonic_ns = 1\<rparr>\<rparr>"

definition desk_state :: market_state where
  "desk_state = \<lparr>sms_bucket = \<lparr>bkt_asset = BTC, bkt_horizon = FIVE_MINUTES\<rparr>,
     sms_discovery = Some (sample_discovery\<lparr>md_market := desk_market\<rparr>),
     sms_up_book = Some (desk_book ''up''), sms_down_book = Some (desk_book ''down''),
     sms_fee_schedule = Some zero_fees, sms_up_fee = None, sms_down_fee = None, sms_observed_at = seconds 20,
     sms_price_to_beat = None, sms_features = None\<rparr>"

definition desk_call :: paper_call where
  "desk_call = \<lparr>pc_cycle = ''cycle'', pc_assessment = \<lparr>asm_action = TRADE, asm_market_id = ''m1'',
       asm_reason = ''PRE_RISK_CANDIDATE'', asm_observed_at = seconds 20, asm_side = Some UP,
       asm_probability = Some (3 / 4), asm_cost = Some (3 / 5), asm_net_edge = Some (1 / 10),
       asm_candidate = Some desk_candidate\<rparr>, pc_up = Some desk_simulation, pc_down = None, pc_forecast = None,
     pc_calibration_version = None, pc_checked_at = seconds 21\<rparr>"

lemmas desk_defs = desk_market_def desk_candidate_def desk_simulation_def desk_book_def desk_state_def desk_call_def

lemma empty_tables [simp]: "repo_trades empty_repo = []" "repo_settlements empty_repo = []"
  "repo_executions empty_repo = []" "repo_runs empty_repo = []"  "newest_first [] = []"
  by (simp_all add: empty_repo_def newest_first_def)

lemma desk_trades: "trades empty_repo open_directional_query = Inr []" "trades empty_repo directional_query = Inr []"
  "trades empty_repo (all_trades\<lparr>tq_limit := reader_limit\<rparr>) = Inr []"
  by (simp_all add: trades_def optional_text_check_def py_space_def directional_query_def all_trades_def
    reader_limit_def)

definition desk_account :: "utc \<Rightarrow> trading_summary" where
  "desk_account now = account_summary.extend (summarise 40 [] [] now) (trading_summary.fields 0 40 40 0 0 0 0 None)"

lemma forty [simp]: "dadd 40 0 = 40" "dsub 40 0 = 40"
  by (simp_all add: dadd_def dsub_def ctx_eval)

lemma desk_summary: "trading_summary_of empty_repo now = Inr (desk_account now)"
proof -
  have run: "paper_summary empty_repo None now = Inr (summarise 40 [] [] now)"
    using summary_read [OF rows_ok_history [OF rtranclp.rtrancl_refl], of now]
    by (simp add: paper_initial_equity_def run_metadata_def PAPER_INITIAL_EQUITY_USDC_def read_rows_def)
  have "sum_initial_equity (summarise 40 [] [] now) = 40" by (simp add: summarise_def Let_def)
  moreover have "sq_last_success_at (settlement_queue_summary empty_repo [] now) = None"
    by (simp add: settlement_queue_summary_def latest_by_def empty_repo_def Let_def)
  ultimately show ?thesis
    by (simp add: trading_summary_of_def run desk_trades desk_account_def with_status_def of_strategy_def
      pnl_sum_def basis_sum_def strategy_raw_available_def raw_available_capital_def Let_def)
qed

lemma desk_account_fields:
  "sum_initial_equity (desk_account now) = 40" "sum_directional_equity (desk_account now) = 40"
  "sum_directional_open_cost (desk_account now) = 0" "sum_directional_raw_available (desk_account now) = 40"
  "sum_directional_spendable (desk_account now) = 40" "sum_directional_pnl (desk_account now) = 0"
  "sum_maximum_drawdown (desk_account now) = 0" "sum_losing_streak (desk_account now) = 0"
  by (simp_all add: desk_account_def account_summary.defs trading_summary.defs summarise_def Let_def basis_sum_def
    with_status_def of_strategy_def strategy_spendable_def raw_available_capital_def pnl_sum_def maximum_drawdown_def
    current_losing_streak_def)

definition desk_brake :: entry_brake where
  "desk_brake = paper_directional_entry_brake (desk_account (seconds 20)) [] [] desk_candidate desk_market None"

lemma desk_brake_clear: "\<not> brake_active desk_brake" "\<not> stake_reduced desk_brake"
proof -
  have "dmul 40 (3 / 10) = 12" "dmul 40 (dsub 1 (3 / 20)) = 34"
    by (simp_all add: dec_op_defs ctx_eval)
  then show "\<not> brake_active desk_brake" "\<not> stake_reduced desk_brake"
    by (simp_all add: desk_brake_def brake_active_def stake_reduced_def paper_directional_entry_brake_def Let_def
      brake_reasons_of_def brake_observations_of_def desk_account_fields max_open_exposure_ratio_def
      drawdown_brake_ratio_def max_open_directional_positions_def max_open_positions_per_asset_def
      recent_performance_sample_def)
qed

lemma desk_reduced: "apply_reduced_stake desk_candidate desk_simulation desk_brake
    = Inr (desk_candidate, 5, 0, brake_payload desk_brake)"
  by (simp add: apply_reduced_stake_def desk_brake_clear desk_simulation_def)

definition desk_opportunity :: routing_opportunity where
  "desk_opportunity = \<lparr>ro_candidate = desk_candidate, ro_condition_id = ''c1'', ro_token_ids = [''up'', ''down''],
     ro_score = 1, ro_certainty = 1\<rparr>"

lemma desk_candidate_valid: "valid_candidate desk_candidate"
  by (simp add: valid_candidate_def candidate_checks_def desk_candidate_def py_space_def seconds_def)

lemma desk_opportunity_valid: "passes (routing_opportunity_checks desk_opportunity)" "valid_opportunity desk_opportunity"
proof -
  show "passes (routing_opportunity_checks desk_opportunity)"
    by (simp add: routing_opportunity_checks_def desk_opportunity_def py_space_def)
  then show "valid_opportunity desk_opportunity"
    using desk_candidate_valid by (simp add: valid_opportunity_def) (simp add: desk_opportunity_def)
qed

lemma desk_route: "\<exists>d. route_opportunities [desk_opportunity] empty_snapshot (Some 40) directional_router_policy (seconds 20)
    = Inr d \<and> rdec_selected d \<noteq> None"
proof -
  have p: "valid_router_policy directional_router_policy"
    by (simp add: valid_router_policy_def router_policy_checks_def directional_router_policy_def py_space_def insert_commute)
  have "routable empty_snapshot 40 directional_router_policy (seconds 20) desk_opportunity"
    by (simp add: routable_conflict conflict_reason_def unclaimed_capital_def active_claims_def empty_snapshot_def
      desk_opportunity_def desk_candidate_def directional_router_policy_def dsum_def seconds_def)
  then show ?thesis
    using desk_opportunity_valid(2)
    by (cases rule: route_cases [OF p, of "[desk_opportunity]" 40 empty_snapshot "seconds 20"])
      (auto simp: empty_snapshot_def active_claims_def)
qed

definition desk_portfolio :: portfolio_state where
  "desk_portfolio = \<lparr>ps_bankroll = Some 40, ps_exposures = Some [], ps_realized_pnl = Some 0, ps_drawdown = Some 0,
     ps_consecutive_losses = Some 0, ps_cooldown_until = None, ps_kill_switch = False, ps_ledger_reconciled = True,
     ps_assessed_at = seconds 20\<rparr>"

lemma desk_portfolio_read:
  "portfolio_state_from_paper empty_repo (seconds 20) sum_directional_spendable sum_directional_pnl = Inr desk_portfolio"
  by (simp add: portfolio_state_from_paper_def desk_summary desk_trades desk_account_fields desk_portfolio_def
    paper_cooldown_until_def consecutive_loss_limit_def portfolio_state_checks_def Let_def)

definition desk_risk :: risk_decision where
  "desk_risk = \<lparr>rd_id = ''risk:k1'', rd_candidate_id = ''k1'', rd_approved = True, rd_approved_capital = 3,
     rd_assessed_at = seconds 20, rd_reason_codes = []\<rparr>"

lemma desk_risk_ok: "desk_risk_decision desk_candidate desk_market desk_state desk_portfolio ''risk:k1'' = Inr desk_risk"
proof -
  have l: "\<exists>l. desk_liquidity desk_state = Inr (Some l) \<and> le_observed_at l = seconds 20 \<and> le_source_age l = seconds 1
      \<and> le_spread l = 1 / 10 \<and> le_executable_depth l = 20 \<and> le_required_depth l = 1 \<and> le_price_impact l = 0
      \<and> le_persistence_ratio l = 1 \<and> le_persistence_observations l = 1 \<and> le_sequence_valid l
      \<and> le_transport_healthy l \<and> le_fee_schedule_available l"
    by (simp add: desk_liquidity_def or_else_def desk_state_def desk_book_def Let_def liquidity_evidence_checks_def
      dsub_def ctx_eval seconds_def)
  then obtain l where l: "desk_liquidity desk_state = Inr (Some l)" "le_observed_at l = seconds 20"
    "le_source_age l = seconds 1" "le_spread l = 1 / 10" "le_executable_depth l = 20" "le_required_depth l = 1"
    "le_price_impact l = 0" "le_persistence_ratio l = 1" "le_persistence_observations l = 1" "le_sequence_valid l"
    "le_transport_healthy l" "le_fee_schedule_available l" by blast
  have "denial_reasons desk_candidate BTC FIVE_MINUTES (Some l) desk_portfolio desk_risk_policy (seconds 20) = []"
    by (simp add: denial_reasons_def state_reasons_def portfolio_reasons_def liquidity_reasons_def l
      active_exposures_def capital_sum_def dsum_def dec_op_defs ctx_eval Let_def desk_candidate_def desk_portfolio_def
      desk_risk_policy_def PAPER_INITIAL_EQUITY_USDC_def consecutive_loss_limit_def seconds_def)
  then have "assess_candidate desk_candidate BTC FIVE_MINUTES (Some l) desk_portfolio desk_risk_policy (seconds 20)
      ''risk:k1'' = Inr (decision_of desk_candidate [] (seconds 20) ''risk:k1'')"
    using assess_candidate_eq [OF desk_candidate_valid, of "''risk:k1''"] by (simp add: py_space_def)
  moreover have "decision_of desk_candidate [] (seconds 20) ''risk:k1'' = desk_risk"
    by (simp add: decision_of_def desk_risk_def desk_candidate_def)
  ultimately show ?thesis
    using l(1) by (simp add: desk_risk_decision_def desk_market_def) (simp add: desk_state_def)
qed

definition desk_plan :: execution_plan where
  "desk_plan = \<lparr>plan_id = ''plan:k1'', plan_decision_id = ''decision:k1'', plan_risk_decision_id = ''risk:k1'',
     plan_mode = PAPER, plan_intents = [\<lparr>oi_client_order_id = ''paper:k1:BUY:up'', oi_candidate_id = ''k1'',
       oi_strategy = DIRECTIONAL_EDGE, oi_market_id = ''m1'', oi_token_id = ''up'', oi_side = BUY, oi_quantity = 5,
       oi_limit_price = 3 / 5, oi_time_in_force = FAK, oi_created_at = seconds 20, oi_expires_at = seconds 25\<rparr>],
     plan_idempotency_key = ''paper-plan:k1'', plan_created_at = seconds 20, plan_expires_at = seconds 25\<rparr>"

lemma desk_plan_built:
  "build_directional_paper_plan desk_candidate desk_market desk_risk ''decision:k1'' 5 (3 / 5) (seconds 20) = Inr desk_plan"
  by (simp add: build_directional_paper_plan_def approved_checks_def desk_candidate_def desk_risk_def plan_token_id_def
    desk_market_def paper_intent_def mk_intent_def order_intent_checks_def paper_client_id_def paper_plan_def mk_plan_def
    execution_plan_checks_def desk_plan_def py_space_def seconds_def)

definition desk_evidence :: fill_evidence where
  "desk_evidence = \<lparr>fe_client_order_id = ''paper:k1:BUY:up'', fe_filled = 5, fe_average_price = Some (3 / 5),
     fe_fee = 0, fe_source_ts = seconds 20, fe_recv_ts = seconds 20\<rparr>"

lemma desk_evidence_valid: "passes (fill_evidence_checks desk_evidence)"
  by (simp add: fill_evidence_checks_def desk_evidence_def py_space_def)

lemma desk_plan_valid: "valid_plan desk_plan" "plan_mode desk_plan = PAPER"
  using built_plan_shape(1) [OF desk_plan_built] by (simp_all add: paper_built_def)

lemma desk_executed:
  "\<exists>r1 res. paper_execute empty_repo desk_plan [desk_evidence] (seconds 20) False True = (r1, Inr res)"
proof -
  have "execution_allowed desk_plan [desk_evidence] (seconds 20) False True"
    by (simp add: execution_allowed_def leg_acceptable_def desk_plan_def desk_evidence_def seconds_def)
  moreover have "\<forall>e\<in>set [desk_evidence]. valid_evidence e" using desk_evidence_valid by (simp add: valid_evidence_def)
  ultimately show ?thesis
    using execution_outcome [OF desk_plan_valid, of empty_repo "[desk_evidence]" "seconds 20" False True] by auto
qed

lemma saved_trade:
  assumes "passes (trade_checks t)" "repo_trades r = []" "repo_settlements r = []"
  shows "\<exists>r' v. save_trade_snapshot r t = (r', Inr v)"
proof -
  have "first_error (trade_checks t) = None" "require_text ''trade_id'' (ptr_id t) = None"
    using assms(1) trade_texts by (auto simp: passes_def)
  then show ?thesis
    by (simp add: save_trade_snapshot_def Let_def trade_by_id_def overlay_trade_def settlement_for_trade_def assms(2,3)
      row_insert_def del: require_text_None)
qed

lemma desk_books:
  "\<exists>r' rep. book_directional render empty_repo desk_state desk_call desk_market desk_candidate UP (3 / 5) (3 / 5) 5 0
     (brake_payload desk_brake) desk_risk = (r', Inr (True, rep, 0))"
proof -
  obtain r1 res where x: "paper_execute empty_repo desk_plan [desk_evidence] (seconds 20) False True = (r1, Inr res)"
    using desk_executed by blast
  let ?row = "directional_trade_row render desk_state desk_call desk_market desk_candidate UP (3 / 5) 5 0
    (brake_payload desk_brake) desk_risk desk_plan (px_fills res \<noteq> [])"
  have "passes (trade_checks ?row)"
    by (simp add: trade_checks_def directional_trade_row_def Let_def desk_plan_def desk_market_def py_space_def)
  then obtain r2 v where "save_trade_snapshot r1 ?row = (r2, Inr v)"
    using saved_trade paper_execute_effect [of empty_repo desk_plan "[desk_evidence]" "seconds 20" False True]
    by (simp add: x) blast
  moreover have "mk_evidence \<lparr>fe_client_order_id = oi_client_order_id (hd (plan_intents desk_plan)), fe_filled = 5,
      fe_average_price = Some (3 / 5), fe_fee = 0, fe_source_ts = seconds 20, fe_recv_ts = seconds 20\<rparr> = Inr desk_evidence"
    using desk_evidence_valid by (simp add: mk_evidence_def desk_plan_def desk_evidence_def)
  ultimately show ?thesis
    using desk_plan_built x
    by (simp add: book_directional_def Let_def) (simp add: desk_state_def desk_candidate_def)
qed

lemma desk_trades_once:
  "\<exists>r' rep. execute_directional_paper render empty_repo desk_state desk_call = (r', Inr (True, rep, 0))"
proof -
  obtain r' rep where b: "book_directional render empty_repo desk_state desk_call desk_market desk_candidate UP (3 / 5) (3 / 5) 5 0
     (brake_payload desk_brake) desk_risk = (r', Inr (True, rep, 0))" using desk_books by blast
  obtain d item where d: "route_opportunities [desk_opportunity] empty_snapshot (Some 40) directional_router_policy (seconds 20)
      = Inr d" "rdec_selected d = Some item" using desk_route by auto
  have opp: "mk_routing_opportunity \<lparr>ro_candidate = desk_candidate, ro_condition_id = mkt_condition_id desk_market,
      ro_token_ids = map tok_id (mkt_tokens desk_market), ro_score = 1, ro_certainty = 1\<rparr> = Inr desk_opportunity"
    using desk_opportunity_valid(1) by (simp add: mk_routing_opportunity_def desk_market_def desk_opportunity_def)
  have snap: "router_snapshot_from_paper empty_repo (seconds 20) = Inr empty_snapshot"
    by (simp add: router_snapshot_from_paper_def desk_trades mk_snapshot_def router_snapshot_checks_def empty_snapshot_def)
  have cap: "cand_required_capital desk_candidate = 3" "cand_id desk_candidate = ''k1''" by (simp_all add: desk_candidate_def)
  have now: "sms_observed_at desk_state = seconds 20" by (simp add: desk_state_def)
  have f: "fund_directional render empty_repo desk_state desk_call desk_market (desk_account (seconds 20)) desk_candidate UP
      (3 / 5) (3 / 5) 5 0 (brake_payload desk_brake) = (r', Inr (True, rep, 0))"
    using b d by (simp add: fund_directional_def Let_def now desk_account_fields paper_capital_gate_def cap opp snap
      desk_portfolio_read desk_risk_ok) (simp add: desk_risk_def)
  have "brake_directional render empty_repo desk_state desk_call desk_market desk_candidate UP desk_simulation (3 / 5) (3 / 5)
      = (r', Inr (True, rep, 0))"
    using f desk_reduced desk_brake_clear(1)
    by (simp add: brake_directional_def Let_def active_directional_conditions_def desk_trades now desk_summary
      desk_call_def flip: desk_brake_def)
  then show ?thesis
    by (simp add: execute_directional_paper_def Let_def desk_state_def desk_call_def market_lifecycle_reason_def
      desk_market_def desk_simulation_def seconds_def)
qed

lemma desk_call_priced: "priced_call desk_call"
  by (simp add: priced_call_def desk_call_def desk_simulation_def desk_candidate_def)

theorem directional_trade_passes_every_gate_witness:
  "\<exists>r' rep t. execute_directional_paper (\<lambda>_. []) empty_repo desk_state desk_call = (r', Inr (True, rep, 0))
     \<and> repo_trades r' = [(''paper-plan:k1'', t)] \<and> directional_row desk_market t"
proof -
  obtain r' rep where x: "execute_directional_paper (\<lambda>_. []) empty_repo desk_state desk_call = (r', Inr (True, rep, 0))"
    using desk_trades_once by blast
  have "directional_entry empty_repo r' desk_state desk_call desk_market desk_candidate"
    using directional_trade_passes_every_gate [OF rtranclp.rtrancl_refl desk_call_priced x]
    by (auto simp: desk_state_def desk_call_def)
  then show ?thesis
    using x by (auto simp: directional_entry_def booked_row_def row_insert_def desk_candidate_def)
qed

theorem directional_book_is_limited_witness:
  "\<exists>r t. (desk_step (\<lambda>_. []))\<^sup>*\<^sup>* empty_repo r \<and> repo_trades r = [(''paper-plan:k1'', t)]
     \<and> length (open_directional r) \<le> 4 \<and> distinct (map ptr_asset (open_directional r))
     \<and> router_snapshot_from_paper r 0 = Inr empty_snapshot"
proof -
  obtain r' rep where x: "execute_directional_paper (\<lambda>_. []) empty_repo desk_state desk_call = (r', Inr (True, rep, 0))"
    using desk_trades_once by blast
  then have run: "(desk_step (\<lambda>_. []))\<^sup>*\<^sup>* empty_repo r'"
    using desk_step.directional_entry_step [OF desk_call_priced, of "\<lambda>_. []" empty_repo desk_state] by auto
  have "booked_row m c empty_repo r' \<Longrightarrow> \<exists>t. repo_trades r' = [(''paper-plan:'' @ cand_id c, t)]" for m c
    by (auto simp: booked_row_def row_insert_def)
  then have "\<exists>t. repo_trades r' = [(''paper-plan:k1'', t)]"
    using execute_directional_effect(2) [OF rows_ok_history [OF rtranclp.rtrancl_refl] desk_call_priced x refl]
    by (fastforce simp: directional_entry_def desk_call_def desk_candidate_def)
  then show ?thesis using run directional_book_is_limited [OF run, of 0] by (auto simp: empty_snapshot_def)
qed

end
