(* ===== verification/Market_Pipeline.thy ===== *)
theory Market_Pipeline
  imports Temporal Paper_Trading Scheduler
begin

text \<open>
  \<open>PublicShadowDataClient\<close> of \<open>shadow/daemon.py\<close>: the collection of one bucket, from the discovery of its
  market to the features. Every fetch and every parse is a stage whose outcome is recorded; an expected
  market-data failure ends the stage, any other exception escapes. What the network answers, the clock
  readings and the resolution of the price to beat are the inputs of a collection; the rolling feature
  states are threaded through, since they change even when a later stage raises.
\<close>

section \<open>Stages\<close>

record pipeline_stage =
  bps_stage :: string
  bps_status :: string
  bps_at :: utc
  bps_error_type :: "string option"
  bps_reason :: "string option"

definition is_market_data_error :: "py_error \<Rightarrow> bool" where
  "is_market_data_error e \<longleftrightarrow> error_class e \<in> {''MarketDataSchemaError'', ''MarketDataStaleError'', ''SequenceGapError'',
     ''TransportExhaustedError'', ''BufferOverflowError'', ''CanonicalMarketError'', ''DiscoveryMismatchError'',
     ''ReferenceUnavailableError'', ''MarketDataError''}"

text \<open>\<open>client_error\<close> says which classes of the HTTP library derive from \<open>aiohttp.ClientError\<close>.\<close>

definition is_expected_market_data_failure :: "(string \<Rightarrow> bool) \<Rightarrow> py_error \<Rightarrow> bool" where
  "is_expected_market_data_failure client_error e \<longleftrightarrow> is_market_data_error e
     \<or> error_class e = ''PricingUnavailableError'' \<or> error_class e = ''TimeoutError''
     \<or> (case e of Library_Error c m \<Rightarrow> client_error c | _ \<Rightarrow> False)"

definition stage_failure_reason :: "string \<Rightarrow> py_error \<Rightarrow> string" where
  "stage_failure_reason stage e =
     (let name = (if stage = ''FEE_UP_FETCH'' \<or> stage = ''FEE_DOWN_FETCH'' then ''FEE_FETCH''
                  else if stage = ''FEE_UP_PARSE'' \<or> stage = ''FEE_DOWN_PARSE'' then ''FEE_PARSE'' else stage) in
      if error_class e = ''MarketDataSchemaError'' then ''MARKET_DATA_SCHEMA_ERROR:'' @ name
      else if is_market_data_error e then ''MARKET_DATA_ERROR:'' @ name
      else if error_class e = ''PricingUnavailableError'' then ''PRICING_UNAVAILABLE:'' @ name
      else if error_class e = ''TimeoutError'' then ''TRANSPORT_TIMEOUT:'' @ name
      else ''PUBLIC_DATA_UNAVAILABLE:'' @ name)"

definition failed_stage :: "string \<Rightarrow> utc \<Rightarrow> py_error \<Rightarrow> pipeline_stage" where
  "failed_stage stage t e = \<lparr>bps_stage = stage, bps_status = ''FAIL'', bps_at = t,
     bps_error_type = Some (error_class e), bps_reason = Some (stage_failure_reason stage e)\<rparr>"

definition plain_stage :: "string \<Rightarrow> string \<Rightarrow> utc \<Rightarrow> string option \<Rightarrow> pipeline_stage" where
  "plain_stage stage status t reason = \<lparr>bps_stage = stage, bps_status = status, bps_at = t,
     bps_error_type = None, bps_reason = reason\<rparr>"

definition first_failure_reason :: "pipeline_stage list \<Rightarrow> string option" where
  "first_failure_reason stages = (case find (\<lambda>s. bps_status s = ''FAIL'') stages of
     None \<Rightarrow> None
   | Some s \<Rightarrow> (case bps_reason s of
        None \<Rightarrow> Some (''STAGE_FAILED:'' @ bps_stage s)
      | Some r \<Rightarrow> Some (if r = [] then ''STAGE_FAILED:'' @ bps_stage s else r)))"

definition latest_stage_reason :: "pipeline_stage list \<Rightarrow> string \<Rightarrow> string option" where
  "latest_stage_reason stages name =
     (case find (\<lambda>s. bps_stage s = name \<and> bps_status s = ''FAIL'') (rev stages) of
        None \<Rightarrow> None | Some s \<Rightarrow> bps_reason s)"

text \<open>
  \<open>_stage\<close> and \<open>_stage_sync\<close>: the clock is read when the outcome is recorded; \<open>clock n\<close> is the reading of
  the stage that becomes number \<open>n\<close>. \<open>None\<close> is the value of a failed stage.
\<close>

definition run_stage :: "(string \<Rightarrow> bool) \<Rightarrow> (nat \<Rightarrow> utc) \<Rightarrow> string \<Rightarrow> 'a result \<Rightarrow> pipeline_stage list \<Rightarrow>
    pipeline_stage list \<times> 'a option result" where
  "run_stage client_error clock name outcome stages =
     (let t = clock (length stages) in
      case outcome of
        Inr v \<Rightarrow> (stages @ [plain_stage name ''PASS'' t None], Inr (Some v))
      | Inl e \<Rightarrow> if is_expected_market_data_failure client_error e then (stages @ [failed_stage name t e], Inr None)
                else (stages, Inl e))"

definition stage_then :: "pipeline_stage list \<times> 'a result \<Rightarrow> ('a \<Rightarrow> pipeline_stage list \<Rightarrow> pipeline_stage list \<times> 'b result) \<Rightarrow>
    pipeline_stage list \<times> 'b result" where
  "stage_then x f = (case x of (stages, Inl e) \<Rightarrow> (stages, Inl e) | (stages, Inr v) \<Rightarrow> f v stages)"

section \<open>The inputs of a collection\<close>

record pipeline_env =
  pe_vendor :: vendor_text
  pe_client_error :: "string \<Rightarrow> bool"
  pe_stage_clock :: "nat \<Rightarrow> utc"
  pe_fetch :: "string \<Rightarrow> json result"
  pe_receipt :: "string \<Rightarrow> receipt"
  pe_resolution :: "(market_discovery \<Rightarrow> ptb_resolution result) option"
  pe_chainlink :: "json option"
  pe_hourly :: "json option"
  pe_evaluated_at :: utc
  pe_show_dec :: "dec \<Rightarrow> string"

definition staged :: "pipeline_env \<Rightarrow> string \<Rightarrow> 'a result \<Rightarrow> pipeline_stage list \<Rightarrow> pipeline_stage list \<times> 'a option result" where
  "staged env name outcome stages = run_stage (pe_client_error env) (pe_stage_clock env) name outcome stages"

text \<open>A JSON \<open>null\<close> is Python's \<open>None\<close>, as if the fetch had given nothing.\<close>

definition given :: "json option \<Rightarrow> json option" where
  "given raw = (if raw = Some JNull then None else raw)"

definition fetch_then :: "pipeline_env \<Rightarrow> string \<Rightarrow> string \<Rightarrow> (json \<Rightarrow> 'a result) \<Rightarrow> pipeline_stage list \<Rightarrow>
    pipeline_stage list \<times> 'a option result" where
  "fetch_then env fetch parse f stages =
     stage_then (staged env fetch (pe_fetch env fetch) stages) (\<lambda>raw stages.
       case given raw of None \<Rightarrow> (stages, Inr None) | Some v \<Rightarrow> staged env parse (f v) stages)"

section \<open>Parsing\<close>

definition parse_discovery :: "vendor_text \<Rightarrow> market_bucket \<Rightarrow> receipt \<Rightarrow> json \<Rightarrow> market_discovery result" where
  "parse_discovery vt b rc raw =
     bindr (require_sequence (field_or_null raw ''markets'')) (\<lambda>markets. case markets of
       [m] \<Rightarrow> bindr (require_str raw ''id'') (\<lambda>event_id.
          parse_gamma_market_discovery vt m event_id (bkt_asset b) (bkt_horizon b) rc)
     | _ \<Rightarrow> schema_error ''canonical Gamma event must contain exactly one market'')"

definition parse_side_fee :: "vendor_text \<Rightarrow> market \<Rightarrow> outcome_side \<Rightarrow> receipt \<Rightarrow> json \<Rightarrow> fee_schedule result" where
  "parse_side_fee vt m side rc raw = (case token_by_side m side of
     None \<Rightarrow> Inl (KeyErr '''') | Some token \<Rightarrow> parse_fee_rate vt raw (mkt_condition_id m) token token rc)"

text \<open>\<open>int(str(value))\<close> of the update id.\<close>

definition depth_integer :: "vendor_text \<Rightarrow> json \<Rightarrow> int result" where
  "depth_integer vt v = (case v of
     JInt n \<Rightarrow> Inr n
   | JStr s \<Rightarrow> (case vt_int vt s of None \<Rightarrow> schema_error ''lastUpdateId was not an integer'' | Some n \<Rightarrow> Inr n)
   | _ \<Rightarrow> schema_error ''lastUpdateId was not an integer'')"

definition parse_proxy_depth :: "vendor_text \<Rightarrow> market \<Rightarrow> receipt \<Rightarrow> json \<Rightarrow> (reference \<times> top_of_book) result" where
  "parse_proxy_depth vt m rc raw =
     bindr (require_object raw) (\<lambda>payload. let now = rc_recv rc in
     bindr (depth_integer vt (field_or_null payload ''lastUpdateId'')) (\<lambda>u.
     bindr (require_sequence (field_or_null payload ''bids'')) (\<lambda>bids.
     bindr (require_sequence (field_or_null payload ''asks'')) (\<lambda>asks.
     bindr (parse_depth_top vt (JDict [(''e'', JStr ''depthUpdate''), (''E'', JInt (int_timestamp_ms now)),
         (''s'', JStr (binance_symbol (mkt_asset m))), (''U'', JInt u), (''u'', JInt u),
         (''b'', JList bids), (''a'', JList asks)]) (mkt_asset m) rc False) (\<lambda>(tob, first_update).
     bindr (mk_reference \<lparr>ref_id = ''proxy:'' @ mkt_condition_id m @ '':'' @ show_int (int_timestamp now),
         ref_market_id = mkt_id m, ref_asset = mkt_asset m,
         ref_value = ddiv (dadd (tob_bid_price tob) (tob_ask_price tob)) 2, ref_source = ''BINANCE_PUBLIC_DEPTH'',
         ref_source_ts = (case lin_source_ts (tob_lineage tob) of None \<Rightarrow> now | Some t \<Rightarrow> t),
         ref_recv_ts = lin_recv_ts (tob_lineage tob), ref_effective_ts = lin_normalized_ts (tob_lineage tob)\<rparr>)
       (\<lambda>proxy. Inr (proxy, tob)))))))"

definition parse_latest_trade :: "vendor_text \<Rightarrow> market \<Rightarrow> receipt \<Rightarrow> json \<Rightarrow> crypto_trade option result" where
  "parse_latest_trade vt m rc raw =
     bindr (require_sequence raw) (\<lambda>rows. if rows = [] then Inr None
       else bindr (require_object (last rows)) (\<lambda>row.
         bindr (parse_rest_aggregate_trade vt row (mkt_asset m) rc) (\<lambda>t. Inr (Some t))))"

section \<open>The market and its state\<close>

record shadow_state = market_state +
  sst_proxy :: "reference option"
  sst_official :: "official_reference option"
  sst_unavailable :: "string option"
  sst_ptb_status :: string
  sst_ptb_reason :: string
  sst_feature_status :: string
  sst_feature_diagnostics :: "json option"
  sst_chainlink :: "json option"
  sst_hourly :: "json option"
  sst_stages :: "pipeline_stage list"
  sst_diagnostic_features :: "feature_vector option"
  sst_comparison :: "json option"

definition base_state :: "shadow_state \<Rightarrow> market_state" where
  "base_state st = market_state.truncate st"

definition discover_with_stages :: "pipeline_env \<Rightarrow> market_bucket \<Rightarrow> pipeline_stage list \<Rightarrow>
    pipeline_stage list \<times> market_discovery option result" where
  "discover_with_stages env b stages =
     stage_then (fetch_then env ''GAMMA_FETCH'' ''GAMMA_PARSE'' require_object stages) (\<lambda>raw stages.
       case raw of None \<Rightarrow> (stages, Inr None)
       | Some v \<Rightarrow> staged env ''GAMMA_PARSE'' (parse_discovery (pe_vendor env) b (pe_receipt env ''GAMMA_PARSE'') v) stages)"

text \<open>The discovery alone, as the scheduler of the reference prices asks for it.\<close>

definition discover_market :: "pipeline_env \<Rightarrow> market_bucket \<Rightarrow> market_discovery result" where
  "discover_market env b = (case discover_with_stages env b [] of
     (stages, Inl e) \<Rightarrow> Inl e
   | (stages, Inr (Some d)) \<Rightarrow> Inr d
   | (stages, Inr None) \<Rightarrow> Inl (Library_Error ''MarketDataError'' (case first_failure_reason stages of
        None \<Rightarrow> ''MARKET_NOT_AVAILABLE'' | Some r \<Rightarrow> if r = [] then ''MARKET_NOT_AVAILABLE'' else r)))"

definition unavailable_state :: "market_bucket \<Rightarrow> pipeline_stage list \<Rightarrow> string \<Rightarrow> utc \<Rightarrow> shadow_state" where
  "unavailable_state b stages reason t =
     (let failure = (case first_failure_reason stages of None \<Rightarrow> reason | Some r \<Rightarrow> if r = [] then reason else r) in
      \<lparr>sms_bucket = b, sms_discovery = None, sms_up_book = None, sms_down_book = None, sms_fee_schedule = None,
       sms_up_fee = None, sms_down_fee = None, sms_observed_at = t, sms_price_to_beat = None, sms_features = None,
       sst_proxy = None, sst_official = None, sst_unavailable = Some failure, sst_ptb_status = ''PTB_UNAVAILABLE'',
       sst_ptb_reason = failure, sst_feature_status = ''FEATURES_UNAVAILABLE'', sst_feature_diagnostics = None,
       sst_chainlink = None, sst_hourly = None, sst_stages = stages, sst_diagnostic_features = None,
       sst_comparison = None\<rparr>)"

definition shared_fee_schedule :: "fee_schedule option \<Rightarrow> fee_schedule option \<Rightarrow> fee_schedule option" where
  "shared_fee_schedule up down = (case (up, down) of
     (Some u, Some d) \<Rightarrow> if fs_taker_base_bps u \<noteq> fs_taker_base_bps d then None else Some u
   | _ \<Rightarrow> None)"


section \<open>Features\<close>

definition feature_schema_version :: string where
  "feature_schema_version = ''v3.15.3-directional-official-ptb''"

definition comparator_version :: string where
  "comparator_version = ''P2.1_TEMPORAL_COMPARATOR_V1''"

type_synonym feature_report = "feature_vector option \<times> string \<times> json option"

definition build_daemon_features :: "market \<Rightarrow> reference \<Rightarrow> ptb_record option \<Rightarrow> utc \<Rightarrow> temporal_state option \<Rightarrow>
    temporal_state option \<times> feature_report result" where
  "build_daemon_features m proxy ptb t fs =
     (case ptb of
        None \<Rightarrow> (fs, Inr (None, ''OFFICIAL_PTB_UNAVAILABLE'', None))
      | Some p \<Rightarrow> (case fs of
          None \<Rightarrow> (None, Inr (None, ''FEATURE_STATE_UNAVAILABLE'', None))
        | Some s \<Rightarrow> (case build_snapshot (mkt_asset m) (Proxy proxy) t s of (s', x) \<Rightarrow>
            (Some s', bindr x (\<lambda>r. case tr_snapshot r of
               None \<Rightarrow> Inr (None, tr_reason r, Some (tr_diagnostics r))
             | Some snap \<Rightarrow> bindr (build_directional_features m p snap t feature_schema_version)
                 (\<lambda>v. Inr (Some v, tr_reason r, Some (tr_diagnostics r))))))))"

definition comparator_fields :: "string list" where
  "comparator_fields = [''short_return'', ''medium_return'', ''momentum'', ''realized_volatility'',
     ''volatility_acceleration'', ''trade_imbalance'', ''external_book_imbalance'', ''microprice_distance'',
     ''flip_rate'', ''signal_stability'', ''regime_score'']"

definition opt_text :: "('a \<Rightarrow> string) \<Rightarrow> 'a option \<Rightarrow> json" where
  "opt_text f v = (case v of None \<Rightarrow> JNull | Some x \<Rightarrow> JStr (f x))"

definition feature_delta_payload :: "(dec \<Rightarrow> string) \<Rightarrow> feature_vector option \<Rightarrow> feature_vector option \<Rightarrow> json" where
  "feature_delta_payload show_dec legacy diagnostic = (case (legacy, diagnostic) of
     (Some l, Some d) \<Rightarrow> JDict [(''status'', JStr ''FEATURE_COMPARISON_READY''),
       (''features'', JDict (map (\<lambda>k. let x = feature_map l k; y = feature_map d k in
          (k, JDict [(''legacy'', opt_text show_dec x), (''diagnostic'', opt_text show_dec y),
            (''absolute_delta'', case (x, y) of (Some u, Some w) \<Rightarrow> JStr (show_dec (dabs (dsub u w))) | _ \<Rightarrow> JNull)]))
        comparator_fields))]
   | _ \<Rightarrow> JDict [(''status'', JStr ''FEATURE_COMPARISON_UNAVAILABLE''), (''features'', JDict [])])"

definition or_empty :: "json option \<Rightarrow> json" where
  "or_empty v = (case v of None \<Rightarrow> JDict [] | Some x \<Rightarrow> x)"

text \<open>The same features from the deduplicated history, and how they differ from the ones used.\<close>

definition feature_comparison :: "(dec \<Rightarrow> string) \<Rightarrow> market \<Rightarrow> reference \<Rightarrow> ptb_record option \<Rightarrow> utc \<Rightarrow> feature_report \<Rightarrow>
    temporal_state option \<Rightarrow> temporal_state option \<times> (feature_vector option \<times> json option) result" where
  "feature_comparison show_dec m proxy ptb t legacy ds =
     (case ds of None \<Rightarrow> (None, Inr (None, None))
      | Some s \<Rightarrow> (case build_daemon_features m proxy ptb t ds of (ds', x) \<Rightarrow>
         (ds', bindr x (\<lambda>(features, status, diag). case legacy of (legacy_features, legacy_status, legacy_diag) \<Rightarrow>
           Inr (features, Some (JDict
            [(''version'', JStr comparator_version),
             (''production_feature_schema_version'', JStr feature_schema_version),
             (''diagnostic_feature_schema_version'', JStr comparator_version),
             (''production_semantics'', JStr ''legacy_append_all''),
             (''diagnostic_semantics'', JStr ''source_identity_dedup''),
             (''same_evaluation_timestamp'', JBool True), (''counterfactual_execution'', JBool False),
             (''legacy_feature_status'', JStr legacy_status), (''diagnostic_feature_status'', JStr status),
             (''legacy_diagnostics'', or_empty legacy_diag), (''diagnostic_diagnostics'', or_empty diag),
             (''feature_deltas'', feature_delta_payload show_dec legacy_features features)]))))))"

section \<open>One bucket\<close>

record feature_states =
  fts_main :: "temporal_state option"
  fts_diagnostic :: "temporal_state option"

definition observe_external :: "reference option \<Rightarrow> top_of_book option \<Rightarrow> crypto_trade option \<Rightarrow>
    temporal_state \<Rightarrow> temporal_state" where
  "observe_external proxy book trade s = (case (proxy, book) of
     (Some p, Some b) \<Rightarrow> (let s' = add_book b (add_reference (Proxy p) s) in
        case trade of None \<Rightarrow> s' | Some t \<Rightarrow> add_trade t s')
   | _ \<Rightarrow> s)"

definition observe_states :: "reference option \<Rightarrow> top_of_book option \<Rightarrow> crypto_trade option \<Rightarrow>
    feature_states \<Rightarrow> feature_states" where
  "observe_states proxy book trade fts =
     \<lparr>fts_main = map_option (observe_external proxy book trade) (fts_main fts),
      fts_diagnostic = map_option (observe_external proxy book trade) (fts_diagnostic fts)\<rparr>"

text \<open>What the stages before the evaluation give for a discovered market.\<close>

record collected =
  cd_resolution :: ptb_resolution
  cd_up_book :: "polymarket_book option"
  cd_down_book :: "polymarket_book option"
  cd_up_fee :: "fee_schedule option"
  cd_down_fee :: "fee_schedule option"
  cd_proxy :: "reference option"
  cd_book :: "top_of_book option"
  cd_trade :: "crypto_trade option"

definition service_absent :: ptb_resolution where
  "service_absent = \<lparr>pr_ptb = None, pr_reference = None, pr_status = ''PTB_UNAVAILABLE'',
     pr_reason = ''OFFICIAL_SERVICE_ABSENT'', pr_restored = False\<rparr>"

definition resolve_ptb :: "pipeline_env \<Rightarrow> market_discovery \<Rightarrow> ptb_resolution result" where
  "resolve_ptb env d = (case pe_resolution env of None \<Rightarrow> Inr service_absent | Some f \<Rightarrow> f d)"

definition resolution_or_failed :: "ptb_resolution option \<Rightarrow> pipeline_stage list \<Rightarrow> ptb_resolution" where
  "resolution_or_failed res stages = (case res of
     Some x \<Rightarrow> x
   | None \<Rightarrow> \<lparr>pr_ptb = None, pr_reference = None, pr_status = ''PTB_UNAVAILABLE'',
       pr_reason = (case latest_stage_reason stages ''OFFICIAL_PTB_RESOLVE'' of
          None \<Rightarrow> ''OFFICIAL_PTB_UNAVAILABLE''
        | Some r \<Rightarrow> if r = [] then ''OFFICIAL_PTB_UNAVAILABLE'' else r), pr_restored = False\<rparr>)"

definition collect_inputs :: "pipeline_env \<Rightarrow> market_discovery \<Rightarrow> pipeline_stage list \<Rightarrow>
    pipeline_stage list \<times> collected result" where
  "collect_inputs env d stages = (let m = md_market d; vt = pe_vendor env; rc = pe_receipt env in
     stage_then (staged env ''OFFICIAL_PTB_RESOLVE'' (resolve_ptb env d) stages) (\<lambda>res stages.
     let resolution = resolution_or_failed res stages in
     stage_then (fetch_then env ''CLOB_UP_BOOK_FETCH'' ''CLOB_UP_BOOK_PARSE''
        (\<lambda>v. parse_clob_book vt v (rc ''CLOB_UP_BOOK_PARSE'')) stages) (\<lambda>up_book stages.
     stage_then (fetch_then env ''CLOB_DOWN_BOOK_FETCH'' ''CLOB_DOWN_BOOK_PARSE''
        (\<lambda>v. parse_clob_book vt v (rc ''CLOB_DOWN_BOOK_PARSE'')) stages) (\<lambda>down_book stages.
     stage_then (fetch_then env ''FEE_UP_FETCH'' ''FEE_UP_PARSE''
        (parse_side_fee vt m UP (rc ''FEE_UP_PARSE'')) stages) (\<lambda>up_fee stages.
     stage_then (fetch_then env ''FEE_DOWN_FETCH'' ''FEE_DOWN_PARSE''
        (parse_side_fee vt m DOWN (rc ''FEE_DOWN_PARSE'')) stages) (\<lambda>down_fee stages.
     stage_then (fetch_then env ''BINANCE_DEPTH_FETCH'' ''BINANCE_DEPTH_PARSE''
        (parse_proxy_depth vt m (rc ''BINANCE_DEPTH_PARSE'')) stages) (\<lambda>depth stages.
     stage_then (fetch_then env ''BINANCE_TRADE_FETCH'' ''BINANCE_TRADE_PARSE''
        (parse_latest_trade vt m (rc ''BINANCE_TRADE_PARSE'')) stages) (\<lambda>trade stages.
     (stages, Inr \<lparr>cd_resolution = resolution, cd_up_book = up_book, cd_down_book = down_book, cd_up_fee = up_fee,
        cd_down_fee = down_fee, cd_proxy = map_option fst depth, cd_book = map_option snd depth,
        cd_trade = Option.bind trade (\<lambda>t. t)\<rparr>)))))))))"

text \<open>The state of a collected market, up to its features.\<close>

definition collected_state :: "pipeline_env \<Rightarrow> market_bucket \<Rightarrow> market_discovery \<Rightarrow> collected \<Rightarrow> pipeline_stage list \<Rightarrow>
    string option \<Rightarrow> feature_report \<Rightarrow> feature_vector option \<times> json option \<Rightarrow> shadow_state" where
  "collected_state env b d c stages reason report comparison =
     (case (report, comparison) of ((features, status, diag), (diagnostic_features, cmp)) \<Rightarrow>
      \<lparr>sms_bucket = b, sms_discovery = Some d, sms_up_book = cd_up_book c, sms_down_book = cd_down_book c,
       sms_fee_schedule = shared_fee_schedule (cd_up_fee c) (cd_down_fee c), sms_up_fee = cd_up_fee c,
       sms_down_fee = cd_down_fee c, sms_observed_at = pe_evaluated_at env,
       sms_price_to_beat = pr_ptb (cd_resolution c), sms_features = features,
       sst_proxy = cd_proxy c, sst_official = pr_reference (cd_resolution c), sst_unavailable = reason,
       sst_ptb_status = pr_status (cd_resolution c), sst_ptb_reason = pr_reason (cd_resolution c),
       sst_feature_status = status, sst_feature_diagnostics = diag, sst_chainlink = pe_chainlink env,
       sst_hourly = pe_hourly env, sst_stages = stages, sst_diagnostic_features = diagnostic_features,
       sst_comparison = cmp\<rparr>)"

definition evaluate_collected :: "pipeline_env \<Rightarrow> market_bucket \<Rightarrow> market_discovery \<Rightarrow> collected \<Rightarrow> pipeline_stage list \<Rightarrow>
    feature_states \<Rightarrow> feature_states \<times> shadow_state result" where
  "evaluate_collected env b d c stages fts0 =
     (let fts = observe_states (cd_proxy c) (cd_book c) (cd_trade c) fts0;
          m = md_market d; t = pe_evaluated_at env; ptb = pr_ptb (cd_resolution c);
          no_features = (None, ''FEATURES_UNAVAILABLE'', None) in
      case market_lifecycle_reason m t of
        Some reason \<Rightarrow>
          (let stages' = stages @ [plain_stage ''FEATURE_BUILD'' ''SKIPPED'' t (Some reason)] in
           (fts, Inr (collected_state env b d c stages' (Some reason) (None, reason, None) (None, None))))
      | None \<Rightarrow> (case cd_proxy c of
          None \<Rightarrow>
            (let stages' = stages @ [plain_stage ''FEATURE_BUILD'' ''SKIPPED'' (pe_stage_clock env (length stages))
                  (Some ''PROXY_UNAVAILABLE'')] in
             (fts, Inr (collected_state env b d c stages' (first_failure_reason stages') no_features (None, None))))
        | Some proxy \<Rightarrow> (case build_daemon_features m proxy ptb t (fts_main fts) of (fs, outcome) \<Rightarrow>
            (case staged env ''FEATURE_BUILD'' outcome stages of
               (stages', Inl e) \<Rightarrow> (fts\<lparr>fts_main := fs\<rparr>, Inl e)
             | (stages', Inr x) \<Rightarrow>
                (let report = (case x of None \<Rightarrow> no_features | Some y \<Rightarrow> y) in
                 case feature_comparison (pe_show_dec env) m proxy ptb t report (fts_diagnostic fts) of
                   (ds, Inl e) \<Rightarrow> (\<lparr>fts_main = fs, fts_diagnostic = ds\<rparr>, Inl e)
                 | (ds, Inr cmp) \<Rightarrow> (\<lparr>fts_main = fs, fts_diagnostic = ds\<rparr>,
                     Inr (collected_state env b d c stages' (first_failure_reason stages') report cmp)))))))"

definition collect_bucket :: "pipeline_env \<Rightarrow> market_bucket \<Rightarrow> utc \<Rightarrow> feature_states \<Rightarrow>
    feature_states \<times> shadow_state result" where
  "collect_bucket env b now fts =
     (case window_containing b now of
        Inl e \<Rightarrow> (fts, Inl e)
      | Inr w \<Rightarrow> (case discover_with_stages env b [] of
          (stages, Inl e) \<Rightarrow> (fts, Inl e)
        | (stages, Inr None) \<Rightarrow>
            (fts, Inr (unavailable_state b stages ''MARKET_NOT_AVAILABLE'' (pe_stage_clock env (length stages))))
        | (stages, Inr (Some d)) \<Rightarrow> (case collect_inputs env d stages of
            (stages', Inl e) \<Rightarrow> (fts, Inl e)
          | (stages', Inr c) \<Rightarrow> evaluate_collected env b d c stages' fts)))"

section \<open>What a stage gives\<close>

lemma stage_then_Inr: "stage_then x f = (stages', Inr y) \<longleftrightarrow>
    (\<exists>stages v. x = (stages, Inr v) \<and> f v stages = (stages', Inr y))"
  by (auto simp: stage_then_def split: prod.splits sum.splits)

lemma staged_value: "staged env name outcome stages = (stages', Inr (Some v)) \<Longrightarrow> outcome = Inr v"
  by (auto simp: staged_def run_stage_def Let_def split: sum.splits if_splits)

lemma fetch_then_value:
  assumes "fetch_then env a b f stages = (stages', Inr (Some x))"
  obtains v where "pe_fetch env a = Inr v" "f v = Inr x"
  using assms that
  by (auto simp: fetch_then_def stage_then_Inr given_def split: option.splits if_splits dest!: staged_value)

text \<open>A recorded failure always has a reason, so the first one is reported.\<close>

lemma first_failure_None: "first_failure_reason stages = None \<longleftrightarrow> (\<forall>s\<in>set stages. bps_status s \<noteq> ''FAIL'')"
  by (cases "find (\<lambda>s. bps_status s = ''FAIL'') stages")
     (force simp: first_failure_reason_def find_None_iff find_Some_iff split: option.splits)+

text \<open>The external data of a collection satisfies its contracts.\<close>

lemma mk_top_of_book_valid: "mk_top_of_book t = Inr t' \<Longrightarrow> valid_top_of_book t'"
  by (auto simp: mk_top_of_book_def valid_top_of_book_def checked_Inr_iff)

lemma mk_crypto_trade_valid: "mk_crypto_trade t = Inr t' \<Longrightarrow> valid_crypto_trade t'"
  by (auto simp: mk_crypto_trade_def valid_crypto_trade_def checked_Inr_iff)

lemma parse_depth_top_valid: "parse_depth_top vt raw a rc perpetual = Inr (t, n) \<Longrightarrow> valid_top_of_book t"
  by (auto simp: parse_depth_top_def bindr_Inr_iff split: if_splits dest!: mk_top_of_book_valid)

lemma parse_proxy_depth_valid:
  "parse_proxy_depth vt m rc raw = Inr (proxy, tob) \<Longrightarrow> valid_reference proxy \<and> valid_top_of_book tob"
  by (auto simp: parse_proxy_depth_def bindr_Inr_iff Let_def mk_reference_def valid_reference_def checked_Inr_iff
    dest!: parse_depth_top_valid)

lemma parse_latest_trade_valid: "parse_latest_trade vt m rc raw = Inr (Some t) \<Longrightarrow> valid_crypto_trade t"
  by (auto simp: parse_latest_trade_def parse_rest_aggregate_trade_def bindr_Inr_iff split: if_splits
    dest!: mk_crypto_trade_valid)

text \<open>
  The proxy price with its book is what the depth endpoint answered, the trade what the trade endpoint did;
  a proxy and a book are collected together.
\<close>

definition answered_depth :: "pipeline_env \<Rightarrow> market \<Rightarrow> reference \<Rightarrow> top_of_book \<Rightarrow> bool" where
  "answered_depth env m p b \<longleftrightarrow> (\<exists>raw. pe_fetch env ''BINANCE_DEPTH_FETCH'' = Inr raw
     \<and> parse_proxy_depth (pe_vendor env) m (pe_receipt env ''BINANCE_DEPTH_PARSE'') raw = Inr (p, b))"

definition answered_trade :: "pipeline_env \<Rightarrow> market \<Rightarrow> crypto_trade \<Rightarrow> bool" where
  "answered_trade env m t \<longleftrightarrow> (\<exists>raw. pe_fetch env ''BINANCE_TRADE_FETCH'' = Inr raw
     \<and> parse_latest_trade (pe_vendor env) m (pe_receipt env ''BINANCE_TRADE_PARSE'') raw = Inr (Some t))"

definition answered :: "pipeline_env \<Rightarrow> market \<Rightarrow> collected \<Rightarrow> bool" where
  "answered env m c \<longleftrightarrow> (case (cd_proxy c, cd_book c) of
       (Some p, Some b) \<Rightarrow> answered_depth env m p b | (None, None) \<Rightarrow> True | _ \<Rightarrow> False)
     \<and> pred_option (answered_trade env m) (cd_trade c)"

lemma answered_depth_valid: "answered_depth env m p b \<Longrightarrow> valid_reference p \<and> valid_top_of_book b"
  by (auto simp: answered_depth_def dest: parse_proxy_depth_valid)

lemma answered_trade_valid: "answered_trade env m t \<Longrightarrow> valid_crypto_trade t"
  by (auto simp: answered_trade_def dest: parse_latest_trade_valid)

lemma collect_inputs_answered:
  assumes "collect_inputs env d stages = (stages', Inr c)" shows "answered env (md_market d) c"
proof -
  obtain depth trade s1 s2 s3 s4 where
    depth: "fetch_then env ''BINANCE_DEPTH_FETCH'' ''BINANCE_DEPTH_PARSE''
      (parse_proxy_depth (pe_vendor env) (md_market d) (pe_receipt env ''BINANCE_DEPTH_PARSE'')) s1 = (s2, Inr depth)"
    and trade: "fetch_then env ''BINANCE_TRADE_FETCH'' ''BINANCE_TRADE_PARSE''
      (parse_latest_trade (pe_vendor env) (md_market d) (pe_receipt env ''BINANCE_TRADE_PARSE'')) s3 = (s4, Inr trade)"
    and c: "cd_proxy c = map_option fst depth" "cd_book c = map_option snd depth" "cd_trade c = Option.bind trade (\<lambda>t. t)"
    using assms unfolding collect_inputs_def Let_def stage_then_Inr by force
  have "answered_depth env (md_market d) p b" if "depth = Some (p, b)" for p b
    using depth that by (auto simp: answered_depth_def elim!: fetch_then_value)
  moreover have "answered_trade env (md_market d) t" if "trade = Some (Some t)" for t
    using trade that by (auto simp: answered_trade_def elim!: fetch_then_value)
  ultimately show ?thesis by (cases depth; cases trade; cases "the trade") (auto simp: answered_def c)
qed

section \<open>The rolling states\<close>

definition states_ok :: "feature_states \<Rightarrow> bool" where
  "states_ok fts \<longleftrightarrow> (\<forall>s\<in>set_option (fts_main fts) \<union> set_option (fts_diagnostic fts). temporal_reachable s)"

lemma observe_external_reachable:
  assumes "temporal_reachable s" "answered env m c"
  shows "temporal_reachable (observe_external (cd_proxy c) (cd_book c) (cd_trade c) s)"
  using assms answered_depth_valid [of env m] answered_trade_valid [of env m]
  by (auto simp: observe_external_def answered_def Let_def intro!: temporal_reachable.trade_added
    temporal_reachable.book_added temporal_reachable.reference_added split: option.splits)

lemma observe_states_ok: "states_ok fts \<Longrightarrow> answered env m c \<Longrightarrow>
    states_ok (observe_states (cd_proxy c) (cd_book c) (cd_trade c) fts)"
  by (auto simp: states_ok_def observe_states_def observe_external_reachable)

lemma reachable_prune: "temporal_reachable s \<Longrightarrow> temporal_reachable (prune a t s)"
  using temporal_reachable.snapshot_built [of s a] by simp

text \<open>
  The features of a report, one by one: they are those of the history of before, to which the proxy price, the
  book and the trade that the network answered were added and whose stale front was dropped.
\<close>

definition vector_of :: "market \<Rightarrow> reference \<Rightarrow> ptb_record \<Rightarrow> utc \<Rightarrow> external_snapshot \<Rightarrow> feature_vector \<Rightarrow> bool" where
  "vector_of m proxy p t x v \<longleftrightarrow>
     fvec_market_id v = mkt_id m \<and> fvec_asset v = mkt_asset m \<and> fvec_horizon v = mkt_horizon m
     \<and> fvec_version v = ''v3.15.3-directional-official-ptb'' \<and> fvec_generated_at v = t
     \<and> map (\<lambda>f. (feat_name f, feat_value f)) (fvec_features v) =
         [(''ptb_normalized_distance'', ddiv (dsub (ref_value proxy) (ptb_value p)) (ptb_value p)),
          (''tte_fraction'', decimal_of_float (fl (of_int (mkt_window_end m - t) / of_int (expected_duration (mkt_horizon m))))),
          (''short_return'', xs_short_return x), (''medium_return'', xs_medium_return x), (''momentum'', xs_momentum x),
          (''realized_volatility'', xs_volatility x), (''volatility_acceleration'', xs_volatility_acceleration x),
          (''spot_perp_basis'', xs_basis x), (''external_book_imbalance'', xs_book_imbalance x),
          (''microprice_distance'', xs_microprice_distance x), (''trade_imbalance'', xs_trade_imbalance x),
          (''signal_stability'', xs_stability x), (''flip_rate'', xs_flip_rate x), (''regime_score'', xs_regime x)]
     \<and> list_all (\<lambda>f. feat_source f = ''external-temporal-state-v1'' \<and> feat_source_ts f = xs_source_ts x) (fvec_features v)
     \<and> ref_market_id (ptb_reference p) = mkt_id m \<and> ptb_condition_id p = mkt_condition_id m
     \<and> ref_market_id proxy = mkt_id m \<and> ref_asset proxy = mkt_asset m"

definition snapshot_grounded :: "market \<Rightarrow> reference \<Rightarrow> ptb_record option \<Rightarrow> utc \<Rightarrow> temporal_state \<Rightarrow> feature_vector \<Rightarrow> bool" where
  "snapshot_grounded m proxy ptb t s v \<longleftrightarrow> (\<exists>p x. ptb = Some p \<and>
     snapshot_evidence s (mkt_asset m) (Proxy proxy) t \<and> snapshot_bounds s (mkt_asset m) (Proxy proxy) t x \<and>
     snapshot_values s (mkt_asset m) (Proxy proxy) x \<and> vector_of m proxy p t x v)"

definition grounded :: "pipeline_env \<Rightarrow> market \<Rightarrow> reference \<Rightarrow> ptb_record option \<Rightarrow> utc \<Rightarrow> temporal_state option \<Rightarrow>
    temporal_state option \<Rightarrow> feature_vector \<Rightarrow> bool" where
  "grounded env m proxy ptb t fs0 fs1 v \<longleftrightarrow> (\<exists>s0 b trade. fs0 = Some s0 \<and> answered_depth env m proxy b
     \<and> pred_option (answered_trade env m) trade
     \<and> (let s1 = add_book b (add_reference (Proxy proxy) s0);
            s = prune (mkt_asset m) t (case trade of None \<Rightarrow> s1 | Some w \<Rightarrow> add_trade w s1) in
        fs1 = Some s \<and> snapshot_grounded m proxy ptb t s v))"

lemma groundedI:
  assumes "fs0 = Some s0" "answered_depth env m proxy b" "pred_option (answered_trade env m) trade"
    and s: "s = (case trade of None \<Rightarrow> add_book b (add_reference (Proxy proxy) s0)
        | Some w \<Rightarrow> add_trade w (add_book b (add_reference (Proxy proxy) s0)))"
    and "fs1 = Some (prune (mkt_asset m) t s)" "snapshot_grounded m proxy ptb t (prune (mkt_asset m) t s) v"
  shows "grounded env m proxy ptb t fs0 fs1 v"
  unfolding grounded_def Let_def s [symmetric] using assms
  by (intro exI [of _ s0] exI [of _ b] exI [of _ trade]) (simp only: s [symmetric] simp_thms)

lemma build_directional_features_vector:
  assumes "build_directional_features m p x t feature_schema_version = Inr v" "xs_reference x = Proxy proxy"
    "xs_source x = ''external-temporal-state-v1''"
  shows "vector_of m proxy p t x v"
proof -
  have mk: "mapr (\<lambda>(name, v). mk_feature_value \<lparr>feat_name = name, feat_value = v, feat_source = src, feat_source_ts = ts\<rparr>) kvs
      = Inr fs \<Longrightarrow> fs = map (\<lambda>(name, v). \<lparr>feat_name = name, feat_value = v, feat_source = src, feat_source_ts = ts\<rparr>) kvs"
    for src ts kvs fs
    by (induction kvs arbitrary: fs) (auto simp: bindr_Inr_iff mk_feature_value_def checked_Inr_iff)
  obtain fs where fs: "mapr (\<lambda>(name, v). mk_feature_value \<lparr>feat_name = name, feat_value = v, feat_source = xs_source x,
        feat_source_ts = xs_source_ts x\<rparr>)
        (external_feature_values (ddiv (dsub (ref_value (any_fields (xs_reference x))) (ptb_value p)) (ptb_value p))
          (decimal_of_float (fl (of_int (mkt_window_end m - t) / of_int (expected_duration (mkt_horizon m))))) x) = Inr fs"
    and v: "mk_feature_vector \<lparr>fvec_market_id = mkt_id m, fvec_asset = mkt_asset m, fvec_horizon = mkt_horizon m,
        fvec_version = feature_schema_version, fvec_features = fs, fvec_generated_at = t\<rparr> = Inr v"
    and ids: "ref_market_id (ptb_reference p) = mkt_id m" "ptb_condition_id p = mkt_condition_id m"
      "ref_market_id proxy = mkt_id m" "ref_asset proxy = mkt_asset m"
    using assms(1,2) unfolding build_directional_features_def Let_def checked_Inr_iff bindr_Inr_iff by auto
  have "v = \<lparr>fvec_market_id = mkt_id m, fvec_asset = mkt_asset m, fvec_horizon = mkt_horizon m,
      fvec_version = feature_schema_version, fvec_features = fs, fvec_generated_at = t\<rparr>"
    using v by (simp add: mk_feature_vector_def checked_Inr_iff)
  then show ?thesis
    using ids assms(2,3) by (simp add: vector_of_def mk [OF fs] external_feature_values_def feature_schema_version_def)
qed

lemma build_daemon_features_ok:
  assumes "\<forall>s\<in>set_option fs. temporal_reachable s" "build_daemon_features m proxy ptb t fs = (fs', r)"
  shows "\<forall>s\<in>set_option fs'. temporal_reachable s" "r = Inr (Some v, status, diag) \<Longrightarrow> (\<exists>s. fs = Some s \<and> fs' = Some (prune (mkt_asset m) t s) \<and> snapshot_grounded m proxy ptb t (prune (mkt_asset m) t s) v)"
proof -
  have "(\<forall>s\<in>set_option fs'. temporal_reachable s) \<and>
      (\<forall>v status diag. r = Inr (Some v, status, diag) \<longrightarrow> (\<exists>s. fs = Some s \<and> fs' = Some (prune (mkt_asset m) t s) \<and> snapshot_grounded m proxy ptb t (prune (mkt_asset m) t s) v))"
  proof (cases "ptb = None \<or> fs = None")
    case True
    then show ?thesis using assms by (auto simp: build_daemon_features_def split: option.splits)
  next
    case False
    then obtain p s where ps: "ptb = Some p" "fs = Some s" by auto
    have s: "temporal_reachable s" using assms(1) ps by simp
    obtain y where y: "build_snapshot (mkt_asset m) (Proxy proxy) t s = (prune (mkt_asset m) t s, Inr y)"
      "snapshot_promise (prune (mkt_asset m) t s) (mkt_asset m) (Proxy proxy) t y"
      using snapshot_of_total [OF reachable_history_ok [OF reachable_prune [OF s, of "mkt_asset m" t]],
        of "mkt_asset m" "Proxy proxy" t]
      by (auto simp: build_snapshot_def Let_def)
    have fs': "fs' = Some (prune (mkt_asset m) t s)" using assms(2) by (simp add: build_daemon_features_def ps y)
    have "snapshot_grounded m proxy ptb t (prune (mkt_asset m) t s) v" if r: "r = Inr (Some v, status, diag)" for v status diag
    proof -
      obtain x where x: "tr_snapshot y = Some x" "build_directional_features m p x t feature_schema_version = Inr v"
        using assms(2) r by (auto simp: build_daemon_features_def ps y(1) bindr_Inr_iff split: option.splits)
      then have "snapshot_evidence (prune (mkt_asset m) t s) (mkt_asset m) (Proxy proxy) t"
        "snapshot_bounds (prune (mkt_asset m) t s) (mkt_asset m) (Proxy proxy) t x"
        "snapshot_values (prune (mkt_asset m) t s) (mkt_asset m) (Proxy proxy) x"
        using y(2) by (simp_all add: snapshot_promise_def)
      moreover from this(3) have "xs_reference x = Proxy proxy" "xs_source x = ''external-temporal-state-v1''"
        by (simp_all add: snapshot_values_def Let_def)
      ultimately show ?thesis
        using build_directional_features_vector [OF x(2)] by (auto simp: snapshot_grounded_def ps)
    qed
    then show ?thesis using fs' ps reachable_prune [OF s] by auto
  qed
  then show "\<forall>s\<in>set_option fs'. temporal_reachable s" "r = Inr (Some v, status, diag) \<Longrightarrow>
      (\<exists>s. fs = Some s \<and> fs' = Some (prune (mkt_asset m) t s) \<and> snapshot_grounded m proxy ptb t (prune (mkt_asset m) t s) v)"
    by auto
qed

lemma feature_comparison_ok:
  assumes "\<forall>s\<in>set_option ds. temporal_reachable s" "feature_comparison show_dec m proxy ptb t legacy ds = (ds', r)"
  shows "\<forall>s\<in>set_option ds'. temporal_reachable s"
  using assms build_daemon_features_ok(1) [OF assms(1)]
  by (auto simp: feature_comparison_def split: option.splits prod.splits)


section \<open>A collected state\<close>

definition live_features :: "pipeline_env \<Rightarrow> shadow_state \<Rightarrow> temporal_state option \<Rightarrow> temporal_state option \<Rightarrow> feature_vector \<Rightarrow> bool" where
  "live_features env st fs0 fs1 v \<longleftrightarrow> (\<exists>d proxy. sms_discovery st = Some d \<and> sst_proxy st = Some proxy \<and>
     mkt_window_start (md_market d) \<le> sms_observed_at st \<and> sms_observed_at st < mkt_window_end (md_market d) \<and>
     grounded env (md_market d) proxy (sms_price_to_beat st) (sms_observed_at st) fs0 fs1 v)"

definition sound_state :: "pipeline_env \<Rightarrow> market_bucket \<Rightarrow> shadow_state \<Rightarrow> temporal_state option \<Rightarrow> temporal_state option \<Rightarrow> bool" where
  "sound_state env b st fs0 fs1 \<longleftrightarrow> sms_bucket st = b \<and>
     (sst_unavailable st = None \<longrightarrow> sms_discovery st \<noteq> None \<and> (\<forall>s\<in>set (sst_stages st). bps_status s \<noteq> ''FAIL'')) \<and>
     (\<forall>v. sms_features st = Some v \<longrightarrow> live_features env st fs0 fs1 v)"

lemma lifecycle_None: "market_lifecycle_reason m t = None \<longleftrightarrow> mkt_window_start m \<le> t \<and> t < mkt_window_end m"
  by (auto simp: market_lifecycle_reason_def)

lemma collected_state_fields [simp]:
  "sms_bucket (collected_state env b d c stages reason x y) = b"
  "sms_discovery (collected_state env b d c stages reason x y) = Some d"
  "sst_unavailable (collected_state env b d c stages reason x y) = reason"
  "sst_stages (collected_state env b d c stages reason x y) = stages"
  "sms_features (collected_state env b d c stages reason x y) = fst x"
  "sst_proxy (collected_state env b d c stages reason x y) = cd_proxy c"
  "sms_observed_at (collected_state env b d c stages reason x y) = pe_evaluated_at env"
  "sms_price_to_beat (collected_state env b d c stages reason x y) = pr_ptb (cd_resolution c)"
  by (simp_all add: collected_state_def split: prod.splits)

lemma evaluate_expired:
  assumes "market_lifecycle_reason (md_market d) (pe_evaluated_at env) = Some reason"
  shows "evaluate_collected env b d c stages fts = (observe_states (cd_proxy c) (cd_book c) (cd_trade c) fts,
    Inr (collected_state env b d c (stages @ [plain_stage ''FEATURE_BUILD'' ''SKIPPED'' (pe_evaluated_at env) (Some reason)])
        (Some reason) (None, reason, None) (None, None)))"
  unfolding evaluate_collected_def Let_def assms option.case by (rule refl)

definition unproxied_stages :: "pipeline_env \<Rightarrow> pipeline_stage list \<Rightarrow> pipeline_stage list" where
  "unproxied_stages env stages = stages @ [plain_stage ''FEATURE_BUILD'' ''SKIPPED''
     (pe_stage_clock env (length stages)) (Some ''PROXY_UNAVAILABLE'')]"

lemma evaluate_unproxied:
  assumes "market_lifecycle_reason (md_market d) (pe_evaluated_at env) = None" "cd_proxy c = None"
  shows "evaluate_collected env b d c stages fts = (observe_states (cd_proxy c) (cd_book c) (cd_trade c) fts,
    Inr (collected_state env b d c (unproxied_stages env stages) (first_failure_reason (unproxied_stages env stages))
        (None, ''FEATURES_UNAVAILABLE'', None) (None, None)))"
  unfolding evaluate_collected_def Let_def assms option.case unproxied_stages_def by (rule refl)

lemma evaluate_live:
  assumes "market_lifecycle_reason (md_market d) (pe_evaluated_at env) = None" "cd_proxy c = Some proxy"
    and "observe_states (Some proxy) (cd_book c) (cd_trade c) fts = F"
    and "build_daemon_features (md_market d) proxy (pr_ptb (cd_resolution c)) (pe_evaluated_at env) (fts_main F) = (fs, x)"
    and "staged env ''FEATURE_BUILD'' x stages = (stages', y)"
  shows "evaluate_collected env b d c stages fts = (case y of
      Inl e \<Rightarrow> (F\<lparr>fts_main := fs\<rparr>, Inl e)
    | Inr z \<Rightarrow> (let report = (case z of None \<Rightarrow> (None, ''FEATURES_UNAVAILABLE'', None) | Some w \<Rightarrow> w) in
        case feature_comparison (pe_show_dec env) (md_market d) proxy (pr_ptb (cd_resolution c)) (pe_evaluated_at env)
            report (fts_diagnostic F) of
          (ds, Inl e) \<Rightarrow> (\<lparr>fts_main = fs, fts_diagnostic = ds\<rparr>, Inl e)
        | (ds, Inr cmp) \<Rightarrow> (\<lparr>fts_main = fs, fts_diagnostic = ds\<rparr>,
            Inr (collected_state env b d c stages' (first_failure_reason stages') report cmp))))"
  unfolding evaluate_collected_def Let_def assms(1,2) option.case assms(3,4) prod.case assms(5)
  by (cases y) (simp_all only: sum.case)

lemma sound_without_features:
  assumes "reason = None \<Longrightarrow> \<forall>s\<in>set stages. bps_status s \<noteq> ''FAIL''"
  shows "sound_state env b (collected_state env b d c stages reason (None, status, diag) cmp) fs0 fs1"
  using assms unfolding sound_state_def by simp

lemma evaluate_collected_sound:
  assumes ok: "states_ok fts" "answered env (md_market d) c" and e: "evaluate_collected env b d c stages fts = (fts', r)"
  shows "states_ok fts' \<and> (\<forall>st. r = Inr st \<longrightarrow> sound_state env b st (fts_main fts) (fts_main fts'))"
proof -
  define F where F: "F = observe_states (cd_proxy c) (cd_book c) (cd_trade c) fts"
  let ?t = "pe_evaluated_at env" and ?m = "md_market d" and ?ptb = "pr_ptb (cd_resolution c)"
  have obs: "states_ok F" unfolding F by (rule observe_states_ok [OF ok])
  show ?thesis
  proof (cases "market_lifecycle_reason ?m ?t")
    case (Some reason)
    note eval = e [unfolded evaluate_expired [OF Some] F [symmetric] prod.inject]
    show ?thesis unfolding eval [THEN conjunct1, symmetric] eval [THEN conjunct2, symmetric] sum.inject
      using obs sound_without_features by blast
  next
    case None
    show ?thesis
    proof (cases "cd_proxy c")
      case (Some proxy)
      have live: "mkt_window_start ?m \<le> ?t" "?t < mkt_window_end ?m" using None by (simp_all add: lifecycle_None)
      obtain fs x where f: "build_daemon_features ?m proxy ?ptb ?t (fts_main F) = (fs, x)" by fastforce
      have F_ok: "\<forall>s\<in>set_option (fts_main F). temporal_reachable s"
          "\<forall>s\<in>set_option (fts_diagnostic F). temporal_reachable s"
        using obs by (simp_all add: states_ok_def)
      note fs = build_daemon_features_ok(1) [OF F_ok(1) f] and feat = build_daemon_features_ok(2) [OF F_ok(1) f]
      obtain stages' y where s: "staged env ''FEATURE_BUILD'' x stages = (stages', y)" by fastforce
      note eval = e [unfolded evaluate_live [OF None Some F [symmetric, unfolded Some] f s]]
      show ?thesis
      proof (cases y)
        case (Inl err)
        then have "fts' = F\<lparr>fts_main := fs\<rparr>" "r = Inl err" using eval by simp_all
        then show ?thesis using F_ok fs by (simp add: states_ok_def ball_Un)
      next
        case (Inr z)
        define report where "report = (case z of None \<Rightarrow> (None, ''FEATURES_UNAVAILABLE'', None) | Some w \<Rightarrow> w)"
        obtain ds cmp where cmp: "feature_comparison (pe_show_dec env) ?m proxy ?ptb ?t report (fts_diagnostic F) = (ds, cmp)"
          by fastforce
        have ds: "\<forall>s\<in>set_option ds. temporal_reachable s"
          by (rule feature_comparison_ok [OF F_ok(2) cmp])
        have ground: "grounded env ?m proxy ?ptb ?t (fts_main fts) fs v" if v: "fst report = Some v" for v
        proof -
          obtain s2 where s2: "fts_main F = Some s2" "fs = Some (prune (mkt_asset ?m) ?t s2)"
            "snapshot_grounded ?m proxy ?ptb ?t (prune (mkt_asset ?m) ?t s2) v"
          proof -
            assume found: "thesis" if "fts_main F = Some s2" "fs = Some (prune (mkt_asset ?m) ?t s2)"
              "snapshot_grounded ?m proxy ?ptb ?t (prune (mkt_asset ?m) ?t s2) v" for s2
            obtain status diag where "z = Some (Some v, status, diag)"
              using v by (cases z) (auto simp: report_def)
            then have "staged env ''FEATURE_BUILD'' x stages = (stages', Inr (Some (Some v, status, diag)))"
              using s Inr by simp
            then have "x = Inr (Some v, status, diag)" by (rule staged_value)
            from feat [OF this] show thesis by (elim exE conjE) (rule found)
          qed
          obtain s0 where s0: "fts_main fts = Some s0" "s2 = observe_external (Some proxy) (cd_book c) (cd_trade c) s0"
            using s2(1) Some by (auto simp: F observe_states_def)
          obtain b where b: "cd_book c = Some b" "answered_depth env ?m proxy b" "pred_option (answered_trade env ?m) (cd_trade c)"
            using ok(2) Some by (auto simp: answered_def split: option.splits)
          have "s2 = (case cd_trade c of None \<Rightarrow> add_book b (add_reference (Proxy proxy) s0)
              | Some w \<Rightarrow> add_trade w (add_book b (add_reference (Proxy proxy) s0)))"
            using s0(2) b(1) by (simp add: observe_external_def Let_def)
          from groundedI [OF s0(1) b(2,3) this s2(2,3)] show ?thesis .
        qed
        have r: "fts' = \<lparr>fts_main = fs, fts_diagnostic = ds\<rparr>" "r = (case cmp of Inl err \<Rightarrow> Inl err
            | Inr q \<Rightarrow> Inr (collected_state env b d c stages' (first_failure_reason stages') report q))"
          using eval [unfolded Inr sum.case, folded report_def, unfolded Let_def cmp prod.case]
          by (cases cmp, simp_all only: sum.case prod.inject)+
        have "sound_state env b (collected_state env b d c stages' (first_failure_reason stages') report q) (fts_main fts) fs" for q
          using ground live Some by (auto simp: sound_state_def live_features_def first_failure_None)
        moreover have "states_ok fts'" using r(1) fs ds by (simp add: states_ok_def ball_Un)
        ultimately show ?thesis using r by (cases cmp) (simp_all only: r sum.case sum.inject sum.distinct simp_thms,
            simp_all)
      qed
    next
      case missing: None
      note eval = e [unfolded evaluate_unproxied [OF None missing] F [symmetric] prod.inject]
      show ?thesis unfolding eval [THEN conjunct1, symmetric] eval [THEN conjunct2, symmetric] sum.inject
        using obs sound_without_features first_failure_None by blast
    qed
  qed
qed

text \<open>
  C35: a collection is grounded. Whatever the network answers and whatever exception escapes, the rolling
  histories stay reachable ones. A state that is returned is of the bucket asked for; without a reported
  reason its market was discovered and no stage failed; and it has features only for a discovered market,
  inside its window, with a proxy price and an official price to beat of that market. Its fourteen features
  are then, one by one, those of the history of before, with the proxy price, the book and the trade
  that the network answered added to it and its stale front dropped: fresh evidence of all three kinds,
  each temporal feature the one its definition gives on that history, the distance to the price to beat
  and the share of the window that is left.
\<close>

theorem collection_is_grounded:
  assumes "states_ok fts" "collect_bucket env b now fts = (fts', r)"
  shows "states_ok fts' \<and> (\<forall>st. r = Inr st \<longrightarrow> sound_state env b st (fts_main fts) (fts_main fts'))"
proof (cases "window_containing b now")
  case (Inl e)
  then show ?thesis using assms by (auto simp: collect_bucket_def)
next
  case (Inr w)
  obtain stages x where d: "discover_with_stages env b [] = (stages, x)" by fastforce
  show ?thesis
  proof (cases "\<exists>d. x = Inr (Some d)")
    case False
    then have "x = Inr None \<or> (\<exists>e. x = Inl e)" by (cases x) auto
    then show ?thesis
      using assms Inr d
      by (auto simp: collect_bucket_def unavailable_state_def Let_def sound_state_def)
  next
    case True
    then obtain m where m: "x = Inr (Some m)" by blast
    obtain stages' c where c: "collect_inputs env m stages = (stages', c)" by fastforce
    show ?thesis
    proof (cases c)
      case (Inl e)
      then show ?thesis using assms \<open>window_containing b now = Inr w\<close> d m c by (auto simp: collect_bucket_def)
    next
      case (Inr v)
      then have "evaluate_collected env b m v stages' fts = (fts', r)"
        using assms \<open>window_containing b now = Inr w\<close> d m c by (simp add: collect_bucket_def)
      then show ?thesis
        using evaluate_collected_sound [OF assms(1) collect_inputs_answered] c Inr by blast
    qed
  qed
qed

section \<open>A collection with features\<close>

text \<open>A market that is live, with a proxy price recorded before: the collection gives features.\<close>

definition live_row :: json where
  "live_row = JDict
     [(''id'', JStr ''m1''), (''conditionId'', JStr ''c1''), (''outcomes'', JList [JStr ''Up'', JStr ''Down'']),
      (''clobTokenIds'', JList [JStr ''t1'', JStr ''t2'']), (''eventStartTime'', JStr ''open''), (''endDate'', JStr ''close''),
      (''resolutionSource'', JStr ''chainlink''), (''cryptoMarketConfigId'', JStr ''cfg''),
      (''cryptoMarketConfig'', JDict [(''asset'', JStr ''btc''), (''duration'', JStr ''5m''), (''id'', JStr ''cfg''),
         (''twapEnabled'', JBool True), (''twapLookbackSeconds'', JInt 30)]),
      (''description'', JStr ''rules''), (''version'', JStr ''v1''), (''updatedAt'', JStr ''open''), (''slug'', JStr ''slug''),
      (''question'', JStr ''question'')]"

definition live_gamma :: json where
  "live_gamma = JDict [(''id'', JStr ''e1''), (''markets'', JList [live_row])]"

definition live_depth :: json where
  "live_depth = JDict [(''lastUpdateId'', JInt 7), (''bids'', JList [JList [JInt 101, JInt 2]]),
     (''asks'', JList [JList [JInt 103, JInt 1]])]"

definition live_trade :: json where
  "live_trade = JDict [(''T'', JInt 0), (''p'', JInt 102), (''q'', JInt 3), (''a'', JInt 9), (''m'', JBool True)]"

definition live_market :: market where
  "live_market = \<lparr>mkt_id = ''m1'', mkt_condition_id = ''c1'', mkt_asset = BTC, mkt_horizon = FIVE_MINUTES,
     mkt_tokens = [\<lparr>tok_id = ''t1'', tok_outcome = UP\<rparr>, \<lparr>tok_id = ''t2'', tok_outcome = DOWN\<rparr>],
     mkt_window_start = 0, mkt_window_end = 300000000, mkt_settlement_source = ''chainlink''\<rparr>"

definition live_ptb :: ptb_record where
  "live_ptb = \<lparr>ptb_condition_id = ''c1'', ptb_reference = \<lparr>ref_id = ''r'', ref_market_id = ''m1'', ref_asset = BTC,
     ref_value = 100, ref_source = ''chainlink'', ref_source_ts = 0, ref_recv_ts = 0, ref_effective_ts = 0, ref_is_ptb = True\<rparr>,
     ptb_established_at = 0, ptb_persistence_id = ''p''\<rparr>"

definition live_env :: pipeline_env where
  "live_env = \<lparr>pe_vendor = \<lparr>vt_loads = \<lambda>s. None, vt_int = \<lambda>s. None, vt_decimal = \<lambda>s. None,
       vt_iso = \<lambda>s. Some (if s = ''open'' then 0 else 300000000, True)\<rparr>,
     pe_client_error = (\<lambda>c. c = ''ClientError''), pe_stage_clock = (\<lambda>n. 0),
     pe_fetch = (\<lambda>stage. if stage = ''GAMMA_FETCH'' then Inr live_gamma else if stage = ''BINANCE_DEPTH_FETCH'' then Inr live_depth
       else if stage = ''BINANCE_TRADE_FETCH'' then Inr (JList [live_trade]) else Inl (Library_Error ''ClientError'' ''offline'')),
     pe_receipt = (\<lambda>stage. \<lparr>rc_recv = 0, rc_normalized = 0, rc_monotonic_ns = 0\<rparr>),
     pe_resolution = Some (\<lambda>d. Inr (ready_resolution live_ptb True)),
     pe_chainlink = None, pe_hourly = None, pe_evaluated_at = 0, pe_show_dec = (\<lambda>x. [])\<rparr>"

lemma live_market_made: "mk_market live_market = Inr live_market"
  using int_timestamp_div [of 0]
  by (simp add: mk_market_def checked_Inr_iff market_checks_def live_market_def py_space_def seconds_def duration_seconds_def)

definition live_discovery :: market_discovery where
  "live_discovery = \<lparr>md_event_id = ''e1'', md_slug = ''slug'', md_question = ''question'', md_market = live_market,
     md_settlement = \<lparr>sm_market_id = ''m1'', sm_condition_id = ''c1'', sm_resolution_source = ''chainlink'', sm_rules = ''rules'',
       sm_method = CHAINLINK_TWAP, sm_configuration_id = Some ''cfg'', sm_asset = BTC, sm_horizon = FIVE_MINUTES,
       sm_reference_period = 30, sm_version = ''v1'', sm_lineage = \<lparr>lin_source = POLYMARKET_GAMMA, lin_source_ts = Some 0,
         lin_recv_ts = 0, lin_normalized_ts = 0, lin_recv_monotonic_ns = 0\<rparr>\<rparr>\<rparr>"

lemma plain_str: "json_get v k = Some (JStr s) \<Longrightarrow> s \<noteq> [] \<and> \<not> py_space (hd s) \<and> \<not> py_space (last s) \<Longrightarrow> require_str v k = Inr s"
  using trimmed_str [of v k s] by simp

lemma live_fields:
  "require_str live_row ''id'' = Inr ''m1''" "require_str live_row ''conditionId'' = Inr ''c1''"
  "require_str live_row ''eventStartTime'' = Inr ''open''" "require_str live_row ''endDate'' = Inr ''close''"
  "require_str live_row ''resolutionSource'' = Inr ''chainlink''" "require_str live_row ''cryptoMarketConfigId'' = Inr ''cfg''"
  "require_str live_row ''description'' = Inr ''rules''" "require_str live_row ''version'' = Inr ''v1''"
  "require_str live_row ''updatedAt'' = Inr ''open''" "require_str live_row ''slug'' = Inr ''slug''"
  "require_str live_row ''question'' = Inr ''question''" "require_str live_gamma ''id'' = Inr ''e1''"
  by (rule plain_str; simp add: live_row_def live_gamma_def py_space_def)+

lemma live_config_fields:
  "json_get live_row ''cryptoMarketConfig'' = Some c \<Longrightarrow> require_str c ''asset'' = Inr ''btc''"
  "json_get live_row ''cryptoMarketConfig'' = Some c \<Longrightarrow> require_str c ''duration'' = Inr ''5m''"
  "json_get live_row ''cryptoMarketConfig'' = Some c \<Longrightarrow> require_str c ''id'' = Inr ''cfg''"
  by (rule plain_str; clarsimp simp: live_row_def py_space_def)+

lemma live_discovered: "parse_discovery (pe_vendor live_env) btc_5m rc live_gamma = Inr live_discovery" if "rc = pe_receipt live_env s"
proof -
  obtain c where c: "json_get live_row ''cryptoMarketConfig'' = Some c" "is_object c" "c \<noteq> JNull"
    "json_get c ''twapEnabled'' = Some (JBool True)" "json_get c ''twapLookbackSeconds'' = Some (JInt 30)"
    by (simp add: live_row_def)
  have cfg: "gamma_config live_row = Inr (Some c)"
    using c by (cases c) (simp_all add: gamma_config_def require_object_def)
  have "lower (asset_value BTC) = ''btc''" by code_simp
  then have chk: "check_config live_row (Some c) BTC FIVE_MINUTES = Inr ()"
    using live_config_fields [OF c(1)] live_fields by (simp add: check_config_def del: asset_value.simps)
  have arr: "array_field (pe_vendor live_env) live_row ''outcomes'' = Inr [JStr ''Up'', JStr ''Down'']"
    "array_field (pe_vendor live_env) live_row ''clobTokenIds'' = Inr [JStr ''t1'', JStr ''t2'']"
    by (simp_all add: array_field_def live_row_def)
  have tok: "mapr gamma_token (zip [JStr ''Up'', JStr ''Down''] [JStr ''t1'', JStr ''t2'']) = Inr (mkt_tokens live_market)"
    using gamma_tokens_title [of "mkt_tokens live_market"]
    by (simp add: live_market_def valid_token_def market_token_checks_def py_space_def del: gamma_token.simps)
  have iso: "require_iso8601 (pe_vendor live_env) live_row ''eventStartTime'' = Inr 0"
    "require_iso8601 (pe_vendor live_env) live_row ''endDate'' = Inr 300000000"
    "require_iso8601 (pe_vendor live_env) live_row ''updatedAt'' = Inr 0"
    by (simp_all add: require_iso8601_def live_fields live_env_def)
  have id: "parse_gamma_identity (pe_vendor live_env) live_row BTC FIVE_MINUTES = Inr (live_market, Some c)"
    using live_market_made by (simp add: parse_gamma_identity_def arr tok cfg chk live_fields iso del: zip_Cons_Cons gamma_token.simps) (simp add: live_market_def)
  have terms: "settlement_terms (pe_vendor live_env) live_row (Some c) FIVE_MINUTES = Inr (CHAINLINK_TWAP, Some ''cfg'', 30)"
    using c by (simp add: settlement_terms_def live_fields require_bool_def require_int_def)
  have o: "require_object live_row = Inr live_row" by (simp add: require_object_def live_row_def)
  have m: "field_or_null live_gamma ''markets'' = JList [live_row]" by (simp add: field_or_null_def live_gamma_def)
  have l: "mk_lineage POLYMARKET_GAMMA (Some 0) rc = Inr (sm_lineage (md_settlement live_discovery))"
    using that by (simp add: mk_lineage_def live_env_def lineage_checks_def live_discovery_def)
  have meta: "mk_settlement_metadata (md_settlement live_discovery) = Inr (md_settlement live_discovery)"
    "mk_discovery live_discovery = Inr live_discovery"
    by (simp_all add: mk_settlement_metadata_def settlement_metadata_checks_def mk_discovery_def market_discovery_checks_def
      live_discovery_def live_market_def py_space_def)
  have "parse_gamma_market_discovery (pe_vendor live_env) live_row ''e1'' BTC FIVE_MINUTES rc = Inr live_discovery"
    using meta by (simp add: parse_gamma_market_discovery_def o id terms live_fields iso l)
      (simp add: live_discovery_def live_market_def)
  then show ?thesis by (simp add: parse_discovery_def m live_fields btc_5m_def)
qed

definition live_proxy :: reference where
  "live_proxy = \<lparr>ref_id = ''proxy:c1:'' @ show_int (int_timestamp 0), ref_market_id = ''m1'', ref_asset = BTC, ref_value = 102,
     ref_source = ''BINANCE_PUBLIC_DEPTH'', ref_source_ts = 0, ref_recv_ts = 0, ref_effective_ts = 0\<rparr>"

definition live_lineage :: event_lineage where
  "live_lineage = \<lparr>lin_source = BINANCE_SPOT, lin_source_ts = Some 0, lin_recv_ts = 0, lin_normalized_ts = 0, lin_recv_monotonic_ns = 0\<rparr>"

definition live_book :: top_of_book where
  "live_book = \<lparr>tob_asset = BTC, tob_bid_price = 101, tob_bid_quantity = 2, tob_ask_price = 103, tob_ask_quantity = 1,
     tob_update_id = 7, tob_lineage = live_lineage\<rparr>"

definition live_trade_row :: crypto_trade where
  "live_trade_row = \<lparr>ct_asset = BTC, ct_price = 102, ct_quantity = 3, ct_trade_id = 9, ct_buyer_is_maker = True,
     ct_lineage = live_lineage\<rparr>"

lemma epoch: "utc_from_milliseconds 0 = Inr 0" "int_timestamp_ms 0 = 0"
proof -
  have z: "fl 0 = 0" using fl_of_int [of 0] by simp
  show "utc_from_milliseconds 0 = Inr 0" "int_timestamp_ms 0 = 0"
    by (simp_all add: utc_from_milliseconds_def int_timestamp_ms_def half_even_def z timestamp_def py_trunc_def Let_def)
qed

lemma live_depth_parsed: "parse_proxy_depth (pe_vendor live_env) live_market (pe_receipt live_env s) live_depth = Inr (live_proxy, live_book)"
proof -
  let ?raw = "JDict [(''e'', JStr ''depthUpdate''), (''E'', JInt 0), (''s'', JStr ''BTCUSDT''), (''U'', JInt 7), (''u'', JInt 7),
     (''b'', JList [JList [JInt 101, JInt 2]]), (''a'', JList [JList [JInt 103, JInt 1]])]"
  have f: "require_symbol ?raw BTC = Inr ()" "require_str ?raw ''e'' = Inr ''depthUpdate''"
    "require_int (pe_vendor live_env) ?raw ''U'' = Inr 7" "require_int (pe_vendor live_env) ?raw ''u'' = Inr 7"
    "require_int (pe_vendor live_env) ?raw ''E'' = Inr 0"
    by (simp_all add: require_symbol_def plain_str py_space_def require_int_def binance_symbol_def)
  have b: "field_or_null ?raw ''b'' = JList [JList [JInt 101, JInt 2]]" "field_or_null ?raw ''a'' = JList [JList [JInt 103, JInt 1]]"
    "require_object ?raw = Inr ?raw"
    by (simp_all add: field_or_null_def require_object_def)
  have top: "top_level (pe_vendor live_env) (JList [JList [JInt p, JInt q]]) = Inr (of_int p, of_int q)" if "0 < p" "0 < q" for p q
    using that by (simp add: top_level_def)
  have lin: "binance_lineage (pe_vendor live_env) ?raw (pe_receipt live_env s) False = Inr live_lineage"
    by (simp add: binance_lineage_def f epoch) (simp add: mk_lineage_def lineage_checks_def live_lineage_def live_env_def)
  have book: "mk_top_of_book live_book = Inr live_book"
    by (simp add: mk_top_of_book_def top_of_book_checks_def live_book_def live_lineage_def)
  have tob: "parse_depth_top (pe_vendor live_env) ?raw BTC (pe_receipt live_env s) False = Inr (live_book, 7)"
    using book by (simp add: parse_depth_top_def b f lin top) (simp add: live_book_def)
  have o: "require_object live_depth = Inr live_depth" "field_or_null live_depth ''lastUpdateId'' = JInt 7"
    "field_or_null live_depth ''bids'' = JList [JList [JInt 101, JInt 2]]" "field_or_null live_depth ''asks'' = JList [JList [JInt 103, JInt 1]]"
    by (simp_all add: require_object_def field_or_null_def live_depth_def)
  have now: "rc_recv (pe_receipt live_env s) = 0" "mkt_asset live_market = BTC" by (simp_all add: live_env_def live_market_def)
  have "ddiv (dadd 101 103) 2 = 102" by (simp add: dec_op_defs ctx_eval)
  moreover have "mk_reference live_proxy = Inr live_proxy"
    unfolding mk_reference_def using show_int_last(2) [of "int_timestamp 0"]
    by (intro checked_passes) (simp add: reference_checks_def live_proxy_def py_space_def)
  ultimately show ?thesis
    using tob by (simp add: parse_proxy_depth_def o Let_def now depth_integer_def epoch binance_symbol_def)
      (simp add: live_book_def live_lineage_def live_proxy_def live_market_def)
qed

lemma live_trade_parsed: "parse_latest_trade (pe_vendor live_env) live_market (pe_receipt live_env s) (JList [live_trade]) = Inr (Some live_trade_row)"
proof -
  have f: "field_or_null live_trade ''s'' = JNull" "require_int (pe_vendor live_env) live_trade ''T'' = Inr 0"
    "decimal_field (pe_vendor live_env) live_trade ''p'' = Inr 102" "decimal_field (pe_vendor live_env) live_trade ''q'' = Inr 3"
    "require_int (pe_vendor live_env) live_trade ''a'' = Inr 9" "require_bool live_trade ''m'' = Inr True"
    "require_object live_trade = Inr live_trade"
    by (simp_all add: live_trade_def field_or_null_def require_int_def decimal_field_def finite_decimal_def require_bool_def require_object_def)
  have "mk_lineage BINANCE_SPOT (Some 0) (pe_receipt live_env s) = Inr live_lineage"
    by (simp add: mk_lineage_def lineage_checks_def live_lineage_def live_env_def)
  moreover have "mk_crypto_trade live_trade_row = Inr live_trade_row"
    by (simp add: mk_crypto_trade_def crypto_trade_checks_def live_trade_row_def)
  ultimately show ?thesis
    by (simp add: parse_latest_trade_def parse_rest_aggregate_trade_def f epoch live_trade_row_def live_market_def)
qed


text \<open>The fetches that answer give their value, the others fail as expected and are recorded.\<close>

lemma live_fetches:
  "pe_fetch live_env a = Inr raw \<Longrightarrow> raw \<noteq> JNull \<Longrightarrow> f raw = Inr v \<Longrightarrow> \<exists>ss'. fetch_then live_env a b f ss = (ss', Inr (Some v))"
  "pe_fetch live_env a = Inl (Library_Error ''ClientError'' msg) \<Longrightarrow> \<exists>ss'. fetch_then live_env a b f ss = (ss', Inr None)"
  by (simp_all add: fetch_then_def stage_then_def staged_def run_stage_def given_def is_expected_market_data_failure_def Let_def)
    (simp add: live_env_def)

definition live_collected :: collected where
  "live_collected = \<lparr>cd_resolution = ready_resolution live_ptb True, cd_up_book = None, cd_down_book = None, cd_up_fee = None,
     cd_down_fee = None, cd_proxy = Some live_proxy, cd_book = Some live_book, cd_trade = Some live_trade_row\<rparr>"

lemma live_inputs: "\<exists>ss'. collect_inputs live_env live_discovery ss = (ss', Inr live_collected)"
proof -
  have d: "pe_fetch live_env ''BINANCE_DEPTH_FETCH'' = Inr live_depth" "live_depth \<noteq> JNull"
    and t: "pe_fetch live_env ''BINANCE_TRADE_FETCH'' = Inr (JList [live_trade])"
    by (simp_all add: live_env_def live_depth_def)
  have off: "\<exists>ss'. fetch_then live_env a b f ss = (ss', Inr None)"
    if "a \<in> {''CLOB_UP_BOOK_FETCH'', ''CLOB_DOWN_BOOK_FETCH'', ''FEE_UP_FETCH'', ''FEE_DOWN_FETCH''}" for a b f ss
    by (rule live_fetches(2) [of _ "''offline''"]) (use that in \<open>auto simp: live_env_def\<close>)
  have m: "md_market live_discovery = live_market" by (simp add: live_discovery_def)
  have depth: "\<exists>ss'. fetch_then live_env ''BINANCE_DEPTH_FETCH'' ''BINANCE_DEPTH_PARSE''
      (parse_proxy_depth (pe_vendor live_env) live_market (pe_receipt live_env ''BINANCE_DEPTH_PARSE'')) ss = (ss', Inr (Some (live_proxy, live_book)))" for ss
    by (rule live_fetches(1) [OF d]) (rule live_depth_parsed)
  have trade: "\<exists>ss'. fetch_then live_env ''BINANCE_TRADE_FETCH'' ''BINANCE_TRADE_PARSE''
      (parse_latest_trade (pe_vendor live_env) live_market (pe_receipt live_env ''BINANCE_TRADE_PARSE'')) ss = (ss', Inr (Some (Some live_trade_row)))" for ss
    by (rule live_fetches(1) [OF t]) (simp, rule live_trade_parsed)
  have ptb: "\<exists>ss'. staged live_env ''OFFICIAL_PTB_RESOLVE'' (resolve_ptb live_env live_discovery) ss
      = (ss', Inr (Some (ready_resolution live_ptb True)))" for ss
    by (simp add: staged_def run_stage_def resolve_ptb_def Let_def) (simp add: live_env_def)
  have "then": "\<exists>ss'. x = (ss', Inr v) \<Longrightarrow> (\<And>ss'. \<exists>r. f v ss' = (r, Inr y)) \<Longrightarrow> \<exists>r. stage_then x f = (r, Inr y)"
    for x :: "pipeline_stage list \<times> 'a result" and v and f :: "'a \<Rightarrow> pipeline_stage list \<Rightarrow> pipeline_stage list \<times> 'b result" and y
    by (auto simp: stage_then_def)
  show ?thesis
    unfolding collect_inputs_def Let_def m
    by (rule "then" [OF ptb], rule "then" [OF off], simp, rule "then" [OF off], simp, rule "then" [OF off], simp,
      rule "then" [OF off], simp, rule "then" [OF depth], rule "then" [OF trade],
      simp add: resolution_or_failed_def live_collected_def)
qed

lemma live_discovers: "\<exists>ss. discover_with_stages live_env btc_5m [] = (ss, Inr (Some live_discovery))"
proof -
  have g: "pe_fetch live_env ''GAMMA_FETCH'' = Inr live_gamma" "require_object live_gamma = Inr live_gamma" "live_gamma \<noteq> JNull"
    by (simp_all add: live_env_def require_object_def live_gamma_def)
  obtain ss where ss: "fetch_then live_env ''GAMMA_FETCH'' ''GAMMA_PARSE'' require_object [] = (ss, Inr (Some live_gamma))"
    using live_fetches(1) [where f = require_object, OF g(1,3,2)] by blast
  show ?thesis
    by (simp add: discover_with_stages_def ss stage_then_def live_discovered [OF refl] staged_def run_stage_def Let_def)
qed


definition warm_state :: temporal_state where
  "warm_state = add_reference (Proxy (live_proxy\<lparr>ref_value := 100\<rparr>))
     \<lparr>tp_max_age = 5000000, tp_minimum_points = 2, tp_dedup = False, tp_references = (\<lambda>a. []), tp_books = (\<lambda>a. []),
       tp_trades = (\<lambda>a. []), tp_skips = (\<lambda>a k. 0), tp_conflicts = (\<lambda>a k. 0)\<rparr>"

definition warm_states :: feature_states where
  "warm_states = \<lparr>fts_main = Some warm_state, fts_diagnostic = None\<rparr>"

lemma live_proxy_valid: "valid_reference (live_proxy\<lparr>ref_value := v\<rparr>)" if "0 < v"
  using show_int_last(2) [of "int_timestamp 0"] that
  by (simp add: valid_reference_def reference_checks_def live_proxy_def py_space_def)

lemma warm_states_ok: "states_ok warm_states"
proof -
  have "mk_temporal_state 5000000 2 False = Inr \<lparr>tp_max_age = 5000000, tp_minimum_points = 2, tp_dedup = False,
      tp_references = (\<lambda>a. []), tp_books = (\<lambda>a. []), tp_trades = (\<lambda>a. []), tp_skips = (\<lambda>a k. 0), tp_conflicts = (\<lambda>a k. 0)\<rparr>"
    by (simp add: mk_temporal_state_def)
  then have "temporal_reachable warm_state"
    unfolding warm_state_def using live_proxy_valid [of 100]
    by (intro temporal_reachable.reference_added temporal_reachable.created) simp_all
  then show ?thesis by (simp add: states_ok_def warm_states_def)
qed

lemma live_features_built:
  assumes "xs_reference x = Proxy live_proxy" "xs_source x = ''external-temporal-state-v1''" "xs_source_ts x = 0"
  shows "\<exists>v. build_directional_features live_market live_ptb x 0 feature_schema_version = Inr v"
proof -
  let ?kvs = "external_feature_values (ddiv (dsub 102 100) 100) (decimal_of_float (fl (of_int 300000000 / of_int 300000000))) x"
  have one: "mk_feature_value \<lparr>feat_name = n, feat_value = v, feat_source = ''external-temporal-state-v1'', feat_source_ts = 0\<rparr>
      = Inr \<lparr>feat_name = n, feat_value = v, feat_source = ''external-temporal-state-v1'', feat_source_ts = 0\<rparr>"
    if "n \<in> fst ` set ?kvs" for n v
    using that by (auto simp: mk_feature_value_def feature_value_checks_def external_feature_values_def py_space_def)
  let ?fs = "map (\<lambda>(n, v). \<lparr>feat_name = n, feat_value = v, feat_source = ''external-temporal-state-v1'', feat_source_ts = 0\<rparr>) ?kvs"
  have fs: "mapr (\<lambda>(n, v). mk_feature_value \<lparr>feat_name = n, feat_value = v, feat_source = ''external-temporal-state-v1'',
      feat_source_ts = 0\<rparr>) ?kvs = Inr ?fs"
    by (rule trans [OF mapr_total [where g = "\<lambda>(n, v). \<lparr>feat_name = n, feat_value = v,
        feat_source = ''external-temporal-state-v1'', feat_source_ts = 0\<rparr>"]]) (auto simp: one rev_image_eqI)
  have names: "map feat_name ?fs = map fst ?kvs" by (simp add: comp_def split_beta)
  have "mk_feature_vector \<lparr>fvec_market_id = ''m1'', fvec_asset = BTC, fvec_horizon = FIVE_MINUTES,
      fvec_version = feature_schema_version, fvec_features = ?fs, fvec_generated_at = 0\<rparr>
    = Inr \<lparr>fvec_market_id = ''m1'', fvec_asset = BTC, fvec_horizon = FIVE_MINUTES,
      fvec_version = feature_schema_version, fvec_features = ?fs, fvec_generated_at = 0\<rparr>"
    unfolding mk_feature_vector_def
    by (rule checked_passes) (auto simp: feature_vector_checks_def names external_feature_values_def feature_schema_version_def py_space_def)
  moreover have "\<not> fl 300 \<le> 0" using fl_of_int [of 300] by simp
  ultimately show ?thesis
    using fs assms
    by (simp add: build_directional_features_def live_market_def live_ptb_def live_proxy_def feature_schema_version_def
      py_space_def seconds_def ptb_value_def)
qed


definition live_history :: temporal_state where
  "live_history = prune BTC 0 (add_trade live_trade_row (add_book live_book (add_reference (Proxy live_proxy) warm_state)))"

lemma live_history_fields:
  "tp_max_age live_history = 5000000" "tp_minimum_points live_history = 2"
  "tp_references live_history BTC = [Proxy (live_proxy\<lparr>ref_value := 100\<rparr>), Proxy live_proxy]"
  "tp_books live_history BTC = [live_book]" "tp_trades live_history BTC = [live_trade_row]"
  by (simp_all add: live_history_def warm_state_def prune_def add_reference_def add_book_def add_trade_def
        append_reference_def append_book_def Let_def any_source_ts_def book_ts_def trade_ts_def lineage_ts_def
        live_proxy_def live_book_def live_trade_row_def live_lineage_def)

lemma live_collection:
  "\<exists>st v. collect_bucket live_env btc_5m 0 warm_states = (\<lparr>fts_main = Some live_history, fts_diagnostic = None\<rparr>, Inr st)
     \<and> sms_features st = Some v \<and> sst_proxy st = Some live_proxy"
proof -
  let ?F = "observe_states (cd_proxy live_collected) (cd_book live_collected) (cd_trade live_collected) warm_states"
  let ?s = "add_trade live_trade_row (add_book live_book (add_reference (Proxy live_proxy) warm_state))"
  have F: "?F = \<lparr>fts_main = Some ?s, fts_diagnostic = None\<rparr>"
    by (simp add: observe_states_def warm_states_def live_collected_def observe_external_def Let_def)
  obtain ss where ss: "discover_with_stages live_env btc_5m [] = (ss, Inr (Some live_discovery))" using live_discovers by blast
  obtain ss' where ss': "collect_inputs live_env live_discovery ss = (ss', Inr live_collected)" using live_inputs by blast
  have "states_ok ?F" by (rule observe_states_ok [OF warm_states_ok collect_inputs_answered [OF ss']])
  then have reach: "temporal_reachable ?s" by (simp add: F states_ok_def)
  have ev: "snapshot_evidence live_history BTC (Proxy live_proxy) 0"
    by (simp add: snapshot_evidence_def live_history_fields) (simp add: any_source_ts_def book_ts_def lineage_ts_def live_proxy_def live_book_def live_lineage_def)
  obtain y where y: "build_snapshot BTC (Proxy live_proxy) 0 ?s = (live_history, Inr y)"
    "snapshot_promise live_history BTC (Proxy live_proxy) 0 y"
    using snapshot_of_total [OF reachable_history_ok [OF reachable_prune [OF reach, of BTC 0]], of BTC "Proxy live_proxy" 0]
    by (auto simp: build_snapshot_def Let_def live_history_def)
  obtain x where x: "tr_snapshot y = Some x" "snapshot_values live_history BTC (Proxy live_proxy) x"
    using y(2) ev by (auto simp: snapshot_promise_def split: option.splits)
  then have "xs_reference x = Proxy live_proxy" "xs_source x = ''external-temporal-state-v1''" "xs_source_ts x = 0"
    by (simp_all add: snapshot_values_def Let_def live_history_fields) (simp add: any_source_ts_def book_ts_def lineage_ts_def live_proxy_def live_book_def live_lineage_def)
  then obtain v where v: "build_directional_features live_market live_ptb x 0 feature_schema_version = Inr v"
    using live_features_built by blast
  have m: "md_market live_discovery = live_market" "mkt_asset live_market = BTC" "mkt_window_start live_market = 0"
    "mkt_window_end live_market = 300000000" by (simp_all add: live_discovery_def live_market_def)
  have e: "pe_evaluated_at live_env = 0" "pe_show_dec live_env = (\<lambda>x. [])" by (simp_all add: live_env_def)
  have c: "cd_proxy live_collected = Some live_proxy" "pr_ptb (cd_resolution live_collected) = Some live_ptb"
    by (simp_all add: live_collected_def ready_resolution_def)
  let ?G = "\<lparr>fts_main = Some ?s, fts_diagnostic = None\<rparr>"
  have F1: "observe_states (Some live_proxy) (cd_book live_collected) (cd_trade live_collected) warm_states = ?G"
    using F by (simp add: c)
  have f: "build_daemon_features (md_market live_discovery) live_proxy (pr_ptb (cd_resolution live_collected))
      (pe_evaluated_at live_env) (fts_main ?G) = (Some live_history, Inr (Some v, tr_reason y, Some (tr_diagnostics y)))"
    by (simp add: build_daemon_features_def m c e y x v)
  obtain s2 where s2: "staged live_env ''FEATURE_BUILD'' (Inr (Some v, tr_reason y, Some (tr_diagnostics y))) ss'
      = (s2, Inr (Some (Some v, tr_reason y, Some (tr_diagnostics y))))" by (simp add: staged_def run_stage_def Let_def)
  have alive: "market_lifecycle_reason (md_market live_discovery) (pe_evaluated_at live_env) = None"
    by (simp add: lifecycle_None m e)
  have "instant 0" by (simp add: instant_def)
  note w = window_containing_eq [OF this, of btc_5m]
  have "evaluate_collected live_env btc_5m live_discovery live_collected ss' warm_states
      = (\<lparr>fts_main = Some live_history, fts_diagnostic = None\<rparr>,
         Inr (collected_state live_env btc_5m live_discovery live_collected s2 (first_failure_reason s2)
           (Some v, tr_reason y, Some (tr_diagnostics y)) (None, None)))"
    by (simp add: evaluate_live [OF alive c(1) F1 f s2] feature_comparison_def)
  then show ?thesis using ss ss' by (simp add: collect_bucket_def w c)
qed


theorem collection_is_grounded_witness:
  "\<exists>st v. collect_bucket live_env btc_5m 0 warm_states = (\<lparr>fts_main = Some live_history, fts_diagnostic = None\<rparr>, Inr st)
     \<and> sms_features st = Some v \<and> live_features live_env st (Some warm_state) (Some live_history) v
     \<and> feature_map v ''short_return'' = Some (1 / 50) \<and> feature_map v ''momentum'' = Some (1 / 50)"
proof -
  obtain st v where st: "collect_bucket live_env btc_5m 0 warm_states = (\<lparr>fts_main = Some live_history, fts_diagnostic = None\<rparr>, Inr st)"
    "sms_features st = Some v" "sst_proxy st = Some live_proxy" using live_collection by blast
  have live: "live_features live_env st (Some warm_state) (Some live_history) v"
    using collection_is_grounded [OF warm_states_ok st(1)] st(2) by (simp add: sound_state_def) (simp add: warm_states_def)
  then obtain m ptb t where "snapshot_grounded m live_proxy ptb t live_history v"
    using st(3) by (auto simp: live_features_def grounded_def Let_def)
  then obtain x p where x: "snapshot_values live_history (mkt_asset m) (Proxy live_proxy) x" "vector_of m live_proxy p t x v"
    by (auto simp: snapshot_grounded_def)
  have btc: "mkt_asset m = BTC" using x(2) by (simp add: vector_of_def) (simp add: live_proxy_def)
  have "tp_references live_history BTC = [Proxy (live_proxy\<lparr>ref_value := 100\<rparr>), Proxy live_proxy]"
    by (rule live_history_fields(3))
  then have "xs_short_return x = ddiv (dsub 102 100) 100" "xs_momentum x = ddiv (dsub 102 100) 100"
    using x(1) btc by (simp_all add: snapshot_values_def Let_def step_return_def live_proxy_def)
  moreover have "ddiv (dsub 102 100) 100 = 1 / 50" by (simp add: dec_op_defs ctx_eval)
  ultimately have "xs_short_return x = 1 / 50" "xs_momentum x = 1 / 50" by simp_all
  moreover have "feature_map v ''short_return'' = Some (xs_short_return x)" "feature_map v ''momentum'' = Some (xs_momentum x)"
    using x(2) by (simp_all add: vector_of_def feature_map_def)
  ultimately show ?thesis using st live by auto
qed

end
