(* ===== verification/Shadow_Store.thy ===== *)
theory Shadow_Store
  imports Paper_Store Adapters Models
begin

text \<open>
  \<open>shadow/storage.py\<close>: the append-only evidence repository. The two tables are keyed rows in insertion
  order, and a payload is the value its JSON text encodes. Every write is one statement inside a
  transaction; what SQLite answers to an attempt is an input of the model (\<open>attempt\<close>), and a failed attempt
  is rolled back. The bounded retry consumes at most \<open>max_busy_retries + 1\<close> answers; the start-up retry
  consumes answers and clock readings until one commits, one fails for another reason, or the deadline has
  passed.
\<close>

section \<open>The tables\<close>

record evidence_row =
  ew_payload :: json
  ew_started_at :: utc

record event_row =
  ev_window_id :: string
  ev_type :: string
  ev_bucket_key :: "string option"
  ev_payload :: json
  ev_observed_at :: utc

record shadow_db =
  sdb_windows :: "(string, evidence_row) rows"
  sdb_events :: "(string, event_row) rows"

record shadow_config =
  sc_read_only :: bool
  sc_max_busy_retries :: int
  sc_retry_sleep :: rat

definition empty_shadow_db :: shadow_db where
  "empty_shadow_db = \<lparr>sdb_windows = [], sdb_events = []\<rparr>"

section \<open>Attempts and the bounded retry\<close>

text \<open>
  An attempt commits, or raises an \<open>OperationalError\<close> with its \<open>sqlite_errorname\<close> and its message, or
  raises another exception.
\<close>

datatype attempt = Committed | Operational string string | Other_Failure py_error

definition is_sqlite_busy :: "string \<Rightarrow> string \<Rightarrow> bool" where
  "is_sqlite_busy error_name message \<longleftrightarrow>
     py_upper error_name \<in> {''SQLITE_BUSY'', ''SQLITE_LOCKED'', ''SQLITE_BUSY_SNAPSHOT''} \<or>
     sublist ''database is locked'' (py_lower message) \<or> sublist ''database is busy'' (py_lower message)"

definition read_only_write :: py_error where
  "read_only_write = ShadowStorageUnavailable ''read-only shadow repository cannot write''"

definition write_busy :: py_error where
  "write_busy = ShadowStorageBusy ''STORAGE_BUSY:shadow_evidence_write''"

text \<open>\<open>n\<close> attempts are left, the next one is number \<open>i\<close>; the pauses between attempts only take time.\<close>

fun write_attempts :: "shadow_config \<Rightarrow> (nat \<Rightarrow> attempt) \<Rightarrow> nat \<Rightarrow> nat \<Rightarrow> (shadow_db \<Rightarrow> shadow_db) \<Rightarrow> shadow_db \<Rightarrow>
    shadow_db \<times> unit result" where
  "write_attempts c answers i 0 op db = (db, Inl write_busy)"
| "write_attempts c answers i (Suc n) op db =
     (if sc_read_only c then (db, Inl read_only_write)
      else case answers i of
          Committed \<Rightarrow> (op db, Inr ())
        | Other_Failure e \<Rightarrow> (db, Inl e)
        | Operational error_name message \<Rightarrow>
            if is_sqlite_busy error_name message then write_attempts c answers (Suc i) n op db
            else (db, Inl (Library_Error ''OperationalError'' message)))"

definition write_with_retry :: "shadow_config \<Rightarrow> (nat \<Rightarrow> attempt) \<Rightarrow> (shadow_db \<Rightarrow> shadow_db) \<Rightarrow> shadow_db \<Rightarrow>
    shadow_db \<times> unit result" where
  "write_with_retry c answers op db = write_attempts c answers 0 (nat (sc_max_busy_retries c + 1)) op db"

section \<open>Writes\<close>

text \<open>The stored text is the JSON of the payload with sorted keys.\<close>

definition insert_window :: "string \<Rightarrow> json \<Rightarrow> utc \<Rightarrow> shadow_db \<Rightarrow> shadow_db" where
  "insert_window wid payload started_at db =
     db\<lparr>sdb_windows := row_insert (sdb_windows db) wid
       \<lparr>ew_payload = json_canonical payload, ew_started_at = started_at\<rparr>\<rparr>"

definition insert_event :: "string \<Rightarrow> event_row \<Rightarrow> shadow_db \<Rightarrow> shadow_db" where
  "insert_event event_id w db = db\<lparr>sdb_events := row_insert (sdb_events db) event_id
     (w\<lparr>ev_payload := json_canonical (ev_payload w)\<rparr>)\<rparr>"

definition guarded_write :: "check list \<Rightarrow> shadow_config \<Rightarrow> (nat \<Rightarrow> attempt) \<Rightarrow> (shadow_db \<Rightarrow> shadow_db) \<Rightarrow> shadow_db \<Rightarrow>
    shadow_db \<times> unit result" where
  "guarded_write cs c answers op db =
     (case first_error cs of Some e \<Rightarrow> (db, Inl e) | None \<Rightarrow> write_with_retry c answers op db)"

definition save_window_once :: "shadow_config \<Rightarrow> (nat \<Rightarrow> attempt) \<Rightarrow> shadow_db \<Rightarrow> string \<Rightarrow> json \<Rightarrow> utc \<Rightarrow>
    shadow_db \<times> unit result" where
  "save_window_once c answers db wid payload started_at =
     guarded_write [require_text ''window_id'' wid] c answers (insert_window wid payload started_at) db"

definition append_event :: "shadow_config \<Rightarrow> (nat \<Rightarrow> attempt) \<Rightarrow> shadow_db \<Rightarrow> string \<Rightarrow> event_row \<Rightarrow>
    shadow_db \<times> unit result" where
  "append_event c answers db event_id w =
     guarded_write ([require_text ''event_id'' event_id, require_text ''window_id'' (ev_window_id w),
         require_text ''event_type'' (ev_type w)] @
         (case ev_bucket_key w of None \<Rightarrow> [] | Some k \<Rightarrow> [require_text ''bucket_key'' k]))
       c answers (insert_event event_id w) db"

section \<open>Start-up writes\<close>

text \<open>
  An answer at start-up: the outcome of the attempt, and the clock after it. The list of answers is as
  long as the process has run, so \<open>None\<close> means that it is still retrying.
\<close>

record startup_answer =
  sa_attempt :: attempt
  sa_now :: rat

record startup_diagnostic =
  sd_operation :: string
  sd_attempts :: nat
  sd_elapsed :: rat
  sd_last_error :: "(string \<times> string) option"

definition startup_busy :: py_error where
  "startup_busy = ShadowStorageBusy ''STORAGE_BUSY:shadow_evidence_startup''"

fun startup_attempts :: "shadow_config \<Rightarrow> string \<Rightarrow> rat \<Rightarrow> rat \<Rightarrow> nat \<Rightarrow> (string \<times> string) option \<Rightarrow>
    (shadow_db \<Rightarrow> shadow_db) \<Rightarrow> shadow_db \<Rightarrow> startup_answer list \<Rightarrow> (shadow_db \<times> startup_diagnostic result) option" where
  "startup_attempts c operation started deadline n err op db [] = None"
| "startup_attempts c operation started deadline n err op db (a # answers) =
     (if sc_read_only c then Some (db, Inl read_only_write)
      else case sa_attempt a of
          Committed \<Rightarrow> Some (op db, Inr \<lparr>sd_operation = operation, sd_attempts = Suc n,
            sd_elapsed = fl (sa_now a - started), sd_last_error = err\<rparr>)
        | Other_Failure e \<Rightarrow> Some (db, Inl e)
        | Operational error_name message \<Rightarrow>
            if \<not> is_sqlite_busy error_name message then Some (db, Inl (Library_Error ''OperationalError'' message))
            else if fl (deadline - sa_now a) \<le> 0 then Some (db, Inl startup_busy)
            else startup_attempts c operation started deadline (Suc n) (Some (error_name, message)) op db answers)"

definition write_with_startup_retry :: "shadow_config \<Rightarrow> string \<Rightarrow> rat \<Rightarrow> rat \<Rightarrow> (shadow_db \<Rightarrow> shadow_db) \<Rightarrow> shadow_db \<Rightarrow>
    startup_answer list \<Rightarrow> (shadow_db \<times> startup_diagnostic result) option" where
  "write_with_startup_retry c operation deadline_seconds started op db answers =
     startup_attempts c operation started (fl (started + deadline_seconds)) 0 None op db answers"

definition initialize_for_startup :: "shadow_config \<Rightarrow> rat \<Rightarrow> rat \<Rightarrow> shadow_db \<Rightarrow> startup_answer list \<Rightarrow>
    (shadow_db \<times> startup_diagnostic result) option" where
  "initialize_for_startup c deadline_seconds started db answers =
     (if sc_read_only c then
        Some (db, Inl (ShadowStorageUnavailable ''read-only shadow repository cannot initialize schema''))
      else if deadline_seconds \<le> 0 then Some (db, Inl (ValueErr ''deadline_seconds must be positive''))
      else write_with_startup_retry c ''shadow_evidence_schema'' deadline_seconds started id db answers)"

definition window_exists :: "shadow_db \<Rightarrow> string \<Rightarrow> bool result" where
  "window_exists db wid = checked [require_text ''window_id'' wid] (Inr (map_of (sdb_windows db) wid \<noteq> None))"

definition save_window_once_for_startup :: "shadow_config \<Rightarrow> rat \<Rightarrow> rat \<Rightarrow> shadow_db \<Rightarrow> string \<Rightarrow> json \<Rightarrow> utc \<Rightarrow>
    startup_answer list \<Rightarrow> (shadow_db \<times> startup_diagnostic result) option" where
  "save_window_once_for_startup c deadline_seconds started db wid payload started_at answers =
     (case first_error [require_text ''window_id'' wid] of
        Some e \<Rightarrow> Some (db, Inl e)
      | None \<Rightarrow>
          if deadline_seconds \<le> 0 then Some (db, Inl (ValueErr ''deadline_seconds must be positive''))
          else case write_with_startup_retry c ''shadow_evidence_window'' deadline_seconds started
                 (insert_window wid payload started_at) db answers of
              None \<Rightarrow> None
            | Some (db', Inl e) \<Rightarrow> Some (db', Inl e)
            | Some (db', Inr d) \<Rightarrow> Some (db', bindr (window_exists db' wid) (\<lambda>b.
                if b then Inr d else Inl (ShadowStorageBusy ''STORAGE_BUSY:shadow_evidence_startup_unverified''))))"

section \<open>Reads\<close>

text \<open>Ties of an instant are read in insertion order.\<close>

definition latest_first :: "('a \<Rightarrow> utc) \<Rightarrow> 'a list \<Rightarrow> 'a list" where
  "latest_first f xs = sort_key (\<lambda>x. - f x) xs"

definition object_payload :: "string \<Rightarrow> json \<Rightarrow> json result" where
  "object_payload message v = (if is_object v then Inr v else Inl (RuntimeErr message))"

definition latest_window_payload :: "shadow_db \<Rightarrow> json option result" where
  "latest_window_payload db =
     (case latest_first (\<lambda>(k, w). ew_started_at w) (sdb_windows db) of
        [] \<Rightarrow> Inr None
      | (k, w) # _ \<Rightarrow> bindr (object_payload ''stored evidence window payload is not an object'' (ew_payload w))
          (\<lambda>v. Inr (Some v)))"

definition event_counts :: "shadow_db \<Rightarrow> string \<Rightarrow> nat option" where
  "event_counts db t = (let n = length (filter (\<lambda>(k, w). ev_type w = t) (sdb_events db)) in
     if n = 0 then None else Some n)"

definition read_event :: "string \<times> event_row \<Rightarrow> (string \<times> event_row) result" where
  "read_event r = bindr (object_payload ''stored shadow event payload is not an object'' (ev_payload (snd r))) (\<lambda>_. Inr r)"

definition read_events :: "(event_row \<Rightarrow> bool) \<Rightarrow> int \<Rightarrow> shadow_db \<Rightarrow> (string \<times> event_row) list result" where
  "read_events chosen limit db =
     mapr read_event (take (nat limit) (latest_first (\<lambda>(k, w). ev_observed_at w)
       (filter (\<lambda>(k, w). chosen w) (sdb_events db))))"

definition latest_events :: "shadow_db \<Rightarrow> string option \<Rightarrow> string option \<Rightarrow> int \<Rightarrow> (string \<times> event_row) list result" where
  "latest_events db event_type bucket_key limit =
     checked ([fail_if (limit < 1) (ValueErr ''limit must be positive'')] @
       (case event_type of None \<Rightarrow> [] | Some t \<Rightarrow> [require_text ''event_type'' t]) @
       (case bucket_key of None \<Rightarrow> [] | Some k \<Rightarrow> [require_text ''bucket_key'' k]))
      (read_events (\<lambda>w. (case event_type of None \<Rightarrow> True | Some t \<Rightarrow> ev_type w = t) \<and>
         (case bucket_key of None \<Rightarrow> True | Some k \<Rightarrow> ev_bucket_key w = Some k)) limit db)"

definition events_since :: "shadow_db \<Rightarrow> string \<Rightarrow> utc \<Rightarrow> int \<Rightarrow> (string \<times> event_row) list result" where
  "events_since db event_type observed_at limit =
     checked [require_text ''event_type'' event_type, fail_if (limit < 1) (ValueErr ''limit must be positive'')]
      (read_events (\<lambda>w. ev_type w = event_type \<and> observed_at \<le> ev_observed_at w) limit db)"

section \<open>Retries\<close>

text \<open>A write either happens once, and then returns, or raises and changes nothing.\<close>

lemma write_attempts_cases:
  "(write_attempts c answers i n op db = (op db, Inr ()) \<and> \<not> sc_read_only c) \<or>
   (\<exists>e. write_attempts c answers i n op db = (db, Inl e))"
  by (induction n arbitrary: i) (auto split: attempt.splits)

lemma write_with_retry_cases:
  "(write_with_retry c answers op db = (op db, Inr ()) \<and> \<not> sc_read_only c) \<or>
   (\<exists>e. write_with_retry c answers op db = (db, Inl e))"
  unfolding write_with_retry_def by (rule write_attempts_cases)

text \<open>The write is made when an attempt within the bound commits and all before it were busy.\<close>

definition busy_answer :: "attempt \<Rightarrow> bool" where
  "busy_answer a = (case a of Operational nm m \<Rightarrow> is_sqlite_busy nm m | _ \<Rightarrow> False)"

lemma write_attempts_commit:
  assumes "\<not> sc_read_only c" "k < n" "answers (i + k) = Committed" "\<forall>j<k. busy_answer (answers (i + j))"
  shows "write_attempts c answers i n op db = (op db, Inr ())"
  using assms
proof (induction k arbitrary: i n)
  case 0
  then show ?case by (cases n) auto
next
  case (Suc k)
  obtain n' where n: "n = Suc n'" using Suc.prems(2) by (cases n) auto
  have "busy_answer (answers i)" using Suc.prems(4) by fastforce
  moreover have "write_attempts c answers (Suc i) n' op db = (op db, Inr ())"
    using Suc.prems n by (intro Suc.IH) auto
  ultimately show ?case using Suc.prems(1) by (auto simp: n busy_answer_def split: attempt.splits)
qed

lemma write_attempts_exhausted:
  assumes "\<not> sc_read_only c" "\<forall>j<n. busy_answer (answers (i + j))"
  shows "write_attempts c answers i n op db = (db, Inl write_busy)"
  using assms
proof (induction n arbitrary: i)
  case (Suc n)
  have "busy_answer (answers i)" using Suc.prems(2) by fastforce
  moreover have "write_attempts c answers (Suc i) n op db = (db, Inl write_busy)"
    using Suc.prems by (intro Suc.IH) auto
  ultimately show ?case using Suc.prems(1) by (auto simp: busy_answer_def split: attempt.splits)
qed simp

text \<open>The start-up retry ends once the clock has reached the deadline.\<close>

lemma startup_attempts_end:
  assumes "\<exists>a\<in>set answers. \<not> busy_answer (sa_attempt a) \<or> fl (deadline - sa_now a) \<le> 0"
  shows "startup_attempts c operation started deadline n err op db answers \<noteq> None"
  using assms
proof (induction answers arbitrary: n err)
  case (Cons a answers)
  show ?case
  proof (cases "sc_read_only c \<or> \<not> busy_answer (sa_attempt a) \<or> fl (deadline - sa_now a) \<le> 0")
    case True
    then show ?thesis by (auto simp: busy_answer_def split: attempt.splits)
  next
    case False
    then obtain nm m where "sa_attempt a = Operational nm m" "is_sqlite_busy nm m"
      by (auto simp: busy_answer_def split: attempt.splits)
    moreover have "startup_attempts c operation started deadline (Suc n) (Some (nm, m)) op db answers \<noteq> None"
      using Cons.prems False by (intro Cons.IH) auto
    ultimately show ?thesis using False by simp
  qed
qed simp

lemma startup_attempts_cases:
  assumes "startup_attempts c operation started deadline n err op db answers = Some (db', r)"
  shows "(\<exists>d. r = Inr d \<and> db' = op db) \<or> (\<exists>e. r = Inl e \<and> db' = db)"
  using assms
  by (induction answers arbitrary: n err) (auto split: attempt.splits if_splits)


section \<open>The evidence is append-only\<close>

text \<open>The operations a process performs on the repository, with the answers SQLite gives.\<close>

datatype shadow_op = Save_Window "nat \<Rightarrow> attempt" string json utc
  | Append_Event "nat \<Rightarrow> attempt" string event_row
  | Startup_Schema rat rat "startup_answer list"
  | Startup_Window rat rat string json utc "startup_answer list"

definition or_same :: "'s \<Rightarrow> ('s \<times> 'r) option \<Rightarrow> 's" where
  "or_same s x = (case x of None \<Rightarrow> s | Some (s', r) \<Rightarrow> s')"

fun shadow_apply :: "shadow_config \<Rightarrow> shadow_db \<Rightarrow> shadow_op \<Rightarrow> shadow_db" where
  "shadow_apply c db (Save_Window answers wid payload t) = fst (save_window_once c answers db wid payload t)"
| "shadow_apply c db (Append_Event answers event_id w) = fst (append_event c answers db event_id w)"
| "shadow_apply c db (Startup_Schema deadline started answers) =
     or_same db (initialize_for_startup c deadline started db answers)"
| "shadow_apply c db (Startup_Window deadline started wid payload t answers) =
     or_same db (save_window_once_for_startup c deadline started db wid payload t answers)"

definition extends :: "shadow_db \<Rightarrow> shadow_db \<Rightarrow> bool" where
  "extends db db' \<longleftrightarrow> (\<exists>ws es. sdb_windows db' = sdb_windows db @ ws \<and> sdb_events db' = sdb_events db @ es \<and>
     (distinct (map fst (sdb_windows db)) \<longrightarrow> distinct (map fst (sdb_windows db'))) \<and>
     (distinct (map fst (sdb_events db)) \<longrightarrow> distinct (map fst (sdb_events db'))))"

lemma extends_refl [simp]: "extends db db"
  by (simp add: extends_def)

lemma extends_trans: "extends a b \<Longrightarrow> extends b c \<Longrightarrow> extends a c"
  by (auto simp: extends_def)

lemma row_insert_extends: "\<exists>new. row_insert t k v = t @ new \<and> (distinct (map fst t) \<longrightarrow> distinct (map fst (row_insert t k v)))"
  by (auto simp: row_insert_def map_of_eq_None_iff)

lemma insert_extends [simp]: "extends db (insert_window wid p t db)" "extends db (insert_event event_id w db)"
  using row_insert_extends [of "sdb_windows db" wid] row_insert_extends [of "sdb_events db" event_id]
  by (simp_all add: extends_def insert_window_def insert_event_def)

lemma guarded_write_cases:
  "(guarded_write cs c answers op db = (op db, Inr ()) \<and> passes cs \<and> \<not> sc_read_only c) \<or>
   (\<exists>e. guarded_write cs c answers op db = (db, Inl e))"
  using write_with_retry_cases [of c answers op db]
  by (auto simp: guarded_write_def passes_def split: option.splits)

lemma startup_extends: "(\<And>db. extends db (op db)) \<Longrightarrow>
    extends db (or_same db (write_with_startup_retry c operation d started op db answers))"
  by (auto simp: or_same_def write_with_startup_retry_def split: option.splits dest!: startup_attempts_cases)

lemma startup_window_extends: "extends db (or_same db (save_window_once_for_startup c d started db wid p t answers))"
proof -
  have "extends db (or_same db (write_with_startup_retry c ''shadow_evidence_window'' d started
      (insert_window wid p t) db answers))" by (rule startup_extends) simp
  then show ?thesis
    by (auto simp: save_window_once_for_startup_def or_same_def split: option.splits sum.splits if_splits)
qed

lemma shadow_apply_extends: "extends db (shadow_apply c db x)"
proof (cases x)
  case (Save_Window answers wid p t)
  then show ?thesis
    using guarded_write_cases [of "[require_text ''window_id'' wid]" c answers "insert_window wid p t" db]
    by (auto simp: save_window_once_def)
next
  case (Append_Event answers event_id w)
  have "extends db (fst (guarded_write cs c answers (insert_event event_id w) db))" for cs
    using guarded_write_cases [of cs c answers "insert_event event_id w" db] by auto
  then show ?thesis using Append_Event by (simp add: append_event_def)
next
  case (Startup_Schema d started answers)
  have "extends db (or_same db (write_with_startup_retry c ''shadow_evidence_schema'' d started id db answers))"
    by (rule startup_extends) simp
  then show ?thesis using Startup_Schema by (auto simp: initialize_for_startup_def or_same_def)
qed (simp add: startup_window_extends)

definition shadow_history :: "shadow_config \<Rightarrow> shadow_op list \<Rightarrow> shadow_db" where
  "shadow_history c ops = foldl (shadow_apply c) empty_shadow_db ops"

lemma shadow_history_extends: "extends (shadow_history c ops) (shadow_history c (ops @ later))"
proof -
  have "extends db (foldl (shadow_apply c) db later)" for db
    by (induction later arbitrary: db) (auto intro: extends_trans shadow_apply_extends)
  then show ?thesis by (simp add: shadow_history_def)
qed

lemma shadow_history_distinct: "distinct (map fst (sdb_events (shadow_history c ops)))"
  using shadow_history_extends [of c "[]" ops] by (auto simp: shadow_history_def extends_def empty_shadow_db_def)

section \<open>Reading back\<close>

lemma map_of_extends: "extends db db' \<Longrightarrow> map_of (sdb_events db) k = Some w \<Longrightarrow> map_of (sdb_events db') k = Some w"
  by (auto simp: extends_def map_add_def split: option.splits)

text \<open>A reader with a limit gets the newest matching events, newest first, and no other.\<close>

lemma latest_first_set [simp]: "set (latest_first f xs) = set xs"
  by (simp add: latest_first_def)

lemma latest_first_sorted: "sorted_wrt (\<lambda>x y. f y \<le> f x) (latest_first f xs)"
  using sorted_sort_key [of "\<lambda>x. - f x" xs] by (simp add: latest_first_def sorted_wrt_map)

lemma mapr_read_event:
  "mapr read_event rs = (if \<forall>r\<in>set rs. is_object (ev_payload (snd r)) then Inr rs
     else Inl (RuntimeErr ''stored shadow event payload is not an object''))"
  by (induction rs) (auto simp: read_event_def object_payload_def)

lemma read_events_sound:
  assumes "read_events chosen n db = Inr rs"
  shows "\<forall>r\<in>set rs. r \<in> set (sdb_events db) \<and> chosen (snd r)" "length rs \<le> nat n"
    "sorted_wrt (\<lambda>x y. ev_observed_at (snd y) \<le> ev_observed_at (snd x)) rs"
proof -
  let ?all = "latest_first (\<lambda>(k, w). ev_observed_at w) (filter (\<lambda>(k, w). chosen w) (sdb_events db))"
  have rs: "rs = take (nat n) ?all"
    using assms by (auto simp: read_events_def mapr_read_event split: if_splits)
  show "\<forall>r\<in>set rs. r \<in> set (sdb_events db) \<and> chosen (snd r)"
    by (auto simp: rs dest!: in_set_takeD)
  show "length rs \<le> nat n" by (simp add: rs)
  show "sorted_wrt (\<lambda>x y. ev_observed_at (snd y) \<le> ev_observed_at (snd x)) rs"
    using latest_first_sorted [of "\<lambda>(k, w). ev_observed_at w" "filter (\<lambda>(k, w). chosen w) (sdb_events db)"]
    by (auto simp: rs case_prod_beta intro: sorted_wrt_take)
qed

section \<open>Properties\<close>

text \<open>
  C34: the evidence repository is append-only. In every history of its operations, whatever SQLite answers,
  an \<open>append_event\<close> that raises changes nothing; one that returns has stored its id for ever: every later
  state keeps every row of every earlier one in place, no id is stored twice, and the event read back is
  the first one that was stored under the id.
\<close>

theorem evidence_is_append_only:
  assumes "append_event c answers (shadow_history c ops) event_id w = (db', r)"
  shows "(case r of Inl e \<Rightarrow> db' = shadow_history c ops
     | Inr u \<Rightarrow> map_of (sdb_events (shadow_history c (ops @ Append_Event answers event_id w # later))) event_id
         = Some (case map_of (sdb_events (shadow_history c ops)) event_id of
             None \<Rightarrow> w\<lparr>ev_payload := json_canonical (ev_payload w)\<rparr> | Some v \<Rightarrow> v)) \<and>
    extends (shadow_history c ops) (shadow_history c (ops @ later)) \<and>
    distinct (map fst (sdb_events (shadow_history c ops)))"
proof -
  let ?db = "shadow_history c ops"
  have step: "shadow_history c (ops @ [Append_Event answers event_id w]) = db'"
    using assms by (simp add: shadow_history_def)
  have "r = Inr () \<and> db' = insert_event event_id w ?db \<or> (\<exists>e. r = Inl e) \<and> db' = ?db"
  proof -
    obtain cs where "guarded_write cs c answers (insert_event event_id w) ?db = (db', r)"
      using assms by (simp add: append_event_def)
    then show ?thesis using guarded_write_cases [of cs c answers "insert_event event_id w" ?db] by auto
  qed
  then show ?thesis
  proof
    assume r: "r = Inr () \<and> db' = insert_event event_id w ?db"
    have "extends db' (shadow_history c (ops @ Append_Event answers event_id w # later))"
      using shadow_history_extends [of c "ops @ [Append_Event answers event_id w]" later] by (simp add: step)
    moreover have "map_of (sdb_events db') event_id = Some (case map_of (sdb_events ?db) event_id of
        None \<Rightarrow> w\<lparr>ev_payload := json_canonical (ev_payload w)\<rparr> | Some v \<Rightarrow> v)"
      using r by (auto simp: insert_event_def wr.lookup_same split: option.splits)
    ultimately show ?thesis
      using r map_of_extends shadow_history_extends shadow_history_distinct by (auto split: option.splits)
  qed (use shadow_history_extends shadow_history_distinct in auto)
qed

definition demo_shadow_config :: shadow_config where
  "demo_shadow_config = \<lparr>sc_read_only = False, sc_max_busy_retries = 3, sc_retry_sleep = 1 / 20\<rparr>"

definition demo_answers :: "nat \<Rightarrow> attempt" where
  "demo_answers n = (if n < 2 then Operational ''SQLITE_BUSY'' ''database is locked'' else Committed)"

definition demo_event :: event_row where
  "demo_event = \<lparr>ev_window_id = ''w'', ev_type = ''CYCLE'', ev_bucket_key = None,
     ev_payload = JDict [(''a'', JInt 1)], ev_observed_at = 7\<rparr>"

lemma demo_append: "append_event demo_shadow_config demo_answers empty_shadow_db ''e'' demo_event
    = (insert_event ''e'' demo_event empty_shadow_db, Inr ())"
proof -
  have "write_attempts demo_shadow_config demo_answers 0 (nat 4) op db = (op db, Inr ())" for op db
  proof (rule write_attempts_commit [where k = 2])
    have "is_sqlite_busy ''SQLITE_BUSY'' ''database is locked''" by code_simp
    then show "\<forall>j<2. busy_answer (demo_answers (0 + j))" by (simp add: demo_answers_def busy_answer_def)
  qed (simp_all add: demo_shadow_config_def demo_answers_def)
  moreover have "nat (sc_max_busy_retries demo_shadow_config + 1) = nat 4" by (simp add: demo_shadow_config_def)
  ultimately have "write_with_retry demo_shadow_config demo_answers op db = (op db, Inr ())" for op db
    unfolding write_with_retry_def by presburger
  then show ?thesis
    by (simp add: append_event_def guarded_write_def demo_event_def require_text_def py_strip_def py_space_def)
qed

theorem evidence_is_append_only_witness:
  "\<exists>v. map_of (sdb_events (shadow_history demo_shadow_config [Append_Event demo_answers ''e'' demo_event,
      Append_Event demo_answers ''e'' (demo_event\<lparr>ev_type := ''OTHER''\<rparr>)])) ''e'' = Some v \<and> ev_type v = ''CYCLE''"
proof -
  have h: "append_event demo_shadow_config demo_answers (shadow_history demo_shadow_config []) ''e'' demo_event
      = (insert_event ''e'' demo_event empty_shadow_db, Inr ())"
    using demo_append by (simp add: shadow_history_def)
  show ?thesis
    using evidence_is_append_only [OF h, of "[Append_Event demo_answers ''e'' (demo_event\<lparr>ev_type := ''OTHER''\<rparr>)]"]
    by (simp add: shadow_history_def empty_shadow_db_def) (simp add: demo_event_def)
qed

end
