(* ===== verification/Sol5m.thy ===== *)
theory Sol5m
  imports Paper_Runtime "HOL-Library.AList" "HOL-Library.Multiset"
begin

text \<open>
  \<open>evaluation/sol5m_go_no_go.py\<close>: the offline study of one bucket. It loads the labelled checkpoint
  observations of the corpus, holds out the newest fifth of the conditions, selects a checkpoint and a
  penalty by walk-forward on the rest, fits a calibrated logistic model, and decides from the metrics on the
  hold-out. The research artifact of a study is signed with a checksum; the loader accepts it only if
  the envelope and the checksum match, and the challenger it gives can predict but never execute. Floats
  are rationals rounded after every operator, as in \<open>Paper_Runtime\<close>.
\<close>

section \<open>Constants and operations of the interpreter\<close>

text \<open>
  \<open>float(text)\<close> when it is finite, the square root, the SHA-256 digest of the compact sorted JSON text of a
  value, ISO texts, a float shown with a fixed number of decimals, and the integer of the first sixteen hexadecimal
  digits of the digest of some ids joined by \<open>|\<close>, and \<open>int(text)\<close>.
\<close>

record study_env =
  sv_num :: py_numbers
  sv_float :: "string \<Rightarrow> rat option"
  sv_sqrt :: "rat \<Rightarrow> rat"
  sv_digest :: "json \<Rightarrow> string"
  sv_iso :: "utc \<Rightarrow> string"
  sv_from_iso :: "string \<Rightarrow> utc option"
  sv_fixed :: "nat \<Rightarrow> rat \<Rightarrow> string"
  sv_seed :: "string list \<Rightarrow> int"
  sv_int :: "string \<Rightarrow> int option"

definition study_feature_schema :: string where
  "study_feature_schema = ''v3.15.3-directional-official-ptb''"

definition study_dataset_schema :: string where
  "study_dataset_schema = ''directional_checkpoint_observations:v1''"

definition checkpoint_targets :: "int list" where "checkpoint_targets = [120, 90, 60, 45]"

definition study_feature_names :: "string list" where
  "study_feature_names = [''ptb_normalized_distance'', ''tte_fraction'', ''short_return'', ''medium_return'',
     ''momentum'', ''realized_volatility'', ''volatility_acceleration'', ''trade_imbalance'',
     ''external_book_imbalance'', ''microprice_distance'', ''flip_rate'', ''regime_score'']"

definition regularization_grid :: "(string \<times> rat) list" where
  "regularization_grid = [(''strong'', fl (1 / 10)), (''medium'', fl (1 / 100)), (''weak'', fl (1 / 1000))]"

definition near_zero :: rat where "near_zero = fl (1 / 10 ^ 12)"
definition maximum_acceptable_ece :: rat where "maximum_acceptable_ece = fl (8 / 100)"
definition minimum_economic_coverage :: rat where "minimum_economic_coverage = fl (30 / 100)"
definition minimum_final_conditions :: nat where "minimum_final_conditions = 30"
definition bootstrap_resamples :: nat where "bootstrap_resamples = 500"

text \<open>\<open>2026-10-06T02:43:07.465344+00:00\<close> in microseconds since the epoch.\<close>

definition prospective_cutoff :: utc where "prospective_cutoff = 1791254587465344"

definition prospective_target :: int where "prospective_target = 45"

definition prospective_fingerprint :: string where
  "prospective_fingerprint = ''7759be2532b26d03f30c911bcba5928fab4521cd881528399e1613767f1e277f''"

definition artifact_schema_version :: string where
  "artifact_schema_version = ''P2_3R_SOL5M_RESEARCH_ARTIFACT_V1''"

definition research_model_id :: string where "research_model_id = ''P2_3R_SOL5M_45S_RESEARCH_ONLY''"

definition artifact_path :: string where
  "artifact_path = ''runtime/model_artifacts/sol5m_p23r_research_artifact.json''"

definition history_irrecoverable :: string where
  "history_irrecoverable = ''SOL5M_FROZEN_ARTIFACT_HISTORY_IRRECOVERABLE''"

section \<open>The dataset\<close>

record study_example =
  se_checkpoint_id :: string
  se_condition_id :: string
  se_target :: int
  se_at :: utc
  se_features :: "rat list"
  se_up :: bool
  se_cost :: "rat option"

record study_condition =
  sn_id :: string
  sn_chronology :: utc
  sn_up :: bool
  sn_examples :: "(int \<times> study_example) list"

record study_dataset =
  ds_code_sha :: string
  ds_fingerprint :: string
  ds_conditions :: "study_condition list"
  ds_excluded :: "(string \<times> int) list"
  ds_leakage :: int
  ds_conflicts :: int
  ds_checkpoint_counts :: "(int \<times> int) list"
  ds_earliest :: "string option"
  ds_latest :: "string option"

definition ds_row_count :: "study_dataset \<Rightarrow> nat" where
  "ds_row_count d = sum_list (map (\<lambda>c. length (sn_examples c)) (ds_conditions d))"

definition ds_up_count :: "study_dataset \<Rightarrow> nat" where
  "ds_up_count d = length (filter sn_up (ds_conditions d))"

definition ds_down_count :: "study_dataset \<Rightarrow> nat" where
  "ds_down_count d = length (ds_conditions d) - ds_up_count d"

definition finite_float :: "study_env \<Rightarrow> json \<Rightarrow> rat option" where
  "finite_float env v = (case v of JNull \<Rightarrow> None | JBool b \<Rightarrow> None
     | _ \<Rightarrow> sv_float env (json_str (num_show (sv_num env)) v))"

definition study_datetime :: "study_env \<Rightarrow> json option \<Rightarrow> utc option" where
  "study_datetime env v = Option.bind (optional_text_field v) (sv_from_iso env)"

definition study_feature_items :: "study_env \<Rightarrow> json option \<Rightarrow> (string \<times> rat \<times> utc option) list" where
  "study_feature_items env features = (case features of
     Some (JList items) \<Rightarrow> List.map_filter (\<lambda>item. case (json_get item ''name'', json_get item ''value'') of
         (Some (JStr name), Some v) \<Rightarrow>
           map_option (\<lambda>x. (name, x, study_datetime env (json_get item ''source_ts''))) (finite_float env v)
       | _ \<Rightarrow> None) items
   | _ \<Rightarrow> [])"

text \<open>The cost quoted at the top of a payload, or in one of its nested objects.\<close>

definition quoted_cost :: "study_env \<Rightarrow> json \<Rightarrow> rat option" where
  "quoted_cost env payload =
     (case List.map_filter (\<lambda>k. case Option.bind (json_get payload k) (finite_float env) of
          None \<Rightarrow> None | Some x \<Rightarrow> if 0 < x \<and> x < 1 then Some x else None)
        [''selected_side_executable_cost'', ''selected_side_cost'', ''executable_cost'', ''all_in_cost_per_share''] of
      [] \<Rightarrow> None | x # xs \<Rightarrow> Some x)"

definition first_of :: "'a option list \<Rightarrow> 'a option" where
  "first_of xs = (case filter (\<lambda>x. x \<noteq> None) xs of [] \<Rightarrow> None | x # ys \<Rightarrow> x)"

lemma json_get_size: "json_get v k = Some w \<Longrightarrow> size w < size v"
proof (induction v k rule: json_get.induct)
  case (1 kvs k)
  then have "(k, w) \<in> set kvs" by (simp add: map_of_SomeD)
  then have "size_prod (\<lambda>x. 0) size (k, w) \<le> size_list (size_prod (\<lambda>x. 0) size) kvs"
    by (rule size_list_estimation') simp
  then show ?case by simp
qed simp_all

function executable_cost :: "study_env \<Rightarrow> json \<Rightarrow> rat option" where
  "executable_cost env payload = (case quoted_cost env payload of
     Some x \<Rightarrow> Some x
   | None \<Rightarrow> first_of (map (\<lambda>k. case json_get payload k of
        Some (JDict kvs) \<Rightarrow> executable_cost env (JDict kvs) | _ \<Rightarrow> None)
      [''pricing'', ''edge'', ''execution_context'', ''directional_assessment'']))"
  by pat_completeness auto
termination
  by (relation "measure (\<lambda>(env, v). size v)") (auto dest: json_get_size)

text \<open>What one row becomes: an example, or the reason of its exclusion and whether it would leak.\<close>

datatype row_reading = Excluded string bool | Included study_example

fun feature_values :: "utc \<Rightarrow> (string \<Rightarrow> (rat \<times> utc option) option) \<Rightarrow> string list \<Rightarrow> (string \<times> bool) + rat list" where
  "feature_values at_time m [] = Inr []"
| "feature_values at_time m (n # ns) = (case m n of
     None \<Rightarrow> Inl (''MISSING_FEATURE:'' @ n, False)
   | Some (x, source_ts) \<Rightarrow>
       if (case source_ts of None \<Rightarrow> False | Some t \<Rightarrow> at_time < t) then Inl (''FUTURE_SOURCE_TS:'' @ n, True)
       else (case feature_values at_time m ns of Inl r \<Rightarrow> Inl r | Inr xs \<Rightarrow> Inr (x # xs)))"

definition read_vector :: "study_env \<Rightarrow> string \<Rightarrow> checkpoint_row \<Rightarrow> bool \<Rightarrow> row_reading" where
  "read_vector env k w up = (let observed = lr_observed_at w in
     case json_get (lr_payload w) ''feature_vector'' of
       Some (JDict kvs) \<Rightarrow> (let v = JDict kvs in
         if json_get v ''feature_set_version'' \<noteq> Some (JStr study_feature_schema) then Excluded ''FEATURE_SET_MISMATCH'' False
         else if (case study_datetime env (json_get v ''generated_at'') of None \<Rightarrow> False | Some t \<Rightarrow> observed < t)
           then Excluded ''FEATURE_GENERATED_AFTER_OBSERVATION'' True
         else case feature_values observed (map_of (rev (study_feature_items env (json_get v ''features''))))
             study_feature_names of
           Inl (reason, leak) \<Rightarrow> Excluded reason leak
         | Inr xs \<Rightarrow> Included \<lparr>se_checkpoint_id = k, se_condition_id = lr_condition_id w, se_target = ck_target_tte w,
             se_at = observed, se_features = xs, se_up = up, se_cost = executable_cost env (lr_payload w)\<rparr>)
     | _ \<Rightarrow> Excluded ''FEATURE_VECTOR_MISSING'' False)"

definition read_row :: "study_env \<Rightarrow> string \<times> checkpoint_row \<Rightarrow> row_reading" where
  "read_row env kw = (case kw of (k, w) \<Rightarrow> let label = (case lr_outcome w of None \<Rightarrow> JNull | Some v \<Rightarrow> v) in
     if ck_schema w \<noteq> study_feature_schema then Excluded ''FEATURE_SCHEMA_MISMATCH'' False
     else if ck_target_tte w \<notin> set checkpoint_targets then Excluded ''UNSUPPORTED_CHECKPOINT'' False
     else if json_get label ''settlement_source_kind'' \<noteq> Some (JStr ''OFFICIAL'')
       then Excluded ''NON_OFFICIAL_OUTCOME'' False
     else case json_get label ''outcome_up'' of
         Some (JBool up) \<Rightarrow>
           if (case study_datetime env (json_get label ''official_resolved_at'') of
                 None \<Rightarrow> False | Some t \<Rightarrow> t \<le> lr_observed_at w)
           then Excluded ''OFFICIAL_OUTCOME_NOT_AFTER_OBSERVATION'' True
           else read_vector env k w up
       | _ \<Rightarrow> Excluded ''OUTCOME_MISSING'' False)"

record condition_state = study_condition +
  cst_conflict :: bool

record load_state =
  ls_excluded :: "(string \<times> int) list"
  ls_leakage :: int
  ls_conditions :: "(string \<times> condition_state) list"

definition increment_count :: "string \<Rightarrow> (string \<times> int) list \<Rightarrow> (string \<times> int) list" where
  "increment_count k counts =
     AList.update k ((case map_of counts k of None \<Rightarrow> 0 | Some n \<Rightarrow> n) + 1) counts"

definition fresh_condition :: "study_example \<Rightarrow> condition_state" where
  "fresh_condition e = \<lparr>sn_id = se_condition_id e, sn_chronology = se_at e, sn_up = se_up e, sn_examples = [],
     cst_conflict = False\<rparr>"

definition add_example :: "study_example \<Rightarrow> (string \<times> condition_state) list \<Rightarrow> (string \<times> condition_state) list" where
  "add_example e cs =
     (let c = (case map_of cs (se_condition_id e) of None \<Rightarrow> fresh_condition e | Some c \<Rightarrow> c) in
      AList.update (se_condition_id e)
        (if sn_up c \<noteq> se_up e then c\<lparr>cst_conflict := True\<rparr>
         else c\<lparr>sn_chronology := min (sn_chronology c) (se_at e),
           sn_examples := AList.update (se_target e) e (sn_examples c)\<rparr>) cs)"

definition load_row :: "study_env \<Rightarrow> string \<times> checkpoint_row \<Rightarrow> load_state \<Rightarrow> load_state" where
  "load_row env kw st = (case read_row env kw of
     Excluded reason leak \<Rightarrow> st\<lparr>ls_excluded := increment_count reason (ls_excluded st),
       ls_leakage := ls_leakage st + (if leak then 1 else 0)\<rparr>
   | Included e \<Rightarrow> st\<lparr>ls_conditions := add_example e (ls_conditions st)\<rparr>)"

definition checkpoint_rows :: "corpus_repo \<Rightarrow> utc option \<Rightarrow> (string \<times> checkpoint_row) list" where
  "checkpoint_rows repo cutoff =
     sort_key (\<lambda>(k, w). lr_observed_at w) (sort_key (\<lambda>(k, w). lr_condition_id w) (sort_key (\<lambda>(k, w). ck_target_tte w)
       (filter (\<lambda>(k, w). in_bucket (Some SOL) (Some FIVE_MINUTES) w \<and> lr_outcome w \<noteq> None
          \<and> (case cutoff of None \<Rightarrow> True | Some t \<Rightarrow> lr_observed_at w \<le> t)) (crp_checkpoints repo))))"

definition condition_payload :: "study_env \<Rightarrow> study_condition \<Rightarrow> json" where
  "condition_payload env c = JDict [(''condition_id'', JStr (sn_id c)),
     (''chronology'', JStr (sv_iso env (sn_chronology c))), (''outcome_up'', JBool (sn_up c)),
     (''targets'', JDict (map (\<lambda>(t, e). (show_int t, JDict [(''checkpoint_id'', JStr (se_checkpoint_id e)),
        (''observed_at'', JStr (sv_iso env (se_at e))), (''features'', JList (map JReal (se_features e)))]))
        (sort_key fst (sn_examples c))))]"

definition dataset_fingerprint :: "study_env \<Rightarrow> string \<Rightarrow> study_condition list \<Rightarrow> string" where
  "dataset_fingerprint env code_sha cs = sv_digest env (json_canonical (JDict [(''code_sha'', JStr code_sha),
     (''asset'', JStr (asset_value SOL)), (''horizon'', JStr (horizon_value FIVE_MINUTES)),
     (''feature_schema'', JStr study_feature_schema), (''dataset_schema'', JStr study_dataset_schema),
     (''feature_names'', JList (map JStr study_feature_names)),
     (''conditions'', JList (map (condition_payload env) cs))]))"

definition plain_condition :: "condition_state \<Rightarrow> study_condition" where
  "plain_condition c = study_condition.truncate c"

definition kept_conditions :: "(string \<times> condition_state) list \<Rightarrow> study_condition list" where
  "kept_conditions cs = sort_key sn_chronology (sort_key sn_id (map plain_condition
     (filter (\<lambda>c. \<not> cst_conflict c \<and> sn_examples c \<noteq> []) (map snd cs))))"

definition load_sol5m_dataset :: "study_env \<Rightarrow> corpus_repo option \<Rightarrow> string \<Rightarrow> utc option \<Rightarrow> study_dataset result" where
  "load_sol5m_dataset env repo code_sha cutoff = (case repo of
     None \<Rightarrow> Inl (Library_Error ''FileNotFoundError'' '''')
   | Some r \<Rightarrow>
      (let st = fold (load_row env) (checkpoint_rows r cutoff)
             \<lparr>ls_excluded = [], ls_leakage = 0, ls_conditions = []\<rparr>;
           cs = kept_conditions (ls_conditions st) in
       Inr \<lparr>ds_code_sha = code_sha, ds_fingerprint = dataset_fingerprint env code_sha cs, ds_conditions = cs,
         ds_excluded = ls_excluded st, ds_leakage = ls_leakage st,
         ds_conflicts = int (length (filter (\<lambda>(k, c). cst_conflict c) (ls_conditions st))),
         ds_checkpoint_counts = map (\<lambda>t. (t, int (length (filter (\<lambda>c. map_of (sn_examples c) t \<noteq> None) cs))))
           checkpoint_targets,
         ds_earliest = (if cs = [] then None else Some (sv_iso env (sn_chronology (hd cs)))),
         ds_latest = (if cs = [] then None else Some (sv_iso env (sn_chronology (last cs))))\<rparr>))"

section \<open>Splits\<close>

definition eighty_percent :: "nat \<Rightarrow> nat" where
  "eighty_percent n = max 1 (nat (py_trunc (fl (of_nat n * fl (8 / 10)))))"

definition chronological_holdout :: "study_condition list \<Rightarrow> study_condition list \<times> study_condition list" where
  "chronological_holdout cs =
     (let split = (if length cs \<le> eighty_percent (length cs) then length cs - 1 else eighty_percent (length cs)) in
      (take split cs, drop split cs))"

definition fold_count_of :: "nat \<Rightarrow> nat" where
  "fold_count_of n = (if 160 \<le> n then 4 else if 90 \<le> n then 3 else if 30 \<le> n then 2 else 0)"

definition fold_end :: "nat \<Rightarrow> nat \<Rightarrow> nat \<Rightarrow> nat" where
  "fold_end n k index = nat (py_trunc (fl (of_nat (n * index) / of_nat (k + 1))))"

definition condition_folds :: "study_condition list \<Rightarrow> (study_condition list \<times> study_condition list) list" where
  "condition_folds cs = (let n = length cs; k = fold_count_of n in
     filter (\<lambda>(train, validation). train \<noteq> [] \<and> validation \<noteq> [])
       (map (\<lambda>i. (take (fold_end n k i) cs,
          take (fold_end n k (i + 1) - fold_end n k i) (drop (fold_end n k i) cs))) [1..<k + 1]))"

definition examples_of :: "study_condition list \<Rightarrow> int \<Rightarrow> study_example list" where
  "examples_of cs target = List.map_filter (\<lambda>c. map_of (sn_examples c) target) cs"

definition both_classes :: "study_example list \<Rightarrow> bool" where
  "both_classes es \<longleftrightarrow> list_ex se_up es \<and> list_ex (\<lambda>e. \<not> se_up e) es"

section \<open>Models\<close>

record study_scaler =
  sl_means :: "rat list"
  sl_scales :: "rat list"

record study_model =
  sm_coefficients :: "rat list"
  sm_intercept :: rat
  sm_scaler :: study_scaler

record platt_calibrator =
  pl_coefficient :: rat
  pl_intercept :: rat

definition sigmoid :: "py_numbers \<Rightarrow> rat \<Rightarrow> rat" where
  "sigmoid num x = (let clipped = max (- 40) (min 40 x) in
     num_round num (1 / num_round num (1 + num_exp num (- clipped))))"

definition scale_row :: "py_numbers \<Rightarrow> study_scaler \<Rightarrow> rat list \<Rightarrow> rat list" where
  "scale_row num s row = map2 (\<lambda>x (mean, scale). num_round num (num_round num (x - mean) / scale)) row
     (zip (sl_means s) (sl_scales s))"

definition linear_score :: "py_numbers \<Rightarrow> rat list \<Rightarrow> rat \<Rightarrow> rat list \<Rightarrow> rat" where
  "linear_score num cs b row = num_round num (b + num_sum num (map2 (\<lambda>c x. num_round num (c * x)) cs row))"

definition model_score :: "py_numbers \<Rightarrow> study_model \<Rightarrow> rat list \<Rightarrow> rat" where
  "model_score num m row = linear_score num (sm_coefficients m) (sm_intercept m) (scale_row num (sm_scaler m) row)"

definition model_probability :: "py_numbers \<Rightarrow> study_model \<Rightarrow> rat list \<Rightarrow> rat" where
  "model_probability num m row = sigmoid num (model_score num m row)"

definition calibrate_score :: "py_numbers \<Rightarrow> platt_calibrator \<Rightarrow> rat \<Rightarrow> rat" where
  "calibrate_score num c score = sigmoid num (num_round num (pl_intercept c + num_round num (pl_coefficient c * score)))"

definition calibrated_probability :: "py_numbers \<Rightarrow> study_model \<Rightarrow> platt_calibrator option \<Rightarrow> rat list \<Rightarrow> rat" where
  "calibrated_probability num m c row = (case c of
     None \<Rightarrow> model_probability num m row | Some p \<Rightarrow> calibrate_score num p (model_score num m row))"

definition mean_of :: "py_numbers \<Rightarrow> rat list \<Rightarrow> rat" where
  "mean_of num xs = num_round num (num_sum num xs / of_nat (length xs))"

definition fit_scaler :: "study_env \<Rightarrow> rat list list \<Rightarrow> study_scaler option" where
  "fit_scaler env rows = (let num = sv_num env;
       columns = map (\<lambda>i. map (\<lambda>row. row ! i) rows) [0..<length (hd rows)];
       fitted = map (\<lambda>xs. let mean = mean_of num xs in
         (mean, sv_sqrt env (mean_of num (map (\<lambda>x. num_round num (num_round num (x - mean) ^ 2)) xs)))) columns in
     if list_ex (\<lambda>(mean, scale). scale \<le> near_zero) fitted then None
     else Some \<lparr>sl_means = map fst fitted, sl_scales = map snd fitted\<rparr>)"

definition float_of_bool :: "bool \<Rightarrow> rat" where
  "float_of_bool b = (if b then 1 else 0)"

text \<open>One step of the descent is the one of the paper models (\<open>descend\<close>).\<close>

definition fit_l2 :: "py_numbers \<Rightarrow> rat list list \<Rightarrow> bool list \<Rightarrow> rat \<Rightarrow> rat list \<times> rat" where
  "fit_l2 num rows labels penalty =
     (let rate = min (fl (99 / 100)) (max (fl (1 / 100)) (mean_of num (map float_of_bool labels)));
          start = num_log num (num_round num (rate / num_round num (1 - rate))) in
      (descend num (fl (5 / 100)) penalty (zip rows labels) ^^ 500) (map (\<lambda>_. 0) (hd rows), start))"

definition round_digits :: "py_numbers \<Rightarrow> nat \<Rightarrow> rat \<Rightarrow> rat" where
  "round_digits num n x = num_round num (of_int (half_even (x * 10 ^ n)) / 10 ^ n)"

definition fit_model :: "study_env \<Rightarrow> study_example list \<Rightarrow> rat \<Rightarrow> study_model option" where
  "fit_model env es penalty = (let num = sv_num env in
     if \<not> both_classes es then None
     else case fit_scaler env (map se_features es) of
       None \<Rightarrow> None
     | Some scaler \<Rightarrow>
        (let scaled = map (\<lambda>e. scale_row num scaler (se_features e)) es in
         case fit_l2 num scaled (map se_up es) penalty of (cs, b) \<Rightarrow>
           if list_all (\<lambda>c. \<bar>c\<bar> \<le> near_zero) cs then None
           else if card (set (map (\<lambda>row. round_digits num 12 (sigmoid num (linear_score num cs b row))) scaled)) \<le> 1 then None
           else Some \<lparr>sm_coefficients = cs, sm_intercept = b, sm_scaler = scaler\<rparr>))"

definition fit_platt :: "study_env \<Rightarrow> rat list \<Rightarrow> bool list \<Rightarrow> platt_calibrator option" where
  "fit_platt env scores labels = (let num = sv_num env in
     if length scores < 10 \<or> card (set labels) \<le> 1 then None
     else case fit_scaler env (map (\<lambda>s. [s]) scores) of
       None \<Rightarrow> None
     | Some scaler \<Rightarrow>
        (case fit_l2 num (map (\<lambda>s. scale_row num scaler [s]) scores) labels (fl (1 / 100)) of (cs, b) \<Rightarrow>
          (let c = hd cs; mean = hd (sl_means scaler); scale = hd (sl_scales scaler) in
           if \<bar>c\<bar> \<le> near_zero then None
           else Some \<lparr>pl_coefficient = num_round num (c / scale),
             pl_intercept = num_round num (b - num_round num (num_round num (c * mean) / scale))\<rparr>)))"

definition fit_calibrated :: "study_env \<Rightarrow> study_condition list \<Rightarrow> int \<Rightarrow> rat \<Rightarrow>
    (study_model \<times> platt_calibrator option) option" where
  "fit_calibrated env cs target penalty =
     (let usable = filter (\<lambda>c. map_of (sn_examples c) target \<noteq> None) cs; split = eighty_percent (length usable) in
      if length usable < 10 \<or> length usable \<le> split then None
      else let train = examples_of (take split usable) target; held = examples_of (drop split usable) target in
        if \<not> both_classes train \<or> \<not> both_classes held then None
        else case fit_model env train penalty of
          None \<Rightarrow> None
        | Some m \<Rightarrow> Some (m, fit_platt env (map (\<lambda>e. model_score (sv_num env) m (se_features e)) held) (map se_up held)))"

section \<open>Metrics\<close>

record study_metrics =
  mt_conditions :: nat
  mt_up :: nat
  mt_down :: nat
  mt_accuracy :: rat
  mt_brier :: rat
  mt_log_loss :: rat
  mt_ece :: rat
  mt_mean_probability :: rat
  mt_up_rate :: rat
  mt_coverage :: rat
  mt_after_cost_ev :: "rat option"
  mt_replay_pnl :: "rat option"
  mt_drawdown :: "rat option"

definition float_ratio :: "py_numbers \<Rightarrow> nat \<Rightarrow> nat \<Rightarrow> rat" where
  "float_ratio num a b = num_round num (of_nat a / of_nat b)"

definition log_loss_of :: "py_numbers \<Rightarrow> rat \<Rightarrow> rat \<Rightarrow> rat" where
  "log_loss_of num p y = (let eps = near_zero;
       c = min (num_round num (1 - eps)) (max eps p) in
     - num_round num (num_round num (y * num_log num c)
        + num_round num (num_round num (1 - y) * num_log num (num_round num (1 - c)))))"

definition study_ece_bin :: "py_numbers \<Rightarrow> (rat \<times> rat) list \<Rightarrow> nat \<Rightarrow> (rat \<times> rat) list" where
  "study_ece_bin num pairs i = filter (\<lambda>(p, y). (float_ratio num i 10 \<le> p \<and> p < float_ratio num (i + 1) 10)
     \<or> (i = 9 \<and> p = 1)) pairs"

definition ece_of :: "py_numbers \<Rightarrow> rat list \<Rightarrow> rat list \<Rightarrow> rat" where
  "ece_of num ps ys = fold (\<lambda>i acc. let members = study_ece_bin num (zip ps ys) i in
       if members = [] then acc
       else num_round num (acc + num_round num (float_ratio num (length members) (length ps) *
         \<bar>num_round num (mean_of num (map fst members) - mean_of num (map snd members))\<bar>)))
     [0..<10] 0"

fun drawdown_of :: "py_numbers \<Rightarrow> rat \<Rightarrow> rat \<Rightarrow> rat \<Rightarrow> rat list \<Rightarrow> rat" where
  "drawdown_of num equity peak worst [] = worst"
| "drawdown_of num equity peak worst (x # xs) =
     (let e = num_round num (equity + x); p = max peak e in
      drawdown_of num e p (max worst (num_round num (p - e))) xs)"

text \<open>The side a probability selects, what it expects and what it earns at a cost.\<close>

definition selects_up :: "rat \<Rightarrow> bool" where
  "selects_up p \<longleftrightarrow> 1 / 2 \<le> p"

definition edge_at :: "py_numbers \<Rightarrow> rat \<Rightarrow> rat \<Rightarrow> rat" where
  "edge_at num p cost = num_round num ((if selects_up p then p else num_round num (1 - p)) - cost)"

definition pnl_at :: "py_numbers \<Rightarrow> bool \<Rightarrow> rat \<Rightarrow> rat \<Rightarrow> rat" where
  "pnl_at num up p cost = (if up = selects_up p then num_round num (1 - cost) else - cost)"

definition priced_items :: "study_example list \<Rightarrow> rat list \<Rightarrow> (bool \<times> rat \<times> rat) list" where
  "priced_items es ps = List.map_filter (\<lambda>(e, p). map_option (\<lambda>cost. (se_up e, p, cost)) (se_cost e)) (zip es ps)"

definition metrics_of :: "py_numbers \<Rightarrow> study_example list \<Rightarrow> rat list \<Rightarrow> study_metrics" where
  "metrics_of num es ps =
     (let labels = map (\<lambda>e. float_of_bool (se_up e)) es; priced = priced_items es ps;
          evs = map (\<lambda>(up, p, cost). edge_at num p cost) priced;
          pnls = map (\<lambda>(up, p, cost). pnl_at num up p cost) priced in
      \<lparr>mt_conditions = length es, mt_up = length (filter se_up es), mt_down = length (filter (\<lambda>e. \<not> se_up e) es),
       mt_accuracy = float_ratio num (length (filter (\<lambda>(p, y). float_of_bool (selects_up p) = y) (zip ps labels))) (length es),
       mt_brier = num_round num (num_sum num (map2 (\<lambda>p y. num_round num (num_round num (p - y) ^ 2)) ps labels)
         / of_nat (length es)),
       mt_log_loss = num_round num (num_sum num (map2 (log_loss_of num) ps labels) / of_nat (length es)),
       mt_ece = ece_of num ps labels, mt_mean_probability = mean_of num ps, mt_up_rate = mean_of num labels,
       mt_coverage = float_ratio num (length evs) (length es),
       mt_after_cost_ev = (if evs = [] then None else Some (mean_of num evs)),
       mt_replay_pnl = (if pnls = [] then None else Some (num_sum num pnls)),
       mt_drawdown = (if pnls = [] then None else Some (drawdown_of num 0 0 0 pnls))\<rparr>)"

definition study_base_rate :: "py_numbers \<Rightarrow> study_example list \<Rightarrow> rat" where
  "study_base_rate num es = min (fl (99 / 100)) (max (fl (1 / 100))
     (float_ratio num (length (filter se_up es)) (length es)))"

definition coefficient_sign :: "rat \<Rightarrow> string" where
  "coefficient_sign c = (if \<bar>c\<bar> \<le> near_zero then ''near_zero'' else if 0 < c then ''positive'' else ''negative'')"

definition coefficient_signs :: "rat list \<Rightarrow> (string \<times> string) list" where
  "coefficient_signs cs = zip study_feature_names (map coefficient_sign cs)"

record fold_result =
  fr_fold :: nat
  fr_checkpoint :: int
  fr_regularization :: string
  fr_train :: nat
  fr_validation :: nat
  fr_challenger :: study_metrics
  fr_base :: study_metrics
  fr_signs :: "(string \<times> string) list"

definition evaluate_fold :: "study_env \<Rightarrow> nat \<Rightarrow> int \<Rightarrow> string \<Rightarrow> rat \<Rightarrow> study_condition list \<Rightarrow> study_condition list \<Rightarrow>
    fold_result option" where
  "evaluate_fold env index target name penalty train validation = (let num = sv_num env in
     case fit_calibrated env train target penalty of
       None \<Rightarrow> None
     | Some (m, c) \<Rightarrow>
        (let es = examples_of validation target; base = study_base_rate num (examples_of train target) in
         if es = [] then None
         else Some \<lparr>fr_fold = index, fr_checkpoint = target, fr_regularization = name, fr_train = length train,
           fr_validation = length validation,
           fr_challenger = metrics_of num es (map (\<lambda>e. calibrated_probability num m c (se_features e)) es),
           fr_base = metrics_of num es (map (\<lambda>e. base) es), fr_signs = coefficient_signs (sm_coefficients m)\<rparr>))"

section \<open>Walk-forward selection\<close>

text \<open>The folds of one checkpoint and penalty; a fold that cannot be fitted gives nothing.\<close>

definition candidate_folds :: "study_env \<Rightarrow> study_condition list \<Rightarrow> int \<Rightarrow> string \<times> rat \<Rightarrow> fold_result list" where
  "candidate_folds env dev target reg =
     (let folds = condition_folds (filter (\<lambda>c. map_of (sn_examples c) target \<noteq> None) dev) in
      List.map_filter (\<lambda>(i, train, validation). evaluate_fold env i target (fst reg) (snd reg) train validation)
        (enumerate 1 folds))"

definition candidates :: "(int \<times> string \<times> rat) list" where
  "candidates = concat (map (\<lambda>t. map (\<lambda>(name, penalty). (t, name, penalty)) regularization_grid) checkpoint_targets)"

record candidate_score =
  sco_log_loss :: rat
  sco_brier :: rat
  sco_target :: int
  sco_name :: string
  sco_penalty :: rat

definition score_of :: "study_env \<Rightarrow> study_condition list \<Rightarrow> int \<times> string \<times> rat \<Rightarrow> candidate_score option" where
  "score_of env dev x = (case x of (target, name, penalty) \<Rightarrow> (let num = sv_num env; folds = candidate_folds env dev target (name, penalty) in
     if folds = [] then None
     else Some \<lparr>sco_log_loss = mean_of num (map (\<lambda>r. mt_log_loss (fr_challenger r)) folds),
       sco_brier = mean_of num (map (\<lambda>r. mt_brier (fr_challenger r)) folds), sco_target = target, sco_name = name,
       sco_penalty = penalty\<rparr>))"

text \<open>\<open>sort\<close> by log loss, Brier score, checkpoint and name; the head is the selection.\<close>

definition select_candidate :: "study_env \<Rightarrow> study_condition list \<Rightarrow> candidate_score option" where
  "select_candidate env dev =
     (case sort_key sco_log_loss (sort_key sco_brier (sort_key sco_target (sort_key sco_name
        (List.map_filter (score_of env dev) candidates)))) of [] \<Rightarrow> None | x # xs \<Rightarrow> Some x)"

definition all_folds :: "study_env \<Rightarrow> study_condition list \<Rightarrow> fold_result list" where
  "all_folds env dev = concat (map (\<lambda>(target, name, penalty). candidate_folds env dev target (name, penalty)) candidates)"

section \<open>The bootstrap\<close>

record study_uncertainty =
  un_status :: string
  un_resamples :: nat
  un_count :: nat
  un_ev :: "rat option list"
  un_pnl :: "rat option list"

definition lcg_next :: "int \<Rightarrow> int" where
  "lcg_next s = (6364136223846793005 * s + 1442695040888963407) mod 2 ^ 64"

text \<open>\<open>n\<close> draws of an index below \<open>width\<close>, and the state after them.\<close>

fun draws :: "nat \<Rightarrow> nat \<Rightarrow> int \<Rightarrow> nat list \<times> int" where
  "draws width 0 s = ([], s)"
| "draws width (Suc n) s = (let s' = lcg_next s; (is, t) = draws width n s' in (nat (s' mod int width) # is, t))"

fun resamples :: "py_numbers \<Rightarrow> (bool \<times> rat \<times> rat) list \<Rightarrow> nat \<Rightarrow> int \<Rightarrow> (rat \<times> rat) list" where
  "resamples num items 0 s = []"
| "resamples num items (Suc n) s =
     (let (is, t) = draws (length items) (length items) s; picked = map (\<lambda>i. items ! i) is in
      (mean_of num (map (\<lambda>(up, p, cost). edge_at num p cost) picked),
       num_sum num (map (\<lambda>(up, p, cost). pnl_at num up p cost) picked)) # resamples num items n t)"

definition percentile_of :: "py_numbers \<Rightarrow> rat list \<Rightarrow> rat \<Rightarrow> rat option" where
  "percentile_of num values q = (if values = [] then None
     else Some (sort values ! nat (min (int (length values) - 1)
       (max 0 (half_even (num_round num (of_nat (length values - 1) * q)))))))"

definition bootstrap_uncertainty :: "study_env \<Rightarrow> study_example list \<Rightarrow> rat list \<Rightarrow> study_uncertainty" where
  "bootstrap_uncertainty env es ps = (let num = sv_num env; items = priced_items es ps;
       ids = map se_condition_id (filter (\<lambda>e. se_cost e \<noteq> None) (map fst (zip es ps))) in
     if length items < 10 then \<lparr>un_status = ''INSUFFICIENT_PRICING_COVERAGE'', un_resamples = 0,
       un_count = length items, un_ev = [None, None, None], un_pnl = [None, None, None]\<rparr>
     else let samples = resamples num items bootstrap_resamples (sv_seed env ids); qs = map fl [5 / 100, 50 / 100, 95 / 100] in
       \<lparr>un_status = ''OK'', un_resamples = length samples, un_count = length items,
        un_ev = map (percentile_of num (map fst samples)) qs, un_pnl = map (percentile_of num (map snd samples)) qs\<rparr>)"

section \<open>The gates\<close>

definition beats_base :: "fold_result \<Rightarrow> bool" where
  "beats_base r \<longleftrightarrow> mt_log_loss (fr_challenger r) < mt_log_loss (fr_base r) \<and> mt_brier (fr_challenger r) < mt_brier (fr_base r)"

definition failed_gates_of :: "study_metrics \<Rightarrow> study_metrics \<Rightarrow> fold_result list \<Rightarrow> string list" where
  "failed_gates_of final base folds =
     (if mt_brier base \<le> mt_brier final then [''BRIER_NOT_BETTER_THAN_BASE_RATE''] else [])
   @ (if mt_log_loss base \<le> mt_log_loss final then [''LOGLOSS_NOT_BETTER_THAN_BASE_RATE''] else [])
   @ (if maximum_acceptable_ece < mt_ece final then [''CALIBRATION_NOT_ACCEPTABLE''] else [])
   @ (if mt_coverage final < minimum_economic_coverage then [''INSUFFICIENT_ECONOMIC_PRICING_COVERAGE'']
      else case mt_after_cost_ev final of
          None \<Rightarrow> [''OOS_AFTER_COST_EV_NOT_POSITIVE'']
        | Some ev \<Rightarrow> if ev \<le> 0 then [''OOS_AFTER_COST_EV_NOT_POSITIVE''] else [])
   @ (let selected = filter (\<lambda>r. 0 < mt_conditions (fr_challenger r)) folds in
      if selected \<noteq> [] \<and> length (filter beats_base selected) < max 1 (length selected div 2)
      then [''WALK_FORWARD_NOT_STABLE''] else [])"

record gate_row =
  gr_gate :: string
  gr_result :: string
  gr_evidence :: string

definition float_text :: "study_env \<Rightarrow> rat \<Rightarrow> string" where
  "float_text env x = num_show (sv_num env) (JReal x)"

definition gate_table_of :: "study_env \<Rightarrow> study_metrics \<Rightarrow> study_metrics \<Rightarrow> fold_result list \<Rightarrow> string list \<Rightarrow> gate_row list" where
  "gate_table_of env final base folds failed =
     (let passed = (\<lambda>name evidence. \<lparr>gr_gate = name, gr_result = ''PASS'', gr_evidence = evidence\<rparr>);
          gate = (\<lambda>name reason evidence. \<lparr>gr_gate = name, gr_result = (if reason \<in> set failed then ''FAIL'' else ''PASS''),
            gr_evidence = evidence\<rparr>); six = sv_fixed env 6 in
      [passed ''Data integrity'' ''No accepted leakage/label conflict rows'',
       passed ''No leakage'' ''Feature/source timestamps validated before observation'',
       passed ''Final sample adequate'' (show_nat (mt_conditions final) @ '' conditions, UP='' @ show_nat (mt_up final)
         @ '', DOWN='' @ show_nat (mt_down final)),
       gate ''Brier beats base rate'' ''BRIER_NOT_BETTER_THAN_BASE_RATE'' (six (mt_brier final) @ '' vs '' @ six (mt_brier base)),
       gate ''LogLoss beats base rate'' ''LOGLOSS_NOT_BETTER_THAN_BASE_RATE''
         (six (mt_log_loss final) @ '' vs '' @ six (mt_log_loss base)),
       gate ''Calibration acceptable'' ''CALIBRATION_NOT_ACCEPTABLE''
         (''ECE='' @ six (mt_ece final) @ '', max='' @ float_text env maximum_acceptable_ece),
       gate ''OOS after-cost EV > 0'' ''OOS_AFTER_COST_EV_NOT_POSITIVE''
         (''EV='' @ (case mt_after_cost_ev final of None \<Rightarrow> ''None'' | Some ev \<Rightarrow> float_text env ev)),
       gate ''Economic evidence robust'' ''INSUFFICIENT_ECONOMIC_PRICING_COVERAGE'' (''coverage='' @ sv_fixed env 3 (mt_coverage final)),
       gate ''Walk-forward stable'' ''WALK_FORWARD_NOT_STABLE'' (''folds='' @ show_nat (length folds))])"

section \<open>JSON of a study\<close>

definition opt_json :: "('a \<Rightarrow> json) \<Rightarrow> 'a option \<Rightarrow> json" where
  "opt_json f v = (case v of None \<Rightarrow> JNull | Some x \<Rightarrow> f x)"

definition json_nat :: "nat \<Rightarrow> json" where "json_nat n = JInt (int n)"

definition json_texts :: "string list \<Rightarrow> json" where "json_texts xs = JList (map JStr xs)"

definition metrics_json :: "study_metrics \<Rightarrow> json" where
  "metrics_json m = JDict [(''conditions'', json_nat (mt_conditions m)), (''up'', json_nat (mt_up m)),
     (''down'', json_nat (mt_down m)), (''accuracy'', JReal (mt_accuracy m)), (''brier'', JReal (mt_brier m)),
     (''log_loss'', JReal (mt_log_loss m)), (''ece'', JReal (mt_ece m)),
     (''mean_probability'', JReal (mt_mean_probability m)), (''empirical_up_rate'', JReal (mt_up_rate m)),
     (''economic_coverage'', JReal (mt_coverage m)), (''after_cost_ev'', opt_json JReal (mt_after_cost_ev m)),
     (''replay_pnl'', opt_json JReal (mt_replay_pnl m)), (''maximum_drawdown'', opt_json JReal (mt_drawdown m))]"

definition uncertainty_json :: "study_uncertainty \<Rightarrow> json" where
  "uncertainty_json u = JDict ([(''status'', JStr (un_status u)), (''method'', JStr ''CONDITION_LEVEL_DETERMINISTIC_BOOTSTRAP''),
     (''resamples'', json_nat (un_resamples u)), (''economic_condition_count'', json_nat (un_count u))]
     @ zip [''after_cost_ev_p05'', ''after_cost_ev_p50'', ''after_cost_ev_p95''] (map (opt_json JReal) (un_ev u))
     @ zip [''replay_pnl_p05'', ''replay_pnl_p50'', ''replay_pnl_p95''] (map (opt_json JReal) (un_pnl u)))"

definition fold_json :: "fold_result \<Rightarrow> json" where
  "fold_json r = JDict [(''fold'', json_nat (fr_fold r)), (''checkpoint'', JInt (fr_checkpoint r)),
     (''regularization'', JStr (fr_regularization r)), (''train_conditions'', json_nat (fr_train r)),
     (''validation_conditions'', json_nat (fr_validation r)), (''challenger'', metrics_json (fr_challenger r)),
     (''base_rate'', metrics_json (fr_base r)), (''coefficient_signs'', JDict (map (\<lambda>(k, v). (k, JStr v)) (fr_signs r)))]"

definition gate_json :: "gate_row \<Rightarrow> json" where
  "gate_json g = JDict [(''gate'', JStr (gr_gate g)), (''result'', JStr (gr_result g)), (''evidence'', JStr (gr_evidence g))]"

definition dataset_json :: "study_dataset \<Rightarrow> json" where
  "dataset_json d = JDict [(''code_sha'', JStr (ds_code_sha d)), (''fingerprint'', JStr (ds_fingerprint d)),
     (''asset'', JStr (asset_value SOL)), (''horizon'', JStr (horizon_value FIVE_MINUTES)),
     (''unique_conditions'', json_nat (length (ds_conditions d))), (''rows'', json_nat (ds_row_count d)),
     (''up'', json_nat (ds_up_count d)), (''down'', json_nat (ds_down_count d)),
     (''checkpoint_counts'', JDict (map (\<lambda>(t, n). (show_int t, JInt n)) (ds_checkpoint_counts d))),
     (''earliest'', opt_json JStr (ds_earliest d)), (''latest'', opt_json JStr (ds_latest d)),
     (''excluded_rows'', JDict (map (\<lambda>(k, n). (k, JInt n)) (ds_excluded d))),
     (''leakage_violations'', JInt (ds_leakage d)), (''label_conflicts'', JInt (ds_conflicts d))]"

definition excluded_features_json :: json where
  "excluded_features_json = JDict [(''placeholder_non_signal'', json_texts [''spot_perp_basis'']),
     (''deterministic_duplicate'', json_texts [''signal_stability''])]"

definition count_sign :: "fold_result list \<Rightarrow> string \<Rightarrow> string \<Rightarrow> nat" where
  "count_sign folds name sign = length (filter (\<lambda>r. (name, sign) \<in> set (fr_signs r)) folds)"

definition coefficient_summary :: "study_model \<Rightarrow> fold_result list \<Rightarrow> json" where
  "coefficient_summary m folds = JDict [(''intercept'', JReal (sm_intercept m)),
     (''coefficients'', JDict (zip study_feature_names (map JReal (sm_coefficients m)))),
     (''fold_sign_stability'', JDict (map (\<lambda>name. (name, JDict (map (\<lambda>sign. (sign, json_nat (count_sign folds name sign)))
        [''positive'', ''negative'', ''near_zero'']))) study_feature_names))]"

definition frozen_policy :: "study_env \<Rightarrow> study_dataset \<Rightarrow> study_condition list \<Rightarrow> study_condition list \<Rightarrow>
    candidate_score \<Rightarrow> json" where
  "frozen_policy env d dev final sel = JDict [(''policy_status'', JStr ''FROZEN_BEFORE_FINAL_HOLDOUT''),
     (''dataset_fingerprint'', JStr (ds_fingerprint d)), (''development_unique_conditions'', json_nat (length dev)),
     (''final_holdout_unique_conditions'', json_nat (length final)),
     (''final_holdout_earliest'', if final = [] then JNull else JStr (sv_iso env (sn_chronology (hd final)))),
     (''final_holdout_latest'', if final = [] then JNull else JStr (sv_iso env (sn_chronology (last final)))),
     (''selected_checkpoint'', JInt (sco_target sel)), (''selected_regularization'', JStr (sco_name sel)),
     (''l2_penalty'', JReal (sco_penalty sel)), (''selection_source'', JStr ''development_walk_forward_only''),
     (''feature_names'', json_texts study_feature_names), (''excluded_features'', excluded_features_json),
     (''calibration'', JStr ''PLATT_LOGISTIC_DEV_ONLY''),
     (''replay_rule'', JStr ''calibrated_probability >= 0.5 selects UP else DOWN''),
     (''after_cost_ev_rule'', JStr ''selected_calibrated_probability - checkpoint_time_executable_cost''),
     (''replay_pnl_rule'', JStr ''1 - checkpoint_time_executable_cost if selected side wins else -checkpoint_time_executable_cost''),
     (''go_gate_thresholds'', JDict [(''maximum_ece'', JReal maximum_acceptable_ece),
        (''minimum_economic_coverage'', JReal minimum_economic_coverage),
        (''minimum_final_holdout_conditions'', json_nat minimum_final_conditions),
        (''requires_brier_better_than_base_rate'', JBool True), (''requires_logloss_better_than_base_rate'', JBool True),
        (''requires_positive_after_cost_ev'', JBool True), (''requires_walk_forward_stability'', JBool True)]),
     (''final_holdout_evaluation_count_limit'', JInt 1)]"

definition condition_manifest :: "study_env \<Rightarrow> string list \<Rightarrow> string list \<Rightarrow> study_condition \<Rightarrow> json" where
  "condition_manifest env dev_ids final_ids c = JDict [(''condition_id'', JStr (sn_id c)),
     (''split'', JStr (if sn_id c \<in> set dev_ids then ''development''
        else if sn_id c \<in> set final_ids then ''final_holdout'' else ''unassigned'')),
     (''chronology'', JStr (sv_iso env (sn_chronology c))), (''outcome'', JStr (if sn_up c then ''UP'' else ''DOWN'')),
     (''checkpoint_rows'', JDict (map (\<lambda>(t, e). (show_int t, JDict [(''row_id'', JStr (se_checkpoint_id e)),
        (''checkpoint_id'', JStr (se_checkpoint_id e)), (''observed_at'', JStr (sv_iso env (se_at e))),
        (''feature_values'', JList (map JReal (se_features e))), (''executable_cost'', opt_json JReal (se_cost e))]))
        (sort_key fst (sn_examples c))))]"

definition dataset_manifest :: "study_env \<Rightarrow> study_dataset \<Rightarrow> study_condition list \<Rightarrow> study_condition list \<Rightarrow> json" where
  "dataset_manifest env d dev final = (let dev_ids = map sn_id dev; final_ids = map sn_id final in
     JDict [(''manifest_schema_version'', JStr ''P2_3R_SOL5M_DATASET_MANIFEST_V1''), (''code_sha'', JStr (ds_code_sha d)),
       (''dataset_fingerprint'', JStr (ds_fingerprint d)), (''asset'', JStr (asset_value SOL)),
       (''horizon'', JStr (horizon_value FIVE_MINUTES)), (''feature_schema'', JStr study_feature_schema),
       (''dataset_schema'', JStr study_dataset_schema), (''feature_order'', json_texts study_feature_names),
       (''cutoff_observed_at'', opt_json JStr (ds_latest d)), (''rows'', json_nat (ds_row_count d)),
       (''unique_conditions'', json_nat (length (ds_conditions d))), (''up'', json_nat (ds_up_count d)),
       (''down'', json_nat (ds_down_count d)),
       (''checkpoint_counts'', JDict (map (\<lambda>(t, n). (show_int t, JInt n)) (ds_checkpoint_counts d))),
       (''chronological_span'', JDict [(''earliest'', opt_json JStr (ds_earliest d)), (''latest'', opt_json JStr (ds_latest d))]),
       (''split'', JDict [(''development_condition_ids'', json_texts (sort (remdups dev_ids))),
          (''final_holdout_condition_ids'', json_texts (sort (remdups final_ids))),
          (''condition_level_isolation'', JBool (list_all (\<lambda>i. i \<notin> set final_ids) dev_ids))]),
       (''conditions'', JList (map (condition_manifest env dev_ids final_ids) (ds_conditions d)))])"

section \<open>The research artifact\<close>

fun json_set :: "string \<Rightarrow> json \<Rightarrow> json \<Rightarrow> json" where
  "json_set k v (JDict kvs) = JDict (AList.update k v kvs)"
| "json_set k v w = w"

definition sha256_json :: "study_env \<Rightarrow> json \<Rightarrow> string" where
  "sha256_json env v = sv_digest env (json_canonical v)"

definition artifact_checksum :: "study_env \<Rightarrow> json \<Rightarrow> string" where
  "artifact_checksum env payload = sha256_json env (json_canonical (json_set ''artifact_checksum'' JNull payload))"

record study_result =
  sr_verdict :: string
  sr_marker :: string
  sr_dataset :: study_dataset
  sr_checkpoint :: "int option"
  sr_regularization :: "string option"
  sr_spec :: json
  sr_folds :: "fold_result list"
  sr_challenger :: "study_metrics option"
  sr_base :: "study_metrics option"
  sr_gate_table :: "gate_row list"
  sr_failed :: "string list"
  sr_notes :: "string list"
  sr_coefficients :: json
  sr_uncertainty :: "study_uncertainty option"
  sr_final_count :: nat
  sr_artifact :: "json option"

text \<open>What a completed evaluation gives to the artifact.\<close>

record final_evaluation =
  fv_model :: study_model
  fv_calibrator :: "platt_calibrator option"
  fv_challenger :: study_metrics
  fv_base :: study_metrics
  fv_uncertainty :: study_uncertainty

definition platt_json :: "platt_calibrator \<Rightarrow> json" where
  "platt_json c = JDict [(''method'', JStr ''PLATT_LOGISTIC_DEV_ONLY''), (''coefficient'', JReal (pl_coefficient c)),
     (''intercept'', JReal (pl_intercept c))]"

definition model_json :: "study_model \<Rightarrow> platt_calibrator option \<Rightarrow> json" where
  "model_json m c = JDict [(''family'', JStr ''L2_LOGISTIC_DEPENDENCY_FREE''),
     (''coefficients'', JList (map JReal (sm_coefficients m))), (''intercept'', JReal (sm_intercept m)),
     (''scaler'', JDict [(''means'', JList (map JReal (sl_means (sm_scaler m)))),
        (''scales'', JList (map JReal (sl_scales (sm_scaler m))))]), (''platt_calibrator'', opt_json platt_json c)]"

definition evaluation_json :: "study_env \<Rightarrow> study_dataset \<Rightarrow> study_condition list \<Rightarrow> study_condition list \<Rightarrow>
    candidate_score \<Rightarrow> final_evaluation \<Rightarrow> fold_result list \<Rightarrow> gate_row list \<Rightarrow> string list \<Rightarrow> string \<Rightarrow> string \<Rightarrow> json" where
  "evaluation_json env d dev final sel fv folds gates failed marker verdict = JDict [(''marker'', JStr marker),
     (''verdict'', JStr verdict), (''final_challenger'', metrics_json (fv_challenger fv)),
     (''final_base_rate'', metrics_json (fv_base fv)), (''gate_table'', JList (map gate_json gates)),
     (''failed_gates'', json_texts failed), (''uncertainty'', uncertainty_json (fv_uncertainty fv)),
     (''coefficient_summary'', coefficient_summary (fv_model fv) folds),
     (''development_folds'', JList (map fold_json folds)), (''final_holdout_evaluation_count'', JInt 1),
     (''frozen_before_final_holdout'', JBool True), (''selection_source'', JStr ''development_walk_forward_only''),
     (''frozen_policy'', frozen_policy env d dev final sel)]"

definition unsigned_artifact :: "study_env \<Rightarrow> study_dataset \<Rightarrow> study_condition list \<Rightarrow> study_condition list \<Rightarrow>
    candidate_score \<Rightarrow> study_model \<Rightarrow> platt_calibrator option \<Rightarrow> json \<Rightarrow> (string \<times> json) list" where
  "unsigned_artifact env d dev final sel m c evaluation =
     (let manifest = dataset_manifest env d dev final; latest = opt_json JStr (ds_latest d) in
      [(''artifact_schema_version'', JStr artifact_schema_version), (''artifact_status'', JStr ''RESEARCH_ONLY''),
       (''promotion_status'', JStr ''NON_PROMOTABLE''), (''execution_permission'', JStr ''NONE''),
       (''governance_rejection_reason'', JStr ''MODEL_NOT_PROMOTED''), (''real_order_submission'', JBool False),
       (''model_id'', JStr research_model_id), (''legacy_artifact_recovery'', JStr history_irrecoverable),
       (''asset'', JStr (asset_value SOL)), (''horizon'', JStr (horizon_value FIVE_MINUTES)),
       (''feature_schema'', JStr study_feature_schema), (''dataset_schema'', JStr study_dataset_schema),
       (''feature_names'', json_texts study_feature_names), (''excluded_features'', excluded_features_json),
       (''code_sha'', JStr (ds_code_sha d)), (''cutoff_observed_at'', latest), (''valid_capture_start'', latest),
       (''dataset'', dataset_json d), (''dataset_manifest'', manifest),
       (''dataset_manifest_checksum'', JStr (sha256_json env manifest)),
       (''selected_checkpoint'', JInt (sco_target sel)), (''selected_regularization'', JStr (sco_name sel)),
       (''l2_penalty'', JReal (sco_penalty sel)), (''model'', model_json m c), (''metrics'', evaluation),
       (''artifact_checksum'', JNull)])"

definition research_artifact :: "study_env \<Rightarrow> study_dataset \<Rightarrow> study_condition list \<Rightarrow> study_condition list \<Rightarrow>
    candidate_score \<Rightarrow> study_model \<Rightarrow> platt_calibrator option \<Rightarrow> json \<Rightarrow> json" where
  "research_artifact env d dev final sel m c evaluation =
     (let payload = JDict (unsigned_artifact env d dev final sel m c evaluation) in
      json_set ''artifact_checksum'' (JStr (artifact_checksum env payload)) payload)"

section \<open>The study\<close>

definition study_stop :: "string \<Rightarrow> string \<Rightarrow> string \<Rightarrow> study_dataset \<Rightarrow> string \<Rightarrow> study_result" where
  "study_stop verdict marker gate d reason = \<lparr>sr_verdict = verdict, sr_marker = marker, sr_dataset = d, sr_checkpoint = None,
     sr_regularization = None, sr_spec = JDict [], sr_folds = [], sr_challenger = None, sr_base = None,
     sr_gate_table = [\<lparr>gr_gate = gate, gr_result = ''FAIL'', gr_evidence = reason\<rparr>], sr_failed = [reason],
     sr_notes = [''NO_GOVERNANCE_OR_EXECUTION_CHANGE''], sr_coefficients = JDict [], sr_uncertainty = None,
     sr_final_count = 0, sr_artifact = None\<rparr>"

definition study_insufficient :: "study_dataset \<Rightarrow> string \<Rightarrow> study_result" where
  "study_insufficient d reason = study_stop ''INSUFFICIENT_EVIDENCE'' ''P2_3_SOL_5M_INSUFFICIENT_EVIDENCE'' ''Evidence'' d reason"

definition study_no_go :: "study_dataset \<Rightarrow> string \<Rightarrow> study_result" where
  "study_no_go d reason = study_stop ''NO_GO'' ''P2_3_SOL_5M_NO_GO'' reason d reason"

definition evaluate_final :: "study_env \<Rightarrow> study_condition list \<Rightarrow> study_condition list \<Rightarrow> int \<Rightarrow> rat \<Rightarrow>
    final_evaluation option" where
  "evaluate_final env dev final target penalty = (let num = sv_num env in
     case fit_calibrated env dev target penalty of
       None \<Rightarrow> None
     | Some (m, c) \<Rightarrow>
        (let es = examples_of final target; dev_es = examples_of dev target; base = study_base_rate num dev_es;
             ps = map (\<lambda>e. calibrated_probability num m c (se_features e)) es in
         if es = [] \<or> dev_es = [] then None
         else Some \<lparr>fv_model = m, fv_calibrator = c, fv_challenger = metrics_of num es ps,
           fv_base = metrics_of num es (map (\<lambda>e. base) es), fv_uncertainty = bootstrap_uncertainty env es ps\<rparr>))"

definition challenger_spec :: "study_env \<Rightarrow> study_dataset \<Rightarrow> study_condition list \<Rightarrow> study_condition list \<Rightarrow>
    candidate_score \<Rightarrow> platt_calibrator option \<Rightarrow> json" where
  "challenger_spec env d dev final sel c = JDict [(''artifact_status'', JStr ''RESEARCH_ONLY''),
     (''asset'', JStr (asset_value SOL)), (''horizon'', JStr (horizon_value FIVE_MINUTES)),
     (''dataset_fingerprint'', JStr (ds_fingerprint d)), (''checkpoint'', JInt (sco_target sel)),
     (''feature_schema'', JStr study_feature_schema), (''dataset_schema'', JStr study_dataset_schema),
     (''feature_names'', json_texts study_feature_names), (''excluded_features'', excluded_features_json),
     (''model'', JStr ''L2_LOGISTIC_DEPENDENCY_FREE''), (''regularization'', JStr (sco_name sel)),
     (''l2_penalty'', JReal (sco_penalty sel)), (''calibration'', JStr ''PLATT_LOGISTIC_DEV_ONLY''),
     (''calibration_available'', JBool (c \<noteq> None)), (''frozen_policy'', frozen_policy env d dev final sel),
     (''frozen_before_final_holdout'', JBool True), (''selection_source'', JStr ''development_walk_forward_only''),
     (''final_holdout_evaluation_count'', JInt 1), (''execution_permission'', JStr ''NONE'')]"

definition verdict_of :: "string list \<Rightarrow> string \<times> string" where
  "verdict_of failed = (if ''INSUFFICIENT_ECONOMIC_PRICING_COVERAGE'' \<in> set failed
       then (''INSUFFICIENT_EVIDENCE'', ''P2_3_SOL_5M_INSUFFICIENT_EVIDENCE'')
     else if failed \<noteq> [] then (''NO_GO'', ''P2_3_SOL_5M_NO_GO'') else (''GO'', ''P2_3_SOL_5M_GO''))"

definition study_verdict :: "study_env \<Rightarrow> study_dataset \<Rightarrow> study_condition list \<Rightarrow> study_condition list \<Rightarrow>
    candidate_score \<Rightarrow> final_evaluation \<Rightarrow> study_result" where
  "study_verdict env d dev final sel fv =
     (let folds = all_folds env dev; failed = failed_gates_of (fv_challenger fv) (fv_base fv) folds;
          gates = gate_table_of env (fv_challenger fv) (fv_base fv) folds failed;
          (verdict, marker) = verdict_of failed;
          evaluation = evaluation_json env d dev final sel fv folds gates failed marker verdict in
      \<lparr>sr_verdict = verdict, sr_marker = marker, sr_dataset = d, sr_checkpoint = Some (sco_target sel),
       sr_regularization = Some (sco_name sel), sr_spec = challenger_spec env d dev final sel (fv_calibrator fv),
       sr_folds = folds, sr_challenger = Some (fv_challenger fv), sr_base = Some (fv_base fv), sr_gate_table = gates,
       sr_failed = failed, sr_notes = [''RESEARCH_BASELINE_COMPARISON_UNAVAILABLE'', ''TREE_CHALLENGER_SKIPPED_NO_DEPENDENCY'',
         ''NO_GOVERNANCE_OR_EXECUTION_CHANGE''], sr_coefficients = coefficient_summary (fv_model fv) folds,
       sr_uncertainty = Some (fv_uncertainty fv), sr_final_count = 1,
       sr_artifact = Some (research_artifact env d dev final sel (fv_model fv) (fv_calibrator fv) evaluation)\<rparr>)"

definition study_of :: "study_env \<Rightarrow> study_dataset \<Rightarrow> nat \<Rightarrow> study_result" where
  "study_of env d minimum =
     (if ds_conditions d = [] then study_insufficient d ''NO_SOL_5M_OFFICIAL_LABELED_CONDITIONS''
      else if ds_leakage d \<noteq> 0 \<or> ds_conflicts d \<noteq> 0 then study_no_go d ''DATA_INTEGRITY_BLOCKED''
      else if ds_up_count d = 0 \<or> ds_down_count d = 0 then study_insufficient d ''SINGLE_CLASS_DATASET''
      else case chronological_holdout (ds_conditions d) of (dev, final) \<Rightarrow>
        (let up = length (filter sn_up final); down = length final - up in
         if length final < minimum \<or> up = 0 \<or> down = 0 then study_insufficient d ''FINAL_HOLDOUT_NOT_ADEQUATE''
         else case select_candidate env dev of
           None \<Rightarrow> study_insufficient d ''DEVELOPMENT_WALK_FORWARD_INSUFFICIENT''
         | Some sel \<Rightarrow> (case evaluate_final env dev final (sco_target sel) (sco_penalty sel) of
              None \<Rightarrow> study_insufficient d ''FINAL_MODEL_FIT_INSUFFICIENT''
            | Some fv \<Rightarrow> study_verdict env d dev final sel fv)))"

definition run_sol5m_go_no_go :: "study_env \<Rightarrow> corpus_repo option \<Rightarrow> string \<Rightarrow> nat \<Rightarrow> study_result result" where
  "run_sol5m_go_no_go env repo code_sha minimum =
     bindr (load_sol5m_dataset env repo code_sha None) (\<lambda>d. Inr (study_of env d minimum))"

section \<open>The frozen challenger\<close>

record frozen_challenger =
  fz_status :: string
  fz_reason :: string
  fz_model_id :: string
  fz_checksum :: "string option"
  fz_cutoff :: utc
  fz_fingerprint :: "string option"
  fz_checkpoint :: "int option"
  fz_regularization :: "string option"
  fz_penalty :: "rat option"
  fz_features :: "string list"
  fz_model :: "study_model option"
  fz_calibrator :: "platt_calibrator option"
  fz_spec :: json

definition challenger_ready :: "frozen_challenger \<Rightarrow> bool" where
  "challenger_ready f \<longleftrightarrow> fz_status f = ''READY'' \<and> fz_model f \<noteq> None"

definition challenger_predict :: "py_numbers \<Rightarrow> frozen_challenger \<Rightarrow> rat list \<Rightarrow> json" where
  "challenger_predict num f row = (case fz_model f of
     Some m \<Rightarrow>
       if fz_status f \<noteq> ''READY'' then JDict [(''status'', JStr ''FROZEN_CHALLENGER_UNAVAILABLE''),
         (''reason'', JStr (fz_reason f)), (''model_id'', JStr (fz_model_id f))]
       else if length row \<noteq> length (fz_features f) then JDict [(''status'', JStr ''FEATURE_ORDER_MISMATCH''),
         (''reason'', JStr ''FEATURE_COUNT_MISMATCH''), (''model_id'', JStr (fz_model_id f))]
       else (let p = calibrated_probability num m (fz_calibrator f) row in
         JDict [(''status'', JStr ''READY''), (''reason'', JStr ''FROZEN_P2_3_CHALLENGER_READY''),
           (''model_id'', JStr (fz_model_id f)), (''artifact_checksum'', opt_json JStr (fz_checksum f)),
           (''raw_model_probability'', JReal (model_probability num m row)), (''calibrated_probability'', JReal p),
           (''predicted_side'', JStr (if selects_up p then ''UP'' else ''DOWN'')),
           (''selected_probability'', JReal (if selects_up p then p else num_round num (1 - p)))])
   | None \<Rightarrow> JDict [(''status'', JStr ''FROZEN_CHALLENGER_UNAVAILABLE''), (''reason'', JStr (fz_reason f)),
       (''model_id'', JStr (fz_model_id f))])"

definition json_merge :: "json \<Rightarrow> (string \<times> json) list \<Rightarrow> json" where
  "json_merge v kvs = fold (\<lambda>(k, x). json_set k x) kvs v"

definition unavailable_challenger :: "string \<Rightarrow> string \<Rightarrow> utc \<Rightarrow> json \<Rightarrow> frozen_challenger" where
  "unavailable_challenger reason model_id cutoff spec = \<lparr>fz_status = ''UNAVAILABLE'', fz_reason = reason,
     fz_model_id = model_id, fz_checksum = None, fz_cutoff = cutoff, fz_fingerprint = None, fz_checkpoint = None,
     fz_regularization = None, fz_penalty = None, fz_features = study_feature_names, fz_model = None,
     fz_calibrator = None, fz_spec = json_merge spec [(''artifact_reason'', JStr reason), (''model_id'', JStr model_id)]\<rparr>"

section \<open>Loading an artifact\<close>

datatype artifact_file = Missing_File | Unreadable_File string | Artifact_File json

definition json_integer :: "study_env \<Rightarrow> json option \<Rightarrow> int result" where
  "json_integer env v = (let invalid = Inl (ValueErr ''invalid literal for int()'') in case v of
     Some (JInt n) \<Rightarrow> Inr n
   | Some (JStr s) \<Rightarrow> (case sv_int env s of None \<Rightarrow> invalid | Some n \<Rightarrow> Inr n)
   | _ \<Rightarrow> invalid)"

definition artifact_envelope_checks :: "json \<Rightarrow> check list" where
  "artifact_envelope_checks v =
     [fail_if (json_get v ''artifact_schema_version'' \<noteq> Some (JStr artifact_schema_version))
        (ValueErr ''ARTIFACT_SCHEMA_VERSION_MISMATCH''),
      fail_if (json_get v ''artifact_status'' \<noteq> Some (JStr ''RESEARCH_ONLY''))
        (ValueErr ''ARTIFACT_STATUS_NOT_RESEARCH_ONLY''),
      fail_if (json_get v ''promotion_status'' \<noteq> Some (JStr ''NON_PROMOTABLE''))
        (ValueErr ''PROMOTION_STATUS_NOT_NON_PROMOTABLE''),
      fail_if (json_get v ''execution_permission'' \<noteq> Some (JStr ''NONE'')) (ValueErr ''EXECUTION_PERMISSION_NOT_NONE''),
      fail_if (json_get v ''model_id'' \<noteq> Some (JStr research_model_id)) (ValueErr ''MODEL_ID_MISMATCH''),
      fail_if (json_get v ''feature_schema'' \<noteq> Some (JStr study_feature_schema)) (ValueErr ''FEATURE_SCHEMA_MISMATCH''),
      fail_if (json_get v ''dataset_schema'' \<noteq> Some (JStr study_dataset_schema)) (ValueErr ''DATASET_SCHEMA_MISMATCH''),
      fail_if (json_get v ''feature_names'' \<noteq> Some (json_texts study_feature_names)) (ValueErr ''FEATURE_ORDER_MISMATCH'')]"

definition validate_envelope :: "study_env \<Rightarrow> json \<Rightarrow> unit result" where
  "validate_envelope env v = checked (artifact_envelope_checks v)
     (bindr (json_integer env (json_get v ''selected_checkpoint'')) (\<lambda>n.
       checked [fail_if (n \<noteq> prospective_target) (ValueErr ''CHECKPOINT_NOT_45S''),
         fail_if (json_get v ''artifact_checksum'' \<in> {None, Some JNull}) (ValueErr ''ARTIFACT_CHECKSUM_MISSING'')] (Inr ())))"

definition artifact_object :: "json \<Rightarrow> string \<Rightarrow> json result" where
  "artifact_object v k = (case json_get v k of
     None \<Rightarrow> Inl (KeyErr k) | Some w \<Rightarrow> if is_object w then Inr w else Inl (ValueErr (k @ ''_NOT_OBJECT'')))"

definition artifact_float :: "study_env \<Rightarrow> json \<Rightarrow> string \<Rightarrow> rat result" where
  "artifact_float env v k = (case Option.bind (json_get v k) (finite_float env) of
     None \<Rightarrow> Inl (ValueErr (k @ ''_NOT_FINITE'')) | Some x \<Rightarrow> Inr x)"

definition artifact_floats :: "study_env \<Rightarrow> json \<Rightarrow> string \<Rightarrow> rat list result" where
  "artifact_floats env v k = (case json_get v k of
     Some (JList xs) \<Rightarrow> if length xs \<noteq> length study_feature_names then Inl (ValueErr (k @ ''_LENGTH_MISMATCH''))
       else mapr (\<lambda>x. case finite_float env x of None \<Rightarrow> Inl (ValueErr (k @ ''_NOT_FINITE'')) | Some y \<Rightarrow> Inr y) xs
   | _ \<Rightarrow> Inl (ValueErr (k @ ''_LENGTH_MISMATCH'')))"

definition artifact_text :: "study_env \<Rightarrow> json \<Rightarrow> string \<Rightarrow> string result" where
  "artifact_text env v k = (case json_get v k of
     None \<Rightarrow> Inl (KeyErr k) | Some w \<Rightarrow> Inr (json_str (num_show (sv_num env)) w))"

text \<open>The reading up to the cutoff, which the error report keeps, and the rest.\<close>

definition read_artifact_model :: "study_env \<Rightarrow> json \<Rightarrow> (study_model \<times> platt_calibrator \<times> utc) result" where
  "read_artifact_model env v =
     bindr (validate_envelope env v) (\<lambda>_.
     checked [fail_if (json_get v ''artifact_checksum'' \<noteq> Some (JStr (artifact_checksum env v)))
         (ValueErr ''ARTIFACT_CHECKSUM_MISMATCH'')]
     (bindr (artifact_object v ''model'') (\<lambda>m.
      bindr (artifact_object m ''scaler'') (\<lambda>s.
      bindr (artifact_object m ''platt_calibrator'') (\<lambda>c.
      bindr (artifact_floats env m ''coefficients'') (\<lambda>coefficients.
      bindr (artifact_float env m ''intercept'') (\<lambda>i.
      bindr (artifact_floats env s ''means'') (\<lambda>means.
      bindr (artifact_floats env s ''scales'') (\<lambda>scales.
      bindr (artifact_float env c ''coefficient'') (\<lambda>pc.
      bindr (artifact_float env c ''intercept'') (\<lambda>pi.
      bindr (artifact_text env v ''cutoff_observed_at'') (\<lambda>text. case sv_from_iso env text of
          None \<Rightarrow> Inl (ValueErr ''Invalid isoformat string'')
        | Some cutoff \<Rightarrow> Inr (\<lparr>sm_coefficients = coefficients, sm_intercept = i,
            sm_scaler = \<lparr>sl_means = means, sl_scales = scales\<rparr>\<rparr>, \<lparr>pl_coefficient = pc, pl_intercept = pi\<rparr>, cutoff)))))))))))))"

definition read_artifact_selection :: "study_env \<Rightarrow> json \<Rightarrow> (int \<times> string \<times> rat \<times> string) result" where
  "read_artifact_selection env v =
     bindr (json_integer env (json_get v ''selected_checkpoint'')) (\<lambda>n.
     bindr (artifact_text env v ''selected_regularization'') (\<lambda>name.
     bindr (artifact_float env v ''l2_penalty'') (\<lambda>penalty.
     bindr (artifact_object v ''dataset'') (\<lambda>d.
     bindr (artifact_text env d ''fingerprint'') (\<lambda>fingerprint. Inr (n, name, penalty, fingerprint))))))"

definition base_spec :: json where
  "base_spec = JDict [(''artifact_path'', JStr artifact_path), (''artifact_schema_version'', JStr artifact_schema_version),
     (''legacy_artifact_recovery'', JStr history_irrecoverable), (''artifact_status'', JStr ''UNAVAILABLE''),
     (''execution_permission'', JStr ''NONE''), (''promotion_status'', JStr ''NON_PROMOTABLE''),
     (''real_order_submission'', JBool False)]"

definition quoted_error :: "py_error \<Rightarrow> string" where
  "quoted_error e = (case e of KeyErr k \<Rightarrow> CHR 0x27 # k @ [CHR 0x27] | _ \<Rightarrow> error_text e)"

definition invalid_artifact :: "json \<Rightarrow> utc \<Rightarrow> py_error \<Rightarrow> frozen_challenger" where
  "invalid_artifact v cutoff e = unavailable_challenger (''P2_3R_RESEARCH_ARTIFACT_INVALID:'' @ quoted_error e)
     research_model_id cutoff (json_set ''artifact_checksum''
       (case json_get v ''artifact_checksum'' of None \<Rightarrow> JNull | Some x \<Rightarrow> x) base_spec)"

definition load_research_artifact :: "study_env \<Rightarrow> artifact_file \<Rightarrow> frozen_challenger" where
  "load_research_artifact env file = (case file of
     Missing_File \<Rightarrow> unavailable_challenger ''P2_3R_RESEARCH_ARTIFACT_MISSING'' research_model_id prospective_cutoff base_spec
   | Unreadable_File c \<Rightarrow> unavailable_challenger (''P2_3R_RESEARCH_ARTIFACT_UNREADABLE:'' @ c) research_model_id
       prospective_cutoff base_spec
   | Artifact_File v \<Rightarrow>
       if \<not> is_object v then unavailable_challenger ''P2_3R_RESEARCH_ARTIFACT_NOT_OBJECT'' research_model_id
         prospective_cutoff base_spec
       else (case read_artifact_model env v of
           Inl e \<Rightarrow> invalid_artifact v prospective_cutoff e
         | Inr (m, c, cutoff) \<Rightarrow> (case read_artifact_selection env v of
             Inl e \<Rightarrow> invalid_artifact v cutoff e
           | Inr (n, name, penalty, fingerprint) \<Rightarrow>
               \<lparr>fz_status = ''READY'', fz_reason = ''P2_3R_RESEARCH_ARTIFACT_READY'', fz_model_id = research_model_id,
                fz_checksum = Some (artifact_checksum env v), fz_cutoff = cutoff, fz_fingerprint = Some fingerprint,
                fz_checkpoint = Some n, fz_regularization = Some name, fz_penalty = Some penalty,
                fz_features = study_feature_names, fz_model = Some m, fz_calibrator = Some c,
                fz_spec = json_merge v [(''artifact_path'', JStr artifact_path),
                  (''artifact_checksum'', JStr (artifact_checksum env v)),
                  (''legacy_artifact_recovery'', JStr history_irrecoverable)]\<rparr>)))"

section \<open>The frozen challenger of the first study\<close>

definition frozen_base_spec :: "study_env \<Rightarrow> utc \<Rightarrow> (string \<times> json) list" where
  "frozen_base_spec env cutoff = [(''artifact_status'', JStr ''RESEARCH_ONLY''), (''promotion_status'', JStr ''NON_PROMOTABLE''),
     (''execution_permission'', JStr ''NONE''), (''governance_rejection_reason'', JStr ''MODEL_NOT_PROMOTED''),
     (''asset'', JStr (asset_value SOL)), (''horizon'', JStr (horizon_value FIVE_MINUTES)),
     (''feature_schema'', JStr study_feature_schema), (''dataset_schema'', JStr study_dataset_schema),
     (''feature_names'', json_texts study_feature_names), (''excluded_features'', excluded_features_json),
     (''cutoff_observed_at'', JStr (sv_iso env cutoff)),
     (''expected_p2_3_dataset_fingerprint'', JStr prospective_fingerprint),
     (''research_notional_usdc'', JStr (float_text env (fl (75 / 100))))]"

definition frozen_model_id :: string where "frozen_model_id = ''P2_3_SOL5M_45S_FROZEN_RESEARCH_ONLY''"

definition frozen_unavailable :: "study_env \<Rightarrow> utc \<Rightarrow> study_dataset \<Rightarrow> string \<Rightarrow> candidate_score option \<Rightarrow> frozen_challenger" where
  "frozen_unavailable env cutoff d reason sel = \<lparr>fz_status = ''UNAVAILABLE'', fz_reason = reason, fz_model_id = frozen_model_id,
     fz_checksum = None, fz_cutoff = cutoff,
     fz_fingerprint = (if ds_conditions d = [] then None else Some (ds_fingerprint d)),
     fz_checkpoint = map_option sco_target sel, fz_regularization = map_option sco_name sel,
     fz_penalty = map_option sco_penalty sel, fz_features = study_feature_names, fz_model = None, fz_calibrator = None,
     fz_spec = JDict (frozen_base_spec env cutoff @ [(''dataset_fingerprint'', JStr (ds_fingerprint d))])\<rparr>"

definition frozen_ready :: "study_env \<Rightarrow> utc \<Rightarrow> study_dataset \<Rightarrow> study_condition list \<Rightarrow> study_condition list \<Rightarrow>
    candidate_score \<Rightarrow> study_model \<Rightarrow> platt_calibrator option \<Rightarrow> frozen_challenger" where
  "frozen_ready env cutoff d dev final sel m c =
     (let spec = frozen_base_spec env cutoff @ [(''dataset_fingerprint'', JStr (ds_fingerprint d)),
            (''checkpoint'', JInt (sco_target sel)), (''selected_regularization'', JStr (sco_name sel)),
            (''l2_penalty'', JReal (sco_penalty sel)), (''development_unique_conditions'', json_nat (length dev)),
            (''held_out_p2_3_final_conditions_not_used_for_fit'', json_nat (length final)),
            (''selection_source'', JStr ''P2_3_DEVELOPMENT_WALK_FORWARD_ONLY''),
            (''future_conditions_used_for_training'', JBool False), (''calibration'', JStr ''PLATT_LOGISTIC_DEV_ONLY''),
            (''calibration_available'', JBool (c \<noteq> None)),
            (''replay_rule'', JStr ''calibrated_probability >= 0.5 selects UP else DOWN'')];
          checksum = sha256_json env (JDict (spec @ [(''model'', JDict [(''family'', JStr ''L2_LOGISTIC_DEPENDENCY_FREE''),
            (''coefficients'', JList (map JReal (sm_coefficients m))), (''intercept'', JReal (sm_intercept m)),
            (''scaler_means'', JList (map JReal (sl_means (sm_scaler m)))),
            (''scaler_scales'', JList (map JReal (sl_scales (sm_scaler m)))),
            (''platt_coefficient'', opt_json (\<lambda>p. JReal (pl_coefficient p)) c),
            (''platt_intercept'', opt_json (\<lambda>p. JReal (pl_intercept p)) c)])])) in
      \<lparr>fz_status = ''READY'', fz_reason = ''FROZEN_P2_3_CHALLENGER_READY'', fz_model_id = frozen_model_id,
       fz_checksum = Some checksum, fz_cutoff = cutoff, fz_fingerprint = Some (ds_fingerprint d),
       fz_checkpoint = Some (sco_target sel), fz_regularization = Some (sco_name sel), fz_penalty = Some (sco_penalty sel),
       fz_features = study_feature_names, fz_model = Some m, fz_calibrator = c,
       fz_spec = JDict (spec @ [(''artifact_checksum'', JStr checksum), (''model_id'', JStr frozen_model_id)])\<rparr>)"

definition materialize_frozen_challenger :: "study_env \<Rightarrow> corpus_repo option \<Rightarrow> string \<Rightarrow> utc \<Rightarrow> frozen_challenger result" where
  "materialize_frozen_challenger env repo code_sha cutoff =
     bindr (load_sol5m_dataset env repo code_sha (Some cutoff)) (\<lambda>d. Inr (
       let stop = frozen_unavailable env cutoff d in
       if ds_conditions d = [] then stop ''NO_PRE_CUTOFF_SOL_5M_DATASET'' None
       else if ds_fingerprint d \<noteq> prospective_fingerprint then stop ''P2_3_DATASET_FINGERPRINT_MISMATCH'' None
       else if ds_leakage d \<noteq> 0 \<or> ds_conflicts d \<noteq> 0 then stop ''P2_3_DATASET_INTEGRITY_BLOCKED'' None
       else case chronological_holdout (ds_conditions d) of (dev, final) \<Rightarrow>
         (case select_candidate env dev of
            None \<Rightarrow> stop ''DEVELOPMENT_WALK_FORWARD_INSUFFICIENT'' None
          | Some sel \<Rightarrow>
              if sco_target sel \<noteq> prospective_target then stop ''P2_3_SELECTED_CHECKPOINT_NOT_45S'' (Some sel)
              else (case fit_calibrated env dev (sco_target sel) (sco_penalty sel) of
                 None \<Rightarrow> stop ''FINAL_DEV_ONLY_MODEL_FIT_INSUFFICIENT'' (Some sel)
               | Some (m, c) \<Rightarrow> frozen_ready env cutoff d dev final sel m c))))"

section \<open>The prospective evaluation\<close>

text \<open>\<open>evaluation/sol5m_prospective.py\<close>: what the evidence collected after the cutoff shows.\<close>

record prospective_result =
  psr_marker :: string
  psr_conditions :: nat
  psr_labeled :: nat
  psr_priced :: nat
  psr_coverage :: rat
  psr_brier :: "rat option"
  psr_log_loss :: "rat option"
  psr_ece :: "rat option"
  psr_ev :: "rat option"
  psr_pnl :: "rat option"
  psr_drawdown :: "rat option"
  psr_failed :: "string list"

definition prospective_schema :: string where "prospective_schema = ''SOL5M_PROSPECTIVE_EVIDENCE_V2''"

definition minimum_labeled_conditions :: nat where "minimum_labeled_conditions = 100"
definition minimum_pricing_coverage :: rat where "minimum_pricing_coverage = fl (80 / 100)"

definition prospective_rows :: "corpus_repo \<Rightarrow> prospective_row list" where
  "prospective_rows r = sort_key lr_observed_at (sort_key lr_condition_id
     (filter (\<lambda>w. pe_evidence_schema w = prospective_schema) (map snd (crp_prospective r))))"

definition row_outcome :: "prospective_row \<Rightarrow> bool option" where
  "row_outcome w = (case lr_outcome w of None \<Rightarrow> None
     | Some v \<Rightarrow> (case json_get v ''outcome_up'' of Some (JBool b) \<Rightarrow> Some b | _ \<Rightarrow> None))"

definition as_float :: "rat option \<Rightarrow> rat result" where
  "as_float v = (case v of None \<Rightarrow> Inl (TypeErr ''expected finite numeric value'') | Some x \<Rightarrow> Inr x)"

definition priced_row :: "prospective_row \<Rightarrow> bool" where
  "priced_row w \<longleftrightarrow> pe_selected_cost w \<noteq> None \<and> pe_calibrated_probability w \<noteq> None"

text \<open>The expectation and the result of a priced row: the side is the recorded one.\<close>

definition row_edge :: "py_numbers \<Rightarrow> prospective_row \<Rightarrow> (rat \<times> rat) result" where
  "row_edge num w =
     bindr (as_float (pe_calibrated_probability w)) (\<lambda>p. bindr (as_float (pe_selected_cost w)) (\<lambda>cost.
       let up = (pe_predicted_side w = Some ''UP'') in
       Inr (num_round num ((if up then p else num_round num (1 - p)) - cost),
         if (row_outcome w = Some True) = up then num_round num (1 - cost) else - cost)))"

definition labeled_rows :: "corpus_repo \<Rightarrow> prospective_row list" where
  "labeled_rows r = filter (\<lambda>w. row_outcome w \<noteq> None) (prospective_rows r)"

definition pricing_coverage_of :: "py_numbers \<Rightarrow> corpus_repo \<Rightarrow> rat" where
  "pricing_coverage_of num r = (if labeled_rows r = [] then 0
     else float_ratio num (length (filter priced_row (labeled_rows r))) (length (labeled_rows r)))"

definition prospective_failed :: "py_numbers \<Rightarrow> corpus_repo \<Rightarrow> string list" where
  "prospective_failed num r =
     (if card (lr_condition_id ` set (labeled_rows r)) < minimum_labeled_conditions
      then [''COLLECTING_MINIMUM_LABELED_CONDITIONS''] else [])
   @ (if pricing_coverage_of num r < minimum_pricing_coverage then [''INSUFFICIENT_PRICING_COVERAGE''] else [])"

definition prospective_base :: "py_numbers \<Rightarrow> corpus_repo \<Rightarrow> string \<Rightarrow> prospective_result" where
  "prospective_base num r marker = \<lparr>psr_marker = marker, psr_conditions = card (lr_condition_id ` set (prospective_rows r)),
     psr_labeled = card (lr_condition_id ` set (labeled_rows r)), psr_priced = length (filter priced_row (labeled_rows r)),
     psr_coverage = pricing_coverage_of num r, psr_brier = None, psr_log_loss = None, psr_ece = None, psr_ev = None,
     psr_pnl = None, psr_drawdown = None, psr_failed = prospective_failed num r\<rparr>"

definition prospective_evaluation :: "py_numbers \<Rightarrow> corpus_repo option \<Rightarrow> prospective_result result" where
  "prospective_evaluation num repo = (case repo of
     None \<Rightarrow> Inl (Library_Error ''FileNotFoundError'' [])
   | Some r \<Rightarrow>
       if prospective_failed num r \<noteq> [] then Inr (prospective_base num r
         (if prospective_failed num r = [''INSUFFICIENT_PRICING_COVERAGE''] then ''SOL5M_PROSPECTIVE_PRICING_BLOCKED''
          else ''SOL5M_PROSPECTIVE_EVIDENCE_COLLECTING''))
       else bindr (mapr (\<lambda>w. as_float (pe_calibrated_probability w)) (labeled_rows r)) (\<lambda>ps.
         let ys = map (\<lambda>w. float_of_bool (row_outcome w = Some True)) (labeled_rows r) in
         bindr (mapr (row_edge num) (filter priced_row (labeled_rows r))) (\<lambda>edges.
           Inr ((prospective_base num r ''SOL5M_PROSPECTIVE_EVIDENCE_READY_FOR_GO_NO_GO'')
             \<lparr>psr_brier := Some (num_round num (num_sum num (map2 (\<lambda>p y.
                num_round num (num_round num (p - y) ^ 2)) ps ys) / of_nat (length ys))),
              psr_log_loss := Some (num_round num (num_sum num (map2 (log_loss_of num) ps ys) / of_nat (length ys))),
              psr_ece := Some (ece_of num ps ys), psr_ev := Some (mean_of num (map fst edges)),
              psr_pnl := Some (num_sum num (map snd edges)),
              psr_drawdown := Some (drawdown_of num 0 0 0 (map snd edges))\<rparr>))))"

section \<open>The published artifact\<close>

lemma json_get_set: "json_get (json_set k v (JDict kvs)) j = (if j = k then Some v else json_get (JDict kvs) j)"
  by (simp add: update_conv)

lemma json_set_set: "json_set k v (json_set k w (JDict kvs)) = json_set k v (JDict kvs)"
  by (simp add: update_last)

lemma json_set_triv: "json_get (JDict kvs) k = Some v \<Longrightarrow> json_set k v (JDict kvs) = JDict kvs"
  by (simp add: update_triv)

lemma checksum_ignores_itself: "artifact_checksum env (json_set ''artifact_checksum'' v (JDict kvs)) = artifact_checksum env (JDict kvs)"
  by (simp only: artifact_checksum_def json_set_set)

lemma mapr_floats:
  assumes "\<forall>x\<in>set xs. finite_float env (JReal x) = Some x"
  shows "mapr (\<lambda>x. case finite_float env x of None \<Rightarrow> Inl e | Some y \<Rightarrow> Inr y) (map JReal xs) = Inr xs"
  using assms by (induction xs) auto

text \<open>Reading back the text of a float gives the float: \<open>float(str(x)) == x\<close>.\<close>

definition floats_read_back :: "study_env \<Rightarrow> rat list \<Rightarrow> bool" where
  "floats_read_back env xs \<longleftrightarrow> (\<forall>x\<in>set xs. sv_float env (float_text env x) = Some x)"

definition model_floats :: "study_model \<Rightarrow> platt_calibrator \<Rightarrow> rat list" where
  "model_floats m c = sm_coefficients m @ sm_intercept m # sl_means (sm_scaler m) @ sl_scales (sm_scaler m)
     @ [pl_coefficient c, pl_intercept c]"

definition twelve_wide :: "study_model \<Rightarrow> bool" where
  "twelve_wide m \<longleftrightarrow> length (sm_coefficients m) = 12 \<and> length (sl_means (sm_scaler m)) = 12 \<and> length (sl_scales (sm_scaler m)) = 12"

lemma finite_float_real: "floats_read_back env xs \<Longrightarrow> x \<in> set xs \<Longrightarrow> finite_float env (JReal x) = Some x"
  by (simp add: finite_float_def floats_read_back_def float_text_def)

lemma floats_read_back_append [simp]:
  "floats_read_back env (xs @ ys) \<longleftrightarrow> floats_read_back env xs \<and> floats_read_back env ys"
  "floats_read_back env (x # xs) \<longleftrightarrow> finite_float env (JReal x) = Some x \<and> floats_read_back env xs"
  "floats_read_back env []"
  by (auto simp: floats_read_back_def finite_float_def float_text_def)

lemma artifact_floats_eq:
  assumes "json_get v k = Some (JList (map JReal xs))" "length xs = 12" "floats_read_back env xs"
  shows "artifact_floats env v k = Inr xs"
  using mapr_floats [of xs env] finite_float_real [OF assms(3)] assms(1,2)
  by (simp add: artifact_floats_def study_feature_names_def)

lemma artifact_float_eq:
  "json_get v k = Some (JReal x) \<Longrightarrow> finite_float env (JReal x) = Some x \<Longrightarrow> artifact_float env v k = Inr x"
  by (simp add: artifact_float_def)

lemma artifact_field:
  assumes "k \<noteq> ''artifact_checksum''"
  shows "json_get (research_artifact env d dev final sel m c ev) k = map_of (unsigned_artifact env d dev final sel m c ev) k"
  using assms by (simp only: research_artifact_def Let_def json_get_set if_False json_get.simps)

lemma artifact_signature:
  "json_get (research_artifact env d dev final sel m c ev) ''artifact_checksum''
    = Some (JStr (artifact_checksum env (research_artifact env d dev final sel m c ev)))"
  by (simp only: research_artifact_def Let_def json_get_set if_True simp_thms checksum_ignores_itself)

lemma artifact_is_object: "is_object (research_artifact env d dev final sel m c ev)"
  by (simp add: research_artifact_def Let_def)

lemma artifact_fields:
  "json_get (research_artifact env d dev final sel m c ev) ''artifact_schema_version'' = Some (JStr artifact_schema_version)"
  "json_get (research_artifact env d dev final sel m c ev) ''artifact_status'' = Some (JStr ''RESEARCH_ONLY'')"
  "json_get (research_artifact env d dev final sel m c ev) ''promotion_status'' = Some (JStr ''NON_PROMOTABLE'')"
  "json_get (research_artifact env d dev final sel m c ev) ''execution_permission'' = Some (JStr ''NONE'')"
  "json_get (research_artifact env d dev final sel m c ev) ''model_id'' = Some (JStr research_model_id)"
  "json_get (research_artifact env d dev final sel m c ev) ''feature_schema'' = Some (JStr study_feature_schema)"
  "json_get (research_artifact env d dev final sel m c ev) ''dataset_schema'' = Some (JStr study_dataset_schema)"
  "json_get (research_artifact env d dev final sel m c ev) ''feature_names'' = Some (json_texts study_feature_names)"
  "json_get (research_artifact env d dev final sel m c ev) ''selected_checkpoint'' = Some (JInt (sco_target sel))"
  "json_get (research_artifact env d dev final sel m c ev) ''selected_regularization'' = Some (JStr (sco_name sel))"
  "json_get (research_artifact env d dev final sel m c ev) ''l2_penalty'' = Some (JReal (sco_penalty sel))"
  "json_get (research_artifact env d dev final sel m c ev) ''dataset'' = Some (dataset_json d)"
  "json_get (research_artifact env d dev final sel m c ev) ''cutoff_observed_at'' = Some (opt_json JStr (ds_latest d))"
  "json_get (research_artifact env d dev final sel m c ev) ''model'' = Some (model_json m c)"
  by (simp_all add: artifact_field unsigned_artifact_def Let_def)

lemma model_fields:
  "json_get (model_json m c) ''coefficients'' = Some (JList (map JReal (sm_coefficients m)))"
  "json_get (model_json m c) ''intercept'' = Some (JReal (sm_intercept m))"
  "json_get (model_json m c) ''scaler'' = Some (JDict [(''means'', JList (map JReal (sl_means (sm_scaler m)))),
     (''scales'', JList (map JReal (sl_scales (sm_scaler m))))])"
  "json_get (model_json m c) ''platt_calibrator'' = Some (opt_json platt_json c)"
  by (simp_all add: model_json_def)

lemma published_model_reads:
  assumes "twelve_wide m" "floats_read_back env (model_floats m c)" "sco_target sel = 45"
    and "ds_latest d = Some text" "sv_from_iso env text = Some cutoff"
  shows "read_artifact_model env (research_artifact env d dev final sel m (Some c) ev) = Inr (m, c, cutoff)"
proof -
  let ?v = "research_artifact env d dev final sel m (Some c) ev"
  let ?s = "JDict [(''means'', JList (map JReal (sl_means (sm_scaler m)))), (''scales'', JList (map JReal (sl_scales (sm_scaler m))))]"
  have envelope: "validate_envelope env ?v = Inr ()"
    using assms(3)
    by (simp add: validate_envelope_def artifact_envelope_checks_def artifact_fields artifact_signature checked_passes
      json_integer_def prospective_target_def)
  have objects: "artifact_object ?v ''model'' = Inr (model_json m (Some c))"
    "artifact_object (model_json m (Some c)) ''scaler'' = Inr ?s"
    "artifact_object (model_json m (Some c)) ''platt_calibrator'' = Inr (platt_json c)"
    by (simp_all add: artifact_object_def artifact_fields model_fields opt_json_def platt_json_def model_json_def)
  have floats: "artifact_floats env (model_json m (Some c)) ''coefficients'' = Inr (sm_coefficients m)"
    "artifact_float env (model_json m (Some c)) ''intercept'' = Inr (sm_intercept m)"
    "artifact_floats env ?s ''means'' = Inr (sl_means (sm_scaler m))"
    "artifact_floats env ?s ''scales'' = Inr (sl_scales (sm_scaler m))"
    "artifact_float env (platt_json c) ''coefficient'' = Inr (pl_coefficient c)"
    "artifact_float env (platt_json c) ''intercept'' = Inr (pl_intercept c)"
    using assms(1,2)
    by (auto intro!: artifact_floats_eq artifact_float_eq simp: model_fields platt_json_def twelve_wide_def model_floats_def)
  show ?thesis
    by (simp add: read_artifact_model_def envelope artifact_signature objects floats artifact_text_def artifact_fields
      opt_json_def assms(4,5))
qed

lemma published_selection_reads:
  assumes "finite_float env (JReal (sco_penalty sel)) = Some (sco_penalty sel)"
  shows "read_artifact_selection env (research_artifact env d dev final sel m c ev) =
    Inr (sco_target sel, sco_name sel, sco_penalty sel, ds_fingerprint d)"
  using assms
  by (simp add: read_artifact_selection_def json_integer_def artifact_text_def artifact_float_eq [OF artifact_fields(11)]
    artifact_object_def artifact_fields dataset_json_def)

lemma ready_artifact_is_signed:
  assumes "challenger_ready (load_research_artifact env (Artifact_File v))"
  shows "json_get v ''artifact_checksum'' = Some (JStr (artifact_checksum env v))"
    "json_get v ''execution_permission'' = Some (JStr ''NONE'')" "json_get v ''promotion_status'' = Some (JStr ''NON_PROMOTABLE'')"
proof -
  obtain x where x: "read_artifact_model env v = Inr x"
    using assms
    by (cases "read_artifact_model env v")
      (auto simp: load_research_artifact_def challenger_ready_def unavailable_challenger_def invalid_artifact_def split: if_splits)
  then show "json_get v ''artifact_checksum'' = Some (JStr (artifact_checksum env v))"
    by (auto simp: read_artifact_model_def bindr_Inr_iff checked_Inr_iff)
  obtain u where "validate_envelope env v = Inr u"
    using x by (auto simp: read_artifact_model_def bindr_Inr_iff)
  then have "passes (artifact_envelope_checks v)" by (simp add: validate_envelope_def checked_Inr_iff)
  then show "json_get v ''execution_permission'' = Some (JStr ''NONE'')" "json_get v ''promotion_status'' = Some (JStr ''NON_PROMOTABLE'')"
    by (simp_all add: artifact_envelope_checks_def)
qed


definition demo_study_env :: study_env where
  "demo_study_env = \<lparr>sv_num = demo_numbers\<lparr>num_show := (\<lambda>v. if v = JReal 0 then ''0'' else ''1'')\<rparr>,
     sv_float = (\<lambda>s. Some (if s = ''0'' then 0 else 1)), sv_sqrt = (\<lambda>x. x), sv_digest = (\<lambda>v. ''digest''),
     sv_iso = (\<lambda>t. ''now''), sv_from_iso = (\<lambda>s. Some 7), sv_fixed = (\<lambda>n x. ''0''), sv_seed = (\<lambda>ids. 1), sv_int = (\<lambda>s. None)\<rparr>"

definition demo_model :: study_model where
  "demo_model = \<lparr>sm_coefficients = replicate 12 1, sm_intercept = 0,
     sm_scaler = \<lparr>sl_means = replicate 12 0, sl_scales = replicate 12 1\<rparr>\<rparr>"

definition demo_platt :: platt_calibrator where
  "demo_platt = \<lparr>pl_coefficient = 1, pl_intercept = 0\<rparr>"

definition demo_selection :: candidate_score where
  "demo_selection = \<lparr>sco_log_loss = 0, sco_brier = 0, sco_target = 45, sco_name = ''weak'', sco_penalty = 1\<rparr>"

definition demo_dataset :: study_dataset where
  "demo_dataset = \<lparr>ds_code_sha = ''sha'', ds_fingerprint = ''fingerprint'', ds_conditions = [], ds_excluded = [],
     ds_leakage = 0, ds_conflicts = 0, ds_checkpoint_counts = [], ds_earliest = Some ''then'', ds_latest = Some ''now''\<rparr>"


section \<open>The dataset does not look ahead\<close>

definition known_by :: "(rat \<times> utc option) option \<Rightarrow> utc \<Rightarrow> bool" where
  "known_by v t \<longleftrightarrow> (\<exists>x ts. v = Some (x, ts) \<and> (\<forall>s. ts = Some s \<longrightarrow> s \<le> t))"

text \<open>An official label of a row, given no earlier than the observation, and features known by then.\<close>

definition official_label :: "study_env \<Rightarrow> checkpoint_row \<Rightarrow> bool \<Rightarrow> bool" where
  "official_label env w up \<longleftrightarrow> (\<exists>label. lr_outcome w = Some label
     \<and> json_get label ''settlement_source_kind'' = Some (JStr ''OFFICIAL'') \<and> json_get label ''outcome_up'' = Some (JBool up)
     \<and> (\<forall>t. study_datetime env (json_get label ''official_resolved_at'') = Some t \<longrightarrow> lr_observed_at w < t))"

definition known_features :: "study_env \<Rightarrow> checkpoint_row \<Rightarrow> rat list \<Rightarrow> bool" where
  "known_features env w xs \<longleftrightarrow> (\<exists>kvs. json_get (lr_payload w) ''feature_vector'' = Some (JDict kvs)
     \<and> json_get (JDict kvs) ''feature_set_version'' = Some (JStr study_feature_schema)
     \<and> (let m = map_of (rev (study_feature_items env (json_get (JDict kvs) ''features''))) in
        (\<forall>n\<in>set study_feature_names. known_by (m n) (lr_observed_at w)) \<and> xs = map (\<lambda>n. fst (the (m n))) study_feature_names))"

definition clean_row :: "study_env \<Rightarrow> string \<times> checkpoint_row \<Rightarrow> study_example \<Rightarrow> bool" where
  "clean_row env kw e \<longleftrightarrow> (case kw of (k, w) \<Rightarrow> se_checkpoint_id e = k \<and> se_condition_id e = lr_condition_id w
     \<and> se_at e = lr_observed_at w \<and> se_target e = ck_target_tte w \<and> se_target e \<in> set checkpoint_targets
     \<and> ck_schema w = study_feature_schema \<and> official_label env w (se_up e) \<and> known_features env w (se_features e))"

lemma feature_values_Inr:
  "feature_values t m ns = Inr xs \<Longrightarrow> (\<forall>n\<in>set ns. known_by (m n) t) \<and> xs = map (\<lambda>n. fst (the (m n))) ns"
proof (induction ns arbitrary: xs)
  case (Cons n ns)
  then show ?case by (auto simp: known_by_def split: option.splits sum.splits if_splits)
qed auto

lemma read_vector_included:
  assumes "read_vector env k w up = Included e"
  shows "se_checkpoint_id e = k \<and> se_condition_id e = lr_condition_id w \<and> se_at e = lr_observed_at w
    \<and> se_target e = ck_target_tte w \<and> se_up e = up \<and> known_features env w (se_features e)"
proof -
  obtain kvs where v: "json_get (lr_payload w) ''feature_vector'' = Some (JDict kvs)"
  proof (cases "json_get (lr_payload w) ''feature_vector''")
    case None
    then show ?thesis using assms by (simp add: read_vector_def Let_def)
  next
    case (Some v)
    then show ?thesis using assms that by (cases v) (simp_all add: read_vector_def Let_def)
  qed
  let ?m = "map_of (rev (study_feature_items env (json_get (JDict kvs) ''features'')))"
  have version: "json_get (JDict kvs) ''feature_set_version'' = Some (JStr study_feature_schema)"
    using assms by (auto simp: read_vector_def Let_def v split: if_splits)
  obtain xs where xs: "feature_values (lr_observed_at w) ?m study_feature_names = Inr xs"
    using assms by (auto simp: read_vector_def Let_def v split: if_splits sum.splits prod.splits)
  have e: "e = \<lparr>se_checkpoint_id = k, se_condition_id = lr_condition_id w, se_target = ck_target_tte w,
      se_at = lr_observed_at w, se_features = xs, se_up = up, se_cost = executable_cost env (lr_payload w)\<rparr>"
    using assms xs unfolding read_vector_def Let_def v option.case json.case
    by (simp only: sum.case row_reading.inject split: if_splits) (simp_all only: row_reading.distinct)
  show ?thesis using feature_values_Inr [OF xs] v version by (simp add: e known_features_def Let_def)
qed

lemma read_row_included:
  assumes "lr_outcome w \<noteq> None" "read_row env (k, w) = Included e"
  shows "clean_row env (k, w) e"
proof -
  obtain label where label: "lr_outcome w = Some label" using assms(1) by blast
  obtain up where up: "json_get label ''outcome_up'' = Some (JBool up)" "read_vector env k w up = Included e"
    using assms(2) by (auto simp: read_row_def label Let_def split: option.splits json.splits if_splits)
  have "ck_schema w = study_feature_schema" "ck_target_tte w \<in> set checkpoint_targets"
    "json_get label ''settlement_source_kind'' = Some (JStr ''OFFICIAL'')"
    "\<forall>t. study_datetime env (json_get label ''official_resolved_at'') = Some t \<longrightarrow> lr_observed_at w < t"
    using assms(2) by (auto simp: read_row_def label up(1) Let_def split: option.splits if_splits)
  then show ?thesis
    using read_vector_included [OF up(2)] label up(1) by (simp add: clean_row_def official_label_def)
qed

text \<open>Every condition of the table holds examples of its own, on its own side, none before its start.\<close>

definition sound_condition :: "(study_example \<Rightarrow> bool) \<Rightarrow> 'a study_condition_scheme \<Rightarrow> bool" where
  "sound_condition good c \<longleftrightarrow> distinct (map fst (sn_examples c))
     \<and> (\<forall>(t, e)\<in>set (sn_examples c). t = se_target e \<and> se_condition_id e = sn_id c \<and> se_up e = sn_up c
          \<and> sn_chronology c \<le> se_at e \<and> good e)"

definition table_ok :: "(study_example \<Rightarrow> bool) \<Rightarrow> (string \<times> condition_state) list \<Rightarrow> bool" where
  "table_ok good cs \<longleftrightarrow> distinct (map fst cs) \<and> (\<forall>(k, c)\<in>set cs. sn_id c = k \<and> sound_condition good c)"

lemma update_in_set: "(k', v') \<in> set (AList.update k v xs) \<Longrightarrow> (k' = k \<and> v' = v) \<or> (k', v') \<in> set xs"
  by (induction xs) (auto split: if_splits)

lemma add_example_ok:
  assumes "table_ok good cs" "good e" shows "table_ok good (add_example e cs)"
proof -
  define c where "c = (case map_of cs (se_condition_id e) of None \<Rightarrow> fresh_condition e | Some c \<Rightarrow> c)"
  have c: "sn_id c = se_condition_id e \<and> sound_condition good c"
  proof (cases "map_of cs (se_condition_id e)")
    case None
    then show ?thesis by (simp add: c_def fresh_condition_def sound_condition_def)
  next
    case (Some x)
    then show ?thesis using assms(1) by (auto simp: c_def table_ok_def dest: map_of_SomeD)
  qed
  define c' where "c' = (if sn_up c \<noteq> se_up e then c\<lparr>cst_conflict := True\<rparr>
     else c\<lparr>sn_chronology := min (sn_chronology c) (se_at e), sn_examples := AList.update (se_target e) e (sn_examples c)\<rparr>)"
  have "sn_id c' = se_condition_id e \<and> sound_condition good c'"
  proof (cases "sn_up c = se_up e")
    case True
    then show ?thesis
      using c assms(2)
      by (auto simp: c'_def sound_condition_def distinct_update dest!: update_in_set)
  qed (use c in \<open>auto simp: c'_def sound_condition_def\<close>)
  moreover have "add_example e cs = AList.update (se_condition_id e) c' cs"
    by (simp add: add_example_def Let_def c_def c'_def)
  ultimately show ?thesis
    using assms(1) by (auto simp: table_ok_def distinct_update dest!: update_in_set)
qed

lemma load_rows_ok:
  assumes "table_ok good (ls_conditions st)" "\<forall>kw\<in>set rows. \<forall>e. read_row env kw = Included e \<longrightarrow> good e"
  shows "table_ok good (ls_conditions (fold (load_row env) rows st))"
  using assms
proof (induction rows arbitrary: st)
  case (Cons kw rows)
  have "table_ok good (ls_conditions (load_row env kw st))"
    using Cons.prems by (cases "read_row env kw") (simp_all add: load_row_def add_example_ok)
  then show ?case using Cons by simp
qed simp

definition row_selected :: "utc option \<Rightarrow> checkpoint_row \<Rightarrow> bool" where
  "row_selected cutoff w \<longleftrightarrow> co_asset w = SOL \<and> co_horizon w = FIVE_MINUTES
     \<and> (\<forall>t. cutoff = Some t \<longrightarrow> lr_observed_at w \<le> t)"

lemma checkpoint_rows_set: "kw \<in> set (checkpoint_rows r cutoff) \<longleftrightarrow> kw \<in> set (crp_checkpoints r)
    \<and> lr_outcome (snd kw) \<noteq> None \<and> row_selected cutoff (snd kw)"
  by (cases kw) (auto simp: checkpoint_rows_def in_bucket_def row_selected_def split: option.splits)

lemma kept_in_order:
  assumes "table_ok good cs"
  shows "sorted (map sn_chronology (kept_conditions cs))" "distinct (map sn_id (kept_conditions cs))"
    "\<forall>c\<in>set (kept_conditions cs). sn_examples c \<noteq> [] \<and> sound_condition good c"
proof -
  show "sorted (map sn_chronology (kept_conditions cs))" by (simp add: kept_conditions_def)
  have plain: "sn_id (plain_condition c) = sn_id c" "sn_examples (plain_condition c) = sn_examples c"
    "sound_condition good (plain_condition c) = sound_condition good c" for c
    by (simp_all add: plain_condition_def study_condition.defs sound_condition_def)
  let ?xs = "map plain_condition (filter (\<lambda>c. \<not> cst_conflict c \<and> sn_examples c \<noteq> []) (map snd cs))"
  have "map sn_id (map snd cs) = map fst cs" using assms by (auto simp: table_ok_def)
  then have "distinct (map sn_id (filter P (map snd cs)))" for P
    using assms by (metis table_ok_def distinct_map_filter)
  then have "distinct (map sn_id ?xs)" by (simp add: plain comp_def)
  then have "distinct ?xs" "inj_on sn_id (set ?xs)" by (simp_all only: distinct_map)
  then show "distinct (map sn_id (kept_conditions cs))"
    by (simp only: kept_conditions_def distinct_map distinct_sort set_sort simp_thms)
  show "\<forall>c\<in>set (kept_conditions cs). sn_examples c \<noteq> [] \<and> sound_condition good c"
    using assms by (auto simp: kept_conditions_def plain table_ok_def)
qed

section \<open>Splits respect time\<close>

definition before_all :: "study_condition list \<Rightarrow> study_condition list \<Rightarrow> bool" where
  "before_all xs ys \<longleftrightarrow> (\<forall>x\<in>set xs. \<forall>y\<in>set ys. sn_chronology x \<le> sn_chronology y \<and> sn_id x \<noteq> sn_id y)"

definition chronological :: "study_condition list \<Rightarrow> bool" where
  "chronological cs \<longleftrightarrow> sorted (map sn_chronology cs) \<and> distinct (map sn_id cs)"

lemma chronological_append: "chronological (xs @ ys) \<longleftrightarrow> chronological xs \<and> chronological ys \<and> before_all xs ys"
  by (auto simp: chronological_def before_all_def sorted_append)

lemma before_all_split: "chronological cs \<Longrightarrow> before_all (take n cs) (drop n cs)"
  using chronological_append [of "take n cs" "drop n cs"] by simp

lemma chronological_take: "chronological cs \<Longrightarrow> chronological (take n cs)"
  using chronological_append [of "take n cs" "drop n cs"] by simp

lemma chronological_filter: "chronological cs \<Longrightarrow> chronological (filter P cs)"
  by (simp add: chronological_def sorted_filter distinct_map_filter)

lemma holdout_split:
  "chronological_holdout cs = (dev, final) \<Longrightarrow> dev @ final = cs \<and> (chronological cs \<longrightarrow> chronological dev \<and> before_all dev final)"
  by (simp only: chronological_holdout_def Let_def prod.inject) (metis append_take_drop_id before_all_split chronological_take)

lemma folds_before:
  assumes "chronological cs" "(train, validation) \<in> set (condition_folds cs)" shows "before_all train validation"
proof -
  obtain n k where "train = take n cs" "validation = take k (drop n cs)"
    using assms(2) by (auto simp: condition_folds_def Let_def)
  then show ?thesis
    using before_all_split [OF assms(1), of n] by (meson before_all_def in_set_takeD)
qed


definition demo_vector_json :: json where
  "demo_vector_json = JDict [(''feature_set_version'', JStr study_feature_schema), (''generated_at'', JStr ''now''),
     (''features'', JList (map (\<lambda>n. JDict [(''name'', JStr n), (''value'', JStr ''1''), (''source_ts'', JStr ''now'')])
        study_feature_names))]"

definition demo_checkpoint :: checkpoint_row where
  "demo_checkpoint = \<lparr>lr_condition_id = ''c'', lr_observed_at = 9, lr_payload = JDict [(''feature_vector'', demo_vector_json)],
     lr_outcome = Some (JDict [(''settlement_source_kind'', JStr ''OFFICIAL''), (''outcome_up'', JBool True)]),
     lr_attached_at = Some 12, co_asset = SOL, co_horizon = FIVE_MINUTES, ck_target_tte = 45,
     ck_schema = study_feature_schema, ck_actual_tte = Some 45\<rparr>"

definition demo_study_corpus :: corpus_repo where
  "demo_study_corpus = empty_corpus\<lparr>crp_checkpoints := [(''k'', demo_checkpoint)]\<rparr>"

lemma constant_features:
  "\<forall>n\<in>set ns. m n = Some (x, Some s) \<Longrightarrow> s \<le> t \<Longrightarrow> feature_values t m ns = Inr (map (\<lambda>n. x) ns)"
  by (induction ns) auto

lemma map_filter_some: "(\<And>x. f (g x) = Some (h x)) \<Longrightarrow> List.map_filter f (map g xs) = map h xs"
  by (induction xs) (simp_all add: List.map_filter_simps)

lemma demo_items: "study_feature_items demo_study_env (json_get demo_vector_json ''features'')
    = map (\<lambda>n. (n, 1, Some 7)) study_feature_names"
  unfolding study_feature_items_def demo_vector_json_def
  by (simp, rule map_filter_some) (simp add: finite_float_def study_datetime_def demo_study_env_def)

lemma demo_reads: "\<exists>e. read_row demo_study_env (''k'', demo_checkpoint) = Included e \<and> se_condition_id e = ''c''
    \<and> se_target e = 45 \<and> se_up e"
proof -
  have "\<forall>n\<in>set study_feature_names. map_of (rev (map (\<lambda>n. (n, 1 :: rat, Some (7 :: int))) study_feature_names)) n = Some (1, Some 7)"
    by (simp add: rev_map map_of_map_restrict)
  note same = constant_features [OF this, of 9]
  obtain kvs where v: "demo_vector_json = JDict kvs" by (simp add: demo_vector_json_def)
  have "json_get demo_vector_json ''feature_set_version'' = Some (JStr study_feature_schema)"
    "study_datetime demo_study_env (json_get demo_vector_json ''generated_at'') = Some 7"
    by (simp_all add: demo_vector_json_def study_datetime_def demo_study_env_def)
  then have "\<exists>e. read_vector demo_study_env ''k'' demo_checkpoint True = Included e \<and> se_condition_id e = ''c''
      \<and> se_target e = 45 \<and> se_up e"
    using same demo_items
    by (simp add: read_vector_def Let_def demo_checkpoint_def v)
  then show ?thesis
    by (simp add: read_row_def demo_checkpoint_def Let_def checkpoint_targets_def study_datetime_def)
qed


section \<open>What the prospective evaluation returns\<close>

lemma as_float_all:
  "mapr (\<lambda>w. as_float (f w)) xs = (if \<forall>w\<in>set xs. f w \<noteq> None then Inr (map (\<lambda>w. the (f w)) xs)
     else Inl (TypeErr ''expected finite numeric value''))"
  by (induction xs) (auto simp: as_float_def split: option.splits)

lemma row_edges_all: "\<forall>w\<in>set xs. priced_row w \<Longrightarrow> \<exists>ys. mapr (row_edge num) xs = Inr ys"
proof (induction xs)
  case (Cons w xs)
  then have "\<exists>y. row_edge num w = Inr y" by (auto simp: row_edge_def priced_row_def as_float_def Let_def)
  then show ?case using Cons by auto
qed simp

lemma missing_prediction_raises:
  assumes "prospective_failed num r = []" "\<not> (\<forall>w\<in>set (labeled_rows r). pe_calibrated_probability w \<noteq> None)"
  shows "prospective_evaluation num (Some r) = Inl (TypeErr ''expected finite numeric value'')"
proof -
  have "mapr (\<lambda>w. as_float (pe_calibrated_probability w)) (labeled_rows r) = Inl (TypeErr ''expected finite numeric value'')"
    unfolding as_float_all using assms(2) by auto
  then show ?thesis using assms(1) by (simp add: prospective_evaluation_def)
qed


definition bare_evidence :: "nat \<Rightarrow> prospective_row" where
  "bare_evidence n = \<lparr>lr_condition_id = show_nat n, lr_observed_at = 0, lr_payload = JNull,
     lr_outcome = Some (JDict [(''outcome_up'', JBool True)]), lr_attached_at = Some 1, pe_market_id = ''m'',
     pe_target_tte = 45, pe_evidence_schema = prospective_schema, pe_feature_schema = study_feature_schema,
     pe_model_id = ''model'', pe_checksum = None, pe_actual_tte = None,
     pe_predicted_side = (if n = 0 then None else Some ''UP''), pe_raw_probability = None,
     pe_calibrated_probability = (if n = 0 then None else Some 1), pe_selected_probability = None,
     pe_selected_cost = (if n = 0 then None else Some 0), pe_up_cost = None, pe_down_cost = None,
     pe_pricing_status = ''p'', pe_timing_status = ''t'', pe_prediction_status = None, pe_prediction_failure = None,
     pe_pricing_failure = None, pe_label_status = Some ''LABELED'', pe_economic_eligible = None,
     pe_valid_capture_start = None\<rparr>"

definition bare_corpus :: corpus_repo where
  "bare_corpus = empty_corpus\<lparr>crp_prospective := map (\<lambda>n. (show_nat n, bare_evidence n)) [0..<101]\<rparr>"

text \<open>A hundred priced rows and one without a prediction pass the gates, and the evaluation raises.\<close>

lemma one_missing_prediction_raises:
  "prospective_failed demo_numbers bare_corpus = [] \<and>
   prospective_evaluation demo_numbers (Some bare_corpus) = Inl (TypeErr ''expected finite numeric value'')"
proof -
  have outcome: "row_outcome (bare_evidence n) = Some True" "lr_condition_id (bare_evidence n) = show_nat n"
    "pe_evidence_schema (bare_evidence n) = prospective_schema" "lr_observed_at (bare_evidence n) = 0"
    "priced_row (bare_evidence n) \<longleftrightarrow> n \<noteq> 0" "pe_calibrated_probability (bare_evidence n) = None \<longleftrightarrow> n = 0" for n
    by (simp_all add: bare_evidence_def row_outcome_def priced_row_def)
  have rows: "mset (labeled_rows bare_corpus) = mset (map bare_evidence [0..<101])"
    by (subst labeled_rows_def, subst filter_True)
      (auto simp: prospective_rows_def bare_corpus_def outcome comp_def filter_map)
  have set_rows: "set (labeled_rows bare_corpus) = bare_evidence ` {0..<101}"
    using mset_eq_setD [OF rows] by simp
  have lengths: "length (labeled_rows bare_corpus) = 101"
    using mset_eq_length [OF rows] by simp
  have "length (filter priced_row (labeled_rows bare_corpus)) = size (filter_mset priced_row (mset (labeled_rows bare_corpus)))"
    by (simp flip: mset_filter)
  also have "\<dots> = length (filter (\<lambda>n. n \<noteq> 0) [0..<101])"
    by (simp only: rows mset_filter [symmetric] size_mset filter_map comp_def outcome length_map)
  also have "\<dots> = 100" by (simp add: upt_conv_Cons)
  finally have priced: "length (filter priced_row (labeled_rows bare_corpus)) = 100" .
  have "inj_on show_nat {0..<101}" using show_nat_inject by (auto simp: inj_on_def)
  then have "card (lr_condition_id ` set (labeled_rows bare_corpus)) = 101"
    by (simp add: set_rows image_image outcome card_image)
  moreover have "minimum_pricing_coverage \<le> 100 / 101"
    using fl_error [of "80 / 100"] by (auto simp: minimum_pricing_coverage_def abs_if split: if_splits)
  ultimately have "prospective_failed demo_numbers bare_corpus = []"
    using lengths by (auto simp: prospective_failed_def pricing_coverage_of_def priced float_ratio_def demo_numbers_def
      minimum_labeled_conditions_def)
  moreover have "\<not> (\<forall>w\<in>set (labeled_rows bare_corpus). pe_calibrated_probability w \<noteq> None)"
    using outcome(6) [of 0] by (force simp: set_rows)
  ultimately show ?thesis using missing_prediction_raises by blast
qed
section \<open>When the verdict is GO\<close>

definition gates_passed :: "study_metrics \<Rightarrow> study_metrics \<Rightarrow> fold_result list \<Rightarrow> bool" where
  "gates_passed final base folds \<longleftrightarrow> mt_brier final < mt_brier base \<and> mt_log_loss final < mt_log_loss base
     \<and> mt_ece final \<le> maximum_acceptable_ece \<and> minimum_economic_coverage \<le> mt_coverage final
     \<and> (\<exists>ev. mt_after_cost_ev final = Some ev \<and> 0 < ev)
     \<and> (let tested = filter (\<lambda>r. 0 < mt_conditions (fr_challenger r)) folds in
        tested = [] \<or> max 1 (length tested div 2) \<le> length (filter beats_base tested))"

lemma failed_gates_Nil: "failed_gates_of final base folds = [] \<longleftrightarrow> gates_passed final base folds"
proof -
  have single: "((if P then [x] else []) = []) \<longleftrightarrow> \<not> P" for P and x :: string by simp
  have ev: "((if C then [a] else case v of None \<Rightarrow> [b] | Some x \<Rightarrow> if x \<le> 0 then [b] else []) = [])
      \<longleftrightarrow> \<not> C \<and> (\<exists>x. v = Some x \<and> 0 < x)" for C and a b :: string and v :: "rat option"
    by (auto split: option.splits)
  show ?thesis
    unfolding failed_gates_of_def gates_passed_def Let_def append_is_Nil_conv single ev
    by (simp only: not_le not_less de_Morgan_conj not_not conj_assoc)
qed

lemma verdict_GO: "fst (verdict_of failed) = ''GO'' \<longleftrightarrow> failed = []"
  by (auto simp: verdict_of_def)

lemma stop_not_GO [simp]: "sr_verdict (study_insufficient d reason) \<noteq> ''GO''" "sr_verdict (study_no_go d reason) \<noteq> ''GO''"
  by (simp_all add: study_insufficient_def study_no_go_def study_stop_def)

lemma study_verdict_GO: "sr_verdict (study_verdict env d dev final sel fv) = ''GO'' \<longleftrightarrow>
    gates_passed (fv_challenger fv) (fv_base fv) (all_folds env dev)"
  by (simp add: study_verdict_def Let_def verdict_GO [symmetric] failed_gates_Nil [symmetric] split: prod.splits)

definition balanced :: "study_condition list \<Rightarrow> bool" where
  "balanced cs \<longleftrightarrow> list_ex sn_up cs \<and> list_ex (\<lambda>c. \<not> sn_up c) cs"

lemma up_down_balanced:
  "(length (filter sn_up cs) = 0 \<or> length cs - length (filter sn_up cs) = 0) \<longleftrightarrow> \<not> balanced cs"
proof -
  have "length cs - length (filter sn_up cs) = length (filter (\<lambda>c. \<not> sn_up c) cs)"
    using sum_length_filter_compl [of sn_up cs] by simp
  then show ?thesis by (auto simp: balanced_def filter_empty_conv list_ex_iff)
qed

text \<open>
  C39: the verdict is GO exactly when it is earned: on a dataset with both outcomes and no leak or label
  conflict, with both outcomes in a hold-out of the required size, the candidate selected on the development
  part, refitted there, beats the base rate on the hold-out in both scores, is calibrated, covered by quotes
  and profitable after costs, and at least half of the folds that were tested beat theirs.
\<close>

theorem go_verdict_is_earned:
  "sr_verdict (study_of env d minimum) = ''GO'' \<longleftrightarrow>
     balanced (ds_conditions d) \<and> ds_leakage d = 0 \<and> ds_conflicts d = 0 \<and>
     (\<exists>dev final sel fv. chronological_holdout (ds_conditions d) = (dev, final) \<and> minimum \<le> length final
        \<and> balanced final \<and> select_candidate env dev = Some sel
        \<and> evaluate_final env dev final (sco_target sel) (sco_penalty sel) = Some fv
        \<and> gates_passed (fv_challenger fv) (fv_base fv) (all_folds env dev))"
proof -
  obtain dev final where split: "chronological_holdout (ds_conditions d) = (dev, final)" by fastforce
  have counts: "(ds_up_count d = 0 \<or> ds_down_count d = 0) \<longleftrightarrow> \<not> balanced (ds_conditions d)"
    unfolding ds_up_count_def ds_down_count_def by (rule up_down_balanced)
  have final: "(length final < minimum \<or> length (filter sn_up final) = 0 \<or> length final - length (filter sn_up final) = 0)
      \<longleftrightarrow> \<not> (minimum \<le> length final \<and> balanced final)"
    using up_down_balanced [of final] by auto
  have empty: "ds_conditions d = [] \<Longrightarrow> \<not> balanced (ds_conditions d)" by (simp add: balanced_def)
  show ?thesis
  proof (cases "balanced (ds_conditions d) \<and> ds_leakage d = 0 \<and> ds_conflicts d = 0 \<and> minimum \<le> length final \<and> balanced final")
    case False
    then have "sr_verdict (study_of env d minimum) \<noteq> ''GO''"
      unfolding study_of_def Let_def counts split prod.case final by auto
    then show ?thesis using False split by auto
  next
    case True
    then have "study_of env d minimum = (case select_candidate env dev of
        None \<Rightarrow> study_insufficient d ''DEVELOPMENT_WALK_FORWARD_INSUFFICIENT''
      | Some sel \<Rightarrow> (case evaluate_final env dev final (sco_target sel) (sco_penalty sel) of
           None \<Rightarrow> study_insufficient d ''FINAL_MODEL_FIT_INSUFFICIENT''
         | Some fv \<Rightarrow> study_verdict env d dev final sel fv))"
      unfolding study_of_def Let_def counts split prod.case final using empty by auto
    then show ?thesis
      using True split by (cases "select_candidate env dev") (auto simp: study_verdict_GO split: option.splits)
  qed
qed

end
