(* ===== verification/Cycle_Evidence.thy ===== *)
theory Cycle_Evidence
  imports Market_Pipeline Shadow_Store Sol5m
begin

text \<open>
  The evidence that one evaluation cycle of \<open>shadow/daemon.py\<close> writes: the payloads of its events and of
  its corpus rows, as JSON values. \<open>cycle_env\<close> gives a cycle what it reads from outside: its identity, the
  answers of SQLite, the loaded models, the artifact file, the clock just before an entry, and the texts of
  decimals and instants. A dictionary is written with its keys in source order; the repositories
  store the canonical form.
\<close>

section \<open>The environment of a cycle\<close>

text \<open>\<open>ce_answers\<close> gives, for an event id, the answers of SQLite to the attempts to append it.\<close>

record cycle_env =
  ce_cycle :: string
  ce_window :: string
  ce_config :: shadow_config
  ce_answers :: "string \<Rightarrow> nat \<Rightarrow> attempt"
  ce_render :: "payload_value \<Rightarrow> string"
  ce_study :: study_env
  ce_show :: "dec \<Rightarrow> string"
  ce_exp :: "dec \<Rightarrow> dec"
  ce_models :: registry_load
  ce_artifact :: artifact_file
  ce_entry_clock :: "market_bucket \<Rightarrow> strategy_kind \<Rightarrow> utc"

definition iso_json :: "cycle_env \<Rightarrow> utc \<Rightarrow> json" where
  "iso_json env t = JStr (sv_iso (ce_study env) t)"

definition dec_json :: "cycle_env \<Rightarrow> dec \<Rightarrow> json" where
  "dec_json env d = JStr (ce_show env d)"

definition label_json :: "string \<times> json" where
  "label_json = (''label'', JStr trade_label)"

definition bucket_text :: "market_bucket \<Rightarrow> string" where
  "bucket_text b = asset_value (bkt_asset b) @ ''-'' @ horizon_value (bkt_horizon b)"

fun value_json :: "cycle_env \<Rightarrow> payload_value \<Rightarrow> json" where
  "value_json env P_None = JNull"
| "value_json env (P_Text s) = JStr s"
| "value_json env (P_Bool b) = JBool b"
| "value_json env (P_Int n) = JInt n"
| "value_json env (P_Dec d) = dec_json env d"
| "value_json env (P_Time t) = iso_json env t"
| "value_json env (P_List xs) = JList (map JStr xs)"

text \<open>In a dictionary a later entry replaces an earlier one with its key.\<close>

definition info_json :: "cycle_env \<Rightarrow> info \<Rightarrow> json" where
  "info_json env kvs = json_merge (JDict []) (map (\<lambda>(k, v). (k, value_json env v)) kvs)"

definition info_get :: "info \<Rightarrow> string \<Rightarrow> payload_value" where
  "info_get kvs k = (case map_of (rev kvs) k of None \<Rightarrow> P_None | Some v \<Rightarrow> v)"

fun action_value :: "decision_action \<Rightarrow> string" where
  "action_value TRADE = ''TRADE''"
| "action_value ABSTAIN = ''ABSTAIN''"

fun permission_value :: "execution_permission \<Rightarrow> string" where
  "permission_value PERMIT_NONE = ''NONE''"
| "permission_value PERMIT_SHADOW = ''SHADOW''"
| "permission_value PERMIT_LIMITED_PAPER = ''LIMITED_PAPER''"
| "permission_value PERMIT_PAPER = ''PAPER''"

fun governance_value :: "governance_state \<Rightarrow> string" where
  "governance_value GOV_RESEARCH_ONLY = ''RESEARCH_ONLY''"
| "governance_value GOV_CHALLENGER = ''CHALLENGER''"
| "governance_value GOV_SHADOW_ONLY = ''SHADOW_ONLY''"
| "governance_value GOV_SHADOW_CANDIDATE = ''SHADOW_CANDIDATE''"
| "governance_value GOV_SHADOW_PROMOTED = ''SHADOW_PROMOTED''"
| "governance_value GOV_LIMITED_PAPER = ''LIMITED_PAPER''"
| "governance_value GOV_PAPER_PROMOTED = ''PAPER_PROMOTED''"
| "governance_value GOV_HISTORICAL_RESEARCH_ONLY = ''HISTORICAL_RESEARCH_ONLY''"
| "governance_value GOV_SUSPECT = ''SUSPECT''"
| "governance_value GOV_NON_PROMOTABLE = ''NON_PROMOTABLE''"
| "governance_value GOV_REJECTED = ''REJECTED''"
| "governance_value GOV_QUARANTINED = ''QUARANTINED''"
| "governance_value GOV_RETIRED = ''RETIRED''"

fun model_state_value :: "shadow_model_state \<Rightarrow> string" where
  "model_state_value UNAVAILABLE = ''UNAVAILABLE''"
| "model_state_value TRAINING_CORPUS_REQUIRED = ''TRAINING_CORPUS_REQUIRED''"
| "model_state_value INSUFFICIENT_SAMPLE = ''INSUFFICIENT_SAMPLE''"
| "model_state_value SHADOW_CANDIDATE = ''SHADOW_CANDIDATE''"
| "model_state_value SHADOW_REJECTED = ''REJECTED''"

section \<open>The pipeline event\<close>

definition stage_json :: "cycle_env \<Rightarrow> pipeline_stage \<Rightarrow> json" where
  "stage_json env s = JDict [(''stage'', JStr (bps_stage s)), (''status'', JStr (bps_status s)),
     (''observed_at'', iso_json env (bps_at s)), (''error_type'', opt_json JStr (bps_error_type s)),
     (''reason'', opt_json JStr (bps_reason s))]"

text \<open>\<open>by_stage\<close>: the last record of a stage wins.\<close>

definition stage_named :: "pipeline_stage list \<Rightarrow> string \<Rightarrow> pipeline_stage option" where
  "stage_named stages = map_of (rev (map (\<lambda>s. (bps_stage s, s)) stages))"

definition combined_status :: "pipeline_stage list \<Rightarrow> string list \<Rightarrow> string" where
  "combined_status stages names =
     (let selected = List.map_filter (stage_named stages) names in
      if selected = [] then ''NOT_RUN''
      else if \<exists>s\<in>set selected. bps_status s = ''FAIL'' then ''FAILED''
      else if \<exists>s\<in>set selected. bps_status s = ''SKIPPED'' then ''SKIPPED'' else ''READY'')"

fun combined_error :: "pipeline_stage list \<Rightarrow> string list \<Rightarrow> string option" where
  "combined_error stages [] = None"
| "combined_error stages (name # names) =
     (case stage_named stages name of
        None \<Rightarrow> combined_error stages names
      | Some s \<Rightarrow> if bps_status s = ''FAIL'' \<or> bps_status s = ''SKIPPED'' then bps_reason s
          else combined_error stages names)"

definition discovery_stages :: "string list" where
  "discovery_stages = [''GAMMA_FETCH'', ''GAMMA_PARSE'']"
definition book_stages :: "string list" where
  "book_stages = [''CLOB_UP_BOOK_FETCH'', ''CLOB_UP_BOOK_PARSE'', ''CLOB_DOWN_BOOK_FETCH'', ''CLOB_DOWN_BOOK_PARSE'']"
definition fee_stages :: "string list" where
  "fee_stages = [''FEE_UP_FETCH'', ''FEE_UP_PARSE'', ''FEE_DOWN_FETCH'', ''FEE_DOWN_PARSE'']"
definition proxy_stages :: "string list" where
  "proxy_stages = [''BINANCE_DEPTH_FETCH'', ''BINANCE_DEPTH_PARSE'', ''BINANCE_TRADE_FETCH'', ''BINANCE_TRADE_PARSE'']"

definition ptb_value_json :: "cycle_env \<Rightarrow> shadow_state \<Rightarrow> (string \<times> json) list" where
  "ptb_value_json env st =
     [(''ptb_value'', opt_json (dec_json env \<circ> ptb_value) (sms_price_to_beat st)),
      (''ptb_effective_time'', opt_json (\<lambda>r. iso_json env (ref_effective_ts (ptb_reference r))) (sms_price_to_beat st))]"

definition official_status :: "shadow_state \<Rightarrow> string" where
  "official_status st = (if sst_official st \<noteq> None then ''OFFICIAL_REFERENCE_READY'' else ''OFFICIAL_REFERENCE_UNAVAILABLE'')"

definition pipeline_payload :: "cycle_env \<Rightarrow> shadow_state \<Rightarrow> json" where
  "pipeline_payload env st =
     (let market = map_option md_market (sms_discovery st); stages = sst_stages st;
          status = combined_status stages; error = (\<lambda>names. opt_json JStr (combined_error stages names)) in
      JDict ([label_json, (''asset'', JStr (asset_value (bkt_asset (sms_bucket st)))),
        (''horizon'', JStr (horizon_value (bkt_horizon (sms_bucket st)))),
        (''latest_observed_at'', iso_json env (sms_observed_at st)),
        (''market_id'', opt_json (JStr \<circ> mkt_id) market), (''condition_id'', opt_json (JStr \<circ> mkt_condition_id) market),
        (''unavailable_reason'', opt_json JStr (sst_unavailable st)),
        (''discovery_status'', JStr (status discovery_stages)), (''discovery_error'', error discovery_stages),
        (''book_status'', JStr (status book_stages)), (''book_error'', error book_stages),
        (''fee_status'', JStr (status fee_stages)), (''fee_error'', error fee_stages),
        (''proxy_status'', JStr (status proxy_stages)), (''proxy_error'', error proxy_stages),
        (''official_status'', JStr (official_status st)),
        (''ptb_status'', JStr (sst_ptb_status st)), (''ptb_reason'', JStr (sst_ptb_reason st))]
       @ ptb_value_json env st @
       [(''feature_status'', JStr (sst_feature_status st)),
        (''feature_diagnostics'', or_empty (sst_feature_diagnostics st)),
        (''feature_integrity_comparison'', or_empty (sst_comparison st)),
        (''feature_error'', error [''FEATURE_BUILD'']),
        (''chainlink'', or_empty (sst_chainlink st)), (''binance_hourly'', or_empty (sst_hourly st)),
        (''pipeline_stages'', JList (map (stage_json env) stages)), (''real_order_submission'', JBool False)]))"

section \<open>Features, prices and models in a payload\<close>

definition feature_vector_payload :: "cycle_env \<Rightarrow> feature_vector option \<Rightarrow> json" where
  "feature_vector_payload env = opt_json (\<lambda>v. JDict [(''market_id'', JStr (fvec_market_id v)),
     (''asset'', JStr (asset_value (fvec_asset v))), (''horizon'', JStr (horizon_value (fvec_horizon v))),
     (''feature_set_version'', JStr (fvec_version v)), (''generated_at'', iso_json env (fvec_generated_at v)),
     (''features'', JList (map (\<lambda>f. JDict [(''name'', JStr (feat_name f)), (''value'', dec_json env (feat_value f)),
        (''source'', JStr (feat_source f)), (''source_ts'', iso_json env (feat_source_ts f))]) (fvec_features v)))])"

definition price_to_beat_payload :: "cycle_env \<Rightarrow> ptb_record option \<Rightarrow> json" where
  "price_to_beat_payload env = opt_json (\<lambda>r. JDict [(''condition_id'', JStr (ptb_condition_id r)),
     (''persistence_id'', JStr (ptb_persistence_id r)), (''value'', dec_json env (ptb_value r)),
     (''reference_id'', JStr (ref_id (ptb_reference r))), (''reference_source'', JStr (ref_source (ptb_reference r))),
     (''effective_ts'', iso_json env (ref_effective_ts (ptb_reference r))),
     (''established_at'', iso_json env (ptb_established_at r))])"

definition pricing_cost_payload :: "cycle_env \<Rightarrow> depth_simulation option \<Rightarrow> json" where
  "pricing_cost_payload env s = opt_json (dec_json env) (Option.bind s sim_all_in)"

definition training_report_json :: "training_report \<Rightarrow> json" where
  "training_report_json r = JDict [(''asset'', JStr (asset_value (trr_asset r))),
     (''horizon'', JStr (horizon_value (trr_horizon r))), (''current_count'', JInt (trr_current_count r)),
     (''required_count'', JInt (trr_required_count r)), (''state'', JStr (trr_state r)), (''reason'', JStr (trr_reason r)),
     (''model_version'', opt_json JStr (trr_model_version r)),
     (''calibration_version'', opt_json JStr (trr_calibration_version r)),
     (''rejection_reasons'', JList (map JStr (trr_rejection_reasons r))), (''live_ready'', JBool False)]"

definition rejection_reason :: "governance_decision \<Rightarrow> string option" where
  "rejection_reason g = (if paper_execution_allowed g then None else Some (gov_reason g))"

definition governance_info :: "governance_decision \<Rightarrow> info" where
  "governance_info g = [(''asset'', P_Text (asset_value (bkt_asset (gov_bucket g)))),
     (''horizon'', P_Text (horizon_value (bkt_horizon (gov_bucket g)))),
     (''model_version'', opt_value P_Text (gov_model_version g)),
     (''model_governance_state'', P_Text (governance_value (gov_state g))),
     (''execution_permission'', P_Text (permission_value (gov_permission g))),
     (''promotion_id'', opt_value P_Text (gov_promotion_id g)),
     (''governance_rejection_reason'', opt_value P_Text (rejection_reason g)), (''real_order_submission'', P_Bool False)]"

section \<open>The decision audit as a payload\<close>

fun gate_value :: "gate_status \<Rightarrow> string" where
  "gate_value GATE_PASS = ''PASS''"
| "gate_value GATE_FAIL = ''FAIL''"
| "gate_value GATE_NOT_REACHED = ''NOT_REACHED''"

definition audit_features :: "string list" where
  "audit_features = [''ptb_normalized_distance'', ''short_return'', ''medium_return'', ''momentum'',
     ''realized_volatility'', ''volatility_acceleration'', ''spot_perp_basis'', ''external_book_imbalance'',
     ''microprice_distance'', ''trade_imbalance'', ''signal_stability'', ''flip_rate'', ''regime_score'']"

definition feature_in :: "feature_vector option \<Rightarrow> string \<Rightarrow> dec option" where
  "feature_in v name = Option.bind v (\<lambda>x. feature_map x name)"

definition json_field :: "json option \<Rightarrow> string \<Rightarrow> json" where
  "json_field v k = (case json_get (or_empty v) k of None \<Rightarrow> JNull | Some x \<Rightarrow> x)"

definition execution_of :: "info \<Rightarrow> directional_execution option" where
  "execution_of kvs = (if kvs = [] then None
     else Some \<lparr>de_risk_approved = (case info_get kvs ''risk_approved'' of P_Bool b \<Rightarrow> Some b | _ \<Rightarrow> None),
       de_paper_fill = (case info_get kvs ''paper_fill_status'' of P_Text s \<Rightarrow> s \<noteq> [] | _ \<Rightarrow> False)\<rparr>)"

definition gates_json :: "cycle_env \<Rightarrow> info \<Rightarrow> (string \<times> gate_status) list \<Rightarrow> json" where
  "gates_json env kvs gates =
     (let details = [(''details'', JDict [(''risk_approved'', value_json env (info_get kvs ''risk_approved'')),
            (''risk_reasons'', case info_get kvs ''risk_reasons'' of P_None \<Rightarrow> JList [] | v \<Rightarrow> value_json env v),
            (''risk_brake_active'', value_json env (info_get kvs ''risk_brake_active'')),
            (''risk_brake_reason'', value_json env (info_get kvs ''risk_brake_reason''))])] in
      JDict (map (\<lambda>(g, s). (g, JDict ((''status'', JStr (gate_value s)) #
        (if g = ''RISK_GATE'' \<and> kvs \<noteq> [] then details else [])))) gates))"

definition signal_audit :: "cycle_env \<Rightarrow> feature_vector option \<Rightarrow> directional_policy \<Rightarrow> json option \<Rightarrow> json" where
  "signal_audit env v p diag =
     (let stability = feature_in v ''signal_stability''; flip = feature_in v ''flip_rate''; opt = opt_json (dec_json env) in
      JDict ([(''signal_stability_formula'', JStr ''1 - flip_rate''), (''signal_stability_actual'', opt stability),
        (''signal_stability_minimum'', dec_json env (dp_minimum_stability p)),
        (''signal_stability_minus_minimum'', opt (map_option (\<lambda>x. dsub x (dp_minimum_stability p)) stability)),
        (''flip_rate_actual'', opt flip), (''flip_rate_maximum'', dec_json env (dp_maximum_flip_rate p)),
        (''maximum_flip_rate_minus_actual'', opt (map_option (\<lambda>x. dsub (dp_maximum_flip_rate p) x) flip))]
       @ map (\<lambda>k. (k, json_field diag k)) [''flip_count'', ''flip_denominator'', ''return_sample_count'',
           ''return_sign_count'', ''positive_return_sign_count'', ''negative_return_sign_count'']))"

definition pricing_audit_entries :: "cycle_env \<Rightarrow> directional_call \<Rightarrow> pricing_audit \<Rightarrow> (string \<times> json) list" where
  "pricing_audit_entries env d q =
     (let opt = opt_json (dec_json env); attr = (\<lambda>f s. opt (map_option f s)); p = dc_policy d in
      [(''counterfactual_pricing_available'', JBool (dc_up d \<noteq> None \<or> dc_down d \<noteq> None)),
       (''up_all_in_cost'', pricing_cost_payload env (dc_up d)), (''down_all_in_cost'', pricing_cost_payload env (dc_down d)),
       (''up_fill_fraction'', attr sim_fill_fraction (dc_up d)), (''down_fill_fraction'', attr sim_fill_fraction (dc_down d)),
       (''up_filled_quantity'', attr sim_filled (dc_up d)), (''down_filled_quantity'', attr sim_filled (dc_down d)),
       (''selected_side_cost'', opt (pa_selected_cost q)), (''selected_token_id'', opt_json JStr (pa_selected_token q)),
       (''raw_edge'', opt (pa_raw_edge q)), (''uncertainty_buffer'', dec_json env (dp_uncertainty p)),
       (''counterfactual_net_edge'', opt (pa_net_edge q)), (''minimum_net_edge'', dec_json env (dp_minimum_edge p)),
       (''counterfactual_edge_margin'', opt (pa_edge_margin q))])"

definition edge_audit :: "cycle_env \<Rightarrow> directional_call \<Rightarrow> directional_assessment \<Rightarrow> decision_audit \<Rightarrow> json" where
  "edge_audit env d a q = (let opt = opt_json (dec_json env) in
     JDict [(''net_edge'', opt (asm_net_edge a)), (''minimum_net_edge'', dec_json env (dp_minimum_edge (dc_policy d))),
       (''uncertainty_buffer'', dec_json env (dp_uncertainty (dc_policy d))), (''net_edge_minus_minimum'', opt (da_edge_margin q)),
       (''counterfactual_net_edge'', opt (pa_net_edge (da_pricing q))),
       (''counterfactual_edge_margin'', opt (pa_edge_margin (da_pricing q)))])"

definition model_audit :: "cycle_env \<Rightarrow> directional_call \<Rightarrow> directional_assessment \<Rightarrow> json" where
  "model_audit env d a =
     (let f = dc_forecast d; opt = opt_json (dec_json env) in
      JDict [(''model_state'', opt_json (\<lambda>_. JStr ''FORECAST_READY'') f), (''model_version'', opt_json (JStr \<circ> fc_model_version) f),
       (''calibration_state'', JStr (if \<exists>c\<in>set_option (dc_calibration d). cr_ready c then ''CALIBRATION_READY'' else ''CALIBRATION_NOT_READY'')),
       (''calibration_version'', opt_json (JStr \<circ> cr_version) (dc_calibration d)),
       (''feature_set_version'', opt_json (JStr \<circ> fvec_version) (dc_features d)),
       (''p_up'', opt (map_option fc_p_up f)), (''p_down'', opt (map_option fc_p_down f)),
       (''selected_side'', opt_json (JStr \<circ> outcome_value) (asm_side a)),
       (''selected_probability'', opt (asm_probability a)),
       (''probability_margin_from_50'', opt (map_option (\<lambda>p. dabs (dsub p (1 / 2))) (asm_probability a))),
       (''probability_margin_from_50_status'', JStr ''diagnostic_only'')])"

definition audit_json :: "cycle_env \<Rightarrow> directional_call \<Rightarrow> directional_assessment \<Rightarrow> json option \<Rightarrow> string \<Rightarrow>
    info \<Rightarrow> json" where
  "audit_json env d a diag pricing_status kvs =
     (let m = dc_market d; q = build_directional_decision_audit d a (execution_of kvs) in
      JDict [(''version'', JStr ''DIRECTIONAL_DECISION_AUDIT_V1''), (''final_decision'', JStr (action_value (da_decision q))),
       (''final_reason'', JStr (da_reason q)), (''first_failing_gate'', opt_json JStr (da_first_failing q)),
       (''gates'', gates_json env kvs (da_gates q)),
       (''market'', JDict [(''market_id'', JStr (mkt_id m)), (''condition_id'', JStr (mkt_condition_id m)),
          (''asset'', JStr (asset_value (mkt_asset m))), (''horizon'', JStr (horizon_value (mkt_horizon m))),
          (''window_start'', iso_json env (mkt_window_start m)), (''window_end'', iso_json env (mkt_window_end m))]),
       (''ptb'', JDict [(''available'', JBool (dc_ptb d \<noteq> None)), (''value'', opt_json (dec_json env \<circ> ptb_value) (dc_ptb d)),
          (''effective_ts'', opt_json (\<lambda>r. iso_json env (ref_effective_ts (ptb_reference r))) (dc_ptb d))]),
       (''signal'', signal_audit env (dc_features d) (dc_policy d) diag), (''temporal_state'', or_empty diag),
       (''model'', model_audit env d a),
       (''features'', JDict (map (\<lambda>k. (k, opt_json (dec_json env) (feature_in (dc_features d) k))) audit_features)),
       (''pricing'', JDict (pricing_audit_entries env d (da_pricing q) @ [(''pricing_status'', JStr pricing_status)])),
       (''edge'', edge_audit env d a q), (''real_order_submission'', JBool False)])"

section \<open>The forecast of a bucket and the strategy event\<close>

text \<open>What \<open>_directional_forecast\<close> returns: the forecast, the calibration and the three texts of its status.\<close>

record forecast_outcome =
  fo_forecast :: "probability_forecast option"
  fo_calibration :: "calibration_readiness option"
  fo_model_state :: string
  fo_model_reason :: string
  fo_calibration_state :: string

definition reason_changed :: "string \<Rightarrow> string \<Rightarrow> string \<Rightarrow> bool" where
  "reason_changed legacy diagnostic reason \<longleftrightarrow> (legacy = reason) \<noteq> (diagnostic = reason)"

definition unevaluated_impact :: "string \<Rightarrow> json" where
  "unevaluated_impact reason = JDict [(''evaluated'', JBool False), (''reason'', JStr reason),
     (''counterfactual_trades_executed'', JBool False)]"

definition impact_json :: "directional_assessment \<Rightarrow> probability_forecast option \<Rightarrow> directional_assessment \<Rightarrow>
    forecast_outcome \<Rightarrow> json" where
  "impact_json legacy legacy_forecast diag fo =
     (let changed = reason_changed (asm_reason legacy) (asm_reason diag);
          legacy_trade = (asm_action legacy = TRADE); diag_trade = (asm_action diag = TRADE) in
      JDict [(''evaluated'', JBool True),
        (''same_decision'', JBool (asm_action legacy = asm_action diag \<and> asm_reason legacy = asm_reason diag)),
        (''legacy_action'', JStr (action_value (asm_action legacy))), (''diagnostic_action'', JStr (action_value (asm_action diag))),
        (''legacy_reason'', JStr (asm_reason legacy)), (''diagnostic_reason'', JStr (asm_reason diag)),
        (''legacy_model_version'', opt_json (JStr \<circ> fc_model_version) legacy_forecast),
        (''diagnostic_model_version'', opt_json (JStr \<circ> fc_model_version) (fo_forecast fo)),
        (''diagnostic_model_state'', JStr (fo_model_state fo)),
        (''diagnostic_calibration_state'', JStr (fo_calibration_state fo)),
        (''signal_unstable_changed'', JBool (changed ''SIGNAL_UNSTABLE'')),
        (''flip_rate_too_high_changed'', JBool (changed ''FLIP_RATE_TOO_HIGH'')),
        (''abstain_to_trade_candidate'', JBool (\<not> legacy_trade \<and> diag_trade)),
        (''trade_candidate_to_abstain'', JBool (legacy_trade \<and> \<not> diag_trade)),
        (''counterfactual_trades_executed'', JBool False)])"

text \<open>The comparison is reported only when it is not empty, with the impact of the diagnostic features.\<close>

definition comparison_with_impact :: "json option \<Rightarrow> json \<Rightarrow> json" where
  "comparison_with_impact comparison impact =
     (if json_truthy (or_empty comparison) then json_set ''decision_impact'' impact (or_empty comparison) else JNull)"

definition strategy_payload :: "cycle_env \<Rightarrow> shadow_state \<Rightarrow> directional_call \<Rightarrow> directional_assessment \<Rightarrow> forecast_outcome \<Rightarrow>
    string \<Rightarrow> json \<Rightarrow> info \<Rightarrow> nat \<Rightarrow> training_report \<Rightarrow> governance_decision \<Rightarrow> json" where
  "strategy_payload env st d a fo pricing_status comparison kvs corpus_count report g =
     (let opt = opt_json (dec_json env); f = fo_forecast fo in
      JDict ([(''strategy'', JStr (strategy_value DIRECTIONAL_EDGE)), (''action'', JStr (action_value (asm_action a))),
        (''reason'', JStr (asm_reason a)), (''stage'', JStr ''DIRECTIONAL_RUNTIME''),
        (''bucket'', JStr (bucket_text (sms_bucket st))), (''official_status'', JStr (official_status st)),
        (''proxy_status'', JStr (if sst_proxy st \<noteq> None then ''PROXY_READY'' else ''PROXY_UNAVAILABLE'')),
        (''ptb_status'', JStr (sst_ptb_status st)), (''ptb_reason'', JStr (sst_ptb_reason st))]
       @ ptb_value_json env st @
       [(''feature_status'', JStr (sst_feature_status st)), (''model_state'', JStr (fo_model_state fo)),
        (''model_reason'', JStr (fo_model_reason fo)), (''model_version'', opt_json (JStr \<circ> fc_model_version) f),
        (''calibration_state'', JStr (fo_calibration_state fo)),
        (''calibration_version'', opt_json (JStr \<circ> cr_version) (fo_calibration fo)),
        (''p_up'', opt (map_option fc_p_up f)), (''p_down'', opt (map_option fc_p_down f)),
        (''selected_side'', opt_json (JStr \<circ> outcome_value) (asm_side a)),
        (''selected_probability'', opt (asm_probability a)), (''executable_cost'', opt (asm_cost a)),
        (''executable_up_cost'', pricing_cost_payload env (dc_up d)),
        (''executable_down_cost'', pricing_cost_payload env (dc_down d)),
        (''net_edge'', opt (asm_net_edge a)), (''pricing_status'', JStr pricing_status),
        (''decision_audit'', audit_json env d a (sst_feature_diagnostics st) pricing_status kvs),
        (''feature_integrity_comparison'', comparison), (''directional_execution'', info_json env kvs),
        (''chainlink'', or_empty (sst_chainlink st)), (''binance_hourly'', or_empty (sst_hourly st)),
        (''corpus_sample_count'', json_nat corpus_count), (''training_report'', training_report_json report),
        (''model_governance_state'', JStr (governance_value (gov_state g))),
        (''execution_permission'', JStr (permission_value (gov_permission g))),
        (''promotion_id'', opt_json JStr (gov_promotion_id g)),
        (''governance_rejection_reason'', opt_json JStr (rejection_reason g)), (''real_order_submission'', JBool False)]))"

section \<open>Corpus rows\<close>

definition readiness_entries :: "shadow_state \<Rightarrow> (string \<times> json) list" where
  "readiness_entries st = [(''official_reference_ready'', JBool (sst_official st \<noteq> None)),
     (''proxy_reference_ready'', JBool (sst_proxy st \<noteq> None)),
     (''book_ready'', JBool (sms_up_book st \<noteq> None \<and> sms_down_book st \<noteq> None))]"

definition corpus_payload :: "cycle_env \<Rightarrow> shadow_state \<Rightarrow> market \<Rightarrow> string \<Rightarrow> shadow_bucket_status \<Rightarrow> json" where
  "corpus_payload env st m reason status =
     JDict ([(''market_id'', JStr (mkt_id m)), (''window_start'', iso_json env (mkt_window_start m)),
       (''window_end'', iso_json env (mkt_window_end m))] @ readiness_entries st @
      [(''feature_vector'', feature_vector_payload env (sms_features st)),
       (''price_to_beat'', price_to_beat_payload env (sms_price_to_beat st)), (''directional_reason'', JStr reason),
       (''model_state'', JStr (model_state_value (sbs_state status))), label_json])"

definition desk_checkpoints :: "int list" where "desk_checkpoints = [120, 90, 60, 45]"
definition checkpoint_tolerance :: int where "checkpoint_tolerance = 10"

text \<open>\<open>round(tte.total_seconds())\<close>: a double, rounded half to even.\<close>

definition tte_seconds :: "market \<Rightarrow> utc \<Rightarrow> int" where
  "tte_seconds m t = half_even (fl (of_int (mkt_window_end m - t) / 1000000))"

definition checkpoint_target :: "int \<Rightarrow> int option" where
  "checkpoint_target tte = find (\<lambda>target. \<bar>tte - target\<bar> \<le> checkpoint_tolerance) desk_checkpoints"

definition checkpoint_payload :: "cycle_env \<Rightarrow> shadow_state \<Rightarrow> market \<Rightarrow> int \<Rightarrow> int \<Rightarrow> json" where
  "checkpoint_payload env st m target tte =
     JDict ([(''market_id'', JStr (mkt_id m)), (''window_start'', iso_json env (mkt_window_start m)),
       (''window_end'', iso_json env (mkt_window_end m)), (''checkpoint_target_tte_seconds'', JInt target),
       (''checkpoint_tolerance_seconds'', JInt checkpoint_tolerance), (''actual_tte_seconds'', JInt tte),
       (''feature_vector'', feature_vector_payload env (sms_features st)),
       (''price_to_beat'', price_to_beat_payload env (sms_price_to_beat st))] @ readiness_entries st @ [label_json])"

section \<open>The prospective evidence of the frozen challenger\<close>

definition pricing_cost_float :: "py_numbers \<Rightarrow> depth_simulation option \<Rightarrow> rat option" where
  "pricing_cost_float num s = (case Option.bind s sim_all_in of None \<Rightarrow> None
     | Some c \<Rightarrow> (let x = num_round num c in if 0 < x \<and> x < 1 then Some x else None))"

fun optional_float :: "py_numbers \<Rightarrow> json option \<Rightarrow> rat option" where
  "optional_float num (Some (JReal x)) = Some x"
| "optional_float num (Some (JInt n)) = Some (num_round num (of_int n))"
| "optional_float num _ = None"

text \<open>\<open>_payload_datetime\<close>: \<open>None\<close> unless a text is given, and \<open>ValueError\<close> when it is not an instant.\<close>

definition payload_datetime :: "study_env \<Rightarrow> json option \<Rightarrow> utc option result" where
  "payload_datetime se v = (case v of
     Some (JStr s) \<Rightarrow>
       if s = [] then Inr None
       else (case sv_from_iso se (concat (map (\<lambda>c. if c = CHR ''Z'' then ''+00:00'' else [c]) s)) of
          None \<Rightarrow> Inl (ValueErr ''Invalid isoformat string'') | Some t \<Rightarrow> Inr (Some t))
   | _ \<Rightarrow> Inr None)"

definition sol5m_feature_row :: "py_numbers \<Rightarrow> feature_vector \<Rightarrow> rat list option" where
  "sol5m_feature_row num v =
     (if fvec_version v \<noteq> feature_schema_version then None
      else those (map (\<lambda>name. map_option (num_round num) (feature_map v name)) study_feature_names))"

definition prospective_pricing_status :: "string \<Rightarrow> rat option \<Rightarrow> rat option \<Rightarrow> string \<times> string option" where
  "prospective_pricing_status status up down =
     (if status \<noteq> ''EXECUTABLE_PRICE_READY'' then (''EXECUTABLE_PRICING_UNAVAILABLE'', Some status)
      else if up = None \<and> down = None then (''BOTH_SIDE_PRICING_MISSING'', Some ''BOTH_SIDE_EXECUTABLE_COST_MISSING'')
      else if up = None \<or> down = None then (''ONE_SIDE_PRICING_MISSING'', Some ''ONE_SIDE_EXECUTABLE_COST_MISSING'')
      else (''CHECKPOINT_EXECUTABLE_PRICING_READY'', None))"

definition side_pricing_reason :: "polymarket_book option \<Rightarrow> fee_schedule option \<Rightarrow> depth_simulation option \<Rightarrow> string \<Rightarrow>
    string" where
  "side_pricing_reason book fee sim status = (case book of
     None \<Rightarrow> ''TOKEN_MAPPING_MISSING''
   | Some b \<Rightarrow>
       if fee = None then ''FEE_UNAVAILABLE''
       else if sublist ''stale'' (py_lower status) then
         (if sublist ''book'' (py_lower status) then ''STALE_BOOK'' else ''FEE_UNAVAILABLE'')
       else if Option.bind sim sim_all_in \<noteq> None then ''READY''
       else if pmb_asks b = [] then ''NO_ASK_DEPTH''
       else if \<exists>s\<in>set_option sim. sim_filled s \<le> 0 then ''NO_ASK_DEPTH''
       else if prefix ''EXECUTABLE_PRICE_UNAVAILABLE'' status then ''UNKNOWN'' else ''PARSE_EMPTY'')"

definition lineage_age_seconds :: "utc \<Rightarrow> utc option \<Rightarrow> rat option" where
  "lineage_age_seconds now t = map_option (\<lambda>u. max 0 (fl (of_int (now - u) / 1000000))) t"

definition side_pricing_diagnostic :: "cycle_env \<Rightarrow> utc \<Rightarrow> polymarket_book option \<Rightarrow> fee_schedule option \<Rightarrow>
    depth_simulation option \<Rightarrow> string \<Rightarrow> json" where
  "side_pricing_diagnostic env now book fee sim status =
     (let opt = opt_json (dec_json env); age = (\<lambda>t. opt_json JReal (lineage_age_seconds now t)) in
      JDict [(''reason'', JStr (side_pricing_reason book fee sim status)),
        (''token_id'', opt_json (JStr \<circ> pmb_token_id) book),
        (''bid_level_count'', opt_json (json_nat \<circ> length \<circ> pmb_bids) book),
        (''ask_level_count'', opt_json (json_nat \<circ> length \<circ> pmb_asks) book),
        (''executable_depth'', opt (map_option sim_depth sim)), (''filled_quantity'', opt (map_option sim_filled sim)),
        (''fill_fraction'', opt (map_option sim_fill_fraction sim)),
        (''all_in_cost_per_share'', pricing_cost_payload env sim),
        (''book_source_age_seconds'', age (Option.bind book (lin_source_ts \<circ> pmb_lineage))),
        (''book_receive_age_seconds'', age (map_option (lin_recv_ts \<circ> pmb_lineage) book)),
        (''fee_source_age_seconds'', age (Option.bind fee (lin_source_ts \<circ> fs_lineage))),
        (''fee_receive_age_seconds'', age (map_option (lin_recv_ts \<circ> fs_lineage) fee))])"

definition pricing_diagnostics :: "cycle_env \<Rightarrow> shadow_state \<Rightarrow> depth_simulation option \<Rightarrow> depth_simulation option \<Rightarrow>
    string \<Rightarrow> json" where
  "pricing_diagnostics env st up down status =
     (let fee = (\<lambda>f. or_else f (sms_fee_schedule st)); now = sms_observed_at st;
          quantity = (case (sms_up_book st, sms_down_book st) of
            (Some u, Some d) \<Rightarrow> dec_json env (max (max (pmb_minimum_order_size u) (pmb_minimum_order_size d)) 1)
          | _ \<Rightarrow> JNull) in
      JDict [(''directional_pricing_status'', JStr status), (''requested_quantity'', quantity),
        (''up'', side_pricing_diagnostic env now (sms_up_book st) (fee (sms_up_fee st)) up status),
        (''down'', side_pricing_diagnostic env now (sms_down_book st) (fee (sms_down_fee st)) down status)])"

text \<open>
  One prospective capture: the challenger, the prediction, the costs of both sides and what follows from
  them. It is eligible when the prediction is valid, both sides are priced and the selected side has a cost.
\<close>

record prospective_capture =
  pcp_prediction :: json
  pcp_prediction_status :: string
  pcp_failure :: "string option"
  pcp_side :: "string option"
  pcp_up :: "rat option"
  pcp_down :: "rat option"
  pcp_cost :: "rat option"
  pcp_pricing_status :: string
  pcp_pricing_failure :: "string option"
  pcp_timing :: string
  pcp_eligible :: bool

definition capture_of :: "py_numbers \<Rightarrow> frozen_challenger \<Rightarrow> feature_vector \<Rightarrow> int \<Rightarrow> depth_simulation option \<Rightarrow>
    depth_simulation option \<Rightarrow> string \<Rightarrow> prospective_capture" where
  "capture_of num challenger v tte up down status =
     (let prediction = (case sol5m_feature_row num v of
            Some row \<Rightarrow> challenger_predict num challenger row
          | None \<Rightarrow> JDict [(''status'', JStr ''FEATURE_VECTOR_UNAVAILABLE''),
              (''reason'', JStr ''FEATURE_VECTOR_MISSING_OR_NON_FINITE''), (''model_id'', JStr (fz_model_id challenger))]);
          ready = (json_get prediction ''status'' = Some (JStr ''READY''));
          pstatus = (if ready then ''VALID'' else get_str (num_show num) prediction ''status'' ''UNKNOWN'');
          failure = (if pstatus = ''VALID'' then None else Some (get_str (num_show num) prediction ''reason'' ''UNKNOWN''));
          side = (if ready then (case json_get prediction ''predicted_side'' of
              None \<Rightarrow> None
            | Some x \<Rightarrow> if json_truthy x then Some (json_str (num_show num) x) else None) else None);
          uc = pricing_cost_float num up; dc = pricing_cost_float num down;
          cost = (if side = Some ''UP'' then uc else if side = Some ''DOWN'' then dc else None);
          (qstatus, qfailure) = prospective_pricing_status status uc dc;
          timing = (if \<bar>tte - prospective_target\<bar> \<le> checkpoint_tolerance
            then ''CHECKPOINT_45S_WITHIN_TOLERANCE'' else ''CHECKPOINT_OUTSIDE_TOLERANCE'') in
      \<lparr>pcp_prediction = prediction, pcp_prediction_status = pstatus, pcp_failure = failure, pcp_side = side,
       pcp_up = uc, pcp_down = dc, pcp_cost = cost, pcp_pricing_status = qstatus, pcp_pricing_failure = qfailure,
       pcp_timing = timing, pcp_eligible = (pstatus = ''VALID'' \<and> qstatus = ''CHECKPOINT_EXECUTABLE_PRICING_READY''
         \<and> timing = ''CHECKPOINT_45S_WITHIN_TOLERANCE'' \<and> cost \<noteq> None)\<rparr>)"

definition capture_payload :: "cycle_env \<Rightarrow> shadow_state \<Rightarrow> market \<Rightarrow> frozen_challenger \<Rightarrow> prospective_capture \<Rightarrow> int \<Rightarrow>
    utc \<Rightarrow> json \<Rightarrow> json" where
  "capture_payload env st m challenger c tte start diag =
     (let cost = opt_json JReal in
      JDict [(''schema_version'', JStr prospective_schema), (''market_id'', JStr (mkt_id m)),
        (''window_start'', iso_json env (mkt_window_start m)), (''window_end'', iso_json env (mkt_window_end m)),
        (''checkpoint_target_tte_seconds'', JInt prospective_target),
        (''checkpoint_tolerance_seconds'', JInt checkpoint_tolerance), (''actual_tte_seconds'', JInt tte),
        (''feature_vector'', feature_vector_payload env (sms_features st)),
        (''price_to_beat'', price_to_beat_payload env (sms_price_to_beat st)),
        (''model_id'', JStr (fz_model_id challenger)), (''artifact_checksum'', opt_json JStr (fz_checksum challenger)),
        (''artifact_status'', JStr (fz_status challenger)), (''artifact_reason'', JStr (fz_reason challenger)),
        (''artifact_spec'', fz_spec challenger), (''prediction'', pcp_prediction c),
        (''prediction_status'', JStr (pcp_prediction_status c)),
        (''prediction_failure_reason'', opt_json JStr (pcp_failure c)), (''up_executable_cost'', cost (pcp_up c)),
        (''down_executable_cost'', cost (pcp_down c)), (''selected_side_executable_cost'', cost (pcp_cost c)),
        (''pricing_status'', JStr (pcp_pricing_status c)),
        (''pricing_failure_reason'', opt_json JStr (pcp_pricing_failure c)), (''pricing_diagnostics'', diag),
        (''timing_status'', JStr (pcp_timing c)), (''economic_eligible'', JBool (pcp_eligible c)),
        (''valid_capture_start'', iso_json env start),
        (''research_notional_usdc'', JStr (float_text (ce_study env) (fl (75 / 100)))),
        (''counterfactual_execution'', JBool False), (''paper_execution_enabled'', JBool False),
        (''real_order_submission'', JBool False), label_json])"

definition prospective_evidence_row :: "cycle_env \<Rightarrow> shadow_state \<Rightarrow> market \<Rightarrow> feature_vector \<Rightarrow> frozen_challenger \<Rightarrow>
    prospective_capture \<Rightarrow> int \<Rightarrow> utc \<Rightarrow> json \<Rightarrow> prospective_row" where
  "prospective_evidence_row env st m v challenger c tte start diag =
     (let number = (\<lambda>k. optional_float (sv_num (ce_study env)) (json_get (pcp_prediction c) k)) in
      \<lparr>lr_condition_id = mkt_condition_id m, lr_observed_at = sms_observed_at st,
       lr_payload = capture_payload env st m challenger c tte start diag, lr_outcome = None, lr_attached_at = None,
       pe_market_id = mkt_id m, pe_target_tte = prospective_target, pe_evidence_schema = prospective_schema,
       pe_feature_schema = fvec_version v, pe_model_id = fz_model_id challenger, pe_checksum = fz_checksum challenger,
       pe_actual_tte = Some tte, pe_predicted_side = pcp_side c, pe_raw_probability = number ''raw_model_probability'',
       pe_calibrated_probability = number ''calibrated_probability'',
       pe_selected_probability = number ''selected_probability'', pe_selected_cost = pcp_cost c, pe_up_cost = pcp_up c,
       pe_down_cost = pcp_down c, pe_pricing_status = pcp_pricing_status c, pe_timing_status = pcp_timing c,
       pe_prediction_status = Some (pcp_prediction_status c), pe_prediction_failure = pcp_failure c,
       pe_pricing_failure = pcp_pricing_failure c, pe_label_status = Some ''UNLABELED'',
       pe_economic_eligible = Some (pcp_eligible c), pe_valid_capture_start = Some start\<rparr>)"

end
