(* ===== verification/Shadow_Cycle.thy ===== *)
theory Shadow_Cycle
  imports Cycle_Evidence
begin

text \<open>
  One evaluation cycle of \<open>shadow/daemon.py\<close>: every collected bucket is recorded, assessed by both
  strategies and turned into a paper trade or an abstention. The state of the daemon is the \<open>desk\<close>: the
  paper repository, the evidence repository, the corpus and the challenger loaded so far. An operation
  returns the new desk and its result, so what was written before an exception stays written.
\<close>

section \<open>The desk\<close>

record desk =
  dk_paper :: paper_repo
  dk_shadow :: shadow_db
  dk_corpus :: "corpus_repo option"
  dk_challenger :: "frozen_challenger option"

text \<open>Running one operation after another, and an operation of the paper repository.\<close>

definition and_then :: "'s \<times> 'a result \<Rightarrow> ('s \<Rightarrow> 'a \<Rightarrow> 's \<times> 'b result) \<Rightarrow> 's \<times> 'b result" where
  "and_then z f = (case z of (s, Inl e) \<Rightarrow> (s, Inl e) | (s, Inr v) \<Rightarrow> f s v)"

definition on_paper :: "desk \<Rightarrow> paper_repo \<times> 'a result \<Rightarrow> desk \<times> 'a result" where
  "on_paper d z = (case z of (r, x) \<Rightarrow> (d\<lparr>dk_paper := r\<rparr>, x))"

section \<open>Evidence events and abstentions\<close>

text \<open>Only exhausted lock contention is absorbed; every other failure of the repository propagates.\<close>

definition append_shadow_event :: "cycle_env \<Rightarrow> desk \<Rightarrow> string \<Rightarrow> string \<Rightarrow> string option \<Rightarrow> json \<Rightarrow> utc \<Rightarrow>
    desk \<times> bool result" where
  "append_shadow_event env d event_id event_type bucket payload observed =
     (case append_event (ce_config env) (ce_answers env event_id) (dk_shadow d) event_id
         \<lparr>ev_window_id = ce_window env, ev_type = event_type, ev_bucket_key = bucket, ev_payload = payload,
          ev_observed_at = observed\<rparr> of
        (s, Inr u) \<Rightarrow> (d\<lparr>dk_shadow := s\<rparr>, Inr True)
      | (s, Inl (ShadowStorageBusy m)) \<Rightarrow> (d\<lparr>dk_shadow := s\<rparr>, Inr False)
      | (s, Inl e) \<Rightarrow> (d\<lparr>dk_shadow := s\<rparr>, Inl e))"

definition record_pipeline_state :: "cycle_env \<Rightarrow> desk \<Rightarrow> shadow_state \<Rightarrow> desk \<times> bool result" where
  "record_pipeline_state env d st = (let b = sms_bucket st in
     append_shadow_event env d
       (ce_cycle env @ '':'' @ asset_value (bkt_asset b) @ '':'' @ horizon_value (bkt_horizon b) @ '':'' @
        state_condition (base_state st) @ '':pipeline'')
       ''MARKET_DATA_PIPELINE'' (Some (bucket_text b)) (pipeline_payload env st) (sms_observed_at st))"

definition desk_abstain :: "cycle_env \<Rightarrow> desk \<Rightarrow> shadow_state \<Rightarrow> strategy_kind \<Rightarrow> string \<Rightarrow> info \<Rightarrow> desk \<times> nat result" where
  "desk_abstain env d st strategy reason kvs =
     on_paper d (record_abstain (ce_render env) (dk_paper d) (base_state st) (ce_cycle env) strategy reason kvs)"

section \<open>Forecasting a bucket\<close>

definition corpus_size :: "desk \<Rightarrow> market_bucket \<Rightarrow> nat" where
  "corpus_size d b = (case dk_corpus d of None \<Rightarrow> 0
     | Some r \<Rightarrow> corpus_count_of r (Some (bkt_asset b)) (Some (bkt_horizon b)))"

definition bucket_readiness :: "cycle_env \<Rightarrow> market_bucket \<Rightarrow> calibration_readiness result" where
  "bucket_readiness env b =
     bindr (state_for (rl_registry (ce_models env)) b) (\<lambda>s. Inr (bms_readiness s))"

definition shadow_model_status :: "cycle_env \<Rightarrow> desk \<Rightarrow> market_bucket \<Rightarrow> shadow_bucket_status result" where
  "shadow_model_status env d b =
     bindr (bucket_readiness env b) (\<lambda>ready.
       let n = corpus_size d b;
           status = (if cr_ready ready
             then \<lparr>sbs_asset = bkt_asset b, sbs_horizon = bkt_horizon b, sbs_state = SHADOW_CANDIDATE, sbs_readiness = ready,
               sbs_reason = ''SHADOW_MODEL_READY'', sbs_model_version = None,
               sbs_calibration_version = Some (cr_version ready), sbs_corpus_sample_count = int n\<rparr>
             else \<lparr>sbs_asset = bkt_asset b, sbs_horizon = bkt_horizon b,
               sbs_state = (if n = 0 then TRAINING_CORPUS_REQUIRED else INSUFFICIENT_SAMPLE), sbs_readiness = ready,
               sbs_reason = (if n = 0 then ''TRAINING_CORPUS_REQUIRED'' else ''INSUFFICIENT_TRAINING_SAMPLE''),
               sbs_model_version = None, sbs_calibration_version = None, sbs_corpus_sample_count = int n\<rparr>) in
       checked (shadow_bucket_checks status) (Inr status))"

text \<open>
  A ready bucket forecasts with its model, and any exception of it is a rejection; otherwise the research
  baseline forecasts. The branch for another mode than PAPER is dead: \<open>APP_MODE\<close> is the constant.
\<close>

definition forecast_for_features :: "cycle_env \<Rightarrow> shadow_state \<Rightarrow> feature_vector option \<Rightarrow> shadow_bucket_status \<Rightarrow>
    forecast_outcome result" where
  "forecast_for_features env st features status =
     bindr (bucket_readiness env (sms_bucket st)) (\<lambda>ready.
     bindr (report_for (ce_models env) (sms_bucket st)) (\<lambda>report.
     case features of
       None \<Rightarrow> Inr \<lparr>fo_forecast = None, fo_calibration = Some ready, fo_model_state = model_state_value (sbs_state status),
         fo_model_reason = ''FEATURES_UNAVAILABLE'', fo_calibration_state = ''CALIBRATION_NOT_READY''\<rparr>
     | Some v \<Rightarrow>
         if cr_ready ready then
           (case registry_forecast (ce_exp env) (rl_registry (ce_models env)) v (sms_observed_at st) of
              Inr f \<Rightarrow> Inr \<lparr>fo_forecast = Some f, fo_calibration = Some ready, fo_model_state = ''SHADOW_CANDIDATE'',
                fo_model_reason = ''PAPER_BUCKET_MODEL_READY'', fo_calibration_state = ''CALIBRATION_READY''\<rparr>
            | Inl e \<Rightarrow> Inr \<lparr>fo_forecast = None, fo_calibration = Some ready, fo_model_state = ''REJECTED'',
                fo_model_reason = ''PAPER_MODEL_FORECAST_FAILED:'' @ error_class e,
                fo_calibration_state = ''CALIBRATION_NOT_READY''\<rparr>)
         else bindr (paper_research_baseline_forecast v (sms_observed_at st)) (\<lambda>(f, c).
           Inr \<lparr>fo_forecast = Some f, fo_calibration = Some c, fo_model_state = baseline_version,
             fo_model_reason = trr_reason report,
             fo_calibration_state = ''PAPER_RESEARCH_BASELINE_UNPROMOTABLE''\<rparr>)))"

definition desk_directional_policy :: directional_policy where
  "desk_directional_policy = \<lparr>dp_minimum_edge = 3 / 100, dp_uncertainty = 1 / 100, dp_minimum_stability = 7 / 10,
     dp_maximum_flip_rate = 2 / 10, dp_max_forecast_age = seconds 5\<rparr>"

definition desk_directional_call :: "shadow_state \<Rightarrow> market \<Rightarrow> feature_vector option \<Rightarrow> forecast_outcome \<Rightarrow>
    depth_simulation option \<Rightarrow> depth_simulation option \<Rightarrow> directional_call" where
  "desk_directional_call st m features fo up down = \<lparr>dc_market = m, dc_ptb = sms_price_to_beat st, dc_features = features,
     dc_forecast = fo_forecast fo, dc_calibration = fo_calibration fo, dc_up = up, dc_down = down,
     dc_at = sms_observed_at st, dc_policy = desk_directional_policy\<rparr>"

text \<open>The impact of the diagnostic features: a second assessment that is only reported.\<close>

definition diagnostic_decision_impact :: "cycle_env \<Rightarrow> shadow_state \<Rightarrow> shadow_bucket_status \<Rightarrow> directional_assessment \<Rightarrow>
    forecast_outcome \<Rightarrow> depth_simulation option \<Rightarrow> depth_simulation option \<Rightarrow> json result" where
  "diagnostic_decision_impact env st status legacy fo up down =
     (case sms_discovery st of
        None \<Rightarrow> Inr (unevaluated_impact ''MARKET_UNAVAILABLE'')
      | Some disc \<Rightarrow> (case sst_diagnostic_features st of
          None \<Rightarrow> Inr (unevaluated_impact ''DIAGNOSTIC_FEATURES_UNAVAILABLE'')
        | Some v \<Rightarrow>
            bindr (forecast_for_features env st (Some v) status) (\<lambda>dfo.
            bindr (assess_directional_edge (desk_directional_call st (md_market disc) (Some v) dfo up down)) (\<lambda>diag.
            Inr (impact_json legacy (fo_forecast fo) diag dfo)))))"

definition feature_comparison_report :: "cycle_env \<Rightarrow> shadow_state \<Rightarrow> shadow_bucket_status \<Rightarrow> directional_assessment \<Rightarrow>
    forecast_outcome \<Rightarrow> depth_simulation option \<Rightarrow> depth_simulation option \<Rightarrow> json result" where
  "feature_comparison_report env st status legacy fo up down =
     (if json_truthy (or_empty (sst_comparison st))
      then bindr (diagnostic_decision_impact env st status legacy fo up down)
        (\<lambda>impact. Inr (comparison_with_impact (sst_comparison st) impact))
      else Inr JNull)"

section \<open>The corpus rows of a cycle\<close>

definition on_corpus :: "desk \<Rightarrow> corpus_repo \<times> 'a result \<Rightarrow> desk \<times> unit result" where
  "on_corpus d z = (case z of (r, x) \<Rightarrow> (d\<lparr>dk_corpus := Some r\<rparr>, bindr x (\<lambda>_. Inr ())))"

definition save_checkpoint :: "cycle_env \<Rightarrow> desk \<Rightarrow> shadow_state \<Rightarrow> desk \<times> unit result" where
  "save_checkpoint env d st =
     (case (dk_corpus d, sms_discovery st, sms_features st) of
        (Some r, Some disc, Some v) \<Rightarrow>
          (let m = md_market disc; b = sms_bucket st; tte = tte_seconds m (sms_observed_at st) in
           case checkpoint_target tte of
             None \<Rightarrow> (d, Inr ())
           | Some target \<Rightarrow> on_corpus d (save_checkpoint_observation r
               (ce_cycle env @ '':directional-checkpoint:'' @ asset_value (bkt_asset b) @ '':'' @
                horizon_value (bkt_horizon b) @ '':'' @ show_int target @ '':'' @ mkt_condition_id m @ '':'' @ fvec_version v)
               \<lparr>lr_condition_id = mkt_condition_id m, lr_observed_at = sms_observed_at st,
                lr_payload = checkpoint_payload env st m target tte, lr_outcome = None, lr_attached_at = None,
                co_asset = bkt_asset b, co_horizon = bkt_horizon b, ck_target_tte = target, ck_schema = fvec_version v,
                ck_actual_tte = Some tte\<rparr>))
      | _ \<Rightarrow> (d, Inr ()))"

definition save_corpus_placeholder :: "cycle_env \<Rightarrow> desk \<Rightarrow> shadow_state \<Rightarrow> string \<Rightarrow> shadow_bucket_status \<Rightarrow>
    desk \<times> unit result" where
  "save_corpus_placeholder env d st reason status =
     (case (dk_corpus d, sms_discovery st) of
        (Some r, Some disc) \<Rightarrow>
          (let m = md_market disc; b = sms_bucket st in
           and_then (on_corpus d (save_pre_outcome r
               (ce_cycle env @ '':directional-corpus:'' @ asset_value (bkt_asset b) @ '':'' @
                horizon_value (bkt_horizon b) @ '':'' @ mkt_condition_id m)
               (bkt_asset b) (bkt_horizon b) (mkt_condition_id m) (sms_observed_at st)
               (corpus_payload env st m reason status)))
             (\<lambda>d u. save_checkpoint env d st))
      | _ \<Rightarrow> (d, Inr ()))"

text \<open>The challenger is loaded again until it is ready.\<close>

definition sol5m_challenger :: "cycle_env \<Rightarrow> desk \<Rightarrow> desk \<times> frozen_challenger" where
  "sol5m_challenger env d =
     (case dk_challenger d of
        Some f \<Rightarrow> if challenger_ready f then (d, f)
          else (let g = load_research_artifact (ce_study env) (ce_artifact env) in (d\<lparr>dk_challenger := Some g\<rparr>, g))
      | None \<Rightarrow> (let g = load_research_artifact (ce_study env) (ce_artifact env) in (d\<lparr>dk_challenger := Some g\<rparr>, g)))"

definition save_sol5m_capture :: "cycle_env \<Rightarrow> desk \<Rightarrow> shadow_state \<Rightarrow> market \<Rightarrow> feature_vector \<Rightarrow> frozen_challenger \<Rightarrow>
    int \<Rightarrow> depth_simulation option \<Rightarrow> depth_simulation option \<Rightarrow> string \<Rightarrow> utc \<Rightarrow> corpus_repo \<Rightarrow> desk \<times> unit result" where
  "save_sol5m_capture env d st m v challenger tte up down status start r =
     (let c = capture_of (sv_num (ce_study env)) challenger v tte up down status in
      on_corpus d (save_prospective_evidence r
        (ce_cycle env @ '':sol5m-prospective:'' @ show_int prospective_target @ '':'' @ mkt_condition_id m @ '':'' @
         fz_model_id challenger @ '':'' @ prospective_schema)
        (prospective_evidence_row env st m v challenger c tte start (pricing_diagnostics env st up down status))))"

definition save_sol5m_evidence :: "cycle_env \<Rightarrow> desk \<Rightarrow> shadow_state \<Rightarrow> depth_simulation option \<Rightarrow>
    depth_simulation option \<Rightarrow> string \<Rightarrow> desk \<times> unit result" where
  "save_sol5m_evidence env d st up down status =
     (case (dk_corpus d, sms_discovery st, sms_features st) of
        (Some r, Some disc, Some v) \<Rightarrow>
          (let m = md_market disc; t = sms_observed_at st; tte = tte_seconds m t in
           if bkt_asset (sms_bucket st) \<noteq> SOL \<or> bkt_horizon (sms_bucket st) \<noteq> FIVE_MINUTES \<or> t \<le> prospective_cutoff
             \<or> \<bar>tte - prospective_target\<bar> > checkpoint_tolerance then (d, Inr ())
           else (let (d, challenger) = sol5m_challenger env d in
             after d (payload_datetime (ce_study env) (json_get (fz_spec challenger) ''valid_capture_start'')) (\<lambda>start.
               if \<exists>s\<in>set_option start. t \<le> s then (d, Inr ())
               else save_sol5m_capture env d st m v challenger tte up down status
                 (case start of None \<Rightarrow> t | Some s \<Rightarrow> s) r)))
      | _ \<Rightarrow> (d, Inr ()))"

section \<open>The directional evaluation\<close>

text \<open>
  A trade assessment is executed only when the governance allows it; the daemon passes no promotions. In
  the payload of the abstention the model version of the governance replaces the equal one of the forecast.
\<close>

definition execute_if_allowed :: "cycle_env \<Rightarrow> desk \<Rightarrow> shadow_state \<Rightarrow> directional_assessment \<Rightarrow> forecast_outcome \<Rightarrow>
    depth_simulation option \<Rightarrow> depth_simulation option \<Rightarrow> governance_decision \<Rightarrow> desk \<times> outcome result" where
  "execute_if_allowed env d st a fo up down g =
     (if asm_action a \<noteq> TRADE then (d, Inr (False, [], 0))
      else if paper_execution_allowed g then
        on_paper d (execute_directional_paper (ce_render env) (dk_paper d) (base_state st)
          \<lparr>pc_cycle = ce_cycle env, pc_assessment = a, pc_up = up, pc_down = down, pc_forecast = fo_forecast fo,
           pc_calibration_version = map_option cr_version (fo_calibration fo),
           pc_checked_at = ce_entry_clock env (sms_bucket st) DIRECTIONAL_EDGE\<rparr>)
      else and_then (desk_abstain env d st DIRECTIONAL_EDGE (gov_reason g)
          ([(''market_id'', P_Text (asm_market_id a)),
            (''candidate_id'', opt_value P_Text (map_option cand_id (asm_candidate a))), paper_label,
            (''calibration_version'', opt_value P_Text (map_option cr_version (fo_calibration fo)))]
           @ governance_info g))
        (\<lambda>d n. (d, Inr (False,
          [(''router_status'', P_Text (gov_reason g)),
           (''model_governance_state'', P_Text (governance_value (gov_state g))),
           (''execution_permission'', P_Text (permission_value (gov_permission g))),
           (''promotion_id'', opt_value P_Text (gov_promotion_id g)),
           (''governance_rejection_reason'', P_Text (gov_reason g)), (''real_order_submission'', P_Bool False)], n))))"

definition directional_abstain_info :: "shadow_state \<Rightarrow> directional_assessment \<Rightarrow> forecast_outcome \<Rightarrow> string \<Rightarrow> nat \<Rightarrow>
    info" where
  "directional_abstain_info st a fo pricing_status corpus_count =
     [(''market_id'', P_Text (asm_market_id a)), paper_label, (''ptb_status'', P_Text (sst_ptb_status st)),
      (''ptb_reason'', P_Text (sst_ptb_reason st)), (''feature_status'', P_Text (sst_feature_status st)),
      (''model_state'', P_Text (fo_model_state fo)),
      (''model_version'', opt_value P_Text (map_option fc_model_version (fo_forecast fo))),
      (''calibration_state'', P_Text (fo_calibration_state fo)), (''pricing_status'', P_Text pricing_status),
      (''corpus_sample_count'', P_Int (int corpus_count)), (''net_edge'', opt_value P_Dec (asm_net_edge a))]"

text \<open>What follows an assessment: the execution, the strategy event, the corpus rows and the abstention.\<close>

definition conclude_directional :: "cycle_env \<Rightarrow> desk \<Rightarrow> shadow_state \<Rightarrow> market \<Rightarrow> shadow_bucket_status \<Rightarrow>
    directional_call \<Rightarrow> directional_assessment \<Rightarrow> forecast_outcome \<Rightarrow> string \<Rightarrow> json \<Rightarrow> training_report \<Rightarrow> nat \<Rightarrow>
    desk \<times> (nat \<times> bool) result" where
  "conclude_directional env d st m status call a fo pricing_status comparison report corpus_count =
     (let g = directional_paper_governance_decision (sms_bucket st) (fo_forecast fo) None in
      and_then (execute_if_allowed env d st a fo (dc_up call) (dc_down call) g) (\<lambda>d (traded, kvs, abstains).
      and_then (append_shadow_event env d (ce_cycle env @ '':'' @ mkt_condition_id m @ '':directional'')
          ''STRATEGY_EVALUATION'' (Some (bucket_text (sms_bucket st)))
          (strategy_payload env st call a fo pricing_status comparison kvs corpus_count report g) (sms_observed_at st))
        (\<lambda>d appended.
      and_then (save_corpus_placeholder env d st (asm_reason a) status) (\<lambda>d u.
      and_then (save_sol5m_evidence env d st (dc_up call) (dc_down call) pricing_status) (\<lambda>d u.
      if asm_action a = ABSTAIN
      then and_then (desk_abstain env d st DIRECTIONAL_EDGE (asm_reason a)
          (directional_abstain_info st a fo pricing_status corpus_count)) (\<lambda>d n. (d, Inr (n, False)))
      else (d, Inr (abstains, traded)))))))"

definition evaluate_directional :: "cycle_env \<Rightarrow> desk \<Rightarrow> shadow_state \<Rightarrow> desk \<times> (nat \<times> bool) result" where
  "evaluate_directional env d st =
     (case sms_discovery st of
        None \<Rightarrow> (d, Inl AssertionErr)
      | Some disc \<Rightarrow>
          (let m = md_market disc; b = sms_bucket st; n = corpus_size d b in
           after d (shadow_model_status env d b) (\<lambda>status.
           case directional_pricing (base_state st) of (up, down, pricing_status) \<Rightarrow>
           after d (forecast_for_features env st (sms_features st) status) (\<lambda>fo.
           let call = desk_directional_call st m (sms_features st) fo up down in
           after d (assess_directional_edge call) (\<lambda>a.
           after d (feature_comparison_report env st status a fo up down) (\<lambda>comparison.
           after d (report_for (ce_models env) b) (\<lambda>report.
           conclude_directional env d st m status call a fo pricing_status comparison report n)))))))"

section \<open>The structural evaluation\<close>

text \<open>\<open>_structural_market_quality_reason\<close>: expected data-quality failures become abstention reasons.\<close>

definition structural_market_quality_reason :: "py_error \<Rightarrow> string option" where
  "structural_market_quality_reason e = (let text = py_lower (error_text e) in case e of
     PricingUnavailableError m \<Rightarrow>
       Some (if sublist ''fee'' text \<and> sublist ''stale'' text then ''FEE_STALE''
         else if sublist ''book'' text \<and> sublist ''source timestamp is stale'' text then ''BOOK_STALE''
         else if sublist ''depth'' text \<or> sublist ''liquidity'' text then ''INSUFFICIENT_PAIRED_DEPTH''
         else ''PRICING_UNAVAILABLE'')
   | ValueErr m \<Rightarrow>
       if sublist ''paired books exceed maximum source-time skew'' text then Some ''PAIRED_BOOK_SOURCE_SKEW''
       else if sublist ''paired books exceed maximum receive-time skew'' text then Some ''PAIRED_BOOK_RECEIVE_SKEW''
       else if sublist ''paired books require source timestamps'' text then Some ''PAIRED_BOOK_SOURCE_TIMESTAMP_MISSING''
       else None
   | _ \<Rightarrow> None)"

definition desk_structural_policy :: "polymarket_book \<Rightarrow> polymarket_book \<Rightarrow> structural_policy" where
  "desk_structural_policy up down =
     \<lparr>stp_target_shares = max (pmb_minimum_order_size up) (pmb_minimum_order_size down),
      stp_minimum_net_profit = 1 / 100, stp_cycle_buffer_bps = 10, stp_max_pair_skew = seconds 5,
      stp_pricing = desk_pricing_policy\<rparr>"

text \<open>The loop over the two actions ends at the first that raises; its error is returned with the action.\<close>

fun scan_actions :: "(structural_action \<Rightarrow> structural_scan result) \<Rightarrow> structural_action list \<Rightarrow>
    (structural_action \<times> py_error) + structural_scan list" where
  "scan_actions f [] = Inr []"
| "scan_actions f (a # as) = (case f a of
     Inl e \<Rightarrow> Inl (a, e)
   | Inr s \<Rightarrow> (case scan_actions f as of Inl ae \<Rightarrow> Inl ae | Inr ss \<Rightarrow> Inr (s # ss)))"

definition structural_note :: "cycle_env \<Rightarrow> desk \<Rightarrow> shadow_state \<Rightarrow> string \<Rightarrow> info \<Rightarrow> desk \<times> bool result" where
  "structural_note env d st reason kvs =
     and_then (desk_abstain env d st STRUCTURAL_ARBITRAGE reason kvs) (\<lambda>d n. (d, Inr False))"

definition structural_failure :: "cycle_env \<Rightarrow> desk \<Rightarrow> shadow_state \<Rightarrow> market \<Rightarrow> structural_action \<Rightarrow> py_error \<Rightarrow>
    desk \<times> bool result" where
  "structural_failure env d st m action e =
     (case structural_market_quality_reason e of
        None \<Rightarrow> (d, Inl e)
      | Some reason \<Rightarrow>
          and_then (structural_note env d st reason [paper_label, (''stage'', P_Text ''STRUCTURAL_RUNTIME''),
              (''error_type'', P_Text (error_class e))]) (\<lambda>d no_trade.
          and_then (append_shadow_event env d
              (ce_cycle env @ '':'' @ mkt_condition_id m @ '':structural:'' @ structural_action_value action @ '':'' @ reason)
              ''STRUCTURAL_EVALUATION'' (Some (bucket_text (sms_bucket st)))
              (JDict [(''strategy'', JStr (strategy_value STRUCTURAL_ARBITRAGE)),
                (''action'', JStr (structural_action_value action)), (''reason'', JStr reason),
                (''stage'', JStr ''STRUCTURAL_RUNTIME''), label_json]) (sms_observed_at st))
            (\<lambda>d appended. (d, Inr False))))"

text \<open>
  After the event, an executable scan is entered when it buys a complete set; \<open>True\<close> is returned whatever
  the entry did.
\<close>

definition conclude_structural :: "cycle_env \<Rightarrow> desk \<Rightarrow> shadow_state \<Rightarrow> market \<Rightarrow> structural_scan list \<Rightarrow>
    desk \<times> bool result" where
  "conclude_structural env d st m scans =
     and_then (append_shadow_event env d (ce_cycle env @ '':'' @ mkt_condition_id m @ '':structural'')
         ''STRUCTURAL_EVALUATION'' (Some (bucket_text (sms_bucket st)))
         (JDict (map (\<lambda>s. (structural_action_value (scan_action s), JStr (scan_reason s))) scans)) (sms_observed_at st))
       (\<lambda>d appended.
      case Option.bind (find (\<lambda>s. scan_opportunity s \<noteq> None) scans) scan_opportunity of
        None \<Rightarrow> structural_note env d st (join_texts '';'' (map scan_reason scans)) [paper_label]
      | Some opp \<Rightarrow>
          if so_action opp \<noteq> BUY_MERGE then structural_note env d st ''SPLIT_SELL_RESEARCH_ONLY'' [paper_label]
          else and_then (on_paper d (execute_structural_paper (ce_render env) (dk_paper d) (base_state st)
              \<lparr>suc_cycle = ce_cycle env, suc_checked_at = ce_entry_clock env (sms_bucket st) STRUCTURAL_ARBITRAGE,
               suc_opportunity = opp\<rparr>)) (\<lambda>d u. (d, Inr True)))"

definition evaluate_structural :: "cycle_env \<Rightarrow> desk \<Rightarrow> shadow_state \<Rightarrow> desk \<times> bool result" where
  "evaluate_structural env d st =
     (let up_fee = or_else (sms_up_fee st) (sms_fee_schedule st); down_fee = or_else (sms_down_fee st) (sms_fee_schedule st) in
      case (sms_discovery st, sms_up_book st, sms_down_book st, up_fee, down_fee) of
        (Some disc, Some ub, Some db, Some uf, Some df) \<Rightarrow>
          after d (let p = desk_structural_policy ub db in checked (structural_policy_checks p) (Inr p)) (\<lambda>policy.
          case scan_actions (\<lambda>action. scan_complete_set (md_market disc) ub db uf df action (sms_observed_at st) policy)
              [BUY_MERGE, SPLIT_SELL] of
            Inl (action, e) \<Rightarrow> structural_failure env d st (md_market disc) action e
          | Inr scans \<Rightarrow> conclude_structural env d st (md_market disc) scans)
      | _ \<Rightarrow> structural_note env d st ''STRUCTURAL_INPUTS_UNAVAILABLE'' [paper_label])"

section \<open>The cycle\<close>

record cycle_result =
  cyc_discovered :: nat
  cyc_proxies :: nat
  cyc_officials :: nat
  cyc_books :: nat
  cyc_evaluations :: nat
  cyc_abstains :: nat
  cyc_trades :: nat

definition empty_cycle :: cycle_result where
  "empty_cycle = \<lparr>cyc_discovered = 0, cyc_proxies = 0, cyc_officials = 0, cyc_books = 0, cyc_evaluations = 0,
     cyc_abstains = 0, cyc_trades = 0\<rparr>"

definition observed_market :: "shadow_state \<Rightarrow> cycle_result \<Rightarrow> cycle_result" where
  "observed_market st c = \<lparr>cyc_discovered = cyc_discovered c + 1,
     cyc_proxies = cyc_proxies c + (if sst_proxy st \<noteq> None then 1 else 0),
     cyc_officials = cyc_officials c + (if sst_official st \<noteq> None then 1 else 0),
     cyc_books = cyc_books c + (if sms_up_book st \<noteq> None \<and> sms_down_book st \<noteq> None then 2 else 0),
     cyc_evaluations = cyc_evaluations c, cyc_abstains = cyc_abstains c, cyc_trades = cyc_trades c\<rparr>"

definition counted :: "nat \<Rightarrow> nat \<Rightarrow> nat \<Rightarrow> cycle_result \<Rightarrow> cycle_result" where
  "counted evals k n c = c\<lparr>cyc_evaluations := cyc_evaluations c + evals,
     cyc_abstains := cyc_abstains c + k, cyc_trades := cyc_trades c + n\<rparr>"

definition closed_window_info :: "shadow_state \<Rightarrow> market \<Rightarrow> info" where
  "closed_window_info st m = [(''bucket'', P_Text (bucket_text (sms_bucket st))), (''market_id'', P_Text (mkt_id m)),
     (''condition_id'', P_Text (mkt_condition_id m)), (''window_start'', P_Time (mkt_window_start m)),
     (''window_end'', P_Time (mkt_window_end m)), (''evaluation_at'', P_Time (sms_observed_at st)), paper_label]"

definition evaluate_both :: "cycle_env \<Rightarrow> desk \<Rightarrow> shadow_state \<Rightarrow> cycle_result \<Rightarrow> desk \<times> cycle_result result" where
  "evaluate_both env d st c =
     and_then (evaluate_directional env d st) (\<lambda>d (abstains, traded).
     and_then (evaluate_structural env d st) (\<lambda>d structural.
     (d, Inr (counted 3 (abstains + (if structural then 0 else 1))
       ((if traded then 1 else 0) + (if structural then 1 else 0)) c))))"

definition evaluate_discovered :: "cycle_env \<Rightarrow> desk \<Rightarrow> shadow_state \<Rightarrow> market \<Rightarrow> cycle_result \<Rightarrow>
    desk \<times> cycle_result result" where
  "evaluate_discovered env d st m c =
     (case sst_unavailable st of
        Some reason \<Rightarrow>
          if reason = ''MARKET_WINDOW_NOT_STARTED'' \<or> reason = ''MARKET_WINDOW_EXPIRED'' then
            and_then (desk_abstain env d st DIRECTIONAL_EDGE reason (closed_window_info st m)) (\<lambda>d n.
            and_then (desk_abstain env d st STRUCTURAL_ARBITRAGE reason (closed_window_info st m)) (\<lambda>d k.
            (d, Inr (counted 0 (n + k) 0 c))))
          else evaluate_both env d st c
      | None \<Rightarrow> evaluate_both env d st c)"

definition evaluate_state :: "cycle_env \<Rightarrow> desk \<Rightarrow> shadow_state \<Rightarrow> cycle_result \<Rightarrow> desk \<times> cycle_result result" where
  "evaluate_state env d st c =
     (let bucket = (''bucket'', P_Text (bucket_text (sms_bucket st))) in
      and_then (record_pipeline_state env d st) (\<lambda>d recorded.
      if \<not> recorded then
        and_then (desk_abstain env d st DIRECTIONAL_EDGE ''SHADOW_STORAGE_DEGRADED''
          [bucket, (''storage_status'', P_Text ''STORAGE_BUSY'')]) (\<lambda>d n. (d, Inr (counted 0 n 0 c)))
      else (case sms_discovery st of
          None \<Rightarrow> and_then (desk_abstain env d st DIRECTIONAL_EDGE
              (case sst_unavailable st of None \<Rightarrow> ''MARKET_NOT_AVAILABLE''
               | Some r \<Rightarrow> if r = [] then ''MARKET_NOT_AVAILABLE'' else r) [bucket]) (\<lambda>d n. (d, Inr (counted 0 n 0 c)))
        | Some disc \<Rightarrow> evaluate_discovered env d st (md_market disc) (observed_market st c))))"

fun evaluate_states :: "cycle_env \<Rightarrow> desk \<Rightarrow> shadow_state list \<Rightarrow> cycle_result \<Rightarrow> desk \<times> cycle_result result" where
  "evaluate_states env d [] c = (d, Inr c)"
| "evaluate_states env d (st # sts) c =
     and_then (evaluate_state env d st c) (\<lambda>d c. evaluate_states env d sts c)"

definition evaluate_cycle :: "cycle_env \<Rightarrow> desk \<Rightarrow> shadow_state list \<Rightarrow> desk \<times> cycle_result result" where
  "evaluate_cycle env d sts = evaluate_states env d sts empty_cycle"

section \<open>From collected buckets to the cycle event\<close>

text \<open>
  \<open>collected\<close> holds, for each bucket, the state or the exception of its collection and the clock reading
  used when it failed. An expected market-data failure becomes an unavailable state; any other is raised.
\<close>

definition failed_collection :: "market_bucket \<Rightarrow> py_error \<Rightarrow> utc \<Rightarrow> shadow_state" where
  "failed_collection b e t = (let reason = stage_failure_reason ''COLLECT_BUCKET'' e in
     \<lparr>sms_bucket = b, sms_discovery = None, sms_up_book = None, sms_down_book = None, sms_fee_schedule = None,
      sms_up_fee = None, sms_down_fee = None, sms_observed_at = t, sms_price_to_beat = None, sms_features = None,
      sst_proxy = None, sst_official = None, sst_unavailable = Some reason, sst_ptb_status = ''PTB_UNAVAILABLE'',
      sst_ptb_reason = reason, sst_feature_status = reason, sst_feature_diagnostics = None, sst_chainlink = None,
      sst_hourly = None, sst_stages = [failed_stage ''COLLECT_BUCKET'' t e], sst_diagnostic_features = None,
      sst_comparison = None\<rparr>)"

definition collected_states :: "(string \<Rightarrow> bool) \<Rightarrow> (shadow_state result \<times> utc) list \<Rightarrow> shadow_state list result" where
  "collected_states client_error collected =
     mapr (\<lambda>(b, (x, t)). case x of
         Inr st \<Rightarrow> Inr st
       | Inl e \<Rightarrow> if is_expected_market_data_failure client_error e then Inr (failed_collection b e t) else Inl e)
       (zip supported_market_buckets collected)"

text \<open>The instants of one cycle: its start, the selection of the markets and its completion.\<close>

record cycle_times =
  ct_started :: utc
  ct_selection :: utc
  ct_completed :: utc

definition cycle_payload :: "cycle_env \<Rightarrow> cycle_times \<Rightarrow> cycle_result \<Rightarrow> json \<Rightarrow> json" where
  "cycle_payload env t c settlement = JDict [(''cycle_id'', JStr (ce_cycle env)), (''started_at'', iso_json env (ct_started t)),
     (''markets_discovered'', json_nat (cyc_discovered c)), (''proxy_observations'', json_nat (cyc_proxies c)),
     (''official_observations'', json_nat (cyc_officials c)), (''book_observations'', json_nat (cyc_books c)),
     (''strategy_evaluations'', json_nat (cyc_evaluations c)), (''abstain_records'', json_nat (cyc_abstains c)),
     (''paper_trades'', json_nat (cyc_trades c)), label_json, (''settlement'', settlement),
     (''cycle_started_at'', iso_json env (ct_started t)), (''market_selection_at'', iso_json env (ct_selection t)),
     (''completed_at'', iso_json env (ct_completed t))]"

text \<open>\<open>run_once\<close> after the collection; \<open>settlement\<close> is the payload of the settlement pass.\<close>

definition run_collected :: "cycle_env \<Rightarrow> (string \<Rightarrow> bool) \<Rightarrow> desk \<Rightarrow> (shadow_state result \<times> utc) list \<Rightarrow> cycle_times \<Rightarrow>
    json \<Rightarrow> desk \<times> cycle_result result" where
  "run_collected env client_error d collected t settlement =
     after d (collected_states client_error collected) (\<lambda>sts.
     and_then (evaluate_cycle env d sts) (\<lambda>d c.
     and_then (append_shadow_event env d (ce_window env @ '':'' @ ce_cycle env) ''REAL_SHADOW_CYCLE'' None
         (cycle_payload env t c settlement) (ct_completed t))
       (\<lambda>d appended. (d, Inr c))))"

section \<open>What a cycle may change\<close>

text \<open>
  The three repositories only grow: no settlement, no directional trade and no label is written.
\<close>

definition book_grows :: "paper_repo \<Rightarrow> paper_repo \<Rightarrow> bool" where
  "book_grows r r' \<longleftrightarrow> repo_history r r' \<and> repo_settlements r' = repo_settlements r
     \<and> (\<exists>rows. repo_trades r' = repo_trades r @ rows
          \<and> list_all (\<lambda>(k, t). ptr_strategy t = ''STRUCTURAL_ARBITRAGE'') rows)"

definition corpus_grows :: "corpus_repo option \<Rightarrow> corpus_repo option \<Rightarrow> bool" where
  "corpus_grows c c' \<longleftrightarrow> (case (c, c') of
     (None, None) \<Rightarrow> True
   | (Some r, Some r') \<Rightarrow> keeps_labels r r'
       \<and> set (observations r') \<subseteq> set (observations r) \<union> {w. lr_outcome w = None}
   | _ \<Rightarrow> False)"

definition cycle_effect :: "desk \<Rightarrow> desk \<Rightarrow> bool" where
  "cycle_effect d d' \<longleftrightarrow> book_grows (dk_paper d) (dk_paper d') \<and> extends (dk_shadow d) (dk_shadow d')
     \<and> corpus_grows (dk_corpus d) (dk_corpus d')"

lemma book_grows_refl [simp]: "book_grows r r"
  by (simp add: book_grows_def)

lemma book_grows_trans: "book_grows r s \<Longrightarrow> book_grows s t \<Longrightarrow> book_grows r t"
  by (auto simp: book_grows_def intro: rtranclp_trans)

lemma corpus_grows_refl [simp]: "corpus_grows c c"
  by (cases c) (auto simp: corpus_grows_def)

lemma corpus_grows_trans: "corpus_grows a b \<Longrightarrow> corpus_grows b c \<Longrightarrow> corpus_grows a c"
  by (auto simp: corpus_grows_def intro: keeps_labels_trans split: option.splits)

lemma cycle_effect_refl [simp]: "cycle_effect d d"
  by (simp add: cycle_effect_def)

lemma cycle_effect_trans: "cycle_effect a b \<Longrightarrow> cycle_effect b c \<Longrightarrow> cycle_effect a c"
  unfolding cycle_effect_def by (blast intro: book_grows_trans extends_trans corpus_grows_trans)

text \<open>An effect of a sequence is shown step by step.\<close>

named_theorems cycle_effects

lemma and_then_effect:
  assumes "cycle_effect d (fst z)" "\<And>d' v. z = (d', Inr v) \<Longrightarrow> cycle_effect d' (fst (f d' v))"
  shows "cycle_effect d (fst (and_then z f))"
  using assms by (cases z; cases "snd z") (auto simp: and_then_def intro: cycle_effect_trans)

lemma after_effect:
  assumes "\<And>v. x = Inr v \<Longrightarrow> cycle_effect d (fst (f v))"
  shows "cycle_effect d (fst (after d x f))"
  using assms by (cases x) auto

lemma and_then_Inr: "and_then z f = (d', Inr y) \<longleftrightarrow> (\<exists>d v. z = (d, Inr v) \<and> f d v = (d', Inr y))"
  by (cases z; cases "snd z") (auto simp: and_then_def)

lemma trade_effect_grows:
  "trade_effect (\<lambda>t. ptr_strategy t = ''STRUCTURAL_ARBITRAGE'') r r' \<Longrightarrow> book_grows r r'"
  by (auto simp: trade_effect_def book_grows_def row_insert_def)

lemma append_shadow_event_effect [cycle_effects]:
  "cycle_effect d (fst (append_shadow_event env d event_id ty bucket payload t))"
proof -
  let ?w = "\<lparr>ev_window_id = ce_window env, ev_type = ty, ev_bucket_key = bucket, ev_payload = payload, ev_observed_at = t\<rparr>"
  obtain s x where a: "append_event (ce_config env) (ce_answers env event_id) (dk_shadow d) event_id ?w = (s, x)"
    by fastforce
  have "extends (dk_shadow d) s"
    using shadow_apply_extends [of "dk_shadow d" "ce_config env" "Append_Event (ce_answers env event_id) event_id ?w"]
    by (simp add: a)
  then have grown: "cycle_effect d (d\<lparr>dk_shadow := s\<rparr>)" by (simp add: cycle_effect_def)
  show ?thesis
  proof (cases x)
    case (Inl e)
    then show ?thesis using grown by (cases e) (simp_all add: append_shadow_event_def a)
  qed (use grown in \<open>simp add: append_shadow_event_def a\<close>)
qed

lemma on_paper_effect:
  assumes "trade_effect (\<lambda>t. ptr_strategy t = ''STRUCTURAL_ARBITRAGE'') (dk_paper d) (fst z)"
  shows "cycle_effect d (fst (on_paper d z))"
  using trade_effect_grows [OF assms] by (cases z) (simp add: on_paper_def cycle_effect_def)

lemma desk_abstain_effect [cycle_effects]: "cycle_effect d (fst (desk_abstain env d st strategy reason kvs))"
  unfolding desk_abstain_def by (rule on_paper_effect [OF record_abstain_history])

lemma desk_abstain_one: "desk_abstain env d st strategy reason kvs = (d', Inr n) \<Longrightarrow> n = 1"
  by (auto simp: desk_abstain_def on_paper_def record_abstain_def Let_def bindr_Inr_iff split: prod.splits)

lemma on_corpus_effect:
  assumes "dk_corpus d = Some r" "keeps_labels r (fst z)"
    "set (observations (fst z)) \<subseteq> set (observations r) \<union> {w. lr_outcome w = None}"
  shows "cycle_effect d (fst (on_corpus d z))"
  using assms by (cases z) (simp add: on_corpus_def cycle_effect_def corpus_grows_def)

lemma base_row_outcome [simp]: "lr_outcome (base_row w) = lr_outcome w"
  by (simp add: base_row_def labelled_row.defs)

lemma prospective_defaults_outcome [simp]: "lr_outcome (prospective_defaults e) = None"
  by (simp add: prospective_defaults_def Let_def)

lemma unique_insert_grows:
  fixes w :: "'a labelled_row_scheme"
  assumes "lr_outcome w = None"
  shows "(base_row \<circ> snd) ` set (row_insert t k w) \<subseteq> (base_row \<circ> snd) ` set t \<union> {w. lr_outcome w = None}"
    "(base_row \<circ> snd) ` set (unique_insert key t k w) \<subseteq> (base_row \<circ> snd) ` set t \<union> {w. lr_outcome w = None}"
  using assms row_insert_set(1) [of t k w] row_insert_set(2) [of key t k w] by force+

lemma observations_update:
  "set (observations (r\<lparr>crp_records := ws\<rparr>)) = (base_row \<circ> snd) ` set ws
     \<union> (base_row \<circ> snd) ` set (crp_checkpoints r) \<union> (base_row \<circ> snd) ` set (crp_prospective r)"
  "set (observations (r\<lparr>crp_checkpoints := cs\<rparr>)) = (base_row \<circ> snd) ` set (crp_records r)
     \<union> (base_row \<circ> snd) ` set cs \<union> (base_row \<circ> snd) ` set (crp_prospective r)"
  "set (observations (r\<lparr>crp_prospective := ps\<rparr>)) = (base_row \<circ> snd) ` set (crp_records r)
     \<union> (base_row \<circ> snd) ` set (crp_checkpoints r) \<union> (base_row \<circ> snd) ` set ps"
  "set (observations r) = (base_row \<circ> snd) ` set (crp_records r)
     \<union> (base_row \<circ> snd) ` set (crp_checkpoints r) \<union> (base_row \<circ> snd) ` set (crp_prospective r)"
  by (simp_all add: observations_def Un_assoc)

lemma corpus_op_grows:
  "set (observations (fst (save_pre_outcome r k a h cid t p))) \<subseteq> set (observations r) \<union> {w. lr_outcome w = None}"
  "set (observations (fst (save_checkpoint_observation r k g))) \<subseteq> set (observations r) \<union> {w. lr_outcome w = None}"
  "set (observations (fst (save_prospective_evidence r k e))) \<subseteq> set (observations r) \<union> {w. lr_outcome w = None}"
proof -
  let ?w = "\<lparr>lr_condition_id = cid, lr_observed_at = t, lr_payload = json_canonical p, lr_outcome = None,
    lr_attached_at = None, co_asset = a, co_horizon = h\<rparr>"
  have "fst (save_pre_outcome r k a h cid t p) \<in> {r, r\<lparr>crp_records := row_insert (crp_records r) k ?w\<rparr>}"
    by (simp add: save_pre_outcome_def Let_def)
  then show "set (observations (fst (save_pre_outcome r k a h cid t p))) \<subseteq> set (observations r) \<union> {w. lr_outcome w = None}"
    using unique_insert_grows(1) [of ?w "crp_records r" k] by (elim insertE emptyE) (simp_all only: observations_update, auto)
next
  let ?w = "g\<lparr>lr_payload := json_canonical (lr_payload g), lr_outcome := None, lr_attached_at := None\<rparr>"
  have "fst (save_checkpoint_observation r k g)
      \<in> {r, r\<lparr>crp_checkpoints := unique_insert checkpoint_key (crp_checkpoints r) k ?w\<rparr>}"
    by (simp add: save_checkpoint_observation_def Let_def)
  then show "set (observations (fst (save_checkpoint_observation r k g))) \<subseteq> set (observations r) \<union> {w. lr_outcome w = None}"
    using unique_insert_grows(2) [of ?w checkpoint_key "crp_checkpoints r" k]
    by (elim insertE emptyE) (simp_all only: observations_update, auto)
next
  have "fst (save_prospective_evidence r k e)
      \<in> {r, r\<lparr>crp_prospective := unique_insert prospective_key (crp_prospective r) k (prospective_defaults e)\<rparr>}"
    unfolding save_prospective_evidence_def Let_def by (simp split del: option.split)
  then show "set (observations (fst (save_prospective_evidence r k e))) \<subseteq> set (observations r) \<union> {w. lr_outcome w = None}"
    using unique_insert_grows(2) [of "prospective_defaults e" prospective_key "crp_prospective r" k]
    by (elim insertE emptyE) (simp_all only: observations_update prospective_defaults_outcome, auto)
qed

lemmas save_record_effect = on_corpus_effect [where z = "save_pre_outcome r k a h cid t p" for r k a h cid t p,
  OF _ corpus_apply_keeps [where op = "Save_record k a h cid t p" for k a h cid t p, simplified]
    corpus_op_grows(1)]

lemmas save_checkpoint_row_effect = on_corpus_effect [where z = "save_checkpoint_observation r k g" for r k g,
  OF _ corpus_apply_keeps [where op = "Save_checkpoint k g" for k g, simplified]
    corpus_op_grows(2)]

lemmas save_prospective_row_effect = on_corpus_effect [where z = "save_prospective_evidence r k e" for r k e,
  OF _ corpus_apply_keeps [where op = "Save_prospective k e" for k e, simplified]
    corpus_op_grows(3)]

lemma save_checkpoint_effect [cycle_effects]: "cycle_effect d (fst (save_checkpoint env d st))"
  by (auto simp: save_checkpoint_def Let_def intro: save_checkpoint_row_effect split: option.split)

lemma save_corpus_placeholder_effect [cycle_effects]:
  "cycle_effect d (fst (save_corpus_placeholder env d st reason status))"
  by (auto simp: save_corpus_placeholder_def Let_def intro!: and_then_effect save_record_effect save_checkpoint_effect
    split: option.split)

lemma sol5m_challenger_desk: "dk_paper (fst (sol5m_challenger env d)) = dk_paper d"
  "dk_shadow (fst (sol5m_challenger env d)) = dk_shadow d" "dk_corpus (fst (sol5m_challenger env d)) = dk_corpus d"
  by (simp_all add: sol5m_challenger_def Let_def split: option.split)

lemma save_sol5m_evidence_effect [cycle_effects]:
  "cycle_effect d (fst (save_sol5m_evidence env d st up down status))"
proof -
  obtain d1 f where c: "sol5m_challenger env d = (d1, f)" by fastforce
  have d1: "cycle_effect d d1" "dk_corpus d1 = dk_corpus d"
    using sol5m_challenger_desk [of env d] by (simp_all add: c cycle_effect_def)
  have capture: "cycle_effect d1 (fst (save_sol5m_capture env d1 st m v f tte up down status start r))"
    if "dk_corpus d = Some r" for m v tte start r
    using that by (simp add: save_sol5m_capture_def Let_def d1 save_prospective_row_effect)
  have started: "cycle_effect d (fst (after d1 x (\<lambda>start. if B start then (d1, Inr ())
      else save_sol5m_capture env d1 st m v f tte up down status (S start) r)))" if "dk_corpus d = Some r" for x B S m v tte r
    by (rule cycle_effect_trans [OF d1(1)], rule after_effect) (simp add: capture [OF that])
  show ?thesis
    by (auto simp: save_sol5m_evidence_def c Let_def intro!: started split: option.split)
qed

section \<open>Both strategies\<close>

text \<open>Without promotions the governance forbids every execution, so a trade assessment is one abstention.\<close>

lemma execute_if_allowed_unpromoted:
  assumes "g = directional_paper_governance_decision b forecast None"
  shows "cycle_effect d (fst (execute_if_allowed env d st a fo up down g))"
    "execute_if_allowed env d st a fo up down g = (d', Inr (traded, kvs, n)) \<Longrightarrow>
       \<not> traded \<and> n = (if asm_action a = TRADE then 1 else 0)"
proof -
  have g: "\<not> paper_execution_allowed g" unfolding assms by (rule unpromoted_never_executes)
  show "cycle_effect d (fst (execute_if_allowed env d st a fo up down g))"
    using g by (auto simp: execute_if_allowed_def intro!: and_then_effect desk_abstain_effect)
  show "execute_if_allowed env d st a fo up down g = (d', Inr (traded, kvs, n)) \<Longrightarrow>
       \<not> traded \<and> n = (if asm_action a = TRADE then 1 else 0)"
    using g by (auto simp: execute_if_allowed_def and_then_Inr dest: desk_abstain_one split: if_splits)
qed

lemma conclude_directional_effect [cycle_effects]:
  "cycle_effect d (fst (conclude_directional env d st m status call a fo ps cmp report k))"
  unfolding conclude_directional_def Let_def
  by (auto intro!: and_then_effect cycle_effects execute_if_allowed_unpromoted(1))

lemma conclude_directional_one:
  assumes "conclude_directional env d st m status call a fo ps cmp report k = (d', Inr (n, traded))"
  shows "n = 1 \<and> \<not> traded"
  using assms unfolding conclude_directional_def Let_def and_then_Inr
  by (cases "asm_action a") (auto simp: and_then_Inr dest!: execute_if_allowed_unpromoted(2) [OF refl] desk_abstain_one)

lemma evaluate_directional_effect [cycle_effects]: "cycle_effect d (fst (evaluate_directional env d st))"
  by (auto simp: evaluate_directional_def Let_def intro!: after_effect conclude_directional_effect
    split: option.split prod.split)

lemma evaluate_directional_one:
  "evaluate_directional env d st = (d', Inr (n, traded)) \<Longrightarrow> n = 1 \<and> \<not> traded"
  by (cases "directional_pricing (base_state st)")
     (auto simp: evaluate_directional_def Let_def after_Inr_iff dest: conclude_directional_one split: option.splits)

lemma structural_note_effect [cycle_effects]: "cycle_effect d (fst (structural_note env d st reason kvs))"
  by (auto simp: structural_note_def intro!: and_then_effect cycle_effects)

lemma structural_note_False: "structural_note env d st reason kvs = (d', Inr b) \<Longrightarrow> \<not> b"
  by (auto simp: structural_note_def and_then_Inr)

lemma structural_failure_effect [cycle_effects]: "cycle_effect d (fst (structural_failure env d st m action e))"
  by (auto simp: structural_failure_def intro!: and_then_effect cycle_effects split: option.split)

lemma conclude_structural_effect [cycle_effects]: "cycle_effect d (fst (conclude_structural env d st m scans))"
  by (auto simp: conclude_structural_def
    intro!: and_then_effect cycle_effects on_paper_effect execute_structural_effect split: option.split)

lemma evaluate_structural_effect [cycle_effects]: "cycle_effect d (fst (evaluate_structural env d st))"
  by (auto simp: evaluate_structural_def Let_def intro!: after_effect cycle_effects split: option.split sum.split)

lemma evaluate_both_effect [cycle_effects]: "cycle_effect d (fst (evaluate_both env d st c))"
  by (auto simp: evaluate_both_def intro!: and_then_effect cycle_effects)

lemma evaluate_discovered_effect [cycle_effects]: "cycle_effect d (fst (evaluate_discovered env d st m c))"
  by (auto simp: evaluate_discovered_def intro!: and_then_effect cycle_effects split: option.split)

lemma evaluate_state_effect [cycle_effects]: "cycle_effect d (fst (evaluate_state env d st c))"
  unfolding evaluate_state_def record_pipeline_state_def Let_def
  by (auto intro!: and_then_effect cycle_effects split: option.split)

lemma evaluate_states_effect [cycle_effects]: "cycle_effect d (fst (evaluate_states env d sts c))"
  by (induction sts arbitrary: d c) (auto intro!: and_then_effect evaluate_state_effect)

lemma run_collected_effect: "cycle_effect d (fst (run_collected env client_error d collected t settlement))"
  unfolding run_collected_def evaluate_cycle_def
  by (auto intro!: and_then_effect after_effect cycle_effects)

text \<open>Directional positions are read from trade rows, so they stay as they were.\<close>

lemma book_grows_open: "book_grows r r' \<Longrightarrow> open_directional r' = open_directional r"
  by (force simp: book_grows_def open_directional_def still_open_def list_all_iff filter_empty_conv)

section \<open>The accounting of a cycle\<close>

text \<open>What one state adds: \<open>k\<close> discovered markets, each with two decisions, and otherwise one abstention.\<close>

definition cycle_sums :: "nat \<Rightarrow> cycle_result \<Rightarrow> bool" where
  "cycle_sums n c \<longleftrightarrow> cyc_abstains c + cyc_trades c = n + cyc_discovered c
     \<and> cyc_trades c \<le> cyc_discovered c \<and> cyc_proxies c \<le> cyc_discovered c \<and> cyc_officials c \<le> cyc_discovered c
     \<and> cyc_books c \<le> 2 * cyc_discovered c \<and> cyc_discovered c \<le> n
     \<and> (\<exists>k. cyc_evaluations c = 3 * k \<and> cyc_trades c \<le> k \<and> k \<le> cyc_discovered c)"

lemma evaluate_both_counts:
  assumes "evaluate_both env d st c = (d', Inr c')"
  obtains n k where "c' = counted 3 n k c" "n + k = 2" "k \<le> 1"
  using assms
  by (auto simp: evaluate_both_def and_then_Inr dest!: evaluate_directional_one split: if_splits)

lemma evaluate_discovered_counts:
  assumes "evaluate_discovered env d st m c = (d', Inr c')"
  obtains e n k where "c' = counted e n k c" "n + k = 2" "e = 3 \<and> k \<le> 1 \<or> e = 0 \<and> k = 0"
proof -
  consider "evaluate_both env d st c = (d', Inr c')" | "c' = counted 0 2 0 c"
    using assms
    by (auto simp: evaluate_discovered_def and_then_Inr numeral_2_eq_2 dest!: desk_abstain_one split: option.splits if_splits)
  then show thesis
    by cases (auto elim!: evaluate_both_counts intro: that)
qed

lemma evaluate_state_sums:
  assumes "evaluate_state env d st c = (d', Inr c')" "cycle_sums n c"
  shows "cycle_sums (Suc n) c'"
proof -
  consider "c' = counted 0 1 0 c"
    | d1 m where "evaluate_discovered env d1 st m (observed_market st c) = (d', Inr c')"
    using assms(1) unfolding evaluate_state_def Let_def
    by (auto simp: and_then_Inr dest!: desk_abstain_one split: option.splits if_splits)
  then show ?thesis
  proof cases
    case 1
    with assms(2) show ?thesis by (auto simp: cycle_sums_def counted_def)
  next
    case 2
    then obtain e a k where c': "c' = counted e a k (observed_market st c)" and ak: "a + k = 2"
      and ek: "e = 3 \<and> k \<le> 1 \<or> e = 0 \<and> k = 0" by (rule evaluate_discovered_counts)
    obtain q where q: "cyc_evaluations c = 3 * q" "cyc_trades c \<le> q" "q \<le> cyc_discovered c"
      using assms(2) by (auto simp: cycle_sums_def)
    have "\<exists>p. cyc_evaluations c + e = 3 * p \<and> cyc_trades c + k \<le> p \<and> p \<le> cyc_discovered c + 1"
      using ek q by (intro exI [of _ "q + (if e = 3 then 1 else 0)"]) auto
    moreover have "cyc_abstains c' + cyc_trades c' = Suc n + cyc_discovered c'"
      using assms(2) ak by (simp add: cycle_sums_def c' counted_def observed_market_def)
    moreover have "cyc_trades c' \<le> cyc_discovered c'"
      using assms(2) ek by (auto simp: cycle_sums_def c' counted_def observed_market_def)
    ultimately show ?thesis using assms(2) unfolding cycle_sums_def
      by (intro conjI) (simp_all add: c' counted_def observed_market_def)
  qed
qed

lemma evaluate_states_sums:
  "evaluate_states env d sts c = (d', Inr c') \<Longrightarrow> cycle_sums n c \<Longrightarrow> cycle_sums (n + length sts) c'"
proof (induction sts arbitrary: d c n)
  case (Cons st sts)
  then show ?case using evaluate_state_sums by (fastforce simp: and_then_Inr)
qed simp

section \<open>Degraded evidence storage\<close>

text \<open>When SQLite is busy at every attempt, an event with proper texts is reported as not stored.\<close>

definition storage_busy :: "cycle_env \<Rightarrow> bool" where
  "storage_busy env \<longleftrightarrow> \<not> sc_read_only (ce_config env)
     \<and> (\<forall>event_id i. busy_answer (ce_answers env event_id i))"

lemma busy_append:
  assumes "storage_busy env" "passes [require_text ''event_id'' event_id, require_text ''window_id'' (ce_window env),
    require_text ''event_type'' ty, require_text ''bucket_key'' bucket]"
  shows "append_shadow_event env d event_id ty (Some bucket) payload t = (d, Inr False)"
proof -
  let ?w = "\<lparr>ev_window_id = ce_window env, ev_type = ty, ev_bucket_key = Some bucket, ev_payload = payload, ev_observed_at = t\<rparr>"
  have "write_with_retry (ce_config env) (ce_answers env event_id) op (dk_shadow d) = (dk_shadow d, Inl write_busy)" for op
    unfolding write_with_retry_def using assms(1)
    by (intro write_attempts_exhausted) (simp_all add: storage_busy_def)
  then have "append_event (ce_config env) (ce_answers env event_id) (dk_shadow d) event_id ?w = (dk_shadow d, Inl write_busy)"
    using assms(2) by (simp add: append_event_def guarded_write_def passes_def)
  then show ?thesis by (simp add: append_shadow_event_def write_busy_def)
qed

lemma asset_text [simp]: "asset_value a \<noteq> []" "\<not> py_space (hd (asset_value a))"
  by (cases a; simp add: py_space_def)+

lemma horizon_text [simp]: "horizon_value h \<noteq> []" "\<not> py_space (last (horizon_value h))"
  by (cases h; simp add: py_space_def)+

lemma bucket_text_ok [simp]: "require_text name (bucket_text b) = None"
  by (simp add: bucket_text_def)

lemma record_abstain_rows:
  "\<exists>rows. repo_abstains (fst (record_abstain render r st cycle strategy reason kvs)) = repo_abstains r @ rows
     \<and> list_all (\<lambda>(k, a). pab_reason a = reason) rows"
proof -
  have rows: "\<exists>rows. repo_abstains (fst (save_abstain r a)) = repo_abstains r @ rows
      \<and> list_all (\<lambda>(k, b). pab_reason b = pab_reason a) rows" for a
    by (cases "first_error (abstain_checks a)") (auto simp: save_abstain_def Let_def row_insert_def)
  obtain a where "pab_reason a = reason"
    "fst (record_abstain render r st cycle strategy reason kvs) = fst (save_abstain r a)"
    by (simp add: record_abstain_def Let_def case_prod_beta) (metis paper_abstain.select_convs(6))
  then show ?thesis using rows [of a] by simp
qed

text \<open>What a desk with busy storage changes: abstention rows with the one reason, and nothing else.\<close>

definition degraded_step :: "desk \<Rightarrow> desk \<Rightarrow> bool" where
  "degraded_step d d' \<longleftrightarrow> dk_shadow d' = dk_shadow d \<and> dk_corpus d' = dk_corpus d \<and> dk_challenger d' = dk_challenger d
     \<and> repo_trades (dk_paper d') = repo_trades (dk_paper d) \<and> repo_executions (dk_paper d') = repo_executions (dk_paper d)
     \<and> (\<exists>rows. repo_abstains (dk_paper d') = repo_abstains (dk_paper d) @ rows
          \<and> list_all (\<lambda>(k, a). pab_reason a = ''SHADOW_STORAGE_DEGRADED'') rows)"

lemma degraded_refl [simp]: "degraded_step d d"
  by (simp add: degraded_step_def)

lemma degraded_trans: "degraded_step a b \<Longrightarrow> degraded_step b c \<Longrightarrow> degraded_step a c"
  by (auto simp: degraded_step_def)

lemma busy_state:
  assumes "storage_busy env" "require_text ''window_id'' (ce_window env) = None" "require_text ''cycle_id'' (ce_cycle env) = None"
  shows "degraded_step d (fst (evaluate_state env d st c))"
    "snd (evaluate_state env d st c) = Inr c' \<Longrightarrow> c' = counted 0 1 0 c"
proof -
  let ?a = "desk_abstain env d st DIRECTIONAL_EDGE ''SHADOW_STORAGE_DEGRADED''
    [(''bucket'', P_Text (bucket_text (sms_bucket st))), (''storage_status'', P_Text ''STORAGE_BUSY'')]"
  have "record_pipeline_state env d st = (d, Inr False)"
    unfolding record_pipeline_state_def Let_def using assms
    by (intro busy_append) (auto simp: py_space_def)
  then have e: "evaluate_state env d st c = and_then ?a (\<lambda>d n. (d, Inr (counted 0 n 0 c)))"
    by (simp add: evaluate_state_def and_then_def)
  obtain r x where a: "record_abstain (ce_render env) (dk_paper d) (base_state st) (ce_cycle env) DIRECTIONAL_EDGE
      ''SHADOW_STORAGE_DEGRADED'' [(''bucket'', P_Text (bucket_text (sms_bucket st))),
        (''storage_status'', P_Text ''STORAGE_BUSY'')] = (r, x)" by fastforce
  note rows = record_abstain_rows [of "ce_render env" "dk_paper d" "base_state st" "ce_cycle env" DIRECTIONAL_EDGE
      "''SHADOW_STORAGE_DEGRADED''" "[(''bucket'', P_Text (bucket_text (sms_bucket st))),
        (''storage_status'', P_Text ''STORAGE_BUSY'')]", unfolded a]
  have "degraded_step d (fst ?a)"
    using record_abstain_effect(2,3) [OF a] rows by (simp add: desk_abstain_def a on_paper_def degraded_step_def)
  moreover have "fst (and_then ?a (\<lambda>d n. (d, Inr (counted 0 n 0 c)))) = fst ?a"
    by (simp add: and_then_def split: prod.split sum.split)
  ultimately show "degraded_step d (fst (evaluate_state env d st c))" by (simp add: e)
  assume "snd (evaluate_state env d st c) = Inr c'"
  then obtain d' where "evaluate_state env d st c = (d', Inr c')" by (metis prod.collapse)
  then show "c' = counted 0 1 0 c" by (auto simp: e and_then_Inr dest: desk_abstain_one)
qed

lemma busy_states:
  assumes "storage_busy env" "require_text ''window_id'' (ce_window env) = None" "require_text ''cycle_id'' (ce_cycle env) = None"
  shows "degraded_step d (fst (evaluate_states env d sts c))
    \<and> (\<forall>c'. snd (evaluate_states env d sts c) = Inr c' \<longrightarrow> c' = counted 0 (length sts) 0 c)"
proof (induction sts arbitrary: d c)
  case (Cons st sts)
  obtain d1 x where s: "evaluate_state env d st c = (d1, x)" by fastforce
  note step = busy_state [OF assms, where d = d and st = st and c = c, unfolded s]
  show ?case
  proof (cases x)
    case (Inl e)
    then show ?thesis using step(1) by (simp add: s and_then_def)
  next
    case (Inr c1)
    then have "c1 = counted 0 1 0 c" using step(2) by simp
    then show ?thesis
      using step(1) Cons [of d1 c1] by (auto simp: s Inr and_then_def counted_def intro: degraded_trans)
  qed
qed (simp add: counted_def)

text \<open>
  A structural decision that ends in an abstention is still reported as a trade: when the window has closed
  between the scan and the entry check, the cycle records the abstention, adds no trade row and counts a trade.
\<close>

lemma late_structural_entry_counts_as_trade:
  assumes "append_shadow_event env d (ce_cycle env @ '':'' @ mkt_condition_id m @ '':structural'') ''STRUCTURAL_EVALUATION''
      (Some (bucket_text (sms_bucket st))) (JDict (map (\<lambda>s. (structural_action_value (scan_action s), JStr (scan_reason s))) scans))
      (sms_observed_at st) = (d1, Inr appended)"
    and "Option.bind (find (\<lambda>s. scan_opportunity s \<noteq> None) scans) scan_opportunity = Some opp" "so_action opp = BUY_MERGE"
    and "sms_discovery (base_state st) = Some disc" "md_market disc = m"
    and "mkt_condition_id m \<noteq> []" "mkt_id m \<noteq> []" "2 \<le> length (mkt_tokens m)" "mkt_window_start m < mkt_window_end m"
    and late: "market_lifecycle_reason m (ce_entry_clock env (sms_bucket st) STRUCTURAL_ARBITRAGE) = Some reason"
    and paper: "structural_abstain (ce_render env) (dk_paper d1) (base_state st) (ce_cycle env) reason
      [(''condition_id'', P_Text (mkt_condition_id m)),
       (''entry_checked_at'', P_Time (ce_entry_clock env (sms_bucket st) STRUCTURAL_ARBITRAGE)), paper_label] = (r, Inr u)"
  shows "conclude_structural env d st m scans = (d1\<lparr>dk_paper := r\<rparr>, Inr True)" "repo_trades r = repo_trades (dk_paper d1)"
proof -
  have "execute_structural_paper (ce_render env) (dk_paper d1) (base_state st) \<lparr>suc_cycle = ce_cycle env,
      suc_checked_at = ce_entry_clock env (sms_bucket st) STRUCTURAL_ARBITRAGE, suc_opportunity = opp\<rparr> = (r, Inr u)"
    using assms(4-9) late paper by (simp add: execute_structural_paper_def Let_def)
  then show "conclude_structural env d st m scans = (d1\<lparr>dk_paper := r\<rparr>, Inr True)"
    using assms(1-3) by (simp add: conclude_structural_def and_then_def on_paper_def)
  obtain x where "record_abstain (ce_render env) (dk_paper d1) (base_state st) (ce_cycle env) STRUCTURAL_ARBITRAGE reason
      [(''condition_id'', P_Text (mkt_condition_id m)),
       (''entry_checked_at'', P_Time (ce_entry_clock env (sms_bucket st) STRUCTURAL_ARBITRAGE)), paper_label] = (r, x)"
    using paper by (auto simp: structural_abstain_def split: prod.splits)
  then show "repo_trades r = repo_trades (dk_paper d1)" by (rule record_abstain_effect(2))
qed

section \<open>Properties\<close>

text \<open>
  C22: a cycle only observes: whatever the collected markets, the models and the answers of SQLite are, and
  also when the cycle ends in an exception, it opens no directional position and changes none, settles
  nothing, adds no trade row but structural ones, keeps every event it finds, and labels no observation.
\<close>

theorem shadow_cycle_trades_structurally_only:
  "let d' = fst (run_collected env client_error d collected t settlement) in
     open_directional (dk_paper d') = open_directional (dk_paper d)
     \<and> repo_settlements (dk_paper d') = repo_settlements (dk_paper d)
     \<and> (\<exists>rows. repo_trades (dk_paper d') = repo_trades (dk_paper d) @ rows
          \<and> list_all (\<lambda>(k, t). ptr_strategy t = ''STRUCTURAL_ARBITRAGE'') rows)
     \<and> extends (dk_shadow d) (dk_shadow d') \<and> corpus_grows (dk_corpus d) (dk_corpus d')"
  using run_collected_effect [of d env client_error collected t settlement]
  unfolding Let_def cycle_effect_def by (auto simp: book_grows_open) (simp add: book_grows_def)+

text \<open>
  C23: a cycle that returns accounts for every decision: abstentions and reported trades together are one
  for each state and one more for each discovered market, every discovered market counts at most one trade,
  and a market that was evaluated counts three strategy evaluations.
\<close>

theorem cycle_accounts_for_every_decision:
  assumes "evaluate_cycle env d sts = (d', Inr c)"
  shows "cyc_abstains c + cyc_trades c = length sts + cyc_discovered c
    \<and> cyc_trades c \<le> cyc_discovered c \<and> cyc_discovered c \<le> length sts
    \<and> cyc_proxies c \<le> cyc_discovered c \<and> cyc_officials c \<le> cyc_discovered c \<and> cyc_books c \<le> 2 * cyc_discovered c
    \<and> (\<exists>k. cyc_evaluations c = 3 * k \<and> cyc_trades c \<le> k \<and> k \<le> cyc_discovered c)"
proof -
  have "cycle_sums 0 empty_cycle" by (simp add: cycle_sums_def empty_cycle_def)
  then have "cycle_sums (length sts) c"
    using evaluate_states_sums [of env d sts empty_cycle d' c 0] assms by (simp add: evaluate_cycle_def)
  then show ?thesis unfolding cycle_sums_def by blast
qed

text \<open>
  C24: busy evidence storage fails closed. While SQLite answers every attempt with lock contention, a cycle
  evaluates no strategy: it trades and executes nothing, leaves the corpus and the evidence as they are, and
  every paper row it adds is an abstention with the reason \<open>SHADOW_STORAGE_DEGRADED\<close>; when it returns, it
  counts exactly one abstention for each state and nothing else.
\<close>

theorem busy_storage_fails_closed:
  assumes "storage_busy env" "require_text ''window_id'' (ce_window env) = None"
    "require_text ''cycle_id'' (ce_cycle env) = None" "evaluate_cycle env d sts = (d', x)"
  shows "degraded_step d d' \<and> (case x of Inl e \<Rightarrow> True | Inr c \<Rightarrow> c = empty_cycle\<lparr>cyc_abstains := length sts\<rparr>)"
  using busy_states [OF assms(1-3), of d sts empty_cycle] assms(4)
  by (auto simp: evaluate_cycle_def counted_def empty_cycle_def split: sum.split)

section \<open>A desk that abstains\<close>

definition quiet_env :: "(nat \<Rightarrow> attempt) \<Rightarrow> cycle_env" where
  "quiet_env answers = \<lparr>ce_cycle = ''cycle'', ce_window = ''window'', ce_config = demo_shadow_config,
     ce_answers = (\<lambda>_. answers), ce_render = (\<lambda>_. ''v''), ce_study = demo_study_env, ce_show = (\<lambda>_. ''0''), ce_exp = id,
     ce_models = \<lparr>rl_registry = [], rl_reports = []\<rparr>, ce_artifact = Missing_File, ce_entry_clock = (\<lambda>_ _. 0)\<rparr>"

definition quiet_desk :: desk where
  "quiet_desk = \<lparr>dk_paper = empty_repo, dk_shadow = empty_shadow_db, dk_corpus = None, dk_challenger = None\<rparr>"

definition expired_state :: shadow_state where
  "expired_state = \<lparr>sms_bucket = \<lparr>bkt_asset = BTC, bkt_horizon = FIVE_MINUTES\<rparr>,
     sms_discovery = Some (sample_discovery\<lparr>md_market := desk_market\<rparr>), sms_up_book = None, sms_down_book = None,
     sms_fee_schedule = None, sms_up_fee = None, sms_down_fee = None, sms_observed_at = seconds 300,
     sms_price_to_beat = None, sms_features = None, sst_proxy = None, sst_official = None,
     sst_unavailable = Some ''MARKET_WINDOW_EXPIRED'', sst_ptb_status = ''PTB_UNAVAILABLE'', sst_ptb_reason = ''r'',
     sst_feature_status = ''r'', sst_feature_diagnostics = None, sst_chainlink = None, sst_hourly = None, sst_stages = [],
     sst_diagnostic_features = None, sst_comparison = None\<rparr>"

lemma save_abstain_fresh:
  assumes "passes (abstain_checks a)" "map_of (repo_abstains r) (pab_id a) = None"
    "\<forall>b\<in>set (map snd (repo_abstains r)). pab_strategy b \<noteq> pab_strategy a"
  shows "\<exists>v. save_abstain r a = (r\<lparr>repo_abstains := repo_abstains r @
      [(pab_id a, a\<lparr>pab_payload := with_run_id (paper_run_id r) (pab_payload a)\<rparr>)]\<rparr>, Inr v)"
proof -
  let ?row = "a\<lparr>pab_payload := with_run_id (paper_run_id r) (pab_payload a)\<rparr>"
  let ?q = "\<lparr>aq_reason = Some (pab_reason a), aq_strategy = Some (pab_strategy a), aq_asset = Some (pab_asset a),
    aq_horizon = Some (pab_horizon a), aq_limit = 1, aq_offset = 0\<rparr>"
  have "filter (abstain_matches ?q) (map snd (repo_abstains r) @ [?row]) = [?row]"
    using assms(3) by (auto simp: filter_empty_conv abstain_matches_def agrees_def)
  then have "filter (abstain_matches ?q) (sort_key (\<lambda>a. - pab_observed_at a) (map snd (repo_abstains r) @ [?row])) = [?row]"
    by (simp only: filter_sort) simp
  then have "abstains (r\<lparr>repo_abstains := repo_abstains r @ [(pab_id a, ?row)]\<rparr>) ?q = Inr [?row]"
    using assms(1)
    by (simp add: abstains_def optional_text_check_def abstain_checks_def checked_passes del: filter_append)
  then show ?thesis
    using assms(1,2) by (simp add: save_abstain_def passes_def row_insert_def Let_def)
qed

abbreviation quiet_id :: "strategy_kind \<Rightarrow> string \<Rightarrow> string" where
  "quiet_id strategy reason \<equiv> ''cycle'' @ '':'' @ strategy_value strategy @ '':'' @ ''BTC'' @ '':'' @ ''5m'' @ '':'' @ ''c1'' @ '':'' @ reason"

lemma quiet_state:
  "ce_cycle (quiet_env answers) = ''cycle''"
  "sms_bucket (base_state expired_state) = \<lparr>bkt_asset = BTC, bkt_horizon = FIVE_MINUTES\<rparr>"
  "state_condition (base_state expired_state) = ''c1''" "sms_observed_at (base_state expired_state) = seconds 300"
  by (simp_all add: quiet_env_def base_state_def expired_state_def market_state.defs state_condition_def desk_market_def)

lemma quiet_abstain:
  assumes "map_of (repo_abstains (dk_paper d)) (quiet_id strategy reason) = None"
    "\<forall>b\<in>set (map snd (repo_abstains (dk_paper d))). pab_strategy b \<noteq> strategy_value strategy"
    "require_text ''reason'' reason = None" "strategy \<noteq> DUAL40"
  shows "\<exists>r a. desk_abstain (quiet_env answers) d expired_state strategy reason kvs = (d\<lparr>dk_paper := r\<rparr>, Inr 1)
    \<and> repo_abstains r = repo_abstains (dk_paper d) @ [(quiet_id strategy reason, a)]
    \<and> pab_strategy a = strategy_value strategy"
proof -
  let ?a = "\<lparr>pab_id = quiet_id strategy reason, pab_strategy = strategy_value strategy,
     pab_asset = ''BTC'', pab_horizon = ''5m'', pab_condition_id = ''c1'', pab_reason = reason,
     pab_payload = payload_of (ce_render (quiet_env answers)) kvs, pab_observed_at = seconds 300\<rparr>"
  let ?row = "?a\<lparr>pab_payload := with_run_id (paper_run_id (dk_paper d)) (pab_payload ?a)\<rparr>"
  let ?r = "dk_paper d\<lparr>repo_abstains := repo_abstains (dk_paper d) @ [(quiet_id strategy reason, ?row)]\<rparr>"
  have "passes (abstain_checks ?a)"
    using assms(3,4) by (cases strategy) (auto simp: abstain_checks_def py_space_def)
  from save_abstain_fresh [OF this] assms(1,2) obtain v where "save_abstain (dk_paper d) ?a = (?r, Inr v)"
    by auto
  then have "desk_abstain (quiet_env answers) d expired_state strategy reason kvs = (d\<lparr>dk_paper := ?r\<rparr>, Inr 1)"
    unfolding desk_abstain_def record_abstain_def on_paper_def Let_def quiet_state market_bucket.simps
      asset_value.simps horizon_value.simps
    by (simp del: append.simps)
  then show ?thesis by (intro exI [of _ ?r] exI [of _ ?row]) simp
qed

lemma quiet_record:
  "\<exists>s. record_pipeline_state (quiet_env (\<lambda>_. Committed)) d expired_state = (d\<lparr>dk_shadow := s\<rparr>, Inr True)"
proof -
  have attempts: "write_attempts demo_shadow_config (\<lambda>_. Committed) 0 (nat 4) op db = (op db, Inr ())" for op db
    by (rule write_attempts_commit [where k = 0]) (simp_all add: demo_shadow_config_def)
  have "nat (sc_max_busy_retries demo_shadow_config + 1) = nat 4" by (simp add: demo_shadow_config_def)
  with attempts have "write_with_retry demo_shadow_config (\<lambda>_. Committed) op db = (op db, Inr ())" for op db
    unfolding write_with_retry_def by presburger
  moreover have "sc_read_only demo_shadow_config = False" by (simp add: demo_shadow_config_def)
  moreover have "ce_window (quiet_env answers) = ''window''" "ce_config (quiet_env answers) = demo_shadow_config"
    "ce_answers (quiet_env answers) i = answers" for answers i
    by (simp_all add: quiet_env_def)
  moreover have "sms_bucket expired_state = \<lparr>bkt_asset = BTC, bkt_horizon = FIVE_MINUTES\<rparr>"
    by (simp add: expired_state_def)
  ultimately show ?thesis
    by (simp add: record_pipeline_state_def append_shadow_event_def append_event_def guarded_write_def quiet_state
        require_text_def py_strip_def py_space_def bucket_text_def) blast
qed

lemma busy_storage_fails_closed_witness:
  "\<exists>d'. degraded_step quiet_desk d'
    \<and> d' = fst (evaluate_cycle (quiet_env (\<lambda>_. Operational ''SQLITE_BUSY'' ''database is locked'')) quiet_desk [expired_state])"
proof -
  let ?env = "quiet_env (\<lambda>_. Operational ''SQLITE_BUSY'' ''database is locked'')"
  have "is_sqlite_busy ''SQLITE_BUSY'' ''database is locked''" by code_simp
  then have busy: "storage_busy ?env" by (simp add: storage_busy_def quiet_env_def demo_shadow_config_def busy_answer_def)
  have ids: "require_text ''window_id'' (ce_window ?env) = None" "require_text ''cycle_id'' (ce_cycle ?env) = None"
    by (simp_all add: quiet_env_def require_text_def py_strip_def py_space_def)
  show ?thesis
    using busy_storage_fails_closed [OF busy ids prod.collapse [symmetric], of quiet_desk "[expired_state]"] by blast
qed

lemma quiet_cycle:
  "\<exists>d'. evaluate_cycle (quiet_env (\<lambda>_. Committed)) quiet_desk [expired_state]
    = (d', Inr (empty_cycle\<lparr>cyc_discovered := 1, cyc_abstains := 2\<rparr>))"
proof -
  let ?env = "quiet_env (\<lambda>_. Committed)"
  let ?info = "closed_window_info expired_state desk_market"
  obtain s where s: "record_pipeline_state ?env quiet_desk expired_state = (quiet_desk\<lparr>dk_shadow := s\<rparr>, Inr True)"
    using quiet_record by blast
  let ?d0 = "quiet_desk\<lparr>dk_shadow := s\<rparr>"
  have reason: "require_text ''reason'' ''MARKET_WINDOW_EXPIRED'' = None"
    by (simp add: require_text_def py_strip_def py_space_def)
  have "repo_abstains (dk_paper ?d0) = []" by (simp add: quiet_desk_def empty_repo_def)
  then obtain r a where first: "desk_abstain ?env ?d0 expired_state DIRECTIONAL_EDGE ''MARKET_WINDOW_EXPIRED'' ?info
      = (?d0\<lparr>dk_paper := r\<rparr>, Inr 1)" "repo_abstains r = [(quiet_id DIRECTIONAL_EDGE ''MARKET_WINDOW_EXPIRED'', a)]"
    "pab_strategy a = ''DIRECTIONAL_EDGE''"
    using quiet_abstain [of ?d0 DIRECTIONAL_EDGE "''MARKET_WINDOW_EXPIRED''" "\<lambda>_. Committed" ?info] reason by auto
  then obtain r' where second: "desk_abstain ?env (?d0\<lparr>dk_paper := r\<rparr>) expired_state STRUCTURAL_ARBITRAGE
      ''MARKET_WINDOW_EXPIRED'' ?info = (?d0\<lparr>dk_paper := r'\<rparr>, Inr 1)"
    using quiet_abstain [of "?d0\<lparr>dk_paper := r\<rparr>" STRUCTURAL_ARBITRAGE "''MARKET_WINDOW_EXPIRED''" "\<lambda>_. Committed" ?info]
      reason by auto
  have state: "sst_unavailable expired_state = Some ''MARKET_WINDOW_EXPIRED''"
    "sms_discovery expired_state = Some (sample_discovery\<lparr>md_market := desk_market\<rparr>)"
    "observed_market expired_state empty_cycle = empty_cycle\<lparr>cyc_discovered := 1\<rparr>"
    by (simp_all add: expired_state_def observed_market_def empty_cycle_def)
  have cycle: "evaluate_cycle ?env quiet_desk [expired_state]
      = (?d0\<lparr>dk_paper := r'\<rparr>, Inr (counted 0 2 0 (empty_cycle\<lparr>cyc_discovered := 1\<rparr>)))"
    unfolding evaluate_cycle_def evaluate_states.simps evaluate_state_def Let_def s
    by (simp add: and_then_def state evaluate_discovered_def first(1) second numeral_2_eq_2)
  show ?thesis unfolding cycle by (intro exI) (simp add: counted_def empty_cycle_def)
qed

lemma cycle_accounts_for_every_decision_witness:
  "let c = empty_cycle\<lparr>cyc_discovered := 1, cyc_abstains := 2\<rparr> in
    (\<exists>d'. evaluate_cycle (quiet_env (\<lambda>_. Committed)) quiet_desk [expired_state] = (d', Inr c))
    \<and> cyc_abstains c + cyc_trades c = length [expired_state] + cyc_discovered c"
proof -
  obtain d' where d': "evaluate_cycle (quiet_env (\<lambda>_. Committed)) quiet_desk [expired_state]
      = (d', Inr (empty_cycle\<lparr>cyc_discovered := 1, cyc_abstains := 2\<rparr>))"
    using quiet_cycle by blast
  show ?thesis using cycle_accounts_for_every_decision [OF d'] d' unfolding Let_def by blast
qed

end
