(* ===== verification/Streams.thy ===== *)
theory Streams
  imports MarketData_Contracts "HOL-Library.Sublist"
begin

text \<open>
  The stream-handling part of \<open>market_data/\<close>: sequence continuity (\<open>sequence.py\<close>), the bounded
  event buffer (\<open>buffer.py\<close>), source health and freshness (\<open>freshness.py\<close>) and the bounded
  reconnect delay (\<open>retry.py\<close>). An operation that mutates its object and may raise returns the
  new state together with the result, because the state change survives the exception.
\<close>

section \<open>Sequence continuity\<close>

record sequence_tracker =
  seq_last :: "int option"
  seq_resync :: bool

definition initial_tracker :: sequence_tracker where
  "initial_tracker = \<lparr>seq_last = None, seq_resync = True\<rparr>"

definition require_update_id :: "int \<Rightarrow> check" where
  "require_update_id v = fail_if (v < 0) (ValueErr ''update ID must be non-negative'')"

definition restore_snapshot :: "sequence_tracker \<Rightarrow> int \<Rightarrow> sequence_tracker \<times> unit result" where
  "restore_snapshot t u = (case require_update_id u of
       Some e \<Rightarrow> (t, Inl e)
     | None \<Rightarrow> (t\<lparr>seq_last := Some u, seq_resync := False\<rparr>, Inr ()))"

definition seq_apply :: "sequence_tracker \<Rightarrow> int \<Rightarrow> int \<Rightarrow> sequence_tracker \<times> bool result" where
  "seq_apply t first final =
     (case first_error [require_update_id first, require_update_id final,
             fail_if (final < first) (ValueErr ''final_update_id cannot precede first_update_id'')] of
        Some e \<Rightarrow> (t, Inl e)
      | None \<Rightarrow>
         (if seq_resync t then
            (t, Inl (SequenceGapError ''snapshot restoration required before applying deltas''))
          else (case seq_last t of
              None \<Rightarrow>
                (t, Inl (SequenceGapError ''snapshot restoration required before applying deltas''))
            | Some last_id \<Rightarrow> (let expected = last_id + 1 in
                if final < expected then (t, Inr False)
                else if expected < first then
                  (t\<lparr>seq_resync := True\<rparr>, Inl (SequenceGapError ''sequence gap''))
                else (t\<lparr>seq_last := Some final\<rparr>, Inr True)))))"

datatype seq_event = Snapshot int | Delta int int

text \<open>
  A consumer feeds the events of its stream to the tracker and keeps those it accepted: the acc of
  accepted ranges, restarted by every snapshot.
\<close>

fun seq_step :: "sequence_tracker \<times> (int \<times> int) list \<Rightarrow> seq_event \<Rightarrow>
    sequence_tracker \<times> (int \<times> int) list" where
  "seq_step (t, acc) (Snapshot u) = (case restore_snapshot t u of
     (t', Inr _) \<Rightarrow> (t', []) | (t', Inl _) \<Rightarrow> (t', acc))"
| "seq_step (t, acc) (Delta a b) = (case seq_apply t a b of
     (t', Inr True) \<Rightarrow> (t', acc @ [(a, b)]) | (t', _) \<Rightarrow> (t', acc))"

definition seq_run :: "seq_event list \<Rightarrow> sequence_tracker \<times> (int \<times> int) list" where
  "seq_run es = foldl seq_step (initial_tracker, []) es"

text \<open>The ranges \<open>acc\<close> bring a book at \<open>u\<close> to \<open>v\<close> without skipping an update.\<close>

fun contiguous :: "int \<Rightarrow> (int \<times> int) list \<Rightarrow> int \<Rightarrow> bool" where
  "contiguous u [] v \<longleftrightarrow> u = v"
| "contiguous u ((a, b) # acc) v \<longleftrightarrow> a \<le> u + 1 \<and> u < b \<and> a \<le> b \<and> contiguous b acc v"

lemma contiguous_snoc:
  "contiguous u (acc @ [(a, b)]) v \<longleftrightarrow>
     (\<exists>w. contiguous u acc w \<and> a \<le> w + 1 \<and> w < b \<and> a \<le> b \<and> v = b)"
  by (induction u acc v rule: contiguous.induct) auto

lemma contiguous_le: "contiguous u acc v \<Longrightarrow> u \<le> v"
  by (induction u acc v rule: contiguous.induct) auto

lemma contiguous_end: "contiguous u acc v \<Longrightarrow> v = (if acc = [] then u else snd (last acc))"
  by (induction u acc v rule: contiguous.induct) (auto split: if_splits)

lemma contiguous_covers:
  "contiguous u acc v \<Longrightarrow> u < i \<Longrightarrow> i \<le> v \<Longrightarrow> \<exists>(a, b)\<in>set acc. a \<le> i \<and> i \<le> b"
proof (induction u acc v rule: contiguous.induct)
  case (2 u a b acc v)
  then show ?case by (cases "i \<le> b") auto
qed simp

text \<open>
  What the events themselves say: the snapshots that can be restored, and the deltas that arrived since
  the last of them.
\<close>

definition snapshot_ids :: "seq_event list \<Rightarrow> int list" where
  "snapshot_ids es = concat (map (\<lambda>e. case e of Snapshot u \<Rightarrow> if 0 \<le> u then [u] else [] | Delta a b \<Rightarrow> []) es)"

definition deltas_since :: "seq_event list \<Rightarrow> (int \<times> int) list" where
  "deltas_since es = foldl (\<lambda>ds e. case e of Snapshot u \<Rightarrow> if 0 \<le> u then [] else ds | Delta a b \<Rightarrow> ds @ [(a, b)]) [] es"

lemma events_snoc [simp]:
  "snapshot_ids (es @ [Snapshot u]) = snapshot_ids es @ (if 0 \<le> u then [u] else [])"
  "snapshot_ids (es @ [Delta a b]) = snapshot_ids es"
  "deltas_since (es @ [Snapshot u]) = (if 0 \<le> u then [] else deltas_since es)"
  "deltas_since (es @ [Delta a b]) = deltas_since es @ [(a, b)]"
  by (simp_all add: snapshot_ids_def deltas_since_def)

definition seq_inv :: "seq_event list \<Rightarrow> sequence_tracker \<times> (int \<times> int) list \<Rightarrow> bool" where
  "seq_inv es s \<longleftrightarrow> (let (t, acc) = s in subseq acc (deltas_since es) \<and>
     (if snapshot_ids es = [] then t = initial_tracker \<and> acc = []
      else \<exists>v. seq_last t = Some v \<and> 0 \<le> last (snapshot_ids es) \<and> contiguous (last (snapshot_ids es)) acc v
        \<and> (seq_resync t \<or> list_all (\<lambda>(a, b). b \<le> v \<or> a < 0 \<or> b < a) (deltas_since es))))"

lemma seq_step_inv: "seq_inv es s \<Longrightarrow> seq_inv (es @ [e]) (seq_step s e)"
proof (cases e)
  case (Snapshot u)
  obtain t acc where s: "s = (t, acc)" by (cases s)
  moreover assume "seq_inv es s"
  ultimately show ?thesis
    by (auto simp: Snapshot seq_inv_def restore_snapshot_def require_update_id_def fail_if_def)
next
  case (Delta a b)
  obtain t acc where s: "s = (t, acc)" by (cases s)
  assume inv: "seq_inv es s"
  then have sub: "subseq acc (deltas_since es @ [(a, b)])" "subseq (acc @ [(a, b)]) (deltas_since es @ [(a, b)])"
    by (auto simp: s seq_inv_def intro: subseq_rev_drop_many list_emb_append_mono)
  show ?thesis
  proof (cases "seq_apply t a b = (t\<lparr>seq_last := Some b\<rparr>, Inr True)")
    case True
    then obtain w where w: "seq_last t = Some w" "a \<le> w + 1" "w < b" "a \<le> b" "0 \<le> b"
      by (auto simp: seq_apply_def Let_def require_update_id_def fail_if_def split: option.splits if_splits)
    then have some: "snapshot_ids es \<noteq> []" using inv by (auto simp: s seq_inv_def initial_tracker_def)
    let ?u = "last (snapshot_ids es)"
    have "0 \<le> ?u" "contiguous ?u acc w" using inv some w by (auto simp: s seq_inv_def)
    then have "contiguous ?u (acc @ [(a, b)]) b" using w by (auto simp: contiguous_snoc)
    moreover have "seq_resync t \<or> list_all (\<lambda>(a, b). b \<le> w \<or> a < 0 \<or> b < a) (deltas_since es)"
      using inv some w by (auto simp: s seq_inv_def)
    then have "seq_resync t \<or> list_all (\<lambda>(x, y). y \<le> b \<or> x < 0 \<or> y < x) (deltas_since es @ [(a, b)])"
      using w(3) by (fastforce simp: list_all_iff)
    ultimately show ?thesis using True w some \<open>0 \<le> ?u\<close> sub by (simp add: s Delta seq_inv_def)
  next
    case False
    then have "\<exists>r. seq_apply t a b = (t, r) \<and> r \<noteq> Inr True
          \<and> (\<forall>w. seq_last t = Some w \<longrightarrow> seq_resync t \<or> b \<le> w \<or> a < 0 \<or> b < a) \<or>
        seq_apply t a b = (t\<lparr>seq_resync := True\<rparr>, r) \<and> r \<noteq> Inr True \<and> t \<noteq> initial_tracker"
      by (auto simp: seq_apply_def Let_def initial_tracker_def require_update_id_def fail_if_def split: option.splits if_splits)
    with inv sub(1) show ?thesis
      by (auto simp: s Delta seq_inv_def split: sum.splits bool.splits)
  qed
qed

lemma seq_run_inv: "seq_inv es (seq_run es)"
proof (induction es rule: rev_induct)
  case Nil
  then show ?case by (simp add: seq_run_def seq_inv_def snapshot_ids_def deltas_since_def)
next
  case (snoc e es)
  then show ?case using seq_step_inv by (simp add: seq_run_def)
qed

lemma seq_apply_resync:
  "seq_resync t \<Longrightarrow> seq_apply t a b = (t, r) \<Longrightarrow> \<exists>e. r = Inl e"
  by (auto simp: seq_apply_def split: option.splits)

lemma seq_apply_resync_state: "seq_resync t \<Longrightarrow> fst (seq_apply t a b) = t"
  by (auto simp: seq_apply_def split: option.splits)

text \<open>Once a gap is seen, no delta is accepted and none changes the tracker.\<close>

lemma seq_deltas_resync:
  assumes "seq_resync t"
  shows "foldl seq_step (t, acc) (map (\<lambda>(a, b). Delta a b) ds) = (t, acc)"
proof (induction ds)
  case (Cons d ds)
  obtain a b where d: "d = (a, b)" by (cases d)
  have "seq_step (t, acc) (Delta a b) = (t, acc)"
    using seq_apply_resync_state [OF assms, of a b] seq_apply_resync [OF assms, of a b]
    by (cases "seq_apply t a b") (auto split: sum.splits bool.splits)
  with Cons.IH show ?case by (simp add: d)
qed simp

text \<open>
  C8: After any sequence of snapshots and deltas, whatever the order in which they arrive: without a
  snapshot nothing was accepted; otherwise the accepted ranges are deltas that arrived after the last
  snapshot, in their order, and together they cover every update id between that snapshot and the
  tracker's current position: an accepted stream never has a hole. Nor is anything lost silently: unless
  the tracker asks for a resynchronisation, every well-formed delta since that snapshot is within its
  position.
\<close>

theorem accepted_stream_has_no_hole:
  "case seq_run es of (t, acc) \<Rightarrow>
     if snapshot_ids es = [] then seq_last t = None \<and> acc = []
     else let u = last (snapshot_ids es) in \<exists>v. seq_last t = Some v \<and> u \<le> v \<and> subseq acc (deltas_since es)
       \<and> v = (if acc = [] then u else snd (last acc))
       \<and> (seq_resync t \<or> list_all (\<lambda>(a, b). b \<le> v \<or> a < 0 \<or> b < a) (deltas_since es))
       \<and> list_all (\<lambda>i. list_ex (\<lambda>(a, b). a \<le> i \<and> i \<le> b) acc) [u + 1..v]"
proof -
  obtain t acc where run: "seq_run es = (t, acc)" by (cases "seq_run es")
  have inv: "seq_inv es (t, acc)" using seq_run_inv [of es] by (simp add: run)
  show ?thesis
  proof (cases "snapshot_ids es = []")
    case True
    then show ?thesis using inv by (simp add: run seq_inv_def initial_tracker_def)
  next
    case False
    let ?u = "last (snapshot_ids es)"
    obtain v where v: "seq_last t = Some v" "contiguous ?u acc v" "subseq acc (deltas_since es)"
      "seq_resync t \<or> list_all (\<lambda>(a, b). b \<le> v \<or> a < 0 \<or> b < a) (deltas_since es)"
      using inv False by (auto simp: seq_inv_def)
    have "list_all (\<lambda>i. list_ex (\<lambda>(a, b). a \<le> i \<and> i \<le> b) acc) [?u + 1..v]"
      using contiguous_covers [OF v(2)] by (fastforce simp: list_all_iff list_ex_iff)
    then show ?thesis
      using False v contiguous_le [OF v(2)] contiguous_end [OF v(2)] by (simp add: run Let_def)
  qed
qed

theorem accepted_stream_has_no_hole_witness:
  "\<exists>t. seq_run [Snapshot 5, Delta 4 7, Delta 6 7, Delta 8 9, Delta 12 13] = (t, [(4, 7), (8, 9)])
     \<and> seq_last t = Some 9 \<and> seq_resync t \<and> list_all (\<lambda>i. list_ex (\<lambda>(a, b). a \<le> i \<and> i \<le> b) [(4, 7), (8, 9)]) [6..9]"
  using accepted_stream_has_no_hole [of "[Snapshot 5, Delta 4 7, Delta 6 7, Delta 8 9, Delta 12 13]"]
  by (simp add: seq_run_def seq_apply_def restore_snapshot_def require_update_id_def fail_if_def snapshot_ids_def)

text \<open>
  A gap is fail-closed: the delta that skips an expected update raises, and afterwards every
  delta is refused without changing the tracker until a snapshot is restored.
\<close>

theorem gap_refuses_until_snapshot:
  assumes "seq_last t = Some v" "\<not> seq_resync t" "0 \<le> v" "v + 1 < a" "a \<le> b"
  shows "\<exists>t'. seq_apply t a b = (t', Inl (SequenceGapError ''sequence gap'')) \<and> seq_resync t'
     \<and> foldl seq_step (t', acc) (map (\<lambda>(x, y). Delta x y) ds) = (t', acc)"
proof -
  have "seq_apply t a b = (t\<lparr>seq_resync := True\<rparr>, Inl (SequenceGapError ''sequence gap''))"
    using assms by (simp add: seq_apply_def require_update_id_def)
  then show ?thesis using seq_deltas_resync [of "t\<lparr>seq_resync := True\<rparr>" acc ds] by simp
qed

theorem gap_refuses_until_snapshot_witness:
  "\<exists>t'. seq_apply \<lparr>seq_last = Some 10, seq_resync = False\<rparr> 13 15
      = (t', Inl (SequenceGapError ''sequence gap'')) \<and> seq_resync t'
     \<and> foldl seq_step (t', [(9, 10)]) (map (\<lambda>(x, y). Delta x y) [(16, 17), (11, 12)])
       = (t', [(9, 10)])"
  using gap_refuses_until_snapshot
    [of "\<lparr>seq_last = Some 10, seq_resync = False\<rparr>" 10 13 15 "[(9, 10)]" "[(16, 17), (11, 12)]"]
  by simp

section \<open>The bounded event buffer\<close>

text \<open>
  \<open>EventBuffer\<close> over an \<open>asyncio.Queue\<close> of the same capacity. \<open>get\<close> on an empty queue suspends
  the caller, so the operation has no result there (\<open>None\<close>).
\<close>

datatype overflow_policy = FAIL_CLOSED | LATEST_ONLY

record 'a event_buffer =
  buf_capacity :: nat
  buf_policy :: overflow_policy
  buf_dropped :: nat
  buf_queue :: "'a list"

definition mk_event_buffer :: "nat \<Rightarrow> overflow_policy \<Rightarrow> 'a event_buffer result" where
  "mk_event_buffer capacity policy =
     checked [fail_if (capacity < 1) (ValueErr ''capacity must be positive'')]
       (Inr \<lparr>buf_capacity = capacity, buf_policy = policy, buf_dropped = 0, buf_queue = []\<rparr>)"

definition put_nowait :: "'a event_buffer \<Rightarrow> 'a \<Rightarrow> 'a event_buffer \<times> unit result" where
  "put_nowait b x =
     (if length (buf_queue b) < buf_capacity b then (b\<lparr>buf_queue := buf_queue b @ [x]\<rparr>, Inr ())
      else if buf_policy b = FAIL_CLOSED then
        (b, Inl (BufferOverflowError ''bounded event buffer overflowed''))
      else (b\<lparr>buf_dropped := buf_dropped b + 1, buf_queue := tl (buf_queue b) @ [x]\<rparr>, Inr ()))"

definition buffer_get :: "'a event_buffer \<Rightarrow> ('a \<times> 'a event_buffer) option" where
  "buffer_get b = (case buf_queue b of [] \<Rightarrow> None | x # xs \<Rightarrow> Some (x, b\<lparr>buf_queue := xs\<rparr>))"

definition buffer_size :: "'a event_buffer \<Rightarrow> nat" where
  "buffer_size b = length (buf_queue b)"

definition valid_buffer :: "'a event_buffer \<Rightarrow> bool" where
  "valid_buffer b \<longleftrightarrow> 0 < buf_capacity b \<and> length (buf_queue b) \<le> buf_capacity b"

text \<open>
  What a consumer may rely on: an accepted item is appended, a refused one changes nothing, and
  whatever leaves the buffer leaves it from the front, delivered or counted as dropped.
\<close>

locale bounded_queue =
  fixes put :: "'s \<Rightarrow> 'a \<Rightarrow> 's \<times> unit result"
    and get :: "'s \<Rightarrow> ('a \<times> 's) option"
    and contents :: "'s \<Rightarrow> 'a list"
    and dropped :: "'s \<Rightarrow> nat"
    and inv :: "'s \<Rightarrow> bool"
  assumes put_inv: "inv s \<Longrightarrow> inv (fst (put s x))"
    and put_ok: "inv s \<Longrightarrow> put s x = (s', Inr u) \<Longrightarrow>
      \<exists>n. n \<le> length (contents s) \<and> contents s' = drop n (contents s) @ [x]
        \<and> dropped s' = dropped s + n"
    and put_refused: "inv s \<Longrightarrow> put s x = (s', Inl e) \<Longrightarrow> s' = s"
    and get_inv: "inv s \<Longrightarrow> get s = Some (x, s') \<Longrightarrow> inv s'"
    and get_front: "inv s \<Longrightarrow> get s = Some (x, s') \<Longrightarrow>
      contents s = x # contents s' \<and> dropped s' = dropped s"
begin

text \<open>One step of a producer (\<open>Some x\<close>) or of the consumer (\<open>None\<close>), with the logs of both.\<close>

definition queue_step :: "'s \<times> 'a list \<times> 'a list \<Rightarrow> 'a option \<Rightarrow> 's \<times> 'a list \<times> 'a list" where
  "queue_step st ev = (case st of (s, ins, outs) \<Rightarrow> (case ev of
       Some x \<Rightarrow> (case put s x of (s', Inr _) \<Rightarrow> (s', ins @ [x], outs) | (s', Inl _) \<Rightarrow> (s', ins, outs))
     | None \<Rightarrow> (case get s of None \<Rightarrow> (s, ins, outs) | Some (x, s') \<Rightarrow> (s', ins, outs @ [x]))))"

definition queue_run :: "'s \<Rightarrow> 'a option list \<Rightarrow> 's \<times> 'a list \<times> 'a list" where
  "queue_run s evs = foldl queue_step (s, [], []) evs"

definition accounted :: "nat \<Rightarrow> 's \<times> 'a list \<times> 'a list \<Rightarrow> bool" where
  "accounted d0 st \<longleftrightarrow> (case st of (s, ins, outs) \<Rightarrow>
     inv s \<and> suffix (contents s) ins
     \<and> subseq (outs @ contents s) ins
     \<and> length ins + d0 = length outs + length (contents s) + dropped s)"

lemma queue_step_accounted: "accounted d0 st \<Longrightarrow> accounted d0 (queue_step st ev)"
proof -
  assume acc: "accounted d0 st"
  obtain s ins outs where st: "st = (s, ins, outs)" by (cases st) auto
  from acc have inv: "inv s" and sub: "subseq (outs @ contents s) ins"
    and suf: "suffix (contents s) ins"
    and len: "length ins + d0 = length outs + length (contents s) + dropped s"
    by (auto simp: st accounted_def)
  show ?thesis
  proof (cases ev)
    case None
    show ?thesis
    proof (cases "get s")
      case (Some xs)
      obtain x s' where xs: "xs = (x, s')" by (cases xs)
      then have "contents s = x # contents s'" "dropped s' = dropped s" "inv s'"
        using Some get_front [OF inv] get_inv [OF inv] by auto
      then show ?thesis
        using sub suf len Some None xs
        by (auto simp: st queue_step_def accounted_def dest: suffix_ConsD)
    qed (use acc None in \<open>simp add: st queue_step_def\<close>)
  next
    case (Some x)
    obtain s' r where put: "put s x = (s', r)" by (cases "put s x") auto
    show ?thesis
    proof (cases r)
      case (Inl e)
      then show ?thesis
        using acc put put_refused [OF inv, of x s' e] by (simp add: st Some queue_step_def)
    next
      case (Inr u)
      with put_ok [OF inv, of x s' u] put obtain n where n: "n \<le> length (contents s)"
        "contents s' = drop n (contents s) @ [x]" "dropped s' = dropped s + n" by auto
      have "subseq (outs @ drop n (contents s)) (outs @ contents s)"
        by (intro list_emb_append_mono) (simp_all add: suffix_drop suffix_imp_subseq)
      then have "subseq (outs @ drop n (contents s)) ins" using sub by (rule subseq_order.trans)
      then have "subseq ((outs @ drop n (contents s)) @ [x]) (ins @ [x])"
        by (intro list_emb_append_mono) simp_all
      moreover have "suffix (drop n (contents s) @ [x]) (ins @ [x])"
        using suf suffix_order.trans [OF suffix_drop suf] by simp
      ultimately show ?thesis
        using put Inr n len put_inv [OF inv, of x]
        by (simp add: st Some queue_step_def accounted_def)
    qed
  qed
qed

lemma queue_run_accounted: "inv s \<Longrightarrow> contents s = [] \<Longrightarrow> accounted (dropped s) (queue_run s evs)"
proof (induction evs rule: rev_induct)
  case Nil
  then show ?case by (simp add: queue_run_def accounted_def)
next
  case (snoc ev evs)
  then show ?case using queue_step_accounted by (simp add: queue_run_def)
qed

end

lemma put_nowait_refused: "put_nowait b x = (b', Inl e) \<Longrightarrow> b' = b \<and> buf_policy b = FAIL_CLOSED"
  by (auto simp: put_nowait_def split: if_splits)

lemma put_nowait_ok: "valid_buffer b \<Longrightarrow> put_nowait b x = (b', Inr u) \<Longrightarrow>
   \<exists>n. n \<le> length (buf_queue b) \<and> buf_queue b' = drop n (buf_queue b) @ [x]
     \<and> buf_dropped b' = buf_dropped b + n \<and> (buf_policy b = FAIL_CLOSED \<longrightarrow> n = 0)"
proof -
  assume v: "valid_buffer b" and p: "put_nowait b x = (b', Inr u)"
  show ?thesis
  proof (cases "length (buf_queue b) < buf_capacity b")
    case True
    with p show ?thesis by (intro exI [of _ 0]) (auto simp: put_nowait_def)
  next
    case False
    with v have "buf_queue b \<noteq> []" by (auto simp: valid_buffer_def)
    with False p show ?thesis
      by (intro exI [of _ 1]) (auto simp: put_nowait_def drop_Suc Suc_le_eq split: if_splits)
  qed
qed

lemma put_nowait_valid: "valid_buffer b \<Longrightarrow> valid_buffer (fst (put_nowait b x))"
  by (auto simp: valid_buffer_def put_nowait_def)

interpretation eb: bounded_queue put_nowait buffer_get buf_queue buf_dropped valid_buffer
proof unfold_locales
  fix s s' :: "'a event_buffer" and x u
  assume "valid_buffer s" "put_nowait s x = (s', Inr u)"
  then show "\<exists>n. n \<le> length (buf_queue s) \<and> buf_queue s' = drop n (buf_queue s) @ [x]
      \<and> buf_dropped s' = buf_dropped s + n"
    using put_nowait_ok [of s x s' u] by auto
next
  fix s s' :: "'a event_buffer" and x e
  assume "put_nowait s x = (s', Inl e)"
  then show "s' = s" using put_nowait_refused [of s x s' e] by simp
next
  fix s :: "'a event_buffer" and x
  assume "valid_buffer s"
  then show "valid_buffer (fst (put_nowait s x))" by (rule put_nowait_valid)
next
  fix s s' :: "'a event_buffer" and x
  assume "valid_buffer s" "buffer_get s = Some (x, s')"
  then show "valid_buffer s'" "buf_queue s = x # buf_queue s' \<and> buf_dropped s' = buf_dropped s"
    by (cases "buf_queue s"; force simp: valid_buffer_def buffer_get_def)+
qed

text \<open>The same run on the event buffer: puts and gets in any interleaving, with both logs.\<close>

definition buffer_step :: "'a event_buffer \<times> 'a list \<times> 'a list \<Rightarrow> 'a option \<Rightarrow>
    'a event_buffer \<times> 'a list \<times> 'a list" where
  "buffer_step = eb.queue_step"

definition buffer_run :: "'a event_buffer \<Rightarrow> 'a option list \<Rightarrow>
    'a event_buffer \<times> 'a list \<times> 'a list" where
  "buffer_run = eb.queue_run"

text \<open>
  Under any interleaving of producers and the consumer, what the consumer received followed by
  what is still queued is a subsequence of the accepted items (so nothing is reordered, duplicated
  or invented), the queue holds the most recent of them, its size respects the capacity, and the
  dropped counter accounts for exactly the items that were lost.
\<close>

theorem event_buffer_accounting:
  assumes "mk_event_buffer n pol = Inr b" "buffer_run b evs = (b', ins, outs)"
  shows "subseq (outs @ buf_queue b') ins \<and> suffix (buf_queue b') ins
     \<and> length (buf_queue b') \<le> buf_capacity b'
     \<and> length ins = length outs + buffer_size b' + buf_dropped b'"
proof -
  from assms(1) have "valid_buffer b" "buf_queue b = []" "buf_dropped b = 0"
    by (auto simp: mk_event_buffer_def contract_simps valid_buffer_def)
  then have "eb.accounted 0 (b', ins, outs)"
    using eb.queue_run_accounted [of b evs] assms(2) by (simp add: buffer_run_def)
  then show ?thesis by (simp add: eb.accounted_def valid_buffer_def buffer_size_def)
qed

theorem event_buffer_accounting_witness:
  "case buffer_run \<lparr>buf_capacity = 2, buf_policy = LATEST_ONLY, buf_dropped = 0, buf_queue = []\<rparr>
      [Some (1 :: nat), Some 2, Some 3, None, Some 4] of (b', ins, outs) \<Rightarrow>
    outs = [2] \<and> buf_queue b' = [3, 4] \<and> length ins = length outs + buffer_size b' + buf_dropped b'"
proof -
  let ?b = "\<lparr>buf_capacity = 2, buf_policy = LATEST_ONLY, buf_dropped = 0, buf_queue = []\<rparr>"
  have "buffer_run ?b [Some (1 :: nat), Some 2, Some 3, None, Some 4]
    = (\<lparr>buf_capacity = 2, buf_policy = LATEST_ONLY, buf_dropped = 1, buf_queue = [3, 4]\<rparr>,
       [1, 2, 3, 4], [2])"
    by (simp add: buffer_run_def eb.queue_run_def eb.queue_step_def put_nowait_def buffer_get_def)
  moreover have "mk_event_buffer 2 LATEST_ONLY = Inr ?b" by (simp add: mk_event_buffer_def)
  ultimately show ?thesis using event_buffer_accounting [of 2 LATEST_ONLY ?b] by (simp add: buffer_size_def)
qed

text \<open>\<open>FAIL_CLOSED\<close> is lossless: a put that does not raise drops nothing.\<close>

lemma fail_closed_lossless:
  "valid_buffer b \<Longrightarrow> buf_policy b = FAIL_CLOSED \<Longrightarrow> put_nowait b x = (b', Inr u) \<Longrightarrow>
   buf_queue b' = buf_queue b @ [x] \<and> buf_dropped b' = buf_dropped b"
  using put_nowait_ok [of b x b' u] by auto

section \<open>Source health\<close>

datatype connection_state = DISCONNECTED | CONNECTED | SUBSCRIBED

record freshness_policy =
  fp_max_source_age :: timedelta
  fp_max_transport_silence :: timedelta

definition freshness_policy_checks :: "freshness_policy \<Rightarrow> check list" where
  "freshness_policy_checks p =
     [fail_if (fp_max_source_age p \<le> 0) (ValueErr ''max_source_age must be positive''),
      fail_if (fp_max_transport_silence p \<le> 0) (ValueErr ''max_transport_silence must be positive'')]"

record source_health =
  sh_source :: string
  sh_state :: connection_state
  sh_observed_at :: utc
  sh_last_transport :: "utc option"
  sh_last_event :: "utc option"
  sh_resync_required :: bool

definition source_health_checks :: "source_health \<Rightarrow> check list" where
  "source_health_checks h = [require_text ''source'' (sh_source h)]"

definition require_fresh :: "source_health \<Rightarrow> freshness_policy \<Rightarrow> unit result" where
  "require_fresh h p = (let stale = (\<lambda>m. Inl (MarketDataStaleError (sh_source h @ m))) in
     if sh_state h \<noteq> SUBSCRIBED then stale '': source is not subscribed''
     else if sh_resync_required h then stale '': snapshot resynchronization required''
     else (case (sh_last_transport h, sh_last_event h) of
         (Some transport, Some event) \<Rightarrow>
           (let transport_age = sh_observed_at h - transport;
                source_age = sh_observed_at h - event
            in if transport_age < 0 \<or> source_age < 0 then stale '': future timestamp is unverifiable''
               else if fp_max_transport_silence p < transport_age then stale '': transport is stale''
               else if fp_max_source_age p < source_age then stale '': source event is stale''
               else Inr ())
       | _ \<Rightarrow> stale '': freshness timestamps are missing''))"

lemma require_fresh_iff:
  "require_fresh h p = Inr () \<longleftrightarrow> sh_state h = SUBSCRIBED \<and> \<not> sh_resync_required h \<and>
     (\<exists>t e. sh_last_transport h = Some t \<and> sh_last_event h = Some e \<and>
        t \<le> sh_observed_at h \<and> sh_observed_at h \<le> t + fp_max_transport_silence p \<and>
        e \<le> sh_observed_at h \<and> sh_observed_at h \<le> e + fp_max_source_age p)"
  by (auto simp: require_fresh_def Let_def split: option.splits)

text \<open>
  Freshness is fail-closed over time: with the evidence of a source unchanged, the instants
  at which it counts as fresh form one interval, which no later observation can re-enter; once the
  source is stale it stays stale until new evidence arrives.
\<close>

theorem staleness_persists:
  assumes "require_fresh h p = Inr ()"
    and "sh_observed_at h \<le> t" "t \<le> t'"
    and "require_fresh (h\<lparr>sh_observed_at := t\<rparr>) p \<noteq> Inr ()"
  shows "\<exists>m. require_fresh (h\<lparr>sh_observed_at := t'\<rparr>) p = Inl (MarketDataStaleError m)"
proof -
  from assms(1) obtain a e where ae: "sh_last_transport h = Some a" "sh_last_event h = Some e"
    "a \<le> sh_observed_at h" "e \<le> sh_observed_at h" "sh_state h = SUBSCRIBED" "\<not> sh_resync_required h"
    by (auto simp: require_fresh_iff)
  with assms(2,4) have "a + fp_max_transport_silence p < t \<or> e + fp_max_source_age p < t"
    by (auto simp: require_fresh_iff)
  with ae assms(2,3) show ?thesis by (auto simp: require_fresh_def Let_def)
qed

definition sample_health :: "utc \<Rightarrow> source_health" where
  "sample_health t = \<lparr>sh_source = ''binance'', sh_state = SUBSCRIBED, sh_observed_at = t,
     sh_last_transport = Some 1000, sh_last_event = Some 900, sh_resync_required = False\<rparr>"

theorem staleness_persists_witness:
  "\<exists>m. require_fresh (sample_health 9000) \<lparr>fp_max_source_age = 500, fp_max_transport_silence = 600\<rparr>
     = Inl (MarketDataStaleError m)"
  using staleness_persists [of "sample_health 1200"
      "\<lparr>fp_max_source_age = 500, fp_max_transport_silence = 600\<rparr>" 1500 9000]
  by (simp add: require_fresh_iff sample_health_def)

section \<open>Bounded reconnect delay\<close>

text \<open>
  \<open>RetryPolicy.delay\<close> in binary64: every operator rounds. The jitter factor is
  \<open>rng.uniform(-1, 1)\<close>, an argument of the model. \<open>2 ** (attempt - 1)\<close> is an exact integer.
\<close>

record retry_policy =
  rp_max_attempts :: int
  rp_initial_delay :: rat
  rp_maximum_delay :: rat
  rp_jitter_ratio :: rat

definition retry_policy_checks :: "retry_policy \<Rightarrow> check list" where
  "retry_policy_checks p =
     [fail_if (rp_max_attempts p < 1) (ValueErr ''max_attempts must be positive''),
      fail_if (rp_initial_delay p \<le> 0) (ValueErr ''initial_delay_seconds must be positive''),
      fail_if (rp_maximum_delay p < rp_initial_delay p)
        (ValueErr ''maximum_delay_seconds must not be less than initial delay''),
      fail_if (\<not> (0 \<le> rp_jitter_ratio p \<and> rp_jitter_ratio p \<le> 1))
        (ValueErr ''jitter_ratio must be between 0 and 1'')]"

definition valid_retry_policy :: "retry_policy \<Rightarrow> bool" where
  "valid_retry_policy p \<longleftrightarrow> passes (retry_policy_checks p)"

definition retry_base :: "retry_policy \<Rightarrow> int \<Rightarrow> rat" where
  "retry_base p attempt =
     min (rp_maximum_delay p) (fl (rp_initial_delay p * 2 ^ nat (attempt - 1)))"

definition retry_delay :: "retry_policy \<Rightarrow> int \<Rightarrow> rat \<Rightarrow> rat result" where
  "retry_delay p attempt u =
     (if attempt < 1 \<or> rp_max_attempts p \<le> attempt then
        Inl (ValueErr ''attempt must identify a retry before max_attempts'')
      else (let base = retry_base p attempt;
                jitter = fl (fl (base * rp_jitter_ratio p) * u)
            in Inr (max 0 (min (rp_maximum_delay p) (fl (base + jitter))))))"

lemma retry_base_mono: "valid_retry_policy p \<Longrightarrow> m \<le> n \<Longrightarrow> retry_base p m \<le> retry_base p n"
  unfolding retry_base_def
  by (intro min.mono order_refl fl_mono mult_left_mono power_increasing)
    (auto simp: valid_retry_policy_def retry_policy_checks_def)

lemma retry_delay_bounds:
  assumes "valid_retry_policy p" "1 \<le> attempt" "attempt < rp_max_attempts p"
  shows "\<exists>d. retry_delay p attempt u = Inr d \<and> 0 \<le> d \<and> d \<le> rp_maximum_delay p"
  using assms by (auto simp: retry_delay_def Let_def valid_retry_policy_def retry_policy_checks_def)

end
