(* ===== verification/Spec2Isabelle.thy ===== *)
theory Spec2Isabelle
  imports Collectors Evaluation Live_Safety Observability Replay Settlement Shadow_Cycle Streams
begin

text \<open>
  Verification development for \<open>direction-engineV3\<close>, a Python system that watches twelve short-horizon
  prediction markets (four assets, three horizons) and trades them on paper only. All paths below are
  relative to \<open>src/src/direction_engine_v3/\<close>.

  \<^bold>\<open>The program.\<close> Vendor adapters turn JSON payloads into normalized market-data contracts. A bucket
  (asset, horizon) has a canonical UTC window; the official price at its start, the price to beat, is
  resolved from Chainlink TWAP samples or the Binance hourly candle around the boundary and written once
  to SQLite. For each open market the books and fee schedules are priced by a depth simulation. Two
  strategies read those prices: the structural scanner looks for complete sets bought below one, and the
  directional strategy compares a calibrated forecast with the executable cost. A candidate passes the
  risk engine and the router, becomes an execution plan, and the PAPER gateway books it in the paper
  repository from explicit fill evidence. When the window has closed, the settlement pass resolves the
  official outcome from the Gamma and CLOB documents, settles the paper trades, and labels the
  observations of the directional corpus; the models are fitted from that corpus. A LIVE gateway does
  not exist: only its fail-closed gate does.

  \<^bold>\<open>Theories and code.\<close>
    \<^item> \<open>Prelude\<close>: errors, checks and results (\<open>domain/_validation.py\<close>); \<open>Gates\<close>: the contract of a
      fail-closed gate; \<open>Write_Once\<close>: the contract of a write-once table; \<open>Rounding\<close>, \<open>Decimal_Arith\<close>:
      the decimal context (28 digits) and binary doubles (53 bits), round half even; \<open>Json\<close>: JSON values.
    \<^item> \<open>Domain_Contracts\<close>, \<open>Trading_Contracts\<close>: \<open>domain/\<close>; \<open>MarketData_Contracts\<close>, \<open>Canonical\<close>,
      \<open>References\<close>, \<open>Price_To_Beat\<close>, \<open>Streams\<close>: \<open>market_data/\<close> contracts, windows, references, the
      price-to-beat table, sequences, buffers and freshness.
    \<^item> \<open>Adapters\<close>: the parsers of \<open>adapters/polymarket\<close>, \<open>adapters/chainlink\<close>, \<open>adapters/binance\<close>;
      \<open>Collectors\<close> and \<open>Scheduler\<close>: \<open>market_data/official_runtime.py\<close> and \<open>shadow/ptb_scheduler.py\<close>.
    \<^item> \<open>Pricing\<close>, \<open>Depth\<close>: \<open>pricing/\<close>; \<open>Structural\<close>: \<open>strategies/structural_arb/\<close>; \<open>Replay\<close>:
      \<open>replay/structural.py\<close>; \<open>Temporal\<close>: the rolling histories of \<open>features/temporal.py\<close>;
      \<open>Directional\<close>: \<open>features/directional.py\<close> and \<open>strategies/directional/\<close>.
    \<^item> \<open>Risk\<close>: \<open>risk/engine.py\<close>; \<open>Router\<close>: \<open>router/engine.py\<close>; \<open>Plans\<close>, \<open>Paper_Gateway\<close>,
      \<open>Live_Safety\<close>: \<open>execution/\<close>.
    \<^item> \<open>Paper_Store\<close> (writes) and \<open>Paper_Ledger\<close> (reads): \<open>storage/paper.py\<close>; \<open>Corpus\<close>:
      \<open>storage/directional_corpus.py\<close>.
    \<^item> \<open>Paper_Trading\<close>: the trading composition of \<open>shadow/daemon.py\<close>, from an assessment or an
      opportunity to a booked paper trade or an abstention row; \<open>Market_Pipeline\<close>: its market-data
      client, from the discovery of a bucket's market to the features, stage by stage;
      \<open>Cycle_Evidence\<close> and \<open>Shadow_Cycle\<close>: its evaluation cycle, from the collected states to the
      decisions of both strategies, and the event and corpus payloads that record them.
    \<^item> \<open>Shadow_Store\<close>: the evidence repository of \<open>shadow/storage.py\<close> and its start-up retry;
      \<open>Observability\<close>: \<open>observability/\<close> (redaction, log events, metrics, alerts, readiness).
    \<^item> \<open>Models\<close>, \<open>Paper_Runtime\<close>: \<open>models/\<close>; \<open>Evaluation\<close>: \<open>evaluation/metrics.py\<close>,
      \<open>walk_forward.py\<close> and the promotion policy; \<open>Sol5m\<close>: the offline study of one bucket,
      \<open>evaluation/sol5m_go_no_go.py\<close> (dataset, folds, fits, gates, verdict, signed artifact) and its
      prospective evaluation \<open>evaluation/sol5m_prospective.py\<close>; \<open>Settlement\<close>:
      \<open>settlement/official.py\<close>.

  \<^bold>\<open>Conventions.\<close> A frozen dataclass is a \<open>record\<close>; its \<open>__post_init__\<close> is a list of checks in source
  order (\<open>..._checks\<close>), the constructor is \<open>mk_...\<close>, and \<open>valid_...\<close> says that it does not raise.
  An exception is a value of \<open>py_error\<close> on the left of a sum; the text of a message that names a field
  is kept, other variable parts of messages are constant. \<open>isinstance\<close>, time-zone and finiteness checks
  are the types of the model: a datetime is an \<open>int\<close> of microseconds since the epoch, a timedelta an
  \<open>int\<close> of microseconds, a \<open>Decimal\<close> a rational on which every operator rounds its exact result to the
  context; a decimal read from text may also be infinite or not a number (\<open>pydec\<close>). Python integers are
  \<open>int\<close>, without wrap-around. A dict with relevant order is an association list, otherwise a map. A
  repository operation returns the new repository and its result, so that what is written before an
  error stays written. An SQLite table is a list of keyed rows in insertion order; \<open>ORDER BY\<close> is a stable
  sort, so rows that tie are read in insertion order; each statement is atomic. A payload column is
  the typed fields the code reads back, and the rest as pairs of texts. Strings are lists of characters
  of one byte; the dash in the PAPER label is written as a hyphen.

  \<^bold>\<open>Parameters.\<close> What is not in the repository's own code is an argument: the SHA-256 digest,
  the exponential and the logarithm, the ISO rendering of an instant, the text of a decimal, the numbers
  \<open>int(str(v))\<close> and \<open>Decimal(str(v))\<close> read from a JSON value, the responses of the HTTP and WebSocket
  transports, the readings of clocks, the answers of SQLite to each append of an event, and, for the study, the text of a float, the square root and the
  seed of the bootstrap. Where a law about one of them is needed it is a named hypothesis, and a witness
  instantiates it.

  \<^bold>\<open>Interfaces.\<close> \<open>fail_closed_gate\<close> is interpreted by the risk engine, the live-safety gate, the
  promotion policy and the readiness report; \<open>write_once_store\<close> by the price-to-beat table and the rows of
  the paper repository;
  \<open>bounded_queue\<close> by the event buffer; \<open>rounding_context\<close> and \<open>rounding_format\<close> by decimals and doubles.

  \<^bold>\<open>What the lemmas show.\<close> Depth simulation: equal to greedy filling of the sorted ladder, optimal, within
  the limit. Structural scan and replay: no opportunity without a riskless profit, no use of data that
  had not been received. Risk and live safety: approval is exactly the absence of reasons, total, and
  monotone in the evidence. Router: sound and complete selection, conservation of capital, and exclusive
  claims under concurrent optimistic writers. Execution: evidence is booked whole or not at all, at most
  once per idempotency key. Repository: append-only audit, final settlements, agreement of the two
  accounts of exposure. Price to beat: written once, survives a restart, taken from the nearest sample.
  Settlement: only an unambiguous official document settles a trade, and winners are paid their shares.
  Corpus and evaluation: no label and no fold looks ahead. Study: the verdict is GO exactly when every
  gate passed, an artifact is read back as it was written and only with its checksum, and a prospective
  evaluation raises in exactly the stated cases. Trading: a paper position is opened only past
  every gate, and the limits on open directional positions hold in every reachable book. Cycle: whatever happens, a cycle
  opens no directional position (the code evaluates the governance without a promotion), only grows the
  stores, and counts every decision; while the evidence storage is busy it evaluates no strategy. Temporal and collection: from
  any history the code can reach, features come only from fresh evidence inside the window, and their
  values stay in range. Evidence and observability: evidence rows are append-only whatever SQLite
  answers, and redaction leaves nothing sensitive outside nested sequences.

  \<^bold>\<open>Bounds.\<close> No definition uses fuel: a loop of the code is structural recursion over a list, or a
  \<open>function\<close> with its termination proof. The retry loop of the scheduler runs over the list of
  readings and answers its environment gives, and its termination theorem bounds how many it consumes; the start-up retry of the evidence repository likewise runs over a list of answers, and \<open>None\<close> says
  that the list ended while it was still retrying.
  The one large numeric bound is the row limit of the repository readers (100000), kept as in the code.

  \<^bold>\<open>Not modelled.\<close> The asynchronous part of \<open>shadow/daemon.py\<close> (threads, tasks, timeouts), its logging and the
  settlement scan that its main loop starts, \<open>adapters/public_transport.py\<close>, the dashboard, server and
  command-line probes of \<open>app/\<close>: I/O and presentation, whose inputs and outputs are the values the
  modelled functions take and return. The Markdown text of the study's report, the reports of
  \<open>storage/\<close>, \<open>shadow/\<close> and \<open>replay/reporting.py\<close>: they only read what the modelled parts write. The text of SQL
  and of JSON, and schema migrations: represented by the rows and values they stand for.
\<close>

end
